(* ===== verification/Js_Prelude.thy ===== *)
theory Js_Prelude
  imports Complex_Main "HOL-Library.Sublist" "HOL-Library.Char_ord" "HOL-Library.List_Lexorder"
begin

text \<open>
  The part of the TypeScript language and of its standard library that the worker uses:
  dynamically typed values (the sources read storage and request bodies as \<open>unknown\<close>), truthiness,
  property access, trimming and case mapping of strings, decimal and hexadecimal digits,
  \<open>Number.parseInt\<close> and \<open>Number()\<close>, and the generic list facts the components share.

  Conventions.
  \<^item> Strings are lists of 8-bit characters, one per code unit; the model covers the JavaScript
    strings whose code units are below 256.
  \<^item> Finite numbers are exact rationals, so the rounding of doubles is outside the model: the
    integers the program computes with (timestamps, counters, days) are far below \<open>2 ^ 53\<close>, where
    doubles are exact. \<open>NaN\<close> and the infinities are separate constructors.
  \<^item> An object is the list of its own properties in insertion order. A missing property reads as
    \<open>undefined\<close>.
  \<^item> A thrown \<open>Error\<close> is \<open>Inl\<close> of its message.
\<close>

named_theorems js_simps \<open>evaluation of the language layer\<close>
named_theorems storage_simps \<open>reading a storage after it was changed\<close>
named_theorems policy_simps \<open>unfolding of configuration lookups\<close>

section \<open>Values\<close>

datatype js =
    JUndef
  | JNull
  | JBool bool
  | JNum rat
  | JNaN
  | JInf bool  \<comment> \<open>\<open>True\<close> for negative infinity\<close>
  | JStr string
  | JArr "js list"
  | JObj "(string \<times> js) list"

type_synonym 'a or_error = "string + 'a"

abbreviation JInt :: "int \<Rightarrow> js" where
  "JInt n \<equiv> JNum (of_int n)"

fun truthy :: "js \<Rightarrow> bool" where
  "truthy JUndef = False"
| "truthy JNull = False"
| "truthy (JBool b) = b"
| "truthy (JNum r) = (r \<noteq> 0)"
| "truthy JNaN = False"
| "truthy (JInf _) = True"
| "truthy (JStr s) = (s \<noteq> [])"
| "truthy (JArr _) = True"
| "truthy (JObj _) = True"

text \<open>\<open>v && typeof v === 'object'\<close>\<close>

fun is_obj :: "js \<Rightarrow> bool" where
  "is_obj (JArr _) = True"
| "is_obj (JObj _) = True"
| "is_obj _ = False"

fun jget :: "js \<Rightarrow> string \<Rightarrow> js" where
  "jget (JObj kvs) k = (case map_of kvs k of None \<Rightarrow> JUndef | Some v \<Rightarrow> v)"
| "jget _ k = JUndef"

text \<open>\<open>k in v\<close> for an object that is not an array\<close>

fun jhas :: "js \<Rightarrow> string \<Rightarrow> bool" where
  "jhas (JObj kvs) k = (k \<in> fst ` set kvs)"
| "jhas _ k = False"

text \<open>Assignment of one property, as an object literal with a spread does it.\<close>

fun kv_set :: "'k \<Rightarrow> 'v \<Rightarrow> ('k \<times> 'v) list \<Rightarrow> ('k \<times> 'v) list" where
  "kv_set k v [] = [(k, v)]"
| "kv_set k v ((k', v') # kvs) = (if k = k' then (k, v) # kvs else (k', v') # kv_set k v kvs)"

fun jprops :: "js \<Rightarrow> (string \<times> js) list" where
  "jprops (JObj kvs) = kvs"
| "jprops _ = []"

definition jspread :: "js \<Rightarrow> (string \<times> js) list \<Rightarrow> js" where
  "jspread base kvs = JObj (fold (\<lambda>(k, v) acc. kv_set k v acc) kvs (jprops base))"

fun jopt :: "js option \<Rightarrow> js" where
  "jopt None = JUndef"
| "jopt (Some v) = v"

definition jstr_opt :: "string option \<Rightarrow> js" where
  "jstr_opt s = (case s of None \<Rightarrow> JUndef | Some t \<Rightarrow> JStr t)"

definition jstr_null :: "string option \<Rightarrow> js" where
  "jstr_null s = (case s of None \<Rightarrow> JNull | Some t \<Rightarrow> JStr t)"

lemma map_of_kv_set [simp]:
  "map_of (kv_set k v kvs) k' = (if k' = k then Some v else map_of kvs k')"
  by (induction kvs) auto

lemma keys_kv_set: "set (map fst (kv_set k v kvs)) = insert k (set (map fst kvs))"
  by (induction k v kvs rule: kv_set.induct) (simp, simp del: set_map, blast)

lemma fst_kv_set [simp]: "fst ` set (kv_set k v kvs) = insert k (fst ` set kvs)"
  using keys_kv_set [of k v kvs] by simp

lemma distinct_kv_set [simp]: "distinct (map fst (kv_set k v kvs)) = distinct (map fst kvs)"
  by (induction k v kvs rule: kv_set.induct) auto

lemma map_of_fold_kv_set:
  "map_of (fold (\<lambda>(k, v) acc. kv_set k v acc) kvs base) x
     = (case map_of (rev kvs) x of Some v \<Rightarrow> Some v | None \<Rightarrow> map_of base x)"
proof (induction kvs arbitrary: base)
  case (Cons p kvs)
  then show ?case
    by (cases p) (auto split: option.splits simp: map_add_def)
qed simp

lemma jget_jspread:
  "jget (jspread base kvs) x
     = (case map_of (rev kvs) x of Some v \<Rightarrow> v | None \<Rightarrow> jget base x)"
  by (cases base) (auto simp: jspread_def map_of_fold_kv_set split: option.splits)

lemma map_of_filter_key:
  "map_of (filter (\<lambda>p. fst p \<noteq> k) kvs) x = (if x = k then None else map_of kvs x)"
  by (induction kvs) auto

lemma jhas_iff: "jhas (JObj kvs) k \<longleftrightarrow> map_of kvs k \<noteq> None"
  by (simp add: map_of_eq_None_iff)

section \<open>Strings\<close>

text \<open>The white space of \<open>trim\<close> and \<open>\\s\<close> among the characters below 256.\<close>

definition is_ws :: "char \<Rightarrow> bool" where
  "is_ws c = (let n = (of_char c :: nat) in (9 \<le> n \<and> n \<le> 13) \<or> n = 32 \<or> n = 160)"

definition js_trim :: "string \<Rightarrow> string" where
  "js_trim s = rev (dropWhile is_ws (rev (dropWhile is_ws s)))"

text \<open>\<open>s.replace(/\\s+/g, ' ')\<close>\<close>

fun collapse_ws :: "string \<Rightarrow> string" where
  "collapse_ws [] = []"
| "collapse_ws (c # cs) =
     (if is_ws c
      then (case cs of [] \<Rightarrow> '' '' | d # _ \<Rightarrow> (if is_ws d then collapse_ws cs else CHR '' '' # collapse_ws cs))
      else c # collapse_ws cs)"

definition lower_char :: "char \<Rightarrow> char" where
  "lower_char c = (let n = (of_char c :: nat) in
     if (65 \<le> n \<and> n \<le> 90) \<or> (192 \<le> n \<and> n \<le> 222 \<and> n \<noteq> 215) then char_of (n + 32) else c)"

definition upper_char :: "char \<Rightarrow> char" where
  "upper_char c = (let n = (of_char c :: nat) in
     if (97 \<le> n \<and> n \<le> 122) \<or> (224 \<le> n \<and> n \<le> 254 \<and> n \<noteq> 247) then char_of (n - 32) else c)"

definition js_lower :: "string \<Rightarrow> string" where
  "js_lower s = map lower_char s"

definition js_upper :: "string \<Rightarrow> string" where
  "js_upper s = map upper_char s"

definition is_digit :: "char \<Rightarrow> bool" where
  "is_digit c = (let n = (of_char c :: nat) in 48 \<le> n \<and> n \<le> 57)"

definition digit_val :: "char \<Rightarrow> int" where
  "digit_val c = int (of_char c) - 48"

text \<open>\<open>/^\\d+$/\<close>\<close>

definition all_digits :: "string \<Rightarrow> bool" where
  "all_digits s = (s \<noteq> [] \<and> list_all is_digit s)"

definition digits_val :: "string \<Rightarrow> int" where
  "digits_val s = foldl (\<lambda>a c. a * 10 + digit_val c) 0 s"

text \<open>\<open>Number.parseInt(s, 10)\<close>; \<open>None\<close> is \<open>NaN\<close>.\<close>

definition parse_digits :: "string \<Rightarrow> int option" where
  "parse_digits s = (let d = takeWhile is_digit s in if d = [] then None else Some (digits_val d))"

definition js_parseInt :: "string \<Rightarrow> int option" where
  "js_parseInt s =
     (case dropWhile is_ws s of
        [] \<Rightarrow> None
      | c # cs \<Rightarrow>
          (if c = CHR ''-'' then map_option uminus (parse_digits cs)
           else if c = CHR ''+'' then parse_digits cs
           else parse_digits (c # cs)))"

text \<open>\<open>n.toString(b)\<close> for a natural number and a base up to 36\<close>

definition digit_char :: "nat \<Rightarrow> char" where
  "digit_char d = (if d < 10 then char_of (48 + d) else char_of (87 + d))"

fun nat_digits :: "nat \<Rightarrow> nat \<Rightarrow> string" where
  "nat_digits b n = (if n < b \<or> b < 2 then [digit_char n] else nat_digits b (n div b) @ [digit_char (n mod b)])"

declare nat_digits.simps [simp del]

definition js_str_int :: "int \<Rightarrow> string" where
  "js_str_int n = (if n < 0 then CHR ''-'' # nat_digits 10 (nat (- n)) else nat_digits 10 (nat n))"

text \<open>\<open>ws.join(sep)\<close>\<close>

fun js_join :: "string \<Rightarrow> string list \<Rightarrow> string" where
  "js_join sep [] = []"
| "js_join sep [w] = w"
| "js_join sep (w # ws) = w @ sep @ js_join sep ws"

text \<open>
  \<open>String(v)\<close>. The modelled code applies it to strings and to integers; a number with a fractional
  part is printed by its integral part here.
\<close>

fun js_to_string :: "js \<Rightarrow> string" where
  "js_to_string JUndef = ''undefined''"
| "js_to_string JNull = ''null''"
| "js_to_string (JBool b) = (if b then ''true'' else ''false'')"
| "js_to_string (JNum r) = js_str_int \<lfloor>r\<rfloor>"
| "js_to_string JNaN = ''NaN''"
| "js_to_string (JInf neg) = (if neg then ''-Infinity'' else ''Infinity'')"
| "js_to_string (JStr s) = s"
| "js_to_string (JArr vs) =
     js_join '','' (map (\<lambda>v. if v = JUndef \<or> v = JNull then [] else js_to_string v) vs)"
| "js_to_string (JObj _) = ''[object Object]''"

text \<open>\<open>s.lastIndexOf(c)\<close>, \<open>None\<close> for \<open>-1\<close>\<close>

fun last_index :: "char \<Rightarrow> string \<Rightarrow> nat option" where
  "last_index c [] = None"
| "last_index c (d # ds) =
     (case last_index c ds of
        Some i \<Rightarrow> Some (Suc i)
      | None \<Rightarrow> (if c = d then Some 0 else None))"

text \<open>\<open>s.split(c)\<close> for a one-character separator\<close>

fun js_split :: "char \<Rightarrow> string \<Rightarrow> string list" where
  "js_split c [] = [[]]"
| "js_split c (d # ds) =
     (if c = d then [] # js_split c ds
      else (case js_split c ds of [] \<Rightarrow> [[d]] | w # ws \<Rightarrow> (d # w) # ws))"

definition is_lower_hex :: "char \<Rightarrow> bool" where
  "is_lower_hex c = (is_digit c \<or> (let n = (of_char c :: nat) in 97 \<le> n \<and> n \<le> 102))"

text \<open>\<open>typeof v === 'string' && v.trim() ? v.trim() : undefined\<close>, which the sources write in many places\<close>

fun trimmed_str :: "js \<Rightarrow> string option" where
  "trimmed_str (JStr s) = (if js_trim s = [] then None else Some (js_trim s))"
| "trimmed_str _ = None"

subsection \<open>Facts about trimming\<close>

lemma js_trim_Nil [simp]: "js_trim [] = []"
  by (simp add: js_trim_def)

lemma hd_dropWhile_not: "dropWhile P s \<noteq> [] \<Longrightarrow> \<not> P (hd (dropWhile P s))"
  by (rule hd_dropWhile)

lemma dropWhile_id: "xs = [] \<or> \<not> P (hd xs) \<Longrightarrow> dropWhile P xs = xs"
  by (cases xs) auto

definition trimmed :: "string \<Rightarrow> bool" where
  "trimmed s = (s = [] \<or> (\<not> is_ws (hd s) \<and> \<not> is_ws (last s)))"

lemma js_trim_trimmed_id: "trimmed s \<Longrightarrow> js_trim s = s"
  by (auto simp: js_trim_def trimmed_def dropWhile_id hd_rev)

lemma hd_rev_dropWhile:
  assumes "xs \<noteq> []" "\<not> P (hd xs)"
  shows "rev (dropWhile P (rev xs)) \<noteq> [] \<and> hd (rev (dropWhile P (rev xs))) = hd xs"
proof -
  from assms have ex: "\<exists>x \<in> set (rev xs). \<not> P x" by (cases xs) auto
  then have ne: "dropWhile P (rev xs) \<noteq> []" by (auto simp: dropWhile_eq_Nil_conv)
  obtain zs where "rev xs = zs @ dropWhile P (rev xs)"
    by (metis takeWhile_dropWhile_id)
  with ne have "last (rev xs) = last (dropWhile P (rev xs))"
    by (metis last_appendR)
  with ne assms show ?thesis
    by (simp add: hd_rev last_rev)
qed

lemma trimmed_js_trim: "trimmed (js_trim s)"
proof (cases "dropWhile is_ws s = []")
  case True
  then have "js_trim s = []" by (simp only: js_trim_def) simp
  then show ?thesis by (simp add: trimmed_def)
next
  case False
  let ?d = "dropWhile is_ws s"
  have "\<not> is_ws (hd ?d)" using False by (rule hd_dropWhile)
  with False have h: "rev (dropWhile is_ws (rev ?d)) \<noteq> []"
      "hd (rev (dropWhile is_ws (rev ?d))) = hd ?d"
    using hd_rev_dropWhile [of ?d is_ws] by auto
  moreover from h(1) have "dropWhile is_ws (rev ?d) \<noteq> []" by (simp only: rev_is_Nil_conv not_False_eq_True)
  then have "\<not> is_ws (hd (dropWhile is_ws (rev ?d)))" by (rule hd_dropWhile)
  ultimately show ?thesis
    using \<open>\<not> is_ws (hd ?d)\<close> by (simp add: js_trim_def trimmed_def last_rev)
qed

lemma js_trim_idem [simp]: "js_trim (js_trim s) = js_trim s"
  by (rule js_trim_trimmed_id [OF trimmed_js_trim])

lemma trimmed_str_Some: "trimmed_str v = Some t \<Longrightarrow> t \<noteq> [] \<and> js_trim t = t"
  by (cases v) (auto split: if_splits)

section \<open>Numbers\<close>

text \<open>
  \<open>Number(v)\<close>: the result is \<open>JNum\<close>, \<open>JNaN\<close> or \<open>JInf\<close>. A string is trimmed and read as a decimal
  literal with optional sign, fraction and exponent, as a \<open>0x\<close>, \<open>0o\<close> or \<open>0b\<close> literal, or as
  \<open>Infinity\<close>; an array converts through its string, so only an empty or a one-element array can be
  a number.
\<close>

definition radix_digit :: "char \<Rightarrow> nat option" where
  "radix_digit c = (let n = (of_char c :: nat) in
     if 48 \<le> n \<and> n \<le> 57 then Some (n - 48)
     else if 97 \<le> n \<and> n \<le> 122 then Some (n - 87)
     else if 65 \<le> n \<and> n \<le> 90 then Some (n - 55) else None)"

definition is_radix :: "nat \<Rightarrow> char \<Rightarrow> bool" where
  "is_radix b c = (case radix_digit c of Some d \<Rightarrow> d < b | None \<Rightarrow> False)"

definition radix_val :: "nat \<Rightarrow> string \<Rightarrow> nat" where
  "radix_val b s = foldl (\<lambda>a c. a * b + (case radix_digit c of Some d \<Rightarrow> d | None \<Rightarrow> 0)) 0 s"

definition unsigned_decimal :: "string \<Rightarrow> rat option" where
  "unsigned_decimal t =
     (let ip = takeWhile is_digit t; r1 = dropWhile is_digit t;
          (fp, r2) = (case r1 of c # r \<Rightarrow> (if c = CHR ''.'' then (takeWhile is_digit r, dropWhile is_digit r) else ([], r1))
                      | [] \<Rightarrow> ([], []))
      in if ip = [] \<and> fp = [] then None
         else let mant = of_int (digits_val (ip @ fp)) / 10 ^ length fp in
           case r2 of
             [] \<Rightarrow> Some mant
           | c # r \<Rightarrow>
               if c = CHR ''e'' \<or> c = CHR ''E'' then
                 (let (neg, ds) = (case r of d # r' \<Rightarrow>
                        (if d = CHR ''-'' then (True, r') else if d = CHR ''+'' then (False, r') else (False, r))
                      | [] \<Rightarrow> (False, []))
                  in if all_digits ds
                     then Some (if neg then mant / 10 ^ nat (digits_val ds) else mant * 10 ^ nat (digits_val ds))
                     else None)
               else None)"

definition js_str_to_num :: "string \<Rightarrow> js" where
  "js_str_to_num s =
     (let t = js_trim s;
          dec = (\<lambda>neg u. if u = ''Infinity'' then JInf neg
                  else case unsigned_decimal u of
                         Some r \<Rightarrow> JNum (if neg then - r else r) | None \<Rightarrow> JNaN);
          rad = (\<lambda>b u. if u \<noteq> [] \<and> list_all (is_radix b) u then JNum (of_nat (radix_val b u)) else JNaN)
      in if t = [] then JNum 0
         else if hd t = CHR ''-'' then dec True (tl t)
         else if hd t = CHR ''+'' then dec False (tl t)
         else if prefix ''0x'' t \<or> prefix ''0X'' t then rad 16 (drop 2 t)
         else if prefix ''0o'' t \<or> prefix ''0O'' t then rad 8 (drop 2 t)
         else if prefix ''0b'' t \<or> prefix ''0B'' t then rad 2 (drop 2 t)
         else dec False t)"

fun js_Number :: "js \<Rightarrow> js" where
  "js_Number JUndef = JNaN"
| "js_Number JNull = JNum 0"
| "js_Number (JBool b) = JNum (if b then 1 else 0)"
| "js_Number (JNum r) = JNum r"
| "js_Number JNaN = JNaN"
| "js_Number (JInf b) = JInf b"
| "js_Number (JStr s) = js_str_to_num s"
| "js_Number (JObj _) = JNaN"
| "js_Number (JArr []) = JNum 0"
| "js_Number (JArr [v]) =
     (case v of JUndef \<Rightarrow> JNum 0 | JNull \<Rightarrow> JNum 0 | JBool _ \<Rightarrow> JNaN | _ \<Rightarrow> js_Number v)"
| "js_Number (JArr (v # w # ws)) = JNaN"

text \<open>\<open>Number.isFinite\<close>, with the number\<close>

fun finite_num :: "js \<Rightarrow> rat option" where
  "finite_num (JNum r) = Some r"
| "finite_num _ = None"

definition is_integral :: "rat \<Rightarrow> bool" where
  "is_integral r = (of_int \<lfloor>r\<rfloor> = r)"

section \<open>Options and lists\<close>

lemma pred_option_if: "pred_option Q x \<Longrightarrow> pred_option Q y \<Longrightarrow> pred_option Q (if b then x else y)"
  by simp

lemma sorted_filter_ge:
  fixes f :: "'a \<Rightarrow> 'b::linorder"
  shows "sorted (map f xs) \<Longrightarrow> filter (\<lambda>x. w \<le> f x) xs = dropWhile (\<lambda>x. f x < w) xs"
proof (induction xs)
  case (Cons x xs)
  show ?case
  proof (cases "f x < w")
    case True
    with Cons show ?thesis by simp
  next
    case False
    with Cons.prems have "filter (\<lambda>x. w \<le> f x) xs = xs"
      by (auto simp: filter_id_conv)
    with False show ?thesis by simp
  qed
qed simp

lemma last_n_snoc:
  "0 < n \<Longrightarrow> drop (length (drop (length xs - n) xs @ [x]) - n) (drop (length xs - n) xs @ [x])
     = drop (length (xs @ [x]) - n) (xs @ [x])"
  by (cases "length xs < n") (auto simp: Suc_diff_le drop_Suc)

lemma in_map_filter_iff: "y \<in> set (List.map_filter f xs) \<longleftrightarrow> (\<exists>x \<in> set xs. f x = Some y)"
  by (induction xs) (auto simp: List.map_filter_simps split: option.splits)

end
