(* ===== verification/Do_Storage.thy ===== *)
theory Do_Storage
  imports Js_Prelude
begin

text \<open>
  The persistent state of the worker: the key-value storage of the Durable Object
  (\<open>ctx.storage\<close> in \<open>src/api-worker/src/storeDO.ts\<close>), an association list in ascending key order,
  which is the order in which \<open>storage.list\<close> returns entries. \<open>IClaimStorage\<close> is the interface of
  \<open>claimLogic.ts\<close>: a record of the three operations its client calls. The locale \<open>claim_storage\<close>
  states what the client relies on; \<open>doStorageAdapter\<close> is the adapter of \<open>storeDO.ts\<close> that provides
  it.

  Every handler runs to completion before the next one touches the storage (the input gate of the
  Durable Object and the explicit promise locks of the class), so an operation is a function from
  the storage to the storage.
\<close>

type_synonym storage = "(string \<times> js) list"

section \<open>The storage of the Durable Object\<close>

definition sto_get :: "storage \<Rightarrow> string \<Rightarrow> js" where
  "sto_get s k = (case map_of s k of None \<Rightarrow> JUndef | Some v \<Rightarrow> v)"

fun sto_put :: "storage \<Rightarrow> string \<Rightarrow> js \<Rightarrow> storage" where
  "sto_put [] k v = [(k, v)]"
| "sto_put ((k', v') # s) k v =
     (if k < k' then (k, v) # (k', v') # s
      else if k = k' then (k, v) # s
      else (k', v') # sto_put s k v)"

definition sto_delete :: "storage \<Rightarrow> string \<Rightarrow> storage" where
  "sto_delete s k = filter (\<lambda>p. fst p \<noteq> k) s"

definition sto_list :: "storage \<Rightarrow> string \<Rightarrow> (string \<times> js) list" where
  "sto_list s p = filter (\<lambda>kv. prefix p (fst kv)) s"

text \<open>\<open>storage.list({ prefix, limit, reverse: true })\<close>\<close>

definition sto_list_rev :: "storage \<Rightarrow> string \<Rightarrow> nat \<Rightarrow> (string \<times> js) list" where
  "sto_list_rev s p limit = take limit (rev (sto_list s p))"

text \<open>Keys are strictly ascending and no stored value is \<open>undefined\<close> (\<open>put\<close> refuses it).\<close>

definition sto_ok :: "storage \<Rightarrow> bool" where
  "sto_ok s = (sorted_wrt (<) (map fst s) \<and> (\<forall>kv \<in> set s. snd kv \<noteq> JUndef))"

lemma map_of_sto_put: "map_of (sto_put s k v) k' = (if k' = k then Some v else map_of s k')"
  by (induction s k v rule: sto_put.induct) auto

lemma sto_get_put [simp, storage_simps]:
  "sto_get (sto_put s k v) k' = (if k' = k then v else sto_get s k')"
  by (simp add: sto_get_def map_of_sto_put)

lemma sto_get_delete [simp, storage_simps]:
  "sto_get (sto_delete s k) k' = (if k' = k then JUndef else sto_get s k')"
  by (simp add: sto_get_def sto_delete_def map_of_filter_key)

lemma sto_get_Nil [simp]: "sto_get [] k = JUndef"
  by (simp add: sto_get_def)

lemma set_sto_put: "set (map fst (sto_put s k v)) = insert k (set (map fst s))"
  by (induction s k v rule: sto_put.induct) auto

lemma sto_put_keys: "x \<in> set (sto_put s k v) \<Longrightarrow> fst x = k \<and> snd x = v \<or> x \<in> set s"
  by (induction s k v rule: sto_put.induct) (auto split: if_splits)

lemma sorted_sto_put: "sorted_wrt (<) (map fst s) \<Longrightarrow> sorted_wrt (<) (map fst (sto_put s k v))"
proof (induction s k v rule: sto_put.induct)
  case (2 k' v' s k v)
  consider "k < k'" | "k = k'" | "k' < k" by fastforce
  then show ?case
  proof cases
    case 3
    then have "\<forall>x \<in> set (map fst (sto_put s k v)). k' < x"
      using 2 by (simp only: set_sto_put) auto
    with 2 3 show ?thesis by (auto simp del: set_map)
  qed (use 2 in \<open>auto intro: less_trans\<close>)
qed simp

lemma sto_ok_put: "sto_ok s \<Longrightarrow> v \<noteq> JUndef \<Longrightarrow> sto_ok (sto_put s k v)"
  unfolding sto_ok_def by (auto simp: sorted_sto_put dest!: sto_put_keys)

lemma sto_ok_delete: "sto_ok s \<Longrightarrow> sto_ok (sto_delete s k)"
  by (auto simp: sto_ok_def sto_delete_def sorted_wrt_map intro: sorted_wrt_filter)

lemma sto_ok_distinct: "sto_ok s \<Longrightarrow> distinct (map fst s)"
  by (simp add: sto_ok_def strict_sorted_iff)

lemma in_sto_list_iff:
  assumes "sto_ok s"
  shows "(k, v) \<in> set (sto_list s p) \<longleftrightarrow> prefix p k \<and> sto_get s k = v \<and> v \<noteq> JUndef"
proof -
  have "(k, v) \<in> set s \<longleftrightarrow> map_of s k = Some v"
    using sto_ok_distinct [OF assms] by simp
  moreover have "map_of s k = Some v \<longleftrightarrow> sto_get s k = v \<and> v \<noteq> JUndef"
    using assms by (force simp: sto_get_def sto_ok_def split: option.splits dest: map_of_SomeD)
  ultimately show ?thesis by (auto simp: sto_list_def)
qed

lemma sto_list_put_other: "\<not> prefix p k \<Longrightarrow> sto_list (sto_put s k v) p = sto_list s p"
  by (induction s k v rule: sto_put.induct) (auto simp: sto_list_def)

lemma sto_list_put_greatest:
  assumes "sto_ok s" "prefix p k" "\<forall>kv \<in> set (sto_list s p). fst kv < k"
  shows "sto_list (sto_put s k v) p = sto_list s p @ [(k, v)]"
  using assms
proof (induction s k v rule: sto_put.induct)
  case (2 k' v' s k v)
  have ok: "sto_ok s" and gt: "\<forall>kv \<in> set s. k' < fst kv" using "2.prems"(1) by (auto simp: sto_ok_def)
  show ?case
  proof (cases "k \<le> k'")
    case True
    have none: "\<not> prefix p x" if "(x, y) \<in> set ((k', v') # s)" for x y
    proof
      assume "prefix p x"
      with that have "(x, y) \<in> set (sto_list ((k', v') # s) p)" by (auto simp: sto_list_def)
      with "2.prems"(3) have "x < k" by fastforce
      moreover have "k' \<le> x" using gt that by auto
      ultimately show False using True by simp
    qed
    have "sto_list ((k', v') # s) p = []"
      unfolding sto_list_def filter_empty_conv using none by (metis prod.collapse)
    then show ?thesis using True "2.prems"(2) by (auto simp: sto_list_def)
  next
    case False
    with "2.prems" have "sto_list (sto_put s k v) p = sto_list s p @ [(k, v)]"
      by (intro "2.IH") (auto simp: sto_list_def ok)
    with False show ?thesis by (auto simp: sto_list_def)
  qed
qed (simp add: sto_list_def)

lemma distinct_sto_list: "sto_ok s \<Longrightarrow> distinct (map fst (sto_list s p))"
  by (simp add: sto_list_def distinct_map_filter sto_ok_distinct)

section \<open>The interface of the claim store\<close>

record 's IClaimStorage =
  st_get :: "'s \<Rightarrow> string \<Rightarrow> js"
  st_put :: "'s \<Rightarrow> string \<Rightarrow> js \<Rightarrow> 's"
  st_list :: "'s \<Rightarrow> string \<Rightarrow> (string \<times> js) list"

text \<open>
  The contract: a value read back is the value last written at that key, a listing holds exactly
  the entries under the prefix, each key once.
\<close>

locale claim_storage =
  fixes ops :: "'s IClaimStorage"
    and ok :: "'s \<Rightarrow> bool"
  assumes get_put: "ok s \<Longrightarrow> v \<noteq> JUndef \<Longrightarrow>
      st_get ops (st_put ops s k v) k' = (if k' = k then v else st_get ops s k')"
    and ok_put: "ok s \<Longrightarrow> v \<noteq> JUndef \<Longrightarrow> ok (st_put ops s k v)"
    and list_iff: "ok s \<Longrightarrow>
      (k, v) \<in> set (st_list ops s p) \<longleftrightarrow> prefix p k \<and> st_get ops s k = v \<and> v \<noteq> JUndef"
    and list_distinct: "ok s \<Longrightarrow> distinct (map fst (st_list ops s p))"
begin

text \<open>Writing a key changes only the listings whose prefix covers it.\<close>

lemma list_put_other:
  assumes "ok s" "v \<noteq> JUndef" "\<not> prefix p k"
  shows "set (st_list ops (st_put ops s k v) p) = set (st_list ops s p)"
  using assms by (auto simp: list_iff ok_put get_put)

lemma list_put_keys:
  assumes "ok s" "v \<noteq> JUndef" "prefix p k"
  shows "set (map fst (st_list ops (st_put ops s k v) p)) = insert k (set (map fst (st_list ops s p)))"
proof -
  have dom: "set (map fst (st_list ops t p)) = {x. prefix p x \<and> st_get ops t x \<noteq> JUndef}" if "ok t" for t
    using that by (auto simp: list_iff image_iff Bex_def)
  from assms have "ok (st_put ops s k v)" by (simp add: ok_put)
  with assms show ?thesis
    unfolding dom [OF \<open>ok s\<close>] dom [OF \<open>ok (st_put ops s k v)\<close>] by (auto simp: get_put)
qed

lemma list_put_size:
  assumes "ok s" "v \<noteq> JUndef" "prefix p k"
  shows "length (st_list ops (st_put ops s k v) p)
           = length (st_list ops s p) + (if st_get ops s k = JUndef then 1 else 0)"
proof -
  have card: "length (st_list ops t p) = card (set (map fst (st_list ops t p)))" if "ok t" for t
    using distinct_card [OF list_distinct [OF that, of p]] by simp
  have "k \<in> set (map fst (st_list ops s p)) \<longleftrightarrow> st_get ops s k \<noteq> JUndef"
    using assms by (auto simp: list_iff image_iff Bex_def)
  moreover from assms have "ok (st_put ops s k v)" by (simp add: ok_put)
  ultimately show ?thesis
    unfolding card [OF \<open>ok s\<close>] card [OF \<open>ok (st_put ops s k v)\<close>] list_put_keys [OF assms]
    by (simp add: card_insert_if del: set_map)
qed

end

definition doStorageAdapter :: "storage IClaimStorage" where
  "doStorageAdapter = \<lparr>st_get = sto_get, st_put = sto_put, st_list = sto_list\<rparr>"

lemma doStorageAdapter_simps [simp, storage_simps]:
  "st_get doStorageAdapter = sto_get"
  "st_put doStorageAdapter = sto_put"
  "st_list doStorageAdapter = sto_list"
  by (simp_all add: doStorageAdapter_def)

interpretation ds: claim_storage doStorageAdapter sto_ok
  by unfold_locales (auto simp: sto_ok_put in_sto_list_iff distinct_sto_list)

end
