(* ===== verification/Claim_Logic.thy ===== *)
theory Claim_Logic
  imports Do_Storage
begin

text \<open>
  The claim store, \<open>src/api-worker/src/claimLogic.ts\<close>: keys and normalisation of subjects, the
  stored form of a claim record (three historical formats), the quota of claims per interval, and
  the operations of \<open>ClaimStore\<close>. An operation takes the storage interface \<open>ops\<close> the class was
  constructed with and the storage \<open>s\<close>, and returns the new storage where it writes. Each reading of
  \<open>Date.now()\<close> is an argument. Events are stored as unchecked objects and are therefore values of
  type \<open>js\<close>.
\<close>

section \<open>Data\<close>

record ClaimHistoryEntry =
  ch_at :: int
  ch_code :: "string option"

record PendingClaimEntry =
  pc_at :: int
  pc_code :: string

record ClaimState =
  cs_history :: "ClaimHistoryEntry list"
  cs_pending :: "PendingClaimEntry option"

record ClaimPolicy =
  cp_claimIntervalDays :: int
  cp_maxClaimsPerInterval :: "int option"

record ClaimQuotaStatus =
  q_claimIntervalDays :: int
  q_maxClaimsPerInterval :: "int option"
  q_claimsUsedInCurrentInterval :: int
  q_remainingClaimsInCurrentInterval :: "int option"
  q_canClaimNow :: bool
  q_nextAvailableAt :: "int option"

record ClaimAllowance =
  al_allowed :: bool
  al_latestConfirmationCode :: "string option"
  al_nextAvailableAt :: "int option"
  al_claimQuota :: ClaimQuotaStatus

datatype SchoolClaimErrorCode =
  Err_invalid | Err_not_found | Err_eligibility | Err_retryable | Err_user_cancel | Err_wallet_required

text \<open>
  The message of a failure is a fixed text per code and is not kept. \<open>txSignature\<close> and the other
  optional fields of a success are filled by the request handlers, not by \<open>submitClaim\<close>.
\<close>

record SchoolClaimResultSuccess =
  r_eventName :: js
  r_alreadyJoined :: bool
  r_confirmationCode :: "string option"
  r_claimQuota :: ClaimQuotaStatus

datatype SchoolClaimResult =
    ClaimSuccess SchoolClaimResultSuccess
  | ClaimFailure SchoolClaimErrorCode

record Claimant =
  cl_subject :: string
  cl_claimedAt :: int
  cl_confirmationCode :: "string option"

record SubjectClaim =
  sc_eventId :: string
  sc_claimedAt :: int
  sc_confirmationCode :: "string option"

record CreateEventData =
  ce_title :: string
  ce_datetime :: string
  ce_host :: string
  ce_state :: js
  ce_riskProfile :: "string option"
  ce_solanaMint :: "string option"
  ce_solanaAuthority :: "string option"
  ce_solanaGrantId :: "string option"
  ce_ticketTokenAmount :: js
  ce_claimIntervalDays :: js
  ce_maxClaimsPerInterval :: js

section \<open>Constants and keys\<close>

text \<open>The Japanese titles and hosts are written as the bytes of their UTF-8 form.\<close>

definition SEED_EVENTS :: "js list" where
  "SEED_EVENTS =
    [JObj [(''id'', JStr ''evt-001''),
           (''title'', JStr [CHR 0xE5, CHR 0x9C, CHR 0xB0, CHR 0xE5, CHR 0x9F, CHR 0x9F, CHR 0xE6, CHR 0xB8, CHR 0x85,
             CHR 0xE6, CHR 0x8E, CHR 0x83, CHR 0xE3, CHR 0x83, CHR 0x9C, CHR 0xE3, CHR 0x83, CHR 0xA9, CHR 0xE3, CHR 0x83,
             CHR 0xB3, CHR 0xE3, CHR 0x83, CHR 0x86, CHR 0xE3, CHR 0x82, CHR 0xA3, CHR 0xE3, CHR 0x82, CHR 0xA2]),
           (''datetime'', JStr ''2026/02/02 09:00-10:30''),
           (''host'', JStr [CHR 0xE7, CHR 0x94, CHR 0x9F, CHR 0xE5, CHR 0xBE, CHR 0x92, CHR 0xE4, CHR 0xBC, CHR 0x9A]),
           (''state'', JStr ''published'')],
     JObj [(''id'', JStr ''evt-002''),
           (''title'', JStr [CHR 0xE9, CHR 0x80, CHR 0xB2, CHR 0xE8, CHR 0xB7, CHR 0xAF, CHR 0xE8, CHR 0xAA, CHR 0xAC,
             CHR 0xE6, CHR 0x98, CHR 0x8E, CHR 0xE4, CHR 0xBC, CHR 0x9A]),
           (''datetime'', JStr ''2026/02/10 15:00-16:00''),
           (''host'', JStr [CHR 0xE9, CHR 0x80, CHR 0xB2, CHR 0xE8, CHR 0xB7, CHR 0xAF, CHR 0xE6, CHR 0x8C, CHR 0x87,
             CHR 0xE5, CHR 0xB0, CHR 0x8E, CHR 0xE5, CHR 0xAE, CHR 0xA4]),
           (''state'', JStr ''published'')]]"

definition CLAIM_PREFIX :: string where
  "CLAIM_PREFIX = ''claim:''"

definition EVENT_PREFIX :: string where
  "EVENT_PREFIX = ''event:''"

definition DEFAULT_CLAIM_INTERVAL_DAYS :: int where
  "DEFAULT_CLAIM_INTERVAL_DAYS = 30"

definition DEFAULT_MAX_CLAIMS_PER_INTERVAL :: int where
  "DEFAULT_MAX_CLAIMS_PER_INTERVAL = 1"

definition MAX_STORED_CLAIM_HISTORY :: nat where
  "MAX_STORED_CLAIM_HISTORY = 500"

definition claimKey :: "string \<Rightarrow> string \<Rightarrow> string" where
  "claimKey eventId subject = CLAIM_PREFIX @ eventId @ '':'' @ subject"

definition claimPrefix :: "string \<Rightarrow> string" where
  "claimPrefix eventId = CLAIM_PREFIX @ eventId @ '':''"

definition eventKey :: "string \<Rightarrow> string" where
  "eventKey eventId = EVENT_PREFIX @ eventId"

definition normalizeSubject :: "string option \<Rightarrow> string option \<Rightarrow> string option" where
  "normalizeSubject walletAddress joinToken =
     (let raw = js_trim (case walletAddress of Some w \<Rightarrow> w | None \<Rightarrow> (case joinToken of Some t \<Rightarrow> t | None \<Rightarrow> []))
      in if raw = [] then None else Some (js_trim (collapse_ws raw)))"

section \<open>The stored form of a claim record\<close>

fun parsePositiveInt :: "js \<Rightarrow> int option" where
  "parsePositiveInt (JNum r) = (let v = \<lfloor>r\<rfloor> in if v > 0 then Some v else None)"
| "parsePositiveInt (JStr s) =
     (if all_digits (js_trim s)
      then (let v = digits_val (js_trim s) in if v > 0 then Some v else None)
      else None)"
| "parsePositiveInt _ = None"

text \<open>One iteration of the loop over \<open>obj.history\<close>; \<open>None\<close> is \<open>continue\<close>.\<close>

definition parseHistoryItem :: "js \<Rightarrow> ClaimHistoryEntry option" where
  "parseHistoryItem item =
     (if \<not> is_obj item then None
      else case parsePositiveInt (jget item ''at'') of
             None \<Rightarrow> None
           | Some t \<Rightarrow> Some \<lparr>ch_at = t, ch_code = trimmed_str (jget item ''code'')\<rparr>)"

fun parseHistoryArray :: "js \<Rightarrow> ClaimHistoryEntry list" where
  "parseHistoryArray (JArr items) = List.map_filter parseHistoryItem items"
| "parseHistoryArray _ = []"

definition parseClaimHistory :: "js \<Rightarrow> ClaimHistoryEntry list" where
  "parseClaimHistory raw =
     (case raw of
        JNum r \<Rightarrow> (if r > 0 then [\<lparr>ch_at = \<lfloor>r\<rfloor>, ch_code = None\<rparr>] else [])
      | _ \<Rightarrow>
        if \<not> is_obj raw then []
        else
          (let out = parseHistoryArray (jget raw ''history'');
               out' = (if out = [] then
                         (case parsePositiveInt (jget raw ''at'') of
                            None \<Rightarrow> []
                          | Some t \<Rightarrow> [\<lparr>ch_at = t, ch_code = trimmed_str (jget raw ''code'')\<rparr>])
                       else out)
           in sort_key ch_at out'))"

definition parsePendingClaim :: "js \<Rightarrow> PendingClaimEntry option" where
  "parsePendingClaim raw =
     (if \<not> is_obj raw then None
      else let pendingRaw = jget raw ''pending'' in
        if \<not> is_obj pendingRaw then None
        else case (parsePositiveInt (jget pendingRaw ''at''), trimmed_str (jget pendingRaw ''code'')) of
               (Some t, Some code) \<Rightarrow> Some \<lparr>pc_at = t, pc_code = code\<rparr>
             | _ \<Rightarrow> None)"

definition parseClaimState :: "js \<Rightarrow> ClaimState" where
  "parseClaimState raw = \<lparr>cs_history = parseClaimHistory raw, cs_pending = parsePendingClaim raw\<rparr>"

definition entry_to_js :: "ClaimHistoryEntry \<Rightarrow> js" where
  "entry_to_js e = JObj [(''at'', JInt (ch_at e)), (''code'', jstr_opt (ch_code e))]"

text \<open>The code of an entry is missing or the empty string: \<open>!latest.code\<close>.\<close>

definition no_code :: "ClaimHistoryEntry \<Rightarrow> bool" where
  "no_code e = (case ch_code e of None \<Rightarrow> True | Some c \<Rightarrow> c = [])"

definition serializeClaimHistory :: "ClaimHistoryEntry list \<Rightarrow> js" where
  "serializeClaimHistory entries =
     (if entries = [] then JUndef
      else let latest = last entries in
        if length entries = 1 \<and> no_code latest then JInt (ch_at latest)
        else JObj [(''at'', JInt (ch_at latest)),
                   (''code'', jstr_opt (ch_code latest)),
                   (''history'', JArr (map entry_to_js entries))])"

definition serializeClaimState :: "ClaimState \<Rightarrow> js" where
  "serializeClaimState st =
     (let serializedHistory = serializeClaimHistory (cs_history st) in
      case cs_pending st of
        None \<Rightarrow> serializedHistory
      | Some p \<Rightarrow>
          (let historyObject =
             (if is_obj serializedHistory then serializedHistory
              else JObj [(''at'', JInt (pc_at p)), (''code'', JStr (pc_code p)),
                         (''history'', JArr (map entry_to_js (cs_history st)))])
           in jspread historyObject
                [(''pending'', JObj [(''at'', JInt (pc_at p)), (''code'', JStr (pc_code p))])]))"

section \<open>Policy and quota\<close>

definition resolveClaimPolicy :: "js \<Rightarrow> ClaimPolicy" where
  "resolveClaimPolicy event =
     (let intervalDays = (case parsePositiveInt (jget event ''claimIntervalDays'') of
                            Some n \<Rightarrow> n | None \<Rightarrow> DEFAULT_CLAIM_INTERVAL_DAYS)
      in if jget event ''maxClaimsPerInterval'' = JNull
         then \<lparr>cp_claimIntervalDays = intervalDays, cp_maxClaimsPerInterval = None\<rparr>
         else \<lparr>cp_claimIntervalDays = intervalDays,
               cp_maxClaimsPerInterval =
                 Some (case parsePositiveInt (jget event ''maxClaimsPerInterval'') of
                         Some n \<Rightarrow> n | None \<Rightarrow> DEFAULT_MAX_CLAIMS_PER_INTERVAL)\<rparr>)"

definition claimWindowMs :: "ClaimPolicy \<Rightarrow> int" where
  "claimWindowMs policy = cp_claimIntervalDays policy * 24 * 60 * 60 * 1000"

definition inWindow :: "ClaimHistoryEntry list \<Rightarrow> int \<Rightarrow> ClaimHistoryEntry list" where
  "inWindow history windowStart = filter (\<lambda>entry. ch_at entry \<ge> windowStart) history"

definition buildClaimQuotaStatus :: "ClaimHistoryEntry list \<Rightarrow> js \<Rightarrow> int \<Rightarrow> ClaimQuotaStatus" where
  "buildClaimQuotaStatus history event now =
     (let policy = resolveClaimPolicy event;
          windowMs = claimWindowMs policy;
          windowStart = now - windowMs;
          used = inWindow history windowStart
      in case cp_maxClaimsPerInterval policy of
           None \<Rightarrow>
             \<lparr>q_claimIntervalDays = cp_claimIntervalDays policy,
              q_maxClaimsPerInterval = None,
              q_claimsUsedInCurrentInterval = int (length used),
              q_remainingClaimsInCurrentInterval = None,
              q_canClaimNow = True,
              q_nextAvailableAt = None\<rparr>
         | Some maxClaims \<Rightarrow>
             (let remaining = max (maxClaims - int (length used)) 0;
                  nextAvailableAt =
                    (if remaining = 0 then
                       (let thresholdIndex = nat (max 0 (int (length used) - maxClaims)) in
                        if thresholdIndex < length used
                        then Some (ch_at (used ! thresholdIndex) + windowMs) else None)
                     else None)
              in \<lparr>q_claimIntervalDays = cp_claimIntervalDays policy,
                  q_maxClaimsPerInterval = Some maxClaims,
                  q_claimsUsedInCurrentInterval = int (length used),
                  q_remainingClaimsInCurrentInterval = Some remaining,
                  q_canClaimNow = (remaining > 0),
                  q_nextAvailableAt =
                    (case nextAvailableAt of Some n \<Rightarrow> (if n \<noteq> 0 then Some n else None) | None \<Rightarrow> None)\<rparr>))"

section \<open>Operations of the claim store\<close>

definition mergeEventsById :: "js list \<Rightarrow> js list" where
  "mergeEventsById storedEvents =
     map snd (fold (\<lambda>stored byId. kv_set (jget stored ''id'') stored byId) storedEvents
       (fold (\<lambda>seed byId. kv_set (jget seed ''id'') seed byId) SEED_EVENTS []))"

definition getClaimedCount :: "'s IClaimStorage \<Rightarrow> 's \<Rightarrow> string \<Rightarrow> nat" where
  "getClaimedCount ops s eventId = length (st_list ops s (claimPrefix eventId))"

definition getClaimHistory :: "'s IClaimStorage \<Rightarrow> 's \<Rightarrow> string \<Rightarrow> string \<Rightarrow> ClaimHistoryEntry list" where
  "getClaimHistory ops s eventId subject =
     cs_history (parseClaimState (st_get ops s (claimKey eventId subject)))"

definition getPendingClaim :: "'s IClaimStorage \<Rightarrow> 's \<Rightarrow> string \<Rightarrow> string \<Rightarrow> PendingClaimEntry option" where
  "getPendingClaim ops s eventId subject =
     cs_pending (parseClaimState (st_get ops s (claimKey eventId subject)))"

text \<open>\<open>serialized !== undefined\<close> guards every write of a claim record.\<close>

definition putSerialized :: "'s IClaimStorage \<Rightarrow> 's \<Rightarrow> string \<Rightarrow> js \<Rightarrow> 's" where
  "putSerialized ops s key serialized = (if serialized \<noteq> JUndef then st_put ops s key serialized else s)"

definition resolvePendingClaim ::
  "'s IClaimStorage \<Rightarrow> 's \<Rightarrow> string \<Rightarrow> string \<Rightarrow> string option \<Rightarrow> 's" where
  "resolvePendingClaim ops s eventId subject confirmationCode =
     (let key = claimKey eventId subject;
          state = parseClaimState (st_get ops s key)
      in case cs_pending state of
           None \<Rightarrow> s
         | Some p \<Rightarrow>
             (let normalizedCode = (case confirmationCode of Some c \<Rightarrow> js_trim c | None \<Rightarrow> []) in
              if normalizedCode \<noteq> [] \<and> pc_code p \<noteq> normalizedCode then s
              else putSerialized ops s key (serializeClaimState (state\<lparr>cs_pending := None\<rparr>))))"

definition checkClaimAllowance ::
  "'s IClaimStorage \<Rightarrow> 's \<Rightarrow> string \<Rightarrow> string \<Rightarrow> js \<Rightarrow> int \<Rightarrow> ClaimAllowance" where
  "checkClaimAllowance ops s eventId subject event now =
     (let history = getClaimHistory ops s eventId subject;
          claimQuota = buildClaimQuotaStatus history event now
      in \<lparr>al_allowed = q_canClaimNow claimQuota,
          al_latestConfirmationCode = (if history = [] then None else ch_code (last history)),
          al_nextAvailableAt = q_nextAvailableAt claimQuota,
          al_claimQuota = claimQuota\<rparr>)"

definition getClaimQuotaStatus ::
  "'s IClaimStorage \<Rightarrow> 's \<Rightarrow> string \<Rightarrow> string \<Rightarrow> js \<Rightarrow> int \<Rightarrow> ClaimQuotaStatus" where
  "getClaimQuotaStatus ops s eventId subject event now =
     buildClaimQuotaStatus (getClaimHistory ops s eventId subject) event now"

definition hasClaimed :: "'s IClaimStorage \<Rightarrow> 's \<Rightarrow> string \<Rightarrow> string \<Rightarrow> js \<Rightarrow> int \<Rightarrow> bool" where
  "hasClaimed ops s eventId subject event now =
     (if \<not> truthy event then st_get ops s (claimKey eventId subject) \<noteq> JUndef
      else \<not> al_allowed (checkClaimAllowance ops s eventId subject event now))"

text \<open>The outer option is \<open>null\<close>, the inner one a missing code.\<close>

definition getClaimRecord :: "'s IClaimStorage \<Rightarrow> 's \<Rightarrow> string \<Rightarrow> string \<Rightarrow> string option option" where
  "getClaimRecord ops s eventId subject =
     (let history = getClaimHistory ops s eventId subject in
      if history = [] then None else Some (ch_code (last history)))"

definition setLatestClaimConfirmationCode ::
  "'s IClaimStorage \<Rightarrow> 's \<Rightarrow> string \<Rightarrow> string \<Rightarrow> string \<Rightarrow> 's" where
  "setLatestClaimConfirmationCode ops s eventId subject confirmationCode =
     (let code = js_trim confirmationCode in
      if code = [] then s
      else let key = claimKey eventId subject;
               state = parseClaimState (st_get ops s key)
        in if cs_history state = [] then s
           else let latestIndex = length (cs_history state) - 1;
                    history' = (cs_history state)[latestIndex :=
                        (cs_history state ! latestIndex)\<lparr>ch_code := Some code\<rparr>];
                    pending' = map_option (\<lambda>p. p\<lparr>pc_code := code\<rparr>) (cs_pending state)
             in putSerialized ops s key
                  (serializeClaimState \<lparr>cs_history = history', cs_pending = pending'\<rparr>))"

definition trimHistory :: "ClaimHistoryEntry list \<Rightarrow> ClaimHistoryEntry list" where
  "trimHistory h =
     (if length h > MAX_STORED_CLAIM_HISTORY then drop (length h - MAX_STORED_CLAIM_HISTORY) h else h)"

definition addClaim :: "'s IClaimStorage \<Rightarrow> 's \<Rightarrow> string \<Rightarrow> string \<Rightarrow> string option \<Rightarrow> int \<Rightarrow> 's" where
  "addClaim ops s eventId subject confirmationCode now =
     (let key = claimKey eventId subject;
          state = parseClaimState (st_get ops s key);
          entry = \<lparr>ch_at = now, ch_code = confirmationCode\<rparr>;
          history' = trimHistory (sort_key ch_at (cs_history state @ [entry]));
          pending' = (case confirmationCode of
                        Some c \<Rightarrow> (if js_trim c \<noteq> [] then Some \<lparr>pc_at = ch_at entry, pc_code = js_trim c\<rparr> else None)
                      | None \<Rightarrow> None)
      in putSerialized ops s key (serializeClaimState \<lparr>cs_history = history', cs_pending = pending'\<rparr>))"

definition getClaimants :: "'s IClaimStorage \<Rightarrow> 's \<Rightarrow> string \<Rightarrow> Claimant list" where
  "getClaimants ops s eventId =
     (let pre = claimPrefix eventId in
      sort_key cl_claimedAt
        (map (\<lambda>(key, value).
            (let subject = drop (length pre) key;
                 history = cs_history (parseClaimState value)
             in if history = [] then \<lparr>cl_subject = subject, cl_claimedAt = 0, cl_confirmationCode = None\<rparr>
                else \<lparr>cl_subject = subject, cl_claimedAt = ch_at (last history),
                      cl_confirmationCode = ch_code (last history)\<rparr>))
          (st_list ops s pre)))"

definition splitClaimKey :: "string \<Rightarrow> (string \<times> string) option" where
  "splitClaimKey key =
     (if \<not> prefix CLAIM_PREFIX key then None
      else let suffix = drop (length CLAIM_PREFIX) key in
        case last_index (CHR '':'') suffix of
          None \<Rightarrow> None
        | Some separatorAt \<Rightarrow>
            (if separatorAt = 0 \<or> separatorAt \<ge> length suffix - 1 then None
             else Some (take separatorAt suffix, drop (separatorAt + 1) suffix)))"

text \<open>One iteration of the loop of \<open>getClaimsBySubject\<close>; \<open>None\<close> is \<open>continue\<close>.\<close>

definition subjectClaimRow :: "string \<Rightarrow> string \<times> js \<Rightarrow> SubjectClaim option" where
  "subjectClaimRow normalizedSubject row =
     (case splitClaimKey (fst row) of
        None \<Rightarrow> None
      | Some (eventId, claimSubject) \<Rightarrow>
          (if claimSubject \<noteq> normalizedSubject then None
           else let history = cs_history (parseClaimState (snd row)) in
             if history = [] then None
             else Some \<lparr>sc_eventId = eventId, sc_claimedAt = ch_at (last history),
                        sc_confirmationCode = ch_code (last history)\<rparr>))"

definition getClaimsBySubject :: "'s IClaimStorage \<Rightarrow> 's \<Rightarrow> string \<Rightarrow> SubjectClaim list" where
  "getClaimsBySubject ops s subject =
     (let normalizedSubject = js_trim subject in
      if normalizedSubject = [] then []
      else sort_key (\<lambda>c. - sc_claimedAt c)
        (List.map_filter (subjectClaimRow normalizedSubject) (st_list ops s CLAIM_PREFIX)))"

definition policyFields :: "ClaimPolicy \<Rightarrow> (string \<times> js) list" where
  "policyFields policy =
     [(''claimIntervalDays'', JInt (cp_claimIntervalDays policy)),
      (''maxClaimsPerInterval'', case cp_maxClaimsPerInterval policy of None \<Rightarrow> JNull | Some n \<Rightarrow> JInt n)]"

definition isEventObject :: "js \<Rightarrow> bool" where
  "isEventObject v = (is_obj v \<and> jhas v ''id'')"

definition getStoredEvents :: "'s IClaimStorage \<Rightarrow> 's \<Rightarrow> js list" where
  "getStoredEvents ops s =
     map (\<lambda>base. jspread base (policyFields (resolveClaimPolicy base)))
       (filter isEventObject (map snd (st_list ops s EVENT_PREFIX)))"

definition withPolicyAndCount :: "'s IClaimStorage \<Rightarrow> 's \<Rightarrow> js \<Rightarrow> string \<Rightarrow> js" where
  "withPolicyAndCount ops s event eventId =
     jspread event (policyFields (resolveClaimPolicy event)
       @ [(''claimedCount'', JInt (int (getClaimedCount ops s eventId)))])"

definition getEvents :: "'s IClaimStorage \<Rightarrow> 's \<Rightarrow> js list" where
  "getEvents ops s =
     map (\<lambda>e. withPolicyAndCount ops s e (js_to_string (jget e ''id'')))
       (mergeEventsById (getStoredEvents ops s))"

definition getEvent :: "'s IClaimStorage \<Rightarrow> 's \<Rightarrow> string \<Rightarrow> js option" where
  "getEvent ops s eventId =
     (let stored = st_get ops s (eventKey eventId) in
      if isEventObject stored then Some (withPolicyAndCount ops s stored eventId)
      else case find (\<lambda>e. jget e ''id'' = JStr eventId) SEED_EVENTS of
             None \<Rightarrow> None
           | Some event \<Rightarrow> Some (withPolicyAndCount ops s event eventId))"

definition dropProp :: "string \<Rightarrow> js \<Rightarrow> js" where
  "dropProp k v = JObj (filter (\<lambda>p. fst p \<noteq> k) (jprops v))"

definition updateEventState :: "'s IClaimStorage \<Rightarrow> 's \<Rightarrow> string \<Rightarrow> string \<Rightarrow> 's \<times> js option" where
  "updateEventState ops s eventId state =
     (case getEvent ops s eventId of
        None \<Rightarrow> (s, None)
      | Some current \<Rightarrow>
          (let next = jspread (dropProp ''claimedCount'' current) [(''state'', JStr state)];
               s' = st_put ops s (eventKey eventId) next
           in (s', getEvent ops s' eventId)))"

definition createEvent :: "'s IClaimStorage \<Rightarrow> 's \<Rightarrow> CreateEventData \<Rightarrow> int \<Rightarrow> 's \<times> js" where
  "createEvent ops s data now =
     (let id = ''evt-'' @ nat_digits 36 (nat now);
          policy = resolveClaimPolicy (JObj [(''claimIntervalDays'', ce_claimIntervalDays data),
                                             (''maxClaimsPerInterval'', ce_maxClaimsPerInterval data)]);
          event = JObj ([(''id'', JStr id),
                  (''title'', JStr (ce_title data)),
                  (''datetime'', JStr (ce_datetime data)),
                  (''host'', JStr (ce_host data)),
                  (''state'', if ce_state data = JUndef \<or> ce_state data = JNull then JStr ''published'' else ce_state data),
                  (''riskProfile'', JStr (case ce_riskProfile data of Some p \<Rightarrow> p | None \<Rightarrow> ''school_internal'')),
                  (''solanaMint'', jstr_opt (ce_solanaMint data)),
                  (''solanaAuthority'', jstr_opt (ce_solanaAuthority data)),
                  (''solanaGrantId'', jstr_opt (ce_solanaGrantId data)),
                  (''ticketTokenAmount'', ce_ticketTokenAmount data)] @ policyFields policy)
      in (st_put ops s (eventKey id) event, event))"

fun string_field :: "js \<Rightarrow> string option" where
  "string_field (JStr s) = Some s"
| "string_field _ = None"

text \<open>
  \<open>t1\<close>, \<open>t2\<close>, \<open>t3\<close> are the readings of the clock in \<open>checkClaimAllowance\<close>, \<open>addClaim\<close> and
  \<open>getClaimQuotaStatus\<close>.
\<close>

definition submitClaim ::
  "'s IClaimStorage \<Rightarrow> 's \<Rightarrow> js \<Rightarrow> string option \<Rightarrow> int \<Rightarrow> int \<Rightarrow> int \<Rightarrow> 's \<times> SchoolClaimResult" where
  "submitClaim ops s body confirmationCode t1 t2 t3 =
     (let eventId = (case string_field (jget body ''eventId'') of Some e \<Rightarrow> js_trim e | None \<Rightarrow> []);
          walletAddress = string_field (jget body ''walletAddress'');
          joinToken = string_field (jget body ''joinToken'')
      in if eventId = [] then (s, ClaimFailure Err_invalid)
      else case getEvent ops s eventId of
        None \<Rightarrow> (s, ClaimFailure Err_not_found)
      | Some event \<Rightarrow>
        if truthy (jget event ''state'') \<and> jget event ''state'' \<noteq> JStr ''published''
        then (s, ClaimFailure Err_eligibility)
        else case normalizeSubject walletAddress joinToken of
          None \<Rightarrow> (s, ClaimFailure Err_wallet_required)
        | Some subject \<Rightarrow>
          (let allowance = checkClaimAllowance ops s eventId subject event t1 in
           if \<not> al_allowed allowance
           then (s, ClaimSuccess \<lparr>r_eventName = jget event ''title'', r_alreadyJoined = True,
                   r_confirmationCode = al_latestConfirmationCode allowance,
                   r_claimQuota = al_claimQuota allowance\<rparr>)
           else (let s' = addClaim ops s eventId subject confirmationCode t2;
                     claimQuota = getClaimQuotaStatus ops s' eventId subject event t3
                 in (s', ClaimSuccess \<lparr>r_eventName = jget event ''title'', r_alreadyJoined = False,
                       r_confirmationCode = confirmationCode, r_claimQuota = claimQuota\<rparr>))))"

section \<open>Parsing what was serialised\<close>

text \<open>What reading back does to a code: surrounding white space goes, a blank code is no code.\<close>

definition norm_entry :: "ClaimHistoryEntry \<Rightarrow> ClaimHistoryEntry" where
  "norm_entry e = e\<lparr>ch_code := trimmed_str (jstr_opt (ch_code e))\<rparr>"

definition wf_history :: "ClaimHistoryEntry list \<Rightarrow> bool" where
  "wf_history h = (sorted (map ch_at h) \<and> (\<forall>e \<in> set h. ch_at e > 0))"

definition wf_pending :: "PendingClaimEntry option \<Rightarrow> bool" where
  "wf_pending p = (case p of None \<Rightarrow> True
     | Some q \<Rightarrow> pc_at q > 0 \<and> pc_code q \<noteq> [] \<and> js_trim (pc_code q) = pc_code q)"

definition wf_state :: "ClaimState \<Rightarrow> bool" where
  "wf_state st = (wf_history (cs_history st) \<and> wf_pending (cs_pending st)
     \<and> (cs_history st = [] \<longrightarrow> cs_pending st = None))"

lemma norm_entry_simps [simp]: "ch_at (norm_entry e) = ch_at e"
  by (simp add: norm_entry_def)

lemma map_ch_at_norm [simp]: "map ch_at (map norm_entry h) = map ch_at h"
  by (induction h) auto

lemma ch_at_comp_norm [simp]: "ch_at \<circ> norm_entry = ch_at"
  by (rule ext) simp

lemma trimmed_str_idem: "trimmed_str (jstr_opt (trimmed_str v)) = trimmed_str v"
  by (cases v) (auto simp: jstr_opt_def)

lemma norm_entry_idem [simp]: "norm_entry (norm_entry e) = norm_entry e"
  by (simp add: norm_entry_def trimmed_str_idem)

lemma norm_entry_made [simp]:
  "norm_entry \<lparr>ch_at = t, ch_code = trimmed_str v\<rparr> = \<lparr>ch_at = t, ch_code = trimmed_str v\<rparr>"
  "norm_entry \<lparr>ch_at = t, ch_code = None\<rparr> = \<lparr>ch_at = t, ch_code = None\<rparr>"
  by (simp_all add: norm_entry_def trimmed_str_idem) (simp add: jstr_opt_def)

lemma norm_entry_no_code: "no_code e \<Longrightarrow> norm_entry e = \<lparr>ch_at = ch_at e, ch_code = None\<rparr>"
  by (cases e) (auto simp: no_code_def norm_entry_def jstr_opt_def split: option.splits)

lemma parsePositiveInt_JInt [simp]: "parsePositiveInt (JInt n) = (if n > 0 then Some n else None)"
  by simp

lemma parsePositiveInt_pos: "parsePositiveInt v = Some n \<Longrightarrow> n > 0"
  by (cases v) (auto simp: Let_def split: if_splits)

lemma parseHistoryItem_entry [simp]:
  "ch_at e > 0 \<Longrightarrow> parseHistoryItem (entry_to_js e) = Some (norm_entry e)"
  by (cases e) (simp add: parseHistoryItem_def entry_to_js_def norm_entry_def)

lemma map_filter_entries:
  "\<forall>e \<in> set h. ch_at e > 0 \<Longrightarrow> List.map_filter parseHistoryItem (map entry_to_js h) = map norm_entry h"
  by (induction h) (auto simp: List.map_filter_simps)

lemma parseHistoryItem_norm: "parseHistoryItem v = Some e \<Longrightarrow> ch_at e > 0 \<and> norm_entry e = e"
  by (auto simp: parseHistoryItem_def norm_entry_def trimmed_str_idem parsePositiveInt_pos
      split: if_splits option.splits)

lemma set_parseHistoryArray:
  "e \<in> set (parseHistoryArray v) \<Longrightarrow> ch_at e > 0 \<and> norm_entry e = e"
  by (cases v) (auto simp: List.map_filter_def parseHistoryItem_norm)

text \<open>Whatever is stored, the parsed history is in ascending order of time and its codes are trimmed.\<close>

lemma sorted_parseClaimHistory: "sorted (map ch_at (parseClaimHistory raw))"
  by (cases raw) (auto simp: parseClaimHistory_def Let_def)

lemma norm_parseClaimHistory: "e \<in> set (parseClaimHistory raw) \<Longrightarrow> norm_entry e = e"
  by (cases raw)
     (auto simp: parseClaimHistory_def Let_def split: if_splits option.splits dest: set_parseHistoryArray)

lemma map_norm_parseClaimHistory [simp]:
  "map norm_entry (parseClaimHistory raw) = parseClaimHistory raw"
  by (rule map_idI) (rule norm_parseClaimHistory)

lemma wf_pending_parse: "wf_pending (parsePendingClaim raw)"
  by (auto simp: parsePendingClaim_def wf_pending_def Let_def parsePositiveInt_pos
      split: option.splits dest: trimmed_str_Some)

lemma parse_object_history:
  assumes h: "wf_history h" "h \<noteq> []"
    and obj: "is_obj v" "\<not> (\<exists>r. v = JNum r)" and get: "jget v ''history'' = JArr (map entry_to_js h)"
  shows "parseClaimHistory v = map norm_entry h"
proof -
  have "parseHistoryArray (jget v ''history'') = map norm_entry h"
    using h by (simp add: get map_filter_entries wf_history_def)
  moreover have "sort_key ch_at (map norm_entry h) = map norm_entry h"
    using h(1) by (intro sort_key_id_if_sorted) (simp add: wf_history_def)
  ultimately show ?thesis
    using obj h(2) by (cases v) (simp_all add: parseClaimHistory_def Let_def)
qed

lemma parse_serializeClaimHistory:
  assumes "wf_history h"
  shows "parseClaimHistory (serializeClaimHistory h) = map norm_entry h"
proof (cases "h = [] \<or> (length h = 1 \<and> no_code (last h))")
  case True
  then show ?thesis
  proof
    assume "h = []"
    then show ?thesis by (simp add: serializeClaimHistory_def parseClaimHistory_def)
  next
    assume one: "length h = 1 \<and> no_code (last h)"
    then obtain e where "h = [e]" by (cases h) auto
    with one assms show ?thesis
      by (simp add: serializeClaimHistory_def parseClaimHistory_def norm_entry_no_code wf_history_def)
  qed
next
  case False
  then show ?thesis
    using assms by (intro parse_object_history) (auto simp: serializeClaimHistory_def Let_def)
qed

lemma parsePending_serializeClaimHistory: "parsePendingClaim (serializeClaimHistory h) = None"
  by (auto simp: serializeClaimHistory_def Let_def parsePendingClaim_def)

lemma parse_serialize_some:
  assumes wf: "wf_history h" "h \<noteq> []" and p: "wf_pending (Some p)"
  shows "parseClaimState (serializeClaimState \<lparr>cs_history = h, cs_pending = Some p\<rparr>)
           = \<lparr>cs_history = map norm_entry h, cs_pending = Some p\<rparr>"
proof -
  let ?v = "serializeClaimState \<lparr>cs_history = h, cs_pending = Some p\<rparr>"
  obtain kvs where v: "?v = JObj kvs"
    by (simp add: serializeClaimState_def Let_def jspread_def)
  have "jget ?v ''history'' = JArr (map entry_to_js h)"
    using wf(2) by (auto simp: serializeClaimState_def Let_def jget_jspread serializeClaimHistory_def)
  then have "parseClaimHistory ?v = map norm_entry h"
    using wf v by (intro parse_object_history) auto
  moreover have "jget ?v ''pending'' = JObj [(''at'', JInt (pc_at p)), (''code'', JStr (pc_code p))]"
    by (simp add: serializeClaimState_def Let_def jget_jspread)
  then have "parsePendingClaim ?v = Some p"
    using p v by (cases p) (simp add: parsePendingClaim_def wf_pending_def)
  ultimately show ?thesis by (simp add: parseClaimState_def)
qed

lemma parse_serializeClaimState:
  assumes "wf_state st"
  shows "parseClaimState (serializeClaimState st)
           = \<lparr>cs_history = map norm_entry (cs_history st), cs_pending = cs_pending st\<rparr>"
proof (cases "cs_pending st")
  case None
  with assms show ?thesis
    by (simp add: parseClaimState_def serializeClaimState_def wf_state_def
        parse_serializeClaimHistory parsePending_serializeClaimHistory)
next
  case (Some p)
  with assms show ?thesis
    using parse_serialize_some [of "cs_history st" p] by (cases st) (auto simp: wf_state_def)
qed

lemma serializeClaimState_defined:
  "cs_history st \<noteq> [] \<Longrightarrow> serializeClaimState st \<noteq> JUndef"
  by (auto simp: serializeClaimState_def serializeClaimHistory_def Let_def jspread_def split: option.splits)

end
