(* ===== verification/Claim_Quota.thy ===== *)
theory Claim_Quota
  imports Claim_Logic
begin

text \<open>
  What the claim store promises. The lemmas about single operations are proved once for every
  storage that meets the contract \<open>claim_storage\<close>. Runs of the store are sequences of its
  operations under a clock that never goes back; a ghost log records every accepted claim. The
  invariant says that the stored history of a key is the end of the log of that key, and the quota
  theorem follows: within any interval of the policy's length no subject is granted more claims
  than the policy allows.
\<close>

section \<open>Histories\<close>

lemma insort_key_map: "insort_key f (g x) (map g xs) = map g (insort_key (\<lambda>a. f (g a)) x xs)"
  by (induction xs) auto

lemma sort_key_map: "sort_key f (map g xs) = map g (sort_key (\<lambda>a. f (g a)) xs)"
  by (induction xs) (auto simp: insort_key_map)

lemma trimHistory_eq: "trimHistory h = drop (length h - MAX_STORED_CLAIM_HISTORY) h"
  by (simp add: trimHistory_def)

lemma map_trimHistory: "map f (trimHistory h) = drop (length h - MAX_STORED_CLAIM_HISTORY) (map f h)"
  by (simp add: trimHistory_eq drop_map)

lemma length_trimHistory: "length (trimHistory h) \<le> MAX_STORED_CLAIM_HISTORY"
  by (simp add: trimHistory_eq)

lemma set_trimHistory: "set (trimHistory h) \<subseteq> set h"
  by (simp add: trimHistory_eq set_drop_subset)

lemma trimHistory_not_Nil: "h \<noteq> [] \<Longrightarrow> trimHistory h \<noteq> []"
  by (cases h) (auto simp: trimHistory_eq MAX_STORED_CLAIM_HISTORY_def)

lemma wf_history_trim: "wf_history h \<Longrightarrow> wf_history (trimHistory h)"
  using set_trimHistory [of h]
  by (auto simp: wf_history_def map_trimHistory sorted_wrt_drop)

lemma sort_append_latest:
  "sorted (map ch_at h) \<Longrightarrow> \<forall>x \<in> set h. ch_at x \<le> ch_at e \<Longrightarrow> sort_key ch_at (h @ [e]) = h @ [e]"
  by (intro sort_key_id_if_sorted) (simp add: sorted_append)

definition claim_ok :: "js \<Rightarrow> bool" where
  "claim_ok raw = wf_state (parseClaimState raw)"

lemma claim_ok_undef [simp]: "claim_ok JUndef"
  by (simp add: claim_ok_def wf_state_def parseClaimState_def parseClaimHistory_def
      parsePendingClaim_def wf_history_def wf_pending_def)

definition pendingOf :: "string option \<Rightarrow> int \<Rightarrow> PendingClaimEntry option" where
  "pendingOf code now = (case code of
     Some c \<Rightarrow> (if js_trim c \<noteq> [] then Some \<lparr>pc_at = now, pc_code = js_trim c\<rparr> else None) | None \<Rightarrow> None)"

definition appended :: "ClaimHistoryEntry list \<Rightarrow> string option \<Rightarrow> int \<Rightarrow> ClaimHistoryEntry list" where
  "appended h code now = trimHistory (sort_key ch_at (h @ [norm_entry \<lparr>ch_at = now, ch_code = code\<rparr>]))"

lemma map_norm_added:
  assumes "map norm_entry h = h"
  shows "map norm_entry (trimHistory (sort_key ch_at (h @ [\<lparr>ch_at = now, ch_code = code\<rparr>])))
           = appended h code now"
proof -
  have "map norm_entry (sort_key ch_at xs) = sort_key ch_at (map norm_entry xs)" for xs
    using sort_key_map [of ch_at norm_entry xs] by simp
  then show ?thesis
    by (simp add: appended_def map_trimHistory assms) (simp add: trimHistory_eq)
qed

lemma wf_map_norm: "wf_history (map norm_entry h) = wf_history h"
  by (auto simp: wf_history_def simp del: map_map)

lemma wf_history_appended:
  assumes "wf_history h" "now > 0"
  shows "wf_history (appended h code now) \<and> appended h code now \<noteq> []"
proof -
  let ?h = "sort_key ch_at (h @ [norm_entry \<lparr>ch_at = now, ch_code = code\<rparr>])"
  have "wf_history ?h" using assms by (auto simp: wf_history_def)
  moreover have "?h \<noteq> []" by (metis length_0_conv length_sort append_is_Nil_conv not_Cons_self2)
  ultimately show ?thesis by (simp add: appended_def wf_history_trim trimHistory_not_Nil)
qed

lemma wf_pendingOf: "now > 0 \<Longrightarrow> wf_pending (pendingOf code now)"
  by (auto simp: wf_pending_def pendingOf_def split: option.splits)

lemma times_relabel: "h \<noteq> [] \<Longrightarrow> map ch_at (butlast h) @ [ch_at (last h)] = map ch_at h"
  by (induction h rule: rev_induct) auto

section \<open>Laws of the operations, for every storage\<close>

context claim_storage
begin

lemma parse_addClaim:
  assumes "ok s" "claim_ok (st_get ops s (claimKey e sub))" "now > 0"
  shows "parseClaimState (st_get ops (addClaim ops s e sub code now) k)
           = (if k = claimKey e sub
              then \<lparr>cs_history = appended (getClaimHistory ops s e sub) code now, cs_pending = pendingOf code now\<rparr>
              else parseClaimState (st_get ops s k))"
proof -
  let ?h = "getClaimHistory ops s e sub"
  let ?st = "\<lparr>cs_history = trimHistory (sort_key ch_at (?h @ [\<lparr>ch_at = now, ch_code = code\<rparr>])),
              cs_pending = pendingOf code now\<rparr>"
  have add: "addClaim ops s e sub code now = putSerialized ops s (claimKey e sub) (serializeClaimState ?st)"
    by (cases code) (simp_all add: addClaim_def Let_def getClaimHistory_def pendingOf_def)
  have h: "wf_history ?h" "map norm_entry ?h = ?h"
    using assms(2) by (simp_all add: getClaimHistory_def claim_ok_def wf_state_def parseClaimState_def)
  note n = map_norm_added [OF h(2), of now code]
  have wf_h: "wf_history (cs_history ?st)" "cs_history ?st \<noteq> []"
    using wf_history_appended [OF h(1) assms(3), of code]
    by (simp_all flip: n add: wf_map_norm)
  then have wf: "wf_state ?st" using wf_pendingOf [OF assms(3)] by (simp add: wf_state_def)
  from wf_h(2) have "serializeClaimState ?st \<noteq> JUndef" by (rule serializeClaimState_defined)
  with assms(1) show ?thesis
    unfolding add putSerialized_def
    by (simp add: get_put parse_serializeClaimState [OF wf] n)
qed

lemma addClaim_put:
  assumes "ok s" "claim_ok (st_get ops s (claimKey e sub))" "now > 0"
  shows "\<exists>v. addClaim ops s e sub code now = st_put ops s (claimKey e sub) v \<and> v \<noteq> JUndef"
proof -
  let ?h = "sort_key ch_at (getClaimHistory ops s e sub @ [\<lparr>ch_at = now, ch_code = code\<rparr>])"
  have "?h \<noteq> []" by (metis length_0_conv length_sort append_is_Nil_conv not_Cons_self2)
  then have "serializeClaimState \<lparr>cs_history = trimHistory ?h, cs_pending = p\<rparr> \<noteq> JUndef" for p
    by (intro serializeClaimState_defined) (simp add: trimHistory_not_Nil)
  then show ?thesis
    by (auto simp: addClaim_def Let_def putSerialized_def getClaimHistory_def)
qed

lemma ok_putSerialized: "ok s \<Longrightarrow> ok (putSerialized ops s k v)"
  by (simp add: putSerialized_def ok_put)

lemma ok_addClaim: "ok s \<Longrightarrow> ok (addClaim ops s e sub code now)"
  by (simp add: addClaim_def Let_def ok_putSerialized)

lemma claim_ok_addClaim:
  assumes "ok s" "\<forall>e sub. claim_ok (st_get ops s (claimKey e sub))" "now > 0"
  shows "claim_ok (st_get ops (addClaim ops s e sub code now) (claimKey e' sub'))"
proof (cases "claimKey e' sub' = claimKey e sub")
  case True
  have "wf_history (getClaimHistory ops s e sub)"
    using assms(2) by (simp add: getClaimHistory_def claim_ok_def wf_state_def)
  with assms show ?thesis
    by (simp add: True claim_ok_def parse_addClaim wf_state_def wf_history_appended wf_pendingOf)
next
  case False
  with assms show ?thesis by (simp add: claim_ok_def parse_addClaim)
qed

text \<open>Resolving a pending claim clears the marker when the code matches and keeps the history.\<close>

lemma parse_resolvePendingClaim:
  assumes "ok s" "claim_ok (st_get ops s (claimKey e sub))"
  shows "parseClaimState (st_get ops (resolvePendingClaim ops s e sub code) k)
           = (if k = claimKey e sub
                \<and> (let c = (case code of Some c \<Rightarrow> js_trim c | None \<Rightarrow> []) in
                    c = [] \<or> map_option pc_code (getPendingClaim ops s e sub) = Some c)
              then (parseClaimState (st_get ops s k))\<lparr>cs_pending := None\<rparr>
              else parseClaimState (st_get ops s k))"
proof (cases "getPendingClaim ops s e sub")
  case None
  then show ?thesis
    by (auto simp: resolvePendingClaim_def getPendingClaim_def Let_def parseClaimState_def)
next
  case (Some p)
  let ?st = "parseClaimState (st_get ops s (claimKey e sub))"
  let ?st' = "?st\<lparr>cs_pending := None\<rparr>"
  from Some assms(2) have wf: "wf_state ?st'" "cs_history ?st' \<noteq> []"
    by (auto simp: claim_ok_def wf_state_def getPendingClaim_def wf_pending_def)
  then have "serializeClaimState ?st' \<noteq> JUndef" by (intro serializeClaimState_defined)
  moreover have "parseClaimState (serializeClaimState ?st') = ?st'"
    using parse_serializeClaimState [OF wf(1)] by (simp add: parseClaimState_def)
  ultimately show ?thesis
    using Some assms(1)
    by (auto simp: resolvePendingClaim_def getPendingClaim_def Let_def putSerialized_def get_put)
qed

lemma ok_resolvePendingClaim: "ok s \<Longrightarrow> ok (resolvePendingClaim ops s e sub code)"
  by (simp add: resolvePendingClaim_def Let_def ok_putSerialized split: option.splits)

text \<open>Completing a code rewrites the code of the latest entry and of the pending claim only.\<close>

lemma parse_setLatestClaimConfirmationCode:
  assumes "ok s" "claim_ok (st_get ops s (claimKey e sub))"
  shows "parseClaimState (st_get ops (setLatestClaimConfirmationCode ops s e sub code) k)
           = (let h = getClaimHistory ops s e sub in
              if k = claimKey e sub \<and> js_trim code \<noteq> [] \<and> h \<noteq> []
              then \<lparr>cs_history = butlast h @ [(last h)\<lparr>ch_code := Some (js_trim code)\<rparr>],
                    cs_pending = map_option (\<lambda>p. p\<lparr>pc_code := js_trim code\<rparr>) (getPendingClaim ops s e sub)\<rparr>
              else parseClaimState (st_get ops s k))"
proof (cases "js_trim code = [] \<or> getClaimHistory ops s e sub = []")
  case True
  then show ?thesis
    by (auto simp: setLatestClaimConfirmationCode_def Let_def getClaimHistory_def)
next
  case False
  let ?h = "getClaimHistory ops s e sub"
  let ?h' = "butlast ?h @ [(last ?h)\<lparr>ch_code := Some (js_trim code)\<rparr>]"
  let ?p' = "map_option (\<lambda>p. p\<lparr>pc_code := js_trim code\<rparr>) (getPendingClaim ops s e sub)"
  from False have hb: "?h = butlast ?h @ [last ?h]" by simp
  have upd: "?h[length ?h - 1 := (?h ! (length ?h - 1))\<lparr>ch_code := Some (js_trim code)\<rparr>] = ?h'"
    using False by (subst (1) hb) (simp add: last_conv_nth list_update_append nth_append)
  have wfh: "wf_history (butlast ?h @ [last ?h])"
    using assms(2) hb by (simp add: getClaimHistory_def claim_ok_def wf_state_def)
  have norm: "map norm_entry ?h = ?h" by (simp add: getClaimHistory_def parseClaimState_def)
  then have "map norm_entry (butlast ?h) = butlast ?h" by (metis map_butlast)
  then have "map norm_entry ?h' = ?h'"
    using False by (simp add: norm_entry_def [of "_\<lparr>ch_code := _\<rparr>"] jstr_opt_def)
  moreover have "wf_state \<lparr>cs_history = ?h', cs_pending = ?p'\<rparr>"
    using wfh wf_pending_parse [of "st_get ops s (claimKey e sub)"] False
    by (auto simp: wf_state_def wf_history_def sorted_append wf_pending_def getPendingClaim_def
        parseClaimState_def split: option.splits)
  ultimately have "parseClaimState (serializeClaimState \<lparr>cs_history = ?h', cs_pending = ?p'\<rparr>)
      = \<lparr>cs_history = ?h', cs_pending = ?p'\<rparr>"
    using parse_serializeClaimState by fastforce
  moreover have "serializeClaimState \<lparr>cs_history = ?h', cs_pending = ?p'\<rparr> \<noteq> JUndef"
    by (rule serializeClaimState_defined) simp
  moreover have "setLatestClaimConfirmationCode ops s e sub code
      = putSerialized ops s (claimKey e sub) (serializeClaimState \<lparr>cs_history = ?h', cs_pending = ?p'\<rparr>)"
    using False upd by (simp add: setLatestClaimConfirmationCode_def Let_def getClaimHistory_def getPendingClaim_def)
  ultimately show ?thesis
    using False assms(1) by (simp add: putSerialized_def get_put Let_def)
qed

lemma times_setLatest:
  assumes "ok s" "\<And>e sub. claim_ok (st_get ops s (claimKey e sub))"
  shows "map ch_at (getClaimHistory ops (setLatestClaimConfirmationCode ops s e sub code) e' sub')
           = map ch_at (getClaimHistory ops s e' sub')"
proof (cases "claimKey e' sub' = claimKey e sub \<and> js_trim code \<noteq> [] \<and> getClaimHistory ops s e sub \<noteq> []")
  case True
  then show ?thesis
    using parse_setLatestClaimConfirmationCode [OF assms, of e sub code "claimKey e sub"]
    by (simp add: getClaimHistory_def Let_def times_relabel)
next
  case False
  then show ?thesis
    using parse_setLatestClaimConfirmationCode [OF assms, of e sub code "claimKey e' sub'"]
    by (auto simp: getClaimHistory_def Let_def)
qed

lemma claim_ok_setLatest:
  assumes "ok s" "\<And>e sub. claim_ok (st_get ops s (claimKey e sub))"
  shows "claim_ok (st_get ops (setLatestClaimConfirmationCode ops s e sub code) (claimKey e' sub'))"
proof (cases "claimKey e' sub' = claimKey e sub \<and> js_trim code \<noteq> [] \<and> getClaimHistory ops s e sub \<noteq> []")
  case True
  let ?h = "getClaimHistory ops s e sub"
  have "wf_history (butlast ?h @ [last ?h])"
    using assms(2) [of e sub] True by (simp add: claim_ok_def wf_state_def getClaimHistory_def)
  then have "wf_history (butlast ?h @ [(last ?h)\<lparr>ch_code := Some (js_trim code)\<rparr>])"
    by (simp add: wf_history_def)
  moreover have "wf_pending (map_option (\<lambda>p. p\<lparr>pc_code := js_trim code\<rparr>) (getPendingClaim ops s e sub))"
    using True wf_pending_parse [of "st_get ops s (claimKey e sub)"]
    by (auto simp: getPendingClaim_def parseClaimState_def wf_pending_def split: option.splits)
  ultimately show ?thesis
    using True by (simp add: claim_ok_def parse_setLatestClaimConfirmationCode [OF assms] Let_def wf_state_def)
next
  case False
  then have "parseClaimState (st_get ops (setLatestClaimConfirmationCode ops s e sub code) (claimKey e' sub'))
      = parseClaimState (st_get ops s (claimKey e' sub'))"
    unfolding parse_setLatestClaimConfirmationCode [OF assms] Let_def by (simp only: if_False)
  then show ?thesis using assms(2) [of e' sub'] by (simp add: claim_ok_def)
qed

lemma ok_setLatest: "ok s \<Longrightarrow> ok (setLatestClaimConfirmationCode ops s e sub code)"
  by (simp add: setLatestClaimConfirmationCode_def Let_def ok_putSerialized)

end

section \<open>Policies of events\<close>

definition eventPolicy :: "'s IClaimStorage \<Rightarrow> 's \<Rightarrow> string \<Rightarrow> ClaimPolicy option" where
  "eventPolicy ops s eventId = map_option resolveClaimPolicy (getEvent ops s eventId)"

lemma resolveClaimPolicy_cong:
  "jget a ''claimIntervalDays'' = jget b ''claimIntervalDays'' \<Longrightarrow>
   jget a ''maxClaimsPerInterval'' = jget b ''maxClaimsPerInterval'' \<Longrightarrow>
   resolveClaimPolicy a = resolveClaimPolicy b"
  by (simp only: resolveClaimPolicy_def)

lemma policy_days_pos: "cp_claimIntervalDays (resolveClaimPolicy v) > 0"
  by (auto simp: resolveClaimPolicy_def Let_def DEFAULT_CLAIM_INTERVAL_DAYS_def parsePositiveInt_pos
      split: option.splits)

lemma policy_max_pos: "cp_maxClaimsPerInterval (resolveClaimPolicy v) = Some m \<Longrightarrow> m > 0"
  by (auto simp: resolveClaimPolicy_def Let_def DEFAULT_MAX_CLAIMS_PER_INTERVAL_def parsePositiveInt_pos
      split: option.splits if_splits)

text \<open>Writing a resolved policy back into an event and resolving again gives the same policy.\<close>

lemma resolveClaimPolicy_policyFields:
  assumes "jget w ''claimIntervalDays'' = jget (JObj (policyFields (resolveClaimPolicy v))) ''claimIntervalDays''"
    and "jget w ''maxClaimsPerInterval'' = jget (JObj (policyFields (resolveClaimPolicy v))) ''maxClaimsPerInterval''"
  shows "resolveClaimPolicy w = resolveClaimPolicy v"
proof -
  let ?p = "resolveClaimPolicy v"
  have d: "cp_claimIntervalDays ?p > 0" by (rule policy_days_pos)
  show ?thesis
  proof (cases "cp_maxClaimsPerInterval ?p")
    case None
    then show ?thesis
      using assms d by (subst resolveClaimPolicy_def) (simp add: policyFields_def)
  next
    case (Some m)
    then have "m > 0" by (rule policy_max_pos)
    with Some show ?thesis
      using assms d by (subst resolveClaimPolicy_def) (simp add: policyFields_def)
  qed
qed

lemma resolveClaimPolicy_withPolicyAndCount [simp]:
  "resolveClaimPolicy (withPolicyAndCount ops s event e) = resolveClaimPolicy event"
  by (rule resolveClaimPolicy_policyFields) (simp_all add: withPolicyAndCount_def jget_jspread policyFields_def)

lemma eventPolicy_eq:
  "eventPolicy ops s e =
     (let stored = st_get ops s (eventKey e) in
      if isEventObject stored then Some (resolveClaimPolicy stored)
      else map_option resolveClaimPolicy (find (\<lambda>ev. jget ev ''id'' = JStr e) SEED_EVENTS))"
  by (auto simp: eventPolicy_def getEvent_def Let_def split: option.splits)

lemma keys_disjoint [simp]: "claimKey e sub \<noteq> eventKey e'" "eventKey e' \<noteq> claimKey e sub"
  by (simp_all add: claimKey_def eventKey_def CLAIM_PREFIX_def EVENT_PREFIX_def)

lemma eventKey_inj [simp]: "eventKey a = eventKey b \<longleftrightarrow> a = b"
  by (simp add: eventKey_def)

lemma jget_dropProp: "jget (dropProp k v) x = (if x = k then JUndef else jget v x)"
  by (cases v) (simp_all add: dropProp_def map_of_filter_key)

lemma resolveClaimPolicy_dropProp_state [simp]:
  "resolveClaimPolicy (jspread (dropProp ''claimedCount'' v) [(''state'', st)]) = resolveClaimPolicy v"
  by (rule resolveClaimPolicy_cong) (simp_all add: jget_jspread jget_dropProp)

lemma isEventObject_withPolicy:
  "isEventObject v \<Longrightarrow> isEventObject (withPolicyAndCount ops s v e)"
  by (cases v) (auto simp: isEventObject_def withPolicyAndCount_def jspread_def policyFields_def)

lemma isEventObject_next:
  "isEventObject v \<Longrightarrow> isEventObject (jspread (dropProp ''claimedCount'' v) [(''state'', st)])"
  by (cases v) (auto simp: isEventObject_def jspread_def dropProp_def image_iff)

lemma isEventObject_seed: "ev \<in> set SEED_EVENTS \<Longrightarrow> isEventObject ev"
  by (auto simp: SEED_EVENTS_def isEventObject_def)

lemma isEventObject_getEvent: "getEvent ops s e = Some ev \<Longrightarrow> isEventObject ev"
  by (auto simp: getEvent_def Let_def find_Some_iff isEventObject_withPolicy isEventObject_seed
      split: if_splits option.splits)

lemma isEventObject_defined: "isEventObject v \<Longrightarrow> v \<noteq> JUndef"
  by (auto simp: isEventObject_def)

context claim_storage
begin

lemma eventPolicy_putSerialized:
  "ok s \<Longrightarrow> eventPolicy ops (putSerialized ops s (claimKey e' sub) v) e = eventPolicy ops s e"
  by (simp add: eventPolicy_eq putSerialized_def get_put)

lemma eventPolicy_claim_ops:
  assumes "ok s"
  shows "eventPolicy ops (addClaim ops s e' sub code now) e = eventPolicy ops s e"
    and "eventPolicy ops (resolvePendingClaim ops s e' sub rc) e = eventPolicy ops s e"
    and "eventPolicy ops (setLatestClaimConfirmationCode ops s e' sub c) e = eventPolicy ops s e"
  using assms
  by (simp_all add: addClaim_def resolvePendingClaim_def setLatestClaimConfirmationCode_def Let_def
      eventPolicy_putSerialized split: option.splits)

text \<open>Publishing, closing or reopening an event keeps its policy and every other event.\<close>

lemma eventPolicy_updateEventState:
  assumes "ok s"
  shows "eventPolicy ops (fst (updateEventState ops s e' st)) e = eventPolicy ops s e"
proof (cases "getEvent ops s e'")
  case None
  then show ?thesis by (simp add: updateEventState_def)
next
  case (Some ev)
  let ?next = "jspread (dropProp ''claimedCount'' ev) [(''state'', JStr st)]"
  have o: "isEventObject ?next" using isEventObject_getEvent [OF Some] by (rule isEventObject_next)
  have "eventPolicy ops s e' = Some (resolveClaimPolicy ev)"
    using Some by (simp add: eventPolicy_def)
  with o assms Some show ?thesis
    by (auto simp: updateEventState_def Let_def eventPolicy_eq get_put isEventObject_defined)
qed

lemma get_updateEventState_claim:
  assumes "ok s"
  shows "st_get ops (fst (updateEventState ops s e' st)) (claimKey e sub) = st_get ops s (claimKey e sub)"
    and "ok (fst (updateEventState ops s e' st))"
proof -
  have "getEvent ops s e' = Some ev \<Longrightarrow>
      jspread (dropProp ''claimedCount'' ev) [(''state'', JStr st)] \<noteq> JUndef" for ev
    by (simp add: jspread_def)
  with assms show "st_get ops (fst (updateEventState ops s e' st)) (claimKey e sub) = st_get ops s (claimKey e sub)"
    and "ok (fst (updateEventState ops s e' st))"
    by (auto simp: updateEventState_def Let_def get_put ok_put split: option.splits)
qed

end

end
