(* ===== verification/Claim_Runs.thy ===== *)
theory Claim_Runs
  imports Claim_Quota
begin

text \<open>
  Runs of the claim store under a clock that never goes back, the ghost log of recorded claims with the positions of
  those that \<open>submitClaim\<close> granted, the invariant that ties the stored histories to the log, and the properties of the
  store over the storage of the Durable Object.
\<close>

section \<open>Counting in sorted lists\<close>

lemma length_filter_mono: "(\<And>x. x \<in> set xs \<Longrightarrow> P x \<Longrightarrow> Q x) \<Longrightarrow> length (filter P xs) \<le> length (filter Q xs)"
  by (induction xs) (auto simp: le_Suc_eq)

lemma sorted_last_n_count:
  fixes ts :: "'a::linorder list"
  assumes "sorted ts"
  shows "length (filter (\<lambda>t. a \<le> t) (drop (length ts - n) ts)) = min n (length (filter (\<lambda>t. a \<le> t) ts))"
proof -
  define us where "us = takeWhile (\<lambda>t. t < a) ts"
  define vs where "vs = dropWhile (\<lambda>t. t < a) ts"
  have ts: "ts = us @ vs" by (simp add: us_def vs_def)
  have "vs = filter (\<lambda>t. a \<le> t) ts"
    using sorted_filter_ge [of "\<lambda>t. t" ts a] assms by (simp add: vs_def)
  then have ge: "\<forall>t \<in> set vs. a \<le> t" by auto
  have lt: "\<forall>t \<in> set us. \<not> a \<le> t" by (auto simp: us_def dest: set_takeWhileD)
  have "filter (\<lambda>t. a \<le> t) (drop i ts) = drop (i - length us) vs" for i
  proof -
    have "filter (\<lambda>t. a \<le> t) (drop i us) = []"
      using lt by (auto simp: filter_empty_conv dest: in_set_dropD)
    moreover have "filter (\<lambda>t. a \<le> t) (drop j vs) = drop j vs" for j
      using ge by (auto simp: filter_id_conv dest: in_set_dropD)
    ultimately show ?thesis by (simp add: ts)
  qed
  from this [of "length ts - n"] this [of 0] show ?thesis
    by (simp add: ts)
qed

section \<open>Runs\<close>

record 's claim_run =
  cr_store :: 's
  cr_clock :: int
  cr_log :: "(string \<times> string \<times> int) list"  \<comment> \<open>event, subject and time of each recorded claim\<close>
  cr_grants :: "nat list"  \<comment> \<open>the positions in the log of the claims that \<open>submitClaim\<close> granted\<close>

definition claimTarget :: "js \<Rightarrow> (string \<times> string) option" where
  "claimTarget body =
     (case normalizeSubject (string_field (jget body ''walletAddress'')) (string_field (jget body ''joinToken'')) of
        None \<Rightarrow> None
      | Some subject \<Rightarrow>
          Some ((case string_field (jget body ''eventId'') of Some e \<Rightarrow> js_trim e | None \<Rightarrow> []), subject))"

fun accepted :: "SchoolClaimResult \<Rightarrow> bool" where
  "accepted (ClaimSuccess r) = (\<not> r_alreadyJoined r)"
| "accepted (ClaimFailure _) = False"

definition logOf :: "SchoolClaimResult \<Rightarrow> js \<Rightarrow> int \<Rightarrow> (string \<times> string \<times> int) list" where
  "logOf res body t =
     (if accepted res then (case claimTarget body of Some (e, sub) \<Rightarrow> [(e, sub, t)] | None \<Rightarrow> []) else [])"

text \<open>
  The operations of the store in any order. \<open>addClaim\<close> is also called from outside (by the request
  handlers of the worker, which check another quota first), for any event and subject and without a check. An event is created under an identifier that is not in use; \<open>createEvent\<close> takes the identifier
  from the millisecond of its creation.
\<close>

inductive claim_step :: "'s IClaimStorage \<Rightarrow> 's claim_run \<Rightarrow> 's claim_run \<Rightarrow> bool" for ops where
  submit: "cr_clock w \<le> t1 \<Longrightarrow> t1 \<le> t2 \<Longrightarrow> t2 \<le> t3 \<Longrightarrow>
     submitClaim ops (cr_store w) body code t1 t2 t3 = (s', res) \<Longrightarrow>
     claim_step ops w \<lparr>cr_store = s', cr_clock = t3, cr_log = cr_log w @ logOf res body t2,
       cr_grants = cr_grants w @ map (\<lambda>_. length (cr_log w)) (logOf res body t2)\<rparr>"
| add: "cr_clock w \<le> now \<Longrightarrow>
     claim_step ops w \<lparr>cr_store = addClaim ops (cr_store w) e sub code now, cr_clock = now, cr_log = cr_log w @ [(e, sub, now)],
       cr_grants = cr_grants w\<rparr>"
| resolve: "claim_step ops w (w\<lparr>cr_store := resolvePendingClaim ops (cr_store w) e sub rc\<rparr>)"
| complete: "claim_step ops w (w\<lparr>cr_store := setLatestClaimConfirmationCode ops (cr_store w) e sub c\<rparr>)"
| set_state: "claim_step ops w (w\<lparr>cr_store := fst (updateEventState ops (cr_store w) e st)\<rparr>)"
| create: "cr_clock w \<le> now \<Longrightarrow> createEvent ops (cr_store w) data now = (s', ev) \<Longrightarrow>
     jget ev ''id'' = JStr e \<Longrightarrow> getEvent ops (cr_store w) e = None \<Longrightarrow>
     claim_step ops w (w\<lparr>cr_store := s', cr_clock := now\<rparr>)"

inductive claim_reach :: "'s IClaimStorage \<Rightarrow> 's \<Rightarrow> int \<Rightarrow> 's claim_run \<Rightarrow> bool" for ops s0 t0 where
  start: "claim_reach ops s0 t0 \<lparr>cr_store = s0, cr_clock = t0, cr_log = [], cr_grants = []\<rparr>"
| step: "claim_reach ops s0 t0 w \<Longrightarrow> claim_step ops w w' \<Longrightarrow> claim_reach ops s0 t0 w'"

definition key_times :: "(string \<times> string \<times> int) list \<Rightarrow> string \<Rightarrow> int list" where
  "key_times lg k = map (\<lambda>(e, sub, t). t) (filter (\<lambda>(e, sub, t). claimKey e sub = k) lg)"

definition granted :: "(string \<times> string \<times> int) list \<Rightarrow> string \<Rightarrow> string \<Rightarrow> int list" where
  "granted lg e sub = map (\<lambda>(e', sub', t). t) (filter (\<lambda>(e', sub', t). e' = e \<and> sub' = sub) lg)"

text \<open>The granted claims of a subject that fall into the closed interval of the policy's length.\<close>

definition grantedWithin :: "(string \<times> string \<times> int) list \<Rightarrow> string \<Rightarrow> string \<Rightarrow> int \<Rightarrow> int \<Rightarrow> nat" where
  "grantedWithin lg e sub a len = length (filter (\<lambda>t. a \<le> t \<and> t \<le> a + len) (granted lg e sub))"

definition submittedWithin :: "'s claim_run \<Rightarrow> string \<Rightarrow> string \<Rightarrow> int \<Rightarrow> int \<Rightarrow> nat" where
  "submittedWithin w e sub a len =
     length (filter (\<lambda>i. case cr_log w ! i of (e', sub', t) \<Rightarrow> e' = e \<and> sub' = sub \<and> a \<le> t \<and> t \<le> a + len) (cr_grants w))"

text \<open>When \<open>submitClaim\<close> granted a claim, the claims recorded before it left room in the interval that ends with it.\<close>

definition grant_ok :: "'s IClaimStorage \<Rightarrow> 's \<Rightarrow> (string \<times> string \<times> int) list \<Rightarrow> nat \<Rightarrow> bool" where
  "grant_ok ops s lg i \<longleftrightarrow> i < length lg \<and>
     (case lg ! i of (e, sub, t) \<Rightarrow> \<exists>p. eventPolicy ops s e = Some p \<and>
        (\<forall>m. cp_maxClaimsPerInterval p = Some m \<longrightarrow> m \<le> int MAX_STORED_CLAIM_HISTORY \<longrightarrow>
           int (grantedWithin (take i lg) e sub (t - claimWindowMs p) (claimWindowMs p)) < m))"

definition quota_ok :: "'s IClaimStorage \<Rightarrow> 's claim_run \<Rightarrow> bool" where
  "quota_ok ops w \<longleftrightarrow> sorted_wrt (<) (cr_grants w) \<and> list_all (grant_ok ops (cr_store w) (cr_log w)) (cr_grants w)"

definition run_inv :: "'s IClaimStorage \<Rightarrow> ('s \<Rightarrow> bool) \<Rightarrow> 's claim_run \<Rightarrow> bool" where
  "run_inv ops ok w =
     (ok (cr_store w) \<and> cr_clock w > 0
      \<and> (\<forall>e sub. claim_ok (st_get ops (cr_store w) (claimKey e sub)))
      \<and> (\<forall>e sub. map ch_at (getClaimHistory ops (cr_store w) e sub)
             = (let ts = key_times (cr_log w) (claimKey e sub) in drop (length ts - MAX_STORED_CLAIM_HISTORY) ts))
      \<and> sorted (map (\<lambda>(e, sub, t). t) (cr_log w))
      \<and> (\<forall>(e, sub, t) \<in> set (cr_log w). t \<le> cr_clock w)
      \<and> quota_ok ops w)"

lemma sorted_key_times: "sorted (map (\<lambda>(e, sub, t). t) lg) \<Longrightarrow> sorted (key_times lg k)"
  unfolding key_times_def by (rule sorted_filter)

lemma key_times_append [simp]: "key_times (lg @ lg') k = key_times lg k @ key_times lg' k"
  by (simp add: key_times_def)

lemma granted_le_key_times:
  "length (filter P (granted lg e sub)) \<le> length (filter P (key_times lg (claimKey e sub)))"
  unfolding granted_def key_times_def filter_map length_map filter_filter
  by (rule length_filter_mono) auto

section \<open>Submitting a claim\<close>

definition claimEventId :: "js \<Rightarrow> string" where
  "claimEventId body = (case string_field (jget body ''eventId'') of Some e \<Rightarrow> js_trim e | None \<Rightarrow> [])"

text \<open>The four ways a submission can end, without the details of the result.\<close>

lemma submitClaim_cases:
  obtains
    (failed) code where "submitClaim ops s body cc t1 t2 t3 = (s, ClaimFailure code)"
  | (repeated) e sub ev r where "claimTarget body = Some (e, sub)" "getEvent ops s e = Some ev"
      "\<not> al_allowed (checkClaimAllowance ops s e sub ev t1)"
      "submitClaim ops s body cc t1 t2 t3 = (s, ClaimSuccess r)" "r_alreadyJoined r"
  | (granted) e sub ev r where "claimTarget body = Some (e, sub)" "getEvent ops s e = Some ev"
      "al_allowed (checkClaimAllowance ops s e sub ev t1)"
      "submitClaim ops s body cc t1 t2 t3 = (addClaim ops s e sub cc t2, ClaimSuccess r)" "\<not> r_alreadyJoined r"
proof -
  let ?e = "claimEventId body"
  let ?sub = "normalizeSubject (string_field (jget body ''walletAddress'')) (string_field (jget body ''joinToken''))"
  note d = submitClaim_def [of ops s body cc t1 t2 t3, folded claimEventId_def, unfolded Let_def]
  show thesis
  proof (cases "?e = []")
    case True
    show thesis by (rule failed [of Err_invalid]) (simp only: d if_P [OF True])
  next
    case False
    note ne = False
    show thesis
    proof (cases "getEvent ops s ?e")
      case None
      show thesis by (rule failed [of Err_not_found]) (simp only: d ne if_False None option.case)
    next
      case (Some ev)
      note ev = Some
      show thesis
      proof (cases "truthy (jget ev ''state'') \<and> jget ev ''state'' \<noteq> JStr ''published''")
        case True
        show thesis
          by (rule failed [of Err_eligibility]) (simp only: d ne if_False ev option.case if_P [OF True])
      next
        case False
        note st = if_not_P [OF False]
        show thesis
        proof (cases ?sub)
          case None
          show thesis
            by (rule failed [of Err_wallet_required]) (simp only: d ne if_False ev option.case st None)
        next
          case (Some sub)
          have target: "claimTarget body = Some (?e, sub)"
            by (simp add: claimTarget_def claimEventId_def Some)
          show thesis
          proof (cases "al_allowed (checkClaimAllowance ops s ?e sub ev t1)")
            case True
            then have nn: "\<not> \<not> al_allowed (checkClaimAllowance ops s ?e sub ev t1)" by simp
            note r = d [unfolded if_not_P [OF ne] ev option.case st Some if_not_P [OF nn]]
            show thesis by (rule granted [OF target ev True r]) simp
          next
            case False
            note r = d [unfolded if_not_P [OF ne] ev option.case st Some if_P [OF False]]
            show thesis by (rule repeated [OF target ev False r]) simp
          qed
        qed
      qed
    qed
  qed
qed

lemma submitClaim_accepted:
  assumes "submitClaim ops s body code t1 t2 t3 = (s', res)" "accepted res"
  obtains e sub ev where "claimTarget body = Some (e, sub)" "getEvent ops s e = Some ev"
    "al_allowed (checkClaimAllowance ops s e sub ev t1)" "s' = addClaim ops s e sub code t2"
proof (cases rule: submitClaim_cases [of ops s body code t1 t2 t3])
  case (granted e sub ev r)
  then show ?thesis using assms by (intro that [OF granted(1-3)]) simp
qed (use assms in auto)

lemma submitClaim_refused:
  assumes "submitClaim ops s body code t1 t2 t3 = (s', res)" "\<not> accepted res"
  shows "s' = s"
  using assms by (cases rule: submitClaim_cases [of ops s body code t1 t2 t3]) auto

lemma canClaimNow_iff:
  "q_canClaimNow (buildClaimQuotaStatus h ev now) \<longleftrightarrow>
     (case cp_maxClaimsPerInterval (resolveClaimPolicy ev) of
        None \<Rightarrow> True
      | Some m \<Rightarrow> int (length (inWindow h (now - claimWindowMs (resolveClaimPolicy ev)))) < m)"
  by (simp add: buildClaimQuotaStatus_def Let_def split: option.splits) linarith

lemma length_inWindow: "length (inWindow h a) = length (filter (\<lambda>t. a \<le> t) (map ch_at h))"
  by (simp add: inWindow_def filter_map o_def)

section \<open>Every step keeps the invariant\<close>

lemma claim_stepE_policy_pos:
  "eventPolicy ops s e = Some p \<Longrightarrow> cp_maxClaimsPerInterval p = Some m \<Longrightarrow> m > 0"
  by (auto simp: eventPolicy_def dest: policy_max_pos)

lemma grantedWithin_eq:
  "grantedWithin lg e sub a len = length (filter (\<lambda>(e', sub', t). e' = e \<and> sub' = sub \<and> a \<le> t \<and> t \<le> a + len) lg)"
  by (auto simp: grantedWithin_def granted_def filter_map o_def case_prod_beta intro!: arg_cong [of _ _ length] filter_cong)

lemma grant_ok_mono:
  assumes "grant_ok ops s lg i" "\<And>e. eventPolicy ops s e \<noteq> None \<Longrightarrow> eventPolicy ops s' e = eventPolicy ops s e"
  shows "grant_ok ops s' (lg @ lg') i"
proof -
  obtain e sub t where l: "lg ! i = (e, sub, t)" by (cases "lg ! i")
  have "i < length lg" using assms(1) by (simp add: grant_ok_def)
  moreover have "eventPolicy ops s' e = eventPolicy ops s e" using assms l by (auto simp: grant_ok_def)
  ultimately show ?thesis using assms(1) by (auto simp: grant_ok_def nth_append l)
qed

lemma quota_ok_mono:
  assumes "quota_ok ops w" "\<And>e. eventPolicy ops (cr_store w) e \<noteq> None \<Longrightarrow> eventPolicy ops s' e = eventPolicy ops (cr_store w) e"
  shows "quota_ok ops \<lparr>cr_store = s', cr_clock = t, cr_log = cr_log w @ lg, cr_grants = cr_grants w\<rparr>"
  using assms grant_ok_mono [of ops "cr_store w" "cr_log w" _ s' lg] by (auto simp: quota_ok_def list_all_iff)

text \<open>
  The granted claims of an interval: the last of them left room for itself, and the others lie in the interval that
  ends with it.
\<close>

lemma submitted_bound:
  assumes q: "quota_ok ops w" and srt: "sorted (map (\<lambda>(e, sub, t). t) (cr_log w))"
    and p: "eventPolicy ops (cr_store w) e = Some p" "cp_maxClaimsPerInterval p = Some m" "m \<le> int MAX_STORED_CLAIM_HISTORY"
  shows "int (submittedWithin w e sub a (claimWindowMs p)) \<le> m"
proof -
  let ?W = "claimWindowMs p" and ?lg = "cr_log w"
  let ?P = "\<lambda>i. case ?lg ! i of (e', sub', t) \<Rightarrow> e' = e \<and> sub' = sub \<and> a \<le> t \<and> t \<le> a + ?W"
  define js where "js = filter ?P (cr_grants w)"
  have inc: "sorted_wrt (<) js" using q by (simp add: js_def quota_ok_def sorted_wrt_filter)
  show ?thesis
  proof (cases "js = []")
    case True
    then show ?thesis using claim_stepE_policy_pos [OF p(1,2)] by (simp add: submittedWithin_def js_def)
  next
    case False
    let ?i = "last js"
    have js: "js = butlast js @ [?i]" using False by simp
    have i: "?i \<in> set (cr_grants w)" "?P ?i" using last_in_set [OF False] by (auto simp: js_def)
    obtain t where t: "?lg ! ?i = (e, sub, t)" "a \<le> t" "t \<le> a + ?W" using i(2) by (cases "?lg ! ?i") auto
    have g: "?i < length ?lg" "int (grantedWithin (take ?i ?lg) e sub (t - ?W) ?W) < m"
      using q i(1) p t(1) by (auto simp: quota_ok_def list_all_iff grant_ok_def)
    have before: "j < ?i \<and> (case ?lg ! j of (e', sub', x) \<Rightarrow> e' = e \<and> sub' = sub \<and> t - ?W \<le> x \<and> x \<le> t)" if "j \<in> set (butlast js)" for j
    proof -
      have lt: "j < ?i" using inc that by (subst (asm) js) (auto simp: sorted_wrt_append)
      have "?P j" using that in_set_butlastD [of j js] by (auto simp: js_def)
      moreover have "(case ?lg ! j of (e', sub', x) \<Rightarrow> x) \<le> (case ?lg ! ?i of (e', sub', x) \<Rightarrow> x)"
        using sorted_nth_mono [OF srt, of j ?i] lt g(1) by simp
      ultimately show ?thesis using lt t by (auto split: prod.splits)
    qed
    have "length (butlast js) = card (set (butlast js))"
      using inc by (metis distinct_butlast distinct_card strict_sorted_iff)
    also have "\<dots> \<le> card {j. j < length (take ?i ?lg) \<and>
        (case take ?i ?lg ! j of (e', sub', x) \<Rightarrow> e' = e \<and> sub' = sub \<and> t - ?W \<le> x \<and> x \<le> t - ?W + ?W)}"
      using before g(1) by (intro card_mono) (auto simp: case_prod_beta)
    also have "\<dots> = grantedWithin (take ?i ?lg) e sub (t - ?W) ?W"
      unfolding grantedWithin_eq by (simp add: length_filter_conv_card)
    finally have "int (length (butlast js)) < m" using g(2) by linarith
    then have "int (length js) \<le> m" by simp
    then show ?thesis by (simp add: submittedWithin_def js_def)
  qed
qed

text \<open>
  A storage change that keeps every claim time and the policy of every known event keeps the
  invariant.
\<close>

lemma run_inv_frame:
  assumes inv: "run_inv ops ok w" and s': "ok s'"
    and cl: "\<And>e sub. claim_ok (st_get ops s' (claimKey e sub))"
    and tm: "\<And>e sub. map ch_at (getClaimHistory ops s' e sub) = map ch_at (getClaimHistory ops (cr_store w) e sub)"
    and pol: "\<And>e. eventPolicy ops (cr_store w) e \<noteq> None \<Longrightarrow> eventPolicy ops s' e = eventPolicy ops (cr_store w) e"
    and clk: "cr_clock w \<le> t"
  shows "run_inv ops ok \<lparr>cr_store = s', cr_clock = t, cr_log = cr_log w, cr_grants = cr_grants w\<rparr>"
proof -
  have "quota_ok ops \<lparr>cr_store = s', cr_clock = t, cr_log = cr_log w, cr_grants = cr_grants w\<rparr>"
    using quota_ok_mono [where lg = "[]" and t = t and s' = s' and ops = ops and w = w] pol inv by (simp add: run_inv_def)
  then show ?thesis using inv s' cl clk unfolding run_inv_def by (auto simp: tm)
qed

context claim_storage
begin

text \<open>
  The check counts the stored history, which is the end of the log of the key. When it admits a
  claim under a bound that the stored history can reach, the log of the key itself is below the
  bound.
\<close>

lemma allowed_count:
  assumes inv: "run_inv ops ok w" and ev: "getEvent ops (cr_store w) e = Some ev"
    and allowed: "al_allowed (checkClaimAllowance ops (cr_store w) e sub ev t1)"
    and p: "eventPolicy ops (cr_store w) e = Some p" "cp_maxClaimsPerInterval p = Some m"
      "m \<le> int MAX_STORED_CLAIM_HISTORY"
  shows "int (length (filter (\<lambda>t. t1 - claimWindowMs p \<le> t) (key_times (cr_log w) (claimKey e sub)))) < m"
proof -
  let ?ts = "key_times (cr_log w) (claimKey e sub)"
  have "p = resolveClaimPolicy ev" using p(1) ev by (simp add: eventPolicy_def)
  then have "int (length (inWindow (getClaimHistory ops (cr_store w) e sub) (t1 - claimWindowMs p))) < m"
    using allowed p(2) by (simp add: checkClaimAllowance_def Let_def canClaimNow_iff)
  moreover have "map ch_at (getClaimHistory ops (cr_store w) e sub)
      = drop (length ?ts - MAX_STORED_CLAIM_HISTORY) ?ts"
    using inv by (simp add: run_inv_def Let_def)
  moreover have "sorted ?ts" using inv by (intro sorted_key_times) (simp add: run_inv_def)
  ultimately show ?thesis
    using p(3) by (simp add: length_inWindow sorted_last_n_count)
qed

lemma history_addClaim:
  assumes inv: "run_inv ops ok w" and t: "cr_clock w \<le> t2"
  shows "map ch_at (getClaimHistory ops (addClaim ops (cr_store w) e sub code t2) e' sub')
           = (let ts = key_times (cr_log w @ [(e, sub, t2)]) (claimKey e' sub')
              in drop (length ts - MAX_STORED_CLAIM_HISTORY) ts)"
proof -
  let ?s = "cr_store w"
  have pre: "ok ?s" "claim_ok (st_get ops ?s (claimKey e sub))" "t2 > 0"
    using inv t by (auto simp: run_inv_def)
  have hist: "map ch_at (getClaimHistory ops ?s e1 sub1)
      = (let ts = key_times (cr_log w) (claimKey e1 sub1) in drop (length ts - MAX_STORED_CLAIM_HISTORY) ts)" for e1 sub1
    using inv by (simp add: run_inv_def)
  show ?thesis
  proof (cases "claimKey e' sub' = claimKey e sub")
    case False
    then show ?thesis
      using hist [of e' sub'] parse_addClaim [OF pre, of code "claimKey e' sub'"]
      by (simp add: getClaimHistory_def key_times_def)
  next
    case True
    let ?h = "getClaimHistory ops ?s e sub" and ?n = "norm_entry \<lparr>ch_at = t2, ch_code = code\<rparr>"
    have "\<forall>x \<in> set ?h. ch_at x \<le> t2"
    proof -
      have "\<forall>(a, b, x) \<in> set (cr_log w). x \<le> t2" using inv t by (auto simp: run_inv_def)
      then have "\<forall>x \<in> set (key_times (cr_log w) (claimKey e sub)). x \<le> t2"
        by (auto simp: key_times_def)
      then have "\<forall>x \<in> set (map ch_at ?h). x \<le> t2"
        unfolding hist Let_def by (auto dest: in_set_dropD)
      then show ?thesis by simp
    qed
    then have "sort_key ch_at (?h @ [?n]) = ?h @ [?n]"
      by (intro sort_append_latest) (auto simp: getClaimHistory_def parseClaimState_def sorted_parseClaimHistory)
    then have "map ch_at (appended ?h code t2)
        = drop (length (map ch_at ?h @ [t2]) - MAX_STORED_CLAIM_HISTORY) (map ch_at ?h @ [t2])"
      by (simp add: appended_def map_trimHistory)
    also have "\<dots> = (let ts = key_times (cr_log w) (claimKey e sub) @ [t2]
        in drop (length ts - MAX_STORED_CLAIM_HISTORY) ts)"
      unfolding hist [of e sub] Let_def by (rule last_n_snoc) (simp add: MAX_STORED_CLAIM_HISTORY_def)
    finally have "map ch_at (appended ?h code t2) = \<dots>" .
    moreover have "getClaimHistory ops (addClaim ops ?s e sub code t2) e' sub' = appended ?h code t2"
      using parse_addClaim [OF pre, of code "claimKey e sub"]
      unfolding getClaimHistory_def [of _ _ e' sub'] True by simp
    moreover have "key_times [(e, sub, t2)] (claimKey e sub) = [t2]" by (simp add: key_times_def)
    ultimately show ?thesis by (simp only: True key_times_append)
  qed
qed

lemma quota_after_accept:
  assumes inv: "run_inv ops ok w" and t: "cr_clock w \<le> t1" "t1 \<le> t2"
    and ev: "getEvent ops (cr_store w) e = Some ev"
    and allowed: "al_allowed (checkClaimAllowance ops (cr_store w) e sub ev t1)"
  shows "grant_ok ops (cr_store w) (cr_log w @ [(e, sub, t2)]) (length (cr_log w))"
proof -
  obtain p where p: "eventPolicy ops (cr_store w) e = Some p" using ev by (simp add: eventPolicy_def)
  have "int (grantedWithin (cr_log w) e sub (t2 - claimWindowMs p) (claimWindowMs p)) < m"
    if m: "cp_maxClaimsPerInterval p = Some m" "m \<le> int MAX_STORED_CLAIM_HISTORY" for m
  proof -
    have "grantedWithin (cr_log w) e sub (t2 - claimWindowMs p) (claimWindowMs p)
        \<le> length (filter (\<lambda>t. t1 - claimWindowMs p \<le> t) (granted (cr_log w) e sub))"
      unfolding grantedWithin_def using t(2) by (intro length_filter_mono) auto
    also have "\<dots> \<le> length (filter (\<lambda>t. t1 - claimWindowMs p \<le> t) (key_times (cr_log w) (claimKey e sub)))"
      by (rule granted_le_key_times)
    finally show ?thesis using allowed_count [OF inv ev allowed p m] by simp
  qed
  then show ?thesis using p by (simp add: grant_ok_def nth_append)
qed

text \<open>Recording a claim, granted or not.\<close>

lemma run_inv_add:
  assumes inv: "run_inv ops ok w" and t: "cr_clock w \<le> t2" "t2 \<le> t3"
    and g: "gs = cr_grants w \<or> gs = cr_grants w @ [length (cr_log w)]
      \<and> grant_ok ops (cr_store w) (cr_log w @ [(e, sub, t2)]) (length (cr_log w))"
  shows "run_inv ops ok \<lparr>cr_store = addClaim ops (cr_store w) e sub code t2, cr_clock = t3, cr_log = cr_log w @ [(e, sub, t2)],
    cr_grants = gs\<rparr>"
proof -
  let ?s' = "addClaim ops (cr_store w) e sub code t2"
  have pre: "ok (cr_store w)" "\<forall>e sub. claim_ok (st_get ops (cr_store w) (claimKey e sub))" "t2 > 0"
    using inv t by (auto simp: run_inv_def)
  have pol: "eventPolicy ops ?s' e' = eventPolicy ops (cr_store w) e'" for e'
    using pre(1) by (simp add: eventPolicy_claim_ops)
  have q: "quota_ok ops w" using inv by (simp add: run_inv_def)
  then have "quota_ok ops \<lparr>cr_store = ?s', cr_clock = t3, cr_log = cr_log w @ [(e, sub, t2)], cr_grants = gs\<rparr>"
  proof (cases "gs = cr_grants w")
    case True
    then show ?thesis using quota_ok_mono [OF q, of ?s'] pol by simp
  next
    case False
    then have gs: "gs = cr_grants w @ [length (cr_log w)]"
      "grant_ok ops ?s' (cr_log w @ [(e, sub, t2)]) (length (cr_log w))"
      using g grant_ok_mono [of ops "cr_store w" "cr_log w @ [(e, sub, t2)]" "length (cr_log w)" ?s' "[]"] pol by auto
    have "\<forall>i \<in> set (cr_grants w). i < length (cr_log w)" using q by (auto simp: quota_ok_def list_all_iff grant_ok_def)
    then show ?thesis
      using quota_ok_mono [OF q, of ?s'] pol gs by (auto simp: quota_ok_def sorted_wrt_append)
  qed
  moreover have "\<forall>x \<in> set (map (\<lambda>(e, sub, t). t) (cr_log w)). x \<le> t2" "\<forall>(e', sub', x) \<in> set (cr_log w). x \<le> t3"
    using inv t by (auto simp: run_inv_def)
  ultimately show ?thesis
    using pre t inv unfolding run_inv_def
    by (simp add: ok_addClaim claim_ok_addClaim history_addClaim [OF inv] sorted_append case_prod_beta)
qed

lemma run_inv_submit:
  assumes inv: "run_inv ops ok w" and t: "cr_clock w \<le> t1" "t1 \<le> t2" "t2 \<le> t3"
    and sub: "submitClaim ops (cr_store w) body code t1 t2 t3 = (s', res)"
  shows "run_inv ops ok \<lparr>cr_store = s', cr_clock = t3, cr_log = cr_log w @ logOf res body t2,
    cr_grants = cr_grants w @ map (\<lambda>_. length (cr_log w)) (logOf res body t2)\<rparr>"
proof (cases "accepted res")
  case False
  then have "s' = cr_store w" using sub by (auto dest: submitClaim_refused)
  then show ?thesis
    using False t run_inv_frame [OF inv, of s' t3] inv by (auto simp: logOf_def run_inv_def)
next
  case True
  with sub obtain e sub ev where a: "claimTarget body = Some (e, sub)" "getEvent ops (cr_store w) e = Some ev"
      "al_allowed (checkClaimAllowance ops (cr_store w) e sub ev t1)" "s' = addClaim ops (cr_store w) e sub code t2"
    by (rule submitClaim_accepted)
  have lg: "logOf res body t2 = [(e, sub, t2)]" using True a(1) by (simp add: logOf_def)
  show ?thesis
    unfolding lg a(4) using quota_after_accept [OF inv t(1,2) a(2,3)] t by (intro run_inv_add [OF inv]) auto
qed

lemma run_inv_create:
  assumes inv: "run_inv ops ok w" and t: "cr_clock w \<le> now"
    and c: "createEvent ops (cr_store w) data now = (s', ev)" "jget ev ''id'' = JStr e"
      "getEvent ops (cr_store w) e = None"
  shows "run_inv ops ok \<lparr>cr_store = s', cr_clock = now, cr_log = cr_log w, cr_grants = cr_grants w\<rparr>"
proof -
  from c(1,2) obtain v where s': "s' = st_put ops (cr_store w) (eventKey e) v" "v \<noteq> JUndef" "isEventObject v"
    by (auto simp: createEvent_def Let_def isEventObject_def)
  have pre: "ok (cr_store w)" "\<forall>e sub. claim_ok (st_get ops (cr_store w) (claimKey e sub))"
    using inv by (auto simp: run_inv_def)
  have same: "st_get ops s' (claimKey e1 sub1) = st_get ops (cr_store w) (claimKey e1 sub1)" for e1 sub1
    using pre(1) by (simp add: s' get_put)
  have "eventPolicy ops s' e1 = eventPolicy ops (cr_store w) e1" if "eventPolicy ops (cr_store w) e1 \<noteq> None" for e1
  proof -
    from that c(3) have "e1 \<noteq> e" by (auto simp: eventPolicy_def)
    then show ?thesis using pre(1) s' by (simp add: eventPolicy_eq get_put)
  qed
  then show ?thesis
    using pre t s' by (intro run_inv_frame [OF inv]) (auto simp: get_put getClaimHistory_def ok_put)
qed

lemma run_inv_step:
  assumes "claim_step ops w w'" "run_inv ops ok w"
  shows "run_inv ops ok w'"
  using assms
proof (induction rule: claim_step.induct)
  case (submit w t1 t2 t3 body code s' res)
  then show ?case by (intro run_inv_submit)
next
  case (add w now e sub code)
  then show ?case by (intro run_inv_add) auto
next
  case (resolve w e sub rc)
  then have "ok (cr_store w)" "\<forall>e sub. claim_ok (st_get ops (cr_store w) (claimKey e sub))"
    by (auto simp: run_inv_def)
  then have "run_inv ops ok \<lparr>cr_store = resolvePendingClaim ops (cr_store w) e sub rc,
      cr_clock = cr_clock w, cr_log = cr_log w, cr_grants = cr_grants w\<rparr>"
    by (intro run_inv_frame [OF resolve])
       (auto simp: ok_resolvePendingClaim claim_ok_def parse_resolvePendingClaim getClaimHistory_def
          eventPolicy_claim_ops wf_state_def wf_pending_def)
  then show ?case by (cases w) simp
next
  case (complete w e sub c)
  then have pre: "ok (cr_store w)" "\<And>e sub. claim_ok (st_get ops (cr_store w) (claimKey e sub))"
    by (auto simp: run_inv_def)
  have "run_inv ops ok \<lparr>cr_store = setLatestClaimConfirmationCode ops (cr_store w) e sub c,
      cr_clock = cr_clock w, cr_log = cr_log w, cr_grants = cr_grants w\<rparr>"
  proof (rule run_inv_frame [OF complete])
    fix e' sub'
    show "claim_ok (st_get ops (setLatestClaimConfirmationCode ops (cr_store w) e sub c) (claimKey e' sub'))"
      using pre by (rule claim_ok_setLatest)
    show "map ch_at (getClaimHistory ops (setLatestClaimConfirmationCode ops (cr_store w) e sub c) e' sub')
        = map ch_at (getClaimHistory ops (cr_store w) e' sub')"
      using pre by (rule times_setLatest)
  qed (simp_all add: pre ok_setLatest eventPolicy_claim_ops)
  then show ?case by (cases w) simp
next
  case (set_state w e st)
  then have pre: "ok (cr_store w)" "\<forall>e sub. claim_ok (st_get ops (cr_store w) (claimKey e sub))"
    by (auto simp: run_inv_def)
  then have "run_inv ops ok \<lparr>cr_store = fst (updateEventState ops (cr_store w) e st),
      cr_clock = cr_clock w, cr_log = cr_log w, cr_grants = cr_grants w\<rparr>"
    by (intro run_inv_frame [OF set_state])
       (auto simp: get_updateEventState_claim getClaimHistory_def eventPolicy_updateEventState)
  then show ?case by (cases w) simp
next
  case (create w now data s' ev e)
  then have "run_inv ops ok \<lparr>cr_store = s', cr_clock = now, cr_log = cr_log w, cr_grants = cr_grants w\<rparr>"
    by (intro run_inv_create)
  then show ?case by (cases w) simp
qed

lemma run_inv_start:
  assumes "ok s0" "t0 > 0" "\<And>e sub. st_get ops s0 (claimKey e sub) = JUndef"
  shows "run_inv ops ok \<lparr>cr_store = s0, cr_clock = t0, cr_log = [], cr_grants = []\<rparr>"
  using assms
  by (auto simp: run_inv_def getClaimHistory_def parseClaimState_def parseClaimHistory_def key_times_def
      quota_ok_def)

theorem run_inv_reach:
  assumes "claim_reach ops s0 t0 w" "ok s0" "t0 > 0" "\<And>e sub. st_get ops s0 (claimKey e sub) = JUndef"
  shows "run_inv ops ok w"
  using assms by (induction rule: claim_reach.induct) (auto intro: run_inv_start run_inv_step)

lemma quota_reach:
  assumes "claim_reach ops s0 t0 w" "ok s0" "t0 > 0" "\<And>e sub. st_get ops s0 (claimKey e sub) = JUndef"
    and "eventPolicy ops (cr_store w) e = Some p" "cp_maxClaimsPerInterval p = Some m"
      "m \<le> int MAX_STORED_CLAIM_HISTORY"
  shows "int (submittedWithin w e sub a (claimWindowMs p)) \<le> m"
    and "i \<in> set (cr_grants w) \<Longrightarrow> cr_log w ! i = (e, sub, t) \<Longrightarrow>
      int (grantedWithin (take (Suc i) (cr_log w)) e sub (t - claimWindowMs p) (claimWindowMs p)) \<le> m"
proof -
  have inv: "quota_ok ops w" "sorted (map (\<lambda>(e, sub, t). t) (cr_log w))"
    using run_inv_reach [OF assms(1-4)] by (simp_all add: run_inv_def)
  show "int (submittedWithin w e sub a (claimWindowMs p)) \<le> m" by (rule submitted_bound [OF inv assms(5-7)])
  show "int (grantedWithin (take (Suc i) (cr_log w)) e sub (t - claimWindowMs p) (claimWindowMs p)) \<le> m"
    if "i \<in> set (cr_grants w)" "cr_log w ! i = (e, sub, t)"
    using that inv(1) assms(5-7) by (auto simp: quota_ok_def list_all_iff grant_ok_def grantedWithin_eq take_Suc_conv_app_nth)
qed

lemma history_length_reach:
  assumes "claim_reach ops s0 t0 w" "ok s0" "t0 > 0" "\<And>e sub. st_get ops s0 (claimKey e sub) = JUndef"
  shows "length (getClaimHistory ops (cr_store w) e sub) \<le> MAX_STORED_CLAIM_HISTORY"
proof -
  have "map ch_at (getClaimHistory ops (cr_store w) e sub)
      = (let ts = key_times (cr_log w) (claimKey e sub) in drop (length ts - MAX_STORED_CLAIM_HISTORY) ts)"
    using run_inv_reach [OF assms] by (simp add: run_inv_def)
  from arg_cong [OF this, of length] show ?thesis by (simp add: Let_def)
qed

end

section \<open>Quota arithmetic\<close>

text \<open>
  \<open>nextAvailableAt\<close> names the millisecond at which the entry that blocks the quota is exactly one
  interval old. The window is closed on the left, so at that millisecond the entry still counts.
\<close>

lemma blocked_threshold:
  assumes s: "sorted (map ch_at h)"
    and p: "cp_maxClaimsPerInterval (resolveClaimPolicy ev) = Some m"
    and n: "q_nextAvailableAt (buildClaimQuotaStatus h ev now) = Some T"
  obtains i where "i < length h" "T = ch_at (h ! i) + claimWindowMs (resolveClaimPolicy ev)"
    "int (length h - i) = m"
proof -
  let ?W = "claimWindowMs (resolveClaimPolicy ev)"
  let ?u = "inWindow h (now - ?W)"
  have m: "m > 0" using p by (rule policy_max_pos)
  have u: "?u = drop (length h - length ?u) h"
  proof -
    have "?u = dropWhile (\<lambda>x. ch_at x < now - ?W) h"
      using sorted_filter_ge [OF s] by (simp add: inWindow_def)
    then show ?thesis
      by (metis append_eq_conv_conj diff_add_inverse2 length_append takeWhile_dropWhile_id)
  qed
  have full: "m \<le> int (length ?u)"
    using n p by (auto simp: buildClaimQuotaStatus_def Let_def split: if_splits option.splits)
  let ?i = "nat (int (length ?u) - m)"
  have T: "T = ch_at (?u ! ?i) + ?W"
    using n p full m
    by (auto simp: buildClaimQuotaStatus_def Let_def max_def split: if_splits option.splits)
  have le: "length ?u \<le> length h" by (simp add: inWindow_def)
  have "?u ! ?i = h ! (length h - length ?u + ?i)"
    using le by (subst u) simp
  then show thesis
    using T full m le by (intro that [of "length h - length ?u + ?i"]) auto
qed

lemma inWindow_from:
  assumes "sorted (map ch_at h)" "i < length h"
  shows "length h - i \<le> length (inWindow h (ch_at (h ! i)))"
    and "length (inWindow h (ch_at (h ! i) + 1)) < length h - i"
proof -
  have split: "inWindow h a = inWindow (take i h) a @ inWindow (drop i h) a" for a
    by (simp add: inWindow_def flip: filter_append)
  have mono: "ch_at (h ! j) \<le> ch_at (h ! k)" if "j \<le> k" "k < length h" for j k
    using sorted_nth_mono [OF assms(1), of j k] that by simp
  have ge: "\<forall>x \<in> set (drop i h). ch_at (h ! i) \<le> ch_at x"
    using assms(2) by (auto simp: in_set_conv_nth intro!: mono)
  then have "inWindow (drop i h) (ch_at (h ! i)) = drop i h" by (simp add: inWindow_def filter_id_conv)
  then show "length h - i \<le> length (inWindow h (ch_at (h ! i)))" by (simp add: split)
  have "\<forall>x \<in> set (take i h). ch_at x \<le> ch_at (h ! i)"
    using assms(2) by (auto simp: in_set_conv_nth intro!: mono)
  then have "inWindow (take i h) (ch_at (h ! i) + 1) = []"
    by (auto simp: inWindow_def filter_empty_conv)
  moreover have "drop i h = h ! i # drop (Suc i) h" using assms(2) by (rule Cons_nth_drop_Suc [symmetric])
  then have "length (inWindow (drop i h) (ch_at (h ! i) + 1)) \<le> length (drop (Suc i) h)"
    using length_filter_le [of _ "drop (Suc i) h"] by (simp add: inWindow_def)
  ultimately show "length (inWindow h (ch_at (h ! i) + 1)) < length h - i"
    using assms(2) by (simp add: split)
qed

lemma nextAvailableAt_boundary:
  assumes "sorted (map ch_at h)"
    and "q_nextAvailableAt (buildClaimQuotaStatus h ev now) = Some T"
  shows "\<not> q_canClaimNow (buildClaimQuotaStatus h ev T)"
    and "q_canClaimNow (buildClaimQuotaStatus h ev (T + 1))"
proof -
  obtain m where p: "cp_maxClaimsPerInterval (resolveClaimPolicy ev) = Some m"
    using assms(2) by (auto simp: buildClaimQuotaStatus_def Let_def split: option.splits)
  obtain i where i: "i < length h" "T = ch_at (h ! i) + claimWindowMs (resolveClaimPolicy ev)"
      "int (length h - i) = m"
    using blocked_threshold [OF assms(1) p assms(2)] by blast
  note w = inWindow_from [OF assms(1) i(1)]
  show "\<not> q_canClaimNow (buildClaimQuotaStatus h ev T)"
    using w(1) i by (simp add: canClaimNow_iff p)
  show "q_canClaimNow (buildClaimQuotaStatus h ev (T + 1))"
    using w(2) i by (simp add: canClaimNow_iff p algebra_simps)
qed

end
