(* ===== verification/Claim_Spec.thy ===== *)
theory Claim_Spec
  imports Claim_Runs
begin

text \<open>
  The properties of the claim store over the storage of the Durable Object. They are the facts of
  the interpretation of the storage contract by \<open>doStorageAdapter\<close>, with their statements written out.
\<close>

section \<open>Keys\<close>

lemma last_index_append:
  "c \<notin> set ys \<Longrightarrow> last_index c (xs @ c # ys) = Some (length xs)"
proof (induction xs)
  case Nil
  then have "last_index c ys = None" by (induction ys) auto
  then show ?case by simp
qed simp

lemma splitClaimKey_claimKey:
  "e \<noteq> [] \<Longrightarrow> sub \<noteq> [] \<Longrightarrow> CHR '':'' \<notin> set sub \<Longrightarrow> splitClaimKey (claimKey e sub) = Some (e, sub)"
  using last_index_append [of "CHR '':''" sub e]
  by (simp add: splitClaimKey_def claimKey_def CLAIM_PREFIX_def)

lemma last_index_split: "last_index c xs = Some i \<Longrightarrow> xs = take i xs @ c # drop (Suc i) xs"
  by (induction xs arbitrary: i) (auto split: option.splits if_splits)

lemma splitClaimKey_Some: "splitClaimKey key = Some (e, sub) \<Longrightarrow> key = claimKey e sub \<and> e \<noteq> []"
proof -
  assume a: "splitClaimKey key = Some (e, sub)"
  then obtain rest where k: "key = CLAIM_PREFIX @ rest"
    by (auto simp: splitClaimKey_def prefix_def split: if_splits)
  with a obtain i where i: "last_index (CHR '':'') rest = Some i" "i \<noteq> 0" "i < length rest - 1"
      "e = take i rest" "sub = drop (Suc i) rest"
    by (auto simp: splitClaimKey_def Let_def not_le split: if_splits option.splits)
  from last_index_split [OF i(1)] i(2-5) show ?thesis
    by (auto simp: k claimKey_def)
qed

lemma claimKey_prefix: "prefix CLAIM_PREFIX (claimKey e sub)" "prefix (claimPrefix e) (claimKey e sub)"
  by (simp_all add: claimKey_def claimPrefix_def)

lemma claimKey_inj:
  assumes "CHR '':'' \<notin> set e" "CHR '':'' \<notin> set e'"
  shows "claimKey e sub = claimKey e' sub' \<longleftrightarrow> e = e' \<and> sub = sub'"
proof -
  have "e @ CHR '':'' # sub = e' @ CHR '':'' # sub' \<Longrightarrow> e = e' \<and> sub = sub'"
    using assms
  proof (induction e arbitrary: e')
    case Nil
    then show ?case by (cases e') auto
  next
    case (Cons c cs)
    then show ?case by (cases e') auto
  qed
  then show ?thesis by (auto simp: claimKey_def)
qed

lemma normalizeSubject_trimmed: "normalizeSubject w j = Some sub \<Longrightarrow> js_trim sub = sub"
  by (auto simp: normalizeSubject_def Let_def split: if_splits)

section \<open>Properties\<close>

text \<open>
  C1. Over every run of the claim store that starts without claims, with any interleaving of submissions, of claims that
  are added directly by \<open>addClaim\<close> (which checks nothing), of resolutions of pending claims, completions of codes, changes
  of event states and creations of events under fresh identifiers: \<open>submitClaim\<close> keeps the policy of the event. Within any
  closed interval as long as the policy prescribes it grants a subject at most as many claims as the policy allows, and
  at each of its grants all claims of the subject in the interval that ends with the grant, those added directly
  included, are at most as many; provided the allowance is at most the 500 entries the store keeps.
\<close>

theorem claim_quota_respected:
  assumes "claim_reach doStorageAdapter s0 t0 w" "sto_ok s0" "t0 > 0"
    and "\<And>e sub. sto_get s0 (claimKey e sub) = JUndef"
    and "eventPolicy doStorageAdapter (cr_store w) e = Some p"
    and "cp_maxClaimsPerInterval p = Some m" "m \<le> int MAX_STORED_CLAIM_HISTORY"
  shows "int (submittedWithin w e sub a (claimWindowMs p)) \<le> m
    \<and> (\<forall>i t. i \<in> set (cr_grants w) \<longrightarrow> cr_log w ! i = (e, sub, t) \<longrightarrow>
         int (grantedWithin (take (Suc i) (cr_log w)) e sub (t - claimWindowMs p) (claimWindowMs p)) \<le> m)"
  using ds.quota_reach [OF assms(1-3) _ assms(5-7)] assms(4) by simp

definition sampleBody :: js where
  "sampleBody = JObj [(''eventId'', JStr ''evt-001''), (''walletAddress'', JStr '' w1 '')]"

definition sampleRun :: "storage claim_run" where
  "sampleRun = \<lparr>cr_store = fst (submitClaim doStorageAdapter [] sampleBody (Some ''CODE1'') 1000 1001 1002),
                cr_clock = 1002, cr_log = [(''evt-001'', ''w1'', 1001)], cr_grants = [0]\<rparr>"

lemma sampleRun_reach: "claim_reach doStorageAdapter [] 1 sampleRun"
proof -
  let ?r = "submitClaim doStorageAdapter [] sampleBody (Some ''CODE1'') 1000 1001 1002"
  have "claim_step doStorageAdapter \<lparr>cr_store = [], cr_clock = 1, cr_log = [], cr_grants = []\<rparr>
      \<lparr>cr_store = fst ?r, cr_clock = 1002, cr_log = [] @ logOf (snd ?r) sampleBody 1001,
       cr_grants = [] @ map (\<lambda>_. 0) (logOf (snd ?r) sampleBody 1001)\<rparr>"
    using claim_step.submit [of "\<lparr>cr_store = [], cr_clock = 1, cr_log = [], cr_grants = []\<rparr>" 1000 1001 1002 doStorageAdapter
        sampleBody "Some ''CODE1''" "fst ?r" "snd ?r"] by simp
  moreover have "logOf (snd ?r) sampleBody 1001 = [(''evt-001'', ''w1'', 1001)]" by code_simp
  ultimately show ?thesis
    unfolding sampleRun_def by (auto intro: claim_reach.step [OF claim_reach.start])
qed

theorem claim_quota_respected_witness:
  "int (submittedWithin sampleRun ''evt-001'' ''w1'' 900 (claimWindowMs \<lparr>cp_claimIntervalDays = 30,
     cp_maxClaimsPerInterval = Some 1\<rparr>)) \<le> 1"
proof -
  have "eventPolicy doStorageAdapter (cr_store sampleRun) ''evt-001''
      = Some \<lparr>cp_claimIntervalDays = 30, cp_maxClaimsPerInterval = Some 1\<rparr>"
    by code_simp
  from claim_quota_respected [OF sampleRun_reach _ _ _ this, of 1] show ?thesis
    by (simp add: sto_ok_def MAX_STORED_CLAIM_HISTORY_def)
qed

text \<open>
  C2. The stored history of a subject is, in every reachable state, exactly the times of the last
  500 claims that were recorded under its key: the records refine the log of claims.
\<close>

theorem stored_history_is_log_tail:
  assumes "claim_reach doStorageAdapter s0 t0 w" "sto_ok s0" "t0 > 0"
    and "\<And>e sub. sto_get s0 (claimKey e sub) = JUndef"
  shows "map ch_at (getClaimHistory doStorageAdapter (cr_store w) e sub)
           = (let ts = key_times (cr_log w) (claimKey e sub) in drop (length ts - 500) ts)"
proof -
  have "run_inv doStorageAdapter sto_ok w"
    by (rule ds.run_inv_reach [OF assms(1-3)]) (simp add: assms(4))
  then show ?thesis by (simp add: run_inv_def MAX_STORED_CLAIM_HISTORY_def)
qed

theorem stored_history_is_log_tail_witness:
  "map ch_at (getClaimHistory doStorageAdapter (cr_store sampleRun) ''evt-001'' ''w1'') = [1001]"
  using stored_history_is_log_tail [OF sampleRun_reach, of "''evt-001''" "''w1''"]
  by (simp add: sto_ok_def sampleRun_def key_times_def)

text \<open>
  C3. The check of \<open>submitClaim\<close> cannot enforce an allowance above 500 claims per interval: it counts the stored history,
  which is cut to 500 entries, so in every reachable state \<open>checkClaimAllowance\<close> admits a further claim under such a
  policy, however many claims were recorded. (The request handlers of the worker count on-chain confirmations instead.)
\<close>

theorem quota_above_history_limit_never_binds:
  assumes "claim_reach doStorageAdapter s0 t0 w" "sto_ok s0" "t0 > 0"
    and "\<And>e sub. sto_get s0 (claimKey e sub) = JUndef"
    and "cp_maxClaimsPerInterval (resolveClaimPolicy ev) = Some m" "m > 500"
  shows "al_allowed (checkClaimAllowance doStorageAdapter (cr_store w) e sub ev now)"
proof -
  let ?h = "getClaimHistory doStorageAdapter (cr_store w) e sub"
  have "length ?h \<le> MAX_STORED_CLAIM_HISTORY"
    by (rule ds.history_length_reach [OF assms(1-3)]) (simp add: assms(4))
  moreover have "length (inWindow ?h x) \<le> length ?h" for x by (simp add: inWindow_def)
  ultimately have le: "length (inWindow ?h x) \<le> 500" for x
    unfolding MAX_STORED_CLAIM_HISTORY_def by (rule order_trans [rotated])
  have "int (length (inWindow ?h x)) < m" for x
    using le [of x] assms(6) by linarith
  then show ?thesis by (simp add: checkClaimAllowance_def Let_def canClaimNow_iff assms(5))
qed

theorem quota_above_history_limit_never_binds_witness:
  "al_allowed (checkClaimAllowance doStorageAdapter (cr_store sampleRun) ''evt-001'' ''w1''
     (JObj [(''maxClaimsPerInterval'', JInt 600)]) 1002)"
proof (rule quota_above_history_limit_never_binds [OF sampleRun_reach, where m = 600])
  show "cp_maxClaimsPerInterval (resolveClaimPolicy (JObj [(''maxClaimsPerInterval'', JInt 600)])) = Some 600"
    by (simp add: resolveClaimPolicy_def)
qed (simp_all add: sto_ok_def)

text \<open>
  When the quota is used up, \<open>nextAvailableAt\<close> is one millisecond early: at the announced time a
  claim is still refused, one millisecond later it is admitted.
\<close>

theorem nextAvailableAt_one_early:
  assumes "q_nextAvailableAt (getClaimQuotaStatus doStorageAdapter s e sub ev now) = Some T"
  shows "\<not> q_canClaimNow (getClaimQuotaStatus doStorageAdapter s e sub ev T)
       \<and> q_canClaimNow (getClaimQuotaStatus doStorageAdapter s e sub ev (T + 1))"
  using nextAvailableAt_boundary [OF _ assms [unfolded getClaimQuotaStatus_def]]
  by (simp add: getClaimQuotaStatus_def getClaimHistory_def parseClaimState_def sorted_parseClaimHistory)

theorem nextAvailableAt_one_early_witness:
  "\<not> q_canClaimNow (getClaimQuotaStatus doStorageAdapter (cr_store sampleRun) ''evt-001'' ''w1'' JNull 2592001001)
   \<and> q_canClaimNow (getClaimQuotaStatus doStorageAdapter (cr_store sampleRun) ''evt-001'' ''w1'' JNull (2592001001 + 1))"
  by (rule nextAvailableAt_one_early [where now = 1002]) code_simp

text \<open>
  Reading back a serialised claim record gives the record that was written, up to the trimming
  of its codes, for every record whose history is in order of time and which has a pending claim
  only with a history.
\<close>

theorem claim_record_roundtrip:
  assumes "wf_state st"
  shows "parseClaimState (serializeClaimState st)
           = \<lparr>cs_history = map norm_entry (cs_history st), cs_pending = cs_pending st\<rparr>"
  using assms by (rule parse_serializeClaimState)

theorem claim_record_roundtrip_witness:
  "parseClaimState (serializeClaimState
      \<lparr>cs_history = [\<lparr>ch_at = 5, ch_code = Some '' A ''\<rparr>, \<lparr>ch_at = 7, ch_code = None\<rparr>],
       cs_pending = Some \<lparr>pc_at = 7, pc_code = ''B''\<rparr>\<rparr>)
    = \<lparr>cs_history = [\<lparr>ch_at = 5, ch_code = Some ''A''\<rparr>, \<lparr>ch_at = 7, ch_code = None\<rparr>],
       cs_pending = Some \<lparr>pc_at = 7, pc_code = ''B''\<rparr>\<rparr>"
proof -
  let ?st = "\<lparr>cs_history = [\<lparr>ch_at = 5, ch_code = Some '' A ''\<rparr>, \<lparr>ch_at = 7, ch_code = None\<rparr>],
       cs_pending = Some \<lparr>pc_at = 7, pc_code = ''B''\<rparr>\<rparr>"
  have "wf_state ?st" by code_simp
  moreover have "map norm_entry (cs_history ?st) = [\<lparr>ch_at = 5, ch_code = Some ''A''\<rparr>, \<lparr>ch_at = 7, ch_code = None\<rparr>]"
    by code_simp
  ultimately show ?thesis using claim_record_roundtrip [of ?st] by simp
qed

text \<open>
  Adding a claim under a clock that has not gone back appends one entry (the oldest beyond 500 is
  dropped), makes the claim pending exactly when it carries a code that is not blank, leaves every
  other record alone, and raises the number of participants by one exactly when the subject had no
  record.
\<close>

theorem addClaim_effect:
  assumes "sto_ok s" "claim_ok (sto_get s (claimKey e sub))" "now > 0"
    and "\<forall>x \<in> set (getClaimHistory doStorageAdapter s e sub). ch_at x \<le> now"
  shows "let s' = addClaim doStorageAdapter s e sub code now;
             h = getClaimHistory doStorageAdapter s e sub
         in getClaimHistory doStorageAdapter s' e sub
              = trimHistory (h @ [norm_entry \<lparr>ch_at = now, ch_code = code\<rparr>])
          \<and> getPendingClaim doStorageAdapter s' e sub = pendingOf code now
          \<and> (\<forall>k. k \<noteq> claimKey e sub \<longrightarrow> sto_get s' k = sto_get s k)
          \<and> getClaimedCount doStorageAdapter s' e
              = getClaimedCount doStorageAdapter s e + (if sto_get s (claimKey e sub) = JUndef then 1 else 0)"
proof -
  let ?s' = "addClaim doStorageAdapter s e sub code now"
  let ?h = "getClaimHistory doStorageAdapter s e sub"
  have parse: "parseClaimState (sto_get ?s' (claimKey e sub))
      = \<lparr>cs_history = appended ?h code now, cs_pending = pendingOf code now\<rparr>"
    using ds.parse_addClaim [of s e sub now code "claimKey e sub"] assms(1-3) by simp
  have "sort_key ch_at (?h @ [norm_entry \<lparr>ch_at = now, ch_code = code\<rparr>]) = ?h @ [norm_entry \<lparr>ch_at = now, ch_code = code\<rparr>]"
    using assms(4)
    by (intro sort_append_latest) (simp_all add: getClaimHistory_def parseClaimState_def sorted_parseClaimHistory)
  then have app: "appended ?h code now = trimHistory (?h @ [norm_entry \<lparr>ch_at = now, ch_code = code\<rparr>])"
    by (simp add: appended_def)
  obtain v where v: "?s' = sto_put s (claimKey e sub) v" "v \<noteq> JUndef"
    using ds.addClaim_put [of s e sub now code] assms(1-3) by auto
  then show ?thesis
    using ds.list_put_size [OF assms(1) v(2) claimKey_prefix(2), of e sub] parse app
    by (simp add: Let_def getClaimHistory_def getPendingClaim_def getClaimedCount_def)
qed

theorem addClaim_effect_witness:
  "getClaimedCount doStorageAdapter (addClaim doStorageAdapter [] ''evt-001'' ''w1'' (Some ''AB'') 7) ''evt-001'' = 1
   \<and> getPendingClaim doStorageAdapter (addClaim doStorageAdapter [] ''evt-001'' ''w1'' (Some ''AB'') 7) ''evt-001'' ''w1''
       = pendingOf (Some ''AB'') 7"
  using addClaim_effect [of "[]" "''evt-001''" "''w1''" 7 "Some ''AB''"]
  by (simp add: Let_def sto_ok_def getClaimHistory_def parseClaimState_def parseClaimHistory_def
      getClaimedCount_def sto_list_def)

text \<open>
  Resolving a pending claim whose code matches (or without naming a code) clears the pending
  marker and keeps the whole history; a code that does not match changes nothing.
\<close>

theorem resolvePendingClaim_effect:
  assumes "sto_ok s" "claim_ok (sto_get s (claimKey e sub))"
    and "getPendingClaim doStorageAdapter s e sub = Some p"
  shows "let s' = resolvePendingClaim doStorageAdapter s e sub code;
             c = (case code of Some c \<Rightarrow> js_trim c | None \<Rightarrow> [])
         in getClaimHistory doStorageAdapter s' e sub = getClaimHistory doStorageAdapter s e sub
          \<and> getPendingClaim doStorageAdapter s' e sub = (if c = [] \<or> c = pc_code p then None else Some p)"
  using ds.parse_resolvePendingClaim [of s e sub code "claimKey e sub"] assms
  by (auto simp: Let_def getClaimHistory_def getPendingClaim_def)

theorem resolvePendingClaim_effect_witness:
  "getPendingClaim doStorageAdapter
     (resolvePendingClaim doStorageAdapter (cr_store sampleRun) ''evt-001'' ''w1'' (Some '' CODE1 '')) ''evt-001'' ''w1'' = None"
proof -
  have "sto_ok (cr_store sampleRun)" by code_simp
  moreover have "claim_ok (sto_get (cr_store sampleRun) (claimKey ''evt-001'' ''w1''))" by code_simp
  moreover have "getPendingClaim doStorageAdapter (cr_store sampleRun) ''evt-001'' ''w1''
      = Some \<lparr>pc_at = 1001, pc_code = ''CODE1''\<rparr>" by code_simp
  moreover have "js_trim '' CODE1 '' = ''CODE1''" by code_simp
  ultimately show ?thesis
    using resolvePendingClaim_effect [of "cr_store sampleRun" "''evt-001''" "''w1''" _ "Some '' CODE1 ''"]
    by (simp add: Let_def)
qed

text \<open>
  Changing the state of an event writes exactly the state: the event read back has the new
  state, every other field it had, the same resolved policy, and every other key is untouched.
\<close>

theorem updateEventState_effect:
  assumes "sto_ok s" "getEvent doStorageAdapter s e = Some ev"
    and "updateEventState doStorageAdapter s e st = (s', r)"
  shows "\<exists>ev'. r = Some ev' \<and> getEvent doStorageAdapter s' e = Some ev'
     \<and> jget ev' ''state'' = JStr st
     \<and> (\<forall>f. f \<noteq> ''state'' \<longrightarrow> jget ev' f = jget ev f)
     \<and> (\<forall>k. k \<noteq> eventKey e \<longrightarrow> sto_get s' k = sto_get s k)"
proof -
  let ?next = "jspread (dropProp ''claimedCount'' ev) [(''state'', JStr st)]"
  have o: "isEventObject ?next" using isEventObject_getEvent [OF assms(2)] by (rule isEventObject_next)
  have s': "s' = sto_put s (eventKey e) ?next" and r: "r = getEvent doStorageAdapter s' e"
    using assms(2,3) by (auto simp: updateEventState_def Let_def)
  have n: "?next \<noteq> JUndef" using o by (rule isEventObject_defined)
  have "\<not> prefix (claimPrefix e) (eventKey e)"
    by (simp add: claimPrefix_def eventKey_def CLAIM_PREFIX_def EVENT_PREFIX_def)
  then have cnt: "getClaimedCount doStorageAdapter s' e = getClaimedCount doStorageAdapter s e"
    by (simp add: s' getClaimedCount_def sto_list_put_other)
  have ev: "getEvent doStorageAdapter s' e = Some (withPolicyAndCount doStorageAdapter s' ?next e)"
    using o by (simp add: getEvent_def s' Let_def)
  obtain base where base: "ev = withPolicyAndCount doStorageAdapter s base e"
    using assms(2) by (auto simp: getEvent_def Let_def split: if_splits option.splits)
  have pol: "resolveClaimPolicy ?next = resolveClaimPolicy base" by (simp add: base)
  have "jget (withPolicyAndCount doStorageAdapter s' ?next e) f = jget ev f" if "f \<noteq> ''state''" for f
    using that unfolding withPolicyAndCount_def pol cnt
    by (auto simp: jget_jspread jget_dropProp base withPolicyAndCount_def policyFields_def split: option.splits)
  moreover have "jget (withPolicyAndCount doStorageAdapter s' ?next e) ''state'' = JStr st"
    by (simp add: withPolicyAndCount_def jget_jspread policyFields_def)
  ultimately show ?thesis using ev r by (auto simp: s')
qed

theorem updateEventState_effect_witness:
  "\<exists>ev'. getEvent doStorageAdapter (fst (updateEventState doStorageAdapter [] ''evt-001'' ''ended'')) ''evt-001'' = Some ev'
     \<and> jget ev' ''state'' = JStr ''ended''"
proof -
  have "getEvent doStorageAdapter [] ''evt-001'' \<noteq> None" by code_simp
  then obtain ev where "getEvent doStorageAdapter [] ''evt-001'' = Some ev" by blast
  moreover have "sto_ok []" by (simp add: sto_ok_def)
  ultimately show ?thesis
    using updateEventState_effect [of "[]" "''evt-001''" ev "''ended''"
        "fst (updateEventState doStorageAdapter [] ''evt-001'' ''ended'')"
        "snd (updateEventState doStorageAdapter [] ''evt-001'' ''ended'')"] by auto
qed

text \<open>
  The participation history of a subject without a colon in its name lists exactly the events
  for which a claim record with a history exists, each with its latest claim, newest first.
\<close>

theorem getClaimsBySubject_exact:
  assumes "sto_ok s" "sub \<noteq> []" "js_trim sub = sub" "CHR '':'' \<notin> set sub"
  shows "sorted (map (\<lambda>c. - sc_claimedAt c) (getClaimsBySubject doStorageAdapter s sub))
       \<and> (c \<in> set (getClaimsBySubject doStorageAdapter s sub) \<longleftrightarrow>
           (let h = getClaimHistory doStorageAdapter s (sc_eventId c) sub
            in sc_eventId c \<noteq> [] \<and> h \<noteq> []
               \<and> c = \<lparr>sc_eventId = sc_eventId c, sc_claimedAt = ch_at (last h), sc_confirmationCode = ch_code (last h)\<rparr>))"
    (is "?sorted \<and> (?L \<longleftrightarrow> ?R)")
proof -
  have mem: "(k, v) \<in> set (sto_list s CLAIM_PREFIX) \<longleftrightarrow> prefix CLAIM_PREFIX k \<and> sto_get s k = v \<and> v \<noteq> JUndef" for k v
    using assms(1) by (rule in_sto_list_iff)
  have row: "subjectClaimRow sub (k, v) = Some c \<longleftrightarrow> splitClaimKey k = Some (sc_eventId c, sub)
      \<and> cs_history (parseClaimState v) \<noteq> []
      \<and> c = \<lparr>sc_eventId = sc_eventId c, sc_claimedAt = ch_at (last (cs_history (parseClaimState v))),
             sc_confirmationCode = ch_code (last (cs_history (parseClaimState v)))\<rparr>" for k v
    by (cases c) (auto simp: subjectClaimRow_def Let_def split: option.splits if_splits)
  have "?L \<longleftrightarrow> (\<exists>k v. (k, v) \<in> set (sto_list s CLAIM_PREFIX) \<and> splitClaimKey k = Some (sc_eventId c, sub)
      \<and> cs_history (parseClaimState v) \<noteq> []
      \<and> c = \<lparr>sc_eventId = sc_eventId c, sc_claimedAt = ch_at (last (cs_history (parseClaimState v))),
             sc_confirmationCode = ch_code (last (cs_history (parseClaimState v)))\<rparr>)" (is "_ \<longleftrightarrow> ?M")
    using assms(2,3) row by (auto simp: getClaimsBySubject_def Let_def in_map_filter_iff)
  also have "?M \<longleftrightarrow> ?R"
  proof
    assume ?M
    then show ?R by (auto simp: Let_def getClaimHistory_def mem dest!: splitClaimKey_Some)
  next
    assume R: ?R
    let ?v = "sto_get s (claimKey (sc_eventId c) sub)"
    from R have "?v \<noteq> JUndef"
      by (auto simp: Let_def getClaimHistory_def parseClaimState_def parseClaimHistory_def)
    with R assms show ?M
      by (intro exI [of _ "claimKey (sc_eventId c) sub"] exI [of _ ?v])
         (simp add: mem claimKey_prefix splitClaimKey_claimKey Let_def getClaimHistory_def)
  qed
  finally have "?L \<longleftrightarrow> ?R" .
  moreover have ?sorted by (simp add: getClaimsBySubject_def Let_def)
  ultimately show ?thesis by simp
qed

theorem getClaimsBySubject_exact_witness:
  "\<lparr>sc_eventId = ''evt-001'', sc_claimedAt = 1001, sc_confirmationCode = Some ''CODE1''\<rparr>
     \<in> set (getClaimsBySubject doStorageAdapter (cr_store sampleRun) ''w1'')"
proof -
  have "sto_ok (cr_store sampleRun)" by code_simp
  moreover have "js_trim ''w1'' = ''w1''" by code_simp
  moreover have "getClaimHistory doStorageAdapter (cr_store sampleRun) ''evt-001'' ''w1''
      = [\<lparr>ch_at = 1001, ch_code = Some ''CODE1''\<rparr>]" by code_simp
  ultimately show ?thesis
    using getClaimsBySubject_exact [of "cr_store sampleRun" "''w1''"
        "\<lparr>sc_eventId = ''evt-001'', sc_claimedAt = 1001, sc_confirmationCode = Some ''CODE1''\<rparr>"]
    by (simp add: Let_def)
qed

end
