(* ===== verification/Worker_Env.thy ===== *)
theory Worker_Env
  imports Js_Prelude
begin

text \<open>
  What every part of \<open>src/api-worker/src/storeDO.ts\<close> shares: the environment bindings, requests and
  responses, the parsers of configuration values and of query parameters, the recognition of paths,
  and the normalisation of single fields. A path pattern with one \<open>[^/]+\<close> segment is
  \<open>segmentBetween\<close>.
\<close>

section \<open>Environment, requests, responses\<close>

text \<open>\<open>AUDIT_LOGS\<close> and \<open>AUDIT_INDEX\<close> are bindings to services; here: whether they are bound.\<close>

record Env =
  CORS_ORIGIN :: "string option"
  ADMIN_PASSWORD :: "string option"
  ADMIN_DEMO_PASSWORD :: "string option"
  POP_SIGNER_SECRET_KEY_B64 :: "string option"
  POP_SIGNER_PUBKEY :: "string option"
  POP_SIGNER_HD_MASTER_SEED_B64 :: "string option"
  POP_SIGNER_HD_PATH :: "string option"
  POP_SIGNER_HD_PUBKEY :: "string option"
  POP_SIGNER_HD_ROTATION_ENABLED :: "string option"
  POP_SIGNER_HD_ROTATION_PATH_TEMPLATE :: "string option"
  POP_SIGNER_HD_ROTATION_INTERVAL_DAYS :: "string option"
  POP_SIGNER_HD_ROTATION_START_UNIX :: "string option"
  POP_SIGNER_HD_ROTATION_INDEX_OFFSET :: "string option"
  POP_SIGNER_LEGACY_ENABLED :: "string option"
  ENFORCE_ONCHAIN_POP :: "string option"
  AUDIT_LOGS :: bool
  AUDIT_INDEX :: bool
  AUDIT_IMMUTABLE_MODE :: "string option"
  AUDIT_IMMUTABLE_INGEST_URL :: "string option"
  AUDIT_IMMUTABLE_INGEST_TOKEN :: "string option"
  AUDIT_IMMUTABLE_FETCH_TIMEOUT_MS :: "string option"
  SECURITY_RATE_LIMIT_ENABLED :: "string option"
  SECURITY_RATE_LIMIT_READ_PER_MINUTE :: "string option"
  SECURITY_RATE_LIMIT_MUTATION_PER_MINUTE :: "string option"
  SECURITY_RATE_LIMIT_AUTH_PER_10_MINUTES :: "string option"
  SECURITY_RATE_LIMIT_ADMIN_LOGIN_PER_10_MINUTES :: "string option"
  SECURITY_RATE_LIMIT_VERIFY_PER_MINUTE :: "string option"
  SECURITY_RATE_LIMIT_GLOBAL_PER_MINUTE :: "string option"
  SECURITY_RATE_LIMIT_BLOCK_SECONDS :: "string option"
  SECURITY_MAX_REQUEST_BODY_BYTES :: "string option"
  SECURITY_ADMIN_EVENT_ISSUE_LIMIT_PER_DAY :: "string option"
  SECURITY_ADMIN_INVITE_ISSUE_LIMIT_PER_DAY :: "string option"
  COST_OF_FORGERY_ENABLED :: "string option"
  COST_OF_FORGERY_FAIL_CLOSED :: "string option"
  COST_OF_FORGERY_BASE_URL :: "string option"
  COST_OF_FORGERY_VERIFY_PATH :: "string option"
  COST_OF_FORGERY_API_KEY :: "string option"
  COST_OF_FORGERY_TIMEOUT_MS :: "string option"
  COST_OF_FORGERY_MIN_SCORE :: "string option"
  COST_OF_FORGERY_MIN_SCORE_SCHOOL_INTERNAL :: "string option"
  COST_OF_FORGERY_MIN_SCORE_PUBLIC :: "string option"
  COST_OF_FORGERY_ENFORCE_ON_REGISTER :: "string option"
  COST_OF_FORGERY_ENFORCE_ON_CLAIM :: "string option"
  COST_OF_FORGERY_FAIL_CLOSED_REGISTER :: "string option"
  COST_OF_FORGERY_FAIL_CLOSED_CLAIM :: "string option"
  COST_OF_FORGERY_CACHE_TTL_SECONDS :: "string option"
  COST_OF_FORGERY_REMEDIATION_OVERRIDE_TTL_MINUTES :: "string option"
  AUDIT_RANDOM_ANCHOR_ENABLED :: "string option"
  AUDIT_RANDOM_ANCHOR_PERIOD_MINUTES :: "string option"

definition emptyEnv :: Env where
  "emptyEnv = \<lparr>CORS_ORIGIN = None, ADMIN_PASSWORD = None, ADMIN_DEMO_PASSWORD = None,
     POP_SIGNER_SECRET_KEY_B64 = None, POP_SIGNER_PUBKEY = None, POP_SIGNER_HD_MASTER_SEED_B64 = None,
     POP_SIGNER_HD_PATH = None, POP_SIGNER_HD_PUBKEY = None, POP_SIGNER_HD_ROTATION_ENABLED = None,
     POP_SIGNER_HD_ROTATION_PATH_TEMPLATE = None, POP_SIGNER_HD_ROTATION_INTERVAL_DAYS = None,
     POP_SIGNER_HD_ROTATION_START_UNIX = None, POP_SIGNER_HD_ROTATION_INDEX_OFFSET = None,
     POP_SIGNER_LEGACY_ENABLED = None, ENFORCE_ONCHAIN_POP = None, AUDIT_LOGS = False, AUDIT_INDEX = False,
     AUDIT_IMMUTABLE_MODE = None, AUDIT_IMMUTABLE_INGEST_URL = None, AUDIT_IMMUTABLE_INGEST_TOKEN = None,
     AUDIT_IMMUTABLE_FETCH_TIMEOUT_MS = None, SECURITY_RATE_LIMIT_ENABLED = None,
     SECURITY_RATE_LIMIT_READ_PER_MINUTE = None, SECURITY_RATE_LIMIT_MUTATION_PER_MINUTE = None,
     SECURITY_RATE_LIMIT_AUTH_PER_10_MINUTES = None, SECURITY_RATE_LIMIT_ADMIN_LOGIN_PER_10_MINUTES = None,
     SECURITY_RATE_LIMIT_VERIFY_PER_MINUTE = None, SECURITY_RATE_LIMIT_GLOBAL_PER_MINUTE = None,
     SECURITY_RATE_LIMIT_BLOCK_SECONDS = None, SECURITY_MAX_REQUEST_BODY_BYTES = None,
     SECURITY_ADMIN_EVENT_ISSUE_LIMIT_PER_DAY = None, SECURITY_ADMIN_INVITE_ISSUE_LIMIT_PER_DAY = None,
     COST_OF_FORGERY_ENABLED = None, COST_OF_FORGERY_FAIL_CLOSED = None, COST_OF_FORGERY_BASE_URL = None,
     COST_OF_FORGERY_VERIFY_PATH = None, COST_OF_FORGERY_API_KEY = None, COST_OF_FORGERY_TIMEOUT_MS = None,
     COST_OF_FORGERY_MIN_SCORE = None, COST_OF_FORGERY_MIN_SCORE_SCHOOL_INTERNAL = None,
     COST_OF_FORGERY_MIN_SCORE_PUBLIC = None, COST_OF_FORGERY_ENFORCE_ON_REGISTER = None,
     COST_OF_FORGERY_ENFORCE_ON_CLAIM = None, COST_OF_FORGERY_FAIL_CLOSED_REGISTER = None,
     COST_OF_FORGERY_FAIL_CLOSED_CLAIM = None, COST_OF_FORGERY_CACHE_TTL_SECONDS = None,
     COST_OF_FORGERY_REMEDIATION_OVERRIDE_TTL_MINUTES = None, AUDIT_RANDOM_ANCHOR_ENABLED = None,
     AUDIT_RANDOM_ANCHOR_PERIOD_MINUTES = None\<rparr>"

text \<open>
  Header names are given in the spelling the code uses. \<open>rq_chunks\<close> are the sizes of the chunks of the
  body stream, \<open>None\<close> when there is no body.
\<close>

record Request =
  rq_method :: string
  rq_headers :: "(string \<times> string) list"
  rq_chunks :: "nat list option"
  rq_json :: "js or_error"

record Response =
  rs_status :: int
  rs_body :: js
  rs_headers :: "(string \<times> string) list"

definition rq_header :: "Request \<Rightarrow> string \<Rightarrow> string option" where
  "rq_header rq name = map_of (rq_headers rq) name"

definition json_response :: "js \<Rightarrow> int \<Rightarrow> Response" where
  "json_response body status = \<lparr>rs_status = status, rs_body = body, rs_headers = []\<rparr>"

section \<open>Parsing of configuration and query values\<close>

definition parseBoundedInt :: "string option \<Rightarrow> int \<Rightarrow> int \<Rightarrow> int \<Rightarrow> int" where
  "parseBoundedInt raw fallback mn mx =
     (case raw of
        None \<Rightarrow> fallback
      | Some r \<Rightarrow>
          if r = [] then fallback
          else case js_parseInt r of
                 None \<Rightarrow> fallback
               | Some parsed \<Rightarrow> if parsed < mn then mn else if parsed > mx then mx else parsed)"

definition parseOptionalBoundedInt :: "string option \<Rightarrow> int \<Rightarrow> int \<Rightarrow> int option" where
  "parseOptionalBoundedInt raw fallback mx =
     (case raw of
        None \<Rightarrow> Some fallback
      | Some r \<Rightarrow>
          if r = [] then Some fallback
          else case js_parseInt r of
                 None \<Rightarrow> Some fallback
               | Some parsed \<Rightarrow> if parsed \<le> 0 then None else Some (min parsed mx))"

definition isTrueWord :: "string \<Rightarrow> bool" where
  "isTrueWord n = (n = ''1'' \<or> n = ''true'' \<or> n = ''yes'' \<or> n = ''on'')"

definition isFalseWord :: "string \<Rightarrow> bool" where
  "isFalseWord n = (n = ''0'' \<or> n = ''false'' \<or> n = ''no'' \<or> n = ''off'')"

definition parseBooleanQuery :: "string option \<Rightarrow> bool \<Rightarrow> bool" where
  "parseBooleanQuery raw fallback =
     (case raw of
        None \<Rightarrow> fallback
      | Some r \<Rightarrow>
          let normalized = js_lower (js_trim r) in
          if isTrueWord normalized then True
          else if isFalseWord normalized then False
          else fallback)"

definition parseBooleanEnv :: "string option \<Rightarrow> bool \<Rightarrow> bool" where
  "parseBooleanEnv raw fallback =
     (case raw of
        None \<Rightarrow> fallback
      | Some r \<Rightarrow>
          let normalized = js_lower (js_trim r) in
          if normalized = [] then fallback
          else if isTrueWord normalized then True
          else if isFalseWord normalized then False
          else fallback)"

definition parseOptionalBooleanEnv :: "string option \<Rightarrow> bool option" where
  "parseOptionalBooleanEnv raw =
     (case raw of
        None \<Rightarrow> None
      | Some r \<Rightarrow>
          let normalized = js_lower (js_trim r) in
          if normalized = [] then None
          else if isTrueWord normalized then Some True
          else if isFalseWord normalized then Some False
          else None)"

definition parseNonNegativeIntEnv :: "string option \<Rightarrow> int \<Rightarrow> int \<Rightarrow> int" where
  "parseNonNegativeIntEnv raw fallback mx =
     (case raw of
        None \<Rightarrow> fallback
      | Some r \<Rightarrow>
          let normalized = js_trim r in
          if normalized = [] then fallback
          else case js_parseInt normalized of
                 None \<Rightarrow> fallback
               | Some parsed \<Rightarrow> if parsed < 0 then fallback else if parsed > mx then mx else parsed)"

definition parsePeriodIndex :: "js \<Rightarrow> int option" where
  "parsePeriodIndex raw =
     (case raw of
        JNum r \<Rightarrow> (if r \<ge> 0 \<and> is_integral r then Some \<lfloor>r\<rfloor> else None)
      | JStr s \<Rightarrow> (if all_digits (js_trim s) then Some (digits_val (js_trim s)) else None)
      | _ \<Rightarrow> None)"

lemma parseBoundedInt_bounds:
  "mn \<le> fallback \<Longrightarrow> fallback \<le> mx \<Longrightarrow>
     mn \<le> parseBoundedInt raw fallback mn mx \<and> parseBoundedInt raw fallback mn mx \<le> mx"
  by (auto simp: parseBoundedInt_def split: option.splits)

lemma parseOptionalBoundedInt_pos:
  "parseOptionalBoundedInt raw fallback mx = Some n \<Longrightarrow> 0 < fallback \<Longrightarrow> fallback \<le> mx \<Longrightarrow> 0 < n \<and> n \<le> mx"
  by (auto simp: parseOptionalBoundedInt_def split: option.splits if_splits)

lemma parseNonNegativeIntEnv_bounds:
  "0 \<le> fallback \<Longrightarrow> fallback \<le> mx \<Longrightarrow>
     0 \<le> parseNonNegativeIntEnv raw fallback mx \<and> parseNonNegativeIntEnv raw fallback mx \<le> mx"
  by (auto simp: parseNonNegativeIntEnv_def Let_def split: option.splits)

section \<open>Methods and paths\<close>

definition isMutatingMethod :: "string \<Rightarrow> bool" where
  "isMutatingMethod method =
     (let m = js_upper method in m = ''POST'' \<or> m = ''PUT'' \<or> m = ''PATCH'' \<or> m = ''DELETE'')"

definition isApiPath :: "string \<Rightarrow> bool" where
  "isApiPath path = (prefix ''/api/'' path \<or> prefix ''/v1/school/'' path)"

definition segmentBetween :: "string \<Rightarrow> string \<Rightarrow> string \<Rightarrow> string option" where
  "segmentBetween pre post path =
     (if prefix pre path then
        (let r = drop (length pre) path;
             seg = takeWhile (\<lambda>c. c \<noteq> CHR ''/'') r
         in if seg \<noteq> [] \<and> drop (length seg) r = post then Some seg else None)
      else None)"

definition leadingSegment :: "string \<Rightarrow> string \<Rightarrow> string option" where
  "leadingSegment pre path =
     (if prefix pre path then
        (let seg = takeWhile (\<lambda>c. c \<noteq> CHR ''/'') (drop (length pre) path) in if seg \<noteq> [] then Some seg else None)
      else None)"

definition routeTemplate :: "string \<Rightarrow> string" where
  "routeTemplate path =
     (if segmentBetween ''/v1/school/events/'' ''/close'' path \<noteq> None then ''/v1/school/events/:eventId/close''
      else if segmentBetween ''/v1/school/events/'' ''/claimants'' path \<noteq> None then ''/v1/school/events/:eventId/claimants''
      else if segmentBetween ''/v1/school/events/'' [] path \<noteq> None then ''/v1/school/events/:eventId''
      else if segmentBetween ''/api/events/'' ''/claim'' path \<noteq> None then ''/api/events/:eventId/claim''
      else if segmentBetween ''/api/admin/cost-of-forgery/remediation/'' ''/approve'' path \<noteq> None
        then ''/api/admin/cost-of-forgery/remediation/:requestId/approve''
      else if segmentBetween ''/api/admin/cost-of-forgery/remediation/'' ''/reject'' path \<noteq> None
        then ''/api/admin/cost-of-forgery/remediation/:requestId/reject''
      else path)"

section \<open>Fields\<close>

definition maskActorId :: "string \<Rightarrow> string" where
  "maskActorId ident =
     (let trimmed = js_trim ident in
      if trimmed = [] then ''unknown''
      else if length trimmed \<le> 8 then trimmed
      else take 4 trimmed @ ''...'' @ drop (length trimmed - 4) trimmed)"

definition normalizeStringField :: "js \<Rightarrow> string option" where
  "normalizeStringField raw = trimmed_str raw"

definition normalizeUserId :: "js \<Rightarrow> string" where
  "normalizeUserId raw = (case raw of JStr s \<Rightarrow> js_lower (js_trim s) | _ \<Rightarrow> [])"

definition eventIdForAudit :: "string \<Rightarrow> js \<Rightarrow> string" where
  "eventIdForAudit path body =
     (case leadingSegment ''/v1/school/events/'' path of
        Some e \<Rightarrow> e
      | None \<Rightarrow>
          (case segmentBetween ''/api/events/'' ''/claim'' path of
             Some e \<Rightarrow> e
           | None \<Rightarrow>
               (case (if is_obj body then trimmed_str (jget body ''eventId'') else None) of
                  Some e \<Rightarrow> e
                | None \<Rightarrow> ''system'')))"

text \<open>\<open>/^-?\\d+(\\.\\d+)?$/\<close>\<close>

definition is_signed_decimal :: "string \<Rightarrow> bool" where
  "is_signed_decimal t =
     (let u = (case t of c # r \<Rightarrow> (if c = CHR ''-'' then r else t) | [] \<Rightarrow> []);
          ip = takeWhile is_digit u; r1 = dropWhile is_digit u
      in ip \<noteq> [] \<and> (r1 = [] \<or> (hd r1 = CHR ''.'' \<and> all_digits (tl r1))))"

definition normalizeNumberField :: "js \<Rightarrow> rat option" where
  "normalizeNumberField raw =
     (case raw of
        JNum r \<Rightarrow> Some r
      | JStr s \<Rightarrow>
          (if js_trim s \<noteq> [] \<and> is_signed_decimal (js_trim s)
           then finite_num (js_Number (JStr (js_trim s))) else None)
      | _ \<Rightarrow> None)"

end
