(* ===== verification/Rate_Limit.thy ===== *)
theory Rate_Limit
  imports Worker_Env Do_Storage
begin

text \<open>
  The request guards of \<open>storeDO.ts\<close>: the body size limit, the per-client and global rate limits
  with their growing block times, and the daily limits on issuing events and invites. Both limiters
  are counters over a fixed window that starts with the first request after the previous window; the
  locale \<open>fixed_window\<close> states this once and bounds what such a counter admits.

  The digest \<open>hashString\<close> (SHA-256 of the platform) is the argument \<open>H\<close>.
\<close>

section \<open>Data\<close>

record SecurityRatePolicy =
  rp_key :: string
  rp_windowMs :: int
  rp_maxRequests :: int
  rp_blockMs :: int

record SecurityRateState =
  rt_windowStartMs :: rat
  rt_count :: rat
  rt_blockedUntilMs :: rat
  rt_violations :: rat
  rt_lastSeenMs :: rat

record SecurityIssueLimitPolicy =
  ip_key :: string
  ip_maxIssues :: int
  ip_windowMs :: int
  ip_code :: string
  ip_message :: string

record SecurityIssueLimitState =
  is_windowStartMs :: rat
  is_count :: rat
  is_lastIssuedAtMs :: rat

definition SECURITY_RATE_LIMIT_PREFIX :: string where
  "SECURITY_RATE_LIMIT_PREFIX = ''security_rate_limit:''"

definition SECURITY_ISSUE_LIMIT_PREFIX :: string where
  "SECURITY_ISSUE_LIMIT_PREFIX = ''security_issue_limit:''"

definition SECURITY_ISSUE_LIMIT_WINDOW_MS :: int where
  "SECURITY_ISSUE_LIMIT_WINDOW_MS = 24 * 60 * 60 * 1000"

section \<open>Configuration\<close>

definition getSecurityBodySizeLimitBytes :: "Env \<Rightarrow> int" where
  "getSecurityBodySizeLimitBytes env =
     parseBoundedInt (SECURITY_MAX_REQUEST_BODY_BYTES env) (64 * 1024) (4 * 1024) (1024 * 1024)"

definition isSecurityRateLimitEnabled :: "Env \<Rightarrow> bool" where
  "isSecurityRateLimitEnabled env = parseBooleanEnv (SECURITY_RATE_LIMIT_ENABLED env) True"

definition getSecurityRateBlockMs :: "Env \<Rightarrow> int" where
  "getSecurityRateBlockMs env = parseBoundedInt (SECURITY_RATE_LIMIT_BLOCK_SECONDS env) 120 10 3600 * 1000"

definition getSecurityRatePolicy :: "Env \<Rightarrow> string \<Rightarrow> string \<Rightarrow> SecurityRatePolicy option" where
  "getSecurityRatePolicy env path method =
     (let m = js_upper method in
      if m = ''OPTIONS'' then None
      else if \<not> isApiPath path then None
      else if prefix ''/metadata/'' path then None
      else
        let blockMs = getSecurityRateBlockMs env;
            readPerMinute = parseBoundedInt (SECURITY_RATE_LIMIT_READ_PER_MINUTE env) 300 30 5000;
            mutationPerMinute = parseBoundedInt (SECURITY_RATE_LIMIT_MUTATION_PER_MINUTE env) 120 10 3000;
            authPer10Minutes = parseBoundedInt (SECURITY_RATE_LIMIT_AUTH_PER_10_MINUTES env) 60 5 3000;
            adminLoginPer10Minutes = parseBoundedInt (SECURITY_RATE_LIMIT_ADMIN_LOGIN_PER_10_MINUTES env) 20 3 500;
            verifyPerMinute = parseBoundedInt (SECURITY_RATE_LIMIT_VERIFY_PER_MINUTE env) 120 10 5000
        in
        if path = ''/api/admin/login'' then
          Some \<lparr>rp_key = ''admin_login'', rp_windowMs = 10 * 60 * 1000,
                rp_maxRequests = adminLoginPer10Minutes, rp_blockMs = max blockMs (5 * 60 * 1000)\<rparr>
        else if path = ''/api/auth/verify'' \<or> path = ''/api/users/tickets/sync'' \<or> path = ''/api/users/register''
          \<or> segmentBetween ''/api/events/'' ''/claim'' path \<noteq> None then
          Some \<lparr>rp_key = ''user_auth'', rp_windowMs = 10 * 60 * 1000,
                rp_maxRequests = authPer10Minutes, rp_blockMs = max blockMs (5 * 60 * 1000)\<rparr>
        else if path = ''/api/audit/receipts/verify'' \<or> path = ''/api/audit/receipts/verify-code'' then
          Some \<lparr>rp_key = ''receipt_verify'', rp_windowMs = 60 * 1000,
                rp_maxRequests = verifyPerMinute, rp_blockMs = blockMs\<rparr>
        else if m = ''POST'' \<or> m = ''PUT'' \<or> m = ''PATCH'' \<or> m = ''DELETE'' then
          Some \<lparr>rp_key = ''mutating'', rp_windowMs = 60 * 1000,
                rp_maxRequests = mutationPerMinute, rp_blockMs = blockMs\<rparr>
        else
          Some \<lparr>rp_key = ''read'', rp_windowMs = 60 * 1000,
                rp_maxRequests = readPerMinute, rp_blockMs = blockMs\<rparr>)"

section \<open>Rate limit\<close>

definition parseSecurityRateState :: "js \<Rightarrow> SecurityRateState option" where
  "parseSecurityRateState raw =
     (if \<not> is_obj raw then None
      else case (finite_num (js_Number (jget raw ''windowStartMs'')),
                 finite_num (js_Number (jget raw ''count'')),
                 finite_num (js_Number (jget raw ''blockedUntilMs'')),
                 finite_num (js_Number (jget raw ''violations'')),
                 finite_num (js_Number (jget raw ''lastSeenMs''))) of
             (Some w, Some c, Some b, Some v, Some l) \<Rightarrow>
               Some \<lparr>rt_windowStartMs = w, rt_count = c, rt_blockedUntilMs = b, rt_violations = v, rt_lastSeenMs = l\<rparr>
           | _ \<Rightarrow> None)"

definition rateStateToJs :: "SecurityRateState \<Rightarrow> js" where
  "rateStateToJs st =
     JObj [(''windowStartMs'', JNum (rt_windowStartMs st)), (''count'', JNum (rt_count st)),
           (''blockedUntilMs'', JNum (rt_blockedUntilMs st)), (''violations'', JNum (rt_violations st)),
           (''lastSeenMs'', JNum (rt_lastSeenMs st))]"

definition getClientIpAddress :: "Request \<Rightarrow> string" where
  "getClientIpAddress rq =
     (let cfIp = (case rq_header rq ''CF-Connecting-IP'' of Some v \<Rightarrow> js_trim v | None \<Rightarrow> []) in
      if cfIp \<noteq> [] then cfIp
      else let xff = (case rq_header rq ''X-Forwarded-For'' of Some v \<Rightarrow> js_trim v | None \<Rightarrow> []) in
        if xff \<noteq> [] then
          (let first = (case js_split (CHR '','') xff of f # _ \<Rightarrow> js_trim f | [] \<Rightarrow> []) in
           if first \<noteq> [] then first else ''unknown'')
        else ''unknown'')"

definition rateLimitExceededResponse :: "SecurityRatePolicy \<Rightarrow> int \<Rightarrow> Response" where
  "rateLimitExceededResponse policy retryAfterSec =
     \<lparr>rs_status = 429,
      rs_body = JObj [(''error'', JStr ''too many requests''), (''code'', JStr ''rate_limited''),
                      (''bucket'', JStr (rp_key policy)), (''retryAfterSec'', JInt retryAfterSec)],
      rs_headers = [(''Retry-After'', js_str_int retryAfterSec)]\<rparr>"

text \<open>\<open>2 ** r\<close>; the exponent is the number of violations, an integer.\<close>

definition pow2 :: "rat \<Rightarrow> rat" where
  "pow2 r = (let n = \<lfloor>r\<rfloor> in if 0 \<le> n then 2 ^ nat n else 1 / 2 ^ nat (- n))"

definition initialRateState :: "int \<Rightarrow> SecurityRateState" where
  "initialRateState now =
     \<lparr>rt_windowStartMs = of_int now, rt_count = 0, rt_blockedUntilMs = 0, rt_violations = 0, rt_lastSeenMs = of_int now\<rparr>"

text \<open>The result is the new storage, whether the request is limited, and \<open>retryAfterSec\<close>.\<close>

definition consumeSecurityRateState ::
  "storage \<Rightarrow> string \<Rightarrow> int \<Rightarrow> SecurityRatePolicy \<Rightarrow> storage \<times> bool \<times> int" where
  "consumeSecurityRateState s stateKey now policy =
     (let state = (case parseSecurityRateState (sto_get s stateKey) of
                     Some st \<Rightarrow> st | None \<Rightarrow> initialRateState now)
      in if rt_blockedUntilMs state > of_int now
         then (s, True, max 1 \<lceil>(rt_blockedUntilMs state - of_int now) / 1000\<rceil>)
         else
           let state1 = (if of_int now < rt_windowStartMs state
                            \<or> of_int now - rt_windowStartMs state \<ge> of_int (rp_windowMs policy)
                         then state\<lparr>rt_windowStartMs := of_int now, rt_count := 0\<rparr> else state);
               state2 = state1\<lparr>rt_count := rt_count state1 + 1, rt_lastSeenMs := of_int now\<rparr>
           in if rt_count state2 > of_int (rp_maxRequests policy)
              then let violations = min (rt_violations state2 + 1) 12;
                       scale = min (pow2 (violations - 1)) 16;
                       blockMs = of_int (rp_blockMs policy) * scale;
                       state3 = state2\<lparr>rt_violations := violations, rt_blockedUntilMs := of_int now + blockMs\<rparr>
                   in (sto_put s stateKey (rateStateToJs state3), True, max 1 \<lceil>blockMs / 1000\<rceil>)
              else (sto_put s stateKey (rateStateToJs state2), False, 0))"

definition rateClientKey :: "(string \<Rightarrow> string) \<Rightarrow> SecurityRatePolicy \<Rightarrow> Request \<Rightarrow> string" where
  "rateClientKey H policy rq =
     SECURITY_RATE_LIMIT_PREFIX @ rp_key policy @ '':client:'' @ H (''client:'' @ getClientIpAddress rq)"

definition globalRatePolicy :: "Env \<Rightarrow> SecurityRatePolicy \<Rightarrow> SecurityRatePolicy" where
  "globalRatePolicy env policy =
     \<lparr>rp_key = rp_key policy @ ''_global'', rp_windowMs = 60 * 1000,
      rp_maxRequests = parseBoundedInt (SECURITY_RATE_LIMIT_GLOBAL_PER_MINUTE env) 2000 100 50000,
      rp_blockMs = rp_blockMs policy\<rparr>"

definition globalRateKey :: "Env \<Rightarrow> SecurityRatePolicy \<Rightarrow> string" where
  "globalRateKey env policy = SECURITY_RATE_LIMIT_PREFIX @ rp_key (globalRatePolicy env policy)"

definition enforceSecurityRateLimit ::
  "(string \<Rightarrow> string) \<Rightarrow> Env \<Rightarrow> storage \<Rightarrow> Request \<Rightarrow> string \<Rightarrow> int \<Rightarrow> storage \<times> Response option" where
  "enforceSecurityRateLimit H env s rq path now =
     (if \<not> isSecurityRateLimitEnabled env then (s, None)
      else case getSecurityRatePolicy env path (rq_method rq) of
        None \<Rightarrow> (s, None)
      | Some policy \<Rightarrow>
          (case consumeSecurityRateState s (rateClientKey H policy rq) now policy of
             (s1, limited, retryAfterSec) \<Rightarrow>
               if limited then (s1, Some (rateLimitExceededResponse policy retryAfterSec))
               else (case consumeSecurityRateState s1 (globalRateKey env policy) now (globalRatePolicy env policy) of
                       (s2, limited2, retryAfterSec2) \<Rightarrow>
                         if limited2
                         then (s2, Some (rateLimitExceededResponse (globalRatePolicy env policy) retryAfterSec2))
                         else (s2, None))))"

section \<open>Body size\<close>

definition payloadTooLargeResponse :: "int \<Rightarrow> Response" where
  "payloadTooLargeResponse maxBytes =
     json_response (JObj [(''error'', JStr ''payload too large''), (''code'', JStr ''payload_too_large''),
                          (''maxBytes'', JInt maxBytes)]) 413"

text \<open>The reading loop: \<open>True\<close> when the total passes the limit.\<close>

fun streamExceeds :: "int \<Rightarrow> int \<Rightarrow> nat list \<Rightarrow> bool" where
  "streamExceeds maxBytes totalBytes [] = False"
| "streamExceeds maxBytes totalBytes (n # ns) =
     (let total' = totalBytes + int n in if total' > maxBytes then True else streamExceeds maxBytes total' ns)"

definition enforceSecurityBodySizeLimit :: "Env \<Rightarrow> Request \<Rightarrow> string \<Rightarrow> Response option" where
  "enforceSecurityBodySizeLimit env rq path =
     (if \<not> isApiPath path then None
      else if \<not> isMutatingMethod (rq_method rq) then None
      else
        let maxBytes = getSecurityBodySizeLimitBytes env;
            declared = (case rq_header rq ''Content-Length'' of
                          Some h \<Rightarrow> (if h \<noteq> [] then js_parseInt h else None) | None \<Rightarrow> None);
            readBody = (case rq_chunks rq of
                          None \<Rightarrow> None
                        | Some chunks \<Rightarrow>
                            (if streamExceeds maxBytes 0 chunks then Some (payloadTooLargeResponse maxBytes) else None))
        in case declared of
             Some contentLength \<Rightarrow>
               (if contentLength > maxBytes then Some (payloadTooLargeResponse maxBytes)
                else if contentLength \<ge> 0 then None
                else readBody)
           | None \<Rightarrow> readBody)"

definition enforceSecurityPreflight ::
  "(string \<Rightarrow> string) \<Rightarrow> Env \<Rightarrow> storage \<Rightarrow> Request \<Rightarrow> string \<Rightarrow> int \<Rightarrow> storage \<times> Response option" where
  "enforceSecurityPreflight H env s rq path now =
     (case enforceSecurityBodySizeLimit env rq path of
        Some r \<Rightarrow> (s, Some r)
      | None \<Rightarrow> enforceSecurityRateLimit H env s rq path now)"

section \<open>Issue limits\<close>

definition parseSecurityIssueLimitState :: "js \<Rightarrow> SecurityIssueLimitState option" where
  "parseSecurityIssueLimitState raw =
     (if \<not> is_obj raw then None
      else case (finite_num (js_Number (jget raw ''windowStartMs'')),
                 finite_num (js_Number (jget raw ''count'')),
                 finite_num (js_Number (jget raw ''lastIssuedAtMs''))) of
             (Some w, Some c, Some l) \<Rightarrow>
               Some \<lparr>is_windowStartMs = w, is_count = c, is_lastIssuedAtMs = l\<rparr>
           | _ \<Rightarrow> None)"

definition issueStateToJs :: "SecurityIssueLimitState \<Rightarrow> js" where
  "issueStateToJs st =
     JObj [(''windowStartMs'', JNum (is_windowStartMs st)), (''count'', JNum (is_count st)),
           (''lastIssuedAtMs'', JNum (is_lastIssuedAtMs st))]"

definition issueLimitExceededResponse :: "SecurityIssueLimitPolicy \<Rightarrow> int \<Rightarrow> int \<Rightarrow> Response" where
  "issueLimitExceededResponse policy retryAfterSec limitPerWindow =
     \<lparr>rs_status = 429,
      rs_body = JObj [(''error'', JStr (ip_message policy)), (''code'', JStr (ip_code policy)),
                      (''limitPerWindow'', JInt limitPerWindow), (''retryAfterSec'', JInt retryAfterSec)],
      rs_headers = [(''Retry-After'', js_str_int retryAfterSec)]\<rparr>"

definition issueLimitKey :: "(string \<Rightarrow> string) \<Rightarrow> SecurityIssueLimitPolicy \<Rightarrow> string \<Rightarrow> string" where
  "issueLimitKey H policy actorKey =
     SECURITY_ISSUE_LIMIT_PREFIX @ ip_key policy @ '':'' @ H (''issuer:'' @ ip_key policy @ '':'' @ actorKey)"

definition consumeSecurityIssueLimit ::
  "(string \<Rightarrow> string) \<Rightarrow> storage \<Rightarrow> SecurityIssueLimitPolicy \<Rightarrow> string \<Rightarrow> int \<Rightarrow> storage \<times> bool \<times> int" where
  "consumeSecurityIssueLimit H s policy actorKey now =
     (let storageKey = issueLimitKey H policy actorKey;
          state = (case parseSecurityIssueLimitState (sto_get s storageKey) of
                     Some st \<Rightarrow> st
                   | None \<Rightarrow> \<lparr>is_windowStartMs = of_int now, is_count = 0, is_lastIssuedAtMs = of_int now\<rparr>);
          state1 = (if of_int now < is_windowStartMs state
                       \<or> of_int now - is_windowStartMs state \<ge> of_int (ip_windowMs policy)
                    then state\<lparr>is_windowStartMs := of_int now, is_count := 0\<rparr> else state)
      in if is_count state1 \<ge> of_int (ip_maxIssues policy)
         then let retryAfterMs = max 1000 (of_int (ip_windowMs policy) - (of_int now - is_windowStartMs state1))
              in (s, True, max 1 \<lceil>retryAfterMs / 1000\<rceil>)
         else let state2 = state1\<lparr>is_count := is_count state1 + 1, is_lastIssuedAtMs := of_int now\<rparr>
              in (sto_put s storageKey (issueStateToJs state2), False, 0))"

definition enforceAdminEventIssueLimit ::
  "(string \<Rightarrow> string) \<Rightarrow> Env \<Rightarrow> storage \<Rightarrow> string \<Rightarrow> int \<Rightarrow> storage \<times> Response option" where
  "enforceAdminEventIssueLimit H env s adminId now =
     (case parseOptionalBoundedInt (SECURITY_ADMIN_EVENT_ISSUE_LIMIT_PER_DAY env) 30 5000 of
        None \<Rightarrow> (s, None)
      | Some perDay \<Rightarrow>
          (let policy = \<lparr>ip_key = ''event_issue'', ip_maxIssues = perDay,
                         ip_windowMs = SECURITY_ISSUE_LIMIT_WINDOW_MS,
                         ip_code = ''event_issue_limit_exceeded'',
                         ip_message = ''event issuance limit exceeded''\<rparr>;
               (s', limited, retryAfterSec) = consumeSecurityIssueLimit H s policy adminId now
           in if \<not> limited then (s', None)
              else (s', Some (issueLimitExceededResponse policy retryAfterSec perDay))))"

definition enforceAdminInviteIssueLimit ::
  "(string \<Rightarrow> string) \<Rightarrow> Env \<Rightarrow> storage \<Rightarrow> int \<Rightarrow> storage \<times> Response option" where
  "enforceAdminInviteIssueLimit H env s now =
     (case parseOptionalBoundedInt (SECURITY_ADMIN_INVITE_ISSUE_LIMIT_PER_DAY env) 50 5000 of
        None \<Rightarrow> (s, None)
      | Some perDay \<Rightarrow>
          (let policy = \<lparr>ip_key = ''admin_invite_issue'', ip_maxIssues = perDay,
                         ip_windowMs = SECURITY_ISSUE_LIMIT_WINDOW_MS,
                         ip_code = ''admin_invite_issue_limit_exceeded'',
                         ip_message = ''admin invite issuance limit exceeded''\<rparr>;
               (s', limited, retryAfterSec) = consumeSecurityIssueLimit H s policy ''master'' now
           in if \<not> limited then (s', None)
              else (s', Some (issueLimitExceededResponse policy retryAfterSec perDay))))"

section \<open>Counters over a fixed window\<close>

text \<open>
  The interface of both limiters. \<open>step\<close> takes one request, whose time of the clock is \<open>time\<close>, and says
  whether it is one of the observed ones and admitted; \<open>view\<close> is the stored window start and count.
\<close>

definition windowAt :: "(rat \<times> rat) option \<Rightarrow> int \<Rightarrow> int \<Rightarrow> rat \<times> rat" where
  "windowAt v W now = (case v of None \<Rightarrow> (of_int now, 0)
     | Some (w, c) \<Rightarrow> if of_int now < w \<or> of_int now - w \<ge> of_int W then (of_int now, 0) else (w, c))"

fun admittedTimes :: "('i \<Rightarrow> int) \<Rightarrow> ('s \<Rightarrow> 'i \<Rightarrow> 's \<times> bool) \<Rightarrow> 's \<Rightarrow> 'i list \<Rightarrow> int list" where
  "admittedTimes time step s [] = []"
| "admittedTimes time step s (i # is) =
     (let (s', admitted) = step s i in (if admitted then [time i] else []) @ admittedTimes time step s' is)"

definition countIn :: "int list \<Rightarrow> rat \<Rightarrow> int \<Rightarrow> nat" where
  "countIn ts a W = length (filter (\<lambda>t. a \<le> of_int t \<and> of_int t < a + of_int W) ts)"

locale fixed_window =
  fixes time :: "'i \<Rightarrow> int"
    and step :: "'s \<Rightarrow> 'i \<Rightarrow> 's \<times> bool"
    and view :: "'s \<Rightarrow> (rat \<times> rat) option"
    and W N :: int
  assumes admit: "step s i = (s', True) \<Longrightarrow>
      view s' = Some (fst (windowAt (view s) W (time i)), snd (windowAt (view s) W (time i)) + 1)
      \<and> snd (windowAt (view s) W (time i)) + 1 \<le> of_int N"
    and refuse: "step s i = (s', False) \<Longrightarrow>
      view s' = view s \<or> (\<exists>c. view s' = Some (fst (windowAt (view s) W (time i)), c) \<and> snd (windowAt (view s) W (time i)) \<le> c)"
begin

text \<open>
  The admitted requests so far, newest window last: everything before the previous window, the
  previous window, the current one.
\<close>

definition shaped :: "'s \<Rightarrow> int list \<Rightarrow> int list \<Rightarrow> int list \<Rightarrow> bool" where
  "shaped s old prev cur =
     (case view s of
        None \<Rightarrow> old = [] \<and> prev = [] \<and> cur = []
      | Some (w, c) \<Rightarrow>
          of_nat (length cur) \<le> c \<and> int (length cur) \<le> N \<and> int (length prev) \<le> N
          \<and> (\<forall>t \<in> set prev. of_int t < w) \<and> (\<forall>t \<in> set old. of_int t \<le> w - of_int W)
          \<and> (\<forall>t \<in> set cur. w \<le> of_int t \<and> of_int t < w + of_int W))"

definition bounded :: "int list \<Rightarrow> bool" where
  "bounded ts = (\<forall>a. int (countIn ts a W) \<le> 2 * N)"

definition startsBy :: "'s \<Rightarrow> int \<Rightarrow> bool" where
  "startsBy s t = (\<forall>w c. view s = Some (w, c) \<longrightarrow> w \<le> of_int t)"

lemma countIn_append: "countIn (xs @ ys) a W = countIn xs a W + countIn ys a W"
  by (simp add: countIn_def)

lemma countIn_zero: "\<forall>t \<in> set ts. of_int t < a \<Longrightarrow> countIn ts a W = 0"
  by (auto simp: countIn_def filter_empty_conv)

lemma countIn_le: "countIn ts a W \<le> length ts"
  by (simp add: countIn_def)

lemma bounded_snoc:
  assumes "bounded ts" "ts = xs @ ys" "int (length ys) + 1 \<le> 2 * N"
    and early: "\<forall>x \<in> set xs. of_int x \<le> (of_int t - of_int W :: rat)"
  shows "bounded (ts @ [t])"
  unfolding bounded_def
proof
  fix a
  show "int (countIn (ts @ [t]) a W) \<le> 2 * N"
  proof (cases "a \<le> of_int t \<and> of_int t < a + of_int W")
    case True
    then have "countIn xs a W = 0"
      using early by (intro countIn_zero) (auto intro: order_le_less_trans)
    moreover have "countIn ys a W \<le> length ys" "countIn [t] a W \<le> 1"
      using countIn_le [of ys a] countIn_le [of "[t]" a] by auto
    ultimately show ?thesis using assms(2,3) by (simp add: countIn_append)
  next
    case False
    then have "countIn [t] a W = 0" by (simp add: countIn_def)
    then show ?thesis using assms(1) by (simp add: countIn_append bounded_def)
  qed
qed

lemma shaped_step:
  assumes sh: "shaped s old prev cur" and bd: "bounded (old @ prev @ cur)"
    and st: "startsBy s t" and step: "step s i = (s', b)" and t: "time i = t" and W: "W > 0"
  shows "\<exists>old' prev' cur'. shaped s' old' prev' cur' \<and> bounded (old' @ prev' @ cur') \<and> startsBy s' t
     \<and> old' @ prev' @ cur' = (old @ prev @ cur) @ (if b then [t] else [])"
proof (cases "view s' = view s \<and> \<not> b")
  case True
  then show ?thesis using sh bd st by (intro exI [of _ old] exI [of _ prev] exI [of _ cur]) (auto simp: shaped_def startsBy_def)
next
  case new: False
  obtain w c where wc: "windowAt (view s) W t = (w, c)" by fastforce
  obtain c' where c': "view s' = Some (w, c')" "c + (if b then 1 else 0) \<le> c'" "b \<Longrightarrow> c + 1 \<le> of_int N"
    using admit [of s i s'] refuse [of s i s'] step new wc t by (cases b) auto
  have same: ?thesis if v: "view s = Some (w, c)" "of_int t - w < of_int W"
  proof -
    have cur: "int (length cur) + 1 \<le> N" if b
    proof -
      have "(of_nat (length cur) :: rat) + 1 \<le> of_int N" using sh v c'(3) that by (auto simp: shaped_def)
      then have "(of_int (int (length cur) + 1) :: rat) \<le> of_int N" by simp
      then show ?thesis by (simp only: of_int_le_iff)
    qed
    have wt: "w \<le> of_int t" using st v by (auto simp: startsBy_def)
    then have early: "\<forall>x \<in> set old. of_int x \<le> (of_int t - of_int W :: rat)"
      using sh v by (fastforce simp: shaped_def)
    have "bounded ((old @ prev @ cur) @ [t])" if b
      using sh v cur [OF that] early
      by (intro bounded_snoc [OF bd, of old "prev @ cur"]) (auto simp: shaped_def)
    with wt show ?thesis
      using sh v c' cur bd
      by (intro exI [of _ old] exI [of _ prev] exI [of _ "cur @ (if b then [t] else [])"])
         (auto simp: shaped_def startsBy_def)
  qed
  have fresh: ?thesis if v: "w = of_int t" "c = 0" and
      sep: "\<forall>x \<in> set (old @ prev). of_int x \<le> (of_int t - of_int W :: rat)" "\<forall>x \<in> set cur. x < t"
      and n: "int (length cur) \<le> N" "cur = [] \<or> N \<ge> 0"
  proof -
    have N: "N \<ge> 1" if b
      using c'(3) [OF that] v(2) by simp
    have "bounded ((old @ prev @ cur) @ [t])" if b
      using N [OF that] n sep(1) by (intro bounded_snoc [OF bd, of "old @ prev" cur]) auto
    then show ?thesis
      using v c' sep n N W bd
      by (intro exI [of _ "old @ prev"] exI [of _ cur] exI [of _ "if b then [t] else []"])
         (auto simp: shaped_def startsBy_def)
  qed
  show ?thesis
  proof (cases "view s")
    case None
    then have "w = of_int t" "c = 0" "old = []" "prev = []" "cur = []" using wc sh by (auto simp: windowAt_def shaped_def)
    moreover have "N \<ge> 0" using bd by (auto simp: bounded_def countIn_def)
    ultimately show ?thesis by (intro fresh) auto
  next
    case (Some p)
    obtain w0 c0 where p: "p = (w0, c0)" by fastforce
    show ?thesis
    proof (cases "of_int t - w0 \<ge> of_int W")
      case True
      then have "w = of_int t" "c = 0" using wc Some p by (auto simp: windowAt_def)
      moreover have "of_int x < (of_int t :: rat)" if "x \<in> set cur" for x
        using that True sh Some p by (fastforce simp: shaped_def)
      moreover have "of_int x \<le> (of_int t - of_int W :: rat)" if "x \<in> set (old @ prev)" for x
      proof -
        have "(0 :: rat) < of_int W" using W by simp
        moreover have "of_int x \<le> w0 - of_int W \<or> of_int x < w0"
          using that sh Some p by (auto simp: shaped_def)
        ultimately show ?thesis using True by linarith
      qed
      moreover have "int (length cur) \<le> N" using sh Some p by (simp add: shaped_def)
      ultimately show ?thesis by (intro fresh) auto
    next
      case False
      moreover have "w0 \<le> of_int t" using st Some p by (auto simp: startsBy_def)
      ultimately have "windowAt (view s) W t = (w0, c0)" using Some p by (auto simp: windowAt_def)
      with wc False Some p show ?thesis by (intro same) auto
    qed
  qed
qed

lemma admitted_bounded_from:
  assumes "sorted (map time is)" "shaped s old prev cur" "bounded (old @ prev @ cur)" "W > 0"
    and "\<forall>i \<in> set is. startsBy s (time i)"
  shows "bounded ((old @ prev @ cur) @ admittedTimes time step s is)"
  using assms
proof (induction "is" arbitrary: s old prev cur)
  case (Cons i "is")
  let ?t = "time i"
  obtain s' b where step: "step s i = (s', b)" by fastforce
  obtain old' prev' cur' where n: "shaped s' old' prev' cur'" "bounded (old' @ prev' @ cur')" "startsBy s' ?t"
      "old' @ prev' @ cur' = (old @ prev @ cur) @ (if b then [?t] else [])"
    using shaped_step [OF Cons.prems(2,3) _ step refl Cons.prems(4)] Cons.prems(5) by auto
  have "\<forall>u \<in> set is. startsBy s' (time u)"
    using n(3) Cons.prems(1) by (auto simp: startsBy_def intro: order_trans)
  then have "bounded ((old' @ prev' @ cur') @ admittedTimes time step s' is)"
    using Cons.IH n(1,2) Cons.prems(1,4) by auto
  then show ?case unfolding n(4) by (simp add: step)
qed simp

text \<open>
  From an empty counter and under a clock that does not go back, no interval of the window's length
  contains more than twice the allowed number of admitted requests.
\<close>

theorem admitted_bounded:
  assumes "sorted (map time is)" "view s = None" "W > 0" "N \<ge> 0"
  shows "int (countIn (admittedTimes time step s is) a W) \<le> 2 * N"
proof -
  have "bounded ([] @ admittedTimes time step s is)"
    using admitted_bounded_from [OF assms(1), of s "[]" "[]" "[]"] assms(2-4)
    by (auto simp: shaped_def bounded_def startsBy_def countIn_def)
  then show ?thesis by (simp add: bounded_def)
qed

end

end
