(* ===== verification/Rate_Spec.thy ===== *)
theory Rate_Spec
  imports Rate_Limit
begin

text \<open>
  The two limiters are counters over a fixed window, and what follows for the guards of the worker:
  bounds on admitted requests, growth of the block time, the daily issue limits and the body size
  limit.
\<close>

section \<open>The limiters provide the interface\<close>

lemma parse_rateStateToJs [simp]: "parseSecurityRateState (rateStateToJs st) = Some st"
  by (cases st) (simp add: parseSecurityRateState_def rateStateToJs_def)

lemma parse_issueStateToJs [simp]: "parseSecurityIssueLimitState (issueStateToJs st) = Some st"
  by (cases st) (simp add: parseSecurityIssueLimitState_def issueStateToJs_def)

lemma parse_rate_undef [simp]: "parseSecurityRateState JUndef = None"
  by (simp add: parseSecurityRateState_def)

lemma parse_issue_undef [simp]: "parseSecurityIssueLimitState JUndef = None"
  by (simp add: parseSecurityIssueLimitState_def)

definition rateView :: "string \<Rightarrow> storage \<Rightarrow> (rat \<times> rat) option" where
  "rateView key s = map_option (\<lambda>st. (rt_windowStartMs st, rt_count st)) (parseSecurityRateState (sto_get s key))"

text \<open>The count of issues may be any number in storage; only its integral part matters.\<close>

definition issueView :: "string \<Rightarrow> storage \<Rightarrow> (rat \<times> rat) option" where
  "issueView key s =
     map_option (\<lambda>st. (is_windowStartMs st, of_int \<lfloor>is_count st\<rfloor>)) (parseSecurityIssueLimitState (sto_get s key))"

definition issueStep ::
  "(string \<Rightarrow> string) \<Rightarrow> SecurityIssueLimitPolicy \<Rightarrow> string \<Rightarrow> storage \<Rightarrow> int \<Rightarrow> storage \<times> bool" where
  "issueStep H policy actorKey s now =
     (case consumeSecurityIssueLimit H s policy actorKey now of (s', limited, _) \<Rightarrow> (s', \<not> limited))"

lemma consume_admitted:
  assumes "consumeSecurityRateState s key now policy = (s', False, r)"
  shows "rateView key s' = Some (fst (windowAt (rateView key s) (rp_windowMs policy) now),
                                 snd (windowAt (rateView key s) (rp_windowMs policy) now) + 1)
       \<and> snd (windowAt (rateView key s) (rp_windowMs policy) now) + 1 \<le> of_int (rp_maxRequests policy)"
  using assms
  by (cases "parseSecurityRateState (sto_get s key)")
     (auto simp: consumeSecurityRateState_def rateView_def windowAt_def initialRateState_def Let_def split: if_splits)

lemma consume_limited:
  assumes "consumeSecurityRateState s key now policy = (s', True, r)"
  shows "rateView key s' = rateView key s
       \<or> rateView key s' = Some (fst (windowAt (rateView key s) (rp_windowMs policy) now),
                                snd (windowAt (rateView key s) (rp_windowMs policy) now) + 1)"
  using assms
  by (cases "parseSecurityRateState (sto_get s key)")
     (auto simp: consumeSecurityRateState_def rateView_def windowAt_def initialRateState_def Let_def split: if_splits)

lemma consume_frame:
  "consumeSecurityRateState s key now policy = (s', l, r) \<Longrightarrow> k \<noteq> key \<Longrightarrow> sto_get s' k = sto_get s k"
  by (auto simp: consumeSecurityRateState_def Let_def split: if_splits)

lemma consume_view_frame:
  "consumeSecurityRateState s key now policy = (s', l, r) \<Longrightarrow> k \<noteq> key \<Longrightarrow> rateView k s' = rateView k s"
  by (simp add: rateView_def consume_frame)

lemma issue_admitted:
  assumes "consumeSecurityIssueLimit H s policy a now = (s', False, r)" and k: "key = issueLimitKey H policy a"
  shows "issueView key s' = Some (fst (windowAt (issueView key s) (ip_windowMs policy) now),
                                 snd (windowAt (issueView key s) (ip_windowMs policy) now) + 1)
       \<and> snd (windowAt (issueView key s) (ip_windowMs policy) now) + 1 \<le> of_int (ip_maxIssues policy)"
proof -
  have fl: "of_int \<lfloor>c\<rfloor> + 1 \<le> (of_int n :: rat)" if "c < of_int n" for c :: rat and n
  proof -
    have "\<lfloor>c\<rfloor> + 1 \<le> n" using that by linarith
    then have "of_int (\<lfloor>c\<rfloor> + 1) \<le> (of_int n :: rat)" by (simp only: of_int_le_iff)
    then show ?thesis by simp
  qed
  show ?thesis
    using assms fl [of 0 "ip_maxIssues policy"]
    by (cases "parseSecurityIssueLimitState (sto_get s key)")
       (auto simp: consumeSecurityIssueLimit_def issueView_def windowAt_def Let_def fl split: if_splits)
qed

lemma issue_limited: "consumeSecurityIssueLimit H s policy a now = (s', True, r) \<Longrightarrow> s' = s"
  by (auto simp: consumeSecurityIssueLimit_def Let_def split: if_splits)

interpretation il: fixed_window "\<lambda>t. t" "issueStep H policy actor" "issueView (issueLimitKey H policy actor)"
    "ip_windowMs policy" "ip_maxIssues policy" for H policy actor
  by unfold_locales
     (auto simp: issueStep_def split: prod.splits dest: issue_admitted [OF _ refl] issue_limited)

section \<open>Buckets\<close>

definition bucketKey :: "(string \<Rightarrow> string) \<Rightarrow> Env \<Rightarrow> Request \<Rightarrow> string \<Rightarrow> string option" where
  "bucketKey H env rq path = map_option (\<lambda>p. rateClientKey H p rq) (getSecurityRatePolicy env path (rq_method rq))"

definition bucketStep ::
  "(string \<Rightarrow> string) \<Rightarrow> Env \<Rightarrow> string \<Rightarrow> storage \<Rightarrow> Request \<times> string \<times> int \<Rightarrow> storage \<times> bool" where
  "bucketStep H env key s = (\<lambda>(rq, path, now).
     case enforceSecurityRateLimit H env s rq path now of
       (s', r) \<Rightarrow> (s', r = None \<and> bucketKey H env rq path = Some key))"

definition rateBuckets :: "string set" where
  "rateBuckets = {''admin_login'', ''user_auth'', ''receipt_verify'', ''mutating'', ''read''}"

definition ratePolicies :: "Env \<Rightarrow> SecurityRatePolicy list" where
  "ratePolicies env =
     (let blockMs = getSecurityRateBlockMs env in
      [\<lparr>rp_key = ''admin_login'', rp_windowMs = 10 * 60 * 1000,
        rp_maxRequests = parseBoundedInt (SECURITY_RATE_LIMIT_ADMIN_LOGIN_PER_10_MINUTES env) 20 3 500,
        rp_blockMs = max blockMs (5 * 60 * 1000)\<rparr>,
       \<lparr>rp_key = ''user_auth'', rp_windowMs = 10 * 60 * 1000,
        rp_maxRequests = parseBoundedInt (SECURITY_RATE_LIMIT_AUTH_PER_10_MINUTES env) 60 5 3000,
        rp_blockMs = max blockMs (5 * 60 * 1000)\<rparr>,
       \<lparr>rp_key = ''receipt_verify'', rp_windowMs = 60 * 1000,
        rp_maxRequests = parseBoundedInt (SECURITY_RATE_LIMIT_VERIFY_PER_MINUTE env) 120 10 5000, rp_blockMs = blockMs\<rparr>,
       \<lparr>rp_key = ''mutating'', rp_windowMs = 60 * 1000,
        rp_maxRequests = parseBoundedInt (SECURITY_RATE_LIMIT_MUTATION_PER_MINUTE env) 120 10 3000, rp_blockMs = blockMs\<rparr>,
       \<lparr>rp_key = ''read'', rp_windowMs = 60 * 1000,
        rp_maxRequests = parseBoundedInt (SECURITY_RATE_LIMIT_READ_PER_MINUTE env) 300 30 5000, rp_blockMs = blockMs\<rparr>])"

lemma policy_listed: "pred_option (\<lambda>p. p \<in> set (ratePolicies env)) (getSecurityRatePolicy env path m)"
  unfolding getSecurityRatePolicy_def Let_def
  by (intro pred_option_if) (simp_all add: ratePolicies_def Let_def)

lemma policy_in: "getSecurityRatePolicy env path m = Some p \<Longrightarrow> p \<in> set (ratePolicies env)"
  using policy_listed [of env path m] by simp

lemma policy_key: "getSecurityRatePolicy env path m = Some p \<Longrightarrow> rp_key p \<in> rateBuckets"
  by (drule policy_in) (auto simp: ratePolicies_def rateBuckets_def Let_def)

lemma policy_of_key:
  "getSecurityRatePolicy env path m = Some p \<Longrightarrow> getSecurityRatePolicy env path' m' = Some p' \<Longrightarrow>
     rp_key p = rp_key p' \<Longrightarrow> p = p'"
  by (drule policy_in, drule policy_in) (auto simp: ratePolicies_def Let_def)

lemma bucket_head: "k \<in> rateBuckets \<Longrightarrow> takeWhile (\<lambda>c. c \<noteq> CHR '':'') (k @ '':client:'' @ h) = k"
  by (auto simp: rateBuckets_def)

lemma global_head: "k \<in> rateBuckets \<Longrightarrow> takeWhile (\<lambda>c. c \<noteq> CHR '':'') (k @ ''_global'') = k @ ''_global''"
  by (auto simp: rateBuckets_def)

lemma client_keys_separate:
  assumes "k \<in> rateBuckets" "k' \<in> rateBuckets" "k @ '':client:'' @ h = k' @ '':client:'' @ h'"
  shows "k = k'"
  using arg_cong [OF assms(3), of "takeWhile (\<lambda>c. c \<noteq> CHR '':'')"]
  by (simp only: bucket_head [OF assms(1)] bucket_head [OF assms(2)])

lemma client_not_global:
  assumes "k \<in> rateBuckets" "k' \<in> rateBuckets"
  shows "k @ '':client:'' @ h \<noteq> k' @ ''_global''"
proof
  assume "k @ '':client:'' @ h = k' @ ''_global''"
  from arg_cong [OF this, of "takeWhile (\<lambda>c. c \<noteq> CHR '':'')"] have "k = k' @ ''_global''"
    by (simp only: bucket_head global_head assms)
  with assms show False by (auto simp: rateBuckets_def)
qed

lemma rateClientKey_policy:
  "getSecurityRatePolicy env path m = Some p \<Longrightarrow> getSecurityRatePolicy env path' m' = Some p' \<Longrightarrow>
     rateClientKey H p rq = rateClientKey H p' rq' \<Longrightarrow> p = p'"
  by (rule policy_of_key, assumption, assumption)
     (auto simp: rateClientKey_def intro: client_keys_separate policy_key)

lemma enforce_view:
  assumes en: "isSecurityRateLimitEnabled env" and pol: "getSecurityRatePolicy env path (rq_method rq) = Some p"
    and e: "enforceSecurityRateLimit H env s rq path now = (s', r)"
  obtains s1 l n where "consumeSecurityRateState s (rateClientKey H p rq) now p = (s1, l, n)"
    and "r = None \<Longrightarrow> \<not> l"
    and "\<And>q rq' path'. getSecurityRatePolicy env path' (rq_method rq') = Some q \<Longrightarrow>
           rateView (rateClientKey H q rq') s' = rateView (rateClientKey H q rq') s1"
proof -
  obtain s1 l n where c: "consumeSecurityRateState s (rateClientKey H p rq) now p = (s1, l, n)"
    by (metis prod_cases3)
  have ng: "rateClientKey H q rq' \<noteq> globalRateKey env p"
    if "getSecurityRatePolicy env path' (rq_method rq') = Some q" for q rq' path'
    using client_not_global [OF policy_key [OF that] policy_key [OF pol]]
    by (auto simp: rateClientKey_def globalRateKey_def globalRatePolicy_def)
  show thesis
  proof (rule that [OF c])
    show "\<not> l" if "r = None"
      using e en pol c that by (auto simp: enforceSecurityRateLimit_def)
  next
    fix q and rq' :: Request and path'
    assume q: "getSecurityRatePolicy env path' (rq_method rq') = Some q"
    show "rateView (rateClientKey H q rq') s' = rateView (rateClientKey H q rq') s1"
      using e en pol c ng [OF q]
      by (auto simp: enforceSecurityRateLimit_def split: if_splits prod.splits dest: consume_view_frame)
  qed
qed

text \<open>
  The guard, observed at one client and one bucket while any other requests are interleaved, is a
  fixed-window counter.
\<close>

lemma bucket_laws:
  assumes en: "isSecurityRateLimitEnabled env" and pol: "getSecurityRatePolicy env path0 (rq_method rq0) = Some p"
    and key: "key = rateClientKey H p rq0" and st: "bucketStep H env key s (rq, path, now) = (s', b)"
  shows "if b then rateView key s' = Some (fst (windowAt (rateView key s) (rp_windowMs p) now),
                                       snd (windowAt (rateView key s) (rp_windowMs p) now) + 1)
              \<and> snd (windowAt (rateView key s) (rp_windowMs p) now) + 1 \<le> of_int (rp_maxRequests p)
         else rateView key s' = rateView key s
              \<or> (\<exists>c. rateView key s' = Some (fst (windowAt (rateView key s) (rp_windowMs p) now), c)
                    \<and> snd (windowAt (rateView key s) (rp_windowMs p) now) \<le> c)"
proof -
  obtain r where e: "enforceSecurityRateLimit H env s rq path now = (s', r)"
      and b: "b = (r = None \<and> bucketKey H env rq path = Some key)"
    using st by (auto simp: bucketStep_def split: prod.splits)
  show ?thesis
  proof (cases "getSecurityRatePolicy env path (rq_method rq)")
    case None
    then have "s' = s" "\<not> b" using e b by (auto simp: enforceSecurityRateLimit_def bucketKey_def split: if_splits)
    then show ?thesis by simp
  next
    case (Some q)
    obtain s1 l n where c: "consumeSecurityRateState s (rateClientKey H q rq) now q = (s1, l, n)"
        "r = None \<Longrightarrow> \<not> l" "rateView key s' = rateView key s1"
      using enforce_view [OF en Some e, of thesis] pol key by metis
    show ?thesis
    proof (cases "rateClientKey H q rq = key")
      case True
      with Some pol key have "q = p" by (auto intro: rateClientKey_policy)
      then show ?thesis
        using c True consume_admitted [of s key now p s1 n] consume_limited [of s key now p s1 n] b Some
        by (cases l) (auto simp: bucketKey_def)
    next
      case False
      then have "rateView key s' = rateView key s" using c consume_view_frame by metis
      moreover have "\<not> b" using b Some False by (simp add: bucketKey_def)
      ultimately show ?thesis by simp
    qed
  qed
qed

text \<open>
  The guard with the bucket of one request, as a counter; where no policy applies (or the guard is
  off) nothing is observed.
\<close>

definition bucketPolicy :: "Env \<Rightarrow> Request \<Rightarrow> string \<Rightarrow> SecurityRatePolicy" where
  "bucketPolicy env rq path = the (getSecurityRatePolicy env path (rq_method rq))"

definition observedStep ::
  "(string \<Rightarrow> string) \<Rightarrow> Env \<Rightarrow> Request \<Rightarrow> string \<Rightarrow> storage \<Rightarrow> Request \<times> string \<times> int \<Rightarrow> storage \<times> bool" where
  "observedStep H env rq path s i =
     (if isSecurityRateLimitEnabled env \<and> getSecurityRatePolicy env path (rq_method rq) \<noteq> None
      then bucketStep H env (rateClientKey H (bucketPolicy env rq path) rq) s i else (s, False))"

interpretation rl: fixed_window "\<lambda>(rq, path, now). now" "observedStep H env rq path"
    "rateView (rateClientKey H (bucketPolicy env rq path) rq)"
    "rp_windowMs (bucketPolicy env rq path)" "rp_maxRequests (bucketPolicy env rq path)" for H env rq path
proof (unfold_locales, goal_cases)
  case (1 s i s')
  then show ?case
    using bucket_laws [of env path rq "bucketPolicy env rq path" _ H s "fst i" "fst (snd i)" "snd (snd i)" s' True]
    by (cases i) (auto simp: observedStep_def bucketPolicy_def split: if_splits)
next
  case (2 s i s')
  then show ?case
    using bucket_laws [of env path rq "bucketPolicy env rq path" _ H s "fst i" "fst (snd i)" "snd (snd i)" s' False]
    by (cases i) (auto simp: observedStep_def bucketPolicy_def split: if_splits)
qed

lemma policy_bounds:
  assumes "p \<in> set (ratePolicies env)"
  shows "0 < rp_windowMs p \<and> 3 \<le> rp_maxRequests p \<and> rp_maxRequests p \<le> 5000 \<and> 10000 \<le> rp_blockMs p \<and> rp_blockMs p \<le> 3600000"
proof -
  note b = parseBoundedInt_bounds
  have "10 * 1000 \<le> getSecurityRateBlockMs env \<and> getSecurityRateBlockMs env \<le> 3600 * 1000"
    using b [of 10 120 3600 "SECURITY_RATE_LIMIT_BLOCK_SECONDS env"] by (simp add: getSecurityRateBlockMs_def)
  then show ?thesis
    using assms b [of 3 20 500 "SECURITY_RATE_LIMIT_ADMIN_LOGIN_PER_10_MINUTES env"]
      b [of 5 60 3000 "SECURITY_RATE_LIMIT_AUTH_PER_10_MINUTES env"] b [of 10 120 5000 "SECURITY_RATE_LIMIT_VERIFY_PER_MINUTE env"]
      b [of 10 120 3000 "SECURITY_RATE_LIMIT_MUTATION_PER_MINUTE env"] b [of 30 300 5000 "SECURITY_RATE_LIMIT_READ_PER_MINUTE env"]
    by (auto simp: ratePolicies_def Let_def)
qed

section \<open>Properties\<close>

lemma observed_bucket:
  "isSecurityRateLimitEnabled env \<Longrightarrow> getSecurityRatePolicy env path (rq_method rq) = Some p \<Longrightarrow>
     observedStep H env rq path = bucketStep H env (rateClientKey H p rq)"
  by (rule ext, rule ext) (simp add: observedStep_def bucketPolicy_def)

text \<open>
  C4. The rate limit holds through the guard: take any sequence of requests to the worker, of any
  clients and paths, in the order of the clock. Of the requests of one client in one bucket, no
  interval as long as the bucket's window contains more than twice the configured number of admitted
  requests (twice, since the window starts anew with the first request after its end).
\<close>

theorem client_rate_bounded:
  assumes "isSecurityRateLimitEnabled env"
    and "getSecurityRatePolicy env path (rq_method rq) = Some policy"
    and "sto_get s (rateClientKey H policy rq) = JUndef"
    and "sorted (map (\<lambda>(rq, path, now). now) reqs)"
  shows "int (countIn (admittedTimes (\<lambda>(rq, path, now). now)
                (bucketStep H env (rateClientKey H policy rq)) s reqs) a (rp_windowMs policy))
           \<le> 2 * rp_maxRequests policy"
  using rl.admitted_bounded [where ?is = reqs and H = H and env = env and path = path and rq = rq and s = s and a = a] policy_bounds [OF policy_in [OF assms(2)]] assms
  by (simp add: observed_bucket bucketPolicy_def rateView_def)

definition sampleRequest :: Request where
  "sampleRequest = \<lparr>rq_method = ''POST'', rq_headers = [(''CF-Connecting-IP'', ''203.0.113.7'')],
                    rq_chunks = Some [5000], rq_json = Inr (JObj [])\<rparr>"

theorem client_rate_bounded_witness:
  "int (countIn (admittedTimes (\<lambda>(rq, path, now). now)
          (bucketStep (\<lambda>x. x) emptyEnv
             (rateClientKey (\<lambda>x. x) (bucketPolicy emptyEnv sampleRequest ''/api/admin/login'') sampleRequest)) []
          [(sampleRequest, ''/api/admin/login'', 5), (sampleRequest, ''/api/admin/login'', 9)]) 0 600000) \<le> 40"
proof -
  have "getSecurityRatePolicy emptyEnv ''/api/admin/login'' (rq_method sampleRequest)
          = Some (bucketPolicy emptyEnv sampleRequest ''/api/admin/login'')"
    "rp_windowMs (bucketPolicy emptyEnv sampleRequest ''/api/admin/login'') = 600000"
    "rp_maxRequests (bucketPolicy emptyEnv sampleRequest ''/api/admin/login'') = 20"
    "isSecurityRateLimitEnabled emptyEnv"
    by code_simp+
  then show ?thesis
    using client_rate_bounded [of emptyEnv "''/api/admin/login''" sampleRequest
        "bucketPolicy emptyEnv sampleRequest ''/api/admin/login''" "[]" "\<lambda>x. x"
        "[(sampleRequest, ''/api/admin/login'', 5), (sampleRequest, ''/api/admin/login'', 9)]" 0]
    by simp
qed

lemma pow2_pos: "0 < pow2 r"
  by (simp add: pow2_def Let_def)

lemma ceiling_thousands: "x \<le> 1000 * of_int \<lceil>x / 1000 :: rat\<rceil>"
proof -
  have "x / 1000 \<le> of_int \<lceil>x / 1000\<rceil>" by (rule le_of_int_ceiling)
  then have "1000 * (x / 1000) \<le> 1000 * of_int \<lceil>x / 1000\<rceil>" by (intro mult_left_mono) auto
  then show ?thesis by simp
qed

lemma retry_covers: "x \<le> 1000 * of_int (max 1 \<lceil>x / 1000 :: rat\<rceil>)"
  using ceiling_thousands [of x] by (auto simp: max_def intro: order_trans)

lemma limited_cases:
  assumes "consumeSecurityRateState s key now policy = (s', True, n)" "0 \<le> now"
  obtains st where "s' = s" "parseSecurityRateState (sto_get s key) = Some st" "of_int now < rt_blockedUntilMs st"
      "n = max 1 \<lceil>(rt_blockedUntilMs st - of_int now) / 1000\<rceil>"
    | st k where "parseSecurityRateState (sto_get s' key) = Some st"
        "rt_blockedUntilMs st = of_int now + of_int (rp_blockMs policy) * min (pow2 k) 16"
        "n = max 1 \<lceil>of_int (rp_blockMs policy) * min (pow2 k) 16 / 1000\<rceil>"
proof -
  define st where "st = (case parseSecurityRateState (sto_get s key) of Some st \<Rightarrow> st | None \<Rightarrow> initialRateState now)"
  show thesis
  proof (cases "of_int now < rt_blockedUntilMs st")
    case True
    then have "parseSecurityRateState (sto_get s key) = Some st"
      using assms(2) by (auto simp: st_def initialRateState_def split: option.splits)
    moreover have "s' = s" "n = max 1 \<lceil>(rt_blockedUntilMs st - of_int now) / 1000\<rceil>"
      using assms(1) True by (auto simp: consumeSecurityRateState_def st_def [symmetric])
    ultimately show thesis using True that(1) by blast
  next
    case False
    define k where "k = min (rt_violations st + 1) 12 - 1"
    obtain u where "s' = sto_put s key (rateStateToJs u)"
        "rt_blockedUntilMs u = of_int now + of_int (rp_blockMs policy) * min (pow2 k) 16"
        "n = max 1 \<lceil>of_int (rp_blockMs policy) * min (pow2 k) 16 / 1000\<rceil>"
      using assms(1) False unfolding consumeSecurityRateState_def st_def [symmetric] Let_def
      by (auto simp: k_def split: if_splits)
    then show thesis by (intro that(2) [of u k]) simp_all
  qed
qed

text \<open>
  A limited request leaves the client blocked: until the stored end of the block every further
  request is limited without changing the storage, the announced \<open>Retry-After\<close> covers the whole block,
  and a newly set block lasts at most sixteen times the configured block time.
\<close>

theorem rate_limited_blocks:
  assumes "consumeSecurityRateState s key now policy = (s', True, retryAfterSec)"
    and "0 < rp_blockMs policy" and "0 \<le> now"
  shows "\<exists>st. parseSecurityRateState (sto_get s' key) = Some st
     \<and> of_int now < rt_blockedUntilMs st
     \<and> rt_blockedUntilMs st \<le> of_int now + 1000 * of_int retryAfterSec
     \<and> (s' = s \<or> rt_blockedUntilMs st \<le> of_int now + 16 * of_int (rp_blockMs policy))
     \<and> (\<forall>t. of_int t < rt_blockedUntilMs st \<longrightarrow> (\<exists>n. consumeSecurityRateState s' key t policy = (s', True, n)))"
proof -
  have again: "\<exists>n. consumeSecurityRateState s' key t policy = (s', True, n)"
    if "parseSecurityRateState (sto_get s' key) = Some u" "of_int t < rt_blockedUntilMs u" for t u
    using that by (simp add: consumeSecurityRateState_def)
  have retry: "of_int now + d \<le> of_int now + 1000 * of_int (max 1 \<lceil>d / 1000\<rceil>)" for d :: rat
    using retry_covers [of d] by simp
  from assms(1,3) consider
      st where "s' = s" "parseSecurityRateState (sto_get s key) = Some st" "of_int now < rt_blockedUntilMs st"
        "retryAfterSec = max 1 \<lceil>(rt_blockedUntilMs st - of_int now) / 1000\<rceil>"
    | st k where "parseSecurityRateState (sto_get s' key) = Some st" 
        "rt_blockedUntilMs st = of_int now + of_int (rp_blockMs policy) * min (pow2 k) 16"
        "retryAfterSec = max 1 \<lceil>of_int (rp_blockMs policy) * min (pow2 k) 16 / 1000\<rceil>"
    by (rule limited_cases)
  then show ?thesis
  proof cases
    case 1
    then show ?thesis using again retry [of "rt_blockedUntilMs st - of_int now"] by (intro exI [of _ st]) auto
  next
    case 2
    let ?d = "of_int (rp_blockMs policy) * min (pow2 k) 16"
    have "0 < ?d" using assms(2) pow2_pos [of k] by simp
    moreover have "?d \<le> 16 * of_int (rp_blockMs policy)" using assms(2) by (simp add: mult.commute)
    ultimately show ?thesis using again 2 retry [of ?d] by (intro exI [of _ st]) auto
  qed
qed

theorem rate_limited_blocks_witness:
  "\<exists>st. parseSecurityRateState (sto_get [(''k'', rateStateToJs \<lparr>rt_windowStartMs = 1, rt_count = 9,
       rt_blockedUntilMs = 50, rt_violations = 1, rt_lastSeenMs = 1\<rparr>)] ''k'') = Some st
     \<and> of_int 10 < rt_blockedUntilMs st"
  using rate_limited_blocks [of "[(''k'', rateStateToJs \<lparr>rt_windowStartMs = 1, rt_count = 9,
       rt_blockedUntilMs = 50, rt_violations = 1, rt_lastSeenMs = 1\<rparr>)]" "''k''" 10
       "\<lparr>rp_key = [], rp_windowMs = 100, rp_maxRequests = 5, rp_blockMs = 20\<rparr>"
       "[(''k'', rateStateToJs \<lparr>rt_windowStartMs = 1, rt_count = 9,
       rt_blockedUntilMs = 50, rt_violations = 1, rt_lastSeenMs = 1\<rparr>)]" 1]
  by (auto simp: consumeSecurityRateState_def sto_get_def)

text \<open>
  The daily limit on issuing events: with a limit of \<open>perDay\<close> per administrator, starting without
  a counter, no 24 hours contain more than twice \<open>perDay\<close> admitted issues, and a refused issue leaves
  the storage as it was.
\<close>

theorem admin_event_issue_bounded:
  assumes "parseOptionalBoundedInt (SECURITY_ADMIN_EVENT_ISSUE_LIMIT_PER_DAY env) 30 5000 = Some perDay"
    and "sorted ts" and "\<forall>policy. ip_key policy = ''event_issue'' \<longrightarrow> sto_get s (issueLimitKey H policy adminId) = JUndef"
  shows "int (countIn (admittedTimes (\<lambda>t. t)
           (\<lambda>s t. map_prod id (\<lambda>r. r = None) (enforceAdminEventIssueLimit H env s adminId t)) s ts) a 86400000)
           \<le> 2 * perDay
       \<and> (\<forall>u t u' r. enforceAdminEventIssueLimit H env u adminId t = (u', Some r) \<longrightarrow> u' = u)"
proof -
  let ?p = "\<lparr>ip_key = ''event_issue'', ip_maxIssues = perDay, ip_windowMs = SECURITY_ISSUE_LIMIT_WINDOW_MS,
             ip_code = ''event_issue_limit_exceeded'', ip_message = ''event issuance limit exceeded''\<rparr>"
  have step: "(\<lambda>s t. map_prod id (\<lambda>r. r = None) (enforceAdminEventIssueLimit H env s adminId t)) = issueStep H ?p adminId"
    by (rule ext, rule ext)
       (simp add: enforceAdminEventIssueLimit_def issueStep_def assms(1) Let_def split: prod.splits)
  have "0 < perDay" using parseOptionalBoundedInt_pos [OF assms(1)] by simp
  then have "int (countIn (admittedTimes (\<lambda>t. t) (issueStep H ?p adminId) s ts) a 86400000) \<le> 2 * perDay"
    using il.admitted_bounded [where ?is = ts and H = H and policy = ?p and s = s and actor = adminId and a = a] assms(2,3)
    by (simp add: issueView_def SECURITY_ISSUE_LIMIT_WINDOW_MS_def)
  moreover have "u' = u" if "enforceAdminEventIssueLimit H env u adminId t = (u', Some r)" for u t u' r
    using that
    by (auto simp: enforceAdminEventIssueLimit_def assms(1) Let_def split: if_splits prod.splits dest: issue_limited)
  ultimately show ?thesis unfolding step by blast
qed

theorem admin_event_issue_bounded_witness:
  "int (countIn (admittedTimes (\<lambda>t. t)
      (\<lambda>s t. map_prod id (\<lambda>r. r = None) (enforceAdminEventIssueLimit (\<lambda>x. x) emptyEnv s ''admin-1'' t)) []
      [100, 200, 300]) 0 86400000) \<le> 60"
  using admin_event_issue_bounded [of emptyEnv 30 "[100, 200, 300]" "[]" "\<lambda>x. x" "''admin-1''" 0]
  by (simp add: emptyEnv_def parseOptionalBoundedInt_def)

lemma streamExceeds_iff: "t \<le> mx \<Longrightarrow> streamExceeds mx t ns \<longleftrightarrow> t + int (sum_list ns) > mx"
  by (induction ns arbitrary: t) (auto simp: Let_def not_less)

text \<open>
  The body size limit is exact: a mutating API request that declares no length (or no usable one)
  is refused exactly when the chunks of its body add up to more than the configured limit, one that
  declares a length exactly when that length is above the limit; the answer is 413 and the limit lies
  between 4 KiB and 1 MiB whatever is configured.
\<close>

theorem body_size_limit_exact:
  assumes "isApiPath path" "isMutatingMethod (rq_method rq)"
    and "declared = (case rq_header rq ''Content-Length'' of
                       Some h \<Rightarrow> (if h \<noteq> [] then js_parseInt h else None) | None \<Rightarrow> None)"
  shows "enforceSecurityBodySizeLimit env rq path =
           (if (case declared of
                  Some n \<Rightarrow> n > getSecurityBodySizeLimitBytes env
                          \<or> (n < 0 \<and> (\<exists>ns. rq_chunks rq = Some ns \<and> int (sum_list ns) > getSecurityBodySizeLimitBytes env))
                | None \<Rightarrow> (\<exists>ns. rq_chunks rq = Some ns \<and> int (sum_list ns) > getSecurityBodySizeLimitBytes env))
            then Some (payloadTooLargeResponse (getSecurityBodySizeLimitBytes env)) else None)
       \<and> rs_status (payloadTooLargeResponse (getSecurityBodySizeLimitBytes env)) = 413
       \<and> 4096 \<le> getSecurityBodySizeLimitBytes env \<and> getSecurityBodySizeLimitBytes env \<le> 1048576"
proof -
  have b: "4096 \<le> getSecurityBodySizeLimitBytes env \<and> getSecurityBodySizeLimitBytes env \<le> 1048576"
    using parseBoundedInt_bounds [of "4 * 1024" "64 * 1024" "1024 * 1024" "SECURITY_MAX_REQUEST_BODY_BYTES env"]
    by (simp add: getSecurityBodySizeLimitBytes_def)
  then have s: "streamExceeds (getSecurityBodySizeLimitBytes env) 0 ns \<longleftrightarrow> int (sum_list ns) > getSecurityBodySizeLimitBytes env" for ns
    by (simp add: streamExceeds_iff)
  show ?thesis
    unfolding enforceSecurityBodySizeLimit_def Let_def assms(3) [symmetric]
    using assms(1,2) b by (auto simp: s payloadTooLargeResponse_def json_response_def split: option.splits)
qed

theorem body_size_limit_exact_witness:
  "enforceSecurityBodySizeLimit emptyEnv (sampleRequest\<lparr>rq_chunks := Some [65536, 1]\<rparr>) ''/api/admin/login''
     = Some (payloadTooLargeResponse 65536)"
proof -
  have "getSecurityBodySizeLimitBytes emptyEnv = 65536" "isApiPath ''/api/admin/login''"
    "isMutatingMethod (rq_method sampleRequest)"
    by code_simp+
  moreover have "rq_header (sampleRequest\<lparr>rq_chunks := Some [65536, 1]\<rparr>) ''Content-Length'' = None"
    by (simp add: rq_header_def sampleRequest_def)
  ultimately show ?thesis
    using body_size_limit_exact [of "''/api/admin/login''" "sampleRequest\<lparr>rq_chunks := Some [65536, 1]\<rparr>" None emptyEnv]
    by simp
qed

end
