(* ===== verification/Json_Canonical.thy ===== *)
theory Json_Canonical
  imports Js_Prelude "HOL-Library.Multiset"
begin

text \<open>
  \<open>src/api-worker/src/audit/hash.ts\<close>: the canonical text of a value, which is what every hash of the
  worker is computed from, and that this text determines the value. \<open>JSON.stringify\<close> is modelled as
  printing of a cleaned value: \<open>undefined\<close> properties are dropped, \<open>undefined\<close> in arrays and numbers
  that are not finite become \<open>null\<close>. A number is printed as its decimal expansion, cut at twenty
  digits after the point. The digest itself is an argument \<open>H\<close> of the definitions that use it.
\<close>

section \<open>JSON text\<close>

definition short_escape :: "nat \<Rightarrow> char option" where
  "short_escape n =
     map_of [(34, CHR 0x22), (92, CHR 0x5C), (8, CHR ''b''), (9, CHR ''t''), (10, CHR ''n''), (12, CHR ''f''),
             (13, CHR ''r'')] n"

definition json_escape :: "char \<Rightarrow> string" where
  "json_escape c =
     (let n = (of_char c :: nat) in
      case short_escape n of
        Some e \<Rightarrow> [CHR 0x5C, e]
      | None \<Rightarrow> (if n < 32 then CHR 0x5C # ''u00'' @ [digit_char (n div 16), digit_char (n mod 16)] else [c]))"

definition json_quote :: "string \<Rightarrow> string" where
  "json_quote s = [CHR 0x22] @ concat (map json_escape s) @ [CHR 0x22]"

fun frac_digits :: "nat \<Rightarrow> rat \<Rightarrow> string" where
  "frac_digits 0 r = []"
| "frac_digits (Suc f) r =
     (if r = 0 then [] else digit_char (nat \<lfloor>r * 10\<rfloor>) # frac_digits f (r * 10 - of_int \<lfloor>r * 10\<rfloor>))"

definition js_num_str :: "rat \<Rightarrow> string" where
  "js_num_str r =
     (if is_integral r then js_str_int \<lfloor>r\<rfloor>
      else let a = \<bar>r\<bar> in
           (if r < 0 then ''-'' else []) @ js_str_int \<lfloor>a\<rfloor> @ ''.'' @ frac_digits 20 (a - of_int \<lfloor>a\<rfloor>))"

fun json_print :: "js \<Rightarrow> string" where
  "json_print JUndef = []"
| "json_print JNull = ''null''"
| "json_print (JBool b) = (if b then ''true'' else ''false'')"
| "json_print (JNum r) = js_num_str r"
| "json_print JNaN = ''null''"
| "json_print (JInf _) = ''null''"
| "json_print (JStr s) = json_quote s"
| "json_print (JArr vs) = ''['' @ js_join '','' (map json_print vs) @ '']''"
| "json_print (JObj kvs) = ''{'' @ js_join '','' (map (\<lambda>(k, v). json_quote k @ '':'' @ json_print v) kvs) @ ''}''"

fun json_clean :: "js \<Rightarrow> js" where
  "json_clean JNaN = JNull"
| "json_clean (JInf _) = JNull"
| "json_clean (JArr vs) = JArr (map (\<lambda>v. if v = JUndef then JNull else json_clean v) vs)"
| "json_clean (JObj kvs) = JObj (filter (\<lambda>(k, v). v \<noteq> JUndef) (map (\<lambda>(k, v). (k, json_clean v)) kvs))"
| "json_clean v = v"

definition JSON_stringify :: "js \<Rightarrow> string" where
  "JSON_stringify v = json_print (json_clean v)"

section \<open>Canonical text\<close>

text \<open>
  \<open>Object.keys\<close> lists the property names that are array indices first, in numeric order; the others
  follow in the order of insertion, which after \<open>sort\<close> is the order of the strings.
\<close>

definition is_array_index :: "string \<Rightarrow> bool" where
  "is_array_index k = (all_digits k \<and> (k = ''0'' \<or> hd k \<noteq> CHR ''0'') \<and> digits_val k < 2 ^ 32 - 1)"

definition enum_order :: "(string \<times> 'v) list \<Rightarrow> (string \<times> 'v) list" where
  "enum_order kvs =
     sort_key (\<lambda>kv. digits_val (fst kv)) (filter (\<lambda>kv. is_array_index (fst kv)) kvs)
     @ filter (\<lambda>kv. \<not> is_array_index (fst kv)) kvs"

text \<open>The assignment \<open>acc[k] = \<dots>\<close> to a fresh object makes no property of the name \<open>__proto__\<close>.\<close>

definition PROTO :: string where "PROTO = ''__proto__''"

definition assignable :: "(string \<times> 'v) list \<Rightarrow> (string \<times> 'v) list" where
  "assignable kvs = filter (\<lambda>kv. fst kv \<noteq> PROTO) kvs"

fun sortDeep :: "js \<Rightarrow> js" where
  "sortDeep (JArr vs) = JArr (map sortDeep vs)"
| "sortDeep (JObj kvs) = JObj (enum_order (assignable (sort_key fst (map (\<lambda>(k, v). (k, sortDeep v)) kvs))))"
| "sortDeep v = v"

definition canonicalize :: "js \<Rightarrow> string" where
  "canonicalize v = JSON_stringify (sortDeep v)"

section \<open>The text determines the value\<close>

subsection \<open>Strings\<close>

lemma digit_char_inj: "a < 16 \<Longrightarrow> b < 16 \<Longrightarrow> digit_char a = digit_char b \<longleftrightarrow> a = b"
  by (auto simp: digit_char_def char_of_eq_iff take_bit_eq_mod)

lemma short_escape_unique: "short_escape n = Some e \<Longrightarrow> short_escape m = Some e \<Longrightarrow> n = m"
  by (auto simp: short_escape_def split: if_splits)

lemma short_escape_not_u: "short_escape n \<noteq> Some CHR ''u''"
  by (auto simp: short_escape_def)

lemma json_escape_unique:
  assumes "json_escape c @ x = json_escape d @ y"
  shows "c = d \<and> x = y"
proof -
  define n m where "n = (of_char c :: nat)" and "m = (of_char d :: nat)"
  have cd: "c = d" if "n = m" using that by (simp add: n_def m_def)
  have raw: "short_escape (of_char CHR 0x5C) \<noteq> None" by (simp add: short_escape_def)
  have hex: "n = m" if "n < 32" "m < 32" "digit_char (n div 16) = digit_char (m div 16)" "digit_char (n mod 16) = digit_char (m mod 16)"
    using that digit_char_inj [of "n div 16" "m div 16"] digit_char_inj [of "n mod 16" "m mod 16"]
    by (auto simp: less_mult_imp_div_less) (metis div_mult_mod_eq)
  show ?thesis
  proof (cases "short_escape n")
    case n: None
    show ?thesis
    proof (cases "short_escape m")
      case None
      then show ?thesis
        using assms n raw hex cd unfolding json_escape_def Let_def n_def [symmetric] m_def [symmetric]
        by (auto split: if_splits simp: n_def m_def)
    next
      case (Some e)
      then show ?thesis
        using assms n raw short_escape_not_u [of m] unfolding json_escape_def Let_def n_def [symmetric] m_def [symmetric]
        by (auto split: if_splits simp: n_def m_def)
    qed
  next
    case n: (Some e)
    show ?thesis
    proof (cases "short_escape m")
      case None
      then show ?thesis
        using assms n raw short_escape_not_u [of n] unfolding json_escape_def Let_def n_def [symmetric] m_def [symmetric]
        by (auto split: if_splits simp: n_def m_def)
    next
      case (Some e')
      then show ?thesis
        using assms n cd short_escape_unique [of n e m] unfolding json_escape_def Let_def n_def [symmetric] m_def [symmetric]
        by auto
    qed
  qed
qed

lemma json_escape_head: "json_escape c \<noteq> [] \<and> hd (json_escape c) \<noteq> CHR 0x22"
  by (auto simp: json_escape_def Let_def short_escape_def split: option.splits)

lemma json_body_unique:
  "concat (map json_escape s) @ [CHR 0x22] @ r = concat (map json_escape t) @ [CHR 0x22] @ r' \<Longrightarrow> s = t \<and> r = r'"
proof (induction s arbitrary: t)
  case Nil
  then show ?case
  proof (cases t)
    case (Cons d ds)
    then show ?thesis using Nil json_escape_head [of d] by (cases "json_escape d") auto
  qed simp
next
  case (Cons c s)
  show ?case
  proof (cases t)
    case Nil
    then show ?thesis using Cons.prems json_escape_head [of c] by (cases "json_escape c") auto
  next
    case (Cons d ds)
    with \<open>concat (map json_escape (c # s)) @ _ = _\<close> have "json_escape c @ (concat (map json_escape s) @ [CHR 0x22] @ r)
        = json_escape d @ (concat (map json_escape ds) @ [CHR 0x22] @ r')" by simp
    from json_escape_unique [OF this] Cons.IH [of ds] Cons show ?thesis by simp
  qed
qed

lemma json_quote_unique: "json_quote s @ r = json_quote t @ r' \<Longrightarrow> s = t \<and> r = r'"
  using json_body_unique [of s r t r'] by (simp add: json_quote_def)

subsection \<open>Numbers\<close>

lemma is_digit_digit_char: "d < 10 \<Longrightarrow> is_digit (digit_char d) \<and> digit_val (digit_char d) = int d"
  by (simp add: is_digit_def digit_val_def digit_char_def)

lemma digits_val_snoc: "digits_val (s @ [c]) = digits_val s * 10 + digit_val c"
  by (simp add: digits_val_def)

lemma nat_digits_10: "all_digits (nat_digits 10 n) \<and> digits_val (nat_digits 10 n) = int n"
proof (induction n rule: less_induct)
  case (less n)
  show ?case
  proof (cases "n < 10")
    case True
    then show ?thesis
      by (subst (1 2) nat_digits.simps) (simp add: all_digits_def digits_val_def is_digit_digit_char)
  next
    case False
    moreover have "int (n div 10) * 10 + int (n mod 10) = int n" by (metis div_mult_mod_eq of_nat_add of_nat_mult of_nat_numeral)
    ultimately show ?thesis using less.IH [of "n div 10"] is_digit_digit_char [of "n mod 10"]
      by (subst (1 2) nat_digits.simps) (simp add: all_digits_def digits_val_snoc)
  qed
qed

lemma nat_digits_unique:
  assumes "nat_digits 10 n @ r = nat_digits 10 m @ r'" "r = [] \<or> \<not> is_digit (hd r)" "r' = [] \<or> \<not> is_digit (hd r')"
  shows "n = m \<and> r = r'"
proof -
  have tw: "takeWhile is_digit (nat_digits 10 k @ x) = nat_digits 10 k" if "x = [] \<or> \<not> is_digit (hd x)" for k x
    using nat_digits_10 [of k] that by (cases x) (auto simp: all_digits_def list_all_iff)
  have "nat_digits 10 n = nat_digits 10 m" using arg_cong [OF assms(1), of "takeWhile is_digit"] assms(2,3) by (simp add: tw)
  moreover from this have "int n = int m" by (metis nat_digits_10)
  ultimately show ?thesis using assms(1) by simp
qed

lemma nat_digits_hd: "nat_digits 10 n \<noteq> [] \<and> is_digit (hd (nat_digits 10 n))"
  using nat_digits_10 [of n] by (auto simp: all_digits_def list_all_iff)

lemma js_str_int_unique:
  assumes "js_str_int a @ r = js_str_int b @ r'" "r = [] \<or> \<not> is_digit (hd r)" "r' = [] \<or> \<not> is_digit (hd r')"
  shows "a = b \<and> r = r'"
proof -
  have "\<not> is_digit CHR ''-''" by (simp add: is_digit_def)
  then have nd: "CHR ''-'' # x \<noteq> nat_digits 10 k @ y" "nat_digits 10 k @ y \<noteq> CHR ''-'' # x" for x y k
    using nat_digits_hd [of k] by (cases "nat_digits 10 k"; auto)+
  note u = nat_digits_unique [OF _ assms(2,3)]
  consider "a < 0" "b < 0" | "a < 0" "\<not> b < 0" | "\<not> a < 0" "b < 0" | "\<not> a < 0" "\<not> b < 0" by blast
  then show ?thesis
  proof cases
    case 1
    with assms(1) u [of "nat (- a)" "nat (- b)"] show ?thesis by (simp add: js_str_int_def eq_nat_nat_iff)
  next
    case 4
    with assms(1) u [of "nat a" "nat b"] show ?thesis by (simp add: js_str_int_def eq_nat_nat_iff)
  qed (use assms(1) nd in \<open>simp_all add: js_str_int_def\<close>)
qed

subsection \<open>Values\<close>

text \<open>Values that JSON can carry and whose numbers are integers.\<close>

fun printable :: "js \<Rightarrow> bool" where
  "printable JNull = True"
| "printable (JBool _) = True"
| "printable (JNum r) = is_integral r"
| "printable (JStr _) = True"
| "printable (JArr vs) = list_all printable vs"
| "printable (JObj kvs) = list_all (\<lambda>(k, v). printable v) kvs"
| "printable _ = False"

text \<open>The first character of the text gives the kind of value.\<close>

definition char_kind :: "char \<Rightarrow> nat" where
  "char_kind c =
     (if c = CHR ''n'' then 0 else if c = CHR ''t'' then 1 else if c = CHR ''f'' then 2
      else if is_digit c \<or> c = CHR ''-'' then 3 else if c = CHR 0x22 then 4
      else if c = CHR ''['' then 5 else if c = CHR ''{'' then 6 else 7)"

fun value_kind :: "js \<Rightarrow> nat" where
  "value_kind JNull = 0"
| "value_kind (JBool b) = (if b then 1 else 2)"
| "value_kind (JNum r) = 3"
| "value_kind (JStr _) = 4"
| "value_kind (JArr _) = 5"
| "value_kind (JObj _) = 6"
| "value_kind _ = 7"

lemma digit_not_letter: "is_digit c \<Longrightarrow> c \<noteq> CHR ''n'' \<and> c \<noteq> CHR ''t'' \<and> c \<noteq> CHR ''f''"
  by (auto simp: is_digit_def)

lemma js_str_int_kind: "js_str_int n \<noteq> [] \<and> char_kind (hd (js_str_int n)) = 3"
  using nat_digits_hd [of "nat n"] nat_digits_hd [of "nat (- n)"] digit_not_letter
  by (auto simp: js_str_int_def char_kind_def)

lemma json_print_kind: "printable v \<Longrightarrow> json_print v \<noteq> [] \<and> char_kind (hd (json_print v)) = value_kind v"
  using js_str_int_kind
  by (cases v) (auto simp: char_kind_def json_quote_def js_num_str_def is_digit_def split: if_splits)

definition json_tail :: "string \<Rightarrow> bool" where
  "json_tail r = (r = [] \<or> hd r \<in> {CHR '','', CHR '']'', CHR ''}''})"

text \<open>A printer is decodable at \<open>x\<close> when no text of another value continues differently.\<close>

definition decodable :: "('a \<Rightarrow> bool) \<Rightarrow> ('a \<Rightarrow> string) \<Rightarrow> 'a \<Rightarrow> bool" where
  "decodable ok pr x =
     (\<forall>y r r'. ok y \<longrightarrow> json_tail r \<longrightarrow> json_tail r' \<longrightarrow> pr x @ r = pr y @ r' \<longrightarrow> x = y \<and> r = r')"

lemma join_unique:
  assumes "\<forall>x \<in> set xs. decodable ok pr x" "list_all ok xs" "list_all ok ys"
    and start: "\<And>x. ok x \<Longrightarrow> pr x \<noteq> [] \<and> hd (pr x) \<noteq> close"
    and close: "close = CHR '']'' \<or> close = CHR ''}''"
    and "js_join '','' (map pr xs) @ [close] @ r = js_join '','' (map pr ys) @ [close] @ r'"
  shows "xs = ys \<and> r = r'"
  using assms(1-3,6)
proof (induction xs arbitrary: ys)
  case Nil
  show ?case
  proof (cases ys)
    case (Cons y zs)
    with Nil start [of y] show ?thesis by (cases zs; cases "pr y") auto
  qed (use Nil in simp)
next
  case (Cons x xs)
  show ?case
  proof (cases ys)
    case Nil
    with Cons.prems start [of x] show ?thesis by (cases xs; cases "pr x") auto
  next
    case ys: (Cons y zs)
    define rest where "rest = (\<lambda>us s. (if us = [] then [] else '','' @ js_join '','' (map pr us)) @ [close] @ s)"
    have split: "js_join '','' (map pr (u # us)) @ [close] @ s = pr u @ rest us s" for u us s
      by (cases us) (simp_all add: rest_def)
    have tail: "json_tail (rest us s)" for us s using close by (auto simp: json_tail_def rest_def)
    have "pr x @ rest xs r = pr y @ rest zs r'" using Cons.prems(4) unfolding ys split .
    then have xy: "x = y" "rest xs r = rest zs r'"
      using Cons.prems(1-3) ys tail [of xs r] tail [of zs r'] by (auto simp: decodable_def)
    have "js_join '','' (map pr xs) @ [close] @ r = js_join '','' (map pr zs) @ [close] @ r'"
      using xy(2) close by (auto simp: rest_def split: if_splits)
    with Cons.IH [of zs] Cons.prems(1-3) ys xy show ?thesis by simp
  qed
qed

lemma pair_decodable:
  assumes "decodable printable json_print v"
  shows "decodable (\<lambda>(k, v). printable v) (\<lambda>(k, v). json_quote k @ '':'' @ json_print v) (k, v)"
  unfolding decodable_def
proof (intro allI impI)
  fix y r r'
  assume a: "case y of (k, v) \<Rightarrow> printable v" "json_tail r" "json_tail r'"
    "(case (k, v) of (k, v) \<Rightarrow> json_quote k @ '':'' @ json_print v) @ r
       = (case y of (k, v) \<Rightarrow> json_quote k @ '':'' @ json_print v) @ r'"
  obtain l w where y: "y = (l, w)" by fastforce
  with a(4) have "json_quote k @ ('':'' @ json_print v @ r) = json_quote l @ ('':'' @ json_print w @ r')" by simp
  from json_quote_unique [OF this] have "k = l" "json_print v @ r = json_print w @ r'" by auto
  with assms a y show "(k, v) = y \<and> r = r'" by (auto simp: decodable_def)
qed

lemma int_tail: "json_tail r \<Longrightarrow> r = [] \<or> \<not> is_digit (hd r)"
  by (auto simp: json_tail_def is_digit_def)

lemma json_print_decodable: "printable v \<Longrightarrow> decodable printable json_print v"
proof (induction v rule: json_print.induct)
  case (4 q)
  show ?case unfolding decodable_def
  proof (intro allI impI)
    fix y r r'
    assume a: "printable y" "json_tail r" "json_tail r'" "json_print (JNum q) @ r = json_print y @ r'"
    have "value_kind y = 3"
      using a(1,4) json_print_kind [of y] json_print_kind [OF 4] by (metis hd_append2 value_kind.simps(3))
    then obtain p where y: "y = JNum p" by (cases y) (auto split: if_splits)
    with a 4 have "\<lfloor>q\<rfloor> = \<lfloor>p\<rfloor> \<and> r = r'" using js_str_int_unique [OF _ int_tail [OF a(2)] int_tail [OF a(3)]]
      by (simp add: js_num_str_def)
    with 4 a(1) y show "JNum q = y \<and> r = r'" by (auto simp: is_integral_def)
  qed
next
  case (7 s)
  show ?case unfolding decodable_def
  proof (intro allI impI)
    fix y r r'
    assume a: "printable y" "json_print (JStr s) @ r = json_print y @ r'"
    have "value_kind y = 4"
      using a json_print_kind [of y] json_print_kind [OF 7] by (metis hd_append2 value_kind.simps(4))
    then obtain u where y: "y = JStr u" by (cases y) (auto split: if_splits)
    with a show "JStr s = y \<and> r = r'" using json_quote_unique [of s r u r'] by simp
  qed
next
  case (8 vs)
  show ?case unfolding decodable_def
  proof (intro allI impI)
    fix y r r'
    assume a: "printable y" "json_print (JArr vs) @ r = json_print y @ r'"
    have "value_kind y = 5"
      using a json_print_kind [of y] json_print_kind [OF 8(2)] by (metis hd_append2 value_kind.simps(5))
    then obtain ws where y: "y = JArr ws" by (cases y) (auto split: if_splits)
    have start: "json_print x \<noteq> [] \<and> hd (json_print x) \<noteq> CHR '']''" if "printable x" for x
      using json_print_kind [OF that] that by (cases x) (auto simp: char_kind_def is_digit_def split: if_splits)
    have "vs = ws \<and> r = r'"
      by (rule join_unique [where ok = printable and pr = json_print and close = "CHR '']''"])
         (use 8 a y start in \<open>auto simp: list_all_iff\<close>)
    with y show "JArr vs = y \<and> r = r'" by simp
  qed
next
  case (9 kvs)
  show ?case unfolding decodable_def
  proof (intro allI impI)
    fix y r r'
    assume a: "printable y" "json_print (JObj kvs) @ r = json_print y @ r'"
    have "value_kind y = 6"
      using a json_print_kind [of y] json_print_kind [OF 9(2)] by (metis hd_append2 value_kind.simps(6))
    then obtain ws where y: "y = JObj ws" by (cases y) (auto split: if_splits)
    have dec: "\<forall>p \<in> set kvs. decodable (\<lambda>(k, v). printable v) (\<lambda>(k, v). json_quote k @ '':'' @ json_print v) p"
      using 9 by (fastforce simp: list_all_iff intro: pair_decodable)
    have "kvs = ws \<and> r = r'"
      by (rule join_unique [OF dec, where close = "CHR ''}''"])
         (use 9(2) a y in \<open>auto simp: list_all_iff json_quote_def\<close>)
    with y show "JObj kvs = y \<and> r = r'" by simp
  qed
next
  case 2
  show ?case unfolding decodable_def
  proof (intro allI impI)
    fix y r r'
    assume a: "printable y" "json_print JNull @ r = json_print y @ r'"
    have "value_kind y = 0" using a json_print_kind [of y] by (cases "json_print y") (auto simp: char_kind_def)
    then have "y = JNull" by (cases y) (auto split: if_splits)
    with a show "JNull = y \<and> r = r'" by simp
  qed
next
  case (3 b)
  show ?case unfolding decodable_def
  proof (intro allI impI)
    fix y r r'
    assume a: "printable y" "json_print (JBool b) @ r = json_print y @ r'"
    have "value_kind y = value_kind (JBool b)"
      using a json_print_kind [of y] json_print_kind [OF 3] by (metis hd_append2)
    then have "y = JBool b" by (cases y) (auto split: if_splits)
    with a show "JBool b = y \<and> r = r'" by simp
  qed
qed auto

lemma json_print_inj: "printable v \<Longrightarrow> printable w \<Longrightarrow> json_print v = json_print w \<Longrightarrow> v = w"
  using json_print_decodable [of v] by (auto simp: decodable_def json_tail_def dest: spec [of _ w] spec [of _ "[]"])

text \<open>What is lost on the way to the text: property order, \<open>undefined\<close>, numbers that are not finite.\<close>

definition json_content :: "js \<Rightarrow> js" where
  "json_content v = json_clean (sortDeep v)"

fun integral_numbers :: "js \<Rightarrow> bool" where
  "integral_numbers (JNum r) = is_integral r"
| "integral_numbers (JArr vs) = list_all integral_numbers vs"
| "integral_numbers (JObj kvs) = list_all (\<lambda>(k, v). integral_numbers v) kvs"
| "integral_numbers _ = True"

lemma set_enum_order: "set (enum_order kvs) = set kvs"
  by (auto simp: enum_order_def)

lemma integral_sortDeep: "integral_numbers v \<Longrightarrow> integral_numbers (sortDeep v)"
  by (induction v rule: sortDeep.induct) (auto simp: list_all_iff set_enum_order assignable_def)

lemma printable_clean: "integral_numbers v \<Longrightarrow> v \<noteq> JUndef \<Longrightarrow> printable (json_clean v)"
proof (induction v rule: json_clean.induct)
  case (4 kvs)
  then have "printable (json_clean v)" if "(k, v) \<in> set kvs" "json_clean v \<noteq> JUndef" for k v
    using that by (cases "v = JUndef") (auto simp: list_all_iff)
  then show ?case by (auto simp: list_all_iff)
qed (auto simp: list_all_iff)

lemma sortDeep_undef: "sortDeep v = JUndef \<longleftrightarrow> v = JUndef"
  by (cases v) auto

lemma canonicalize_eq_iff:
  assumes "integral_numbers v" "integral_numbers w" "v \<noteq> JUndef" "w \<noteq> JUndef"
  shows "canonicalize v = canonicalize w \<longleftrightarrow> json_content v = json_content w"
proof -
  have "printable (json_content v)" "printable (json_content w)"
    using assms by (auto simp: json_content_def sortDeep_undef intro!: printable_clean integral_sortDeep)
  then show ?thesis
    using json_print_inj by (auto simp: canonicalize_def JSON_stringify_def json_content_def)
qed

subsection \<open>Reading a field of the content\<close>

lemma map_of_same_set:
  assumes "distinct (map fst xs)" "distinct (map fst ys)" "set xs = set ys"
  shows "map_of xs = map_of ys"
proof
  fix k
  have "map_of xs k = Some v \<longleftrightarrow> map_of ys k = Some v" for v
    using assms by (simp add: map_of_eq_Some_iff)
  then show "map_of xs k = map_of ys k" by (metis not_None_eq)
qed

lemma distinct_names_mset: "mset xs = mset ys \<Longrightarrow> distinct (map fst xs) = distinct (map fst ys)"
  by (metis mset_eq_imp_distinct_iff mset_map)

lemma distinct_enum_order: "distinct (map fst (enum_order kvs)) = distinct (map fst kvs)"
  by (rule distinct_names_mset) (simp add: enum_order_def flip: multiset_partition)

lemma distinct_names_sort: "distinct (map fst (sort_key fst kvs)) = distinct (map fst kvs)"
  by (rule distinct_names_mset) simp

lemma distinct_keys_filter: "distinct (map fst kvs) \<Longrightarrow> distinct (map fst (filter P kvs))"
  by (induction kvs) auto

text \<open>The properties of an object that its content has.\<close>

definition json_member :: "(string \<times> js) list \<Rightarrow> string \<Rightarrow> js option" where
  "json_member kvs k = (if k = PROTO then None else case map_of kvs k of Some v \<Rightarrow> (if v = JUndef then None else Some v) | None \<Rightarrow> None)"

definition members :: "(string \<times> js) list \<Rightarrow> (string \<times> js) list" where
  "members kvs = filter (\<lambda>kv. snd kv \<noteq> JUndef \<and> fst kv \<noteq> PROTO) (map (\<lambda>(k, v). (k, json_content v)) kvs)"

lemma content_undef [simp]: "json_content v = JUndef \<longleftrightarrow> v = JUndef"
proof -
  have "json_clean u = JUndef \<longleftrightarrow> u = JUndef" for u by (cases u) auto
  then show ?thesis by (simp add: json_content_def sortDeep_undef)
qed

lemma distinct_members: "distinct (map fst kvs) \<Longrightarrow> distinct (map fst (members kvs))"
  unfolding members_def by (rule distinct_keys_filter) (simp add: comp_def case_prod_unfold)

lemma map_of_members: "distinct (map fst kvs) \<Longrightarrow> map_of (members kvs) k = map_option json_content (json_member kvs k)"
proof (induction kvs)
  case (Cons p kvs)
  then have "map_of kvs (fst p) = None" by (simp add: map_of_eq_None_iff)
  with Cons show ?case by (cases p) (auto simp: members_def json_member_def split: option.splits)
qed (simp add: members_def json_member_def)

lemma sort_key_map_val:
  fixes f :: "'a \<Rightarrow> 'b" and g :: "string \<Rightarrow> 'c :: linorder"
  shows "sort_key (\<lambda>kv. g (fst kv)) (map (\<lambda>kv. (fst kv, f (snd kv))) kvs) = map (\<lambda>kv. (fst kv, f (snd kv))) (sort_key (\<lambda>kv. g (fst kv)) kvs)"
proof -
  have ins: "insort_key (\<lambda>kv. g (fst kv)) (fst p, f (snd p)) (map (\<lambda>kv. (fst kv, f (snd kv))) xs)
      = map (\<lambda>kv. (fst kv, f (snd kv))) (insort_key (\<lambda>kv. g (fst kv)) p xs)"
    for p :: "string \<times> 'a" and xs by (induction xs) auto
  show ?thesis by (induction kvs) (simp_all add: ins)
qed

lemmas sort_key_map_snd = sort_key_map_val [where g = "\<lambda>k. k"]

lemma enum_order_map: "enum_order (map (\<lambda>kv. (fst kv, f (snd kv))) kvs) = map (\<lambda>kv. (fst kv, f (snd kv))) (enum_order kvs)"
  by (simp add: enum_order_def filter_map comp_def sort_key_map_val)

lemma enum_order_filter: "filter P (enum_order kvs) = enum_order (filter P kvs)"
  by (auto simp: enum_order_def filter_sort filter_filter conj_commute intro!: arg_cong2 [of _ _ _ _ "(@)"] arg_cong [of _ _ "sort_key _"] filter_cong)

lemma content_obj: "json_content (JObj kvs) = JObj (enum_order (sort_key fst (members kvs)))"
proof -
  let ?f = "\<lambda>kv :: string \<times> js. (fst kv, json_clean (snd kv))" and ?g = "\<lambda>kv :: string \<times> js. (fst kv, sortDeep (snd kv))"
  have "json_content (JObj kvs) = JObj (filter (\<lambda>kv. snd kv \<noteq> JUndef) (map ?f (enum_order (assignable (sort_key fst (map ?g kvs))))))"
    by (simp add: json_content_def case_prod_unfold)
  also have "map ?f (enum_order (assignable (sort_key fst (map ?g kvs)))) = enum_order (assignable (map ?f (sort_key fst (map ?g kvs))))"
    by (simp add: enum_order_map [symmetric] assignable_def filter_map comp_def)
  also have "map ?f (sort_key fst (map ?g kvs)) = sort_key fst (map (\<lambda>(k, v). (k, json_content v)) kvs)"
    by (simp add: sort_key_map_snd [symmetric] comp_def json_content_def case_prod_unfold)
  also have "filter (\<lambda>kv. snd kv \<noteq> JUndef) (enum_order (assignable (sort_key fst (map (\<lambda>(k, v). (k, json_content v)) kvs))))
      = enum_order (sort_key fst (members kvs))"
    by (simp add: enum_order_filter assignable_def filter_filter filter_sort members_def conj_commute)
  finally show ?thesis .
qed

text \<open>The content of an object is a function of its members.\<close>

lemma content_obj_eq:
  assumes "distinct (map fst kvs)" "distinct (map fst ls)"
  shows "json_content (JObj kvs) = json_content (JObj ls)
    \<longleftrightarrow> (\<forall>k. map_option json_content (json_member kvs k) = map_option json_content (json_member ls k))"
proof
  note d = distinct_members [OF assms(1)] distinct_members [OF assms(2)]
  assume "json_content (JObj kvs) = json_content (JObj ls)"
  then have "enum_order (sort_key fst (members kvs)) = enum_order (sort_key fst (members ls))" unfolding content_obj by simp
  from arg_cong [OF this, of set] have "set (members kvs) = set (members ls)" by (simp add: set_enum_order)
  from map_of_same_set [OF d this] show "\<forall>k. map_option json_content (json_member kvs k) = map_option json_content (json_member ls k)"
    by (metis map_of_members assms)
next
  note d = distinct_members [OF assms(1)] distinct_members [OF assms(2)]
  assume a: "\<forall>k. map_option json_content (json_member kvs k) = map_option json_content (json_member ls k)"
  then have "map_of (members kvs) = map_of (members ls)" using map_of_members assms by auto
  then have s: "set (members kvs) = set (members ls)"
  proof (intro set_eqI)
    fix x
    show "x \<in> set (members kvs) \<longleftrightarrow> x \<in> set (members ls)"
      using \<open>map_of (members kvs) = map_of (members ls)\<close> map_of_eq_Some_iff [OF d(1), of "fst x" "snd x"]
        map_of_eq_Some_iff [OF d(2), of "fst x" "snd x"] by simp
  qed
  have "sort_key fst (members kvs) = sort_key fst (members ls)"
  proof (rule map_sorted_distinct_set_unique [where f = fst])
    show "inj_on fst (set (sort_key fst (members kvs)) \<union> set (sort_key fst (members ls)))"
      using d(1) s by (simp add: distinct_map)
    show "distinct (map fst (sort_key fst (members kvs)))" "distinct (map fst (sort_key fst (members ls)))"
      using d by (simp_all add: distinct_names_sort)
  qed (simp_all add: s)
  then show "json_content (JObj kvs) = json_content (JObj ls)" by (simp add: content_obj)
qed

lemma json_content_field:
  assumes "distinct (map fst kvs)" "k \<noteq> PROTO"
  shows "jget (json_content (JObj kvs)) k = json_content (jget (JObj kvs) k)"
proof -
  have d: "distinct (map fst (enum_order (sort_key fst (members kvs))))"
    using distinct_members [OF assms(1)] by (simp add: distinct_enum_order distinct_names_sort)
  have "map_of (enum_order (sort_key fst (members kvs))) = map_of (members kvs)"
    by (rule map_of_same_set [OF d distinct_members [OF assms(1)]]) (simp add: set_enum_order)
  then show ?thesis
    using assms by (auto simp: content_obj map_of_members json_member_def eq_commute [of JUndef] split: option.splits)
qed

subsection \<open>Values with the same content\<close>

text \<open>
  When two values are the same for JSON, said without any order of properties: a value that JSON has no text for counts
  as \<open>null\<close>, arrays agree at every position, objects have the same properties with the same values, where properties
  that are \<open>undefined\<close> or named \<open>__proto__\<close> do not count.
\<close>

definition json_leaf :: "js \<Rightarrow> js option" where
  "json_leaf v = (case v of JArr _ \<Rightarrow> None | JObj _ \<Rightarrow> None | JUndef \<Rightarrow> Some JNull | JNaN \<Rightarrow> Some JNull | JInf _ \<Rightarrow> Some JNull | _ \<Rightarrow> Some v)"

inductive json_same :: "js \<Rightarrow> js \<Rightarrow> bool" where
  leaf: "json_leaf v = Some x \<Longrightarrow> json_leaf w = Some x \<Longrightarrow> json_same v w"
| arr: "list_all2 json_same vs ws \<Longrightarrow> json_same (JArr vs) (JArr ws)"
| obj: "(\<And>k. rel_option json_same (json_member kvs k) (json_member ls k)) \<Longrightarrow> json_same (JObj kvs) (JObj ls)"

inductive_simps json_same_arr: "json_same (JArr vs) w"
inductive_simps json_same_obj: "json_same (JObj kvs) w"

text \<open>The property names of an object differ.\<close>

fun distinct_names :: "js \<Rightarrow> bool" where
  "distinct_names (JArr vs) = list_all distinct_names vs"
| "distinct_names (JObj kvs) = (distinct (map fst kvs) \<and> list_all (\<lambda>(k, v). distinct_names v) kvs)"
| "distinct_names _ = True"

definition shown :: "js \<Rightarrow> js" where
  "shown v = (if v = JUndef then JNull else json_content v)"

lemma shown_leaf: "json_leaf v = Some x \<Longrightarrow> shown v = x"
  by (cases v) (auto simp: json_leaf_def shown_def json_content_def)

lemma shown_arr: "shown (JArr vs) = JArr (map shown vs)"
  by (simp add: shown_def json_content_def sortDeep_undef)

lemma member_names: "distinct_names (JObj kvs) \<Longrightarrow> json_member kvs k = Some v \<Longrightarrow> distinct_names v \<and> v \<noteq> JUndef \<and> (\<exists>k. (k, v) \<in> set kvs)"
  by (auto simp: json_member_def list_all_iff dest: map_of_SomeD split: if_splits option.splits)

lemma shown_obj_eq:
  assumes "distinct_names (JObj kvs)" "distinct_names (JObj ls)"
  shows "shown (JObj kvs) = shown (JObj ls) \<longleftrightarrow> (\<forall>k. map_option shown (json_member kvs k) = map_option shown (json_member ls k))"
proof -
  have "map_option json_content (json_member us k) = map_option shown (json_member us k)" for us k
    by (auto simp: json_member_def shown_def split: option.splits)
  then show ?thesis using content_obj_eq [of kvs ls] assms by (simp add: shown_def)
qed

lemma shown_iff_same: "distinct_names v \<Longrightarrow> distinct_names w \<Longrightarrow> shown v = shown w \<longleftrightarrow> json_same v w"
proof (induction v arbitrary: w rule: distinct_names.induct)
  case (1 vs)
  show ?case
  proof (cases w)
    case (JArr ws)
    have "map shown vs = map shown ws \<longleftrightarrow> list_all2 json_same vs ws"
      using 1 JArr by (auto simp: list_all2_conv_all_nth list_eq_iff_nth_eq list_all_iff) 
    then show ?thesis using JArr by (simp add: shown_arr json_same_arr json_leaf_def)
  qed (auto simp: shown_arr json_same_arr json_leaf_def shown_def json_content_def)
next
  case (2 kvs)
  show ?case
  proof (cases w)
    case (JObj ls)
    have "map_option shown (json_member kvs k) = map_option shown (json_member ls k)
        \<longleftrightarrow> rel_option json_same (json_member kvs k) (json_member ls k)" for k
      using 2 JObj member_names [of kvs k] member_names [of ls k]
      by (cases "json_member kvs k"; cases "json_member ls k") auto
    then show ?thesis using shown_obj_eq [of kvs ls] 2 JObj by (simp add: json_same_obj json_leaf_def)
  qed (auto simp: json_same_obj json_leaf_def shown_def json_content_def)
qed (auto simp: json_same.simps json_leaf_def shown_def json_content_def split: js.splits)

lemma canonicalize_same:
  assumes "integral_numbers v" "integral_numbers w" "distinct_names v" "distinct_names w" "v \<noteq> JUndef" "w \<noteq> JUndef"
  shows "canonicalize v = canonicalize w \<longleftrightarrow> json_same v w"
  using canonicalize_eq_iff [OF assms(1,2,5,6)] shown_iff_same [OF assms(3,4)] assms(5,6) by (simp add: shown_def)

lemma json_content_str [simp]: "json_content v = JStr x \<longleftrightarrow> v = JStr x"
  by (cases v) (auto simp: json_content_def)

end
