(* ===== verification/Js_Date.thy ===== *)
theory Js_Date
  imports Js_Prelude
begin

text \<open>
  \<open>new Date(ms).toISOString()\<close>: the calendar of the time values from 1970 to 9999, and that the
  resulting strings have the order of the times, which the storage keys with a time stamp rely on.
\<close>

section \<open>Calendar\<close>

definition leap_year :: "int \<Rightarrow> bool" where
  "leap_year y = ((y mod 4 = 0 \<and> y mod 100 \<noteq> 0) \<or> y mod 400 = 0)"

definition year_days :: "int \<Rightarrow> int" where
  "year_days y = (if leap_year y then 366 else 365)"

lemma year_days_bounds: "365 \<le> year_days y \<and> year_days y \<le> 366"
  by (simp add: year_days_def)

text \<open>The year and the day of the year, from the days since the start of year \<open>y\<close>.\<close>

function year_of :: "int \<Rightarrow> int \<Rightarrow> int \<times> int" where
  "year_of y d = (if d < year_days y then (y, d) else year_of (y + 1) (d - year_days y))"
  by auto

termination
  by (relation "measure (\<lambda>(y, d). nat d)") (auto simp: year_days_def split: if_splits)

declare year_of.simps [simp del]

definition month_lengths :: "int \<Rightarrow> int list" where
  "month_lengths y = [31, if leap_year y then 29 else 28, 31, 30, 31, 30, 31, 31, 30, 31, 30, 31]"

fun month_of :: "int \<Rightarrow> int list \<Rightarrow> int \<Rightarrow> int \<times> int" where
  "month_of m [] d = (m, d)"
| "month_of m (l # ls) d = (if d < l then (m, d) else month_of (m + 1) ls (d - l))"

section \<open>Fixed-width decimals\<close>

fun pad_digits :: "nat \<Rightarrow> int \<Rightarrow> string" where
  "pad_digits 0 n = []"
| "pad_digits (Suc w) n = pad_digits w (n div 10) @ [digit_char (nat (n mod 10))]"

text \<open>The fields of a time stamp, each with its width and the separator after it.\<close>

fun print_fields :: "(nat \<times> string) list \<Rightarrow> int list \<Rightarrow> string" where
  "print_fields ((w, sep) # ls) (v # vs) = pad_digits w v @ sep @ print_fields ls vs"
| "print_fields _ _ = []"

definition iso_layout :: "(nat \<times> string) list" where
  "iso_layout = [(4, ''-''), (2, ''-''), (2, ''T''), (2, '':''), (2, '':''), (2, ''.''), (3, ''Z'')]"

definition time_fields :: "int \<Rightarrow> int list" where
  "time_fields t =
     (let (y, yd) = year_of 1970 (t div 86400000);
          (m, md) = month_of 1 (month_lengths y) yd;
          r = t mod 86400000
      in [y, m, md + 1, r div 3600000, r mod 3600000 div 60000, r mod 60000 div 1000, r mod 1000])"

definition js_toISOString :: "int \<Rightarrow> string" where
  "js_toISOString ms = print_fields iso_layout (time_fields ms)"

section \<open>Order\<close>

lemma length_pad [simp]: "length (pad_digits w n) = w"
  by (induction w arbitrary: n) auto

lemma digit_char_less: "a < 10 \<Longrightarrow> b < 10 \<Longrightarrow> (digit_char a < digit_char b) = (a < b)"
  by (simp add: digit_char_def less_char_def)

lemma append_less_iff:
  fixes xs ys :: string
  assumes "length xs = length ys"
  shows "(xs @ us < ys @ vs) = (xs < ys \<or> (xs = ys \<and> us < vs))"
  using assms by (induction xs ys rule: list_induct2) auto

lemma div_mod_less:
  fixes a b k :: int
  assumes "a < b" "0 < k"
  shows "a div k < b div k \<or> (a div k = b div k \<and> a mod k < b mod k)"
proof (cases "a div k < b div k")
  case False
  with assms have "a div k = b div k" by (meson less_imp_le linorder_not_le order_antisym zdiv_mono1)
  moreover with assms have "a mod k < b mod k" by (metis add_less_cancel_left mult_div_mod_eq)
  ultimately show ?thesis by simp
qed simp

lemma pad_less: "0 \<le> a \<Longrightarrow> a < b \<Longrightarrow> b < 10 ^ w \<Longrightarrow> pad_digits w a < pad_digits w b"
proof (induction w arbitrary: a b)
  case (Suc w)
  have b: "b div 10 < 10 ^ w" using Suc.prems by (auto simp: div_less_iff_less_mult)
  have a: "0 \<le> a div 10" using Suc.prems by (simp add: pos_imp_zdiv_nonneg_iff)
  from div_mod_less [OF Suc.prems(2), of 10] show ?case
  proof
    assume "a div 10 < b div 10"
    then show ?thesis using Suc.IH [OF a _ b] by (simp add: append_less_iff)
  next
    assume "a div 10 = b div 10 \<and> a mod 10 < b mod 10"
    then have "nat (a mod 10) < nat (b mod 10)" by (simp add: nat_mono_iff) (metis le_less_trans pos_mod_sign zero_less_numeral)
    then show ?thesis using \<open>a div 10 = b div 10 \<and> a mod 10 < b mod 10\<close> by (simp add: append_less_iff digit_char_less nat_less_iff)
  qed simp
qed simp

lemma print_fields_less:
  assumes "vs < us" "length vs = length ls" "list_all2 (\<lambda>l u. u < 10 ^ fst l) ls us" "list_all (\<lambda>v. 0 \<le> v) vs"
  shows "print_fields ls vs < print_fields ls us"
  using assms
proof (induction ls vs arbitrary: us rule: print_fields.induct)
  case (1 w sep ls v vs)
  then obtain u us' where us: "us = u # us'" "u < 10 ^ w" "list_all2 (\<lambda>l u. u < 10 ^ fst l) ls us'"
    by (auto simp: list_all2_Cons1)
  show ?case
  proof (cases "v < u")
    case True
    with us 1 show ?thesis by (simp add: append_less_iff pad_less)
  next
    case False
    with 1 us have "v = u" "print_fields ls vs < print_fields ls us'" by auto
    with us show ?thesis by (simp add: append_less_iff)
  qed
qed auto

definition lex2 :: "int \<times> int \<Rightarrow> int \<times> int \<Rightarrow> bool" where
  "lex2 p q = (fst p < fst q \<or> (fst p = fst q \<and> snd p < snd q))"

lemma year_of_ge: "y \<le> fst (year_of y d)"
proof (induction y d rule: year_of.induct)
  case (1 y d)
  then show ?case by (subst year_of.simps) auto
qed

lemma year_of_less: "d < d' \<Longrightarrow> lex2 (year_of y d) (year_of y d')"
proof (induction y d arbitrary: d' rule: year_of.induct)
  case (1 y d)
  show ?case
  proof (cases "d < year_days y")
    case True
    with 1 year_of_ge [of "y + 1" "d' - year_days y"] show ?thesis
      by (subst year_of.simps, subst (2) year_of.simps) (auto simp: lex2_def)
  next
    case False
    with 1 show ?thesis
      by (subst year_of.simps, subst (2) year_of.simps) auto
  qed
qed

lemma year_of_bounds:
  "0 \<le> d \<Longrightarrow> fst (year_of y d) * 365 \<le> y * 365 + d
     \<and> 0 \<le> snd (year_of y d) \<and> snd (year_of y d) < year_days (fst (year_of y d))"
proof (induction y d rule: year_of.induct)
  case (1 y d)
  then show ?case using year_days_bounds [of y] by (subst (1 2 3 4) year_of.simps) auto
qed

lemma month_of_ge: "m \<le> fst (month_of m ls d)"
proof (induction m ls d rule: month_of.induct)
  case (2 m l ls d)
  then show ?case by auto
qed simp

lemma month_of_less: "d < d' \<Longrightarrow> lex2 (month_of m ls d) (month_of m ls d')"
proof (induction m ls d arbitrary: d' rule: month_of.induct)
  case (2 m l ls d)
  show ?case
  proof (cases "d < l")
    case True
    with 2 month_of_ge [of "m + 1" ls "d' - l"] show ?thesis by (auto simp: lex2_def)
  next
    case False
    with 2 show ?thesis by auto
  qed
qed (simp add: lex2_def)

lemma month_of_bounds:
  "0 \<le> d \<Longrightarrow> d < sum_list ls \<Longrightarrow> fst (month_of m ls d) < m + int (length ls)
     \<and> 0 \<le> snd (month_of m ls d) \<and> snd (month_of m ls d) < Max (set ls)"
proof (induction m ls d rule: month_of.induct)
  case (2 m l ls d)
  then show ?case by (cases "ls = []") (auto simp: less_max_iff_disj)
qed simp

lemma month_lengths_sum: "sum_list (month_lengths y) = year_days y"
  by (simp add: month_lengths_def year_days_def)

lemma month_fields:
  assumes "0 \<le> yd" "yd < year_days y"
  shows "fst (month_of 1 (month_lengths y) yd) < 100 \<and> 0 \<le> snd (month_of 1 (month_lengths y) yd)
       \<and> snd (month_of 1 (month_lengths y) yd) + 1 < 100"
  using month_of_bounds [of yd "month_lengths y" 1] assms
  by (auto simp: month_lengths_sum) (auto simp: month_lengths_def)

text \<open>The times for which the order is proved: from 1970 into the year 9987.\<close>

definition iso_range :: "int \<Rightarrow> bool" where
  "iso_range ms = (0 \<le> ms \<and> ms < 253000000000000)"

lemma time_of_day_less:
  fixes r r' :: int
  assumes "r < r'"
  shows "[r div 3600000, r mod 3600000 div 60000, r mod 60000 div 1000, r mod 1000]
       < [r' div 3600000, r' mod 3600000 div 60000, r' mod 60000 div 1000, r' mod 1000]"
proof -
  have m: "x mod 3600000 mod 60000 = x mod 60000" "x mod 60000 mod 1000 = x mod 1000" for x :: int
    by (simp_all add: mod_mod_cancel)
  show ?thesis
    using div_mod_less [OF assms, of 3600000] div_mod_less [of "r mod 3600000" "r' mod 3600000" 60000]
      div_mod_less [of "r mod 60000" "r' mod 60000" 1000]
    by (auto simp: m)
qed

lemma date_fields_less:
  assumes "d < d'" "year_of 1970 d = (y, yd)" "year_of 1970 d' = (z, zd)"
    and "month_of 1 (month_lengths y) yd = (m, md)" "month_of 1 (month_lengths z) zd = (n, nd)"
  shows "y < z \<or> (y = z \<and> (m < n \<or> (m = n \<and> md < nd)))"
proof -
  have "lex2 (y, yd) (z, zd)" using year_of_less [OF assms(1)] assms(2,3) by metis
  moreover have "lex2 (m, md) (n, nd)" if "y = z" "yd < zd" using month_of_less assms(4,5) that by metis
  ultimately show ?thesis by (auto simp: lex2_def)
qed

lemma time_fields_less:
  assumes "t < u"
  shows "time_fields t < time_fields u"
proof -
  obtain y yd where y: "year_of 1970 (t div 86400000) = (y, yd)" by fastforce
  obtain z zd where z: "year_of 1970 (u div 86400000) = (z, zd)" by fastforce
  obtain m md where m: "month_of 1 (month_lengths y) yd = (m, md)" by fastforce
  obtain n nd where n: "month_of 1 (month_lengths z) zd = (n, nd)" by fastforce
  show ?thesis
  proof (cases "t div 86400000 < u div 86400000")
    case True
    have "time_fields t = y # m # (md + 1) # drop 3 (time_fields t)" "time_fields u = z # n # (nd + 1) # drop 3 (time_fields u)"
      by (simp_all add: time_fields_def Let_def y z m n)
    moreover from date_fields_less [OF True y z m n]
    have "y # m # (md + 1) # xs < z # n # (nd + 1) # ys" for xs ys by auto
    ultimately show ?thesis by metis
  next
    case False
    with div_mod_less [OF assms, of 86400000]
    have d: "t div 86400000 = u div 86400000" "t mod 86400000 < u mod 86400000" by auto
    from time_of_day_less [OF d(2)] show ?thesis
      using d(1) by (auto simp: time_fields_def Let_def split: prod.splits)
  qed
qed

lemma time_fields_bounds:
  assumes "iso_range u"
  shows "list_all2 (\<lambda>l u. u < 10 ^ fst l) iso_layout (time_fields u) \<and> list_all (\<lambda>v. 0 \<le> v) (time_fields u)"
proof -
  obtain z zd where z: "year_of 1970 (u div 86400000) = (z, zd)" by fastforce
  obtain n nd where n: "month_of 1 (month_lengths z) zd = (n, nd)" by fastforce
  have d: "0 \<le> u div 86400000" "u div 86400000 < 2928241"
    using assms zdiv_mono1 [of u 253000000000000 86400000] by (simp_all add: iso_range_def pos_imp_zdiv_nonneg_iff)
  have zb: "z < 10000" "0 \<le> zd" "zd < year_days z" using year_of_bounds [OF d(1), of 1970] d(2) unfolding z by simp_all
  have "0 \<le> z" using year_of_ge [of 1970 "u div 86400000"] z by simp
  moreover have "0 \<le> n" using month_of_ge [of 1 "month_lengths z" zd] n by simp
  moreover have "n < 100" "0 \<le> nd" "nd + 1 < 100" using month_fields [OF zb(2,3)] n by auto
  moreover have "u mod 86400000 div 3600000 < 100" "u mod 3600000 div 60000 < 100" "u mod 60000 div 1000 < 100"
    using zdiv_mono1 [of "u mod 86400000" 86400000 3600000] zdiv_mono1 [of "u mod 3600000" 3600000 60000]
      zdiv_mono1 [of "u mod 60000" 60000 1000] by (simp_all add: less_imp_le)
  moreover have "0 \<le> u mod 86400000 div 3600000" "0 \<le> u mod 3600000 div 60000" "0 \<le> u mod 60000 div 1000"
    by (simp_all add: pos_imp_zdiv_nonneg_iff)
  ultimately show ?thesis using zb(1)
    by (simp add: iso_layout_def time_fields_def Let_def z n mod_mod_cancel)
qed

lemma length_time_fields: "length (time_fields t) = length iso_layout"
  by (simp add: time_fields_def iso_layout_def Let_def split: prod.splits)

lemma js_toISOString_less:
  assumes "a < b" "iso_range a" "iso_range b"
  shows "js_toISOString a < js_toISOString b"
  unfolding js_toISOString_def
  using time_fields_bounds [OF assms(2)] time_fields_bounds [OF assms(3)] time_fields_less [OF assms(1)]
  by (intro print_fields_less length_time_fields) auto

lemma js_toISOString_length: "length (js_toISOString a) = 24"
  by (simp add: js_toISOString_def time_fields_def iso_layout_def Let_def split: prod.splits)

end
