(* ===== verification/Audit_Immutable.thy ===== *)
theory Audit_Immutable
  imports Json_Canonical Js_Date Worker_Env Do_Storage
begin

text \<open>
  \<open>src/api-worker/src/audit/immutable.ts\<close>: the copies of an audit entry in services outside the
  worker. The services (the R2 bucket, the KV namespace and the ingest endpoint) are the record
  \<open>AuditServices\<close> of what they answer during one call; \<open>H\<close> is SHA-256 in hexadecimal and \<open>nowMs\<close> the
  clock. An audit entry is the object as it is stored.
\<close>

section \<open>Data\<close>

datatype AuditImmutableMode = ModeOff | BestEffort | Required

fun modeStr :: "AuditImmutableMode \<Rightarrow> string" where
  "modeStr ModeOff = ''off''"
| "modeStr BestEffort = ''best_effort''"
| "modeStr Required = ''required''"

definition AuditImmutableSink :: "string \<Rightarrow> string \<Rightarrow> string \<Rightarrow> js" where
  "AuditImmutableSink sink ref atIso = JObj [(''sink'', JStr sink), (''ref'', JStr ref), (''at'', JStr atIso)]"

definition AuditImmutableReceipt :: "AuditImmutableMode \<Rightarrow> string \<Rightarrow> js list \<Rightarrow> string list \<Rightarrow> js" where
  "AuditImmutableReceipt mode payloadHash sinks warnings =
     JObj ([(''mode'', JStr (modeStr mode)), (''payload_hash'', JStr payloadHash), (''sinks'', JArr sinks)]
           @ (if warnings \<noteq> [] then [(''warnings'', JArr (map JStr warnings))] else []))"

text \<open>
  What the services answer: \<open>r2_put\<close> says whether the conditional write stored the object, \<open>r2_get\<close>
  gives the text of an object, \<open>ingest\<close> the status and the receipt header of a completed request.
  \<open>Inl\<close> is a thrown error.
\<close>

record AuditServices =
  r2_put :: "string \<Rightarrow> string \<Rightarrow> (string \<times> string) list \<Rightarrow> bool or_error"
  r2_get :: "string \<Rightarrow> string option or_error"
  kv_put :: "string \<Rightarrow> string \<Rightarrow> unit or_error"
  ingest :: "string \<Rightarrow> int \<Rightarrow> (string \<times> string) list \<Rightarrow> string \<Rightarrow> (int \<times> string option) or_error"

text \<open>No service is bound.\<close>

definition noServices :: AuditServices where
  "noServices = \<lparr>r2_put = (\<lambda>_ _ _. Inl ''unbound''), r2_get = (\<lambda>_. Inl ''unbound''),
                 kv_put = (\<lambda>_ _. Inl ''unbound''), ingest = (\<lambda>_ _ _ _. Inl ''unbound'')\<rparr>"

section \<open>Helpers\<close>

definition sfield :: "js \<Rightarrow> string \<Rightarrow> string" where
  "sfield e k = js_to_string (jget e k)"

definition DEFAULT_INGEST_TIMEOUT_MS :: int where
  "DEFAULT_INGEST_TIMEOUT_MS = 5000"

definition parseTimeout :: "string option \<Rightarrow> int" where
  "parseTimeout raw =
     (case raw of
        None \<Rightarrow> DEFAULT_INGEST_TIMEOUT_MS
      | Some r \<Rightarrow>
          if r = [] then DEFAULT_INGEST_TIMEOUT_MS
          else case js_parseInt r of
                 None \<Rightarrow> DEFAULT_INGEST_TIMEOUT_MS
               | Some parsed \<Rightarrow> if parsed \<le> 0 then DEFAULT_INGEST_TIMEOUT_MS else parsed)"

text \<open>\<open>encodeURIComponent\<close>: a character outside the unreserved ones becomes its UTF-8 bytes.\<close>

definition hex_byte :: "nat \<Rightarrow> string" where
  "hex_byte n = js_upper [CHR 0x25, digit_char (n div 16), digit_char (n mod 16)]"

definition uri_char :: "char \<Rightarrow> string" where
  "uri_char c =
     (let n = (of_char c :: nat) in
      if is_digit c \<or> (65 \<le> n \<and> n \<le> 90) \<or> (97 \<le> n \<and> n \<le> 122) \<or> n \<in> {45, 95, 46, 33, 126, 42, 39, 40, 41}
      then [c]
      else if n < 128 then hex_byte n
      else hex_byte (192 + n div 64) @ hex_byte (128 + n mod 64))"

definition encodeURIComponent :: "string \<Rightarrow> string" where
  "encodeURIComponent s = concat (map uri_char s)"

section \<open>Sinks\<close>

definition putIfAbsentOrVerify ::
  "AuditServices \<Rightarrow> string \<Rightarrow> string \<Rightarrow> (string \<times> string) list \<Rightarrow> unit or_error" where
  "putIfAbsentOrVerify svc key payload meta =
     (case r2_put svc key payload meta of
        Inl e \<Rightarrow> Inl e
      | Inr stored \<Rightarrow>
          if stored then Inr ()
          else (case r2_get svc key of
                  Inl e \<Rightarrow> Inl e
                | Inr None \<Rightarrow> Inl (''conditional put failed and object is missing: '' @ key)
                | Inr (Some existingText) \<Rightarrow>
                    if existingText \<noteq> payload then Inl (''immutable conflict detected for '' @ key) else Inr ()))"

definition dash_time :: "string \<Rightarrow> string" where
  "dash_time ts = map (\<lambda>c. if c = CHR '':'' \<or> c = CHR ''.'' then CHR ''-'' else c) ts"

definition writeR2ImmutableCopies ::
  "AuditServices \<Rightarrow> int \<Rightarrow> js \<Rightarrow> string \<Rightarrow> string \<Rightarrow> js list or_error" where
  "writeR2ImmutableCopies svc nowMs entry payload payloadHash =
     (let eventId = encodeURIComponent (sfield entry ''eventId'');
          ts = dash_time (sfield entry ''ts'');
          entryHash = sfield entry ''entry_hash'';
          entryKey = ''audit/immutable/entry/'' @ entryHash @ ''.json'';
          streamKey = ''audit/immutable/stream/'' @ eventId @ ''/'' @ ts @ ''_'' @ entryHash @ ''.json'';
          meta = [(''event_id'', sfield entry ''eventId''), (''entry_hash'', entryHash), (''payload_hash'', payloadHash)]
      in case putIfAbsentOrVerify svc entryKey payload meta of
           Inl e \<Rightarrow> Inl e
         | Inr _ \<Rightarrow>
             (case putIfAbsentOrVerify svc streamKey payload meta of
                Inl e \<Rightarrow> Inl e
              | Inr _ \<Rightarrow> Inr [AuditImmutableSink ''r2_entry'' entryKey (js_toISOString nowMs),
                              AuditImmutableSink ''r2_stream'' streamKey (js_toISOString nowMs)]))"

definition js_or_genesis :: "js \<Rightarrow> js" where
  "js_or_genesis v = (if v = JUndef \<or> v = JNull then JStr ''GENESIS'' else v)"

definition writeKvIndex :: "AuditServices \<Rightarrow> int \<Rightarrow> js \<Rightarrow> string \<Rightarrow> js or_error" where
  "writeKvIndex svc nowMs entry payloadHash =
     (let key = ''audit:immutable:'' @ sfield entry ''entry_hash'';
          value = JSON_stringify (JObj [(''ts'', jget entry ''ts''), (''eventId'', jget entry ''eventId''),
                    (''prev_hash'', jget entry ''prev_hash''),
                    (''stream_prev_hash'', js_or_genesis (jget entry ''stream_prev_hash'')),
                    (''payload_hash'', JStr payloadHash)])
      in case kv_put svc key value of
           Inl e \<Rightarrow> Inl e
         | Inr _ \<Rightarrow> Inr (AuditImmutableSink ''kv_index'' key (js_toISOString nowMs)))"

definition writeImmutableWebhook ::
  "AuditServices \<Rightarrow> int \<Rightarrow> string \<Rightarrow> string \<Rightarrow> int \<Rightarrow> string \<Rightarrow> js \<Rightarrow> string \<Rightarrow> js or_error" where
  "writeImmutableWebhook svc nowMs ingestUrl token timeoutMs source entry payloadHash =
     (let headers = [(''content-type'', ''application/json'')]
                    @ (if token \<noteq> [] then [(''authorization'', ''Bearer '' @ token)] else [])
                    @ [(''x-audit-entry-hash'', sfield entry ''entry_hash''), (''x-audit-payload-sha256'', payloadHash)];
          body = JSON_stringify (JObj [(''version'', JNum 1), (''source'', JStr source),
                    (''payload_hash'', JStr payloadHash), (''entry'', entry)])
      in case ingest svc ingestUrl timeoutMs headers body of
           Inl e \<Rightarrow> Inl e
         | Inr (status, receipt) \<Rightarrow>
             if \<not> (200 \<le> status \<and> status \<le> 299)
             then Inl (''immutable ingest failed with status '' @ js_str_int status)
             else let refHeader = (case receipt of Some h \<Rightarrow> h | None \<Rightarrow> []);
                      ref = (if refHeader \<noteq> [] then refHeader else ''http:'' @ js_str_int status)
                  in Inr (AuditImmutableSink ''immutable_ingest'' ref (js_toISOString nowMs)))"

definition opt_trim :: "string option \<Rightarrow> string" where
  "opt_trim s = (case s of None \<Rightarrow> [] | Some t \<Rightarrow> js_trim t)"

definition hasPrimaryImmutableSink :: "Env \<Rightarrow> bool" where
  "hasPrimaryImmutableSink env = (if AUDIT_LOGS env then True else opt_trim (AUDIT_IMMUTABLE_INGEST_URL env) \<noteq> [])"

definition parseAuditImmutableMode :: "string option \<Rightarrow> AuditImmutableMode" where
  "parseAuditImmutableMode raw =
     (let value = js_lower (opt_trim raw) in
      if value = [] then Required
      else if value = ''off'' \<or> value = ''false'' \<or> value = ''0'' \<or> value = ''disabled'' \<or> value = ''no'' then ModeOff
      else if value = ''best_effort'' \<or> value = ''best-effort'' \<or> value = ''relaxed'' \<or> value = ''warn'' then BestEffort
      else Required)"

section \<open>Persisting an entry\<close>

text \<open>The state of the three attempts: accepted sinks, blocking errors, warnings.\<close>

type_synonym attempt_state = "js list \<times> string list \<times> string list"

definition attemptR2 :: "Env \<Rightarrow> AuditServices \<Rightarrow> int \<Rightarrow> js \<Rightarrow> string \<Rightarrow> string \<Rightarrow> attempt_state \<Rightarrow> attempt_state" where
  "attemptR2 env svc nowMs entry payload payloadHash = (\<lambda>(sinks, blocking, warnings).
     if AUDIT_LOGS env
     then (case writeR2ImmutableCopies svc nowMs entry payload payloadHash of
             Inr ss \<Rightarrow> (sinks @ ss, blocking, warnings)
           | Inl e \<Rightarrow> (sinks, blocking @ [''r2:'' @ e], warnings @ [''r2:'' @ e]))
     else (sinks, blocking, warnings))"

definition attemptKv :: "Env \<Rightarrow> AuditServices \<Rightarrow> int \<Rightarrow> js \<Rightarrow> string \<Rightarrow> attempt_state \<Rightarrow> attempt_state" where
  "attemptKv env svc nowMs entry payloadHash = (\<lambda>(sinks, blocking, warnings).
     if AUDIT_INDEX env
     then (case writeKvIndex svc nowMs entry payloadHash of
             Inr sk \<Rightarrow> (sinks @ [sk], blocking, warnings)
           | Inl e \<Rightarrow> (sinks, blocking, warnings @ [''kv:'' @ e]))
     else (sinks, blocking, warnings))"

definition attemptIngest ::
  "Env \<Rightarrow> AuditServices \<Rightarrow> int \<Rightarrow> string \<Rightarrow> js \<Rightarrow> string \<Rightarrow> attempt_state \<Rightarrow> attempt_state" where
  "attemptIngest env svc nowMs source entry payloadHash = (\<lambda>(sinks, blocking, warnings).
     let ingestUrl = opt_trim (AUDIT_IMMUTABLE_INGEST_URL env) in
     if ingestUrl \<noteq> []
     then (case writeImmutableWebhook svc nowMs ingestUrl (opt_trim (AUDIT_IMMUTABLE_INGEST_TOKEN env))
                  (parseTimeout (AUDIT_IMMUTABLE_FETCH_TIMEOUT_MS env)) source entry payloadHash of
             Inr sk \<Rightarrow> (sinks @ [sk], blocking, warnings)
           | Inl e \<Rightarrow> (sinks, blocking @ [''ingest:'' @ e], warnings @ [''ingest:'' @ e]))
     else (sinks, blocking, warnings))"

definition isPrimarySink :: "js \<Rightarrow> bool" where
  "isPrimarySink sk = (jget sk ''sink'' = JStr ''r2_entry'' \<or> jget sk ''sink'' = JStr ''immutable_ingest'')"

text \<open>The result is the receipt, \<open>None\<close> for \<open>null\<close>.\<close>

definition persistImmutableAuditEntry ::
  "(string \<Rightarrow> string) \<Rightarrow> Env \<Rightarrow> AuditServices \<Rightarrow> int \<Rightarrow> AuditImmutableMode \<Rightarrow> string \<Rightarrow> js \<Rightarrow> js option or_error" where
  "persistImmutableAuditEntry H env svc nowMs mode source entry =
     (if mode = ModeOff then Inr None
      else
        let payload = canonicalize (JObj [(''version'', JNum 1), (''source'', JStr source), (''entry'', entry)]);
            payloadHash = H payload
        in if \<not> hasPrimaryImmutableSink env
           then (let msg = ''immutable audit sink is not configured (AUDIT_LOGS or AUDIT_IMMUTABLE_INGEST_URL)'' in
                 if mode = Required then Inl msg
                 else Inr (Some (AuditImmutableReceipt mode payloadHash [] [msg])))
           else
             let (sinks, blocking, warnings) =
                   attemptIngest env svc nowMs source entry payloadHash
                     (attemptKv env svc nowMs entry payloadHash
                       (attemptR2 env svc nowMs entry payload payloadHash ([], [], [])));
                 detail = ''no immutable sink accepted this entry'';
                 none = \<not> list_ex isPrimarySink sinks;
                 blocking' = (if none then blocking @ [detail] else blocking);
                 warnings' = (if none then warnings @ [detail] else warnings)
             in if mode = Required \<and> blocking' \<noteq> []
                then Inl (''immutable audit persistence failed: '' @ js_join ''; '' blocking')
                else Inr (Some (AuditImmutableReceipt mode payloadHash sinks warnings')))"

section \<open>What a receipt says\<close>

lemma attempt_sinks_mono:
  "attemptIngest env svc nowMs src e h (a, b, c) = (a', b', c') \<Longrightarrow> set a \<subseteq> set a' \<and> set b \<subseteq> set b'"
  "attemptKv env svc nowMs e h (a, b, c) = (a', b', c') \<Longrightarrow> set a \<subseteq> set a' \<and> set b \<subseteq> set b'"
  by (auto simp: attemptIngest_def attemptKv_def Let_def split: if_splits sum.splits)

lemma persist_off: "persistImmutableAuditEntry H env svc nowMs ModeOff source entry = Inr None"
  by (simp add: persistImmutableAuditEntry_def)

lemma persist_receipt:
  assumes "persistImmutableAuditEntry H env svc nowMs mode source entry = Inr (Some r)"
  shows "\<exists>sinks warnings. r = AuditImmutableReceipt mode
           (H (canonicalize (JObj [(''version'', JNum 1), (''source'', JStr source), (''entry'', entry)]))) sinks warnings
         \<and> (mode = Required \<longrightarrow> list_ex isPrimarySink sinks \<and> hasPrimaryImmutableSink env)"
  using assms
  by (auto simp: persistImmutableAuditEntry_def Let_def split: if_splits prod.splits)

end
