(* ===== verification/Audit_Chain.thy ===== *)
theory Audit_Chain
  imports Audit_Immutable
begin

text \<open>
  The audit log of \<open>storeDO.ts\<close>: appending an entry to the global hash chain and to the chain of its
  event stream, looking entries up, and the integrity report over a window of the newest entries. The
  maps that \<open>verifyAuditIntegrity\<close> builds are association lists in insertion order; their keys are
  JavaScript values, since a stored predecessor hash need not be a string.
\<close>

section \<open>Data\<close>

record AuditIntegrityIssue =
  ai_code :: string
  ai_message :: string
  ai_entryHash :: js
  ai_eventId :: js
  ai_ref :: js

record AuditIntegrityReport =
  ar_ok :: bool
  ar_mode :: AuditImmutableMode
  ar_checked :: nat
  ar_limit :: nat
  ar_globalHead :: js
  ar_oldestInWindow :: js
  ar_verifyImmutable :: bool
  ar_issues :: "AuditIntegrityIssue list"
  ar_warnings :: "string list"
  ar_inspectedAt :: string

definition AUDIT_LAST_HASH_GLOBAL_KEY :: string where
  "AUDIT_LAST_HASH_GLOBAL_KEY = ''audit:lastHash:global''"

definition AUDIT_HISTORY_PREFIX :: string where
  "AUDIT_HISTORY_PREFIX = ''audit_history:''"

definition AUDIT_ENTRY_PREFIX :: string where
  "AUDIT_ENTRY_PREFIX = ''audit_entry:''"

definition AUDIT_ENTRY_SCAN_LIMIT :: nat where
  "AUDIT_ENTRY_SCAN_LIMIT = 5000"

definition IMMUTABLE_AUDIT_SOURCE :: string where
  "IMMUTABLE_AUDIT_SOURCE = ''school-store''"

definition auditEntryByHashKey :: "string \<Rightarrow> string" where
  "auditEntryByHashKey entryHash = AUDIT_ENTRY_PREFIX @ entryHash"

definition isHashHex :: "string \<Rightarrow> bool" where
  "isHashHex raw = (let t = js_lower (js_trim raw) in length t = 64 \<and> list_all is_lower_hex t)"

definition getAuditImmutableMode :: "Env \<Rightarrow> AuditImmutableMode" where
  "getAuditImmutableMode env = parseAuditImmutableMode (AUDIT_IMMUTABLE_MODE env)"

section \<open>Appending\<close>

definition streamLastHashKey :: "string \<Rightarrow> string" where
  "streamLastHashKey eventId = ''audit:lastHash:'' @ eventId"

definition auditHistoryKey :: "string \<Rightarrow> string \<Rightarrow> string" where
  "auditHistoryKey ts entryHash = AUDIT_HISTORY_PREFIX @ ts @ '':'' @ entryHash"

definition auditBaseEntry :: "string \<Rightarrow> string \<Rightarrow> string \<Rightarrow> js \<Rightarrow> js \<Rightarrow> js \<Rightarrow> js \<Rightarrow> (string \<times> js) list" where
  "auditBaseEntry ts event eventId actor data prevHash streamPrevHash =
     [(''ts'', JStr ts), (''event'', JStr event), (''eventId'', JStr eventId), (''actor'', actor),
      (''data'', if data = JUndef \<or> data = JNull then JObj [] else data),
      (''prev_hash'', prevHash), (''stream_prev_hash'', streamPrevHash)]"

text \<open>The stored entry, and the storage with it; nothing is stored when the immutable copies fail.\<close>

definition appendAuditLog ::
  "(string \<Rightarrow> string) \<Rightarrow> Env \<Rightarrow> AuditServices \<Rightarrow> storage \<Rightarrow> int \<Rightarrow> string \<Rightarrow> js \<Rightarrow> js \<Rightarrow> string \<Rightarrow> (storage \<times> js) or_error" where
  "appendAuditLog H env svc s nowMs event actor data eventId =
     (let ts = js_toISOString nowMs;
          globalPrevHash = js_or_genesis (sto_get s AUDIT_LAST_HASH_GLOBAL_KEY);
          streamPrevHash = js_or_genesis (sto_get s (streamLastHashKey eventId));
          baseEntry = auditBaseEntry ts event eventId actor data globalPrevHash streamPrevHash;
          entry_hash = H (canonicalize (JObj baseEntry));
          fullEntry = JObj (baseEntry @ [(''entry_hash'', JStr entry_hash)])
      in case persistImmutableAuditEntry H env svc nowMs (getAuditImmutableMode env) IMMUTABLE_AUDIT_SOURCE fullEntry of
           Inl e \<Rightarrow> Inl e
         | Inr receipt \<Rightarrow>
             (let stored = (case receipt of
                              Some r \<Rightarrow> JObj (baseEntry @ [(''entry_hash'', JStr entry_hash), (''immutable'', r)])
                            | None \<Rightarrow> fullEntry);
                  s1 = sto_put s AUDIT_LAST_HASH_GLOBAL_KEY (JStr entry_hash);
                  s2 = sto_put s1 (streamLastHashKey eventId) (JStr entry_hash);
                  s3 = sto_put s2 (auditHistoryKey ts entry_hash) stored;
                  s4 = sto_put s3 (auditEntryByHashKey entry_hash) stored
              in Inr (s4, stored)))"

definition getAuditLogs :: "storage \<Rightarrow> js list" where
  "getAuditLogs s = map snd (sto_list_rev s AUDIT_HISTORY_PREFIX 50)"

record AuditStatus =
  as_mode :: AuditImmutableMode
  as_failClosedForMutatingRequests :: bool
  as_operationalReady :: bool
  as_primaryImmutableSinkConfigured :: bool
  as_r2Configured :: bool
  as_kvConfigured :: bool
  as_ingestConfigured :: bool

definition getAuditStatus :: "Env \<Rightarrow> AuditStatus" where
  "getAuditStatus env =
     (let mode = getAuditImmutableMode env;
          ingestConfigured = (opt_trim (AUDIT_IMMUTABLE_INGEST_URL env) \<noteq> []);
          primary = (AUDIT_LOGS env \<or> ingestConfigured)
      in \<lparr>as_mode = mode, as_failClosedForMutatingRequests = (mode = Required),
          as_operationalReady = (if mode = ModeOff then True else primary),
          as_primaryImmutableSinkConfigured = primary,
          as_r2Configured = AUDIT_LOGS env, as_kvConfigured = AUDIT_INDEX env,
          as_ingestConfigured = ingestConfigured\<rparr>)"

section \<open>Hash inputs and lookups\<close>

definition is_string :: "js \<Rightarrow> bool" where
  "is_string v = (case v of JStr _ \<Rightarrow> True | _ \<Rightarrow> False)"

definition buildAuditHashInput :: "js \<Rightarrow> (string \<times> js) list" where
  "buildAuditHashInput entry =
     [(''ts'', jget entry ''ts''), (''event'', jget entry ''event''), (''eventId'', jget entry ''eventId''),
      (''actor'', jget entry ''actor''), (''data'', jget entry ''data''), (''prev_hash'', jget entry ''prev_hash'')]
     @ (if is_string (jget entry ''stream_prev_hash'') then [(''stream_prev_hash'', jget entry ''stream_prev_hash'')] else [])"

definition buildImmutablePayload :: "js \<Rightarrow> string" where
  "buildImmutablePayload entry =
     canonicalize (JObj [(''version'', JNum 1), (''source'', JStr IMMUTABLE_AUDIT_SOURCE),
       (''entry'', JObj (buildAuditHashInput entry @ [(''entry_hash'', jget entry ''entry_hash'')]))])"

definition lower_js :: "js \<Rightarrow> js" where
  "lower_js v = (case v of JStr t \<Rightarrow> JStr (js_lower t) | _ \<Rightarrow> v)"

definition getAuditEntryByHash :: "storage \<Rightarrow> string \<Rightarrow> js option" where
  "getAuditEntryByHash s entryHash =
     (let hash = js_lower (js_trim entryHash) in
      if \<not> isHashHex hash then None
      else let direct = sto_get s (auditEntryByHashKey hash) in
        if is_obj direct \<and> is_string (jget direct ''entry_hash'') then Some direct
        else find (\<lambda>value. is_obj value \<and> lower_js (jget value ''entry_hash'') = JStr hash)
               (map snd (sto_list_rev s AUDIT_HISTORY_PREFIX AUDIT_ENTRY_SCAN_LIMIT)))"

section \<open>The integrity report\<close>

subsection \<open>Single entries\<close>

definition auditIssue :: "string \<Rightarrow> string \<Rightarrow> js \<Rightarrow> js \<Rightarrow> js \<Rightarrow> AuditIntegrityIssue" where
  "auditIssue code message entryHash eventId ref =
     \<lparr>ai_code = code, ai_message = message, ai_entryHash = entryHash, ai_eventId = eventId, ai_ref = ref\<rparr>"

definition hashOf :: "js \<Rightarrow> js" where
  "hashOf e = jget e ''entry_hash''"

definition eventOf :: "js \<Rightarrow> js" where
  "eventOf e = jget e ''eventId''"

definition entryIssue :: "string \<Rightarrow> string \<Rightarrow> js \<Rightarrow> AuditIntegrityIssue" where
  "entryIssue code message e = auditIssue code message (hashOf e) (eventOf e) JUndef"

text \<open>A string that is not empty.\<close>

definition is_text :: "js \<Rightarrow> bool" where
  "is_text v = (is_string v \<and> truthy v)"

definition shapeIssue :: "js \<Rightarrow> AuditIntegrityIssue option" where
  "shapeIssue e =
     (if \<not> is_obj e \<or> \<not> is_string (hashOf e)
      then Some (auditIssue ''invalid_entry_shape'' ''invalid audit history entry'' JUndef JUndef JUndef)
      else if \<not> is_text (eventOf e)
      then Some (auditIssue ''invalid_entry_shape'' ''invalid eventId in audit history entry'' (hashOf e) JUndef JUndef)
      else if \<not> is_text (jget e ''prev_hash'')
      then Some (entryIssue ''invalid_entry_shape'' ''invalid prev_hash in audit history entry'' e)
      else None)"

definition hashIssues :: "(string \<Rightarrow> string) \<Rightarrow> js \<Rightarrow> AuditIntegrityIssue list" where
  "hashIssues H e =
     (if JStr (H (canonicalize (JObj (buildAuditHashInput e)))) \<noteq> hashOf e
      then [entryIssue ''entry_hash_mismatch'' ''entry hash mismatch'' e] else [])"

fun r2Issues :: "AuditServices \<Rightarrow> js \<Rightarrow> string \<Rightarrow> js list \<Rightarrow> AuditIntegrityIssue list or_error" where
  "r2Issues svc e payload [] = Inr []"
| "r2Issues svc e payload (sk # sks) =
     (case r2_get svc (sfield sk ''ref'') of
        Inl err \<Rightarrow> Inl err
      | Inr obj \<Rightarrow>
          (let here = (case obj of
                 None \<Rightarrow> [auditIssue ''immutable_r2_object_missing'' ''immutable R2 object is missing''
                            (hashOf e) (eventOf e) (jget sk ''ref'')]
               | Some text \<Rightarrow>
                   (if text \<noteq> payload
                    then [auditIssue ''immutable_r2_object_mismatch'' ''immutable R2 object content mismatch''
                            (hashOf e) (eventOf e) (jget sk ''ref'')]
                    else []))
           in map_sum id (\<lambda>rest. here @ rest) (r2Issues svc e payload sks)))"

text \<open>The checks of the immutable receipt: issues and warnings; reading \<open>sinks\<close> throws when it is no array.\<close>

definition receiptIssues ::
  "(string \<Rightarrow> string) \<Rightarrow> Env \<Rightarrow> AuditServices \<Rightarrow> js \<Rightarrow> (AuditIntegrityIssue list \<times> string list) or_error" where
  "receiptIssues H env svc e =
     (let receipt = jget e ''immutable'' in
      if \<not> truthy receipt
      then Inr ([entryIssue ''immutable_receipt_missing'' ''immutable receipt is missing'' e], [])
      else
        let payload = buildImmutablePayload e;
            i1 = (if jget receipt ''payload_hash'' \<noteq> JStr (H payload)
                  then [entryIssue ''immutable_payload_hash_mismatch'' ''immutable payload hash mismatch'' e] else [])
        in case jget receipt ''sinks'' of
             JArr sinks \<Rightarrow>
               (if list_ex (\<lambda>sk. sk = JUndef \<or> sk = JNull) sinks then Inl ''TypeError''
                else
                  let i2 = (if \<not> list_ex isPrimarySink sinks
                            then [entryIssue ''immutable_primary_sink_missing''
                                    ''immutable receipt has no accepted primary sink'' e] else []);
                      r2Refs = filter (\<lambda>sk. jget sk ''sink'' = JStr ''r2_entry'') sinks
                  in if r2Refs = [] then Inr (i1 @ i2, [])
                     else if \<not> AUDIT_LOGS env
                     then Inr (i1 @ i2, [''AUDIT_LOGS binding is not configured, skipped R2 object checks''])
                     else map_sum id (\<lambda>i3. (i1 @ i2 @ i3, [])) (r2Issues svc e payload r2Refs))
           | _ \<Rightarrow> Inl ''TypeError'')"

definition add_new :: "'a list \<Rightarrow> 'a list \<Rightarrow> 'a list" where
  "add_new xs ys = xs @ filter (\<lambda>y. y \<notin> set xs) ys"

text \<open>The first loop: issues, warnings and the entries of valid shape.\<close>

fun checkEntries ::
  "(string \<Rightarrow> string) \<Rightarrow> Env \<Rightarrow> AuditServices \<Rightarrow> bool \<Rightarrow> js list \<Rightarrow> (AuditIntegrityIssue list \<times> string list \<times> js list) or_error" where
  "checkEntries H env svc immut [] = Inr ([], [], [])"
| "checkEntries H env svc immut (e # es) =
     (case shapeIssue e of
        Some i \<Rightarrow> map_sum id (\<lambda>(is, ws, vs). (i # is, ws, vs)) (checkEntries H env svc immut es)
      | None \<Rightarrow>
          (case (if immut then receiptIssues H env svc e else Inr ([], [])) of
             Inl err \<Rightarrow> Inl err
           | Inr (ri, rw) \<Rightarrow>
               map_sum id (\<lambda>(is, ws, vs). (hashIssues H e @ ri @ is, add_new rw ws, e # vs))
                 (checkEntries H env svc immut es)))"

subsection \<open>Links between entries\<close>

definition GENESIS :: js where
  "GENESIS = JStr ''GENESIS''"

definition byHash :: "js list \<Rightarrow> (js \<times> js) list" where
  "byHash es = fold (\<lambda>e m. kv_set (hashOf e) e m) es []"

definition has_key :: "('k \<times> 'v) list \<Rightarrow> 'k \<Rightarrow> bool" where
  "has_key m k = (map_of m k \<noteq> None)"

fun duplicates :: "js list \<Rightarrow> js list \<Rightarrow> js list" where
  "duplicates seen [] = []"
| "duplicates seen (e # es) =
     (if hashOf e \<in> set seen then e # duplicates seen es else duplicates (hashOf e # seen) es)"

definition childCounts :: "(js \<Rightarrow> js) \<Rightarrow> js list \<Rightarrow> (js \<times> nat) list" where
  "childCounts prev es =
     fold (\<lambda>e c. if prev e = GENESIS \<or> \<not> has_key (byHash es) (prev e) then c
                 else kv_set (prev e) (Suc (case map_of c (prev e) of Some n \<Rightarrow> n | None \<Rightarrow> 0)) c) es []"

definition externalPrevRefs :: "(js \<Rightarrow> js) \<Rightarrow> js list \<Rightarrow> js list" where
  "externalPrevRefs prev es = filter (\<lambda>e. prev e \<noteq> GENESIS \<and> \<not> has_key (byHash es) (prev e)) es"

definition chainHeads :: "(js \<Rightarrow> js) \<Rightarrow> js list \<Rightarrow> js list" where
  "chainHeads prev es = filter (\<lambda>e. \<not> has_key (childCounts prev es) (hashOf e)) es"

text \<open>
  The walk from a head: the visited hashes, the last entry visited, and the entry at which a cycle was
  found. Every turn visits a new entry, so one turn more than there are entries is enough.
\<close>

fun walkChain :: "nat \<Rightarrow> (js \<times> js) list \<Rightarrow> (js \<Rightarrow> js) \<Rightarrow> js list \<Rightarrow> js option \<Rightarrow> js \<Rightarrow> (js list \<times> js option \<times> js option) option" where
  "walkChain 0 m prev visited oldest current = None"
| "walkChain (Suc fuel) m prev visited oldest current =
     (if hashOf current \<in> set visited then Some (visited, oldest, Some current)
      else let visited' = hashOf current # visited in
        if prev current = GENESIS then Some (visited', Some current, None)
        else case map_of m (prev current) of
               None \<Rightarrow> Some (visited', Some current, None)
             | Some next \<Rightarrow> walkChain fuel m prev visited' (Some current) next)"

definition walkFrom :: "(js \<Rightarrow> js) \<Rightarrow> js list \<Rightarrow> js \<Rightarrow> js list \<times> js option \<times> js option" where
  "walkFrom prev es head =
     (case walkChain (Suc (length es)) (byHash es) prev [] None head of Some r \<Rightarrow> r | None \<Rightarrow> ([], None, None))"

definition globalPrev :: "js \<Rightarrow> js" where
  "globalPrev e = jget e ''prev_hash''"

definition streamPrev :: "js \<Rightarrow> js" where
  "streamPrev e = js_or_genesis (jget e ''stream_prev_hash'')"

definition streamPrevWalk :: "js \<Rightarrow> js" where
  "streamPrevWalk e = (if is_string (jget e ''stream_prev_hash'') then jget e ''stream_prev_hash'' else GENESIS)"

definition firstHash :: "js list \<Rightarrow> js" where
  "firstHash es = (case es of e # _ \<Rightarrow> hashOf e | [] \<Rightarrow> JUndef)"

definition firstEvent :: "js list \<Rightarrow> js" where
  "firstEvent es = (case es of e # _ \<Rightarrow> eventOf e | [] \<Rightarrow> JUndef)"

text \<open>Issues of the global chain, its head and the oldest entry reached.\<close>

definition checkGlobalChain :: "js list \<Rightarrow> AuditIntegrityIssue list \<times> js option \<times> js option" where
  "checkGlobalChain es =
     (let brk = ''global_chain_break'';
          counts = childCounts globalPrev es;
          ext = externalPrevRefs globalPrev es;
          heads = chainHeads globalPrev es;
          i1 = map (entryIssue brk ''duplicate entry_hash detected in audit window'') (duplicates [] es);
          i2 = map (\<lambda>(h, n). auditIssue brk ''multiple newer entries point to the same global predecessor'' h
                      (case map_of (byHash es) h of Some e \<Rightarrow> eventOf e | None \<Rightarrow> JUndef) JUndef)
                 (filter (\<lambda>(h, n). n > 1) counts);
          i3 = (if length ext > 1
                then [auditIssue brk ''multiple entries point outside of current global audit window''
                        (firstHash ext) (firstEvent ext) JUndef] else []);
          i4 = (if es \<noteq> [] \<and> length heads \<noteq> 1
                then [auditIssue brk ''global chain must have exactly one head in audit window'' JUndef JUndef JUndef]
                else [])
      in case heads of
           [] \<Rightarrow> (i1 @ i2 @ i3 @ i4, None, None)
         | head # _ \<Rightarrow>
             (let (visited, oldest, cycle) = walkFrom globalPrev es head;
                  i5 = (case cycle of Some c \<Rightarrow> [entryIssue brk ''cycle detected in global chain'' c] | None \<Rightarrow> []);
                  i6 = (if length visited \<noteq> length es
                        then [entryIssue brk ''global chain is disconnected within audit window'' head] else [])
              in (i1 @ i2 @ i3 @ i4 @ i5 @ i6, Some head, oldest)))"

definition groupByEvent :: "js list \<Rightarrow> (js \<times> js list) list" where
  "groupByEvent es =
     fold (\<lambda>e m. kv_set (eventOf e) ((case map_of m (eventOf e) of Some b \<Rightarrow> b | None \<Rightarrow> []) @ [e]) m) es []"

definition checkStreamChain :: "js \<Rightarrow> js list \<Rightarrow> AuditIntegrityIssue list" where
  "checkStreamChain eventId es =
     (let brk = ''stream_chain_break'';
          issue = (\<lambda>message h. auditIssue brk message h eventId JUndef);
          ext = externalPrevRefs streamPrev es;
          heads = chainHeads streamPrev es;
          i1 = map (\<lambda>e. issue ''duplicate entry_hash detected in event stream'' (hashOf e)) (duplicates [] es);
          i2 = map (\<lambda>(h, n). issue ''multiple newer stream entries point to the same predecessor'' h)
                 (filter (\<lambda>(h, n). n > 1) (childCounts streamPrev es));
          i3 = (if length ext > 1
                then [issue ''multiple stream entries point outside of current event window'' (firstHash ext)] else [])
      in case heads of
           [head] \<Rightarrow>
             (let (visited, oldest, cycle) = walkFrom streamPrevWalk es head;
                  i5 = (case cycle of Some c \<Rightarrow> [issue ''cycle detected in event stream chain'' (hashOf c)] | None \<Rightarrow> []);
                  i6 = (if length visited \<noteq> length es
                        then [issue ''event stream chain is disconnected within audit window'' (hashOf head)] else [])
              in i1 @ i2 @ i3 @ i5 @ i6)
         | _ \<Rightarrow> i1 @ i2 @ i3 @ [issue ''event stream must have exactly one head in audit window'' (firstHash heads)])"

definition verifyAuditIntegrity ::
  "(string \<Rightarrow> string) \<Rightarrow> Env \<Rightarrow> AuditServices \<Rightarrow> storage \<Rightarrow> nat \<Rightarrow> bool \<Rightarrow> int \<Rightarrow> AuditIntegrityReport or_error" where
  "verifyAuditIntegrity H env svc s limit verifyImmutable nowMs =
     (let mode = getAuditImmutableMode env;
          shouldVerifyImmutable = (verifyImmutable \<and> mode \<noteq> ModeOff);
          entries = map snd (sto_list_rev s AUDIT_HISTORY_PREFIX limit)
      in case checkEntries H env svc shouldVerifyImmutable entries of
           Inl err \<Rightarrow> Inl err
         | Inr (is, ws, valid) \<Rightarrow>
             (let (gi, head, oldest) = checkGlobalChain valid;
                  si = concat (map (\<lambda>(ev, es). checkStreamChain ev es) (groupByEvent valid));
                  issues = is @ gi @ si
              in Inr \<lparr>ar_ok = (issues = []), ar_mode = mode, ar_checked = length entries, ar_limit = limit,
                      ar_globalHead = (case head of Some e \<Rightarrow> hashOf e | None \<Rightarrow> JNull),
                      ar_oldestInWindow = (case oldest of Some e \<Rightarrow> hashOf e | None \<Rightarrow> JNull),
                      ar_verifyImmutable = shouldVerifyImmutable, ar_issues = issues, ar_warnings = ws,
                      ar_inspectedAt = js_toISOString nowMs\<rparr>))"

end
