(* ===== verification/User_Registry.thy ===== *)
theory User_Registry
  imports Worker_Keys
begin

text \<open>
  User ids and confirmation codes (\<open>storeDO.ts\<close>): registration keeps ids unique and links every
  registration into a hash chain; a confirmation code is reserved for one event and subject. Random
  bytes are the argument \<open>rnd\<close>, one list of six bytes per attempt; \<open>H\<close> is SHA-256.
\<close>

section \<open>Records\<close>

record ConfirmationCodeIndexRecord =
  cc_code :: string
  cc_eventId :: string
  cc_subject :: string
  cc_issuedAt :: string

record UserIdIndexRecord =
  ui_userId :: string
  ui_userIdHash :: string
  ui_chainHash :: string
  ui_prevChainHash :: string
  ui_createdAt :: string

definition codeRecordToJs :: "ConfirmationCodeIndexRecord \<Rightarrow> js" where
  "codeRecordToJs r = JObj [(''code'', JStr (cc_code r)), (''eventId'', JStr (cc_eventId r)),
     (''subject'', JStr (cc_subject r)), (''issuedAt'', JStr (cc_issuedAt r))]"

definition userRecordToJs :: "UserIdIndexRecord \<Rightarrow> js" where
  "userRecordToJs r = JObj [(''userId'', JStr (ui_userId r)), (''userIdHash'', JStr (ui_userIdHash r)),
     (''chainHash'', JStr (ui_chainHash r)), (''prevChainHash'', JStr (ui_prevChainHash r)),
     (''createdAt'', JStr (ui_createdAt r))]"

definition parseConfirmationCodeIndexRecord :: "js \<Rightarrow> ConfirmationCodeIndexRecord option" where
  "parseConfirmationCodeIndexRecord raw =
     (if \<not> is_obj raw then None
      else case (normalizeStringField (jget raw ''code''), normalizeStringField (jget raw ''eventId''),
                 normalizeStringField (jget raw ''subject''), normalizeStringField (jget raw ''issuedAt'')) of
             (Some c, Some e, Some s, Some i) \<Rightarrow> Some \<lparr>cc_code = c, cc_eventId = e, cc_subject = s, cc_issuedAt = i\<rparr>
           | _ \<Rightarrow> None)"

definition parseUserIdIndexRecord :: "js \<Rightarrow> UserIdIndexRecord option" where
  "parseUserIdIndexRecord raw =
     (if \<not> is_obj raw then None
      else case (normalizeStringField (jget raw ''userId''), normalizeStringField (jget raw ''userIdHash''),
                 normalizeStringField (jget raw ''chainHash''), normalizeStringField (jget raw ''prevChainHash''),
                 normalizeStringField (jget raw ''createdAt'')) of
             (Some u, Some h, Some c, Some p, Some t) \<Rightarrow>
               (if \<not> isHashHex h \<or> \<not> isHashHex c \<or> \<not> isHashHex p then None
                else Some \<lparr>ui_userId = u, ui_userIdHash = h, ui_chainHash = c, ui_prevChainHash = p, ui_createdAt = t\<rparr>)
           | _ \<Rightarrow> None)"

section \<open>Registration\<close>

definition USER_ID_MIN_LENGTH :: nat where "USER_ID_MIN_LENGTH = 3"
definition USER_ID_MAX_LENGTH :: nat where "USER_ID_MAX_LENGTH = 32"

definition is_lower_alnum :: "char \<Rightarrow> bool" where
  "is_lower_alnum c = (is_digit c \<or> (let n = (of_char c :: nat) in 97 \<le> n \<and> n \<le> 122))"

text \<open>\<open>/^[a-z0-9][a-z0-9._-]{2,31}$/\<close>\<close>

definition USER_ID_RE :: "string \<Rightarrow> bool" where
  "USER_ID_RE s = (case s of [] \<Rightarrow> False
     | c # cs \<Rightarrow> is_lower_alnum c \<and> 2 \<le> length cs \<and> length cs \<le> 31
                 \<and> list_all (\<lambda>d. is_lower_alnum d \<or> d = CHR ''.'' \<or> d = CHR ''_'' \<or> d = CHR ''-'') cs)"

definition validateUserIdForRegistration :: "string \<Rightarrow> string option" where
  "validateUserIdForRegistration userId =
     (if userId = [] then Some ''userId required (3-32)''
      else if \<not> USER_ID_RE userId then Some ''userId must be 3-32 chars using a-z, 0-9, dot, underscore, hyphen''
      else None)"

definition POP_HASH_GENESIS_HEX :: string where
  "POP_HASH_GENESIS_HEX = replicate 64 (CHR ''0'')"

record RegisterResult =
  rr_userIdHash :: string
  rr_chainHash :: string
  rr_prevChainHash :: string

definition userChainInput :: "string \<Rightarrow> string \<Rightarrow> js" where
  "userChainInput userIdHash prevChainHash =
     JObj [(''version'', JNum 1), (''kind'', JStr ''user_id_register''), (''userIdHash'', JStr userIdHash),
           (''prevChainHash'', JStr prevChainHash)]"

text \<open>\<open>Inr None\<close> is \<open>{ ok: false }\<close>.\<close>

definition registerUserWithUniqueId ::
  "(string \<Rightarrow> string) \<Rightarrow> storage \<Rightarrow> int \<Rightarrow> string \<Rightarrow> string \<Rightarrow> string \<Rightarrow> (storage \<times> RegisterResult option) or_error" where
  "registerUserWithUniqueId H s nowMs userId0 displayName pinHash =
     (let userId = js_trim userId0 in
      if userId = [] then Inl ''userId is required''
      else if sto_get s (userKey userId) \<noteq> JUndef then Inr (s, None)
      else
        let userIdHash = H (''user-id:'' @ userId);
            indexKey = userIdIndexKey userIdHash
        in case parseUserIdIndexRecord (sto_get s indexKey) of
             Some _ \<Rightarrow> Inr (s, None)
           | None \<Rightarrow>
               (let prevChainHash =
                      (case sto_get s USER_ID_CHAIN_LAST_HASH_KEY of
                         JStr raw \<Rightarrow> (if isHashHex raw then js_lower raw else POP_HASH_GENESIS_HEX)
                       | _ \<Rightarrow> POP_HASH_GENESIS_HEX);
                    chainHash = H (canonicalize (userChainInput userIdHash prevChainHash));
                    s1 = sto_put s (userKey userId) (JObj [(''pinHash'', JStr pinHash), (''displayName'', JStr displayName)]);
                    s2 = sto_put s1 indexKey (userRecordToJs
                           \<lparr>ui_userId = userId, ui_userIdHash = userIdHash, ui_chainHash = chainHash,
                            ui_prevChainHash = prevChainHash, ui_createdAt = js_toISOString nowMs\<rparr>);
                    s3 = sto_put s2 USER_ID_CHAIN_LAST_HASH_KEY (JStr chainHash)
                in Inr (s3, Some \<lparr>rr_userIdHash = userIdHash, rr_chainHash = chainHash, rr_prevChainHash = prevChainHash\<rparr>)))"

section \<open>Confirmation codes\<close>

definition CONFIRMATION_CODE_MAX_ATTEMPTS :: nat where "CONFIRMATION_CODE_MAX_ATTEMPTS = 128"
definition CONFIRMATION_CODE_LEGACY_SCAN_LIMIT :: nat where "CONFIRMATION_CODE_LEGACY_SCAN_LIMIT = 20000"

definition codeAlphabet :: string where
  "codeAlphabet = ''ABCDEFGHJKLMNPQRSTUVWXYZ23456789''"

definition genConfirmationCode :: "nat list \<Rightarrow> string" where
  "genConfirmationCode bytes = map (\<lambda>b. codeAlphabet ! (b mod length codeAlphabet)) bytes"

definition legacyCode :: "string \<Rightarrow> string option" where
  "legacyCode key =
     (case last_index (CHR '':'') key of
        None \<Rightarrow> None
      | Some i \<Rightarrow>
          if i \<ge> length key - 1 then None
          else let c = js_trim (drop (i + 1) key) in if c = [] then None else Some c)"

definition legacyCodes :: "storage \<Rightarrow> string list" where
  "legacyCodes s =
     List.map_filter legacyCode (map fst (take CONFIRMATION_CODE_LEGACY_SCAN_LIMIT (sto_list s TICKET_RECEIPT_CODE_PREFIX)))"

definition codeRecord :: "string \<Rightarrow> string \<Rightarrow> string \<Rightarrow> int \<Rightarrow> js" where
  "codeRecord code eventId subject nowMs =
     codeRecordToJs \<lparr>cc_code = code, cc_eventId = eventId, cc_subject = subject, cc_issuedAt = js_toISOString nowMs\<rparr>"

text \<open>The attempts that are left, each with its random bytes.\<close>

fun reserveAttempts ::
  "storage \<Rightarrow> string list \<Rightarrow> string \<Rightarrow> string \<Rightarrow> int \<Rightarrow> nat list list \<Rightarrow> (storage \<times> string) or_error" where
  "reserveAttempts s legacy eventId subject nowMs [] = Inl ''failed to generate unique confirmation code''"
| "reserveAttempts s legacy eventId subject nowMs (bytes # rest) =
     (let code = genConfirmationCode bytes in
      if code \<in> set legacy then reserveAttempts s legacy eventId subject nowMs rest
      else let key = confirmationCodeIndexKey code in
        if sto_get s key \<noteq> JUndef then reserveAttempts s legacy eventId subject nowMs rest
        else Inr (sto_put s key (codeRecord code eventId subject nowMs), code))"

definition reserveUniqueConfirmationCode ::
  "storage \<Rightarrow> int \<Rightarrow> (nat \<Rightarrow> nat list) \<Rightarrow> string \<Rightarrow> string \<Rightarrow> (storage \<times> string) or_error" where
  "reserveUniqueConfirmationCode s nowMs rnd eventId subject =
     (let normalizedEventId = js_trim eventId; normalizedSubject = js_trim subject in
      if normalizedEventId = [] \<or> normalizedSubject = []
      then Inl ''eventId and subject are required to issue confirmation code''
      else reserveAttempts s (legacyCodes s) normalizedEventId normalizedSubject nowMs
             (map rnd [0..<CONFIRMATION_CODE_MAX_ATTEMPTS]))"

definition ensureConfirmationCodeIndexed :: "storage \<Rightarrow> int \<Rightarrow> string \<Rightarrow> string \<Rightarrow> string \<Rightarrow> storage" where
  "ensureConfirmationCodeIndexed s nowMs eventId subject confirmationCode =
     (let code = js_trim confirmationCode; ev = js_trim eventId; sub = js_trim subject in
      if code = [] \<or> ev = [] \<or> sub = [] then s
      else let key = confirmationCodeIndexKey code in
        if sto_get s key \<noteq> JUndef then s else sto_put s key (codeRecord code ev sub nowMs))"

definition releaseReservedConfirmationCode :: "storage \<Rightarrow> string \<Rightarrow> string \<Rightarrow> string \<Rightarrow> storage" where
  "releaseReservedConfirmationCode s eventId subject confirmationCode =
     (let code = js_trim confirmationCode; ev = js_trim eventId; sub = js_trim subject in
      if code = [] \<or> ev = [] \<or> sub = [] then s
      else let key = confirmationCodeIndexKey code in
        case parseConfirmationCodeIndexRecord (sto_get s key) of
          None \<Rightarrow> s
        | Some r \<Rightarrow> if cc_eventId r \<noteq> ev \<or> cc_subject r \<noteq> sub then s else sto_delete s key)"

definition confirmationCodeBelongsToSubject :: "storage \<Rightarrow> string \<Rightarrow> string \<Rightarrow> string \<Rightarrow> bool" where
  "confirmationCodeBelongsToSubject s eventId0 subject0 confirmationCode0 =
     (let confirmationCode = js_trim confirmationCode0; eventId = js_trim eventId0; subject = js_trim subject0 in
      if confirmationCode = [] \<or> eventId = [] \<or> subject = [] then False
      else case parseConfirmationCodeIndexRecord (sto_get s (confirmationCodeIndexKey confirmationCode)) of
             None \<Rightarrow> False
           | Some r \<Rightarrow> cc_eventId r = eventId \<and> cc_subject r = subject)"

end
