(* ===== verification/Ticket_Receipt.thy ===== *)
theory Ticket_Receipt
  imports User_Registry
begin

text \<open>
  Participation receipts (\<open>storeDO.ts\<close>): a receipt is built from the audit entry of a participation,
  stored under its code and its subject, parsed when it is read back or sent in, and verified against
  the audit log. An audit entry is the stored object; where the source reads a field it declares as a
  string, the receipt holds its text.
\<close>

section \<open>Data\<close>

definition PARTICIPATION_TICKET_RECEIPT_VERSION :: js where "PARTICIPATION_TICKET_RECEIPT_VERSION = JNum 1"
definition PARTICIPATION_TICKET_RECEIPT_TYPE :: string where
  "PARTICIPATION_TICKET_RECEIPT_TYPE = ''participation_audit_receipt''"
definition PARTICIPATION_TICKET_VERIFY_ENDPOINT :: string where
  "PARTICIPATION_TICKET_VERIFY_ENDPOINT = ''/api/audit/receipts/verify''"

record SinkRef =
  sr_sink :: string
  sr_ref :: string
  sr_at :: string

record ReceiptAudit =
  ra_event :: string
  ra_eventId :: string
  ra_entryHash :: string
  ra_prevHash :: string
  ra_streamPrevHash :: string
  ra_immutableMode :: string
  ra_immutablePayloadHash :: "string option"
  ra_immutableSinks :: "SinkRef list"

text \<open>The version and the type of a receipt are fixed.\<close>

record ParticipationTicketReceipt =
  pr_receiptId :: string
  pr_receiptHash :: string
  pr_issuedAt :: string
  pr_confirmationCode :: string
  pr_subjectCommitment :: string
  pr_verifyEndpoint :: string
  pr_audit :: ReceiptAudit

definition sinkToJs :: "SinkRef \<Rightarrow> js" where
  "sinkToJs k = JObj [(''sink'', JStr (sr_sink k)), (''ref'', JStr (sr_ref k)), (''at'', JStr (sr_at k))]"

definition receiptAuditToJs :: "ReceiptAudit \<Rightarrow> js" where
  "receiptAuditToJs a = JObj [(''event'', JStr (ra_event a)), (''eventId'', JStr (ra_eventId a)),
     (''entryHash'', JStr (ra_entryHash a)), (''prevHash'', JStr (ra_prevHash a)),
     (''streamPrevHash'', JStr (ra_streamPrevHash a)), (''immutableMode'', JStr (ra_immutableMode a)),
     (''immutablePayloadHash'', jstr_null (ra_immutablePayloadHash a)),
     (''immutableSinks'', JArr (map sinkToJs (ra_immutableSinks a)))]"

text \<open>The receipt without its hash, which is what the hash is taken of.\<close>

definition receiptBase :: "ParticipationTicketReceipt \<Rightarrow> (string \<times> js) list" where
  "receiptBase r = [(''version'', PARTICIPATION_TICKET_RECEIPT_VERSION), (''type'', JStr PARTICIPATION_TICKET_RECEIPT_TYPE),
     (''receiptId'', JStr (pr_receiptId r)), (''issuedAt'', JStr (pr_issuedAt r)),
     (''confirmationCode'', JStr (pr_confirmationCode r)), (''subjectCommitment'', JStr (pr_subjectCommitment r)),
     (''verifyEndpoint'', JStr (pr_verifyEndpoint r)), (''audit'', receiptAuditToJs (pr_audit r))]"

definition receiptToJs :: "ParticipationTicketReceipt \<Rightarrow> js" where
  "receiptToJs r = JObj (receiptBase r @ [(''receiptHash'', JStr (pr_receiptHash r))])"

section \<open>Building\<close>

definition computeParticipationTicketReceiptHash :: "(string \<Rightarrow> string) \<Rightarrow> ParticipationTicketReceipt \<Rightarrow> string" where
  "computeParticipationTicketReceiptHash H r = H (canonicalize (JObj (receiptBase r)))"

definition subjectCommitmentOf :: "(string \<Rightarrow> string) \<Rightarrow> string \<Rightarrow> string \<Rightarrow> string" where
  "subjectCommitmentOf H eventId subject =
     H (canonicalize (JObj [(''version'', JNum 1), (''eventId'', JStr eventId), (''subject'', JStr subject)]))"

definition nullish :: "js \<Rightarrow> bool" where
  "nullish v = (v = JUndef \<or> v = JNull)"

text \<open>\<open>(entry.immutable?.sinks ?? []).map(\<dots>)\<close>: \<open>None\<close> when this throws.\<close>

definition entrySinks :: "js \<Rightarrow> SinkRef list option" where
  "entrySinks entry =
     (let sinks = jget (jget entry ''immutable'') ''sinks'' in
      if nullish sinks then Some []
      else case sinks of
             JArr ks \<Rightarrow> (if list_ex nullish ks then None
                         else Some (map (\<lambda>k. \<lparr>sr_sink = sfield k ''sink'', sr_ref = sfield k ''ref'', sr_at = sfield k ''at''\<rparr>) ks))
           | _ \<Rightarrow> None)"

definition entryMode :: "js \<Rightarrow> js" where
  "entryMode entry = (let m = jget (jget entry ''immutable'') ''mode'' in if nullish m then JStr ''off'' else m)"

definition entryPayloadHash :: "js \<Rightarrow> js" where
  "entryPayloadHash entry = (let h = jget (jget entry ''immutable'') ''payload_hash'' in if nullish h then JNull else h)"

definition js_string_opt :: "js \<Rightarrow> string option" where
  "js_string_opt v = (if nullish v then None else Some (js_to_string v))"

definition buildParticipationTicketReceipt ::
  "(string \<Rightarrow> string) \<Rightarrow> string \<Rightarrow> string \<Rightarrow> string \<Rightarrow> js \<Rightarrow> ParticipationTicketReceipt or_error" where
  "buildParticipationTicketReceipt H eventId subject confirmationCode auditEntry =
     (case entrySinks auditEntry of
        None \<Rightarrow> Inl ''TypeError''
      | Some immutableSinks \<Rightarrow>
          (let base = \<lparr>pr_receiptId = sfield auditEntry ''entry_hash'', pr_receiptHash = [],
                 pr_issuedAt = sfield auditEntry ''ts'', pr_confirmationCode = confirmationCode,
                 pr_subjectCommitment = subjectCommitmentOf H eventId subject,
                 pr_verifyEndpoint = PARTICIPATION_TICKET_VERIFY_ENDPOINT,
                 pr_audit = \<lparr>ra_event = sfield auditEntry ''event'', ra_eventId = sfield auditEntry ''eventId'',
                   ra_entryHash = sfield auditEntry ''entry_hash'', ra_prevHash = sfield auditEntry ''prev_hash'',
                   ra_streamPrevHash = js_to_string (js_or_genesis (jget auditEntry ''stream_prev_hash'')),
                   ra_immutableMode = js_to_string (entryMode auditEntry),
                   ra_immutablePayloadHash = js_string_opt (entryPayloadHash auditEntry),
                   ra_immutableSinks = immutableSinks\<rparr>\<rparr>
           in Inr (base\<lparr>pr_receiptHash := computeParticipationTicketReceiptHash H base\<rparr>)))"

section \<open>Parsing\<close>

definition SINK_NAMES :: "string list" where
  "SINK_NAMES = [''r2_entry'', ''r2_stream'', ''kv_index'', ''immutable_ingest'']"

definition parseSink :: "js \<Rightarrow> SinkRef option" where
  "parseSink raw =
     (if \<not> is_obj raw then None
      else case (normalizeStringField (jget raw ''sink''), normalizeStringField (jget raw ''ref''),
                 normalizeStringField (jget raw ''at'')) of
             (Some k, Some r, Some t) \<Rightarrow>
               (if k \<notin> set SINK_NAMES then None else Some \<lparr>sr_sink = k, sr_ref = r, sr_at = t\<rparr>)
           | _ \<Rightarrow> None)"

fun all_some :: "'a option list \<Rightarrow> 'a list option" where
  "all_some [] = Some []"
| "all_some (None # _) = None"
| "all_some (Some x # xs) = map_option ((#) x) (all_some xs)"

definition chain_ref :: "string \<Rightarrow> bool" where
  "chain_ref h = (h = ''GENESIS'' \<or> isHashHex h)"

definition lower_ref :: "string \<Rightarrow> string" where
  "lower_ref h = (if h = ''GENESIS'' then ''GENESIS'' else js_lower h)"

definition parsePayloadHash :: "js \<Rightarrow> string option" where
  "parsePayloadHash raw = map_option js_lower (trimmed_str raw)"

declare option.pred_inject [code]

definition parseReceiptAudit :: "js \<Rightarrow> ReceiptAudit option" where
  "parseReceiptAudit auditRaw =
     (if \<not> is_obj auditRaw then None
      else
        let immutableModeRaw = (case normalizeStringField (jget auditRaw ''immutableMode'') of
                                  Some m \<Rightarrow> js_lower m | None \<Rightarrow> []);
            immutablePayloadHash = parsePayloadHash (jget auditRaw ''immutablePayloadHash'')
        in if immutableModeRaw \<noteq> ''off'' \<and> immutableModeRaw \<noteq> ''best_effort'' \<and> immutableModeRaw \<noteq> ''required'' then None
           else case (normalizeStringField (jget auditRaw ''event''), normalizeStringField (jget auditRaw ''eventId''),
                      normalizeStringField (jget auditRaw ''entryHash''), normalizeStringField (jget auditRaw ''prevHash''),
                      normalizeStringField (jget auditRaw ''streamPrevHash''), jget auditRaw ''immutableSinks'') of
             (Some event, Some eventId, Some entryHash, Some prevHash, Some streamPrevHash, JArr sinksRaw) \<Rightarrow>
               (if \<not> isHashHex entryHash \<or> \<not> chain_ref prevHash \<or> \<not> chain_ref streamPrevHash
                   \<or> \<not> pred_option isHashHex immutablePayloadHash then None
                else map_option
                  (\<lambda>immutableSinks. \<lparr>ra_event = event, ra_eventId = eventId, ra_entryHash = js_lower entryHash,
                     ra_prevHash = lower_ref prevHash, ra_streamPrevHash = lower_ref streamPrevHash,
                     ra_immutableMode = immutableModeRaw, ra_immutablePayloadHash = immutablePayloadHash,
                     ra_immutableSinks = immutableSinks\<rparr>)
                  (all_some (map parseSink sinksRaw)))
           | _ \<Rightarrow> None)"

definition parseParticipationTicketReceipt :: "js \<Rightarrow> ParticipationTicketReceipt option" where
  "parseParticipationTicketReceipt raw =
     (if \<not> is_obj raw then None
      else if jget raw ''version'' \<noteq> PARTICIPATION_TICKET_RECEIPT_VERSION then None
      else if jget raw ''type'' \<noteq> JStr PARTICIPATION_TICKET_RECEIPT_TYPE then None
      else case (normalizeStringField (jget raw ''receiptId''), normalizeStringField (jget raw ''receiptHash''),
                 normalizeStringField (jget raw ''issuedAt''), normalizeStringField (jget raw ''confirmationCode''),
                 normalizeStringField (jget raw ''subjectCommitment''), normalizeStringField (jget raw ''verifyEndpoint'')) of
             (Some receiptId, Some receiptHash, Some issuedAt, Some confirmationCode, Some subjectCommitment, Some verifyEndpoint) \<Rightarrow>
               (if \<not> isHashHex receiptId \<or> \<not> isHashHex receiptHash \<or> \<not> isHashHex subjectCommitment then None
                else map_option
                  (\<lambda>audit. \<lparr>pr_receiptId = js_lower receiptId, pr_receiptHash = js_lower receiptHash,
                     pr_issuedAt = issuedAt, pr_confirmationCode = confirmationCode,
                     pr_subjectCommitment = js_lower subjectCommitment, pr_verifyEndpoint = verifyEndpoint,
                     pr_audit = audit\<rparr>)
                  (parseReceiptAudit (jget raw ''audit'')))
           | _ \<Rightarrow> None)"

section \<open>Storing and reading\<close>

definition storeParticipationTicketReceipt ::
  "storage \<Rightarrow> int \<Rightarrow> string \<Rightarrow> string \<Rightarrow> ParticipationTicketReceipt \<Rightarrow> storage" where
  "storeParticipationTicketReceipt s nowMs eventId subject receipt =
     (let s1 = ensureConfirmationCodeIndexed s nowMs eventId subject (pr_confirmationCode receipt);
          s2 = sto_put s1 (ticketReceiptByCodeKey eventId (pr_confirmationCode receipt)) (receiptToJs receipt)
      in sto_put s2 (ticketReceiptBySubjectKey eventId subject) (receiptToJs receipt))"

definition getParticipationTicketReceipt ::
  "storage \<Rightarrow> string \<Rightarrow> string \<Rightarrow> string \<Rightarrow> ParticipationTicketReceipt option" where
  "getParticipationTicketReceipt s eventId subject confirmationCode =
     (case parseParticipationTicketReceipt (sto_get s (ticketReceiptByCodeKey eventId confirmationCode)) of
        Some byCode \<Rightarrow> Some byCode
      | None \<Rightarrow>
          (case parseParticipationTicketReceipt (sto_get s (ticketReceiptBySubjectKey eventId subject)) of
             Some bySubject \<Rightarrow> if pr_confirmationCode bySubject = confirmationCode then Some bySubject else None
           | None \<Rightarrow> None))"

section \<open>Verifying\<close>

record ReceiptIssue =
  ri_code :: string
  ri_message :: string
  ri_field :: string

record ReceiptChecks =
  ck_receiptHashValid :: bool
  ck_entryExists :: bool
  ck_entryHashValid :: bool
  ck_confirmationCodeMatches :: bool
  ck_eventIdMatches :: bool
  ck_globalChainLinkValid :: bool
  ck_streamChainLinkValid :: bool
  ck_immutablePayloadHashMatches :: bool
  ck_immutableSinksMatch :: bool

record ReceiptProof =
  rp_entryHash :: js
  rp_prevHash :: js
  rp_streamPrevHash :: js
  rp_immutablePayloadHash :: js
  rp_immutableSinks :: "SinkRef list"

record ParticipationTicketReceiptVerification =
  rv_ok :: bool
  rv_checkedAt :: string
  rv_receiptId :: string
  rv_eventId :: string
  rv_confirmationCode :: string
  rv_checks :: ReceiptChecks
  rv_issues :: "ReceiptIssue list"
  rv_proof :: ReceiptProof

definition sinkSignatureSet :: "SinkRef list \<Rightarrow> string list" where
  "sinkSignatureSet sinks = remdups (map (\<lambda>k. sr_sink k @ ''|'' @ sr_ref k) sinks)"

definition issue_unless :: "bool \<Rightarrow> string \<Rightarrow> string \<Rightarrow> string \<Rightarrow> ReceiptIssue list" where
  "issue_unless b code message field = (if b then [] else [\<lparr>ri_code = code, ri_message = message, ri_field = field\<rparr>])"

text \<open>
  The lookup of a predecessor: \<open>None\<close> is a \<open>TypeError\<close>, since \<open>getAuditEntryByHash\<close> calls \<open>trim\<close> on
  whatever was stored as the predecessor hash.
\<close>

definition prevEntry :: "storage \<Rightarrow> js \<Rightarrow> js option option" where
  "prevEntry s prev = (case prev of JStr h \<Rightarrow> Some (getAuditEntryByHash s h) | _ \<Rightarrow> None)"

definition globalLink :: "storage \<Rightarrow> js \<Rightarrow> bool option" where
  "globalLink s entry =
     (let prev = jget entry ''prev_hash'' in
      if prev = GENESIS then Some True
      else map_option (\<lambda>found. case found of Some p \<Rightarrow> hashOf p = prev | None \<Rightarrow> False) (prevEntry s prev))"

definition streamLink :: "storage \<Rightarrow> js \<Rightarrow> bool option" where
  "streamLink s entry =
     (let prev = js_or_genesis (jget entry ''stream_prev_hash'') in
      if prev = GENESIS then Some True
      else map_option (\<lambda>found. case found of Some p \<Rightarrow> hashOf p = prev \<and> eventOf p = eventOf entry | None \<Rightarrow> False)
             (prevEntry s prev))"

definition payloadHashMatches :: "(string \<Rightarrow> string) \<Rightarrow> js \<Rightarrow> ParticipationTicketReceipt \<Rightarrow> bool" where
  "payloadHashMatches H entry receipt =
     (let recomputed = JStr (H (buildImmutablePayload entry));
          mine = jstr_null (ra_immutablePayloadHash (pr_audit receipt))
      in (entryPayloadHash entry = JNull \<and> mine = JNull) \<or> (entryPayloadHash entry = recomputed \<and> mine = recomputed))"

definition sinksMatch :: "SinkRef list \<Rightarrow> SinkRef list \<Rightarrow> bool" where
  "sinksMatch entrySks receiptSks =
     (let entrySinkSet = sinkSignatureSet entrySks; receiptSinkSet = sinkSignatureSet receiptSks in
      length entrySinkSet = length receiptSinkSet \<and> list_all (\<lambda>sig. sig \<in> set entrySinkSet) receiptSinkSet)"

definition missingEntryChecks :: "bool \<Rightarrow> ReceiptChecks" where
  "missingEntryChecks hashValid = \<lparr>ck_receiptHashValid = hashValid, ck_entryExists = False, ck_entryHashValid = False,
     ck_confirmationCodeMatches = False, ck_eventIdMatches = False, ck_globalChainLinkValid = False,
     ck_streamChainLinkValid = False, ck_immutablePayloadHashMatches = False, ck_immutableSinksMatch = False\<rparr>"

definition entryChecks ::
  "(string \<Rightarrow> string) \<Rightarrow> js \<Rightarrow> bool \<Rightarrow> bool \<Rightarrow> bool \<Rightarrow> SinkRef list \<Rightarrow> ParticipationTicketReceipt \<Rightarrow> ReceiptChecks" where
  "entryChecks H entry hashValid glink slink entrySks receipt =
     (let a = pr_audit receipt in
      \<lparr>ck_receiptHashValid = hashValid, ck_entryExists = True,
       ck_entryHashValid = (JStr (H (canonicalize (JObj (buildAuditHashInput entry)))) = hashOf entry
                            \<and> hashOf entry = JStr (ra_entryHash a)),
       ck_confirmationCodeMatches =
         (normalizeStringField (jget (jget entry ''data'') ''confirmationCode'') = Some (pr_confirmationCode receipt)),
       ck_eventIdMatches = (eventOf entry = JStr (ra_eventId a) \<and> ra_eventId a \<noteq> []),
       ck_globalChainLinkValid = glink, ck_streamChainLinkValid = slink,
       ck_immutablePayloadHashMatches = payloadHashMatches H entry receipt,
       ck_immutableSinksMatch = sinksMatch entrySks (ra_immutableSinks a)\<rparr>)"

definition entryIssues :: "js \<Rightarrow> ReceiptChecks \<Rightarrow> ParticipationTicketReceipt \<Rightarrow> ReceiptIssue list" where
  "entryIssues entry ck receipt =
     (let a = pr_audit receipt; ident = pr_receiptId receipt in
      issue_unless (ck_receiptHashValid ck) ''receipt_hash_mismatch''
        ''receiptHash does not match canonical receipt payload'' ''receiptHash''
      @ issue_unless (ck_entryHashValid ck) ''entry_hash_mismatch'' ''audit entry hash mismatch'' ''audit.entryHash''
      @ issue_unless (ident = ra_entryHash a \<and> JStr ident = hashOf entry) ''receipt_id_mismatch''
          ''receiptId does not match the referenced audit entry hash'' ''receiptId''
      @ issue_unless (ck_confirmationCodeMatches ck) ''confirmation_code_mismatch''
          ''confirmationCode does not match the audit entry payload'' ''confirmationCode''
      @ issue_unless (ck_eventIdMatches ck) ''event_id_mismatch'' ''eventId does not match the audit entry'' ''eventId''
      @ issue_unless (jget entry ''prev_hash'' = JStr (ra_prevHash a)) ''prev_hash_mismatch''
          ''prevHash in receipt does not match the audit entry'' ''audit.prevHash''
      @ issue_unless (js_or_genesis (jget entry ''stream_prev_hash'') = JStr (ra_streamPrevHash a)) ''stream_prev_hash_mismatch''
          ''streamPrevHash in receipt does not match the audit entry'' ''audit.streamPrevHash''
      @ issue_unless (ck_globalChainLinkValid ck) ''global_chain_link_missing''
          ''global predecessor entry is missing or invalid'' ''audit.prevHash''
      @ issue_unless (ck_streamChainLinkValid ck) ''stream_chain_link_missing''
          ''event stream predecessor entry is missing or invalid'' ''audit.streamPrevHash''
      @ issue_unless (ck_immutablePayloadHashMatches ck) ''immutable_payload_hash_mismatch''
          ''immutable payload hash mismatch between receipt and audit entry'' ''audit.immutablePayloadHash''
      @ issue_unless (ck_immutableSinksMatch ck) ''immutable_sinks_mismatch''
          ''immutable sink references mismatch between receipt and audit entry'' ''audit.immutableSinks''
      @ issue_unless (entryMode entry = JStr (ra_immutableMode a)) ''immutable_mode_mismatch''
          ''immutable mode mismatch between receipt and audit entry'' ''audit.immutableMode'')"

definition verification ::
  "int \<Rightarrow> ParticipationTicketReceipt \<Rightarrow> ReceiptChecks \<Rightarrow> ReceiptIssue list \<Rightarrow> ReceiptProof \<Rightarrow> ParticipationTicketReceiptVerification" where
  "verification nowMs receipt ck issues prf =
     \<lparr>rv_ok = (issues = []), rv_checkedAt = js_toISOString nowMs, rv_receiptId = pr_receiptId receipt,
      rv_eventId = ra_eventId (pr_audit receipt), rv_confirmationCode = pr_confirmationCode receipt,
      rv_checks = ck, rv_issues = issues, rv_proof = prf\<rparr>"

definition verifyParticipationTicketReceipt ::
  "(string \<Rightarrow> string) \<Rightarrow> storage \<Rightarrow> int \<Rightarrow> ParticipationTicketReceipt \<Rightarrow> ParticipationTicketReceiptVerification or_error" where
  "verifyParticipationTicketReceipt H s nowMs receipt =
     (let a = pr_audit receipt;
          hashValid = (computeParticipationTicketReceiptHash H receipt = pr_receiptHash receipt)
      in case getAuditEntryByHash s (ra_entryHash a) of
           None \<Rightarrow>
             Inr (verification nowMs receipt (missingEntryChecks hashValid)
               (issue_unless hashValid ''receipt_hash_mismatch'' ''receiptHash does not match canonical receipt payload'' ''receiptHash''
                @ issue_unless False ''entry_not_found'' ''audit entry referenced by receipt is not found in history'' ''audit.entryHash'')
               \<lparr>rp_entryHash = JStr (ra_entryHash a), rp_prevHash = JStr (ra_prevHash a),
                rp_streamPrevHash = JStr (ra_streamPrevHash a),
                rp_immutablePayloadHash = jstr_null (ra_immutablePayloadHash a),
                rp_immutableSinks = ra_immutableSinks a\<rparr>)
         | Some entry \<Rightarrow>
             (if nullish (jget entry ''data'') then Inl ''TypeError''
              else case (globalLink s entry, streamLink s entry, entrySinks entry) of
                (Some glink, Some slink, Some entrySks) \<Rightarrow>
                  (let ck = entryChecks H entry hashValid glink slink entrySks receipt in
                   Inr (verification nowMs receipt ck (entryIssues entry ck receipt)
                     \<lparr>rp_entryHash = hashOf entry, rp_prevHash = jget entry ''prev_hash'',
                      rp_streamPrevHash = js_or_genesis (jget entry ''stream_prev_hash''),
                      rp_immutablePayloadHash = entryPayloadHash entry, rp_immutableSinks = entrySks\<rparr>))
              | _ \<Rightarrow> Inl ''TypeError''))"

end
