(* ===== verification/Registry_Spec.thy ===== *)
theory Registry_Spec
  imports User_Registry
begin

text \<open>
  What the registry promises: an account is never overwritten and registrations form one hash chain; a
  confirmation code is fresh when reserved and stays with its event and subject until these release it.
\<close>

section \<open>Facts about the strings involved\<close>

lemma digit_char_not_ws: "d < 10 \<Longrightarrow> \<not> is_ws (digit_char d)"
  by (simp add: is_ws_def digit_char_def)

lemma pad_no_ws: "list_all (\<lambda>c. \<not> is_ws c) (pad_digits w n)"
  by (induction w arbitrary: n) (auto simp: digit_char_not_ws nat_less_iff)

lemma print_fields_no_ws:
  "list_all (\<lambda>(w, sep). list_all (\<lambda>c. \<not> is_ws c) sep) ls \<Longrightarrow> list_all (\<lambda>c. \<not> is_ws c) (print_fields ls vs)"
  by (induction ls vs rule: print_fields.induct) (auto simp: pad_no_ws)

lemma iso_trimmed [simp]: "js_trim (js_toISOString n) = js_toISOString n" "js_toISOString n \<noteq> []"
proof -
  have "list_all (\<lambda>c. \<not> is_ws c) (js_toISOString n)"
    unfolding js_toISOString_def by (rule print_fields_no_ws) (simp add: iso_layout_def is_ws_def)
  then show "js_trim (js_toISOString n) = js_toISOString n" by (rule trim_no_ws)
  show "js_toISOString n \<noteq> []" using js_toISOString_length [of n] by auto
qed

lemma code_chars: "\<forall>c \<in> set codeAlphabet. \<not> is_ws c" "length codeAlphabet = 32"
  by code_simp+

lemma genCode_trimmed: "js_trim (genConfirmationCode bs) = genConfirmationCode bs"
  using code_chars by (intro trim_no_ws) (auto simp: genConfirmationCode_def list_all_iff)

lemma parse_codeRecord:
  assumes "js_trim c = c" "c \<noteq> []" "js_trim e = e" "e \<noteq> []" "js_trim u = u" "u \<noteq> []"
  shows "parseConfirmationCodeIndexRecord (codeRecord c e u n)
           = Some \<lparr>cc_code = c, cc_eventId = e, cc_subject = u, cc_issuedAt = js_toISOString n\<rparr>"
  using assms by (simp add: parseConfirmationCodeIndexRecord_def codeRecord_def codeRecordToJs_def normalizeStringField_def)

section \<open>Confirmation codes\<close>

datatype code_op =
    Reserve "nat \<Rightarrow> nat list" string string
  | Ensure string string string
  | Release string string string

fun code_step :: "storage \<Rightarrow> int \<Rightarrow> code_op \<Rightarrow> storage" where
  "code_step s now (Reserve rnd ev sub) =
     (case reserveUniqueConfirmationCode s now rnd ev sub of Inr (s', c) \<Rightarrow> s' | Inl _ \<Rightarrow> s)"
| "code_step s now (Ensure ev sub c) = ensureConfirmationCodeIndexed s now ev sub c"
| "code_step s now (Release ev sub c) = releaseReservedConfirmationCode s ev sub c"

lemma reserveAttempts_Inr:
  assumes "reserveAttempts s legacy ev sub now bss = Inr (s', c)"
  shows "c \<notin> set legacy \<and> sto_get s (confirmationCodeIndexKey c) = JUndef
       \<and> s' = sto_put s (confirmationCodeIndexKey c) (codeRecord c ev sub now) \<and> (\<exists>bs \<in> set bss. c = genConfirmationCode bs)"
  using assms by (induction bss) (auto simp: Let_def split: if_splits)

lemma reserveAttempts_Inl:
  "reserveAttempts s legacy ev sub now bss = Inl e \<longleftrightarrow>
     e = ''failed to generate unique confirmation code''
     \<and> (\<forall>bs \<in> set bss. genConfirmationCode bs \<in> set legacy \<or> sto_get s (confirmationCodeIndexKey (genConfirmationCode bs)) \<noteq> JUndef)"
  by (induction bss) (auto simp: Let_def)

lemma code_step_keeps:
  assumes "sto_get s (confirmationCodeIndexKey c) \<noteq> JUndef" "js_trim c = c"
    and "\<forall>ev sub c'. oper = Release ev sub c' \<longrightarrow> \<not> confirmationCodeBelongsToSubject s ev sub c"
  shows "sto_get (code_step s now oper) (confirmationCodeIndexKey c) = sto_get s (confirmationCodeIndexKey c)"
proof (cases oper)
  case (Reserve rnd ev sub)
  with assms(1) show ?thesis
    by (auto simp: reserveUniqueConfirmationCode_def Let_def split: sum.splits dest!: reserveAttempts_Inr)
next
  case (Ensure ev sub c')
  with assms(1) show ?thesis by (auto simp: ensureConfirmationCodeIndexed_def Let_def)
next
  case (Release ev sub c')
  show ?thesis
  proof (cases "js_trim c' = c")
    case True
    with Release assms show ?thesis
      by (auto simp: releaseReservedConfirmationCode_def confirmationCodeBelongsToSubject_def Let_def split: option.splits if_splits)
  qed (simp add: Release releaseReservedConfirmationCode_def Let_def split: option.splits)
qed

text \<open>
  A reserved code is fresh and from then on belongs to the event and subject it was reserved for:
  it was neither indexed nor in the receipts that are scanned, it has one of the 32 letters at every
  place, every other code keeps its record, and the reservation fails exactly when all 128 attempts hit
  codes that are taken.
\<close>

theorem reserve_code_fresh:
  assumes "js_trim eventId \<noteq> []" "js_trim subject \<noteq> []" "\<forall>i. rnd i \<noteq> []"
  shows "case reserveUniqueConfirmationCode s now rnd eventId subject of
           Inr (s', code) \<Rightarrow>
             sto_get s (confirmationCodeIndexKey code) = JUndef \<and> code \<notin> set (legacyCodes s)
             \<and> confirmationCodeBelongsToSubject s' eventId subject code
             \<and> set code \<subseteq> set codeAlphabet
             \<and> (\<forall>k. k \<noteq> confirmationCodeIndexKey code \<longrightarrow> sto_get s' k = sto_get s k)
         | Inl e \<Rightarrow>
             \<forall>i < CONFIRMATION_CODE_MAX_ATTEMPTS. genConfirmationCode (rnd i) \<in> set (legacyCodes s)
               \<or> sto_get s (confirmationCodeIndexKey (genConfirmationCode (rnd i))) \<noteq> JUndef"
proof (cases "reserveUniqueConfirmationCode s now rnd eventId subject")
  case (Inl e)
  then have "reserveAttempts s (legacyCodes s) (js_trim eventId) (js_trim subject) now
      (map rnd [0..<CONFIRMATION_CODE_MAX_ATTEMPTS]) = Inl e"
    using assms by (simp add: reserveUniqueConfirmationCode_def)
  with Inl show ?thesis by (auto simp: reserveAttempts_Inl)
next
  case (Inr p)
  obtain s' code where p: "p = (s', code)" by fastforce
  with Inr assms have r: "reserveAttempts s (legacyCodes s) (js_trim eventId) (js_trim subject) now
      (map rnd [0..<CONFIRMATION_CODE_MAX_ATTEMPTS]) = Inr (s', code)"
    by (simp add: reserveUniqueConfirmationCode_def)
  from reserveAttempts_Inr [OF r] obtain i where i: "code = genConfirmationCode (rnd i)" by auto
  have c: "js_trim code = code" "code \<noteq> []" "set code \<subseteq> set codeAlphabet"
    using genCode_trimmed i assms(3) code_chars(2) by (auto simp: genConfirmationCode_def)
  with reserveAttempts_Inr [OF r] assms Inr p show ?thesis
    by (auto simp: confirmationCodeBelongsToSubject_def parse_codeRecord)
qed

theorem reserve_code_fresh_witness:
  "case reserveUniqueConfirmationCode [] 5 (\<lambda>i. [1, 2, 3, 4, 5, 6]) ''evt'' ''alice'' of
     Inr (s', code) \<Rightarrow> confirmationCodeBelongsToSubject s' ''evt'' ''alice'' code | Inl e \<Rightarrow> False"
proof -
  have "sto_get [] k = JUndef" for k by simp
  moreover have "legacyCodes [] = []" by (simp add: legacyCodes_def sto_list_def List.map_filter_def)
  moreover have "(0::nat) < CONFIRMATION_CODE_MAX_ATTEMPTS" by (simp add: CONFIRMATION_CODE_MAX_ATTEMPTS_def)
  moreover have "js_trim ''evt'' \<noteq> []" "js_trim ''alice'' \<noteq> []" by code_simp+
  ultimately show ?thesis
    using reserve_code_fresh [of "''evt''" "''alice''" "\<lambda>i. [1, 2, 3, 4, 5, 6]" "[]" 5]
    by (auto split: sum.splits)
qed

text \<open>
  C12. Ownership of a confirmation code is stable: whatever reservations, indexings and releases
  follow, a code that belongs to an event and a subject keeps belonging to them as long as no release
  names this event and this subject.
\<close>

theorem code_owner_stable:
  assumes "confirmationCodeBelongsToSubject s eventId subject code"
    and "\<forall>(now, oper) \<in> set ops. \<forall>ev sub c. oper = Release ev sub c \<longrightarrow> js_trim ev \<noteq> js_trim eventId \<or> js_trim sub \<noteq> js_trim subject"
  shows "confirmationCodeBelongsToSubject (fold (\<lambda>(now, oper) st. code_step st now oper) ops s) eventId subject code"
  using assms
proof (induction ops arbitrary: s)
  case (Cons p ops)
  obtain now oper where p: "p = (now, oper)" by fastforce
  let ?k = "confirmationCodeIndexKey (js_trim code)"
  have "sto_get (code_step s now oper) ?k = sto_get s ?k"
  proof (rule code_step_keeps)
    show "js_trim (js_trim code) = js_trim code" by simp
    show "sto_get s ?k \<noteq> JUndef"
      using Cons.prems(1)
      by (auto simp: confirmationCodeBelongsToSubject_def parseConfirmationCodeIndexRecord_def Let_def split: if_splits option.splits)
    show "\<forall>ev sub c'. oper = Release ev sub c' \<longrightarrow> \<not> confirmationCodeBelongsToSubject s ev sub (js_trim code)"
      using Cons.prems p
      by (auto simp: confirmationCodeBelongsToSubject_def Let_def split: if_splits option.splits)
  qed
  then have "confirmationCodeBelongsToSubject (code_step s now oper) eventId subject code"
    using Cons.prems(1) unfolding confirmationCodeBelongsToSubject_def Let_def by (simp split: if_splits)
  with Cons p show ?case by simp
qed simp

theorem code_owner_stable_witness:
  "confirmationCodeBelongsToSubject
     (fold (\<lambda>(now, oper) st. code_step st now oper) [(7, Ensure ''evt'' ''bob'' ''ABC''), (8, Release ''evt'' ''bob'' ''ABC'')]
        (ensureConfirmationCodeIndexed [] 5 ''evt'' ''alice'' ''ABC'')) ''evt'' ''alice'' ''ABC''"
proof -
  have t: "js_trim ''evt'' = ''evt''" "js_trim ''alice'' = ''alice''" "js_trim ''bob'' = ''bob''" "js_trim ''ABC'' = ''ABC''"
    by code_simp+
  have "confirmationCodeBelongsToSubject (ensureConfirmationCodeIndexed [] 5 ''evt'' ''alice'' ''ABC'') ''evt'' ''alice'' ''ABC''"
    by (simp add: confirmationCodeBelongsToSubject_def ensureConfirmationCodeIndexed_def t parse_codeRecord Let_def sto_get_def)
  then show ?thesis by (rule code_owner_stable) (auto simp: t)
qed

section \<open>Registration\<close>

lemma genesis_digest: "hex_digest POP_HASH_GENESIS_HEX"
  by code_simp

inductive reg_reach :: "(string \<Rightarrow> string) \<Rightarrow> storage \<Rightarrow> (string \<times> js \<times> RegisterResult) list \<Rightarrow> bool" for H where
  start: "(\<forall>u. sto_get s (userKey u) = JUndef) \<Longrightarrow> sto_get s USER_ID_CHAIN_LAST_HASH_KEY = JUndef \<Longrightarrow> reg_reach H s []"
| register: "reg_reach H s rows \<Longrightarrow> registerUserWithUniqueId H s nowMs userId displayName pinHash = Inr (s', Some r) \<Longrightarrow>
     reg_reach H s' ((js_trim userId, JObj [(''pinHash'', JStr pinHash), (''displayName'', JStr displayName)], r) # rows)"
| refused: "reg_reach H s rows \<Longrightarrow> registerUserWithUniqueId H s nowMs userId displayName pinHash = Inr (s', None) \<Longrightarrow>
     reg_reach H s' rows"
| other: "reg_reach H s rows \<Longrightarrow> (\<forall>u. sto_get s' (userKey u) = sto_get s (userKey u)) \<Longrightarrow>
     sto_get s' USER_ID_CHAIN_LAST_HASH_KEY = sto_get s USER_ID_CHAIN_LAST_HASH_KEY \<Longrightarrow> reg_reach H s' rows"

lemma registry_keys:
  "userKey u \<noteq> userIdIndexKey h" "userKey u \<noteq> USER_ID_CHAIN_LAST_HASH_KEY" "USER_ID_CHAIN_LAST_HASH_KEY \<noteq> userIdIndexKey h"
  "USER_ID_CHAIN_LAST_HASH_KEY \<noteq> userKey u" "userIdIndexKey h \<noteq> userKey u" "userIdIndexKey h \<noteq> USER_ID_CHAIN_LAST_HASH_KEY"
  by (simp_all add: key_defs prefix_defs)

definition chainHead :: "storage \<Rightarrow> string" where
  "chainHead s = (case sto_get s USER_ID_CHAIN_LAST_HASH_KEY of
     JStr raw \<Rightarrow> (if isHashHex raw then js_lower raw else POP_HASH_GENESIS_HEX) | _ \<Rightarrow> POP_HASH_GENESIS_HEX)"

lemma register_eq:
  "registerUserWithUniqueId H s nowMs userId displayName pinHash =
     (let u = js_trim userId; h = H (''user-id:'' @ u); c = H (canonicalize (userChainInput h (chainHead s))) in
      if u = [] then Inl ''userId is required''
      else if sto_get s (userKey u) \<noteq> JUndef \<or> parseUserIdIndexRecord (sto_get s (userIdIndexKey h)) \<noteq> None then Inr (s, None)
      else Inr (sto_put (sto_put (sto_put s (userKey u) (JObj [(''pinHash'', JStr pinHash), (''displayName'', JStr displayName)]))
                  (userIdIndexKey h) (userRecordToJs \<lparr>ui_userId = u, ui_userIdHash = h, ui_chainHash = c,
                     ui_prevChainHash = chainHead s, ui_createdAt = js_toISOString nowMs\<rparr>))
                  USER_ID_CHAIN_LAST_HASH_KEY (JStr c),
                Some \<lparr>rr_userIdHash = h, rr_chainHash = c, rr_prevChainHash = chainHead s\<rparr>))"
  by (simp add: registerUserWithUniqueId_def chainHead_def Let_def split: option.split)

lemma register_result:
  assumes "registerUserWithUniqueId H s nowMs userId displayName pinHash = Inr (s', Some r)"
  shows "sto_get s (userKey (js_trim userId)) = JUndef" "js_trim userId \<noteq> []"
    "sto_get s' (userKey u) = (if u = js_trim userId then JObj [(''pinHash'', JStr pinHash), (''displayName'', JStr displayName)]
                              else sto_get s (userKey u))"
    "sto_get s' USER_ID_CHAIN_LAST_HASH_KEY = JStr (rr_chainHash r)"
    "rr_prevChainHash r = chainHead s" "rr_userIdHash r = H (''user-id:'' @ js_trim userId)"
    "rr_chainHash r = H (canonicalize (userChainInput (rr_userIdHash r) (rr_prevChainHash r)))"
  using assms by (auto simp: register_eq registry_keys Let_def split: if_splits)

lemma register_refused: "registerUserWithUniqueId H s nowMs userId displayName pinHash = Inr (s', None) \<Longrightarrow> s' = s"
  by (auto simp: register_eq Let_def split: if_splits)

text \<open>The chain of registrations, newest first.\<close>

fun reg_chain :: "(string \<Rightarrow> string) \<Rightarrow> (string \<times> js \<times> RegisterResult) list \<Rightarrow> bool" where
  "reg_chain H [] = True"
| "reg_chain H ((u, a, r) # rows) =
     (rr_userIdHash r = H (''user-id:'' @ u)
      \<and> rr_chainHash r = H (canonicalize (userChainInput (rr_userIdHash r) (rr_prevChainHash r)))
      \<and> rr_prevChainHash r = (case rows of [] \<Rightarrow> POP_HASH_GENESIS_HEX | (_, _, q) # _ \<Rightarrow> rr_chainHash q)
      \<and> u \<notin> fst ` set rows \<and> reg_chain H rows)"

lemma reg_chain_distinct: "reg_chain H rows \<Longrightarrow> distinct (map fst rows)"
  by (induction H rows rule: reg_chain.induct) auto

lemma reg_reach_inv:
  assumes "reg_reach H s rows" "\<forall>x. hex_digest (H x)"
  shows "reg_chain H rows \<and> (\<forall>(u, a, r) \<in> set rows. sto_get s (userKey u) = a \<and> a \<noteq> JUndef)
       \<and> chainHead s = (case rows of [] \<Rightarrow> POP_HASH_GENESIS_HEX | (_, _, q) # _ \<Rightarrow> rr_chainHash q)"
  using assms(1)
proof (induction rule: reg_reach.induct)
  case (register s rows nowMs userId displayName pinHash s' r)
  note rr = register_result [OF register(2)]
  have "js_trim userId \<notin> fst ` set rows" using register.IH rr(1) by fastforce
  moreover have "chainHead s' = rr_chainHash r"
    using rr(4,7) assms(2) hex_digest_facts by (simp add: chainHead_def)
  ultimately show ?case using register.IH rr(1,3,5,6,7)
    by (auto simp del: POP_HASH_GENESIS_HEX_def split: list.split_asm)
next
  case (refused s rows nowMs userId displayName pinHash s')
  have "s' = s" using refused.hyps(2) by (rule register_refused)
  show ?case unfolding \<open>s' = s\<close> by (rule refused.IH)
next
  case (other s rows s')
  have "chainHead s' = chainHead s" by (simp only: chainHead_def other.hyps(3))
  then show ?case using other.IH unfolding other.hyps(2) [rule_format] by simp
qed (simp add: chainHead_def)

text \<open>
  Accounts are never overwritten and registrations form one hash chain: after any run of
  registrations (and any other changes elsewhere in the storage) every registered user still has the
  account stored at registration, no id was registered twice, and every registration names the chain
  hash of the one before it, the first one the all-zero hash.
\<close>

theorem registration_chain:
  assumes "reg_reach H s rows" "\<forall>x. hex_digest (H x)"
  shows "reg_chain H rows \<and> distinct (map fst rows) \<and> (\<forall>(u, account, r) \<in> set rows. sto_get s (userKey u) = account)"
  using reg_reach_inv [OF assms] reg_chain_distinct by auto

theorem registration_chain_witness:
  "\<exists>s r. reg_reach (\<lambda>x. POP_HASH_GENESIS_HEX) s [(''alice'', JObj [(''pinHash'', JStr ''p''), (''displayName'', JStr ''A'')], r)]
     \<and> sto_get s (userKey ''alice'') = JObj [(''pinHash'', JStr ''p''), (''displayName'', JStr ''A'')]"
proof -
  have t: "js_trim ''alice'' = ''alice''" by code_simp
  obtain s r where r: "registerUserWithUniqueId (\<lambda>x. POP_HASH_GENESIS_HEX) [] 5 ''alice'' ''A'' ''p'' = Inr (s, Some r)"
    by (simp add: registerUserWithUniqueId_def t Let_def parseUserIdIndexRecord_def)
  have "reg_reach (\<lambda>x. POP_HASH_GENESIS_HEX) [] []" by (rule reg_reach.start) simp_all
  from reg_reach.register [OF this r] t
  have "reg_reach (\<lambda>x. POP_HASH_GENESIS_HEX) s [(''alice'', JObj [(''pinHash'', JStr ''p''), (''displayName'', JStr ''A'')], r)]"
    by simp
  with registration_chain [OF this] genesis_digest show ?thesis by auto
qed

end
