(* ===== verification/Audit_Links.thy ===== *)
theory Audit_Links
  imports Audit_Chain "HOL-Library.Multiset"
begin

text \<open>
  Facts about the maps and the walk of the integrity report: what the maps contain, that the walk ends
  within its fuel, that an empty list of issues means one chain through all entries, and that entries
  in chain order give no issue.
\<close>

section \<open>The maps\<close>

lemma byHash_fold_Some:
  "map_of (fold (\<lambda>e m. kv_set (hashOf e) e m) es m0) k = Some e \<Longrightarrow> (e \<in> set es \<and> hashOf e = k) \<or> map_of m0 k = Some e"
proof (induction es arbitrary: m0)
  case (Cons x es)
  from Cons.IH [of "kv_set (hashOf x) x m0"] Cons.prems show ?case by (auto split: if_splits)
qed simp

lemma byHash_fold_has:
  "map_of (fold (\<lambda>e m. kv_set (hashOf e) e m) es m0) k \<noteq> None \<longleftrightarrow> k \<in> hashOf ` set es \<or> map_of m0 k \<noteq> None"
  by (induction es arbitrary: m0) auto

lemma byHash_Some: "map_of (byHash es) k = Some e \<Longrightarrow> e \<in> set es \<and> hashOf e = k"
  using byHash_fold_Some [of es "[]" k e] by (simp add: byHash_def)

lemma byHash_has: "has_key (byHash es) k \<longleftrightarrow> k \<in> hashOf ` set es"
  using byHash_fold_has [of es "[]" k] by (simp add: has_key_def byHash_def)

lemma byHash_unique: "distinct (map hashOf es) \<Longrightarrow> e \<in> set es \<Longrightarrow> map_of (byHash es) (hashOf e) = Some e"
  using byHash_has [of es "hashOf e"] byHash_Some [of es "hashOf e"]
  by (auto simp: has_key_def distinct_map dest: inj_onD)

lemma duplicates_Nil: "duplicates seen es = [] \<longleftrightarrow> distinct (map hashOf es) \<and> set seen \<inter> hashOf ` set es = {}"
  by (induction es arbitrary: seen) auto

definition children :: "(js \<Rightarrow> js) \<Rightarrow> js list \<Rightarrow> js \<Rightarrow> nat" where
  "children prev es k = (if k = GENESIS \<or> k \<notin> hashOf ` set es then 0 else length (filter (\<lambda>e. prev e = k) es))"

lemma childCounts_fold:
  fixes m :: "(js \<times> js) list"
  shows "map_of (fold (\<lambda>e c. if prev e = GENESIS \<or> \<not> has_key m (prev e) then c
                   else kv_set (prev e) (Suc (case map_of c (prev e) of Some n \<Rightarrow> n | None \<Rightarrow> 0)) c) es c0) k
     = (let n = (if k = GENESIS \<or> \<not> has_key m k then 0 else length (filter (\<lambda>e. prev e = k) es))
        in if n = 0 then map_of c0 k else Some (n + (case map_of c0 k of Some n \<Rightarrow> n | None \<Rightarrow> 0)))"
  by (induction es arbitrary: c0) (auto simp: Let_def)

lemma childCounts_eq:
  "map_of (childCounts prev es) k = (if children prev es k = 0 then None else Some (children prev es k))"
  unfolding childCounts_def childCounts_fold by (simp add: byHash_has children_def Let_def)

lemma distinct_childCounts: "distinct (map fst (childCounts prev es))"
proof -
  have "distinct (map fst (fold (\<lambda>e c. if prev e = GENESIS \<or> \<not> has_key m (prev e) then c
          else kv_set (prev e) (Suc (case map_of c (prev e) of Some n \<Rightarrow> n | None \<Rightarrow> 0)) c) es c0))"
    if "distinct (map fst c0)" for m :: "(js \<times> js) list" and c0
    using that by (induction es arbitrary: c0) auto
  then show ?thesis by (simp add: childCounts_def)
qed

lemma childCounts_multiple:
  "filter (\<lambda>(h, n). n > 1) (childCounts prev es) = [] \<longleftrightarrow> (\<forall>k. children prev es k \<le> 1)"
proof -
  have "(h, n) \<in> set (childCounts prev es) \<longleftrightarrow> n = children prev es h \<and> n \<noteq> 0" for h n
    using map_of_eq_Some_iff [OF distinct_childCounts [of prev es], of h n] by (auto simp: childCounts_eq split: if_splits)
  then have "filter (\<lambda>(h, n). n > 1) (childCounts prev es) = []
      \<longleftrightarrow> (\<forall>h n. n = children prev es h \<and> n \<noteq> 0 \<longrightarrow> \<not> n > 1)"
    unfolding filter_empty_conv by (metis (mono_tags, lifting) case_prod_conv surj_pair)
  also have "\<dots> \<longleftrightarrow> (\<forall>k. children prev es k \<le> 1)" by (simp add: not_less) (metis le0 le_eq_less_or_eq less_Suc0 not_less)
  finally show ?thesis .
qed

lemma chainHeads_eq: "chainHeads prev es = filter (\<lambda>e. children prev es (hashOf e) = 0) es"
  by (auto simp: chainHeads_def has_key_def childCounts_eq)

lemma set_groupByEvent:
  "map_of (groupByEvent es) ev = (let b = filter (\<lambda>e. eventOf e = ev) es in if b = [] then None else Some b)"
proof -
  have "map_of (fold (\<lambda>e m. kv_set (eventOf e) ((case map_of m (eventOf e) of Some b \<Rightarrow> b | None \<Rightarrow> []) @ [e]) m) es m0) ev
     = (let b = filter (\<lambda>e. eventOf e = ev) es
        in if b = [] then map_of m0 ev else Some ((case map_of m0 ev of Some b \<Rightarrow> b | None \<Rightarrow> []) @ b))" for m0
    by (induction es arbitrary: m0) (auto simp: Let_def)
  then show ?thesis by (simp add: groupByEvent_def Let_def)
qed

lemma distinct_groupByEvent: "distinct (map fst (groupByEvent es))"
proof -
  have "distinct (map fst (fold (\<lambda>e m. kv_set (eventOf e) ((case map_of m (eventOf e) of Some b \<Rightarrow> b | None \<Rightarrow> []) @ [e]) m) es m0))"
    if "distinct (map fst m0)" for m0 :: "(js \<times> js list) list"
    using that by (induction es arbitrary: m0) auto
  then show ?thesis by (simp add: groupByEvent_def)
qed

lemma groupByEvent_iff: "(ev, b) \<in> set (groupByEvent es) \<longleftrightarrow> b = filter (\<lambda>e. eventOf e = ev) es \<and> b \<noteq> []"
  using set_groupByEvent [of es ev] map_of_eq_Some_iff [OF distinct_groupByEvent [of es], of ev b]
  by (auto simp: Let_def split: if_splits)

section \<open>The walk\<close>

lemma walkChain_path:
  assumes "walkChain fuel m prev visited oldest current = Some (visited', oldest', None)"
  shows "\<exists>path. path \<noteq> [] \<and> hd path = current \<and> visited' = rev (map hashOf path) @ visited
     \<and> successively (\<lambda>e f. prev e \<noteq> GENESIS \<and> map_of m (prev e) = Some f) path
     \<and> distinct (map hashOf path) \<and> hashOf ` set path \<inter> set visited = {} \<and> oldest' = Some (last path)"
  using assms
proof (induction fuel arbitrary: visited oldest current)
  case (Suc fuel)
  show ?case
  proof (cases "hashOf current \<notin> set visited \<and> prev current \<noteq> GENESIS \<and> map_of m (prev current) \<noteq> None")
    case True
    then obtain next_entry where n: "map_of m (prev current) = Some next_entry" by auto
    with True Suc.prems have "walkChain fuel m prev (hashOf current # visited) (Some current) next_entry = Some (visited', oldest', None)"
      by (simp add: Let_def)
    from Suc.IH [OF this] obtain path where p: "path \<noteq> []" "hd path = next_entry"
      "visited' = rev (map hashOf path) @ hashOf current # visited"
      "successively (\<lambda>e f. prev e \<noteq> GENESIS \<and> map_of m (prev e) = Some f) path"
      "distinct (map hashOf path)" "hashOf ` set path \<inter> set (hashOf current # visited) = {}" "oldest' = Some (last path)"
      by auto
    then show ?thesis
      using n True by (intro exI [of _ "current # path"]) (auto simp: successively_Cons)
  next
    case False
    with Suc.prems have "visited' = hashOf current # visited" "oldest' = Some current" "hashOf current \<notin> set visited"
      by (auto simp: Let_def split: if_splits option.splits)
    then show ?thesis by (intro exI [of _ "[current]"]) auto
  qed
qed simp

lemma walkChain_ends:
  assumes "distinct visited" "set visited \<subseteq> hashOf ` set es" "current \<in> set es"
    and "length visited + fuel = Suc (length es)"
  shows "walkChain fuel (byHash es) prev visited oldest current \<noteq> None"
  using assms
proof (induction fuel arbitrary: visited oldest current)
  case 0
  have "length visited = card (set visited)" using 0(1) by (simp add: distinct_card)
  also have "\<dots> \<le> card (hashOf ` set es)" using 0(2) by (intro card_mono) auto
  also have "\<dots> \<le> length es" by (meson card_image_le card_length finite_set le_trans)
  finally show ?case using 0(4) by simp
next
  case (Suc fuel)
  then show ?case by (auto simp: Let_def split: option.splits dest!: byHash_Some)
qed

lemma walkFrom_ends:
  "head \<in> set es \<Longrightarrow> walkChain (Suc (length es)) (byHash es) prev [] None head = Some (walkFrom prev es head)"
  using walkChain_ends [of "[]" es head "Suc (length es)" prev None]
  by (auto simp: walkFrom_def split: option.splits)

section \<open>No issue means one chain\<close>

lemma walk_all_is_chain:
  assumes "distinct (map hashOf es)" "head \<in> set es" "walkFrom prev es head = (visited, oldest, None)"
    and "length visited = length es"
  shows "\<exists>chain. mset chain = mset es \<and> chain \<noteq> [] \<and> hd chain = head
           \<and> successively (\<lambda>e f. prev e = hashOf f) chain"
proof -
  have "walkChain (Suc (length es)) (byHash es) prev [] None head = Some (visited, oldest, None)"
    using walkFrom_ends [OF assms(2), of prev] assms(3) by (simp del: walkChain.simps)
  from walkChain_path [OF this] obtain path where p: "path \<noteq> []" "hd path = head" "visited = rev (map hashOf path)"
    "successively (\<lambda>e f. prev e \<noteq> GENESIS \<and> map_of (byHash es) (prev e) = Some f) path" "distinct (map hashOf path)"
    by auto
  have link: "successively (\<lambda>e f. prev e = hashOf f \<and> f \<in> set es) path"
    using p(4) by (rule successively_mono) (auto dest!: byHash_Some)
  have "set ys \<subseteq> S" if "successively (\<lambda>e f. prev e = hashOf f \<and> f \<in> S) (y # ys)" for y ys S
    using that by (induction ys arbitrary: y) auto
  then have "set path \<subseteq> set es" using link p(1,2) assms(2) by (cases path) auto
  moreover have "length path = length es" using p(3) assms(4) by simp
  moreover have "distinct path" "distinct es" using p(5) assms(1) by (auto simp: distinct_map)
  ultimately have "set path = set es" by (metis card_subset_eq distinct_card finite_set)
  with \<open>distinct path\<close> \<open>distinct es\<close> have "mset path = mset es" by (simp add: set_eq_iff_mset_eq_distinct)
  moreover have "successively (\<lambda>e f. prev e = hashOf f) path" using link by (rule successively_mono) auto
  ultimately show ?thesis using p(1,2) by blast
qed

lemma global_ok_chain:
  assumes "checkGlobalChain es = ([], head, oldest)"
  shows "\<exists>chain. mset chain = mset es \<and> successively (\<lambda>e f. globalPrev e = hashOf f) chain
           \<and> (es \<noteq> [] \<longrightarrow> head = Some (hd chain))"
proof (cases "es = []")
  case False
  have dup: "distinct (map hashOf es)"
    using assms by (auto simp: checkGlobalChain_def Let_def duplicates_Nil split: list.splits prod.splits)
  obtain h where h: "chainHeads globalPrev es = [h]"
    using assms False
    by (cases "chainHeads globalPrev es") (auto simp: checkGlobalChain_def Let_def split: if_splits prod.splits)
  then have "h \<in> set es" by (metis chainHeads_def filter_is_subset list.set_intros(1) subsetD)
  obtain visited old cyc where w: "walkFrom globalPrev es h = (visited, old, cyc)" by (metis prod_cases3)
  have "cyc = None" "length visited = length es" "head = Some h"
    using assms h w by (auto simp: checkGlobalChain_def Let_def split: if_splits option.splits)
  with walk_all_is_chain [OF dup \<open>h \<in> set es\<close>] w show ?thesis by metis
qed simp

section \<open>A chain gives no issue\<close>

definition linked :: "(js \<Rightarrow> js) \<Rightarrow> js list \<Rightarrow> bool" where
  "linked prev es =
     (distinct (map hashOf es) \<and> GENESIS \<notin> hashOf ` set es \<and> successively (\<lambda>e f. prev e = hashOf f) es
      \<and> (es \<noteq> [] \<longrightarrow> prev (last es) \<notin> hashOf ` set es))"

lemma linked_prevs: "successively (\<lambda>e f. prev e = hashOf f) es \<Longrightarrow> map prev (butlast es) = map hashOf (tl es)"
proof (induction es)
  case (Cons e es)
  then show ?case by (cases es) auto
qed simp

lemma linked_filter:
  assumes "linked prev es" "k \<in> hashOf ` set es"
  shows "filter (\<lambda>e. prev e = k) es = filter (\<lambda>e. prev e = k) (butlast es)"
proof (cases "es = []")
  case False
  then have "es = butlast es @ [last es]" by simp
  moreover have "prev (last es) \<noteq> k" using assms False by (auto simp: linked_def)
  ultimately show ?thesis by (metis (mono_tags, lifting) append_Nil2 filter.simps filter_append)
qed simp

lemma filter_distinct_key: "distinct (map f xs) \<Longrightarrow> length (filter (\<lambda>x. f x = k) xs) = (if k \<in> f ` set xs then 1 else 0)"
  by (induction xs) (auto simp: filter_empty_conv)

lemma linked_children:
  assumes "linked prev es" "k \<in> hashOf ` set es"
  shows "children prev es k = (if k \<in> hashOf ` set (tl es) then 1 else 0)"
proof -
  have p: "map prev (butlast es) = map hashOf (tl es)" using assms(1) by (auto simp: linked_def intro: linked_prevs)
  have "distinct (map hashOf (tl es))" using assms(1) by (auto simp: linked_def map_tl distinct_tl)
  then have "length (filter (\<lambda>e. prev e = k) (butlast es)) = (if k \<in> prev ` set (butlast es) then 1 else 0)"
    using p by (intro filter_distinct_key) simp
  moreover have "prev ` set (butlast es) = hashOf ` set (tl es)" using p by (metis list.set_map)
  moreover have "k \<noteq> GENESIS" using assms unfolding linked_def by metis
  ultimately show ?thesis using assms(2) by (simp add: children_def linked_filter [OF assms])
qed

lemma linked_no_multiple: "linked prev es \<Longrightarrow> filter (\<lambda>(h, n). n > 1) (childCounts prev es) = []"
  unfolding childCounts_multiple
proof
  fix k
  assume l: "linked prev es"
  show "children prev es k \<le> 1"
    using linked_children [OF l, of k] by (cases "k \<in> hashOf ` set es") (auto simp: children_def)
qed

lemma linked_external: "linked prev es \<Longrightarrow> length (externalPrevRefs prev es) \<le> 1"
proof (cases "es = []")
  case False
  assume l: "linked prev es"
  then have p: "map prev (butlast es) = map hashOf (tl es)" by (auto simp: linked_def intro: linked_prevs)
  have "prev e \<in> hashOf ` set es" if "e \<in> set (butlast es)" for e
  proof -
    have "prev e \<in> set (map hashOf (tl es))" using that p by (metis imageI list.set_map)
    then show ?thesis using list.set_sel(2) [OF False] by auto
  qed
  then have none: "filter (\<lambda>e. prev e \<noteq> GENESIS \<and> prev e \<notin> hashOf ` set es) (butlast es) = []"
    by (auto simp: filter_empty_conv)
  have "externalPrevRefs prev es = filter (\<lambda>e. prev e \<noteq> GENESIS \<and> prev e \<notin> hashOf ` set es) (butlast es @ [last es])"
    using False by (simp add: externalPrevRefs_def byHash_has)
  then show ?thesis unfolding filter_append none by (simp split: if_splits)
qed (simp add: externalPrevRefs_def)

lemma linked_heads:
  assumes "linked prev (e # es)"
  shows "chainHeads prev (e # es) = [e]"
proof -
  have "children prev (e # es) (hashOf x) = (if hashOf x \<in> hashOf ` set es then 1 else 0)" if "x \<in> set (e # es)" for x
    using linked_children [OF assms, of "hashOf x"] that by auto
  then have "chainHeads prev (e # es) = filter (\<lambda>x. hashOf x \<notin> hashOf ` set es) (e # es)"
    unfolding chainHeads_eq by (intro filter_cong) auto
  moreover have "filter (\<lambda>x. hashOf x \<notin> hashOf ` set es) es = []" by (auto simp: filter_empty_conv)
  moreover have "hashOf e \<notin> hashOf ` set es" using assms by (simp add: linked_def)
  ultimately show ?thesis by simp
qed

lemma walk_linked:
  assumes "linked prev (pre @ current # rest)" "length rest < fuel"
  shows "walkChain fuel (byHash (pre @ current # rest)) prev (rev (map hashOf pre)) oldest current
           = Some (rev (map hashOf (pre @ current # rest)), Some (last (current # rest)), None)"
  using assms
proof (induction rest arbitrary: pre current fuel oldest)
  case Nil
  then obtain f where f: "fuel = Suc f" by (cases fuel) auto
  have "\<not> has_key (byHash (pre @ [current])) (prev current)" using Nil(1) by (auto simp: linked_def byHash_has)
  moreover have "hashOf current \<notin> hashOf ` set pre" using Nil(1) by (auto simp: linked_def)
  ultimately show ?case by (auto simp: f has_key_def Let_def)
next
  case (Cons n rest)
  then obtain f where f: "fuel = Suc f" by (cases fuel) auto
  have l: "linked prev ((pre @ [current]) @ n # rest)" using Cons.prems by simp
  have p: "prev current = hashOf n" using Cons.prems(1) by (auto simp: linked_def successively_append_iff successively_Cons)
  have "map_of (byHash (pre @ current # n # rest)) (hashOf n) = Some n"
    using Cons.prems(1) by (intro byHash_unique) (auto simp: linked_def)
  moreover have "hashOf current \<notin> hashOf ` set pre" "hashOf n \<noteq> GENESIS" using Cons.prems(1) by (auto simp: linked_def)
  ultimately show ?case
    using Cons.IH [OF l, of f "Some current"] Cons.prems(2) p by (auto simp: f Let_def)
qed

lemma walkFrom_linked:
  "linked prev (e # es) \<Longrightarrow> walkFrom prev (e # es) e = (rev (map hashOf (e # es)), Some (last (e # es)), None)"
  using walk_linked [of prev "[]" e es "Suc (Suc (length es))" None] by (simp add: walkFrom_def del: walkChain.simps)

lemma linked_global:
  assumes "linked globalPrev es"
  shows "fst (checkGlobalChain es) = []"
proof (cases es)
  case (Cons e es')
  have d: "duplicates [] es = []" using assms by (simp add: duplicates_Nil linked_def)
  show ?thesis
    using linked_external [OF assms] linked_no_multiple [OF assms] d
    unfolding checkGlobalChain_def Let_def Cons linked_heads [OF assms [unfolded Cons]] list.case walkFrom_linked [OF assms [unfolded Cons]]
    by simp
qed (simp add: checkGlobalChain_def chainHeads_def childCounts_def externalPrevRefs_def)

lemma linked_stream:
  assumes "linked streamPrev es" "\<forall>e \<in> set es. streamPrevWalk e = streamPrev e" "es \<noteq> []"
  shows "checkStreamChain ev es = []"
proof (cases es)
  case (Cons e es')
  have d: "duplicates [] es = []" using assms by (simp add: duplicates_Nil linked_def)
  have "successively (\<lambda>e f. streamPrevWalk e = hashOf f) es"
    using assms(1,2) by (subst successively_cong [where Q = "\<lambda>e f. streamPrev e = hashOf f"]) (auto simp: linked_def)
  then have w: "linked streamPrevWalk (e # es')" using assms Cons by (auto simp: linked_def)
  show ?thesis
    using linked_external [OF assms(1)] linked_no_multiple [OF assms(1)] d
    unfolding checkStreamChain_def Let_def Cons linked_heads [OF assms(1) [unfolded Cons]] list.case walkFrom_linked [OF w]
    by simp
qed (use assms in simp)

end
