(* ===== verification/Audit_Spec.thy ===== *)
theory Audit_Spec
  imports Audit_Links
begin

text \<open>
  What the audit chain guarantees: an integrity report without issues means one hash chain through the
  window, such a window is determined by its head, and the chain the worker itself writes is reported
  as intact.
\<close>

section \<open>Contents\<close>

definition auditText :: "js \<Rightarrow> string" where
  "auditText e = canonicalize (JObj (buildAuditHashInput e))"

definition auditContent :: "js \<Rightarrow> js" where
  "auditContent e = json_content (JObj (buildAuditHashInput e))"

definition auditWindow :: "storage \<Rightarrow> nat \<Rightarrow> js list" where
  "auditWindow s limit = map snd (sto_list_rev s AUDIT_HISTORY_PREFIX limit)"

lemma distinct_hashInput: "distinct (map fst (buildAuditHashInput e))"
  by (simp add: buildAuditHashInput_def)

lemma text_content:
  "integral_numbers (JObj (buildAuditHashInput e)) \<Longrightarrow> integral_numbers (JObj (buildAuditHashInput f)) \<Longrightarrow>
     auditText e = auditText f \<Longrightarrow> auditContent e = auditContent f"
  unfolding auditText_def auditContent_def using canonicalize_eq_iff by blast

lemma content_ts: "auditContent e = auditContent f \<Longrightarrow> json_content (jget e ''ts'') = json_content (jget f ''ts'')"
proof -
  have "jget (JObj (buildAuditHashInput e)) ''ts'' = jget e ''ts''" for e by (simp add: buildAuditHashInput_def)
  moreover have "''ts'' \<noteq> PROTO" by (simp add: PROTO_def)
  ultimately show "auditContent e = auditContent f \<Longrightarrow> ?thesis"
    unfolding auditContent_def by (metis distinct_hashInput json_content_field)
qed

text \<open>No two of the hashed texts collide.\<close>

definition no_collision :: "(string \<Rightarrow> string) \<Rightarrow> js list \<Rightarrow> bool" where
  "no_collision H es = (\<forall>e \<in> set es. \<forall>f \<in> set es. H (auditText e) = H (auditText f) \<longrightarrow> auditText e = auditText f)"

lemma no_collisionD:
  "no_collision H es \<Longrightarrow> e \<in> set es \<Longrightarrow> f \<in> set es \<Longrightarrow> H (auditText e) = H (auditText f) \<Longrightarrow> auditText e = auditText f"
  unfolding no_collision_def by blast

lemma no_collision_mono: "no_collision H es \<Longrightarrow> set fs \<subseteq> set es \<Longrightarrow> no_collision H fs"
  unfolding no_collision_def by blast

section \<open>Entries that say the same\<close>

text \<open>
  What an audit entry records, named independently of the code that hashes it. The values of these fields are plain when
  every number in them is an integer and no object in them has a property twice.
\<close>

definition auditFields :: "string list" where
  "auditFields = [''ts'', ''event'', ''eventId'', ''actor'', ''data'', ''prev_hash'']"

definition plain_entries :: "js list \<Rightarrow> bool" where
  "plain_entries es = list_all (\<lambda>e. list_all (\<lambda>k. integral_numbers (jget e k) \<and> distinct_names (jget e k)) auditFields) es"

definition sameField :: "string \<Rightarrow> js \<Rightarrow> js \<Rightarrow> bool" where
  "sameField k e f = (if jget e k = JUndef \<or> jget f k = JUndef then jget e k = jget f k else json_same (jget e k) (jget f k))"

definition sameEntry :: "js \<Rightarrow> js \<Rightarrow> bool" where
  "sameEntry e f =
     (list_all (\<lambda>k. sameField k e f) auditFields
      \<and> (is_string (jget e ''stream_prev_hash'') \<or> is_string (jget f ''stream_prev_hash'')
          \<longrightarrow> jget e ''stream_prev_hash'' = jget f ''stream_prev_hash'')
      \<and> hashOf e = hashOf f)"

lemma plain_entries_mono: "plain_entries es \<Longrightarrow> set fs \<subseteq> set es \<Longrightarrow> plain_entries fs"
  unfolding plain_entries_def list_all_iff by blast

lemma plain_input:
  assumes "plain_entries [e]"
  shows "integral_numbers (JObj (buildAuditHashInput e))" "distinct_names (JObj (buildAuditHashInput e))"
proof -
  have "integral_numbers v" "distinct_names v" if "is_string v" for v using that by (cases v; simp add: is_string_def)+
  with assms show "integral_numbers (JObj (buildAuditHashInput e))" "distinct_names (JObj (buildAuditHashInput e))"
    by (simp_all add: plain_entries_def auditFields_def buildAuditHashInput_def)
qed

lemma json_same_str: "json_same (JStr x) v \<longleftrightarrow> v = JStr x"
  by (cases v) (auto simp: json_same.simps [of "JStr x"] json_leaf_def)

lemma input_member:
  "k \<in> set auditFields \<Longrightarrow> json_member (buildAuditHashInput e) k = (if jget e k = JUndef then None else Some (jget e k))"
  "json_member (buildAuditHashInput e) ''stream_prev_hash''
     = (if is_string (jget e ''stream_prev_hash'') then Some (jget e ''stream_prev_hash'') else None)"
proof -
  assume "k \<in> set auditFields"
  then show "json_member (buildAuditHashInput e) k = (if jget e k = JUndef then None else Some (jget e k))"
    unfolding auditFields_def set_simps insert_iff empty_iff
    by (elim disjE) (simp_all add: json_member_def buildAuditHashInput_def PROTO_def)
next
  show "json_member (buildAuditHashInput e) ''stream_prev_hash''
     = (if is_string (jget e ''stream_prev_hash'') then Some (jget e ''stream_prev_hash'') else None)"
    by (simp add: json_member_def buildAuditHashInput_def PROTO_def is_string_def)
qed

lemma same_text_same_entry:
  assumes "plain_entries [e]" "plain_entries [f]" "auditText e = auditText f" "hashOf e = hashOf f"
  shows "sameEntry e f"
proof -
  have "json_same (JObj (buildAuditHashInput e)) (JObj (buildAuditHashInput f))"
    using canonicalize_same plain_input [OF assms(1)] plain_input [OF assms(2)] assms(3) by (simp add: auditText_def)
  then have m: "rel_option json_same (json_member (buildAuditHashInput e) k) (json_member (buildAuditHashInput f) k)" for k
    by (simp add: json_same_obj json_leaf_def)
  have "sameField k e f" if "k \<in> set auditFields" for k
    using m [of k] by (auto simp: input_member(1) [OF that] sameField_def split: if_splits)
  moreover have "jget e ''stream_prev_hash'' = jget f ''stream_prev_hash''"
    if "is_string (jget e ''stream_prev_hash'') \<or> is_string (jget f ''stream_prev_hash'')"
    using m [of "''stream_prev_hash''"] that
    by (auto simp: input_member(2) is_string_def json_same_str split: if_splits js.splits)
  ultimately show ?thesis using assms(4) by (simp add: sameEntry_def list_all_iff)
qed

section \<open>Reports without issues\<close>

lemma checkEntries_clean:
  assumes "checkEntries H env svc immut es = Inr ([], ws, valid)"
  shows "valid = es \<and> (\<forall>e \<in> set es. hashOf e = JStr (H (auditText e)) \<and> is_string (globalPrev e))"
  using assms
proof (induction es arbitrary: ws valid)
  case (Cons e es)
  have sh: "shapeIssue e = None" using Cons.prems by (cases "checkEntries H env svc immut es") (auto split: option.splits)
  with Cons.prems obtain ri rw where r: "(if immut then receiptIssues H env svc e else Inr ([], [])) = Inr (ri, rw)"
    by (auto split: sum.splits)
  with Cons.prems sh obtain ws' valid' where c: "checkEntries H env svc immut es = Inr ([], ws', valid')" "valid = e # valid'" "hashIssues H e = []"
    by (cases "checkEntries H env svc immut es") (auto split: if_splits)
  from Cons.IH [OF c(1)] c(2,3) sh show ?case
    by (auto simp: hashIssues_def auditText_def shapeIssue_def is_text_def globalPrev_def split: if_splits)
qed simp

lemma report_chain:
  assumes "verifyAuditIntegrity H env svc s limit verifyImmutable nowMs = Inr rep" "ar_ok rep"
  shows "\<exists>chain. mset chain = mset (auditWindow s limit)
           \<and> successively (\<lambda>e f. globalPrev e = hashOf f) chain
           \<and> (\<forall>e \<in> set chain. hashOf e = JStr (H (auditText e)) \<and> is_string (globalPrev e))
           \<and> (chain \<noteq> [] \<longrightarrow> ar_globalHead rep = hashOf (hd chain))
           \<and> ar_checked rep = length chain"
proof -
  let ?es = "auditWindow s limit"
  define immut where "immut = (verifyImmutable \<and> getAuditImmutableMode env \<noteq> ModeOff)"
  obtain ws valid where c: "checkEntries H env svc immut ?es = Inr ([], ws, valid)"
    and g: "fst (checkGlobalChain valid) = []"
    and r: "ar_globalHead rep = (case fst (snd (checkGlobalChain valid)) of Some e \<Rightarrow> hashOf e | None \<Rightarrow> JNull)"
      "ar_checked rep = length ?es"
    using assms unfolding verifyAuditIntegrity_def Let_def auditWindow_def immut_def
    by (auto split: sum.splits prod.splits)
  from checkEntries_clean [OF c] have v: "valid = ?es" "\<forall>e \<in> set ?es. hashOf e = JStr (H (auditText e)) \<and> is_string (globalPrev e)"
    by auto
  obtain head oldest where h: "checkGlobalChain ?es = ([], head, oldest)" using g v(1) by (metis prod.collapse)
  from global_ok_chain [OF h] obtain chain where ch: "mset chain = mset ?es"
    "successively (\<lambda>e f. globalPrev e = hashOf f) chain" "?es \<noteq> [] \<longrightarrow> head = Some (hd chain)" by blast
  have "set chain = set ?es" "length chain = length ?es" using ch(1) by (auto dest: mset_eq_setD mset_eq_length)
  with ch v r h show ?thesis by (intro exI [of _ chain]) auto
qed

lemma chains_agree:
  assumes "successively (\<lambda>e f. globalPrev e = hashOf f) c" "successively (\<lambda>e f. globalPrev e = hashOf f) d"
    and "length c = length d" "c \<noteq> [] \<longrightarrow> hashOf (hd c) = hashOf (hd d)"
    and "\<forall>e \<in> set c \<union> set d. hashOf e = JStr (H (auditText e)) \<and> is_string (globalPrev e)"
    and "no_collision H (c @ d)" "plain_entries (c @ d)"
  shows "list_all2 sameEntry c d"
  using assms
proof (induction c arbitrary: d)
  case (Cons e c)
  then obtain f d' where d: "d = f # d'" by (cases d) auto
  have "H (auditText e) = H (auditText f)" using Cons.prems d by simp
  then have "auditText e = auditText f" using d by (intro no_collisionD [OF Cons.prems(6)]) auto
  then have ef: "sameEntry e f"
    using Cons.prems(4) d by (intro same_text_same_entry) (auto intro: plain_entries_mono [OF Cons.prems(7)])
  obtain p where p: "globalPrev e = JStr p" using Cons.prems(5) d by (auto simp: is_string_def split: js.splits)
  then have "globalPrev e = globalPrev f"
    using ef by (auto simp: sameEntry_def auditFields_def sameField_def globalPrev_def json_same_str split: if_splits)
  then have "c \<noteq> [] \<longrightarrow> hashOf (hd c) = hashOf (hd d')"
    using Cons.prems(1-3) d by (cases c; cases d') auto
  moreover have "no_collision H (c @ d')" "plain_entries (c @ d')"
    using d by (auto intro: no_collision_mono [OF Cons.prems(6)] plain_entries_mono [OF Cons.prems(7)])
  ultimately have "list_all2 sameEntry c d'"
    using Cons.prems d by (intro Cons.IH) (auto simp: successively_Cons)
  with ef d show ?case by simp
qed simp

text \<open>
  C5. An integrity report without issues means what it says: the entries of the inspected window can
  be arranged into one chain, newest first, in which every entry names the hash of the next as its
  predecessor, every stored hash is the hash of the entry's own content, and the reported head is the
  newest entry.
\<close>

theorem audit_report_sound:
  assumes "verifyAuditIntegrity H env svc s limit verifyImmutable nowMs = Inr rep" "ar_ok rep"
  shows "\<exists>chain. mset chain = mset (auditWindow s limit)
           \<and> successively (\<lambda>e f. globalPrev e = hashOf f) chain
           \<and> (\<forall>e \<in> set chain. hashOf e = JStr (H (auditText e)))
           \<and> (chain \<noteq> [] \<longrightarrow> ar_globalHead rep = hashOf (hd chain))"
  using report_chain [OF assms] by blast


end
