(* ===== verification/Audit_Runs.thy ===== *)
theory Audit_Runs
  imports Audit_Spec
begin

text \<open>
  Runs of the audit log: any sequence of appended entries, interleaved with changes of the storage
  elsewhere, under a clock that advances from entry to entry. The invariant: the stored history is the
  list of entries in the order they were appended, linked globally and per event stream.
\<close>

section \<open>Runs\<close>

text \<open>The audit keys of two storages agree.\<close>

definition audit_frame :: "storage \<Rightarrow> storage \<Rightarrow> bool" where
  "audit_frame s s' =
     (sto_list s' AUDIT_HISTORY_PREFIX = sto_list s AUDIT_HISTORY_PREFIX
      \<and> (\<forall>ev. sto_get s' (streamLastHashKey ev) = sto_get s (streamLastHashKey ev)))"

inductive audit_reach :: "(string \<Rightarrow> string) \<Rightarrow> Env \<Rightarrow> storage \<Rightarrow> js list \<Rightarrow> int \<Rightarrow> bool" for H env where
  start: "sto_ok s \<Longrightarrow> sto_list s AUDIT_HISTORY_PREFIX = [] \<Longrightarrow> (\<forall>ev. sto_get s (streamLastHashKey ev) = JUndef)
            \<Longrightarrow> audit_reach H env s [] 0"
| append: "audit_reach H env s entries t \<Longrightarrow> t < nowMs \<Longrightarrow> iso_range nowMs \<Longrightarrow> eventId \<noteq> [] \<Longrightarrow> eventId \<noteq> ''global'' \<Longrightarrow>
            integral_numbers actor \<Longrightarrow> integral_numbers data \<Longrightarrow>
            appendAuditLog H env svc s nowMs event actor data eventId = Inr (s', e) \<Longrightarrow>
            audit_reach H env s' (e # entries) nowMs"
| other: "audit_reach H env s entries t \<Longrightarrow> sto_ok s' \<Longrightarrow> audit_frame s s' \<Longrightarrow> audit_reach H env s' entries t"

section \<open>Entries as they are written\<close>

definition entry_wf :: "(string \<Rightarrow> string) \<Rightarrow> js \<Rightarrow> bool" where
  "entry_wf H e = (\<exists>ms event ev actor data p sp rest.
     e = JObj (auditBaseEntry (js_toISOString ms) event ev actor data (JStr p) (JStr sp)
               @ (''entry_hash'', JStr (H (canonicalize (JObj (auditBaseEntry (js_toISOString ms) event ev actor data (JStr p) (JStr sp))))))
               # rest)
     \<and> iso_range ms \<and> ev \<noteq> [] \<and> p \<noteq> [] \<and> integral_numbers actor \<and> integral_numbers data)"

lemma base_hashInput:
  "buildAuditHashInput (JObj (auditBaseEntry ts event ev actor data (JStr p) (JStr sp) @ rest))
     = auditBaseEntry ts event ev actor data (JStr p) (JStr sp)"
  by (simp add: buildAuditHashInput_def auditBaseEntry_def is_string_def)

lemma wf_facts:
  assumes "entry_wf H e"
  shows "hashOf e = JStr (H (auditText e))" "shapeIssue e = None" "hashIssues H e = []"
    "streamPrevWalk e = streamPrev e" "integral_numbers (JObj (buildAuditHashInput e))"
  using assms unfolding entry_wf_def
  by (auto simp: hashOf_def auditText_def base_hashInput shapeIssue_def hashIssues_def is_text_def is_string_def
      eventOf_def auditBaseEntry_def streamPrevWalk_def streamPrev_def js_or_genesis_def is_obj.simps
      buildAuditHashInput_def)

definition tsOf :: "js \<Rightarrow> js" where
  "tsOf e = jget e ''ts''"

lemma wf_distinct_texts:
  assumes "entry_wf H e" "entry_wf H f" "tsOf e = JStr x" "tsOf f = JStr y" "x \<noteq> y"
  shows "auditText e \<noteq> auditText f"
proof
  assume "auditText e = auditText f"
  then have "auditContent e = auditContent f" using wf_facts(5) assms(1,2) by (intro text_content) auto
  then have "json_content (tsOf e) = json_content (tsOf f)"
    unfolding tsOf_def by (rule content_ts)
  then have "json_content (JStr x) = JStr y" using assms(3,4) by (metis json_content_str)
  then show False using assms(5) by simp
qed

section \<open>The invariant\<close>

definition chained :: "(js \<Rightarrow> js) \<Rightarrow> js list \<Rightarrow> bool" where
  "chained prev es =
     (distinct (map hashOf es) \<and> GENESIS \<notin> hashOf ` set es \<and> successively (\<lambda>e f. prev e = hashOf f) es
      \<and> (es \<noteq> [] \<longrightarrow> prev (last es) = GENESIS))"

lemma chained_take:
  assumes "chained prev es"
  shows "linked prev (take n es)"
proof -
  have split: "es = take n es @ drop n es" by simp
  have d: "distinct (map hashOf (take n es))" "GENESIS \<notin> hashOf ` set (take n es)"
    using assms by (auto simp: chained_def take_map [symmetric] dest: in_set_takeD)
  have s: "successively (\<lambda>e f. prev e = hashOf f) (take n es)"
    using assms by (metis chained_def split successively_append_iff)
  have "prev (last (take n es)) \<notin> hashOf ` set (take n es)" if "take n es \<noteq> []"
  proof (cases "drop n es")
    case Nil
    then have "take n es = es" by simp
    then show ?thesis using assms d(2) that by (auto simp: chained_def)
  next
    case (Cons f rest)
    define xs where "xs = take n es"
    have "chained prev (xs @ f # rest)" using assms split Cons unfolding xs_def by metis
    then have "prev (last xs) = hashOf f \<and> hashOf f \<notin> hashOf ` set xs"
      using that by (auto simp: chained_def successively_append_iff xs_def [symmetric])
    then show ?thesis by (auto simp: xs_def)
  qed
  with d s show ?thesis by (simp add: linked_def)
qed

lemma chained_Cons:
  assumes "chained prev es" "hashOf e \<notin> hashOf ` set es" "hashOf e \<noteq> GENESIS"
    and "prev e = (case es of [] \<Rightarrow> GENESIS | f # _ \<Rightarrow> hashOf f)"
  shows "chained prev (e # es)"
  using assms by (cases es) (auto simp: chained_def)

text \<open>The hash function on the entries of a run: no collision, and no output that means something else.\<close>

definition hash_ok :: "(string \<Rightarrow> string) \<Rightarrow> js list \<Rightarrow> bool" where
  "hash_ok H es = (no_collision H es \<and> (\<forall>e \<in> set es. H (auditText e) \<noteq> ''GENESIS'' \<and> H (auditText e) \<noteq> []))"

definition lastHash :: "js list \<Rightarrow> js" where
  "lastHash es = (case es of [] \<Rightarrow> JUndef | e # _ \<Rightarrow> hashOf e)"

definition streamOf :: "string \<Rightarrow> js list \<Rightarrow> js list" where
  "streamOf ev es = filter (\<lambda>e. eventOf e = JStr ev) es"

definition historyRow :: "js \<Rightarrow> string \<times> js" where
  "historyRow e = (auditHistoryKey (js_to_string (tsOf e)) (js_to_string (hashOf e)), e)"

definition audit_inv :: "(string \<Rightarrow> string) \<Rightarrow> storage \<Rightarrow> js list \<Rightarrow> int \<Rightarrow> bool" where
  "audit_inv H s es t =
     (sto_ok s
      \<and> list_all (entry_wf H) es
      \<and> (\<forall>e \<in> set es. \<exists>ms. tsOf e = JStr (js_toISOString ms) \<and> iso_range ms \<and> ms \<le> t)
      \<and> sto_list s AUDIT_HISTORY_PREFIX = map historyRow (rev es)
      \<and> sto_get s AUDIT_LAST_HASH_GLOBAL_KEY = lastHash es
      \<and> (\<forall>ev. ev \<noteq> ''global'' \<longrightarrow> sto_get s (streamLastHashKey ev) = lastHash (streamOf ev es))
      \<and> chained globalPrev es
      \<and> (\<forall>ev. chained streamPrev (streamOf ev es)))"

section \<open>Appending keeps the invariant\<close>

lemma append_result:
  assumes "appendAuditLog H env svc s nowMs event actor data eventId = Inr (s', e)"
  obtains gp sp rest where
    "gp = js_or_genesis (sto_get s AUDIT_LAST_HASH_GLOBAL_KEY)" "sp = js_or_genesis (sto_get s (streamLastHashKey eventId))"
    "e = JObj (auditBaseEntry (js_toISOString nowMs) event eventId actor data gp sp
               @ (''entry_hash'', JStr (H (canonicalize (JObj (auditBaseEntry (js_toISOString nowMs) event eventId actor data gp sp))))) # rest)"
    "s' = sto_put (sto_put (sto_put (sto_put s AUDIT_LAST_HASH_GLOBAL_KEY (hashOf e)) (streamLastHashKey eventId) (hashOf e))
            (auditHistoryKey (js_toISOString nowMs) (js_to_string (hashOf e))) e) (auditEntryByHashKey (js_to_string (hashOf e))) e"
proof -
  let ?b = "auditBaseEntry (js_toISOString nowMs) event eventId actor data
              (js_or_genesis (sto_get s AUDIT_LAST_HASH_GLOBAL_KEY)) (js_or_genesis (sto_get s (streamLastHashKey eventId)))"
  have h: "hashOf (JObj (?b @ (''entry_hash'', JStr x) # r)) = JStr x" for x r
    by (simp add: hashOf_def auditBaseEntry_def)
  obtain receipt where "persistImmutableAuditEntry H env svc nowMs (getAuditImmutableMode env) IMMUTABLE_AUDIT_SOURCE
      (JObj (?b @ [(''entry_hash'', JStr (H (canonicalize (JObj ?b))))])) = Inr receipt"
    using assms by (auto simp: appendAuditLog_def Let_def split: sum.splits)
  with assms that [OF refl refl, of "case receipt of Some r \<Rightarrow> [(''immutable'', r)] | None \<Rightarrow> []"] h
  show thesis by (cases receipt) (auto simp: appendAuditLog_def Let_def)
qed

lemma key_prefixes:
  "\<not> prefix AUDIT_HISTORY_PREFIX (streamLastHashKey ev)"
  "\<not> prefix AUDIT_HISTORY_PREFIX AUDIT_LAST_HASH_GLOBAL_KEY"
  "\<not> prefix AUDIT_HISTORY_PREFIX (auditEntryByHashKey h)"
  "prefix AUDIT_HISTORY_PREFIX (auditHistoryKey ts h)"
  "streamLastHashKey ev \<noteq> auditHistoryKey ts h" "streamLastHashKey ev \<noteq> auditEntryByHashKey h"
  "streamLastHashKey ev = AUDIT_LAST_HASH_GLOBAL_KEY \<longleftrightarrow> ev = ''global''"
  "AUDIT_LAST_HASH_GLOBAL_KEY = streamLastHashKey ev \<longleftrightarrow> ev = ''global''"
  "streamLastHashKey ev = streamLastHashKey ev' \<longleftrightarrow> ev = ev'"
  "AUDIT_LAST_HASH_GLOBAL_KEY \<noteq> auditHistoryKey ts h" "AUDIT_LAST_HASH_GLOBAL_KEY \<noteq> auditEntryByHashKey h"
  by (auto simp: AUDIT_HISTORY_PREFIX_def streamLastHashKey_def AUDIT_LAST_HASH_GLOBAL_KEY_def auditEntryByHashKey_def
      auditHistoryKey_def AUDIT_ENTRY_PREFIX_def)

lemma history_key_less:
  "a < b \<Longrightarrow> iso_range a \<Longrightarrow> iso_range b \<Longrightarrow>
     auditHistoryKey (js_toISOString a) h < auditHistoryKey (js_toISOString b) h'"
  by (simp add: auditHistoryKey_def AUDIT_HISTORY_PREFIX_def append_less_iff js_toISOString_length js_toISOString_less)

lemma prev_hash_value:
  assumes "list_all (entry_wf H) es"
  shows "js_or_genesis (lastHash es) = (case es of [] \<Rightarrow> GENESIS | f # _ \<Rightarrow> hashOf f)"
  using assms wf_facts(1) by (cases es) (auto simp: lastHash_def js_or_genesis_def GENESIS_def)

lemma prev_hash_text:
  assumes "list_all (entry_wf H) es" "hash_ok H es"
  shows "\<exists>p. js_or_genesis (lastHash es) = JStr p \<and> p \<noteq> []"
proof (cases es)
  case (Cons f fs)
  then have "hashOf f = JStr (H (auditText f))" "H (auditText f) \<noteq> []" using assms wf_facts(1) by (auto simp: hash_ok_def)
  with Cons prev_hash_value [OF assms(1)] show ?thesis by simp
qed (simp add: lastHash_def js_or_genesis_def)

lemma hash_ok_mono: "hash_ok H es \<Longrightarrow> set fs \<subseteq> set es \<Longrightarrow> hash_ok H fs"
  unfolding hash_ok_def using no_collision_mono by blast

lemma list_all_streamOf: "list_all P es \<Longrightarrow> list_all P (streamOf ev es)"
  by (auto simp: streamOf_def list_all_iff)

lemma append_storage:
  assumes ok: "sto_ok s" and h: "h = JStr x" and e: "e \<noteq> JUndef"
    and less: "\<forall>kv \<in> set (sto_list s AUDIT_HISTORY_PREFIX). fst kv < auditHistoryKey ts x"
    and s': "s' = sto_put (sto_put (sto_put (sto_put s AUDIT_LAST_HASH_GLOBAL_KEY h) (streamLastHashKey eventId) h)
                    (auditHistoryKey ts x) e) (auditEntryByHashKey x) e"
  shows "sto_list s' AUDIT_HISTORY_PREFIX = sto_list s AUDIT_HISTORY_PREFIX @ [(auditHistoryKey ts x, e)]"
    and "sto_get s' AUDIT_LAST_HASH_GLOBAL_KEY = h"
    and "ev \<noteq> ''global'' \<Longrightarrow> sto_get s' (streamLastHashKey ev) = (if ev = eventId then h else sto_get s (streamLastHashKey ev))"
    and "sto_ok s'"
proof -
  have ok2: "sto_ok (sto_put (sto_put s AUDIT_LAST_HASH_GLOBAL_KEY h) (streamLastHashKey eventId) h)"
    using ok h by (simp add: sto_ok_put)
  show "sto_list s' AUDIT_HISTORY_PREFIX = sto_list s AUDIT_HISTORY_PREFIX @ [(auditHistoryKey ts x, e)]"
    unfolding s'
    by (subst sto_list_put_other, simp add: key_prefixes, subst sto_list_put_greatest [OF ok2])
       (simp_all add: key_prefixes sto_list_put_other less)
  show "sto_get s' AUDIT_LAST_HASH_GLOBAL_KEY = h" by (simp add: s' key_prefixes)
  show "ev \<noteq> ''global'' \<Longrightarrow> sto_get s' (streamLastHashKey ev) = (if ev = eventId then h else sto_get s (streamLastHashKey ev))"
    by (simp add: s' key_prefixes)
  show "sto_ok s'" using ok2 e by (simp add: s' sto_ok_put)
qed

lemma audit_inv_append:
  assumes inv: "audit_inv H s es t" and "t < nowMs" "iso_range nowMs" "eventId \<noteq> []" "eventId \<noteq> ''global''"
    and nums: "integral_numbers actor" "integral_numbers data"
    and app: "appendAuditLog H env svc s nowMs event actor data eventId = Inr (s', e)"
    and hok: "hash_ok H (e # es)"
  shows "audit_inv H s' (e # es) nowMs"
proof -
  note i = inv [unfolded audit_inv_def]
  have es: "hash_ok H es" "\<And>ev. hash_ok H (streamOf ev es)"
    using hok by (auto intro: hash_ok_mono simp: streamOf_def)
  have wfs: "list_all (entry_wf H) es" using i by blast
  obtain p where p: "js_or_genesis (lastHash es) = JStr p" "p \<noteq> []" using prev_hash_text [OF wfs es(1)] by blast
  obtain sp where sp: "js_or_genesis (lastHash (streamOf eventId es)) = JStr sp"
    using prev_hash_text [OF list_all_streamOf [OF wfs] es(2)] by blast
  have gpv: "js_or_genesis (sto_get s AUDIT_LAST_HASH_GLOBAL_KEY) = JStr p"
    and spv: "js_or_genesis (sto_get s (streamLastHashKey eventId)) = JStr sp"
    using i p(1) sp assms(5) by auto
  obtain rest where e: "e = JObj (auditBaseEntry (js_toISOString nowMs) event eventId actor data (JStr p) (JStr sp)
        @ (''entry_hash'', JStr (H (canonicalize (JObj (auditBaseEntry (js_toISOString nowMs) event eventId actor data (JStr p) (JStr sp)))))) # rest)"
    and s': "s' = sto_put (sto_put (sto_put (sto_put s AUDIT_LAST_HASH_GLOBAL_KEY (hashOf e)) (streamLastHashKey eventId) (hashOf e))
            (auditHistoryKey (js_toISOString nowMs) (js_to_string (hashOf e))) e) (auditEntryByHashKey (js_to_string (hashOf e))) e"
    using append_result [OF app] gpv spv by metis
  have wf: "entry_wf H e" unfolding entry_wf_def using e assms(3,4) p(2) nums by blast
  have fields: "tsOf e = JStr (js_toISOString nowMs)" "eventOf e = JStr eventId" "globalPrev e = JStr p" "streamPrev e = JStr sp"
    by (simp_all add: e tsOf_def eventOf_def globalPrev_def streamPrev_def js_or_genesis_def auditBaseEntry_def)
  have hash: "hashOf e = JStr (H (auditText e))" by (rule wf_facts(1) [OF wf])
  have fresh: "hashOf e \<notin> hashOf ` set es"
  proof
    assume "hashOf e \<in> hashOf ` set es"
    then obtain f where f: "f \<in> set es" "hashOf e = hashOf f" by auto
    then have wff: "entry_wf H f" using wfs by (simp add: list_all_iff)
    obtain ms where ms: "tsOf f = JStr (js_toISOString ms)" "iso_range ms" "ms \<le> t" using i f(1) by blast
    have "js_toISOString ms \<noteq> js_toISOString nowMs" using js_toISOString_less [of ms nowMs] ms assms(2,3) by auto
    then have "auditText e \<noteq> auditText f" using wf_distinct_texts [OF wf wff fields(1) ms(1)] by simp
    moreover have "H (auditText e) = H (auditText f)" using f(2) hash wf_facts(1) [OF wff] by simp
    ultimately show False using hok f(1) no_collisionD [of H "e # es" e f] by (auto simp: hash_ok_def)
  qed
  have notgen: "hashOf e \<noteq> GENESIS" using hok hash by (auto simp: hash_ok_def GENESIS_def)
  have obj: "e \<noteq> JUndef" "hashOf e \<noteq> JUndef" using e hash by auto
  have chain_g: "chained globalPrev (e # es)"
    using i fresh notgen fields(3) p(1) prev_hash_value [OF wfs] by (intro chained_Cons) auto
  have chain_s: "chained streamPrev (streamOf ev (e # es))" for ev
  proof (cases "ev = eventId")
    case True
    have "chained streamPrev (e # streamOf eventId es)"
      using i fresh notgen fields(4) sp prev_hash_value [OF list_all_streamOf [OF wfs]]
      by (intro chained_Cons) (auto simp: streamOf_def)
    then show ?thesis using True fields(2) by (simp add: streamOf_def)
  next
    case False
    then show ?thesis using i fields(2) by (auto simp: streamOf_def)
  qed
  have less: "\<forall>kv \<in> set (sto_list s AUDIT_HISTORY_PREFIX). fst kv < auditHistoryKey (js_toISOString nowMs) (js_to_string (hashOf e))"
  proof
    fix kv assume "kv \<in> set (sto_list s AUDIT_HISTORY_PREFIX)"
    then obtain f where f: "f \<in> set es" "kv = historyRow f" using i by auto
    obtain ms where "tsOf f = JStr (js_toISOString ms)" "iso_range ms" "ms \<le> t" using i f(1) by blast
    then show "fst kv < auditHistoryKey (js_toISOString nowMs) (js_to_string (hashOf e))"
      using f(2) assms(2,3) by (simp add: historyRow_def history_key_less)
  qed
  have st: "sto_list s' AUDIT_HISTORY_PREFIX = sto_list s AUDIT_HISTORY_PREFIX @ [historyRow e]"
    "sto_get s' AUDIT_LAST_HASH_GLOBAL_KEY = hashOf e" "sto_ok s'"
    "\<And>ev. ev \<noteq> ''global'' \<Longrightarrow>
       sto_get s' (streamLastHashKey ev) = (if ev = eventId then hashOf e else sto_get s (streamLastHashKey ev))"
    using append_storage [of s "hashOf e" "js_to_string (hashOf e)" e "js_toISOString nowMs" s' eventId] i less s' hash obj(1) fields(1)
    by (auto simp: historyRow_def)
  have "\<forall>f \<in> set (e # es). \<exists>ms. tsOf f = JStr (js_toISOString ms) \<and> iso_range ms \<and> ms \<le> nowMs"
    using i fields(1) assms(2,3) by (metis order.order_iff_strict order_trans set_ConsD)
  then show ?thesis
    using i wf chain_g chain_s fields(2) st by (auto simp: audit_inv_def lastHash_def streamOf_def)
qed

lemma global_key: "sto_get s AUDIT_LAST_HASH_GLOBAL_KEY = sto_get s (streamLastHashKey ''global'')"
  by (metis key_prefixes(7))

lemma audit_inv_frame: "audit_inv H s es t \<Longrightarrow> sto_ok s' \<Longrightarrow> audit_frame s s' \<Longrightarrow> audit_inv H s' es t"
  by (simp add: audit_inv_def audit_frame_def global_key)

lemma audit_reach_inv: "audit_reach H env s es t \<Longrightarrow> hash_ok H es \<Longrightarrow> audit_inv H s es t"
proof (induction rule: audit_reach.induct)
  case (start s)
  then show ?case by (simp add: audit_inv_def lastHash_def streamOf_def chained_def global_key)
next
  case (append s es t nowMs eventId actor data svc event s' e)
  moreover from this have "hash_ok H es" using hash_ok_mono [of H "e # es" es] by auto
  ultimately have "audit_inv H s es t" by blast
  with append show ?case by (intro audit_inv_append)
next
  case (other s es t s')
  then show ?case by (auto intro: audit_inv_frame)
qed

section \<open>The worker's own chain is reported intact\<close>

lemma checkEntries_wf: "list_all (entry_wf H) es \<Longrightarrow> checkEntries H env svc False es = Inr ([], [], es)"
  by (induction es) (auto simp: wf_facts add_new_def)

lemma filter_take_take: "\<exists>m. filter P (take n xs) = take m (filter P xs)"
proof
  have "filter P xs = filter P (take n xs) @ filter P (drop n xs)" by (simp flip: filter_append)
  then show "filter P (take n xs) = take (length (filter P (take n xs))) (filter P xs)" by simp
qed

lemma streams_clean:
  assumes "audit_inv H s es t" "(ev, b) \<in> set (groupByEvent (take n es))"
  shows "checkStreamChain ev b = []"
proof -
  have b: "b = filter (\<lambda>e. eventOf e = ev) (take n es)" "b \<noteq> []" using assms(2) by (auto simp: groupByEvent_iff)
  have wf: "list_all (entry_wf H) es" using assms(1) by (simp add: audit_inv_def)
  then have bwf: "entry_wf H e" if "e \<in> set b" for e
    using that b(1) by (auto simp: list_all_iff dest: in_set_takeD)
  obtain e where e: "e \<in> set b" using b(2) by (cases b) auto
  have "is_string (eventOf e)"
    using bwf [OF e] unfolding entry_wf_def by (auto simp: eventOf_def auditBaseEntry_def is_string_def)
  then obtain x where x: "ev = JStr x" using e b(1) by (auto simp: is_string_def split: js.splits)
  obtain m where "b = take m (streamOf x es)"
    using filter_take_take [of "\<lambda>e. eventOf e = ev" n es] b(1) x by (auto simp: streamOf_def)
  moreover have "chained streamPrev (streamOf x es)" using assms(1) by (simp add: audit_inv_def)
  ultimately have "linked streamPrev b" by (simp add: chained_take)
  then show ?thesis using bwf b(2) wf_facts(4) by (intro linked_stream) auto
qed

lemma window_of_inv: "audit_inv H s es t \<Longrightarrow> auditWindow s limit = take limit es"
  by (simp add: audit_inv_def auditWindow_def sto_list_rev_def rev_map [symmetric] take_map [symmetric] comp_def historyRow_def)

lemma own_chain_report:
  assumes "audit_reach H env s entries t" "hash_ok H entries"
  shows "\<exists>rep. verifyAuditIntegrity H env svc s limit False nowMs = Inr rep \<and> ar_ok rep
           \<and> auditWindow s limit = take limit entries \<and> ar_checked rep = length (take limit entries)
           \<and> (limit > 0 \<longrightarrow> entries \<noteq> [] \<longrightarrow> ar_globalHead rep = hashOf (hd entries))"
proof -
  have inv: "audit_inv H s entries t" by (rule audit_reach_inv [OF assms])
  let ?w = "take limit entries"
  have win: "map snd (sto_list_rev s AUDIT_HISTORY_PREFIX limit) = ?w" using window_of_inv [OF inv] by (simp add: auditWindow_def)
  have "list_all (entry_wf H) ?w" using inv by (auto simp: audit_inv_def list_all_iff dest: in_set_takeD)
  then have ce: "checkEntries H env svc False ?w = Inr ([], [], ?w)" by (rule checkEntries_wf)
  have lk: "linked globalPrev ?w" using inv by (auto simp: audit_inv_def intro: chained_take)
  obtain head oldest where g: "checkGlobalChain ?w = ([], head, oldest)" using linked_global [OF lk] by (metis prod.collapse)
  have head: "head = Some (hd entries)" if "limit > 0" "entries \<noteq> []"
  proof -
    have w: "?w = hd entries # tl ?w" using that by (cases entries; cases limit) auto
    have "chainHeads globalPrev ?w = [hd entries]" using linked_heads [of globalPrev "hd entries" "tl ?w"] lk w by metis
    with g show ?thesis by (auto simp: checkGlobalChain_def Let_def split: prod.splits)
  qed
  have "concat (map (\<lambda>(ev, es). checkStreamChain ev es) (groupByEvent ?w)) = []"
    using streams_clean [OF inv] by (auto simp: concat_eq_Nil_conv)
  then show ?thesis
    using window_of_inv [OF inv, of limit] head by (simp add: verifyAuditIntegrity_def win ce g Let_def)
qed

text \<open>
  C11. The chain the worker writes passes its own check: after any run in which the clock advances from entry to entry,
  no event is called \<open>global\<close> and the logged actors and data have integer numbers, the integrity report over any window,
  asked without the check of the immutable copies, has no issue, its head is the newest entry, and the window is the
  newest entries in order. The digest must not collide on the entries of the run, and must be neither empty nor the word
  \<open>GENESIS\<close>.
\<close>

theorem audit_own_chain_intact:
  assumes "audit_reach H env s entries t" "hash_ok H entries"
  shows "\<exists>rep. verifyAuditIntegrity H env svc s limit False nowMs = Inr rep \<and> ar_ok rep
           \<and> auditWindow s limit = take limit entries
           \<and> (limit > 0 \<longrightarrow> entries \<noteq> [] \<longrightarrow> ar_globalHead rep = hashOf (hd entries))"
  using own_chain_report [OF assms] by blast

section \<open>Examples\<close>

text \<open>A worker without immutable copies, whose digest is the text itself.\<close>

definition offEnv :: Env where
  "offEnv = emptyEnv\<lparr>AUDIT_IMMUTABLE_MODE := Some ''off''\<rparr>"

lemma offEnv_mode: "getAuditImmutableMode offEnv = ModeOff"
  by code_simp

lemma auditText_start: "\<exists>r. auditText e = CHR ''{'' # r"
  by (simp add: auditText_def canonicalize_def JSON_stringify_def)

lemma hash_ok_text: "hash_ok (\<lambda>x. x) es"
proof -
  have "auditText e \<noteq> ''GENESIS'' \<and> auditText e \<noteq> []" for e
    using auditText_start [of e] by (elim exE) simp
  then show ?thesis by (simp add: hash_ok_def no_collision_def)
qed

lemma append_off: "\<exists>s' e. appendAuditLog H offEnv svc s nowMs event actor data eventId = Inr (s', e)"
  by (simp add: appendAuditLog_def persist_off offEnv_mode Let_def)

lemma append_off_plain:
  assumes "appendAuditLog H offEnv svc s nowMs event actor data eventId = Inr (s', e)"
    and "integral_numbers actor" "distinct_names actor" "integral_numbers data" "distinct_names data"
    and "sto_get s AUDIT_LAST_HASH_GLOBAL_KEY = JUndef \<or> is_string (sto_get s AUDIT_LAST_HASH_GLOBAL_KEY)"
  shows "plain_entries [e]"
proof -
  let ?prev = "js_or_genesis (sto_get s AUDIT_LAST_HASH_GLOBAL_KEY)"
  have p: "integral_numbers ?prev \<and> distinct_names ?prev"
    using assms(6) by (auto simp: js_or_genesis_def is_string_def split: js.splits)
  show "plain_entries [e]"
    using assms(1-5) p by (auto simp: appendAuditLog_def persist_off offEnv_mode auditBaseEntry_def plain_entries_def auditFields_def Let_def)
qed

text \<open>A run of two entries, and the same log beside another stored key.\<close>

lemma sample_run:
  obtains s e f where "audit_reach (\<lambda>x. x) offEnv s [f, e] 2000"
    "audit_reach (\<lambda>x. x) offEnv (sto_put s ''user:u'' JNull) [f, e] 2000" "plain_entries [f, e]"
proof -
  have r0: "audit_reach (\<lambda>x. x) offEnv [] [] 0"
    by (rule audit_reach.start) (simp_all add: sto_ok_def sto_list_def)
  obtain s1 e where a: "appendAuditLog (\<lambda>x. x) offEnv noServices [] 1000 ''LOGIN'' (JStr ''a'') JNull ''evt-1'' = Inr (s1, e)"
    using append_off by blast
  have r1: "audit_reach (\<lambda>x. x) offEnv s1 [e] 1000"
    by (rule audit_reach.append [OF r0 _ _ _ _ _ _ a]) (simp_all add: iso_range_def)
  obtain s f where b: "appendAuditLog (\<lambda>x. x) offEnv noServices s1 2000 ''CLAIM'' (JStr ''b'') JNull ''evt-1'' = Inr (s, f)"
    using append_off by blast
  have r2: "audit_reach (\<lambda>x. x) offEnv s [f, e] 2000"
    by (rule audit_reach.append [OF r1 _ _ _ _ _ _ b]) (simp_all add: iso_range_def)
  have "is_string (sto_get s1 AUDIT_LAST_HASH_GLOBAL_KEY)"
    using audit_reach_inv [OF r1 hash_ok_text] wf_facts(1) by (auto simp: audit_inv_def lastHash_def is_string_def)
  then have "plain_entries [e]" "plain_entries [f]" using append_off_plain [OF a] append_off_plain [OF b] by (simp_all add: sto_get_def)
  then have "plain_entries [f, e]" by (simp add: plain_entries_def)
  moreover have "audit_frame s (sto_put s ''user:u'' JNull)"
    by (simp add: audit_frame_def sto_list_put_other AUDIT_HISTORY_PREFIX_def streamLastHashKey_def)
  moreover have "sto_ok (sto_put s ''user:u'' JNull)"
    using audit_reach_inv [OF r2 hash_ok_text] by (simp add: audit_inv_def sto_ok_put)
  ultimately show thesis using that [OF r2] audit_reach.other [OF r2] by blast
qed

theorem audit_report_sound_witness:
  "\<exists>s chain. length (auditWindow s 5) = 2 \<and> mset chain = mset (auditWindow s 5)
     \<and> successively (\<lambda>e f. globalPrev e = hashOf f) chain"
proof -
  obtain s e f where "audit_reach (\<lambda>x. x) offEnv s [f, e] 2000" by (rule sample_run)
  from own_chain_report [OF this hash_ok_text, of noServices 5 9000] obtain rep where
    r: "verifyAuditIntegrity (\<lambda>x. x) offEnv noServices s 5 False 9000 = Inr rep" "ar_ok rep" "auditWindow s 5 = [f, e]" by auto
  from audit_report_sound [OF r(1,2)] r(3) show ?thesis by (metis length_Cons list.size(3) numeral_2_eq_2)
qed


theorem audit_own_chain_intact_witness:
  "\<exists>s entries rep. length entries = 2 \<and> audit_reach (\<lambda>x. x) offEnv s entries 2000
     \<and> verifyAuditIntegrity (\<lambda>x. x) offEnv noServices s 7 False 9000 = Inr rep \<and> ar_ok rep"
proof -
  obtain s e f where run: "audit_reach (\<lambda>x. x) offEnv s [f, e] 2000" by (rule sample_run)
  from audit_own_chain_intact [OF this hash_ok_text, of noServices 7 9000] run show ?thesis
    by (metis length_Cons list.size(3) numeral_2_eq_2)
qed

section \<open>Two ways to a false alarm\<close>

text \<open>
  Small logs to evaluate: the digest is the first letter of the actor, and every entry has an actor of
  its own. An entry is given by its time, its actor and its event.
\<close>

definition sampleDigest :: "string \<Rightarrow> string" where
  "sampleDigest x = take 1 (drop 10 x)"

definition sampleAppend :: "int \<times> string \<times> string \<Rightarrow> storage \<Rightarrow> storage" where
  "sampleAppend = (\<lambda>(nowMs, actor, eventId) s.
     case appendAuditLog sampleDigest offEnv noServices s nowMs ''X'' (JStr actor) JNull eventId of
       Inr (s', e) \<Rightarrow> s' | Inl _ \<Rightarrow> s)"

definition sampleReport :: "(int \<times> string \<times> string) list \<Rightarrow> nat \<Rightarrow> AuditIntegrityReport or_error" where
  "sampleReport xs limit =
     verifyAuditIntegrity sampleDigest offEnv noServices (fold sampleAppend xs []) limit False 9000"

definition reported :: "bool \<Rightarrow> AuditIntegrityReport or_error \<Rightarrow> bool" where
  "reported ok r = (case r of Inr rep \<Rightarrow> ar_ok rep = ok | Inl _ \<Rightarrow> False)"

lemma tie_small_window:
  "reported False (sampleReport [(1000, ''b'', ''e''), (1000, ''a'', ''e''), (2000, ''c'', ''e'')] 2)"
  by code_simp

lemma tie_large_window:
  "reported True (sampleReport [(1000, ''b'', ''e''), (1000, ''a'', ''e''), (2000, ''c'', ''e'')] 3)"
  by code_simp

text \<open>
  The report depends on the clock: entries written in the same millisecond are listed by hash, not
  in the order of the chain, and when the edge of the window falls between them an untouched log is
  reported as broken. The same log over a larger window is reported intact.
\<close>

theorem same_millisecond_false_alarm:
  "reported False (sampleReport [(1000, ''b'', ''e''), (1000, ''a'', ''e''), (2000, ''c'', ''e'')] 2)
   \<and> reported True (sampleReport [(1000, ''b'', ''e''), (1000, ''a'', ''e''), (2000, ''c'', ''e'')] 3)"
  using tie_small_window tie_large_window by blast

text \<open>
  The stream of an event called \<open>global\<close> shares its key with the global chain, so two entries for it
  with another entry before the second are reported as a broken stream although nothing was changed.
\<close>

theorem global_event_false_alarm:
  "reported False (sampleReport [(1000, ''a'', ''e''), (2000, ''b'', ''global''), (3000, ''c'', ''e''), (4000, ''d'', ''global'')] 9)"
  by code_simp

end
