(* ===== verification/Receipt_Spec.thy ===== *)
theory Receipt_Spec
  imports Ticket_Receipt Registry_Spec Audit_Runs
begin

text \<open>
  What a participation receipt is worth: a receipt survives storage and parsing, the receipt of an entry
  the worker appended is verified at any later time, and a verified receipt names an entry of the log.
\<close>

section \<open>Printing and parsing\<close>

definition text_field :: "string \<Rightarrow> bool" where
  "text_field t = (js_trim t = t \<and> t \<noteq> [])"

definition ref_field :: "string \<Rightarrow> bool" where
  "ref_field h = (h = ''GENESIS'' \<or> hex_digest h)"

definition sink_wf :: "SinkRef \<Rightarrow> bool" where
  "sink_wf k = (sr_sink k \<in> set SINK_NAMES \<and> text_field (sr_ref k) \<and> text_field (sr_at k))"

definition audit_wf :: "ReceiptAudit \<Rightarrow> bool" where
  "audit_wf a = (text_field (ra_event a) \<and> text_field (ra_eventId a) \<and> hex_digest (ra_entryHash a)
     \<and> ref_field (ra_prevHash a) \<and> ref_field (ra_streamPrevHash a)
     \<and> ra_immutableMode a \<in> {''off'', ''best_effort'', ''required''}
     \<and> pred_option hex_digest (ra_immutablePayloadHash a) \<and> list_all sink_wf (ra_immutableSinks a))"

definition receipt_wf :: "ParticipationTicketReceipt \<Rightarrow> bool" where
  "receipt_wf r = (hex_digest (pr_receiptId r) \<and> hex_digest (pr_receiptHash r) \<and> text_field (pr_issuedAt r)
     \<and> text_field (pr_confirmationCode r) \<and> hex_digest (pr_subjectCommitment r) \<and> text_field (pr_verifyEndpoint r)
     \<and> audit_wf (pr_audit r))"

lemma normalize_text: "text_field t \<Longrightarrow> normalizeStringField (JStr t) = Some t"
  by (simp add: text_field_def normalizeStringField_def)

lemma hex_text: "hex_digest h \<Longrightarrow> text_field h"
  by (simp add: text_field_def hex_digest_facts)

lemma ref_text: "ref_field h \<Longrightarrow> text_field h \<and> chain_ref h \<and> lower_ref h = h"
proof -
  have "text_field ''GENESIS''" by code_simp
  then show "ref_field h \<Longrightarrow> ?thesis"
    by (auto simp: ref_field_def chain_ref_def lower_ref_def hex_text hex_digest_facts)
qed

lemma sink_names_text: "list_all text_field SINK_NAMES"
  by code_simp

lemma parse_sink: "sink_wf k \<Longrightarrow> parseSink (sinkToJs k) = Some k"
  using sink_names_text
  by (auto simp: parseSink_def sinkToJs_def sink_wf_def list_all_iff normalize_text)

lemma all_some_map: "list_all (\<lambda>x. f x = Some (g x)) xs \<Longrightarrow> all_some (map f xs) = Some (map g xs)"
  by (induction xs) auto

lemma parse_sinks: "list_all sink_wf ks \<Longrightarrow> all_some (map parseSink (map sinkToJs ks)) = Some ks"
  using all_some_map [of "\<lambda>k. parseSink (sinkToJs k)" "\<lambda>k. k" ks] by (simp add: list_all_iff parse_sink comp_def)

lemma modes_text:
  "m \<in> {''off'', ''best_effort'', ''required''} \<Longrightarrow> text_field m \<and> js_lower m = m"
proof -
  have "list_all (\<lambda>m. text_field m \<and> js_lower m = m) [''off'', ''best_effort'', ''required'']" by code_simp
  then show "m \<in> {''off'', ''best_effort'', ''required''} \<Longrightarrow> ?thesis" by (auto simp: list_all_iff)
qed

lemma parse_payload_hash: "pred_option hex_digest h \<Longrightarrow> parsePayloadHash (jstr_null h) = h"
  by (cases h) (auto simp: parsePayloadHash_def jstr_null_def hex_digest_facts)

lemma parse_audit:
  assumes "audit_wf a"
  shows "parseReceiptAudit (receiptAuditToJs a) = Some a"
proof -
  note w = assms [unfolded audit_wf_def]
  have n: "normalizeStringField (JStr (ra_event a)) = Some (ra_event a)" "normalizeStringField (JStr (ra_eventId a)) = Some (ra_eventId a)"
    "normalizeStringField (JStr (ra_entryHash a)) = Some (ra_entryHash a)" "normalizeStringField (JStr (ra_prevHash a)) = Some (ra_prevHash a)"
    "normalizeStringField (JStr (ra_streamPrevHash a)) = Some (ra_streamPrevHash a)"
    "normalizeStringField (JStr (ra_immutableMode a)) = Some (ra_immutableMode a)"
    using w modes_text ref_text hex_text by (simp_all add: normalize_text)
  have h: "isHashHex (ra_entryHash a)" "js_lower (ra_entryHash a) = ra_entryHash a" "chain_ref (ra_prevHash a)"
    "chain_ref (ra_streamPrevHash a)" "lower_ref (ra_prevHash a) = ra_prevHash a" "lower_ref (ra_streamPrevHash a) = ra_streamPrevHash a"
    "js_lower (ra_immutableMode a) = ra_immutableMode a" "pred_option isHashHex (ra_immutablePayloadHash a)"
    using w modes_text ref_text hex_digest_facts by (auto simp: pred_option_def)
  have m: "ra_immutableMode a = ''off'' \<or> ra_immutableMode a = ''best_effort'' \<or> ra_immutableMode a = ''required''"
    using w by auto
  have f: "jget (receiptAuditToJs a) ''event'' = JStr (ra_event a)" "jget (receiptAuditToJs a) ''eventId'' = JStr (ra_eventId a)"
    "jget (receiptAuditToJs a) ''entryHash'' = JStr (ra_entryHash a)" "jget (receiptAuditToJs a) ''prevHash'' = JStr (ra_prevHash a)"
    "jget (receiptAuditToJs a) ''streamPrevHash'' = JStr (ra_streamPrevHash a)"
    "jget (receiptAuditToJs a) ''immutableMode'' = JStr (ra_immutableMode a)"
    "jget (receiptAuditToJs a) ''immutablePayloadHash'' = jstr_null (ra_immutablePayloadHash a)"
    "jget (receiptAuditToJs a) ''immutableSinks'' = JArr (map sinkToJs (ra_immutableSinks a))" "is_obj (receiptAuditToJs a) = True"
    by (simp_all add: receiptAuditToJs_def)
  have s: "all_some (map parseSink (map sinkToJs (ra_immutableSinks a))) = Some (ra_immutableSinks a)"
    "parsePayloadHash (jstr_null (ra_immutablePayloadHash a)) = ra_immutablePayloadHash a"
    using w parse_sinks parse_payload_hash by auto
  show ?thesis using m unfolding parseReceiptAudit_def f n s Let_def option.case prod.case js.case h(2,5-7)
    by (simp add: h)
qed

lemma parse_receipt:
  assumes "receipt_wf r"
  shows "parseParticipationTicketReceipt (receiptToJs r) = Some r"
proof -
  note w = assms [unfolded receipt_wf_def]
  have n: "normalizeStringField (JStr (pr_receiptId r)) = Some (pr_receiptId r)" "normalizeStringField (JStr (pr_receiptHash r)) = Some (pr_receiptHash r)"
    "normalizeStringField (JStr (pr_issuedAt r)) = Some (pr_issuedAt r)" "normalizeStringField (JStr (pr_confirmationCode r)) = Some (pr_confirmationCode r)"
    "normalizeStringField (JStr (pr_subjectCommitment r)) = Some (pr_subjectCommitment r)"
    "normalizeStringField (JStr (pr_verifyEndpoint r)) = Some (pr_verifyEndpoint r)"
    using w hex_text by (simp_all add: normalize_text)
  have f: "jget (receiptToJs r) ''version'' = PARTICIPATION_TICKET_RECEIPT_VERSION"
    "jget (receiptToJs r) ''type'' = JStr PARTICIPATION_TICKET_RECEIPT_TYPE" "jget (receiptToJs r) ''receiptId'' = JStr (pr_receiptId r)"
    "jget (receiptToJs r) ''receiptHash'' = JStr (pr_receiptHash r)" "jget (receiptToJs r) ''issuedAt'' = JStr (pr_issuedAt r)"
    "jget (receiptToJs r) ''confirmationCode'' = JStr (pr_confirmationCode r)"
    "jget (receiptToJs r) ''subjectCommitment'' = JStr (pr_subjectCommitment r)"
    "jget (receiptToJs r) ''verifyEndpoint'' = JStr (pr_verifyEndpoint r)" "jget (receiptToJs r) ''audit'' = receiptAuditToJs (pr_audit r)"
    "is_obj (receiptToJs r) = True"
    by (simp_all add: receiptToJs_def receiptBase_def)
  have "parseReceiptAudit (receiptAuditToJs (pr_audit r)) = Some (pr_audit r)" using w parse_audit by blast
  then show ?thesis unfolding parseParticipationTicketReceipt_def f n using w by (simp add: hex_digest_facts)
qed

section \<open>Issued receipts are verified\<close>

text \<open>
  The chain heads point at indexed entries: the global head at an entry with that hash, the head of a
  stream at an entry of that stream.
\<close>

definition head_ok :: "storage \<Rightarrow> string \<Rightarrow> (js \<Rightarrow> bool) \<Rightarrow> bool" where
  "head_ok s key P = (sto_get s key = JUndef \<or>
     (\<exists>h e. sto_get s key = JStr h \<and> hex_digest h \<and> sto_get s (auditEntryByHashKey h) = e \<and> is_obj e \<and> hashOf e = JStr h \<and> P e))"

definition index_ok :: "storage \<Rightarrow> bool" where
  "index_ok s = (head_ok s AUDIT_LAST_HASH_GLOBAL_KEY (\<lambda>e. True)
     \<and> (\<forall>ev. ev \<noteq> ''global'' \<longrightarrow> head_ok s (streamLastHashKey ev) (\<lambda>e. eventOf e = JStr ev)))"

text \<open>Indexed entries stay as they are.\<close>

definition index_grows :: "storage \<Rightarrow> storage \<Rightarrow> bool" where
  "index_grows s s' = (\<forall>h. sto_get s (auditEntryByHashKey h) \<noteq> JUndef \<longrightarrow>
     sto_get s' (auditEntryByHashKey h) = sto_get s (auditEntryByHashKey h))"

lemma lookup_direct:
  "hex_digest h \<Longrightarrow> is_obj (sto_get s (auditEntryByHashKey h)) \<Longrightarrow> hashOf (sto_get s (auditEntryByHashKey h)) = JStr h \<Longrightarrow>
     getAuditEntryByHash s h = Some (sto_get s (auditEntryByHashKey h))"
  by (simp add: getAuditEntryByHash_def hex_digest_facts hashOf_def is_string_def Let_def)

lemma head_ok_grows:
  "head_ok s key P \<Longrightarrow> index_grows s s' \<Longrightarrow> sto_get s' key = sto_get s key \<Longrightarrow> head_ok s' key P"
  unfolding head_ok_def index_grows_def by (metis is_obj.simps(3))

text \<open>Runs: entries are appended whose digest is new, and other parts of the worker write elsewhere.\<close>

inductive log_reach :: "(string \<Rightarrow> string) \<Rightarrow> Env \<Rightarrow> storage \<Rightarrow> bool" for H env where
  start: "(\<forall>ev. sto_get s (streamLastHashKey ev) = JUndef) \<Longrightarrow> log_reach H env s"
| append: "log_reach H env s \<Longrightarrow> eventId \<noteq> ''global'' \<Longrightarrow>
     appendAuditLog H env svc s nowMs event actor data eventId = Inr (s', e) \<Longrightarrow>
     sto_get s (auditEntryByHashKey (js_to_string (hashOf e))) = JUndef \<Longrightarrow> log_reach H env s'"
| other: "log_reach H env s \<Longrightarrow> index_grows s s' \<Longrightarrow>
     (\<forall>ev. sto_get s' (streamLastHashKey ev) = sto_get s (streamLastHashKey ev)) \<Longrightarrow> log_reach H env s'"

lemma entry_key_other: "auditEntryByHashKey h \<noteq> AUDIT_LAST_HASH_GLOBAL_KEY" "auditEntryByHashKey h \<noteq> streamLastHashKey ev"
  "auditEntryByHashKey h \<noteq> auditHistoryKey ts x" "auditEntryByHashKey h = auditEntryByHashKey h' \<longleftrightarrow> h = h'"
  by (simp_all add: key_defs prefix_defs AUDIT_LAST_HASH_GLOBAL_KEY_def)

lemma append_index:
  assumes "appendAuditLog H env svc s nowMs event actor data eventId = Inr (s', e)"
    and "sto_get s (auditEntryByHashKey (js_to_string (hashOf e))) = JUndef"
  shows "index_grows s s'" "sto_get s' (auditEntryByHashKey (js_to_string (hashOf e))) = e" "is_obj e"
    "sto_get s' AUDIT_LAST_HASH_GLOBAL_KEY = hashOf e" "eventOf e = JStr eventId" "\<exists>x. hashOf e = JStr (H x)"
    "ev \<noteq> ''global'' \<Longrightarrow> sto_get s' (streamLastHashKey ev) = (if ev = eventId then hashOf e else sto_get s (streamLastHashKey ev))"
proof -
  obtain gp sp rest where
    e: "e = JObj (auditBaseEntry (js_toISOString nowMs) event eventId actor data gp sp
               @ (''entry_hash'', JStr (H (canonicalize (JObj (auditBaseEntry (js_toISOString nowMs) event eventId actor data gp sp))))) # rest)"
    and s': "s' = sto_put (sto_put (sto_put (sto_put s AUDIT_LAST_HASH_GLOBAL_KEY (hashOf e)) (streamLastHashKey eventId) (hashOf e))
            (auditHistoryKey (js_toISOString nowMs) (js_to_string (hashOf e))) e) (auditEntryByHashKey (js_to_string (hashOf e))) e"
    using append_result [OF assms(1)] by metis
  show "index_grows s s'" using assms(2) by (auto simp: s' index_grows_def entry_key_other)
  show "sto_get s' (auditEntryByHashKey (js_to_string (hashOf e))) = e" by (simp add: s')
  show "is_obj e" by (simp add: e)
  show "eventOf e = JStr eventId" by (simp add: e eventOf_def auditBaseEntry_def)
  show "\<exists>x. hashOf e = JStr (H x)" unfolding e hashOf_def auditBaseEntry_def by auto
  show "sto_get s' AUDIT_LAST_HASH_GLOBAL_KEY = hashOf e" by (simp add: s' key_prefixes)
  show "ev \<noteq> ''global'' \<Longrightarrow> sto_get s' (streamLastHashKey ev) = (if ev = eventId then hashOf e else sto_get s (streamLastHashKey ev))"
    by (simp add: s' key_prefixes)
qed

lemma log_reach_index:
  assumes "log_reach H env s" "\<forall>x. hex_digest (H x)"
  shows "index_ok s"
  using assms(1)
proof (induction rule: log_reach.induct)
  case (start s)
  then show ?case by (simp add: index_ok_def head_ok_def global_key)
next
  case (append s eventId svc nowMs event actor data s' e)
  note a = append_index [OF append.hyps(3,4)]
  obtain h where h: "hashOf e = JStr h" "hex_digest h" using a(6) assms(2) by auto
  have here: "head_ok s' key P" if "sto_get s' key = hashOf e" "P e" for key P
    using that a(2,3) h by (auto simp: head_ok_def)
  have "head_ok s' (streamLastHashKey ev) (\<lambda>e. eventOf e = JStr ev)" if "ev \<noteq> ''global''" for ev
  proof (cases "ev = eventId")
    case True
    then show ?thesis using here a(5) a(7) [OF that] by simp
  next
    case False
    have "head_ok s (streamLastHashKey ev) (\<lambda>e. eventOf e = JStr ev)" using append.IH that by (simp add: index_ok_def)
    then show ?thesis by (rule head_ok_grows [OF _ a(1)]) (simp add: a(7) [OF that] False)
  qed
  then show ?case using here a(4) by (simp add: index_ok_def)
next
  case (other s s')
  have k: "head_ok s (streamLastHashKey ev) P \<Longrightarrow> head_ok s' (streamLastHashKey ev) P" for ev P
    using head_ok_grows [OF _ other.hyps(2)] other.hyps(3) by blast
  have g: "AUDIT_LAST_HASH_GLOBAL_KEY = streamLastHashKey ''global''" by (simp add: key_prefixes)
  show ?case using other.IH k unfolding index_ok_def g by blast
qed

text \<open>What the immutable copies leave in an entry.\<close>

definition is_sink :: "js \<Rightarrow> bool" where
  "is_sink k = (\<exists>a b c. k = AuditImmutableSink a b c)"

lemma attempt_sinks:
  "list_all is_sink a \<Longrightarrow> list_all is_sink (fst (attemptR2 env svc n e p h (a, b, c)))"
  "list_all is_sink a \<Longrightarrow> list_all is_sink (fst (attemptKv env svc n e h (a, b, c)))"
  "list_all is_sink a \<Longrightarrow> list_all is_sink (fst (attemptIngest env svc n src e h (a, b, c)))"
  by (auto simp: attemptR2_def attemptKv_def attemptIngest_def writeR2ImmutableCopies_def writeKvIndex_def
      writeImmutableWebhook_def Let_def is_sink_def split: sum.splits if_splits prod.splits)

lemma persist_sinks:
  assumes "persistImmutableAuditEntry H env svc nowMs mode source entry = Inr (Some r)"
  shows "\<exists>sinks warnings. r = AuditImmutableReceipt mode
           (H (canonicalize (JObj [(''version'', JNum 1), (''source'', JStr source), (''entry'', entry)]))) sinks warnings
         \<and> list_all is_sink sinks"
proof -
  let ?p = "canonicalize (JObj [(''version'', JNum 1), (''source'', JStr source), (''entry'', entry)])"
  let ?st = "attemptIngest env svc nowMs source entry (H ?p)
               (attemptKv env svc nowMs entry (H ?p) (attemptR2 env svc nowMs entry ?p (H ?p) ([], [], [])))"
  have "list_all is_sink (fst ?st)"
    by (metis attempt_sinks list.pred_inject(1) prod.collapse)
  then show ?thesis using assms
    by (auto simp: persistImmutableAuditEntry_def Let_def split: if_splits prod.splits)
qed

lemma append_entry:
  assumes "appendAuditLog H env svc s nowMs event actor data eventId = Inr (s', e)"
  obtains base rest where
    "base = auditBaseEntry (js_toISOString nowMs) event eventId actor data
              (js_or_genesis (sto_get s AUDIT_LAST_HASH_GLOBAL_KEY)) (js_or_genesis (sto_get s (streamLastHashKey eventId)))"
    "e = JObj (base @ (''entry_hash'', JStr (H (canonicalize (JObj base)))) # rest)"
    "rest = [] \<or> (\<exists>mode sinks warnings. list_all is_sink sinks \<and> rest = [(''immutable'', AuditImmutableReceipt mode
       (H (canonicalize (JObj [(''version'', JNum 1), (''source'', JStr IMMUTABLE_AUDIT_SOURCE),
          (''entry'', JObj (base @ [(''entry_hash'', JStr (H (canonicalize (JObj base))))]))]))) sinks warnings)])"
proof -
  let ?b = "auditBaseEntry (js_toISOString nowMs) event eventId actor data
              (js_or_genesis (sto_get s AUDIT_LAST_HASH_GLOBAL_KEY)) (js_or_genesis (sto_get s (streamLastHashKey eventId)))"
  obtain receipt where r: "persistImmutableAuditEntry H env svc nowMs (getAuditImmutableMode env) IMMUTABLE_AUDIT_SOURCE
      (JObj (?b @ [(''entry_hash'', JStr (H (canonicalize (JObj ?b))))])) = Inr receipt"
    using assms by (auto simp: appendAuditLog_def Let_def split: sum.splits)
  show thesis
  proof (cases receipt)
    case None
    with r assms show thesis by (intro that [OF refl, of "[]"]) (simp_all add: appendAuditLog_def Let_def)
  next
    case (Some q)
    with r assms persist_sinks [OF r [unfolded Some]] show thesis
      by (intro that [OF refl, of "[(''immutable'', q)]"]) (auto simp: appendAuditLog_def Let_def)
  qed
qed

lemma head_prev:
  assumes "head_ok s key P"
  obtains p where "js_or_genesis (sto_get s key) = JStr p"
    "p = ''GENESIS'' \<or> (hex_digest p \<and> is_obj (sto_get s (auditEntryByHashKey p))
       \<and> hashOf (sto_get s (auditEntryByHashKey p)) = JStr p \<and> P (sto_get s (auditEntryByHashKey p)))"
  using assms that by (auto simp: head_ok_def js_or_genesis_def)

lemma lookup_grown:
  assumes "hex_digest p" "is_obj (sto_get s (auditEntryByHashKey p))" "hashOf (sto_get s (auditEntryByHashKey p)) = JStr p"
    and "index_grows s s'"
  shows "getAuditEntryByHash s' p = Some (sto_get s (auditEntryByHashKey p))"
proof -
  have "sto_get s (auditEntryByHashKey p) \<noteq> JUndef" using assms(2) by auto
  then have "sto_get s' (auditEntryByHashKey p) = sto_get s (auditEntryByHashKey p)" using assms(4) by (simp add: index_grows_def)
  then show ?thesis using lookup_direct [OF assms(1), of s'] assms(2,3) by simp
qed

lemma index_grows_trans: "index_grows a b \<Longrightarrow> index_grows b c \<Longrightarrow> index_grows a c"
  by (simp add: index_grows_def)

lemma sinks_match_refl: "sinksMatch ks ks"
  by (simp add: sinksMatch_def list_all_iff)

text \<open>The fields of an appended entry that the verification reads.\<close>

lemma appended_fields:
  assumes "appendAuditLog H env svc s nowMs event actor data eventId = Inr (s', e)" "\<not> nullish data"
    and "js_or_genesis (sto_get s AUDIT_LAST_HASH_GLOBAL_KEY) = JStr p" "js_or_genesis (sto_get s (streamLastHashKey eventId)) = JStr sp"
  shows "hashOf e = JStr (H (canonicalize (JObj (buildAuditHashInput e))))" "eventOf e = JStr eventId"
    "jget e ''data'' = data" "jget e ''prev_hash'' = JStr p" "jget e ''stream_prev_hash'' = JStr sp"
    "jget e ''entry_hash'' = hashOf e" "jget e ''eventId'' = JStr eventId"
    "\<exists>ks. entrySinks e = Some ks" "\<exists>m. entryMode e = JStr m"
    "entryPayloadHash e = JNull \<or> entryPayloadHash e = JStr (H (buildImmutablePayload e))"
proof -
  obtain base rest where b: "base = auditBaseEntry (js_toISOString nowMs) event eventId actor data (JStr p) (JStr sp)"
    and e: "e = JObj (base @ (''entry_hash'', JStr (H (canonicalize (JObj base)))) # rest)"
    and rest: "rest = [] \<or> (\<exists>mode sinks warnings. list_all is_sink sinks \<and> rest = [(''immutable'', AuditImmutableReceipt mode
       (H (canonicalize (JObj [(''version'', JNum 1), (''source'', JStr IMMUTABLE_AUDIT_SOURCE),
          (''entry'', JObj (base @ [(''entry_hash'', JStr (H (canonicalize (JObj base))))]))]))) sinks warnings)])"
    using append_entry [OF assms(1)] assms(3,4) by metis
  have inp: "buildAuditHashInput e = base" unfolding e b by (rule base_hashInput)
  have h: "jget e ''entry_hash'' = JStr (H (canonicalize (JObj base)))" by (simp add: e b auditBaseEntry_def)
  then show "hashOf e = JStr (H (canonicalize (JObj (buildAuditHashInput e))))" by (simp add: inp hashOf_def)
  show "eventOf e = JStr eventId" "jget e ''data'' = data" "jget e ''prev_hash'' = JStr p" "jget e ''stream_prev_hash'' = JStr sp"
    "jget e ''entry_hash'' = hashOf e" "jget e ''eventId'' = JStr eventId"
    using assms(2) by (simp_all add: e b auditBaseEntry_def eventOf_def hashOf_def nullish_def)
  have im: "jget e ''immutable'' = jget (JObj rest) ''immutable''" by (simp add: e b auditBaseEntry_def)
  have pay: "buildImmutablePayload e = canonicalize (JObj [(''version'', JNum 1), (''source'', JStr IMMUTABLE_AUDIT_SOURCE),
          (''entry'', JObj (base @ [(''entry_hash'', JStr (H (canonicalize (JObj base))))]))])"
    by (simp add: buildImmutablePayload_def inp h)
  show "\<exists>ks. entrySinks e = Some ks" using rest
    by (auto simp: entrySinks_def im AuditImmutableReceipt_def nullish_def is_sink_def AuditImmutableSink_def list_all_iff list_ex_iff)
  show "\<exists>m. entryMode e = JStr m" using rest by (auto simp: entryMode_def im AuditImmutableReceipt_def nullish_def)
  show "entryPayloadHash e = JNull \<or> entryPayloadHash e = JStr (H (buildImmutablePayload e))" using rest
    by (auto simp: entryPayloadHash_def im AuditImmutableReceipt_def nullish_def pay)
qed

lemma issued_receipt:
  assumes "index_ok s" "\<forall>x. hex_digest (H x)" "eventId \<noteq> ''global''" "eventId \<noteq> []"
    and app: "appendAuditLog H env svc s nowMs event actor data eventId = Inr (s', e)"
    and new: "sto_get s (auditEntryByHashKey (js_to_string (hashOf e))) = JUndef"
    and code: "normalizeStringField (jget data ''confirmationCode'') = Some code"
    and grows: "index_grows s' later"
  shows "\<exists>r v. buildParticipationTicketReceipt H eventId subject code e = Inr r
           \<and> verifyParticipationTicketReceipt H later t r = Inr v \<and> rv_issues v = [] \<and> rv_ok v
           \<and> rv_eventId v = eventId \<and> rv_confirmationCode v = code"
proof -
  have data: "\<not> nullish data" using code by (auto simp: nullish_def normalizeStringField_def)
  have heads: "head_ok s AUDIT_LAST_HASH_GLOBAL_KEY (\<lambda>e. True)" "head_ok s (streamLastHashKey eventId) (\<lambda>e. eventOf e = JStr eventId)"
    using assms(1,3) by (simp_all add: index_ok_def)
  obtain p where p: "js_or_genesis (sto_get s AUDIT_LAST_HASH_GLOBAL_KEY) = JStr p"
    and p_entry: "p = ''GENESIS'' \<or> (hex_digest p \<and> is_obj (sto_get s (auditEntryByHashKey p))
       \<and> hashOf (sto_get s (auditEntryByHashKey p)) = JStr p \<and> True)"
    by (rule head_prev [OF heads(1)])
  obtain sp where sp: "js_or_genesis (sto_get s (streamLastHashKey eventId)) = JStr sp"
    and sp_entry: "sp = ''GENESIS'' \<or> (hex_digest sp \<and> is_obj (sto_get s (auditEntryByHashKey sp))
       \<and> hashOf (sto_get s (auditEntryByHashKey sp)) = JStr sp \<and> eventOf (sto_get s (auditEntryByHashKey sp)) = JStr eventId)"
    by (rule head_prev [OF heads(2)])
  note f = appended_fields [OF app data p sp] and a = append_index [OF app new]
  have grown: "index_grows s later" by (rule index_grows_trans [OF a(1) grows])
  have found: "getAuditEntryByHash later h = Some e" if "hashOf e = JStr h" for h
  proof -
    have "hex_digest h" using a(6) assms(2) that by auto
    then show ?thesis using lookup_grown [of h s' later] a(2,3) that grows by simp
  qed
  have gl: "globalLink later e = Some True"
    using p_entry lookup_grown [OF _ _ _ grown, of p] by (auto simp: globalLink_def f GENESIS_def prevEntry_def Let_def)
  have sl: "streamLink later e = Some True"
    using sp_entry lookup_grown [OF _ _ _ grown, of sp]
    by (auto simp: streamLink_def f GENESIS_def prevEntry_def js_or_genesis_def Let_def)
  obtain ks m where ks: "entrySinks e = Some ks" and m: "entryMode e = JStr m" using f(8,9) by blast
  define r where "r = projr (buildParticipationTicketReceipt H eventId subject code e)"
  have r: "buildParticipationTicketReceipt H eventId subject code e = Inr r"
    by (simp add: r_def buildParticipationTicketReceipt_def ks Let_def)
  obtain h where h: "hashOf e = JStr h" "JStr (H (canonicalize (JObj (buildAuditHashInput e)))) = JStr h" using f(1) by metis
  have fields: "ra_entryHash (pr_audit r) = h" "pr_receiptId r = h" "pr_confirmationCode r = code" "ra_eventId (pr_audit r) = eventId"
    "ra_prevHash (pr_audit r) = p" "ra_streamPrevHash (pr_audit r) = sp" "ra_immutableMode (pr_audit r) = m"
    "ra_immutablePayloadHash (pr_audit r) = js_string_opt (entryPayloadHash e)" "ra_immutableSinks (pr_audit r) = ks"
    using h(1) by (simp_all add: r_def buildParticipationTicketReceipt_def ks m f(4-7) sfield_def js_or_genesis_def Let_def)
  have hash: "computeParticipationTicketReceiptHash H r = pr_receiptHash r"
    by (simp add: r_def buildParticipationTicketReceipt_def ks Let_def computeParticipationTicketReceiptHash_def receiptBase_def)
  have pay: "payloadHashMatches H e r"
    using f(10) by (auto simp: payloadHashMatches_def fields js_string_opt_def nullish_def jstr_null_def Let_def)
  have ck: "entryChecks H e True True True ks r = \<lparr>ck_receiptHashValid = True, ck_entryExists = True, ck_entryHashValid = True,
      ck_confirmationCodeMatches = True, ck_eventIdMatches = True, ck_globalChainLinkValid = True, ck_streamChainLinkValid = True,
      ck_immutablePayloadHashMatches = True, ck_immutableSinksMatch = True\<rparr>"
    using h pay code assms(4) by (simp add: entryChecks_def fields f(2,3) sinks_match_refl Let_def)
  have issues: "entryIssues e (entryChecks H e True True True ks r) r = []"
    unfolding ck by (simp add: entryIssues_def issue_unless_def fields f(4,5) h(1) m js_or_genesis_def Let_def)
  have "verifyParticipationTicketReceipt H later t r = Inr (verification t r (entryChecks H e True True True ks r) []
      \<lparr>rp_entryHash = hashOf e, rp_prevHash = jget e ''prev_hash'', rp_streamPrevHash = js_or_genesis (jget e ''stream_prev_hash''),
       rp_immutablePayloadHash = entryPayloadHash e, rp_immutableSinks = ks\<rparr>)"
    using data by (simp add: verifyParticipationTicketReceipt_def fields(1) found [OF h(1)] f(3) gl sl ks hash issues Let_def)
  then show ?thesis using r by (simp add: verification_def fields)
qed

text \<open>A run of one entry with its receipt.\<close>

lemma sample_append:
  obtains s e where "appendAuditLog (\<lambda>x. POP_HASH_GENESIS_HEX) offEnv noServices [] 1000 ''USER_CLAIM'' JNull
       (JObj [(''confirmationCode'', JStr ''ABC234'')]) ''evt-1'' = Inr (s, e)"
    "log_reach (\<lambda>x. POP_HASH_GENESIS_HEX) offEnv []" "index_grows s s"
    "normalizeStringField (jget (JObj [(''confirmationCode'', JStr ''ABC234'')]) ''confirmationCode'') = Some ''ABC234''"
proof -
  have "log_reach (\<lambda>x. POP_HASH_GENESIS_HEX) offEnv []" by (rule log_reach.start) simp
  moreover have "normalizeStringField (jget (JObj [(''confirmationCode'', JStr ''ABC234'')]) ''confirmationCode'') = Some ''ABC234''"
    by code_simp
  moreover have "index_grows s s" for s by (simp add: index_grows_def)
  ultimately show thesis using that append_off by blast
qed

lemma sample_receipt:
  obtains s r v where "verifyParticipationTicketReceipt (\<lambda>x. POP_HASH_GENESIS_HEX) s 2000 r = Inr v" "rv_ok v"
proof -
  obtain s e where a: "appendAuditLog (\<lambda>x. POP_HASH_GENESIS_HEX) offEnv noServices [] 1000 ''USER_CLAIM'' JNull
       (JObj [(''confirmationCode'', JStr ''ABC234'')]) ''evt-1'' = Inr (s, e)"
    "log_reach (\<lambda>x. POP_HASH_GENESIS_HEX) offEnv []" "index_grows s s"
    "normalizeStringField (jget (JObj [(''confirmationCode'', JStr ''ABC234'')]) ''confirmationCode'') = Some ''ABC234''"
    by (rule sample_append)
  from issued_receipt [OF log_reach_index [OF a(2)] _ _ _ a(1) _ a(4,3), of "''alice''" 2000] genesis_digest that
  show thesis by auto
qed

text \<open>
  C13. The receipt of a participation is verified at any later time: whenever the worker appended an audit
  entry that carries the confirmation code, the receipt built from this entry is found valid, without a
  single issue, in every later storage that still holds the index entries of that moment.
\<close>

theorem issued_receipt_verifies:
  assumes "log_reach H env s" "\<forall>x. hex_digest (H x)" "eventId \<noteq> ''global''" "eventId \<noteq> []"
    and "appendAuditLog H env svc s nowMs event actor data eventId = Inr (s', e)"
    and "sto_get s (auditEntryByHashKey (js_to_string (hashOf e))) = JUndef"
    and "normalizeStringField (jget data ''confirmationCode'') = Some code" and "index_grows s' later"
  shows "\<exists>r v. buildParticipationTicketReceipt H eventId subject code e = Inr r
           \<and> verifyParticipationTicketReceipt H later t r = Inr v \<and> rv_issues v = [] \<and> rv_ok v
           \<and> rv_eventId v = eventId \<and> rv_confirmationCode v = code"
  using issued_receipt [OF log_reach_index [OF assms(1,2)] assms(2-8)] .

theorem issued_receipt_verifies_witness:
  "\<exists>s e r v. appendAuditLog (\<lambda>x. POP_HASH_GENESIS_HEX) offEnv noServices [] 1000 ''USER_CLAIM'' JNull
       (JObj [(''confirmationCode'', JStr ''ABC234'')]) ''evt-1'' = Inr (s, e)
     \<and> buildParticipationTicketReceipt (\<lambda>x. POP_HASH_GENESIS_HEX) ''evt-1'' ''alice'' ''ABC234'' e = Inr r
     \<and> verifyParticipationTicketReceipt (\<lambda>x. POP_HASH_GENESIS_HEX) s 2000 r = Inr v \<and> rv_ok v"
proof -
  obtain s e where a: "appendAuditLog (\<lambda>x. POP_HASH_GENESIS_HEX) offEnv noServices [] 1000 ''USER_CLAIM'' JNull
       (JObj [(''confirmationCode'', JStr ''ABC234'')]) ''evt-1'' = Inr (s, e)"
    "log_reach (\<lambda>x. POP_HASH_GENESIS_HEX) offEnv []" "index_grows s s"
    "normalizeStringField (jget (JObj [(''confirmationCode'', JStr ''ABC234'')]) ''confirmationCode'') = Some ''ABC234''"
    by (rule sample_append)
  from issued_receipt_verifies [OF a(2) _ _ _ a(1) _ a(4,3), of "''alice''" 2000] a(1) genesis_digest show ?thesis by auto
qed

section \<open>What a verified receipt says\<close>

lemma no_issue [simp]: "issue_unless b code message field = [] \<longleftrightarrow> b"
  by (simp add: issue_unless_def)

lemma verified_iff:
  "(\<exists>v. verifyParticipationTicketReceipt H s t r = Inr v \<and> rv_ok v) \<longleftrightarrow>
     (\<exists>entry sinks. getAuditEntryByHash s (ra_entryHash (pr_audit r)) = Some entry
        \<and> computeParticipationTicketReceiptHash H r = pr_receiptHash r
        \<and> hashOf entry = JStr (H (canonicalize (JObj (buildAuditHashInput entry))))
        \<and> hashOf entry = JStr (ra_entryHash (pr_audit r)) \<and> pr_receiptId r = ra_entryHash (pr_audit r)
        \<and> normalizeStringField (jget (jget entry ''data'') ''confirmationCode'') = Some (pr_confirmationCode r)
        \<and> eventOf entry = JStr (ra_eventId (pr_audit r)) \<and> ra_eventId (pr_audit r) \<noteq> []
        \<and> jget entry ''prev_hash'' = JStr (ra_prevHash (pr_audit r))
        \<and> js_or_genesis (jget entry ''stream_prev_hash'') = JStr (ra_streamPrevHash (pr_audit r))
        \<and> globalLink s entry = Some True \<and> streamLink s entry = Some True \<and> payloadHashMatches H entry r
        \<and> entrySinks entry = Some sinks \<and> sinksMatch sinks (ra_immutableSinks (pr_audit r))
        \<and> entryMode entry = JStr (ra_immutableMode (pr_audit r)))" (is "?v \<longleftrightarrow> ?e")
proof (cases "getAuditEntryByHash s (ra_entryHash (pr_audit r))")
  case None
  then show ?thesis by (simp add: verifyParticipationTicketReceipt_def verification_def Let_def)
next
  case (Some entry)
  show ?thesis
  proof (cases "nullish (jget entry ''data'')")
    case True
    then have "normalizeStringField (jget (jget entry ''data'') ''confirmationCode'') = None"
      by (auto simp: nullish_def normalizeStringField_def)
    then show ?thesis using Some True by (simp add: verifyParticipationTicketReceipt_def Let_def)
  next
    case False
    show ?thesis
    proof (cases "globalLink s entry = None \<or> streamLink s entry = None \<or> entrySinks entry = None")
      case True
      then have "verifyParticipationTicketReceipt H s t r = Inl ''TypeError''"
        using Some False by (auto simp: verifyParticipationTicketReceipt_def Let_def split: option.splits)
      then show ?thesis using True Some by auto
    next
      case no: False
      then obtain g l sinks where "globalLink s entry = Some g" "streamLink s entry = Some l" "entrySinks entry = Some sinks" by auto
      then show ?thesis using Some False
        by (auto simp: verifyParticipationTicketReceipt_def verification_def entryIssues_def entryChecks_def Let_def)
    qed
  qed
qed

text \<open>The log still holds a predecessor: the start of the chain, or an entry found by its hash.\<close>

definition holdsPredecessor :: "storage \<Rightarrow> string \<Rightarrow> (js \<Rightarrow> bool) \<Rightarrow> bool" where
  "holdsPredecessor s h Q = (h = ''GENESIS'' \<or> (\<exists>p. getAuditEntryByHash s h = Some p \<and> hashOf p = JStr h \<and> Q p))"

lemma links_hold:
  "globalLink s entry = Some True \<Longrightarrow> jget entry ''prev_hash'' = JStr h \<Longrightarrow> holdsPredecessor s h (\<lambda>p. True)"
  "streamLink s entry = Some True \<Longrightarrow> js_or_genesis (jget entry ''stream_prev_hash'') = JStr h \<Longrightarrow>
     holdsPredecessor s h (\<lambda>p. eventOf p = eventOf entry)"
  by (auto simp: globalLink_def streamLink_def prevEntry_def holdsPredecessor_def GENESIS_def Let_def split: if_splits option.splits)

text \<open>
  C14. A verified receipt is bound to the log: the log holds the entry it names, the digest of this entry is the receipt
  id, the entry carries the receipt's confirmation code and event, its predecessor hashes in the global chain and in the
  chain of the event are the receipt's, each in its own place, and the log still holds these predecessors (the one in
  the event's chain with the same event). So two verified receipts with the same id agree on all of these.
\<close>

theorem verified_receipt_bound:
  assumes "verifyParticipationTicketReceipt H s t r = Inr v" "rv_ok v"
  shows "(\<exists>entry. getAuditEntryByHash s (pr_receiptId r) = Some entry
            \<and> hashOf entry = JStr (pr_receiptId r) \<and> pr_receiptId r = H (canonicalize (JObj (buildAuditHashInput entry)))
            \<and> normalizeStringField (jget (jget entry ''data'') ''confirmationCode'') = Some (pr_confirmationCode r)
            \<and> eventOf entry = JStr (rv_eventId v) \<and> rv_eventId v = ra_eventId (pr_audit r)
            \<and> jget entry ''prev_hash'' = JStr (ra_prevHash (pr_audit r))
            \<and> js_or_genesis (jget entry ''stream_prev_hash'') = JStr (ra_streamPrevHash (pr_audit r))
            \<and> holdsPredecessor s (ra_prevHash (pr_audit r)) (\<lambda>p. True)
            \<and> holdsPredecessor s (ra_streamPrevHash (pr_audit r)) (\<lambda>p. eventOf p = eventOf entry))
       \<and> (\<forall>r' v'. verifyParticipationTicketReceipt H s t r' = Inr v' \<longrightarrow> rv_ok v' \<longrightarrow> pr_receiptId r' = pr_receiptId r \<longrightarrow>
            pr_confirmationCode r' = pr_confirmationCode r \<and> ra_eventId (pr_audit r') = ra_eventId (pr_audit r)
            \<and> ra_prevHash (pr_audit r') = ra_prevHash (pr_audit r)
            \<and> ra_streamPrevHash (pr_audit r') = ra_streamPrevHash (pr_audit r)
            \<and> ra_immutableMode (pr_audit r') = ra_immutableMode (pr_audit r))"
proof -
  have ev: "rv_eventId v = ra_eventId (pr_audit r)"
    using assms(1) by (auto simp: verifyParticipationTicketReceipt_def verification_def Let_def split: option.splits if_splits)
  have "\<exists>v. verifyParticipationTicketReceipt H s t r = Inr v \<and> rv_ok v" using assms by blast
  note this [unfolded verified_iff]
  moreover have "\<exists>v. verifyParticipationTicketReceipt H s t r' = Inr v \<and> rv_ok v"
    if "verifyParticipationTicketReceipt H s t r' = Inr v'" "rv_ok v'" for r' v' using that by blast
  note this [unfolded verified_iff]
  ultimately show ?thesis
    unfolding ev by (elim exE conjE) (intro conjI allI impI; fastforce dest: links_hold)
qed

theorem verified_receipt_bound_witness:
  "\<exists>s r v entry. verifyParticipationTicketReceipt (\<lambda>x. POP_HASH_GENESIS_HEX) s 2000 r = Inr v \<and> rv_ok v
     \<and> getAuditEntryByHash s (pr_receiptId r) = Some entry \<and> jget entry ''prev_hash'' = JStr (ra_prevHash (pr_audit r))"
proof -
  obtain s r v where "verifyParticipationTicketReceipt (\<lambda>x. POP_HASH_GENESIS_HEX) s 2000 r = Inr v" "rv_ok v"
    by (rule sample_receipt)
  with verified_receipt_bound [OF this] show ?thesis by blast
qed

definition alterReceipt :: "(string \<Rightarrow> string) \<Rightarrow> string \<Rightarrow> string \<Rightarrow> string \<Rightarrow> string \<Rightarrow> ParticipationTicketReceipt \<Rightarrow> ParticipationTicketReceipt" where
  "alterReceipt H commitment issued endpoint event r =
     (let r' = r\<lparr>pr_subjectCommitment := commitment, pr_issuedAt := issued, pr_verifyEndpoint := endpoint,
                 pr_audit := (pr_audit r)\<lparr>ra_event := event\<rparr>\<rparr>
      in r'\<lparr>pr_receiptHash := computeParticipationTicketReceiptHash H r'\<rparr>)"

lemma alterReceipt_fields:
  "ra_entryHash (pr_audit (alterReceipt H c i ep ev r)) = ra_entryHash (pr_audit r)" "pr_receiptId (alterReceipt H c i ep ev r) = pr_receiptId r"
  "pr_confirmationCode (alterReceipt H c i ep ev r) = pr_confirmationCode r"
  "ra_eventId (pr_audit (alterReceipt H c i ep ev r)) = ra_eventId (pr_audit r)"
  "ra_prevHash (pr_audit (alterReceipt H c i ep ev r)) = ra_prevHash (pr_audit r)"
  "ra_streamPrevHash (pr_audit (alterReceipt H c i ep ev r)) = ra_streamPrevHash (pr_audit r)"
  "ra_immutableMode (pr_audit (alterReceipt H c i ep ev r)) = ra_immutableMode (pr_audit r)"
  "ra_immutableSinks (pr_audit (alterReceipt H c i ep ev r)) = ra_immutableSinks (pr_audit r)"
  "payloadHashMatches H e (alterReceipt H c i ep ev r) = payloadHashMatches H e r"
  "computeParticipationTicketReceiptHash H (alterReceipt H c i ep ev r) = pr_receiptHash (alterReceipt H c i ep ev r)"
  by (simp_all add: alterReceipt_def payloadHashMatches_def computeParticipationTicketReceiptHash_def receiptBase_def Let_def)

text \<open>
  C15. The rest of a receipt is not bound: the subject commitment, the time, the endpoint and the name of
  the audit event of a verified receipt can be replaced by anything; once the receipt hash, which has no
  key, is computed anew, the altered receipt is verified as well.
\<close>

theorem receipt_subject_unbound:
  assumes "verifyParticipationTicketReceipt H s t r = Inr v" "rv_ok v"
  shows "\<exists>v'. verifyParticipationTicketReceipt H s t (alterReceipt H commitment issued endpoint event r) = Inr v' \<and> rv_ok v'
           \<and> pr_subjectCommitment (alterReceipt H commitment issued endpoint event r) = commitment"
proof -
  have "\<exists>v. verifyParticipationTicketReceipt H s t r = Inr v \<and> rv_ok v" using assms by blast
  then have "\<exists>v. verifyParticipationTicketReceipt H s t (alterReceipt H commitment issued endpoint event r) = Inr v \<and> rv_ok v"
    unfolding verified_iff alterReceipt_fields by blast
  then show ?thesis by (auto simp: alterReceipt_def Let_def)
qed

theorem receipt_subject_unbound_witness:
  "\<exists>s r v. verifyParticipationTicketReceipt (\<lambda>x. POP_HASH_GENESIS_HEX) s 2000
       (alterReceipt (\<lambda>x. POP_HASH_GENESIS_HEX) ''mallory'' ''2001'' ''/x'' ''OTHER'' r) = Inr v \<and> rv_ok v"
proof -
  obtain s r v where "verifyParticipationTicketReceipt (\<lambda>x. POP_HASH_GENESIS_HEX) s 2000 r = Inr v" "rv_ok v"
    by (rule sample_receipt)
  from receipt_subject_unbound [OF this] show ?thesis by blast
qed

section \<open>Storing and reading back\<close>

lemma receipt_keys:
  "ticketReceiptByCodeKey e c \<noteq> ticketReceiptBySubjectKey e' u" "ticketReceiptByCodeKey e c \<noteq> confirmationCodeIndexKey d"
  by (simp_all add: key_defs prefix_defs)

text \<open>
  A stored receipt is read back unchanged, by its code and by its subject: parsing inverts the
  printed form, and the storage keys of the two copies do not collide with each other or with the index
  of confirmation codes, where the code is registered as well.
\<close>

theorem receipt_store_roundtrip:
  assumes "receipt_wf r" "js_trim eventId \<noteq> []" "js_trim subject \<noteq> []"
  shows "getParticipationTicketReceipt (storeParticipationTicketReceipt s nowMs eventId subject r) eventId subject (pr_confirmationCode r) = Some r
       \<and> parseParticipationTicketReceipt (sto_get (storeParticipationTicketReceipt s nowMs eventId subject r)
             (ticketReceiptBySubjectKey eventId subject)) = Some r
       \<and> sto_get (storeParticipationTicketReceipt s nowMs eventId subject r) (confirmationCodeIndexKey (pr_confirmationCode r)) \<noteq> JUndef"
proof -
  have c: "js_trim (pr_confirmationCode r) = pr_confirmationCode r" "pr_confirmationCode r \<noteq> []"
    using assms(1) by (simp_all add: receipt_wf_def text_field_def)
  have k: "confirmationCodeIndexKey d \<noteq> ticketReceiptByCodeKey e x" "confirmationCodeIndexKey d \<noteq> ticketReceiptBySubjectKey e x" for d e x
    by (simp_all add: key_defs prefix_defs)
  show ?thesis
    using assms c parse_receipt [OF assms(1)]
    by (auto simp: getParticipationTicketReceipt_def storeParticipationTicketReceipt_def ensureConfirmationCodeIndexed_def
        receipt_keys k codeRecord_def codeRecordToJs_def Let_def)
qed

definition sampleReceipt :: ParticipationTicketReceipt where
  "sampleReceipt = \<lparr>pr_receiptId = POP_HASH_GENESIS_HEX, pr_receiptHash = POP_HASH_GENESIS_HEX, pr_issuedAt = ''2026-01-01T00:00:00.000Z'',
     pr_confirmationCode = ''ABC234'', pr_subjectCommitment = POP_HASH_GENESIS_HEX, pr_verifyEndpoint = PARTICIPATION_TICKET_VERIFY_ENDPOINT,
     pr_audit = \<lparr>ra_event = ''USER_CLAIM'', ra_eventId = ''evt-1'', ra_entryHash = POP_HASH_GENESIS_HEX, ra_prevHash = ''GENESIS'',
       ra_streamPrevHash = ''GENESIS'', ra_immutableMode = ''required'', ra_immutablePayloadHash = Some POP_HASH_GENESIS_HEX,
       ra_immutableSinks = [\<lparr>sr_sink = ''r2_entry'', sr_ref = ''audit/x.json'', sr_at = ''2026-01-01T00:00:00.000Z''\<rparr>]\<rparr>\<rparr>"

theorem receipt_store_roundtrip_witness:
  "getParticipationTicketReceipt (storeParticipationTicketReceipt [] 5 ''evt-1'' ''alice'' sampleReceipt) ''evt-1'' ''alice'' ''ABC234'' = Some sampleReceipt"
proof -
  have w: "receipt_wf sampleReceipt" by code_simp
  have "js_trim ''evt-1'' \<noteq> []" "js_trim ''alice'' \<noteq> []" by code_simp+
  from receipt_store_roundtrip [OF w this, of "[]" 5] show ?thesis by (simp add: sampleReceipt_def)
qed

end
