(* ===== verification/Record_Slot.thy ===== *)
theory Record_Slot
  imports Worker_Keys
begin

text \<open>
  Records kept under a key of their own: the contract between the code that writes a record as an object and the
  code that parses it back, stated once and proved for moderation marks, report obligations and receipts.
\<close>

definition full :: "string \<Rightarrow> bool" where
  "full x = (x \<noteq> [] \<and> js_trim x = x)"

locale record_slot =
  fixes key :: "'k \<Rightarrow> string" and enc :: "'r \<Rightarrow> js" and dec :: "js \<Rightarrow> 'r option" and wf :: "'r \<Rightarrow> bool"
  assumes dec_enc: "wf r \<Longrightarrow> dec (enc r) = Some r"
    and key_inj: "key k = key l \<Longrightarrow> k = l"
begin

lemma slot_put: "wf r \<Longrightarrow> dec (sto_get (sto_put s (key k) (enc r)) (key l)) = (if k = l then Some r else dec (sto_get s (key l)))"
  by (auto simp: dec_enc dest: key_inj)

text \<open>Reading after any sequence of writes gives the last record written, or what was there before.\<close>

lemma slot_history:
  assumes "\<forall>(k, r) \<in> set ws. wf r"
  shows "dec (sto_get (foldl (\<lambda>t (k, r). sto_put t (key k) (enc r)) s ws) (key l))
       = (case map_of (rev ws) l of Some r \<Rightarrow> Some r | None \<Rightarrow> dec (sto_get s (key l)))"
  using assms
proof (induction ws rule: rev_induct)
  case (snoc w ws)
  then show ?case by (cases w) (auto simp: dec_enc dest: key_inj)
qed simp

end

end
