(* ===== verification/Form_Spec.thy ===== *)
theory Form_Spec
  imports Receipt_Spec Record_Slot
begin

text \<open>
  Properties of the shared forms: the walk through the audit log ends whatever the log holds, two values have
  the same canonical text exactly when they have the same content, and a parsed receipt has the form the
  rest of the code relies on.
\<close>

section \<open>The walk ends\<close>

lemma walkChain_more: "walkChain fuel m prev visited oldest current = Some r \<Longrightarrow> fuel \<le> many \<Longrightarrow>
    walkChain many m prev visited oldest current = Some r"
proof (induction fuel arbitrary: many visited oldest current)
  case (Suc fuel)
  then obtain k where "many = Suc k" "fuel \<le> k" by (cases many) auto
  with Suc show ?case by (auto simp: Let_def split: option.splits)
qed simp

text \<open>
  C20. The walk of the integrity check through the predecessors ends after at most one step more than there are
  entries in the window, even when stored links form a cycle; more steps change nothing.
\<close>

theorem audit_walk_terminates:
  assumes "entry \<in> set es" "length es < fuel"
  shows "walkChain fuel (byHash es) prev [] None entry = Some (walkFrom prev es entry)"
  using walkChain_more [OF walkFrom_ends [OF assms(1), of prev], of fuel] assms(2) by (simp del: walkChain.simps)

text \<open>An entry that is its own predecessor.\<close>

theorem audit_walk_terminates_witness:
  "walkChain 9 (byHash [JObj [(''entry_hash'', JStr ''h''), (''prev_hash'', JStr ''h'')]]) globalPrev [] None
       (JObj [(''entry_hash'', JStr ''h''), (''prev_hash'', JStr ''h'')])
   = Some (walkFrom globalPrev [JObj [(''entry_hash'', JStr ''h''), (''prev_hash'', JStr ''h'')]]
       (JObj [(''entry_hash'', JStr ''h''), (''prev_hash'', JStr ''h'')]))"
  by (rule audit_walk_terminates) simp_all

section \<open>Canonical text\<close>

text \<open>
  C21. Canonical text identifies content: two values whose numbers are integers and whose objects have no property twice
  have the same canonical text exactly when they are the same JSON value. Sameness is said without any order: arrays
  agree position by position, objects have the same properties with the same values, whatever order they were written
  in. Properties that are \<open>undefined\<close> or named \<open>__proto__\<close> do not count, and a number that is not finite, or
  \<open>undefined\<close> in an array, counts as \<open>null\<close>. Equal digests of canonical texts therefore mean equal content up to
  collisions of the digest.
\<close>

theorem canonical_text_identifies:
  assumes "integral_numbers v" "integral_numbers w" "distinct_names v" "distinct_names w" "v \<noteq> JUndef" "w \<noteq> JUndef"
  shows "canonicalize v = canonicalize w \<longleftrightarrow> json_same v w"
  using assms by (rule canonicalize_same)

theorem canonical_text_identifies_witness:
  "canonicalize (JObj [(''b'', JNum 2), (''a'', JArr [JNull])]) = canonicalize (JObj [(''a'', JArr [JUndef]), (''b'', JNum 2)])
   \<and> canonicalize (JObj [(''b'', JNum 2)]) \<noteq> canonicalize (JObj [(''b'', JStr ''2'')])"
proof -
  have "json_same (JArr [JNull]) (JArr [JUndef])" by (simp add: json_same_arr json_same.leaf json_leaf_def)
  moreover have "json_same (JNum 2) (JNum 2)" by (simp add: json_same.leaf json_leaf_def)
  ultimately have s: "json_same (JObj [(''b'', JNum 2), (''a'', JArr [JNull])]) (JObj [(''a'', JArr [JUndef]), (''b'', JNum 2)])"
    by (intro json_same.obj) (simp add: json_member_def)
  have "\<not> json_same (JNum 2) (JStr ''2'')" by (simp add: json_same.simps [of "JNum 2"] json_leaf_def)
  then have "\<not> rel_option json_same (json_member [(''b'', JNum 2)] ''b'') (json_member [(''b'', JStr ''2'')] ''b'')"
    by (simp add: json_member_def PROTO_def)
  then have n: "\<not> json_same (JObj [(''b'', JNum 2)]) (JObj [(''b'', JStr ''2'')])"
    unfolding json_same_obj by (auto simp: json_leaf_def)
  have i: "is_integral 2" by code_simp
  from canonical_text_identifies [of "JObj [(''b'', JNum 2), (''a'', JArr [JNull])]" "JObj [(''a'', JArr [JUndef]), (''b'', JNum 2)]"]
    canonical_text_identifies [of "JObj [(''b'', JNum 2)]" "JObj [(''b'', JStr ''2'')]"] s n i
  show ?thesis by simp
qed

section \<open>Parsed receipts\<close>

lemma normalize_full: "normalizeStringField v = Some t \<Longrightarrow> text_field t"
  using trimmed_str_Some [of v t] by (simp add: normalizeStringField_def text_field_def)

lemma hash_lower: "isHashHex h \<Longrightarrow> js_trim h = h \<Longrightarrow> hex_digest (js_lower h)"
  by (simp add: isHashHex_def hex_digest_def Let_def)

lemma lower_idem: "lower_char (lower_char c) = lower_char c" "is_ws (lower_char c) = is_ws c"
  by (auto simp: lower_char_def is_ws_def Let_def)

lemma trim_lower: "js_trim t = t \<Longrightarrow> js_trim (js_lower t) = js_lower t" "js_lower (js_lower t) = js_lower t"
  using trimmed_js_trim [of t]
  by (auto simp: trimmed_def js_lower_def hd_map last_map lower_idem intro!: js_trim_trimmed_id)

lemma ref_lower: "chain_ref h \<Longrightarrow> js_trim h = h \<Longrightarrow> ref_field (lower_ref h)"
  by (auto simp: chain_ref_def ref_field_def lower_ref_def hash_lower)

lemma parsed_payload: "parsePayloadHash raw = Some h \<Longrightarrow> isHashHex h \<Longrightarrow> hex_digest h"
  using hash_lower [of h] trim_lower by (auto simp: parsePayloadHash_def dest!: trimmed_str_Some)

lemma parsed_sink: "parseSink raw = Some k \<Longrightarrow> sink_wf k"
  by (auto simp: parseSink_def sink_wf_def dest: normalize_full split: if_splits option.splits)

lemma parsed_sinks: "all_some (map parseSink xs) = Some ks \<Longrightarrow> list_all sink_wf ks"
proof (induction xs arbitrary: ks)
  case (Cons x xs)
  then show ?case by (cases "parseSink x") (auto dest: parsed_sink)
qed simp

lemma parsed_audit:
  assumes "parseReceiptAudit v = Some a"
  shows "audit_wf a"
proof -
  obtain ev ei eh ph sh ks where n: "normalizeStringField (jget v ''event'') = Some ev" "normalizeStringField (jget v ''eventId'') = Some ei"
      "normalizeStringField (jget v ''entryHash'') = Some eh" "normalizeStringField (jget v ''prevHash'') = Some ph"
      "normalizeStringField (jget v ''streamPrevHash'') = Some sh" "jget v ''immutableSinks'' = JArr ks"
    using assms by (auto simp: parseReceiptAudit_def Let_def split: if_splits option.splits js.splits)
  note t = n(1-5) [THEN normalize_full]
  from assms obtain sinks where a: "isHashHex eh" "chain_ref ph" "chain_ref sh"
      "pred_option isHashHex (parsePayloadHash (jget v ''immutablePayloadHash''))" "all_some (map parseSink ks) = Some sinks"
      "ra_immutableMode a \<in> {''off'', ''best_effort'', ''required''}"
      "ra_event a = ev" "ra_eventId a = ei" "ra_entryHash a = js_lower eh" "ra_prevHash a = lower_ref ph" "ra_streamPrevHash a = lower_ref sh"
      "ra_immutablePayloadHash a = parsePayloadHash (jget v ''immutablePayloadHash'')" "ra_immutableSinks a = sinks"
    by (auto simp: parseReceiptAudit_def n Let_def split: if_splits)
  have "hex_digest (js_lower eh)" "ref_field (lower_ref ph)" "ref_field (lower_ref sh)"
    using a(1-3) t by (auto simp: text_field_def hash_lower ref_lower)
  moreover have "pred_option hex_digest (parsePayloadHash (jget v ''immutablePayloadHash''))"
    using a(4) parsed_payload by (auto simp: option.pred_set)
  ultimately show ?thesis using a(6-) t parsed_sinks [OF a(5)] by (simp add: audit_wf_def)
qed

interpretation rp: record_slot "ticketReceiptByCodeKey eventId" receiptToJs parseParticipationTicketReceipt receipt_wf
  by unfold_locales (auto simp: parse_receipt ticketReceiptByCodeKey_def)

text \<open>
  C22. Parsing a receipt gives a well-formed receipt or nothing: every digest has 64 lower-case hexadecimal digits,
  the two predecessor references are digests or the start marker, texts have no surrounding white space and
  are not empty, the mode and the names of the sinks are known. Hence parsing its printed form again gives the
  receipt back.
\<close>

theorem parsed_receipt_well_formed:
  assumes "parseParticipationTicketReceipt raw = Some r"
  shows "receipt_wf r \<and> parseParticipationTicketReceipt (receiptToJs r) = Some r"
proof -
  have "receipt_wf r"
    using assms
    by (auto simp: parseParticipationTicketReceipt_def receipt_wf_def split: if_splits option.splits
        intro!: hash_lower dest!: normalize_full parsed_audit) (simp_all add: text_field_def)
  then show ?thesis by (simp add: rp.dec_enc)
qed

theorem parsed_receipt_well_formed_witness: "receipt_wf sampleReceipt"
proof -
  have "parseParticipationTicketReceipt (receiptToJs sampleReceipt) = Some sampleReceipt" by code_simp
  from parsed_receipt_well_formed [OF this] show ?thesis by blast
qed

end
