(* ===== verification/Operator_Auth.thy ===== *)
theory Operator_Auth
  imports Worker_Keys Rate_Limit
begin

text \<open>
  Who may operate the worker (\<open>storeDO.ts\<close>: bearer tokens, the master and demo passwords, invite codes,
  event owners) and the endpoint for external audit entries (\<open>audit/router.ts\<close>). A handler returns the
  changed storage and the response.
\<close>

section \<open>Tokens and passwords\<close>

definition DEFAULT_ADMIN_PASSWORD :: string where
  "DEFAULT_ADMIN_PASSWORD = ''change-this-in-dashboard''"

text \<open>
  \<open>/^Bearer\\s+(.+)$/i\<close> and the trimmed group: the group is what follows the white space, and \<open>.\<close> matches
  no line break.
\<close>

definition is_line_break :: "char \<Rightarrow> bool" where
  "is_line_break c = (c = CHR 0x0A \<or> c = CHR 0x0D)"

definition extractBearerToken :: "Request \<Rightarrow> string option" where
  "extractBearerToken rq =
     (let authHeader = (case rq_header rq ''Authorization'' of Some h \<Rightarrow> h | None \<Rightarrow> []);
          rest = drop 6 authHeader;
          group = dropWhile is_ws rest
      in if js_lower (take 6 authHeader) = ''bearer'' \<and> rest \<noteq> [] \<and> is_ws (hd rest)
            \<and> group \<noteq> [] \<and> list_all (\<lambda>c. \<not> is_line_break c) group
         then Some (js_trim group) else None)"

definition getConfiguredMasterPassword :: "Env \<Rightarrow> string option" where
  "getConfiguredMasterPassword env =
     (let password = opt_trim (ADMIN_PASSWORD env) in
      if password = [] \<or> password = DEFAULT_ADMIN_PASSWORD then None else Some password)"

definition isDefaultMasterPasswordConfigured :: "Env \<Rightarrow> bool" where
  "isDefaultMasterPasswordConfigured env = (opt_trim (ADMIN_PASSWORD env) = DEFAULT_ADMIN_PASSWORD)"

definition getConfiguredDemoPassword :: "Env \<Rightarrow> string option" where
  "getConfiguredDemoPassword env =
     (let password = opt_trim (ADMIN_DEMO_PASSWORD env) in if password = [] then None else Some password)"

definition unauthorizedResponse :: Response where
  "unauthorizedResponse = json_response (JObj [(''error'', JStr ''Unauthorized'')]) 401"

definition serverConfigErrorResponse :: Response where
  "serverConfigErrorResponse = json_response (JObj [(''error'', JStr ''server configuration error'')]) 500"

definition insecureMasterPasswordResponse :: Response where
  "insecureMasterPasswordResponse = json_response (JObj [(''error'', JStr ''insecure admin password configuration''),
     (''code'', JStr ''insecure_admin_password''),
     (''detail'', JStr ''Replace ADMIN_PASSWORD placeholder value before using master-protected APIs.'')]) 503"

section \<open>Invite codes\<close>

text \<open>\<open>typeof v === 'string' ? v.trim() : ''\<close>\<close>

definition strField :: "js \<Rightarrow> string \<Rightarrow> string" where
  "strField obj k = (case jget obj k of JStr t \<Rightarrow> js_trim t | _ \<Rightarrow> [])"

definition or_else :: "string \<Rightarrow> string \<Rightarrow> string" where
  "or_else a b = (if a = [] then b else a)"

definition or_null :: "string \<Rightarrow> string option" where
  "or_null a = (if a = [] then None else Some a)"

record AdminCodeRecord =
  ac_code :: string
  ac_adminId :: string
  ac_name :: string
  ac_createdAt :: string
  ac_revokedAt :: "string option"
  ac_revokedBy :: "string option"

definition parseAdminCodeRecord :: "string \<Rightarrow> js \<Rightarrow> AdminCodeRecord option" where
  "parseAdminCodeRecord code raw =
     (if \<not> is_obj raw then None
      else Some \<lparr>ac_code = code,
        ac_adminId = or_else (strField raw ''adminId'') (''legacy-'' @ take 12 code),
        ac_name = or_else (strField raw ''name'') ''Unknown Admin'',
        ac_createdAt = or_else (strField raw ''createdAt'') (js_toISOString 0),
        ac_revokedAt = or_null (strField raw ''revokedAt''),
        ac_revokedBy = or_null (strField raw ''revokedBy'')\<rparr>)"

definition findAdminCodeByAdminId :: "storage \<Rightarrow> string \<Rightarrow> string option" where
  "findAdminCodeByAdminId s adminId =
     (let needle = js_trim adminId in
      if needle = [] then None
      else map_option (\<lambda>kv. drop (length ADMIN_CODE_PREFIX) (fst kv))
             (find (\<lambda>(key, value). case parseAdminCodeRecord (drop (length ADMIN_CODE_PREFIX) key) value of
                                     Some p \<Rightarrow> ac_adminId p = needle | None \<Rightarrow> False)
                (sto_list s ADMIN_CODE_PREFIX)))"

section \<open>Operators\<close>

datatype OperatorRole = RoleMaster | RoleAdmin
datatype OperatorSource = SrcMaster | SrcInvite | SrcDemo

record OperatorIdentity =
  op_role :: OperatorRole
  op_source :: OperatorSource
  op_token :: string
  op_adminId :: string
  op_name :: string
  op_actorId :: string
  op_code :: "string option"

definition authenticateOperator :: "Env \<Rightarrow> storage \<Rightarrow> Request \<Rightarrow> OperatorIdentity option" where
  "authenticateOperator env s rq =
     (case extractBearerToken rq of
        None \<Rightarrow> None
      | Some token \<Rightarrow>
          if getConfiguredMasterPassword env = Some token
          then Some \<lparr>op_role = RoleMaster, op_source = SrcMaster, op_token = token, op_adminId = ''master'',
                     op_name = ''Master Operator'', op_actorId = ''master'', op_code = None\<rparr>
          else if getConfiguredDemoPassword env = Some token
          then Some \<lparr>op_role = RoleAdmin, op_source = SrcDemo, op_token = token, op_adminId = ''demo-admin'',
                     op_name = ''Demo Admin'', op_actorId = ''admin:demo-admin'', op_code = None\<rparr>
          else (case parseAdminCodeRecord token (sto_get s (adminCodeKey token)) of
                  Some adminData \<Rightarrow>
                    if ac_revokedAt adminData = None
                    then Some \<lparr>op_role = RoleAdmin, op_source = SrcInvite, op_token = token,
                               op_adminId = ac_adminId adminData, op_name = ac_name adminData,
                               op_actorId = ''admin:'' @ ac_adminId adminData, op_code = Some token\<rparr>
                    else None
                | None \<Rightarrow> None))"

definition requireMasterAuthorization :: "Env \<Rightarrow> Request \<Rightarrow> Response option" where
  "requireMasterAuthorization env rq =
     (if isDefaultMasterPasswordConfigured env then Some insecureMasterPasswordResponse
      else case getConfiguredMasterPassword env of
             None \<Rightarrow> Some serverConfigErrorResponse
           | Some masterPassword \<Rightarrow>
               if extractBearerToken rq \<noteq> Some masterPassword then Some unauthorizedResponse else None)"

definition requireAdminAuthorization :: "Env \<Rightarrow> storage \<Rightarrow> Request \<Rightarrow> Response option" where
  "requireAdminAuthorization env s rq =
     (case authenticateOperator env s rq of None \<Rightarrow> Some unauthorizedResponse | Some _ \<Rightarrow> None)"

definition isAdminProtectedSchoolRoute :: "string \<Rightarrow> string \<Rightarrow> bool" where
  "isAdminProtectedSchoolRoute path method =
     (let m = js_upper method in
      (m = ''POST'' \<and> path = ''/v1/school/events'')
      \<or> (m = ''POST'' \<and> segmentBetween ''/v1/school/events/'' ''/close'' path \<noteq> None)
      \<or> (m = ''GET'' \<and> segmentBetween ''/v1/school/events/'' ''/claimants'' path \<noteq> None)
      \<or> prefix ''/v1/school/admin/security/'' path)"

section \<open>Event owners\<close>

record EventOwnerRecord =
  eo_adminId :: string
  eo_name :: string
  eo_source :: OperatorSource
  eo_linkedAt :: string

definition operatorToEventOwner :: "OperatorIdentity \<Rightarrow> int \<Rightarrow> EventOwnerRecord" where
  "operatorToEventOwner operator nowMs = \<lparr>eo_adminId = op_adminId operator, eo_name = op_name operator,
     eo_source = op_source operator, eo_linkedAt = js_toISOString nowMs\<rparr>"

fun sourceStr :: "OperatorSource \<Rightarrow> string" where
  "sourceStr SrcMaster = ''master''"
| "sourceStr SrcInvite = ''invite''"
| "sourceStr SrcDemo = ''demo''"

definition eventOwnerToJs :: "EventOwnerRecord \<Rightarrow> js" where
  "eventOwnerToJs o' = JObj [(''adminId'', JStr (eo_adminId o')), (''name'', JStr (eo_name o')),
     (''source'', JStr (sourceStr (eo_source o'))), (''linkedAt'', JStr (eo_linkedAt o'))]"

definition getEventOwnerRecord :: "storage \<Rightarrow> string \<Rightarrow> EventOwnerRecord option" where
  "getEventOwnerRecord s eventId =
     (let raw = sto_get s (eventOwnerKey eventId) in
      if \<not> is_obj raw then None
      else let adminId = strField raw ''adminId''; sourceRaw = strField raw ''source'' in
        if adminId = [] then None
        else Some \<lparr>eo_adminId = adminId, eo_name = or_else (strField raw ''name'') ''Unknown Admin'',
               eo_source = (if sourceRaw = ''master'' then SrcMaster else if sourceRaw = ''demo'' then SrcDemo else SrcInvite),
               eo_linkedAt = or_else (strField raw ''linkedAt'') (js_toISOString 0)\<rparr>)"

definition forbiddenResponse :: Response where
  "forbiddenResponse = json_response (JObj [(''error'', JStr ''forbidden'')]) 403"

definition ensureOperatorCanAccessEvent :: "storage \<Rightarrow> OperatorIdentity \<Rightarrow> string \<Rightarrow> Response option" where
  "ensureOperatorCanAccessEvent s operator eventId =
     (if op_role operator = RoleMaster then None
      else case getEventOwnerRecord s eventId of
             None \<Rightarrow> Some forbiddenResponse
           | Some owner \<Rightarrow> if eo_adminId owner \<noteq> op_adminId operator then Some forbiddenResponse else None)"

section \<open>The endpoint for audit entries\<close>

definition badRequest :: "string \<Rightarrow> js" where
  "badRequest message = JObj [(''ok'', JBool False), (''error'', JStr message)]"

definition routerBearerToken :: "string option \<Rightarrow> string" where
  "routerBearerToken header =
     (case header of
        None \<Rightarrow> []
      | Some h \<Rightarrow>
          if h = [] then []
          else let trimmed = js_trim h in
            if \<not> prefix ''bearer '' (js_lower trimmed) then [] else js_trim (drop 7 trimmed))"

text \<open>\<open>AUDIT_LOG_WRITE_TOKEN\<close> is a binding of the router only.\<close>

definition expectedAuditToken :: "Env \<Rightarrow> string option \<Rightarrow> string" where
  "expectedAuditToken env AUDIT_LOG_WRITE_TOKEN =
     (let writeToken = opt_trim AUDIT_LOG_WRITE_TOKEN; adminPassword = opt_trim (ADMIN_PASSWORD env) in
      if writeToken \<noteq> [] then writeToken
      else if adminPassword \<noteq> [] \<and> adminPassword \<noteq> ''change-this-in-dashboard'' then adminPassword else [])"

definition auditLogPost ::
  "(string \<Rightarrow> string) \<Rightarrow> Env \<Rightarrow> string option \<Rightarrow> AuditServices \<Rightarrow> storage \<Rightarrow> int \<Rightarrow> Request \<Rightarrow> (storage \<times> Response) or_error" where
  "auditLogPost H env AUDIT_LOG_WRITE_TOKEN svc s nowMs rq =
     (let token = routerBearerToken (rq_header rq ''authorization'');
          writeToken = opt_trim AUDIT_LOG_WRITE_TOKEN;
          expectedToken = expectedAuditToken env AUDIT_LOG_WRITE_TOKEN;
          fail = (\<lambda>msg status. Inr (s, json_response (badRequest msg) status))
      in if writeToken = [] \<and> opt_trim (ADMIN_PASSWORD env) = ''change-this-in-dashboard''
         then fail ''insecure admin password configuration: replace ADMIN_PASSWORD placeholder or set AUDIT_LOG_WRITE_TOKEN'' 503
         else if expectedToken = [] then fail ''audit log endpoint is not configured'' 503
         else if token = [] \<or> token \<noteq> expectedToken then fail ''unauthorized'' 401
         else case rq_json rq of
           Inl _ \<Rightarrow> fail ''invalid json'' 400
         | Inr body \<Rightarrow>
             (case (jget body ''event'', jget body ''eventId'') of
                (JStr event, JStr eventId) \<Rightarrow>
                  (if event = [] then fail ''event is required'' 400
                   else if eventId = [] then fail ''eventId is required'' 400
                   else if \<not> truthy (jget body ''actor'') \<or> \<not> is_string (jget (jget body ''actor'') ''type'')
                           \<or> \<not> is_string (jget (jget body ''actor'') ''id'')
                   then fail ''actor.type and actor.id are required'' 400
                   else (case appendAuditLog H env svc s nowMs event (jget body ''actor'') (jget body ''data'') eventId of
                           Inl e \<Rightarrow> Inl e
                         | Inr (s', fullEntry) \<Rightarrow>
                             Inr (s', json_response (JObj [(''ok'', JBool True), (''entry_hash'', hashOf fullEntry),
                               (''immutable'', if jget fullEntry ''immutable'' = JUndef then JNull else jget fullEntry ''immutable'')]) 200)))
              | (JStr event, _) \<Rightarrow> fail (if event = [] then ''event is required'' else ''eventId is required'') 400
              | _ \<Rightarrow> fail ''event is required'' 400))"

section \<open>What authentication shows\<close>

lemma bearer_group:
  "extractBearerToken rq = Some t \<Longrightarrow> \<exists>r. t = js_trim (dropWhile is_ws r) \<and> dropWhile is_ws r \<noteq> []"
  by (auto simp only: extractBearerToken_def Let_def split: if_splits)

lemma bearer_nonempty:
  assumes "extractBearerToken rq = Some t"
  shows "t \<noteq> [] \<and> js_trim t = t"
proof -
  obtain g where g: "t = js_trim g" "g \<noteq> []" "\<not> is_ws (hd g)"
    using bearer_group [OF assms] hd_dropWhile by metis
  have "dropWhile is_ws g = g" using g by (intro dropWhile_id) simp
  then have "t \<noteq> []" using g hd_rev_dropWhile [of g is_ws] by (simp add: js_trim_def)
  then show ?thesis using g by simp
qed

text \<open>
  The token a request presents, said over the text of its header: the word \<open>Bearer\<close> in any capitalisation, white space,
  the token, which neither begins nor ends with white space, and white space again; no line break after the first space.
\<close>

definition presentsToken :: "Request \<Rightarrow> string \<Rightarrow> bool" where
  "presentsToken rq t =
     (\<exists>a w b. rq_header rq ''Authorization'' = Some (a @ w @ t @ b) \<and> js_lower a = ''bearer''
        \<and> w \<noteq> [] \<and> list_all is_ws w \<and> t \<noteq> [] \<and> trimmed t \<and> list_all is_ws b \<and> list_all (\<lambda>c. \<not> is_line_break c) (t @ b))"

text \<open>A stored invite code that is not revoked.\<close>

definition activeCode :: "storage \<Rightarrow> string \<Rightarrow> bool" where
  "activeCode s t =
     (is_obj (sto_get s (adminCodeKey t)) \<and> (\<forall>r. jget (sto_get s (adminCodeKey t)) ''revokedAt'' = JStr r \<longrightarrow> js_trim r = []))"

lemma trim_around:
  assumes "trimmed t" "t \<noteq> []" "list_all is_ws b"
  shows "js_trim (t @ b) = t"
proof -
  have "dropWhile is_ws (t @ b) = t @ b" using assms(1,2) by (intro dropWhile_id) (simp add: trimmed_def)
  moreover have "dropWhile is_ws (rev b @ rev t) = dropWhile is_ws (rev t)" using assms(3) by (intro dropWhile_append2) (simp add: list_all_iff)
  moreover have "dropWhile is_ws (rev t) = rev t" using assms(1,2) by (intro dropWhile_id) (simp add: trimmed_def hd_rev)
  ultimately show ?thesis by (simp add: js_trim_def)
qed

lemma trim_split:
  assumes "g \<noteq> []" "\<not> is_ws (hd g)"
  shows "\<exists>b. g = js_trim g @ b \<and> list_all is_ws b"
proof -
  have "g = rev (dropWhile is_ws (rev g)) @ rev (takeWhile is_ws (rev g))"
    by (metis rev_append rev_rev_ident takeWhile_dropWhile_id)
  moreover have "js_trim g = rev (dropWhile is_ws (rev g))" using assms by (simp add: js_trim_def dropWhile_id)
  moreover have "list_all is_ws (rev (takeWhile is_ws (rev g)))" by (auto simp: list_all_iff dest: set_takeWhileD)
  ultimately show ?thesis by metis
qed

lemma bearer_iff: "extractBearerToken rq = Some t \<longleftrightarrow> presentsToken rq t"
proof
  assume e: "extractBearerToken rq = Some t"
  obtain h where h: "rq_header rq ''Authorization'' = Some h"
    using e by (cases "rq_header rq ''Authorization''") (auto simp: extractBearerToken_def js_lower_def)
  define g where "g = dropWhile is_ws (drop 6 h)"
  have x: "t = js_trim g" "js_lower (take 6 h) = ''bearer''" "drop 6 h \<noteq> []" "is_ws (hd (drop 6 h))" "g \<noteq> []"
    "list_all (\<lambda>c. \<not> is_line_break c) g"
    using e by (auto simp: extractBearerToken_def h g_def Let_def split: if_splits)
  have "\<not> is_ws (hd g)" using x(5) unfolding g_def by (rule hd_dropWhile)
  from trim_split [OF x(5) this] obtain b where b: "g = t @ b" "list_all is_ws b" unfolding x(1) by blast
  have "takeWhile is_ws (drop 6 h) \<noteq> []" using x(3,4) by (cases "drop 6 h") auto
  moreover have "h = take 6 h @ takeWhile is_ws (drop 6 h) @ t @ b" unfolding b(1) [symmetric] g_def by simp
  moreover have "list_all is_ws (takeWhile is_ws (drop 6 h))" by (auto simp: list_all_iff dest: set_takeWhileD)
  moreover have "t \<noteq> []" "trimmed t" using bearer_nonempty [OF e] trimmed_js_trim [of g] x(1) by auto
  ultimately show "presentsToken rq t" using h x(2,6) b unfolding presentsToken_def by metis
next
  assume "presentsToken rq t"
  then obtain a w b where p: "rq_header rq ''Authorization'' = Some (a @ w @ t @ b)" "js_lower a = ''bearer''" "w \<noteq> []"
    "list_all is_ws w" "t \<noteq> []" "trimmed t" "list_all is_ws b" "list_all (\<lambda>c. \<not> is_line_break c) (t @ b)"
    unfolding presentsToken_def by blast
  have six: "length a = 6" using arg_cong [OF p(2), of length] by (simp add: js_lower_def)
  have "dropWhile is_ws (w @ t @ b) = dropWhile is_ws (t @ b)" using p(4) by (simp add: dropWhile_append2 list_all_iff)
  moreover have "dropWhile is_ws (t @ b) = t @ b" using p(5,6) by (intro dropWhile_id) (simp add: trimmed_def)
  ultimately have g: "dropWhile is_ws (w @ t @ b) = t @ b" by simp
  have "is_ws (hd (w @ t @ b))" using p(3,4) by (cases w) auto
  then show "extractBearerToken rq = Some t"
    unfolding extractBearerToken_def p(1) Let_def option.case using six p(2,3,5,8) g trim_around [OF p(6,5,7)] by simp
qed

text \<open>
  C16. Authentication is exact. A request is accepted as the master's exactly when its \<open>Authorization\<close> header presents
  the configured master password, trimmed, not empty and not the published placeholder. It is accepted as an
  administrator's exactly when the presented token is not that password and is the configured demo password or a stored
  invite code that is not revoked. Every accepted operator carries the presented token, and acts as the master, as the
  demo administrator or as the administrator whose record the code has.
\<close>

theorem authentication_exact:
  "((\<exists>op. authenticateOperator env s rq = Some op \<and> op_role op = RoleMaster)
      \<longleftrightarrow> (\<exists>t. presentsToken rq t \<and> t = opt_trim (ADMIN_PASSWORD env) \<and> t \<noteq> DEFAULT_ADMIN_PASSWORD))
   \<and> ((\<exists>op. authenticateOperator env s rq = Some op \<and> op_role op = RoleAdmin)
      \<longleftrightarrow> (\<exists>t. presentsToken rq t \<and> (t \<noteq> opt_trim (ADMIN_PASSWORD env) \<or> t = DEFAULT_ADMIN_PASSWORD)
            \<and> (t = opt_trim (ADMIN_DEMO_PASSWORD env) \<or> activeCode s t)))
   \<and> (\<forall>op. authenticateOperator env s rq = Some op \<longrightarrow>
        presentsToken rq (op_token op)
        \<and> op_adminId op = (case op_source op of SrcMaster \<Rightarrow> ''master'' | SrcDemo \<Rightarrow> ''demo-admin''
            | SrcInvite \<Rightarrow> or_else (strField (sto_get s (adminCodeKey (op_token op))) ''adminId'') (''legacy-'' @ take 12 (op_token op))))"
proof (cases "extractBearerToken rq")
  case None
  then show ?thesis by (auto simp: authenticateOperator_def simp flip: bearer_iff)
next
  case (Some t)
  have t: "presentsToken rq u \<longleftrightarrow> u = t" for u using Some by (auto simp flip: bearer_iff)
  have "t \<noteq> []" using bearer_nonempty [OF Some] by simp
  then have m: "getConfiguredMasterPassword env = Some t \<longleftrightarrow> t = opt_trim (ADMIN_PASSWORD env) \<and> t \<noteq> DEFAULT_ADMIN_PASSWORD"
    "getConfiguredDemoPassword env = Some t \<longleftrightarrow> t = opt_trim (ADMIN_DEMO_PASSWORD env)"
    by (auto simp: getConfiguredMasterPassword_def getConfiguredDemoPassword_def Let_def)
  have "(\<exists>r. parseAdminCodeRecord t (sto_get s (adminCodeKey t)) = Some r \<and> ac_revokedAt r = None) \<longleftrightarrow> activeCode s t"
    by (auto simp: parseAdminCodeRecord_def activeCode_def or_null_def strField_def split: js.splits)
  then show ?thesis
    unfolding t authenticateOperator_def Some option.case m
    by (auto simp: t parseAdminCodeRecord_def split: option.splits if_splits)
qed

theorem authentication_exact_witness:
  "\<exists>op. authenticateOperator (emptyEnv\<lparr>ADMIN_PASSWORD := Some ''s3cret''\<rparr>) []
          \<lparr>rq_method = ''GET'', rq_headers = [(''Authorization'', ''Bearer s3cret'')], rq_chunks = None, rq_json = Inl []\<rparr> = Some op
        \<and> op_role op = RoleMaster"
proof -
  let ?rq = "\<lparr>rq_method = ''GET'', rq_headers = [(''Authorization'', ''Bearer s3cret'')], rq_chunks = None, rq_json = Inl []\<rparr>"
  have "extractBearerToken ?rq = Some ''s3cret''" by code_simp
  then have "presentsToken ?rq ''s3cret''" by (simp add: bearer_iff)
  moreover have "''s3cret'' = opt_trim (ADMIN_PASSWORD (emptyEnv\<lparr>ADMIN_PASSWORD := Some ''s3cret''\<rparr>))" "''s3cret'' \<noteq> DEFAULT_ADMIN_PASSWORD"
    by code_simp+
  ultimately show ?thesis
    using authentication_exact [of "emptyEnv\<lparr>ADMIN_PASSWORD := Some ''s3cret''\<rparr>" "[]" ?rq] by blast
qed

text \<open>
  The audit endpoint is closed unless it is configured and the caller knows the token: when a request
  changes the storage or is answered with success, its token is the expected one, which is neither empty
  nor the placeholder password, the body names an event, an event id and an actor, and exactly one entry was
  appended.
\<close>

theorem audit_endpoint_guarded:
  assumes "auditLogPost H env writeTok svc s nowMs rq = Inr (s', resp)" "s' \<noteq> s \<or> rs_status resp = 200"
  shows "routerBearerToken (rq_header rq ''authorization'') = expectedAuditToken env writeTok
       \<and> expectedAuditToken env writeTok \<noteq> []
       \<and> (opt_trim writeTok = [] \<longrightarrow> expectedAuditToken env writeTok \<noteq> DEFAULT_ADMIN_PASSWORD)
       \<and> (\<exists>body event eventId e. rq_json rq = Inr body \<and> jget body ''event'' = JStr event \<and> jget body ''eventId'' = JStr eventId
            \<and> event \<noteq> [] \<and> eventId \<noteq> []
            \<and> appendAuditLog H env svc s nowMs event (jget body ''actor'') (jget body ''data'') eventId = Inr (s', e))"
proof -
  have tok: "opt_trim writeTok = [] \<longrightarrow> expectedAuditToken env writeTok \<noteq> DEFAULT_ADMIN_PASSWORD"
    by (auto simp: expectedAuditToken_def DEFAULT_ADMIN_PASSWORD_def Let_def)
  have "rs_status (json_response b n) = n" for b n by (simp add: json_response_def)
  with assms tok show ?thesis
    by (auto simp: auditLogPost_def Let_def split: if_splits sum.splits js.splits)
qed

definition sampleAuditRequest :: Request where
  "sampleAuditRequest = \<lparr>rq_method = ''POST'', rq_headers = [(''authorization'', ''Bearer w'')], rq_chunks = None,
     rq_json = Inr (JObj [(''event'', JStr ''E''), (''eventId'', JStr ''e1''), (''actor'', JObj [(''type'', JStr ''t''), (''id'', JStr ''i'')])])\<rparr>"

theorem audit_endpoint_guarded_witness:
  "\<exists>s' resp e. auditLogPost (\<lambda>x. ''h'') (emptyEnv\<lparr>AUDIT_IMMUTABLE_MODE := Some ''off''\<rparr>) (Some ''w'') noServices [] 1000 sampleAuditRequest = Inr (s', resp)
     \<and> appendAuditLog (\<lambda>x. ''h'') (emptyEnv\<lparr>AUDIT_IMMUTABLE_MODE := Some ''off''\<rparr>) noServices [] 1000 ''E''
          (JObj [(''type'', JStr ''t''), (''id'', JStr ''i'')]) JUndef ''e1'' = Inr (s', e)"
proof -
  let ?env = "emptyEnv\<lparr>AUDIT_IMMUTABLE_MODE := Some ''off''\<rparr>"
  have off: "getAuditImmutableMode ?env = ModeOff" by code_simp
  obtain s' e where a: "appendAuditLog (\<lambda>x. ''h'') ?env noServices [] 1000 ''E'' (JObj [(''type'', JStr ''t''), (''id'', JStr ''i'')]) JUndef ''e1'' = Inr (s', e)"
    by (simp add: appendAuditLog_def persist_off off Let_def)
  have t: "routerBearerToken (Some ''Bearer w'') = ''w''" "opt_trim (Some ''w'') = ''w''" by code_simp+
  have p: "\<exists>resp. auditLogPost (\<lambda>x. ''h'') ?env (Some ''w'') noServices [] 1000 sampleAuditRequest = Inr (s', resp) \<and> rs_status resp = 200"
    using a t by (simp add: auditLogPost_def sampleAuditRequest_def rq_header_def expectedAuditToken_def is_string_def json_response_def Let_def)
  then obtain resp where r: "auditLogPost (\<lambda>x. ''h'') ?env (Some ''w'') noServices [] 1000 sampleAuditRequest = Inr (s', resp)" "rs_status resp = 200" by blast
  from audit_endpoint_guarded [OF r(1)] r a show ?thesis by blast
qed

end
