(* ===== verification/Admin_Invite.thy ===== *)
theory Admin_Invite
  imports Operator_Auth
begin

text \<open>
  Invitation of administrators (\<open>storeDO.ts\<close>): proposals, their approval and rejection, and the request
  handlers. \<open>uid\<close> gives the UUID drawn at each place of a request; \<open>nowMs\<close> is its time. The fields
  \<open>approvedAt\<close> that the worker writes are ISO timestamps of one length, on which \<open>localeCompare\<close> is the
  order of the strings.
\<close>

type_synonym uuids = "string \<Rightarrow> string"

section \<open>Data\<close>

record InviteConsensusOperator =
  ico_actorId :: string
  ico_adminId :: string
  ico_role :: OperatorRole
  ico_source :: OperatorSource  \<comment> \<open>master or invite\<close>
  ico_name :: string

record AdminInviteApproval =
  aia_operator :: InviteConsensusOperator
  aia_approvedAt :: string

datatype AdminInviteProposalStatus = InvPending | InvIssued | InvCancelled

record AdminInviteProposalRecord =
  ip_proposalId :: string
  ip_name :: string
  ip_createdAt :: string
  ip_requestedBy :: InviteConsensusOperator
  ip_approvals :: "AdminInviteApproval list"
  ip_status :: AdminInviteProposalStatus
  ip_issuedCode :: "string option"
  ip_issuedAdminId :: "string option"
  ip_issuedAt :: "string option"
  ip_issuedByActorId :: "string option"
  ip_cancelledAt :: "string option"
  ip_cancelledByActorId :: "string option"
  ip_cancelledReason :: "string option"

fun roleStr :: "OperatorRole \<Rightarrow> string" where
  "roleStr RoleMaster = ''master''"
| "roleStr RoleAdmin = ''admin''"

fun inviteStatusStr :: "AdminInviteProposalStatus \<Rightarrow> string" where
  "inviteStatusStr InvPending = ''pending''"
| "inviteStatusStr InvIssued = ''issued''"
| "inviteStatusStr InvCancelled = ''cancelled''"

definition inviteOperatorProps :: "InviteConsensusOperator \<Rightarrow> (string \<times> js) list" where
  "inviteOperatorProps q = [(''actorId'', JStr (ico_actorId q)), (''adminId'', JStr (ico_adminId q)),
     (''role'', JStr (roleStr (ico_role q))), (''source'', JStr (sourceStr (ico_source q))), (''name'', JStr (ico_name q))]"

definition approvalToJs :: "AdminInviteApproval \<Rightarrow> js" where
  "approvalToJs a = JObj (inviteOperatorProps (aia_operator a) @ [(''approvedAt'', JStr (aia_approvedAt a))])"

definition inviteProposalToJs :: "AdminInviteProposalRecord \<Rightarrow> js" where
  "inviteProposalToJs p = JObj [(''proposalId'', JStr (ip_proposalId p)), (''name'', JStr (ip_name p)),
     (''createdAt'', JStr (ip_createdAt p)), (''requestedBy'', JObj (inviteOperatorProps (ip_requestedBy p))),
     (''approvals'', JArr (map approvalToJs (ip_approvals p))), (''status'', JStr (inviteStatusStr (ip_status p))),
     (''issuedCode'', jstr_null (ip_issuedCode p)), (''issuedAdminId'', jstr_null (ip_issuedAdminId p)),
     (''issuedAt'', jstr_null (ip_issuedAt p)), (''issuedByActorId'', jstr_null (ip_issuedByActorId p)),
     (''cancelledAt'', jstr_null (ip_cancelledAt p)), (''cancelledByActorId'', jstr_null (ip_cancelledByActorId p)),
     (''cancelledReason'', jstr_null (ip_cancelledReason p))]"

section \<open>Eligible operators\<close>

definition isInviteConsensusEligibleOperator :: "OperatorIdentity \<Rightarrow> bool" where
  "isInviteConsensusEligibleOperator operator = (op_source operator = SrcMaster \<or> op_source operator = SrcInvite)"

definition hasAdminInviteIssuanceAuthority :: "OperatorIdentity \<Rightarrow> bool" where
  "hasAdminInviteIssuanceAuthority operator = (op_source operator = SrcMaster \<and> op_role operator = RoleMaster)"

definition defaultOperatorName :: "OperatorRole \<Rightarrow> string" where
  "defaultOperatorName r = (if r = RoleMaster then ''Master Operator'' else ''Unknown Admin'')"

definition toInviteConsensusOperator :: "OperatorIdentity \<Rightarrow> InviteConsensusOperator option" where
  "toInviteConsensusOperator operator =
     (if \<not> isInviteConsensusEligibleOperator operator then None
      else Some \<lparr>ico_actorId = op_actorId operator, ico_adminId = op_adminId operator, ico_role = op_role operator,
             ico_source = (if op_source operator = SrcMaster then SrcMaster else SrcInvite),
             ico_name = or_else (op_name operator) (defaultOperatorName (op_role operator))\<rparr>)"

definition listInviteConsensusOperators :: "Env \<Rightarrow> InviteConsensusOperator list" where
  "listInviteConsensusOperators env =
     (case getConfiguredMasterPassword env of
        None \<Rightarrow> []
      | Some _ \<Rightarrow> [\<lparr>ico_actorId = ''master'', ico_adminId = ''master'', ico_role = RoleMaster, ico_source = SrcMaster,
                    ico_name = ''Master Operator''\<rparr>])"

section \<open>Parsing\<close>

definition parseRole :: "string \<Rightarrow> OperatorRole" where
  "parseRole r = (if r = ''master'' then RoleMaster else RoleAdmin)"

definition parseInviteSource :: "string \<Rightarrow> OperatorSource" where
  "parseInviteSource r = (if r = ''master'' then SrcMaster else SrcInvite)"

definition parseInviteOperator :: "js \<Rightarrow> InviteConsensusOperator" where
  "parseInviteOperator raw = \<lparr>ico_actorId = strField raw ''actorId'', ico_adminId = strField raw ''adminId'',
     ico_role = parseRole (strField raw ''role''), ico_source = parseInviteSource (strField raw ''source''),
     ico_name = or_else (strField raw ''name'') (defaultOperatorName (parseRole (strField raw ''role'')))\<rparr>"

definition parseAdminInviteApproval :: "js \<Rightarrow> AdminInviteApproval option" where
  "parseAdminInviteApproval raw =
     (if \<not> is_obj raw then None
      else let q = parseInviteOperator raw; approvedAt = strField raw ''approvedAt'' in
        if ico_actorId q = [] \<or> ico_adminId q = [] \<or> approvedAt = [] then None
        else Some \<lparr>aia_operator = q, aia_approvedAt = approvedAt\<rparr>)"

text \<open>The approvals by actor: a later approval replaces an earlier one in place.\<close>

definition addApproval :: "('a \<Rightarrow> string) \<Rightarrow> ('a \<Rightarrow> string) \<Rightarrow> 'a option \<Rightarrow> (string \<times> 'a) list \<Rightarrow> (string \<times> 'a) list" where
  "addApproval actor time parsed m =
     (case parsed of
        None \<Rightarrow> m
      | Some a \<Rightarrow>
          (case map_of m (actor a) of
             None \<Rightarrow> kv_set (actor a) a m
           | Some existing \<Rightarrow> if time existing < time a then kv_set (actor a) a m else m))"

definition parseInviteStatus :: "string \<Rightarrow> AdminInviteProposalStatus" where
  "parseInviteStatus r = (if r = ''issued'' then InvIssued else if r = ''cancelled'' then InvCancelled else InvPending)"

definition js_array :: "js \<Rightarrow> js list" where
  "js_array v = (case v of JArr xs \<Rightarrow> xs | _ \<Rightarrow> [])"

definition parseAdminInviteProposalRecord :: "string \<Rightarrow> js \<Rightarrow> AdminInviteProposalRecord option" where
  "parseAdminInviteProposalRecord proposalId raw =
     (if \<not> is_obj raw then None
      else
        let name = strField raw ''name'';
            requestedByRaw = jget raw ''requestedBy'';
            requestedBy = parseInviteOperator requestedByRaw;
            approvalMap = fold (\<lambda>item. addApproval (ico_actorId \<circ> aia_operator) aia_approvedAt (parseAdminInviteApproval item))
                            (js_array (jget raw ''approvals'')) []
        in if name = [] \<or> \<not> is_obj requestedByRaw \<or> ico_actorId requestedBy = [] \<or> ico_adminId requestedBy = [] then None
           else Some \<lparr>ip_proposalId = proposalId, ip_name = name,
             ip_createdAt = or_else (strField raw ''createdAt'') (js_toISOString 0), ip_requestedBy = requestedBy,
             ip_approvals = sort_key aia_approvedAt (map snd approvalMap),
             ip_status = parseInviteStatus (strField raw ''status''),
             ip_issuedCode = or_null (strField raw ''issuedCode''), ip_issuedAdminId = or_null (strField raw ''issuedAdminId''),
             ip_issuedAt = or_null (strField raw ''issuedAt''), ip_issuedByActorId = or_null (strField raw ''issuedByActorId''),
             ip_cancelledAt = or_null (strField raw ''cancelledAt''),
             ip_cancelledByActorId = or_null (strField raw ''cancelledByActorId''),
             ip_cancelledReason = or_null (strField raw ''cancelledReason'')\<rparr>)"

section \<open>Responses\<close>

definition errorBody :: "string \<Rightarrow> js" where
  "errorBody message = JObj [(''error'', JStr message)]"

definition jsNat :: "nat \<Rightarrow> js" where
  "jsNat n = JInt (int n)"

definition requiredApprovals :: "InviteConsensusOperator list \<Rightarrow> AdminInviteProposalRecord \<Rightarrow> AdminInviteApproval list" where
  "requiredApprovals requiredOperators proposal =
     filter (\<lambda>a. ico_actorId (aia_operator a) \<in> ico_actorId ` set requiredOperators) (ip_approvals proposal)"

definition missingApprovers :: "InviteConsensusOperator list \<Rightarrow> AdminInviteApproval list \<Rightarrow> InviteConsensusOperator list" where
  "missingApprovers requiredOperators approvedBy =
     filter (\<lambda>q. ico_actorId q \<notin> (ico_actorId \<circ> aia_operator) ` set approvedBy) requiredOperators"

definition buildInviteProposalPendingResponse :: "AdminInviteProposalRecord \<Rightarrow> InviteConsensusOperator list \<Rightarrow> Response" where
  "buildInviteProposalPendingResponse proposal requiredOperators =
     (let approvedBy = requiredApprovals requiredOperators proposal;
          missing = missingApprovers requiredOperators approvedBy
      in json_response (JObj [(''status'', JStr ''pending_approval''), (''proposalId'', JStr (ip_proposalId proposal)),
           (''name'', JStr (ip_name proposal)), (''createdAt'', JStr (ip_createdAt proposal)),
           (''requestedBy'', JObj (inviteOperatorProps (ip_requestedBy proposal))),
           (''approvals'', JArr (map approvalToJs approvedBy)), (''approvedCount'', jsNat (length approvedBy)),
           (''requiredCount'', jsNat (length requiredOperators)),
           (''requiredApprovers'', JArr (map (JObj \<circ> inviteOperatorProps) requiredOperators)),
           (''missingApprovers'', JArr (map (JObj \<circ> inviteOperatorProps) missing)),
           (''unanimousApproved'', JBool (missing = []))]) 202)"

definition issuedResponse ::
  "AdminInviteProposalRecord \<Rightarrow> string \<Rightarrow> string \<Rightarrow> string \<Rightarrow> nat \<Rightarrow> bool \<Rightarrow> AdminInviteApproval list \<Rightarrow> Response" where
  "issuedResponse proposal code adminId createdAt requiredCount unanimous approvedBy =
     json_response (JObj [(''code'', JStr code), (''adminId'', JStr adminId), (''name'', JStr (ip_name proposal)),
       (''status'', JStr ''active''), (''createdAt'', JStr createdAt),
       (''consensus'', JObj [(''proposalId'', JStr (ip_proposalId proposal)), (''approvedCount'', jsNat (length approvedBy)),
          (''requiredCount'', jsNat requiredCount), (''unanimousApproved'', JBool unanimous),
          (''approvedBy'', JArr (map approvalToJs approvedBy))])]) 200"

section \<open>Approval and rejection\<close>

definition addInviteApproval :: "InviteConsensusOperator \<Rightarrow> int \<Rightarrow> AdminInviteProposalRecord \<Rightarrow> AdminInviteProposalRecord" where
  "addInviteApproval approver nowMs proposal =
     (if ico_actorId approver \<in> (ico_actorId \<circ> aia_operator) ` set (ip_approvals proposal) then proposal
      else proposal\<lparr>ip_approvals := sort_key aia_approvedAt
             (ip_approvals proposal @ [\<lparr>aia_operator = approver, aia_approvedAt = js_toISOString nowMs\<rparr>])\<rparr>)"

definition putProposal :: "storage \<Rightarrow> AdminInviteProposalRecord \<Rightarrow> storage" where
  "putProposal s p = sto_put s (adminInviteProposalKey (ip_proposalId p)) (inviteProposalToJs p)"

definition remove_dashes :: "string \<Rightarrow> string" where
  "remove_dashes u = filter (\<lambda>c. c \<noteq> CHR ''-'') u"

definition adminCodeToJs :: "string \<Rightarrow> string \<Rightarrow> string \<Rightarrow> js" where
  "adminCodeToJs adminId name createdAt = JObj [(''adminId'', JStr adminId), (''name'', JStr name),
     (''source'', JStr ''invite''), (''createdAt'', JStr createdAt), (''revokedAt'', JNull), (''revokedBy'', JNull)]"

definition approveAdminInviteProposal ::
  "(string \<Rightarrow> string) \<Rightarrow> Env \<Rightarrow> uuids \<Rightarrow> storage \<Rightarrow> int \<Rightarrow> OperatorIdentity \<Rightarrow> AdminInviteProposalRecord \<Rightarrow> storage \<times> Response" where
  "approveAdminInviteProposal H env uid s nowMs operator proposal0 =
     (if \<not> hasAdminInviteIssuanceAuthority operator
      then (s, json_response (errorBody ''forbidden: master invite issuer only'') 403)
      else if ip_status proposal0 = InvCancelled
      then (s, json_response (errorBody ''invite proposal cancelled'') 409)
      else
        let requiredOperators = listInviteConsensusOperators env in
        if requiredOperators = [] then (s, serverConfigErrorResponse)
        else if ip_status proposal0 = InvIssued
        then (case (ip_issuedCode proposal0, ip_issuedAdminId proposal0, ip_issuedAt proposal0) of
                (Some code, Some adminId, Some issuedAt) \<Rightarrow>
                  (let approvedBy = requiredApprovals requiredOperators proposal0
                   in (s, issuedResponse proposal0 code adminId issuedAt (length requiredOperators)
                            (length approvedBy \<ge> length requiredOperators) approvedBy))
              | _ \<Rightarrow> (s, json_response (errorBody ''invite proposal already issued but incomplete'') 500))
        else case toInviteConsensusOperator operator of
          None \<Rightarrow> (s, json_response (errorBody ''forbidden: invite consensus approver only'') 403)
        | Some approver \<Rightarrow>
            (let proposal = addInviteApproval approver nowMs proposal0;
                 approvedBy = requiredApprovals requiredOperators proposal
             in if missingApprovers requiredOperators approvedBy \<noteq> []
                then (putProposal s proposal, buildInviteProposalPendingResponse proposal requiredOperators)
                else case enforceAdminInviteIssueLimit H env s nowMs of
                  (s1, Some issueLimitError) \<Rightarrow> (putProposal s1 proposal, issueLimitError)
                | (s1, None) \<Rightarrow>
                    (let code = remove_dashes (uid ''code'');
                         adminId = uid ''adminId'';
                         createdAt = js_toISOString nowMs;
                         s2 = sto_put s1 (adminCodeKey code) (adminCodeToJs adminId (ip_name proposal) createdAt);
                         issued = proposal\<lparr>ip_status := InvIssued, ip_issuedCode := Some code, ip_issuedAdminId := Some adminId,
                                           ip_issuedAt := Some createdAt, ip_issuedByActorId := Some (op_actorId operator)\<rparr>
                     in (putProposal s2 issued,
                         issuedResponse issued code adminId createdAt (length requiredOperators) True approvedBy))))"

definition cancelledResponse :: "AdminInviteProposalRecord \<Rightarrow> Response" where
  "cancelledResponse p = json_response (JObj [(''status'', JStr ''cancelled''), (''proposalId'', JStr (ip_proposalId p)),
     (''name'', JStr (ip_name p)), (''cancelledAt'', jstr_null (ip_cancelledAt p)),
     (''cancelledByActorId'', jstr_null (ip_cancelledByActorId p)), (''reason'', jstr_null (ip_cancelledReason p))]) 200"

definition rejectAdminInviteProposal ::
  "storage \<Rightarrow> int \<Rightarrow> OperatorIdentity \<Rightarrow> AdminInviteProposalRecord \<Rightarrow> string \<Rightarrow> storage \<times> Response" where
  "rejectAdminInviteProposal s nowMs operator proposal reasonInput =
     (let reason = js_trim reasonInput in
      if \<not> hasAdminInviteIssuanceAuthority operator
      then (s, json_response (errorBody ''forbidden: master invite issuer only'') 403)
      else if reason = [] then (s, json_response (errorBody ''reason required'') 400)
      else if length reason > 300 then (s, json_response (errorBody ''reason must be 1-300 chars'') 400)
      else if ip_status proposal = InvIssued then (s, json_response (errorBody ''invite proposal already issued'') 409)
      else if ip_status proposal = InvCancelled then (s, cancelledResponse proposal)
      else let cancelled = proposal\<lparr>ip_status := InvCancelled, ip_cancelledAt := Some (js_toISOString nowMs),
                             ip_cancelledByActorId := Some (op_actorId operator), ip_cancelledReason := Some reason\<rparr>
           in (putProposal s cancelled, cancelledResponse cancelled))"

section \<open>Handlers\<close>

text \<open>The operator with the authority to invite, or the refusing response.\<close>

definition inviteIssuer :: "Env \<Rightarrow> storage \<Rightarrow> Request \<Rightarrow> Response + OperatorIdentity" where
  "inviteIssuer env s rq =
     (case authenticateOperator env s rq of
        None \<Rightarrow> Inl unauthorizedResponse
      | Some operator \<Rightarrow>
          if \<not> hasAdminInviteIssuanceAuthority operator
          then Inl (json_response (errorBody ''forbidden: master invite issuer only'') 403) else Inr operator)"

definition loadProposal :: "storage \<Rightarrow> string \<Rightarrow> AdminInviteProposalRecord option" where
  "loadProposal s proposalId = parseAdminInviteProposalRecord proposalId (sto_get s (adminInviteProposalKey proposalId))"

definition newProposal :: "string \<Rightarrow> string \<Rightarrow> int \<Rightarrow> InviteConsensusOperator \<Rightarrow> AdminInviteProposalRecord" where
  "newProposal proposalId name nowMs requester = \<lparr>ip_proposalId = proposalId, ip_name = name,
     ip_createdAt = js_toISOString nowMs, ip_requestedBy = requester, ip_approvals = [], ip_status = InvPending,
     ip_issuedCode = None, ip_issuedAdminId = None, ip_issuedAt = None, ip_issuedByActorId = None,
     ip_cancelledAt = None, ip_cancelledByActorId = None, ip_cancelledReason = None\<rparr>"

definition handleInvite ::
  "(string \<Rightarrow> string) \<Rightarrow> Env \<Rightarrow> uuids \<Rightarrow> storage \<Rightarrow> int \<Rightarrow> Request \<Rightarrow> storage \<times> Response" where
  "handleInvite H env uid s nowMs rq =
     (case inviteIssuer env s rq of
        Inl resp \<Rightarrow> (s, resp)
      | Inr operator \<Rightarrow>
          (case rq_json rq of
             Inl _ \<Rightarrow> (s, json_response (errorBody ''invalid body'') 400)
           | Inr body \<Rightarrow>
               (let proposalId = strField body ''proposalId''; name = strField body ''name'' in
                if proposalId \<noteq> []
                then (case loadProposal s proposalId of
                        None \<Rightarrow> (s, json_response (errorBody ''invite proposal not found'') 404)
                      | Some proposal \<Rightarrow> approveAdminInviteProposal H env uid s nowMs operator proposal)
                else if name = [] then (s, json_response (errorBody ''name required'') 400)
                else if length name > 64 then (s, json_response (errorBody ''name must be 1-64 chars'') 400)
                else case toInviteConsensusOperator operator of
                  None \<Rightarrow> (s, json_response (errorBody ''forbidden: invite consensus approver only'') 403)
                | Some requester \<Rightarrow>
                    (let proposal = newProposal (uid ''proposalId'') name nowMs requester
                     in approveAdminInviteProposal H env uid (putProposal s proposal) nowMs operator proposal))))"

definition handleInviteApprove ::
  "(string \<Rightarrow> string) \<Rightarrow> Env \<Rightarrow> uuids \<Rightarrow> storage \<Rightarrow> int \<Rightarrow> Request \<Rightarrow> storage \<times> Response" where
  "handleInviteApprove H env uid s nowMs rq =
     (case inviteIssuer env s rq of
        Inl resp \<Rightarrow> (s, resp)
      | Inr operator \<Rightarrow>
          (case rq_json rq of
             Inl _ \<Rightarrow> (s, json_response (errorBody ''invalid body'') 400)
           | Inr body \<Rightarrow>
               (let proposalId = strField body ''proposalId'' in
                if proposalId = [] then (s, json_response (errorBody ''proposalId required'') 400)
                else case loadProposal s proposalId of
                       None \<Rightarrow> (s, json_response (errorBody ''invite proposal not found'') 404)
                     | Some proposal \<Rightarrow> approveAdminInviteProposal H env uid s nowMs operator proposal)))"

definition handleInviteReject :: "Env \<Rightarrow> storage \<Rightarrow> int \<Rightarrow> Request \<Rightarrow> storage \<times> Response" where
  "handleInviteReject env s nowMs rq =
     (case inviteIssuer env s rq of
        Inl resp \<Rightarrow> (s, resp)
      | Inr operator \<Rightarrow>
          (case rq_json rq of
             Inl _ \<Rightarrow> (s, json_response (errorBody ''invalid body'') 400)
           | Inr body \<Rightarrow>
               (let proposalId = strField body ''proposalId'';
                    reason = (case jget body ''reason'' of JStr t \<Rightarrow> t | _ \<Rightarrow> [])
                in if proposalId = [] then (s, json_response (errorBody ''proposalId required'') 400)
                   else case loadProposal s proposalId of
                          None \<Rightarrow> (s, json_response (errorBody ''invite proposal not found'') 404)
                        | Some proposal \<Rightarrow> rejectAdminInviteProposal s nowMs operator proposal reason)))"

definition pendingProposalView :: "InviteConsensusOperator list \<Rightarrow> AdminInviteProposalRecord \<Rightarrow> js" where
  "pendingProposalView requiredOperators proposal =
     (let approvals = requiredApprovals requiredOperators proposal; missing = missingApprovers requiredOperators approvals in
      JObj [(''proposalId'', JStr (ip_proposalId proposal)), (''name'', JStr (ip_name proposal)),
        (''createdAt'', JStr (ip_createdAt proposal)), (''requestedBy'', JObj (inviteOperatorProps (ip_requestedBy proposal))),
        (''approvals'', JArr (map approvalToJs approvals)), (''approvedCount'', jsNat (length approvals)),
        (''requiredCount'', jsNat (length requiredOperators)),
        (''missingApprovers'', JArr (map (JObj \<circ> inviteOperatorProps) missing)), (''unanimousApproved'', JBool (missing = []))])"

definition handleInvitePending :: "Env \<Rightarrow> storage \<Rightarrow> int \<Rightarrow> Request \<Rightarrow> Response" where
  "handleInvitePending env s nowMs rq =
     (case authenticateOperator env s rq of
        None \<Rightarrow> unauthorizedResponse
      | Some operator \<Rightarrow>
          if \<not> isInviteConsensusEligibleOperator operator
          then json_response (errorBody ''forbidden: invite consensus approver only'') 403
          else
            let requiredOperators = listInviteConsensusOperators env;
                parsed = List.map_filter (\<lambda>(key, value). parseAdminInviteProposalRecord (drop (length ADMIN_INVITE_PROPOSAL_PREFIX) key) value)
                           (sto_list s ADMIN_INVITE_PROPOSAL_PREFIX);
                pending = filter (\<lambda>p. ip_status p = InvPending) parsed;
                newestFirst = rev (sort_key ip_createdAt (rev pending))
            in json_response (JObj [(''checkedAt'', JStr (js_toISOString nowMs)),
                 (''requiredApprovers'', JArr (map (JObj \<circ> inviteOperatorProps) requiredOperators)),
                 (''requiredCount'', jsNat (length requiredOperators)),
                 (''proposals'', JArr (map (pendingProposalView requiredOperators) newestFirst))]) 200)"

end
