(* ===== verification/Invite_Spec.thy ===== *)
theory Invite_Spec
  imports Admin_Invite
begin

text \<open>
  Invitations as a state machine: a proposal is pending until it is issued or cancelled, and then fixed;
  only the master issues codes; an issued code authenticates its holder.
\<close>

section \<open>Requests\<close>

datatype invite_request = PostInvite Request | PostApprove Request | PostReject Request

fun invite_step :: "(string \<Rightarrow> string) \<Rightarrow> Env \<Rightarrow> storage \<Rightarrow> uuids \<times> int \<times> invite_request \<Rightarrow> storage" where
  "invite_step H env s (uid, nowMs, PostInvite rq) = fst (handleInvite H env uid s nowMs rq)"
| "invite_step H env s (uid, nowMs, PostApprove rq) = fst (handleInviteApprove H env uid s nowMs rq)"
| "invite_step H env s (uid, nowMs, PostReject rq) = fst (handleInviteReject env s nowMs rq)"

fun request_of :: "invite_request \<Rightarrow> Request" where
  "request_of (PostInvite rq) = rq"
| "request_of (PostApprove rq) = rq"
| "request_of (PostReject rq) = rq"

lemma invite_keys:
  "adminInviteProposalKey p \<noteq> adminCodeKey c" "adminCodeKey c \<noteq> adminInviteProposalKey p"
  "issueLimitKey H pol a \<noteq> adminCodeKey c" "issueLimitKey H pol a \<noteq> adminInviteProposalKey p"
  "adminCodeKey c \<noteq> issueLimitKey H pol a" "adminInviteProposalKey p \<noteq> issueLimitKey H pol a"
  by (simp_all add: key_defs prefix_defs issueLimitKey_def SECURITY_ISSUE_LIMIT_PREFIX_def)

lemma invite_limit_frame:
  assumes "enforceAdminInviteIssueLimit H env s nowMs = (s1, r)"
  shows "sto_get s1 (adminCodeKey c) = sto_get s (adminCodeKey c)"
    "sto_get s1 (adminInviteProposalKey p) = sto_get s (adminInviteProposalKey p)"
  using assms
  by (auto simp: enforceAdminInviteIssueLimit_def consumeSecurityIssueLimit_def invite_keys Let_def
      split: option.splits if_splits prod.splits)

lemma addInviteApproval_id [simp]: "ip_proposalId (addInviteApproval a n p) = ip_proposalId p"
  "ip_status (addInviteApproval a n p) = ip_status p" "ip_name (addInviteApproval a n p) = ip_name p"
  by (simp_all add: addInviteApproval_def)

text \<open>An approval touches the proposal it approves, when this is pending, and the code it issues.\<close>

lemma approve_frame:
  "sto_get (fst (approveAdminInviteProposal H env uid s nowMs operator p)) (adminInviteProposalKey i)
     = sto_get s (adminInviteProposalKey i) \<or> (i = ip_proposalId p \<and> ip_status p = InvPending)"
  "sto_get (fst (approveAdminInviteProposal H env uid s nowMs operator p)) (adminCodeKey c)
     = sto_get s (adminCodeKey c) \<or> (c = remove_dashes (uid ''code'') \<and> hasAdminInviteIssuanceAuthority operator)"
proof -
  have st: "ip_status p = InvPending" if "ip_status p \<noteq> InvCancelled" "ip_status p \<noteq> InvIssued"
    using that by (cases "ip_status p") auto
  show "sto_get (fst (approveAdminInviteProposal H env uid s nowMs operator p)) (adminInviteProposalKey i)
     = sto_get s (adminInviteProposalKey i) \<or> (i = ip_proposalId p \<and> ip_status p = InvPending)"
    using st
    by (auto simp: approveAdminInviteProposal_def putProposal_def invite_keys Let_def dest: invite_limit_frame(2)
        split: option.split prod.split)
  show "sto_get (fst (approveAdminInviteProposal H env uid s nowMs operator p)) (adminCodeKey c)
     = sto_get s (adminCodeKey c) \<or> (c = remove_dashes (uid ''code'') \<and> hasAdminInviteIssuanceAuthority operator)"
    by (auto simp: approveAdminInviteProposal_def putProposal_def invite_keys Let_def dest: invite_limit_frame(1)
        split: option.split prod.split)
qed

lemma reject_frame:
  "sto_get (fst (rejectAdminInviteProposal s nowMs operator p reason)) (adminInviteProposalKey i)
     = sto_get s (adminInviteProposalKey i) \<or> (i = ip_proposalId p \<and> ip_status p = InvPending)"
  "sto_get (fst (rejectAdminInviteProposal s nowMs operator p reason)) (adminCodeKey c) = sto_get s (adminCodeKey c)"
  by (cases "ip_status p"; auto simp: rejectAdminInviteProposal_def putProposal_def invite_keys Let_def)+

lemma loadProposal_id: "loadProposal s i = Some p \<Longrightarrow> ip_proposalId p = i"
  by (auto simp: loadProposal_def parseAdminInviteProposalRecord_def Let_def split: if_splits)

lemma final_unchanged:
  assumes "loadProposal s i = Some p" "ip_status p \<noteq> InvPending" "uid ''proposalId'' \<noteq> i"
  shows "sto_get (invite_step H env s (uid, nowMs, r)) (adminInviteProposalKey i) = sto_get s (adminInviteProposalKey i)"
proof -
  have app: "sto_get (fst (approveAdminInviteProposal H env uid s nowMs operator q)) (adminInviteProposalKey i) = sto_get s (adminInviteProposalKey i)"
    if "loadProposal s j = Some q" for operator q j
    using approve_frame(1) [of H env uid s nowMs operator q i] loadProposal_id [OF that] that assms(1,2) by auto
  have rej: "sto_get (fst (rejectAdminInviteProposal s nowMs operator q reason)) (adminInviteProposalKey i) = sto_get s (adminInviteProposalKey i)"
    if "loadProposal s j = Some q" for operator q j reason
    using reject_frame(1) [of s nowMs operator q reason i] loadProposal_id [OF that] that assms(1,2) by auto
  have new: "sto_get (fst (approveAdminInviteProposal H env uid (putProposal s (newProposal (uid ''proposalId'') name nowMs q)) nowMs operator
      (newProposal (uid ''proposalId'') name nowMs q))) (adminInviteProposalKey i) = sto_get s (adminInviteProposalKey i)" for operator q name
    using approve_frame(1) [of H env uid "putProposal s (newProposal (uid ''proposalId'') name nowMs q)" nowMs operator
        "newProposal (uid ''proposalId'') name nowMs q" i] assms(3)
    by (auto simp: putProposal_def newProposal_def)
  show ?thesis
    by (cases r) (auto simp: handleInvite_def handleInviteApprove_def handleInviteReject_def Let_def app rej new
        split: sum.split option.split)
qed

text \<open>
  Issued and cancelled proposals are final: whatever requests to invite, approve or reject follow, the
  stored record of a proposal that is no longer pending stays exactly as it is, so an issued code is never
  replaced and a cancelled proposal never issues one. (The UUIDs drawn for new proposals differ from its
  id.)
\<close>

theorem final_proposals_fixed:
  assumes "loadProposal s i = Some p" "ip_status p \<noteq> InvPending" "\<forall>(uid, nowMs, r) \<in> set steps. uid ''proposalId'' \<noteq> i"
  shows "loadProposal (foldl (invite_step H env) s steps) i = Some p
       \<and> sto_get (foldl (invite_step H env) s steps) (adminInviteProposalKey i) = sto_get s (adminInviteProposalKey i)"
  using assms
proof (induction steps arbitrary: s)
  case (Cons x steps)
  obtain uid nowMs r where x: "x = (uid, nowMs, r)" by (cases x) auto
  have keep: "sto_get (invite_step H env s x) (adminInviteProposalKey i) = sto_get s (adminInviteProposalKey i)"
    unfolding x using Cons.prems x by (intro final_unchanged) auto
  then have "loadProposal (invite_step H env s x) i = Some p" using Cons.prems(1) by (simp add: loadProposal_def)
  from Cons.IH [OF this Cons.prems(2)] Cons.prems(3) keep show ?case by simp
qed simp

text \<open>
  Only the master issues invite codes: a request that creates, changes or removes the record of any
  code carries the configured master password, and the code is the one drawn in this request.
\<close>

theorem invite_codes_by_master_only:
  assumes "sto_get (invite_step H env s (uid, nowMs, r)) (adminCodeKey c) \<noteq> sto_get s (adminCodeKey c)"
  shows "extractBearerToken (request_of r) \<noteq> None \<and> extractBearerToken (request_of r) = getConfiguredMasterPassword env
       \<and> c = remove_dashes (uid ''code'')"
proof -
  have auth: "extractBearerToken rq \<noteq> None \<and> extractBearerToken rq = getConfiguredMasterPassword env"
    if "inviteIssuer env s rq = Inr operator" for rq operator
    using that by (auto simp: inviteIssuer_def hasAdminInviteIssuanceAuthority_def authenticateOperator_def
        split: option.splits if_splits)
  have app: "c = remove_dashes (uid ''code'')"
    if "sto_get (fst (approveAdminInviteProposal H env uid s' nowMs operator q)) (adminCodeKey c) \<noteq> sto_get s (adminCodeKey c)"
      "sto_get s' (adminCodeKey c) = sto_get s (adminCodeKey c)" for operator q s'
    using approve_frame(2) [of H env uid s' nowMs operator q c] that by auto
  have put: "sto_get (putProposal s q) (adminCodeKey c) = sto_get s (adminCodeKey c)" for q
    by (simp add: putProposal_def invite_keys)
  have "(\<exists>operator. inviteIssuer env s (request_of r) = Inr operator) \<and> c = remove_dashes (uid ''code'')"
    using assms app put
    by (cases r) (auto simp: handleInvite_def handleInviteApprove_def handleInviteReject_def Let_def reject_frame(2)
        split: sum.splits option.splits if_splits)
  then show ?thesis using auth by blast
qed

section \<open>An issued code works\<close>

lemma invite_limit_independent:
  "snd (enforceAdminInviteIssueLimit H env (putProposal s p) nowMs) = snd (enforceAdminInviteIssueLimit H env s nowMs)"
  by (auto simp: enforceAdminInviteIssueLimit_def consumeSecurityIssueLimit_def putProposal_def invite_keys Let_def
      split: option.splits prod.splits)

lemma master_identity:
  assumes "authenticateOperator env s rq = Some op" "op_role op = RoleMaster"
  shows "op_source op = SrcMaster" "op_actorId op = ''master''" "op_adminId op = ''master''" "op_name op = ''Master Operator''"
    "getConfiguredMasterPassword env = Some (op_token op)"
  using assms by (auto simp: authenticateOperator_def split: option.splits if_splits)

text \<open>A storage in which a code was just issued for a proposal.\<close>

lemma strField_JObj: "strField (JObj kvs) k = (case map_of kvs k of Some (JStr t) \<Rightarrow> js_trim t | _ \<Rightarrow> [])"
  by (auto simp: strField_def split: option.splits)

lemma trims: "js_trim ''master'' = ''master''" "js_trim ''issued'' = ''issued''"
  by code_simp+

lemma load_issued:
  assumes "ip_proposalId p = i" "ip_status p = InvIssued" "ip_issuedCode p = Some c" "js_trim c = c" "c \<noteq> []"
    and "ico_actorId (ip_requestedBy p) = ''master''" "ico_adminId (ip_requestedBy p) = ''master''" "js_trim (ip_name p) \<noteq> []"
  shows "\<exists>q. loadProposal (putProposal s p) i = Some q \<and> ip_status q = InvIssued \<and> ip_issuedCode q = Some c"
  using assms
  by (simp add: loadProposal_def putProposal_def parseAdminInviteProposalRecord_def inviteProposalToJs_def strField_JObj
      parseInviteOperator_def inviteOperatorProps_def trims parseInviteStatus_def jstr_null_def or_null_def Let_def)

lemma code_authenticates:
  assumes "sto_get s (adminCodeKey c) = adminCodeToJs adminId name createdAt" "extractBearerToken rq = Some c"
    and "js_trim adminId = adminId" "adminId \<noteq> []" "js_trim name = name" "name \<noteq> []"
    and "getConfiguredMasterPassword env \<noteq> Some c" "getConfiguredDemoPassword env \<noteq> Some c"
  shows "\<exists>op. authenticateOperator env s rq = Some op \<and> op_role op = RoleAdmin \<and> op_adminId op = adminId \<and> op_name op = name"
  using assms
  by (simp add: authenticateOperator_def parseAdminCodeRecord_def adminCodeToJs_def strField_JObj or_else_def or_null_def)

lemma issuing:
  assumes "hasAdminInviteIssuanceAuthority operator" "op_actorId operator = ''master''" "ip_status p = InvPending"
    and "getConfiguredMasterPassword env \<noteq> None" "enforceAdminInviteIssueLimit H env s nowMs = (s1, None)"
  shows "\<exists>q approvedBy. approveAdminInviteProposal H env uid s nowMs operator p =
           (putProposal (sto_put s1 (adminCodeKey (remove_dashes (uid ''code'')))
               (adminCodeToJs (uid ''adminId'') (ip_name p) (js_toISOString nowMs))) q,
            issuedResponse q (remove_dashes (uid ''code'')) (uid ''adminId'') (js_toISOString nowMs) 1 True approvedBy)
         \<and> ip_proposalId q = ip_proposalId p \<and> ip_status q = InvIssued \<and> ip_issuedCode q = Some (remove_dashes (uid ''code''))
         \<and> ip_requestedBy q = ip_requestedBy p \<and> ip_name q = ip_name p"
proof -
  obtain approver where a: "toInviteConsensusOperator operator = Some approver" "ico_actorId approver = ''master''"
    using assms(1,2) by (auto simp: toInviteConsensusOperator_def hasAdminInviteIssuanceAuthority_def isInviteConsensusEligibleOperator_def)
  define req where "req = listInviteConsensusOperators env"
  have req: "length req = 1" "ico_actorId ` set req = {''master''}" "req \<noteq> []"
    using assms(4) by (auto simp: req_def listInviteConsensusOperators_def)
  define pa where "pa = addInviteApproval approver nowMs p"
  have "''master'' \<in> (ico_actorId \<circ> aia_operator) ` set (ip_approvals pa)"
    using a(2) by (auto simp: pa_def addInviteApproval_def)
  then have "missingApprovers req (requiredApprovals req pa) = []"
    using req(2) by (fastforce simp: missingApprovers_def requiredApprovals_def filter_empty_conv)
  moreover have "ip_requestedBy pa = ip_requestedBy p" by (simp add: pa_def addInviteApproval_def)
  moreover have "ip_name pa = ip_name p" "ip_proposalId pa = ip_proposalId p" by (simp_all add: pa_def)
  ultimately show ?thesis
    using assms a req
    by (intro exI [of _ "pa\<lparr>ip_status := InvIssued, ip_issuedCode := Some (remove_dashes (uid ''code'')), ip_issuedAdminId := Some (uid ''adminId''),
            ip_issuedAt := Some (js_toISOString nowMs), ip_issuedByActorId := Some ''master''\<rparr>"] exI [of _ "requiredApprovals req pa"])
       (simp add: approveAdminInviteProposal_def Let_def req_def [symmetric] pa_def [symmetric])
qed

lemma issued_storage:
  assumes master: "authenticateOperator env s rq = Some op" "op_role op = RoleMaster"
    and body: "rq_json rq = Inr body" "strField body ''proposalId'' = []" "strField body ''name'' = name" "name \<noteq> []" "length name \<le> 64"
    and limit: "snd (enforceAdminInviteIssueLimit H env s nowMs) = None"
    and admin: "js_trim (uid ''adminId'') = uid ''adminId''" "uid ''adminId'' \<noteq> []"
    and token: "extractBearerToken rq2 = Some (remove_dashes (uid ''code''))" "getConfiguredMasterPassword env \<noteq> Some (remove_dashes (uid ''code''))"
      "getConfiguredDemoPassword env \<noteq> Some (remove_dashes (uid ''code''))"
  shows "\<exists>s' resp op2 p. handleInvite H env uid s nowMs rq = (s', resp) \<and> rs_status resp = 200
           \<and> jget (rs_body resp) ''code'' = JStr (remove_dashes (uid ''code''))
           \<and> loadProposal s' (uid ''proposalId'') = Some p \<and> ip_status p = InvIssued \<and> ip_issuedCode p = Some (remove_dashes (uid ''code''))
           \<and> authenticateOperator env s' rq2 = Some op2 \<and> op_role op2 = RoleAdmin
           \<and> op_adminId op2 = uid ''adminId'' \<and> op_name op2 = name
           \<and> sto_get s' (adminCodeKey (remove_dashes (uid ''code''))) \<noteq> JUndef"
proof -
  note m = master_identity [OF master]
  have auth: "hasAdminInviteIssuanceAuthority op" using m master(2) by (simp add: hasAdminInviteIssuanceAuthority_def)
  obtain requester where r: "toInviteConsensusOperator op = Some requester" "ico_actorId requester = ''master''" "ico_adminId requester = ''master''"
    using m by (auto simp: toInviteConsensusOperator_def isInviteConsensusEligibleOperator_def)
  define p0 where "p0 = newProposal (uid ''proposalId'') name nowMs requester"
  obtain s1 where s1: "enforceAdminInviteIssueLimit H env (putProposal s p0) nowMs = (s1, None)"
    using limit invite_limit_independent [of H env s p0 nowMs] by (metis prod.collapse)
  have pend: "ip_status p0 = InvPending" and cfg: "getConfiguredMasterPassword env \<noteq> None"
    using m(5) by (simp_all add: p0_def newProposal_def)
  let ?c = "remove_dashes (uid ''code'')"
  let ?s2 = "sto_put s1 (adminCodeKey ?c) (adminCodeToJs (uid ''adminId'') (ip_name p0) (js_toISOString nowMs))"
  obtain q ap where q: "approveAdminInviteProposal H env uid (putProposal s p0) nowMs op p0
        = (putProposal ?s2 q, issuedResponse q ?c (uid ''adminId'') (js_toISOString nowMs) 1 True ap)"
    "ip_proposalId q = ip_proposalId p0" "ip_status q = InvIssued" "ip_issuedCode q = Some ?c"
    "ip_requestedBy q = ip_requestedBy p0" "ip_name q = ip_name p0"
    using issuing [OF auth m(2) pend cfg s1] by blast
  have h: "handleInvite H env uid s nowMs rq = (putProposal ?s2 q, issuedResponse q ?c (uid ''adminId'') (js_toISOString nowMs) 1 True ap)"
    using master body r q(1) auth by (simp add: handleInvite_def inviteIssuer_def p0_def [symmetric] Let_def)
  have name: "js_trim name = name" using body(3) by (auto simp: strField_def split: js.splits)
  have code: "js_trim ?c = ?c" "?c \<noteq> []" using bearer_nonempty [OF token(1)] by auto
  obtain l where l: "loadProposal (putProposal ?s2 q) (uid ''proposalId'') = Some l" "ip_status l = InvIssued" "ip_issuedCode l = Some ?c"
    using load_issued [of q "uid ''proposalId''" ?c ?s2] q(2-6) code r(2,3) name body(4) by (auto simp: p0_def newProposal_def)
  have "sto_get (putProposal ?s2 q) (adminCodeKey ?c) = adminCodeToJs (uid ''adminId'') name (js_toISOString nowMs)"
    by (simp add: putProposal_def invite_keys p0_def newProposal_def)
  from this code_authenticates [OF this token(1) admin name body(4) token(2,3)] h l
  show ?thesis by (auto simp: issuedResponse_def json_response_def adminCodeToJs_def)
qed

text \<open>
  C17. An invitation takes effect: when the master invites a name of 1 to 64 characters and the daily limit
  is not reached, the response carries a code, the proposal is stored as issued with that code, and from then
  on a request with this code is authenticated as the invited administrator.
\<close>

theorem invited_admin_authenticates:
  assumes master: "authenticateOperator env s rq = Some op" "op_role op = RoleMaster"
    and body: "rq_json rq = Inr body" "strField body ''proposalId'' = []" "strField body ''name'' = name" "name \<noteq> []" "length name \<le> 64"
    and limit: "snd (enforceAdminInviteIssueLimit H env s nowMs) = None"
    and admin: "js_trim (uid ''adminId'') = uid ''adminId''" "uid ''adminId'' \<noteq> []"
    and token: "extractBearerToken rq2 = Some (remove_dashes (uid ''code''))" "getConfiguredMasterPassword env \<noteq> Some (remove_dashes (uid ''code''))"
      "getConfiguredDemoPassword env \<noteq> Some (remove_dashes (uid ''code''))"
  shows "\<exists>s' resp op2 p. handleInvite H env uid s nowMs rq = (s', resp) \<and> rs_status resp = 200
           \<and> jget (rs_body resp) ''code'' = JStr (remove_dashes (uid ''code''))
           \<and> loadProposal s' (uid ''proposalId'') = Some p \<and> ip_status p = InvIssued \<and> ip_issuedCode p = Some (remove_dashes (uid ''code''))
           \<and> authenticateOperator env s' rq2 = Some op2 \<and> op_role op2 = RoleAdmin
           \<and> op_adminId op2 = uid ''adminId'' \<and> op_name op2 = name"
  using issued_storage [OF assms] by blast

section \<open>Examples\<close>

definition masterEnv :: Env where
  "masterEnv = emptyEnv\<lparr>ADMIN_PASSWORD := Some ''s3cret''\<rparr>"

definition inviteRequest :: Request where
  "inviteRequest = \<lparr>rq_method = ''POST'', rq_headers = [(''Authorization'', ''Bearer s3cret'')], rq_chunks = None,
     rq_json = Inr (JObj [(''name'', JStr ''Ann'')])\<rparr>"

definition sampleUid :: uuids where
  "sampleUid k = (if k = ''code'' then ''c0-de'' else if k = ''adminId'' then ''adm-1'' else ''prop-1'')"

definition codeRequest :: Request where
  "codeRequest = \<lparr>rq_method = ''GET'', rq_headers = [(''Authorization'', ''bearer  c0de'')], rq_chunks = None, rq_json = Inl []\<rparr>"

lemma sample_invite:
  obtains op where "authenticateOperator masterEnv [] inviteRequest = Some op" "op_role op = RoleMaster"
    "rq_json inviteRequest = Inr (JObj [(''name'', JStr ''Ann'')])" "strField (JObj [(''name'', JStr ''Ann'')]) ''proposalId'' = []"
    "strField (JObj [(''name'', JStr ''Ann'')]) ''name'' = ''Ann''" "snd (enforceAdminInviteIssueLimit (\<lambda>x. x) masterEnv [] 1000) = None"
    "js_trim (sampleUid ''adminId'') = sampleUid ''adminId''" "sampleUid ''adminId'' \<noteq> []"
    "extractBearerToken codeRequest = Some (remove_dashes (sampleUid ''code''))"
    "getConfiguredMasterPassword masterEnv \<noteq> Some (remove_dashes (sampleUid ''code''))"
    "getConfiguredDemoPassword masterEnv \<noteq> Some (remove_dashes (sampleUid ''code''))"
proof -
  have t: "extractBearerToken inviteRequest = Some ''s3cret''" "getConfiguredMasterPassword masterEnv = Some ''s3cret''" by code_simp+
  have c: "extractBearerToken codeRequest = Some ''c0de''" "remove_dashes (sampleUid ''code'') = ''c0de''"
    "getConfiguredDemoPassword masterEnv = None" "js_trim ''adm-1'' = ''adm-1''" "sampleUid ''adminId'' = ''adm-1''" by code_simp+
  have f: "strField (JObj [(''name'', JStr ''Ann'')]) ''proposalId'' = []" "strField (JObj [(''name'', JStr ''Ann'')]) ''name'' = ''Ann''"
    by code_simp+
  have l: "snd (enforceAdminInviteIssueLimit (\<lambda>x. x) masterEnv [] 1000) = None"
    by (simp add: enforceAdminInviteIssueLimit_def masterEnv_def emptyEnv_def parseOptionalBoundedInt_def consumeSecurityIssueLimit_def
        parseSecurityIssueLimitState_def SECURITY_ISSUE_LIMIT_WINDOW_MS_def Let_def)
  show thesis
    by (rule that [of "\<lparr>op_role = RoleMaster, op_source = SrcMaster, op_token = ''s3cret'', op_adminId = ''master'',
                     op_name = ''Master Operator'', op_actorId = ''master'', op_code = None\<rparr>"])
       (simp_all add: authenticateOperator_def t c f l inviteRequest_def [THEN arg_cong [of _ _ rq_json]])
qed

theorem invited_admin_authenticates_witness:
  "\<exists>s' resp op2. handleInvite (\<lambda>x. x) masterEnv sampleUid [] 1000 inviteRequest = (s', resp) \<and> rs_status resp = 200
     \<and> authenticateOperator masterEnv s' codeRequest = Some op2 \<and> op_name op2 = ''Ann''"
proof -
  obtain op where o: "authenticateOperator masterEnv [] inviteRequest = Some op" "op_role op = RoleMaster"
    "rq_json inviteRequest = Inr (JObj [(''name'', JStr ''Ann'')])" "strField (JObj [(''name'', JStr ''Ann'')]) ''proposalId'' = []"
    "strField (JObj [(''name'', JStr ''Ann'')]) ''name'' = ''Ann''" "snd (enforceAdminInviteIssueLimit (\<lambda>x. x) masterEnv [] 1000) = None"
    "js_trim (sampleUid ''adminId'') = sampleUid ''adminId''" "sampleUid ''adminId'' \<noteq> []"
    "extractBearerToken codeRequest = Some (remove_dashes (sampleUid ''code''))"
    "getConfiguredMasterPassword masterEnv \<noteq> Some (remove_dashes (sampleUid ''code''))"
    "getConfiguredDemoPassword masterEnv \<noteq> Some (remove_dashes (sampleUid ''code''))" by (rule sample_invite)
  have "''Ann'' \<noteq> []" "length ''Ann'' \<le> 64" by simp_all
  from invited_admin_authenticates [OF o(1-5) this o(6-11)] show ?thesis by blast
qed

lemma sample_cancelled:
  "\<exists>p. loadProposal [(adminInviteProposalKey ''p'', JObj [(''name'', JStr ''Ann''), (''status'', JStr ''cancelled''),
     (''requestedBy'', JObj [(''actorId'', JStr ''master''), (''adminId'', JStr ''master'')])])] ''p'' = Some p \<and> ip_status p = InvCancelled"
proof -
  have "js_trim ''Ann'' = ''Ann''" "js_trim ''cancelled'' = ''cancelled''" by code_simp+
  then show ?thesis
    by (simp add: loadProposal_def sto_get_def parseAdminInviteProposalRecord_def strField_JObj parseInviteOperator_def trims
        parseInviteStatus_def Let_def)
qed

theorem final_proposals_fixed_witness:
  "\<exists>s p. loadProposal (foldl (invite_step (\<lambda>x. x) masterEnv) s
       [(sampleUid, 1000, PostInvite inviteRequest), (sampleUid, 2000, PostApprove inviteRequest)]) ''p'' = Some p \<and> ip_status p = InvCancelled"
proof -
  let ?s = "[(adminInviteProposalKey ''p'', JObj [(''name'', JStr ''Ann''), (''status'', JStr ''cancelled''),
     (''requestedBy'', JObj [(''actorId'', JStr ''master''), (''adminId'', JStr ''master'')])])]"
  obtain p where p: "loadProposal ?s ''p'' = Some p" "ip_status p = InvCancelled" using sample_cancelled by blast
  have "loadProposal (foldl (invite_step (\<lambda>x. x) masterEnv) ?s
      [(sampleUid, 1000, PostInvite inviteRequest), (sampleUid, 2000, PostApprove inviteRequest)]) ''p'' = Some p"
    using final_proposals_fixed [OF p(1), of "[(sampleUid, 1000, PostInvite inviteRequest), (sampleUid, 2000, PostApprove inviteRequest)]"] p(2)
    by (simp add: sampleUid_def)
  then show ?thesis using p(2) by blast
qed

theorem invite_codes_by_master_only_witness:
  "sto_get (invite_step (\<lambda>x. x) masterEnv [] (sampleUid, 1000, PostInvite inviteRequest)) (adminCodeKey ''c0de'') \<noteq> JUndef
   \<and> extractBearerToken inviteRequest = getConfiguredMasterPassword masterEnv"
proof -
  obtain op where o: "authenticateOperator masterEnv [] inviteRequest = Some op" "op_role op = RoleMaster"
    "rq_json inviteRequest = Inr (JObj [(''name'', JStr ''Ann'')])" "strField (JObj [(''name'', JStr ''Ann'')]) ''proposalId'' = []"
    "strField (JObj [(''name'', JStr ''Ann'')]) ''name'' = ''Ann''" "snd (enforceAdminInviteIssueLimit (\<lambda>x. x) masterEnv [] 1000) = None"
    "js_trim (sampleUid ''adminId'') = sampleUid ''adminId''" "sampleUid ''adminId'' \<noteq> []"
    "extractBearerToken codeRequest = Some (remove_dashes (sampleUid ''code''))"
    "getConfiguredMasterPassword masterEnv \<noteq> Some (remove_dashes (sampleUid ''code''))"
    "getConfiguredDemoPassword masterEnv \<noteq> Some (remove_dashes (sampleUid ''code''))" by (rule sample_invite)
  have n: "''Ann'' \<noteq> []" "length ''Ann'' \<le> 64" and c: "remove_dashes (sampleUid ''code'') = ''c0de''" by (simp_all, code_simp)
  obtain s' where s': "invite_step (\<lambda>x. x) masterEnv [] (sampleUid, 1000, PostInvite inviteRequest) = s'"
    "sto_get s' (adminCodeKey ''c0de'') \<noteq> JUndef"
    using issued_storage [OF o(1-5) n o(6-11)] c by auto
  with invite_codes_by_master_only [of "\<lambda>x. x" masterEnv "[]" sampleUid 1000 "PostInvite inviteRequest" "''c0de''"]
  show ?thesis by simp
qed

end
