(* ===== verification/Admin_Security.thy ===== *)
theory Admin_Security
  imports Admin_Invite
begin

text \<open>
  The security state of administrators and users (\<open>storeDO.ts\<close>): freezing and revocation, the hash-chained
  security log, report obligations, the community of operators, moderated users, and the check that
  precedes the creation of an event. \<open>uid\<close> gives the UUID drawn at each place of a request, \<open>nowMs\<close> is the
  time of the request. Texts that are only shown to the operator are
  left out of the response bodies, and lists the source orders by \<open>localeCompare\<close> are ordered by code units.
\<close>

section \<open>Data\<close>

datatype AdminSecurityRole = SecAdmin | SecMaster | SecUnknown

record AdminSecurityActor =
  sa_actorId :: string
  sa_role :: AdminSecurityRole
  sa_adminId :: "string option"
  sa_name :: "string option"

record PendingWarning =
  pw_id :: string
  pw_issuedAt :: rat
  pw_signals :: "string list"

record FrozenAccount =
  fz_frozenAt :: rat
  fz_reason :: string
  fz_warningId :: "string option"
  fz_frozenByActorId :: "string option"
  fz_reportId :: "string option"

record RevokedAccess =
  rk_revokedAt :: rat
  rk_reason :: string
  rk_revokedByActorId :: "string option"
  rk_reportId :: "string option"

record AdminSecurityStateRecord =
  ss_issueAttemptTimestamps :: "rat list"
  ss_pendingWarning :: "PendingWarning option"
  ss_frozen :: "FrozenAccount option"
  ss_revokedAccess :: "RevokedAccess option"

datatype AdminSecurityReportObligationStatus = ReportRequired | ReportResolved

record AdminSecurityReportObligationRecord =
  ob_reportId :: string
  ob_type :: string
  ob_status :: AdminSecurityReportObligationStatus
  ob_targetActorId :: string
  ob_actionByActorId :: string
  ob_reason :: string
  ob_createdAt :: string
  ob_resolvedAt :: "string option"
  ob_resolvedByActorId :: "string option"
  ob_logEntryId :: string

record AdminSecurityOperatorRecord =
  or_actorId :: string
  or_role :: AdminSecurityRole
  or_adminId :: "string option"
  or_name :: "string option"
  or_registeredAt :: string

text \<open>\<open>AdminSecurityRevokedOperatorRecord\<close> has the fields of \<open>RevokedAccess\<close>.\<close>

type_synonym AdminSecurityRevokedOperatorRecord = RevokedAccess

record UserMark =
  um_at :: rat
  um_reason :: string
  um_byActorId :: "string option"
  um_reportId :: "string option"

record AdminSecurityUserModerationRecord =
  mo_frozen :: "UserMark option"
  mo_deleted :: "UserMark option"

definition ADMIN_SECURITY_ISSUE_BURST_WINDOW_MS :: rat where "ADMIN_SECURITY_ISSUE_BURST_WINDOW_MS = 60000"
definition ADMIN_SECURITY_ISSUE_BURST_THRESHOLD :: nat where "ADMIN_SECURITY_ISSUE_BURST_THRESHOLD = 3"
definition ADMIN_SECURITY_WARNING_TTL_MS :: rat where "ADMIN_SECURITY_WARNING_TTL_MS = 120000"
definition ADMIN_SECURITY_LOG_LIMIT_DEFAULT :: int where "ADMIN_SECURITY_LOG_LIMIT_DEFAULT = 100"
definition ADMIN_SECURITY_LOG_LIMIT_MAX :: int where "ADMIN_SECURITY_LOG_LIMIT_MAX = 500"
definition ADMIN_SECURITY_REPORT_LIMIT_DEFAULT :: int where "ADMIN_SECURITY_REPORT_LIMIT_DEFAULT = 100"
definition ADMIN_SECURITY_REPORT_LIMIT_MAX :: int where "ADMIN_SECURITY_REPORT_LIMIT_MAX = 500"
definition ADMIN_SECURITY_GOVERNANCE_REASON_MAX_LENGTH :: nat where "ADMIN_SECURITY_GOVERNANCE_REASON_MAX_LENGTH = 300"

fun secRoleStr :: "AdminSecurityRole \<Rightarrow> string" where
  "secRoleStr SecAdmin = ''admin''"
| "secRoleStr SecMaster = ''master''"
| "secRoleStr SecUnknown = ''unknown''"

definition parseSecRole :: "string \<Rightarrow> AdminSecurityRole" where
  "parseSecRole r = (if r = ''master'' then SecMaster else if r = ''admin'' then SecAdmin else SecUnknown)"

definition actorToJs :: "AdminSecurityActor \<Rightarrow> js" where
  "actorToJs a = JObj [(''actorId'', JStr (sa_actorId a)), (''role'', JStr (secRoleStr (sa_role a))),
     (''adminId'', jstr_opt (sa_adminId a)), (''name'', jstr_opt (sa_name a))]"

definition toAdminSecurityActor :: "OperatorIdentity \<Rightarrow> AdminSecurityActor" where
  "toAdminSecurityActor operator = \<lparr>sa_actorId = op_actorId operator,
     sa_role = (case op_role operator of RoleMaster \<Rightarrow> SecMaster | RoleAdmin \<Rightarrow> SecAdmin),
     sa_adminId = Some (op_adminId operator), sa_name = Some (op_name operator)\<rparr>"

text \<open>\<open>new Date(ms).toISOString()\<close> for a time read as a number\<close>

definition isoOf :: "rat \<Rightarrow> string" where
  "isoOf ms = js_toISOString \<lfloor>ms\<rfloor>"

text \<open>\<open>Number.isFinite(v) && v > 0\<close> for \<open>v = Number(raw)\<close>\<close>

definition positiveNumber :: "js \<Rightarrow> rat option" where
  "positiveNumber raw = (case finite_num (js_Number raw) of Some r \<Rightarrow> (if r > 0 then Some r else None) | None \<Rightarrow> None)"

section \<open>Security state\<close>

definition parsePendingWarning :: "js \<Rightarrow> PendingWarning option" where
  "parsePendingWarning raw =
     (if \<not> is_obj raw then None
      else case (or_null (strField raw ''id''), positiveNumber (jget raw ''issuedAt'')) of
             (Some i, Some t) \<Rightarrow> Some \<lparr>pw_id = i, pw_issuedAt = t,
                pw_signals = List.map_filter (\<lambda>v. case v of JStr x \<Rightarrow> (if js_trim x \<noteq> [] then Some x else None) | _ \<Rightarrow> None)
                               (js_array (jget raw ''signals''))\<rparr>
           | _ \<Rightarrow> None)"

definition parseFrozen :: "js \<Rightarrow> FrozenAccount option" where
  "parseFrozen raw =
     (if \<not> is_obj raw then None
      else case (positiveNumber (jget raw ''frozenAt''), or_null (strField raw ''reason'')) of
             (Some t, Some reason) \<Rightarrow> Some \<lparr>fz_frozenAt = t, fz_reason = reason, fz_warningId = or_null (strField raw ''warningId''),
                fz_frozenByActorId = or_null (strField raw ''frozenByActorId''), fz_reportId = or_null (strField raw ''reportId'')\<rparr>
           | _ \<Rightarrow> None)"

definition parseRevoked :: "js \<Rightarrow> RevokedAccess option" where
  "parseRevoked raw =
     (if \<not> is_obj raw then None
      else case (positiveNumber (jget raw ''revokedAt''), or_null (strField raw ''reason'')) of
             (Some t, Some reason) \<Rightarrow> Some \<lparr>rk_revokedAt = t, rk_reason = reason,
                rk_revokedByActorId = or_null (strField raw ''revokedByActorId''), rk_reportId = or_null (strField raw ''reportId'')\<rparr>
           | _ \<Rightarrow> None)"

definition parseAdminSecurityStateRecord :: "js \<Rightarrow> AdminSecurityStateRecord option" where
  "parseAdminSecurityStateRecord raw =
     (if \<not> is_obj raw then None
      else Some \<lparr>ss_issueAttemptTimestamps = List.map_filter positiveNumber (js_array (jget raw ''issueAttemptTimestamps'')),
             ss_pendingWarning = parsePendingWarning (jget raw ''pendingWarning''),
             ss_frozen = parseFrozen (jget raw ''frozen''), ss_revokedAccess = parseRevoked (jget raw ''revokedAccess'')\<rparr>)"

definition warningToJs :: "PendingWarning \<Rightarrow> js" where
  "warningToJs w = JObj [(''id'', JStr (pw_id w)), (''issuedAt'', JNum (pw_issuedAt w)), (''signals'', JArr (map JStr (pw_signals w)))]"

definition frozenToJs :: "FrozenAccount \<Rightarrow> js" where
  "frozenToJs f = JObj [(''frozenAt'', JNum (fz_frozenAt f)), (''reason'', JStr (fz_reason f)),
     (''warningId'', jstr_opt (fz_warningId f)), (''frozenByActorId'', jstr_opt (fz_frozenByActorId f)),
     (''reportId'', jstr_opt (fz_reportId f))]"

definition revokedToJs :: "RevokedAccess \<Rightarrow> js" where
  "revokedToJs r = JObj [(''revokedAt'', JNum (rk_revokedAt r)), (''reason'', JStr (rk_reason r)),
     (''revokedByActorId'', jstr_opt (rk_revokedByActorId r)), (''reportId'', jstr_opt (rk_reportId r))]"

definition securityStateToJs :: "AdminSecurityStateRecord \<Rightarrow> js" where
  "securityStateToJs st = JObj [(''issueAttemptTimestamps'', JArr (map JNum (ss_issueAttemptTimestamps st))),
     (''pendingWarning'', jopt (map_option warningToJs (ss_pendingWarning st))),
     (''frozen'', jopt (map_option frozenToJs (ss_frozen st))),
     (''revokedAccess'', jopt (map_option revokedToJs (ss_revokedAccess st)))]"

definition emptySecurityState :: AdminSecurityStateRecord where
  "emptySecurityState = \<lparr>ss_issueAttemptTimestamps = [], ss_pendingWarning = None, ss_frozen = None, ss_revokedAccess = None\<rparr>"

definition getAdminSecurityState :: "storage \<Rightarrow> string \<Rightarrow> AdminSecurityStateRecord" where
  "getAdminSecurityState s actorId =
     (case parseAdminSecurityStateRecord (sto_get s (adminSecurityStateKey actorId)) of
        Some st \<Rightarrow> st | None \<Rightarrow> emptySecurityState)"

definition putAdminSecurityState :: "storage \<Rightarrow> string \<Rightarrow> AdminSecurityStateRecord \<Rightarrow> storage" where
  "putAdminSecurityState s actorId st = sto_put s (adminSecurityStateKey actorId) (securityStateToJs st)"

text \<open>The rows under a prefix that parse, by the rest of their key when this is not empty.\<close>

definition parsedRows :: "storage \<Rightarrow> string \<Rightarrow> (js \<Rightarrow> 'a option) \<Rightarrow> (string \<times> 'a) list" where
  "parsedRows s pre parse =
     List.map_filter (\<lambda>(key, raw). let rest = drop (length pre) key in
        if rest = [] then None else map_option (Pair rest) (parse raw)) (sto_list s pre)"

definition listAdminSecurityStates :: "storage \<Rightarrow> (string \<times> AdminSecurityStateRecord) list" where
  "listAdminSecurityStates s = parsedRows s ADMIN_SECURITY_STATE_PREFIX parseAdminSecurityStateRecord"

section \<open>The security log\<close>

definition shortId :: "string \<Rightarrow> string \<Rightarrow> nat \<Rightarrow> string" where
  "shortId pre uuid n = pre @ take n (remove_dashes uuid)"

definition appendAdminSecurityLog ::
  "(string \<Rightarrow> string) \<Rightarrow> string \<Rightarrow> storage \<Rightarrow> string \<Rightarrow> string \<Rightarrow> AdminSecurityActor \<Rightarrow> string option \<Rightarrow> js option \<Rightarrow> int \<Rightarrow> storage \<times> js" where
  "appendAdminSecurityLog H uuid s category action actor targetActorId details nowMs =
     (let ts = js_toISOString nowMs;
          ident = shortId ''log-'' uuid 12;
          stored = sto_get s ADMIN_SECURITY_LOG_LAST_HASH_KEY;
          prevHash = (if stored = JUndef \<or> stored = JNull then JStr (replicate 64 (CHR ''0'')) else stored);
          payload = JObj [(''id'', JStr ident), (''ts'', JStr ts), (''category'', JStr category), (''action'', JStr action),
                      (''actor'', actorToJs actor), (''targetActorId'', jstr_null targetActorId),
                      (''details'', case details of Some d \<Rightarrow> d | None \<Rightarrow> JNull), (''prevHash'', prevHash)];
          entryHash = H (canonicalize payload);
          entry = JObj ([(''id'', JStr ident), (''ts'', JStr ts), (''category'', JStr category), (''action'', JStr action),
                      (''actor'', actorToJs actor), (''prevHash'', prevHash), (''entryHash'', JStr entryHash)]
                    @ (case targetActorId of Some t \<Rightarrow> (if t = [] then [] else [(''targetActorId'', JStr t)]) | None \<Rightarrow> [])
                    @ (case details of Some d \<Rightarrow> [(''details'', d)] | None \<Rightarrow> []));
          s1 = sto_put s (adminSecurityLogKey ts ident) entry
      in (sto_put s1 ADMIN_SECURITY_LOG_LAST_HASH_KEY (JStr entryHash), entry))"

definition parseLogActor :: "js \<Rightarrow> AdminSecurityActor option" where
  "parseLogActor raw =
     (if \<not> is_obj raw \<or> strField raw ''actorId'' = [] then None
      else Some \<lparr>sa_actorId = strField raw ''actorId'', sa_role = parseSecRole (strField raw ''role''),
             sa_adminId = or_null (strField raw ''adminId''), sa_name = or_null (strField raw ''name'')\<rparr>)"

record AdminSecurityLogEntryRecord =
  le_id :: string
  le_ts :: string
  le_category :: string
  le_action :: string
  le_actor :: AdminSecurityActor
  le_targetActorId :: "string option"
  le_prevHash :: string
  le_entryHash :: string
  le_details :: "js option"

definition parseAdminSecurityLogEntry :: "js \<Rightarrow> AdminSecurityLogEntryRecord option" where
  "parseAdminSecurityLogEntry raw =
     (if \<not> is_obj raw then None
      else case (or_null (strField raw ''id''), or_null (strField raw ''ts''), or_null (strField raw ''category''),
                 or_null (strField raw ''action''), or_null (strField raw ''prevHash''), or_null (strField raw ''entryHash''),
                 parseLogActor (jget raw ''actor'')) of
             (Some i, Some t, Some c, Some a, Some p, Some h, Some actor) \<Rightarrow>
               Some \<lparr>le_id = i, le_ts = t, le_category = (if c = ''execution'' then ''execution'' else ''audit''), le_action = a,
                 le_actor = actor, le_targetActorId = or_null (strField raw ''targetActorId''), le_prevHash = p, le_entryHash = h,
                 le_details = (if is_obj (jget raw ''details'') then Some (jget raw ''details'') else None)\<rparr>
           | _ \<Rightarrow> None)"

definition newestFirst :: "('a \<Rightarrow> string) \<Rightarrow> 'a list \<Rightarrow> 'a list" where
  "newestFirst time xs = rev (sort_key time (rev xs))"

definition listAdminSecurityLogs :: "storage \<Rightarrow> AdminSecurityLogEntryRecord list" where
  "listAdminSecurityLogs s =
     newestFirst le_ts (List.map_filter parseAdminSecurityLogEntry
       (map snd (sto_list_rev s ADMIN_SECURITY_LOG_PREFIX (nat (ADMIN_SECURITY_LOG_LIMIT_MAX * 10)))))"

section \<open>Report obligations\<close>

fun reportStatusStr :: "AdminSecurityReportObligationStatus \<Rightarrow> string" where
  "reportStatusStr ReportRequired = ''required''"
| "reportStatusStr ReportResolved = ''resolved''"

definition reportTypes :: "string list" where
  "reportTypes = [''revoke_access'', ''operator_revoke'', ''user_freeze'', ''user_delete'']"

definition parseAdminSecurityReportObligation :: "js \<Rightarrow> AdminSecurityReportObligationRecord option" where
  "parseAdminSecurityReportObligation raw =
     (if \<not> is_obj raw then None
      else if list_ex (\<lambda>k. strField raw k = [])
                [''reportId'', ''type'', ''status'', ''targetActorId'', ''actionByActorId'', ''reason'', ''createdAt'', ''logEntryId'']
      then None
      else Some \<lparr>ob_reportId = strField raw ''reportId'',
             ob_type = (if strField raw ''type'' \<in> set reportTypes then strField raw ''type'' else ''freeze''),
             ob_status = (if strField raw ''status'' = ''resolved'' then ReportResolved else ReportRequired),
             ob_targetActorId = strField raw ''targetActorId'', ob_actionByActorId = strField raw ''actionByActorId'',
             ob_reason = strField raw ''reason'', ob_createdAt = strField raw ''createdAt'',
             ob_resolvedAt = or_null (strField raw ''resolvedAt''),
             ob_resolvedByActorId = or_null (strField raw ''resolvedByActorId''), ob_logEntryId = strField raw ''logEntryId''\<rparr>)"

definition obligationToJs :: "AdminSecurityReportObligationRecord \<Rightarrow> js" where
  "obligationToJs r = JObj [(''reportId'', JStr (ob_reportId r)), (''type'', JStr (ob_type r)),
     (''status'', JStr (reportStatusStr (ob_status r))), (''targetActorId'', JStr (ob_targetActorId r)),
     (''actionByActorId'', JStr (ob_actionByActorId r)), (''reason'', JStr (ob_reason r)), (''createdAt'', JStr (ob_createdAt r)),
     (''resolvedAt'', jstr_opt (ob_resolvedAt r)), (''resolvedByActorId'', jstr_opt (ob_resolvedByActorId r)),
     (''logEntryId'', JStr (ob_logEntryId r))]"

definition listAdminSecurityReportObligations :: "storage \<Rightarrow> AdminSecurityReportObligationRecord list" where
  "listAdminSecurityReportObligations s =
     newestFirst ob_createdAt (List.map_filter parseAdminSecurityReportObligation (map snd (sto_list s ADMIN_SECURITY_REPORT_PREFIX)))"

definition createAdminSecurityReportObligation ::
  "string \<Rightarrow> storage \<Rightarrow> string \<Rightarrow> string \<Rightarrow> string \<Rightarrow> string \<Rightarrow> string \<Rightarrow> int \<Rightarrow> storage \<times> AdminSecurityReportObligationRecord" where
  "createAdminSecurityReportObligation uuid s type targetActorId actionByActorId reason logEntryId nowMs =
     (let reportId = shortId ''report-'' uuid 12;
          r = \<lparr>ob_reportId = reportId, ob_type = type, ob_status = ReportRequired, ob_targetActorId = targetActorId,
               ob_actionByActorId = actionByActorId, ob_reason = reason, ob_createdAt = js_toISOString nowMs,
               ob_resolvedAt = None, ob_resolvedByActorId = None, ob_logEntryId = logEntryId\<rparr>
      in (sto_put s (adminSecurityReportKey reportId) (obligationToJs r), r))"

definition resolveAdminSecurityReportObligation ::
  "storage \<Rightarrow> string \<Rightarrow> string \<Rightarrow> int \<Rightarrow> storage \<times> AdminSecurityReportObligationRecord option" where
  "resolveAdminSecurityReportObligation s reportId resolvedByActorId nowMs =
     (let key = adminSecurityReportKey reportId in
      case parseAdminSecurityReportObligation (sto_get s key) of
        None \<Rightarrow> (s, None)
      | Some existing \<Rightarrow>
          if ob_status existing = ReportResolved then (s, Some existing)
          else let resolved = existing\<lparr>ob_status := ReportResolved, ob_resolvedAt := Some (js_toISOString nowMs),
                                       ob_resolvedByActorId := Some resolvedByActorId\<rparr>
               in (sto_put s key (obligationToJs resolved), Some resolved))"

section \<open>The community of operators\<close>

definition operatorRecordToJs :: "AdminSecurityOperatorRecord \<Rightarrow> js" where
  "operatorRecordToJs r = JObj ([(''actorId'', JStr (or_actorId r)), (''role'', JStr (secRoleStr (or_role r)))]
     @ (case or_adminId r of Some a \<Rightarrow> [(''adminId'', JStr a)] | None \<Rightarrow> [])
     @ (case or_name r of Some a \<Rightarrow> [(''name'', JStr a)] | None \<Rightarrow> []) @ [(''registeredAt'', JStr (or_registeredAt r))])"

definition nonempty_opt :: "string option \<Rightarrow> string option" where
  "nonempty_opt v = (if v = Some [] then None else v)"

definition registerAdminSecurityOperator :: "storage \<Rightarrow> AdminSecurityActor \<Rightarrow> int \<Rightarrow> storage" where
  "registerAdminSecurityOperator s actor nowMs =
     (if sa_role actor \<noteq> SecMaster then s
      else let key = adminSecurityOperatorKey (sa_actorId actor) in
        if sto_get s key \<noteq> JUndef then s
        else sto_put s key (operatorRecordToJs \<lparr>or_actorId = sa_actorId actor, or_role = sa_role actor,
               or_adminId = nonempty_opt (sa_adminId actor), or_name = nonempty_opt (sa_name actor),
               or_registeredAt = js_toISOString nowMs\<rparr>))"

definition parseAdminSecurityOperator :: "js \<Rightarrow> AdminSecurityOperatorRecord option" where
  "parseAdminSecurityOperator raw =
     (if \<not> is_obj raw \<or> strField raw ''actorId'' = [] \<or> strField raw ''registeredAt'' = [] then None
      else Some \<lparr>or_actorId = strField raw ''actorId'', or_role = parseSecRole (strField raw ''role''),
             or_adminId = or_null (strField raw ''adminId''), or_name = or_null (strField raw ''name''),
             or_registeredAt = strField raw ''registeredAt''\<rparr>)"

definition listAdminSecurityOperators :: "storage \<Rightarrow> AdminSecurityOperatorRecord list" where
  "listAdminSecurityOperators s =
     sort_key or_actorId (List.map_filter parseAdminSecurityOperator (map snd (sto_list s ADMIN_SECURITY_OPERATOR_PREFIX)))"

definition parseAdminSecurityRevokedOperator :: "js \<Rightarrow> AdminSecurityRevokedOperatorRecord option" where
  "parseAdminSecurityRevokedOperator raw = parseRevoked raw"

definition getAdminSecurityRevokedOperator :: "storage \<Rightarrow> string \<Rightarrow> AdminSecurityRevokedOperatorRecord option" where
  "getAdminSecurityRevokedOperator s actorId =
     parseAdminSecurityRevokedOperator (sto_get s (adminSecurityRevokedOperatorKey actorId))"

definition listAdminSecurityRevokedOperators :: "storage \<Rightarrow> (string \<times> AdminSecurityRevokedOperatorRecord) list" where
  "listAdminSecurityRevokedOperators s = parsedRows s ADMIN_SECURITY_REVOKED_OPERATOR_PREFIX parseAdminSecurityRevokedOperator"

definition getActiveOperatorCommunityIds :: "storage \<Rightarrow> AdminSecurityActor \<Rightarrow> int \<Rightarrow> storage \<times> string list" where
  "getActiveOperatorCommunityIds s requester nowMs =
     (let s1 = registerAdminSecurityOperator s requester nowMs;
          active = filter (\<lambda>r. or_role r = SecMaster \<and> getAdminSecurityRevokedOperator s1 (or_actorId r) = None)
                     (listAdminSecurityOperators s1)
      in (s1, sort (remdups (map or_actorId active @ [sa_actorId requester]))))"

section \<open>Moderated users\<close>

definition parseUserMark :: "string \<Rightarrow> js \<Rightarrow> UserMark option" where
  "parseUserMark timeField raw =
     (if \<not> is_obj raw then None
      else case (positiveNumber (jget raw timeField), or_null (strField raw ''reason'')) of
             (Some t, Some reason) \<Rightarrow> Some \<lparr>um_at = t, um_reason = reason, um_byActorId = or_null (strField raw ''byActorId''),
                                            um_reportId = or_null (strField raw ''reportId'')\<rparr>
           | _ \<Rightarrow> None)"

definition parseAdminSecurityUserModeration :: "js \<Rightarrow> AdminSecurityUserModerationRecord option" where
  "parseAdminSecurityUserModeration raw =
     (if \<not> is_obj raw then None
      else Some \<lparr>mo_frozen = parseUserMark ''frozenAt'' (jget raw ''frozen''),
                 mo_deleted = parseUserMark ''deletedAt'' (jget raw ''deleted'')\<rparr>)"

definition markToJs :: "string \<Rightarrow> UserMark \<Rightarrow> js" where
  "markToJs timeField m = JObj [(timeField, JNum (um_at m)), (''reason'', JStr (um_reason m)),
     (''byActorId'', jstr_opt (um_byActorId m)), (''reportId'', jstr_opt (um_reportId m))]"

definition moderationToJs :: "AdminSecurityUserModerationRecord \<Rightarrow> js" where
  "moderationToJs r = JObj [(''frozen'', jopt (map_option (markToJs ''frozenAt'') (mo_frozen r))),
     (''deleted'', jopt (map_option (markToJs ''deletedAt'') (mo_deleted r)))]"

definition getAdminSecurityUserModeration :: "storage \<Rightarrow> string \<Rightarrow> AdminSecurityUserModerationRecord" where
  "getAdminSecurityUserModeration s userId =
     (case parseAdminSecurityUserModeration (sto_get s (adminSecurityUserModerationKey userId)) of
        Some r \<Rightarrow> r | None \<Rightarrow> \<lparr>mo_frozen = None, mo_deleted = None\<rparr>)"

definition putAdminSecurityUserModeration :: "storage \<Rightarrow> string \<Rightarrow> AdminSecurityUserModerationRecord \<Rightarrow> storage" where
  "putAdminSecurityUserModeration s userId r = sto_put s (adminSecurityUserModerationKey userId) (moderationToJs r)"

definition listAdminSecurityUserModeration :: "storage \<Rightarrow> (string \<times> AdminSecurityUserModerationRecord) list" where
  "listAdminSecurityUserModeration s =
     sort_key fst (parsedRows s ADMIN_SECURITY_USER_MODERATION_PREFIX parseAdminSecurityUserModeration)"

definition ensureUserNotModerated :: "storage \<Rightarrow> string \<Rightarrow> Response option" where
  "ensureUserNotModerated s userId =
     (let u = normalizeUserId (JStr userId) in
      if u = [] then None
      else let st = getAdminSecurityUserModeration s u in
        case mo_deleted st of
          Some d \<Rightarrow> Some (json_response (JObj [(''error'', JStr ''user account deleted by operator consensus''),
                     (''code'', JStr ''user_deleted''), (''deletedAt'', JStr (isoOf (um_at d))), (''reason'', JStr (um_reason d))]) 403)
        | None \<Rightarrow>
            (case mo_frozen st of
               Some f \<Rightarrow> Some (json_response (JObj [(''error'', JStr ''user account frozen by operator consensus''),
                     (''code'', JStr ''user_frozen''), (''frozenAt'', JStr (isoOf (um_at f))), (''reason'', JStr (um_reason f)),
                     (''unlockRequired'', JBool True)]) 423)
             | None \<Rightarrow> None))"

section \<open>Limits and signals\<close>

definition parseAdminSecurityLogLimit :: "string option \<Rightarrow> int" where
  "parseAdminSecurityLogLimit raw = parseBoundedInt raw ADMIN_SECURITY_LOG_LIMIT_DEFAULT 1 ADMIN_SECURITY_LOG_LIMIT_MAX"

definition parseAdminSecurityReportLimit :: "string option \<Rightarrow> int" where
  "parseAdminSecurityReportLimit raw = parseBoundedInt raw ADMIN_SECURITY_REPORT_LIMIT_DEFAULT 1 ADMIN_SECURITY_REPORT_LIMIT_MAX"

definition is_word_char :: "char \<Rightarrow> bool" where
  "is_word_char c = (let n = (of_char c :: nat) in is_digit c \<or> (65 \<le> n \<and> n \<le> 90) \<or> (97 \<le> n \<and> n \<le> 122) \<or> n = 95)"

text \<open>\<open>/\\b(w1|w2|\<dots>)\\b/.test(t)\<close>: \<open>prev\<close> says whether a word character precedes.\<close>

fun contains_word :: "string list \<Rightarrow> bool \<Rightarrow> string \<Rightarrow> bool" where
  "contains_word ws prev [] = False"
| "contains_word ws prev (c # cs) =
     ((\<not> prev \<and> list_ex (\<lambda>w. prefix w (c # cs) \<and> (let r = drop (length w) (c # cs) in r = [] \<or> \<not> is_word_char (hd r))) ws)
      \<or> contains_word ws (is_word_char c) cs)"

fun contains_any :: "string list \<Rightarrow> string \<Rightarrow> bool" where
  "contains_any ws [] = False"
| "contains_any ws (c # cs) = (list_ex (\<lambda>w. prefix w (c # cs)) ws \<or> contains_any ws cs)"

text \<open>The signals, and the state with the attempts of the last minute and this one.\<close>

definition collectSuspiciousSignals ::
  "Request \<Rightarrow> string \<Rightarrow> string \<Rightarrow> AdminSecurityStateRecord \<Rightarrow> int \<Rightarrow> string list \<times> AdminSecurityStateRecord" where
  "collectSuspiciousSignals rq title host st nowMs =
     (let joinedText = js_lower (title @ '' '' @ host);
          s1 = (if contains_word [''bot'', ''auto'', ''script'', ''spam'', ''mass''] False joinedText then [''suspicious_keyword''] else []);
          userAgent = js_lower (js_trim (case rq_header rq ''user-agent'' of Some h \<Rightarrow> h | None \<Rightarrow> []));
          s2 = (if contains_any [''bot'', ''crawler'', ''spider'', ''curl'', ''wget'', ''python'', ''scrapy'', ''headless''] userAgent
                then [''bot_like_user_agent''] else []);
          recent = filter (\<lambda>ts. of_int nowMs - ts \<le> ADMIN_SECURITY_ISSUE_BURST_WINDOW_MS) (ss_issueAttemptTimestamps st) @ [of_int nowMs];
          s3 = (if length recent \<ge> ADMIN_SECURITY_ISSUE_BURST_THRESHOLD then [''rapid_issue_attempts''] else [])
      in (remdups (s1 @ s2 @ s3), st\<lparr>ss_issueAttemptTimestamps := recent\<rparr>))"

definition buildAdminSecurityWarning :: "string \<Rightarrow> string \<Rightarrow> string list \<Rightarrow> int \<Rightarrow> js \<times> string" where
  "buildAdminSecurityWarning uuid actorId signals nowMs =
     (let fingerprint = actorId @ '':'' @ js_str_int nowMs @ '':'' @ js_join ''|'' signals;
          ident = shortId ''warn-'' uuid 10 @ ''-'' @ js_str_int (int (length fingerprint mod 10))
      in (JObj [(''id'', JStr ident), (''alertColor'', JStr ''red''), (''detectedAt'', JStr (js_toISOString nowMs)),
           (''signals'', JArr (map JStr signals)), (''freezeOnProceed'', JBool True)], ident))"

section \<open>Guards\<close>

definition adminSecurityFrozenResponse :: "FrozenAccount \<Rightarrow> Response" where
  "adminSecurityFrozenResponse f = json_response (JObj [(''code'', JStr ''account_frozen''), (''alertColor'', JStr ''red''),
     (''unlockRequired'', JBool True), (''frozenAt'', JStr (isoOf (fz_frozenAt f))), (''reason'', JStr (fz_reason f)),
     (''warningId'', jstr_null (fz_warningId f))]) 423"

definition adminSecurityAccessRevokedResponse :: "RevokedAccess \<Rightarrow> Response" where
  "adminSecurityAccessRevokedResponse r = json_response (JObj [(''code'', JStr ''access_revoked''), (''alertColor'', JStr ''red''),
     (''unlockRequired'', JBool True), (''revokedAt'', JStr (isoOf (rk_revokedAt r))), (''reason'', JStr (rk_reason r))]) 403"

definition ensureOperatorContext ::
  "Env \<Rightarrow> storage \<Rightarrow> int \<Rightarrow> Request \<Rightarrow> storage \<times> (Response + (OperatorIdentity \<times> AdminSecurityActor))" where
  "ensureOperatorContext env s nowMs rq =
     (case authenticateOperator env s rq of
        None \<Rightarrow> (s, Inl unauthorizedResponse)
      | Some operator \<Rightarrow>
          (let actor = toAdminSecurityActor operator in
           if op_adminId operator = []
           then (s, Inl (json_response (JObj [(''code'', JStr ''operator_account_required'')]) 403))
           else if sa_role actor = SecMaster then
             (let s1 = registerAdminSecurityOperator s actor nowMs in
              case getAdminSecurityRevokedOperator s1 (sa_actorId actor) of
                Some revoked \<Rightarrow> (s1, Inl (json_response (JObj [(''code'', JStr ''operator_revoked''),
                    (''revokedAt'', JStr (isoOf (rk_revokedAt revoked))), (''reason'', JStr (rk_reason revoked)),
                    (''unlockRequired'', JBool True)]) 403))
              | None \<Rightarrow> (s1, Inr (operator, actor)))
           else (s, Inr (operator, actor))))"

definition ensureGovernanceOperatorContext ::
  "Env \<Rightarrow> storage \<Rightarrow> int \<Rightarrow> Request \<Rightarrow> storage \<times> (Response + (OperatorIdentity \<times> AdminSecurityActor))" where
  "ensureGovernanceOperatorContext env s nowMs rq =
     (case ensureOperatorContext env s nowMs rq of
        (s1, Inl resp) \<Rightarrow> (s1, Inl resp)
      | (s1, Inr (operator, actor)) \<Rightarrow>
          if sa_role actor \<noteq> SecMaster
          then (s1, Inl (json_response (JObj [(''code'', JStr ''operator_consensus_required'')]) 403))
          else (s1, Inr (operator, actor)))"

definition enforceAdminSecurityOperation ::
  "(string \<Rightarrow> string) \<Rightarrow> uuids \<Rightarrow> storage \<Rightarrow> string \<Rightarrow> AdminSecurityActor \<Rightarrow> int \<Rightarrow> storage \<times> (Response + AdminSecurityStateRecord)" where
  "enforceAdminSecurityOperation H uid s operation actor nowMs =
     (let st = getAdminSecurityState s (sa_actorId actor) in
      case ss_revokedAccess st of
        Some r \<Rightarrow>
          (fst (appendAdminSecurityLog H (uid ''log_blocked'') s ''audit'' ''revoke_blocked_operation'' actor (Some (sa_actorId actor))
             (Some (JObj [(''operation'', JStr operation), (''reason'', JStr (rk_reason r)), (''reportId'', jstr_null (rk_reportId r))])) nowMs),
           Inl (adminSecurityAccessRevokedResponse r))
      | None \<Rightarrow>
          (case ss_frozen st of
             Some f \<Rightarrow>
               (fst (appendAdminSecurityLog H (uid ''log_blocked'') s ''audit'' ''freeze_blocked_operation'' actor (Some (sa_actorId actor))
                  (Some (JObj [(''operation'', JStr operation), (''reason'', JStr (fz_reason f)), (''warningId'', jstr_null (fz_warningId f))])) nowMs),
                Inl (adminSecurityFrozenResponse f))
           | None \<Rightarrow>
               (case ss_pendingWarning st of
                  Some w \<Rightarrow>
                    (if of_int nowMs - pw_issuedAt w > ADMIN_SECURITY_WARNING_TTL_MS
                     then (let st1 = st\<lparr>ss_pendingWarning := None\<rparr> in (putAdminSecurityState s (sa_actorId actor) st1, Inr st1))
                     else (s, Inr st))
                | None \<Rightarrow> (s, Inr st))))"

text \<open>
  The security part of \<open>POST /v1/school/events\<close> for a request with a valid body: \<open>Inr\<close> lets the creation
  go on.
\<close>

definition guardEventCreate ::
  "(string \<Rightarrow> string) \<Rightarrow> uuids \<Rightarrow> storage \<Rightarrow> Request \<Rightarrow> AdminSecurityActor \<Rightarrow> string \<Rightarrow> string \<Rightarrow> int \<Rightarrow> storage \<times> (Response + unit)" where
  "guardEventCreate H uid s rq actor title host nowMs =
     (case enforceAdminSecurityOperation H uid s ''event_create'' actor nowMs of
        (s1, Inl resp) \<Rightarrow> (s1, Inl resp)
      | (s1, Inr adminState) \<Rightarrow>
          (let actorId = sa_actorId actor;
               s2 = fst (appendAdminSecurityLog H (uid ''log_attempt'') s1 ''execution'' ''event_create_attempt'' actor None None nowMs);
               overrideRequested = (js_lower (js_trim (case rq_header rq ''x-admin-security-override'' of Some h \<Rightarrow> h | None \<Rightarrow> [])) = ''continue'');
               hasActiveWarning = (case ss_pendingWarning adminState of
                 Some w \<Rightarrow> of_int nowMs - pw_issuedAt w \<le> ADMIN_SECURITY_WARNING_TTL_MS | None \<Rightarrow> False)
           in if overrideRequested \<and> hasActiveWarning then
                (let warningId = map_option pw_id (ss_pendingWarning adminState);
                     frozen = \<lparr>fz_frozenAt = of_int nowMs, fz_reason = ''proceeded_after_security_warning'', fz_warningId = warningId,
                               fz_frozenByActorId = Some actorId, fz_reportId = None\<rparr>;
                     st1 = adminState\<lparr>ss_pendingWarning := None, ss_frozen := Some frozen\<rparr>;
                     s3 = putAdminSecurityState s2 actorId st1;
                     (s4, freezeLog) = appendAdminSecurityLog H (uid ''log_freeze'') s3 ''audit'' ''freeze_enforced'' actor (Some actorId)
                       (Some (JObj [(''warningId'', jstr_null warningId), (''reason'', JStr (fz_reason frozen)),
                                    (''mode'', JStr ''manual_unlock_required'')])) nowMs;
                     (s5, report) = createAdminSecurityReportObligation (uid ''report'') s4 ''freeze'' actorId actorId (fz_reason frozen)
                       (sfield freezeLog ''id'') nowMs;
                     frozen' = frozen\<lparr>fz_reportId := Some (ob_reportId report)\<rparr>;
                     s6 = putAdminSecurityState s5 actorId (st1\<lparr>ss_frozen := Some frozen'\<rparr>)
                 in (s6, Inl (adminSecurityFrozenResponse frozen')))
              else
                (let (signals, st1) = collectSuspiciousSignals rq title host adminState nowMs in
                 if signals \<noteq> [] then
                   (let (warning, warningId) = buildAdminSecurityWarning (uid ''warning'') actorId signals nowMs;
                        st2 = st1\<lparr>ss_pendingWarning := Some \<lparr>pw_id = warningId, pw_issuedAt = of_int nowMs, pw_signals = signals\<rparr>\<rparr>;
                        s3 = putAdminSecurityState s2 actorId st2;
                        s4 = fst (appendAdminSecurityLog H (uid ''log_warning'') s3 ''audit'' ''security_warning_detected'' actor (Some actorId)
                          (Some (JObj [(''warningId'', JStr warningId), (''signals'', JArr (map JStr signals)), (''freezeOnProceed'', JBool True)])) nowMs)
                    in (s4, Inl (json_response (JObj [(''code'', JStr ''security_warning''), (''warning'', warning)]) 409)))
                 else (putAdminSecurityState s2 actorId st1, Inr ()))))"

end
