(* ===== verification/Freeze_Spec.thy ===== *)
theory Freeze_Spec
  imports Admin_Security "HOL-Library.Multiset"
begin

text \<open>
  The guard in front of the creation of events: who is frozen or revoked stays so through every attempt, and
  nobody gets through more than twice within a minute.
\<close>

section \<open>Attempts\<close>

type_synonym attempt = "uuids \<times> Request \<times> AdminSecurityActor \<times> string \<times> string \<times> int"

definition guard_step :: "(string \<Rightarrow> string) \<Rightarrow> storage \<Rightarrow> attempt \<Rightarrow> storage \<times> (Response + unit)" where
  "guard_step H s = (\<lambda>(uid, rq, actor, title, host, nowMs). guardEventCreate H uid s rq actor title host nowMs)"

fun attempt_actor :: "attempt \<Rightarrow> string" where
  "attempt_actor (uid, rq, actor, title, host, nowMs) = sa_actorId actor"

fun attempt_time :: "attempt \<Rightarrow> int" where
  "attempt_time (uid, rq, actor, title, host, nowMs) = nowMs"

section \<open>What an attempt changes\<close>

lemma state_keys:
  "adminSecurityStateKey a \<noteq> adminSecurityLogKey ts i" "adminSecurityStateKey a \<noteq> ADMIN_SECURITY_LOG_LAST_HASH_KEY"
  "adminSecurityStateKey a \<noteq> adminSecurityReportKey r"
  by (simp_all add: key_defs prefix_defs)

lemma log_keeps_state [simp]:
  "sto_get (fst (appendAdminSecurityLog H u s c x actor t d n)) (adminSecurityStateKey a) = sto_get s (adminSecurityStateKey a)"
  by (simp add: appendAdminSecurityLog_def Let_def state_keys)

lemma report_keeps_state [simp]:
  "sto_get (fst (createAdminSecurityReportObligation u s ty t b r l n)) (adminSecurityStateKey a) = sto_get s (adminSecurityStateKey a)"
  by (simp add: createAdminSecurityReportObligation_def Let_def state_keys)

lemma put_state [simp]:
  "sto_get (putAdminSecurityState s b st) (adminSecurityStateKey a)
     = (if a = b then securityStateToJs st else sto_get s (adminSecurityStateKey a))"
  by (simp add: putAdminSecurityState_def)

lemma enforce_other:
  "a \<noteq> sa_actorId actor \<Longrightarrow> sto_get (fst (enforceAdminSecurityOperation H uid s op actor n)) (adminSecurityStateKey a)
     = sto_get s (adminSecurityStateKey a)"
  by (auto simp: enforceAdminSecurityOperation_def Let_def split: option.splits)

lemma guard_other:
  assumes "a \<noteq> sa_actorId actor"
  shows "sto_get (fst (guardEventCreate H uid s rq actor title host n)) (adminSecurityStateKey a) = sto_get s (adminSecurityStateKey a)"
proof -
  obtain s1 r where e: "enforceAdminSecurityOperation H uid s ''event_create'' actor n = (s1, r)" by fastforce
  then have s1: "sto_get s1 (adminSecurityStateKey a) = sto_get s (adminSecurityStateKey a)"
    using enforce_other [OF assms, of H uid s "''event_create''" n] by simp
  show ?thesis
    using assms s1 by (cases r) (auto simp: guardEventCreate_def e Let_def case_prod_unfold)
qed

section \<open>Frozen and revoked administrators\<close>

definition blocked :: "storage \<Rightarrow> string \<Rightarrow> bool" where
  "blocked s a = (ss_frozen (getAdminSecurityState s a) \<noteq> None \<or> ss_revokedAccess (getAdminSecurityState s a) \<noteq> None)"

lemma blocked_refused:
  assumes "blocked s (sa_actorId actor)"
  shows "\<exists>s' resp. guardEventCreate H uid s rq actor title host n = (s', Inl resp) \<and> (rs_status resp = 403 \<or> rs_status resp = 423)
           \<and> sto_get s' (adminSecurityStateKey (sa_actorId actor)) = sto_get s (adminSecurityStateKey (sa_actorId actor))"
  using assms
  by (auto simp: guardEventCreate_def enforceAdminSecurityOperation_def blocked_def adminSecurityFrozenResponse_def
      adminSecurityAccessRevokedResponse_def json_response_def Let_def split: option.splits)

lemma blocked_step:
  assumes "blocked s a"
  shows "sto_get (fst (guard_step H s x)) (adminSecurityStateKey a) = sto_get s (adminSecurityStateKey a)"
proof -
  obtain uid rq actor title host n where x: "x = (uid, rq, actor, title, host, n)" by (cases x) auto
  show ?thesis
  proof (cases "a = sa_actorId actor")
    case True
    then show ?thesis using blocked_refused [of s actor H uid rq title host n] assms by (auto simp: x guard_step_def)
  qed (simp add: x guard_step_def guard_other)
qed

lemma same_state: "sto_get s' (adminSecurityStateKey a) = sto_get s (adminSecurityStateKey a) \<Longrightarrow> getAdminSecurityState s' a = getAdminSecurityState s a"
  by (simp add: getAdminSecurityState_def)

text \<open>
  C19. Freezing and revocation hold: once an administrator is frozen or revoked, no sequence of attempts to
  create events, by anyone, changes this administrator's security state, and every further attempt of theirs
  is refused with status 403 or 423.
\<close>

theorem frozen_stays_blocked:
  assumes "ss_frozen (getAdminSecurityState s a) \<noteq> None \<or> ss_revokedAccess (getAdminSecurityState s a) \<noteq> None"
  shows "getAdminSecurityState (foldl (\<lambda>t x. fst (guard_step H t x)) s attempts) a = getAdminSecurityState s a
       \<and> (\<forall>uid rq actor title host n. sa_actorId actor = a \<longrightarrow>
            (\<exists>s' resp. guardEventCreate H uid (foldl (\<lambda>t x. fst (guard_step H t x)) s attempts) rq actor title host n = (s', Inl resp)
               \<and> (rs_status resp = 403 \<or> rs_status resp = 423)))"
proof -
  have st: "getAdminSecurityState (foldl (\<lambda>t x. fst (guard_step H t x)) s attempts) a = getAdminSecurityState s a" if "blocked s a" for s
    using that
  proof (induction attempts arbitrary: s)
    case (Cons x attempts)
    have "getAdminSecurityState (fst (guard_step H s x)) a = getAdminSecurityState s a" using blocked_step [OF Cons.prems] by (rule same_state)
    then show ?case using Cons by (simp add: blocked_def)
  qed simp
  have "blocked s a" using assms by (simp add: blocked_def)
  then show ?thesis using st blocked_refused unfolding blocked_def by metis
qed

section \<open>Bursts\<close>

lemma timestamps_positive: "list_all (\<lambda>t. t > 0) (ss_issueAttemptTimestamps (getAdminSecurityState s a))"
proof -
  have "list_all (\<lambda>t. t > 0) (List.map_filter positiveNumber vs)" for vs
    by (induction vs) (auto simp: List.map_filter_simps positiveNumber_def split: option.splits)
  then show ?thesis
    by (auto simp: getAdminSecurityState_def parseAdminSecurityStateRecord_def emptySecurityState_def)
qed

lemma timestamps_back:
  assumes "sto_get s (adminSecurityStateKey a) = securityStateToJs st" "list_all (\<lambda>t. t > 0) (ss_issueAttemptTimestamps st)"
  shows "ss_issueAttemptTimestamps (getAdminSecurityState s a) = ss_issueAttemptTimestamps st"
proof -
  have "List.map_filter positiveNumber (map JNum ts) = ts" if "list_all (\<lambda>t. t > 0) ts" for ts
    using that by (induction ts) (auto simp: List.map_filter_simps positiveNumber_def)
  then show ?thesis
    using assms by (simp add: getAdminSecurityState_def parseAdminSecurityStateRecord_def securityStateToJs_def js_array_def)
qed

definition recentAttempts :: "rat list \<Rightarrow> int \<Rightarrow> rat list" where
  "recentAttempts ts n = filter (\<lambda>t. of_int n - t \<le> ADMIN_SECURITY_ISSUE_BURST_WINDOW_MS) ts @ [of_int n]"

lemma signals_timestamps:
  "ss_issueAttemptTimestamps (snd (collectSuspiciousSignals rq title host st n)) = recentAttempts (ss_issueAttemptTimestamps st) n"
  "fst (collectSuspiciousSignals rq title host st n) = [] \<Longrightarrow> length (recentAttempts (ss_issueAttemptTimestamps st) n) < ADMIN_SECURITY_ISSUE_BURST_THRESHOLD"
  by (auto simp: collectSuspiciousSignals_def recentAttempts_def Let_def split: if_splits)

lemma enforce_state:
  assumes "enforceAdminSecurityOperation H uid s op actor n = (s1, r)"
  shows "isl r \<and> sto_get s1 (adminSecurityStateKey (sa_actorId actor)) = sto_get s (adminSecurityStateKey (sa_actorId actor))
       \<or> (\<exists>st. r = Inr st \<and> ss_issueAttemptTimestamps st = ss_issueAttemptTimestamps (getAdminSecurityState s (sa_actorId actor)))"
  using assms by (auto simp: enforceAdminSecurityOperation_def Let_def split: option.splits if_splits)

text \<open>The three ways in which an attempt of an administrator in good standing ends.\<close>

lemma guard_outcomes:
  assumes "enforceAdminSecurityOperation H uid s ''event_create'' actor n = (s1, Inr st)"
    and "collectSuspiciousSignals rq title host st n = (sg, st1)"
    and "guardEventCreate H uid s rq actor title host n = (s', r)"
  defines "k \<equiv> adminSecurityStateKey (sa_actorId actor)"
  shows "isl r \<and> (\<exists>x. sto_get s' k = securityStateToJs (st\<lparr>ss_pendingWarning := None, ss_frozen := x\<rparr>))
       \<or> isl r \<and> (\<exists>x. sto_get s' k = securityStateToJs (st1\<lparr>ss_pendingWarning := x\<rparr>))
       \<or> r = Inr () \<and> sg = [] \<and> sto_get s' k = securityStateToJs st1"
proof -
  define P where "P = (js_lower (js_trim (case rq_header rq ''x-admin-security-override'' of Some h \<Rightarrow> h | None \<Rightarrow> [])) = ''continue''
    \<and> (case ss_pendingWarning st of Some w \<Rightarrow> of_int n - pw_issuedAt w \<le> ADMIN_SECURITY_WARNING_TTL_MS | None \<Rightarrow> False))"
  note g = assms(3) [unfolded guardEventCreate_def assms(1) prod.case sum.case Let_def P_def [symmetric]]
  consider "P" | "\<not> P" "sg \<noteq> []" | "\<not> P" "sg = []" by blast
  then show ?thesis
  proof cases
    case 1
    have "isl r" "\<exists>x. sto_get s' k = securityStateToJs (st\<lparr>ss_pendingWarning := None, ss_frozen := x\<rparr>)"
      using g 1 by (auto simp: k_def case_prod_unfold)
    then show ?thesis by blast
  next
    case 2
    have "isl r" "\<exists>x. sto_get s' k = securityStateToJs (st1\<lparr>ss_pendingWarning := x\<rparr>)"
      using g 2 by (auto simp: k_def assms(2) case_prod_unfold)
    then show ?thesis by blast
  next
    case 3
    then show ?thesis using g by (auto simp: k_def assms(2))
  qed
qed

text \<open>The recorded attempts of the actor after an attempt, and when it gets through.\<close>

lemma guard_timestamps:
  assumes "guardEventCreate H uid s rq actor title host n = (s', r)" "n > 0"
  defines "old \<equiv> ss_issueAttemptTimestamps (getAdminSecurityState s (sa_actorId actor))"
    and "new \<equiv> ss_issueAttemptTimestamps (getAdminSecurityState s' (sa_actorId actor))"
  shows "isl r \<and> (new = old \<or> new = recentAttempts old n)
       \<or> r = Inr () \<and> new = recentAttempts old n \<and> length new < ADMIN_SECURITY_ISSUE_BURST_THRESHOLD"
proof -
  let ?a = "sa_actorId actor"
  obtain s1 q where e: "enforceAdminSecurityOperation H uid s ''event_create'' actor n = (s1, q)" by fastforce
  have pos: "list_all (\<lambda>t. t > 0) old" unfolding old_def by (rule timestamps_positive)
  then have pos': "list_all (\<lambda>t. t > 0) (recentAttempts old n)" using assms(2) by (auto simp: recentAttempts_def list_all_iff)
  show ?thesis
  proof (cases q)
    case (Inl resp)
    then have "s' = s1" "isl r" using assms(1) e by (auto simp: guardEventCreate_def)
    have "sto_get s1 (adminSecurityStateKey ?a) = sto_get s (adminSecurityStateKey ?a)" using enforce_state [OF e] Inl by simp
    from same_state [OF this] have "new = old" unfolding new_def old_def \<open>s' = s1\<close> by (rule arg_cong)
    then show ?thesis using \<open>isl r\<close> by simp
  next
    case (Inr st)
    then have st: "ss_issueAttemptTimestamps st = old" using enforce_state [OF e] by (auto simp: old_def)
    obtain sg st1 where sg: "collectSuspiciousSignals rq title host st n = (sg, st1)" by fastforce
    then have st1: "ss_issueAttemptTimestamps st1 = recentAttempts old n" "sg = [] \<Longrightarrow> length (recentAttempts old n) < ADMIN_SECURITY_ISSUE_BURST_THRESHOLD"
      using signals_timestamps [of rq title host st n] st by auto
    have stored: "ss_issueAttemptTimestamps (getAdminSecurityState t ?a) = ss_issueAttemptTimestamps x"
      if "sto_get t (adminSecurityStateKey ?a) = securityStateToJs x" "ss_issueAttemptTimestamps x = old \<or> ss_issueAttemptTimestamps x = recentAttempts old n"
      for t x
      using timestamps_back [OF that(1)] that(2) pos pos' by (elim disjE) simp_all
    consider (frozen) "isl r" "\<exists>x. sto_get s' (adminSecurityStateKey ?a) = securityStateToJs (st\<lparr>ss_pendingWarning := None, ss_frozen := x\<rparr>)"
      | (warned) "isl r" "\<exists>x. sto_get s' (adminSecurityStateKey ?a) = securityStateToJs (st1\<lparr>ss_pendingWarning := x\<rparr>)"
      | (passed) "r = Inr ()" "sg = []" "sto_get s' (adminSecurityStateKey ?a) = securityStateToJs st1"
      using guard_outcomes [OF e [unfolded Inr] sg assms(1)] by blast
    then show ?thesis
    proof cases
      case frozen
      then show ?thesis using stored st unfolding new_def by fastforce
    next
      case warned
      then show ?thesis using stored st1(1) unfolding new_def by fastforce
    next
      case passed
      then show ?thesis using stored [OF passed(3)] st1 unfolding new_def by simp
    qed
  qed
qed

text \<open>The times at which an actor gets through.\<close>

fun passes :: "(string \<Rightarrow> string) \<Rightarrow> string \<Rightarrow> storage \<Rightarrow> attempt list \<Rightarrow> int list" where
  "passes H a s [] = []"
| "passes H a s (x # xs) =
     (let (s', r) = guard_step H s x in
      (if attempt_actor x = a \<and> r = Inr () then [attempt_time x] else []) @ passes H a s' xs)"

definition recorded :: "int list \<Rightarrow> int \<Rightarrow> rat list \<Rightarrow> bool" where
  "recorded seen m ts = (mset (map of_int (filter (\<lambda>t. m - t \<le> 60000) seen)) \<subseteq># mset ts)"

definition passesIn :: "int \<Rightarrow> int list \<Rightarrow> nat" where
  "passesIn x ts = length (filter (\<lambda>t. x \<le> t \<and> t \<le> x + 60000) ts)"

lemma window_int: "of_int n - (of_int t :: rat) \<le> ADMIN_SECURITY_ISSUE_BURST_WINDOW_MS \<longleftrightarrow> n - t \<le> 60000"
proof -
  have "of_int n - (of_int t :: rat) \<le> ADMIN_SECURITY_ISSUE_BURST_WINDOW_MS \<longleftrightarrow> (of_int (n - t) :: rat) \<le> of_int 60000"
    by (simp add: ADMIN_SECURITY_ISSUE_BURST_WINDOW_MS_def)
  then show ?thesis by (simp only: of_int_le_iff)
qed

lemma recorded_later: "recorded seen m ts \<Longrightarrow> m \<le> n \<Longrightarrow> recorded seen n ts"
proof -
  assume r: "recorded seen m ts" and mn: "m \<le> n"
  have "filter (\<lambda>t. n - t \<le> 60000) seen = filter (\<lambda>t. n - t \<le> 60000) (filter (\<lambda>t. m - t \<le> 60000) seen)"
    using mn by (auto intro: filter_cong)
  then have "mset (map of_int (filter (\<lambda>t. n - t \<le> 60000) seen)) \<subseteq># mset (map (of_int :: int \<Rightarrow> rat) (filter (\<lambda>t. m - t \<le> 60000) seen))"
    by (simp only: mset_map mset_filter [of "\<lambda>t. n - t \<le> 60000"] image_mset_subseteq_mono [OF multiset_filter_subset])
  then show ?thesis using r by (auto simp: recorded_def intro: subset_mset.trans)
qed

lemma recorded_recent:
  assumes "recorded seen n ts"
  shows "mset (map of_int (filter (\<lambda>t. n - t \<le> 60000) seen)) \<subseteq># mset (filter (\<lambda>t. of_int n - t \<le> ADMIN_SECURITY_ISSUE_BURST_WINDOW_MS) ts)"
proof -
  let ?P = "\<lambda>t :: rat. of_int n - t \<le> ADMIN_SECURITY_ISSUE_BURST_WINDOW_MS"
  have "filter ?P (map of_int (filter (\<lambda>t. n - t \<le> 60000) seen)) = map of_int (filter (\<lambda>t. n - t \<le> 60000) seen)"
    by (rule filter_True) (auto simp: window_int)
  then have "mset (map of_int (filter (\<lambda>t. n - t \<le> 60000) seen)) = filter_mset ?P (mset (map of_int (filter (\<lambda>t. n - t \<le> 60000) seen)))"
    by (metis mset_filter)
  also have "\<dots> \<subseteq># filter_mset ?P (mset ts)" using assms unfolding recorded_def by (rule multiset_filter_mono)
  finally show ?thesis by simp
qed

lemma subset_add_mset: "A \<subseteq># B \<Longrightarrow> A \<subseteq># add_mset x B"
  by (rule subset_mset.order_trans, assumption) simp

lemma passes_bound:
  assumes "sorted (m # map attempt_time xs)" "\<forall>x \<in> set xs. attempt_time x > 0"
    and "recorded seen m (ss_issueAttemptTimestamps (getAdminSecurityState s a))" "\<forall>t \<in> set seen. t \<le> m" "passesIn x seen \<le> 2"
  shows "passesIn x (seen @ passes H a s xs) \<le> 2"
  using assms
proof (induction xs arbitrary: m seen s)
  case (Cons y xs)
  obtain uid rq actor title host n where y: "y = (uid, rq, actor, title, host, n)" by (cases y) auto
  obtain s' r where g: "guard_step H s y = (s', r)" by fastforce
  have n: "m \<le> n" "n > 0" "sorted (n # map attempt_time xs)" "\<forall>x \<in> set xs. attempt_time x > 0" using Cons.prems(1,2) by (auto simp: y)
  let ?old = "ss_issueAttemptTimestamps (getAdminSecurityState s a)" and ?new = "ss_issueAttemptTimestamps (getAdminSecurityState s' a)"
  have rec: "recorded seen n ?old" using Cons.prems(3) n(1) by (rule recorded_later)
  note rr = recorded_recent [OF rec]
  have keep: "recorded seen n (recentAttempts ?old n)"
    using rr by (simp add: recorded_def recentAttempts_def subset_add_mset)
  show ?case
  proof (cases "sa_actorId actor = a \<and> r = Inr ()")
    case True
    have t: "?new = recentAttempts ?old n" "length ?new < ADMIN_SECURITY_ISSUE_BURST_THRESHOLD"
      using guard_timestamps [of H uid s rq actor title host n s' r] g n(2) True by (auto simp: y guard_step_def)
    have "recorded (seen @ [n]) n ?new"
      using rr t(1) by (simp add: recorded_def recentAttempts_def)
    moreover have "\<forall>t \<in> set (seen @ [n]). t \<le> n" using Cons.prems(4) n(1) by auto
    moreover have "passesIn x (seen @ [n]) \<le> 2"
    proof -
      have "length (filter (\<lambda>t. n - t \<le> 60000) seen) \<le> 1"
        using size_mset_mono [OF rr] t
        by (simp only: size_mset length_map recentAttempts_def ADMIN_SECURITY_ISSUE_BURST_THRESHOLD_def) simp
      moreover have "length (filter (\<lambda>t. x \<le> t \<and> t \<le> x + 60000) seen) \<le> length (filter (\<lambda>t. n - t \<le> 60000) seen)"
        if "n \<le> x + 60000" using that by (induction seen) auto
      ultimately show ?thesis using Cons.prems(5) by (auto simp: passesIn_def)
    qed
    ultimately have "passesIn x ((seen @ [n]) @ passes H a s' xs) \<le> 2" by (rule Cons.IH [OF n(3,4)])
    then show ?thesis using True g by (simp add: y)
  next
    case False
    have "recorded seen n ?new"
    proof (cases "sa_actorId actor = a")
      case True
      then show ?thesis
        using guard_timestamps [of H uid s rq actor title host n s' r] g n(2) False rec keep by (auto simp: y guard_step_def)
    next
      case other: False
      then have "getAdminSecurityState s' a = getAdminSecurityState s a"
        using guard_other [of a actor H uid s rq title host n] g by (intro same_state) (auto simp: y guard_step_def)
      then show ?thesis using rec by simp
    qed
    moreover have "\<forall>t \<in> set seen. t \<le> n" using Cons.prems(4) n(1) by auto
    ultimately have "passesIn x (seen @ passes H a s' xs) \<le> 2" using Cons.prems(5) by (intro Cons.IH [OF n(3,4)])
    then show ?thesis using False g by (auto simp: y)
  qed
qed simp

text \<open>
  No bursts: whatever is attempted, by whom and from which state, an administrator gets through the guard
  at most twice within any 60 seconds, as long as the clock does not run backwards.
\<close>

theorem event_burst_bounded:
  assumes "sorted (map attempt_time xs)" "\<forall>x \<in> set xs. attempt_time x > 0"
  shows "length (filter (\<lambda>t. w \<le> t \<and> t \<le> w + 60000) (passes H a s xs)) \<le> 2"
proof (cases xs)
  case (Cons y ys)
  have "passesIn w ([] @ passes H a s xs) \<le> 2"
    using assms Cons by (intro passes_bound [where m = "attempt_time y"]) (simp_all add: recorded_def passesIn_def)
  then show ?thesis by (simp add: passesIn_def)
qed simp

section \<open>Examples\<close>

definition sampleActor :: AdminSecurityActor where
  "sampleActor = \<lparr>sa_actorId = ''a'', sa_role = SecAdmin, sa_adminId = Some ''a'', sa_name = None\<rparr>"

definition sampleEventRequest :: Request where
  "sampleEventRequest = \<lparr>rq_method = ''POST'', rq_headers = [], rq_chunks = None, rq_json = Inl []\<rparr>"

definition sampleAttempt :: "int \<Rightarrow> attempt" where
  "sampleAttempt n = (\<lambda>k. k, sampleEventRequest, sampleActor, ''Picnic'', ''Ann'', n)"

definition sampleFrozen :: storage where
  "sampleFrozen = putAdminSecurityState [] ''a'' (emptySecurityState\<lparr>ss_frozen :=
     Some \<lparr>fz_frozenAt = 500, fz_reason = ''r'', fz_warningId = None, fz_frozenByActorId = None, fz_reportId = None\<rparr>\<rparr>)"

theorem frozen_stays_blocked_witness:
  "ss_frozen (getAdminSecurityState sampleFrozen ''a'') \<noteq> None
   \<and> (\<exists>s' resp. guardEventCreate (\<lambda>x. x) (\<lambda>k. k) (foldl (\<lambda>t x. fst (guard_step (\<lambda>x. x) t x)) sampleFrozen [sampleAttempt 1000, sampleAttempt 2000])
         sampleEventRequest sampleActor ''Picnic'' ''Ann'' 3000 = (s', Inl resp) \<and> (rs_status resp = 403 \<or> rs_status resp = 423))"
proof -
  have f: "ss_frozen (getAdminSecurityState sampleFrozen ''a'') \<noteq> None" by code_simp
  have a: "sa_actorId sampleActor = ''a''" by (simp add: sampleActor_def)
  have "\<exists>s' resp. guardEventCreate (\<lambda>x. x) (\<lambda>k. k) (foldl (\<lambda>t x. fst (guard_step (\<lambda>x. x) t x)) sampleFrozen [sampleAttempt 1000, sampleAttempt 2000])
         sampleEventRequest sampleActor ''Picnic'' ''Ann'' 3000 = (s', Inl resp) \<and> (rs_status resp = 403 \<or> rs_status resp = 423)"
    using frozen_stays_blocked [OF disjI1 [OF f], of "\<lambda>x. x" "[sampleAttempt 1000, sampleAttempt 2000]"] a by blast
  then show ?thesis using f by blast
qed

theorem event_burst_bounded_witness:
  "length (filter (\<lambda>t. 1000 \<le> t \<and> t \<le> 1000 + 60000) (passes (\<lambda>x. x) ''a'' [] (map sampleAttempt [1000, 2000, 3000, 4000]))) \<le> 2"
  by (rule event_burst_bounded) (simp_all add: sampleAttempt_def)

end
