(* ===== verification/Admin_Governance.thy ===== *)
theory Admin_Governance
  imports Admin_Security
begin

text \<open>
  Decisions of the operator community (\<open>storeDO.ts\<close>): proposals, approvals, execution on unanimity, and
  the nine handlers that lock, revoke, restore, freeze and delete. The source hands the execution to
  \<open>processAdminSecurityGovernanceAction\<close> as a callback, and so does the model; the part before the callback
  is \<open>consentPhase\<close>.
\<close>

section \<open>Proposals\<close>

datatype GovernanceStatus = GovPending | GovExecuted

record AdminSecurityGovernanceProposalApproval =
  ga_actorId :: string
  ga_approvedAt :: string

record AdminSecurityGovernanceProposalRecord =
  gp_proposalId :: string
  gp_actionType :: string
  gp_targetId :: string
  gp_reason :: string
  gp_createdAt :: string
  gp_requestedByActorId :: string
  gp_requiredApproverIds :: "string list"
  gp_approvals :: "AdminSecurityGovernanceProposalApproval list"
  gp_status :: GovernanceStatus
  gp_executedAt :: "string option"
  gp_executedByActorId :: "string option"

fun govStatusStr :: "GovernanceStatus \<Rightarrow> string" where
  "govStatusStr GovPending = ''pending''"
| "govStatusStr GovExecuted = ''executed''"

definition govApprovalToJs :: "AdminSecurityGovernanceProposalApproval \<Rightarrow> js" where
  "govApprovalToJs a = JObj [(''actorId'', JStr (ga_actorId a)), (''approvedAt'', JStr (ga_approvedAt a))]"

definition govProposalToJs :: "AdminSecurityGovernanceProposalRecord \<Rightarrow> js" where
  "govProposalToJs p = JObj [(''proposalId'', JStr (gp_proposalId p)), (''actionType'', JStr (gp_actionType p)),
     (''targetId'', JStr (gp_targetId p)), (''reason'', JStr (gp_reason p)), (''createdAt'', JStr (gp_createdAt p)),
     (''requestedByActorId'', JStr (gp_requestedByActorId p)),
     (''requiredApproverIds'', JArr (map JStr (gp_requiredApproverIds p))),
     (''approvals'', JArr (map govApprovalToJs (gp_approvals p))), (''status'', JStr (govStatusStr (gp_status p))),
     (''executedAt'', jstr_opt (gp_executedAt p)), (''executedByActorId'', jstr_opt (gp_executedByActorId p))]"

definition parseAdminSecurityGovernanceApproval :: "js \<Rightarrow> AdminSecurityGovernanceProposalApproval option" where
  "parseAdminSecurityGovernanceApproval raw =
     (if \<not> is_obj raw \<or> strField raw ''actorId'' = [] \<or> strField raw ''approvedAt'' = [] then None
      else Some \<lparr>ga_actorId = strField raw ''actorId'', ga_approvedAt = strField raw ''approvedAt''\<rparr>)"

definition nonBlankStrings :: "js list \<Rightarrow> string list" where
  "nonBlankStrings vs = List.map_filter (\<lambda>v. case v of JStr x \<Rightarrow> (if js_trim x \<noteq> [] then Some x else None) | _ \<Rightarrow> None) vs"

definition parseAdminSecurityGovernanceProposal :: "js \<Rightarrow> AdminSecurityGovernanceProposalRecord option" where
  "parseAdminSecurityGovernanceProposal raw =
     (if \<not> is_obj raw then None
      else if list_ex (\<lambda>k. strField raw k = [])
                [''proposalId'', ''actionType'', ''targetId'', ''reason'', ''createdAt'', ''requestedByActorId'', ''status'']
      then None
      else
        let approvalMap = fold (\<lambda>item. addApproval ga_actorId ga_approvedAt (parseAdminSecurityGovernanceApproval item))
                            (js_array (jget raw ''approvals'')) []
        in Some \<lparr>gp_proposalId = strField raw ''proposalId'', gp_actionType = strField raw ''actionType'',
             gp_targetId = strField raw ''targetId'', gp_reason = strField raw ''reason'', gp_createdAt = strField raw ''createdAt'',
             gp_requestedByActorId = strField raw ''requestedByActorId'',
             gp_requiredApproverIds = nonBlankStrings (js_array (jget raw ''requiredApproverIds'')),
             gp_approvals = sort_key ga_approvedAt (map snd approvalMap),
             gp_status = (if strField raw ''status'' = ''executed'' then GovExecuted else GovPending),
             gp_executedAt = or_null (strField raw ''executedAt''), gp_executedByActorId = or_null (strField raw ''executedByActorId'')\<rparr>)"

definition listAdminSecurityGovernanceProposals :: "storage \<Rightarrow> AdminSecurityGovernanceProposalRecord list" where
  "listAdminSecurityGovernanceProposals s =
     newestFirst gp_createdAt (List.map_filter parseAdminSecurityGovernanceProposal (map snd (sto_list s ADMIN_SECURITY_GOVERNANCE_PREFIX)))"

definition getAdminSecurityGovernanceProposal :: "storage \<Rightarrow> string \<Rightarrow> AdminSecurityGovernanceProposalRecord option" where
  "getAdminSecurityGovernanceProposal s proposalId =
     parseAdminSecurityGovernanceProposal (sto_get s (adminSecurityGovernanceKey proposalId))"

definition putGovProposal :: "storage \<Rightarrow> AdminSecurityGovernanceProposalRecord \<Rightarrow> storage" where
  "putGovProposal s p = sto_put s (adminSecurityGovernanceKey (gp_proposalId p)) (govProposalToJs p)"

definition parseGovernanceReason :: "js \<Rightarrow> string \<Rightarrow> string" where
  "parseGovernanceReason raw fallback =
     take ADMIN_SECURITY_GOVERNANCE_REASON_MAX_LENGTH (case trimmed_str raw of Some t \<Rightarrow> t | None \<Rightarrow> fallback)"

definition approvedIds :: "AdminSecurityGovernanceProposalRecord \<Rightarrow> string set" where
  "approvedIds p = ga_actorId ` set (gp_approvals p)"

definition governanceProposalView :: "AdminSecurityGovernanceProposalRecord \<Rightarrow> js" where
  "governanceProposalView p =
     (let missing = filter (\<lambda>a. a \<notin> approvedIds p) (gp_requiredApproverIds p) in
      JObj [(''proposalId'', JStr (gp_proposalId p)), (''actionType'', JStr (gp_actionType p)), (''targetId'', JStr (gp_targetId p)),
        (''reason'', JStr (gp_reason p)), (''status'', JStr (govStatusStr (gp_status p))), (''createdAt'', JStr (gp_createdAt p)),
        (''requestedByActorId'', JStr (gp_requestedByActorId p)), (''approvedCount'', jsNat (length (gp_approvals p))),
        (''requiredCount'', jsNat (length (gp_requiredApproverIds p))),
        (''requiredApproverIds'', JArr (map JStr (gp_requiredApproverIds p))),
        (''approvals'', JArr (map govApprovalToJs (gp_approvals p))), (''missingApprovers'', JArr (map JStr missing)),
        (''unanimousApproved'', JBool (missing = [])), (''executedAt'', jstr_null (gp_executedAt p)),
        (''executedByActorId'', jstr_null (gp_executedByActorId p))])"

section \<open>Consent and execution\<close>

type_synonym gov_result = "int \<times> (string \<times> js) list"

definition govFail :: "int \<Rightarrow> string \<Rightarrow> gov_result" where
  "govFail status code = (status, [(''code'', JStr code)])"

text \<open>The proposal the request is about, found or created; \<open>Inl\<close> answers the request at once.\<close>

definition findProposal ::
  "storage \<Rightarrow> string \<Rightarrow> string \<Rightarrow> string list \<Rightarrow> AdminSecurityGovernanceProposalRecord option" where
  "findProposal s actionType targetId required =
     (let pending = filter (\<lambda>c. gp_status c = GovPending \<and> gp_actionType c = actionType \<and> gp_targetId c = targetId)
                      (listAdminSecurityGovernanceProposals s)
      in if required \<noteq> [] then find (\<lambda>c. gp_requiredApproverIds c = required) pending
         else (case pending of [] \<Rightarrow> None | c # _ \<Rightarrow> Some c))"

definition createProposal ::
  "(string \<Rightarrow> string) \<Rightarrow> uuids \<Rightarrow> storage \<Rightarrow> AdminSecurityActor \<Rightarrow> string \<Rightarrow> string \<Rightarrow> string \<Rightarrow> string list \<Rightarrow> int
     \<Rightarrow> storage \<times> AdminSecurityGovernanceProposalRecord" where
  "createProposal H uid s actor actionType targetId reason required nowMs =
     (let (s1, ids) = (if required \<noteq> [] then (s, required) else getActiveOperatorCommunityIds s actor nowMs);
          p = \<lparr>gp_proposalId = shortId ''gov-'' (uid ''proposal'') 12, gp_actionType = actionType, gp_targetId = targetId,
               gp_reason = reason, gp_createdAt = js_toISOString nowMs, gp_requestedByActorId = sa_actorId actor,
               gp_requiredApproverIds = ids, gp_approvals = [], gp_status = GovPending, gp_executedAt = None,
               gp_executedByActorId = None\<rparr>;
          s2 = putGovProposal s1 p;
          s3 = fst (appendAdminSecurityLog H (uid ''log_created'') s2 ''audit'' ''governance_proposal_created'' actor (Some targetId)
                 (Some (JObj [(''proposalId'', JStr (gp_proposalId p)), (''actionType'', JStr actionType),
                    (''requiredApproverIds'', JArr (map JStr ids)), (''reason'', JStr reason)])) nowMs)
      in (s3, p))"

definition selectProposal ::
  "(string \<Rightarrow> string) \<Rightarrow> uuids \<Rightarrow> storage \<Rightarrow> AdminSecurityActor \<Rightarrow> string \<Rightarrow> string \<Rightarrow> string \<Rightarrow> js \<Rightarrow> string list \<Rightarrow> int
     \<Rightarrow> storage \<times> (gov_result + AdminSecurityGovernanceProposalRecord)" where
  "selectProposal H uid s actor actionType targetId reason proposalIdInput requiredApproverIds nowMs =
     (let required = sort (remdups (filter (\<lambda>i. i \<noteq> []) (map js_trim requiredApproverIds))) in
      case trimmed_str proposalIdInput of
        Some ident \<Rightarrow>
          (case getAdminSecurityGovernanceProposal s ident of
             None \<Rightarrow> (s, Inl (govFail 404 ''not_found''))
           | Some p \<Rightarrow>
               if gp_actionType p \<noteq> actionType \<or> gp_targetId p \<noteq> targetId then (s, Inl (govFail 409 ''proposal_mismatch''))
               else if gp_status p = GovExecuted
               then (s, Inl (200, [(''success'', JBool True), (''alreadyExecuted'', JBool True), (''consensus'', governanceProposalView p)]))
               else (s, Inr p))
      | None \<Rightarrow>
          (case findProposal s actionType targetId required of
             Some p \<Rightarrow> (s, Inr p)
           | None \<Rightarrow> (let (s1, p) = createProposal H uid s actor actionType targetId reason required nowMs in (s1, Inr p))))"

definition approveGov ::
  "(string \<Rightarrow> string) \<Rightarrow> uuids \<Rightarrow> storage \<Rightarrow> AdminSecurityActor \<Rightarrow> string \<Rightarrow> AdminSecurityGovernanceProposalRecord \<Rightarrow> int
     \<Rightarrow> storage \<times> AdminSecurityGovernanceProposalRecord" where
  "approveGov H uid s actor targetId p nowMs =
     (if sa_actorId actor \<in> approvedIds p then (s, p)
      else
        let p1 = p\<lparr>gp_approvals := sort_key ga_approvedAt
                     (gp_approvals p @ [\<lparr>ga_actorId = sa_actorId actor, ga_approvedAt = js_toISOString nowMs\<rparr>])\<rparr>;
            s1 = putGovProposal s p1;
            s2 = fst (appendAdminSecurityLog H (uid ''log_approved'') s1 ''audit'' ''governance_proposal_approved'' actor (Some targetId)
                   (Some (JObj [(''proposalId'', JStr (gp_proposalId p1)), (''actionType'', JStr (gp_actionType p1)),
                      (''approvedCount'', jsNat (length (gp_approvals p1))),
                      (''requiredCount'', jsNat (length (gp_requiredApproverIds p1)))])) nowMs)
        in (s2, p1))"

definition consentPhase ::
  "(string \<Rightarrow> string) \<Rightarrow> uuids \<Rightarrow> storage \<Rightarrow> AdminSecurityActor \<Rightarrow> string \<Rightarrow> string \<Rightarrow> string \<Rightarrow> js \<Rightarrow> string list \<Rightarrow> int
     \<Rightarrow> storage \<times> (gov_result + AdminSecurityGovernanceProposalRecord)" where
  "consentPhase H uid s actor actionType targetId reason proposalIdInput requiredApproverIds nowMs =
     (case selectProposal H uid s actor actionType targetId reason proposalIdInput requiredApproverIds nowMs of
        (s1, Inl r) \<Rightarrow> (s1, Inl r)
      | (s1, Inr p) \<Rightarrow>
          if sa_actorId actor \<notin> set (gp_requiredApproverIds p)
          then (s1, Inl (403, [(''code'', JStr ''forbidden''), (''proposalId'', JStr (gp_proposalId p))]))
          else
            let (s2, p2) = approveGov H uid s1 actor targetId p nowMs in
            if \<not> set (gp_requiredApproverIds p2) \<subseteq> approvedIds p2
            then (s2, Inl (202, [(''success'', JBool False), (''status'', JStr ''pending_consensus''), (''consensus'', governanceProposalView p2)]))
            else (s2, Inr p2))"

definition processAdminSecurityGovernanceAction ::
  "(string \<Rightarrow> string) \<Rightarrow> uuids \<Rightarrow> storage \<Rightarrow> AdminSecurityActor \<Rightarrow> string \<Rightarrow> string \<Rightarrow> string \<Rightarrow> js \<Rightarrow> string list
     \<Rightarrow> (storage \<Rightarrow> storage \<times> (string \<times> js) list) \<Rightarrow> int \<Rightarrow> storage \<times> Response" where
  "processAdminSecurityGovernanceAction H uid s actor actionType targetId reason proposalIdInput requiredApproverIds execute nowMs =
     (case consentPhase H uid s actor actionType targetId reason proposalIdInput requiredApproverIds nowMs of
        (s1, Inl (status, body)) \<Rightarrow> (s1, json_response (JObj body) status)
      | (s1, Inr p) \<Rightarrow>
          (let (s2, result) = execute s1;
               p1 = p\<lparr>gp_status := GovExecuted, gp_executedAt := Some (js_toISOString nowMs), gp_executedByActorId := Some (sa_actorId actor)\<rparr>;
               s3 = putGovProposal s2 p1;
               s4 = fst (appendAdminSecurityLog H (uid ''log_executed'') s3 ''audit'' ''governance_proposal_executed'' actor (Some targetId)
                      (Some (JObj [(''proposalId'', JStr (gp_proposalId p1)), (''actionType'', JStr (gp_actionType p1))])) nowMs)
           in (s4, json_response (jspread (jspread (JObj [(''success'', JBool True)]) result) [(''consensus'', governanceProposalView p1)]) 200)))"

section \<open>Handlers\<close>

text \<open>The body of a request; an unreadable body counts as empty.\<close>

definition bodyOrEmpty :: "Request \<Rightarrow> js" where
  "bodyOrEmpty rq = (case rq_json rq of Inr b \<Rightarrow> b | Inl _ \<Rightarrow> JObj [])"

definition govHandler ::
  "Env \<Rightarrow> storage \<Rightarrow> int \<Rightarrow> Request \<Rightarrow> (storage \<Rightarrow> AdminSecurityActor \<Rightarrow> js \<Rightarrow> (storage \<times> Response) or_error) \<Rightarrow> (storage \<times> Response) or_error" where
  "govHandler env s nowMs rq act =
     (case ensureGovernanceOperatorContext env s nowMs rq of
        (s1, Inl resp) \<Rightarrow> Inr (s1, resp)
      | (s1, Inr (operator, actor)) \<Rightarrow>
          (let body = bodyOrEmpty rq in if body = JNull then Inl ''TypeError'' else act s1 actor body))"

definition invalidResponse :: "string \<Rightarrow> int \<Rightarrow> Response" where
  "invalidResponse message status = json_response (JObj [(''code'', JStr ''invalid''), (''message'', JStr message)]) status"

definition notFoundResponse :: Response where
  "notFoundResponse = json_response (JObj [(''code'', JStr ''not_found'')]) 404"

definition resolveIf :: "storage \<Rightarrow> string option \<Rightarrow> string \<Rightarrow> int \<Rightarrow> storage \<times> js" where
  "resolveIf s reportId byActor nowMs =
     (case reportId of
        None \<Rightarrow> (s, JNull)
      | Some r \<Rightarrow>
          (case resolveAdminSecurityReportObligation s r byActor nowMs of
             (s1, None) \<Rightarrow> (s1, JNull) | (s1, Some ob) \<Rightarrow> (s1, obligationToJs ob)))"

definition unlockExecute ::
  "(string \<Rightarrow> string) \<Rightarrow> uuids \<Rightarrow> AdminSecurityActor \<Rightarrow> string \<Rightarrow> AdminSecurityStateRecord \<Rightarrow> FrozenAccount \<Rightarrow> int \<Rightarrow> storage \<Rightarrow> storage \<times> (string \<times> js) list" where
  "unlockExecute H uid actor targetActorId targetState previous nowMs s =
     (let st = targetState\<lparr>ss_frozen := None, ss_pendingWarning := None, ss_issueAttemptTimestamps := []\<rparr>;
          s1 = putAdminSecurityState s targetActorId st;
          (s2, resolved) = resolveIf s1 (fz_reportId previous) (sa_actorId actor) nowMs;
          s3 = fst (appendAdminSecurityLog H (uid ''log_execute'') s2 ''audit'' ''unlock_executed'' actor (Some targetActorId)
                 (Some (JObj [(''reason'', JStr (fz_reason previous)), (''warningId'', jstr_null (fz_warningId previous)),
                    (''reportId'', jstr_null (fz_reportId previous)),
                    (''reportStatus'', if resolved = JNull then JNull else jget resolved ''status'')])) nowMs)
      in (s3, [(''targetActorId'', JStr targetActorId), (''unlockedAt'', JStr (js_toISOString nowMs)), (''unlockedBy'', actorToJs actor),
           (''previousFreeze'', JObj [(''frozenAt'', JStr (isoOf (fz_frozenAt previous))), (''reason'', JStr (fz_reason previous)),
              (''warningId'', jstr_null (fz_warningId previous)), (''reportId'', jstr_null (fz_reportId previous))]),
           (''resolvedReport'', resolved)]))"

definition handleUnlock :: "(string \<Rightarrow> string) \<Rightarrow> Env \<Rightarrow> uuids \<Rightarrow> storage \<Rightarrow> int \<Rightarrow> Request \<Rightarrow> (storage \<times> Response) or_error" where
  "handleUnlock H env uid s nowMs rq = govHandler env s nowMs rq (\<lambda>s actor body.
     let targetActorId = (case normalizeStringField (jget body ''targetActorId'') of Some t \<Rightarrow> t | None \<Rightarrow> []);
         targetState = getAdminSecurityState s targetActorId
     in if targetActorId = [] then Inr (s, invalidResponse ''targetActorId is required'' 400)
        else case ss_frozen targetState of
          None \<Rightarrow> Inr (s, notFoundResponse)
        | Some frozen \<Rightarrow>
            Inr (processAdminSecurityGovernanceAction H uid s actor ''unlock_admin'' targetActorId
                   (parseGovernanceReason (JStr (fz_reason frozen)) ''manual_unlock_required'') (jget body ''proposalId'') []
                   (unlockExecute H uid actor targetActorId targetState frozen nowMs) nowMs))"

definition revokeAccessExecute ::
  "(string \<Rightarrow> string) \<Rightarrow> uuids \<Rightarrow> AdminSecurityActor \<Rightarrow> string \<Rightarrow> AdminSecurityStateRecord \<Rightarrow> string \<Rightarrow> int \<Rightarrow> storage \<Rightarrow> storage \<times> (string \<times> js) list" where
  "revokeAccessExecute H uid actor targetActorId targetState reason nowMs s =
     (let (s1, _) = resolveIf s (Option.bind (ss_frozen targetState) fz_reportId) (sa_actorId actor) nowMs;
          revoked = \<lparr>rk_revokedAt = of_int nowMs, rk_reason = reason, rk_revokedByActorId = Some (sa_actorId actor), rk_reportId = None\<rparr>;
          st = targetState\<lparr>ss_frozen := None, ss_pendingWarning := None, ss_issueAttemptTimestamps := [], ss_revokedAccess := Some revoked\<rparr>;
          s2 = putAdminSecurityState s1 targetActorId st;
          (s3, revokeLog) = appendAdminSecurityLog H (uid ''log_execute'') s2 ''audit'' ''access_revoked'' actor (Some targetActorId)
                 (Some (JObj [(''reason'', JStr reason)])) nowMs;
          (s4, report) = createAdminSecurityReportObligation (uid ''report'') s3 ''revoke_access'' targetActorId (sa_actorId actor) reason
                 (sfield revokeLog ''id'') nowMs;
          s5 = putAdminSecurityState s4 targetActorId (st\<lparr>ss_revokedAccess := Some (revoked\<lparr>rk_reportId := Some (ob_reportId report)\<rparr>)\<rparr>)
      in (s5, [(''targetActorId'', JStr targetActorId), (''revokedAt'', JStr (js_toISOString nowMs)), (''reason'', JStr reason),
           (''reportId'', JStr (ob_reportId report)), (''revokedBy'', actorToJs actor)]))"

definition handleRevokeAccess :: "(string \<Rightarrow> string) \<Rightarrow> Env \<Rightarrow> uuids \<Rightarrow> storage \<Rightarrow> int \<Rightarrow> Request \<Rightarrow> (storage \<times> Response) or_error" where
  "handleRevokeAccess H env uid s nowMs rq = govHandler env s nowMs rq (\<lambda>s actor body.
     let targetActorId = (case normalizeStringField (jget body ''targetActorId'') of Some t \<Rightarrow> t | None \<Rightarrow> []);
         targetState = getAdminSecurityState s targetActorId;
         reason = parseGovernanceReason (jget body ''reason'') ''operator_revoked_access''
     in if targetActorId = [] then Inr (s, invalidResponse ''targetActorId is required'' 400)
        else case ss_revokedAccess targetState of
          Some r \<Rightarrow> Inr (s, json_response (JObj [(''success'', JBool True), (''targetActorId'', JStr targetActorId), (''alreadyRevoked'', JBool True),
                     (''revokedAt'', JStr (isoOf (rk_revokedAt r))), (''reason'', JStr (rk_reason r)), (''reportId'', jstr_null (rk_reportId r))]) 200)
        | None \<Rightarrow>
            Inr (processAdminSecurityGovernanceAction H uid s actor ''revoke_admin_access'' targetActorId reason (jget body ''proposalId'') []
                   (revokeAccessExecute H uid actor targetActorId targetState reason nowMs) nowMs))"

definition restoreAccessExecute ::
  "(string \<Rightarrow> string) \<Rightarrow> uuids \<Rightarrow> AdminSecurityActor \<Rightarrow> string \<Rightarrow> AdminSecurityStateRecord \<Rightarrow> RevokedAccess \<Rightarrow> int \<Rightarrow> storage \<Rightarrow> storage \<times> (string \<times> js) list" where
  "restoreAccessExecute H uid actor targetActorId targetState previous nowMs s =
     (let st = targetState\<lparr>ss_revokedAccess := None, ss_pendingWarning := None, ss_issueAttemptTimestamps := []\<rparr>;
          s1 = putAdminSecurityState s targetActorId st;
          (s2, resolved) = resolveIf s1 (rk_reportId previous) (sa_actorId actor) nowMs;
          s3 = fst (appendAdminSecurityLog H (uid ''log_execute'') s2 ''audit'' ''access_restored'' actor (Some targetActorId)
                 (Some (JObj [(''reason'', JStr (rk_reason previous)), (''reportId'', jstr_null (rk_reportId previous))])) nowMs)
      in (s3, [(''targetActorId'', JStr targetActorId), (''restoredAt'', JStr (js_toISOString nowMs)), (''restoredBy'', actorToJs actor),
           (''previousRevocation'', JObj [(''revokedAt'', JStr (isoOf (rk_revokedAt previous))), (''reason'', JStr (rk_reason previous)),
              (''reportId'', jstr_null (rk_reportId previous))]), (''resolvedReport'', resolved)]))"

definition handleRestoreAccess :: "(string \<Rightarrow> string) \<Rightarrow> Env \<Rightarrow> uuids \<Rightarrow> storage \<Rightarrow> int \<Rightarrow> Request \<Rightarrow> (storage \<times> Response) or_error" where
  "handleRestoreAccess H env uid s nowMs rq = govHandler env s nowMs rq (\<lambda>s actor body.
     let targetActorId = (case normalizeStringField (jget body ''targetActorId'') of Some t \<Rightarrow> t | None \<Rightarrow> []);
         targetState = getAdminSecurityState s targetActorId
     in if targetActorId = [] then Inr (s, invalidResponse ''targetActorId is required'' 400)
        else case ss_revokedAccess targetState of
          None \<Rightarrow> Inr (s, notFoundResponse)
        | Some r \<Rightarrow>
            Inr (processAdminSecurityGovernanceAction H uid s actor ''restore_admin_access'' targetActorId
                   (parseGovernanceReason (JStr (rk_reason r)) ''operator_restore_access'') (jget body ''proposalId'') []
                   (restoreAccessExecute H uid actor targetActorId targetState r nowMs) nowMs))"

definition revokeOperatorExecute ::
  "(string \<Rightarrow> string) \<Rightarrow> uuids \<Rightarrow> AdminSecurityActor \<Rightarrow> string \<Rightarrow> string \<Rightarrow> int \<Rightarrow> storage \<Rightarrow> storage \<times> (string \<times> js) list" where
  "revokeOperatorExecute H uid actor target reason nowMs s =
     (let revoked = \<lparr>rk_revokedAt = of_int nowMs, rk_reason = reason, rk_revokedByActorId = Some (sa_actorId actor), rk_reportId = None\<rparr>;
          s1 = sto_put s (adminSecurityRevokedOperatorKey target) (revokedToJs revoked);
          (s2, revokeLog) = appendAdminSecurityLog H (uid ''log_execute'') s1 ''audit'' ''operator_access_revoked'' actor (Some target)
                 (Some (JObj [(''reason'', JStr reason)])) nowMs;
          (s3, report) = createAdminSecurityReportObligation (uid ''report'') s2 ''operator_revoke'' target (sa_actorId actor) reason
                 (sfield revokeLog ''id'') nowMs;
          s4 = sto_put s3 (adminSecurityRevokedOperatorKey target) (revokedToJs (revoked\<lparr>rk_reportId := Some (ob_reportId report)\<rparr>))
      in (s4, [(''targetOperatorActorId'', JStr target), (''revokedAt'', JStr (js_toISOString nowMs)), (''reason'', JStr reason),
           (''reportId'', JStr (ob_reportId report)), (''revokedBy'', actorToJs actor)]))"

definition handleRevokeOperator :: "(string \<Rightarrow> string) \<Rightarrow> Env \<Rightarrow> uuids \<Rightarrow> storage \<Rightarrow> int \<Rightarrow> Request \<Rightarrow> (storage \<times> Response) or_error" where
  "handleRevokeOperator H env uid s nowMs rq = govHandler env s nowMs rq (\<lambda>s actor body.
     let target = (case normalizeStringField (jget body ''targetOperatorActorId'') of Some t \<Rightarrow> t | None \<Rightarrow> []);
         reason = parseGovernanceReason (jget body ''reason'') ''operator_community_revoked''
     in if target = [] then Inr (s, invalidResponse ''targetOperatorActorId is required'' 400)
        else if target = sa_actorId actor then Inr (s, invalidResponse ''self revocation is not allowed'' 400)
        else case getAdminSecurityRevokedOperator s target of
          Some r \<Rightarrow> Inr (s, json_response (JObj [(''success'', JBool True), (''alreadyRevoked'', JBool True), (''targetOperatorActorId'', JStr target),
                     (''revokedAt'', JStr (isoOf (rk_revokedAt r))), (''reason'', JStr (rk_reason r)), (''reportId'', jstr_null (rk_reportId r))]) 200)
        | None \<Rightarrow>
            (let (s1, community) = getActiveOperatorCommunityIds s actor nowMs;
                 required = filter (\<lambda>a. a \<noteq> target) community
             in if required = [] then Inr (s1, invalidResponse ''last active operator cannot be revoked'' 409)
                else Inr (processAdminSecurityGovernanceAction H uid s1 actor ''revoke_operator'' target reason (jget body ''proposalId'') required
                       (revokeOperatorExecute H uid actor target reason nowMs) nowMs)))"

definition restoreOperatorExecute ::
  "(string \<Rightarrow> string) \<Rightarrow> uuids \<Rightarrow> AdminSecurityActor \<Rightarrow> string \<Rightarrow> RevokedAccess \<Rightarrow> int \<Rightarrow> storage \<Rightarrow> storage \<times> (string \<times> js) list" where
  "restoreOperatorExecute H uid actor target previous nowMs s =
     (let s1 = sto_delete s (adminSecurityRevokedOperatorKey target);
          (s2, resolved) = resolveIf s1 (rk_reportId previous) (sa_actorId actor) nowMs;
          s3 = fst (appendAdminSecurityLog H (uid ''log_execute'') s2 ''audit'' ''operator_access_restored'' actor (Some target)
                 (Some (JObj [(''reason'', JStr (rk_reason previous)), (''reportId'', jstr_null (rk_reportId previous))])) nowMs)
      in (s3, [(''targetOperatorActorId'', JStr target), (''restoredAt'', JStr (js_toISOString nowMs)), (''restoredBy'', actorToJs actor),
           (''previousRevocation'', JObj [(''revokedAt'', JStr (isoOf (rk_revokedAt previous))), (''reason'', JStr (rk_reason previous)),
              (''reportId'', jstr_null (rk_reportId previous))]), (''resolvedReport'', resolved)]))"

definition handleRestoreOperator :: "(string \<Rightarrow> string) \<Rightarrow> Env \<Rightarrow> uuids \<Rightarrow> storage \<Rightarrow> int \<Rightarrow> Request \<Rightarrow> (storage \<times> Response) or_error" where
  "handleRestoreOperator H env uid s nowMs rq = govHandler env s nowMs rq (\<lambda>s actor body.
     let target = (case normalizeStringField (jget body ''targetOperatorActorId'') of Some t \<Rightarrow> t | None \<Rightarrow> [])
     in if target = [] then Inr (s, invalidResponse ''targetOperatorActorId is required'' 400)
        else case getAdminSecurityRevokedOperator s target of
          None \<Rightarrow> Inr (s, notFoundResponse)
        | Some r \<Rightarrow>
            Inr (processAdminSecurityGovernanceAction H uid s actor ''restore_operator'' target
                   (parseGovernanceReason (JStr (rk_reason r)) ''operator_community_restore'') (jget body ''proposalId'') []
                   (restoreOperatorExecute H uid actor target r nowMs) nowMs))"

definition freezeUserExecute ::
  "(string \<Rightarrow> string) \<Rightarrow> uuids \<Rightarrow> AdminSecurityActor \<Rightarrow> string \<Rightarrow> string \<Rightarrow> int \<Rightarrow> storage \<Rightarrow> storage \<times> (string \<times> js) list" where
  "freezeUserExecute H uid actor userId reason nowMs s =
     (let targetId = ''user:'' @ userId;
          mark = \<lparr>um_at = of_int nowMs, um_reason = reason, um_byActorId = Some (sa_actorId actor), um_reportId = None\<rparr>;
          st = (getAdminSecurityUserModeration s userId)\<lparr>mo_frozen := Some mark\<rparr>;
          s1 = putAdminSecurityUserModeration s userId st;
          (s2, freezeLog) = appendAdminSecurityLog H (uid ''log_execute'') s1 ''audit'' ''user_frozen'' actor (Some targetId)
                 (Some (JObj [(''reason'', JStr reason), (''userId'', JStr userId)])) nowMs;
          (s3, report) = createAdminSecurityReportObligation (uid ''report'') s2 ''user_freeze'' targetId (sa_actorId actor) reason
                 (sfield freezeLog ''id'') nowMs;
          s4 = putAdminSecurityUserModeration s3 userId (st\<lparr>mo_frozen := Some (mark\<lparr>um_reportId := Some (ob_reportId report)\<rparr>)\<rparr>)
      in (s4, [(''userId'', JStr userId), (''frozenAt'', JStr (js_toISOString nowMs)), (''reason'', JStr reason),
           (''reportId'', JStr (ob_reportId report)), (''frozenBy'', actorToJs actor)]))"

definition handleFreezeUser :: "(string \<Rightarrow> string) \<Rightarrow> Env \<Rightarrow> uuids \<Rightarrow> storage \<Rightarrow> int \<Rightarrow> Request \<Rightarrow> (storage \<times> Response) or_error" where
  "handleFreezeUser H env uid s nowMs rq = govHandler env s nowMs rq (\<lambda>s actor body.
     let userId = normalizeUserId (jget body ''userId'');
         current = getAdminSecurityUserModeration s userId;
         reason = parseGovernanceReason (jget body ''reason'') ''operator_community_frozen_user''
     in if userId = [] then Inr (s, invalidResponse ''userId is required'' 400)
        else if mo_deleted current \<noteq> None then Inr (s, invalidResponse ''deleted user cannot be frozen'' 409)
        else case mo_frozen current of
          Some f \<Rightarrow> Inr (s, json_response (JObj [(''success'', JBool True), (''alreadyFrozen'', JBool True), (''userId'', JStr userId),
                     (''frozenAt'', JStr (isoOf (um_at f))), (''reason'', JStr (um_reason f)), (''reportId'', jstr_null (um_reportId f))]) 200)
        | None \<Rightarrow>
            Inr (processAdminSecurityGovernanceAction H uid s actor ''freeze_user'' (''user:'' @ userId) reason (jget body ''proposalId'') []
                   (freezeUserExecute H uid actor userId reason nowMs) nowMs))"

definition unfreezeUserExecute ::
  "(string \<Rightarrow> string) \<Rightarrow> uuids \<Rightarrow> AdminSecurityActor \<Rightarrow> string \<Rightarrow> int \<Rightarrow> storage \<Rightarrow> storage \<times> (string \<times> js) list" where
  "unfreezeUserExecute H uid actor userId nowMs s =
     (let state = getAdminSecurityUserModeration s userId in
      case mo_frozen state of
        None \<Rightarrow> (s, [(''userId'', JStr userId), (''skipped'', JBool True)])
      | Some previous \<Rightarrow>
          (let s1 = putAdminSecurityUserModeration s userId (state\<lparr>mo_frozen := None\<rparr>);
               (s2, resolved) = resolveIf s1 (um_reportId previous) (sa_actorId actor) nowMs;
               s3 = fst (appendAdminSecurityLog H (uid ''log_execute'') s2 ''audit'' ''user_unfrozen'' actor (Some (''user:'' @ userId))
                      (Some (JObj [(''reason'', JStr (um_reason previous)), (''reportId'', jstr_null (um_reportId previous)),
                         (''userId'', JStr userId)])) nowMs)
           in (s3, [(''userId'', JStr userId), (''unfrozenAt'', JStr (js_toISOString nowMs)), (''unfrozenBy'', actorToJs actor),
                (''previousFreeze'', JObj [(''frozenAt'', JStr (isoOf (um_at previous))), (''reason'', JStr (um_reason previous)),
                   (''reportId'', jstr_null (um_reportId previous))]), (''resolvedReport'', resolved)])))"

definition handleUnfreezeUser :: "(string \<Rightarrow> string) \<Rightarrow> Env \<Rightarrow> uuids \<Rightarrow> storage \<Rightarrow> int \<Rightarrow> Request \<Rightarrow> (storage \<times> Response) or_error" where
  "handleUnfreezeUser H env uid s nowMs rq = govHandler env s nowMs rq (\<lambda>s actor body.
     let userId = normalizeUserId (jget body ''userId'');
         current = getAdminSecurityUserModeration s userId
     in if userId = [] then Inr (s, invalidResponse ''userId is required'' 400)
        else case mo_frozen current of
          None \<Rightarrow> Inr (s, notFoundResponse)
        | Some f \<Rightarrow>
            Inr (processAdminSecurityGovernanceAction H uid s actor ''unfreeze_user'' (''user:'' @ userId)
                   (parseGovernanceReason (JStr (um_reason f)) ''operator_community_unfreeze_user'') (jget body ''proposalId'') []
                   (unfreezeUserExecute H uid actor userId nowMs) nowMs))"

definition deleteUserExecute ::
  "(string \<Rightarrow> string) \<Rightarrow> uuids \<Rightarrow> AdminSecurityActor \<Rightarrow> string \<Rightarrow> string \<Rightarrow> int \<Rightarrow> storage \<Rightarrow> storage \<times> (string \<times> js) list" where
  "deleteUserExecute H uid actor userId reason nowMs s =
     (let targetId = ''user:'' @ userId;
          mark = \<lparr>um_at = of_int nowMs, um_reason = reason, um_byActorId = Some (sa_actorId actor), um_reportId = None\<rparr>;
          freeze = mark\<lparr>um_reason := ''deleted:'' @ reason\<rparr>;
          st = (getAdminSecurityUserModeration s userId)\<lparr>mo_deleted := Some mark, mo_frozen := Some freeze\<rparr>;
          s1 = putAdminSecurityUserModeration s userId st;
          (s2, deleteLog) = appendAdminSecurityLog H (uid ''log_execute'') s1 ''audit'' ''user_deleted'' actor (Some targetId)
                 (Some (JObj [(''reason'', JStr reason), (''userId'', JStr userId)])) nowMs;
          (s3, report) = createAdminSecurityReportObligation (uid ''report'') s2 ''user_delete'' targetId (sa_actorId actor) reason
                 (sfield deleteLog ''id'') nowMs;
          rid = Some (ob_reportId report);
          s4 = putAdminSecurityUserModeration s3 userId
                 (st\<lparr>mo_deleted := Some (mark\<lparr>um_reportId := rid\<rparr>), mo_frozen := Some (freeze\<lparr>um_reportId := rid\<rparr>)\<rparr>)
      in (s4, [(''userId'', JStr userId), (''deletedAt'', JStr (js_toISOString nowMs)), (''reason'', JStr reason),
           (''reportId'', JStr (ob_reportId report)), (''deletedBy'', actorToJs actor)]))"

definition handleDeleteUser :: "(string \<Rightarrow> string) \<Rightarrow> Env \<Rightarrow> uuids \<Rightarrow> storage \<Rightarrow> int \<Rightarrow> Request \<Rightarrow> (storage \<times> Response) or_error" where
  "handleDeleteUser H env uid s nowMs rq = govHandler env s nowMs rq (\<lambda>s actor body.
     let userId = normalizeUserId (jget body ''userId'');
         current = getAdminSecurityUserModeration s userId;
         reason = parseGovernanceReason (jget body ''reason'') ''operator_community_deleted_user''
     in if userId = [] then Inr (s, invalidResponse ''userId is required'' 400)
        else case mo_deleted current of
          Some d \<Rightarrow> Inr (s, json_response (JObj [(''success'', JBool True), (''alreadyDeleted'', JBool True), (''userId'', JStr userId),
                     (''deletedAt'', JStr (isoOf (um_at d))), (''reason'', JStr (um_reason d)), (''reportId'', jstr_null (um_reportId d))]) 200)
        | None \<Rightarrow>
            Inr (processAdminSecurityGovernanceAction H uid s actor ''delete_user'' (''user:'' @ userId) reason (jget body ''proposalId'') []
                   (deleteUserExecute H uid actor userId reason nowMs) nowMs))"

definition restoreUserExecute ::
  "(string \<Rightarrow> string) \<Rightarrow> uuids \<Rightarrow> AdminSecurityActor \<Rightarrow> string \<Rightarrow> int \<Rightarrow> storage \<Rightarrow> storage \<times> (string \<times> js) list" where
  "restoreUserExecute H uid actor userId nowMs s =
     (let state = getAdminSecurityUserModeration s userId in
      case mo_deleted state of
        None \<Rightarrow> (s, [(''userId'', JStr userId), (''skipped'', JBool True)])
      | Some previous \<Rightarrow>
          (let s1 = putAdminSecurityUserModeration s userId (state\<lparr>mo_deleted := None, mo_frozen := None\<rparr>);
               (s2, resolved) = resolveIf s1 (um_reportId previous) (sa_actorId actor) nowMs;
               s3 = fst (appendAdminSecurityLog H (uid ''log_execute'') s2 ''audit'' ''user_restored'' actor (Some (''user:'' @ userId))
                      (Some (JObj [(''reason'', JStr (um_reason previous)), (''reportId'', jstr_null (um_reportId previous)),
                         (''userId'', JStr userId)])) nowMs)
           in (s3, [(''userId'', JStr userId), (''restoredAt'', JStr (js_toISOString nowMs)), (''restoredBy'', actorToJs actor),
                (''previousDeletion'', JObj [(''deletedAt'', JStr (isoOf (um_at previous))), (''reason'', JStr (um_reason previous)),
                   (''reportId'', jstr_null (um_reportId previous)),
                   (''frozenAt'', case mo_frozen state of Some f \<Rightarrow> JStr (isoOf (um_at f)) | None \<Rightarrow> JNull)]),
                (''resolvedReport'', resolved)])))"

definition handleRestoreUser :: "(string \<Rightarrow> string) \<Rightarrow> Env \<Rightarrow> uuids \<Rightarrow> storage \<Rightarrow> int \<Rightarrow> Request \<Rightarrow> (storage \<times> Response) or_error" where
  "handleRestoreUser H env uid s nowMs rq = govHandler env s nowMs rq (\<lambda>s actor body.
     let userId = normalizeUserId (jget body ''userId'');
         current = getAdminSecurityUserModeration s userId
     in if userId = [] then Inr (s, invalidResponse ''userId is required'' 400)
        else case mo_deleted current of
          None \<Rightarrow> Inr (s, notFoundResponse)
        | Some d \<Rightarrow>
            Inr (processAdminSecurityGovernanceAction H uid s actor ''restore_user'' (''user:'' @ userId)
                   (parseGovernanceReason (JStr (um_reason d)) ''operator_community_restore_user'') (jget body ''proposalId'') []
                   (restoreUserExecute H uid actor userId nowMs) nowMs))"

end
