(* ===== verification/Governance_Spec.thy ===== *)
theory Governance_Spec
  imports Admin_Governance Invite_Spec
begin

text \<open>
  What governance promises: a decision is executed only when every required operator has asked for it. The
  proof follows the proposals through runs in which the nine decisions and everything else may change the
  rest of the storage.
\<close>

section \<open>The governance part of the storage\<close>

abbreviation govRows :: "storage \<Rightarrow> (string \<times> js) list" where
  "govRows s \<equiv> sto_list s ADMIN_SECURITY_GOVERNANCE_PREFIX"

lemma gov_prefixes:
  "\<not> prefix ADMIN_SECURITY_GOVERNANCE_PREFIX (adminSecurityLogKey ts i)"
  "\<not> prefix ADMIN_SECURITY_GOVERNANCE_PREFIX ADMIN_SECURITY_LOG_LAST_HASH_KEY"
  "\<not> prefix ADMIN_SECURITY_GOVERNANCE_PREFIX (adminSecurityOperatorKey a)"
  "\<not> prefix ADMIN_SECURITY_GOVERNANCE_PREFIX (adminSecurityStateKey a)"
  "\<not> prefix ADMIN_SECURITY_GOVERNANCE_PREFIX (adminSecurityReportKey a)"
  "\<not> prefix ADMIN_SECURITY_GOVERNANCE_PREFIX (adminSecurityRevokedOperatorKey a)"
  "\<not> prefix ADMIN_SECURITY_GOVERNANCE_PREFIX (adminSecurityUserModerationKey a)"
  "prefix ADMIN_SECURITY_GOVERNANCE_PREFIX (adminSecurityGovernanceKey a)"
  by (simp_all add: key_defs prefix_defs)

lemma gov_rows_delete: "\<not> prefix ADMIN_SECURITY_GOVERNANCE_PREFIX k \<Longrightarrow> govRows (sto_delete s k) = govRows s"
  by (auto simp: sto_list_def sto_delete_def intro: filter_cong)

lemma gov_rows_log [simp]: "govRows (fst (appendAdminSecurityLog H u s c a actor t d n)) = govRows s"
  by (simp add: appendAdminSecurityLog_def Let_def sto_list_put_other gov_prefixes)

lemma gov_rows_state [simp]: "govRows (putAdminSecurityState s a st) = govRows s"
  by (simp add: putAdminSecurityState_def sto_list_put_other gov_prefixes)

lemma gov_rows_user [simp]: "govRows (putAdminSecurityUserModeration s a st) = govRows s"
  by (simp add: putAdminSecurityUserModeration_def sto_list_put_other gov_prefixes)

lemma gov_rows_report [simp]: "govRows (fst (createAdminSecurityReportObligation u s t a b r l n)) = govRows s"
  by (simp add: createAdminSecurityReportObligation_def Let_def sto_list_put_other gov_prefixes)

lemma gov_rows_resolve [simp]: "govRows (fst (resolveIf s r a n)) = govRows s"
  by (auto simp: resolveIf_def resolveAdminSecurityReportObligation_def Let_def sto_list_put_other gov_prefixes split: option.split)

lemma gov_rows_register [simp]: "govRows (registerAdminSecurityOperator s a n) = govRows s"
  by (simp add: registerAdminSecurityOperator_def Let_def sto_list_put_other gov_prefixes)

lemma gov_rows_community [simp]: "govRows (fst (getActiveOperatorCommunityIds s a n)) = govRows s"
  by (simp add: getActiveOperatorCommunityIds_def Let_def)

text \<open>None of the nine decisions touches the proposals.\<close>

lemma execute_frames:
  "govRows (fst (unlockExecute H uid actor t st fz n s)) = govRows s"
  "govRows (fst (revokeAccessExecute H uid actor t st r n s)) = govRows s"
  "govRows (fst (restoreAccessExecute H uid actor t st rk n s)) = govRows s"
  "govRows (fst (revokeOperatorExecute H uid actor t r n s)) = govRows s"
  "govRows (fst (restoreOperatorExecute H uid actor t rk n s)) = govRows s"
  "govRows (fst (freezeUserExecute H uid actor u r n s)) = govRows s"
  "govRows (fst (unfreezeUserExecute H uid actor u n s)) = govRows s"
  "govRows (fst (deleteUserExecute H uid actor u r n s)) = govRows s"
  "govRows (fst (restoreUserExecute H uid actor u n s)) = govRows s"
  by (auto simp: unlockExecute_def revokeAccessExecute_def restoreAccessExecute_def revokeOperatorExecute_def restoreOperatorExecute_def
      freezeUserExecute_def unfreezeUserExecute_def deleteUserExecute_def restoreUserExecute_def Let_def case_prod_unfold
      sto_list_put_other gov_rows_delete gov_prefixes split: option.split)

section \<open>Stored proposals\<close>

lemma kv_set_values: "snd ` set (kv_set k v m) \<subseteq> insert v (snd ` set m)"
  by (induction k v m rule: kv_set.induct) auto

lemma addApproval_values: "snd ` set (addApproval f g (parse x) m) \<subseteq> {a. parse x = Some a} \<union> snd ` set m"
proof (cases "parse x")
  case (Some a)
  then show ?thesis using kv_set_values [of "f a" a m] by (auto simp: addApproval_def split: option.splits)
qed (simp add: addApproval_def)

lemma approvals_of_items:
  "snd ` set (fold (\<lambda>x. addApproval f g (parse x)) xs m) \<subseteq> {a. \<exists>x \<in> set xs. parse x = Some a} \<union> snd ` set m"
proof (induction xs arbitrary: m)
  case (Cons x xs)
  have "snd ` set (fold (\<lambda>x. addApproval f g (parse x)) xs (addApproval f g (parse x) m))
          \<subseteq> {a. \<exists>x \<in> set xs. parse x = Some a} \<union> snd ` set (addApproval f g (parse x) m)" by (rule Cons.IH)
  then show ?case using addApproval_values [of f g parse x m] by auto
qed simp

lemma strField_trimmed [simp]: "js_trim (strField v k) = strField v k"
  by (auto simp: strField_def split: js.split)

lemma parsed_approvals:
  assumes "parseAdminSecurityGovernanceProposal v = Some p"
  shows "set (gp_approvals p) \<subseteq> {a. \<exists>x \<in> set (js_array (jget v ''approvals'')). parseAdminSecurityGovernanceApproval x = Some a}"
proof -
  have "gp_approvals p = sort_key ga_approvedAt (map snd (fold (\<lambda>x. addApproval ga_actorId ga_approvedAt
      (parseAdminSecurityGovernanceApproval x)) (js_array (jget v ''approvals'')) []))"
    using assms by (auto simp: parseAdminSecurityGovernanceProposal_def Let_def split: if_splits)
  then show ?thesis
    using approvals_of_items [of ga_actorId ga_approvedAt parseAdminSecurityGovernanceApproval "js_array (jget v ''approvals'')" "[]"]
    by simp
qed

text \<open>Parsing keeps the type and the target, and finds no approvals that were not written.\<close>

lemma parsed_proposal:
  assumes "parseAdminSecurityGovernanceProposal (govProposalToJs p) = Some q"
  shows "gp_actionType q = js_trim (gp_actionType p)" "gp_targetId q = js_trim (gp_targetId p)"
    "approvedIds q \<subseteq> js_trim ` approvedIds p"
proof -
  show "gp_actionType q = js_trim (gp_actionType p)" "gp_targetId q = js_trim (gp_targetId p)"
    using assms by (auto simp: parseAdminSecurityGovernanceProposal_def govProposalToJs_def strField_JObj Let_def split: if_splits)
  have "js_array (jget (govProposalToJs p) ''approvals'') = map govApprovalToJs (gp_approvals p)"
    by (simp add: govProposalToJs_def js_array_def)
  then have "set (gp_approvals q) \<subseteq> {a. \<exists>x \<in> set (map govApprovalToJs (gp_approvals p)). parseAdminSecurityGovernanceApproval x = Some a}"
    using parsed_approvals [OF assms] by simp
  then show "approvedIds q \<subseteq> js_trim ` approvedIds p"
    by (force simp: approvedIds_def parseAdminSecurityGovernanceApproval_def govApprovalToJs_def strField_JObj split: if_splits)
qed

text \<open>Parsed fields have no surrounding white space.\<close>

lemma parsed_trimmed:
  assumes "parseAdminSecurityGovernanceProposal v = Some p"
  shows "js_trim (gp_actionType p) = gp_actionType p" "js_trim (gp_targetId p) = gp_targetId p"
    "\<forall>a \<in> approvedIds p. js_trim a = a"
proof -
  show "js_trim (gp_actionType p) = gp_actionType p" "js_trim (gp_targetId p) = gp_targetId p"
    using assms by (auto simp: parseAdminSecurityGovernanceProposal_def Let_def split: if_splits)
  show "\<forall>a \<in> approvedIds p. js_trim a = a"
    using parsed_approvals [OF assms]
    by (auto simp: approvedIds_def parseAdminSecurityGovernanceApproval_def split: if_splits)
qed

section \<open>Runs\<close>

type_synonym gov_trace = "(string \<times> string \<times> string) list"

text \<open>
  A run of the worker: decisions asked for by operators, with any callback that leaves the proposals
  alone, between any other changes elsewhere. The trace records who asked for what, newest first.
\<close>

inductive gov_reach :: "storage \<Rightarrow> gov_trace \<Rightarrow> bool" where
  start: "govRows s = [] \<Longrightarrow> gov_reach s []"
| ask: "gov_reach s trace \<Longrightarrow> js_trim (sa_actorId actor) = sa_actorId actor \<Longrightarrow> js_trim actionType = actionType \<Longrightarrow>
     js_trim targetId = targetId \<Longrightarrow> (\<forall>t. govRows (fst (execute t)) = govRows t) \<Longrightarrow>
     processAdminSecurityGovernanceAction H uid s actor actionType targetId reason proposalIdInput required execute nowMs = (s', resp) \<Longrightarrow>
     gov_reach s' ((sa_actorId actor, actionType, targetId) # trace)"
| other: "gov_reach s trace \<Longrightarrow> govRows s' = govRows s \<Longrightarrow> gov_reach s' trace"

definition backed :: "gov_trace \<Rightarrow> AdminSecurityGovernanceProposalRecord \<Rightarrow> bool" where
  "backed trace p = (\<forall>a \<in> approvedIds p. (a, gp_actionType p, gp_targetId p) \<in> set trace)"

definition gov_inv :: "storage \<Rightarrow> gov_trace \<Rightarrow> bool" where
  "gov_inv s trace = (\<forall>v \<in> snd ` set (govRows s). \<forall>p. parseAdminSecurityGovernanceProposal v = Some p \<longrightarrow> backed trace p)"

lemma backed_mono: "backed trace p \<Longrightarrow> backed (x # trace) p"
  by (auto simp: backed_def)

lemma gov_inv_mono: "gov_inv s trace \<Longrightarrow> gov_inv s (x # trace)"
  unfolding gov_inv_def using backed_mono by blast

lemma gov_inv_rows: "govRows s' = govRows s \<Longrightarrow> gov_inv s' trace = gov_inv s trace"
  by (simp add: gov_inv_def)

lemma rows_put: "set (govRows (sto_put s k v)) \<subseteq> insert (k, v) (set (govRows s))"
  by (auto simp: sto_list_def dest: sto_put_keys)

definition proposal_trimmed :: "AdminSecurityGovernanceProposalRecord \<Rightarrow> bool" where
  "proposal_trimmed p = (js_trim (gp_actionType p) = gp_actionType p \<and> js_trim (gp_targetId p) = gp_targetId p
     \<and> (\<forall>a \<in> approvedIds p. js_trim a = a))"

lemma gov_inv_put:
  assumes "gov_inv s trace" "backed trace p" "proposal_trimmed p"
  shows "gov_inv (putGovProposal s p) trace"
proof -
  have "backed trace q" if "parseAdminSecurityGovernanceProposal (govProposalToJs p) = Some q" for q
  proof -
    have "js_trim ` approvedIds p = approvedIds p" using assms(3) by (simp add: proposal_trimmed_def)
    then show ?thesis using parsed_proposal [OF that] assms(2,3) unfolding backed_def proposal_trimmed_def by auto
  qed
  then show ?thesis
    using assms(1) rows_put [of s "adminSecurityGovernanceKey (gp_proposalId p)" "govProposalToJs p"]
    unfolding gov_inv_def putGovProposal_def by fastforce
qed

lemma set_newestFirst [simp]: "set (newestFirst f xs) = set xs"
  by (simp add: newestFirst_def)

lemma find_set: "List.find P xs = Some x \<Longrightarrow> x \<in> set xs \<and> P x"
  by (metis find_Some_iff nth_mem)

lemma set_map_filter: "set (List.map_filter f xs) = {y. \<exists>x \<in> set xs. f x = Some y}"
  by (induction xs) (auto simp: List.map_filter_simps split: option.splits)

lemma listed_proposals:
  "set (listAdminSecurityGovernanceProposals s) = {p. \<exists>v \<in> snd ` set (govRows s). parseAdminSecurityGovernanceProposal v = Some p}"
  by (simp add: listAdminSecurityGovernanceProposals_def set_map_filter)

lemma findProposal_stored:
  assumes "findProposal s actionType targetId required = Some p"
  shows "gp_actionType p = actionType \<and> gp_targetId p = targetId \<and> gp_status p = GovPending
       \<and> (\<exists>v \<in> snd ` set (govRows s). parseAdminSecurityGovernanceProposal v = Some p)"
proof -
  let ?c = "filter (\<lambda>c. gp_status c = GovPending \<and> gp_actionType c = actionType \<and> gp_targetId c = targetId)
              (listAdminSecurityGovernanceProposals s)"
  have "p \<in> set xs" if "(if required \<noteq> [] then List.find (\<lambda>c. gp_requiredApproverIds c = required) xs
      else (case xs of [] \<Rightarrow> None | c # _ \<Rightarrow> Some c)) = Some p" for xs
    using that by (cases xs) (auto split: if_splits dest: find_set)
  then have "p \<in> set ?c" using assms unfolding findProposal_def Let_def by blast
  then show ?thesis by (simp add: listed_proposals)
qed

lemma getProposal_stored:
  assumes "getAdminSecurityGovernanceProposal s i = Some p"
  shows "\<exists>v \<in> snd ` set (govRows s). parseAdminSecurityGovernanceProposal v = Some p"
proof -
  let ?k = "adminSecurityGovernanceKey i"
  have p: "parseAdminSecurityGovernanceProposal (sto_get s ?k) = Some p" using assms by (simp add: getAdminSecurityGovernanceProposal_def)
  then have "sto_get s ?k \<noteq> JUndef" by (auto simp: parseAdminSecurityGovernanceProposal_def)
  then have "(?k, sto_get s ?k) \<in> set s" by (auto simp: sto_get_def split: option.splits dest: map_of_SomeD)
  then have "(?k, sto_get s ?k) \<in> set (govRows s)" by (simp add: sto_list_def gov_prefixes)
  then show ?thesis using p by force
qed

text \<open>The selected proposal is about this decision, is backed by the trace, and selecting keeps the invariant.\<close>

lemma selectProposal_inv:
  assumes "gov_inv s trace" "js_trim actionType = actionType" "js_trim targetId = targetId"
    and "selectProposal H uid s actor actionType targetId reason pid required nowMs = (s1, r)"
  shows "gov_inv s1 trace \<and> (\<forall>p. r = Inr p \<longrightarrow> gp_actionType p = actionType \<and> gp_targetId p = targetId \<and> backed trace p
           \<and> proposal_trimmed p \<and> gp_status p = GovPending)"
proof -
  have stored: "backed trace p \<and> proposal_trimmed p" if "\<exists>v \<in> snd ` set (govRows s). parseAdminSecurityGovernanceProposal v = Some p" for p
    using that assms(1) parsed_trimmed by (auto simp: gov_inv_def proposal_trimmed_def)
  have "gov_inv s2 trace \<and> gp_actionType p = actionType \<and> gp_targetId p = targetId \<and> backed trace p \<and> proposal_trimmed p \<and> gp_status p = GovPending"
    if c: "createProposal H uid s actor actionType targetId reason req nowMs = (s2, p)" for req s2 p
  proof -
    have p: "gp_approvals p = []" "gp_actionType p = actionType" "gp_targetId p = targetId" "gp_status p = GovPending"
      using c by (auto simp: createProposal_def Let_def case_prod_unfold)
    define s3 where "s3 = (if req \<noteq> [] then s else fst (getActiveOperatorCommunityIds s actor nowMs))"
    have s3: "govRows s3 = govRows s" by (simp add: s3_def)
    have rows: "govRows s2 = govRows (putGovProposal s3 p)"
      using c by (cases "req = []") (auto simp: createProposal_def s3_def Let_def case_prod_unfold)
    have b: "backed trace p" "proposal_trimmed p"
      using p assms(2,3) by (simp_all add: backed_def proposal_trimmed_def approvedIds_def)
    have "gov_inv (putGovProposal s3 p) trace"
      using assms(1) b by (intro gov_inv_put) (simp_all add: gov_inv_rows [OF s3])
    then show ?thesis using p b by (simp add: gov_inv_rows [OF rows])
  qed
  note new = this
  show ?thesis
  proof (cases "trimmed_str pid")
    case (Some ident)
    then show ?thesis
      using assms(1,4) getProposal_stored [THEN stored]
      by (auto simp: selectProposal_def Let_def split: option.splits if_splits intro: GovernanceStatus.exhaust)
  next
    case None
    define req where "req = sort (remdups (filter (\<lambda>i. i \<noteq> []) (map js_trim required)))"
    show ?thesis
    proof (cases "findProposal s actionType targetId req")
      case Nf: None
      then show ?thesis
        using assms(4) None new [of req] by (auto simp: selectProposal_def req_def [symmetric] Let_def split: prod.splits)
    next
      case (Some p)
      then show ?thesis
        using assms(1,4) None findProposal_stored [OF Some] stored by (auto simp: selectProposal_def req_def [symmetric] Let_def)
    qed
  qed
qed

lemma approveGov_inv:
  assumes "gov_inv s trace" "backed trace p" "proposal_trimmed p" "js_trim (sa_actorId actor) = sa_actorId actor"
    and "approveGov H uid s actor targetId p nowMs = (s2, p2)"
  shows "gov_inv s2 ((sa_actorId actor, gp_actionType p, gp_targetId p) # trace) \<and> backed ((sa_actorId actor, gp_actionType p, gp_targetId p) # trace) p2
       \<and> proposal_trimmed p2 \<and> gp_actionType p2 = gp_actionType p \<and> gp_targetId p2 = gp_targetId p \<and> gp_status p2 = gp_status p
       \<and> gp_requiredApproverIds p2 = gp_requiredApproverIds p \<and> sa_actorId actor \<in> approvedIds p2"
proof (cases "sa_actorId actor \<in> approvedIds p")
  case True
  then show ?thesis using assms by (auto simp: approveGov_def intro: gov_inv_mono backed_mono)
next
  case False
  let ?t = "(sa_actorId actor, gp_actionType p, gp_targetId p) # trace"
  have p2: "p2 = p\<lparr>gp_approvals := sort_key ga_approvedAt
              (gp_approvals p @ [\<lparr>ga_actorId = sa_actorId actor, ga_approvedAt = js_toISOString nowMs\<rparr>])\<rparr>"
    and rows: "govRows s2 = govRows (putGovProposal s p2)"
    using assms(5) False by (auto simp: approveGov_def Let_def)
  have ids: "approvedIds p2 = insert (sa_actorId actor) (approvedIds p)" by (simp add: p2 approvedIds_def)
  have "backed ?t p2" "proposal_trimmed p2"
    using assms(2-4) ids by (auto simp: backed_def proposal_trimmed_def p2)
  moreover from this have "gov_inv (putGovProposal s p2) ?t" using assms(1) by (intro gov_inv_put gov_inv_mono)
  ultimately show ?thesis using ids by (simp add: gov_inv_rows [OF rows]) (simp add: p2)
qed

text \<open>The consent phase, on every outcome.\<close>

lemma consentPhase_inv:
  assumes "gov_inv s trace" "js_trim actionType = actionType" "js_trim targetId = targetId" "js_trim (sa_actorId actor) = sa_actorId actor"
    and "consentPhase H uid s actor actionType targetId reason pid required nowMs = (s1, r)"
  shows "gov_inv s1 ((sa_actorId actor, actionType, targetId) # trace)"
    and "r = Inr p \<Longrightarrow> gp_actionType p = actionType \<and> gp_targetId p = targetId \<and> backed ((sa_actorId actor, actionType, targetId) # trace) p
           \<and> proposal_trimmed p \<and> gp_status p = GovPending \<and> set (gp_requiredApproverIds p) \<subseteq> approvedIds p \<and> sa_actorId actor \<in> set (gp_requiredApproverIds p)"
proof -
  let ?t = "(sa_actorId actor, actionType, targetId) # trace"
  obtain s0 r0 where sel: "selectProposal H uid s actor actionType targetId reason pid required nowMs = (s0, r0)" by fastforce
  note si = selectProposal_inv [OF assms(1-3) sel]
  have "gov_inv s1 ?t \<and> (r = Inr p \<longrightarrow> gp_actionType p = actionType \<and> gp_targetId p = targetId \<and> backed ?t p
           \<and> proposal_trimmed p \<and> gp_status p = GovPending \<and> set (gp_requiredApproverIds p) \<subseteq> approvedIds p \<and> sa_actorId actor \<in> set (gp_requiredApproverIds p))" for p
  proof (cases r0)
    case (Inl e)
    then show ?thesis using assms(5) sel si gov_inv_mono by (auto simp: consentPhase_def)
  next
    case (Inr p0)
    obtain s2 p2 where ap: "approveGov H uid s0 actor targetId p0 nowMs = (s2, p2)" by fastforce
    have p0: "gp_actionType p0 = actionType" "gp_targetId p0 = targetId" "backed trace p0" "proposal_trimmed p0" "gp_status p0 = GovPending"
      using si Inr by auto
    have ai: "gov_inv s2 ?t" "backed ?t p2" "proposal_trimmed p2" "gp_actionType p2 = actionType" "gp_targetId p2 = targetId"
      "gp_status p2 = GovPending" "gp_requiredApproverIds p2 = gp_requiredApproverIds p0"
      using approveGov_inv [OF _ p0(3,4) assms(4) ap] si p0 by auto
    have "s1 = s0 \<and> isl r \<or> s1 = s2 \<and> (r = Inr p2 \<longrightarrow> set (gp_requiredApproverIds p2) \<subseteq> approvedIds p2
             \<and> sa_actorId actor \<in> set (gp_requiredApproverIds p0)) \<and> (isl r \<or> r = Inr p2)"
      using assms(5) sel Inr ap by (auto simp: consentPhase_def Let_def split: if_splits)
    then show ?thesis using ai si gov_inv_mono by (auto simp: isl_def)
  qed
  then show "gov_inv s1 ?t" and "r = Inr p \<Longrightarrow> gp_actionType p = actionType \<and> gp_targetId p = targetId \<and> backed ?t p
           \<and> proposal_trimmed p \<and> gp_status p = GovPending \<and> set (gp_requiredApproverIds p) \<subseteq> approvedIds p \<and> sa_actorId actor \<in> set (gp_requiredApproverIds p)"
    by blast+
qed

lemma gov_reach_inv: "gov_reach s trace \<Longrightarrow> gov_inv s trace"
proof (induction rule: gov_reach.induct)
  case (ask s trace actor actionType targetId execute H uid reason pid required nowMs s' resp)
  let ?t = "(sa_actorId actor, actionType, targetId) # trace"
  obtain s1 r where c: "consentPhase H uid s actor actionType targetId reason pid required nowMs = (s1, r)" by fastforce
  note ci = consentPhase_inv [OF ask.IH ask.hyps(3,4,2) c]
  show ?case
  proof (cases r)
    case (Inl e)
    then show ?thesis using ask.hyps(6) c ci(1) by (auto simp: processAdminSecurityGovernanceAction_def split: prod.splits)
  next
    case (Inr p)
    let ?p = "p\<lparr>gp_status := GovExecuted, gp_executedAt := Some (js_toISOString nowMs), gp_executedByActorId := Some (sa_actorId actor)\<rparr>"
    obtain s2 res where e: "execute s1 = (s2, res)" by fastforce
    have rows: "govRows s2 = govRows s1" using ask.hyps(5) e by (metis fst_conv)
    have final: "govRows s' = govRows (putGovProposal s2 ?p)"
      using ask.hyps(6) c Inr e by (auto simp: processAdminSecurityGovernanceAction_def Let_def)
    have "backed ?t p" "proposal_trimmed p" using ci(2) [OF Inr] by simp_all
    then have "backed ?t ?p" "proposal_trimmed ?p" by (simp_all add: backed_def proposal_trimmed_def approvedIds_def)
    with ci(1) have "gov_inv (putGovProposal s2 ?p) ?t" by (intro gov_inv_put) (simp_all add: gov_inv_rows [OF rows])
    then show ?thesis by (simp only: gov_inv_rows [OF final])
  qed
qed (simp_all add: gov_inv_def)

text \<open>
  C18. Decisions need unanimity: in any run, when the callback of a decision is about to be executed, every
  operator the proposal requires has asked for exactly this action on exactly this target, the present
  request included, and the present operator is one of them.
\<close>

theorem governance_unanimous:
  assumes "gov_reach s trace" "js_trim actionType = actionType" "js_trim targetId = targetId" "js_trim (sa_actorId actor) = sa_actorId actor"
    and "consentPhase H uid s actor actionType targetId reason proposalIdInput required nowMs = (s1, Inr p)"
  shows "sa_actorId actor \<in> set (gp_requiredApproverIds p)
       \<and> (\<forall>a \<in> set (gp_requiredApproverIds p). (a, actionType, targetId) \<in> set ((sa_actorId actor, actionType, targetId) # trace))"
  using consentPhase_inv(2) [OF gov_reach_inv [OF assms(1)] assms(2-5) refl] by (auto simp: backed_def)

lemma trimmed_examples: "js_trim ''freeze_user'' = ''freeze_user''" "js_trim ''user:u'' = ''user:u''" "js_trim ''a'' = ''a''"
  by code_simp+

text \<open>The first request with a single required operator already has everyone's consent.\<close>

lemma sole_operator_consents:
  assumes "js_trim (sa_actorId actor) = sa_actorId actor" "sa_actorId actor \<noteq> []"
  obtains s1 p where "consentPhase H uid [] actor actionType targetId reason JUndef [sa_actorId actor] nowMs = (s1, Inr p)"
    "gp_requiredApproverIds p = [sa_actorId actor]"
proof -
  have "findProposal [] actionType targetId [sa_actorId actor] = None"
    by (simp add: findProposal_def listAdminSecurityGovernanceProposals_def sto_list_def newestFirst_def List.map_filter_simps Let_def)
  then have "\<exists>s1 p. consentPhase H uid [] actor actionType targetId reason JUndef [sa_actorId actor] nowMs = (s1, Inr p)
      \<and> gp_requiredApproverIds p = [sa_actorId actor]"
    using assms by (simp add: consentPhase_def selectProposal_def createProposal_def approveGov_def approvedIds_def Let_def case_prod_unfold)
  then show thesis using that by blast
qed

theorem governance_unanimous_witness:
  "\<exists>s1 p. consentPhase (\<lambda>x. x) (\<lambda>k. k) [] \<lparr>sa_actorId = ''a'', sa_role = SecAdmin, sa_adminId = None, sa_name = None\<rparr>
       ''freeze_user'' ''user:u'' ''r'' JUndef [''a''] 1000 = (s1, Inr p)
     \<and> gp_requiredApproverIds p = [''a''] \<and> ''a'' \<in> set (gp_requiredApproverIds p)
     \<and> (\<forall>b \<in> set (gp_requiredApproverIds p). (b, ''freeze_user'', ''user:u'') \<in> set [(''a'', ''freeze_user'', ''user:u'')])"
proof -
  let ?a = "\<lparr>sa_actorId = ''a'', sa_role = SecAdmin, sa_adminId = None, sa_name = None\<rparr>"
  have t: "js_trim (sa_actorId ?a) = sa_actorId ?a" "sa_actorId ?a \<noteq> []" by (simp_all add: trimmed_examples)
  obtain s1 p where c: "consentPhase (\<lambda>x. x) (\<lambda>k. k) [] ?a ''freeze_user'' ''user:u'' ''r'' JUndef [sa_actorId ?a] 1000 = (s1, Inr p)"
    "gp_requiredApproverIds p = [sa_actorId ?a]" by (rule sole_operator_consents [OF t])
  have "gov_reach [] []" by (rule gov_reach.start) (simp add: sto_list_def)
  from governance_unanimous [OF this trimmed_examples(1,2) t(1) c(1)] c show ?thesis by simp
qed

end
