(* ===== verification/Moderation_Spec.thy ===== *)
theory Moderation_Spec
  imports Governance_Spec Registry_Spec Record_Slot
begin

text \<open>
  What freezing, deleting and restoring a user do: the marks are read back as they were written, the guard of
  the user's requests answers accordingly, and which report obligations get resolved.
\<close>

section \<open>Marks are read back\<close>

definition mark_wf :: "UserMark \<Rightarrow> bool" where
  "mark_wf m = (um_at m > 0 \<and> full (um_reason m) \<and> pred_option full (um_byActorId m) \<and> pred_option full (um_reportId m))"

lemma opt_back: "map_of kvs k = Some (jstr_opt v) \<Longrightarrow> pred_option full v \<Longrightarrow> or_null (strField (JObj kvs) k) = v"
  by (cases v) (simp_all add: strField_JObj or_null_def full_def jstr_opt_def)

lemma str_back: "map_of kvs k = Some (JStr x) \<Longrightarrow> full x \<Longrightarrow> or_null (strField (JObj kvs) k) = Some x"
  by (simp add: strField_JObj or_null_def full_def)

lemma mark_back:
  assumes "mark_wf m" "f = ''frozenAt'' \<or> f = ''deletedAt''"
  shows "parseUserMark f (markToJs f m) = Some m"
proof -
  have "positiveNumber (JNum (um_at m)) = Some (um_at m)" using assms(1) by (simp add: mark_wf_def positiveNumber_def)
  moreover have "jget (markToJs f m) f = JNum (um_at m)" by (simp add: markToJs_def)
  moreover have "or_null (strField (markToJs f m) ''reason'') = Some (um_reason m)"
    using assms by (auto simp: markToJs_def mark_wf_def intro!: str_back)
  moreover have "or_null (strField (markToJs f m) ''byActorId'') = um_byActorId m"
    using assms by (auto simp: markToJs_def mark_wf_def intro!: opt_back)
  moreover have "or_null (strField (markToJs f m) ''reportId'') = um_reportId m"
    using assms by (auto simp: markToJs_def mark_wf_def intro!: opt_back)
  moreover have "is_obj (markToJs f m)" by (simp add: markToJs_def)
  ultimately show ?thesis by (simp add: parseUserMark_def)
qed

lemma parsed_mark: "parseUserMark f v = Some m \<Longrightarrow> mark_wf m"
  by (auto simp: parseUserMark_def mark_wf_def full_def or_null_def positiveNumber_def split: if_splits option.splits)

definition mod_wf :: "AdminSecurityUserModerationRecord \<Rightarrow> bool" where
  "mod_wf r = (pred_option mark_wf (mo_frozen r) \<and> pred_option mark_wf (mo_deleted r))"

lemma loaded_mod_wf: "mod_wf (getAdminSecurityUserModeration s u)"
  by (auto simp: getAdminSecurityUserModeration_def parseAdminSecurityUserModeration_def mod_wf_def option.pred_set
      dest: parsed_mark split: option.split)

lemma mark_opt_back:
  assumes "pred_option mark_wf v" "f = ''frozenAt'' \<or> f = ''deletedAt''"
  shows "parseUserMark f (jopt (map_option (markToJs f) v)) = v"
proof (cases v)
  case None
  then show ?thesis by (simp add: parseUserMark_def)
qed (use assms mark_back in simp)

interpretation ms: record_slot adminSecurityUserModerationKey moderationToJs parseAdminSecurityUserModeration mod_wf
proof
  fix r assume "mod_wf r"
  then show "parseAdminSecurityUserModeration (moderationToJs r) = Some r"
    by (cases r) (simp add: parseAdminSecurityUserModeration_def moderationToJs_def mod_wf_def mark_opt_back)
qed (simp add: adminSecurityUserModerationKey_def)

lemma put_mod [simp]: "mod_wf r \<Longrightarrow> getAdminSecurityUserModeration (putAdminSecurityUserModeration s u r) u = r"
  by (simp add: getAdminSecurityUserModeration_def putAdminSecurityUserModeration_def ms.dec_enc)

section \<open>Frames\<close>

lemma moderation_keys:
  "adminSecurityUserModerationKey a \<noteq> adminSecurityLogKey ts i" "adminSecurityUserModerationKey a \<noteq> ADMIN_SECURITY_LOG_LAST_HASH_KEY"
  "adminSecurityUserModerationKey a \<noteq> adminSecurityReportKey r" "adminSecurityReportKey r \<noteq> adminSecurityLogKey ts i"
  "adminSecurityReportKey r \<noteq> ADMIN_SECURITY_LOG_LAST_HASH_KEY" "adminSecurityReportKey r \<noteq> adminSecurityUserModerationKey a"
  by (simp_all add: key_defs prefix_defs)

lemma same_mod: "sto_get s' (adminSecurityUserModerationKey u) = sto_get s (adminSecurityUserModerationKey u) \<Longrightarrow>
    getAdminSecurityUserModeration s' u = getAdminSecurityUserModeration s u"
  by (simp add: getAdminSecurityUserModeration_def)

lemma mod_log [simp]: "getAdminSecurityUserModeration (fst (appendAdminSecurityLog H k s c x actor t d n)) u = getAdminSecurityUserModeration s u"
  by (rule same_mod) (simp add: appendAdminSecurityLog_def Let_def moderation_keys)

lemma mod_resolve [simp]: "getAdminSecurityUserModeration (fst (resolveIf s r a n)) u = getAdminSecurityUserModeration s u"
  by (rule same_mod) (auto simp: resolveIf_def resolveAdminSecurityReportObligation_def Let_def moderation_keys split: option.split)

text \<open>Report obligations are read back too, and \<open>reportOf\<close> is the obligation stored under an id.\<close>

definition obligation_wf :: "AdminSecurityReportObligationRecord \<Rightarrow> bool" where
  "obligation_wf x = (full (ob_reportId x) \<and> ob_type x \<in> set (''freeze'' # reportTypes) \<and> full (ob_targetActorId x)
     \<and> full (ob_actionByActorId x) \<and> full (ob_reason x) \<and> full (ob_createdAt x) \<and> full (ob_logEntryId x)
     \<and> pred_option full (ob_resolvedAt x) \<and> pred_option full (ob_resolvedByActorId x))"

lemma type_trims: "list_all full (''freeze'' # reportTypes)" "js_trim ''required'' = ''required''" "js_trim ''resolved'' = ''resolved''"
  by code_simp+

lemma parsed_obligation:
  assumes "parseAdminSecurityReportObligation v = Some x"
  shows "obligation_wf x"
proof -
  let ?type = "strField v ''type''"
  have n: "\<not> list_ex (\<lambda>k. strField v k = [])
      [''reportId'', ''type'', ''status'', ''targetActorId'', ''actionByActorId'', ''reason'', ''createdAt'', ''logEntryId'']"
    using assms unfolding parseAdminSecurityReportObligation_def by (meson option.distinct(1))
  have x: "ob_reportId x = strField v ''reportId''" "ob_type x = (if ?type \<in> set reportTypes then ?type else ''freeze'')"
    "ob_targetActorId x = strField v ''targetActorId''" "ob_actionByActorId x = strField v ''actionByActorId''"
    "ob_reason x = strField v ''reason''" "ob_createdAt x = strField v ''createdAt''" "ob_logEntryId x = strField v ''logEntryId''"
    "ob_resolvedAt x = or_null (strField v ''resolvedAt'')" "ob_resolvedByActorId x = or_null (strField v ''resolvedByActorId'')"
    using assms n by (auto simp: parseAdminSecurityReportObligation_def split: if_splits)
  have "ob_type x \<in> insert ''freeze'' (set reportTypes)" by (simp add: x(2))
  then show ?thesis using n x by (simp add: obligation_wf_def full_def or_null_def)
qed

interpretation rs: record_slot adminSecurityReportKey obligationToJs parseAdminSecurityReportObligation obligation_wf
proof
  fix x assume w: "obligation_wf x"
  have ty: "full (ob_type x)" using w type_trims(1) by (auto simp: obligation_wf_def list_all_iff)
  have o: "or_null (strField (obligationToJs x) ''resolvedAt'') = ob_resolvedAt x"
    "or_null (strField (obligationToJs x) ''resolvedByActorId'') = ob_resolvedByActorId x"
    using w by (auto simp: obligationToJs_def obligation_wf_def intro!: opt_back)
  have f: "strField (obligationToJs x) ''reportId'' = ob_reportId x" "strField (obligationToJs x) ''type'' = ob_type x"
    "strField (obligationToJs x) ''targetActorId'' = ob_targetActorId x" "strField (obligationToJs x) ''actionByActorId'' = ob_actionByActorId x"
    "strField (obligationToJs x) ''reason'' = ob_reason x" "strField (obligationToJs x) ''createdAt'' = ob_createdAt x"
    "strField (obligationToJs x) ''logEntryId'' = ob_logEntryId x"
    using w ty by (simp_all add: obligationToJs_def strField_JObj obligation_wf_def full_def)
  have st: "strField (obligationToJs x) ''status'' = reportStatusStr (ob_status x)"
    by (cases "ob_status x") (simp_all add: obligationToJs_def strField_JObj type_trims)
  have n: "\<not> list_ex (\<lambda>k. strField (obligationToJs x) k = [])
      [''reportId'', ''type'', ''status'', ''targetActorId'', ''actionByActorId'', ''reason'', ''createdAt'', ''logEntryId'']"
    using w ty by (cases "ob_status x") (simp_all add: f st obligation_wf_def full_def)
  have t: "(if ob_type x \<in> set reportTypes then ob_type x else ''freeze'') = ob_type x" using w by (auto simp: obligation_wf_def)
  have r: "(if reportStatusStr (ob_status x) = ''resolved'' then ReportResolved else ReportRequired) = ob_status x" by (cases "ob_status x") simp_all
  have "is_obj (obligationToJs x)" by (simp add: obligationToJs_def)
  then show "parseAdminSecurityReportObligation (obligationToJs x) = Some x"
    unfolding parseAdminSecurityReportObligation_def o f st t r using n by simp
qed (simp add: adminSecurityReportKey_def)

definition reportOf :: "storage \<Rightarrow> string \<Rightarrow> AdminSecurityReportObligationRecord option" where
  "reportOf s r = parseAdminSecurityReportObligation (sto_get s (adminSecurityReportKey r))"

lemma report_log [simp]: "reportOf (fst (appendAdminSecurityLog H k s c x actor t d n)) r = reportOf s r"
  by (simp add: reportOf_def appendAdminSecurityLog_def Let_def moderation_keys)

lemma report_mod [simp]: "reportOf (putAdminSecurityUserModeration s u m) r = reportOf s r"
  by (simp add: reportOf_def putAdminSecurityUserModeration_def moderation_keys)

lemma trim_nonempty: "\<not> is_ws c \<Longrightarrow> js_trim (c # x) \<noteq> []"
  by (auto simp: js_trim_def dest: dropWhile_eq_Nil_conv [THEN iffD1])

lemma full_prefixed: "\<not> is_ws c \<Longrightarrow> full x \<Longrightarrow> full (c # w @ x)"
  using trimmed_js_trim [of x] by (auto simp: full_def trimmed_def intro!: js_trim_trimmed_id)

lemma report_created:
  assumes "createAdminSecurityReportObligation k s ty t b reason l n = (s', ob)" "full t" "full b" "full reason" "full l"
    "full (shortId ''report-'' k 12)" "ty \<in> set reportTypes"
  shows "ob_reportId ob = shortId ''report-'' k 12" "reportOf s' q = (if q = ob_reportId ob then Some ob else reportOf s q)"
    "ob_type ob = ty" "ob_status ob = ReportRequired"
proof -
  have ob: "ob = \<lparr>ob_reportId = shortId ''report-'' k 12, ob_type = ty, ob_status = ReportRequired, ob_targetActorId = t,
      ob_actionByActorId = b, ob_reason = reason, ob_createdAt = js_toISOString n, ob_resolvedAt = None, ob_resolvedByActorId = None, ob_logEntryId = l\<rparr>"
    and s': "s' = sto_put s (adminSecurityReportKey (ob_reportId ob)) (obligationToJs ob)"
    using assms(1) by (auto simp: createAdminSecurityReportObligation_def Let_def)
  show "ob_reportId ob = shortId ''report-'' k 12" "ob_type ob = ty" "ob_status ob = ReportRequired" by (simp_all add: ob)
  have "obligation_wf ob" using assms(2-) by (simp add: ob obligation_wf_def) (simp add: full_def)
  then show "reportOf s' q = (if q = ob_reportId ob then Some ob else reportOf s q)" by (simp only: s' reportOf_def rs.slot_put eq_commute [of q])
qed

lemma report_resolved:
  assumes "reportOf s r = Some x" "full a"
  shows "\<exists>y. reportOf (fst (resolveIf s (Some r) a n)) r = Some y \<and> ob_status y = ReportResolved \<and> ob_type y = ob_type x
     \<and> ob_reportId y = ob_reportId x"
proof (cases "ob_status x = ReportResolved")
  case True
  then have "fst (resolveIf s (Some r) a n) = s"
    using assms(1) by (simp add: resolveIf_def resolveAdminSecurityReportObligation_def reportOf_def Let_def)
  then show ?thesis using assms True by simp
next
  case False
  let ?y = "x\<lparr>ob_status := ReportResolved, ob_resolvedAt := Some (js_toISOString n), ob_resolvedByActorId := Some a\<rparr>"
  have s: "fst (resolveIf s (Some r) a n) = sto_put s (adminSecurityReportKey r) (obligationToJs ?y)"
    using assms(1) False by (simp add: resolveIf_def resolveAdminSecurityReportObligation_def reportOf_def Let_def)
  have "obligation_wf ?y"
    using parsed_obligation [OF assms(1) [unfolded reportOf_def]] assms(2) by (simp add: obligation_wf_def) (simp add: full_def)
  then show ?thesis unfolding s by (simp add: reportOf_def rs.dec_enc)
qed

lemma report_other: "r \<noteq> q \<Longrightarrow> reportOf (fst (resolveIf s (Some q) a n)) r = reportOf s r"
  by (auto simp: resolveIf_def resolveAdminSecurityReportObligation_def reportOf_def Let_def adminSecurityReportKey_def split: option.split)

section \<open>The decisions\<close>

text \<open>
  What the requests carry: a reason, an operator and a user without surrounding white space, and ids drawn
  without white space.
\<close>

definition decision_wf :: "uuids \<Rightarrow> AdminSecurityActor \<Rightarrow> string \<Rightarrow> string \<Rightarrow> int \<Rightarrow> bool" where
  "decision_wf uid actor u reason nowMs =
     (full reason \<and> full (sa_actorId actor) \<and> full u \<and> nowMs > 0 \<and> full (shortId ''report-'' (uid ''report'') 12)
      \<and> full (shortId ''log-'' (uid ''log_execute'') 12))"

lemma type_examples: "''user_freeze'' \<in> set reportTypes" "''user_delete'' \<in> set reportTypes"
  by (simp_all add: reportTypes_def)

lemma not_ws: "\<not> is_ws (CHR ''u'')" "\<not> is_ws (CHR ''d'')"
  by code_simp+

lemma log_id: "sfield (snd (appendAdminSecurityLog H k s c x actor t d n)) ''id'' = shortId ''log-'' k 12"
  by (simp add: appendAdminSecurityLog_def Let_def sfield_def)

abbreviation ridOf :: "uuids \<Rightarrow> string" where
  "ridOf uid \<equiv> shortId ''report-'' (uid ''report'') 12"

definition markOf :: "uuids \<Rightarrow> AdminSecurityActor \<Rightarrow> string \<Rightarrow> int \<Rightarrow> UserMark" where
  "markOf uid actor reason nowMs = \<lparr>um_at = of_int nowMs, um_reason = reason, um_byActorId = Some (sa_actorId actor), um_reportId = Some (ridOf uid)\<rparr>"

lemma markOf_wf: "decision_wf uid actor u reason nowMs \<Longrightarrow> mark_wf (markOf uid actor reason nowMs)"
  by (simp add: decision_wf_def markOf_def mark_wf_def)

lemma decision_report:
  assumes "decision_wf uid actor u reason nowMs" "ty \<in> set reportTypes"
    and "createAdminSecurityReportObligation (uid ''report'') s ty (''user:'' @ u) (sa_actorId actor) reason
           (sfield (snd (appendAdminSecurityLog H (uid ''log_execute'') s0 c x actor t d n)) ''id'') nowMs = (s', ob)"
  shows "ob_reportId ob = ridOf uid" "reportOf s' q = (if q = ridOf uid then Some ob else reportOf s q)" "ob_type ob = ty" "ob_status ob = ReportRequired"
proof -
  have w: "full (''user:'' @ u)" "full (sa_actorId actor)" "full reason" "full (shortId ''log-'' (uid ''log_execute'') 12)" "full (ridOf uid)"
    using assms(1) full_prefixed [OF not_ws(1), of u "''ser:''"] by (simp_all add: decision_wf_def)
  note r = report_created [OF assms(3) [unfolded log_id] w assms(2)]
  show "ob_reportId ob = ridOf uid" "reportOf s' q = (if q = ridOf uid then Some ob else reportOf s q)" "ob_type ob = ty" "ob_status ob = ReportRequired"
    using r by simp_all
qed

lemma freezing:
  assumes "decision_wf uid actor u reason nowMs" "freezeUserExecute H uid actor u reason nowMs s = (s', res)"
  shows "getAdminSecurityUserModeration s' u = (getAdminSecurityUserModeration s u)\<lparr>mo_frozen := Some (markOf uid actor reason nowMs)\<rparr>"
    and "\<exists>x. reportOf s' (ridOf uid) = Some x \<and> ob_type x = ''user_freeze'' \<and> ob_status x = ReportRequired \<and> ob_reportId x = ridOf uid"
proof -
  define s1 where "s1 = putAdminSecurityUserModeration s u ((getAdminSecurityUserModeration s u)\<lparr>mo_frozen :=
      Some \<lparr>um_at = of_int nowMs, um_reason = reason, um_byActorId = Some (sa_actorId actor), um_reportId = None\<rparr>\<rparr>)"
  define l where "l = appendAdminSecurityLog H (uid ''log_execute'') s1 ''audit'' ''user_frozen'' actor (Some (''user:'' @ u))
                 (Some (JObj [(''reason'', JStr reason), (''userId'', JStr u)])) nowMs"
  obtain s3 ob where c: "createAdminSecurityReportObligation (uid ''report'') (fst l) ''user_freeze'' (''user:'' @ u) (sa_actorId actor) reason
                 (sfield (snd l) ''id'') nowMs = (s3, ob)" by fastforce
  note r = decision_report [OF assms(1) type_examples(1) c [unfolded l_def]]
  have s': "s' = putAdminSecurityUserModeration s3 u ((getAdminSecurityUserModeration s u)\<lparr>mo_frozen := Some (markOf uid actor reason nowMs)\<rparr>)"
    using assms(2) c [unfolded l_def s1_def] r(1) by (simp add: freezeUserExecute_def Let_def case_prod_unfold markOf_def)
  show "getAdminSecurityUserModeration s' u = (getAdminSecurityUserModeration s u)\<lparr>mo_frozen := Some (markOf uid actor reason nowMs)\<rparr>"
    using loaded_mod_wf [of s u] markOf_wf [OF assms(1)] unfolding s' by (intro put_mod) (simp add: mod_wf_def)
  show "\<exists>x. reportOf s' (ridOf uid) = Some x \<and> ob_type x = ''user_freeze'' \<and> ob_status x = ReportRequired \<and> ob_reportId x = ridOf uid"
    using r by (simp add: s')
qed

lemma deleting:
  assumes "decision_wf uid actor u reason nowMs" "deleteUserExecute H uid actor u reason nowMs s = (s', res)"
  shows "getAdminSecurityUserModeration s' u = \<lparr>mo_frozen = Some (markOf uid actor (''deleted:'' @ reason) nowMs), mo_deleted = Some (markOf uid actor reason nowMs)\<rparr>"
    and "\<exists>x. reportOf s' (ridOf uid) = Some x \<and> ob_type x = ''user_delete'' \<and> ob_status x = ReportRequired \<and> ob_reportId x = ridOf uid"
    and "r \<noteq> ridOf uid \<Longrightarrow> reportOf s' r = reportOf s r"
proof -
  let ?m = "\<lparr>um_at = of_int nowMs, um_reason = reason, um_byActorId = Some (sa_actorId actor), um_reportId = None\<rparr>"
  define s1 where "s1 = putAdminSecurityUserModeration s u ((getAdminSecurityUserModeration s u)\<lparr>mo_deleted := Some ?m,
      mo_frozen := Some (?m\<lparr>um_reason := ''deleted:'' @ reason\<rparr>)\<rparr>)"
  define l where "l = appendAdminSecurityLog H (uid ''log_execute'') s1 ''audit'' ''user_deleted'' actor (Some (''user:'' @ u))
                 (Some (JObj [(''reason'', JStr reason), (''userId'', JStr u)])) nowMs"
  obtain s3 ob where c: "createAdminSecurityReportObligation (uid ''report'') (fst l) ''user_delete'' (''user:'' @ u) (sa_actorId actor) reason
                 (sfield (snd l) ''id'') nowMs = (s3, ob)" by fastforce
  note r = decision_report [OF assms(1) type_examples(2) c [unfolded l_def]]
  let ?d = "\<lparr>mo_frozen = Some (markOf uid actor (''deleted:'' @ reason) nowMs), mo_deleted = Some (markOf uid actor reason nowMs)\<rparr>"
  have s': "s' = putAdminSecurityUserModeration s3 u ?d"
    using assms(2) c [unfolded l_def s1_def] r(1)
    by (cases "getAdminSecurityUserModeration s u") (simp add: deleteUserExecute_def Let_def case_prod_unfold markOf_def)
  have "decision_wf uid actor u (''deleted:'' @ reason) nowMs"
    using assms(1) full_prefixed [OF not_ws(2), of reason "''eleted:''"] by (simp add: decision_wf_def)
  then show "getAdminSecurityUserModeration s' u = ?d"
    using markOf_wf assms(1) unfolding s' by (intro put_mod) (simp add: mod_wf_def)
  show "\<exists>x. reportOf s' (ridOf uid) = Some x \<and> ob_type x = ''user_delete'' \<and> ob_status x = ReportRequired \<and> ob_reportId x = ridOf uid"
    using r by (simp add: s')
  show "reportOf s' r = reportOf s r" if "r \<noteq> ridOf uid"
    using that by (simp add: s' r(2) l_def s1_def)
qed

lemma unfreezing:
  assumes "unfreezeUserExecute H uid actor u nowMs s = (s', res)" "mo_frozen (getAdminSecurityUserModeration s u) = Some m"
  shows "getAdminSecurityUserModeration s' u = (getAdminSecurityUserModeration s u)\<lparr>mo_frozen := None\<rparr>"
    and "\<exists>t. reportOf s' = reportOf (fst (resolveIf t (um_reportId m) (sa_actorId actor) nowMs)) \<and> reportOf t = reportOf s"
proof -
  let ?t = "putAdminSecurityUserModeration s u ((getAdminSecurityUserModeration s u)\<lparr>mo_frozen := None\<rparr>)"
  have w: "mod_wf ((getAdminSecurityUserModeration s u)\<lparr>mo_frozen := None\<rparr>)" using loaded_mod_wf [of s u] by (simp add: mod_wf_def)
  obtain k d where s': "s' = fst (appendAdminSecurityLog H k (fst (resolveIf ?t (um_reportId m) (sa_actorId actor) nowMs)) ''audit'' ''user_unfrozen'' actor
      (Some (''user:'' @ u)) d nowMs)"
    using assms by (auto simp: unfreezeUserExecute_def Let_def case_prod_unfold)
  show "getAdminSecurityUserModeration s' u = (getAdminSecurityUserModeration s u)\<lparr>mo_frozen := None\<rparr>"
    unfolding s' by (simp add: w)
  show "\<exists>t. reportOf s' = reportOf (fst (resolveIf t (um_reportId m) (sa_actorId actor) nowMs)) \<and> reportOf t = reportOf s"
    unfolding s' by (rule exI [of _ ?t]) (auto simp: fun_eq_iff)
qed

lemma restoring:
  assumes "restoreUserExecute H uid actor u nowMs s = (s', res)" "mo_deleted (getAdminSecurityUserModeration s u) = Some m"
  shows "getAdminSecurityUserModeration s' u = \<lparr>mo_frozen = None, mo_deleted = None\<rparr>"
    and "\<exists>t. reportOf s' = reportOf (fst (resolveIf t (um_reportId m) (sa_actorId actor) nowMs)) \<and> reportOf t = reportOf s"
proof -
  let ?t = "putAdminSecurityUserModeration s u ((getAdminSecurityUserModeration s u)\<lparr>mo_deleted := None, mo_frozen := None\<rparr>)"
  have w: "mod_wf ((getAdminSecurityUserModeration s u)\<lparr>mo_deleted := None, mo_frozen := None\<rparr>)" by (simp add: mod_wf_def)
  obtain k d where s': "s' = fst (appendAdminSecurityLog H k (fst (resolveIf ?t (um_reportId m) (sa_actorId actor) nowMs)) ''audit'' ''user_restored'' actor
      (Some (''user:'' @ u)) d nowMs)"
    using assms by (auto simp: restoreUserExecute_def Let_def case_prod_unfold)
  show "getAdminSecurityUserModeration s' u = \<lparr>mo_frozen = None, mo_deleted = None\<rparr>"
    unfolding s' using w by (cases "getAdminSecurityUserModeration s u") simp
  show "\<exists>t. reportOf s' = reportOf (fst (resolveIf t (um_reportId m) (sa_actorId actor) nowMs)) \<and> reportOf t = reportOf s"
    unfolding s' by (rule exI [of _ ?t]) (auto simp: fun_eq_iff)
qed

lemma moderated_response:
  assumes "normalizeUserId (JStr u) = u" "u \<noteq> []"
  shows "mo_deleted (getAdminSecurityUserModeration s u) \<noteq> None \<Longrightarrow> \<exists>r. ensureUserNotModerated s u = Some r \<and> rs_status r = 403"
    and "mo_deleted (getAdminSecurityUserModeration s u) = None \<Longrightarrow> mo_frozen (getAdminSecurityUserModeration s u) \<noteq> None \<Longrightarrow>
           \<exists>r. ensureUserNotModerated s u = Some r \<and> rs_status r = 423"
    and "mo_deleted (getAdminSecurityUserModeration s u) = None \<Longrightarrow> mo_frozen (getAdminSecurityUserModeration s u) = None \<Longrightarrow>
           ensureUserNotModerated s u = None"
  using assms by (auto simp: ensureUserNotModerated_def json_response_def)

text \<open>
  Decisions on users take effect: a freeze makes the guard of the user's requests answer 423, a deletion
  makes it answer 403, unfreezing a deleted user leaves the 403, and restoring a deleted user lifts
  the block.
\<close>

theorem moderation_takes_effect:
  fixes H :: "string \<Rightarrow> string"
  assumes "decision_wf uid actor u reason nowMs" "normalizeUserId (JStr u) = u" "u \<noteq> []" "mo_deleted (getAdminSecurityUserModeration s u) = None"
  defines "deleted \<equiv> fst (deleteUserExecute H uid actor u reason nowMs s)"
  shows "(\<exists>r. ensureUserNotModerated (fst (freezeUserExecute H uid actor u reason nowMs s)) u = Some r \<and> rs_status r = 423)
    \<and> (\<exists>r. ensureUserNotModerated deleted u = Some r \<and> rs_status r = 403)
    \<and> (\<exists>r. ensureUserNotModerated (fst (unfreezeUserExecute H uid2 actor2 u later deleted)) u = Some r \<and> rs_status r = 403)
    \<and> ensureUserNotModerated (fst (restoreUserExecute H uid2 actor2 u later deleted)) u = None"
proof (intro conjI)
  note del = deleting(1) [OF assms(1) prod.collapse [symmetric], where H = H and s = s, folded deleted_def]
  show "\<exists>r. ensureUserNotModerated (fst (freezeUserExecute H uid actor u reason nowMs s)) u = Some r \<and> rs_status r = 423"
    using freezing(1) [OF assms(1) prod.collapse [symmetric], where H = H and s = s] assms(4) by (intro moderated_response(2) [OF assms(2,3)]) simp_all
  show "\<exists>r. ensureUserNotModerated deleted u = Some r \<and> rs_status r = 403"
    using del by (intro moderated_response(1) [OF assms(2,3)]) simp
  show "\<exists>r. ensureUserNotModerated (fst (unfreezeUserExecute H uid2 actor2 u later deleted)) u = Some r \<and> rs_status r = 403"
    using unfreezing(1) [OF prod.collapse [symmetric], where s = deleted and u = u] del by (intro moderated_response(1) [OF assms(2,3)]) simp
  show "ensureUserNotModerated (fst (restoreUserExecute H uid2 actor2 u later deleted)) u = None"
    using restoring(1) [OF prod.collapse [symmetric], where s = deleted and u = u] del by (intro moderated_response(3) [OF assms(2,3)]) simp_all
qed

text \<open>
  Report obligations get out of step with the decisions they report: unfreezing a deleted user resolves the
  report of the deletion although the user stays deleted; and when a frozen user is deleted and then
  restored, nothing blocks the user any more, yet the report of the freeze stays open, with no mark left that
  could resolve it.
\<close>

theorem reports_out_of_step:
  fixes H :: "string \<Rightarrow> string" and s :: storage and u :: string and uid3 :: uuids and actor3 :: AdminSecurityActor and t3 :: int
  assumes "decision_wf uid1 actor1 u reason1 t1" "decision_wf uid2 actor2 u reason2 t2" "full (sa_actorId actor3)" "ridOf uid1 \<noteq> ridOf uid2"
  defines "frozen \<equiv> fst (freezeUserExecute H uid1 actor1 u reason1 t1 s)"
  defines "deleted \<equiv> fst (deleteUserExecute H uid2 actor2 u reason2 t2 frozen)"
  defines "unfrozen \<equiv> fst (unfreezeUserExecute H uid3 actor3 u t3 deleted)"
  defines "restored \<equiv> fst (restoreUserExecute H uid3 actor3 u t3 deleted)"
  shows "(\<exists>m y. mo_deleted (getAdminSecurityUserModeration unfrozen u) = Some m \<and> um_reportId m = Some (ridOf uid2)
           \<and> reportOf unfrozen (ridOf uid2) = Some y \<and> ob_type y = ''user_delete'' \<and> ob_status y = ReportResolved)
    \<and> getAdminSecurityUserModeration restored u = \<lparr>mo_frozen = None, mo_deleted = None\<rparr>
    \<and> (\<exists>y. reportOf restored (ridOf uid1) = Some y \<and> ob_type y = ''user_freeze'' \<and> ob_status y = ReportRequired)"
proof (intro conjI)
  note fz = freezing [OF assms(1) prod.collapse [symmetric], where H = H and s = s, folded frozen_def]
  note del = deleting [OF assms(2) prod.collapse [symmetric], where H = H and s = frozen, folded deleted_def]
  obtain x where x: "reportOf deleted (ridOf uid2) = Some x" "ob_type x = ''user_delete''" using del(2) by blast
  have m: "um_reportId (markOf uid2 actor2 r t2) = Some (ridOf uid2)" for r by (simp add: markOf_def)
  show "\<exists>m y. mo_deleted (getAdminSecurityUserModeration unfrozen u) = Some m \<and> um_reportId m = Some (ridOf uid2)
           \<and> reportOf unfrozen (ridOf uid2) = Some y \<and> ob_type y = ''user_delete'' \<and> ob_status y = ReportResolved"
  proof -
    have f: "mo_frozen (getAdminSecurityUserModeration deleted u) = Some (markOf uid2 actor2 (''deleted:'' @ reason2) t2)" using del(1) by simp
    note uf = unfreezing [OF prod.collapse [symmetric] f, where H = H and uid = uid3 and actor = actor3 and nowMs = t3, folded unfrozen_def]
    obtain t where t: "reportOf unfrozen = reportOf (fst (resolveIf t (Some (ridOf uid2)) (sa_actorId actor3) t3))" "reportOf t = reportOf deleted"
      using uf(2) m by auto
    have "reportOf t (ridOf uid2) = Some x" using t(2) x by simp
    from report_resolved [OF this assms(3), of t3] show ?thesis using uf(1) del(1) t(1) x(2) m by auto
  qed
  have d: "mo_deleted (getAdminSecurityUserModeration deleted u) = Some (markOf uid2 actor2 reason2 t2)" using del(1) by simp
  note re = restoring [OF prod.collapse [symmetric] d, where H = H and uid = uid3 and actor = actor3 and nowMs = t3, folded restored_def]
  show "getAdminSecurityUserModeration restored u = \<lparr>mo_frozen = None, mo_deleted = None\<rparr>" by (rule re(1))
  obtain t where t: "reportOf restored = reportOf (fst (resolveIf t (Some (ridOf uid2)) (sa_actorId actor3) t3))" "reportOf t = reportOf deleted"
    using re(2) m by auto
  show "\<exists>y. reportOf restored (ridOf uid1) = Some y \<and> ob_type y = ''user_freeze'' \<and> ob_status y = ReportRequired"
    using fz(2) del(3) [OF assms(4)] t report_other [OF assms(4)] by metis
qed

section \<open>Examples\<close>

definition sampleOperator :: AdminSecurityActor where
  "sampleOperator = \<lparr>sa_actorId = ''master'', sa_role = SecMaster, sa_adminId = Some ''master'', sa_name = None\<rparr>"

lemma sample_decision: "decision_wf (\<lambda>k. ''1'') sampleOperator ''u1'' ''spam'' 1000" "decision_wf (\<lambda>k. ''2'') sampleOperator ''u1'' ''spam'' 2000"
  by code_simp+

theorem moderation_takes_effect_witness:
  "\<exists>r. ensureUserNotModerated (fst (deleteUserExecute (\<lambda>x. x) (\<lambda>k. ''1'') sampleOperator ''u1'' ''spam'' 1000 [])) ''u1'' = Some r \<and> rs_status r = 403"
proof -
  have "normalizeUserId (JStr ''u1'') = ''u1''" "''u1'' \<noteq> []" "mo_deleted (getAdminSecurityUserModeration [] ''u1'') = None" by code_simp+
  from moderation_takes_effect [OF sample_decision(1) this] show ?thesis by blast
qed

theorem reports_out_of_step_witness:
  "\<exists>y. reportOf (fst (restoreUserExecute (\<lambda>x. x) (\<lambda>k. ''3'') sampleOperator ''u1'' 3000
          (fst (deleteUserExecute (\<lambda>x. x) (\<lambda>k. ''2'') sampleOperator ''u1'' ''spam'' 2000
             (fst (freezeUserExecute (\<lambda>x. x) (\<lambda>k. ''1'') sampleOperator ''u1'' ''spam'' 1000 [])))))) (ridOf (\<lambda>k. ''1'')) = Some y
      \<and> ob_type y = ''user_freeze'' \<and> ob_status y = ReportRequired"
proof -
  have "full (sa_actorId sampleOperator)" "ridOf (\<lambda>k. ''1'') \<noteq> ridOf (\<lambda>k. ''2'')" by code_simp+
  from reports_out_of_step [OF sample_decision this] show ?thesis by blast
qed

end
