(* ===== verification/Js_Date_Parse.thy ===== *)
theory Js_Date_Parse
  imports Js_Date
begin

text \<open>
  \<open>Date.parse\<close> on the texts that \<open>toISOString\<close> writes, and that it gives the time back. Other texts, which the
  audit log of the worker never holds, count as no date.
\<close>

section \<open>Reading fields\<close>

fun read_fields :: "(nat \<times> string) list \<Rightarrow> string \<Rightarrow> int list option" where
  "read_fields [] t = (if t = [] then Some [] else None)"
| "read_fields ((w, sep) # ls) t =
     (let d = take w t; r = drop w t in
      if length d = w \<and> all_digits d \<and> prefix sep r
      then map_option ((#) (digits_val d)) (read_fields ls (drop (length sep) r)) else None)"

text \<open>Days from the start of 1970 to the start of year \<open>1970 + n\<close>.\<close>

primrec year_start :: "nat \<Rightarrow> int" where
  "year_start 0 = 0"
| "year_start (Suc n) = year_start n + year_days (1970 + int n)"

definition month_start :: "int list \<Rightarrow> int \<Rightarrow> int" where
  "month_start ls m = sum_list (take (nat m) ls)"

definition fields_time :: "int list \<Rightarrow> int option" where
  "fields_time fs =
     (case fs of
        [y, m, d, h, mi, sec, ms] \<Rightarrow>
          (if 1970 \<le> y \<and> 1 \<le> m \<and> m \<le> 12 \<and> 1 \<le> d \<and> d \<le> 31 \<and> h < 24 \<and> mi < 60 \<and> sec < 60
           then Some ((year_start (nat (y - 1970)) + month_start (month_lengths y) (m - 1) + d - 1) * 86400000
                  + h * 3600000 + mi * 60000 + sec * 1000 + ms)
           else None)
      | _ \<Rightarrow> None)"

definition js_Date_parse :: "js \<Rightarrow> int option" where
  "js_Date_parse v = (case v of JStr t \<Rightarrow> Option.bind (read_fields iso_layout t) fields_time | _ \<Rightarrow> None)"

section \<open>Round trip\<close>

lemma digits_val_append: "digits_val (xs @ [c]) = digits_val xs * 10 + digit_val c"
  by (simp add: digits_val_def)

lemma digit_char_val: "k < 10 \<Longrightarrow> is_digit (digit_char k) \<and> digit_val (digit_char k) = int k"
  by (simp add: digit_char_def is_digit_def digit_val_def)

lemma read_pad:
  "0 \<le> n \<Longrightarrow> n < 10 ^ w \<Longrightarrow> list_all is_digit (pad_digits w n) \<and> digits_val (pad_digits w n) = n"
proof (induction w arbitrary: n)
  case 0
  then show ?case by (simp add: digits_val_def)
next
  case (Suc w)
  have "0 \<le> n div 10" "n div 10 < 10 ^ w" using Suc.prems by (auto simp: pos_imp_zdiv_nonneg_iff div_less_iff_less_mult)
  moreover have "nat (n mod 10) < 10" by (simp add: nat_less_iff)
  ultimately show ?case using Suc.IH [of "n div 10"] digit_char_val [of "nat (n mod 10)"] by (simp add: digits_val_append)
qed

lemma read_print_fields:
  assumes "list_all2 (\<lambda>l v. v < 10 ^ fst l) ls vs" "list_all (\<lambda>v. 0 \<le> v) vs" "list_all (\<lambda>l. fst l > 0) ls"
  shows "read_fields ls (print_fields ls vs) = Some vs"
  using assms
proof (induction ls vs rule: list_all2_induct)
  case (Cons l ls v vs)
  obtain w sep where l: "l = (w, sep)" by fastforce
  have "list_all is_digit (pad_digits w v)" "digits_val (pad_digits w v) = v" using read_pad [of v w] Cons l by simp_all
  moreover have "pad_digits w v \<noteq> []" using Cons.prems l length_pad [of w v] by fastforce
  ultimately show ?case using Cons by (simp add: l all_digits_def Let_def)
qed simp

lemma year_start_of: "0 \<le> d \<Longrightarrow> 1970 \<le> y \<Longrightarrow> year_start (nat (fst (year_of y d) - 1970)) + snd (year_of y d) = year_start (nat (y - 1970)) + d"
proof (induction y d rule: year_of.induct)
  case (1 y d)
  show ?case
  proof (cases "d < year_days y")
    case True
    then show ?thesis by (simp add: year_of.simps [of y d])
  next
    case False
    have "nat (y + 1 - 1970) = Suc (nat (y - 1970))" using 1(3) by simp
    then show ?thesis using 1 False by (simp add: year_of.simps [of y d])
  qed
qed

lemma month_start_of:
  "0 \<le> d \<Longrightarrow> d < sum_list ls \<Longrightarrow> month_start ls (fst (month_of m ls d) - m) + snd (month_of m ls d) = d"
proof (induction m ls d rule: month_of.induct)
  case (2 m l ls d)
  show ?case
  proof (cases "d < l")
    case False
    have "m + 1 \<le> fst (month_of (m + 1) ls (d - l))" by (rule month_of_ge)
    then have "nat (fst (month_of (m + 1) ls (d - l)) - m) = Suc (nat (fst (month_of (m + 1) ls (d - l)) - (m + 1)))" by simp
    then show ?thesis using 2 False by (simp add: month_start_def)
  qed (simp add: month_start_def)
qed simp

lemma fields_time_fields:
  assumes "0 \<le> t"
  shows "fields_time (time_fields t) = Some t"
proof -
  obtain y yd where y: "year_of 1970 (t div 86400000) = (y, yd)" by fastforce
  obtain m md where m: "month_of 1 (month_lengths y) yd = (m, md)" by fastforce
  have d: "0 \<le> t div 86400000" using assms by (simp add: pos_imp_zdiv_nonneg_iff)
  have b: "0 \<le> yd" "yd < year_days y" using year_of_bounds [OF d, of 1970] y by simp_all
  define r where "r = t mod 86400000"
  define h mi sec ms where v: "h = r div 3600000" "mi = r mod 3600000 div 60000" "sec = r mod 60000 div 1000" "ms = r mod 1000"
  have f: "time_fields t = [y, m, md + 1, h, mi, sec, ms]" by (simp add: time_fields_def y m Let_def r_def v)
  have ys: "year_start (nat (y - 1970)) + yd = t div 86400000" using year_start_of [OF d, of 1970] y by simp
  have ms: "month_start (month_lengths y) (m - 1) + md = yd"
    using month_start_of [of yd "month_lengths y" 1] b m by (simp add: month_lengths_sum)
  have g: "1970 \<le> y" "1 \<le> m" using year_of_ge [of 1970 "t div 86400000"] y month_of_ge [of 1 "month_lengths y" yd] m by simp_all
  have k: "m \<le> 12" "0 \<le> md" "md < 31"
    using month_of_bounds [of yd "month_lengths y" 1] b m by (auto simp: month_lengths_sum) (auto simp: month_lengths_def split: if_splits)
  have c: "h < 24" "mi < 60" "sec < 60"
    unfolding v r_def by (simp_all add: div_less_iff_less_mult)
  have e: "h * 3600000 + mi * 60000 + sec * 1000 + ms = r"
  proof -
    have "r mod 3600000 mod 60000 = r mod 60000" "r mod 60000 mod 1000 = r mod 1000" by (simp_all add: mod_mod_cancel)
    then show ?thesis unfolding v using div_mult_mod_eq [of r 3600000] div_mult_mod_eq [of "r mod 3600000" 60000]
        div_mult_mod_eq [of "r mod 60000" 1000] by linarith
  qed
  have t: "t = t div 86400000 * 86400000 + r" unfolding r_def by simp
  have "fields_time (time_fields t) = Some ((year_start (nat (y - 1970)) + month_start (month_lengths y) (m - 1) + (md + 1) - 1) * 86400000
      + h * 3600000 + mi * 60000 + sec * 1000 + ms)"
    using g k c by (simp add: f fields_time_def)
  also have "(year_start (nat (y - 1970)) + month_start (month_lengths y) (m - 1) + (md + 1) - 1) = t div 86400000" using ys ms by linarith
  also have "t div 86400000 * 86400000 + h * 3600000 + mi * 60000 + sec * 1000 + ms = t" using e t by linarith
  finally show ?thesis .
qed

lemma js_Date_parse_iso [simp]: "iso_range n \<Longrightarrow> js_Date_parse (JStr (js_toISOString n)) = Some n"
  using time_fields_bounds [of n] read_print_fields [of iso_layout "time_fields n"] fields_time_fields [of n]
  by (simp add: js_Date_parse_def js_toISOString_def iso_range_def iso_layout_def)

end
