(* ===== verification/Transfer_Log.thy ===== *)
theory Transfer_Log
  imports Ticket_Receipt Claim_Logic Js_Date_Parse
begin

text \<open>
  Transfers in the audit log (\<open>storeDO.ts\<close>): the transfer payload that a claim writes into its audit entry, the
  views on it that the worker reads back (a structured payload, or the fields of older entries), the snapshots and
  confirmed on-chain claims of one subject, the quota they use up, and the tickets of a user. An audit entry is the
  stored value; the fields of a view that are copied from it are values of type \<open>js\<close>.
\<close>

section \<open>Data\<close>

datatype TransferMode = Mode_onchain | Mode_offchain

datatype TransferAsset = Asset_ticket_token | Asset_participation_receipt

datatype TransferLogRoleView = RoleView_admin | RoleView_master

record TransferParty =
  tp_type :: string
  tp_id :: string

record TransferAuditPayload =
  ta_mode :: TransferMode
  ta_asset :: TransferAsset
  ta_amount :: "rat option"
  ta_mint :: "string option"
  ta_txSignature :: "string option"
  ta_receiptPubkey :: "string option"
  ta_sender :: TransferParty
  ta_recipient :: TransferParty

record TransferLogView =
  tv_ts :: js
  tv_event :: js
  tv_eventId :: js
  tv_entryHash :: js
  tv_prevHash :: js
  tv_streamPrevHash :: js
  tv_transfer :: TransferAuditPayload
  tv_pii :: "(string \<times> string) list option"

record ClaimTransferSnapshot =
  ts_txSignature :: "string option"
  ts_receiptPubkey :: "string option"
  ts_mint :: "string option"

record ConfirmedOnchainClaim =
  oc_at :: int
  oc_confirmationCode :: "string option"
  oc_txSignature :: "string option"
  oc_receiptPubkey :: "string option"

fun transferModeStr :: "TransferMode \<Rightarrow> string" where
  "transferModeStr Mode_onchain = ''onchain''"
| "transferModeStr Mode_offchain = ''offchain''"

fun transferAssetStr :: "TransferAsset \<Rightarrow> string" where
  "transferAssetStr Asset_ticket_token = ''ticket_token''"
| "transferAssetStr Asset_participation_receipt = ''participation_receipt''"

definition partyToJs :: "TransferParty \<Rightarrow> js" where
  "partyToJs p = JObj [(''type'', JStr (tp_type p)), (''id'', JStr (tp_id p))]"

definition transferToJs :: "TransferAuditPayload \<Rightarrow> js" where
  "transferToJs t = JObj [(''mode'', JStr (transferModeStr (ta_mode t))), (''asset'', JStr (transferAssetStr (ta_asset t))),
     (''amount'', case ta_amount t of None \<Rightarrow> JNull | Some r \<Rightarrow> JNum r), (''mint'', jstr_null (ta_mint t)),
     (''txSignature'', jstr_null (ta_txSignature t)), (''receiptPubkey'', jstr_null (ta_receiptPubkey t)),
     (''sender'', partyToJs (ta_sender t)), (''recipient'', partyToJs (ta_recipient t))]"

definition piiToJs :: "(string \<times> string) list option \<Rightarrow> js" where
  "piiToJs pii = (case pii of None \<Rightarrow> JUndef | Some kvs \<Rightarrow> JObj (map (\<lambda>(k, v). (k, JStr v)) kvs))"

definition transferViewToJs :: "TransferLogView \<Rightarrow> js" where
  "transferViewToJs v = JObj [(''ts'', tv_ts v), (''event'', tv_event v), (''eventId'', tv_eventId v),
     (''entryHash'', tv_entryHash v), (''prevHash'', tv_prevHash v), (''streamPrevHash'', tv_streamPrevHash v),
     (''transfer'', transferToJs (tv_transfer v)), (''pii'', piiToJs (tv_pii v))]"

section \<open>Writing a transfer\<close>

definition buildClaimTransferPayload ::
  "string \<Rightarrow> js \<Rightarrow> TransferParty \<Rightarrow> js \<Rightarrow> js \<Rightarrow> TransferAuditPayload" where
  "buildClaimTransferPayload eventId event recipient txRaw receiptRaw =
     (let senderId = (case normalizeStringField (jget event ''solanaAuthority'') of
                        Some a \<Rightarrow> a | None \<Rightarrow> ''grant:'' @ eventId);
          txSignature = normalizeStringField txRaw;
          receiptPubkey = normalizeStringField receiptRaw;
          hasOnchainProof = (txSignature \<noteq> None \<or> receiptPubkey \<noteq> None)
      in \<lparr>ta_mode = (if hasOnchainProof then Mode_onchain else Mode_offchain),
          ta_asset = (if hasOnchainProof then Asset_ticket_token else Asset_participation_receipt),
          ta_amount = (if hasOnchainProof then normalizeNumberField (jget event ''ticketTokenAmount'') else None),
          ta_mint = (if hasOnchainProof then normalizeStringField (jget event ''solanaMint'') else None),
          ta_txSignature = txSignature,
          ta_receiptPubkey = receiptPubkey,
          ta_sender = \<lparr>tp_type = ''grant_authority'', tp_id = senderId\<rparr>,
          ta_recipient = recipient\<rparr>)"

definition buildExplorerTxUrl :: "string \<Rightarrow> string" where
  "buildExplorerTxUrl txSignature =
     ''https://explorer.solana.com/tx/'' @ encodeURIComponent (js_trim txSignature) @ ''?cluster=devnet''"

definition buildOnchainClaimResponseFields :: "js \<Rightarrow> js \<Rightarrow> (string \<times> js) list" where
  "buildOnchainClaimResponseFields txRaw receiptRaw =
     (case normalizeStringField txRaw of
        Some tx \<Rightarrow> [(''txSignature'', JStr tx), (''explorerTxUrl'', JStr (buildExplorerTxUrl tx))] | None \<Rightarrow> [])
     @ (case normalizeStringField receiptRaw of Some r \<Rightarrow> [(''receiptPubkey'', JStr r)] | None \<Rightarrow> [])"

section \<open>Reading a transfer\<close>

definition normalizeTransferParty :: "js \<Rightarrow> TransferParty option" where
  "normalizeTransferParty raw =
     (if \<not> is_obj raw then None
      else case (normalizeStringField (jget raw ''type''), normalizeStringField (jget raw ''id'')) of
             (Some ty, Some i) \<Rightarrow> Some \<lparr>tp_type = ty, tp_id = i\<rparr>
           | _ \<Rightarrow> None)"

definition parseStructuredTransferPayload :: "js \<Rightarrow> TransferAuditPayload option" where
  "parseStructuredTransferPayload data =
     (let transferObj = jget data ''transfer'' in
      if \<not> is_obj transferObj then None
      else case (normalizeTransferParty (jget transferObj ''sender''), normalizeTransferParty (jget transferObj ''recipient'')) of
             (Some sender, Some recipient) \<Rightarrow>
               (let mode = (if normalizeStringField (jget transferObj ''mode'') = Some ''onchain'' then Mode_onchain else Mode_offchain);
                    assetRaw = normalizeStringField (jget transferObj ''asset'');
                    asset = (if assetRaw = Some ''participation_receipt'' then Asset_participation_receipt
                             else if assetRaw = Some ''ticket_token'' then Asset_ticket_token
                             else if mode = Mode_onchain then Asset_ticket_token else Asset_participation_receipt);
                    amount = normalizeNumberField (jget transferObj ''amount'')
                in Some \<lparr>ta_mode = mode, ta_asset = asset,
                     ta_amount = (if asset = Asset_ticket_token then amount else None),
                     ta_mint = (if asset = Asset_ticket_token then normalizeStringField (jget transferObj ''mint'') else None),
                     ta_txSignature = normalizeStringField (jget transferObj ''txSignature''),
                     ta_receiptPubkey = normalizeStringField (jget transferObj ''receiptPubkey''),
                     ta_sender = sender, ta_recipient = recipient\<rparr>)
           | _ \<Rightarrow> None)"

text \<open>\<open>entry.data ?? {}\<close>\<close>

definition entryData :: "js \<Rightarrow> js" where
  "entryData entry = (if nullish (jget entry ''data'') then JObj [] else jget entry ''data'')"

definition legacyRecipient :: "js \<Rightarrow> TransferParty option" where
  "legacyRecipient entry =
     (let data = entryData entry; walletAddress = normalizeStringField (jget data ''walletAddress'') in
      if jget entry ''event'' = JStr ''WALLET_CLAIM'' then
        (case (walletAddress, normalizeStringField (jget data ''joinToken'')) of
           (Some w, _) \<Rightarrow> Some \<lparr>tp_type = ''wallet'', tp_id = w\<rparr>
         | (None, Some j) \<Rightarrow> Some \<lparr>tp_type = ''join_token'', tp_id = j\<rparr>
         | (None, None) \<Rightarrow> None)
      else if jget entry ''event'' = JStr ''USER_CLAIM'' then
        (case walletAddress of
           Some w \<Rightarrow> Some \<lparr>tp_type = ''wallet'', tp_id = w\<rparr>
         | None \<Rightarrow> Some \<lparr>tp_type = ''user'', tp_id =
             (case normalizeStringField (jget data ''userId'') of
                Some u \<Rightarrow> u
              | None \<Rightarrow> (case normalizeStringField (jget (jget entry ''actor'') ''id'') of
                           Some a \<Rightarrow> a | None \<Rightarrow> ''unknown''))\<rparr>)
      else None)"

definition parseLegacyTransferPayload :: "js \<Rightarrow> TransferAuditPayload option" where
  "parseLegacyTransferPayload entry =
     (let data = entryData entry;
          senderId = (case normalizeStringField (jget data ''solanaAuthority'') of
                        Some a \<Rightarrow> a
                      | None \<Rightarrow> (case normalizeStringField (jget data ''authority'') of
                                   Some a \<Rightarrow> a
                                 | None \<Rightarrow> ''grant:'' @ js_to_string (jget entry ''eventId'')));
          txSignature = normalizeStringField (jget data ''txSignature'');
          onchain = (txSignature \<noteq> None)
      in map_option
           (\<lambda>recipient.
              \<lparr>ta_mode = (if onchain then Mode_onchain else Mode_offchain),
               ta_asset = (if onchain then Asset_ticket_token else Asset_participation_receipt),
               ta_amount = (if onchain then normalizeNumberField (jget data ''ticketTokenAmount'') else None),
               ta_mint = (if onchain then normalizeStringField (jget data ''solanaMint'') else None),
               ta_txSignature = txSignature,
               ta_receiptPubkey = normalizeStringField (jget data ''receiptPubkey''),
               ta_sender = \<lparr>tp_type = ''grant_authority'', tp_id = senderId\<rparr>,
               ta_recipient = recipient\<rparr>)
           (legacyRecipient entry))"

text \<open>\<open>Object.entries\<close> of an object or of an array\<close>

fun js_entries :: "js \<Rightarrow> (string \<times> js) list" where
  "js_entries (JObj kvs) = kvs"
| "js_entries (JArr vs) = map (\<lambda>(i, v). (js_str_int (int i), v)) (enumerate 0 vs)"
| "js_entries _ = []"

definition addPii :: "string \<times> js \<Rightarrow> (string \<times> string) list \<Rightarrow> (string \<times> string) list" where
  "addPii kv out =
     (case normalizeStringField (snd kv) of Some n \<Rightarrow> (if fst kv = PROTO then out else kv_set (fst kv) n out) | None \<Rightarrow> out)"

definition legacyPiiKeys :: "string list" where
  "legacyPiiKeys = [''walletAddress'', ''joinToken'', ''userId'', ''displayName'']"

definition extractTransferPii :: "js \<Rightarrow> (string \<times> string) list option" where
  "extractTransferPii data =
     (let out = fold addPii (js_entries (jget data ''pii'')) [];
          out' = fold addPii (map (\<lambda>k. (k, jget data k)) legacyPiiKeys) out
      in if out' = [] then None else Some out')"

definition toTransferLogView :: "js \<Rightarrow> TransferLogView option" where
  "toTransferLogView entry =
     (let data = entryData entry;
          transfer = (case parseStructuredTransferPayload data of
                        Some t \<Rightarrow> Some t | None \<Rightarrow> parseLegacyTransferPayload entry)
      in map_option
           (\<lambda>t. \<lparr>tv_ts = jget entry ''ts'', tv_event = jget entry ''event'', tv_eventId = jget entry ''eventId'',
                 tv_entryHash = jget entry ''entry_hash'', tv_prevHash = jget entry ''prev_hash'',
                 tv_streamPrevHash = js_or_genesis (jget entry ''stream_prev_hash''),
                 tv_transfer = t, tv_pii = extractTransferPii data\<rparr>)
           transfer)"

fun applyTransferRoleView :: "TransferLogView \<Rightarrow> TransferLogRoleView \<Rightarrow> TransferLogView" where
  "applyTransferRoleView view RoleView_master = view"
| "applyTransferRoleView view RoleView_admin = view\<lparr>tv_pii := None\<rparr>"

text \<open>\<open>normalizeStringField\<close> on a field that holds a string or \<open>null\<close>\<close>

definition normOpt :: "string option \<Rightarrow> string option" where
  "normOpt s = normalizeStringField (jstr_null s)"

definition buildClaimTransferSnapshot :: "TransferLogView \<Rightarrow> ClaimTransferSnapshot option" where
  "buildClaimTransferSnapshot view =
     (let txSignature = normOpt (ta_txSignature (tv_transfer view));
          receiptPubkey = normOpt (ta_receiptPubkey (tv_transfer view))
      in if txSignature = None \<and> receiptPubkey = None then None
         else Some \<lparr>ts_txSignature = txSignature, ts_receiptPubkey = receiptPubkey,
                ts_mint = normOpt (ta_mint (tv_transfer view))\<rparr>)"

section \<open>Listings\<close>

text \<open>
  The loop of \<open>getTransferLogs\<close> over the rows: it stops after the row that fills the page. A limit below one still
  lets the first matching row through.
\<close>

definition transferRowView :: "string option \<Rightarrow> TransferMode option \<Rightarrow> js \<Rightarrow> TransferLogView option" where
  "transferRowView eventIdFilter modeFilter value =
     (if \<not> is_obj value then None
      else case toTransferLogView value of
             None \<Rightarrow> None
           | Some view \<Rightarrow>
               (if pred_option (\<lambda>e. tv_eventId view = JStr e) eventIdFilter
                   \<and> pred_option (\<lambda>m. ta_mode (tv_transfer view) = m) modeFilter
                then Some view else None))"

definition getTransferLogs ::
  "storage \<Rightarrow> TransferLogRoleView \<Rightarrow> int \<Rightarrow> string option \<Rightarrow> TransferMode option \<Rightarrow> TransferLogView list" where
  "getTransferLogs s role limit eventId mode =
     (let eventIdFilter = Option.bind eventId (\<lambda>e. if js_trim e = [] then None else Some (js_trim e));
          scanMultiplier = (if eventIdFilter \<noteq> None then 50 else 6);
          scanCap = (if eventIdFilter \<noteq> None then int AUDIT_ENTRY_SCAN_LIMIT else 1000);
          scanLimit = min scanCap (max (limit * scanMultiplier) limit);
          rows = sto_list_rev s AUDIT_HISTORY_PREFIX (nat scanLimit)
      in take (nat (max limit 1))
           (map (\<lambda>view. applyTransferRoleView view role)
             (List.map_filter (\<lambda>row. transferRowView eventIdFilter mode (snd row)) rows)))"

text \<open>\<open>view.pii?.[key]\<close>\<close>

definition piiField :: "TransferLogView \<Rightarrow> string \<Rightarrow> js" where
  "piiField view key = (case tv_pii view of None \<Rightarrow> JUndef | Some kvs \<Rightarrow> jstr_opt (map_of kvs key))"

definition recipientOf :: "TransferLogView \<Rightarrow> string \<Rightarrow> js" where
  "recipientOf view ty =
     (let r = ta_recipient (tv_transfer view) in if tp_type r = ty then JStr (tp_id r) else JNull)"

definition matchesUserTransferSubject :: "TransferLogView \<Rightarrow> string \<Rightarrow> bool" where
  "matchesUserTransferSubject view userId =
     (let normalizedUserId = normalizeUserId (JStr userId) in
      normalizedUserId \<noteq> []
      \<and> (normalizeUserId (piiField view ''userId'') = normalizedUserId
         \<or> normalizeUserId (recipientOf view ''user'') = normalizedUserId))"

definition matchesWalletTransferSubject :: "TransferLogView \<Rightarrow> string option \<Rightarrow> string option \<Rightarrow> bool" where
  "matchesWalletTransferSubject view walletAddressRaw joinTokenRaw =
     (let walletAddress = normOpt walletAddressRaw; joinToken = normOpt joinTokenRaw in
      (walletAddress \<noteq> None \<and> (normalizeStringField (piiField view ''walletAddress'') = walletAddress
         \<or> normalizeStringField (recipientOf view ''wallet'') = walletAddress))
      \<or> (joinToken \<noteq> None \<and> (normalizeStringField (piiField view ''joinToken'') = joinToken
         \<or> normalizeStringField (recipientOf view ''join_token'') = joinToken)))"

definition newestAuditRows :: "storage \<Rightarrow> js list" where
  "newestAuditRows s = map snd (sto_list_rev s AUDIT_HISTORY_PREFIX AUDIT_ENTRY_SCAN_LIMIT)"

text \<open>One iteration of \<open>getLatestUserTransferSnapshots\<close>, on the snapshots found so far.\<close>

definition snapshotStep ::
  "string \<Rightarrow> string list \<Rightarrow> js \<Rightarrow> (string \<times> ClaimTransferSnapshot) list \<Rightarrow> (string \<times> ClaimTransferSnapshot) list" where
  "snapshotStep normalizedUserId eventIds value snapshots =
     (if length snapshots \<ge> length eventIds \<or> \<not> is_obj value \<or> jget value ''event'' \<noteq> JStr ''USER_CLAIM'' then snapshots
      else case jget value ''eventId'' of
        JStr e \<Rightarrow>
          (if e \<notin> set eventIds \<or> map_of snapshots e \<noteq> None then snapshots
           else case toTransferLogView value of
             None \<Rightarrow> snapshots
           | Some view \<Rightarrow>
               (if normalizeUserId (piiField view ''userId'') \<noteq> normalizedUserId
                   \<and> normalizeUserId (recipientOf view ''user'') \<noteq> normalizedUserId then snapshots
                else case buildClaimTransferSnapshot view of
                       None \<Rightarrow> snapshots
                     | Some snapshot \<Rightarrow> snapshots @ [(e, snapshot)]))
      | _ \<Rightarrow> snapshots)"

definition getLatestUserTransferSnapshots ::
  "storage \<Rightarrow> string \<Rightarrow> string list \<Rightarrow> (string \<times> ClaimTransferSnapshot) list" where
  "getLatestUserTransferSnapshots s userId eventIds =
     (let normalizedUserId = normalizeUserId (JStr userId) in
      if normalizedUserId = [] \<or> eventIds = [] then []
      else fold (snapshotStep normalizedUserId eventIds) (newestAuditRows s) [])"

definition getLatestUserTransferSnapshot :: "storage \<Rightarrow> string \<Rightarrow> string \<Rightarrow> ClaimTransferSnapshot option" where
  "getLatestUserTransferSnapshot s userId eventId =
     map_of (getLatestUserTransferSnapshots s userId [eventId]) eventId"

text \<open>The first row that is not skipped decides.\<close>

definition first_some :: "('a \<Rightarrow> 'b option) \<Rightarrow> 'a list \<Rightarrow> 'b option" where
  "first_some f xs = (case List.map_filter f xs of [] \<Rightarrow> None | y # _ \<Rightarrow> Some y)"

definition getLatestWalletTransferSnapshot ::
  "storage \<Rightarrow> string \<Rightarrow> string option \<Rightarrow> string option \<Rightarrow> ClaimTransferSnapshot option" where
  "getLatestWalletTransferSnapshot s eventIdRaw walletAddress joinToken =
     (let eventId = js_trim eventIdRaw in
      if eventId = [] \<or> (normOpt walletAddress = None \<and> normOpt joinToken = None) then None
      else first_some
        (\<lambda>value. if \<not> is_obj value \<or> jget value ''event'' \<noteq> JStr ''WALLET_CLAIM''
                    \<or> jget value ''eventId'' \<noteq> JStr eventId then None
                 else Option.bind (toTransferLogView value) (\<lambda>view.
                   Option.bind (buildClaimTransferSnapshot view) (\<lambda>snapshot.
                     if matchesWalletTransferSubject view walletAddress joinToken then Some snapshot else None)))
        (newestAuditRows s))"

section \<open>Confirmed on-chain claims and their quota\<close>

text \<open>\<open>resolveClaimPolicy\<close> of \<open>storeDO.ts\<close>, which is not the one of \<open>claimLogic.ts\<close>\<close>

definition storePolicyNumber :: "js \<Rightarrow> int \<Rightarrow> int" where
  "storePolicyNumber v dflt = (case v of JNum r \<Rightarrow> (if r > 0 then \<lfloor>r\<rfloor> else dflt) | _ \<Rightarrow> dflt)"

definition storeResolveClaimPolicy :: "js \<Rightarrow> ClaimPolicy" where
  "storeResolveClaimPolicy event =
     \<lparr>cp_claimIntervalDays = storePolicyNumber (jget event ''claimIntervalDays'') 30,
      cp_maxClaimsPerInterval =
        (if jget event ''maxClaimsPerInterval'' = JNull then None
         else Some (storePolicyNumber (jget event ''maxClaimsPerInterval'') 1))\<rparr>"

definition buildClaimQuotaStatusFromConfirmedOnchainClaims ::
  "js \<Rightarrow> ConfirmedOnchainClaim list \<Rightarrow> int \<Rightarrow> ClaimQuotaStatus" where
  "buildClaimQuotaStatusFromConfirmedOnchainClaims event claims now =
     (let policy = storeResolveClaimPolicy event;
          windowMs = claimWindowMs policy;
          windowStart = now - windowMs;
          inWin = filter (\<lambda>c. oc_at c \<ge> windowStart) claims
      in case cp_maxClaimsPerInterval policy of
           None \<Rightarrow>
             \<lparr>q_claimIntervalDays = cp_claimIntervalDays policy, q_maxClaimsPerInterval = None,
              q_claimsUsedInCurrentInterval = int (length inWin), q_remainingClaimsInCurrentInterval = None,
              q_canClaimNow = True, q_nextAvailableAt = None\<rparr>
         | Some maxClaims \<Rightarrow>
             (let remaining = max (maxClaims - int (length inWin)) 0;
                  nextAvailableAt =
                    (if remaining = 0 then
                       (let thresholdIndex = nat (max 0 (int (length inWin) - maxClaims)) in
                        if thresholdIndex < length inWin
                        then Some (oc_at (inWin ! thresholdIndex) + windowMs) else None)
                     else None)
              in \<lparr>q_claimIntervalDays = cp_claimIntervalDays policy, q_maxClaimsPerInterval = Some maxClaims,
                  q_claimsUsedInCurrentInterval = int (length inWin),
                  q_remainingClaimsInCurrentInterval = Some remaining,
                  q_canClaimNow = (remaining > 0),
                  q_nextAvailableAt =
                    (case nextAvailableAt of Some n \<Rightarrow> (if n \<noteq> 0 then Some n else None) | None \<Rightarrow> None)\<rparr>))"

definition buildConfirmedOnchainClaim :: "js \<Rightarrow> TransferLogView \<Rightarrow> ConfirmedOnchainClaim option" where
  "buildConfirmedOnchainClaim entry view =
     (let txSignature = normOpt (ta_txSignature (tv_transfer view));
          receiptPubkey = normOpt (ta_receiptPubkey (tv_transfer view))
      in if txSignature = None \<and> receiptPubkey = None then None
         else case js_Date_parse (jget entry ''ts'') of
                None \<Rightarrow> None
              | Some t \<Rightarrow>
                  (if t \<le> 0 then None
                   else Some \<lparr>oc_at = t, oc_confirmationCode = normalizeStringField (jget (entryData entry) ''confirmationCode''),
                          oc_txSignature = txSignature, oc_receiptPubkey = receiptPubkey\<rparr>))"

definition confirmedRow :: "string \<Rightarrow> string \<Rightarrow> (TransferLogView \<Rightarrow> bool) \<Rightarrow> js \<Rightarrow> ConfirmedOnchainClaim option" where
  "confirmedRow eventId auditEvent matches value =
     (if \<not> is_obj value \<or> jget value ''event'' \<noteq> JStr auditEvent \<or> jget value ''eventId'' \<noteq> JStr eventId then None
      else case toTransferLogView value of
             None \<Rightarrow> None
           | Some view \<Rightarrow> if matches view then buildConfirmedOnchainClaim value view else None)"

text \<open>\<open>claim.txSignature ?? `receipt:${claim.receiptPubkey}`\<close>\<close>

definition dedupeKey :: "ConfirmedOnchainClaim \<Rightarrow> string" where
  "dedupeKey c = (case oc_txSignature c of
     Some tx \<Rightarrow> tx
   | None \<Rightarrow> ''receipt:'' @ (case oc_receiptPubkey c of Some r \<Rightarrow> r | None \<Rightarrow> ''undefined''))"

text \<open>The loop: \<open>deduped\<close> holds the keys seen so far.\<close>

fun dedupeClaims :: "string list \<Rightarrow> ConfirmedOnchainClaim list \<Rightarrow> ConfirmedOnchainClaim list" where
  "dedupeClaims deduped [] = []"
| "dedupeClaims deduped (c # cs) =
     (if dedupeKey c \<in> set deduped then dedupeClaims deduped cs
      else c # dedupeClaims (dedupeKey c # deduped) cs)"

definition collectConfirmedOnchainClaims ::
  "storage \<Rightarrow> string \<Rightarrow> string \<Rightarrow> (TransferLogView \<Rightarrow> bool) \<Rightarrow> ConfirmedOnchainClaim list" where
  "collectConfirmedOnchainClaims s eventId auditEvent matches =
     dedupeClaims [] (List.map_filter (confirmedRow eventId auditEvent matches) (newestAuditRows s))"

definition walletOnchainClaims :: "storage \<Rightarrow> string \<Rightarrow> string option \<Rightarrow> string option \<Rightarrow> ConfirmedOnchainClaim list" where
  "walletOnchainClaims s eventId walletAddress joinToken =
     collectConfirmedOnchainClaims s eventId ''WALLET_CLAIM'' (\<lambda>view. matchesWalletTransferSubject view walletAddress joinToken)"

definition userOnchainClaims :: "storage \<Rightarrow> string \<Rightarrow> string \<Rightarrow> ConfirmedOnchainClaim list" where
  "userOnchainClaims s eventId userId =
     collectConfirmedOnchainClaims s eventId ''USER_CLAIM'' (\<lambda>view. matchesUserTransferSubject view userId)"

definition getWalletOnchainClaimQuotaStatus ::
  "storage \<Rightarrow> string \<Rightarrow> js \<Rightarrow> string option \<Rightarrow> string option \<Rightarrow> int \<Rightarrow> ClaimQuotaStatus" where
  "getWalletOnchainClaimQuotaStatus s eventId event walletAddress joinToken now =
     buildClaimQuotaStatusFromConfirmedOnchainClaims event (walletOnchainClaims s eventId walletAddress joinToken) now"

definition getUserOnchainClaimQuotaStatus :: "storage \<Rightarrow> string \<Rightarrow> js \<Rightarrow> string \<Rightarrow> int \<Rightarrow> ClaimQuotaStatus" where
  "getUserOnchainClaimQuotaStatus s eventId event userId now =
     buildClaimQuotaStatusFromConfirmedOnchainClaims event (userOnchainClaims s eventId userId) now"

definition hasConfirmedWalletOnchainClaimForCode ::
  "storage \<Rightarrow> string \<Rightarrow> string \<Rightarrow> string option \<Rightarrow> string option \<Rightarrow> bool" where
  "hasConfirmedWalletOnchainClaimForCode s eventId confirmationCode walletAddress joinToken =
     list_ex (\<lambda>c. oc_confirmationCode c = Some confirmationCode) (walletOnchainClaims s eventId walletAddress joinToken)"

definition hasConfirmedUserOnchainClaimForCode :: "storage \<Rightarrow> string \<Rightarrow> string \<Rightarrow> string \<Rightarrow> bool" where
  "hasConfirmedUserOnchainClaimForCode s eventId confirmationCode userId =
     list_ex (\<lambda>c. oc_confirmationCode c = Some confirmationCode) (userOnchainClaims s eventId userId)"

definition getConfirmedWalletOnchainClaimByCode ::
  "storage \<Rightarrow> string \<Rightarrow> string \<Rightarrow> string option \<Rightarrow> string option \<Rightarrow> ConfirmedOnchainClaim option" where
  "getConfirmedWalletOnchainClaimByCode s eventId confirmationCode walletAddress joinToken =
     find (\<lambda>c. oc_confirmationCode c = Some confirmationCode) (walletOnchainClaims s eventId walletAddress joinToken)"

definition getConfirmedUserOnchainClaimByCode ::
  "storage \<Rightarrow> string \<Rightarrow> string \<Rightarrow> string \<Rightarrow> ConfirmedOnchainClaim option" where
  "getConfirmedUserOnchainClaimByCode s eventId confirmationCode userId =
     find (\<lambda>c. oc_confirmationCode c = Some confirmationCode) (userOnchainClaims s eventId userId)"

section \<open>Tickets of a user\<close>

record UserTicketSyncItem =
  ut_eventId :: string
  ut_eventName :: js
  ut_claimedAt :: int
  ut_confirmationCode :: "string option"
  ut_auditReceiptId :: "string option"
  ut_auditReceiptHash :: "string option"
  ut_txSignature :: "string option"
  ut_receiptPubkey :: "string option"
  ut_mint :: "string option"
  ut_claimQuota :: ClaimQuotaStatus

text \<open>\<open>...(x ? { k: x } : {})\<close> drops a missing and an empty string.\<close>

definition filled :: "string option \<Rightarrow> string option" where
  "filled x = (if x = Some [] then None else x)"

definition userTicketItem ::
  "storage \<Rightarrow> string \<Rightarrow> js list \<Rightarrow> (string \<times> ClaimTransferSnapshot) list \<Rightarrow> int \<Rightarrow> SubjectClaim \<Rightarrow> UserTicketSyncItem" where
  "userTicketItem s userId events snapshots now claim =
     (let eventId = sc_eventId claim;
          event = (case find (\<lambda>e. jget e ''id'' = JStr eventId) (rev events) of Some e \<Rightarrow> e | None \<Rightarrow> JUndef);
          snapshot = map_of snapshots eventId;
          receipt = parseParticipationTicketReceipt (sto_get s (ticketReceiptBySubjectKey eventId userId));
          mint = (case Option.bind snapshot ts_mint of
                    Some m \<Rightarrow> Some m | None \<Rightarrow> normalizeStringField (jget event ''solanaMint''));
          confirmationCode = (case sc_confirmationCode claim of
                                Some c \<Rightarrow> Some c | None \<Rightarrow> map_option pr_confirmationCode receipt)
      in \<lparr>ut_eventId = eventId,
          ut_eventName = (if nullish (jget event ''title'') then JStr eventId else jget event ''title''),
          ut_claimedAt = sc_claimedAt claim,
          ut_confirmationCode = filled confirmationCode,
          ut_auditReceiptId = filled (map_option pr_receiptId receipt),
          ut_auditReceiptHash = filled (map_option pr_receiptHash receipt),
          ut_txSignature = filled (Option.bind snapshot ts_txSignature),
          ut_receiptPubkey = filled (Option.bind snapshot ts_receiptPubkey),
          ut_mint = filled mint,
          ut_claimQuota = getUserOnchainClaimQuotaStatus s eventId event userId now\<rparr>)"

definition buildUserTicketSyncItems :: "storage \<Rightarrow> string \<Rightarrow> int \<Rightarrow> UserTicketSyncItem list" where
  "buildUserTicketSyncItems s userId now =
     (let normalizedUserId = normalizeUserId (JStr userId) in
      if normalizedUserId = [] then []
      else let claims = getClaimsBySubject doStorageAdapter s normalizedUserId in
        if claims = [] then []
        else let snapshots = getLatestUserTransferSnapshots s normalizedUserId (remdups (map sc_eventId claims))
          in sort_key (\<lambda>t. - ut_claimedAt t)
               (map (userTicketItem s normalizedUserId (getEvents doStorageAdapter s) snapshots now) claims))"

end
