(* ===== verification/Transfer_Spec.thy ===== *)
theory Transfer_Spec
  imports Transfer_Log Record_Slot
begin

text \<open>
  What the transfer log promises: a written transfer is read back unchanged, confirmed on-chain claims are counted once
  per transaction, and the quota computed from them.
\<close>

section \<open>Reading back\<close>

lemma normalize_full_str [simp]: "full x \<Longrightarrow> normalizeStringField (JStr x) = Some x"
  by (simp add: full_def normalizeStringField_def)

lemma normalize_full_opt: "pred_option full x \<Longrightarrow> normalizeStringField (jstr_null x) = x"
  by (cases x) (simp_all add: jstr_null_def normalizeStringField_def full_def)

lemma normalized_full: "pred_option full (normalizeStringField v)"
  using trimmed_str_Some [of v] by (auto simp: normalizeStringField_def full_def option.pred_set)

lemma normalized_SomeD: "normalizeStringField v = Some t \<Longrightarrow> full t"
  using trimmed_str_Some [of v t] by (simp add: normalizeStringField_def full_def)

lemma full_grant: "full e \<Longrightarrow> full (''grant:'' @ e)"
proof -
  assume "full e"
  then have "trimmed e" "e \<noteq> []" using trimmed_js_trim [of e] by (simp_all add: full_def)
  then have "trimmed (''grant:'' @ e)" by (auto simp: trimmed_def is_ws_def)
  then show "full (''grant:'' @ e)" using js_trim_trimmed_id by (simp add: full_def)
qed

definition transfer_wf :: "TransferAuditPayload \<Rightarrow> bool" where
  "transfer_wf t = (full (tp_type (ta_sender t)) \<and> full (tp_id (ta_sender t)) \<and> full (tp_type (ta_recipient t))
     \<and> full (tp_id (ta_recipient t)) \<and> pred_option full (ta_mint t) \<and> pred_option full (ta_txSignature t)
     \<and> pred_option full (ta_receiptPubkey t)
     \<and> (ta_asset t = Asset_participation_receipt \<longrightarrow> ta_amount t = None \<and> ta_mint t = None))"

lemma party_back: "full (tp_type p) \<Longrightarrow> full (tp_id p) \<Longrightarrow> normalizeTransferParty (partyToJs p) = Some p"
  by (simp add: normalizeTransferParty_def partyToJs_def)

lemma mode_back: "(if normalizeStringField (JStr (transferModeStr m)) = Some ''onchain'' then Mode_onchain else Mode_offchain) = m"
  by (cases m) (simp_all add: normalizeStringField_def, code_simp+)

lemma asset_back:
  "normalizeStringField (JStr (transferAssetStr a)) = Some (transferAssetStr a)"
  by (cases a) (simp_all add: normalizeStringField_def, code_simp+)

lemma amount_back: "normalizeNumberField (case x of None \<Rightarrow> JNull | Some r \<Rightarrow> JNum r) = x"
  by (cases x) (simp_all add: normalizeNumberField_def)

lemma structured_back:
  assumes "transfer_wf t" "jget data ''transfer'' = transferToJs t"
  shows "parseStructuredTransferPayload data = Some t"
proof -
  let ?o = "transferToJs t"
  have f: "jget ?o ''mode'' = JStr (transferModeStr (ta_mode t))" "jget ?o ''asset'' = JStr (transferAssetStr (ta_asset t))"
    "jget ?o ''amount'' = (case ta_amount t of None \<Rightarrow> JNull | Some r \<Rightarrow> JNum r)" "jget ?o ''mint'' = jstr_null (ta_mint t)"
    "jget ?o ''txSignature'' = jstr_null (ta_txSignature t)" "jget ?o ''receiptPubkey'' = jstr_null (ta_receiptPubkey t)"
    "jget ?o ''sender'' = partyToJs (ta_sender t)" "jget ?o ''recipient'' = partyToJs (ta_recipient t)" "is_obj ?o"
    by (simp_all add: transferToJs_def)
  have w: "normalizeTransferParty (partyToJs (ta_sender t)) = Some (ta_sender t)"
    "normalizeTransferParty (partyToJs (ta_recipient t)) = Some (ta_recipient t)"
    "normalizeStringField (jstr_null (ta_mint t)) = ta_mint t"
    "normalizeStringField (jstr_null (ta_txSignature t)) = ta_txSignature t"
    "normalizeStringField (jstr_null (ta_receiptPubkey t)) = ta_receiptPubkey t"
    using assms(1) by (auto simp: transfer_wf_def intro: party_back normalize_full_opt)
  show ?thesis using assms(1)
    by (cases "ta_asset t")
      (simp_all only: parseStructuredTransferPayload_def Let_def assms(2) f w mode_back asset_back amount_back, simp_all add: transfer_wf_def)
qed

lemma built_transfer_wf:
  assumes "full e" "full (tp_type r)" "full (tp_id r)"
  shows "transfer_wf (buildClaimTransferPayload e ev r tx rp)"
  using assms full_grant [OF assms(1)] normalized_full
  by (auto simp: transfer_wf_def buildClaimTransferPayload_def Let_def full_def [of "''grant_authority''"] js_trim_def is_ws_def
      option.pred_set dest: normalized_SomeD split: option.splits)

section \<open>One claim per transaction\<close>

lemma dedupeClaims_keys:
  "distinct (map dedupeKey (dedupeClaims seen cs)) \<and> set (map dedupeKey (dedupeClaims seen cs)) = set (map dedupeKey cs) - set seen"
proof (induction seen cs rule: dedupeClaims.induct)
  case (2 seen c cs)
  then show ?case by (cases "dedupeKey c \<in> set seen") (simp_all, blast+)
qed simp

lemma dedupeClaims_newest:
  "c \<in> set (dedupeClaims seen cs) \<longleftrightarrow> dedupeKey c \<notin> set seen \<and> find (\<lambda>d. dedupeKey d = dedupeKey c) cs = Some c"
proof (induction seen cs rule: dedupeClaims.induct)
  case (2 seen d cs)
  show ?case
  proof (cases "dedupeKey d \<in> set seen")
    case True
    then show ?thesis using 2(1) by auto
  next
    case False
    then show ?thesis using 2(2) by auto
  qed
qed simp

lemma dedupeClaims_subseq: "subseq (dedupeClaims seen cs) cs"
  by (induction seen cs rule: dedupeClaims.induct) auto

lemma distinct_dedupeClaims: "distinct (dedupeClaims seen cs)"
  using dedupeClaims_keys [of seen cs] by (simp add: distinct_map)

definition newestOf :: "ConfirmedOnchainClaim list \<Rightarrow> string \<Rightarrow> ConfirmedOnchainClaim option" where
  "newestOf cs k = find (\<lambda>c. dedupeKey c = k) cs"

lemma newestOf_key: "newestOf cs k = Some c \<Longrightarrow> dedupeKey c = k"
  by (auto simp: newestOf_def find_Some_iff)

lemma length_filter_dedupe:
  "length (filter P (dedupeClaims [] cs)) = card {k. \<exists>c. newestOf cs k = Some c \<and> P c}"
proof -
  let ?d = "filter P (dedupeClaims [] cs)"
  have "inj_on dedupeKey (set (dedupeClaims [] cs))"
    using dedupeClaims_keys [of "[]" cs] by (simp add: distinct_map)
  then have inj: "inj_on dedupeKey (set ?d)" by (rule inj_on_subset) auto
  have "length ?d = card (set ?d)" using distinct_card [of ?d] distinct_dedupeClaims [of "[]" cs] by simp
  also have "\<dots> = card (dedupeKey ` set ?d)" using card_image [OF inj] by simp
  also have "dedupeKey ` set ?d = {k. \<exists>c. newestOf cs k = Some c \<and> P c}"
    by (auto simp: dedupeClaims_newest newestOf_def image_iff find_Some_iff; metis)
  finally show ?thesis .
qed

lemma onchain_quota_used:
  "q_claimsUsedInCurrentInterval (buildClaimQuotaStatusFromConfirmedOnchainClaims ev cs now)
     = int (length (filter (\<lambda>c. oc_at c \<ge> now - claimWindowMs (storeResolveClaimPolicy ev)) cs))"
  by (simp add: buildClaimQuotaStatusFromConfirmedOnchainClaims_def Let_def split: option.splits)

lemma onchain_quota_can:
  "q_canClaimNow (buildClaimQuotaStatusFromConfirmedOnchainClaims ev cs now)
     = (case cp_maxClaimsPerInterval (storeResolveClaimPolicy ev) of
          None \<Rightarrow> True
        | Some m \<Rightarrow> int (length (filter (\<lambda>c. oc_at c \<ge> now - claimWindowMs (storeResolveClaimPolicy ev)) cs)) < m)"
  by (simp add: buildClaimQuotaStatusFromConfirmedOnchainClaims_def Let_def split: option.splits) linarith?


lemma late_threshold:
  assumes m: "cp_maxClaimsPerInterval (storeResolveClaimPolicy ev) = Some (int (length cs))" and ne: "cs \<noteq> []"
    and win: "\<forall>c \<in> set cs. oc_at c \<ge> now - claimWindowMs (storeResolveClaimPolicy ev)"
  shows "q_nextAvailableAt (buildClaimQuotaStatusFromConfirmedOnchainClaims ev cs now)
    = (let n = oc_at (hd cs) + claimWindowMs (storeResolveClaimPolicy ev) in if n \<noteq> 0 then Some n else None)"
proof -
  have "filter (\<lambda>c. now - claimWindowMs (storeResolveClaimPolicy ev) \<le> oc_at c) cs = cs" using win by simp
  then show ?thesis using m ne
    by (simp add: buildClaimQuotaStatusFromConfirmedOnchainClaims_def Let_def hd_conv_nth)
qed

section \<open>Properties\<close>

text \<open>
  The transfer of a claim survives the audit log: whatever transaction or receipt was reported, the payload that
  \<open>buildClaimTransferPayload\<close> puts into the data of an audit entry is the one that a later reading of that entry
  shows, for the master with the personal data of the entry and for an administrator without.
\<close>

theorem transfer_roundtrip:
  assumes "full eventId" "full (tp_type recipient)" "full (tp_id recipient)"
    and "jget (entryData entry) ''transfer'' = transferToJs (buildClaimTransferPayload eventId event recipient tx receipt)"
  shows "\<exists>view. toTransferLogView entry = Some view
    \<and> tv_transfer (applyTransferRoleView view role) = buildClaimTransferPayload eventId event recipient tx receipt
    \<and> tv_pii (applyTransferRoleView view role) = (if role = RoleView_master then extractTransferPii (entryData entry) else None)"
  using structured_back [OF built_transfer_wf [OF assms(1-3)] assms(4)]
  by (cases role) (simp_all add: toTransferLogView_def)

definition sampleClaimEntry :: js where
  "sampleClaimEntry = JObj [(''ts'', JStr ''2026-02-02T09:00:00.000Z''), (''event'', JStr ''USER_CLAIM''), (''eventId'', JStr ''evt-001''),
     (''data'', JObj [(''transfer'', transferToJs (buildClaimTransferPayload ''evt-001'' (JObj [])
        \<lparr>tp_type = ''user'', tp_id = ''alice''\<rparr> (JStr '' TX1 '') JUndef)), (''pii'', JObj [(''userId'', JStr ''alice'')])])]"

theorem transfer_roundtrip_witness:
  "\<exists>view. toTransferLogView sampleClaimEntry = Some view
    \<and> tv_transfer view = buildClaimTransferPayload ''evt-001'' (JObj []) \<lparr>tp_type = ''user'', tp_id = ''alice''\<rparr> (JStr '' TX1 '') JUndef
    \<and> tv_pii view = Some [(''userId'', ''alice'')]"
proof -
  have f: "full ''evt-001''" "full ''user''" "full ''alice''" by (simp_all add: full_def js_trim_def is_ws_def)
  have e: "jget (entryData sampleClaimEntry) ''transfer''
      = transferToJs (buildClaimTransferPayload ''evt-001'' (JObj []) \<lparr>tp_type = ''user'', tp_id = ''alice''\<rparr> (JStr '' TX1 '') JUndef)"
    by (simp add: sampleClaimEntry_def entryData_def nullish_def)
  have p: "extractTransferPii (entryData sampleClaimEntry) = Some [(''userId'', ''alice'')]" by code_simp
  show ?thesis
    using transfer_roundtrip [where recipient = "\<lparr>tp_type = ''user'', tp_id = ''alice''\<rparr>" and role = RoleView_master, OF f(1) _ _ e] f p
    by simp
qed

text \<open>
  C23. The on-chain quota of a user counts transactions: \<open>canClaimNow\<close> holds exactly when the event has no limit or
  fewer transactions than the limit have their newest confirmation inside the window that ends now. Only the 5000 newest
  entries of the audit log are scanned, to which every API request adds one: an older confirmation does not count.
\<close>

theorem onchain_quota_exact:
  "let confirmed = List.map_filter (confirmedRow eventId ''USER_CLAIM'' (\<lambda>view. matchesUserTransferSubject view userId)) (newestAuditRows s);
       policy = storeResolveClaimPolicy event;
       used = card {k. \<exists>c. newestOf confirmed k = Some c \<and> now - claimWindowMs policy \<le> oc_at c};
       quota = getUserOnchainClaimQuotaStatus s eventId event userId now
   in q_claimsUsedInCurrentInterval quota = int used
      \<and> q_canClaimNow quota = (case cp_maxClaimsPerInterval policy of None \<Rightarrow> True | Some m \<Rightarrow> int used < m)"
  by (simp add: Let_def getUserOnchainClaimQuotaStatus_def userOnchainClaims_def collectConfirmedOnchainClaims_def
      onchain_quota_used onchain_quota_can length_filter_dedupe split: option.splits)

text \<open>
  The time shown when the quota is used up can be later than the time at which a claim is possible again. The
  claims come newest first; with exactly as many as the limit allows inside the window, \<open>nextAvailableAt\<close> is a
  window after the newest claim, although a claim is possible as soon as the oldest has left the window.
\<close>

theorem onchain_next_available_late:
  assumes lim: "cp_maxClaimsPerInterval (storeResolveClaimPolicy event) = Some (int (length cs))" and two: "cs = newest # rest @ [oldest]"
    and order: "sorted_wrt (\<lambda>a b. oc_at a > oc_at b) cs" and pos: "0 < oc_at oldest"
    and win: "now - claimWindowMs (storeResolveClaimPolicy event) \<le> oc_at oldest"
    and w: "0 \<le> claimWindowMs (storeResolveClaimPolicy event)"
    and free: "oc_at oldest + claimWindowMs (storeResolveClaimPolicy event) < t"
  shows "q_nextAvailableAt (buildClaimQuotaStatusFromConfirmedOnchainClaims event cs now)
           = Some (oc_at newest + claimWindowMs (storeResolveClaimPolicy event))
     \<and> oc_at oldest < oc_at newest
     \<and> q_canClaimNow (buildClaimQuotaStatusFromConfirmedOnchainClaims event cs t)"
proof -
  let ?w = "claimWindowMs (storeResolveClaimPolicy event)"
  have ge: "\<forall>c \<in> set cs. oc_at oldest \<le> oc_at c" using order two by (auto simp: sorted_wrt_append)
  have n: "q_nextAvailableAt (buildClaimQuotaStatusFromConfirmedOnchainClaims event cs now) = Some (oc_at newest + ?w)"
  proof -
    have "\<forall>c \<in> set cs. now - ?w \<le> oc_at c" using ge win by force
    moreover have "oc_at newest + ?w > 0" using ge pos w two by auto
    ultimately show ?thesis using late_threshold [OF lim, of now] two by (simp add: Let_def)
  qed
  have "length (filter (\<lambda>c. t - ?w \<le> oc_at c) cs) < length cs"
    by (rule length_filter_less [of oldest]) (use two free in auto)
  then have "q_canClaimNow (buildClaimQuotaStatusFromConfirmedOnchainClaims event cs t)"
    by (simp add: onchain_quota_can lim)
  with n show ?thesis using order two by (auto simp: sorted_wrt_append)
qed

definition twiceEvent :: js where
  "twiceEvent = JObj [(''claimIntervalDays'', JInt 1), (''maxClaimsPerInterval'', JInt 2)]"

definition sampleOnchain :: "int \<Rightarrow> string \<Rightarrow> ConfirmedOnchainClaim" where
  "sampleOnchain t tx = \<lparr>oc_at = t, oc_confirmationCode = None, oc_txSignature = Some tx, oc_receiptPubkey = None\<rparr>"

theorem onchain_next_available_late_witness:
  "q_nextAvailableAt (buildClaimQuotaStatusFromConfirmedOnchainClaims twiceEvent [sampleOnchain 80000000 ''B'', sampleOnchain 1000 ''A''] 80000001)
       = Some 166400000
   \<and> q_canClaimNow (buildClaimQuotaStatusFromConfirmedOnchainClaims twiceEvent [sampleOnchain 80000000 ''B'', sampleOnchain 1000 ''A''] 86401001)"
proof -
  have p: "storeResolveClaimPolicy twiceEvent = \<lparr>cp_claimIntervalDays = 1, cp_maxClaimsPerInterval = Some 2\<rparr>"
    by (simp add: storeResolveClaimPolicy_def twiceEvent_def storePolicyNumber_def)
  show ?thesis
    using onchain_next_available_late [where event = twiceEvent and rest = "[]" and cs = "[sampleOnchain 80000000 ''B'', sampleOnchain 1000 ''A'']"
        and newest = "sampleOnchain 80000000 ''B''" and oldest = "sampleOnchain 1000 ''A''" and now = 80000001 and t = 86401001]
    by (simp add: p claimWindowMs_def sampleOnchain_def)
qed

end
