(* ===== verification/Handler_Base.thy ===== *)
theory Handler_Base
  imports Admin_Governance Record_Slot
begin

text \<open>
  What the request handlers of \<open>storeDO.ts\<close> share: a handler leaves a storage behind also when it throws (the caller
  answers 500 and rolls nothing back), a response from a body and a status, the audit entry appended at the end, and
  that appending touches no key outside the audit log.
\<close>

type_synonym outcome = "storage \<times> Response or_error"

definition respond :: "storage \<Rightarrow> js \<Rightarrow> int \<Rightarrow> outcome" where
  "respond s body status = (s, Inr (json_response body status))"

text \<open>When appending throws, what was written before stays.\<close>

definition appendThen ::
  "(string \<Rightarrow> string) \<Rightarrow> Env \<Rightarrow> AuditServices \<Rightarrow> storage \<Rightarrow> int \<Rightarrow> string \<Rightarrow> js \<Rightarrow> js \<Rightarrow> string
     \<Rightarrow> (storage \<Rightarrow> js \<Rightarrow> outcome) \<Rightarrow> outcome" where
  "appendThen H env svc s nowMs event actor data eventId k =
     (case appendAuditLog H env svc s nowMs event actor data eventId of
        Inl e \<Rightarrow> (s, Inl e)
      | Inr (s', entry) \<Rightarrow> k s' entry)"

definition auditActor :: "string \<Rightarrow> string \<Rightarrow> js" where
  "auditActor ty ident = JObj [(''type'', JStr ty), (''id'', JStr ident)]"

definition operatorActor :: "OperatorIdentity \<Rightarrow> js" where
  "operatorActor operator = auditActor (if op_role operator = RoleMaster then ''master'' else ''admin'') (op_actorId operator)"

lemma respond_simps [simp]: "fst (respond s b c) = s" "snd (respond s b c) = Inr (json_response b c)"
  by (simp_all add: respond_def)

lemma json_response_simps [simp]: "rs_status (json_response b c) = c" "rs_body (json_response b c) = b"
  by (simp_all add: json_response_def)

lemma appendThen_Inr:
  assumes "snd (appendThen H env svc s n ev a d e k) = Inr r"
  obtains s' entry where "appendAuditLog H env svc s n ev a d e = Inr (s', entry)" "appendThen H env svc s n ev a d e k = k s' entry"
  using assms by (auto simp: appendThen_def split: sum.splits)

section \<open>Appending stays inside the audit log\<close>

lemmas audit_keys = AUDIT_LAST_HASH_GLOBAL_KEY_def streamLastHashKey_def auditHistoryKey_def AUDIT_HISTORY_PREFIX_def
  auditEntryByHashKey_def AUDIT_ENTRY_PREFIX_def

lemma audit_keys_prefix:
  "prefix ''audit'' AUDIT_LAST_HASH_GLOBAL_KEY" "prefix ''audit'' (streamLastHashKey e)"
  "prefix ''audit'' (auditHistoryKey t h)" "prefix ''audit'' (auditEntryByHashKey h)"
  by (simp_all add: audit_keys)

lemma appended_storage:
  assumes "appendAuditLog H env svc s n ev a d e = Inr (s', entry)"
  obtains k1 k2 k3 k4 v1 v2 v3 v4 where "s' = sto_put (sto_put (sto_put (sto_put s k1 v1) k2 v2) k3 v3) k4 v4"
    "list_all (prefix ''audit'') [k1, k2, k3, k4]"
  using assms audit_keys_prefix by (auto simp: appendAuditLog_def Let_def split: sum.splits)

lemma append_get_other:
  assumes "appendAuditLog H env svc s n ev a d e = Inr (s', entry)" "\<not> prefix ''audit'' k"
  shows "sto_get s' k = sto_get s k"
  by (rule appended_storage [OF assms(1)]) (use assms(2) in auto)

lemma append_list_other:
  assumes "appendAuditLog H env svc s n ev a d e = Inr (s', entry)" "\<not> prefix ''audit'' p" "\<not> prefix p ''audit''"
  shows "sto_list s' p = sto_list s p"
proof -
  have k: "\<not> prefix p k" if "prefix ''audit'' k" for k using that assms(2,3) prefix_same_cases by blast
  show ?thesis by (rule appended_storage [OF assms(1)]) (simp add: sto_list_put_other k)
qed

end
