(* ===== verification/Forgery_Guard.thy ===== *)
theory Forgery_Guard
  imports Handler_Base Claim_Logic
begin

text \<open>
  The Cost of Forgery check (\<open>storeDO.ts\<close>): its configuration, the decision taken on the answer of the outside
  scoring service, the cache of decisions per wallet, the overrides that an administrator grants, the enforcement
  that claims and registrations call, and the three endpoints of the remediation workflow. The service is the
  argument \<open>fetch\<close>: from the address, the key and the payload it gives a reply or the error the call threw. The
  readings of the clock within one request are taken as one, \<open>nowMs\<close>; \<open>rnd\<close> are the random bytes of an identifier.
  A handler returns the storage it leaves behind also when it throws.
\<close>

section \<open>Constants and data\<close>

definition COST_OF_FORGERY_DEFAULT_TIMEOUT_MS :: int where "COST_OF_FORGERY_DEFAULT_TIMEOUT_MS = 2500"
definition COST_OF_FORGERY_DEFAULT_MIN_SCORE :: int where "COST_OF_FORGERY_DEFAULT_MIN_SCORE = 70"
definition COST_OF_FORGERY_DEFAULT_VERIFY_PATH :: string where "COST_OF_FORGERY_DEFAULT_VERIFY_PATH = ''/v1/risk/score''"
definition COST_OF_FORGERY_CACHE_PREFIX :: string where "COST_OF_FORGERY_CACHE_PREFIX = ''cost_of_forgery_cache:wallet:''"
definition COST_OF_FORGERY_DEFAULT_CACHE_TTL_SECONDS :: int where "COST_OF_FORGERY_DEFAULT_CACHE_TTL_SECONDS = 300"
definition COST_OF_FORGERY_MAX_CACHE_TTL_SECONDS :: int where "COST_OF_FORGERY_MAX_CACHE_TTL_SECONDS = 24 * 60 * 60"
definition COST_OF_FORGERY_DEFAULT_PUBLIC_MIN_SCORE_OFFSET :: int where "COST_OF_FORGERY_DEFAULT_PUBLIC_MIN_SCORE_OFFSET = 10"
definition COST_OF_FORGERY_REMEDIATION_REQUEST_PREFIX :: string where
  "COST_OF_FORGERY_REMEDIATION_REQUEST_PREFIX = ''cost_of_forgery_remediation:request:''"
definition COST_OF_FORGERY_REMEDIATION_OVERRIDE_PREFIX :: string where
  "COST_OF_FORGERY_REMEDIATION_OVERRIDE_PREFIX = ''cost_of_forgery_remediation:override:''"
definition COST_OF_FORGERY_DEFAULT_REMEDIATION_OVERRIDE_TTL_MINUTES :: int where
  "COST_OF_FORGERY_DEFAULT_REMEDIATION_OVERRIDE_TTL_MINUTES = 24 * 60"
definition COST_OF_FORGERY_MAX_REMEDIATION_OVERRIDE_TTL_MINUTES :: int where
  "COST_OF_FORGERY_MAX_REMEDIATION_OVERRIDE_TTL_MINUTES = 30 * 24 * 60"

definition costOfForgeryRemediationRequestKey :: "string \<Rightarrow> string" where
  "costOfForgeryRemediationRequestKey requestId = COST_OF_FORGERY_REMEDIATION_REQUEST_PREFIX @ requestId"

datatype CostOfForgeryAction = Act_user_register | Act_user_claim | Act_wallet_claim

datatype CostOfForgeryRemediationActionType = Rem_present_pop_receipt | Rem_reissue_invite_code | Rem_request_admin_review

datatype CostOfForgeryRemediationRequestStatus = Rem_pending | Rem_approved | Rem_rejected

datatype CostOfForgeryEvidenceType = Ev_pop_receipt | Ev_invite_code_reissue | Ev_admin_review

datatype CostOfForgerySubjectType = Sub_user | Sub_wallet | Sub_join_token

datatype CostOfForgeryErrorCode = Cof_blocked | Cof_unavailable | Cof_not_configured

datatype EventRiskProfile = Risk_school_internal | Risk_public

record CostOfForgeryDecision =
  fd_allow :: bool
  fd_score :: "rat option"
  fd_reason :: "string option"
  fd_decisionId :: "string option"

text \<open>A score that is \<open>null\<close> or absent is \<open>None\<close>.\<close>

record CostOfForgeryEnforcementError =
  fe_status :: int
  fe_code :: CostOfForgeryErrorCode
  fe_action :: CostOfForgeryAction
  fe_message :: string
  fe_score :: "rat option"
  fe_minScore :: "int option"
  fe_reason :: "string option"
  fe_decisionId :: "string option"
  fe_detail :: "string option"
  fe_remediation :: "js option"

record CostOfForgeryStatus =
  fs_enabled :: bool
  fs_failClosed :: bool
  fs_enforceOnRegister :: bool
  fs_enforceOnClaim :: bool
  fs_minScore :: int
  fs_timeoutMs :: int
  fs_endpointConfigured :: bool
  fs_operationalReady :: bool

record CostOfForgeryWalletCacheRecord =
  fc_wallet :: string
  fc_action :: CostOfForgeryAction
  fc_minScore :: int
  fc_cachedAtMs :: rat
  fc_expiresAtMs :: rat
  fc_decision :: CostOfForgeryDecision

record CostOfForgeryRemediationRequestRecord =
  rr_requestId :: string
  rr_createdAt :: string
  rr_createdAtMs :: rat
  rr_status :: CostOfForgeryRemediationRequestStatus
  rr_action :: CostOfForgeryAction
  rr_eventId :: "string option"
  rr_subjectHash :: string
  rr_subjectMask :: string
  rr_subjectType :: CostOfForgerySubjectType
  rr_evidenceType :: CostOfForgeryEvidenceType
  rr_evidenceNote :: "string option"
  rr_confirmationCode :: "string option"
  rr_popReceiptId :: "string option"
  rr_inviteCodeHint :: "string option"
  rr_requesterIpHash :: string
  rr_resolvedAt :: "string option"
  rr_resolvedAtMs :: "rat option"
  rr_resolvedBy :: "string option"
  rr_resolutionReason :: "string option"
  rr_overrideExpiresAt :: "string option"
  rr_overrideExpiresAtMs :: "rat option"

record CostOfForgeryRemediationOverrideRecord =
  ro_requestId :: string
  ro_action :: CostOfForgeryAction
  ro_eventId :: "string option"
  ro_subjectHash :: string
  ro_approvedAt :: string
  ro_approvedAtMs :: rat
  ro_approvedBy :: string
  ro_reason :: "string option"
  ro_expiresAt :: string
  ro_expiresAtMs :: rat

fun forgeryActionStr :: "CostOfForgeryAction \<Rightarrow> string" where
  "forgeryActionStr Act_user_register = ''user_register''"
| "forgeryActionStr Act_user_claim = ''user_claim''"
| "forgeryActionStr Act_wallet_claim = ''wallet_claim''"

fun remediationStatusStr :: "CostOfForgeryRemediationRequestStatus \<Rightarrow> string" where
  "remediationStatusStr Rem_pending = ''pending''"
| "remediationStatusStr Rem_approved = ''approved''"
| "remediationStatusStr Rem_rejected = ''rejected''"

fun evidenceTypeStr :: "CostOfForgeryEvidenceType \<Rightarrow> string" where
  "evidenceTypeStr Ev_pop_receipt = ''pop_receipt''"
| "evidenceTypeStr Ev_invite_code_reissue = ''invite_code_reissue''"
| "evidenceTypeStr Ev_admin_review = ''admin_review''"

fun subjectTypeStr :: "CostOfForgerySubjectType \<Rightarrow> string" where
  "subjectTypeStr Sub_user = ''user''"
| "subjectTypeStr Sub_wallet = ''wallet''"
| "subjectTypeStr Sub_join_token = ''join_token''"

fun forgeryCodeStr :: "CostOfForgeryErrorCode \<Rightarrow> string" where
  "forgeryCodeStr Cof_blocked = ''cost_of_forgery_blocked''"
| "forgeryCodeStr Cof_unavailable = ''cost_of_forgery_unavailable''"
| "forgeryCodeStr Cof_not_configured = ''cost_of_forgery_not_configured''"

definition jrat_null :: "rat option \<Rightarrow> js" where
  "jrat_null r = (case r of None \<Rightarrow> JNull | Some q \<Rightarrow> JNum q)"

definition decisionToJs :: "CostOfForgeryDecision \<Rightarrow> js" where
  "decisionToJs d = JObj [(''allow'', JBool (fd_allow d)), (''score'', jrat_null (fd_score d)),
     (''reason'', jstr_null (fd_reason d)), (''decisionId'', jstr_null (fd_decisionId d))]"

definition walletCacheToJs :: "CostOfForgeryWalletCacheRecord \<Rightarrow> js" where
  "walletCacheToJs c = JObj [(''wallet'', JStr (fc_wallet c)), (''action'', JStr (forgeryActionStr (fc_action c))),
     (''minScore'', JInt (fc_minScore c)), (''cachedAtMs'', JNum (fc_cachedAtMs c)), (''expiresAtMs'', JNum (fc_expiresAtMs c)),
     (''decision'', decisionToJs (fc_decision c))]"

definition remediationRequestToJs :: "CostOfForgeryRemediationRequestRecord \<Rightarrow> js" where
  "remediationRequestToJs r = JObj [(''requestId'', JStr (rr_requestId r)), (''createdAt'', JStr (rr_createdAt r)),
     (''createdAtMs'', JNum (rr_createdAtMs r)), (''status'', JStr (remediationStatusStr (rr_status r))),
     (''action'', JStr (forgeryActionStr (rr_action r))), (''eventId'', jstr_null (rr_eventId r)),
     (''subjectHash'', JStr (rr_subjectHash r)), (''subjectMask'', JStr (rr_subjectMask r)),
     (''subjectType'', JStr (subjectTypeStr (rr_subjectType r))), (''evidenceType'', JStr (evidenceTypeStr (rr_evidenceType r))),
     (''evidenceNote'', jstr_null (rr_evidenceNote r)), (''confirmationCode'', jstr_null (rr_confirmationCode r)),
     (''popReceiptId'', jstr_null (rr_popReceiptId r)), (''inviteCodeHint'', jstr_null (rr_inviteCodeHint r)),
     (''requesterIpHash'', JStr (rr_requesterIpHash r)), (''resolvedAt'', jstr_null (rr_resolvedAt r)),
     (''resolvedAtMs'', jrat_null (rr_resolvedAtMs r)), (''resolvedBy'', jstr_null (rr_resolvedBy r)),
     (''resolutionReason'', jstr_null (rr_resolutionReason r)), (''overrideExpiresAt'', jstr_null (rr_overrideExpiresAt r)),
     (''overrideExpiresAtMs'', jrat_null (rr_overrideExpiresAtMs r))]"

definition remediationOverrideToJs :: "CostOfForgeryRemediationOverrideRecord \<Rightarrow> js" where
  "remediationOverrideToJs r = JObj [(''requestId'', JStr (ro_requestId r)), (''action'', JStr (forgeryActionStr (ro_action r))),
     (''eventId'', jstr_null (ro_eventId r)), (''subjectHash'', JStr (ro_subjectHash r)),
     (''approvedAt'', JStr (ro_approvedAt r)), (''approvedAtMs'', JNum (ro_approvedAtMs r)),
     (''approvedBy'', JStr (ro_approvedBy r)), (''reason'', jstr_null (ro_reason r)),
     (''expiresAt'', JStr (ro_expiresAt r)), (''expiresAtMs'', JNum (ro_expiresAtMs r))]"

section \<open>Configuration\<close>

text \<open>\<open>(url ?? '').trim().replace(/\\/+$/, '')\<close>\<close>

definition forgeryBaseUrl :: "Env \<Rightarrow> string" where
  "forgeryBaseUrl env = rev (dropWhile (\<lambda>c. c = CHR ''/'') (rev (opt_trim (COST_OF_FORGERY_BASE_URL env))))"

definition getCostOfForgeryStatus :: "Env \<Rightarrow> CostOfForgeryStatus" where
  "getCostOfForgeryStatus env =
     (let endpointConfigured = (forgeryBaseUrl env \<noteq> []);
          enabled = parseBooleanEnv (COST_OF_FORGERY_ENABLED env) endpointConfigured
      in \<lparr>fs_enabled = enabled,
          fs_failClosed = parseBooleanEnv (COST_OF_FORGERY_FAIL_CLOSED env) True,
          fs_enforceOnRegister = parseBooleanEnv (COST_OF_FORGERY_ENFORCE_ON_REGISTER env) True,
          fs_enforceOnClaim = parseBooleanEnv (COST_OF_FORGERY_ENFORCE_ON_CLAIM env) True,
          fs_minScore = parseBoundedInt (COST_OF_FORGERY_MIN_SCORE env) COST_OF_FORGERY_DEFAULT_MIN_SCORE 0 100,
          fs_timeoutMs = parseBoundedInt (COST_OF_FORGERY_TIMEOUT_MS env) COST_OF_FORGERY_DEFAULT_TIMEOUT_MS 200 10000,
          fs_endpointConfigured = endpointConfigured,
          fs_operationalReady = (\<not> enabled \<or> endpointConfigured)\<rparr>)"

definition getCostOfForgeryVerifyUrl :: "Env \<Rightarrow> string option" where
  "getCostOfForgeryVerifyUrl env =
     (let baseUrl = forgeryBaseUrl env; rawPath = opt_trim (COST_OF_FORGERY_VERIFY_PATH env) in
      if baseUrl = [] then None
      else if prefix ''http://'' (js_lower rawPath) \<or> prefix ''https://'' (js_lower rawPath) then Some rawPath
      else let path = (if rawPath = [] then COST_OF_FORGERY_DEFAULT_VERIFY_PATH else rawPath)
           in Some (baseUrl @ (if prefix ''/'' path then [] else ''/'') @ path))"

definition lowerWord :: "js \<Rightarrow> string" where
  "lowerWord raw = (case raw of JStr t \<Rightarrow> js_lower (js_trim t) | _ \<Rightarrow> [])"

definition normalizeEventRiskProfile :: "js \<Rightarrow> EventRiskProfile option" where
  "normalizeEventRiskProfile raw =
     (let normalized = lowerWord raw in
      if normalized = ''school_internal'' then Some Risk_school_internal
      else if normalized = ''public'' then Some Risk_public else None)"

definition resolveEventRiskProfile :: "js \<Rightarrow> EventRiskProfile" where
  "resolveEventRiskProfile event =
     (case normalizeEventRiskProfile (jget event ''riskProfile'') of Some p \<Rightarrow> p | None \<Rightarrow> Risk_school_internal)"

definition isCostOfForgeryFailClosedForAction :: "Env \<Rightarrow> CostOfForgeryAction \<Rightarrow> bool" where
  "isCostOfForgeryFailClosedForAction env action =
     (let override = (if action = Act_user_register then parseOptionalBooleanEnv (COST_OF_FORGERY_FAIL_CLOSED_REGISTER env)
                      else parseOptionalBooleanEnv (COST_OF_FORGERY_FAIL_CLOSED_CLAIM env))
      in case override of Some b \<Rightarrow> b | None \<Rightarrow> fs_failClosed (getCostOfForgeryStatus env))"

definition resolveCostOfForgeryMinScore :: "Env \<Rightarrow> CostOfForgeryAction \<Rightarrow> js \<Rightarrow> int" where
  "resolveCostOfForgeryMinScore env action event =
     (let baseMinScore = fs_minScore (getCostOfForgeryStatus env) in
      if action = Act_user_register then baseMinScore
      else if resolveEventRiskProfile event = Risk_public
      then parseBoundedInt (COST_OF_FORGERY_MIN_SCORE_PUBLIC env)
             (min 100 (baseMinScore + COST_OF_FORGERY_DEFAULT_PUBLIC_MIN_SCORE_OFFSET)) 0 100
      else parseBoundedInt (COST_OF_FORGERY_MIN_SCORE_SCHOOL_INTERNAL env) baseMinScore 0 100)"

definition getCostOfForgeryCacheTtlSeconds :: "Env \<Rightarrow> int" where
  "getCostOfForgeryCacheTtlSeconds env =
     parseBoundedInt (COST_OF_FORGERY_CACHE_TTL_SECONDS env) COST_OF_FORGERY_DEFAULT_CACHE_TTL_SECONDS 0
       COST_OF_FORGERY_MAX_CACHE_TTL_SECONDS"

definition getCostOfForgeryRemediationOverrideTtlMinutes :: "Env \<Rightarrow> int" where
  "getCostOfForgeryRemediationOverrideTtlMinutes env =
     parseBoundedInt (COST_OF_FORGERY_REMEDIATION_OVERRIDE_TTL_MINUTES env)
       COST_OF_FORGERY_DEFAULT_REMEDIATION_OVERRIDE_TTL_MINUTES 5 COST_OF_FORGERY_MAX_REMEDIATION_OVERRIDE_TTL_MINUTES"

definition shouldEnforceCostOfForgeryAction :: "Env \<Rightarrow> CostOfForgeryAction \<Rightarrow> bool" where
  "shouldEnforceCostOfForgeryAction env action =
     (let status = getCostOfForgeryStatus env in
      fs_enabled status \<and> (if action = Act_user_register then fs_enforceOnRegister status else fs_enforceOnClaim status))"

section \<open>Parsing\<close>

definition wordAction :: "string \<Rightarrow> CostOfForgeryAction option" where
  "wordAction normalized =
     (if normalized = ''user_register'' then Some Act_user_register
      else if normalized = ''user_claim'' then Some Act_user_claim
      else if normalized = ''wallet_claim'' then Some Act_wallet_claim else None)"

definition normalizeCostOfForgeryAction :: "js \<Rightarrow> CostOfForgeryAction option" where
  "normalizeCostOfForgeryAction raw = wordAction (lowerWord raw)"

definition normalizeCostOfForgeryEvidenceType :: "js \<Rightarrow> CostOfForgeryEvidenceType option" where
  "normalizeCostOfForgeryEvidenceType raw =
     (let normalized = lowerWord raw in
      if normalized = ''pop_receipt'' then Some Ev_pop_receipt
      else if normalized = ''invite_code_reissue'' then Some Ev_invite_code_reissue
      else if normalized = ''admin_review'' then Some Ev_admin_review else None)"

definition normalizeCostOfForgeryRemediationActionType :: "js \<Rightarrow> CostOfForgeryRemediationActionType option" where
  "normalizeCostOfForgeryRemediationActionType raw =
     (let normalized = lowerWord raw in
      if normalized = ''present_pop_receipt'' then Some Rem_present_pop_receipt
      else if normalized = ''reissue_invite_code'' then Some Rem_reissue_invite_code
      else if normalized = ''request_admin_review'' then Some Rem_request_admin_review else None)"

definition parseCostOfForgeryRemediationRequestStatus :: "js \<Rightarrow> CostOfForgeryRemediationRequestStatus option" where
  "parseCostOfForgeryRemediationRequestStatus raw =
     (let normalized = lowerWord raw in
      if normalized = ''pending'' then Some Rem_pending
      else if normalized = ''approved'' then Some Rem_approved
      else if normalized = ''rejected'' then Some Rem_rejected else None)"

definition parseSubjectType :: "js \<Rightarrow> CostOfForgerySubjectType option" where
  "parseSubjectType raw =
     (let word = normalizeStringField raw in
      if word = Some ''user'' then Some Sub_user
      else if word = Some ''wallet'' then Some Sub_wallet
      else if word = Some ''join_token'' then Some Sub_join_token else None)"

text \<open>The byte in two hexadecimal digits, \<open>b.toString(16).padStart(2, '0')\<close>.\<close>

definition hexByte :: "nat \<Rightarrow> string" where
  "hexByte b = [digit_char (b div 16), digit_char (b mod 16)]"

definition generateCostOfForgeryRemediationRequestId :: "nat list \<Rightarrow> int \<Rightarrow> string" where
  "generateCostOfForgeryRemediationRequestId rnd nowMs =
     ''cof-rem-'' @ nat_digits 36 (nat nowMs) @ ''-'' @ concat (map hexByte rnd)"

definition buildCostOfForgeryRemediationOverrideKey ::
  "(string \<Rightarrow> string) \<Rightarrow> CostOfForgeryAction \<Rightarrow> string option \<Rightarrow> string \<Rightarrow> string" where
  "buildCostOfForgeryRemediationOverrideKey H action eventId subjectHash =
     (let scope = (case eventId of Some e \<Rightarrow> (if e = [] then ''global'' else ''event:'' @ e) | None \<Rightarrow> ''global'')
      in COST_OF_FORGERY_REMEDIATION_OVERRIDE_PREFIX
         @ H (''cof-remediation-override:'' @ forgeryActionStr action @ '':'' @ scope @ '':'' @ subjectHash))"

text \<open>\<open>Number(v)\<close> when it is finite; a field that must be \<open>null\<close> or a finite number.\<close>

definition numberField :: "js \<Rightarrow> rat option" where
  "numberField v = finite_num (js_Number v)"

definition nullableNumber :: "js \<Rightarrow> rat option option" where
  "nullableNumber v = (if v = JNull then Some None else map_option Some (numberField v))"

definition parseCostOfForgeryRemediationRequestRecord :: "js \<Rightarrow> CostOfForgeryRemediationRequestRecord option" where
  "parseCostOfForgeryRemediationRequestRecord raw =
     (if \<not> is_obj raw then None
      else case (normalizeStringField (jget raw ''requestId''), normalizeStringField (jget raw ''createdAt''),
                 numberField (jget raw ''createdAtMs''), parseCostOfForgeryRemediationRequestStatus (jget raw ''status''),
                 normalizeCostOfForgeryAction (jget raw ''action''), normalizeStringField (jget raw ''subjectHash''),
                 normalizeStringField (jget raw ''subjectMask''), parseSubjectType (jget raw ''subjectType''),
                 normalizeCostOfForgeryEvidenceType (jget raw ''evidenceType''), normalizeStringField (jget raw ''requesterIpHash''),
                 nullableNumber (jget raw ''resolvedAtMs''), nullableNumber (jget raw ''overrideExpiresAtMs'')) of
             (Some requestId, Some createdAt, Some createdAtMs, Some status, Some action, Some subjectHash, Some subjectMask,
              Some subjectType, Some evidenceType, Some requesterIpHash, Some resolvedAtMs, Some overrideExpiresAtMs) \<Rightarrow>
               Some \<lparr>rr_requestId = requestId, rr_createdAt = createdAt, rr_createdAtMs = createdAtMs, rr_status = status,
                 rr_action = action, rr_eventId = normalizeStringField (jget raw ''eventId''), rr_subjectHash = subjectHash,
                 rr_subjectMask = subjectMask, rr_subjectType = subjectType, rr_evidenceType = evidenceType,
                 rr_evidenceNote = normalizeStringField (jget raw ''evidenceNote''),
                 rr_confirmationCode = normalizeStringField (jget raw ''confirmationCode''),
                 rr_popReceiptId = normalizeStringField (jget raw ''popReceiptId''),
                 rr_inviteCodeHint = normalizeStringField (jget raw ''inviteCodeHint''), rr_requesterIpHash = requesterIpHash,
                 rr_resolvedAt = normalizeStringField (jget raw ''resolvedAt''), rr_resolvedAtMs = resolvedAtMs,
                 rr_resolvedBy = normalizeStringField (jget raw ''resolvedBy''),
                 rr_resolutionReason = normalizeStringField (jget raw ''resolutionReason''),
                 rr_overrideExpiresAt = normalizeStringField (jget raw ''overrideExpiresAt''),
                 rr_overrideExpiresAtMs = overrideExpiresAtMs\<rparr>
           | _ \<Rightarrow> None)"

definition parseCostOfForgeryRemediationOverrideRecord :: "js \<Rightarrow> CostOfForgeryRemediationOverrideRecord option" where
  "parseCostOfForgeryRemediationOverrideRecord raw =
     (if \<not> is_obj raw then None
      else case (normalizeStringField (jget raw ''requestId''), normalizeCostOfForgeryAction (jget raw ''action''),
                 normalizeStringField (jget raw ''subjectHash''), normalizeStringField (jget raw ''approvedAt''),
                 numberField (jget raw ''approvedAtMs''), normalizeStringField (jget raw ''approvedBy''),
                 normalizeStringField (jget raw ''expiresAt''), numberField (jget raw ''expiresAtMs'')) of
             (Some requestId, Some action, Some subjectHash, Some approvedAt, Some approvedAtMs, Some approvedBy, Some expiresAt,
              Some expiresAtMs) \<Rightarrow>
               Some \<lparr>ro_requestId = requestId, ro_action = action, ro_eventId = normalizeStringField (jget raw ''eventId''),
                 ro_subjectHash = subjectHash, ro_approvedAt = approvedAt, ro_approvedAtMs = approvedAtMs,
                 ro_approvedBy = approvedBy, ro_reason = normalizeStringField (jget raw ''reason''),
                 ro_expiresAt = expiresAt, ro_expiresAtMs = expiresAtMs\<rparr>
           | _ \<Rightarrow> None)"

section \<open>Remediation flow and overrides\<close>

text \<open>The Japanese texts are written as the bytes of their UTF-8 form.\<close>

definition utf8_text :: "nat list \<Rightarrow> string" where
  "utf8_text bytes = map char_of bytes"

definition flowAction :: "string \<Rightarrow> string \<Rightarrow> string \<Rightarrow> string \<Rightarrow> js" where
  "flowAction ty label description endpoint = JObj [(''type'', JStr ty), (''label'', JStr label),
     (''description'', JStr description), (''endpoint'', JStr endpoint), (''method'', JStr ''POST'')]"

definition flowActions :: "CostOfForgeryAction \<Rightarrow> js list" where
  "flowActions action =
     (if action \<noteq> Act_user_register then [flowAction ''present_pop_receipt''
        (utf8_text [80, 111, 80, 227, 131, 172, 227, 130, 183, 227, 131, 188, 227, 131, 136, 229, 134, 141, 230, 143,
           144, 231, 164, 186])
        (utf8_text [231, 162, 186, 232, 170, 141, 227, 130, 179, 227, 131, 188, 227, 131, 137, 227, 129, 168, 80, 111,
           80, 227, 131, 172, 227, 130, 183, 227, 131, 188, 227, 131, 136, 227, 130, 146, 229, 134, 141, 230, 143, 144,
           231, 164, 186, 227, 129, 151, 227, 129, 166, 229, 134, 141, 229, 175, 169, 230, 159, 187, 227, 129, 151, 227,
           129, 190, 227, 129, 153, 227, 128, 130])
        ''/v1/school/pop-proof''] else [])
     @ [flowAction ''reissue_invite_code''
          (utf8_text [230, 139, 155, 229, 190, 133, 227, 130, 179, 227, 131, 188, 227, 131, 137, 229, 134, 141, 231, 153,
           186, 232, 161, 140])
          (utf8_text [230, 139, 155, 229, 190, 133, 227, 130, 179, 227, 131, 188, 227, 131, 137, 229, 134, 141, 231, 153,
           186, 232, 161, 140, 227, 129, 174, 231, 148, 179, 232, 171, 139, 227, 130, 146, 232, 161, 140, 227, 129, 132,
           227, 128, 129, 230, 173, 163, 232, 166, 143, 229, 143, 130, 229, 138, 160, 232, 128, 133, 227, 129, 167, 227,
           129, 130, 227, 130, 139, 227, 129, 147, 227, 129, 168, 227, 130, 146, 232, 163, 156, 229, 188, 183, 227, 129,
           151, 227, 129, 190, 227, 129, 153, 227, 128, 130])
          ''/api/cost-of-forgery/remediation/request'',
        flowAction ''request_admin_review''
          (utf8_text [231, 174, 161, 231, 144, 134, 232, 128, 133, 230, 137, 191, 232, 170, 141, 227, 130, 146, 231, 148,
           179, 232, 171, 139])
          (utf8_text [231, 174, 161, 231, 144, 134, 232, 128, 133, 227, 129, 171, 232, 191, 189, 229, 138, 160, 232, 168,
           188, 232, 183, 161, 227, 129, 174, 227, 131, 172, 227, 131, 147, 227, 131, 165, 227, 131, 188, 227, 129, 168,
           228, 184, 128, 230, 153, 130, 230, 137, 191, 232, 170, 141, 227, 130, 146, 228, 190, 157, 233, 160, 188, 227,
           129, 151, 227, 129, 190, 227, 129, 153, 227, 128, 130])
          ''/api/cost-of-forgery/remediation/request'']"

text \<open>A field of an object literal that is left out when its value is missing or empty.\<close>

definition unlessEmpty :: "string \<Rightarrow> string option \<Rightarrow> (string \<times> js) list" where
  "unlessEmpty k v = (case v of Some t \<Rightarrow> (if t = [] then [] else [(k, JStr t)]) | None \<Rightarrow> [])"

text \<open>The outer option of the score says whether the caller passed one.\<close>

definition buildCostOfForgeryRemediationFlow ::
  "CostOfForgeryAction \<Rightarrow> string option \<Rightarrow> rat option option \<Rightarrow> int option \<Rightarrow> string option \<Rightarrow> string option \<Rightarrow> string \<Rightarrow> js" where
  "buildCostOfForgeryRemediationFlow action eventId score minScore reason decisionId flowId =
     JObj ([(''flowVersion'', JInt 1), (''flowId'', JStr flowId), (''status'', JStr ''required''),
        (''action'', JStr (forgeryActionStr action)), (''requestEndpoint'', JStr ''/api/cost-of-forgery/remediation/request'')]
      @ unlessEmpty ''eventId'' eventId
      @ (case minScore of Some m \<Rightarrow> [(''minScore'', JInt m)] | None \<Rightarrow> [])
      @ (case score of Some sc \<Rightarrow> [(''score'', jrat_null sc)] | None \<Rightarrow> [])
      @ unlessEmpty ''reason'' reason
      @ unlessEmpty ''decisionId'' decisionId
      @ [(''actions'', JArr (flowActions action))])"

definition subjectHashOf :: "(string \<Rightarrow> string) \<Rightarrow> string \<Rightarrow> string" where
  "subjectHashOf H subject = H (''subject:'' @ subject)"

text \<open>One look-up of the loop; \<open>None\<close> is \<open>continue\<close>.\<close>

definition activeOverride ::
  "storage \<Rightarrow> CostOfForgeryAction \<Rightarrow> string option \<Rightarrow> string \<Rightarrow> int \<Rightarrow> string \<Rightarrow> CostOfForgeryRemediationOverrideRecord option" where
  "activeOverride s action eventId subjectHash nowMs key =
     (case parseCostOfForgeryRemediationOverrideRecord (sto_get s key) of
        None \<Rightarrow> None
      | Some r \<Rightarrow>
          (if ro_subjectHash r \<noteq> subjectHash \<or> ro_action r \<noteq> action
              \<or> (ro_eventId r \<noteq> None \<and> ro_eventId r \<noteq> eventId) \<or> ro_expiresAtMs r \<le> of_int nowMs
           then None else Some r))"

text \<open>An \<open>eventId\<close> that is the empty string counts as none.\<close>

definition findActiveCostOfForgeryRemediationOverride ::
  "(string \<Rightarrow> string) \<Rightarrow> storage \<Rightarrow> CostOfForgeryAction \<Rightarrow> string option \<Rightarrow> string option \<Rightarrow> int
     \<Rightarrow> CostOfForgeryRemediationOverrideRecord option" where
  "findActiveCostOfForgeryRemediationOverride H s action eventId0 subject0 nowMs =
     (let eventId = (if eventId0 = Some [] then None else eventId0) in
      case normalizeStringField (jstr_opt subject0) of
        None \<Rightarrow> None
      | Some subject \<Rightarrow>
          (let subjectHash = subjectHashOf H subject;
               look = (\<lambda>scope. activeOverride s action eventId subjectHash nowMs
                         (buildCostOfForgeryRemediationOverrideKey H action scope subjectHash))
           in case (if eventId \<noteq> None then look eventId else None) of
                Some r \<Rightarrow> Some r
              | None \<Rightarrow> look None))"

section \<open>Cache of decisions\<close>

text \<open>\<open>MINT_BASE58_RE\<close>: 32 to 44 characters of the alphabet without \<open>0\<close>, \<open>I\<close>, \<open>O\<close> and \<open>l\<close>\<close>

definition is_base58 :: "char \<Rightarrow> bool" where
  "is_base58 c = (let n = (of_char c :: nat) in
     (49 \<le> n \<and> n \<le> 57) \<or> (65 \<le> n \<and> n \<le> 72) \<or> (74 \<le> n \<and> n \<le> 78) \<or> (80 \<le> n \<and> n \<le> 90)
     \<or> (97 \<le> n \<and> n \<le> 107) \<or> (109 \<le> n \<and> n \<le> 122))"

definition MINT_BASE58_RE :: "string \<Rightarrow> bool" where
  "MINT_BASE58_RE t = (32 \<le> length t \<and> length t \<le> 44 \<and> list_all is_base58 t)"

definition normalizeWalletForCostOfForgeryCache :: "string option \<Rightarrow> string option" where
  "normalizeWalletForCostOfForgeryCache walletAddress =
     (case walletAddress of
        None \<Rightarrow> None
      | Some w \<Rightarrow> if js_trim w = [] \<or> \<not> MINT_BASE58_RE (js_trim w) then None else Some (js_trim w))"

definition clampScore :: "rat \<Rightarrow> rat" where
  "clampScore r = max 0 (min 100 r)"

definition parseCachedDecision :: "js \<Rightarrow> CostOfForgeryDecision option" where
  "parseCachedDecision raw =
     (if \<not> is_obj raw then None
      else case (jget raw ''allow'', jget raw ''score'') of
        (JBool allow, scoreRaw) \<Rightarrow>
          (let score = (case scoreRaw of
                 JNull \<Rightarrow> Some None | JNum r \<Rightarrow> Some (Some (clampScore r)) | JNaN \<Rightarrow> Some None | JInf _ \<Rightarrow> Some None | _ \<Rightarrow> None)
           in map_option (\<lambda>sc. \<lparr>fd_allow = allow, fd_score = sc, fd_reason = string_field (jget raw ''reason''),
                fd_decisionId = string_field (jget raw ''decisionId'')\<rparr>) score)
      | _ \<Rightarrow> None)"

definition parseCostOfForgeryWalletCacheRecord :: "js \<Rightarrow> CostOfForgeryWalletCacheRecord option" where
  "parseCostOfForgeryWalletCacheRecord raw =
     (if \<not> is_obj raw then None
      else let wallet = strField raw ''wallet'' in
        if wallet = [] \<or> \<not> MINT_BASE58_RE wallet then None
        else case (wordAction (strField raw ''action''), numberField (jget raw ''minScore''), numberField (jget raw ''cachedAtMs''),
                   numberField (jget raw ''expiresAtMs''), parseCachedDecision (jget raw ''decision'')) of
               (Some action, Some minScoreRaw, Some cachedAtMs, Some expiresAtMs, Some decision) \<Rightarrow>
                 Some \<lparr>fc_wallet = wallet, fc_action = action, fc_minScore = max 0 (min 100 \<lfloor>minScoreRaw\<rfloor>),
                   fc_cachedAtMs = cachedAtMs, fc_expiresAtMs = expiresAtMs, fc_decision = decision\<rparr>
             | _ \<Rightarrow> None)"

definition buildCostOfForgeryWalletCacheKey :: "(string \<Rightarrow> string) \<Rightarrow> string \<Rightarrow> CostOfForgeryAction \<Rightarrow> int \<Rightarrow> string" where
  "buildCostOfForgeryWalletCacheKey H wallet action minScore =
     COST_OF_FORGERY_CACHE_PREFIX
     @ H (''wallet:'' @ wallet @ '':action:'' @ forgeryActionStr action @ '':min:'' @ js_str_int minScore)"

definition getCachedWalletCostOfForgeryDecision ::
  "(string \<Rightarrow> string) \<Rightarrow> Env \<Rightarrow> storage \<Rightarrow> string option \<Rightarrow> CostOfForgeryAction \<Rightarrow> int \<Rightarrow> int \<Rightarrow> CostOfForgeryDecision option" where
  "getCachedWalletCostOfForgeryDecision H env s walletAddress action minScore nowMs =
     (if getCostOfForgeryCacheTtlSeconds env \<le> 0 then None
      else case normalizeWalletForCostOfForgeryCache walletAddress of
        None \<Rightarrow> None
      | Some wallet \<Rightarrow>
          (case parseCostOfForgeryWalletCacheRecord (sto_get s (buildCostOfForgeryWalletCacheKey H wallet action minScore)) of
             None \<Rightarrow> None
           | Some cached \<Rightarrow>
               (if fc_wallet cached \<noteq> wallet \<or> fc_action cached \<noteq> action \<or> fc_minScore cached \<noteq> minScore
                   \<or> fc_expiresAtMs cached \<le> of_int nowMs
                then None else Some (fc_decision cached))))"

definition cacheWalletCostOfForgeryDecision ::
  "(string \<Rightarrow> string) \<Rightarrow> Env \<Rightarrow> storage \<Rightarrow> string option \<Rightarrow> CostOfForgeryAction \<Rightarrow> int \<Rightarrow> CostOfForgeryDecision \<Rightarrow> int \<Rightarrow> storage" where
  "cacheWalletCostOfForgeryDecision H env s walletAddress action minScore decision nowMs =
     (let ttlSeconds = getCostOfForgeryCacheTtlSeconds env in
      if ttlSeconds \<le> 0 then s
      else case normalizeWalletForCostOfForgeryCache walletAddress of
        None \<Rightarrow> s
      | Some wallet \<Rightarrow>
          sto_put s (buildCostOfForgeryWalletCacheKey H wallet action minScore)
            (walletCacheToJs \<lparr>fc_wallet = wallet, fc_action = action, fc_minScore = minScore, fc_cachedAtMs = of_int nowMs,
               fc_expiresAtMs = of_int (nowMs + ttlSeconds * 1000), fc_decision = decision\<rparr>))"

section \<open>The decision\<close>

definition extractCostOfForgeryToken :: "Request \<Rightarrow> js \<Rightarrow> string" where
  "extractCostOfForgeryToken rq body =
     (let headerToken = (case rq_header rq ''X-Cost-Of-Forgery-Token'' of Some h \<Rightarrow> js_trim h | None \<Rightarrow> []) in
      if headerToken \<noteq> [] then take 2048 headerToken
      else case trimmed_str (jget body ''costOfForgeryToken'') of Some t \<Rightarrow> take 2048 t | None \<Rightarrow> [])"

text \<open>The first of two fields that is a string, else the empty string\<close>

definition firstString :: "js list \<Rightarrow> string" where
  "firstString vs = (case List.map_filter string_field vs of t # _ \<Rightarrow> t | [] \<Rightarrow> [])"

definition decisionWords :: "string \<Rightarrow> bool option" where
  "decisionWords t =
     (if t = ''allow'' \<or> t = ''pass'' \<or> t = ''approved'' \<or> t = ''ok'' then Some True
      else if t = ''deny'' \<or> t = ''block'' \<or> t = ''reject'' \<or> t = ''challenge'' \<or> t = ''review'' then Some False
      else None)"

definition statedAllow :: "js \<Rightarrow> js \<Rightarrow> bool option" where
  "statedAllow obj risk =
     (case jget obj ''allow'' of
        JBool b \<Rightarrow> Some b
      | _ \<Rightarrow> (case jget risk ''allow'' of
                JBool b \<Rightarrow> Some b
              | _ \<Rightarrow> decisionWords (js_lower (js_trim (firstString [jget obj ''decision'', jget risk ''decision''])))))"

definition statedScore :: "js \<Rightarrow> js \<Rightarrow> rat option" where
  "statedScore obj risk =
     map_option clampScore
       (case normalizeNumberField (jget obj ''score'') of
          Some r \<Rightarrow> Some r
        | None \<Rightarrow> (case normalizeNumberField (jget obj ''riskScore'') of
                     Some r \<Rightarrow> Some r | None \<Rightarrow> normalizeNumberField (jget risk ''score'')))"

definition parseCostOfForgeryDecision :: "js \<Rightarrow> int \<Rightarrow> CostOfForgeryDecision" where
  "parseCostOfForgeryDecision raw minScore =
     (let risk = jget raw ''risk'';
          score = statedScore raw risk;
          challengeRequired = (jget raw ''challengeRequired'' = JBool True \<or> jget risk ''challengeRequired'' = JBool True);
          low = (case score of Some r \<Rightarrow> r < of_int minScore | None \<Rightarrow> False);
          allow = (if challengeRequired \<or> low then False
                   else case statedAllow raw risk of Some b \<Rightarrow> b | None \<Rightarrow> True)
      in \<lparr>fd_allow = allow, fd_score = score,
          fd_reason = or_null (js_trim (firstString [jget raw ''reason'', jget raw ''message'', jget risk ''reason''])),
          fd_decisionId = or_null (js_trim (firstString [jget raw ''decisionId'', jget raw ''id'', jget risk ''decisionId'']))\<rparr>)"

text \<open>
  The outcome of the call to the service: it threw (the flag says whether the error is an \<open>AbortError\<close>), or it
  answered with a status and a body, whose \<open>json()\<close> may throw.
\<close>

datatype FetchOutcome = FetchThrows bool string | FetchReply int "js or_error"

type_synonym risk_service = "string \<Rightarrow> string \<Rightarrow> js \<Rightarrow> FetchOutcome"

record ForgeryParams =
  fp_action :: CostOfForgeryAction
  fp_event :: js
  fp_eventId :: "string option"
  fp_userId :: "string option"
  fp_subject :: "string option"
  fp_walletAddress :: "string option"
  fp_token :: "string option"

definition hashOfField :: "(string \<Rightarrow> string) \<Rightarrow> string \<Rightarrow> string option \<Rightarrow> js" where
  "hashOfField H label v = (case v of Some t \<Rightarrow> (if t = [] then JNull else JStr (H (label @ t))) | None \<Rightarrow> JNull)"

definition forgeryPayload :: "(string \<Rightarrow> string) \<Rightarrow> Request \<Rightarrow> int \<Rightarrow> ForgeryParams \<Rightarrow> js" where
  "forgeryPayload H rq nowMs p =
     (let ipAddress = getClientIpAddress rq;
          userAgent = take 512 (js_trim (case rq_header rq ''User-Agent'' of Some u \<Rightarrow> u | None \<Rightarrow> []))
      in JObj [(''version'', JInt 1), (''source'', JStr ''instant-grant-core''), (''action'', JStr (forgeryActionStr (fp_action p))),
           (''checkedAt'', JStr (js_toISOString nowMs)), (''subjectHash'', hashOfField H ''subject:'' (fp_subject p)),
           (''userIdHash'', hashOfField H ''user:'' (fp_userId p)), (''eventIdHash'', hashOfField H ''event:'' (fp_eventId p)),
           (''ipAddress'', if ipAddress = ''unknown'' then JNull else JStr ipAddress), (''ipHash'', JStr (H (''ip:'' @ ipAddress))),
           (''userAgent'', jstr_null (or_null userAgent)),
           (''attestationToken'', jstr_null (Option.bind (fp_token p) (\<lambda>t. or_null (js_trim t))))])"

definition evaluateCostOfForgeryDecision ::
  "(string \<Rightarrow> string) \<Rightarrow> Env \<Rightarrow> risk_service \<Rightarrow> Request \<Rightarrow> int \<Rightarrow> ForgeryParams \<Rightarrow> int \<Rightarrow> CostOfForgeryDecision or_error" where
  "evaluateCostOfForgeryDecision H env fetch rq nowMs p minScore =
     (case getCostOfForgeryVerifyUrl env of
        None \<Rightarrow> Inl ''cost_of_forgery_not_configured''
      | Some verifyUrl \<Rightarrow>
          (case fetch verifyUrl (opt_trim (COST_OF_FORGERY_API_KEY env)) (forgeryPayload H rq nowMs p) of
             FetchThrows isAbort message \<Rightarrow> Inl (if isAbort then ''cost_of_forgery_timeout'' else message)
           | FetchReply status json \<Rightarrow>
               (if \<not> (200 \<le> status \<and> status \<le> 299) then Inl (''cost_of_forgery_http_'' @ js_str_int status)
                else Inr (parseCostOfForgeryDecision (case json of Inr v \<Rightarrow> v | Inl _ \<Rightarrow> JObj []) minScore))))"

section \<open>Enforcement\<close>

definition costOfForgeryErrorResponse :: "CostOfForgeryEnforcementError \<Rightarrow> Response" where
  "costOfForgeryErrorResponse e =
     json_response (JObj ([(''error'', JStr (fe_message e)), (''code'', JStr (forgeryCodeStr (fe_code e))),
        (''action'', JStr (forgeryActionStr (fe_action e)))]
      @ (case fe_minScore e of Some m \<Rightarrow> [(''minScore'', JInt m)] | None \<Rightarrow> [])
      @ (case fe_score e of Some r \<Rightarrow> [(''score'', JNum r)] | None \<Rightarrow> [])
      @ unlessEmpty ''reason'' (fe_reason e) @ unlessEmpty ''decisionId'' (fe_decisionId e) @ unlessEmpty ''detail'' (fe_detail e)
      @ (case fe_remediation e of Some f \<Rightarrow> [(''remediation'', f)] | None \<Rightarrow> []))) (fe_status e)"

definition mapCostOfForgeryErrorToSchoolClaimResult :: "CostOfForgeryEnforcementError \<Rightarrow> js" where
  "mapCostOfForgeryErrorToSchoolClaimResult e =
     (if fe_code e = Cof_blocked then
        JObj ([(''success'', JBool False), (''error'', JObj [(''code'', JStr ''eligibility''),
           (''message'', JStr (utf8_text [67, 111, 115, 116, 32, 111, 102, 32, 70, 111, 114, 103, 101, 114, 121, 229, 136, 164, 229, 174,
           154, 227, 129, 171, 227, 130, 136, 227, 130, 138, 232, 191, 189, 229, 138, 160, 232, 168, 188, 232, 183, 161,
           227, 129, 140, 229, 191, 133, 232, 166, 129, 227, 129, 167, 227, 129, 153]
              @ (case fe_reason e of Some r \<Rightarrow> (if r = [] then [] else '' ('' @ r @ '')'') | None \<Rightarrow> [])))])]
         @ (case fe_remediation e of Some f \<Rightarrow> [(''remediation'', f)] | None \<Rightarrow> []))
      else
        JObj [(''success'', JBool False), (''error'', JObj [(''code'', JStr ''retryable''),
           (''message'', JStr (utf8_text [67, 111, 115, 116, 32, 111, 102, 32, 70, 111, 114, 103, 101, 114, 121, 229, 136, 164, 229, 174,
           154, 227, 130, 181, 227, 131, 188, 227, 131, 147, 227, 130, 185, 227, 129, 140, 228, 184, 128, 230, 153, 130,
           231, 154, 132, 227, 129, 171, 229, 136, 169, 231, 148, 168, 227, 129, 167, 227, 129, 141, 227, 129, 170, 227,
           129, 132, 227, 129, 159, 227, 130, 129, 227, 128, 129, 230, 153, 130, 233, 150, 147, 227, 130, 146, 231, 189,
           174, 227, 129, 132, 227, 129, 166, 229, 134, 141, 232, 169, 166, 232, 161, 140, 227, 129, 151, 227, 129, 166,
           227, 129, 143, 227, 129, 160, 227, 129, 149, 227, 129, 132, 227, 128, 130]))])])"

definition forgeryError :: "int \<Rightarrow> CostOfForgeryErrorCode \<Rightarrow> CostOfForgeryAction \<Rightarrow> string \<Rightarrow> CostOfForgeryEnforcementError" where
  "forgeryError status code action message =
     \<lparr>fe_status = status, fe_code = code, fe_action = action, fe_message = message, fe_score = None, fe_minScore = None,
      fe_reason = None, fe_decisionId = None, fe_detail = None, fe_remediation = None\<rparr>"

definition blockedError ::
  "nat list \<Rightarrow> int \<Rightarrow> ForgeryParams \<Rightarrow> int \<Rightarrow> CostOfForgeryDecision \<Rightarrow> CostOfForgeryEnforcementError" where
  "blockedError rnd nowMs p minScore decision =
     (forgeryError 403 Cof_blocked (fp_action p) ''cost of forgery sybil check blocked this request'')
       \<lparr>fe_minScore := Some minScore, fe_score := fd_score decision, fe_reason := fd_reason decision,
        fe_decisionId := fd_decisionId decision,
        fe_remediation := Some (buildCostOfForgeryRemediationFlow (fp_action p) (fp_eventId p) (Some (fd_score decision))
          (Some minScore) (fd_reason decision) (fd_decisionId decision) (generateCostOfForgeryRemediationRequestId rnd nowMs))\<rparr>"

definition enforceCostOfForgeryRisk ::
  "(string \<Rightarrow> string) \<Rightarrow> Env \<Rightarrow> risk_service \<Rightarrow> nat list \<Rightarrow> storage \<Rightarrow> int \<Rightarrow> Request \<Rightarrow> ForgeryParams
     \<Rightarrow> storage \<times> CostOfForgeryEnforcementError option" where
  "enforceCostOfForgeryRisk H env fetch rnd s nowMs rq p =
     (let status = getCostOfForgeryStatus env;
          action = fp_action p;
          failClosedForAction = isCostOfForgeryFailClosedForAction env action;
          minScore = resolveCostOfForgeryMinScore env action (fp_event p)
      in if \<not> shouldEnforceCostOfForgeryAction env action then (s, None)
         else if findActiveCostOfForgeryRemediationOverride H s action (fp_eventId p) (fp_subject p) nowMs \<noteq> None then (s, None)
         else if \<not> fs_operationalReady status then
           (s, if failClosedForAction
               then Some (forgeryError 503 Cof_not_configured action ''cost of forgery verification endpoint is not configured'')
               else None)
         else
           (let cached = (if action = Act_wallet_claim
                          then getCachedWalletCostOfForgeryDecision H env s (fp_walletAddress p) action minScore nowMs else None);
                judge = (\<lambda>decision. if fd_allow decision then None else Some (blockedError rnd nowMs p minScore decision))
            in case cached of
                 Some decision \<Rightarrow> (s, judge decision)
               | None \<Rightarrow>
                   (case evaluateCostOfForgeryDecision H env fetch rq nowMs p minScore of
                      Inr decision \<Rightarrow>
                        (if action = Act_wallet_claim
                         then cacheWalletCostOfForgeryDecision H env s (fp_walletAddress p) action minScore decision nowMs else s,
                         judge decision)
                    | Inl detail \<Rightarrow>
                        (s, if failClosedForAction
                            then Some ((forgeryError 503 Cof_unavailable action
                                         ''cost of forgery verification is temporarily unavailable'')\<lparr>fe_detail := Some detail\<rparr>)
                            else None))))"

section \<open>Endpoints of the remediation workflow\<close>

text \<open>The subject of a request, or the message that refuses it.\<close>

definition remediationSubject :: "CostOfForgeryAction \<Rightarrow> js \<Rightarrow> string + (string \<times> CostOfForgerySubjectType)" where
  "remediationSubject action body =
     (if action \<noteq> Act_wallet_claim then
        (let normalizedUserId = normalizeUserId (jget body ''userId'') in
         if normalizedUserId = [] then Inl ''userId is required for user_* remediation'' else Inr (normalizedUserId, Sub_user))
      else
        (let walletAddress = normalizeStringField (jget body ''walletAddress'') in
         case normalizeSubject walletAddress (normalizeStringField (jget body ''joinToken'')) of
           None \<Rightarrow> Inl ''walletAddress or joinToken is required for wallet_claim remediation''
         | Some subject \<Rightarrow> Inr (subject, if walletAddress \<noteq> None then Sub_wallet else Sub_join_token)))"

definition requestedEvidence :: "js \<Rightarrow> CostOfForgeryEvidenceType" where
  "requestedEvidence body =
     (case normalizeCostOfForgeryEvidenceType (jget body ''evidenceType'') of
        Some e \<Rightarrow> e
      | None \<Rightarrow>
          (case normalizeCostOfForgeryRemediationActionType (jget body ''remediationAction'') of
             Some Rem_present_pop_receipt \<Rightarrow> Ev_pop_receipt
           | Some Rem_reissue_invite_code \<Rightarrow> Ev_invite_code_reissue
           | _ \<Rightarrow> Ev_admin_review))"

definition handleRemediationRequest ::
  "(string \<Rightarrow> string) \<Rightarrow> Env \<Rightarrow> AuditServices \<Rightarrow> nat list \<Rightarrow> storage \<Rightarrow> int \<Rightarrow> Request \<Rightarrow> outcome" where
  "handleRemediationRequest H env svc rnd s nowMs rq =
     (case rq_json rq of
        Inl _ \<Rightarrow> respond s (errorBody ''invalid body'') 400
      | Inr body \<Rightarrow>
        (case normalizeCostOfForgeryAction (jget body ''action'') of
           None \<Rightarrow> respond s (errorBody ''action must be user_register, user_claim, or wallet_claim'') 400
         | Some action \<Rightarrow>
           (let eventId = normalizeStringField (jget body ''eventId'') in
            if action \<noteq> Act_user_register \<and> eventId = None
            then respond s (errorBody ''eventId is required for claim remediation'') 400
            else if (case eventId of Some e \<Rightarrow> getEvent doStorageAdapter s e = None | None \<Rightarrow> False)
            then respond s (errorBody ''event not found'') 404
            else case remediationSubject action body of
              Inl message \<Rightarrow> respond s (errorBody message) 400
            | Inr (subject, subjectType) \<Rightarrow>
              (let evidenceType = requestedEvidence body;
                   confirmationCode = normalizeStringField (jget body ''confirmationCode'');
                   popReceiptId = normalizeStringField (jget body ''popReceiptId'');
                   inviteCodeHint = normalizeStringField (jget body ''inviteCodeHint'');
                   requestId = generateCostOfForgeryRemediationRequestId rnd nowMs;
                   rec = \<lparr>rr_requestId = requestId, rr_createdAt = js_toISOString nowMs, rr_createdAtMs = of_int nowMs,
                          rr_status = Rem_pending, rr_action = action, rr_eventId = eventId,
                          rr_subjectHash = subjectHashOf H subject, rr_subjectMask = maskActorId subject,
                          rr_subjectType = subjectType, rr_evidenceType = evidenceType,
                          rr_evidenceNote = map_option (take 500) (normalizeStringField (jget body ''note'')),
                          rr_confirmationCode = confirmationCode, rr_popReceiptId = popReceiptId, rr_inviteCodeHint = inviteCodeHint,
                          rr_requesterIpHash = H (''ip:'' @ getClientIpAddress rq), rr_resolvedAt = None, rr_resolvedAtMs = None,
                          rr_resolvedBy = None, rr_resolutionReason = None, rr_overrideExpiresAt = None,
                          rr_overrideExpiresAtMs = None\<rparr>;
                   s1 = sto_put s (costOfForgeryRemediationRequestKey requestId) (remediationRequestToJs rec)
               in appendThen H env svc s1 nowMs ''COST_OF_FORGERY_REMEDIATION_REQUEST''
                    (auditActor (if subjectType = Sub_user then ''user'' else ''wallet'') (maskActorId subject))
                    (JObj [(''requestId'', JStr requestId), (''action'', JStr (forgeryActionStr action)),
                       (''eventId'', jstr_null eventId), (''subjectType'', JStr (subjectTypeStr subjectType)),
                       (''evidenceType'', JStr (evidenceTypeStr evidenceType)),
                       (''hasConfirmationCode'', JBool (confirmationCode \<noteq> None)),
                       (''hasPopReceiptId'', JBool (popReceiptId \<noteq> None)),
                       (''hasInviteCodeHint'', JBool (inviteCodeHint \<noteq> None))])
                    (case eventId of Some e \<Rightarrow> e | None \<Rightarrow> ''system'')
                    (\<lambda>s2 _. respond s2
                       (JObj [(''requestId'', JStr requestId), (''status'', JStr ''pending''),
                          (''remediation'', buildCostOfForgeryRemediationFlow action eventId None None None None requestId)]) 202)))))"

text \<open>What \<open>approve\<close> and \<open>reject\<close> check first: an operator, a request that exists and is pending.\<close>

definition pendingRemediation ::
  "Env \<Rightarrow> storage \<Rightarrow> Request \<Rightarrow> string \<Rightarrow> (js \<times> int) + (OperatorIdentity \<times> CostOfForgeryRemediationRequestRecord)" where
  "pendingRemediation env s rq segment =
     (case authenticateOperator env s rq of
        None \<Rightarrow> Inl (rs_body unauthorizedResponse, rs_status unauthorizedResponse)
      | Some operator \<Rightarrow>
          (let requestId = js_trim segment in
           if requestId = [] then Inl (errorBody ''requestId is required'', 400)
           else case parseCostOfForgeryRemediationRequestRecord (sto_get s (costOfForgeryRemediationRequestKey requestId)) of
             None \<Rightarrow> Inl (errorBody ''remediation request not found'', 404)
           | Some r \<Rightarrow>
               (if rr_status r \<noteq> Rem_pending
                then Inl (JObj [(''error'', JStr ''remediation request is already resolved''),
                       (''status'', JStr (remediationStatusStr (rr_status r)))], 409)
                else Inr (operator, r))))"

definition requestedMinutes :: "Env \<Rightarrow> js \<Rightarrow> int" where
  "requestedMinutes env body =
     parseBoundedInt
       (case jget body ''expiresInMinutes'' of
          JNum r \<Rightarrow> Some (js_str_int \<lfloor>r\<rfloor>) | JStr t \<Rightarrow> Some t | _ \<Rightarrow> None)
       (getCostOfForgeryRemediationOverrideTtlMinutes env) 5 COST_OF_FORGERY_MAX_REMEDIATION_OVERRIDE_TTL_MINUTES"

definition handleRemediationApprove ::
  "(string \<Rightarrow> string) \<Rightarrow> Env \<Rightarrow> AuditServices \<Rightarrow> storage \<Rightarrow> int \<Rightarrow> string \<Rightarrow> Request \<Rightarrow> outcome" where
  "handleRemediationApprove H env svc s nowMs segment rq =
     (case pendingRemediation env s rq segment of
        Inl (body, status) \<Rightarrow> respond s body status
      | Inr (operator, r) \<Rightarrow>
          (let requestId = js_trim segment;
               body = bodyOrEmpty rq;
               expiresInMinutes = requestedMinutes env body;
               reason = normalizeStringField (jget body ''reason'');
               approvedAt = js_toISOString nowMs;
               expiresAtMs = nowMs + expiresInMinutes * 60 * 1000;
               expiresAt = js_toISOString expiresAtMs;
               overrideRecord = \<lparr>ro_requestId = requestId, ro_action = rr_action r, ro_eventId = rr_eventId r,
                 ro_subjectHash = rr_subjectHash r, ro_approvedAt = approvedAt, ro_approvedAtMs = of_int nowMs,
                 ro_approvedBy = op_actorId operator, ro_reason = reason, ro_expiresAt = expiresAt, ro_expiresAtMs = of_int expiresAtMs\<rparr>;
               s1 = sto_put s (buildCostOfForgeryRemediationOverrideKey H (rr_action r) (rr_eventId r) (rr_subjectHash r))
                      (remediationOverrideToJs overrideRecord);
               updated = r\<lparr>rr_status := Rem_approved, rr_resolvedAt := Some approvedAt, rr_resolvedAtMs := Some (of_int nowMs),
                 rr_resolvedBy := Some (op_actorId operator), rr_resolutionReason := reason, rr_overrideExpiresAt := Some expiresAt,
                 rr_overrideExpiresAtMs := Some (of_int expiresAtMs)\<rparr>;
               s2 = sto_put s1 (costOfForgeryRemediationRequestKey requestId) (remediationRequestToJs updated)
           in appendThen H env svc s2 nowMs ''COST_OF_FORGERY_REMEDIATION_APPROVE'' (operatorActor operator)
                (JObj [(''requestId'', JStr requestId), (''action'', JStr (forgeryActionStr (rr_action r))),
                   (''eventId'', jstr_null (rr_eventId r)), (''subjectType'', JStr (subjectTypeStr (rr_subjectType r))),
                   (''subjectMask'', JStr (rr_subjectMask r)), (''expiresInMinutes'', JInt expiresInMinutes),
                   (''expiresAt'', JStr expiresAt), (''reason'', jstr_null reason)])
                (case rr_eventId r of Some e \<Rightarrow> e | None \<Rightarrow> ''system'')
                (\<lambda>s3 _. respond s3
                   (JObj [(''requestId'', JStr requestId), (''status'', JStr ''approved''),
                      (''action'', JStr (forgeryActionStr (rr_action r))), (''eventId'', jstr_null (rr_eventId r)),
                      (''expiresAt'', JStr expiresAt), (''approvedBy'', JStr (op_actorId operator))]) 200)))"

definition handleRemediationReject ::
  "(string \<Rightarrow> string) \<Rightarrow> Env \<Rightarrow> AuditServices \<Rightarrow> storage \<Rightarrow> int \<Rightarrow> string \<Rightarrow> Request \<Rightarrow> outcome" where
  "handleRemediationReject H env svc s nowMs segment rq =
     (case pendingRemediation env s rq segment of
        Inl (body, status) \<Rightarrow> respond s body status
      | Inr (operator, r) \<Rightarrow>
          (let requestId = js_trim segment;
               reason = normalizeStringField (jget (bodyOrEmpty rq) ''reason'');
               updated = r\<lparr>rr_status := Rem_rejected, rr_resolvedAt := Some (js_toISOString nowMs),
                 rr_resolvedAtMs := Some (of_int nowMs), rr_resolvedBy := Some (op_actorId operator),
                 rr_resolutionReason := reason, rr_overrideExpiresAt := None, rr_overrideExpiresAtMs := None\<rparr>;
               s1 = sto_put s (costOfForgeryRemediationRequestKey requestId) (remediationRequestToJs updated)
           in appendThen H env svc s1 nowMs ''COST_OF_FORGERY_REMEDIATION_REJECT'' (operatorActor operator)
                (JObj [(''requestId'', JStr requestId), (''action'', JStr (forgeryActionStr (rr_action r))),
                   (''eventId'', jstr_null (rr_eventId r)), (''subjectType'', JStr (subjectTypeStr (rr_subjectType r))),
                   (''subjectMask'', JStr (rr_subjectMask r)), (''reason'', jstr_null reason)])
                (case rr_eventId r of Some e \<Rightarrow> e | None \<Rightarrow> ''system'')
                (\<lambda>s2 _. respond s2
                   (JObj [(''requestId'', JStr requestId), (''status'', JStr ''rejected''),
                      (''action'', JStr (forgeryActionStr (rr_action r))), (''eventId'', jstr_null (rr_eventId r)),
                      (''rejectedBy'', JStr (op_actorId operator))]) 200)))"

end
