(* ===== verification/Pop_Signer.thy ===== *)
theory Pop_Signer
  imports Forgery_Guard Ticket_Receipt "HOL-Library.Word"
begin

unbundle bit_operations_syntax

text \<open>
  The signer of participation proofs (\<open>storeDO.ts\<close>): byte strings and their base64 and hexadecimal forms, HMAC-SHA512
  and the derivation of a child key along a hardened path, the rotation of the path with time, and \<open>getPopSigner\<close>
  with the cache that the instance keeps between calls. Bytes are 8-bit words. SHA-512, SHA-256, Ed25519 and base58
  come from packages and the platform; they are the fields of the record \<open>pop_crypto\<close>.
\<close>

section \<open>Bytes\<close>

type_synonym bytes = "8 word list"

record pop_crypto =
  naclHash :: "bytes \<Rightarrow> bytes"
  keyPairFromSeed :: "bytes \<Rightarrow> bytes \<times> bytes"  \<comment> \<open>public key and secret key\<close>
  publicFromSecret :: "bytes \<Rightarrow> bytes"
  signDetached :: "bytes \<Rightarrow> bytes \<Rightarrow> bytes"
  bs58Encode :: "bytes \<Rightarrow> string"
  bs58Decode :: "string \<Rightarrow> bytes option"  \<comment> \<open>\<open>None\<close> when it throws\<close>
  sha256 :: "bytes \<Rightarrow> bytes"

definition POP_HASH_LEN :: nat where "POP_HASH_LEN = 32"

text \<open>\<open>btoa\<close> and \<open>atob\<close>; \<open>atob\<close> skips white space, and \<open>None\<close> is the error it throws.\<close>

definition b64_digit :: "nat \<Rightarrow> char" where
  "b64_digit d = (if d < 26 then char_of (65 + d) else if d < 52 then char_of (71 + d)
     else if d < 62 then char_of (d - 4) else if d = 62 then CHR ''+'' else CHR ''/'')"

definition b64_value :: "char \<Rightarrow> nat option" where
  "b64_value c = (let n = (of_char c :: nat) in
     if 65 \<le> n \<and> n \<le> 90 then Some (n - 65) else if 97 \<le> n \<and> n \<le> 122 then Some (n - 71)
     else if 48 \<le> n \<and> n \<le> 57 then Some (n + 4) else if n = 43 then Some 62 else if n = 47 then Some 63 else None)"

fun btoa :: "nat list \<Rightarrow> string" where
  "btoa [] = []"
| "btoa [a] = [b64_digit (a div 4), b64_digit (a mod 4 * 16), CHR ''='', CHR ''='']"
| "btoa [a, b] = [b64_digit (a div 4), b64_digit (a mod 4 * 16 + b div 16), b64_digit (b mod 16 * 4), CHR ''='']"
| "btoa (a # b # c # r) =
     b64_digit (a div 4) # b64_digit (a mod 4 * 16 + b div 16) # b64_digit (b mod 16 * 4 + c div 64) # b64_digit (c mod 64) # btoa r"

fun b64_bytes :: "nat list \<Rightarrow> nat list option" where
  "b64_bytes [] = Some []"
| "b64_bytes [a] = None"
| "b64_bytes [a, b] = Some [a * 4 + b div 16]"
| "b64_bytes [a, b, c] = Some [a * 4 + b div 16, b mod 16 * 16 + c div 4]"
| "b64_bytes (a # b # c # d # r) =
     map_option (\<lambda>bs. (a * 4 + b div 16) # (b mod 16 * 16 + c div 4) # (c mod 4 * 64 + d) # bs) (b64_bytes r)"

definition is_ascii_ws :: "char \<Rightarrow> bool" where
  "is_ascii_ws c = (let n = (of_char c :: nat) in n = 9 \<or> n = 10 \<or> n = 12 \<or> n = 13 \<or> n = 32)"

definition atob :: "string \<Rightarrow> nat list option" where
  "atob input =
     (let t = filter (\<lambda>c. \<not> is_ascii_ws c) input;
          u = (if length t mod 4 = 0 \<and> t \<noteq> [] \<and> last t = CHR ''='' then
                 (let t1 = butlast t in if t1 \<noteq> [] \<and> last t1 = CHR ''='' then butlast t1 else t1) else t)
      in Option.bind (all_some (map b64_value u)) b64_bytes)"

definition encodeBase64 :: "bytes \<Rightarrow> string" where
  "encodeBase64 bs = btoa (map unat bs)"

definition decodeBase64 :: "string \<Rightarrow> bytes option" where
  "decodeBase64 input = map_option (map word_of_nat) (atob input)"

fun pairs_to_bytes :: "string \<Rightarrow> bytes" where
  "pairs_to_bytes (a # b # r) = word_of_nat (radix_val 16 [a, b]) # pairs_to_bytes r"
| "pairs_to_bytes _ = []"

definition hexToBytes :: "string \<Rightarrow> bytes or_error" where
  "hexToBytes hex =
     (let clean = js_lower (js_trim hex) in
      if \<not> (length clean = 64 \<and> list_all is_lower_hex clean) then Inl ''invalid hash hex'' else Inr (pairs_to_bytes clean))"

definition bytesToHex :: "bytes \<Rightarrow> string" where
  "bytesToHex bs = concat (map (\<lambda>b. hexByte (unat b)) bs)"

definition bytesEqual :: "bytes \<Rightarrow> bytes \<Rightarrow> bool" where
  "bytesEqual a b = (length a = length b \<and> list_all2 (=) a b)"

definition u32ToBeBytes :: "nat \<Rightarrow> bytes or_error" where
  "u32ToBeBytes v =
     (if v > 0xffffffff then Inl ''invalid u32 value''
      else Inr [word_of_nat (v div 16777216), word_of_nat (v div 65536), word_of_nat (v div 256), word_of_nat v])"

definition u64ToLeBytes :: "64 word \<Rightarrow> bytes" where
  "u64ToLeBytes w = map (\<lambda>i. ucast (drop_bit (8 * i) w)) [0..<8]"

text \<open>\<open>setBigUint64\<close> and \<open>setBigInt64\<close> write the lowest 64 bits of the integer.\<close>

definition bigToLeBytes :: "int \<Rightarrow> bytes" where
  "bigToLeBytes v = u64ToLeBytes (word_of_int v)"

section \<open>Key derivation\<close>

definition POP_SIGNER_HD_DEFAULT_PATH :: string where
  "POP_SIGNER_HD_DEFAULT_PATH = ''m/44'' @ [CHR 0x27] @ ''/501'' @ [CHR 0x27] @ ''/0'' @ [CHR 0x27] @ ''/0'' @ [CHR 0x27] @ ''/0'' @ [CHR 0x27]"
definition POP_SIGNER_HD_MAX_PATH_DEPTH :: nat where "POP_SIGNER_HD_MAX_PATH_DEPTH = 10"
definition POP_SIGNER_HD_MIN_SEED_BYTES :: nat where "POP_SIGNER_HD_MIN_SEED_BYTES = 16"
definition POP_SIGNER_HD_MAX_SEED_BYTES :: nat where "POP_SIGNER_HD_MAX_SEED_BYTES = 128"
definition POP_SIGNER_HD_HARDENED_OFFSET :: int where "POP_SIGNER_HD_HARDENED_OFFSET = 0x80000000"
definition HMAC_SHA512_BLOCK_SIZE :: nat where "HMAC_SHA512_BLOCK_SIZE = 128"
definition POP_SIGNER_HD_HMAC_KEY :: bytes where "POP_SIGNER_HD_HMAC_KEY = map (word_of_nat \<circ> of_char) ''ed25519 seed''"

definition hmacSha512 :: "pop_crypto \<Rightarrow> bytes \<Rightarrow> bytes \<Rightarrow> bytes" where
  "hmacSha512 cr key data =
     (let keyMaterial = (if length key > HMAC_SHA512_BLOCK_SIZE then naclHash cr key else key);
          keyBlock = keyMaterial @ replicate (HMAC_SHA512_BLOCK_SIZE - length keyMaterial) 0;
          innerPad = map (\<lambda>b. b XOR 0x36) keyBlock;
          outerPad = map (\<lambda>b. b XOR 0x5c) keyBlock
      in naclHash cr (outerPad @ naclHash cr (innerPad @ data)))"

text \<open>\<open>/^(\\d+)'$/\<close> and the bounds of an index\<close>

definition parseHdSegment :: "string \<Rightarrow> int or_error" where
  "parseHdSegment segment =
     (if segment = [] \<or> last segment \<noteq> CHR 0x27 \<or> \<not> all_digits (butlast segment)
      then Inl (''POP_SIGNER_HD_PATH must use hardened indices only (example: '' @ POP_SIGNER_HD_DEFAULT_PATH @ '')'')
      else let index = digits_val (butlast segment) in
        if index > POP_SIGNER_HD_HARDENED_OFFSET - 1 then Inl ''POP_SIGNER_HD_PATH index is out of range''
        else Inr (index + POP_SIGNER_HD_HARDENED_OFFSET))"

fun map_error :: "('a \<Rightarrow> 'b or_error) \<Rightarrow> 'a list \<Rightarrow> 'b list or_error" where
  "map_error f [] = Inr []"
| "map_error f (x # xs) =
     (case f x of Inl e \<Rightarrow> Inl e | Inr y \<Rightarrow> (case map_error f xs of Inl e \<Rightarrow> Inl e | Inr ys \<Rightarrow> Inr (y # ys)))"

definition printHdPath :: "int list \<Rightarrow> string" where
  "printHdPath indices =
     (if indices = [] then ''m''
      else ''m/'' @ js_join ''/'' (map (\<lambda>v. js_str_int (v - POP_SIGNER_HD_HARDENED_OFFSET) @ [CHR 0x27]) indices))"

definition parsePopSignerHdPath :: "string \<Rightarrow> (int list \<times> string) or_error" where
  "parsePopSignerHdPath rawPath =
     (let path = js_trim rawPath in
      if path = [] then Inl ''POP_SIGNER_HD_PATH is empty''
      else let segments = js_split (CHR ''/'') path in
        if hd segments \<noteq> ''m'' then Inl ''POP_SIGNER_HD_PATH must start with m''
        else if length (tl segments) > POP_SIGNER_HD_MAX_PATH_DEPTH then Inl ''POP_SIGNER_HD_PATH depth must be <= 10''
        else case map_error parseHdSegment (tl segments) of
               Inl e \<Rightarrow> Inl e
             | Inr indices \<Rightarrow> Inr (indices, printHdPath indices))"

text \<open>One step of the derivation on the private key and the chain code; an index is below \<open>2 ^ 32\<close>.\<close>

definition deriveChild :: "pop_crypto \<Rightarrow> bytes \<times> bytes \<Rightarrow> int \<Rightarrow> bytes \<times> bytes" where
  "deriveChild cr kc index =
     (let (privateKey, chainCode) = kc;
          indexBytes = (case u32ToBeBytes (nat index) of Inr b \<Rightarrow> b | Inl _ \<Rightarrow> []);
          hmacOutput = hmacSha512 cr chainCode ([0] @ privateKey @ indexBytes)
      in (take 32 hmacOutput, take 32 (drop 32 hmacOutput)))"

definition derivePopSignerHdSeed :: "pop_crypto \<Rightarrow> bytes \<Rightarrow> string \<Rightarrow> (bytes \<times> string) or_error" where
  "derivePopSignerHdSeed cr masterSeed path =
     (if length masterSeed < POP_SIGNER_HD_MIN_SEED_BYTES \<or> length masterSeed > POP_SIGNER_HD_MAX_SEED_BYTES
      then Inl ''POP_SIGNER_HD_MASTER_SEED_B64 must decode to 16-128 bytes''
      else case parsePopSignerHdPath path of
             Inl e \<Rightarrow> Inl e
           | Inr (indices, normalizedPath) \<Rightarrow>
               (let hmacOutput = hmacSha512 cr POP_SIGNER_HD_HMAC_KEY masterSeed;
                    start = (take 32 hmacOutput, take 32 (drop 32 hmacOutput))
                in Inr (fst (foldl (deriveChild cr) start indices), normalizedPath)))"

section \<open>Rotation of the path\<close>

definition POP_SIGNER_HD_ROTATION_DEFAULT_INTERVAL_DAYS :: int where "POP_SIGNER_HD_ROTATION_DEFAULT_INTERVAL_DAYS = 30"
definition POP_SIGNER_HD_ROTATION_MAX_INTERVAL_DAYS :: int where "POP_SIGNER_HD_ROTATION_MAX_INTERVAL_DAYS = 3650"
definition POP_SIGNER_HD_ROTATION_MAX_INDEX_OFFSET :: int where
  "POP_SIGNER_HD_ROTATION_MAX_INDEX_OFFSET = POP_SIGNER_HD_HARDENED_OFFSET - 1"
definition MAX_SAFE_INTEGER :: int where "MAX_SAFE_INTEGER = 2 ^ 53 - 1"

record PopSignerRotation =
  pr_enabled :: bool
  pr_index :: "int option"
  pr_intervalDays :: "int option"
  pr_startUnix :: "int option"
  pr_nextRotateAtUnix :: "int option"
  pr_pathTemplate :: "string option"

definition emptyPopSignerRotation :: PopSignerRotation where
  "emptyPopSignerRotation = \<lparr>pr_enabled = False, pr_index = None, pr_intervalDays = None, pr_startUnix = None,
     pr_nextRotateAtUnix = None, pr_pathTemplate = None\<rparr>"

definition isPopSignerLegacyEnabled :: "Env \<Rightarrow> bool" where
  "isPopSignerLegacyEnabled env = parseBooleanEnv (POP_SIGNER_LEGACY_ENABLED env) True"

text \<open>\<open>hay.includes(needle)\<close> and \<open>s.replaceAll(pat, rep)\<close>\<close>

definition js_includes :: "string \<Rightarrow> string \<Rightarrow> bool" where
  "js_includes hay needle = list_ex (prefix needle) (suffixes hay)"

fun js_replaceAll :: "string \<Rightarrow> string \<Rightarrow> string \<Rightarrow> string" where
  "js_replaceAll pat rep [] = []"
| "js_replaceAll pat rep (c # cs) =
     (if pat \<noteq> [] \<and> prefix pat (c # cs) then rep @ js_replaceAll pat rep (drop (length pat - 1) cs)
      else c # js_replaceAll pat rep cs)"

definition INDEX_PLACEHOLDER :: string where "INDEX_PLACEHOLDER = ''{index}''"

definition staticHdPath :: "Env \<Rightarrow> string" where
  "staticHdPath env = or_else (opt_trim (POP_SIGNER_HD_PATH env)) POP_SIGNER_HD_DEFAULT_PATH"

definition rotationInterval :: "Env \<Rightarrow> int" where
  "rotationInterval env = parseBoundedInt (POP_SIGNER_HD_ROTATION_INTERVAL_DAYS env)
     POP_SIGNER_HD_ROTATION_DEFAULT_INTERVAL_DAYS 1 POP_SIGNER_HD_ROTATION_MAX_INTERVAL_DAYS"

definition rotationStart :: "Env \<Rightarrow> int" where
  "rotationStart env = parseNonNegativeIntEnv (POP_SIGNER_HD_ROTATION_START_UNIX env) 0 MAX_SAFE_INTEGER"

definition rotationOffset :: "Env \<Rightarrow> int" where
  "rotationOffset env = parseNonNegativeIntEnv (POP_SIGNER_HD_ROTATION_INDEX_OFFSET env) 0 POP_SIGNER_HD_ROTATION_MAX_INDEX_OFFSET"

definition rotationSlot :: "Env \<Rightarrow> int \<Rightarrow> int" where
  "rotationSlot env nowMs =
     (let nowUnix = nowMs div 1000; startUnix = rotationStart env in
      if nowUnix \<le> startUnix then 0 else (nowUnix - startUnix) div (rotationInterval env * 24 * 60 * 60))"

text \<open>The path, the rotation and the part of the cache key.\<close>

definition resolvePopSignerHdDerivationPath :: "Env \<Rightarrow> int \<Rightarrow> (string \<times> PopSignerRotation \<times> string) or_error" where
  "resolvePopSignerHdDerivationPath env nowMs =
     (let staticPath = staticHdPath env in
      if \<not> parseBooleanEnv (POP_SIGNER_HD_ROTATION_ENABLED env) False
      then Inr (staticPath, emptyPopSignerRotation, ''static:'' @ staticPath)
      else
        let pathTemplate = or_else (opt_trim (POP_SIGNER_HD_ROTATION_PATH_TEMPLATE env)) staticPath in
        if \<not> js_includes pathTemplate INDEX_PLACEHOLDER
        then Inl (''POP_SIGNER_HD_ROTATION_PATH_TEMPLATE must include '' @ [CHR 0x27] @ INDEX_PLACEHOLDER @ [CHR 0x27] @ '' placeholder when rotation is enabled'')
        else
          let intervalDays = rotationInterval env; startUnix = rotationStart env; indexOffset = rotationOffset env;
              slot = rotationSlot env nowMs; rotationIndex = indexOffset + slot
          in if rotationIndex > POP_SIGNER_HD_ROTATION_MAX_INDEX_OFFSET
             then Inl ''POP_SIGNER_HD_ROTATION_INDEX_OFFSET + active slot is out of range''
             else Inr (js_replaceAll INDEX_PLACEHOLDER (js_str_int rotationIndex) pathTemplate,
                    \<lparr>pr_enabled = True, pr_index = Some rotationIndex, pr_intervalDays = Some intervalDays,
                     pr_startUnix = Some startUnix,
                     pr_nextRotateAtUnix = Some (startUnix + (slot + 1) * (intervalDays * 24 * 60 * 60)),
                     pr_pathTemplate = Some pathTemplate\<rparr>,
                    ''rotation:'' @ js_str_int rotationIndex @ '':'' @ js_str_int intervalDays @ '':'' @ js_str_int startUnix @ '':''
                      @ js_str_int indexOffset @ '':'' @ pathTemplate))"

section \<open>The signer\<close>

datatype PopSignerMode = Signer_legacy | Signer_hd

record PopSigner =
  ps_secretKey :: bytes
  ps_signerPubkey :: string
  ps_mode :: PopSignerMode
  ps_derivationPath :: "string option"
  ps_rotation :: PopSignerRotation

record PopSignerCacheEntry =
  ce_cacheKey :: string
  ce_signer :: "PopSigner option"

text \<open>
  The configured public key against the one of the key pair: \<open>None\<close> when they agree, else the error. \<open>name\<close> is the
  name of the setting.
\<close>

definition checkConfiguredPubkey :: "pop_crypto \<Rightarrow> string \<Rightarrow> string \<Rightarrow> string \<Rightarrow> bytes \<Rightarrow> string option" where
  "checkConfiguredPubkey cr name pubkey mismatch actual =
     (if \<not> MINT_BASE58_RE pubkey then Some (name @ '' is invalid'')
      else case bs58Decode cr pubkey of
             None \<Rightarrow> Some (name @ '' is invalid'')
           | Some configured \<Rightarrow>
               (if length configured \<noteq> 32 then Some (name @ '' must decode to 32 bytes'')
                else if \<not> bytesEqual configured actual then Some mismatch else None))"

text \<open>What is computed when the cache does not answer; the first component is the cache key.\<close>

definition hdSigner :: "pop_crypto \<Rightarrow> string \<Rightarrow> bytes \<Rightarrow> string \<Rightarrow> PopSignerRotation \<Rightarrow> PopSigner or_error" where
  "hdSigner cr hdPubkey masterSeed derivationPath rotation =
     (case derivePopSignerHdSeed cr masterSeed derivationPath of
        Inl e \<Rightarrow> Inl e
      | Inr (childSeed, normalizedPath) \<Rightarrow>
          (let (publicKey, secretKey) = keyPairFromSeed cr childSeed;
               problem = (if hdPubkey = [] then None
                          else checkConfiguredPubkey cr ''POP_SIGNER_HD_PUBKEY'' hdPubkey
                                 ''POP signer keypair mismatch (POP_SIGNER_HD_MASTER_SEED_B64 / POP_SIGNER_HD_PATH / POP_SIGNER_HD_PUBKEY)''
                                 publicKey)
           in case problem of
                Some e \<Rightarrow> Inl e
              | None \<Rightarrow> Inr \<lparr>ps_secretKey = secretKey, ps_signerPubkey = bs58Encode cr publicKey, ps_mode = Signer_hd,
                          ps_derivationPath = Some normalizedPath, ps_rotation = rotation\<rparr>))"

definition legacySecretKey :: "pop_crypto \<Rightarrow> string \<Rightarrow> bytes or_error" where
  "legacySecretKey cr secretB64 =
     (case decodeBase64 secretB64 of
        None \<Rightarrow> Inl ''POP_SIGNER_SECRET_KEY_B64 is not base64''
      | Some decoded \<Rightarrow>
          (if length decoded = 64 then Inr decoded
           else if length decoded = 32 then Inr (snd (keyPairFromSeed cr decoded))
           else Inl ''POP_SIGNER_SECRET_KEY_B64 must decode to 32-byte seed or 64-byte secret key''))"

definition legacySigner :: "pop_crypto \<Rightarrow> string \<Rightarrow> string \<Rightarrow> PopSigner or_error" where
  "legacySigner cr secretB64 signerPubkey =
     (if \<not> MINT_BASE58_RE signerPubkey then Inl ''POP_SIGNER_PUBKEY is invalid''
      else case legacySecretKey cr secretB64 of
        Inl e \<Rightarrow> Inl e
      | Inr secretKey \<Rightarrow>
          (case checkConfiguredPubkey cr ''POP_SIGNER_PUBKEY'' signerPubkey
                  ''POP signer keypair mismatch (POP_SIGNER_SECRET_KEY_B64 / POP_SIGNER_PUBKEY)'' (publicFromSecret cr secretKey) of
             Some e \<Rightarrow> Inl e
           | None \<Rightarrow> Inr \<lparr>ps_secretKey = secretKey, ps_signerPubkey = signerPubkey, ps_mode = Signer_legacy,
                       ps_derivationPath = None, ps_rotation = emptyPopSignerRotation\<rparr>))"

text \<open>
  The plan of a call: an error before the cache is asked, or the cache key and the computation behind it; first with a
  hierarchical key, then with the legacy settings.
\<close>

definition hdPlan :: "pop_crypto \<Rightarrow> Env \<Rightarrow> int \<Rightarrow> (string \<times> PopSigner option or_error) or_error" where
  "hdPlan cr env nowMs =
     (let hdMasterSeedB64 = opt_trim (POP_SIGNER_HD_MASTER_SEED_B64 env);
          hdPubkey = opt_trim (POP_SIGNER_HD_PUBKEY env)
      in if hdMasterSeedB64 = [] then Inl ''POP_SIGNER_HD_MASTER_SEED_B64 is required when POP_SIGNER_HD_* is used''
         else case decodeBase64 hdMasterSeedB64 of
           None \<Rightarrow> Inl ''POP_SIGNER_HD_MASTER_SEED_B64 is not base64''
         | Some masterSeed \<Rightarrow>
             (case resolvePopSignerHdDerivationPath env nowMs of
                Inl e \<Rightarrow> Inl e
              | Inr (derivationPath, rotation, cacheKeyPart) \<Rightarrow>
                  (if pr_enabled rotation \<and> hdPubkey \<noteq> []
                   then Inl ''POP_SIGNER_HD_PUBKEY cannot be set when POP_SIGNER_HD_ROTATION_ENABLED=true''
                   else Inr (''hd:'' @ hdMasterSeedB64 @ '':'' @ hdPubkey @ '':'' @ cacheKeyPart,
                          map_sum (\<lambda>e. e) Some (hdSigner cr hdPubkey masterSeed derivationPath rotation)))))"

definition legacyPlan :: "pop_crypto \<Rightarrow> Env \<Rightarrow> (string \<times> PopSigner option or_error) or_error" where
  "legacyPlan cr env =
     (let secretB64 = opt_trim (POP_SIGNER_SECRET_KEY_B64 env); signerPubkey = opt_trim (POP_SIGNER_PUBKEY env) in
      if \<not> isPopSignerLegacyEnabled env then
        (if secretB64 \<noteq> [] \<or> signerPubkey \<noteq> []
         then Inl ''legacy POP_SIGNER_* configuration is disabled; remove POP_SIGNER_SECRET_KEY_B64/POP_SIGNER_PUBKEY''
         else Inr (''none:legacy_disabled'', Inr None))
      else if secretB64 = [] \<or> signerPubkey = [] then Inr (''none:legacy_enabled'', Inr None)
      else Inr (''legacy:'' @ secretB64 @ '':'' @ signerPubkey, map_sum (\<lambda>e. e) Some (legacySigner cr secretB64 signerPubkey)))"

definition signerPlan :: "pop_crypto \<Rightarrow> Env \<Rightarrow> int \<Rightarrow> (string \<times> PopSigner option or_error) or_error" where
  "signerPlan cr env nowMs =
     (let hdRotationEnabledRaw = opt_trim (POP_SIGNER_HD_ROTATION_ENABLED env);
          hdRotationEnabled = parseOptionalBooleanEnv (or_null hdRotationEnabledRaw);
          hasAnyHdConfig = (opt_trim (POP_SIGNER_HD_MASTER_SEED_B64 env) \<noteq> [] \<or> opt_trim (POP_SIGNER_HD_PATH env) \<noteq> []
                            \<or> opt_trim (POP_SIGNER_HD_PUBKEY env) \<noteq> [] \<or> hdRotationEnabled = Some True)
      in if hdRotationEnabledRaw \<noteq> [] \<and> hdRotationEnabled = None then Inl ''POP_SIGNER_HD_ROTATION_ENABLED must be true/false''
         else if hasAnyHdConfig then hdPlan cr env nowMs
         else legacyPlan cr env)"

definition getPopSigner ::
  "pop_crypto \<Rightarrow> Env \<Rightarrow> PopSignerCacheEntry option \<Rightarrow> int \<Rightarrow> PopSignerCacheEntry option \<times> PopSigner option or_error" where
  "getPopSigner cr env cache nowMs =
     (case signerPlan cr env nowMs of
        Inl e \<Rightarrow> (cache, Inl e)
      | Inr (cacheKey, computed) \<Rightarrow>
          (case cache of
             Some c \<Rightarrow>
               (if ce_cacheKey c = cacheKey then (cache, Inr (ce_signer c))
                else case computed of
                       Inl e \<Rightarrow> (cache, Inl e)
                     | Inr signer \<Rightarrow> (Some \<lparr>ce_cacheKey = cacheKey, ce_signer = signer\<rparr>, Inr signer))
           | None \<Rightarrow>
               (case computed of
                  Inl e \<Rightarrow> (cache, Inl e)
                | Inr signer \<Rightarrow> (Some \<lparr>ce_cacheKey = cacheKey, ce_signer = signer\<rparr>, Inr signer))))"

definition isOnchainPopEnforced :: "Env \<Rightarrow> bool" where
  "isOnchainPopEnforced env =
     (let raw = js_lower (opt_trim (ENFORCE_ONCHAIN_POP env)) in
      raw = [] \<or> \<not> (raw = ''0'' \<or> raw = ''false'' \<or> raw = ''off'' \<or> raw = ''no''))"

end
