(* ===== verification/Pop_Proof.thy ===== *)
theory Pop_Proof
  imports Pop_Signer Claim_Logic
begin

text \<open>
  Proofs of participation for the on-chain claim (\<open>storeDO.ts\<close>): the fields of an on-chain proof in a claim, the chain
  of proof hashes per grant, the signed message, the proofs kept for reuse, and \<open>POST /v1/school/pop-proof\<close>. The
  readings of the clock within one request are taken as one.
\<close>

section \<open>On-chain fields of a claim\<close>

definition TX_SIGNATURE_BASE58_RE :: "string \<Rightarrow> bool" where
  "TX_SIGNATURE_BASE58_RE t = (64 \<le> length t \<and> length t \<le> 128 \<and> list_all is_base58 t)"

definition isEventOnchainConfigured :: "js \<Rightarrow> bool" where
  "isEventOnchainConfigured event =
     (trimmed_str (jget event ''solanaMint'') \<noteq> None \<and> trimmed_str (jget event ''solanaAuthority'') \<noteq> None
      \<and> trimmed_str (jget event ''solanaGrantId'') \<noteq> None)"

record OnchainProofFields =
  of_walletAddress :: string
  of_txSignature :: string
  of_receiptPubkey :: string

definition getOnchainProofFields :: "js \<Rightarrow> OnchainProofFields" where
  "getOnchainProofFields body = \<lparr>of_walletAddress = strField body ''walletAddress'', of_txSignature = strField body ''txSignature'',
     of_receiptPubkey = strField body ''receiptPubkey''\<rparr>"

definition validateOnchainProofFields :: "OnchainProofFields \<Rightarrow> string option" where
  "validateOnchainProofFields f =
     (if of_walletAddress f = [] \<or> \<not> MINT_BASE58_RE (of_walletAddress f) then Some ''walletAddress is required for on-chain claim''
      else if of_txSignature f = [] \<or> \<not> TX_SIGNATURE_BASE58_RE (of_txSignature f) then Some ''txSignature is required for on-chain claim''
      else if of_receiptPubkey f = [] \<or> \<not> MINT_BASE58_RE (of_receiptPubkey f) then Some ''receiptPubkey is required for on-chain claim''
      else None)"

definition hasAnyOnchainProofField :: "OnchainProofFields \<Rightarrow> bool" where
  "hasAnyOnchainProofField f = (of_txSignature f \<noteq> [] \<or> of_receiptPubkey f \<noteq> [])"

section \<open>Hashes and the signed message\<close>

definition POP_CHAIN_GLOBAL_PREFIX :: string where "POP_CHAIN_GLOBAL_PREFIX = ''pop_chain:lastHash:global:''"
definition POP_CHAIN_STREAM_PREFIX :: string where "POP_CHAIN_STREAM_PREFIX = ''pop_chain:lastHash:stream:''"
definition POP_PROOF_CACHE_PREFIX :: string where "POP_PROOF_CACHE_PREFIX = ''pop_proof:claim:''"
definition POP_MESSAGE_VERSION :: "8 word" where "POP_MESSAGE_VERSION = 2"
definition POP_MESSAGE_LEN :: nat where "POP_MESSAGE_LEN = 1 + 32 + 32 + 8 + 32 + 32 + 32 + 32 + 8"
definition POP_PROOF_REUSE_MAX_AGE_SECONDS :: int where "POP_PROOF_REUSE_MAX_AGE_SECONDS = 8 * 60"

text \<open>\<open>readHashHex\<close> on what the storage holds; a value that is no string has no \<open>trim\<close>.\<close>

definition readHashHex :: "js \<Rightarrow> string or_error" where
  "readHashHex raw =
     (if \<not> truthy raw \<or> raw = JStr ''GENESIS'' then Inr POP_HASH_GENESIS_HEX
      else case raw of
             JStr t \<Rightarrow> (let v = js_lower (js_trim t) in
               if length v = 64 \<and> list_all is_lower_hex v then Inr v else Inl ''invalid hash in storage'')
           | _ \<Rightarrow> Inl ''TypeError'')"

definition readOptionalHashHex :: "js \<Rightarrow> string option or_error" where
  "readOptionalHashHex raw =
     (case raw of
        JStr t \<Rightarrow> (let v = js_lower (js_trim t) in
          if v = [] then Inr None
          else if length v = 64 \<and> list_all is_lower_hex v then Inr (Some v) else Inl ''invalid expected hash'')
      | _ \<Rightarrow> Inr None)"

record PopFields =
  pp_grant :: bytes
  pp_claimer :: bytes
  pp_periodIndex :: int
  pp_prevHash :: bytes
  pp_streamPrevHash :: bytes
  pp_auditHash :: bytes
  pp_issuedAt :: int

definition POP_DOMAIN :: bytes where "POP_DOMAIN = map (word_of_nat \<circ> of_char) ''we-ne:pop:v2''"

definition popEntryInput :: "PopFields \<Rightarrow> bytes" where
  "popEntryInput f = POP_DOMAIN @ pp_prevHash f @ pp_streamPrevHash f @ pp_auditHash f @ pp_grant f @ pp_claimer f
     @ bigToLeBytes (pp_periodIndex f) @ bigToLeBytes (pp_issuedAt f)"

definition buildPopEntryHash :: "pop_crypto \<Rightarrow> PopFields \<Rightarrow> bytes" where
  "buildPopEntryHash cr f = sha256 cr (popEntryInput f)"

text \<open>The parts are 32 bytes each where the code writes them at fixed offsets.\<close>

definition buildPopProofMessage :: "PopFields \<Rightarrow> bytes \<Rightarrow> bytes" where
  "buildPopProofMessage f entryHash =
     [POP_MESSAGE_VERSION] @ pp_grant f @ pp_claimer f @ bigToLeBytes (pp_periodIndex f) @ pp_prevHash f @ pp_streamPrevHash f
     @ pp_auditHash f @ entryHash @ bigToLeBytes (pp_issuedAt f)"

section \<open>Proofs kept for reuse\<close>

record PopProofResponse =
  pf_signerPubkey :: string
  pf_messageBase64 :: string
  pf_signatureBase64 :: string
  pf_auditHash :: string
  pf_prevHash :: string
  pf_streamPrevHash :: string
  pf_entryHash :: string
  pf_issuedAt :: int

definition popProofToJs :: "PopProofResponse \<Rightarrow> js" where
  "popProofToJs p = JObj [(''signerPubkey'', JStr (pf_signerPubkey p)), (''messageBase64'', JStr (pf_messageBase64 p)),
     (''signatureBase64'', JStr (pf_signatureBase64 p)), (''auditHash'', JStr (pf_auditHash p)), (''prevHash'', JStr (pf_prevHash p)),
     (''streamPrevHash'', JStr (pf_streamPrevHash p)), (''entryHash'', JStr (pf_entryHash p)), (''issuedAt'', JInt (pf_issuedAt p))]"

definition buildPopClaimProofCacheKey ::
  "(string \<Rightarrow> string) \<Rightarrow> string \<Rightarrow> string \<Rightarrow> string \<Rightarrow> string \<Rightarrow> int \<Rightarrow> string option \<Rightarrow> string option \<Rightarrow> string" where
  "buildPopClaimProofCacheKey H eventId confirmationCode grant claimer periodIndex expectedPrevHash expectedStreamPrevHash =
     POP_PROOF_CACHE_PREFIX @ H (canonicalize (JObj [(''eventId'', JStr eventId), (''confirmationCode'', JStr confirmationCode),
       (''grant'', JStr grant), (''claimer'', JStr claimer), (''periodIndex'', JStr (js_str_int periodIndex)),
       (''expectedPrevHash'', jstr_null expectedPrevHash), (''expectedStreamPrevHash'', jstr_null expectedStreamPrevHash)]))"

definition lowerField :: "js \<Rightarrow> string \<Rightarrow> string option" where
  "lowerField raw k = map_option js_lower (normalizeStringField (jget raw k))"

definition parseStoredPopClaimProof :: "js \<Rightarrow> PopProofResponse option" where
  "parseStoredPopClaimProof raw =
     (if \<not> is_obj raw then None
      else case (normalizeStringField (jget raw ''signerPubkey''), normalizeStringField (jget raw ''messageBase64''),
                 normalizeStringField (jget raw ''signatureBase64''), lowerField raw ''auditHash'', lowerField raw ''prevHash'',
                 lowerField raw ''streamPrevHash'', lowerField raw ''entryHash'', numberField (jget raw ''issuedAt'')) of
             (Some signerPubkey, Some messageBase64, Some signatureBase64, Some auditHash, Some prevHash, Some streamPrevHash,
              Some entryHash, Some issuedAt) \<Rightarrow>
               (if isHashHex auditHash \<and> isHashHex prevHash \<and> isHashHex streamPrevHash \<and> isHashHex entryHash
                   \<and> is_integral issuedAt \<and> issuedAt \<ge> 0
                then Some \<lparr>pf_signerPubkey = signerPubkey, pf_messageBase64 = messageBase64, pf_signatureBase64 = signatureBase64,
                       pf_auditHash = auditHash, pf_prevHash = prevHash, pf_streamPrevHash = streamPrevHash,
                       pf_entryHash = entryHash, pf_issuedAt = \<lfloor>issuedAt\<rfloor>\<rparr>
                else None)
           | _ \<Rightarrow> None)"

definition isReusablePopClaimProof :: "PopProofResponse \<Rightarrow> int \<Rightarrow> bool" where
  "isReusablePopClaimProof proof nowUnix =
     (let ageSeconds = nowUnix - pf_issuedAt proof in 0 \<le> ageSeconds \<and> ageSeconds \<le> POP_PROOF_REUSE_MAX_AGE_SECONDS)"

section \<open>Issuing\<close>

record PopRequest =
  pq_eventId :: string
  pq_confirmationCode :: string
  pq_grant :: string
  pq_claimer :: string
  pq_periodIndex :: int

definition parsePopRequest :: "js \<Rightarrow> PopRequest or_error" where
  "parsePopRequest body =
     (let eventId = strField body ''eventId''; confirmationCode = strField body ''confirmationCode'';
          grantRaw = strField body ''grant''; claimerRaw = strField body ''claimer'' in
      case parsePeriodIndex (jget body ''periodIndex'') of
        None \<Rightarrow> Inl ''invalid PoP proof request''
      | Some periodIndex \<Rightarrow>
          (if eventId = [] \<or> confirmationCode = [] \<or> grantRaw = [] \<or> claimerRaw = [] \<or> periodIndex < 0
           then Inl ''invalid PoP proof request''
           else if \<not> MINT_BASE58_RE grantRaw \<or> \<not> MINT_BASE58_RE claimerRaw then Inl ''invalid grant/claimer format''
           else if periodIndex > 2 ^ 64 - 1 then Inl ''periodIndex out of range''
           else Inr \<lparr>pq_eventId = eventId, pq_confirmationCode = confirmationCode, pq_grant = grantRaw,
                  pq_claimer = claimerRaw, pq_periodIndex = periodIndex\<rparr>))"

text \<open>The receipt a proof rests on, with the time it was verified.\<close>

definition verifiedReceipt ::
  "(string \<Rightarrow> string) \<Rightarrow> storage \<Rightarrow> int \<Rightarrow> string \<Rightarrow> string \<Rightarrow> (ParticipationTicketReceipt \<times> string) or_error" where
  "verifiedReceipt H s nowMs eventId confirmationCode =
     (case getEvent doStorageAdapter s eventId of
        None \<Rightarrow> Inl ''event not found''
      | Some event \<Rightarrow>
          (if truthy (jget event ''state'') \<and> jget event ''state'' \<noteq> JStr ''published'' then Inl ''event not available''
           else case getParticipationTicketReceipt s eventId [] confirmationCode of
             None \<Rightarrow> Inl ''off-chain ticket receipt not found''
           | Some receipt \<Rightarrow>
               (case verifyParticipationTicketReceipt H s nowMs receipt of
                  Inl e \<Rightarrow> Inl e
                | Inr v \<Rightarrow> if rv_ok v then Inr (receipt, rv_checkedAt v) else Inl ''off-chain ticket receipt verification failed'')))"

text \<open>The two predecessor hashes the client may name, together or not at all.\<close>

definition expectedHashes :: "js \<Rightarrow> (string \<times> string) option or_error" where
  "expectedHashes body =
     (case readOptionalHashHex (jget body ''expectedPrevHash'') of
        Inl e \<Rightarrow> Inl e
      | Inr p \<Rightarrow>
          (case readOptionalHashHex (jget body ''expectedStreamPrevHash'') of
             Inl e \<Rightarrow> Inl e
           | Inr q \<Rightarrow>
               (case (p, q) of
                  (Some ph, Some qh) \<Rightarrow> Inr (Some (ph, qh))
                | (None, None) \<Rightarrow> Inr None
                | _ \<Rightarrow> Inl ''expected prev hashes must be provided together'')))"

definition popGlobalKey :: "string \<Rightarrow> string" where "popGlobalKey grant = POP_CHAIN_GLOBAL_PREFIX @ grant"
definition popStreamKey :: "string \<Rightarrow> string" where "popStreamKey grant = POP_CHAIN_STREAM_PREFIX @ grant"
definition popHistoryKey :: "string \<Rightarrow> string \<Rightarrow> string" where "popHistoryKey ts entryHash = ''pop_chain:history:'' @ ts @ '':'' @ entryHash"

definition keyBytes :: "pop_crypto \<Rightarrow> string \<Rightarrow> string \<Rightarrow> (bytes \<times> bytes) or_error" where
  "keyBytes cr grantRaw claimerRaw =
     (case (bs58Decode cr grantRaw, bs58Decode cr claimerRaw) of
        (Some grant, Some claimer) \<Rightarrow>
          (if length grant \<noteq> 32 \<or> length claimer \<noteq> 32 then Inl ''invalid grant/claimer bytes'' else Inr (grant, claimer))
      | _ \<Rightarrow> Inl ''Non-base58 character'')"

text \<open>The data that the audit entry and the history of the chain share.\<close>

definition popLinkFields ::
  "PopRequest \<Rightarrow> string \<Rightarrow> string \<Rightarrow> bool \<Rightarrow> string \<Rightarrow> string \<Rightarrow> (string \<times> js) list" where
  "popLinkFields q prevHex streamPrevHex advanced storedPrev storedStreamPrev =
     [(''grant'', JStr (pq_grant q)), (''claimer'', JStr (pq_claimer q)), (''periodIndex'', JStr (js_str_int (pq_periodIndex q))),
      (''prevHash'', JStr prevHex), (''streamPrevHash'', JStr streamPrevHex),
      (''hashSource'', JStr (if advanced then ''storage'' else ''client_onchain'')), (''popChainAdvanced'', JBool advanced),
      (''storedPrevHash'', JStr storedPrev), (''storedStreamPrevHash'', JStr storedStreamPrev)]"

text \<open>
  The part after all checks: the proof for a request whose receipt was verified and whose keys were decoded. \<open>Inl\<close>
  leaves the storage of the step that failed.
\<close>

definition signPopClaimProof ::
  "pop_crypto \<Rightarrow> (string \<Rightarrow> string) \<Rightarrow> Env \<Rightarrow> AuditServices \<Rightarrow> storage \<Rightarrow> int \<Rightarrow> PopSigner \<Rightarrow> PopRequest
     \<Rightarrow> ParticipationTicketReceipt \<Rightarrow> string \<Rightarrow> bytes \<Rightarrow> bytes \<Rightarrow> (string \<times> string) option \<Rightarrow> string
     \<Rightarrow> storage \<times> PopProofResponse or_error" where
  "signPopClaimProof cr H env svc s nowMs signer q receipt checkedAt grant claimer expected cacheKey =
     (case (readHashHex (sto_get s (popGlobalKey (pq_grant q))), readHashHex (sto_get s (popStreamKey (pq_grant q)))) of
        (Inl e, _) \<Rightarrow> (s, Inl e)
      | (Inr _, Inl e) \<Rightarrow> (s, Inl e)
      | (Inr storedPrev, Inr storedStreamPrev) \<Rightarrow>
          (let (prevHex, streamPrevHex) = (case expected of Some pq \<Rightarrow> pq | None \<Rightarrow> (storedPrev, storedStreamPrev));
               advanced = (expected = None)
           in case (hexToBytes prevHex, hexToBytes streamPrevHex, readHashHex (JStr (pr_receiptHash receipt))) of
                (Inr prevHash, Inr streamPrevHash, Inr auditHex) \<Rightarrow>
                  (case hexToBytes auditHex of
                     Inl e \<Rightarrow> (s, Inl e)
                   | Inr auditHash \<Rightarrow>
                     (case appendAuditLog H env svc s nowMs ''POP_CLAIM_PROOF_ANCHOR''
                             (auditActor ''wallet'' (maskActorId (pq_claimer q)))
                             (JObj ([(''eventId'', JStr (pq_eventId q)), (''confirmationCode'', JStr (pq_confirmationCode q)),
                                (''receiptId'', JStr (pr_receiptId receipt)), (''receiptHash'', JStr (pr_receiptHash receipt)),
                                (''receiptVerifiedAt'', JStr checkedAt)]
                               @ popLinkFields q prevHex streamPrevHex advanced storedPrev storedStreamPrev))
                             (''pop:'' @ pq_eventId q) of
                        Inl e \<Rightarrow> (s, Inl e)
                      | Inr (s1, anchor) \<Rightarrow>
                          (let f = \<lparr>pp_grant = grant, pp_claimer = claimer, pp_periodIndex = pq_periodIndex q, pp_prevHash = prevHash,
                                    pp_streamPrevHash = streamPrevHash, pp_auditHash = auditHash, pp_issuedAt = nowMs div 1000\<rparr>;
                               entryHash = buildPopEntryHash cr f;
                               entryHex = bytesToHex entryHash;
                               s2 = (if advanced
                                     then sto_put (sto_put s1 (popGlobalKey (pq_grant q)) (JStr entryHex)) (popStreamKey (pq_grant q)) (JStr entryHex)
                                     else s1);
                               s3 = sto_put s2 (popHistoryKey (js_toISOString nowMs) entryHex)
                                      (JObj ([(''eventId'', JStr (pq_eventId q)), (''confirmationCode'', JStr (pq_confirmationCode q)),
                                         (''receiptId'', JStr (pr_receiptId receipt)), (''receiptHash'', JStr (pr_receiptHash receipt)),
                                         (''anchorEntryHash'', jget anchor ''entry_hash'')]
                                        @ popLinkFields q prevHex streamPrevHex advanced storedPrev storedStreamPrev
                                        @ [(''auditHash'', JStr auditHex), (''entryHash'', JStr entryHex), (''issuedAt'', JInt (nowMs div 1000))]));
                               message = buildPopProofMessage f entryHash;
                               signature = signDetached cr message (ps_secretKey signer);
                               proof = \<lparr>pf_signerPubkey = ps_signerPubkey signer, pf_messageBase64 = encodeBase64 message,
                                        pf_signatureBase64 = encodeBase64 signature, pf_auditHash = auditHex, pf_prevHash = prevHex,
                                        pf_streamPrevHash = streamPrevHex, pf_entryHash = entryHex, pf_issuedAt = nowMs div 1000\<rparr>
                           in (sto_put s3 cacheKey (popProofToJs proof), Inr proof))))
              | (Inl e, _, _) \<Rightarrow> (s, Inl e)
              | (Inr _, Inl e, _) \<Rightarrow> (s, Inl e)
              | (Inr _, Inr _, Inl e) \<Rightarrow> (s, Inl e)))"

definition issuePopClaimProof ::
  "pop_crypto \<Rightarrow> (string \<Rightarrow> string) \<Rightarrow> Env \<Rightarrow> AuditServices \<Rightarrow> PopSignerCacheEntry option \<Rightarrow> storage \<Rightarrow> int \<Rightarrow> js
     \<Rightarrow> PopSignerCacheEntry option \<times> storage \<times> PopProofResponse or_error" where
  "issuePopClaimProof cr H env svc cache s nowMs body =
     (case getPopSigner cr env cache nowMs of
        (cache', Inl e) \<Rightarrow> (cache', s, Inl e)
      | (cache', Inr None) \<Rightarrow> (cache', s, Inl ''PoP signer is not configured'')
      | (cache', Inr (Some signer)) \<Rightarrow>
          (cache',
           (case parsePopRequest body of
              Inl e \<Rightarrow> (s, Inl e)
            | Inr q \<Rightarrow>
              (case verifiedReceipt H s nowMs (pq_eventId q) (pq_confirmationCode q) of
                 Inl e \<Rightarrow> (s, Inl e)
               | Inr (receipt, checkedAt) \<Rightarrow>
                 (case keyBytes cr (pq_grant q) (pq_claimer q) of
                    Inl e \<Rightarrow> (s, Inl e)
                  | Inr (grant, claimer) \<Rightarrow>
                    (case expectedHashes body of
                       Inl e \<Rightarrow> (s, Inl e)
                     | Inr expected \<Rightarrow>
                       (let cacheKey = buildPopClaimProofCacheKey H (pq_eventId q) (pq_confirmationCode q) (pq_grant q) (pq_claimer q)
                              (pq_periodIndex q) (map_option fst expected) (map_option snd expected)
                        in case parseStoredPopClaimProof (sto_get s cacheKey) of
                             Some proof \<Rightarrow>
                               (if isReusablePopClaimProof proof (nowMs div 1000) then (s, Inr proof)
                                else signPopClaimProof cr H env svc s nowMs signer q receipt checkedAt grant claimer expected cacheKey)
                           | None \<Rightarrow>
                               signPopClaimProof cr H env svc s nowMs signer q receipt checkedAt grant claimer expected cacheKey)))))))"

definition popErrorStatus :: "string \<Rightarrow> int" where
  "popErrorStatus message =
     (if js_includes message ''not configured'' then 500
      else if js_includes message ''not found'' then 404
      else if js_includes message ''verification failed'' then 409
      else if js_includes message ''not available'' then 400
      else if js_includes message ''invalid'' \<or> js_includes message ''out of range'' then 400 else 500)"

definition handlePopProof ::
  "pop_crypto \<Rightarrow> (string \<Rightarrow> string) \<Rightarrow> Env \<Rightarrow> AuditServices \<Rightarrow> PopSignerCacheEntry option \<Rightarrow> storage \<Rightarrow> int \<Rightarrow> Request
     \<Rightarrow> PopSignerCacheEntry option \<times> storage \<times> Response" where
  "handlePopProof cr H env svc cache s nowMs rq =
     (case rq_json rq of
        Inl _ \<Rightarrow> (cache, s, json_response (errorBody ''invalid body'') 400)
      | Inr body \<Rightarrow>
          (case issuePopClaimProof cr H env svc cache s nowMs body of
             (cache', s', Inr proof) \<Rightarrow> (cache', s', json_response (popProofToJs proof) 200)
           | (cache', s', Inl message) \<Rightarrow> (cache', s', json_response (errorBody message) (popErrorStatus message))))"

end
