(* ===== verification/Forgery_Spec.thy ===== *)
theory Forgery_Spec
  imports Forgery_Guard Transfer_Spec Registry_Spec
begin

text \<open>
  What the Cost of Forgery check promises: stored records are read back, a cached decision keeps what the service
  said, a check that is closed on failure lets a request pass only on an acceptable answer or a granted override, and
  an approved override lasts as long as it says.
\<close>

section \<open>Records\<close>

lemma full_iso: "full (js_toISOString n)"
  by (simp add: full_def)

lemma lowerWord_words [simp]:
  "lowerWord (JStr (forgeryActionStr a)) = forgeryActionStr a" "lowerWord (JStr (remediationStatusStr st)) = remediationStatusStr st"
  "lowerWord (JStr (evidenceTypeStr ev)) = evidenceTypeStr ev"
    apply (cases a; hypsubst; code_simp)
   apply (cases st; hypsubst; code_simp)
  apply (cases ev; hypsubst; code_simp)
  done

lemma word_back [simp]:
  "wordAction (forgeryActionStr a) = Some a" "normalizeCostOfForgeryAction (JStr (forgeryActionStr a)) = Some a"
  "parseCostOfForgeryRemediationRequestStatus (JStr (remediationStatusStr st)) = Some st"
  "normalizeCostOfForgeryEvidenceType (JStr (evidenceTypeStr ev)) = Some ev"
proof -
  show "wordAction (forgeryActionStr a) = Some a" by (cases a) (simp_all add: wordAction_def)
  then show "normalizeCostOfForgeryAction (JStr (forgeryActionStr a)) = Some a" by (simp add: normalizeCostOfForgeryAction_def)
  show "parseCostOfForgeryRemediationRequestStatus (JStr (remediationStatusStr st)) = Some st"
    by (simp add: parseCostOfForgeryRemediationRequestStatus_def) (cases st; simp)
  show "normalizeCostOfForgeryEvidenceType (JStr (evidenceTypeStr ev)) = Some ev"
    by (simp add: normalizeCostOfForgeryEvidenceType_def) (cases ev; simp)
qed

lemma subjectType_back [simp]: "parseSubjectType (JStr (subjectTypeStr t)) = Some t"
  by (cases t; hypsubst; code_simp)

lemma number_back [simp]:
  "numberField (JNum r) = Some r" "nullableNumber (jrat_null x) = Some x" "nullableNumber (JNum r) = Some (Some r)"
  by (simp_all add: numberField_def nullableNumber_def jrat_null_def split: option.splits)

definition request_wf :: "CostOfForgeryRemediationRequestRecord \<Rightarrow> bool" where
  "request_wf r = (full (rr_requestId r) \<and> full (rr_createdAt r) \<and> pred_option full (rr_eventId r) \<and> full (rr_subjectHash r)
     \<and> full (rr_subjectMask r) \<and> pred_option full (rr_evidenceNote r) \<and> pred_option full (rr_confirmationCode r)
     \<and> pred_option full (rr_popReceiptId r) \<and> pred_option full (rr_inviteCodeHint r) \<and> full (rr_requesterIpHash r)
     \<and> pred_option full (rr_resolvedAt r) \<and> pred_option full (rr_resolvedBy r) \<and> pred_option full (rr_resolutionReason r)
     \<and> pred_option full (rr_overrideExpiresAt r))"

definition override_wf :: "CostOfForgeryRemediationOverrideRecord \<Rightarrow> bool" where
  "override_wf r = (full (ro_requestId r) \<and> pred_option full (ro_eventId r) \<and> full (ro_subjectHash r) \<and> full (ro_approvedAt r)
     \<and> full (ro_approvedBy r) \<and> pred_option full (ro_reason r) \<and> full (ro_expiresAt r))"

lemma request_back: "request_wf r \<Longrightarrow> parseCostOfForgeryRemediationRequestRecord (remediationRequestToJs r) = Some r"
  by (simp add: parseCostOfForgeryRemediationRequestRecord_def remediationRequestToJs_def request_wf_def normalize_full_opt)

lemma override_back: "override_wf r \<Longrightarrow> parseCostOfForgeryRemediationOverrideRecord (remediationOverrideToJs r) = Some r"
  by (simp add: parseCostOfForgeryRemediationOverrideRecord_def remediationOverrideToJs_def override_wf_def normalize_full_opt)

interpretation remediation: record_slot costOfForgeryRemediationRequestKey remediationRequestToJs
    parseCostOfForgeryRemediationRequestRecord request_wf
  by unfold_locales (simp_all add: request_back costOfForgeryRemediationRequestKey_def)

section \<open>The decision\<close>

definition acceptable :: "int \<Rightarrow> CostOfForgeryDecision \<Rightarrow> bool" where
  "acceptable minScore d = (fd_allow d \<and> pred_option (\<lambda>r. of_int minScore \<le> r) (fd_score d))"

lemma parsed_acceptable: "fd_allow (parseCostOfForgeryDecision raw m) \<Longrightarrow> acceptable m (parseCostOfForgeryDecision raw m)"
  by (auto simp: parseCostOfForgeryDecision_def acceptable_def Let_def split: if_splits option.splits)

lemma minScore_range: "0 \<le> resolveCostOfForgeryMinScore env a ev \<and> resolveCostOfForgeryMinScore env a ev \<le> 100"
proof -
  have b: "0 \<le> fs_minScore (getCostOfForgeryStatus env) \<and> fs_minScore (getCostOfForgeryStatus env) \<le> 100"
    using parseBoundedInt_bounds [of 0 70 100] by (simp add: getCostOfForgeryStatus_def COST_OF_FORGERY_DEFAULT_MIN_SCORE_def Let_def)
  then have "0 \<le> min 100 (fs_minScore (getCostOfForgeryStatus env) + 10) \<and> min 100 (fs_minScore (getCostOfForgeryStatus env) + 10) \<le> 100"
    by simp
  then show ?thesis using b parseBoundedInt_bounds [of 0 _ 100]
    by (simp add: resolveCostOfForgeryMinScore_def Let_def COST_OF_FORGERY_DEFAULT_PUBLIC_MIN_SCORE_OFFSET_def)
qed

text \<open>What is in the cache was acceptable for the score it was asked for, wherever it lets a claim pass.\<close>

definition cache_sound :: "storage \<Rightarrow> bool" where
  "cache_sound s = (\<forall>k r. parseCostOfForgeryWalletCacheRecord (sto_get s k) = Some r \<longrightarrow> fd_allow (fc_decision r)
     \<longrightarrow> acceptable (fc_minScore r) (fc_decision r))"

lemma clamp_ge: "m \<le> 100 \<Longrightarrow> of_int m \<le> r \<Longrightarrow> of_int m \<le> clampScore r"
  by (simp add: clampScore_def le_max_iff_disj)

lemma cached_decision_back:
  assumes "parseCostOfForgeryWalletCacheRecord (walletCacheToJs c) = Some r" "fc_minScore c = m" "0 \<le> m" "m \<le> 100"
  shows "fc_minScore r = m \<and> fd_allow (fc_decision r) = fd_allow (fc_decision c)
    \<and> fd_score (fc_decision r) = map_option clampScore (fd_score (fc_decision c))"
  using assms
  by (auto simp: parseCostOfForgeryWalletCacheRecord_def walletCacheToJs_def parseCachedDecision_def decisionToJs_def jrat_null_def
      numberField_def Let_def split: if_splits option.splits)

lemma cache_sound_cached:
  assumes "cache_sound s" "acceptable m d \<or> \<not> fd_allow d" "0 \<le> m" "m \<le> 100"
  shows "cache_sound (cacheWalletCostOfForgeryDecision H env s w a m d t)"
proof -
  { fix c k k' r
    assume c: "fc_minScore c = m" "fc_decision c = d"
      and p: "parseCostOfForgeryWalletCacheRecord (sto_get (sto_put s k (walletCacheToJs c)) k') = Some r" "fd_allow (fc_decision r)"
    have "acceptable (fc_minScore r) (fc_decision r)"
    proof (cases "k' = k")
      case True
      with p(1) have "parseCostOfForgeryWalletCacheRecord (walletCacheToJs c) = Some r" by simp
      from cached_decision_back [OF this c(1) assms(3,4)] p(2) assms(2,4) c(2) show ?thesis
        by (auto simp: acceptable_def option.pred_map option.pred_set intro: clamp_ge)
    next
      case False
      with p assms(1) show ?thesis by (auto simp: cache_sound_def)
    qed }
  note step = this
  show ?thesis
  proof (cases "getCostOfForgeryCacheTtlSeconds env \<le> 0 \<or> normalizeWalletForCostOfForgeryCache w = None")
    case True
    then show ?thesis using assms(1) by (auto simp: cacheWalletCostOfForgeryDecision_def Let_def)
  next
    case False
    then obtain y where y: "normalizeWalletForCostOfForgeryCache w = Some y" by auto
    let ?c = "\<lparr>fc_wallet = y, fc_action = a, fc_minScore = m, fc_cachedAtMs = of_int t,
               fc_expiresAtMs = of_int (t + getCostOfForgeryCacheTtlSeconds env * 1000), fc_decision = d\<rparr>"
    have "cacheWalletCostOfForgeryDecision H env s w a m d t = sto_put s (buildCostOfForgeryWalletCacheKey H y a m) (walletCacheToJs ?c)"
      using False y by (simp add: cacheWalletCostOfForgeryDecision_def Let_def)
    moreover have "fc_minScore ?c = m" "fc_decision ?c = d" by simp_all
    ultimately show ?thesis using step [of ?c] unfolding cache_sound_def by metis
  qed
qed


section \<open>Enforcement\<close>

lemma cached_acceptable:
  assumes "cache_sound s" "getCachedWalletCostOfForgeryDecision H env s w a m t = Some d" "fd_allow d"
  shows "acceptable m d"
  using assms by (auto simp: getCachedWalletCostOfForgeryDecision_def cache_sound_def split: if_splits option.splits)

lemma evaluated_acceptable:
  "evaluateCostOfForgeryDecision H env fetch rq t p m = Inr d \<Longrightarrow> acceptable m d \<or> \<not> fd_allow d"
  using parsed_acceptable by (auto simp: evaluateCostOfForgeryDecision_def split: option.splits FetchOutcome.splits if_splits)

lemma cache_sound_enforce: "cache_sound s \<Longrightarrow> cache_sound (fst (enforceCostOfForgeryRisk H env fetch rnd s t rq p))"
  using cache_sound_cached [OF _ evaluated_acceptable] minScore_range
  by (auto simp: enforceCostOfForgeryRisk_def Let_def split: option.splits sum.splits)

text \<open>An answer of the service on which the check rests: given now, or kept from an earlier claim of the same wallet.\<close>

definition answered ::
  "(string \<Rightarrow> string) \<Rightarrow> Env \<Rightarrow> risk_service \<Rightarrow> storage \<Rightarrow> int \<Rightarrow> Request \<Rightarrow> ForgeryParams \<Rightarrow> CostOfForgeryDecision \<Rightarrow> bool" where
  "answered H env fetch s t rq p d =
     (let m = resolveCostOfForgeryMinScore env (fp_action p) (fp_event p) in
      evaluateCostOfForgeryDecision H env fetch rq t p m = Inr d
      \<or> (fp_action p = Act_wallet_claim \<and> getCachedWalletCostOfForgeryDecision H env s (fp_walletAddress p) (fp_action p) m t = Some d))"

lemma enforce_passes:
  assumes "cache_sound s" "snd (enforceCostOfForgeryRisk H env fetch rnd s t rq p) = None"
    and "shouldEnforceCostOfForgeryAction env (fp_action p)" "isCostOfForgeryFailClosedForAction env (fp_action p)"
    and "findActiveCostOfForgeryRemediationOverride H s (fp_action p) (fp_eventId p) (fp_subject p) t = None"
  shows "\<exists>d. answered H env fetch s t rq p d \<and> acceptable (resolveCostOfForgeryMinScore env (fp_action p) (fp_event p)) d"
proof -
  let ?m = "resolveCostOfForgeryMinScore env (fp_action p) (fp_event p)"
  let ?c = "if fp_action p = Act_wallet_claim
            then getCachedWalletCostOfForgeryDecision H env s (fp_walletAddress p) (fp_action p) ?m t else None"
  have ready: "fs_operationalReady (getCostOfForgeryStatus env)"
    using assms(2-5) by (auto simp: enforceCostOfForgeryRisk_def Let_def split: if_splits)
  show ?thesis
  proof (cases ?c)
    case (Some d)
    then have c: "fp_action p = Act_wallet_claim" "getCachedWalletCostOfForgeryDecision H env s (fp_walletAddress p) (fp_action p) ?m t = Some d"
      by (auto split: if_splits)
    then have "fd_allow d" using assms(2-5) ready by (auto simp: enforceCostOfForgeryRisk_def Let_def split: if_splits)
    with c assms(1) show ?thesis by (auto simp: answered_def Let_def intro!: exI [of _ d] cached_acceptable)
  next
    case None
    then obtain d where d: "evaluateCostOfForgeryDecision H env fetch rq t p ?m = Inr d" "fd_allow d"
      using assms(2-5) ready
      by (cases "evaluateCostOfForgeryDecision H env fetch rq t p ?m") (auto simp: enforceCostOfForgeryRisk_def Let_def split: if_splits)
    then show ?thesis using evaluated_acceptable [OF d(1)] by (auto simp: answered_def Let_def)
  qed
qed


section \<open>Overrides\<close>

lemma minutes_range:
  "5 \<le> requestedMinutes env body \<and> requestedMinutes env body \<le> COST_OF_FORGERY_MAX_REMEDIATION_OVERRIDE_TTL_MINUTES"
proof -
  have m: "COST_OF_FORGERY_MAX_REMEDIATION_OVERRIDE_TTL_MINUTES = 43200" "COST_OF_FORGERY_DEFAULT_REMEDIATION_OVERRIDE_TTL_MINUTES = 1440"
    by (simp_all add: COST_OF_FORGERY_MAX_REMEDIATION_OVERRIDE_TTL_MINUTES_def COST_OF_FORGERY_DEFAULT_REMEDIATION_OVERRIDE_TTL_MINUTES_def)
  have "5 \<le> getCostOfForgeryRemediationOverrideTtlMinutes env \<and> getCostOfForgeryRemediationOverrideTtlMinutes env \<le> 43200"
    unfolding getCostOfForgeryRemediationOverrideTtlMinutes_def m by (rule parseBoundedInt_bounds) simp_all
  then show ?thesis unfolding requestedMinutes_def m by (intro parseBoundedInt_bounds) simp_all
qed

lemma override_keys:
  "\<not> prefix ''audit'' (buildCostOfForgeryRemediationOverrideKey H a e h)"
  "\<not> prefix ''audit'' (costOfForgeryRemediationRequestKey i)"
  "buildCostOfForgeryRemediationOverrideKey H a e h \<noteq> costOfForgeryRemediationRequestKey i"
  "costOfForgeryRemediationRequestKey i \<noteq> buildCostOfForgeryRemediationOverrideKey H a e h"
  by (auto simp: buildCostOfForgeryRemediationOverrideKey_def COST_OF_FORGERY_REMEDIATION_OVERRIDE_PREFIX_def Let_def
      costOfForgeryRemediationRequestKey_def COST_OF_FORGERY_REMEDIATION_REQUEST_PREFIX_def)

lemma parsed_override_wf: "parseCostOfForgeryRemediationRequestRecord v = Some r \<Longrightarrow>
    pred_option full (rr_eventId r) \<and> full (rr_subjectHash r)"
  by (auto simp: parseCostOfForgeryRemediationRequestRecord_def option.pred_set dest: normalized_SomeD split: if_splits option.splits)

text \<open>What an approval leaves under the key of its override.\<close>

lemma approve_stores:
  assumes "pendingRemediation env s rq segment = Inr (operator, r)" "full (op_actorId operator)"
    and "handleRemediationApprove H env svc s n segment rq = (s', Inr resp)"
  shows "parseCostOfForgeryRemediationOverrideRecord
           (sto_get s' (buildCostOfForgeryRemediationOverrideKey H (rr_action r) (rr_eventId r) (rr_subjectHash r)))
       = Some \<lparr>ro_requestId = js_trim segment, ro_action = rr_action r, ro_eventId = rr_eventId r, ro_subjectHash = rr_subjectHash r,
           ro_approvedAt = js_toISOString n, ro_approvedAtMs = of_int n, ro_approvedBy = op_actorId operator,
           ro_reason = normalizeStringField (jget (bodyOrEmpty rq) ''reason''),
           ro_expiresAt = js_toISOString (n + requestedMinutes env (bodyOrEmpty rq) * 60 * 1000),
           ro_expiresAtMs = of_int (n + requestedMinutes env (bodyOrEmpty rq) * 60 * 1000)\<rparr>" (is "_ = Some ?o")
proof -
  let ?k = "buildCostOfForgeryRemediationOverrideKey H (rr_action r) (rr_eventId r) (rr_subjectHash r)"
  have r: "parseCostOfForgeryRemediationRequestRecord (sto_get s (costOfForgeryRemediationRequestKey (js_trim segment))) = Some r"
      "js_trim segment \<noteq> []"
    using assms(1) by (auto simp: pendingRemediation_def Let_def split: option.splits if_splits)
  then have wf: "override_wf ?o"
    using parsed_override_wf [OF r(1)] assms(2) normalized_full by (simp add: override_wf_def full_def [of "js_trim segment"] full_iso)
  have "sto_get s' ?k = remediationOverrideToJs ?o"
    using assms(1,3) by (auto simp: handleRemediationApprove_def appendThen_def respond_def Let_def override_keys
        dest!: append_get_other [where k = ?k] split: sum.splits)
  then show ?thesis using override_back [OF wf] by simp
qed


section \<open>Properties\<close>

text \<open>
  What in an answer of the service speaks against a request, and when an answer speaks for it: a success status, and a
  body that is no JSON at all or has nothing that speaks against the request.
\<close>

definition speaksAgainst :: "int \<Rightarrow> js \<Rightarrow> bool" where
  "speaksAgainst minScore v =
     (jget v ''allow'' = JBool False \<or> jget v ''challengeRequired'' = JBool True \<or> jget (jget v ''risk'') ''challengeRequired'' = JBool True
      \<or> (\<exists>r. jget v ''score'' = JNum r \<and> r < of_int minScore \<and> 0 < minScore)
      \<or> (\<exists>d. jget v ''decision'' = JStr d \<and> js_lower (js_trim d) \<in> {''deny'', ''block'', ''reject'', ''challenge'', ''review''}
            \<and> (\<forall>b. jget v ''allow'' \<noteq> JBool b \<and> jget (jget v ''risk'') ''allow'' \<noteq> JBool b)))"

definition speaksFor :: "int \<Rightarrow> FetchOutcome \<Rightarrow> bool" where
  "speaksFor minScore reply \<longleftrightarrow>
     (\<exists>status json. reply = FetchReply status json \<and> 200 \<le> status \<and> status \<le> 299 \<and> (\<forall>v. json = Inr v \<longrightarrow> \<not> speaksAgainst minScore v))"

lemma allowed_not_against:
  assumes "fd_allow (parseCostOfForgeryDecision v m)" "m \<le> 100"
  shows "\<not> speaksAgainst m v"
proof -
  have score: "\<not> r < of_int m" if "jget v ''score'' = JNum r" "0 < m" for r
    using assms that
    by (auto simp: parseCostOfForgeryDecision_def statedScore_def normalizeNumberField_def clampScore_def Let_def split: if_splits)
  have word: "\<not> js_lower (js_trim d) \<in> {''deny'', ''block'', ''reject'', ''challenge'', ''review''}"
    if "jget v ''decision'' = JStr d" "\<forall>b. jget v ''allow'' \<noteq> JBool b \<and> jget (jget v ''risk'') ''allow'' \<noteq> JBool b" for d
  proof -
    have "statedAllow v (jget v ''risk'') = decisionWords (js_lower (js_trim d))"
      using that by (auto simp: statedAllow_def firstString_def List.map_filter_simps split: js.splits)
    then show ?thesis using assms(1) by (auto simp: parseCostOfForgeryDecision_def decisionWords_def Let_def split: if_splits)
  qed
  have "jget v ''allow'' \<noteq> JBool False" "jget v ''challengeRequired'' \<noteq> JBool True" "jget (jget v ''risk'') ''challengeRequired'' \<noteq> JBool True"
    using assms(1) by (auto simp: parseCostOfForgeryDecision_def statedAllow_def Let_def split: if_splits)
  then show ?thesis using score word by (auto simp: speaksAgainst_def)
qed

lemma answer_speaks:
  assumes "evaluateCostOfForgeryDecision H env fetch rq n p m = Inr d" "fd_allow d" "m \<le> 100"
  shows "\<exists>url. getCostOfForgeryVerifyUrl env = Some url \<and> speaksFor m (fetch url (opt_trim (COST_OF_FORGERY_API_KEY env)) (forgeryPayload H rq n p))"
proof -
  obtain url status json where r: "getCostOfForgeryVerifyUrl env = Some url" "200 \<le> status" "status \<le> 299"
    "fetch url (opt_trim (COST_OF_FORGERY_API_KEY env)) (forgeryPayload H rq n p) = FetchReply status json"
    "d = parseCostOfForgeryDecision (case json of Inr v \<Rightarrow> v | Inl _ \<Rightarrow> JObj []) m"
    using assms(1) by (auto simp: evaluateCostOfForgeryDecision_def split: option.splits FetchOutcome.splits if_splits)
  have "\<not> speaksAgainst m v" if "json = Inr v" for v using allowed_not_against assms(2,3) r(5) that by simp
  then show ?thesis using r(1-4) by (auto simp: speaksFor_def)
qed


definition forgeryEnv :: Env where
  "forgeryEnv = emptyEnv\<lparr>COST_OF_FORGERY_BASE_URL := Some ''https://risk''\<rparr>"

definition plainRequest :: Request where
  "plainRequest = \<lparr>rq_method = ''POST'', rq_headers = [], rq_chunks = None, rq_json = Inl ''SyntaxError''\<rparr>"

definition registerParams :: ForgeryParams where
  "registerParams = \<lparr>fp_action = Act_user_register, fp_event = JUndef, fp_eventId = None, fp_userId = Some ''alice'',
     fp_subject = Some ''alice'', fp_walletAddress = None, fp_token = None\<rparr>"

lemma forgery_sample:
  "shouldEnforceCostOfForgeryAction forgeryEnv Act_user_register" "isCostOfForgeryFailClosedForAction forgeryEnv Act_user_register"
  "findActiveCostOfForgeryRemediationOverride H [] a e u n = None" "cache_sound []" "getCostOfForgeryVerifyUrl forgeryEnv \<noteq> None"
  "fs_operationalReady (getCostOfForgeryStatus forgeryEnv)"
proof -
  have p: "parseCostOfForgeryWalletCacheRecord JUndef = None" "parseCostOfForgeryRemediationOverrideRecord JUndef = None" by code_simp+
  show "cache_sound []" by (simp add: cache_sound_def p)
  show "findActiveCostOfForgeryRemediationOverride H [] a e u n = None"
    by (simp add: findActiveCostOfForgeryRemediationOverride_def activeOverride_def p Let_def split: option.splits)
  show "shouldEnforceCostOfForgeryAction forgeryEnv Act_user_register" "isCostOfForgeryFailClosedForAction forgeryEnv Act_user_register"
    "getCostOfForgeryVerifyUrl forgeryEnv \<noteq> None" "fs_operationalReady (getCostOfForgeryStatus forgeryEnv)" by code_simp+
qed


text \<open>
  An answer that cannot be read counts as consent: when the service replies with a success status and a body that
  is not JSON, a registration or a claim of a user passes, although the check is enforced and closed on failure.
\<close>

theorem unreadable_answer_passes:
  assumes "shouldEnforceCostOfForgeryAction env (fp_action p)" "isCostOfForgeryFailClosedForAction env (fp_action p)"
    and "fs_operationalReady (getCostOfForgeryStatus env)" "fp_action p \<noteq> Act_wallet_claim"
    and "200 \<le> status" "status \<le> 299" "\<And>url key payload. fetch url key payload = FetchReply status (Inl e)"
  shows "enforceCostOfForgeryRisk H env fetch rnd s nowMs rq p = (s, None)"
proof -
  have "fd_allow (parseCostOfForgeryDecision (JObj []) m)" for m
    by (simp add: parseCostOfForgeryDecision_def statedScore_def statedAllow_def normalizeNumberField_def firstString_def
        List.map_filter_simps decisionWords_def Let_def js_lower_def)
  moreover have "getCostOfForgeryVerifyUrl env \<noteq> None"
    using assms(1,3) by (simp add: getCostOfForgeryVerifyUrl_def shouldEnforceCostOfForgeryAction_def getCostOfForgeryStatus_def Let_def)
  ultimately show ?thesis using assms(3-)
    by (auto simp: enforceCostOfForgeryRisk_def evaluateCostOfForgeryDecision_def Let_def split: option.splits)
qed

theorem unreadable_answer_passes_witness:
  "enforceCostOfForgeryRisk (\<lambda>x. x) forgeryEnv (\<lambda>_ _ _. FetchReply 200 (Inl ''SyntaxError'')) [] [] 1000 plainRequest registerParams = ([], None)"
  using forgery_sample
  by (intro unreadable_answer_passes [where status = 200 and e = "''SyntaxError''"]) (simp_all add: registerParams_def)

text \<open>
  An approval lifts the check for its subject as long as it says and no longer: after a request was approved, the
  check lets the same action on the same event by that subject pass at every time before the expiry, the expiry lies
  between five minutes and thirty days ahead, and from then on the stored override counts no more.
\<close>

theorem approved_override_window:
  assumes "pendingRemediation env s rq segment = Inr (operator, r)" "full (op_actorId operator)"
    and "handleRemediationApprove H env svc s nowMs segment rq = (s', Inr resp)"
    and "rr_subjectHash r = subjectHashOf H subject" "full subject"
  shows "\<exists>expiry. nowMs + 5 * 60 * 1000 \<le> expiry \<and> expiry \<le> nowMs + 30 * 24 * 60 * 60 * 1000
    \<and> (\<forall>t fetch rnd rq' p. t < expiry \<and> fp_action p = rr_action r \<and> fp_eventId p = rr_eventId r \<and> fp_subject p = Some subject
          \<longrightarrow> enforceCostOfForgeryRisk H env fetch rnd s' t rq' p = (s', None))
    \<and> (\<forall>t \<ge> expiry. activeOverride s' (rr_action r) (rr_eventId r) (rr_subjectHash r) t
          (buildCostOfForgeryRemediationOverrideKey H (rr_action r) (rr_eventId r) (rr_subjectHash r)) = None)"
proof -
  let ?m = "requestedMinutes env (bodyOrEmpty rq)"
  let ?x = "nowMs + ?m * 60 * 1000"
  note st = approve_stores [OF assms(1-3)]
  have look: "activeOverride s' (rr_action r) (rr_eventId r) (rr_subjectHash r) t
          (buildCostOfForgeryRemediationOverrideKey H (rr_action r) (rr_eventId r) (rr_subjectHash r)) = None \<longleftrightarrow> ?x \<le> t" for t
    unfolding activeOverride_def st by simp
  have ev: "rr_eventId r \<noteq> Some []"
    using assms(1) by (auto simp: pendingRemediation_def Let_def full_def dest!: parsed_override_wf split: option.splits if_splits)
  have "findActiveCostOfForgeryRemediationOverride H s' (rr_action r) (rr_eventId r) (Some subject) t \<noteq> None" if "t < ?x" for t
    using look [of t] that ev assms(4,5)
    by (cases "rr_eventId r") (auto simp: findActiveCostOfForgeryRemediationOverride_def Let_def jstr_opt_def split: option.splits)
  then have "enforceCostOfForgeryRisk H env fetch rnd s' t rq' p = (s', None)"
    if "t < ?x" "fp_action p = rr_action r" "fp_eventId p = rr_eventId r" "fp_subject p = Some subject" for t fetch rnd rq' p
    using that by (simp add: enforceCostOfForgeryRisk_def Let_def)
  moreover have "nowMs + 5 * 60 * 1000 \<le> ?x \<and> ?x \<le> nowMs + 30 * 24 * 60 * 60 * 1000"
    using minutes_range [of env "bodyOrEmpty rq"] by (simp add: COST_OF_FORGERY_MAX_REMEDIATION_OVERRIDE_TTL_MINUTES_def)
  ultimately show ?thesis using look by blast
qed


definition samplePending :: CostOfForgeryRemediationRequestRecord where
  "samplePending = \<lparr>rr_requestId = ''r1'', rr_createdAt = ''c'', rr_createdAtMs = 500, rr_status = Rem_pending,
     rr_action = Act_user_register, rr_eventId = None, rr_subjectHash = ''subject:alice'', rr_subjectMask = ''alice'',
     rr_subjectType = Sub_user, rr_evidenceType = Ev_admin_review, rr_evidenceNote = None, rr_confirmationCode = None,
     rr_popReceiptId = None, rr_inviteCodeHint = None, rr_requesterIpHash = ''ip'', rr_resolvedAt = None, rr_resolvedAtMs = None,
     rr_resolvedBy = None, rr_resolutionReason = None, rr_overrideExpiresAt = None, rr_overrideExpiresAtMs = None\<rparr>"

definition approverEnv :: Env where
  "approverEnv = forgeryEnv\<lparr>ADMIN_DEMO_PASSWORD := Some ''d'', AUDIT_IMMUTABLE_MODE := Some ''off''\<rparr>"

definition approveRequest :: Request where
  "approveRequest = \<lparr>rq_method = ''POST'', rq_headers = [(''Authorization'', ''Bearer d'')], rq_chunks = None, rq_json = Inr (JObj [])\<rparr>"

theorem approved_override_window_witness:
  "\<exists>s' resp. handleRemediationApprove (\<lambda>x. x) approverEnv noServices
       [(costOfForgeryRemediationRequestKey ''r1'', remediationRequestToJs samplePending)] 1000 ''r1'' approveRequest = (s', Inr resp)
     \<and> enforceCostOfForgeryRisk (\<lambda>x. x) approverEnv (\<lambda>_ _ _. FetchThrows False ''down'') [] s' 300000 plainRequest registerParams = (s', None)"
proof -
  let ?s = "[(costOfForgeryRemediationRequestKey ''r1'', remediationRequestToJs samplePending)]"
  let ?op = "\<lparr>op_role = RoleAdmin, op_source = SrcDemo, op_token = ''d'', op_adminId = ''demo-admin'',
                     op_name = ''Demo Admin'', op_actorId = ''admin:demo-admin'', op_code = None\<rparr>"
  have off: "getAuditImmutableMode approverEnv = ModeOff" by code_simp
  have au: "authenticateOperator approverEnv ?s approveRequest = Some ?op" by code_simp
  have f: "full ''r1''" "full ''c''" "full ''subject:alice''" "full ''alice''" "full ''ip''" "full ''admin:demo-admin''"
    by (simp_all add: full_def js_trim_def is_ws_def)
  then have wf: "request_wf samplePending" by (simp add: request_wf_def samplePending_def)
  have pend: "pendingRemediation approverEnv ?s approveRequest ''r1'' = Inr (?op, samplePending)"
  proof -
    have "rr_status samplePending = Rem_pending" by (simp add: samplePending_def)
    then show ?thesis using f(1) request_back [OF wf] by (simp add: pendingRemediation_def au Let_def full_def sto_get_def)
  qed
  have "\<exists>s' resp. handleRemediationApprove (\<lambda>x. x) approverEnv noServices ?s 1000 ''r1'' approveRequest = (s', Inr resp)"
    unfolding handleRemediationApprove_def pend appendThen_def appendAuditLog_def by (simp add: persist_off off Let_def respond_def)
  then obtain s' resp where h: "handleRemediationApprove (\<lambda>x. x) approverEnv noServices ?s 1000 ''r1'' approveRequest = (s', Inr resp)"
    by blast
  have "enforceCostOfForgeryRisk (\<lambda>x. x) approverEnv (\<lambda>_ _ _. FetchThrows False ''down'') [] s' 300000 plainRequest registerParams = (s', None)"
    using approved_override_window [OF pend _ h, where subject = "''alice''"] f(4,6)
    by (fastforce simp: samplePending_def subjectHashOf_def registerParams_def)
  with h show ?thesis by blast
qed

end
