(* ===== verification/Pop_Spec.thy ===== *)
theory Pop_Spec
  imports Pop_Proof Forgery_Spec Receipt_Spec
begin

unbundle bit_operations_syntax

text \<open>
  What the proofs of participation promise: bytes survive their base64 and hexadecimal forms, the signed message
  determines what was signed, a path is normalised to a form that reads back, the key stays the same until the
  announced rotation, the cache of the signer changes no answer, and the proofs of a grant form one chain over
  verified receipts.
\<close>

section \<open>Bytes\<close>

lemma u64_bit:
  assumes "n < 64"
  shows "bit w n = bit (u64ToLeBytes w ! (n div 8)) (n mod 8)"
proof -
  have "n div 8 < 8" "n mod 8 < 8" "8 * (n div 8) + n mod 8 = n" using assms by auto
  then show ?thesis by (simp add: u64ToLeBytes_def bit_ucast_iff bit_drop_bit_eq)
qed

lemma u64_inject: "u64ToLeBytes v = u64ToLeBytes w \<longleftrightarrow> v = w"
proof
  assume e: "u64ToLeBytes v = u64ToLeBytes w"
  show "v = w"
  proof (rule bit_word_eqI)
    fix n assume "n < LENGTH(64)"
    then show "bit v n = bit w n" using u64_bit [of n v] u64_bit [of n w] e by simp
  qed
qed simp

lemma length_bigToLeBytes [simp]: "length (bigToLeBytes v) = 8"
  by (simp add: bigToLeBytes_def u64ToLeBytes_def)

lemma big_inject: "0 \<le> v \<Longrightarrow> v < 2 ^ 64 \<Longrightarrow> 0 \<le> w \<Longrightarrow> w < 2 ^ 64 \<Longrightarrow> bigToLeBytes v = bigToLeBytes w \<longleftrightarrow> v = w"
  by (simp add: bigToLeBytes_def u64_inject word_of_int_eq_iff take_bit_int_eq_self)

definition pop_fields_wf :: "PopFields \<Rightarrow> bool" where
  "pop_fields_wf f = (length (pp_grant f) = 32 \<and> length (pp_claimer f) = 32 \<and> length (pp_prevHash f) = 32
     \<and> length (pp_streamPrevHash f) = 32 \<and> length (pp_auditHash f) = 32 \<and> 0 \<le> pp_periodIndex f \<and> pp_periodIndex f < 2 ^ 64
     \<and> 0 \<le> pp_issuedAt f \<and> pp_issuedAt f < 2 ^ 63)"

lemma message_length: "pop_fields_wf f \<Longrightarrow> length e = 32 \<Longrightarrow> length (buildPopProofMessage f e) = POP_MESSAGE_LEN"
  by (simp add: buildPopProofMessage_def pop_fields_wf_def POP_MESSAGE_LEN_def)

lemma message_inject:
  assumes "pop_fields_wf f" "pop_fields_wf g" "length d = 32" "length e = 32"
  shows "buildPopProofMessage f d = buildPopProofMessage g e \<longleftrightarrow> f = g \<and> d = e"
proof
  assume "buildPopProofMessage f d = buildPopProofMessage g e"
  then have "pp_grant f = pp_grant g \<and> pp_claimer f = pp_claimer g \<and> bigToLeBytes (pp_periodIndex f) = bigToLeBytes (pp_periodIndex g)
    \<and> pp_prevHash f = pp_prevHash g \<and> pp_streamPrevHash f = pp_streamPrevHash g \<and> pp_auditHash f = pp_auditHash g
    \<and> d = e \<and> bigToLeBytes (pp_issuedAt f) = bigToLeBytes (pp_issuedAt g)"
    using assms by (simp add: buildPopProofMessage_def pop_fields_wf_def)
  then show "f = g \<and> d = e" using assms by (simp add: big_inject pop_fields_wf_def)
qed simp

section \<open>Base64 and hexadecimal\<close>

lemma byte_less: "unat (b :: 8 word) < 256"
  using unsigned_less [of b] by simp

lemma b64_digit_value: "d < 64 \<Longrightarrow> b64_value (b64_digit d) = Some d"
  by (auto simp: b64_digit_def b64_value_def Let_def)

lemma b64_digit_plain: "d < 64 \<Longrightarrow> b64_digit d \<noteq> CHR ''='' \<and> \<not> is_ascii_ws (b64_digit d)"
proof
  assume d: "d < 64"
  have "b64_value (CHR ''='') = None" by (simp add: b64_value_def Let_def)
  then show "b64_digit d \<noteq> CHR ''=''" using b64_digit_value [OF d] by auto
  show "\<not> is_ascii_ws (b64_digit d)" using d by (auto simp: b64_digit_def is_ascii_ws_def Let_def)
qed

fun b64_vals :: "nat list \<Rightarrow> nat list" where
  "b64_vals [] = []"
| "b64_vals [a] = [a div 4, a mod 4 * 16]"
| "b64_vals [a, b] = [a div 4, a mod 4 * 16 + b div 16, b mod 16 * 4]"
| "b64_vals (a # b # c # r) = a div 4 # (a mod 4 * 16 + b div 16) # (b mod 16 * 4 + c div 64) # c mod 64 # b64_vals r"

definition b64_pad :: "nat list \<Rightarrow> nat" where
  "b64_pad bs = (3 - length bs mod 3) mod 3"

lemma btoa_vals: "btoa bs = map b64_digit (b64_vals bs) @ replicate (b64_pad bs) (CHR ''='')"
  by (induction bs rule: b64_vals.induct) (simp_all add: b64_pad_def numeral_2_eq_2)

lemma b64_vals_facts:
  "list_all (\<lambda>b. b < 256) bs \<Longrightarrow> list_all (\<lambda>d. d < 64) (b64_vals bs) \<and> b64_bytes (b64_vals bs) = Some bs
     \<and> (length (b64_vals bs) + b64_pad bs) mod 4 = 0"
proof (induction bs rule: b64_vals.induct)
  case (4 a b c r)
  have "a div 4 < 64" "a mod 4 * 16 + b div 16 < 64" "b mod 16 * 4 + c div 64 < 64" using 4 by auto
  moreover have "a div 4 * 4 + (a mod 4 * 16 + b div 16) div 16 = a" "(a mod 4 * 16 + b div 16) mod 16 * 16 + (b mod 16 * 4 + c div 64) div 4 = b"
    "(b mod 16 * 4 + c div 64) mod 4 * 64 + c mod 64 = c" using 4 by auto
  ultimately show ?case using 4 by (simp add: b64_pad_def)
qed (auto simp: b64_pad_def)

lemma all_some_digits: "list_all (\<lambda>d. d < 64) vs \<Longrightarrow> all_some (map b64_value (map b64_digit vs)) = Some vs"
  by (induction vs) (simp_all add: b64_digit_value)

lemma atob_btoa:
  assumes "list_all (\<lambda>b. b < 256) bs"
  shows "atob (btoa bs) = Some bs"
proof -
  let ?v = "b64_vals bs" and ?k = "b64_pad bs"
  note f = b64_vals_facts [OF assms]
  have nows: "filter (\<lambda>c. \<not> is_ascii_ws c) (btoa bs) = btoa bs"
    using f b64_digit_plain by (auto simp: btoa_vals list_all_iff is_ascii_ws_def Let_def intro!: filter_True)
  have last: "last (map b64_digit ?v) \<noteq> CHR ''=''" if "?v \<noteq> []"
    using f b64_digit_plain that by (simp add: last_map list_all_iff)
  have k: "?k = 0 \<or> ?k = 1 \<or> ?k = 2" by (auto simp: b64_pad_def)
  have ne: "?v \<noteq> []" if "?k \<noteq> 0" using that by (cases bs rule: b64_vals.cases) (auto simp: b64_pad_def)
  have "(let t = btoa bs in if length t mod 4 = 0 \<and> t \<noteq> [] \<and> last t = CHR ''='' then
                 (let t1 = butlast t in if t1 \<noteq> [] \<and> last t1 = CHR ''='' then butlast t1 else t1) else t) = map b64_digit ?v"
    using k
  proof (elim disjE)
    assume "?k = 0"
    then show ?thesis using last by (cases "?v = []") (auto simp: btoa_vals)
  next
    assume "?k = 1"
    then show ?thesis using last ne f by (simp add: btoa_vals butlast_append)
  next
    assume "?k = 2"
    then show ?thesis using last ne f by (simp add: btoa_vals numeral_2_eq_2 butlast_append)
  qed
  then show ?thesis using f all_some_digits [of ?v] by (simp add: atob_def nows Let_def del: map_map)
qed

lemma base64_back: "decodeBase64 (encodeBase64 bs) = Some bs"
proof -
  have "list_all (\<lambda>b. b < 256) (map unat bs)" by (simp add: list_all_iff byte_less)
  then show ?thesis by (simp add: encodeBase64_def decodeBase64_def atob_btoa comp_def)
qed

lemma hex_pair: "n < 256 \<Longrightarrow> radix_val 16 (hexByte n) = n \<and> list_all is_lower_hex (hexByte n)"
proof -
  assume "n < 256"
  then have d: "n div 16 < 16" "n mod 16 < 16" by auto
  have "radix_digit (digit_char k) = Some k" "is_lower_hex (digit_char k)" if "k < 16" for k
    using that by (auto simp: radix_digit_def digit_char_def is_lower_hex_def is_digit_def Let_def)
  then show ?thesis using d by (simp add: hexByte_def radix_val_def)
qed

lemma bytesToHex_facts:
  "length (bytesToHex bs) = 2 * length bs \<and> list_all is_lower_hex (bytesToHex bs) \<and> pairs_to_bytes (bytesToHex bs) = bs"
proof (induction bs)
  case (Cons b bs)
  have h: "radix_val 16 (hexByte (unat b)) = unat b" "list_all is_lower_hex (hexByte (unat b))" using hex_pair [OF byte_less] by auto
  obtain x y where xy: "hexByte (unat b) = [x, y]" by (simp add: hexByte_def)
  show ?case using Cons h by (simp add: bytesToHex_def xy)
qed (simp add: bytesToHex_def)

lemma hex_digest_bytes: "length bs = 32 \<Longrightarrow> hex_digest (bytesToHex bs)"
  using bytesToHex_facts [of bs] by (simp add: hex_digest_def)

lemma hex_back: "length bs = 32 \<Longrightarrow> hexToBytes (bytesToHex bs) = Inr bs"
  using bytesToHex_facts [of bs] hex_digest_facts [OF hex_digest_bytes [of bs]] by (simp add: hexToBytes_def Let_def)


section \<open>Paths\<close>

lemma split_plain: "c \<notin> set w \<Longrightarrow> js_split c w = [w]"
  by (induction w) auto

lemma split_first: "c \<notin> set w \<Longrightarrow> js_split c (w @ c # r) = w # js_split c r"
  by (induction w) auto

lemma split_join: "ws \<noteq> [] \<Longrightarrow> list_all (\<lambda>w. c \<notin> set w) ws \<Longrightarrow> js_split c (js_join [c] ws) = ws"
  by (induction "[c]" ws rule: js_join.induct) (simp_all add: split_plain split_first)

definition hardened :: "int \<Rightarrow> bool" where
  "hardened v = (POP_SIGNER_HD_HARDENED_OFFSET \<le> v \<and> v < 2 * POP_SIGNER_HD_HARDENED_OFFSET)"

definition printHdIndex :: "int \<Rightarrow> string" where
  "printHdIndex v = js_str_int (v - POP_SIGNER_HD_HARDENED_OFFSET) @ [CHR 0x27]"

lemma printed_digits: "hardened v \<Longrightarrow> printHdIndex v = nat_digits 10 (nat (v - POP_SIGNER_HD_HARDENED_OFFSET)) @ [CHR 0x27]"
  by (simp add: printHdIndex_def js_str_int_def hardened_def)

lemma segment_hardened: "parseHdSegment w = Inr v \<Longrightarrow> hardened v"
proof -
  assume w: "parseHdSegment w = Inr v"
  have "0 \<le> digits_val s" if "list_all is_digit s" for s
    using that by (induction s rule: rev_induct) (auto simp: digits_val_append digits_val_def digit_val_def is_digit_def Let_def)
  then show "hardened v" using w by (auto simp: parseHdSegment_def hardened_def all_digits_def Let_def split: if_splits)
qed

lemma segment_back: "hardened v \<Longrightarrow> parseHdSegment (printHdIndex v) = Inr v"
  using nat_digits_10 [of "nat (v - POP_SIGNER_HD_HARDENED_OFFSET)"]
  by (simp add: printed_digits parseHdSegment_def Let_def hardened_def)

lemma digit_plain: "is_digit c \<Longrightarrow> c \<noteq> CHR ''/'' \<and> \<not> is_ws c"
  by (auto simp: is_digit_def is_ws_def Let_def)

lemma segment_plain: "hardened v \<Longrightarrow> CHR ''/'' \<notin> set (printHdIndex v) \<and> list_all (\<lambda>c. \<not> is_ws c) (printHdIndex v)"
  using nat_digits_10 [of "nat (v - POP_SIGNER_HD_HARDENED_OFFSET)"] digit_plain
  by (auto simp: printed_digits all_digits_def list_all_iff is_ws_def)

lemma map_error_Inr: "map_error f xs = Inr ys \<longleftrightarrow> list_all2 (\<lambda>x y. f x = Inr y) xs ys"
proof (induction xs arbitrary: ys)
  case (Cons x xs)
  have "map_error f (x # xs) = Inr ys \<longleftrightarrow> (\<exists>y zs. f x = Inr y \<and> map_error f xs = Inr zs \<and> ys = y # zs)"
    by (auto split: sum.splits)
  then show ?case unfolding Cons list_all2_Cons1 by blast
qed auto

lemma join_no_ws: "list_all (list_all (\<lambda>c. \<not> is_ws c)) ws \<Longrightarrow> \<not> is_ws d \<Longrightarrow> list_all (\<lambda>c. \<not> is_ws c) (js_join [d] ws)"
  by (induction "[d]" ws rule: js_join.induct) auto

lemma path_back:
  assumes "list_all hardened indices" "length indices \<le> POP_SIGNER_HD_MAX_PATH_DEPTH"
  shows "parsePopSignerHdPath (printHdPath indices) = Inr (indices, printHdPath indices)"
proof (cases "indices = []")
  case True
  then show ?thesis by (simp add: printHdPath_def parsePopSignerHdPath_def js_trim_def is_ws_def)
next
  case False
  let ?ws = "map printHdIndex indices"
  have p: "printHdPath indices = ''m'' @ CHR ''/'' # js_join ''/'' ?ws"
    using False by (simp add: printHdPath_def printHdIndex_def [abs_def])
  have pl: "list_all (\<lambda>w. CHR ''/'' \<notin> set w) ?ws" "list_all (list_all (\<lambda>c. \<not> is_ws c)) ?ws"
    using assms(1) segment_plain by (auto simp: list_all_iff)
  have "js_split (CHR ''/'') (printHdPath indices) = ''m'' # ?ws"
    unfolding p using False pl(1) split_join [of ?ws "CHR ''/''"] by (subst split_first) simp_all
  moreover have "js_trim (printHdPath indices) = printHdPath indices"
    unfolding p by (rule trim_no_ws) (use join_no_ws [OF pl(2)] in \<open>simp add: is_ws_def\<close>)
  moreover have "map_error parseHdSegment ?ws = Inr indices"
    using assms(1) segment_back by (simp add: map_error_Inr list_all2_conv_all_nth list_all_length)
  ultimately show ?thesis using assms(2) by (simp add: parsePopSignerHdPath_def Let_def p)
qed

lemma parsed_indices:
  assumes "parsePopSignerHdPath path = Inr (indices, normalized)"
  shows "list_all hardened indices" "length indices \<le> POP_SIGNER_HD_MAX_PATH_DEPTH" "normalized = printHdPath indices"
proof -
  obtain ws where w: "map_error parseHdSegment ws = Inr indices" "length ws \<le> POP_SIGNER_HD_MAX_PATH_DEPTH" "normalized = printHdPath indices"
    using assms by (auto simp: parsePopSignerHdPath_def Let_def split: if_splits sum.splits)
  then have "list_all2 (\<lambda>x y. parseHdSegment x = Inr y) ws indices" by (simp add: map_error_Inr)
  then show "list_all hardened indices" "length indices \<le> POP_SIGNER_HD_MAX_PATH_DEPTH" "normalized = printHdPath indices"
    using w segment_hardened by (auto simp: list_all2_conv_all_nth list_all_length)
qed

section \<open>Rotation\<close>

lemma rotation_bounds:
  "1 \<le> rotationInterval env" "0 \<le> rotationStart env" "0 \<le> rotationOffset env"
proof -
  show "1 \<le> rotationInterval env"
    unfolding rotationInterval_def by (rule parseBoundedInt_bounds [THEN conjunct1])
      (simp_all add: POP_SIGNER_HD_ROTATION_DEFAULT_INTERVAL_DAYS_def POP_SIGNER_HD_ROTATION_MAX_INTERVAL_DAYS_def)
  show "0 \<le> rotationStart env"
    unfolding rotationStart_def by (rule parseNonNegativeIntEnv_bounds [THEN conjunct1]) (simp_all add: MAX_SAFE_INTEGER_def)
  show "0 \<le> rotationOffset env"
    unfolding rotationOffset_def by (rule parseNonNegativeIntEnv_bounds [THEN conjunct1])
      (simp_all add: POP_SIGNER_HD_ROTATION_MAX_INDEX_OFFSET_def POP_SIGNER_HD_HARDENED_OFFSET_def)
qed

lemma div_between: "q * i \<le> b \<Longrightarrow> b < q * i + i \<Longrightarrow> b div i = q" for b i q :: int
  by (rule int_div_pos_eq [of _ _ _ "b - q * i"]) (simp_all add: mult.commute)

definition rotationNext :: "Env \<Rightarrow> int \<Rightarrow> int" where
  "rotationNext env nowMs = rotationStart env + (rotationSlot env nowMs + 1) * (rotationInterval env * 24 * 60 * 60)"

lemma slot_period:
  assumes "rotationStart env < t"
  shows "rotationSlot env (t * 1000) * (rotationInterval env * 24 * 60 * 60) \<le> t - rotationStart env"
    and "t < rotationNext env (t * 1000)"
proof -
  let ?i = "rotationInterval env * 24 * 60 * 60"
  have i: "0 < ?i" using rotation_bounds(1) [of env] by simp
  have s: "rotationSlot env (t * 1000) = (t - rotationStart env) div ?i" using assms by (simp add: rotationSlot_def Let_def)
  have m: "(t - rotationStart env) div ?i * ?i + (t - rotationStart env) mod ?i = t - rotationStart env" by (rule div_mult_mod_eq)
  have r: "0 \<le> (t - rotationStart env) mod ?i" "(t - rotationStart env) mod ?i < ?i" using i by simp_all
  show "rotationSlot env (t * 1000) * ?i \<le> t - rotationStart env" unfolding s using m r(1) by linarith
  have "(rotationSlot env (t * 1000) + 1) * ?i = (t - rotationStart env) div ?i * ?i + ?i" by (simp only: s distrib_right mult_1)
  then show "t < rotationNext env (t * 1000)" using m r(2) unfolding rotationNext_def by linarith
qed

lemma slot_seconds: "rotationSlot env nowMs = rotationSlot env (nowMs div 1000 * 1000)"
  by (simp add: rotationSlot_def)

lemma slot_next: "nowMs div 1000 < rotationNext env nowMs"
proof (cases "rotationStart env < nowMs div 1000")
  case True
  then show ?thesis using slot_period(2) [OF True] by (simp add: rotationNext_def slot_seconds [of env nowMs])
next
  case False
  then show ?thesis using rotation_bounds(1) [of env] by (simp add: rotationNext_def rotationSlot_def)
qed

lemma slot_stable:
  assumes "nowMs \<le> t" "t div 1000 < rotationNext env nowMs"
  shows "rotationSlot env t = rotationSlot env nowMs"
proof -
  let ?i = "rotationInterval env * 24 * 60 * 60"
  have i: "0 < ?i" using rotation_bounds(1) [of env] by simp
  have le: "nowMs div 1000 \<le> t div 1000" using assms(1) by (simp add: zdiv_mono1)
  show ?thesis
  proof (cases "t div 1000 \<le> rotationStart env")
    case True
    with le show ?thesis by (simp add: rotationSlot_def)
  next
    case False
    let ?a = "nowMs div 1000 - rotationStart env" and ?b = "t div 1000 - rotationStart env"
    have lo: "rotationSlot env nowMs * ?i \<le> ?b"
    proof (cases "rotationStart env < nowMs div 1000")
      case True
      then show ?thesis using slot_period(1) [OF True] le by (simp add: slot_seconds [of env nowMs])
    next
      case F: False
      then show ?thesis using False by (simp add: rotationSlot_def)
    qed
    have hi: "?b < (rotationSlot env nowMs + 1) * ?i" using assms(2) unfolding rotationNext_def by linarith
    have "?b div ?i = rotationSlot env nowMs" by (rule div_between) (use lo hi in \<open>simp_all add: distrib_right\<close>)
    then show ?thesis using False by (simp add: rotationSlot_def Let_def)
  qed
qed


section \<open>The cache of the signer\<close>

lemma str_int_inject: "js_str_int a = js_str_int b \<Longrightarrow> a = b"
  using js_str_int_unique [of a "[]" b "[]"] by simp

text \<open>In one environment the part of the cache key that depends on the time determines path and rotation.\<close>

lemma resolution_by_key:
  assumes "resolvePopSignerHdDerivationPath env t = Inr (p, r, k)" "resolvePopSignerHdDerivationPath env t' = Inr (p', r', k)"
  shows "p = p' \<and> r = r'"
proof (cases "parseBooleanEnv (POP_SIGNER_HD_ROTATION_ENABLED env) False")
  case False
  then show ?thesis using assms by (simp add: resolvePopSignerHdDerivationPath_def Let_def)
next
  case True
  have "js_str_int (rotationOffset env + rotationSlot env t) = js_str_int (rotationOffset env + rotationSlot env t')"
    using assms True by (auto simp: resolvePopSignerHdDerivationPath_def Let_def split: if_splits)
  then have "rotationSlot env t = rotationSlot env t'" by (auto dest: str_int_inject)
  then show ?thesis using assms True by (auto simp: resolvePopSignerHdDerivationPath_def Let_def split: if_splits)
qed

lemma hdPlan_by_key:
  assumes "hdPlan cr env t = Inr (k, c)" "hdPlan cr env t' = Inr (k, c')"
  shows "c = c'"
proof -
  obtain seed p r q where 1: "decodeBase64 (opt_trim (POP_SIGNER_HD_MASTER_SEED_B64 env)) = Some seed"
      "resolvePopSignerHdDerivationPath env t = Inr (p, r, q)"
      "k = ''hd:'' @ opt_trim (POP_SIGNER_HD_MASTER_SEED_B64 env) @ '':'' @ opt_trim (POP_SIGNER_HD_PUBKEY env) @ '':'' @ q"
      "c = map_sum (\<lambda>e. e) Some (hdSigner cr (opt_trim (POP_SIGNER_HD_PUBKEY env)) seed p r)"
    using assms(1) by (auto simp: hdPlan_def Let_def split: if_splits option.splits sum.splits)
  obtain p' r' q' where 2: "resolvePopSignerHdDerivationPath env t' = Inr (p', r', q')"
      "k = ''hd:'' @ opt_trim (POP_SIGNER_HD_MASTER_SEED_B64 env) @ '':'' @ opt_trim (POP_SIGNER_HD_PUBKEY env) @ '':'' @ q'"
      "c' = map_sum (\<lambda>e. e) Some (hdSigner cr (opt_trim (POP_SIGNER_HD_PUBKEY env)) seed p' r')"
    using assms(2) 1(1) by (auto simp: hdPlan_def Let_def split: if_splits option.splits sum.splits)
  have "q = q'" using 1(3) 2(2) by simp
  then show ?thesis using resolution_by_key [of env t p r q t' p' r'] 1 2 by simp
qed

lemma plan_by_key:
  assumes "signerPlan cr env t = Inr (k, c)" "signerPlan cr env t' = Inr (k, c')"
  shows "c = c'"
  using assms hdPlan_by_key [of cr env t k c t' c'] by (simp add: signerPlan_def Let_def split: if_splits)

definition signer_cache_ok :: "pop_crypto \<Rightarrow> Env \<Rightarrow> PopSignerCacheEntry option \<Rightarrow> bool" where
  "signer_cache_ok cr env cache = pred_option (\<lambda>c. \<exists>t. signerPlan cr env t = Inr (ce_cacheKey c, Inr (ce_signer c))) cache"

lemma getPopSigner_cached:
  assumes "signer_cache_ok cr env cache"
  shows "snd (getPopSigner cr env cache t) = snd (getPopSigner cr env None t) \<and> signer_cache_ok cr env (fst (getPopSigner cr env cache t))"
proof (cases "signerPlan cr env t")
  case (Inl e)
  then show ?thesis using assms by (simp add: getPopSigner_def)
next
  case (Inr kc)
  obtain k c where kc: "kc = (k, c)" by fastforce
  have fresh: "signer_cache_ok cr env (Some \<lparr>ce_cacheKey = k, ce_signer = g\<rparr>)" if "c = Inr g" for g
    using Inr kc that by (auto simp: signer_cache_ok_def)
  show ?thesis
  proof (cases "\<exists>d. cache = Some d \<and> ce_cacheKey d = k")
    case True
    then obtain d t0 where d: "cache = Some d" "ce_cacheKey d = k" "signerPlan cr env t0 = Inr (k, Inr (ce_signer d))"
      using assms by (auto simp: signer_cache_ok_def)
    then have "c = Inr (ce_signer d)" using plan_by_key [of cr env t k c t0] Inr kc by simp
    then show ?thesis using Inr kc d assms by (simp add: getPopSigner_def)
  next
    case False
    then show ?thesis using Inr kc assms fresh by (cases c; cases cache) (simp_all add: getPopSigner_def)
  qed
qed


section \<open>Issued proofs\<close>

definition sha256_law :: "pop_crypto \<Rightarrow> bool" where
  "sha256_law cr = (\<forall>x. length (sha256 cr x) = 32)"

text \<open>What a proof says, in terms of the fields that were signed.\<close>

definition proof_of :: "pop_crypto \<Rightarrow> PopSigner \<Rightarrow> PopFields \<Rightarrow> string \<Rightarrow> string \<Rightarrow> string \<Rightarrow> PopProofResponse" where
  "proof_of cr signer f prevHex streamPrevHex auditHex =
     (let entryHash = buildPopEntryHash cr f; message = buildPopProofMessage f entryHash in
      \<lparr>pf_signerPubkey = ps_signerPubkey signer, pf_messageBase64 = encodeBase64 message,
       pf_signatureBase64 = encodeBase64 (signDetached cr message (ps_secretKey signer)), pf_auditHash = auditHex,
       pf_prevHash = prevHex, pf_streamPrevHash = streamPrevHex, pf_entryHash = bytesToHex entryHash, pf_issuedAt = pp_issuedAt f\<rparr>)"

lemma pairs_length: "length (pairs_to_bytes h) = length h div 2"
  by (induction h rule: pairs_to_bytes.induct) auto

lemma hexToBytes_length: "hexToBytes h = Inr b \<Longrightarrow> length b = 32"
  by (auto simp: hexToBytes_def Let_def pairs_length split: if_splits)

lemma sign_result:
  assumes "signPopClaimProof cr H env svc s t signer q receipt checkedAt grant claimer expected key = (s', Inr p)"
  obtains prevHex streamPrevHex auditHex prevHash streamPrevHash auditHash f s1 e v w where
    "readHashHex (sto_get s (popGlobalKey (pq_grant q))) = Inr v" "readHashHex (sto_get s (popStreamKey (pq_grant q))) = Inr w"
    "(prevHex, streamPrevHex) = (case expected of Some pq \<Rightarrow> pq | None \<Rightarrow> (v, w))"
    "hexToBytes prevHex = Inr prevHash" "hexToBytes streamPrevHex = Inr streamPrevHash"
    "readHashHex (JStr (pr_receiptHash receipt)) = Inr auditHex" "hexToBytes auditHex = Inr auditHash"
    "f = \<lparr>pp_grant = grant, pp_claimer = claimer, pp_periodIndex = pq_periodIndex q, pp_prevHash = prevHash,
          pp_streamPrevHash = streamPrevHash, pp_auditHash = auditHash, pp_issuedAt = t div 1000\<rparr>"
    "p = proof_of cr signer f prevHex streamPrevHex auditHex"
    "\<forall>k. \<not> prefix ''audit'' k \<longrightarrow> sto_get s1 k = sto_get s k"
    "s' = sto_put (sto_put (if expected = None
            then sto_put (sto_put s1 (popGlobalKey (pq_grant q)) (JStr (pf_entryHash p))) (popStreamKey (pq_grant q)) (JStr (pf_entryHash p))
            else s1) (popHistoryKey (js_toISOString t) (pf_entryHash p)) e) key (popProofToJs p)"
proof -
  obtain v w where vw: "readHashHex (sto_get s (popGlobalKey (pq_grant q))) = Inr v" "readHashHex (sto_get s (popStreamKey (pq_grant q))) = Inr w"
    using assms by (auto simp: signPopClaimProof_def split: sum.splits)
  obtain ph sh where ps: "(case expected of Some pq \<Rightarrow> pq | None \<Rightarrow> (v, w)) = (ph, sh)" by fastforce
  obtain pb sb ax where b3: "hexToBytes ph = Inr pb" "hexToBytes sh = Inr sb" "readHashHex (JStr (pr_receiptHash receipt)) = Inr ax"
    using assms vw ps unfolding signPopClaimProof_def
    by (cases "hexToBytes ph"; cases "hexToBytes sh"; cases "readHashHex (JStr (pr_receiptHash receipt))") (auto simp: Let_def)
  obtain ab where b4: "hexToBytes ax = Inr ab"
    using assms vw ps b3 unfolding signPopClaimProof_def by (cases "hexToBytes ax") (auto simp: Let_def)
  note b = b3 b4
  let ?a = "appendAuditLog H env svc s t ''POP_CLAIM_PROOF_ANCHOR'' (auditActor ''wallet'' (maskActorId (pq_claimer q)))
     (JObj ([(''eventId'', JStr (pq_eventId q)), (''confirmationCode'', JStr (pq_confirmationCode q)),
        (''receiptId'', JStr (pr_receiptId receipt)), (''receiptHash'', JStr (pr_receiptHash receipt)),
        (''receiptVerifiedAt'', JStr checkedAt)] @ popLinkFields q ph sh (expected = None) v w)) (''pop:'' @ pq_eventId q)"
  obtain s1 an where a: "?a = Inr (s1, an)"
    using assms vw ps b unfolding signPopClaimProof_def by (cases ?a) (auto simp: Let_def)
  let ?f = "\<lparr>pp_grant = grant, pp_claimer = claimer, pp_periodIndex = pq_periodIndex q, pp_prevHash = pb,
          pp_streamPrevHash = sb, pp_auditHash = ab, pp_issuedAt = t div 1000\<rparr>"
  have p: "p = proof_of cr signer ?f ph sh ax"
    using assms vw ps b a by (auto simp: signPopClaimProof_def Let_def proof_of_def)
  let ?e = "JObj ([(''eventId'', JStr (pq_eventId q)), (''confirmationCode'', JStr (pq_confirmationCode q)),
         (''receiptId'', JStr (pr_receiptId receipt)), (''receiptHash'', JStr (pr_receiptHash receipt)), (''anchorEntryHash'', jget an ''entry_hash'')]
         @ popLinkFields q ph sh (expected = None) v w @ [(''auditHash'', JStr ax), (''entryHash'', JStr (pf_entryHash p)), (''issuedAt'', JInt (t div 1000))])"
  have s': "s' = sto_put (sto_put (if expected = None
            then sto_put (sto_put s1 (popGlobalKey (pq_grant q)) (JStr (pf_entryHash p))) (popStreamKey (pq_grant q)) (JStr (pf_entryHash p))
            else s1) (popHistoryKey (js_toISOString t) (pf_entryHash p)) ?e) key (popProofToJs p)"
    using assms vw ps b a by (auto simp: signPopClaimProof_def Let_def)
  show thesis using that [OF vw ps [symmetric] b refl p _ s'] append_get_other [OF a] by blast
qed


definition popCacheKey :: "(string \<Rightarrow> string) \<Rightarrow> PopRequest \<Rightarrow> (string \<times> string) option \<Rightarrow> string" where
  "popCacheKey H q expected = buildPopClaimProofCacheKey H (pq_eventId q) (pq_confirmationCode q) (pq_grant q) (pq_claimer q)
     (pq_periodIndex q) (map_option fst expected) (map_option snd expected)"

lemma issue_result:
  assumes "issuePopClaimProof cr H env svc cache s t body = (cache', s', Inr p)"
  obtains signer q receipt checkedAt grant claimer expected where
    "snd (getPopSigner cr env cache t) = Inr (Some signer)" "parsePopRequest body = Inr q"
    "verifiedReceipt H s t (pq_eventId q) (pq_confirmationCode q) = Inr (receipt, checkedAt)"
    "keyBytes cr (pq_grant q) (pq_claimer q) = Inr (grant, claimer)" "expectedHashes body = Inr expected"
    "(s' = s \<and> parseStoredPopClaimProof (sto_get s (popCacheKey H q expected)) = Some p \<and> isReusablePopClaimProof p (t div 1000))
     \<or> signPopClaimProof cr H env svc s t signer q receipt checkedAt grant claimer expected (popCacheKey H q expected) = (s', Inr p)"
proof -
  obtain c2 signer where g: "getPopSigner cr env cache t = (c2, Inr (Some signer))"
    using assms by (auto simp: issuePopClaimProof_def split: prod.splits sum.splits option.splits)
  obtain q where q: "parsePopRequest body = Inr q" using assms g by (cases "parsePopRequest body") (auto simp: issuePopClaimProof_def)
  obtain receipt ca where r: "verifiedReceipt H s t (pq_eventId q) (pq_confirmationCode q) = Inr (receipt, ca)"
    using assms g q by (cases "verifiedReceipt H s t (pq_eventId q) (pq_confirmationCode q)") (auto simp: issuePopClaimProof_def)
  obtain grant claimer where k: "keyBytes cr (pq_grant q) (pq_claimer q) = Inr (grant, claimer)"
    using assms g q r by (cases "keyBytes cr (pq_grant q) (pq_claimer q)") (auto simp: issuePopClaimProof_def)
  obtain expected where x: "expectedHashes body = Inr expected"
    using assms g q r k by (cases "expectedHashes body") (auto simp: issuePopClaimProof_def)
  have "(s' = s \<and> parseStoredPopClaimProof (sto_get s (popCacheKey H q expected)) = Some p \<and> isReusablePopClaimProof p (t div 1000))
     \<or> signPopClaimProof cr H env svc s t signer q receipt ca grant claimer expected (popCacheKey H q expected) = (s', Inr p)"
    using assms g q r k x by (auto simp: issuePopClaimProof_def Let_def popCacheKey_def split: option.splits if_splits)
  then show thesis using that [OF _ q r k x] g by simp
qed

lemma parsed_request: "parsePopRequest body = Inr q \<Longrightarrow> 0 \<le> pq_periodIndex q \<and> pq_periodIndex q < 2 ^ 64 \<and> pq_grant q = strField body ''grant''
    \<and> pq_claimer q = strField body ''claimer'' \<and> pq_eventId q = strField body ''eventId''
    \<and> pq_confirmationCode q = strField body ''confirmationCode''"
  by (auto simp: parsePopRequest_def Let_def split: option.splits if_splits)

lemma key_lengths: "keyBytes cr a b = Inr (g, c) \<Longrightarrow> length g = 32 \<and> length c = 32"
  by (auto simp: keyBytes_def split: option.splits if_splits)

lemma pop_keys:
  "popGlobalKey a = popGlobalKey b \<longleftrightarrow> a = b" "popStreamKey a = popStreamKey b \<longleftrightarrow> a = b" "popGlobalKey a \<noteq> popStreamKey b"
  "popStreamKey b \<noteq> popGlobalKey a" "\<not> prefix ''audit'' (popGlobalKey a)" "\<not> prefix ''audit'' (popStreamKey a)"
  "popGlobalKey a \<noteq> popHistoryKey ts h" "popStreamKey a \<noteq> popHistoryKey ts h"
  "popGlobalKey a \<noteq> popCacheKey H q x" "popStreamKey a \<noteq> popCacheKey H q x"
  by (auto simp: popGlobalKey_def popStreamKey_def POP_CHAIN_GLOBAL_PREFIX_def POP_CHAIN_STREAM_PREFIX_def popCacheKey_def popHistoryKey_def
      buildPopClaimProofCacheKey_def POP_PROOF_CACHE_PREFIX_def)

text \<open>The heads of the chain of a grant, as the code reads them.\<close>

definition popHeads :: "storage \<Rightarrow> string \<Rightarrow> (string or_error) \<times> (string or_error)" where
  "popHeads s grant = (readHashHex (sto_get s (popGlobalKey grant)), readHashHex (sto_get s (popStreamKey grant)))"

lemma read_digest: "hex_digest h \<Longrightarrow> readHashHex (JStr h) = Inr h"
  using hex_digest_facts [of h] by (auto simp: readHashHex_def hex_digest_def Let_def)

lemma sign_heads:
  assumes "signPopClaimProof cr H env svc s t signer q receipt checkedAt grant claimer expected (popCacheKey H q x) = (s', Inr p)"
    and "sha256_law cr"
  shows "popHeads s' g = (if g = pq_grant q \<and> expected = None then (Inr (pf_entryHash p), Inr (pf_entryHash p)) else popHeads s g)"
proof (rule sign_result [OF assms(1)])
  fix ph sh ax pb sb ab f s1 e v w
  assume p: "p = proof_of cr signer f ph sh ax" and fr: "\<forall>k. \<not> prefix ''audit'' k \<longrightarrow> sto_get s1 k = sto_get s k"
    and s': "s' = sto_put (sto_put (if expected = None
            then sto_put (sto_put s1 (popGlobalKey (pq_grant q)) (JStr (pf_entryHash p))) (popStreamKey (pq_grant q)) (JStr (pf_entryHash p))
            else s1) (popHistoryKey (js_toISOString t) (pf_entryHash p)) e) (popCacheKey H q x) (popProofToJs p)"
  have "hex_digest (pf_entryHash p)"
    using assms(2) hex_digest_bytes by (simp add: p proof_of_def Let_def buildPopEntryHash_def sha256_law_def)
  then show ?thesis using fr by (simp add: popHeads_def s' pop_keys read_digest)
qed


section \<open>The chain of a grant\<close>

text \<open>
  Histories of one grant: it starts with no head stored, a proof that is signed on the stored head extends it, and
  anything else that happens keeps the heads. By \<open>sign_heads\<close> this includes the proofs of other grants and those on
  hashes named by the client.
\<close>

inductive pop_run ::
  "pop_crypto \<Rightarrow> (string \<Rightarrow> string) \<Rightarrow> Env \<Rightarrow> AuditServices \<Rightarrow> string \<Rightarrow> storage \<Rightarrow> PopProofResponse list \<Rightarrow> bool"
  for cr H env svc grant where
    start: "sto_get s (popGlobalKey grant) = JUndef \<Longrightarrow> sto_get s (popStreamKey grant) = JUndef \<Longrightarrow> pop_run cr H env svc grant s []"
  | advance: "pop_run cr H env svc grant s ps \<Longrightarrow> issuePopClaimProof cr H env svc cache s t body = (cache', s', Inr p) \<Longrightarrow> s' \<noteq> s
      \<Longrightarrow> strField body ''grant'' = grant \<Longrightarrow> expectedHashes body = Inr None \<Longrightarrow> pop_run cr H env svc grant s' (ps @ [p])"
  | other: "pop_run cr H env svc grant s ps \<Longrightarrow> popHeads s' grant = popHeads s grant \<Longrightarrow> pop_run cr H env svc grant s' ps"

fun pop_linked :: "string \<Rightarrow> PopProofResponse list \<Rightarrow> bool" where
  "pop_linked h [] = True"
| "pop_linked h (p # ps) = (pf_prevHash p = h \<and> pf_streamPrevHash p = h \<and> pop_linked (pf_entryHash p) ps)"

definition popLast :: "PopProofResponse list \<Rightarrow> string" where
  "popLast ps = (if ps = [] then POP_HASH_GENESIS_HEX else pf_entryHash (last ps))"

lemma pop_linked_snoc: "pop_linked h (ps @ [p]) \<longleftrightarrow> pop_linked h ps
    \<and> pf_prevHash p = (if ps = [] then h else pf_entryHash (last ps)) \<and> pf_streamPrevHash p = (if ps = [] then h else pf_entryHash (last ps))"
  by (induction ps arbitrary: h) auto

lemma pop_run_inv:
  assumes "pop_run cr H env svc grant s ps" "sha256_law cr"
  shows "pop_linked POP_HASH_GENESIS_HEX ps \<and> popHeads s grant = (Inr (popLast ps), Inr (popLast ps))"
  using assms(1)
proof induction
  case (start s)
  then show ?case by (simp add: popHeads_def readHashHex_def popLast_def)
next
  case (advance s ps cache t body cache' s' p)
  show ?case
  proof (rule issue_result [OF advance.hyps(2)])
    fix signer q receipt ca g c x
    assume q: "parsePopRequest body = Inr q" and x: "expectedHashes body = Inr x"
      and or: "(s' = s \<and> parseStoredPopClaimProof (sto_get s (popCacheKey H q x)) = Some p \<and> isReusablePopClaimProof p (t div 1000))
        \<or> signPopClaimProof cr H env svc s t signer q receipt ca g c x (popCacheKey H q x) = (s', Inr p)"
    have xn: "x = None" using x advance.hyps by simp
    from or advance.hyps(3) have sg: "signPopClaimProof cr H env svc s t signer q receipt ca g c None (popCacheKey H q None) = (s', Inr p)"
      by (simp add: xn)
    have gq: "pq_grant q = grant" using parsed_request [OF q] advance.hyps by simp
    have hd: "popHeads s' grant = (Inr (pf_entryHash p), Inr (pf_entryHash p))" using sign_heads [OF sg assms(2)] gq by simp
    have "pf_prevHash p = popLast ps \<and> pf_streamPrevHash p = popLast ps"
      by (rule sign_result [OF sg]) (use advance.IH gq in \<open>auto simp: popHeads_def proof_of_def Let_def\<close>)
    with hd advance.IH show ?case by (simp add: pop_linked_snoc popLast_def)
  qed
next
  case (other s ps s')
  then show ?case by simp
qed

section \<open>The key until the next rotation\<close>

lemma resolution_stable:
  assumes "resolvePopSignerHdDerivationPath env t = Inr (p, r, k)" "t \<le> t'"
    and "pred_option (\<lambda>n. t' div 1000 < n) (pr_nextRotateAtUnix r)"
  shows "resolvePopSignerHdDerivationPath env t' = Inr (p, r, k)"
proof (cases "parseBooleanEnv (POP_SIGNER_HD_ROTATION_ENABLED env) False")
  case False
  then show ?thesis using assms(1) by (auto simp: resolvePopSignerHdDerivationPath_def Let_def)
next
  case True
  then have "pr_nextRotateAtUnix r = Some (rotationNext env t)"
    using assms(1) by (auto simp: resolvePopSignerHdDerivationPath_def Let_def rotationNext_def split: if_splits)
  then have slot: "rotationSlot env t' = rotationSlot env t" using assms(2,3) slot_stable by simp
  have "resolvePopSignerHdDerivationPath env t' = resolvePopSignerHdDerivationPath env t"
    by (simp only: resolvePopSignerHdDerivationPath_def slot)
  then show ?thesis using assms(1) by simp
qed

lemma signerPlan_shape:
  "\<exists>a b m. \<forall>t. signerPlan cr env t = (if a then Inl m else if b then hdPlan cr env t else legacyPlan cr env)"
  unfolding signerPlan_def Let_def by blast

lemma map_sum_Some: "map_sum (\<lambda>e. e) Some x = Inr (Some y) \<longleftrightarrow> x = Inr y"
  by (cases x) auto

lemma plan_stable:
  assumes "signerPlan cr env t = Inr (k, Inr (Some signer))" "t \<le> t'"
    and "pred_option (\<lambda>n. t' div 1000 < n) (pr_nextRotateAtUnix (ps_rotation signer))"
  shows "signerPlan cr env t' = Inr (k, Inr (Some signer))"
proof -
  have "hdPlan cr env t' = Inr (k, Inr (Some signer))" if h: "hdPlan cr env t = Inr (k, Inr (Some signer))"
  proof -
    obtain seed p r q where r: "resolvePopSignerHdDerivationPath env t = Inr (p, r, q)"
        "hdSigner cr (opt_trim (POP_SIGNER_HD_PUBKEY env)) seed p r = Inr signer"
      using h by (auto simp: hdPlan_def Let_def map_sum_Some split: if_splits option.splits sum.splits)
    have "ps_rotation signer = r" using r(2) by (auto simp: hdSigner_def Let_def split: sum.splits option.splits prod.splits)
    then have e: "resolvePopSignerHdDerivationPath env t' = resolvePopSignerHdDerivationPath env t"
      using resolution_stable [OF r(1) assms(2)] assms(3) r(1) by simp
    have "hdPlan cr env t' = hdPlan cr env t" by (simp only: hdPlan_def e)
    then show ?thesis using h by simp
  qed
  then show ?thesis using assms(1) signerPlan_shape [of cr env] by (metis Inr_not_Inl)
qed

end
