(* ===== verification/Pop_Promises.thy ===== *)
theory Pop_Promises
  imports Pop_Spec
begin

text \<open>
  The properties of the proofs of participation: a proof rests on a verified receipt and its message says what was
  signed, the proofs of a grant are one chain, and the signer stays until the announced rotation whatever the cache
  held. The examples issue one proof from a store with one audit entry and its receipt.
\<close>

section \<open>An example\<close>

definition constHash :: "string \<Rightarrow> string" where
  "constHash x = POP_HASH_GENESIS_HEX"

definition popEntry :: js where
  "popEntry = JObj [(''ts'', JStr ''2026-01-01T00:00:00.000Z''), (''event'', JStr ''USER_CLAIM''), (''eventId'', JStr ''evt-001''),
     (''actor'', JNull), (''data'', JObj [(''confirmationCode'', JStr ''ABC234'')]), (''prev_hash'', JStr ''GENESIS''),
     (''stream_prev_hash'', JStr ''GENESIS''), (''entry_hash'', JStr POP_HASH_GENESIS_HEX)]"

definition popReceipt :: ParticipationTicketReceipt where
  "popReceipt = \<lparr>pr_receiptId = POP_HASH_GENESIS_HEX, pr_receiptHash = POP_HASH_GENESIS_HEX, pr_issuedAt = ''2026-01-01T00:00:00.000Z'',
     pr_confirmationCode = ''ABC234'', pr_subjectCommitment = POP_HASH_GENESIS_HEX, pr_verifyEndpoint = PARTICIPATION_TICKET_VERIFY_ENDPOINT,
     pr_audit = \<lparr>ra_event = ''USER_CLAIM'', ra_eventId = ''evt-001'', ra_entryHash = POP_HASH_GENESIS_HEX, ra_prevHash = ''GENESIS'',
       ra_streamPrevHash = ''GENESIS'', ra_immutableMode = ''off'', ra_immutablePayloadHash = None, ra_immutableSinks = []\<rparr>\<rparr>"

definition popStore :: storage where
  "popStore = sto_put (sto_put [] (auditEntryByHashKey POP_HASH_GENESIS_HEX) popEntry)
     (ticketReceiptByCodeKey ''evt-001'' ''ABC234'') (receiptToJs popReceipt)"

definition popCrypto :: pop_crypto where
  "popCrypto = \<lparr>naclHash = (\<lambda>x. replicate 64 0), keyPairFromSeed = (\<lambda>x. (replicate 32 0, replicate 64 0)),
     publicFromSecret = (\<lambda>x. replicate 32 0), signDetached = (\<lambda>m k. replicate 64 0), bs58Encode = (\<lambda>x. replicate 32 (CHR ''1'')),
     bs58Decode = (\<lambda>x. Some (replicate 32 0)), sha256 = (\<lambda>x. replicate 32 1)\<rparr>"

definition popEnv :: Env where
  "popEnv = offEnv\<lparr>POP_SIGNER_SECRET_KEY_B64 := Some (encodeBase64 (replicate 32 0)), POP_SIGNER_PUBKEY := Some (replicate 32 (CHR ''1''))\<rparr>"

definition popBody :: js where
  "popBody = JObj [(''eventId'', JStr ''evt-001''), (''confirmationCode'', JStr ''ABC234''), (''grant'', JStr (replicate 32 (CHR ''1''))),
     (''claimer'', JStr (replicate 32 (CHR ''1''))), (''periodIndex'', JInt 3)]"

definition popQuery :: PopRequest where
  "popQuery = \<lparr>pq_eventId = ''evt-001'', pq_confirmationCode = ''ABC234'', pq_grant = replicate 32 (CHR ''1''),
     pq_claimer = replicate 32 (CHR ''1''), pq_periodIndex = 3\<rparr>"

lemma popEnv_append: "appendAuditLog H popEnv svc s nowMs event actor data eventId \<noteq> Inl x"
proof -
  have "getAuditImmutableMode popEnv = ModeOff" by code_simp
  then show ?thesis by (simp add: appendAuditLog_def persist_off Let_def)
qed

lemma pop_parsed: "parsePopRequest popBody = Inr popQuery" "expectedHashes popBody = Inr None"
  by code_simp+

lemma pop_signer: "\<exists>signer. snd (getPopSigner popCrypto popEnv None 5000) = Inr (Some signer)"
proof -
  have "isl (snd (getPopSigner popCrypto popEnv None 5000)) = False" by code_simp
  moreover have "projr (snd (getPopSigner popCrypto popEnv None 5000)) \<noteq> None" by code_simp
  ultimately show ?thesis by (cases "snd (getPopSigner popCrypto popEnv None 5000)") auto
qed

lemma pop_key_bytes: "keyBytes popCrypto (pq_grant popQuery) (pq_claimer popQuery) = Inr (replicate 32 0, replicate 32 0)"
  by (simp add: keyBytes_def popCrypto_def)

lemma pop_stored: "sto_get popStore (auditEntryByHashKey POP_HASH_GENESIS_HEX) = popEntry"
  "sto_get popStore (ticketReceiptByCodeKey ''evt-001'' ''ABC234'') = receiptToJs popReceipt"
proof -
  have "auditEntryByHashKey POP_HASH_GENESIS_HEX \<noteq> ticketReceiptByCodeKey ''evt-001'' ''ABC234''" by (simp add: key_defs prefix_defs)
  then show "sto_get popStore (auditEntryByHashKey POP_HASH_GENESIS_HEX) = popEntry"
    "sto_get popStore (ticketReceiptByCodeKey ''evt-001'' ''ABC234'') = receiptToJs popReceipt"
    by (simp_all add: popStore_def del: sto_put.simps)
qed

lemma pop_receipt_verified: "\<exists>v. verifyParticipationTicketReceipt constHash popStore 5000 popReceipt = Inr v \<and> rv_ok v"
proof -
  have "is_obj popEntry \<and> is_string (jget popEntry ''entry_hash'')" "isHashHex (js_lower (js_trim POP_HASH_GENESIS_HEX))"
    "js_lower (js_trim POP_HASH_GENESIS_HEX) = POP_HASH_GENESIS_HEX" by code_simp+
  then have e: "getAuditEntryByHash popStore (ra_entryHash (pr_audit popReceipt)) = Some popEntry"
    using pop_stored by (simp add: getAuditEntryByHash_def popReceipt_def)
  show ?thesis unfolding verified_iff
    by (intro exI [of _ popEntry] exI [of _ "[]"] conjI)
      (simp_all add: e, simp_all add: computeParticipationTicketReceiptHash_def constHash_def popReceipt_def popEntry_def globalLink_def
        streamLink_def payloadHashMatches_def entryPayloadHash_def entrySinks_def entryMode_def sinksMatch_def sinkSignatureSet_def
        normalizeStringField_def js_trim_def is_ws_def js_or_genesis_def GENESIS_def nullish_def jstr_null_def hashOf_def eventOf_def)
qed

lemma pop_verified: "\<exists>c. verifiedReceipt constHash popStore 5000 ''evt-001'' ''ABC234'' = Inr (popReceipt, c)"
proof -
  have "getEvent doStorageAdapter popStore ''evt-001'' \<noteq> None" by code_simp
  then obtain ev where ev: "getEvent doStorageAdapter popStore ''evt-001'' = Some ev" by blast
  have "jget (the (getEvent doStorageAdapter popStore ''evt-001'')) ''state'' = JStr ''published''" by code_simp
  with ev have st: "jget ev ''state'' = JStr ''published''" by simp
  have "receipt_wf popReceipt"
    using genesis_digest by (simp add: receipt_wf_def audit_wf_def popReceipt_def ref_field_def text_field_def PARTICIPATION_TICKET_VERIFY_ENDPOINT_def
        js_trim_def is_ws_def hex_digest_facts(1))
  then have "getParticipationTicketReceipt popStore ''evt-001'' [] ''ABC234'' = Some popReceipt"
    using pop_stored(2) by (simp add: getParticipationTicketReceipt_def parse_receipt)
  then show ?thesis using ev st pop_receipt_verified by (auto simp: verifiedReceipt_def)
qed


lemma pop_fresh: "sto_get popStore (popGlobalKey g) = JUndef" "sto_get popStore (popStreamKey g) = JUndef"
  "parseStoredPopClaimProof (sto_get popStore (popCacheKey H q x)) = None"
  by (simp_all add: popStore_def key_defs prefix_defs popGlobalKey_def popStreamKey_def POP_CHAIN_GLOBAL_PREFIX_def POP_CHAIN_STREAM_PREFIX_def
      popCacheKey_def buildPopClaimProofCacheKey_def POP_PROOF_CACHE_PREFIX_def parseStoredPopClaimProof_def sto_get_def)

lemma pop_law: "sha256_law popCrypto"
  by (simp add: sha256_law_def popCrypto_def)

lemma pop_issued:
  obtains c s p where "issuePopClaimProof popCrypto constHash popEnv noServices None popStore 5000 popBody = (c, s, Inr p)" "s \<noteq> popStore"
proof -
  obtain c signer where g: "getPopSigner popCrypto popEnv None 5000 = (c, Inr (Some signer))"
    using pop_signer by (cases "getPopSigner popCrypto popEnv None 5000") auto
  obtain ca where v: "verifiedReceipt constHash popStore 5000 (pq_eventId popQuery) (pq_confirmationCode popQuery) = Inr (popReceipt, ca)"
    using pop_verified by (auto simp: popQuery_def)
  have gen: "hexToBytes POP_HASH_GENESIS_HEX = Inr (replicate 32 0)" by code_simp
  have rd: "readHashHex (JStr POP_HASH_GENESIS_HEX) = Inr POP_HASH_GENESIS_HEX" "pr_receiptHash popReceipt = POP_HASH_GENESIS_HEX" "readHashHex JUndef = Inr POP_HASH_GENESIS_HEX"
    by (simp_all add: read_digest genesis_digest popReceipt_def) (simp add: readHashHex_def)
  have "\<exists>s p. signPopClaimProof popCrypto constHash popEnv noServices popStore 5000 signer popQuery popReceipt ca
      (replicate 32 0) (replicate 32 0) None (popCacheKey constHash popQuery None) = (s, Inr p)"
    by (simp add: signPopClaimProof_def pop_fresh rd gen popEnv_append Let_def split: sum.splits)
  then obtain s p where sg: "signPopClaimProof popCrypto constHash popEnv noServices popStore 5000 signer popQuery popReceipt ca
      (replicate 32 0) (replicate 32 0) None (popCacheKey constHash popQuery None) = (s, Inr p)" by blast
  have "issuePopClaimProof popCrypto constHash popEnv noServices None popStore 5000 popBody = (c, s, Inr p)"
    using sg pop_fresh(3) [of constHash popQuery None]
    by (simp add: issuePopClaimProof_def g pop_parsed v pop_key_bytes popCacheKey_def Let_def)
  moreover have "s \<noteq> popStore"
  proof
    assume "s = popStore"
    then have "readHashHex JUndef = Inr (pf_entryHash p)"
      using sign_heads [OF sg pop_law, of "pq_grant popQuery"] by (simp add: popHeads_def pop_fresh)
    moreover have "pf_entryHash p = bytesToHex (replicate 32 1)"
      by (rule sign_result [OF sg]) (simp add: proof_of_def Let_def buildPopEntryHash_def popCrypto_def)
    moreover have "bytesToHex (replicate 32 1) \<noteq> POP_HASH_GENESIS_HEX" by code_simp
    ultimately show False by (simp add: rd)
  qed
  ultimately show thesis by (rule that)
qed

lemma plan_ahead:
  assumes "signerPlan cr env t = Inr (k, Inr (Some signer))"
  shows "pred_option (\<lambda>n. t div 1000 < n) (pr_nextRotateAtUnix (ps_rotation signer))"
proof -
  have hd: ?thesis if h: "hdPlan cr env t = Inr (k, Inr (Some signer))"
  proof -
    obtain seed p r q where r: "resolvePopSignerHdDerivationPath env t = Inr (p, r, q)"
        "hdSigner cr (opt_trim (POP_SIGNER_HD_PUBKEY env)) seed p r = Inr signer"
      using h by (auto simp: hdPlan_def Let_def map_sum_Some split: if_splits option.splits sum.splits)
    have sr: "ps_rotation signer = r" using r(2) by (auto simp: hdSigner_def Let_def split: sum.splits option.splits prod.splits)
    have "pr_nextRotateAtUnix r = None \<or> pr_nextRotateAtUnix r = Some (rotationNext env t)"
      using r(1) by (auto simp: resolvePopSignerHdDerivationPath_def Let_def rotationNext_def emptyPopSignerRotation_def split: if_splits)
    then show ?thesis using slot_next [of t env] by (auto simp: sr)
  qed
  have legacy: ?thesis if l: "legacyPlan cr env = Inr (k, Inr (Some signer))"
  proof -
    obtain x y where "legacySigner cr x y = Inr signer"
      using l by (auto simp: legacyPlan_def Let_def map_sum_Some split: if_splits)
    then have "ps_rotation signer = emptyPopSignerRotation"
      by (auto simp: legacySigner_def split: if_splits sum.splits option.splits)
    then show ?thesis by (simp add: emptyPopSignerRotation_def)
  qed
  show ?thesis using assms hd legacy signerPlan_shape [of cr env] by (metis Inr_not_Inl)
qed

section \<open>Properties\<close>

text \<open>
  C25. A proof that is signed rests on a receipt: the event is published or has no state, the receipt for the event and
  the confirmation code was found and verified at that moment, and the message that was signed has 209 bytes and says
  exactly which grant, claimer, period, predecessor hashes and receipt hash were meant; a message for any other
  well-formed data is different.
\<close>

theorem pop_proof_sound:
  assumes "issuePopClaimProof cr H env svc cache s nowMs body = (cache', s', Inr p)" "s' \<noteq> s" "sha256_law cr" "0 \<le> nowMs" "nowMs < 2 ^ 63"
  shows "\<exists>receipt checkedAt f signer message.
       verifiedReceipt H s nowMs (strField body ''eventId'') (strField body ''confirmationCode'') = Inr (receipt, checkedAt)
     \<and> keyBytes cr (strField body ''grant'') (strField body ''claimer'') = Inr (pp_grant f, pp_claimer f)
     \<and> parsePeriodIndex (jget body ''periodIndex'') = Some (pp_periodIndex f) \<and> pp_issuedAt f = nowMs div 1000
     \<and> hexToBytes (pf_prevHash p) = Inr (pp_prevHash f) \<and> hexToBytes (pf_streamPrevHash p) = Inr (pp_streamPrevHash f)
     \<and> readHashHex (JStr (pr_receiptHash receipt)) = Inr (pf_auditHash p) \<and> hexToBytes (pf_auditHash p) = Inr (pp_auditHash f)
     \<and> message = buildPopProofMessage f (buildPopEntryHash cr f)
     \<and> decodeBase64 (pf_messageBase64 p) = Some message \<and> length message = POP_MESSAGE_LEN
     \<and> decodeBase64 (pf_signatureBase64 p) = Some (signDetached cr message (ps_secretKey signer))
     \<and> snd (getPopSigner cr env cache nowMs) = Inr (Some signer) \<and> pf_signerPubkey p = ps_signerPubkey signer
     \<and> (\<forall>g. pop_fields_wf g \<longrightarrow> g \<noteq> f \<longrightarrow> buildPopProofMessage g (buildPopEntryHash cr g) \<noteq> message)"
proof (rule issue_result [OF assms(1)])
  fix signer q receipt checkedAt grant claimer expected
  assume sgn: "snd (getPopSigner cr env cache nowMs) = Inr (Some signer)" and q: "parsePopRequest body = Inr q"
    and v: "verifiedReceipt H s nowMs (pq_eventId q) (pq_confirmationCode q) = Inr (receipt, checkedAt)"
    and k: "keyBytes cr (pq_grant q) (pq_claimer q) = Inr (grant, claimer)"
    and r: "s' = s \<and> parseStoredPopClaimProof (sto_get s (popCacheKey H q expected)) = Some p \<and> isReusablePopClaimProof p (nowMs div 1000)
     \<or> signPopClaimProof cr H env svc s nowMs signer q receipt checkedAt grant claimer expected (popCacheKey H q expected) = (s', Inr p)"
  note pq = parsed_request [OF q]
  have per: "parsePeriodIndex (jget body ''periodIndex'') = Some (pq_periodIndex q)"
    using q by (auto simp: parsePopRequest_def Let_def split: option.splits if_splits)
  from r assms(2) have sg: "signPopClaimProof cr H env svc s nowMs signer q receipt checkedAt grant claimer expected (popCacheKey H q expected) = (s', Inr p)"
    by blast
  show ?thesis
  proof (rule sign_result [OF sg])
    fix ph sh ax pb sb ab f s1 e v' w
    assume hx: "hexToBytes ph = Inr pb" "hexToBytes sh = Inr sb" "readHashHex (JStr (pr_receiptHash receipt)) = Inr ax" "hexToBytes ax = Inr ab"
      and f: "f = \<lparr>pp_grant = grant, pp_claimer = claimer, pp_periodIndex = pq_periodIndex q, pp_prevHash = pb,
          pp_streamPrevHash = sb, pp_auditHash = ab, pp_issuedAt = nowMs div 1000\<rparr>" and p: "p = proof_of cr signer f ph sh ax"
    have "0 \<le> nowMs div 1000" "nowMs div 1000 < 2 ^ 63" using assms(4,5) by (simp_all add: div_less_dividend pos_imp_zdiv_nonneg_iff)
    then have wf: "pop_fields_wf f"
      using hexToBytes_length [OF hx(1)] hexToBytes_length [OF hx(2)] hexToBytes_length [OF hx(4)] key_lengths [OF k] pq assms(4,5)
      by (simp add: pop_fields_wf_def f)
    have el: "length (buildPopEntryHash cr g) = 32" for g using assms(3) by (simp add: buildPopEntryHash_def sha256_law_def)
    have other: "\<forall>g. pop_fields_wf g \<longrightarrow> g \<noteq> f \<longrightarrow> buildPopProofMessage g (buildPopEntryHash cr g) \<noteq> buildPopProofMessage f (buildPopEntryHash cr f)"
      using message_inject [OF _ wf el el] by blast
    show ?thesis
      by (rule exI [of _ receipt], rule exI [of _ checkedAt], rule exI [of _ f], rule exI [of _ signer],
          rule exI [of _ "buildPopProofMessage f (buildPopEntryHash cr f)"])
        (use v k pq per hx sgn other message_length [OF wf el] in \<open>simp add: p proof_of_def Let_def base64_back, simp add: f\<close>)
  qed
qed

theorem pop_proof_sound_witness:
  "\<exists>s c p f message. issuePopClaimProof popCrypto constHash popEnv noServices None popStore 5000 popBody = (c, s, Inr p)
     \<and> pp_issuedAt f = 5 \<and> decodeBase64 (pf_messageBase64 p) = Some (buildPopProofMessage f (buildPopEntryHash popCrypto f))
     \<and> decodeBase64 (pf_messageBase64 p) = Some message \<and> length message = POP_MESSAGE_LEN"
proof -
  obtain c s p where i: "issuePopClaimProof popCrypto constHash popEnv noServices None popStore 5000 popBody = (c, s, Inr p)" "s \<noteq> popStore"
    by (rule pop_issued)
  from pop_proof_sound [OF i pop_law] i(1) show ?thesis by fastforce
qed

text \<open>
  C26. The proofs signed for a grant on the stored heads form one chain, whatever happens in between that keeps the heads:
  the first names the genesis hash, each next one names the entry hash of the one before as both of its predecessors,
  and the two stored heads are the hash of the last proof.
\<close>

theorem pop_chain_linked:
  assumes "pop_run cr H env svc grant s ps" "sha256_law cr"
  shows "pop_linked POP_HASH_GENESIS_HEX ps \<and> popHeads s grant = (Inr (popLast ps), Inr (popLast ps))"
  using pop_run_inv [OF assms] .

theorem pop_chain_linked_witness:
  "\<exists>s p. pop_run popCrypto constHash popEnv noServices (replicate 32 (CHR ''1'')) s [p]
     \<and> pf_prevHash p = POP_HASH_GENESIS_HEX \<and> popHeads s (replicate 32 (CHR ''1'')) = (Inr (pf_entryHash p), Inr (pf_entryHash p))"
proof -
  obtain c s p where i: "issuePopClaimProof popCrypto constHash popEnv noServices None popStore 5000 popBody = (c, s, Inr p)" "s \<noteq> popStore"
    by (rule pop_issued)
  have "strField popBody ''grant'' = replicate 32 (CHR ''1'')" using parsed_request [OF pop_parsed(1)] by (simp add: popQuery_def)
  with pop_run.advance [OF pop_run.start i(1,2) _ pop_parsed(2)] pop_fresh
  have r: "pop_run popCrypto constHash popEnv noServices (replicate 32 (CHR ''1'')) s [p]" by simp
  from pop_chain_linked [OF r pop_law] have "pf_prevHash p = POP_HASH_GENESIS_HEX" "popHeads s (replicate 32 (CHR ''1'')) = (Inr (pf_entryHash p), Inr (pf_entryHash p))"
    by (simp_all add: popLast_def)
  with r show ?thesis by blast
qed

text \<open>
  A signer stays until the rotation it announces: every later call before that time returns the same key pair and
  the same derivation path, from whatever the instance had cached, and the announced time is always ahead. A signer
  without rotation stays for ever.
\<close>

theorem signer_until_rotation:
  assumes "signer_cache_ok cr env cache" "snd (getPopSigner cr env cache t) = Inr (Some signer)"
  shows "pred_option (\<lambda>n. t div 1000 < n) (pr_nextRotateAtUnix (ps_rotation signer))
       \<and> (\<forall>cache' t'. signer_cache_ok cr env cache' \<longrightarrow> t \<le> t'
            \<longrightarrow> pred_option (\<lambda>n. t' div 1000 < n) (pr_nextRotateAtUnix (ps_rotation signer))
            \<longrightarrow> snd (getPopSigner cr env cache' t') = Inr (Some signer))"
proof -
  have "snd (getPopSigner cr env None t) = Inr (Some signer)" using getPopSigner_cached [OF assms(1), of t] assms(2) by simp
  then obtain k where k: "signerPlan cr env t = Inr (k, Inr (Some signer))"
    by (auto simp: getPopSigner_def split: sum.splits prod.splits)
  have "snd (getPopSigner cr env cache' t') = Inr (Some signer)"
    if "signer_cache_ok cr env cache'" "t \<le> t'" "pred_option (\<lambda>n. t' div 1000 < n) (pr_nextRotateAtUnix (ps_rotation signer))" for cache' t'
  proof -
    have "signerPlan cr env t' = Inr (k, Inr (Some signer))" using plan_stable [OF k] that by blast
    then have "snd (getPopSigner cr env None t') = Inr (Some signer)" by (simp add: getPopSigner_def)
    then show ?thesis using getPopSigner_cached [OF that(1), of t'] by simp
  qed
  then show ?thesis using plan_ahead [OF k] by blast
qed

theorem signer_until_rotation_witness:
  "\<exists>signer. snd (getPopSigner popCrypto popEnv None 5000) = Inr (Some signer) \<and> snd (getPopSigner popCrypto popEnv None 9000000) = Inr (Some signer)"
proof -
  obtain signer where s: "snd (getPopSigner popCrypto popEnv None 5000) = Inr (Some signer)" using pop_signer by blast
  have ok: "signer_cache_ok popCrypto popEnv None" by (simp add: signer_cache_ok_def)
  have "pr_nextRotateAtUnix (ps_rotation (the (projr (snd (getPopSigner popCrypto popEnv None 5000))))) = None" by code_simp
  then have "pr_nextRotateAtUnix (ps_rotation signer) = None" by (simp add: s)
  with signer_until_rotation [OF ok s] ok s show ?thesis by auto
qed

end
