(* ===== verification/Claim_Handlers.thy ===== *)
theory Claim_Handlers
  imports Pop_Proof Transfer_Log User_Registry Admin_Security
begin

text \<open>
  The endpoints of the participants (\<open>storeDO.ts\<close>): \<open>POST /v1/school/claims\<close> for wallets and join tokens,
  \<open>/api/auth/verify\<close>, \<open>/api/users/tickets/sync\<close>, \<open>/api/users/register\<close> and \<open>/api/events/:eventId/claim\<close> for registered
  users. They compose the claim store, the registry, the receipts, the audit log, the Cost of Forgery check and the
  signer. What the two claim handlers do alike is one definition each: the check of an on-chain proof, the settling of
  a pending claim, the report of an on-chain claim, the issue of a new one. A write to the storage does not fail, so
  the code reserved before \<open>addClaim\<close> is never released.
\<close>

section \<open>Surroundings and answers\<close>

record world =
  w_crypto :: pop_crypto
  w_hash :: "string \<Rightarrow> string"
  w_env :: Env
  w_services :: AuditServices
  w_risk :: risk_service

type_synonym signer_cache = "PopSignerCacheEntry option"

text \<open>What is drawn at random in a request: the bytes of each attempt at a code, and those of a request id.\<close>

record draws =
  dr_codes :: "nat \<Rightarrow> nat list"
  dr_id :: "nat list"

definition quotaToJs :: "ClaimQuotaStatus \<Rightarrow> js" where
  "quotaToJs q = JObj ([(''claimIntervalDays'', JInt (q_claimIntervalDays q)),
      (''maxClaimsPerInterval'', case q_maxClaimsPerInterval q of Some n \<Rightarrow> JInt n | None \<Rightarrow> JNull),
      (''claimsUsedInCurrentInterval'', JInt (q_claimsUsedInCurrentInterval q)),
      (''remainingClaimsInCurrentInterval'', case q_remainingClaimsInCurrentInterval q of Some n \<Rightarrow> JInt n | None \<Rightarrow> JNull),
      (''canClaimNow'', JBool (q_canClaimNow q))]
    @ (case q_nextAvailableAt q of Some n \<Rightarrow> [(''nextAvailableAt'', JInt n)] | None \<Rightarrow> []))"

definition receiptField :: "ParticipationTicketReceipt option \<Rightarrow> (string \<times> js) list" where
  "receiptField r = (case r of Some t \<Rightarrow> [(''ticketReceipt'', receiptToJs t)] | None \<Rightarrow> [])"

definition onchainFieldsOf :: "ConfirmedOnchainClaim option \<Rightarrow> (string \<times> js) list" where
  "onchainFieldsOf c = buildOnchainClaimResponseFields (jstr_null (Option.bind c oc_txSignature)) (jstr_null (Option.bind c oc_receiptPubkey))"

definition schoolClaimFailure :: "string \<Rightarrow> string \<Rightarrow> js" where
  "schoolClaimFailure code message =
     JObj [(''success'', JBool False), (''error'', JObj [(''code'', JStr code), (''message'', JStr message)])]"

definition codedError :: "string \<Rightarrow> string \<Rightarrow> js" where
  "codedError message code = JObj [(''error'', JStr message), (''code'', JStr code)]"

definition codedMessage :: "string \<Rightarrow> string \<Rightarrow> js" where
  "codedMessage message code = JObj [(''message'', JStr message), (''code'', JStr code)]"

text \<open>The Japanese messages, in UTF-8.\<close>

definition MSG_invalid_event :: string where
  "MSG_invalid_event = utf8_text [227, 130, 164, 227, 131, 153, 227, 131, 179, 227, 131, 136, 73, 68, 227, 129, 140, 231, 132, 161, 229, 138, 185, 227, 129, 167,
     227, 129, 153]"

definition MSG_event_not_found :: string where
  "MSG_event_not_found = utf8_text [227, 130, 164, 227, 131, 153, 227, 131, 179, 227, 131, 136, 227, 129, 140, 232, 166, 139, 227, 129, 164, 227, 129, 139, 227, 130,
     138, 227, 129, 190, 227, 129, 155, 227, 130, 147]"

definition MSG_event_closed :: string where
  "MSG_event_closed = utf8_text [227, 129, 147, 227, 129, 174, 227, 130, 164, 227, 131, 153, 227, 131, 179, 227, 131, 136, 227, 129, 175, 229, 143, 130, 229, 138,
     160, 227, 129, 167, 227, 129, 141, 227, 129, 190, 227, 129, 155, 227, 130, 147]"

definition MSG_pop_config :: string where
  "MSG_pop_config = utf8_text [80, 111, 80, 232, 168, 173, 229, 174, 154, 227, 130, 168, 227, 131, 169, 227, 131, 188, 58, 32]"

definition MSG_pop_unconfigured :: string where
  "MSG_pop_unconfigured = utf8_text [80, 111, 80, 231, 189, 178, 229, 144, 141, 232, 168, 173, 229, 174, 154, 227, 129, 140, 230, 156, 170, 229, 174, 140, 228, 186,
     134, 227, 129, 174, 227, 129, 159, 227, 130, 129, 227, 130, 170, 227, 131, 179, 227, 131, 129, 227, 130, 167, 227, 131, 188, 227,
     131, 179, 229, 143, 130, 229, 138, 160, 227, 130, 146, 229, 143, 151, 227, 129, 145, 228, 187, 152, 227, 129, 145, 227, 129, 167,
     227, 129, 141, 227, 129, 190, 227, 129, 155, 227, 130, 147]"

definition MSG_pop_required :: string where
  "MSG_pop_required = utf8_text [227, 130, 170, 227, 131, 179, 227, 131, 129, 227, 130, 167, 227, 131, 188, 227, 131, 179, 80, 111, 80, 232, 168, 188, 232, 183,
     161, 227, 129, 140, 229, 191, 133, 232, 166, 129, 227, 129, 167, 227, 129, 153, 58, 32]"

definition MSG_wallet_required :: string where
  "MSG_wallet_required = utf8_text [80, 104, 97, 110, 116, 111, 109, 227, 129, 171, 230, 142, 165, 231, 182, 154, 227, 129, 151, 227, 129, 166, 227, 129, 143, 227,
     129, 160, 227, 129, 149, 227, 129, 132]"

definition MSG_code_failed :: string where
  "MSG_code_failed = utf8_text [231, 162, 186, 232, 170, 141, 227, 130, 179, 227, 131, 188, 227, 131, 137, 227, 129, 174, 231, 153, 186, 232, 161, 140, 227, 129,
     171, 229, 164, 177, 230, 149, 151, 227, 129, 151, 227, 129, 190, 227, 129, 151, 227, 129, 159, 227, 128, 130, 230, 153, 130, 233,
     150, 147, 227, 130, 146, 231, 189, 174, 227, 129, 132, 227, 129, 166, 229, 134, 141, 232, 169, 166, 232, 161, 140, 227, 129, 151,
     227, 129, 166, 227, 129, 143, 227, 129, 160, 227, 129, 149, 227, 129, 132, 227, 128, 130]"

section \<open>Steps that both claim handlers have\<close>

definition eventClosed :: "js \<Rightarrow> bool" where
  "eventClosed event = (truthy (jget event ''state'') \<and> jget event ''state'' \<noteq> JStr ''published'')"

datatype ProofProblem = Problem_config string | Problem_unconfigured | Problem_fields string

definition onchainProofProblem ::
  "world \<Rightarrow> signer_cache \<Rightarrow> int \<Rightarrow> js \<Rightarrow> OnchainProofFields \<Rightarrow> signer_cache \<times> ProofProblem option" where
  "onchainProofProblem w cache nowMs event proofFields =
     (if isOnchainPopEnforced (w_env w) \<and> isEventOnchainConfigured event \<and> hasAnyOnchainProofField proofFields
      then case getPopSigner (w_crypto w) (w_env w) cache nowMs of
             (cache', Inl message) \<Rightarrow> (cache', Some (Problem_config message))
           | (cache', Inr None) \<Rightarrow> (cache', Some Problem_unconfigured)
           | (cache', Inr (Some _)) \<Rightarrow> (cache', map_option Problem_fields (validateOnchainProofFields proofFields))
      else (cache, None))"

text \<open>A pending claim whose code is confirmed on chain is no longer pending.\<close>

definition settlePending ::
  "storage \<Rightarrow> string \<Rightarrow> string \<Rightarrow> (string \<Rightarrow> bool) \<Rightarrow> storage \<times> PendingClaimEntry option" where
  "settlePending s eventId subject confirmed =
     (case getPendingClaim doStorageAdapter s eventId subject of
        None \<Rightarrow> (s, None)
      | Some p \<Rightarrow>
          (if confirmed (pc_code p)
           then (resolvePendingClaim doStorageAdapter s eventId subject (Some (pc_code p)), None) else (s, Some p)))"

definition claimAuditData :: "string \<Rightarrow> string \<Rightarrow> string \<Rightarrow> TransferAuditPayload \<Rightarrow> (string \<times> string) list \<Rightarrow> js" where
  "claimAuditData eventId status code transfer pii =
     JObj ([(''eventId'', JStr eventId), (''status'', JStr status), (''confirmationCode'', JStr code),
        (''transfer'', transferToJs transfer)]
       @ (if pii = [] then [] else [(''pii'', piiToJs (Some pii))]))"

text \<open>
  The report of an on-chain claim for a code that belongs to the subject: a receipt that is missing or not verified is
  built anew from the entry. \<open>entry\<close> is the actor and the data of the audit entry, if there is a recipient.
\<close>

definition reportOnchainClaim ::
  "world \<Rightarrow> storage \<Rightarrow> int \<Rightarrow> string \<Rightarrow> string \<Rightarrow> string \<Rightarrow> string \<Rightarrow> (js \<times> js) option
     \<Rightarrow> storage \<times> ParticipationTicketReceipt option or_error" where
  "reportOnchainClaim w s nowMs eventId subject code auditEvent entry =
     (let found = getParticipationTicketReceipt s eventId subject code;
          checked = (case found of
                       None \<Rightarrow> Inr True
                     | Some r \<Rightarrow> map_sum (\<lambda>e. e) (\<lambda>v. \<not> rv_ok v) (verifyParticipationTicketReceipt (w_hash w) s nowMs r));
          finish = (\<lambda>s2 receipt. (resolvePendingClaim doStorageAdapter s2 eventId subject (Some code), Inr receipt))
      in case checked of
           Inl e \<Rightarrow> (s, Inl e)
         | Inr needsBackfill \<Rightarrow>
             (case entry of
                None \<Rightarrow> finish s found
              | Some (actor, data) \<Rightarrow>
                  (case appendAuditLog (w_hash w) (w_env w) (w_services w) s nowMs auditEvent actor data eventId of
                     Inl e \<Rightarrow> (s, Inl e)
                   | Inr (s1, auditEntry) \<Rightarrow>
                       (if \<not> needsBackfill then finish s1 found
                        else case buildParticipationTicketReceipt (w_hash w) eventId subject code auditEntry of
                               Inl e \<Rightarrow> (s1, Inl e)
                             | Inr r \<Rightarrow> finish (storeParticipationTicketReceipt s1 nowMs eventId subject r) (Some r)))))"

text \<open>A new claim: \<open>Inr None\<close> when no code could be reserved.\<close>

definition issueClaim ::
  "world \<Rightarrow> draws \<Rightarrow> storage \<Rightarrow> int \<Rightarrow> string \<Rightarrow> string \<Rightarrow> string \<Rightarrow> js \<Rightarrow> (string \<Rightarrow> js)
     \<Rightarrow> storage \<times> (string \<times> ParticipationTicketReceipt) option or_error" where
  "issueClaim w d s nowMs eventId subject auditEvent actor data =
     (case reserveUniqueConfirmationCode s nowMs (dr_codes d) eventId subject of
        Inl _ \<Rightarrow> (s, Inr None)
      | Inr (s1, code) \<Rightarrow>
          (let s2 = addClaim doStorageAdapter s1 eventId subject (Some code) nowMs;
               s3 = ensureConfirmationCodeIndexed s2 nowMs eventId subject code
           in case appendAuditLog (w_hash w) (w_env w) (w_services w) s3 nowMs auditEvent actor (data code) eventId of
                Inl e \<Rightarrow> (s3, Inl e)
              | Inr (s4, auditEntry) \<Rightarrow>
                  (case buildParticipationTicketReceipt (w_hash w) eventId subject code auditEntry of
                     Inl e \<Rightarrow> (s4, Inl e)
                   | Inr r \<Rightarrow> (storeParticipationTicketReceipt s4 nowMs eventId subject r, Inr (Some (code, r))))))"

section \<open>Wallets and join tokens\<close>

definition walletProblem :: "ProofProblem \<Rightarrow> js" where
  "walletProblem problem =
     (case problem of
        Problem_config message \<Rightarrow> schoolClaimFailure ''retryable'' (MSG_pop_config @ message)
      | Problem_unconfigured \<Rightarrow> schoolClaimFailure ''retryable'' MSG_pop_unconfigured
      | Problem_fields reason \<Rightarrow> schoolClaimFailure ''wallet_required'' (MSG_pop_required @ reason))"

definition walletAnswer ::
  "js \<Rightarrow> bool \<Rightarrow> string option \<Rightarrow> ParticipationTicketReceipt option \<Rightarrow> ClaimQuotaStatus \<Rightarrow> (string \<times> js) list \<Rightarrow> js" where
  "walletAnswer event alreadyJoined code receipt quota onchain =
     JObj ([(''success'', JBool True), (''eventName'', jget event ''title''), (''alreadyJoined'', JBool alreadyJoined)]
       @ unlessEmpty ''confirmationCode'' code @ receiptField receipt @ [(''claimQuota'', quotaToJs quota)] @ onchain)"

record WalletClaim =
  wc_eventId :: string
  wc_event :: js
  wc_subject :: string
  wc_walletAddress :: "string option"
  wc_joinToken :: "string option"

definition walletRecipient :: "WalletClaim \<Rightarrow> TransferParty option" where
  "walletRecipient c =
     (case (wc_walletAddress c, wc_joinToken c) of
        (Some a, _) \<Rightarrow> Some \<lparr>tp_type = ''wallet'', tp_id = a\<rparr>
      | (None, Some j) \<Rightarrow> Some \<lparr>tp_type = ''join_token'', tp_id = j\<rparr>
      | (None, None) \<Rightarrow> None)"

definition walletPii :: "WalletClaim \<Rightarrow> (string \<times> string) list" where
  "walletPii c = (case wc_walletAddress c of Some a \<Rightarrow> [(''walletAddress'', a)] | None \<Rightarrow> [])
     @ (case wc_joinToken c of Some j \<Rightarrow> [(''joinToken'', j)] | None \<Rightarrow> [])"

definition walletQuota :: "storage \<Rightarrow> WalletClaim \<Rightarrow> int \<Rightarrow> ClaimQuotaStatus" where
  "walletQuota s c nowMs =
     getWalletOnchainClaimQuotaStatus s (wc_eventId c) (wc_event c) (wc_walletAddress c) (wc_joinToken c) nowMs"

definition walletReport ::
  "world \<Rightarrow> storage \<Rightarrow> int \<Rightarrow> WalletClaim \<Rightarrow> OnchainProofFields \<Rightarrow> string option \<Rightarrow> outcome" where
  "walletReport w s nowMs c proofFields requestedCode =
     (case requestedCode of
        None \<Rightarrow> respond s (schoolClaimFailure ''retryable'' ''on-chain claim requires off-chain receipt verification first'') 409
      | Some code \<Rightarrow>
          (if \<not> confirmationCodeBelongsToSubject s (wc_eventId c) (wc_subject c) code
           then respond s (schoolClaimFailure ''retryable'' ''off-chain receipt not found for this participation'') 409
           else
             let txSignature = jstr_null (normalizeStringField (JStr (of_txSignature proofFields)));
                 receiptPubkey = jstr_null (normalizeStringField (JStr (of_receiptPubkey proofFields)));
                 entry = map_option (\<lambda>recipient. (auditActor ''wallet'' (tp_id recipient),
                   claimAuditData (wc_eventId c) ''already'' code
                     (buildClaimTransferPayload (wc_eventId c) (wc_event c) recipient txSignature receiptPubkey) (walletPii c)))
                   (walletRecipient c)
             in case reportOnchainClaim w s nowMs (wc_eventId c) (wc_subject c) code ''WALLET_CLAIM'' entry of
                  (s', Inl e) \<Rightarrow> (s', Inl e)
                | (s', Inr receipt) \<Rightarrow>
                    respond s' (walletAnswer (wc_event c) True (Some code) receipt (walletQuota s' c nowMs)
                      (buildOnchainClaimResponseFields (JStr (of_txSignature proofFields)) (JStr (of_receiptPubkey proofFields)))) 200))"

text \<open>The claim is pending, or none is allowed now: the answer names the code that was issued.\<close>

definition walletAlready :: "storage \<Rightarrow> WalletClaim \<Rightarrow> ClaimQuotaStatus \<Rightarrow> string option \<Rightarrow> js" where
  "walletAlready s c quota code =
     (let confirmed = Option.bind code (\<lambda>k.
            getConfirmedWalletOnchainClaimByCode s (wc_eventId c) k (wc_walletAddress c) (wc_joinToken c))
      in walletAnswer (wc_event c) True code (Option.bind code (getParticipationTicketReceipt s (wc_eventId c) (wc_subject c)))
           quota (onchainFieldsOf confirmed))"

definition walletIssue ::
  "world \<Rightarrow> draws \<Rightarrow> storage \<Rightarrow> int \<Rightarrow> Request \<Rightarrow> js \<Rightarrow> WalletClaim \<Rightarrow> ClaimQuotaStatus \<Rightarrow> outcome" where
  "walletIssue w d s nowMs rq body c quota =
     (case enforceCostOfForgeryRisk (w_hash w) (w_env w) (w_risk w) (dr_id d) s nowMs rq
             \<lparr>fp_action = Act_wallet_claim, fp_event = wc_event c, fp_eventId = Some (wc_eventId c), fp_userId = None,
              fp_subject = Some (wc_subject c), fp_walletAddress = wc_walletAddress c,
              fp_token = or_null (extractCostOfForgeryToken rq body)\<rparr> of
        (s1, Some problem) \<Rightarrow> respond s1 (mapCostOfForgeryErrorToSchoolClaimResult problem) (fe_status problem)
      | (s1, None) \<Rightarrow>
          (let (actorId, data) = (case walletRecipient c of
                 Some recipient \<Rightarrow> (tp_id recipient, \<lambda>code. claimAuditData (wc_eventId c) ''created'' code
                   (buildClaimTransferPayload (wc_eventId c) (wc_event c) recipient JNull JNull) (walletPii c))
               | None \<Rightarrow> (''unknown'', \<lambda>code. JObj [(''eventId'', JStr (wc_eventId c)), (''status'', JStr ''created''),
                   (''confirmationCode'', JStr code)]))
           in case issueClaim w d s1 nowMs (wc_eventId c) (wc_subject c) ''WALLET_CLAIM'' (auditActor ''wallet'' actorId) data of
                (s2, Inl e) \<Rightarrow> (s2, Inl e)
              | (s2, Inr None) \<Rightarrow> respond s2 (schoolClaimFailure ''retryable'' MSG_code_failed) 200
              | (s2, Inr (Some (code, receipt))) \<Rightarrow>
                  respond s2 (walletAnswer (wc_event c) False (Some code) (Some receipt) quota []) 200))"

definition walletParticipate ::
  "world \<Rightarrow> draws \<Rightarrow> storage \<Rightarrow> int \<Rightarrow> Request \<Rightarrow> js \<Rightarrow> OnchainProofFields \<Rightarrow> WalletClaim \<Rightarrow> outcome" where
  "walletParticipate w d s nowMs rq body proofFields c =
     (let (s1, pending) = settlePending s (wc_eventId c) (wc_subject c) (\<lambda>code.
            hasConfirmedWalletOnchainClaimForCode s (wc_eventId c) code (wc_walletAddress c) (wc_joinToken c))
      in if hasAnyOnchainProofField proofFields
         then walletReport w s1 nowMs c proofFields (normalizeStringField (jget body ''confirmationCode''))
         else
           let quota = walletQuota s1 c nowMs
           in case pending of
                Some p \<Rightarrow> respond s1 (walletAlready s1 c quota (Some (pc_code p))) 200
              | None \<Rightarrow>
                  (if \<not> q_canClaimNow quota
                   then respond s1 (walletAlready s1 c quota
                          (filled (Option.bind (getClaimRecord doStorageAdapter s1 (wc_eventId c) (wc_subject c)) (\<lambda>k. k)))) 200
                   else walletIssue w d s1 nowMs rq body c quota))"

definition handleWalletClaim ::
  "world \<Rightarrow> draws \<Rightarrow> signer_cache \<Rightarrow> storage \<Rightarrow> int \<Rightarrow> Request \<Rightarrow> signer_cache \<times> outcome" where
  "handleWalletClaim w d cache s nowMs rq =
     (case rq_json rq of
        Inl _ \<Rightarrow> (cache, respond s (schoolClaimFailure ''invalid'' MSG_invalid_event) 200)
      | Inr body \<Rightarrow>
          (let eventId = strField body ''eventId'' in
           case (if eventId = [] then None else getEvent doStorageAdapter s eventId) of
             None \<Rightarrow> (cache, respond s (schoolClaimFailure ''not_found'' MSG_event_not_found) 200)
           | Some event \<Rightarrow>
               (if eventClosed event then (cache, respond s (schoolClaimFailure ''eligibility'' MSG_event_closed) 200)
                else let proofFields = getOnchainProofFields body in
                  case onchainProofProblem w cache nowMs event proofFields of
                    (cache', Some problem) \<Rightarrow> (cache', respond s (walletProblem problem) 200)
                  | (cache', None) \<Rightarrow>
                      (let walletAddress = (case normalizeStringField (JStr (of_walletAddress proofFields)) of
                             Some a \<Rightarrow> Some a | None \<Rightarrow> normalizeStringField (jget body ''walletAddress''));
                           joinToken = normalizeStringField (jget body ''joinToken'')
                       in case normalizeSubject walletAddress joinToken of
                            None \<Rightarrow> (cache', respond s (schoolClaimFailure ''wallet_required'' MSG_wallet_required) 200)
                          | Some subject \<Rightarrow>
                              (cache', walletParticipate w d s nowMs rq body proofFields
                                 \<lparr>wc_eventId = eventId, wc_event = event, wc_subject = subject,
                                  wc_walletAddress = walletAddress, wc_joinToken = joinToken\<rparr>)))))"

section \<open>Registered users\<close>

text \<open>
  The checks of a request with user id and PIN: an answer, or the user id and the stored account. \<open>missing\<close> is the
  answer to a body that is not JSON.
\<close>

definition authenticateUser :: "(string \<Rightarrow> string) \<Rightarrow> storage \<Rightarrow> string \<Rightarrow> Request \<Rightarrow> Response + (js \<times> string \<times> js)" where
  "authenticateUser H s missing rq =
     (case rq_json rq of
        Inl _ \<Rightarrow> Inl (json_response (errorBody missing) 400)
      | Inr body \<Rightarrow>
          (let userId = normalizeUserId (jget body ''userId'');
               pin = (case jget body ''pin'' of JStr p \<Rightarrow> p | _ \<Rightarrow> [])
           in if userId = [] \<or> pin = [] then Inl (json_response (errorBody ''missing params'') 400)
              else case ensureUserNotModerated s userId of
                Some r \<Rightarrow> Inl r
              | None \<Rightarrow>
                  (let userRaw = sto_get s (userKey userId) in
                   if \<not> is_obj userRaw \<or> \<not> jhas userRaw ''pinHash''
                   then Inl (json_response (codedMessage ''User not found'' ''user_not_found'') 401)
                   else if jget userRaw ''pinHash'' \<noteq> JStr (H pin)
                   then Inl (json_response (codedMessage ''Invalid PIN'' ''invalid_pin'') 401)
                   else Inr (body, userId, userRaw))))"

definition handleAuthVerify :: "world \<Rightarrow> storage \<Rightarrow> Request \<Rightarrow> outcome" where
  "handleAuthVerify w s rq =
     (case authenticateUser (w_hash w) s ''invalid body'' rq of
        Inl r \<Rightarrow> (s, Inr r)
      | Inr _ \<Rightarrow> respond s (JObj [(''ok'', JBool True)]) 200)"

definition ticketItemToJs :: "UserTicketSyncItem \<Rightarrow> js" where
  "ticketItemToJs i = JObj ([(''eventId'', JStr (ut_eventId i)), (''eventName'', ut_eventName i), (''claimedAt'', JInt (ut_claimedAt i))]
     @ unlessEmpty ''confirmationCode'' (ut_confirmationCode i) @ unlessEmpty ''auditReceiptId'' (ut_auditReceiptId i)
     @ unlessEmpty ''auditReceiptHash'' (ut_auditReceiptHash i) @ unlessEmpty ''txSignature'' (ut_txSignature i)
     @ unlessEmpty ''receiptPubkey'' (ut_receiptPubkey i) @ unlessEmpty ''mint'' (ut_mint i) @ [(''claimQuota'', quotaToJs (ut_claimQuota i))])"

definition handleTicketsSync :: "world \<Rightarrow> storage \<Rightarrow> int \<Rightarrow> Request \<Rightarrow> outcome" where
  "handleTicketsSync w s nowMs rq =
     (case authenticateUser (w_hash w) s ''invalid body'' rq of
        Inl r \<Rightarrow> (s, Inr r)
      | Inr (body, userId, userRaw) \<Rightarrow>
          respond s (JObj [(''syncedAt'', JStr (js_toISOString nowMs)),
            (''tickets'', JArr (map ticketItemToJs (buildUserTicketSyncItems s userId nowMs)))]) 200)"

text \<open>\<open>/^\d{4,6}$/\<close>\<close>

definition PIN_RE :: "string \<Rightarrow> bool" where
  "PIN_RE pin = (4 \<le> length pin \<and> length pin \<le> 6 \<and> list_all is_digit pin)"

definition handleUserRegister :: "world \<Rightarrow> draws \<Rightarrow> storage \<Rightarrow> int \<Rightarrow> Request \<Rightarrow> outcome" where
  "handleUserRegister w d s nowMs rq =
     (case rq_json rq of
        Inl _ \<Rightarrow> respond s (errorBody ''invalid body'') 400
      | Inr body \<Rightarrow>
          (let userId = normalizeUserId (jget body ''userId'');
               displayName = take 32 (strField body ''displayName'');
               pin = (case jget body ''pin'' of JStr p \<Rightarrow> p | _ \<Rightarrow> [])
           in case validateUserIdForRegistration userId of
                Some userIdError \<Rightarrow> respond s (codedError userIdError ''invalid_user_id'') 400
              | None \<Rightarrow>
                (case ensureUserNotModerated s userId of
                   Some r \<Rightarrow> (s, Inr r)
                 | None \<Rightarrow>
                   (if displayName = [] then respond s (errorBody ''displayName required (nickname 1-32)'') 400
                    else if \<not> PIN_RE pin then respond s (errorBody ''pin must be 4-6 digits'') 400
                    else case enforceCostOfForgeryRisk (w_hash w) (w_env w) (w_risk w) (dr_id d) s nowMs rq
                           \<lparr>fp_action = Act_user_register, fp_event = JUndef, fp_eventId = None, fp_userId = Some userId,
                            fp_subject = Some userId, fp_walletAddress = None,
                            fp_token = or_null (extractCostOfForgeryToken rq body)\<rparr> of
                      (s1, Some problem) \<Rightarrow> (s1, Inr (costOfForgeryErrorResponse problem))
                    | (s1, None) \<Rightarrow>
                        (case registerUserWithUniqueId (w_hash w) s1 nowMs userId displayName (w_hash w pin) of
                           Inl e \<Rightarrow> (s1, Inl e)
                         | Inr (s2, None) \<Rightarrow> respond s2 (codedError ''userId already exists'' ''duplicate_user_id'') 409
                         | Inr (s2, Some r) \<Rightarrow>
                             appendThen (w_hash w) (w_env w) (w_services w) s2 nowMs ''USER_REGISTER'' (auditActor ''user'' userId)
                               (JObj [(''displayName'', JStr displayName), (''userIdHash'', JStr (rr_userIdHash r)),
                                  (''userIdChainHash'', JStr (rr_chainHash r)), (''userIdPrevChainHash'', JStr (rr_prevChainHash r))])
                               ''system'' (\<lambda>s3 _. respond s3 (JObj [(''userId'', JStr userId)]) 200))))))"

section \<open>Claims of registered users\<close>

definition userProblem :: "ProofProblem \<Rightarrow> js \<times> int" where
  "userProblem problem =
     (case problem of
        Problem_config message \<Rightarrow> (errorBody (''PoP configuration error: '' @ message), 500)
      | Problem_unconfigured \<Rightarrow> (errorBody ''PoP signer is not configured'', 500)
      | Problem_fields reason \<Rightarrow> (errorBody (''on-chain claim proof required: '' @ reason), 400))"

definition userAnswer ::
  "string \<Rightarrow> string option \<Rightarrow> ParticipationTicketReceipt option \<Rightarrow> ClaimQuotaStatus \<Rightarrow> (string \<times> js) list \<Rightarrow> js" where
  "userAnswer status code receipt quota onchain =
     JObj ([(''status'', JStr status)] @ unlessEmpty ''confirmationCode'' code @ receiptField receipt
       @ [(''claimQuota'', quotaToJs quota)] @ onchain)"

record UserClaim =
  uc_eventId :: string
  uc_event :: js
  uc_userId :: string
  uc_displayName :: "string option"

definition userQuota :: "storage \<Rightarrow> UserClaim \<Rightarrow> int \<Rightarrow> ClaimQuotaStatus" where
  "userQuota s c nowMs = getUserOnchainClaimQuotaStatus s (uc_eventId c) (uc_event c) (uc_userId c) nowMs"

definition userRecipient :: "UserClaim \<Rightarrow> string option \<Rightarrow> TransferParty" where
  "userRecipient c walletAddress =
     (case walletAddress of Some a \<Rightarrow> \<lparr>tp_type = ''wallet'', tp_id = a\<rparr> | None \<Rightarrow> \<lparr>tp_type = ''user'', tp_id = uc_userId c\<rparr>)"

definition piiEntry :: "string \<Rightarrow> string option \<Rightarrow> (string \<times> string) list" where
  "piiEntry k v = (case v of Some x \<Rightarrow> [(k, x)] | None \<Rightarrow> [])"

text \<open>The wallet comes before the name in a report, after it in a new claim.\<close>

definition userReport ::
  "world \<Rightarrow> storage \<Rightarrow> int \<Rightarrow> UserClaim \<Rightarrow> OnchainProofFields \<Rightarrow> string option \<Rightarrow> outcome" where
  "userReport w s nowMs c proofFields requestedCode =
     (case requestedCode of
        None \<Rightarrow> respond s (codedError ''on-chain claim requires off-chain receipt verification first'' ''offchain_receipt_required'') 409
      | Some code \<Rightarrow>
          (if \<not> confirmationCodeBelongsToSubject s (uc_eventId c) (uc_userId c) code
           then respond s (codedError ''off-chain receipt not found for this participation'' ''offchain_receipt_not_found'') 409
           else
             let walletAddress = or_null (of_walletAddress proofFields);
                 entry = (auditActor ''user'' (uc_userId c),
                   claimAuditData (uc_eventId c) ''already'' code
                     (buildClaimTransferPayload (uc_eventId c) (uc_event c) (userRecipient c walletAddress)
                        (JStr (of_txSignature proofFields)) (JStr (of_receiptPubkey proofFields)))
                     ([(''userId'', uc_userId c)] @ piiEntry ''walletAddress'' walletAddress @ piiEntry ''displayName'' (uc_displayName c)))
             in case reportOnchainClaim w s nowMs (uc_eventId c) (uc_userId c) code ''USER_CLAIM'' (Some entry) of
                  (s', Inl e) \<Rightarrow> (s', Inl e)
                | (s', Inr receipt) \<Rightarrow>
                    respond s' (userAnswer ''already'' (Some code) receipt (userQuota s' c nowMs)
                      (buildOnchainClaimResponseFields (JStr (of_txSignature proofFields)) (JStr (of_receiptPubkey proofFields)))) 200))"

definition userAlready :: "storage \<Rightarrow> UserClaim \<Rightarrow> ClaimQuotaStatus \<Rightarrow> string option \<Rightarrow> js" where
  "userAlready s c quota code =
     (let confirmed = Option.bind code (\<lambda>k. getConfirmedUserOnchainClaimByCode s (uc_eventId c) k (uc_userId c))
      in userAnswer ''already'' code (Option.bind code (getParticipationTicketReceipt s (uc_eventId c) (uc_userId c)))
           quota (onchainFieldsOf confirmed))"

definition userIssue ::
  "world \<Rightarrow> draws \<Rightarrow> storage \<Rightarrow> int \<Rightarrow> Request \<Rightarrow> js \<Rightarrow> UserClaim \<Rightarrow> ClaimQuotaStatus \<Rightarrow> outcome" where
  "userIssue w d s nowMs rq body c quota =
     (case enforceCostOfForgeryRisk (w_hash w) (w_env w) (w_risk w) (dr_id d) s nowMs rq
             \<lparr>fp_action = Act_user_claim, fp_event = uc_event c, fp_eventId = Some (uc_eventId c), fp_userId = Some (uc_userId c),
              fp_subject = Some (uc_userId c), fp_walletAddress = None,
              fp_token = or_null (extractCostOfForgeryToken rq body)\<rparr> of
        (s1, Some problem) \<Rightarrow> (s1, Inr (costOfForgeryErrorResponse problem))
      | (s1, None) \<Rightarrow>
          (let walletAddress = normalizeStringField (jget body ''walletAddress'');
               data = (\<lambda>code. claimAuditData (uc_eventId c) ''created'' code
                 (buildClaimTransferPayload (uc_eventId c) (uc_event c) (userRecipient c walletAddress) JNull JNull)
                 ([(''userId'', uc_userId c)] @ piiEntry ''displayName'' (uc_displayName c) @ piiEntry ''walletAddress'' walletAddress))
           in case issueClaim w d s1 nowMs (uc_eventId c) (uc_userId c) ''USER_CLAIM'' (auditActor ''user'' (uc_userId c)) data of
                (s2, Inl e) \<Rightarrow> (s2, Inl e)
              | (s2, Inr None) \<Rightarrow> respond s2 (errorBody ''failed to issue confirmation code'') 500
              | (s2, Inr (Some (code, receipt))) \<Rightarrow>
                  respond s2 (userAnswer ''created'' (Some code) (Some receipt) quota []) 200))"

definition userParticipate ::
  "world \<Rightarrow> draws \<Rightarrow> storage \<Rightarrow> int \<Rightarrow> Request \<Rightarrow> js \<Rightarrow> OnchainProofFields \<Rightarrow> UserClaim \<Rightarrow> outcome" where
  "userParticipate w d s nowMs rq body proofFields c =
     (let (s1, pending) = settlePending s (uc_eventId c) (uc_userId c) (\<lambda>code.
            hasConfirmedUserOnchainClaimForCode s (uc_eventId c) code (uc_userId c))
      in if hasAnyOnchainProofField proofFields
         then userReport w s1 nowMs c proofFields (normalizeStringField (jget body ''confirmationCode''))
         else
           let quota = userQuota s1 c nowMs
           in case pending of
                Some p \<Rightarrow> respond s1 (userAlready s1 c quota (Some (pc_code p))) 200
              | None \<Rightarrow>
                  (if \<not> q_canClaimNow quota
                   then respond s1 (userAlready s1 c quota
                          (filled (Option.bind (getClaimRecord doStorageAdapter s1 (uc_eventId c) (uc_userId c)) (\<lambda>k. k)))) 200
                   else userIssue w d s1 nowMs rq body c quota))"

definition handleUserClaim ::
  "world \<Rightarrow> draws \<Rightarrow> signer_cache \<Rightarrow> storage \<Rightarrow> int \<Rightarrow> string \<Rightarrow> Request \<Rightarrow> signer_cache \<times> outcome" where
  "handleUserClaim w d cache s nowMs segment rq =
     (case authenticateUser (w_hash w) s ''missing params'' rq of
        Inl r \<Rightarrow> (cache, s, Inr r)
      | Inr (body, userId, userRaw) \<Rightarrow>
          (let eventId = js_trim segment in
           case getEvent doStorageAdapter s eventId of
             None \<Rightarrow> (cache, respond s (errorBody ''event not found'') 404)
           | Some event \<Rightarrow>
               (if eventClosed event then (cache, respond s (errorBody ''event not available'') 400)
                else let proofFields = getOnchainProofFields body in
                  case onchainProofProblem w cache nowMs event proofFields of
                    (cache', Some problem) \<Rightarrow> (cache', respond s (fst (userProblem problem)) (snd (userProblem problem)))
                  | (cache', None) \<Rightarrow>
                      (cache', userParticipate w d s nowMs rq body proofFields
                         \<lparr>uc_eventId = eventId, uc_event = event, uc_userId = userId,
                          uc_displayName = normalizeStringField (jget userRaw ''displayName'')\<rparr>))))"

end
