(* ===== verification/Participation_Spec.thy ===== *)
theory Participation_Spec
  imports Claim_Handlers Claim_Spec Forgery_Spec Form_Spec Moderation_Spec
begin

text \<open>
  What the endpoints of the participants promise. Both claim handlers have the same course after their checks; it is
  the locale \<open>claim_flow\<close>, interpreted for wallets and for registered users. A created claim rests on the PIN, an open
  event, a free quota and a fresh code, and its receipt verifies; a pending claim is repeated without any change; a
  registered user is recognised; and a failing audit log leaves a claim without entry and receipt behind.
\<close>

section \<open>The common course\<close>

locale claim_flow =
  fixes eventId subject :: string
    and participate :: "storage \<Rightarrow> outcome"
    and confirmed :: "storage \<Rightarrow> string \<Rightarrow> bool"
    and withProof :: bool
    and report :: "storage \<Rightarrow> outcome"
    and canClaim :: "storage \<Rightarrow> bool"
    and already :: "storage \<Rightarrow> string option \<Rightarrow> js"
    and issue :: "storage \<Rightarrow> outcome"
  assumes course: "participate s =
     (let (s1, pending) = settlePending s eventId subject (confirmed s) in
      if withProof then report s1
      else case pending of
             Some p \<Rightarrow> respond s1 (already s1 (Some (pc_code p))) 200
           | None \<Rightarrow>
               (if \<not> canClaim s1
                then respond s1 (already s1 (filled (Option.bind (getClaimRecord doStorageAdapter s1 eventId subject) (\<lambda>k. k)))) 200
                else issue s1))"
begin

lemma pending_repeats:
  assumes "\<not> withProof" "getPendingClaim doStorageAdapter s eventId subject = Some p" "\<not> confirmed s (pc_code p)"
  shows "participate s = respond s (already s (Some (pc_code p))) 200"
  using assms by (simp add: course settlePending_def)

lemma not_already_issued:
  assumes "\<not> withProof" "participate s = (s', Inr r)" "\<forall>t c. rs_body r \<noteq> already t c"
  obtains s1 where "settlePending s eventId subject (confirmed s) = (s1, None)" "canClaim s1" "issue s1 = (s', Inr r)"
proof -
  obtain s1 pending where sp: "settlePending s eventId subject (confirmed s) = (s1, pending)" by fastforce
  have "pending = None"
  proof (cases pending)
    case (Some p)
    then have "rs_body r = already s1 (Some (pc_code p))" using assms(1,2) sp by (auto simp: course respond_def)
    then show ?thesis using assms(3) by blast
  qed
  moreover have "canClaim s1"
  proof (rule ccontr)
    assume "\<not> canClaim s1"
    then have "\<exists>k. rs_body r = already s1 k" using assms(1,2) sp \<open>pending = None\<close> by (auto simp: course respond_def)
    then show False using assms(3) by blast
  qed
  ultimately show thesis using that assms sp by (simp add: course)
qed

end

interpretation wallet_flow: claim_flow "wc_eventId c" "wc_subject c" "\<lambda>s. walletParticipate w d s nowMs rq body proofFields c"
  "\<lambda>s code. hasConfirmedWalletOnchainClaimForCode s (wc_eventId c) code (wc_walletAddress c) (wc_joinToken c)"
  "hasAnyOnchainProofField proofFields" "\<lambda>s. walletReport w s nowMs c proofFields (normalizeStringField (jget body ''confirmationCode''))"
  "\<lambda>s. q_canClaimNow (walletQuota s c nowMs)" "\<lambda>s. walletAlready s c (walletQuota s c nowMs)"
  "\<lambda>s. walletIssue w d s nowMs rq body c (walletQuota s c nowMs)" for w d nowMs rq body proofFields c
  by unfold_locales (simp only: walletParticipate_def Let_def)

interpretation user_flow: claim_flow "uc_eventId c" "uc_userId c" "\<lambda>s. userParticipate w d s nowMs rq body proofFields c"
  "\<lambda>s code. hasConfirmedUserOnchainClaimForCode s (uc_eventId c) code (uc_userId c)"
  "hasAnyOnchainProofField proofFields" "\<lambda>s. userReport w s nowMs c proofFields (normalizeStringField (jget body ''confirmationCode''))"
  "\<lambda>s. q_canClaimNow (userQuota s c nowMs)" "\<lambda>s. userAlready s c (userQuota s c nowMs)"
  "\<lambda>s. userIssue w d s nowMs rq body c (userQuota s c nowMs)" for w d nowMs rq body proofFields c
  by unfold_locales (simp only: userParticipate_def Let_def)

section \<open>Settling and issuing\<close>

lemma settle_get: "settlePending s e sub f = (s1, p) \<Longrightarrow> k \<noteq> claimKey e sub \<Longrightarrow> sto_get s1 k = sto_get s k"
  by (auto simp: settlePending_def resolvePendingClaim_def putSerialized_def Let_def split: option.splits if_splits)

lemma resolve_put: "resolvePendingClaim doStorageAdapter s e sub c = s \<or> (\<exists>v. resolvePendingClaim doStorageAdapter s e sub c = sto_put s (claimKey e sub) v)"
  by (auto simp: resolvePendingClaim_def putSerialized_def Let_def split: option.splits)

lemma rows_claim_put: "newestAuditRows (sto_put s (claimKey e sub) v) = newestAuditRows s"
proof -
  have "\<not> prefix AUDIT_HISTORY_PREFIX (claimKey e sub)" by (simp add: AUDIT_HISTORY_PREFIX_def claimKey_def CLAIM_PREFIX_def claimPrefix_def)
  then show ?thesis by (simp add: newestAuditRows_def sto_list_rev_def sto_list_put_other)
qed

lemma quota_settled:
  assumes "settlePending s e sub f = (s1, p)"
  shows "getUserOnchainClaimQuotaStatus s1 ev evt u t = getUserOnchainClaimQuotaStatus s ev evt u t"
proof -
  have "newestAuditRows s1 = newestAuditRows s"
  proof -
    have "s1 = s \<or> (\<exists>c. s1 = resolvePendingClaim doStorageAdapter s e sub c)"
      using assms by (auto simp: settlePending_def split: option.splits if_splits)
    then show ?thesis using resolve_put [of s e sub] rows_claim_put [of s e sub] by metis
  qed
  then show ?thesis
    by (simp add: getUserOnchainClaimQuotaStatus_def userOnchainClaims_def collectConfirmedOnchainClaims_def)
qed

lemma settle_ok:
  assumes "settlePending s e sub f = (s1, None)" "sto_ok s" "claim_ok (sto_get s (claimKey e sub))"
  shows "sto_ok s1" "claim_ok (sto_get s1 (claimKey e sub))" "\<forall>p. getPendingClaim doStorageAdapter s e sub = Some p \<longrightarrow> f (pc_code p)"
proof -
  have "wf_state (parseClaimState (sto_get s (claimKey e sub)))" using assms(3) by (simp add: claim_ok_def)
  then show "claim_ok (sto_get s1 (claimKey e sub))"
    using assms ds.parse_resolvePendingClaim [of s e sub _ "claimKey e sub"]
    by (auto simp: settlePending_def claim_ok_def wf_state_def wf_pending_def Let_def split: option.splits if_splits)
qed (use assms ds.ok_resolvePendingClaim in \<open>auto simp: settlePending_def split: option.splits if_splits\<close>)

lemma enforce_same: "fp_action p \<noteq> Act_wallet_claim \<Longrightarrow> fst (enforceCostOfForgeryRisk H env fetch rnd s t rq p) = s"
  by (simp add: enforceCostOfForgeryRisk_def Let_def split: sum.splits)

lemma claim_keys:
  "claimKey e u \<noteq> confirmationCodeIndexKey c" "confirmationCodeIndexKey c \<noteq> claimKey e u" "\<not> prefix ''audit'' (claimKey e u)"
  "\<not> prefix ''audit'' (confirmationCodeIndexKey c)" "claimKey e u \<noteq> ticketReceiptByCodeKey e' c" "claimKey e u \<noteq> ticketReceiptBySubjectKey e' u'"
  "confirmationCodeIndexKey c \<noteq> ticketReceiptByCodeKey e' c'" "confirmationCodeIndexKey c \<noteq> ticketReceiptBySubjectKey e' u'"
  by (simp_all add: key_defs prefix_defs claimKey_def CLAIM_PREFIX_def claimPrefix_def)


lemma receipt_not_audit:
  "auditEntryByHashKey h \<noteq> ticketReceiptByCodeKey e c" "auditEntryByHashKey h \<noteq> ticketReceiptBySubjectKey e u"
  "auditEntryByHashKey h \<noteq> confirmationCodeIndexKey c"
  by (simp_all add: key_defs prefix_defs)

lemma receipt_key_other: "\<not> prefix ''ticket_receipt'' (claimKey e u)" "\<not> prefix ''ticket_receipt'' (confirmationCodeIndexKey c)"
  by (simp_all add: key_defs prefix_defs claimKey_def CLAIM_PREFIX_def claimPrefix_def)

lemma store_receipt_get:
  "k \<noteq> ticketReceiptByCodeKey e (pr_confirmationCode r) \<Longrightarrow> k \<noteq> ticketReceiptBySubjectKey e sub
     \<Longrightarrow> k \<noteq> confirmationCodeIndexKey (js_trim (pr_confirmationCode r))
     \<Longrightarrow> sto_get (storeParticipationTicketReceipt s t e sub r) k = sto_get s k"
  by (simp add: storeParticipationTicketReceipt_def ensureConfirmationCodeIndexed_def Let_def)

lemma store_receipt_index:
  "sto_get s (confirmationCodeIndexKey (js_trim (pr_confirmationCode r))) \<noteq> JUndef
     \<Longrightarrow> sto_get (storeParticipationTicketReceipt s t e sub r) (confirmationCodeIndexKey c) = sto_get s (confirmationCodeIndexKey c)"
  by (simp add: storeParticipationTicketReceipt_def ensureConfirmationCodeIndexed_def claim_keys Let_def)

text \<open>
  The stages of an issued claim: \<open>s3\<close> holds the claim and the code, before the audit entry is appended.
\<close>

lemma issue_stages:
  assumes "reserveUniqueConfirmationCode s t (dr_codes d) e sub = Inr (s1, code)" "sto_ok s" "claim_ok (sto_get s (claimKey e sub))"
    and "0 < t" "\<forall>i. dr_codes d i \<noteq> []"
  defines "s3 \<equiv> ensureConfirmationCodeIndexed (addClaim doStorageAdapter s1 e sub (Some code) t) t e sub code"
  shows "getPendingClaim doStorageAdapter s3 e sub = Some \<lparr>pc_at = t, pc_code = code\<rparr>"
    and "confirmationCodeBelongsToSubject s3 e sub code" "js_trim code = code" "code \<noteq> []"
    and "sto_get s (confirmationCodeIndexKey code) = JUndef" "sto_get s3 (confirmationCodeIndexKey code) \<noteq> JUndef"
    and "\<forall>k. k \<noteq> claimKey e sub \<longrightarrow> k \<noteq> confirmationCodeIndexKey code \<longrightarrow> sto_get s3 k = sto_get s k"
proof -
  have es: "js_trim e \<noteq> []" "js_trim sub \<noteq> []" using assms(1) by (auto simp: reserveUniqueConfirmationCode_def Let_def split: if_splits)
  then have r: "reserveAttempts s (legacyCodes s) (js_trim e) (js_trim sub) t (map (dr_codes d) [0..<CONFIRMATION_CODE_MAX_ATTEMPTS]) = Inr (s1, code)"
    using assms(1) by (simp add: reserveUniqueConfirmationCode_def)
  note a = reserveAttempts_Inr [OF r]
  obtain i where i: "code = genConfirmationCode (dr_codes d i)" using a by auto
  show c: "js_trim code = code" "code \<noteq> []" using genCode_trimmed i assms(5) by (auto simp: genConfirmationCode_def)
  have s1: "s1 = sto_put s (confirmationCodeIndexKey code) (codeRecord code (js_trim e) (js_trim sub) t)" using a by auto
  have ok1: "sto_ok s1" unfolding s1 by (rule sto_ok_put [OF assms(2)]) (simp add: codeRecord_def codeRecordToJs_def)
  have co1: "claim_ok (st_get doStorageAdapter s1 (claimKey e sub))" using assms(3) by (simp add: s1 claim_keys)
  obtain v where v: "addClaim doStorageAdapter s1 e sub (Some code) t = sto_put s1 (claimKey e sub) v"
    using ds.addClaim_put [OF ok1 co1 assms(4), of "Some code"] by auto
  have "sto_get (sto_put s1 (claimKey e sub) v) (confirmationCodeIndexKey code) \<noteq> JUndef"
    by (simp add: s1 claim_keys codeRecord_def codeRecordToJs_def)
  then have s3: "s3 = sto_put s1 (claimKey e sub) v"
    using c es by (simp add: s3_def ensureConfirmationCodeIndexed_def v)
  show "getPendingClaim doStorageAdapter s3 e sub = Some \<lparr>pc_at = t, pc_code = code\<rparr>"
    using ds.parse_addClaim [OF ok1 co1 assms(4), of "Some code" "claimKey e sub"] c
    by (simp add: getPendingClaim_def s3 flip: v) (simp add: pendingOf_def)
  show "confirmationCodeBelongsToSubject s3 e sub code"
    using c es by (simp add: confirmationCodeBelongsToSubject_def s3 s1 claim_keys parse_codeRecord)
  show "sto_get s (confirmationCodeIndexKey code) = JUndef" using a by auto
  show "sto_get s3 (confirmationCodeIndexKey code) \<noteq> JUndef" by (simp add: s3 s1 claim_keys codeRecord_def codeRecordToJs_def)
  show "\<forall>k. k \<noteq> claimKey e sub \<longrightarrow> k \<noteq> confirmationCodeIndexKey code \<longrightarrow> sto_get s3 k = sto_get s k" by (simp add: s3 s1)
qed


lemma claim_issued:
  assumes "issueClaim w d s t e sub ev actor data = (s', Inr (Some (code, r)))" "sto_ok s" "claim_ok (sto_get s (claimKey e sub))"
    and "0 < t" "\<forall>i. dr_codes d i \<noteq> []"
  obtains s3 s4 entry where "appendAuditLog (w_hash w) (w_env w) (w_services w) s3 t ev actor (data code) e = Inr (s4, entry)"
    "buildParticipationTicketReceipt (w_hash w) e sub code entry = Inr r" "s' = storeParticipationTicketReceipt s4 t e sub r"
    "getPendingClaim doStorageAdapter s' e sub = Some \<lparr>pc_at = t, pc_code = code\<rparr>"
    "confirmationCodeBelongsToSubject s' e sub code" "js_trim code = code" "code \<noteq> []" "pr_confirmationCode r = code"
    "sto_get s (confirmationCodeIndexKey code) = JUndef"
    "\<forall>k. k \<noteq> claimKey e sub \<longrightarrow> k \<noteq> confirmationCodeIndexKey code \<longrightarrow> sto_get s3 k = sto_get s k"
proof -
  obtain s1 c where rs: "reserveUniqueConfirmationCode s t (dr_codes d) e sub = Inr (s1, c)"
    using assms(1) by (cases "reserveUniqueConfirmationCode s t (dr_codes d) e sub") (auto simp: issueClaim_def)
  define s3 where "s3 = ensureConfirmationCodeIndexed (addClaim doStorageAdapter s1 e sub (Some c) t) t e sub c"
  obtain s4 entry where a: "appendAuditLog (w_hash w) (w_env w) (w_services w) s3 t ev actor (data c) e = Inr (s4, entry)"
    using assms(1) rs by (cases "appendAuditLog (w_hash w) (w_env w) (w_services w) s3 t ev actor (data c) e") (auto simp: issueClaim_def s3_def)
  obtain b: "buildParticipationTicketReceipt (w_hash w) e sub code entry = Inr r" and c: "c = code"
    and s': "s' = storeParticipationTicketReceipt s4 t e sub r"
    using assms(1) rs a by (auto simp: issueClaim_def Let_def s3_def [symmetric] split: sum.splits)
  note st = issue_stages [OF rs assms(2-5), folded s3_def, unfolded c]
  have rc: "pr_confirmationCode r = code" using b by (auto simp: buildParticipationTicketReceipt_def Let_def split: option.splits)
  have k4: "sto_get s4 k = sto_get s3 k" if "\<not> prefix ''audit'' k" for k using append_get_other [OF a that] .
  have "sto_get s' (claimKey e sub) = sto_get s3 (claimKey e sub)"
    using store_receipt_get [of "claimKey e sub"] by (simp add: s' claim_keys k4)
  then have p: "getPendingClaim doStorageAdapter s' e sub = Some \<lparr>pc_at = t, pc_code = code\<rparr>" using st(1) by (simp add: getPendingClaim_def)
  have "sto_get s' (confirmationCodeIndexKey x) = sto_get s3 (confirmationCodeIndexKey x)" for x
    using store_receipt_index [of s4 r t e sub x] st(3,6) by (simp add: s' rc claim_keys k4)
  then have "confirmationCodeBelongsToSubject s' e sub code" using st(2) by (simp add: confirmationCodeBelongsToSubject_def Let_def split: if_splits)
  then show thesis using that [OF a [unfolded c] b s' p _ st(3,4) rc st(5,7)] by blast
qed

section \<open>Who gets through\<close>

lemma authenticated:
  assumes "authenticateUser H s m rq = Inr (body, userId, userRaw)"
  shows "rq_json rq = Inr body" "userId = normalizeUserId (jget body ''userId'')" "userId \<noteq> []" "ensureUserNotModerated s userId = None"
    "userRaw = sto_get s (userKey userId)" "\<exists>pin. jget body ''pin'' = JStr pin \<and> pin \<noteq> [] \<and> jget userRaw ''pinHash'' = JStr (H pin)"
  using assms by (auto simp: authenticateUser_def Let_def split: sum.splits js.splits option.splits if_splits)

lemma answer_status:
  "jget (userAnswer st c r q x) ''status'' = JStr st" "jget (rs_body (costOfForgeryErrorResponse e)) ''status'' = JUndef"
  by (auto simp: userAnswer_def costOfForgeryErrorResponse_def unlessEmpty_def split: option.splits)


text \<open>The parameters of the check and the data of the audit entry of a new claim.\<close>

definition userForgery :: "UserClaim \<Rightarrow> Request \<Rightarrow> js \<Rightarrow> ForgeryParams" where
  "userForgery c rq body = \<lparr>fp_action = Act_user_claim, fp_event = uc_event c, fp_eventId = Some (uc_eventId c),
     fp_userId = Some (uc_userId c), fp_subject = Some (uc_userId c), fp_walletAddress = None,
     fp_token = or_null (extractCostOfForgeryToken rq body)\<rparr>"

definition userEntry :: "UserClaim \<Rightarrow> js \<Rightarrow> string \<Rightarrow> js" where
  "userEntry c body code = claimAuditData (uc_eventId c) ''created'' code
     (buildClaimTransferPayload (uc_eventId c) (uc_event c) (userRecipient c (normalizeStringField (jget body ''walletAddress''))) JNull JNull)
     ([(''userId'', uc_userId c)] @ piiEntry ''displayName'' (uc_displayName c)
       @ piiEntry ''walletAddress'' (normalizeStringField (jget body ''walletAddress'')))"

lemma userEntry_code: "normalizeStringField (jget (userEntry c body x) ''confirmationCode'') = normalizeStringField (JStr x)"
  by (simp add: userEntry_def claimAuditData_def)

definition userOf :: "string \<Rightarrow> js \<Rightarrow> string \<Rightarrow> js \<Rightarrow> UserClaim" where
  "userOf segment event userId userRaw = \<lparr>uc_eventId = js_trim segment, uc_event = event, uc_userId = userId,
     uc_displayName = normalizeStringField (jget userRaw ''displayName'')\<rparr>"

lemma userOf_simps [simp]: "uc_eventId (userOf g ev u raw) = js_trim g" "uc_event (userOf g ev u raw) = ev" "uc_userId (userOf g ev u raw) = u"
  by (simp_all add: userOf_def)

lemma enforce_user:
  "enforceCostOfForgeryRisk H env fetch rnd s t rq (userForgery c rq body) = (s, snd (enforceCostOfForgeryRisk H env fetch rnd s t rq (userForgery c rq body)))"
  using enforce_same [of "userForgery c rq body" H env fetch rnd s t rq] by (simp add: userForgery_def prod_eq_iff)

lemma userIssue_eq:
  "userIssue w d s t rq body c quota =
     (case snd (enforceCostOfForgeryRisk (w_hash w) (w_env w) (w_risk w) (dr_id d) s t rq (userForgery c rq body)) of
        Some problem \<Rightarrow> (s, Inr (costOfForgeryErrorResponse problem))
      | None \<Rightarrow>
          (case issueClaim w d s t (uc_eventId c) (uc_userId c) ''USER_CLAIM'' (auditActor ''user'' (uc_userId c)) (userEntry c body) of
             (s2, Inl e) \<Rightarrow> (s2, Inl e)
           | (s2, Inr None) \<Rightarrow> respond s2 (errorBody ''failed to issue confirmation code'') 500
           | (s2, Inr (Some (code, receipt))) \<Rightarrow> respond s2 (userAnswer ''created'' (Some code) (Some receipt) quota []) 200))"
  unfolding userIssue_def Let_def userForgery_def [symmetric]
  by (subst enforce_user) (simp add: userEntry_def [abs_def] split: option.splits)

text \<open>The way of a request to the common course.\<close>

lemma user_reaches:
  assumes "authenticateUser (w_hash w) s ''missing params'' rq = Inr (body, userId, userRaw)"
    and "getEvent doStorageAdapter s (js_trim segment) = Some event" "\<not> eventClosed event"
    and "onchainProofProblem w cache t event (getOnchainProofFields body) = (cache', None)"
  shows "handleUserClaim w d cache s t segment rq
           = (cache', userParticipate w d s t rq body (getOnchainProofFields body) (userOf segment event userId userRaw))"
  using assms by (simp add: handleUserClaim_def userOf_def Let_def)

lemma created_reached:
  assumes "handleUserClaim w d cache s t segment rq = (cache', s', Inr r)" "jget (rs_body r) ''status'' = JStr ''created''"
  obtains body userId userRaw event where
    "authenticateUser (w_hash w) s ''missing params'' rq = Inr (body, userId, userRaw)"
    "getEvent doStorageAdapter s (js_trim segment) = Some event" "\<not> eventClosed event"
    "onchainProofProblem w cache t event (getOnchainProofFields body) = (cache', None)"
    "userParticipate w d s t rq body (getOnchainProofFields body) (userOf segment event userId userRaw) = (s', Inr r)"
proof -
  obtain body userId userRaw where a: "authenticateUser (w_hash w) s ''missing params'' rq = Inr (body, userId, userRaw)"
  proof (cases "authenticateUser (w_hash w) s ''missing params'' rq")
    case (Inl x)
    then have "r = x" using assms(1) by (simp add: handleUserClaim_def)
    moreover have "jget (rs_body x) ''status'' = JUndef"
      using Inl by (auto simp: authenticateUser_def ensureUserNotModerated_def errorBody_def codedMessage_def Let_def
          split: sum.splits js.splits option.splits if_splits)
    ultimately show ?thesis using assms(2) by simp
  qed auto
  let ?e = "js_trim segment" and ?p = "getOnchainProofFields body"
  obtain event where ev: "getEvent doStorageAdapter s ?e = Some event"
    using assms a by (cases "getEvent doStorageAdapter s ?e") (auto simp: handleUserClaim_def respond_def errorBody_def)
  have open': "\<not> eventClosed event"
    using assms a ev by (auto simp: handleUserClaim_def respond_def errorBody_def Let_def split: if_splits)
  obtain c2 where pr: "onchainProofProblem w cache t event ?p = (c2, None)"
  proof (cases "onchainProofProblem w cache t event ?p")
    case (Pair c2 problem)
    have "jget (fst (userProblem x)) ''status'' = JUndef" for x by (cases x) (simp_all add: userProblem_def errorBody_def)
    then show ?thesis using that Pair assms a ev open' by (cases problem) (auto simp: handleUserClaim_def respond_def Let_def)
  qed
  show thesis using that [OF a ev open'] user_reaches [OF a ev open' pr, of d] assms(1) pr by simp
qed

lemma created_issued:
  assumes "userParticipate w d s t rq body proofFields c = (s', Inr r)" "jget (rs_body r) ''status'' = JStr ''created''"
  obtains s1 code receipt where "\<not> hasAnyOnchainProofField proofFields"
    "settlePending s (uc_eventId c) (uc_userId c) (\<lambda>x. hasConfirmedUserOnchainClaimForCode s (uc_eventId c) x (uc_userId c)) = (s1, None)"
    "q_canClaimNow (userQuota s1 c t)"
    "snd (enforceCostOfForgeryRisk (w_hash w) (w_env w) (w_risk w) (dr_id d) s1 t rq (userForgery c rq body)) = None"
    "issueClaim w d s1 t (uc_eventId c) (uc_userId c) ''USER_CLAIM'' (auditActor ''user'' (uc_userId c)) (userEntry c body)
       = (s', Inr (Some (code, receipt)))"
    "rs_body r = userAnswer ''created'' (Some code) (Some receipt) (userQuota s1 c t) []"
proof -
  have np: "\<not> hasAnyOnchainProofField proofFields"
  proof
    assume pf: "hasAnyOnchainProofField proofFields"
    obtain s1 where "userReport w s1 t c proofFields (normalizeStringField (jget body ''confirmationCode'')) = (s', Inr r)"
      using assms(1) pf by (auto simp: userParticipate_def split: prod.splits)
    then show False
      using assms(2) by (auto simp: userReport_def respond_def codedError_def answer_status Let_def split: option.splits if_splits prod.splits sum.splits)
  qed
  have no: "\<forall>u k. rs_body r \<noteq> userAlready u c (userQuota u c t) k"
    using assms(2) by (auto simp: userAlready_def Let_def answer_status)
  obtain s1 where s1: "settlePending s (uc_eventId c) (uc_userId c) (\<lambda>x. hasConfirmedUserOnchainClaimForCode s (uc_eventId c) x (uc_userId c)) = (s1, None)"
      "q_canClaimNow (userQuota s1 c t)" "userIssue w d s1 t rq body c (userQuota s1 c t) = (s', Inr r)"
    using user_flow.not_already_issued [OF np assms(1) no] by auto
  have en: "snd (enforceCostOfForgeryRisk (w_hash w) (w_env w) (w_risk w) (dr_id d) s1 t rq (userForgery c rq body)) = None"
    using s1(3) assms(2) by (auto simp: userIssue_eq answer_status split: option.splits)
  obtain code receipt where isc: "issueClaim w d s1 t (uc_eventId c) (uc_userId c) ''USER_CLAIM'' (auditActor ''user'' (uc_userId c)) (userEntry c body)
       = (s', Inr (Some (code, receipt)))" "rs_body r = userAnswer ''created'' (Some code) (Some receipt) (userQuota s1 c t) []"
    using s1(3) en assms(2) by (auto simp: userIssue_eq respond_def errorBody_def split: prod.splits sum.splits option.splits)
  show thesis by (rule that [OF np s1(1,2) en isc])
qed

lemma walletAddress_same:
  "(case normalizeStringField (JStr (of_walletAddress (getOnchainProofFields body))) of
      Some a \<Rightarrow> Some a | None \<Rightarrow> normalizeStringField (jget body ''walletAddress'')) = normalizeStringField (jget body ''walletAddress'')"
  by (cases "jget body ''walletAddress''") (auto simp: getOnchainProofFields_def strField_def normalizeStringField_def split: if_splits)

section \<open>Created claims\<close>

definition claim_ready :: "storage \<Rightarrow> string \<Rightarrow> draws \<Rightarrow> int \<Rightarrow> bool" where
  "claim_ready s segment d t \<longleftrightarrow> sto_ok s \<and> (\<forall>u. claim_ok (sto_get s (claimKey (js_trim segment) u))) \<and> 0 < t \<and> (\<forall>i. dr_codes d i \<noteq> [])"

text \<open>
  C27. A claim of a registered user is created only for the right PIN of an account that is not moderated, on an event
  that exists and is open, when no claim is pending that is not confirmed on chain and the quota is not used up. The
  code was free, belongs to the user and the event from then on, and is the pending claim.
\<close>

theorem user_claim_created:
  assumes "handleUserClaim w d cache s t segment rq = (cache', s', Inr r)" "jget (rs_body r) ''status'' = JStr ''created''"
    and "claim_ready s segment d t"
  shows "\<exists>body userId pin event code. rq_json rq = Inr body \<and> userId = normalizeUserId (jget body ''userId'') \<and> jget body ''pin'' = JStr pin
     \<and> jget (sto_get s (userKey userId)) ''pinHash'' = JStr (w_hash w pin) \<and> ensureUserNotModerated s userId = None
     \<and> getEvent doStorageAdapter s (js_trim segment) = Some event \<and> \<not> eventClosed event
     \<and> (\<forall>p. getPendingClaim doStorageAdapter s (js_trim segment) userId = Some p
           \<longrightarrow> hasConfirmedUserOnchainClaimForCode s (js_trim segment) (pc_code p) userId)
     \<and> q_canClaimNow (getUserOnchainClaimQuotaStatus s (js_trim segment) event userId t)
     \<and> sto_get s (confirmationCodeIndexKey code) = JUndef \<and> confirmationCodeBelongsToSubject s' (js_trim segment) userId code
     \<and> getPendingClaim doStorageAdapter s' (js_trim segment) userId = Some \<lparr>pc_at = t, pc_code = code\<rparr>
     \<and> jget (rs_body r) ''confirmationCode'' = JStr code"
proof (rule created_reached [OF assms(1,2)])
  fix body userId userRaw event
  let ?e = "js_trim segment" and ?c = "userOf segment event userId userRaw"
  assume a: "authenticateUser (w_hash w) s ''missing params'' rq = Inr (body, userId, userRaw)"
    and ev: "getEvent doStorageAdapter s ?e = Some event" "\<not> eventClosed event"
    and up: "userParticipate w d s t rq body (getOnchainProofFields body) ?c = (s', Inr r)"
  show ?thesis
  proof (rule created_issued [OF up assms(2)])
    fix s1 code receipt
    assume se: "settlePending s (uc_eventId ?c) (uc_userId ?c) (\<lambda>x. hasConfirmedUserOnchainClaimForCode s (uc_eventId ?c) x (uc_userId ?c)) = (s1, None)"
      and qu: "q_canClaimNow (userQuota s1 ?c t)"
      and isc: "issueClaim w d s1 t (uc_eventId ?c) (uc_userId ?c) ''USER_CLAIM'' (auditActor ''user'' (uc_userId ?c)) (userEntry ?c body)
          = (s', Inr (Some (code, receipt)))"
      and rb: "rs_body r = userAnswer ''created'' (Some code) (Some receipt) (userQuota s1 ?c t) []"
    have pre: "sto_ok s" "claim_ok (sto_get s (claimKey ?e userId))" "0 < t" "\<forall>i. dr_codes d i \<noteq> []"
      using assms(3) by (auto simp: claim_ready_def)
    note se' = se [unfolded userOf_simps]
    note so = settle_ok [OF se' pre(1,2)]
    have same: "sto_get s1 k = sto_get s k" if "k \<noteq> claimKey ?e userId" for k using settle_get [OF se' that] .
    have q: "userQuota s1 ?c t = getUserOnchainClaimQuotaStatus s ?e event userId t"
      using quota_settled [OF se'] by (simp add: userQuota_def)
    show ?thesis
    proof (rule claim_issued [OF isc [unfolded userOf_simps] so(1,2) pre(3,4)])
      assume p: "getPendingClaim doStorageAdapter s' ?e userId = Some \<lparr>pc_at = t, pc_code = code\<rparr>"
        and cb: "confirmationCodeBelongsToSubject s' ?e userId code" "code \<noteq> []" "sto_get s1 (confirmationCodeIndexKey code) = JUndef"
      have cd: "jget (rs_body r) ''confirmationCode'' = JStr code" using cb(2) by (simp add: rb userAnswer_def unlessEmpty_def)
      have "sto_get s (confirmationCodeIndexKey code) = JUndef" using cb(3) same by (simp add: claim_keys)
      with authenticated [OF a] ev so(3) qu q p cb(1) cd show ?thesis by auto
    qed
  qed
qed

text \<open>
  The receipt in the answer to a created claim is genuine: in every later storage that keeps the index of the audit
  log, the verification finds no issue and names the event of the request and the code of the answer. The digest of the
  new audit entry must not be in the index already.
\<close>

theorem created_receipt_verifies:
  assumes "handleUserClaim w d cache s t segment rq = (cache', s', Inr r)" "jget (rs_body r) ''status'' = JStr ''created''"
    and "claim_ready s segment d t" "log_reach (w_hash w) (w_env w) s" "\<forall>x. hex_digest (w_hash w x)" "js_trim segment \<noteq> ''global''"
    and "sto_get s (auditEntryByHashKey (js_to_string (jget (jget (rs_body r) ''ticketReceipt'') ''receiptId''))) = JUndef"
    and "index_grows s' later"
  shows "\<exists>receipt v. jget (rs_body r) ''ticketReceipt'' = receiptToJs receipt
     \<and> verifyParticipationTicketReceipt (w_hash w) later t' receipt = Inr v \<and> rv_ok v \<and> rv_eventId v = js_trim segment
     \<and> JStr (rv_confirmationCode v) = jget (rs_body r) ''confirmationCode''"
proof (rule created_reached [OF assms(1,2)])
  fix body userId userRaw event
  let ?e = "js_trim segment" and ?c = "userOf segment event userId userRaw"
  assume up: "userParticipate w d s t rq body (getOnchainProofFields body) ?c = (s', Inr r)"
  show ?thesis
  proof (rule created_issued [OF up assms(2), unfolded userOf_simps])
    fix s1 code receipt
    assume se: "settlePending s ?e userId (\<lambda>x. hasConfirmedUserOnchainClaimForCode s ?e x userId) = (s1, None)"
      and isc: "issueClaim w d s1 t ?e userId ''USER_CLAIM'' (auditActor ''user'' userId) (userEntry ?c body) = (s', Inr (Some (code, receipt)))"
      and rb: "rs_body r = userAnswer ''created'' (Some code) (Some receipt) (userQuota s1 ?c t) []"
    have pre: "sto_ok s" "claim_ok (sto_get s (claimKey ?e userId))" "0 < t" "\<forall>i. dr_codes d i \<noteq> []"
      using assms(3) by (auto simp: claim_ready_def)
    note so = settle_ok [OF se pre(1,2)]
    show ?thesis
    proof (rule claim_issued [OF isc so(1,2) pre(3,4)])
      fix s3 s4 entry
      assume ap: "appendAuditLog (w_hash w) (w_env w) (w_services w) s3 t ''USER_CLAIM'' (auditActor ''user'' userId) (userEntry ?c body code) ?e = Inr (s4, entry)"
        and b: "buildParticipationTicketReceipt (w_hash w) ?e userId code entry = Inr receipt" and s': "s' = storeParticipationTicketReceipt s4 t ?e userId receipt"
        and c: "js_trim code = code" "code \<noteq> []" "confirmationCodeBelongsToSubject s' ?e userId code"
        and s3: "\<forall>k. k \<noteq> claimKey ?e userId \<longrightarrow> k \<noteq> confirmationCodeIndexKey code \<longrightarrow> sto_get s3 k = sto_get s1 k"
      have au: "sto_get s3 k = sto_get s k" if "prefix ''audit'' k" for k
        using s3 settle_get [OF se] claim_keys that by metis
      have "log_reach (w_hash w) (w_env w) s3"
        by (rule log_reach.other [OF assms(4)]) (simp_all add: index_grows_def au audit_keys_prefix)
      then have io: "index_ok s3" using log_reach_index assms(5) by blast
      have tr: "jget (rs_body r) ''ticketReceipt'' = receiptToJs receipt" "jget (rs_body r) ''confirmationCode'' = JStr code"
        using c(2) by (simp_all add: rb userAnswer_def unlessEmpty_def receiptField_def)
      have "pr_receiptId receipt = js_to_string (hashOf entry)"
        using b by (auto simp: buildParticipationTicketReceipt_def sfield_def hashOf_def Let_def split: option.splits)
      moreover have "jget (receiptToJs receipt) ''receiptId'' = JStr (pr_receiptId receipt)" by (simp add: receiptToJs_def receiptBase_def)
      ultimately have nw: "sto_get s3 (auditEntryByHashKey (js_to_string (hashOf entry))) = JUndef"
        using assms(7) by (simp add: tr au audit_keys_prefix)
      have gr: "index_grows s4 later"
      proof (rule index_grows_trans [OF _ assms(8)])
        show "index_grows s4 s'" using store_receipt_get [of "auditEntryByHashKey _"] by (simp add: index_grows_def s' receipt_not_audit)
      qed
      have ne: "?e \<noteq> []" using c(3) by (auto simp: confirmationCodeBelongsToSubject_def Let_def split: if_splits)
      have nc: "normalizeStringField (jget (userEntry ?c body code) ''confirmationCode'') = Some code"
        using c(1,2) normalize_text [of code] by (simp add: userEntry_code text_field_def)
      from issued_receipt [OF io assms(5,6) ne ap nw nc gr, of userId t'] b tr show ?thesis by auto
    qed
  qed
qed

section \<open>Repeated requests\<close>

text \<open>
  Claiming is idempotent while the claim is pending: if the pending claim of the participant is not confirmed on
  chain and the request brings no on-chain proof, the answer is the code that was issued, and the storage stays as it
  is. This holds for registered users and for wallets and join tokens, in every state and at every time.
\<close>

theorem pending_claim_repeats:
  "(authenticateUser (w_hash w) s ''missing params'' rq = Inr (body, userId, userRaw)
      \<and> getEvent doStorageAdapter s (js_trim segment) = Some event \<and> \<not> eventClosed event
      \<and> \<not> hasAnyOnchainProofField (getOnchainProofFields body)
      \<and> getPendingClaim doStorageAdapter s (js_trim segment) userId = Some p
      \<and> \<not> hasConfirmedUserOnchainClaimForCode s (js_trim segment) (pc_code p) userId
    \<longrightarrow> (\<exists>quota receipt onchain. handleUserClaim w d cache s t segment rq
          = (cache, respond s (userAnswer ''already'' (Some (pc_code p)) receipt quota onchain) 200)))
   \<and> (rq_json rq = Inr body \<and> strField body ''eventId'' \<noteq> [] \<and> getEvent doStorageAdapter s (strField body ''eventId'') = Some event
      \<and> \<not> eventClosed event \<and> \<not> hasAnyOnchainProofField (getOnchainProofFields body)
      \<and> normalizeSubject (normalizeStringField (jget body ''walletAddress'')) (normalizeStringField (jget body ''joinToken'')) = Some subject
      \<and> getPendingClaim doStorageAdapter s (strField body ''eventId'') subject = Some p
      \<and> \<not> hasConfirmedWalletOnchainClaimForCode s (strField body ''eventId'') (pc_code p)
            (normalizeStringField (jget body ''walletAddress'')) (normalizeStringField (jget body ''joinToken''))
    \<longrightarrow> (\<exists>quota receipt onchain. handleWalletClaim w d cache s t rq
          = (cache, respond s (walletAnswer event True (Some (pc_code p)) receipt quota onchain) 200)))" (is "?user \<and> ?wallet")
proof
  have np: "onchainProofProblem w cache t event (getOnchainProofFields body) = (cache, None)"
    if "\<not> hasAnyOnchainProofField (getOnchainProofFields body)" using that by (simp add: onchainProofProblem_def)
  show ?user
  proof
    assume h: "authenticateUser (w_hash w) s ''missing params'' rq = Inr (body, userId, userRaw)
      \<and> getEvent doStorageAdapter s (js_trim segment) = Some event \<and> \<not> eventClosed event
      \<and> \<not> hasAnyOnchainProofField (getOnchainProofFields body)
      \<and> getPendingClaim doStorageAdapter s (js_trim segment) userId = Some p
      \<and> \<not> hasConfirmedUserOnchainClaimForCode s (js_trim segment) (pc_code p) userId"
    let ?c = "userOf segment event userId userRaw"
    have "userParticipate w d s t rq body (getOnchainProofFields body) ?c = respond s (userAlready s ?c (userQuota s ?c t) (Some (pc_code p))) 200"
      using h by (intro user_flow.pending_repeats) simp_all
    then show "\<exists>quota receipt onchain. handleUserClaim w d cache s t segment rq
          = (cache, respond s (userAnswer ''already'' (Some (pc_code p)) receipt quota onchain) 200)"
      using user_reaches [of w s rq body userId userRaw segment event cache t cache d] h np by (auto simp: userAlready_def Let_def)
  qed
  show ?wallet
  proof
    assume h: "rq_json rq = Inr body \<and> strField body ''eventId'' \<noteq> [] \<and> getEvent doStorageAdapter s (strField body ''eventId'') = Some event
      \<and> \<not> eventClosed event \<and> \<not> hasAnyOnchainProofField (getOnchainProofFields body)
      \<and> normalizeSubject (normalizeStringField (jget body ''walletAddress'')) (normalizeStringField (jget body ''joinToken'')) = Some subject
      \<and> getPendingClaim doStorageAdapter s (strField body ''eventId'') subject = Some p
      \<and> \<not> hasConfirmedWalletOnchainClaimForCode s (strField body ''eventId'') (pc_code p)
            (normalizeStringField (jget body ''walletAddress'')) (normalizeStringField (jget body ''joinToken''))"
    let ?c = "\<lparr>wc_eventId = strField body ''eventId'', wc_event = event, wc_subject = subject,
       wc_walletAddress = normalizeStringField (jget body ''walletAddress''), wc_joinToken = normalizeStringField (jget body ''joinToken'')\<rparr>"
    have "walletParticipate w d s t rq body (getOnchainProofFields body) ?c = respond s (walletAlready s ?c (walletQuota s ?c t) (Some (pc_code p))) 200"
      using h by (intro wallet_flow.pending_repeats) simp_all
    then show "\<exists>quota receipt onchain. handleWalletClaim w d cache s t rq
          = (cache, respond s (walletAnswer event True (Some (pc_code p)) receipt quota onchain) 200)"
      using h np walletAddress_same [of body] by (auto simp: handleWalletClaim_def walletAlready_def Let_def)
  qed
qed

section \<open>Registration\<close>

lemma enforce_status: "snd (enforceCostOfForgeryRisk H env fetch rnd s t rq p) = Some e \<Longrightarrow> fe_status e \<noteq> 200"
  by (auto simp: enforceCostOfForgeryRisk_def Let_def forgeryError_def blockedError_def split: if_splits option.splits sum.splits)

lemma moderated_status: "ensureUserNotModerated s u = Some r \<Longrightarrow> rs_status r \<noteq> 200"
  by (auto simp: ensureUserNotModerated_def Let_def split: if_splits option.splits)

lemma normalized_trim: "js_trim (normalizeUserId x) = normalizeUserId x"
  by (cases x) (simp_all add: normalizeUserId_def trim_lower)

lemma registered:
  assumes "handleUserRegister w d s t rq = (s', Inr r)" "rs_status r = 200"
  obtains body userId pin name s2 res where "rq_json rq = Inr body" "userId = normalizeUserId (jget body ''userId'')" "jget body ''pin'' = JStr pin"
    "PIN_RE pin" "USER_ID_RE userId" "ensureUserNotModerated s userId = None"
    "registerUserWithUniqueId (w_hash w) s t userId name (w_hash w pin) = Inr (s2, Some res)"
    "\<forall>k. \<not> prefix ''audit'' k \<longrightarrow> sto_get s' k = sto_get s2 k" "rs_body r = JObj [(''userId'', JStr userId)]"
proof -
  obtain body where b: "rq_json rq = Inr body" using assms by (cases "rq_json rq") (auto simp: handleUserRegister_def respond_def)
  define userId where "userId = normalizeUserId (jget body ''userId'')"
  define pin where "pin = (case jget body ''pin'' of JStr p \<Rightarrow> p | _ \<Rightarrow> [])"
  define name where "name = take 32 (strField body ''displayName'')"
  note h = assms(1) [unfolded handleUserRegister_def b sum.case Let_def, folded userId_def pin_def name_def]
  have v: "validateUserIdForRegistration userId = None" using h assms(2) by (cases "validateUserIdForRegistration userId") (auto simp: respond_def)
  have m: "ensureUserNotModerated s userId = None"
    using h v assms(2) moderated_status by (cases "ensureUserNotModerated s userId") auto
  have np: "name \<noteq> []" "PIN_RE pin" using h v m assms(2) by (auto simp: respond_def split: if_splits)
  let ?f = "\<lparr>fp_action = Act_user_register, fp_event = JUndef, fp_eventId = None, fp_userId = Some userId,
      fp_subject = Some userId, fp_walletAddress = None, fp_token = or_null (extractCostOfForgeryToken rq body)\<rparr>"
  have en: "enforceCostOfForgeryRisk (w_hash w) (w_env w) (w_risk w) (dr_id d) s t rq ?f = (s, None)"
  proof (cases "enforceCostOfForgeryRisk (w_hash w) (w_env w) (w_risk w) (dr_id d) s t rq ?f")
    case (Pair s1 e)
    have "s1 = s" using enforce_same [of ?f "w_hash w" "w_env w" "w_risk w" "dr_id d" s t rq] Pair by simp
    moreover have "e = None"
      using h v m np Pair assms(2) enforce_status [of "w_hash w" "w_env w" "w_risk w" "dr_id d" s t rq ?f]
      by (cases e) (auto simp: costOfForgeryErrorResponse_def)
    ultimately show ?thesis using Pair by simp
  qed
  obtain s2 res where g: "registerUserWithUniqueId (w_hash w) s t userId name (w_hash w pin) = Inr (s2, Some res)"
    using h v m np en assms(2) by (auto simp: respond_def split: sum.splits prod.splits option.splits)
  obtain s3 e where a: "appendAuditLog (w_hash w) (w_env w) (w_services w) s2 t ''USER_REGISTER'' (auditActor ''user'' userId)
       (JObj [(''displayName'', JStr name), (''userIdHash'', JStr (rr_userIdHash res)),
          (''userIdChainHash'', JStr (rr_chainHash res)), (''userIdPrevChainHash'', JStr (rr_prevChainHash res))]) ''system'' = Inr (s3, e)"
      "s' = s3" "rs_body r = JObj [(''userId'', JStr userId)]"
    using h v m np en g by (auto simp: appendThen_def respond_def split: sum.splits)
  have j: "jget body ''pin'' = JStr pin" using np(2) by (cases "jget body ''pin''") (auto simp: pin_def PIN_RE_def)
  have u: "USER_ID_RE userId" using v by (auto simp: validateUserIdForRegistration_def split: if_splits)
  show thesis using that [OF b userId_def j np(2) u m g] append_get_other [OF a(1)] a(2,3) by blast
qed

text \<open>
  Registration and login fit together: after a registration that is answered with 200 the account was free before,
  no other account is touched, and from then on exactly the registered PIN logs in (PINs with the same digest apart);
  any other PIN is refused with \<open>invalid_pin\<close>.
\<close>

theorem registered_user_authenticates:
  assumes "handleUserRegister w d s t rq = (s', Inr r)" "rs_status r = 200"
  shows "\<exists>body userId pin. rq_json rq = Inr body \<and> userId = normalizeUserId (jget body ''userId'') \<and> jget body ''pin'' = JStr pin
     \<and> USER_ID_RE userId \<and> PIN_RE pin \<and> sto_get s (userKey userId) = JUndef
     \<and> (\<forall>u. u \<noteq> userId \<longrightarrow> sto_get s' (userKey u) = sto_get s (userKey u))
     \<and> (\<forall>rq' body' pin'. rq_json rq' = Inr body' \<longrightarrow> normalizeUserId (jget body' ''userId'') = userId
          \<longrightarrow> jget body' ''pin'' = JStr pin' \<longrightarrow> pin' \<noteq> [] \<longrightarrow>
          handleAuthVerify w s' rq' = (if w_hash w pin' = w_hash w pin then respond s' (JObj [(''ok'', JBool True)]) 200
            else respond s' (codedMessage ''Invalid PIN'' ''invalid_pin'') 401))"
proof (rule registered [OF assms])
  fix body userId pin name s2 res
  assume b: "rq_json rq = Inr body" and u: "userId = normalizeUserId (jget body ''userId'')" and p: "jget body ''pin'' = JStr pin" "PIN_RE pin"
    and ui: "USER_ID_RE userId" and m: "ensureUserNotModerated s userId = None"
    and g: "registerUserWithUniqueId (w_hash w) s t userId name (w_hash w pin) = Inr (s2, Some res)"
    and k: "\<forall>k. \<not> prefix ''audit'' k \<longrightarrow> sto_get s' k = sto_get s2 k"
  have t: "js_trim userId = userId" using normalized_trim u by simp
  note g' = register_result [OF g, unfolded t]
  have ne: "userId \<noteq> []" using g'(2) by simp
  have uk: "sto_get s' (userKey x) = sto_get s2 (userKey x)" for x using k by (simp add: key_defs prefix_defs)
  have acc: "sto_get s' (userKey userId) = JObj [(''pinHash'', JStr (w_hash w pin)), (''displayName'', JStr name)]" using g'(3) uk by simp
  have "sto_get s' (adminSecurityUserModerationKey x) = sto_get s (adminSecurityUserModerationKey x)" for x
    using k g by (auto simp: register_eq key_defs prefix_defs Let_def split: if_splits)
  then have "getAdminSecurityUserModeration s' x = getAdminSecurityUserModeration s x" for x by (rule same_mod)
  then have "ensureUserNotModerated s' userId = ensureUserNotModerated s userId" by (simp only: ensureUserNotModerated_def)
  with m have m': "ensureUserNotModerated s' userId = None" by simp
  have login: "\<forall>rq' body' pin'. rq_json rq' = Inr body' \<longrightarrow> normalizeUserId (jget body' ''userId'') = userId
          \<longrightarrow> jget body' ''pin'' = JStr pin' \<longrightarrow> pin' \<noteq> [] \<longrightarrow>
          handleAuthVerify w s' rq' = (if w_hash w pin' = w_hash w pin then respond s' (JObj [(''ok'', JBool True)]) 200
            else respond s' (codedMessage ''Invalid PIN'' ''invalid_pin'') 401)"
    using ne m' acc by (simp add: handleAuthVerify_def authenticateUser_def respond_def Let_def)
  have others: "\<forall>u. u \<noteq> userId \<longrightarrow> sto_get s' (userKey u) = sto_get s (userKey u)" using g'(3) uk by simp
  note free = g'(1)
  show ?thesis by (rule exI [of _ body], rule exI [of _ userId], rule exI [of _ pin]) (intro conjI; fact)
qed

section \<open>A failing audit log\<close>

text \<open>
  C28. A claim can exist without audit entry and receipt: whenever a request would create a claim, and the audit log
  refuses every entry at that moment (the required immutable sink is down), the same request ends in an error, but the
  claim and its code stay recorded while the audit log and the receipts are untouched.
\<close>

theorem audit_failure_leaves_claim:
  assumes "handleUserClaim (w\<lparr>w_services := svc\<rparr>) d cache s t segment rq = (cache', s1, Inr r)" "jget (rs_body r) ''status'' = JStr ''created''"
    and "claim_ready s segment d t"
    and "\<forall>st ev actor data e. \<exists>m. appendAuditLog (w_hash w) (w_env w) (w_services w) st t ev actor data e = Inl m"
  shows "\<exists>s' m code body. handleUserClaim w d cache s t segment rq = (cache', s', Inl m) \<and> rq_json rq = Inr body
     \<and> jget (rs_body r) ''confirmationCode'' = JStr code
     \<and> getPendingClaim doStorageAdapter s' (js_trim segment) (normalizeUserId (jget body ''userId'')) = Some \<lparr>pc_at = t, pc_code = code\<rparr>
     \<and> confirmationCodeBelongsToSubject s' (js_trim segment) (normalizeUserId (jget body ''userId'')) code
     \<and> (\<forall>k. prefix ''audit'' k \<or> prefix ''ticket_receipt'' k \<longrightarrow> sto_get s' k = sto_get s k)"
proof (rule created_reached [OF assms(1,2)])
  fix body userId userRaw event
  let ?e = "js_trim segment" and ?c = "userOf segment event userId userRaw" and ?w = "w\<lparr>w_services := svc\<rparr>"
  assume a: "authenticateUser (w_hash ?w) s ''missing params'' rq = Inr (body, userId, userRaw)"
    and ev: "getEvent doStorageAdapter s ?e = Some event" "\<not> eventClosed event"
    and pr: "onchainProofProblem ?w cache t event (getOnchainProofFields body) = (cache', None)"
    and up: "userParticipate ?w d s t rq body (getOnchainProofFields body) ?c = (s1, Inr r)"
  show ?thesis
  proof (rule created_issued [OF up assms(2), unfolded userOf_simps])
    fix z code receipt
    assume np: "\<not> hasAnyOnchainProofField (getOnchainProofFields body)"
      and se: "settlePending s ?e userId (\<lambda>x. hasConfirmedUserOnchainClaimForCode s ?e x userId) = (z, None)" and qu: "q_canClaimNow (userQuota z ?c t)"
      and en: "snd (enforceCostOfForgeryRisk (w_hash ?w) (w_env ?w) (w_risk ?w) (dr_id d) z t rq (userForgery ?c rq body)) = None"
      and isc: "issueClaim ?w d z t ?e userId ''USER_CLAIM'' (auditActor ''user'' userId) (userEntry ?c body) = (s1, Inr (Some (code, receipt)))"
      and rb: "rs_body r = userAnswer ''created'' (Some code) (Some receipt) (userQuota z ?c t) []"
    have pre: "sto_ok s" "claim_ok (sto_get s (claimKey ?e userId))" "0 < t" "\<forall>i. dr_codes d i \<noteq> []"
      using assms(3) by (auto simp: claim_ready_def)
    note so = settle_ok [OF se pre(1,2)]
    obtain y where rs: "reserveUniqueConfirmationCode z t (dr_codes d) ?e userId = Inr (y, code)"
      using isc by (auto simp: issueClaim_def Let_def split: sum.splits)
    define s3 where "s3 = ensureConfirmationCodeIndexed (addClaim doStorageAdapter y ?e userId (Some code) t) t ?e userId code"
    note st = issue_stages [OF rs so(1,2) pre(3,4), folded s3_def]
    obtain m where m: "issueClaim w d z t ?e userId ''USER_CLAIM'' (auditActor ''user'' userId) (userEntry ?c body) = (s3, Inl m)"
      using rs assms(4) by (simp add: issueClaim_def s3_def) (metis sum.case(1))
    have "userParticipate w d s t rq body (getOnchainProofFields body) ?c = (s3, Inl m)"
      using np se qu en m by (simp add: userParticipate_def userIssue_eq Let_def)
    moreover have "onchainProofProblem w cache t event (getOnchainProofFields body) = (cache', None)" using pr np by (simp add: onchainProofProblem_def)
    ultimately have hd: "handleUserClaim w d cache s t segment rq = (cache', s3, Inl m)"
      using user_reaches [of w s rq body userId userRaw segment event cache t cache' d] a ev by simp
    have "jget (rs_body r) ''confirmationCode'' = JStr code" using st(4) by (simp add: rb userAnswer_def unlessEmpty_def)
    moreover have "sto_get s3 k = sto_get s k" if "prefix ''audit'' k \<or> prefix ''ticket_receipt'' k" for k
      using that st(7) settle_get [OF se, of k] claim_keys(3,4) receipt_key_other by metis
    ultimately show ?thesis using hd authenticated(1,2) [OF a] st(1,2) by blast
  qed
qed

end
