(* ===== verification/Participation_Examples.thy ===== *)
theory Participation_Examples
  imports Participation_Spec Pop_Promises
begin

text \<open>
  Concrete requests for the properties of the participants' endpoints: the user alice claims on the published seed
  event, repeats the claim, registers, and claims while the audit sink is down.
\<close>

section \<open>A user and a worker\<close>

definition aliceStore :: storage where
  "aliceStore = sto_put [] (userKey ''alice'') (JObj [(''pinHash'', JStr (constHash ''1234'')), (''displayName'', JStr ''Alice'')])"

definition claimWorld :: "Env \<Rightarrow> AuditServices \<Rightarrow> world" where
  "claimWorld env svc = \<lparr>w_crypto = popCrypto, w_hash = constHash, w_env = env, w_services = svc, w_risk = (\<lambda>u k b. FetchThrows True [])\<rparr>"

definition claimDraws :: draws where
  "claimDraws = \<lparr>dr_codes = (\<lambda>i. [1, 2, 3, 4, 5, 6]), dr_id = []\<rparr>"

definition aliceRequest :: Request where
  "aliceRequest = \<lparr>rq_method = ''POST'', rq_headers = [], rq_chunks = None,
     rq_json = Inr (JObj [(''userId'', JStr ''alice''), (''pin'', JStr ''1234'')])\<rparr>"

lemma claimWorld_simps [simp]:
  "w_hash (claimWorld env svc) = constHash" "w_env (claimWorld env svc) = env" "w_services (claimWorld env svc) = svc"
  "(claimWorld env svc)\<lparr>w_services := svc'\<rparr> = claimWorld env svc'"
  by (simp_all add: claimWorld_def)

lemma alice_can: "q_canClaimNow (getUserOnchainClaimQuotaStatus aliceStore ''evt-001'' (the (getEvent doStorageAdapter aliceStore ''evt-001'')) ''alice'' 5000)"
  by code_simp

lemma alice_code: "reserveUniqueConfirmationCode aliceStore 5000 (dr_codes claimDraws) ''evt-001'' ''alice'' \<noteq> Inl x"
  by code_simp

lemma alice_authenticated: "\<exists>raw. authenticateUser constHash aliceStore ''missing params'' aliceRequest = Inr (JObj [(''userId'', JStr ''alice''), (''pin'', JStr ''1234'')], ''alice'', raw)"
proof -
  have "\<not> isl (authenticateUser constHash aliceStore ''missing params'' aliceRequest)" by code_simp
  then obtain b u raw where r: "authenticateUser constHash aliceStore ''missing params'' aliceRequest = Inr (b, u, raw)"
    by (cases "authenticateUser constHash aliceStore ''missing params'' aliceRequest") auto
  have "normalizeUserId (JStr ''alice'') = ''alice''" by code_simp
  then show ?thesis using r authenticated(1,2) [OF r] by (auto simp: aliceRequest_def)
qed

lemma alice_claims:
  assumes "\<forall>H f rnd s t rq p. enforceCostOfForgeryRisk H env f rnd s t rq p = (s, None)"
    and "\<forall>s t ev a d e. \<exists>s' entry. appendAuditLog constHash env svc s t ev a d e = Inr (s', entry) \<and> entrySinks entry \<noteq> None"
  obtains s' r where "handleUserClaim (claimWorld env svc) claimDraws None aliceStore 5000 ''evt-001'' aliceRequest = (None, s', Inr r)"
    "jget (rs_body r) ''status'' = JStr ''created''" "claim_ready aliceStore ''evt-001'' claimDraws 5000"
proof -
  let ?b = "JObj [(''userId'', JStr ''alice''), (''pin'', JStr ''1234'')]"
  obtain raw where a: "authenticateUser constHash aliceStore ''missing params'' aliceRequest = Inr (?b, ''alice'', raw)" using alice_authenticated by blast
  have tr: "js_trim ''evt-001'' = ''evt-001''" by code_simp
  have "getEvent doStorageAdapter aliceStore ''evt-001'' \<noteq> None" "\<not> eventClosed (the (getEvent doStorageAdapter aliceStore ''evt-001''))" by code_simp+
  then obtain ev where ev: "getEvent doStorageAdapter aliceStore ''evt-001'' = Some ev" "\<not> eventClosed ev" by auto
  let ?c = "userOf ''evt-001'' ev ''alice'' raw"
  have np: "\<not> hasAnyOnchainProofField (getOnchainProofFields ?b)" by code_simp
  have qu: "q_canClaimNow (userQuota aliceStore ?c 5000)" using alice_can ev by (simp add: userQuota_def tr)
  have se: "settlePending aliceStore ''evt-001'' ''alice'' f = (aliceStore, None)" for f
  proof -
    have "getPendingClaim doStorageAdapter aliceStore ''evt-001'' ''alice'' = None" by code_simp
    then show ?thesis by (simp add: settlePending_def)
  qed
  have ok: "sto_ok aliceStore" unfolding aliceStore_def by (intro sto_ok_put) (simp_all add: sto_ok_def)
  have "sto_get aliceStore (claimKey e u) = JUndef" for e u by (simp add: aliceStore_def claimKey_def CLAIM_PREFIX_def key_defs prefix_defs sto_get_def)
  then have rd: "claim_ready aliceStore ''evt-001'' claimDraws 5000" using ok by (simp add: claim_ready_def claimDraws_def)
  obtain s1 code where rs: "reserveUniqueConfirmationCode aliceStore 5000 (dr_codes claimDraws) ''evt-001'' ''alice'' = Inr (s1, code)"
    using alice_code by (cases "reserveUniqueConfirmationCode aliceStore 5000 (dr_codes claimDraws) ''evt-001'' ''alice''") auto
  obtain s2 receipt where i: "issueClaim (claimWorld env svc) claimDraws aliceStore 5000 ''evt-001'' ''alice'' ''USER_CLAIM'' (auditActor ''user'' ''alice'') (userEntry ?c ?b) = (s2, Inr (Some (code, receipt)))"
  proof -
    let ?s = "ensureConfirmationCodeIndexed (addClaim doStorageAdapter s1 ''evt-001'' ''alice'' (Some code) 5000) 5000 ''evt-001'' ''alice'' code"
    obtain s4 entry where ap: "appendAuditLog constHash env svc ?s 5000 ''USER_CLAIM'' (auditActor ''user'' ''alice'') (userEntry ?c ?b code) ''evt-001'' = Inr (s4, entry)"
      and sk: "entrySinks entry \<noteq> None" using assms(2) by blast
    obtain r where "buildParticipationTicketReceipt constHash ''evt-001'' ''alice'' code entry = Inr r"
      using sk by (auto simp: buildParticipationTicketReceipt_def Let_def)
    then show ?thesis using that rs ap by (simp add: issueClaim_def)
  qed
  have "userParticipate (claimWorld env svc) claimDraws aliceStore 5000 aliceRequest ?b (getOnchainProofFields ?b) ?c
      = respond s2 (userAnswer ''created'' (Some code) (Some receipt) (userQuota aliceStore ?c 5000) []) 200"
    using np qu i assms(1) by (simp add: userParticipate_def se userIssue_eq tr Let_def)
  moreover have "onchainProofProblem (claimWorld env svc) None 5000 ev (getOnchainProofFields ?b) = (None, None)" using np by (simp add: onchainProofProblem_def)
  ultimately have "handleUserClaim (claimWorld env svc) claimDraws None aliceStore 5000 ''evt-001'' aliceRequest
      = (None, respond s2 (userAnswer ''created'' (Some code) (Some receipt) (userQuota aliceStore ?c 5000) []) 200)"
    using user_reaches [of "claimWorld env svc" aliceStore aliceRequest ?b "''alice''" raw "''evt-001''" ev None 5000 None claimDraws] a ev
    by (simp add: tr)
  then show thesis using that [OF _ _ rd] by (simp add: respond_def answer_status)
qed
section \<open>Workers with and without a sink\<close>

lemma off_no_forgery: "enforceCostOfForgeryRisk H offEnv f rnd s t rq p = (s, None)"
proof -
  have "\<not> shouldEnforceCostOfForgeryAction offEnv a" for a by (cases a; hypsubst; code_simp)
  then show ?thesis by (simp add: enforceCostOfForgeryRisk_def Let_def)
qed

lemma off_append: "\<exists>s' entry. appendAuditLog H offEnv svc s t ev a d e = Inr (s', entry) \<and> entrySinks entry \<noteq> None"
  by (simp add: appendAuditLog_def persist_off offEnv_mode entrySinks_def auditBaseEntry_def nullish_def Let_def)

definition r2Env :: Env where
  "r2Env = emptyEnv\<lparr>AUDIT_LOGS := True\<rparr>"

definition r2Services :: AuditServices where
  "r2Services = noServices\<lparr>r2_put := (\<lambda>k p m. Inr True)\<rparr>"

lemma r2_no_forgery: "enforceCostOfForgeryRisk H r2Env f rnd s t rq p = (s, None)"
proof -
  have "\<not> shouldEnforceCostOfForgeryAction r2Env a" for a by (cases a; hypsubst; code_simp)
  then show ?thesis by (simp add: enforceCostOfForgeryRisk_def Let_def)
qed

lemma r2_env: "getAuditImmutableMode r2Env = Required" "hasPrimaryImmutableSink r2Env" "AUDIT_LOGS r2Env" "\<not> AUDIT_INDEX r2Env"
  "opt_trim (AUDIT_IMMUTABLE_INGEST_URL r2Env) = []"
  by code_simp+

lemma r2_append: "\<exists>s' entry. appendAuditLog H r2Env r2Services s t ev a d e = Inr (s', entry) \<and> entrySinks entry \<noteq> None"
  by (simp add: appendAuditLog_def persistImmutableAuditEntry_def r2_env attemptR2_def attemptKv_def attemptIngest_def writeR2ImmutableCopies_def
      putIfAbsentOrVerify_def r2Services_def isPrimarySink_def AuditImmutableSink_def AuditImmutableReceipt_def entrySinks_def auditBaseEntry_def
      nullish_def Let_def)

lemma r2_down: "\<exists>m. appendAuditLog H r2Env noServices s t ev a d e = Inl m"
  by (simp add: appendAuditLog_def persistImmutableAuditEntry_def r2_env attemptR2_def attemptKv_def attemptIngest_def writeR2ImmutableCopies_def
      putIfAbsentOrVerify_def noServices_def Let_def)

section \<open>Witnesses\<close>

theorem user_claim_created_witness:
  "\<exists>s' r code. handleUserClaim (claimWorld offEnv noServices) claimDraws None aliceStore 5000 ''evt-001'' aliceRequest = (None, s', Inr r)
     \<and> jget (rs_body r) ''status'' = JStr ''created'' \<and> jget (rs_body r) ''confirmationCode'' = JStr code
     \<and> getPendingClaim doStorageAdapter s' (js_trim ''evt-001'') (normalizeUserId (JStr ''alice'')) = Some \<lparr>pc_at = 5000, pc_code = code\<rparr>"
proof -
  obtain s' r where h: "handleUserClaim (claimWorld offEnv noServices) claimDraws None aliceStore 5000 ''evt-001'' aliceRequest = (None, s', Inr r)"
    "jget (rs_body r) ''status'' = JStr ''created''" "claim_ready aliceStore ''evt-001'' claimDraws 5000"
    using alice_claims [of offEnv noServices] off_no_forgery off_append by metis
  from user_claim_created [OF h] h(1,2) show ?thesis by (auto simp: aliceRequest_def)
qed

theorem created_receipt_verifies_witness:
  "\<exists>s' r receipt v. handleUserClaim (claimWorld offEnv noServices) claimDraws None aliceStore 5000 ''evt-001'' aliceRequest = (None, s', Inr r)
     \<and> jget (rs_body r) ''ticketReceipt'' = receiptToJs receipt
     \<and> verifyParticipationTicketReceipt constHash s' 6000 receipt = Inr v \<and> rv_ok v"
proof -
  obtain s' r where h: "handleUserClaim (claimWorld offEnv noServices) claimDraws None aliceStore 5000 ''evt-001'' aliceRequest = (None, s', Inr r)"
    "jget (rs_body r) ''status'' = JStr ''created''" "claim_ready aliceStore ''evt-001'' claimDraws 5000"
    using alice_claims [of offEnv noServices] off_no_forgery off_append by metis
  have k: "sto_get aliceStore (auditEntryByHashKey x) = JUndef" "sto_get aliceStore (streamLastHashKey x) = JUndef" for x
    by (simp_all add: aliceStore_def key_defs prefix_defs sto_get_def)
  have l: "log_reach (w_hash (claimWorld offEnv noServices)) (w_env (claimWorld offEnv noServices)) aliceStore" by (rule log_reach.start) (simp add: k)
  have d: "\<forall>x. hex_digest (w_hash (claimWorld offEnv noServices) x)" by (simp add: constHash_def genesis_digest)
  have g: "js_trim ''evt-001'' \<noteq> ''global''" by code_simp
  have "index_grows s' s'" by (simp add: index_grows_def)
  from created_receipt_verifies [OF h l d g k(1) this, of 6000] h(1) show ?thesis by auto
qed

theorem audit_failure_leaves_claim_witness:
  "\<exists>s' m code. handleUserClaim (claimWorld r2Env noServices) claimDraws None aliceStore 5000 ''evt-001'' aliceRequest = (None, s', Inl m)
     \<and> getPendingClaim doStorageAdapter s' (js_trim ''evt-001'') (normalizeUserId (JStr ''alice'')) = Some \<lparr>pc_at = 5000, pc_code = code\<rparr>"
proof -
  obtain s' r where h: "handleUserClaim (claimWorld r2Env r2Services) claimDraws None aliceStore 5000 ''evt-001'' aliceRequest = (None, s', Inr r)"
    "jget (rs_body r) ''status'' = JStr ''created''" "claim_ready aliceStore ''evt-001'' claimDraws 5000"
    using alice_claims [of r2Env r2Services] r2_no_forgery r2_append by metis
  have "handleUserClaim ((claimWorld r2Env noServices)\<lparr>w_services := r2Services\<rparr>) claimDraws None aliceStore 5000 ''evt-001'' aliceRequest = (None, s', Inr r)"
    using h(1) by simp
  from audit_failure_leaves_claim [OF this h(2,3)] r2_down show ?thesis by (auto simp: aliceRequest_def)
qed

definition pendingStore :: storage where
  "pendingStore = addClaim doStorageAdapter aliceStore ''evt-001'' ''alice'' (Some ''ABC234'') 1000"

definition sampleEvent :: js where
  "sampleEvent = the (getEvent doStorageAdapter pendingStore ''evt-001'')"

theorem pending_claim_repeats_witness:
  "\<exists>quota receipt onchain. handleUserClaim (claimWorld offEnv noServices) claimDraws None pendingStore 5000 ''evt-001'' aliceRequest
     = (None, respond pendingStore (userAnswer ''already'' (Some ''ABC234'') receipt quota onchain) 200)"
proof -
  have "\<not> isl (authenticateUser constHash pendingStore ''missing params'' aliceRequest)" by code_simp
  then obtain b u raw where a: "authenticateUser constHash pendingStore ''missing params'' aliceRequest = Inr (b, u, raw)"
    by (cases "authenticateUser constHash pendingStore ''missing params'' aliceRequest") auto
  have u: "b = JObj [(''userId'', JStr ''alice''), (''pin'', JStr ''1234'')]" "u = normalizeUserId (JStr ''alice'')"
    using authenticated(1,2) [OF a] by (auto simp: aliceRequest_def)
  have n: "normalizeUserId (JStr ''alice'') = ''alice''" "js_trim ''evt-001'' = ''evt-001''" by code_simp+
  have "getEvent doStorageAdapter pendingStore ''evt-001'' \<noteq> None" "\<not> eventClosed sampleEvent" by code_simp+
  then have ev: "getEvent doStorageAdapter pendingStore ''evt-001'' = Some sampleEvent" "\<not> eventClosed sampleEvent"
    by (auto simp: sampleEvent_def)
  have np: "\<not> hasAnyOnchainProofField (getOnchainProofFields (JObj [(''userId'', JStr ''alice''), (''pin'', JStr ''1234'')]))" by code_simp
  have pc: "getPendingClaim doStorageAdapter pendingStore ''evt-001'' ''alice'' = Some \<lparr>pc_at = 1000, pc_code = ''ABC234''\<rparr>"
    "\<not> hasConfirmedUserOnchainClaimForCode pendingStore ''evt-001'' ''ABC234'' ''alice''" by code_simp+
  show ?thesis
    using pending_claim_repeats [THEN conjunct1, rule_format, of "claimWorld offEnv noServices" pendingStore aliceRequest b u raw "''evt-001''"
        sampleEvent "\<lparr>pc_at = 1000, pc_code = ''ABC234''\<rparr>" claimDraws None 5000] a ev np pc
    by (simp add: u n)
qed

definition registerRequest :: Request where
  "registerRequest = \<lparr>rq_method = ''POST'', rq_headers = [], rq_chunks = None,
     rq_json = Inr (JObj [(''userId'', JStr ''alice''), (''displayName'', JStr ''Alice''), (''pin'', JStr ''1234'')])\<rparr>"

lemma alice_registers:
  obtains s' r where "handleUserRegister (claimWorld offEnv noServices) claimDraws [] 5000 registerRequest = (s', Inr r)" "rs_status r = 200"
proof -
  let ?b = "JObj [(''userId'', JStr ''alice''), (''displayName'', JStr ''Alice''), (''pin'', JStr ''1234'')]"
  have n: "normalizeUserId (JStr ''alice'') = ''alice''" "take 32 (strField ?b ''displayName'') = ''Alice''" "PIN_RE ''1234''"
    "validateUserIdForRegistration ''alice'' = None" "ensureUserNotModerated [] ''alice'' = None" by code_simp+
  have "\<not> isl (registerUserWithUniqueId constHash [] 5000 ''alice'' ''Alice'' (constHash ''1234''))"
    "snd (projr (registerUserWithUniqueId constHash [] 5000 ''alice'' ''Alice'' (constHash ''1234''))) \<noteq> None" by code_simp+
  then obtain s2 res where g: "registerUserWithUniqueId constHash [] 5000 ''alice'' ''Alice'' (constHash ''1234'') = Inr (s2, Some res)"
    by (cases "registerUserWithUniqueId constHash [] 5000 ''alice'' ''Alice'' (constHash ''1234'')") auto
  obtain s3 e where a: "appendAuditLog constHash offEnv noServices s2 5000 ''USER_REGISTER'' (auditActor ''user'' ''alice'')
       (JObj [(''displayName'', JStr ''Alice''), (''userIdHash'', JStr (rr_userIdHash res)),
          (''userIdChainHash'', JStr (rr_chainHash res)), (''userIdPrevChainHash'', JStr (rr_prevChainHash res))]) ''system'' = Inr (s3, e)"
    using append_off by blast
  have "handleUserRegister (claimWorld offEnv noServices) claimDraws [] 5000 registerRequest = respond s3 (JObj [(''userId'', JStr ''alice'')]) 200"
    using n g a by (simp add: handleUserRegister_def registerRequest_def off_no_forgery appendThen_def)
  then show thesis using that by (simp add: respond_def)
qed

theorem registered_user_authenticates_witness:
  "\<exists>s' r. handleUserRegister (claimWorld offEnv noServices) claimDraws [] 5000 registerRequest = (s', Inr r)
     \<and> handleAuthVerify (claimWorld offEnv noServices) s' registerRequest = respond s' (JObj [(''ok'', JBool True)]) 200"
proof -
  obtain s' r where h: "handleUserRegister (claimWorld offEnv noServices) claimDraws [] 5000 registerRequest = (s', Inr r)" "rs_status r = 200"
    by (rule alice_registers)
  from registered_user_authenticates [OF h] h(1) show ?thesis by (fastforce simp: registerRequest_def)
qed

end
