(* ===== verification/Random_Anchor.thy ===== *)
theory Random_Anchor
  imports Pop_Proof Forgery_Guard
begin

text \<open>
  The random periodic anchor (\<open>storeDO.ts\<close>): time is cut into windows of the configured period, each window has a
  target drawn at random in it, and the first call of the scheduler at or after the target appends one entry to the
  audit log. The state of the current window is kept under one key. \<open>draw\<close> is the random 32-bit number.
\<close>

section \<open>Configuration and state\<close>

definition RANDOM_ANCHOR_STATE_KEY :: string where "RANDOM_ANCHOR_STATE_KEY = ''audit:random_anchor:state''"
definition RANDOM_ANCHOR_DEFAULT_PERIOD_MINUTES :: int where "RANDOM_ANCHOR_DEFAULT_PERIOD_MINUTES = 60"
definition RANDOM_ANCHOR_MIN_PERIOD_MINUTES :: int where "RANDOM_ANCHOR_MIN_PERIOD_MINUTES = 15"
definition RANDOM_ANCHOR_MAX_PERIOD_MINUTES :: int where "RANDOM_ANCHOR_MAX_PERIOD_MINUTES = 24 * 60"
definition RANDOM_ANCHOR_EVENT :: string where "RANDOM_ANCHOR_EVENT = ''RANDOM_PERIODIC_ANCHOR''"

record RandomPeriodicAnchorState =
  an_windowStartMs :: rat
  an_targetTsMs :: rat
  an_anchoredAtMs :: "rat option"
  an_lastEntryHash :: "string option"

datatype AnchorReason = Anchor_disabled | Anchor_not_due | Anchor_already_anchored | Anchor_anchored

record RandomPeriodicAnchorResult =
  ar_enabled :: bool
  ar_anchored :: bool
  ar_reason :: AnchorReason
  ar_periodMinutes :: int
  ar_windowStartMs :: "rat option"
  ar_targetTsMs :: "rat option"
  ar_latestHead :: "string option"
  ar_entryHash :: "string option"

definition anchorStateToJs :: "RandomPeriodicAnchorState \<Rightarrow> js" where
  "anchorStateToJs a = JObj [(''windowStartMs'', JNum (an_windowStartMs a)), (''targetTsMs'', JNum (an_targetTsMs a)),
     (''anchoredAtMs'', jrat_null (an_anchoredAtMs a)), (''lastEntryHash'', jstr_null (an_lastEntryHash a))]"

definition isRandomPeriodicAnchorEnabled :: "Env \<Rightarrow> bool" where
  "isRandomPeriodicAnchorEnabled env = parseBooleanEnv (AUDIT_RANDOM_ANCHOR_ENABLED env) True"

definition getRandomPeriodicAnchorPeriodMs :: "Env \<Rightarrow> int" where
  "getRandomPeriodicAnchorPeriodMs env =
     parseBoundedInt (AUDIT_RANDOM_ANCHOR_PERIOD_MINUTES env) RANDOM_ANCHOR_DEFAULT_PERIOD_MINUTES
       RANDOM_ANCHOR_MIN_PERIOD_MINUTES RANDOM_ANCHOR_MAX_PERIOD_MINUTES * 60 * 1000"

definition parseRandomPeriodicAnchorState :: "js \<Rightarrow> RandomPeriodicAnchorState option" where
  "parseRandomPeriodicAnchorState raw =
     (if \<not> is_obj raw then None
      else
        (let anchoredRaw = jget raw ''anchoredAtMs'';
             anchoredAtMs = (if anchoredRaw = JNull \<or> anchoredRaw = JUndef then Some None
                             else map_option Some (numberField anchoredRaw));
             lastEntryHash = (case jget raw ''lastEntryHash'' of
                                JStr h \<Rightarrow> (if isHashHex h then Some (js_lower (js_trim h)) else None)
                              | _ \<Rightarrow> None)
         in case (numberField (jget raw ''windowStartMs''), numberField (jget raw ''targetTsMs''), anchoredAtMs) of
              (Some windowStartMs, Some targetTsMs, Some anchored) \<Rightarrow>
                (if targetTsMs < windowStartMs then None
                 else Some \<lparr>an_windowStartMs = windowStartMs, an_targetTsMs = targetTsMs, an_anchoredAtMs = anchored,
                        an_lastEntryHash = lastEntryHash\<rparr>)
            | _ \<Rightarrow> None))"

definition buildRandomPeriodicAnchorState :: "32 word \<Rightarrow> int \<Rightarrow> int \<Rightarrow> RandomPeriodicAnchorState" where
  "buildRandomPeriodicAnchorState draw windowStartMs periodMs =
     (let offsetMs = uint draw mod max 1 periodMs in
      \<lparr>an_windowStartMs = of_int windowStartMs, an_targetTsMs = of_int (windowStartMs + offsetMs),
       an_anchoredAtMs = None, an_lastEntryHash = None\<rparr>)"

section \<open>One call\<close>

definition windowStart :: "int \<Rightarrow> int \<Rightarrow> int" where
  "windowStart periodMs nowMs = nowMs div periodMs * periodMs"

definition isStateForWindow :: "int \<Rightarrow> int \<Rightarrow> RandomPeriodicAnchorState \<Rightarrow> bool" where
  "isStateForWindow windowStartMs windowEndMs a =
     (an_windowStartMs a = of_int windowStartMs \<and> of_int windowStartMs \<le> an_targetTsMs a
      \<and> an_targetTsMs a < of_int windowEndMs)"

text \<open>The state of the window, and the storage in which it is kept.\<close>

definition activeAnchorState ::
  "storage \<Rightarrow> 32 word \<Rightarrow> int \<Rightarrow> int \<Rightarrow> storage \<times> RandomPeriodicAnchorState" where
  "activeAnchorState s draw periodMs windowStartMs =
     (let fresh = buildRandomPeriodicAnchorState draw windowStartMs periodMs;
          rebuilt = (sto_put s RANDOM_ANCHOR_STATE_KEY (anchorStateToJs fresh), fresh)
      in case parseRandomPeriodicAnchorState (sto_get s RANDOM_ANCHOR_STATE_KEY) of
           Some stored \<Rightarrow> (if isStateForWindow windowStartMs (windowStartMs + periodMs) stored then (s, stored) else rebuilt)
         | None \<Rightarrow> rebuilt)"

definition anchorResult ::
  "int \<Rightarrow> AnchorReason \<Rightarrow> RandomPeriodicAnchorState \<Rightarrow> string \<Rightarrow> string option \<Rightarrow> RandomPeriodicAnchorResult" where
  "anchorResult periodMinutes reason a latestHead entryHash =
     \<lparr>ar_enabled = True, ar_anchored = (reason = Anchor_anchored), ar_reason = reason, ar_periodMinutes = periodMinutes,
      ar_windowStartMs = Some (an_windowStartMs a), ar_targetTsMs = Some (an_targetTsMs a), ar_latestHead = Some latestHead,
      ar_entryHash = entryHash\<rparr>"

definition anchorEntryData :: "RandomPeriodicAnchorState \<Rightarrow> int \<Rightarrow> int \<Rightarrow> string \<Rightarrow> js" where
  "anchorEntryData a windowEndMs nowMs latestHead =
     JObj [(''mode'', JStr ''random_periodic''), (''windowStartMs'', JNum (an_windowStartMs a)), (''windowEndMs'', JInt windowEndMs),
       (''targetTsMs'', JNum (an_targetTsMs a)), (''triggeredAtMs'', JInt nowMs), (''latestHeadBeforeAnchor'', JStr latestHead)]"

definition entryHashOf :: "js \<Rightarrow> string option" where
  "entryHashOf entry = (case jget entry ''entry_hash'' of JStr h \<Rightarrow> Some h | _ \<Rightarrow> None)"

text \<open>
  \<open>nowMs\<close> is the scheduled time, \<open>clock\<close> the time at which the entry is appended. The part of the call that follows the
  lookup of the state is \<open>anchorWindow\<close>.
\<close>

definition anchorWindow ::
  "(string \<Rightarrow> string) \<Rightarrow> Env \<Rightarrow> AuditServices \<Rightarrow> storage \<Rightarrow> int \<Rightarrow> int \<Rightarrow> int \<Rightarrow> RandomPeriodicAnchorState
     \<Rightarrow> storage \<times> RandomPeriodicAnchorResult or_error" where
  "anchorWindow H env svc s clock periodMs nowMs active =
     (let result = anchorResult (periodMs div (60 * 1000));
          windowEndMs = windowStart periodMs nowMs + periodMs
      in case readHashHex (sto_get s AUDIT_LAST_HASH_GLOBAL_KEY) of
           Inl e \<Rightarrow> (s, Inl e)
         | Inr latestHead \<Rightarrow>
             (if an_anchoredAtMs active \<noteq> None
              then (s, Inr (result Anchor_already_anchored active latestHead (an_lastEntryHash active)))
              else if of_int nowMs < an_targetTsMs active
              then (s, Inr (result Anchor_not_due active latestHead None))
              else case appendAuditLog H env svc s clock RANDOM_ANCHOR_EVENT (auditActor ''system'' ''scheduler'')
                          (anchorEntryData active windowEndMs nowMs latestHead) ''system'' of
                     Inl e \<Rightarrow> (s, Inl e)
                   | Inr (s', entry) \<Rightarrow>
                       (let anchored = active\<lparr>an_anchoredAtMs := Some (of_int nowMs), an_lastEntryHash := entryHashOf entry\<rparr>
                        in (sto_put s' RANDOM_ANCHOR_STATE_KEY (anchorStateToJs anchored),
                            Inr (result Anchor_anchored anchored latestHead (entryHashOf entry))))))"

definition maybeAppendRandomPeriodicAnchor ::
  "(string \<Rightarrow> string) \<Rightarrow> Env \<Rightarrow> AuditServices \<Rightarrow> storage \<Rightarrow> int \<Rightarrow> 32 word \<Rightarrow> int
     \<Rightarrow> storage \<times> RandomPeriodicAnchorResult or_error" where
  "maybeAppendRandomPeriodicAnchor H env svc s clock draw nowMs =
     (let periodMs = getRandomPeriodicAnchorPeriodMs env
      in if \<not> isRandomPeriodicAnchorEnabled env
         then (s, Inr \<lparr>ar_enabled = False, ar_anchored = False, ar_reason = Anchor_disabled,
                 ar_periodMinutes = periodMs div (60 * 1000), ar_windowStartMs = None, ar_targetTsMs = None,
                 ar_latestHead = None, ar_entryHash = None\<rparr>)
         else let (s1, active) = activeAnchorState s draw periodMs (windowStart periodMs nowMs)
              in anchorWindow H env svc s1 clock periodMs nowMs active)"

section \<open>The internal endpoint\<close>

definition anchorReasonStr :: "AnchorReason \<Rightarrow> string" where
  "anchorReasonStr r = (case r of Anchor_disabled \<Rightarrow> ''disabled'' | Anchor_not_due \<Rightarrow> ''not_due''
     | Anchor_already_anchored \<Rightarrow> ''already_anchored'' | Anchor_anchored \<Rightarrow> ''anchored'')"

definition anchorResultFields :: "RandomPeriodicAnchorResult \<Rightarrow> (string \<times> js) list" where
  "anchorResultFields r =
     [(''enabled'', JBool (ar_enabled r)), (''anchored'', JBool (ar_anchored r)), (''reason'', JStr (anchorReasonStr (ar_reason r))),
      (''periodMinutes'', JInt (ar_periodMinutes r)), (''windowStartMs'', jrat_null (ar_windowStartMs r)),
      (''targetTsMs'', jrat_null (ar_targetTsMs r)), (''latestHead'', jstr_null (ar_latestHead r)),
      (''entryHash'', jstr_null (ar_entryHash r))]"

definition scheduledTimeOf :: "Request \<Rightarrow> int \<Rightarrow> int" where
  "scheduledTimeOf request clock =
     (let body = (case rq_json request of Inl _ \<Rightarrow> JNull | Inr b \<Rightarrow> b)
      in case numberField (jget body ''scheduledTime'') of
           Some t \<Rightarrow> (if 0 < t then \<lfloor>t\<rfloor> else clock)
         | None \<Rightarrow> clock)"

text \<open>\<open>toISOString\<close> throws on a time that is not a valid date, after the anchor is stored.\<close>

definition MAX_DATE_MS :: int where "MAX_DATE_MS = 8640000000000000"

definition handleRandomAnchor ::
  "(string \<Rightarrow> string) \<Rightarrow> Env \<Rightarrow> AuditServices \<Rightarrow> storage \<Rightarrow> int \<Rightarrow> 32 word \<Rightarrow> Request \<Rightarrow> outcome" where
  "handleRandomAnchor H env svc s clock draw request =
     (let nowMs = scheduledTimeOf request clock
      in case maybeAppendRandomPeriodicAnchor H env svc s clock draw nowMs of
           (s', Inl e) \<Rightarrow> (s', Inl e)
         | (s', Inr result) \<Rightarrow>
             (if MAX_DATE_MS < nowMs then (s', Inl ''Invalid time value'')
              else respond s' (JObj ([(''ok'', JBool True), (''checkedAt'', JStr (js_toISOString nowMs))]
                     @ anchorResultFields result)) 200))"

end
