(* ===== verification/Anchor_Spec.thy ===== *)
theory Anchor_Spec
  imports Random_Anchor Audit_Runs Handler_Base
begin

text \<open>
  What the random periodic anchor promises: the state of a window is read back as it was written, a call anchors only
  in the window of its target and not before the target, a due call anchors unless appending fails, and calls at
  ascending times anchor at most once per window, whatever else changes the storage in between.
\<close>

section \<open>Windows\<close>

lemma anchor_period_positive: "0 < getRandomPeriodicAnchorPeriodMs env"
  by (auto simp: getRandomPeriodicAnchorPeriodMs_def parseBoundedInt_def RANDOM_ANCHOR_DEFAULT_PERIOD_MINUTES_def
      RANDOM_ANCHOR_MIN_PERIOD_MINUTES_def RANDOM_ANCHOR_MAX_PERIOD_MINUTES_def split: option.splits)

lemma window_bounds:
  assumes "0 < p"
  shows "windowStart p t \<le> t" "t < windowStart p t + p"
proof -
  have "0 \<le> t mod p" "t mod p < p" using assms by simp_all
  then show "windowStart p t \<le> t" "t < windowStart p t + p"
    unfolding windowStart_def using div_mult_mod_eq [of t p] by linarith+
qed

lemma windowStart_mono: "0 < p \<Longrightarrow> t \<le> u \<Longrightarrow> windowStart p t \<le> windowStart p u"
  by (simp add: windowStart_def zdiv_mono1 mult_right_mono)

section \<open>The state of a window\<close>

lemma parse_anchor_state:
  assumes "an_windowStartMs a \<le> an_targetTsMs a"
  shows "\<exists>h. parseRandomPeriodicAnchorState (anchorStateToJs a) = Some (a\<lparr>an_lastEntryHash := h\<rparr>)"
  using assms
  by (cases a; cases "an_anchoredAtMs a")
    (simp_all add: parseRandomPeriodicAnchorState_def anchorStateToJs_def numberField_def jrat_null_def Let_def)

lemma fresh_anchor_state:
  assumes "0 < p"
  shows "isStateForWindow w (w + p) (buildRandomPeriodicAnchorState draw w p)"
    "an_anchoredAtMs (buildRandomPeriodicAnchorState draw w p) = None"
proof -
  have "0 \<le> uint draw mod max 1 p" "uint draw mod max 1 p < p" using assms by (simp_all add: max_def)
  then show "isStateForWindow w (w + p) (buildRandomPeriodicAnchorState draw w p)"
    unfolding isStateForWindow_def buildRandomPeriodicAnchorState_def Let_def by (simp del: of_int_add)
qed (simp add: buildRandomPeriodicAnchorState_def Let_def)

lemma active_anchor_state:
  assumes "0 < p" "activeAnchorState s draw p w = (s1, a)"
  shows "isStateForWindow w (w + p) a"
    "\<exists>h. parseRandomPeriodicAnchorState (sto_get s1 RANDOM_ANCHOR_STATE_KEY) = Some (a\<lparr>an_lastEntryHash := h\<rparr>)"
    "k \<noteq> RANDOM_ANCHOR_STATE_KEY \<Longrightarrow> sto_get s1 k = sto_get s k"
    "\<And>b. parseRandomPeriodicAnchorState (sto_get s RANDOM_ANCHOR_STATE_KEY) = Some b \<Longrightarrow> isStateForWindow w (w + p) b \<Longrightarrow> a = b"
proof -
  let ?f = "buildRandomPeriodicAnchorState draw w p"
  have f: "isStateForWindow w (w + p) ?f" by (rule fresh_anchor_state [OF assms(1)])
  then have "an_windowStartMs ?f \<le> an_targetTsMs ?f" by (simp add: isStateForWindow_def)
  note reread = parse_anchor_state [OF this]
  have c: "s1 = s \<and> parseRandomPeriodicAnchorState (sto_get s RANDOM_ANCHOR_STATE_KEY) = Some a \<and> isStateForWindow w (w + p) a
      \<or> s1 = sto_put s RANDOM_ANCHOR_STATE_KEY (anchorStateToJs ?f) \<and> a = ?f
        \<and> (\<forall>b. parseRandomPeriodicAnchorState (sto_get s RANDOM_ANCHOR_STATE_KEY) = Some b \<longrightarrow> \<not> isStateForWindow w (w + p) b)"
    using assms(2) by (auto simp: activeAnchorState_def Let_def split: option.splits if_splits)
  have kept: "\<exists>h. Some a = Some (a\<lparr>an_lastEntryHash := h\<rparr>)" by (rule exI [of _ "an_lastEntryHash a"]) simp
  show "isStateForWindow w (w + p) a" using c f by auto
  show "\<exists>h. parseRandomPeriodicAnchorState (sto_get s1 RANDOM_ANCHOR_STATE_KEY) = Some (a\<lparr>an_lastEntryHash := h\<rparr>)"
    using c kept reread by (elim disjE) simp_all
  show "sto_get s1 k = sto_get s k" if "k \<noteq> RANDOM_ANCHOR_STATE_KEY" using c that by auto
  show "a = b" if "parseRandomPeriodicAnchorState (sto_get s RANDOM_ANCHOR_STATE_KEY) = Some b" "isStateForWindow w (w + p) b" for b
    using c that by auto
qed

section \<open>Calls\<close>

text \<open>The window of a time is anchored when the stored state is that of the window and says so.\<close>

definition window_anchored :: "Env \<Rightarrow> storage \<Rightarrow> int \<Rightarrow> bool" where
  "window_anchored env s t =
     (let p = getRandomPeriodicAnchorPeriodMs env; w = windowStart p t
      in case parseRandomPeriodicAnchorState (sto_get s RANDOM_ANCHOR_STATE_KEY) of
           None \<Rightarrow> False
         | Some a \<Rightarrow> isStateForWindow w (w + p) a \<and> an_anchoredAtMs a \<noteq> None)"

lemma anchor_call:
  assumes "isRandomPeriodicAnchorEnabled env"
  defines "p \<equiv> getRandomPeriodicAnchorPeriodMs env"
  obtains s1 a where "activeAnchorState s draw p (windowStart p t) = (s1, a)"
    "maybeAppendRandomPeriodicAnchor H env svc s clock draw t = anchorWindow H env svc s1 clock p t a"
  by (cases "activeAnchorState s draw p (windowStart p t)")
    (simp add: maybeAppendRandomPeriodicAnchor_def Let_def assms(1) p_def)

lemma anchor_window_outcome:
  assumes "anchorWindow H env svc s clock p t a = (s', out)"
  obtains (kept) "s' = s" "\<And>r. out = Inr r \<Longrightarrow> \<not> ar_anchored r"
      "an_anchoredAtMs a = None \<Longrightarrow> an_targetTsMs a \<le> of_int t \<Longrightarrow> \<exists>e. out = Inl e"
  | (anchored) r s2 entry latestHead where "out = Inr r" "ar_anchored r" "an_anchoredAtMs a = None" "an_targetTsMs a \<le> of_int t"
      "readHashHex (sto_get s AUDIT_LAST_HASH_GLOBAL_KEY) = Inr latestHead"
      "appendAuditLog H env svc s clock RANDOM_ANCHOR_EVENT (auditActor ''system'' ''scheduler'')
         (anchorEntryData a (windowStart p t + p) t latestHead) ''system'' = Inr (s2, entry)"
      "ar_entryHash r = entryHashOf entry"
      "s' = sto_put s2 RANDOM_ANCHOR_STATE_KEY
         (anchorStateToJs (a\<lparr>an_anchoredAtMs := Some (of_int t), an_lastEntryHash := entryHashOf entry\<rparr>))"
  using assms
  by (auto simp: anchorWindow_def anchorResult_def Let_def split: sum.splits if_splits)

lemma anchored_state_window:
  assumes "0 < p" "p = getRandomPeriodicAnchorPeriodMs env" "isStateForWindow (windowStart p t) (windowStart p t + p) a"
  shows "window_anchored env (sto_put s RANDOM_ANCHOR_STATE_KEY (anchorStateToJs (a\<lparr>an_anchoredAtMs := Some m, an_lastEntryHash := h\<rparr>))) t"
proof -
  let ?b = "a\<lparr>an_anchoredAtMs := Some m, an_lastEntryHash := h\<rparr>"
  have "an_windowStartMs ?b \<le> an_targetTsMs ?b" using assms(3) by (simp add: isStateForWindow_def)
  from parse_anchor_state [OF this] show ?thesis
    using assms by (auto simp: window_anchored_def Let_def isStateForWindow_def)
qed

text \<open>A call in an anchored window anchors nothing and the window stays anchored; one that anchors leaves it anchored.\<close>

lemma anchor_call_window:
  assumes "maybeAppendRandomPeriodicAnchor H env svc s clock draw t = (s', out)"
  shows "window_anchored env s t \<Longrightarrow> window_anchored env s' t \<and> (\<forall>r. out = Inr r \<longrightarrow> \<not> ar_anchored r)"
    "out = Inr r \<Longrightarrow> ar_anchored r \<Longrightarrow> window_anchored env s' t"
proof -
  define p where "p = getRandomPeriodicAnchorPeriodMs env"
  have pos: "0 < p" by (simp add: p_def anchor_period_positive)
  have off: "s' = s \<and> (\<forall>r. out = Inr r \<longrightarrow> \<not> ar_anchored r)" if "\<not> isRandomPeriodicAnchorEnabled env"
    using assms that by (auto simp: maybeAppendRandomPeriodicAnchor_def Let_def)
  have on: "(window_anchored env s t \<longrightarrow> window_anchored env s' t \<and> (\<forall>r. out = Inr r \<longrightarrow> \<not> ar_anchored r))
      \<and> (\<forall>r. out = Inr r \<longrightarrow> ar_anchored r \<longrightarrow> window_anchored env s' t)" if e: "isRandomPeriodicAnchorEnabled env"
  proof -
    obtain s1 a where act: "activeAnchorState s draw p (windowStart p t) = (s1, a)"
      and call: "anchorWindow H env svc s1 clock p t a = (s', out)"
      using anchor_call [OF e, of s draw t H svc clock] assms unfolding p_def by metis
    note st = active_anchor_state [OF pos act]
    have same: "window_anchored env s1 t = (an_anchoredAtMs a \<noteq> None)"
      using st(1,2) by (auto simp: window_anchored_def Let_def p_def isStateForWindow_def)
    have was: "an_anchoredAtMs a \<noteq> None" if "window_anchored env s t"
      using that st(4) by (auto simp: window_anchored_def Let_def p_def split: option.splits)
    show ?thesis
      using call
    proof (cases rule: anchor_window_outcome)
      case kept
      then show ?thesis using same was by blast
    next
      case (anchored r s2 entry latestHead)
      then show ?thesis using was anchored_state_window [OF pos p_def st(1)] by auto
    qed
  qed
  show "window_anchored env s t \<Longrightarrow> window_anchored env s' t \<and> (\<forall>r. out = Inr r \<longrightarrow> \<not> ar_anchored r)"
    using on off by blast
  show "out = Inr r \<Longrightarrow> ar_anchored r \<Longrightarrow> window_anchored env s' t"
    using on off by blast
qed

section \<open>Runs of the scheduler\<close>

text \<open>
  Calls at ascending times; between them the storage may change in any way that leaves the state of the anchor alone.
  The run keeps the time of the last call and the times of the calls that anchored.
\<close>

inductive anchor_run :: "(string \<Rightarrow> string) \<Rightarrow> Env \<Rightarrow> AuditServices \<Rightarrow> storage \<Rightarrow> int \<Rightarrow> int list \<Rightarrow> bool" for H env svc where
  run_start: "anchor_run H env svc s t []"
| run_call: "anchor_run H env svc s t ts \<Longrightarrow> t \<le> u \<Longrightarrow> maybeAppendRandomPeriodicAnchor H env svc s clock draw u = (s', Inr r) \<Longrightarrow>
    anchor_run H env svc s' u (if ar_anchored r then u # ts else ts)"
| run_fail: "anchor_run H env svc s t ts \<Longrightarrow> t \<le> u \<Longrightarrow> maybeAppendRandomPeriodicAnchor H env svc s clock draw u = (s', Inl e) \<Longrightarrow>
    anchor_run H env svc s' u ts"
| run_other: "anchor_run H env svc s t ts \<Longrightarrow> sto_get s' RANDOM_ANCHOR_STATE_KEY = sto_get s RANDOM_ANCHOR_STATE_KEY \<Longrightarrow>
    anchor_run H env svc s' t ts"

abbreviation anchor_window :: "Env \<Rightarrow> int \<Rightarrow> int" where
  "anchor_window env t \<equiv> windowStart (getRandomPeriodicAnchorPeriodMs env) t"

definition anchor_inv :: "Env \<Rightarrow> storage \<Rightarrow> int \<Rightarrow> int list \<Rightarrow> bool" where
  "anchor_inv env s t ts \<longleftrightarrow> distinct (map (anchor_window env) ts) \<and> (\<forall>u \<in> set ts. u \<le> t)
     \<and> (\<forall>u \<in> set ts. anchor_window env u = anchor_window env t \<longrightarrow> window_anchored env s t)"

lemma window_anchored_same: "anchor_window env u = anchor_window env t \<Longrightarrow> window_anchored env s u = window_anchored env s t"
  by (simp add: window_anchored_def)

lemma later_window:
  assumes "anchor_inv env s t ts" "t \<le> u" "x \<in> set ts" "anchor_window env x = anchor_window env u"
  shows "window_anchored env s u"
proof -
  have "x \<le> t" using assms by (simp add: anchor_inv_def)
  then have "anchor_window env x \<le> anchor_window env t" "anchor_window env t \<le> anchor_window env u"
    using assms(2) by (simp_all add: windowStart_mono anchor_period_positive)
  then have "anchor_window env t = anchor_window env u" using assms(4) by simp
  moreover from this have "window_anchored env s t" using assms unfolding anchor_inv_def by fastforce
  ultimately show ?thesis using window_anchored_same by blast
qed

lemma anchor_inv_call:
  assumes inv: "anchor_inv env s t ts" and tu: "t \<le> u"
    and call: "maybeAppendRandomPeriodicAnchor H env svc s clock draw u = (s', out)"
  shows "anchor_inv env s' u (case out of Inr r \<Rightarrow> (if ar_anchored r then u # ts else ts) | Inl _ \<Rightarrow> ts)"
proof -
  note w = anchor_call_window [OF call]
  have old: "window_anchored env s' u" if "x \<in> set ts" "anchor_window env x = anchor_window env u" for x
    using w(1) later_window [OF inv tu that] by blast
  have fresh: "anchor_window env u \<notin> anchor_window env ` set ts" if "out = Inr r" "ar_anchored r" for r
    using that w(1) later_window [OF inv tu] by fastforce
  have le: "x \<le> u" if "x \<in> set ts" for x using that inv tu by (force simp: anchor_inv_def)
  show ?thesis
    using inv old le fresh w(2) by (auto simp: anchor_inv_def split: sum.splits)
qed

lemma anchor_run_inv: "anchor_run H env svc s t ts \<Longrightarrow> anchor_inv env s t ts"
proof (induction rule: anchor_run.induct)
  case (run_call s t ts u clock draw s' r)
  then show ?case using anchor_inv_call [of env s t ts u H svc clock draw s' "Inr r"] by simp
next
  case (run_fail s t ts u clock draw s' e)
  then show ?case using anchor_inv_call [of env s t ts u H svc clock draw s' "Inl e"] by simp
next
  case (run_other s t ts s')
  then show ?case by (simp add: anchor_inv_def window_anchored_def)
qed (simp add: anchor_inv_def)

section \<open>Properties\<close>

text \<open>
  C29. The scheduler anchors each window at most once: over any run of calls at ascending times, with any random draws,
  failures of the audit sinks and other changes of the storage in between, the calls that append an anchor lie in
  pairwise different windows of the configured period.
\<close>

theorem anchor_once_per_window:
  assumes "anchor_run H env svc s t ts"
  shows "distinct (map (windowStart (getRandomPeriodicAnchorPeriodMs env)) ts)"
  using anchor_run_inv [OF assms] by (simp add: anchor_inv_def)

lemma append_no_copies:
  assumes "getAuditImmutableMode env = ModeOff"
  obtains s' entry h where "appendAuditLog H env svc s nowMs event actor data eventId = Inr (s', entry)"
    "entryHashOf entry = Some h" "sto_get s' AUDIT_LAST_HASH_GLOBAL_KEY = JStr h"
  using assms
  by (simp add: appendAuditLog_def persist_off entryHashOf_def auditBaseEntry_def audit_keys Let_def)

text \<open>
  With the anchor enabled, no immutable copies asked for and a readable head of the audit log, every call returns;
  it reports a target inside the window of the call, and when the target has come the window is anchored after the
  call. A call that anchors does so at or after the target, and the head of the audit log is then the entry it reports.
\<close>

theorem anchor_when_due:
  assumes "isRandomPeriodicAnchorEnabled env" "getAuditImmutableMode env = ModeOff"
    "readHashHex (sto_get s AUDIT_LAST_HASH_GLOBAL_KEY) = Inr latestHead"
  shows "\<exists>s' r target. maybeAppendRandomPeriodicAnchor H env svc s clock draw t = (s', Inr r) \<and> ar_targetTsMs r = Some target
    \<and> of_int (anchor_window env t) \<le> target \<and> target < of_int (anchor_window env t + getRandomPeriodicAnchorPeriodMs env)
    \<and> (target \<le> of_int t \<longrightarrow> window_anchored env s' t)
    \<and> (ar_anchored r \<longrightarrow> target \<le> of_int t \<and> (\<exists>h. ar_entryHash r = Some h \<and> sto_get s' AUDIT_LAST_HASH_GLOBAL_KEY = JStr h))"
proof -
  define p where "p = getRandomPeriodicAnchorPeriodMs env"
  have pos: "0 < p" by (simp add: p_def anchor_period_positive)
  obtain s1 a where act: "activeAnchorState s draw p (windowStart p t) = (s1, a)"
    and call: "maybeAppendRandomPeriodicAnchor H env svc s clock draw t = anchorWindow H env svc s1 clock p t a"
    using anchor_call [OF assms(1)] unfolding p_def by metis
  note st = active_anchor_state [OF pos act]
  have head: "readHashHex (sto_get s1 AUDIT_LAST_HASH_GLOBAL_KEY) = Inr latestHead"
    using st(3) [of AUDIT_LAST_HASH_GLOBAL_KEY] assms(3) by (simp add: audit_keys RANDOM_ANCHOR_STATE_KEY_def)
  have bounds: "of_int (windowStart p t) \<le> an_targetTsMs a" "an_targetTsMs a < of_int (windowStart p t + p)"
    using st(1) unfolding isStateForWindow_def by simp_all
  have already: "window_anchored env s1 t" if "an_anchoredAtMs a \<noteq> None"
    using that st(1,2) by (auto simp: window_anchored_def Let_def p_def isStateForWindow_def)
  obtain s2 entry h where app: "appendAuditLog H env svc s1 clock RANDOM_ANCHOR_EVENT (auditActor ''system'' ''scheduler'')
      (anchorEntryData a (windowStart p t + p) t latestHead) ''system'' = Inr (s2, entry)"
    and h: "entryHashOf entry = Some h" "sto_get s2 AUDIT_LAST_HASH_GLOBAL_KEY = JStr h"
    using append_no_copies [OF assms(2)] by blast
  have kept: "sto_get (sto_put s2 RANDOM_ANCHOR_STATE_KEY v) AUDIT_LAST_HASH_GLOBAL_KEY = JStr h" for v
    using h(2) by (simp add: audit_keys RANDOM_ANCHOR_STATE_KEY_def)
  note anchored = anchored_state_window [OF pos p_def st(1)]
  show ?thesis
    unfolding p_def [symmetric] call anchorWindow_def head
    using bounds already anchored kept
    by (cases "an_anchoredAtMs a") (simp_all add: app h(1) anchorResult_def Let_def)
qed

section \<open>Examples\<close>

lemma off_anchor: "isRandomPeriodicAnchorEnabled offEnv" "getRandomPeriodicAnchorPeriodMs offEnv = 3600000"
  by code_simp+

text \<open>A call after its target; then one in the same hour and one in the next: the first and the third anchor.\<close>

abbreviation anchorHash :: "string \<Rightarrow> string" where
  "anchorHash \<equiv> (\<lambda>x. ''GENESIS'')"

definition anchor_at :: "storage \<Rightarrow> int \<Rightarrow> storage \<times> RandomPeriodicAnchorResult or_error" where
  "anchor_at s t = maybeAppendRandomPeriodicAnchor anchorHash offEnv noServices s t 5 t"

theorem anchor_when_due_witness:
  "isRandomPeriodicAnchorEnabled offEnv \<and> getAuditImmutableMode offEnv = ModeOff
   \<and> (\<exists>s' r. anchor_at [] 7300000 = (s', Inr r) \<and> window_anchored offEnv s' 7300000)"
proof -
  have g: "readHashHex (sto_get [] AUDIT_LAST_HASH_GLOBAL_KEY) = Inr POP_HASH_GENESIS_HEX" by (simp add: readHashHex_def)
  have "case snd (anchor_at [] 7300000) of Inl _ \<Rightarrow> False | Inr r \<Rightarrow> ar_targetTsMs r = Some 7200005"
    by code_simp
  then show ?thesis
    using anchor_when_due [OF off_anchor(1) offEnv_mode g, of anchorHash noServices 7300000 5 7300000] off_anchor(1) offEnv_mode
    unfolding anchor_at_def by fastforce
qed

theorem anchor_once_per_window_witness:
  "\<exists>s. anchor_run anchorHash offEnv noServices s 10900000 [10900000, 7300000]
     \<and> distinct (map (windowStart (getRandomPeriodicAnchorPeriodMs offEnv)) [10900000, 7300000])"
proof -
  let ?s1 = "fst (anchor_at [] 7300000)" let ?s2 = "fst (anchor_at ?s1 7400000)" let ?s3 = "fst (anchor_at ?s2 10900000)"
  let ?anchored = "\<lambda>s t. case snd (anchor_at s t) of Inl _ \<Rightarrow> None | Inr r \<Rightarrow> Some (ar_anchored r)"
  have "?anchored [] 7300000 = Some True" "?anchored ?s1 7400000 = Some False" "?anchored ?s2 10900000 = Some True"
    by code_simp+
  then obtain r1 r2 r3 where r: "anchor_at [] 7300000 = (?s1, Inr r1)" "ar_anchored r1"
      "anchor_at ?s1 7400000 = (?s2, Inr r2)" "\<not> ar_anchored r2" "anchor_at ?s2 10900000 = (?s3, Inr r3)" "ar_anchored r3"
    by (auto split: sum.splits simp: prod_eq_iff)
  have run: "anchor_run anchorHash offEnv noServices s' u (if ar_anchored r then u # ts else ts)"
    if "anchor_run anchorHash offEnv noServices s t ts" "t \<le> u" "anchor_at s u = (s', Inr r)" for s t ts u s' r
    using anchor_run.run_call [OF that(1,2) that(3) [unfolded anchor_at_def]] .
  have "anchor_run anchorHash offEnv noServices [] 0 []" by (rule anchor_run.run_start)
  from run [OF run [OF run [OF this _ r(1)] _ r(3)] _ r(5)] r(2,4,6)
  have "anchor_run anchorHash offEnv noServices ?s3 10900000 [10900000, 7300000]" by simp
  with anchor_once_per_window [OF this] show ?thesis by blast
qed

end
