(* ===== verification/Api_Trail.thy ===== *)
theory Api_Trail
  imports Handler_Base
begin

text \<open>
  The entry of every request (\<open>storeDO.ts\<close>, \<open>fetch\<close>): the security checks, the refusal of mutating requests when the
  required immutable audit cannot work, the handler, and the audit entry about the request, in which the values of
  sensitive keys are replaced and sizes are cut. The handler is an argument of \<open>fetch\<close>: what is shown of \<open>fetch\<close> holds
  for every handler. The query is the list of its name-value pairs.
\<close>

section \<open>Which requests fail closed\<close>

definition isAuditFailCloseExemptRoute :: "string \<Rightarrow> string \<Rightarrow> bool" where
  "isAuditFailCloseExemptRoute path method =
     (js_upper method = ''POST''
      \<and> (path = ''/api/admin/login'' \<or> path = ''/api/admin/invite'' \<or> path = ''/api/admin/invite/approve''
         \<or> path = ''/api/admin/invite/reject'' \<or> path = ''/api/admin/rename'' \<or> path = ''/api/admin/revoke''))"

definition isAuditFailClosed :: "Env \<Rightarrow> string \<Rightarrow> string \<Rightarrow> bool" where
  "isAuditFailClosed env path method =
     (if getAuditImmutableMode env \<noteq> Required then False
      else if \<not> isMutatingMethod method then False
      else if isAuditFailCloseExemptRoute path method then False
      else True)"

section \<open>Who acts\<close>

definition strOrEmpty :: "js \<Rightarrow> string" where
  "strOrEmpty v = (case v of JStr t \<Rightarrow> t | _ \<Rightarrow> [])"

definition bearerActor :: "Request \<Rightarrow> js" where
  "bearerActor request =
     auditActor ''operator''
       (case extractBearerToken request of Some t \<Rightarrow> (if t \<noteq> [] then ''authenticated'' else ''anonymous'') | None \<Rightarrow> ''anonymous'')"

definition walletActor :: "js \<Rightarrow> js" where
  "walletActor body =
     (let wallet = strOrEmpty (jget body ''walletAddress''); joinToken = strOrEmpty (jget body ''joinToken'');
          subject = (if wallet \<noteq> [] then wallet else joinToken)
      in auditActor ''wallet'' (maskActorId (if subject \<noteq> [] then subject else ''unknown'')))"

definition actorForAudit :: "string \<Rightarrow> Request \<Rightarrow> js \<Rightarrow> js" where
  "actorForAudit path request body =
     (if path = ''/api/audit/receipts/verify'' \<or> path = ''/api/audit/receipts/verify-code'' then auditActor ''auditor'' ''public''
      else if prefix ''/api/admin/'' path \<or> prefix ''/api/master/'' path then bearerActor request
      else if isAdminProtectedSchoolRoute path (rq_method request) then bearerActor request
      else if path = ''/v1/school/claims'' then walletActor body
      else if path = ''/api/cost-of-forgery/remediation/request''
      then (let userId = normalizeUserId (jget body ''userId'') in if userId \<noteq> [] then auditActor ''user'' userId else walletActor body)
      else if path = ''/api/users/register'' \<or> path = ''/api/auth/verify'' \<or> path = ''/api/users/tickets/sync''
           \<or> segmentBetween ''/api/events/'' ''/claim'' path \<noteq> None
      then (let userId = normalizeUserId (jget body ''userId'') in auditActor ''user'' (if userId \<noteq> [] then userId else ''anonymous''))
      else if prefix ''/v1/school/'' path then auditActor ''school'' ''public-api''
      else auditActor ''system'' ''api'')"

section \<open>What is kept of a body\<close>

definition AUDIT_MAX_DEPTH :: nat where "AUDIT_MAX_DEPTH = 4"
definition AUDIT_MAX_ARRAY :: nat where "AUDIT_MAX_ARRAY = 20"
definition AUDIT_MAX_KEYS :: nat where "AUDIT_MAX_KEYS = 50"
definition AUDIT_MAX_STRING :: nat where "AUDIT_MAX_STRING = 160"

definition isSensitiveKey :: "string \<Rightarrow> bool" where
  "isSensitiveKey key =
     (let lowered = js_lower key
      in contains_any [''password'', ''pin'', ''token'', ''authorization'', ''secret'', ''private''] lowered
         \<or> lowered = ''code'' \<or> suffix ''_code'' lowered)"

text \<open>The depth is bounded, so the recursion ends. A property \<open>__proto__\<close> counts among the first fifty and is not kept.\<close>

function (sequential) sanitizeAuditValue :: "nat \<Rightarrow> js \<Rightarrow> js" where
  "sanitizeAuditValue depth (JStr t) =
     (if AUDIT_MAX_DEPTH < depth then JStr ''[TRUNCATED_DEPTH]''
      else if AUDIT_MAX_STRING < length t then JStr (take AUDIT_MAX_STRING t @ ''...'') else JStr t)"
| "sanitizeAuditValue depth (JArr vs) =
     (if AUDIT_MAX_DEPTH < depth then JStr ''[TRUNCATED_DEPTH]''
      else JArr (map (sanitizeAuditValue (depth + 1)) (take AUDIT_MAX_ARRAY vs)))"
| "sanitizeAuditValue depth (JObj kvs) =
     (if AUDIT_MAX_DEPTH < depth then JStr ''[TRUNCATED_DEPTH]''
      else JObj (map (\<lambda>(key, v). (key, if isSensitiveKey key then JStr ''[REDACTED]'' else sanitizeAuditValue (depth + 1) v))
                   (assignable (take AUDIT_MAX_KEYS kvs))))"
| "sanitizeAuditValue depth v = (if AUDIT_MAX_DEPTH < depth then JStr ''[TRUNCATED_DEPTH]'' else v)"
  by pat_completeness auto
termination
  by (relation "measure (\<lambda>(depth, v). Suc AUDIT_MAX_DEPTH - depth)") auto

definition requestBodyForAudit :: "Request \<Rightarrow> js" where
  "requestBodyForAudit request =
     (if \<not> isMutatingMethod (rq_method request) then JUndef
      else if \<not> contains_any [''application/json''] (js_lower (case rq_header request ''content-type'' of Some t \<Rightarrow> t | None \<Rightarrow> [])) then JUndef
      else case rq_json request of Inr body \<Rightarrow> body | Inl _ \<Rightarrow> JObj [(''parseError'', JStr ''invalid_json'')])"

section \<open>The audit entry\<close>

definition is_alnum :: "char \<Rightarrow> bool" where
  "is_alnum c = (is_word_char c \<and> c \<noteq> CHR ''_'')"

text \<open>Each run of other characters becomes one underscore.\<close>

fun underscores :: "bool \<Rightarrow> string \<Rightarrow> string" where
  "underscores inRun [] = []"
| "underscores inRun (c # cs) =
     (if is_alnum c then c # underscores False cs else if inRun then underscores True cs else CHR ''_'' # underscores True cs)"

definition strip_underscores :: "string \<Rightarrow> string" where
  "strip_underscores t = rev (dropWhile (\<lambda>c. c = CHR ''_'') (rev (dropWhile (\<lambda>c. c = CHR ''_'') t)))"

definition apiAuditEventName :: "string \<Rightarrow> string \<Rightarrow> string" where
  "apiAuditEventName method route =
     (let token = js_upper (strip_underscores (underscores False
                    (filter (\<lambda>c. c \<noteq> CHR '':'') (dropWhile (\<lambda>c. c = CHR ''/'') route))))
      in ''API_'' @ js_upper method @ ''_'' @ (if token \<noteq> [] then token else ''ROOT''))"

definition statusClass :: "int \<Rightarrow> string" where
  "statusClass status = (if 500 \<le> status then ''5xx'' else if 400 \<le> status then ''4xx'' else if 300 \<le> status then ''3xx'' else ''2xx'')"

definition queryObject :: "(string \<times> string) list \<Rightarrow> (string \<times> js) list" where
  "queryObject params = enum_order (assignable (fold (\<lambda>(k, v) acc. kv_set k (JStr v) acc) params []))"

definition apiAuditData ::
  "Request \<Rightarrow> string \<Rightarrow> (string \<times> string) list \<Rightarrow> int \<Rightarrow> js \<Rightarrow> int \<Rightarrow> string option \<Rightarrow> js" where
  "apiAuditData request route params status requestBody durationMs errorMessage =
     JObj ([(''route'', JStr route), (''method'', JStr (js_upper (rq_method request))), (''status'', JInt status),
        (''statusClass'', JStr (statusClass status)), (''durationMs'', JInt durationMs),
        (''hasAuthorization'', JBool (case rq_header request ''Authorization'' of Some h \<Rightarrow> h \<noteq> [] | None \<Rightarrow> False)),
        (''origin'', JStr (case rq_header request ''origin'' of Some h \<Rightarrow> h | None \<Rightarrow> [])),
        (''requestBody'', sanitizeAuditValue 0 requestBody)]
       @ (if queryObject params \<noteq> [] then [(''query'', sanitizeAuditValue 0 (JObj (queryObject params)))] else [])
       @ (case errorMessage of Some m \<Rightarrow> (if m \<noteq> [] then [(''errorMessage'', JStr m)] else []) | None \<Rightarrow> []))"

text \<open>The error is the message thrown; the storage is then unchanged.\<close>

definition appendApiAuditTrail ::
  "(string \<Rightarrow> string) \<Rightarrow> Env \<Rightarrow> AuditServices \<Rightarrow> storage \<Rightarrow> int \<Rightarrow> Request \<Rightarrow> string \<Rightarrow> (string \<times> string) list \<Rightarrow> int \<Rightarrow> js
     \<Rightarrow> int \<Rightarrow> string option \<Rightarrow> storage or_error" where
  "appendApiAuditTrail H env svc s nowMs request path params status requestBody startedAt errorMessage =
     (if \<not> isApiPath path \<or> js_upper (rq_method request) = ''OPTIONS'' then Inr s
      else
        (let route = routeTemplate path
         in case appendAuditLog H env svc s nowMs (apiAuditEventName (rq_method request) route) (actorForAudit path request requestBody)
                   (apiAuditData request route params status requestBody (nowMs - startedAt) errorMessage)
                   (eventIdForAudit path requestBody) of
              Inr (s', _) \<Rightarrow> Inr s'
            | Inl message \<Rightarrow>
                (if isAuditFailClosed env path (rq_method request) then Inl (''audit append failed: '' @ message) else Inr s)))"

section \<open>The entry point\<close>

definition auditStatusToJs :: "AuditStatus \<Rightarrow> js" where
  "auditStatusToJs a = JObj [(''mode'', JStr (modeStr (as_mode a))),
     (''failClosedForMutatingRequests'', JBool (as_failClosedForMutatingRequests a)), (''operationalReady'', JBool (as_operationalReady a)),
     (''primaryImmutableSinkConfigured'', JBool (as_primaryImmutableSinkConfigured a)),
     (''sinks'', JObj [(''r2Configured'', JBool (as_r2Configured a)), (''kvConfigured'', JBool (as_kvConfigured a)),
        (''ingestConfigured'', JBool (as_ingestConfigured a))])]"

definition notOperational :: "Env \<Rightarrow> Response" where
  "notOperational env = json_response (JObj [(''error'', JStr ''audit immutable sink is not operational''),
     (''detail'', JStr ''Set AUDIT_LOGS or AUDIT_IMMUTABLE_INGEST_URL before mutating APIs in required mode''),
     (''audit'', auditStatusToJs (getAuditStatus env))]) 503"

definition auditPersistenceFailed :: "string \<Rightarrow> Response" where
  "auditPersistenceFailed message =
     json_response (JObj [(''error'', JStr ''audit log persistence failed''), (''detail'', JStr message)]) 503"

definition internalError :: Response where
  "internalError = json_response (JObj [(''error'', JStr ''internal server error'')]) 500"

text \<open>The answer to a preflight request of a browser, and to a path no handler has.\<close>

definition handleUnmatched :: "Env \<Rightarrow> storage \<Rightarrow> Request \<Rightarrow> outcome" where
  "handleUnmatched env s request =
     (if rq_method request = ''OPTIONS''
      then (s, Inr \<lparr>rs_status = 200, rs_body = JNull,
              rs_headers = [(''Access-Control-Allow-Origin'', case CORS_ORIGIN env of Some t \<Rightarrow> (if t \<noteq> [] then t else ''*'') | None \<Rightarrow> ''*''),
                (''Access-Control-Allow-Methods'', ''GET, POST, PUT, DELETE, OPTIONS''),
                (''Access-Control-Allow-Headers'', ''Content-Type, Authorization, X-Cost-Of-Forgery-Token'')]\<rparr>)
      else (s, Inr (json_response (JStr ''Not Found'') 404)))"

definition fetch ::
  "(string \<Rightarrow> string) \<Rightarrow> Env \<Rightarrow> AuditServices \<Rightarrow> (storage \<Rightarrow> Request \<Rightarrow> string \<Rightarrow> outcome) \<Rightarrow> storage \<Rightarrow> int \<Rightarrow> int
     \<Rightarrow> Request \<Rightarrow> string \<Rightarrow> (string \<times> string) list \<Rightarrow> storage \<times> Response" where
  "fetch H env svc handleRequest s startedAt nowMs request path params =
     (case enforceSecurityPreflight H env s request path startedAt of
        (s1, Some securityError) \<Rightarrow> (s1, securityError)
      | (s1, None) \<Rightarrow>
          (if isApiPath path \<and> isAuditFailClosed env path (rq_method request) \<and> \<not> as_operationalReady (getAuditStatus env)
           then (s1, notOperational env)
           else
             (let requestBody = requestBodyForAudit request;
                  (s2, result) = handleRequest s1 request path;
                  response = (case result of Inr r \<Rightarrow> r | Inl _ \<Rightarrow> internalError);
                  errorMessage = (case result of Inr _ \<Rightarrow> None | Inl m \<Rightarrow> Some m)
              in case appendApiAuditTrail H env svc s2 nowMs request path params (rs_status response) requestBody startedAt errorMessage of
                   Inr s3 \<Rightarrow> (s3, response)
                 | Inl message \<Rightarrow>
                     (if isAuditFailClosed env path (rq_method request) then (s2, auditPersistenceFailed message) else (s2, response)))))"

end
