(* ===== verification/Trail_Spec.thy ===== *)
theory Trail_Spec
  imports Api_Trail Rate_Spec Audit_Runs
begin

text \<open>
  What the entry point promises, whatever the handler does: the audit entry of a request does not depend on the values
  of secret names; in required mode a mutating request is refused before anything but the rate limits has changed when
  no immutable sink is configured, and one that is answered with anything but the refusal has an audit entry that names
  its route and its status.
\<close>

section \<open>Sensitive values\<close>

text \<open>
  The names whose values are secrets, said independently of the code: in any capitalisation, the name contains one of the
  words, or it is \<open>code\<close> or ends in \<open>_code\<close>.
\<close>

definition secretWords :: "string list" where
  "secretWords = [''password'', ''pin'', ''token'', ''authorization'', ''secret'', ''private'']"

definition secretName :: "string \<Rightarrow> bool" where
  "secretName k =
     (list_ex (\<lambda>w. sublist w (map lower_char k)) secretWords \<or> map lower_char k = ''code'' \<or> suffix ''_code'' (map lower_char k))"

lemma contains_any_sublist: "sublist w s \<Longrightarrow> w \<in> set ws \<Longrightarrow> w \<noteq> [] \<Longrightarrow> contains_any ws s"
  by (induction s) (auto simp: sublist_Cons_right list_ex_iff)

lemma secret_names_sensitive: "secretName k \<Longrightarrow> isSensitiveKey k"
  unfolding secretName_def secretWords_def isSensitiveKey_def js_lower_def Let_def
  by (auto intro: contains_any_sublist)

text \<open>A body with the values of its secret names taken out, at any depth.\<close>

fun withoutSecrets :: "js \<Rightarrow> js" where
  "withoutSecrets (JArr vs) = JArr (map withoutSecrets vs)"
| "withoutSecrets (JObj kvs) = JObj (map (\<lambda>(k, v). (k, if secretName k then JNull else withoutSecrets v)) kvs)"
| "withoutSecrets v = v"

lemma sanitize_withoutSecrets: "sanitizeAuditValue depth (withoutSecrets v) = sanitizeAuditValue depth v"
proof (induction depth v rule: sanitizeAuditValue.induct)
  case (2 depth vs)
  then show ?case by (simp add: take_map)
next
  case (3 depth kvs)
  have "sanitizeAuditValue (depth + 1) (withoutSecrets v) = sanitizeAuditValue (depth + 1) v"
    if "\<not> AUDIT_MAX_DEPTH < depth" "(k, v) \<in> set (assignable (take AUDIT_MAX_KEYS kvs))" "\<not> isSensitiveKey k" for k v
    using that 3 by blast
  then show ?case
    by (auto simp: take_map assignable_def filter_map comp_def case_prod_unfold dest: secret_names_sensitive)
qed simp_all

lemma withoutSecrets_get:
  assumes "withoutSecrets v = withoutSecrets w" "\<not> secretName k"
  shows "withoutSecrets (jget v k) = withoutSecrets (jget w k)" "is_obj v = is_obj w"
proof -
  have m: "map_of (map (\<lambda>(k, v). (k, if secretName k then JNull else withoutSecrets v)) kvs) k
      = map_option withoutSecrets (map_of kvs k)" for kvs
    using assms(2) by (induction kvs) auto
  have g: "jget (withoutSecrets u) k = withoutSecrets (jget u k)" for u
    by (cases u) (simp_all add: m split: option.splits)
  have o: "is_obj (withoutSecrets u) = is_obj u" for u by (cases u) simp_all
  from assms(1) g o show "withoutSecrets (jget v k) = withoutSecrets (jget w k)" "is_obj v = is_obj w" by metis+
qed

lemma withoutSecrets_str:
  assumes "withoutSecrets v = withoutSecrets w"
  shows "trimmed_str v = trimmed_str w" "normalizeUserId v = normalizeUserId w" "strOrEmpty v = strOrEmpty w"
proof -
  have "trimmed_str (withoutSecrets u) = trimmed_str u" "normalizeUserId (withoutSecrets u) = normalizeUserId u"
    "strOrEmpty (withoutSecrets u) = strOrEmpty u" for u
    by (cases u; simp add: normalizeUserId_def strOrEmpty_def)+
  with assms show "trimmed_str v = trimmed_str w" "normalizeUserId v = normalizeUserId w" "strOrEmpty v = strOrEmpty w" by metis+
qed

lemma public_keys: "\<not> secretName ''eventId''" "\<not> secretName ''userId''" "\<not> secretName ''walletAddress''"
  by code_simp+

text \<open>The requests whose actor is named after the join token: those that name a wallet or, without one, the token.\<close>

definition names_token :: "string \<Rightarrow> js \<Rightarrow> bool" where
  "names_token path body =
     ((path = ''/v1/school/claims''
       \<or> path = ''/api/cost-of-forgery/remediation/request'' \<and> normalizeUserId (jget body ''userId'') = [])
      \<and> strOrEmpty (jget body ''walletAddress'') = [])"

lemma same_actor:
  assumes "withoutSecrets v = withoutSecrets w" "\<not> names_token path v"
  shows "actorForAudit path request v = actorForAudit path request w" "eventIdForAudit path v = eventIdForAudit path w"
proof -
  note g = withoutSecrets_get [OF assms(1)]
  have e: "trimmed_str (jget v ''eventId'') = trimmed_str (jget w ''eventId'')" "is_obj v = is_obj w"
    "normalizeUserId (jget v ''userId'') = normalizeUserId (jget w ''userId'')"
    "strOrEmpty (jget v ''walletAddress'') = strOrEmpty (jget w ''walletAddress'')"
    using withoutSecrets_str [OF g(1) [OF public_keys(1)]] withoutSecrets_str [OF g(1) [OF public_keys(2)]]
      withoutSecrets_str [OF g(1) [OF public_keys(3)]] g(2) [OF public_keys(1)] by simp_all
  show "eventIdForAudit path v = eventIdForAudit path w" unfolding eventIdForAudit_def e(1,2) by (rule refl)
  show "actorForAudit path request v = actorForAudit path request w"
  proof (cases "strOrEmpty (jget v ''walletAddress'') = []")
    case True
    then have "(path = ''/v1/school/claims'') = False"
      "path = ''/api/cost-of-forgery/remediation/request'' \<Longrightarrow> (normalizeUserId (jget w ''userId'') = []) = False"
      using assms(2) e(3) by (auto simp: names_token_def)
    then show ?thesis unfolding actorForAudit_def Let_def e(3) by (simp cong: if_cong)
  next
    case False
    then have "walletActor v = walletActor w" using e(4) by (simp add: walletActor_def)
    then show ?thesis unfolding actorForAudit_def e(3) by (simp only:)
  qed
qed

text \<open>
  C30. The audit entry of a request keeps no secret of its body: two bodies that differ only in the values of secret names
  (a name with \<open>password\<close>, \<open>pin\<close>, \<open>token\<close>, \<open>authorization\<close>, \<open>secret\<close> or \<open>private\<close> in it, \<open>code\<close>, or a name that ends
  in \<open>_code\<close>, in any capitalisation and at any depth) give the same entry and the same storage. Excepted are a claim
  without a wallet, and a remediation request without a user and a wallet: their actor is named after the join token.
\<close>

theorem audit_entry_hides_secrets:
  assumes "withoutSecrets body = withoutSecrets body'" "\<not> names_token path body"
  shows "appendApiAuditTrail H env svc s nowMs request path params status body startedAt errorMessage =
    appendApiAuditTrail H env svc s nowMs request path params status body' startedAt errorMessage"
proof -
  have "sanitizeAuditValue 0 body = sanitizeAuditValue 0 body'" using sanitize_withoutSecrets assms(1) by metis
  then show ?thesis unfolding appendApiAuditTrail_def apiAuditData_def by (simp add: same_actor [OF assms])
qed

text \<open>A join token of at most eight characters is the name of the actor as it stands.\<close>

lemma short_join_token_logged:
  assumes "strOrEmpty (jget body ''walletAddress'') = []" "jget body ''joinToken'' = JStr t" "js_trim t = t" "t \<noteq> []" "length t \<le> 8"
  shows "actorForAudit ''/v1/school/claims'' request body = auditActor ''wallet'' t"
proof -
  have "actorForAudit ''/v1/school/claims'' request body = walletActor body"
    unfolding actorForAudit_def isAdminProtectedSchoolRoute_def by (simp add: segmentBetween_def Let_def)
  moreover have "strOrEmpty (JStr t) = t" by (simp add: strOrEmpty_def)
  ultimately show ?thesis using assms by (simp add: walletActor_def maskActorId_def Let_def)
qed

section \<open>Failing closed\<close>

lemma preflight_frame:
  assumes "enforceSecurityPreflight H env s rq path now = (s', e)" "\<not> prefix SECURITY_RATE_LIMIT_PREFIX k"
  shows "sto_get s' k = sto_get s k"
proof -
  have "k \<noteq> rateClientKey H p rq" "k \<noteq> globalRateKey env p" for p
    using assms(2) by (auto simp: rateClientKey_def globalRateKey_def)
  then show ?thesis
    using assms(1)
    by (auto simp: enforceSecurityPreflight_def enforceSecurityRateLimit_def consume_frame split: option.splits if_splits prod.splits)
qed

lemma preflight_status: "enforceSecurityPreflight H env s rq path now = (s', Some r) \<Longrightarrow> rs_status r = 413 \<or> rs_status r = 429"
  by (auto simp: enforceSecurityPreflight_def enforceSecurityRateLimit_def enforceSecurityBodySizeLimit_def payloadTooLargeResponse_def
      rateLimitExceededResponse_def json_response_def Let_def split: option.splits if_splits prod.splits)

text \<open>
  C31. In required mode without an immutable sink, a mutating request to a path of the API that is not exempt changes
  nothing but the counters of the rate limits, whatever its handler would do, and is answered 413, 429 or 503. Exempt are
  six \<open>POST\<close> routes under \<open>/api/admin/\<close>: login, invite, its approval and rejection, rename and revoke.
\<close>

theorem refused_without_effects:
  assumes "isApiPath path" "isAuditFailClosed env path (rq_method request)" "\<not> as_operationalReady (getAuditStatus env)"
    "fetch H env svc handleRequest s startedAt nowMs request path params = (s', r)"
  shows "rs_status r \<in> {413, 429, 503} \<and> (\<forall>k. \<not> prefix SECURITY_RATE_LIMIT_PREFIX k \<longrightarrow> sto_get s' k = sto_get s k)"
proof -
  obtain s1 e where pre: "enforceSecurityPreflight H env s request path startedAt = (s1, e)"
    by (cases "enforceSecurityPreflight H env s request path startedAt")
  then have "s' = s1 \<and> r = (case e of Some x \<Rightarrow> x | None \<Rightarrow> notOperational env)"
    using assms by (auto simp: fetch_def split: option.splits)
  moreover have "rs_status x = 413 \<or> rs_status x = 429" if "e = Some x" for x using pre that preflight_status by blast
  ultimately show ?thesis using preflight_frame [OF pre] by (cases e) (auto simp: notOperational_def)
qed

lemma appended_entry:
  assumes "appendAuditLog H env svc s n ev actor data e = Inr (s', entry)" "data \<noteq> JUndef" "data \<noteq> JNull"
  shows "\<exists>h. sto_get s' AUDIT_LAST_HASH_GLOBAL_KEY = JStr h \<and> sto_get s' (auditEntryByHashKey h) = entry"
    "jget entry ''event'' = JStr ev" "jget entry ''data'' = data"
  using assms by (auto simp: appendAuditLog_def auditBaseEntry_def audit_keys Let_def split: sum.splits option.splits)

text \<open>
  C32. In required mode, a mutating request to a path of the API that is not one of the six exempt \<open>POST\<close> routes under
  \<open>/api/admin/\<close> and passes the security checks is answered 503 or leaves, as the last entry of the audit log, an entry with its route, its method and the status of the answer.
\<close>

theorem answered_requests_audited:
  assumes "isApiPath path" "isAuditFailClosed env path (rq_method request)"
    "enforceSecurityPreflight H env s request path startedAt = (s1, None)"
    "fetch H env svc handleRequest s startedAt nowMs request path params = (s', r)"
  shows "rs_status r = 503 \<or> (\<exists>h entry. sto_get s' AUDIT_LAST_HASH_GLOBAL_KEY = JStr h \<and> sto_get s' (auditEntryByHashKey h) = entry
     \<and> jget entry ''event'' = JStr (apiAuditEventName (rq_method request) (routeTemplate path))
     \<and> jget (jget entry ''data'') ''route'' = JStr (routeTemplate path)
     \<and> jget (jget entry ''data'') ''method'' = JStr (js_upper (rq_method request))
     \<and> jget (jget entry ''data'') ''status'' = JInt (rs_status r))"
proof -
  obtain s2 result where h: "handleRequest s1 request path = (s2, result)" by (cases "handleRequest s1 request path")
  define response where "response = (case result of Inr r \<Rightarrow> r | Inl _ \<Rightarrow> internalError)"
  define message where "message = (case result of Inr _ \<Rightarrow> None | Inl m \<Rightarrow> Some m)"
  let ?trail = "appendApiAuditTrail H env svc s2 nowMs request path params (rs_status response) (requestBodyForAudit request) startedAt message"
  let ?data = "apiAuditData request (routeTemplate path) params (rs_status response) (requestBodyForAudit request) (nowMs - startedAt) message"
  have "js_upper (rq_method request) \<noteq> ''OPTIONS''"
    using assms(2) by (auto simp: isAuditFailClosed_def isMutatingMethod_def Let_def split: if_splits)
  then have trail: "\<exists>entry. appendAuditLog H env svc s2 nowMs (apiAuditEventName (rq_method request) (routeTemplate path))
      (actorForAudit path request (requestBodyForAudit request)) ?data (eventIdForAudit path (requestBodyForAudit request)) = Inr (s3, entry)"
    if "?trail = Inr s3" for s3
    using that assms(1,2) by (auto simp: appendApiAuditTrail_def Let_def split: sum.splits)
  have d: "?data \<noteq> JUndef" "?data \<noteq> JNull" "jget ?data ''route'' = JStr (routeTemplate path)"
    "jget ?data ''method'' = JStr (js_upper (rq_method request))" "jget ?data ''status'' = JInt (rs_status response)"
    by (simp_all add: apiAuditData_def)
  have f: "(s', r) = (if \<not> as_operationalReady (getAuditStatus env) then (s1, notOperational env)
      else case ?trail of Inr s3 \<Rightarrow> (s3, response) | Inl m \<Rightarrow> (s2, auditPersistenceFailed m))"
    unfolding assms(4) [symmetric] fetch_def by (simp add: assms(1-3) h response_def [symmetric] message_def [symmetric] Let_def split: sum.split)
  show ?thesis
  proof (cases "as_operationalReady (getAuditStatus env)")
    case True
    show ?thesis
    proof (cases ?trail)
      case (Inr s3)
      from trail [OF this] obtain entry where ap: "appendAuditLog H env svc s2 nowMs
          (apiAuditEventName (rq_method request) (routeTemplate path)) (actorForAudit path request (requestBodyForAudit request))
          ?data (eventIdForAudit path (requestBodyForAudit request)) = Inr (s3, entry)" by blast
      have "s' = s3" "r = response" using f True Inr by simp_all
      then show ?thesis using appended_entry [OF ap d(1,2)] d(3-5) by auto
    qed (use f True in \<open>simp add: auditPersistenceFailed_def\<close>)
  qed (use f in \<open>simp add: notOperational_def\<close>)
qed

section \<open>Examples\<close>

text \<open>A login with two passwords; a registration refused; the same one with a sink that stores the copies.\<close>

definition loginBody :: "string \<Rightarrow> js" where
  "loginBody password = JObj [(''password'', JStr password), (''name'', JStr ''op'')]"

definition signupRequest :: Request where
  "signupRequest = \<lparr>rq_method = ''POST'', rq_headers = [(''Content-Length'', ''20'')], rq_chunks = None,
     rq_json = Inr (JObj [(''userId'', JStr ''alice'')])\<rparr>"

theorem audit_entry_hides_secrets_witness:
  "withoutSecrets (loginBody ''one'') = withoutSecrets (loginBody ''two'') \<and> \<not> names_token ''/api/admin/login'' (loginBody ''one'')
   \<and> appendApiAuditTrail (\<lambda>x. x) offEnv noServices [] 0 signupRequest ''/api/admin/login'' [] 200 (loginBody ''one'') 0 None
     = appendApiAuditTrail (\<lambda>x. x) offEnv noServices [] 0 signupRequest ''/api/admin/login'' [] 200 (loginBody ''two'') 0 None"
proof -
  have "withoutSecrets (loginBody ''one'') = withoutSecrets (loginBody ''two'')" "\<not> names_token ''/api/admin/login'' (loginBody ''one'')"
    by code_simp+
  then show ?thesis using audit_entry_hides_secrets by blast
qed

definition writingHandler :: "storage \<Rightarrow> Request \<Rightarrow> string \<Rightarrow> outcome" where
  "writingHandler s request path = respond (sto_put s ''user:alice'' (JBool True)) (JObj [(''ok'', JBool True)]) 200"

abbreviation fetchRegister :: "Env \<Rightarrow> AuditServices \<Rightarrow> storage \<times> Response" where
  "fetchRegister env svc \<equiv> fetch (\<lambda>x. ''h'') env svc writingHandler [] 0 5 signupRequest ''/api/users/register'' []"

theorem refused_without_effects_witness:
  "\<exists>s' r. fetchRegister emptyEnv noServices = (s', r) \<and> rs_status r \<in> {413, 429, 503} \<and> sto_get s' ''user:alice'' = sto_get [] ''user:alice''"
proof -
  obtain s' r where f: "fetchRegister emptyEnv noServices = (s', r)" by (cases "fetchRegister emptyEnv noServices")
  have "isApiPath ''/api/users/register''" "isAuditFailClosed emptyEnv ''/api/users/register'' (rq_method signupRequest)"
    "\<not> as_operationalReady (getAuditStatus emptyEnv)" "\<not> prefix SECURITY_RATE_LIMIT_PREFIX ''user:alice''"
    by code_simp+
  with refused_without_effects [OF this(1-3) f] f show ?thesis by blast
qed

definition sinkEnv :: Env where
  "sinkEnv = emptyEnv\<lparr>AUDIT_LOGS := True\<rparr>"

definition sinkServices :: AuditServices where
  "sinkServices = noServices\<lparr>r2_put := (\<lambda>k p m. Inr True)\<rparr>"

theorem answered_requests_audited_witness:
  "\<exists>s' r h. fetchRegister sinkEnv sinkServices = (s', r) \<and> rs_status r = 200 \<and> sto_get s' AUDIT_LAST_HASH_GLOBAL_KEY = JStr h
     \<and> jget (sto_get s' (auditEntryByHashKey h)) ''event'' = JStr ''API_POST_API_USERS_REGISTER''
     \<and> jget (jget (sto_get s' (auditEntryByHashKey h)) ''data'') ''status'' = JInt 200"
proof -
  obtain s' r where f: "fetchRegister sinkEnv sinkServices = (s', r)" by (cases "fetchRegister sinkEnv sinkServices")
  have "rs_status (snd (fetchRegister sinkEnv sinkServices)) = 200" by code_simp
  then have st: "rs_status r = 200" by (simp add: f)
  have "snd (enforceSecurityPreflight (\<lambda>x. ''h'') sinkEnv [] signupRequest ''/api/users/register'' 0) = None" by code_simp
  then obtain s1 where pre: "enforceSecurityPreflight (\<lambda>x. ''h'') sinkEnv [] signupRequest ''/api/users/register'' 0 = (s1, None)"
    by (metis prod.collapse)
  have k: "isApiPath ''/api/users/register''" "isAuditFailClosed sinkEnv ''/api/users/register'' (rq_method signupRequest)"
    "apiAuditEventName (rq_method signupRequest) (routeTemplate ''/api/users/register'') = ''API_POST_API_USERS_REGISTER''"
    by code_simp+
  show ?thesis using answered_requests_audited [OF k(1,2) pre f] st unfolding k(3) f by auto
qed

end
