(* ===== verification/Event_Handlers.thy ===== *)
theory Event_Handlers
  imports Claim_Handlers
begin

text \<open>
  The endpoints for events (\<open>storeDO.ts\<close>): the list, with the events of the operator only when the scope is \<open>mine\<close>; the
  creation, behind the operator context, the checks of the body, the security guard, the check for a grant that is
  already linked and the issue limit; one event; its closing; the list of its claimants. The readings of the clock
  within one request are taken as one.
\<close>

section \<open>Reading the body of a new event\<close>

text \<open>A number is rounded down, a string of digits is read; \<open>None\<close> is \<open>NaN\<close>.\<close>

definition wholeNumber :: "js \<Rightarrow> int option" where
  "wholeNumber raw =
     (case raw of
        JNum r \<Rightarrow> Some \<lfloor>r\<rfloor>
      | JStr t \<Rightarrow> (if all_digits (js_trim t) then Some (digits_val (js_trim t)) else None)
      | _ \<Rightarrow> None)"

definition orNumber :: "int \<Rightarrow> int option \<Rightarrow> int" where
  "orNumber d n = (case n of Some i \<Rightarrow> i | None \<Rightarrow> d)"

definition riskProfileStr :: "EventRiskProfile \<Rightarrow> string" where
  "riskProfileStr p = (case p of Risk_school_internal \<Rightarrow> ''school_internal'' | Risk_public \<Rightarrow> ''public'')"

definition maxClaimsOf :: "js \<Rightarrow> int option" where
  "maxClaimsOf raw = (if raw = JNull \<or> raw = JStr ''unlimited'' then None else Some (orNumber 1 (wholeNumber raw)))"

text \<open>The data of the event, or the message of the error 400.\<close>

definition parseEventBody :: "js \<Rightarrow> CreateEventData or_error" where
  "parseEventBody body =
     (let title = strField body ''title''; datetime = strField body ''datetime''; host = strField body ''host'';
          rawRiskProfile = strField body ''riskProfile'';
          parsedRiskProfile = normalizeEventRiskProfile (JStr rawRiskProfile);
          riskProfile = (case parsedRiskProfile of Some p \<Rightarrow> p | None \<Rightarrow> Risk_school_internal);
          ticketTokenAmount = wholeNumber (jget body ''ticketTokenAmount'');
          claimIntervalDays = orNumber 30 (wholeNumber (jget body ''claimIntervalDays''));
          maxClaimsPerInterval = maxClaimsOf (jget body ''maxClaimsPerInterval'')
      in if title = [] \<or> datetime = [] \<or> host = [] then Inl ''title, datetime, host are required''
         else if rawRiskProfile \<noteq> [] \<and> parsedRiskProfile = None then Inl ''riskProfile must be \"school_internal\" or \"public\"''
         else case ticketTokenAmount of
                None \<Rightarrow> Inl ''ticketTokenAmount must be a positive integer''
              | Some amount \<Rightarrow>
                  (if amount \<le> 0 then Inl ''ticketTokenAmount must be a positive integer''
                   else if claimIntervalDays \<le> 0 then Inl ''claimIntervalDays must be a positive integer''
                   else if (case maxClaimsPerInterval of Some n \<Rightarrow> n \<le> 0 | None \<Rightarrow> False)
                   then Inl ''maxClaimsPerInterval must be null or a positive integer''
                   else Inr \<lparr>ce_title = title, ce_datetime = datetime, ce_host = host, ce_state = jget body ''state'',
                     ce_riskProfile = Some (riskProfileStr riskProfile),
                     ce_solanaMint = normalizeStringField (jget body ''solanaMint''),
                     ce_solanaAuthority = normalizeStringField (jget body ''solanaAuthority''),
                     ce_solanaGrantId = normalizeStringField (jget body ''solanaGrantId''),
                     ce_ticketTokenAmount = JInt amount, ce_claimIntervalDays = JInt claimIntervalDays,
                     ce_maxClaimsPerInterval = (case maxClaimsPerInterval of Some n \<Rightarrow> JInt n | None \<Rightarrow> JNull)\<rparr>))"

section \<open>Creating an event\<close>

text \<open>The on-chain grant of an event, when it is complete.\<close>

definition grantOf :: "js \<Rightarrow> (string \<times> string \<times> string) option" where
  "grantOf event =
     (case (normalizeStringField (jget event ''solanaMint''), normalizeStringField (jget event ''solanaAuthority''),
            normalizeStringField (jget event ''solanaGrantId'')) of
        (Some m, Some a, Some g) \<Rightarrow> Some (m, a, g) | _ \<Rightarrow> None)"

definition requestedGrant :: "CreateEventData \<Rightarrow> (string \<times> string \<times> string) option" where
  "requestedGrant data =
     (case (ce_solanaMint data, ce_solanaAuthority data, ce_solanaGrantId data) of
        (Some m, Some a, Some g) \<Rightarrow> Some (m, a, g) | _ \<Rightarrow> None)"

definition duplicatedGrant :: "storage \<Rightarrow> CreateEventData \<Rightarrow> js option" where
  "duplicatedGrant s data =
     (case requestedGrant data of
        None \<Rightarrow> None
      | Some grant \<Rightarrow> find (\<lambda>event. grantOf event = Some grant) (getEvents doStorageAdapter s))"

definition eventCreateAudit :: "OperatorIdentity \<Rightarrow> CreateEventData \<Rightarrow> string \<Rightarrow> js" where
  "eventCreateAudit operator data eventId =
     JObj [(''title'', JStr (ce_title data)), (''datetime'', JStr (ce_datetime data)), (''host'', JStr (ce_host data)),
       (''riskProfile'', jstr_opt (ce_riskProfile data)), (''eventId'', JStr eventId),
       (''createdByAdminId'', JStr (op_adminId operator)), (''createdByAdminName'', JStr (op_name operator)),
       (''createdBySource'', JStr (sourceStr (op_source operator))), (''solanaMint'', jstr_null (ce_solanaMint data)),
       (''solanaAuthority'', jstr_null (ce_solanaAuthority data)), (''solanaGrantId'', jstr_null (ce_solanaGrantId data)),
       (''ticketTokenAmount'', ce_ticketTokenAmount data), (''claimIntervalDays'', ce_claimIntervalDays data),
       (''maxClaimsPerInterval'', ce_maxClaimsPerInterval data)]"

text \<open>What follows the guards: the event, its owner, the audit entry and the log entry.\<close>

definition storeNewEvent ::
  "(string \<Rightarrow> string) \<Rightarrow> Env \<Rightarrow> AuditServices \<Rightarrow> uuids \<Rightarrow> storage \<Rightarrow> int \<Rightarrow> OperatorIdentity \<Rightarrow> AdminSecurityActor \<Rightarrow> CreateEventData
     \<Rightarrow> outcome" where
  "storeNewEvent H env svc uid s nowMs operator actor data =
     (let (s1, event) = createEvent doStorageAdapter s data nowMs;
          eventId = sfield event ''id'';
          s2 = sto_put s1 (eventOwnerKey eventId) (eventOwnerToJs (operatorToEventOwner operator nowMs))
      in appendThen H env svc s2 nowMs ''EVENT_CREATE'' (operatorActor operator) (eventCreateAudit operator data eventId) eventId
           (\<lambda>s3 _. respond (fst (appendAdminSecurityLog H (uid ''log_success'') s3 ''execution'' ''event_create_success'' actor
                              (Some (sa_actorId actor)) (Some (JObj [(''eventId'', JStr eventId), (''title'', JStr (ce_title data))])) nowMs))
                     event 201))"

definition handleEventCreate ::
  "(string \<Rightarrow> string) \<Rightarrow> Env \<Rightarrow> AuditServices \<Rightarrow> uuids \<Rightarrow> storage \<Rightarrow> int \<Rightarrow> Request \<Rightarrow> outcome" where
  "handleEventCreate H env svc uid s nowMs request =
     (case ensureOperatorContext env s nowMs request of
        (s0, Inl resp) \<Rightarrow> (s0, Inr resp)
      | (s0, Inr (operator, actor)) \<Rightarrow>
          (case rq_json request of
             Inl _ \<Rightarrow> respond s0 (errorBody ''invalid body'') 400
           | Inr body \<Rightarrow>
               (case parseEventBody body of
                  Inl message \<Rightarrow> respond s0 (errorBody message) 400
                | Inr data \<Rightarrow>
                    (case guardEventCreate H uid s0 request actor (ce_title data) (ce_host data) nowMs of
                       (s1, Inl resp) \<Rightarrow> (s1, Inr resp)
                     | (s1, Inr _) \<Rightarrow>
                         (case duplicatedGrant s1 data of
                            Some event \<Rightarrow>
                              respond s1 (errorBody (''on-chain grant config already linked to event: '' @ sfield event ''id'')) 409
                          | None \<Rightarrow>
                              (case enforceAdminEventIssueLimit H env s1 (op_adminId operator) nowMs of
                                 (s2, Some resp) \<Rightarrow> (s2, Inr resp)
                               | (s2, None) \<Rightarrow> storeNewEvent H env svc uid s2 nowMs operator actor data))))))"

section \<open>Reading and closing events\<close>

definition handleEventList :: "Env \<Rightarrow> storage \<Rightarrow> Request \<Rightarrow> string option \<Rightarrow> outcome" where
  "handleEventList env s request scopeParam =
     (let scope = js_lower (js_trim (case scopeParam of Some t \<Rightarrow> t | None \<Rightarrow> []));
          items = getEvents doStorageAdapter s;
          answer = (\<lambda>es. respond s (JObj [(''items'', JArr es), (''nextCursor'', JUndef)]) 200)
      in if scope = ''mine'' then
           (case authenticateOperator env s request of
              None \<Rightarrow> (s, Inr unauthorizedResponse)
            | Some operator \<Rightarrow>
                (if op_role operator = RoleMaster then answer items
                 else answer (filter (\<lambda>event. case getEventOwnerRecord s (sfield event ''id'') of
                                        Some owner \<Rightarrow> eo_adminId owner = op_adminId operator | None \<Rightarrow> False) items)))
         else answer items)"

definition handleEventGet :: "storage \<Rightarrow> string \<Rightarrow> outcome" where
  "handleEventGet s eventId =
     (case getEvent doStorageAdapter s eventId of
        None \<Rightarrow> respond s (schoolClaimFailure ''not_found'' MSG_event_not_found) 404
      | Some event \<Rightarrow> respond s event 200)"

definition handleEventClose ::
  "(string \<Rightarrow> string) \<Rightarrow> Env \<Rightarrow> AuditServices \<Rightarrow> uuids \<Rightarrow> storage \<Rightarrow> int \<Rightarrow> Request \<Rightarrow> string \<Rightarrow> outcome" where
  "handleEventClose H env svc uid s nowMs request eventId =
     (case ensureOperatorContext env s nowMs request of
        (s0, Inl resp) \<Rightarrow> (s0, Inr resp)
      | (s0, Inr (operator, actor)) \<Rightarrow>
          (case enforceAdminSecurityOperation H uid s0 ''event_close'' actor nowMs of
             (s1, Inl resp) \<Rightarrow> (s1, Inr resp)
           | (s1, Inr _) \<Rightarrow>
               (case getEvent doStorageAdapter s1 eventId of
                  None \<Rightarrow> respond s1 (errorBody ''event not found'') 404
                | Some event \<Rightarrow>
                    (case ensureOperatorCanAccessEvent s1 operator eventId of
                       Some forbidden \<Rightarrow> (s1, Inr forbidden)
                     | None \<Rightarrow>
                         (let state = jget event ''state'';
                              previousState = (if state = JUndef \<or> state = JNull then JStr ''published'' else state)
                          in if previousState = JStr ''ended'' then respond s1 event 200
                             else case updateEventState doStorageAdapter s1 eventId ''ended'' of
                                    (s2, None) \<Rightarrow> respond s2 (errorBody ''event not found'') 404
                                  | (s2, Some updated) \<Rightarrow>
                                      appendThen H env svc s2 nowMs ''EVENT_CLOSE'' (operatorActor operator)
                                        (JObj [(''eventId'', JStr eventId), (''previousState'', previousState), (''nextState'', JStr ''ended''),
                                           (''closedByAdminId'', JStr (op_adminId operator)), (''closedByAdminName'', JStr (op_name operator)),
                                           (''closedBySource'', JStr (sourceStr (op_source operator)))]) eventId
                                        (\<lambda>s3 _. respond (fst (appendAdminSecurityLog H (uid ''log_success'') s3 ''execution'' ''event_close_success''
                                                   actor None (Some (JObj [(''eventId'', JStr eventId), (''state'', JStr ''ended'')])) nowMs))
                                           updated 200))))))"

definition claimantItem :: "storage \<Rightarrow> Claimant \<Rightarrow> js" where
  "claimantItem s c =
     (let userRaw = sto_get s (userKey (cl_subject c));
          displayName = (if jhas userRaw ''displayName'' then jget userRaw ''displayName'' else JUndef)
      in JObj [(''subject'', JStr (cl_subject c)),
           (''displayName'', if displayName = JUndef \<or> displayName = JNull then JStr ''-'' else displayName),
           (''confirmationCode'', jstr_opt (cl_confirmationCode c)),
           (''claimedAt'', if cl_claimedAt c \<noteq> 0 then JStr (js_toISOString (cl_claimedAt c)) else JUndef)])"

definition handleClaimants :: "Env \<Rightarrow> storage \<Rightarrow> Request \<Rightarrow> string \<Rightarrow> outcome" where
  "handleClaimants env s request eventId =
     (case requireAdminAuthorization env s request of
        Some authError \<Rightarrow> (s, Inr authError)
      | None \<Rightarrow>
          (case getEvent doStorageAdapter s eventId of
             None \<Rightarrow> respond s (errorBody ''event not found'') 404
           | Some event \<Rightarrow>
               (case authenticateOperator env s request of
                  None \<Rightarrow> (s, Inr unauthorizedResponse)
                | Some operator \<Rightarrow>
                    (case ensureOperatorCanAccessEvent s operator eventId of
                       Some forbidden \<Rightarrow> (s, Inr forbidden)
                     | None \<Rightarrow>
                         respond s (JObj [(''eventId'', JStr eventId), (''eventTitle'', jget event ''title''),
                           (''items'', JArr (map (claimantItem s) (getClaimants doStorageAdapter s eventId)))]) 200))))"

end
