(* ===== verification/Storage_Frame.thy ===== *)
theory Storage_Frame
  imports Handler_Base
begin

text \<open>
  What the shared steps of the handlers leave alone. A region of keys that lies outside the audit log, the security
  records of the operators and the security counters is kept by the operator context, the security guards, the issue
  limit and the two logs; a handler then changes the region only by its own writes.
\<close>

definition keeps :: "(string \<Rightarrow> bool) \<Rightarrow> storage \<Rightarrow> storage \<Rightarrow> bool" where
  "keeps R s s' \<longleftrightarrow> (\<forall>k. R k \<longrightarrow> sto_get s' k = sto_get s k) \<and> (sto_ok s \<longrightarrow> sto_ok s')"

lemma keeps_refl [simp, intro]: "keeps R s s"
  by (simp add: keeps_def)

lemma keeps_trans [trans]: "keeps R s t \<Longrightarrow> keeps R t u \<Longrightarrow> keeps R s u"
  by (auto simp: keeps_def)

lemma keeps_put: "keeps R s t \<Longrightarrow> \<not> R k \<Longrightarrow> v \<noteq> JUndef \<Longrightarrow> keeps R s (sto_put t k v)"
  by (auto simp: keeps_def sto_ok_put)

lemma keepsD: "keeps R s t \<Longrightarrow> R k \<Longrightarrow> sto_get t k = sto_get s k" "keeps R s t \<Longrightarrow> sto_ok s \<Longrightarrow> sto_ok t"
  by (simp_all add: keeps_def)

lemma stored_values:
  "rateStateToJs r \<noteq> JUndef" "issueStateToJs i \<noteq> JUndef" "securityStateToJs st \<noteq> JUndef" "obligationToJs ob \<noteq> JUndef"
  "operatorRecordToJs o' \<noteq> JUndef"
  by (simp_all add: rateStateToJs_def issueStateToJs_def securityStateToJs_def obligationToJs_def operatorRecordToJs_def)

lemma security_keys_prefix:
  "prefix ''admin_security'' (adminSecurityStateKey a)" "prefix ''admin_security'' (adminSecurityLogKey t i)"
  "prefix ''admin_security'' ADMIN_SECURITY_LOG_LAST_HASH_KEY" "prefix ''admin_security'' (adminSecurityReportKey r)"
  "prefix ''admin_security'' (adminSecurityOperatorKey a)" "prefix ''security'' (issueLimitKey H p a)"
  by (simp_all add: key_defs prefix_defs issueLimitKey_def SECURITY_ISSUE_LIMIT_PREFIX_def)

locale key_region =
  fixes R :: "string \<Rightarrow> bool"
  assumes not_audit: "R k \<Longrightarrow> \<not> prefix ''audit'' k"
    and not_security: "R k \<Longrightarrow> \<not> prefix ''admin_security'' k"
    and not_counter: "R k \<Longrightarrow> \<not> prefix ''security'' k"
begin

lemma region_keys:
  "\<not> R AUDIT_LAST_HASH_GLOBAL_KEY" "\<not> R (streamLastHashKey e)" "\<not> R (auditHistoryKey t h)" "\<not> R (auditEntryByHashKey h)"
  "\<not> R (adminSecurityStateKey a)" "\<not> R (adminSecurityLogKey t i)" "\<not> R ADMIN_SECURITY_LOG_LAST_HASH_KEY"
  "\<not> R (adminSecurityReportKey r)" "\<not> R (adminSecurityOperatorKey a)" "\<not> R (issueLimitKey H p a)"
  using not_audit not_security not_counter audit_keys_prefix security_keys_prefix by blast+

lemma keeps_append:
  assumes "appendAuditLog H env svc s n ev a d e = Inr (s', entry)"
  shows "keeps R s s'"
  using assms by (auto simp: appendAuditLog_def region_keys Let_def intro!: keeps_put split: sum.splits option.splits)

lemma keeps_security_log: "keeps R s (fst (appendAdminSecurityLog H u s c x actor t d n))"
  by (auto simp: appendAdminSecurityLog_def region_keys Let_def intro!: keeps_put)

lemma keeps_put_state: "keeps R s t \<Longrightarrow> keeps R s (putAdminSecurityState t a st)"
  by (simp add: putAdminSecurityState_def keeps_put region_keys stored_values)

lemma keeps_report: "keeps R s (fst (createAdminSecurityReportObligation u s ty t b r l n))"
  by (simp add: createAdminSecurityReportObligation_def keeps_put region_keys stored_values Let_def)

lemma keeps_context: "keeps R s (fst (ensureOperatorContext env s n rq))"
  by (auto simp: ensureOperatorContext_def registerAdminSecurityOperator_def region_keys stored_values Let_def
      intro!: keeps_put split: option.splits)

lemma keeps_enforce: "keeps R s (fst (enforceAdminSecurityOperation H uid s op actor n))"
  by (auto simp: enforceAdminSecurityOperation_def keeps_security_log keeps_put_state Let_def split: option.splits)

lemma keeps_log_trans: "keeps R s t \<Longrightarrow> keeps R s (fst (appendAdminSecurityLog H u t c x actor a d n))"
  using keeps_trans keeps_security_log by blast

lemma keeps_report_trans: "keeps R s t \<Longrightarrow> keeps R s (fst (createAdminSecurityReportObligation u t ty a b r l n))"
  using keeps_trans keeps_report by blast

lemma keeps_guard: "keeps R s (fst (guardEventCreate H uid s rq actor title host n))"
proof -
  obtain s1 r where e: "enforceAdminSecurityOperation H uid s ''event_create'' actor n = (s1, r)" by fastforce
  have s1: "keeps R s s1" using keeps_enforce [of s H uid "''event_create''" actor n] by (simp add: e)
  show ?thesis
    by (cases r)
      (auto simp: guardEventCreate_def e s1 Let_def case_prod_unfold intro!: keeps_put_state keeps_log_trans keeps_report_trans)
qed

lemma keeps_issue_limit: "keeps R s (fst (enforceAdminEventIssueLimit H env s a n))"
  by (auto simp: enforceAdminEventIssueLimit_def consumeSecurityIssueLimit_def region_keys stored_values Let_def
      intro!: keeps_put split: option.splits)

end

end
