(* ===== verification/Event_Spec.thy ===== *)
theory Event_Spec
  imports Event_Handlers Storage_Frame Claim_Quota
begin

text \<open>
  What the event endpoints promise: over any run of creations and closings, each on-chain grant is linked to one event;
  a created event belongs to the operator who created it; an event is closed by its owner or the master only, and
  closing changes nothing of other events.
\<close>

section \<open>Events in the storage\<close>

abbreviation isEventKey :: "string \<Rightarrow> bool" where
  "isEventKey \<equiv> prefix EVENT_PREFIX"

interpretation event_region: key_region isEventKey
  by unfold_locales (auto simp: EVENT_PREFIX_def prefix_def)

interpretation owner_region: key_region "prefix EVENT_OWNER_PREFIX"
  by unfold_locales (auto simp: EVENT_OWNER_PREFIX_def prefix_def)

lemma event_keys [simp]: "isEventKey (eventKey i)" "eventKey i = eventKey j \<longleftrightarrow> i = j" "\<not> isEventKey (eventOwnerKey i)"
  "\<not> prefix EVENT_OWNER_PREFIX (eventKey i)" "prefix EVENT_OWNER_PREFIX (eventOwnerKey i)"
  by (auto simp: eventKey_def eventOwnerKey_def EVENT_PREFIX_def EVENT_OWNER_PREFIX_def)

lemma adapter_simps [simp]:
  "st_get doStorageAdapter = sto_get" "st_put doStorageAdapter = sto_put" "st_list doStorageAdapter = sto_list"
  by (simp_all add: doStorageAdapter_def)

text \<open>Every stored event lies under the key of its id.\<close>

definition events_keyed :: "storage \<Rightarrow> bool" where
  "events_keyed s \<longleftrightarrow> (\<forall>k. isEventKey k \<longrightarrow> isEventObject (sto_get s k) \<longrightarrow> (\<exists>i. k = eventKey i \<and> jget (sto_get s k) ''id'' = JStr i))"

definition grant_at :: "storage \<Rightarrow> string \<Rightarrow> (string \<times> string \<times> string) option" where
  "grant_at s i = (if isEventObject (sto_get s (eventKey i)) then grantOf (sto_get s (eventKey i)) else None)"

definition grants_unique :: "storage \<Rightarrow> bool" where
  "grants_unique s \<longleftrightarrow> (\<forall>i j g. grant_at s i = Some g \<longrightarrow> grant_at s j = Some g \<longrightarrow> i = j)"

lemma keyed_id: "events_keyed s \<Longrightarrow> isEventObject (sto_get s (eventKey i)) \<Longrightarrow> jget (sto_get s (eventKey i)) ''id'' = JStr i"
  unfolding events_keyed_def using event_keys(1,2) by metis

lemma keeps_events:
  assumes "keeps isEventKey s t"
  shows "events_keyed t = events_keyed s" "grant_at t = grant_at s" "grants_unique t = grants_unique s"
proof -
  note k = keepsD(1) [OF assms]
  show "events_keyed t = events_keyed s" by (auto simp: events_keyed_def k)
  show g: "grant_at t = grant_at s" by (rule ext) (simp add: grant_at_def k)
  show "grants_unique t = grants_unique s" by (simp add: grants_unique_def g)
qed

lemma spread_policy:
  "grantOf (jspread e (policyFields p)) = grantOf e" "jget (jspread e (policyFields p)) ''id'' = jget e ''id''"
  "grantOf (withPolicyAndCount ops s e i) = grantOf e" "jget (withPolicyAndCount ops s e i) ''id'' = jget e ''id''"
  "jget (withPolicyAndCount ops s e i) ''state'' = jget e ''state''"
  by (simp_all add: grantOf_def withPolicyAndCount_def jget_jspread policyFields_def)

section \<open>The list of events has every stored event\<close>

lemma fold_kv_set_last:
  assumes "x \<in> set xs" "\<And>y. y \<in> set xs \<Longrightarrow> f y = f x \<Longrightarrow> y = x"
  shows "map_of (fold (\<lambda>e m. kv_set (f e) e m) xs m) (f x) = Some x"
  using assms
proof (induction xs rule: rev_induct)
  case (snoc y ys)
  show ?case
  proof (cases "f y = f x")
    case True
    then have "y = x" using snoc.prems(2) by simp
    then show ?thesis by simp
  next
    case False
    then have "x \<in> set ys" using snoc.prems(1) by auto
    with False snoc show ?thesis by auto
  qed
qed simp

lemma listed_event:
  assumes "sto_ok s" "events_keyed s" "isEventObject (sto_get s (eventKey i))"
  shows "\<exists>e \<in> set (getEvents doStorageAdapter s). jget e ''id'' = JStr i \<and> grantOf e = grantOf (sto_get s (eventKey i))"
proof -
  let ?spread = "\<lambda>base. jspread base (policyFields (resolveClaimPolicy base))"
  let ?v = "sto_get s (eventKey i)" let ?st = "getStoredEvents doStorageAdapter s"
  have listed: "v \<in> snd ` set (sto_list s EVENT_PREFIX) \<longleftrightarrow> (\<exists>k. isEventKey k \<and> sto_get s k = v \<and> v \<noteq> JUndef)" for v
    using in_sto_list_iff [OF assms(1)] by force
  have "?v \<noteq> JUndef" using assms(3) by (auto simp: isEventObject_def)
  then have "?v \<in> snd ` set (sto_list s EVENT_PREFIX)" unfolding listed using event_keys(1) by blast
  then have mem: "?spread ?v \<in> set ?st" using assms(3) by (auto simp: getStoredEvents_def)
  have one: "y = ?spread ?v" if "y \<in> set ?st" "jget y ''id'' = jget (?spread ?v) ''id''" for y
  proof -
    from that(1) obtain b where b: "y = ?spread b" "isEventObject b" "b \<in> snd ` set (sto_list s EVENT_PREFIX)"
      by (auto simp: getStoredEvents_def)
    then obtain k where k: "isEventKey k" "sto_get s k = b" unfolding listed by blast
    then obtain j where j: "k = eventKey j" "jget b ''id'' = JStr j" using assms(2) b(2) unfolding events_keyed_def by blast
    have "jget b ''id'' = jget ?v ''id''" using that(2) b(1) by (simp add: spread_policy)
    then have "j = i" using j(2) keyed_id [OF assms(2,3)] by simp
    then show ?thesis using b(1) k(2) j(1) by simp
  qed
  have "map_of (fold (\<lambda>e m. kv_set (jget e ''id'') e m) ?st (fold (\<lambda>e m. kv_set (jget e ''id'') e m) SEED_EVENTS []))
      (jget (?spread ?v) ''id'') = Some (?spread ?v)"
    by (rule fold_kv_set_last [OF mem one])
  then have "?spread ?v \<in> set (mergeEventsById ?st)"
    unfolding mergeEventsById_def by (force dest: map_of_SomeD)
  then have "withPolicyAndCount doStorageAdapter s (?spread ?v) (js_to_string (jget (?spread ?v) ''id'')) \<in> set (getEvents doStorageAdapter s)"
    unfolding getEvents_def by force
  then show ?thesis by (rule bexI [rotated]) (simp add: spread_policy keyed_id [OF assms(2,3)])
qed

lemma no_duplicate:
  assumes "sto_ok s" "events_keyed s" "duplicatedGrant s data = None" "requestedGrant data = Some g"
  shows "grant_at s i \<noteq> Some g"
proof
  assume a: "grant_at s i = Some g"
  then have "isEventObject (sto_get s (eventKey i))" "grantOf (sto_get s (eventKey i)) = Some g"
    by (auto simp: grant_at_def split: if_splits)
  from listed_event [OF assms(1,2) this(1)] this(2) show False
    using assms(3,4) by (auto simp: duplicatedGrant_def find_None_iff)
qed

section \<open>Creating and closing\<close>

text \<open>The grant of the event that is stored for the data.\<close>

definition newGrant :: "CreateEventData \<Rightarrow> (string \<times> string \<times> string) option" where
  "newGrant data = (case (trimmed_str (jstr_opt (ce_solanaMint data)), trimmed_str (jstr_opt (ce_solanaAuthority data)),
     trimmed_str (jstr_opt (ce_solanaGrantId data))) of (Some m, Some a, Some g) \<Rightarrow> Some (m, a, g) | _ \<Rightarrow> None)"

lemma new_event:
  assumes "createEvent doStorageAdapter s data n = (s1, event)"
  obtains i where "s1 = sto_put s (eventKey i) event" "jget event ''id'' = JStr i" "isEventObject event"
    "grantOf event = newGrant data" "jget event ''title'' = JStr (ce_title data)"
proof -
  let ?i = "''evt-'' @ nat_digits 36 (nat n)"
  have "s1 = sto_put s (eventKey ?i) event" using assms by (auto simp only: createEvent_def Let_def adapter_simps prod.inject)
  moreover have "jget event ''id'' = JStr ?i" "isEventObject event" "jget event ''title'' = JStr (ce_title data)"
    "jget event ''solanaMint'' = jstr_opt (ce_solanaMint data)" "jget event ''solanaAuthority'' = jstr_opt (ce_solanaAuthority data)"
    "jget event ''solanaGrantId'' = jstr_opt (ce_solanaGrantId data)"
    using assms by (auto simp: createEvent_def isEventObject_def policyFields_def Let_def)
  ultimately show thesis by (intro that [of ?i]) (simp_all add: grantOf_def newGrant_def normalizeStringField_def)
qed

lemma parsed_grant:
  assumes "parseEventBody body = Inr data"
  shows "newGrant data = requestedGrant data"
proof -
  have "ce_solanaMint data = trimmed_str (jget body ''solanaMint'')" "ce_solanaAuthority data = trimmed_str (jget body ''solanaAuthority'')"
    "ce_solanaGrantId data = trimmed_str (jget body ''solanaGrantId'')"
    using assms by (auto simp: parseEventBody_def normalizeStringField_def Let_def split: if_splits option.splits)
  then show ?thesis unfolding requestedGrant_def newGrant_def by (simp only: trimmed_str_idem)
qed

text \<open>The storage when a creation reaches the store, and what it leaves.\<close>

lemma stored_event:
  assumes "storeNewEvent H env svc uid s n operator actor data = (s', out)"
  obtains i event t where "jget event ''id'' = JStr i" "isEventObject event" "keeps isEventKey (sto_put s (eventKey i) event) s'"
    "grantOf event = newGrant data"
    "jget event ''title'' = JStr (ce_title data)"
    "sto_get s' (eventOwnerKey i) = eventOwnerToJs (operatorToEventOwner operator n)"
    "\<And>r. out = Inr r \<Longrightarrow> r = json_response event 201"
proof -
  obtain s1 event where c: "createEvent doStorageAdapter s data n = (s1, event)" by fastforce
  obtain i where i: "s1 = sto_put s (eventKey i) event" "jget event ''id'' = JStr i" "isEventObject event"
    "grantOf event = newGrant data"
    "jget event ''title'' = JStr (ce_title data)"
    by (rule new_event [OF c])
  have f: "sfield event ''id'' = i" by (simp add: sfield_def i(2))
  define s2 where "s2 = sto_put s1 (eventOwnerKey i) (eventOwnerToJs (operatorToEventOwner operator n))"
  have k2: "keeps isEventKey s1 s2" unfolding s2_def by (rule keeps_put) (simp_all add: eventOwnerToJs_def)
  consider (fail) e where "s' = s2" "out = Inl e"
    | (stored) s3 entry d ev a u where "appendAuditLog H env svc s2 n ''EVENT_CREATE'' a d ev = Inr (s3, entry)"
        "s' = fst (appendAdminSecurityLog H u s3 ''execution'' ''event_create_success'' actor (Some (sa_actorId actor))
           (Some (JObj [(''eventId'', JStr i), (''title'', JStr (ce_title data))])) n)" "out = Inr (json_response event 201)"
    using assms unfolding storeNewEvent_def c f s2_def [symmetric]
    by (auto simp: f s2_def [symmetric] appendThen_def respond_def Let_def split: sum.splits)
  then show thesis
  proof cases
    case fail
    show thesis by (rule that [of event i]) (use i k2 fail in \<open>simp_all add: s2_def\<close>)
  next
    case stored
    have "keeps isEventKey s2 s'" unfolding stored(2)
      using event_region.keeps_append [OF stored(1)] event_region.keeps_log_trans by blast
    then have ev: "keeps isEventKey s1 s'" using k2 keeps_trans by blast
    have "keeps (prefix EVENT_OWNER_PREFIX) s2 s'" unfolding stored(2)
      using owner_region.keeps_append [OF stored(1)] owner_region.keeps_log_trans by blast
    from keepsD(1) [OF this] have "sto_get s' (eventOwnerKey i) = sto_get s2 (eventOwnerKey i)" by simp
    then show thesis by (intro that [of event i]) (use i ev stored in \<open>simp_all add: s2_def\<close>)
  qed
qed

lemma refusal_status:
  "ensureOperatorContext env s n rq = (s0, Inl r) \<Longrightarrow> rs_status r \<noteq> 201"
  "enforceAdminSecurityOperation H uid s op actor n = (s1, Inl r) \<Longrightarrow> rs_status r \<noteq> 201"
  "guardEventCreate H uid s rq actor title host n = (s2, Inl r) \<Longrightarrow> rs_status r \<noteq> 201"
  "enforceAdminEventIssueLimit H env s a n = (s3, Some r) \<Longrightarrow> rs_status r \<noteq> 201"
proof -
  show "ensureOperatorContext env s n rq = (s0, Inl r) \<Longrightarrow> rs_status r \<noteq> 201"
    by (auto simp: ensureOperatorContext_def unauthorizedResponse_def json_response_def Let_def split: option.splits if_splits)
  show e: "enforceAdminSecurityOperation H uid s op actor n = (s1, Inl r) \<Longrightarrow> rs_status r \<noteq> 201" for s op s1
    by (auto simp: enforceAdminSecurityOperation_def adminSecurityFrozenResponse_def adminSecurityAccessRevokedResponse_def
        json_response_def Let_def split: option.splits if_splits)
  show "guardEventCreate H uid s rq actor title host n = (s2, Inl r) \<Longrightarrow> rs_status r \<noteq> 201"
    using e [of s "''event_create''" "fst (enforceAdminSecurityOperation H uid s ''event_create'' actor n)"]
    by (auto simp: guardEventCreate_def adminSecurityFrozenResponse_def json_response_def Let_def case_prod_unfold prod_eq_iff
        split: sum.splits if_splits)
  show "enforceAdminEventIssueLimit H env s a n = (s3, Some r) \<Longrightarrow> rs_status r \<noteq> 201"
    by (auto simp: enforceAdminEventIssueLimit_def issueLimitExceededResponse_def Let_def split: option.splits if_splits prod.splits)
qed

lemma context_operator:
  assumes "ensureOperatorContext env s n rq = (s0, Inr (operator, actor))"
  shows "authenticateOperator env s rq = Some operator" "op_adminId operator \<noteq> []"
  using assms by (auto simp: ensureOperatorContext_def Let_def split: option.splits if_splits)

lemma steps_keep:
  "ensureOperatorContext env s n rq = (t, c) \<Longrightarrow> keeps isEventKey s t"
  "guardEventCreate H uid s rq actor title host n = (t, g) \<Longrightarrow> keeps isEventKey s t"
  "enforceAdminEventIssueLimit H env s a n = (t, l) \<Longrightarrow> keeps isEventKey s t"
  "enforceAdminSecurityOperation H uid s op actor n = (t, r) \<Longrightarrow> keeps isEventKey s t"
  using event_region.keeps_context [of s env n rq] event_region.keeps_guard [of s H uid rq actor title host n]
    event_region.keeps_issue_limit [of s H env a n] event_region.keeps_enforce [of s H uid op actor n] by simp_all

text \<open>A creation is refused, and then touches no event, or reaches the store.\<close>

lemma create_outcome:
  assumes "handleEventCreate H env svc uid s n rq = (s', out)"
  obtains (refused) "keeps isEventKey s s'" "\<And>r. out = Inr r \<Longrightarrow> rs_status r \<noteq> 201"
  | (created) s0 operator actor body data s1 s2 where "ensureOperatorContext env s n rq = (s0, Inr (operator, actor))"
      "rq_json rq = Inr body" "parseEventBody body = Inr data" "keeps isEventKey s s1" "duplicatedGrant s1 data = None"
      "keeps isEventKey s1 s2" "storeNewEvent H env svc uid s2 n operator actor data = (s', out)"
proof -
  consider (a) r where "ensureOperatorContext env s n rq = (s', Inl r)" "out = Inr r"
    | (b) oa r where "ensureOperatorContext env s n rq = (s', Inr oa)" "out = Inr r" "rs_status r \<noteq> 201"
    | (c) s0 operator actor body data where "ensureOperatorContext env s n rq = (s0, Inr (operator, actor))" "rq_json rq = Inr body"
        "parseEventBody body = Inr data"
        "(case guardEventCreate H uid s0 rq actor (ce_title data) (ce_host data) n of
            (s1, Inl resp) \<Rightarrow> (s1, Inr resp)
          | (s1, Inr _) \<Rightarrow>
              (case duplicatedGrant s1 data of
                 Some event \<Rightarrow> respond s1 (errorBody (''on-chain grant config already linked to event: '' @ sfield event ''id'')) 409
               | None \<Rightarrow>
                   (case enforceAdminEventIssueLimit H env s1 (op_adminId operator) n of
                      (s2, Some resp) \<Rightarrow> (s2, Inr resp)
                    | (s2, None) \<Rightarrow> storeNewEvent H env svc uid s2 n operator actor data))) = (s', out)"
    using assms unfolding handleEventCreate_def by (auto simp: respond_def split: prod.splits sum.splits)
  then show thesis
  proof cases
    case a
    show thesis by (rule refused) (use a steps_keep(1) refusal_status(1) in auto)
  next
    case b
    show thesis by (rule refused) (use b steps_keep(1) in auto)
  next
    case c
    obtain s1 g where g: "guardEventCreate H uid s0 rq actor (ce_title data) (ce_host data) n = (s1, g)" by fastforce
    obtain s2 l where l: "enforceAdminEventIssueLimit H env s1 (op_adminId operator) n = (s2, l)" by fastforce
    have k1: "keeps isEventKey s s1" using steps_keep(1) [OF c(1)] steps_keep(2) [OF g] keeps_trans by blast
    note k2 = steps_keep(3) [OF l]
    note end_ = c(4) [unfolded g prod.case l respond_def]
    show thesis
    proof (cases g)
      case (Inl r)
      show thesis by (rule refused) (use end_ Inl k1 g refusal_status(3) in auto)
    next
      case (Inr u)
      show thesis
      proof (cases "duplicatedGrant s1 data = None \<and> l = None")
        case True
        then show thesis using end_ Inr by (intro created [OF c(1-3) k1 _ k2]) simp_all
      next
        case False
        show thesis
          by (rule refused) (use end_ Inr False k1 keeps_trans [OF k1 k2] l refusal_status(4) in \<open>auto split: option.splits\<close>)
      qed
    qed
  qed
qed

section \<open>Closing\<close>

lemma seed_has_id: "list_all (\<lambda>e. isEventObject e \<and> grantOf e = None) SEED_EVENTS"
  by code_simp

text \<open>The event that \<open>getEvent\<close> starts from.\<close>

lemma got_event:
  assumes "getEvent doStorageAdapter s i = Some event"
  shows "isEventObject event" "grantOf event = grant_at s i" "events_keyed s \<Longrightarrow> jget event ''id'' = JStr i"
proof -
  obtain base where b: "event = withPolicyAndCount doStorageAdapter s base i" "isEventObject base" "grantOf base = grant_at s i"
    "events_keyed s \<Longrightarrow> jget base ''id'' = JStr i"
  proof (cases "isEventObject (sto_get s (eventKey i))")
    case True
    then show thesis using that [of "sto_get s (eventKey i)"] assms keyed_id by (simp add: getEvent_def grant_at_def)
  next
    case False
    then obtain e where "find (\<lambda>e. jget e ''id'' = JStr i) SEED_EVENTS = Some e" "event = withPolicyAndCount doStorageAdapter s e i"
      using assms by (auto simp: getEvent_def split: option.splits)
    moreover from this have "jget e ''id'' = JStr i" "isEventObject e" "grantOf e = None"
      using seed_has_id unfolding find_Some_iff list_all_iff by force+
    ultimately show thesis using that [of e] False by (simp add: grant_at_def)
  qed
  then show "isEventObject event" "grantOf event = grant_at s i" "events_keyed s \<Longrightarrow> jget event ''id'' = JStr i"
    by (simp_all add: isEventObject_withPolicy spread_policy)
qed

lemma update_ended:
  assumes "getEvent doStorageAdapter s i = Some event"
  obtains v upd where "updateEventState doStorageAdapter s i x = (sto_put s (eventKey i) v, Some upd)" "isEventObject v"
    "grantOf v = grant_at s i" "events_keyed s \<Longrightarrow> jget v ''id'' = JStr i" "jget v ''state'' = JStr x"
proof -
  let ?v = "jspread (dropProp ''claimedCount'' event) [(''state'', JStr x)]"
  note g = got_event [OF assms]
  have o: "isEventObject ?v" using g(1) by (rule isEventObject_next)
  have gr: "grantOf ?v = grantOf event" by (simp add: grantOf_def jget_jspread jget_dropProp)
  show thesis
    by (rule that [of ?v "withPolicyAndCount doStorageAdapter (sto_put s (eventKey i) ?v) ?v i"])
      (use assms g o gr in \<open>simp_all add: updateEventState_def getEvent_def [of _ "sto_put s _ _"] jget_jspread jget_dropProp Let_def\<close>)
qed

lemma close_outcome:
  assumes "handleEventClose H env svc uid s n rq i = (s', out)"
  obtains (kept) "keeps isEventKey s s'"
  | (closed) s0 operator actor s1 t event updated where "ensureOperatorContext env s n rq = (s0, Inr (operator, actor))"
      "keeps isEventKey s s1" "keeps (prefix EVENT_OWNER_PREFIX) s s1" "getEvent doStorageAdapter s1 i = Some event"
      "ensureOperatorCanAccessEvent s1 operator i = None"
      "updateEventState doStorageAdapter s1 i ''ended'' = (t, Some updated)" "keeps isEventKey t s'"
proof -
  obtain s0 c where c: "ensureOperatorContext env s n rq = (s0, c)" by fastforce
  show thesis
  proof (cases c)
    case (Inl r)
    show thesis by (rule kept) (use assms c Inl steps_keep(1) [OF c] in \<open>simp add: handleEventClose_def\<close>)
  next
    case (Inr oa)
    obtain operator actor where oa: "oa = (operator, actor)" by fastforce
    obtain s1 r where e: "enforceAdminSecurityOperation H uid s0 ''event_close'' actor n = (s1, r)" by fastforce
    have k: "keeps isEventKey s s1" using steps_keep(1) [OF c] steps_keep(4) [OF e] keeps_trans by blast
    have ko: "keeps (prefix EVENT_OWNER_PREFIX) s s1"
      using owner_region.keeps_context [of s env n rq] owner_region.keeps_enforce [of s0 H uid "''event_close''" actor n] c e keeps_trans
      by fastforce
    have log: "keeps isEventKey t (fst (appendAdminSecurityLog H u t' x y actor a d n))" if "appendAuditLog H env svc t n ev ac da i = Inr (t', en)"
      for u t t' x y a d ev ac da en
      using event_region.keeps_append [OF that] event_region.keeps_log_trans by blast
    consider "s' = s1"
      | t event updated where "getEvent doStorageAdapter s1 i = Some event" "ensureOperatorCanAccessEvent s1 operator i = None"
        "updateEventState doStorageAdapter s1 i ''ended'' = (t, Some updated)" "keeps isEventKey t s'"
      | t where "updateEventState doStorageAdapter s1 i ''ended'' = (t, None)" "s' = t" "getEvent doStorageAdapter s1 i \<noteq> None"
      using assms log by (auto simp: handleEventClose_def c Inr oa e respond_def appendThen_def Let_def
          split: sum.splits option.splits prod.splits if_splits)
    then show thesis
    proof cases
      case 1
      then show thesis using kept k by simp
    next
      case (2 t event updated)
      then show thesis using closed c Inr oa k ko by blast
    next
      case (3 t)
      then obtain event where "getEvent doStorageAdapter s1 i = Some event" by blast
      from update_ended [OF this] 3(1) show thesis by (metis option.distinct(1) prod.inject)
    qed
  qed
qed

section \<open>Runs\<close>

text \<open>
  Creations and closings, whatever they answer, and any other change of the storage that leaves the events alone.
\<close>

inductive event_reach :: "storage \<Rightarrow> bool" where
  reach_start: "event_reach []"
| reach_create: "event_reach s \<Longrightarrow> handleEventCreate H env svc uid s n rq = (s', out) \<Longrightarrow> event_reach s'"
| reach_close: "event_reach s \<Longrightarrow> handleEventClose H env svc uid s n rq i = (s', out) \<Longrightarrow> event_reach s'"
| reach_other: "event_reach s \<Longrightarrow> keeps isEventKey s s' \<Longrightarrow> event_reach s'"

definition events_inv :: "storage \<Rightarrow> bool" where
  "events_inv s \<longleftrightarrow> sto_ok s \<and> events_keyed s \<and> grants_unique s"

lemma keeps_inv: "keeps isEventKey s t \<Longrightarrow> events_inv s \<Longrightarrow> events_inv t"
  by (simp add: events_inv_def keeps_events keepsD)

lemma put_event_inv:
  assumes "events_inv s" "isEventObject v" "jget v ''id'' = JStr i" "\<And>j. grantOf v \<noteq> None \<Longrightarrow> grant_at s j = grantOf v \<Longrightarrow> j = i"
  shows "events_inv (sto_put s (eventKey i) v)"
proof -
  have ne: "v \<noteq> JUndef" using assms(2) by (auto simp: isEventObject_def)
  have g: "grant_at (sto_put s (eventKey i) v) j = (if j = i then grantOf v else grant_at s j)" for j
    using assms(2) by (simp add: grant_at_def)
  have u: "grants_unique (sto_put s (eventKey i) v)"
    using assms(1,4) unfolding grants_unique_def events_inv_def g by (metis option.distinct(1))
  have "events_keyed (sto_put s (eventKey i) v)"
    using assms(1,3) by (auto simp: events_inv_def events_keyed_def)
  with u ne assms(1) show ?thesis by (simp add: events_inv_def sto_ok_put)
qed

lemma create_inv:
  assumes "events_inv s" "handleEventCreate H env svc uid s n rq = (s', out)"
  shows "events_inv s'"
  using assms(2)
proof (cases rule: create_outcome)
  case refused
  then show ?thesis using assms(1) keeps_inv by blast
next
  case (created s0 operator actor body data s1 s2)
  have i1: "events_inv s1" and i2: "events_inv s2" using keeps_inv created(4,6) assms(1) by blast+
  from created(7) show ?thesis
  proof (rule stored_event)
    fix i event
    assume e: "jget event ''id'' = JStr i" "isEventObject event" "keeps isEventKey (sto_put s2 (eventKey i) event) s'"
      "grantOf event = newGrant data"
    have "grant_at s1 j \<noteq> Some g" if "grantOf event = Some g" for j g
      using no_duplicate [of s1 data g j] i1 created(5) parsed_grant [OF created(3)] e(4) that by (simp add: events_inv_def)
    then have "events_inv (sto_put s2 (eventKey i) event)"
      using keeps_events(2) [OF created(6)] by (intro put_event_inv [OF i2 e(2,1)]) auto
    then show ?thesis using e(3) keeps_inv by blast
  qed
qed

lemma close_inv:
  assumes "events_inv s" "handleEventClose H env svc uid s n rq i = (s', out)"
  shows "events_inv s'"
  using assms(2)
proof (cases rule: close_outcome)
  case kept
  then show ?thesis using assms(1) keeps_inv by blast
next
  case (closed s0 operator actor s1 t event updated)
  have i1: "events_inv s1" using keeps_inv closed(2) assms(1) by blast
  obtain v upd where v: "updateEventState doStorageAdapter s1 i ''ended'' = (sto_put s1 (eventKey i) v, Some upd)" "isEventObject v"
    "grantOf v = grant_at s1 i" "events_keyed s1 \<Longrightarrow> jget v ''id'' = JStr i"
    using update_ended [OF closed(4), of "''ended''"] by metis
  have "events_inv (sto_put s1 (eventKey i) v)"
  proof (rule put_event_inv [OF i1 v(2)])
    show "jget v ''id'' = JStr i" using v(4) i1 by (simp add: events_inv_def)
    show "j = i" if "grantOf v \<noteq> None" "grant_at s1 j = grantOf v" for j
      using that v(3) i1 unfolding events_inv_def grants_unique_def by (metis option.exhaust)
  qed
  then show ?thesis using closed(6,7) v(1) keeps_inv by simp
qed

lemma reach_inv: "event_reach s \<Longrightarrow> events_inv s"
proof (induction rule: event_reach.induct)
  case reach_start
  show ?case by (simp add: events_inv_def sto_ok_def events_keyed_def grants_unique_def grant_at_def isEventObject_def)
qed (blast intro: create_inv close_inv keeps_inv)+

lemma source_words: "js_trim ''master'' = ''master''" "js_trim ''demo'' = ''demo''" "js_trim ''invite'' = ''invite''"
  by code_simp+

section \<open>Properties\<close>

text \<open>
  C33. One event per on-chain grant: in every storage that creations and closings of events can reach, two stored events
  with the same mint, authority and grant id are the same event.
\<close>

theorem one_event_per_grant:
  assumes "event_reach s" "isEventObject (sto_get s (eventKey i))" "isEventObject (sto_get s (eventKey j))"
    "grantOf (sto_get s (eventKey i)) = Some g" "grantOf (sto_get s (eventKey j)) = Some g"
  shows "i = j"
  using reach_inv [OF assms(1)] assms(2-) unfolding events_inv_def grants_unique_def grant_at_def by metis

text \<open>
  A request that is answered 201 came from an operator; the event of the answer is stored under its id with the
  title of the body, it is owned by that operator, who may manage it, while an administrator with another id may not.
\<close>

theorem created_event_owned:
  assumes "handleEventCreate H env svc uid s n rq = (s', Inr r)" "rs_status r = 201"
  shows "\<exists>operator i. authenticateOperator env s rq = Some operator \<and> jget (rs_body r) ''id'' = JStr i
    \<and> sto_get s' (eventKey i) = rs_body r \<and> jget (rs_body r) ''title'' \<noteq> JStr []
    \<and> (js_trim (op_adminId operator) = op_adminId operator \<longrightarrow> ensureOperatorCanAccessEvent s' operator i = None)
    \<and> (\<forall>other. op_role other = RoleAdmin \<longrightarrow> op_adminId other \<noteq> js_trim (op_adminId operator)
         \<longrightarrow> ensureOperatorCanAccessEvent s' other i \<noteq> None)"
  using assms(1)
proof (cases rule: create_outcome)
  case refused
  then show ?thesis using assms(2) by blast
next
  case (created s0 operator actor body data s1 s2)
  have title: "ce_title data \<noteq> []"
    using created(3) by (auto simp: parseEventBody_def Let_def split: if_splits option.splits)
  from created(7) show ?thesis
  proof (rule stored_event)
    fix i event
    assume e: "jget event ''id'' = JStr i" "keeps isEventKey (sto_put s2 (eventKey i) event) s'" "jget event ''title'' = JStr (ce_title data)"
      and ow: "sto_get s' (eventOwnerKey i) = eventOwnerToJs (operatorToEventOwner operator n)"
      and r: "\<And>r'. Inr r = (Inr r' :: Response or_error) \<Longrightarrow> r' = json_response event 201"
    have body: "rs_body r = event" using r by simp
    have st: "sto_get s' (eventKey i) = event" using keepsD(1) [OF e(2), of "eventKey i"] by simp
    have own: "getEventOwnerRecord s' i = (if js_trim (op_adminId operator) = [] then None
        else Some \<lparr>eo_adminId = js_trim (op_adminId operator), eo_name = or_else (js_trim (op_name operator)) ''Unknown Admin'',
          eo_source = op_source operator, eo_linkedAt = or_else (js_trim (js_toISOString n)) (js_toISOString 0)\<rparr>)"
      by (cases "op_source operator") (simp_all add: getEventOwnerRecord_def ow eventOwnerToJs_def operatorToEventOwner_def strField_def source_words Let_def)
    note c = context_operator [OF created(1)]
    show ?thesis
      by (rule exI [of _ operator], rule exI [of _ i]) (use c body e st title own in \<open>auto simp: ensureOperatorCanAccessEvent_def\<close>)
  qed
qed

text \<open>
  C34. Closing changes at most the event of the path, and only for the master or the owner of the event; the event is
  then in the state \<open>ended\<close> with the same grant.
\<close>

theorem event_closed_by_owner:
  assumes "handleEventClose H env svc uid s n rq i = (s', out)" "sto_get s' (eventKey j) \<noteq> sto_get s (eventKey j)"
  shows "j = i \<and> jget (sto_get s' (eventKey i)) ''state'' = JStr ''ended'' \<and> grantOf (sto_get s' (eventKey i)) = grant_at s i
    \<and> (\<exists>operator. authenticateOperator env s rq = Some operator
         \<and> (op_role operator = RoleMaster \<or> (\<exists>owner. getEventOwnerRecord s i = Some owner \<and> eo_adminId owner = op_adminId operator)))"
  using assms(1)
proof (cases rule: close_outcome)
  case kept
  then show ?thesis using assms(2) keepsD(1) by fastforce
next
  case (closed s0 operator actor s1 t event updated)
  obtain v upd where v: "updateEventState doStorageAdapter s1 i ''ended'' = (sto_put s1 (eventKey i) v, Some upd)"
    "grantOf v = grant_at s1 i" "jget v ''state'' = JStr ''ended''"
    using update_ended [OF closed(4), of "''ended''"] by metis
  have t: "t = sto_put s1 (eventKey i) v" using closed(6) v(1) by simp
  have s': "sto_get s' (eventKey k) = (if k = i then v else sto_get s (eventKey k))" for k
    using keepsD(1) [OF closed(7), of "eventKey k"] keepsD(1) [OF closed(2), of "eventKey k"] by (simp add: t)
  have owner: "getEventOwnerRecord s1 i = getEventOwnerRecord s i"
    using keepsD(1) [OF closed(3), of "eventOwnerKey i"] by (simp add: getEventOwnerRecord_def)
  have "op_role operator = RoleMaster \<or> (\<exists>owner. getEventOwnerRecord s i = Some owner \<and> eo_adminId owner = op_adminId operator)"
    using closed(5) owner by (auto simp: ensureOperatorCanAccessEvent_def split: if_splits option.splits)
  then show ?thesis
    using assms(2) s' v(2,3) keeps_events(2) [OF closed(2)] context_operator(1) [OF closed(1)] by (auto split: if_splits)
qed

end
