(* ===== verification/Event_Examples.thy ===== *)
theory Event_Examples
  imports Event_Spec Audit_Runs
begin

text \<open>An event with a grant is created by the master and closed again: the properties of \<open>Event_Spec\<close> on this run.\<close>

definition eventEnv :: Env where
  "eventEnv = emptyEnv\<lparr>AUDIT_IMMUTABLE_MODE := Some ''off'', ADMIN_PASSWORD := Some ''pw''\<rparr>"

definition eventBody :: js where
  "eventBody = JObj [(''title'', JStr ''Fair''), (''datetime'', JStr ''d''), (''host'', JStr ''h''), (''solanaMint'', JStr ''m''),
     (''solanaAuthority'', JStr ''a''), (''solanaGrantId'', JStr ''g''), (''ticketTokenAmount'', JInt 1)]"

definition eventRequest :: Request where
  "eventRequest = \<lparr>rq_method = ''POST'', rq_headers = [(''Authorization'', ''Bearer pw''), (''user-agent'', ''x'')], rq_chunks = None,
     rq_json = Inr eventBody\<rparr>"

definition fairCreated :: outcome where
  "fairCreated = handleEventCreate (\<lambda>x. ''h'') eventEnv noServices (\<lambda>t. t) [] 36 eventRequest"

definition fairClosed :: outcome where
  "fairClosed = handleEventClose (\<lambda>x. ''h'') eventEnv noServices (\<lambda>t. t) (fst fairCreated) 37 eventRequest ''evt-10''"

lemma fair_facts:
  "(case snd fairCreated of Inr r \<Rightarrow> rs_status r | Inl _ \<Rightarrow> 0) = 201"
  "grantOf (sto_get (fst fairCreated) (eventKey ''evt-10'')) = Some (''m'', ''a'', ''g'')"
  "isEventObject (sto_get (fst fairCreated) (eventKey ''evt-10''))"
  "jget (sto_get (fst fairCreated) (eventKey ''evt-10'')) ''state'' = JStr ''published''"
  by code_simp+

lemma fair_closed: "jget (sto_get (fst fairClosed) (eventKey ''evt-10'')) ''state'' = JStr ''ended''"
  by code_simp

theorem one_event_per_grant_witness:
  "event_reach (fst fairCreated) \<and> (\<exists>!i. isEventObject (sto_get (fst fairCreated) (eventKey i))
     \<and> grantOf (sto_get (fst fairCreated) (eventKey i)) = Some (''m'', ''a'', ''g''))"
proof -
  have reach: "event_reach (fst fairCreated)"
    by (rule event_reach.reach_create [OF event_reach.reach_start, of "\<lambda>x. ''h''" eventEnv noServices "\<lambda>t. t" 36 eventRequest _ "snd fairCreated"])
      (simp add: fairCreated_def)
  then show ?thesis using one_event_per_grant [OF reach] fair_facts(2,3) by blast
qed

theorem created_event_owned_witness:
  "\<exists>r operator i. snd fairCreated = Inr r \<and> rs_status r = 201 \<and> authenticateOperator eventEnv [] eventRequest = Some operator
     \<and> jget (rs_body r) ''id'' = JStr i \<and> sto_get (fst fairCreated) (eventKey i) = rs_body r"
proof -
  obtain r where r: "snd fairCreated = Inr r" "rs_status r = 201" using fair_facts(1) by (auto split: sum.splits)
  then have "handleEventCreate (\<lambda>x. ''h'') eventEnv noServices (\<lambda>t. t) [] 36 eventRequest = (fst fairCreated, Inr r)"
    unfolding fairCreated_def by (metis prod.collapse)
  from created_event_owned [OF this r(2)] r show ?thesis by blast
qed

theorem event_closed_by_owner_witness:
  "sto_get (fst fairClosed) (eventKey ''evt-10'') \<noteq> sto_get (fst fairCreated) (eventKey ''evt-10'')
   \<and> (\<exists>operator. authenticateOperator eventEnv (fst fairCreated) eventRequest = Some operator)"
proof -
  have d: "sto_get (fst fairClosed) (eventKey ''evt-10'') \<noteq> sto_get (fst fairCreated) (eventKey ''evt-10'')"
    using fair_closed fair_facts(4) by force
  have "handleEventClose (\<lambda>x. ''h'') eventEnv noServices (\<lambda>t. t) (fst fairCreated) 37 eventRequest ''evt-10''
      = (fst fairClosed, snd fairClosed)" by (simp add: fairClosed_def)
  from event_closed_by_owner [OF this d] d show ?thesis by blast
qed

end
