(* ===== verification/Runtime_Status.thy ===== *)
theory Runtime_Status
  imports Claim_Handlers Api_Trail
begin

text \<open>
  Status reports (\<open>storeDO.ts\<close>): \<open>GET /v1/school/pop-status\<close>, \<open>/v1/school/audit-status\<close> and \<open>/v1/school/runtime-status\<close>. The
  last one lists what keeps the worker from being ready; without an operator's token the details are withheld.
\<close>

section \<open>The report\<close>

record RuntimeChecks =
  rc_adminPasswordConfigured :: bool
  rc_popEnforced :: bool
  rc_popSignerConfigured :: bool
  rc_popSignerPubkey :: "string option"
  rc_popSignerMode :: "PopSignerMode option"
  rc_popSignerDerivationPath :: "string option"
  rc_popSignerRotation :: PopSignerRotation
  rc_popSignerLegacyEnabled :: bool
  rc_popSignerError :: "string option"
  rc_auditMode :: AuditImmutableMode
  rc_auditOperationalReady :: bool
  rc_auditPrimarySinkConfigured :: bool
  rc_costOfForgeryEnabled :: bool
  rc_costOfForgeryOperationalReady :: bool
  rc_costOfForgeryFailClosed :: bool
  rc_corsOrigin :: "string option"

record RuntimeStatusReport =
  rs_ready :: bool
  rs_checkedAt :: string
  rs_checks :: RuntimeChecks
  rs_blockingIssues :: "string list"
  rs_warnings :: "string list"

text \<open>What the reports read of the signer: the error is caught.\<close>

record SignerView =
  sv_configured :: bool
  sv_pubkey :: "string option"
  sv_mode :: "PopSignerMode option"
  sv_derivationPath :: "string option"
  sv_rotation :: PopSignerRotation
  sv_error :: "string option"

definition viewSigner :: "PopSigner option or_error \<Rightarrow> SignerView" where
  "viewSigner result =
     (case result of
        Inl message \<Rightarrow> \<lparr>sv_configured = False, sv_pubkey = None, sv_mode = None, sv_derivationPath = None,
                         sv_rotation = emptyPopSignerRotation, sv_error = Some message\<rparr>
      | Inr signer \<Rightarrow> \<lparr>sv_configured = (signer \<noteq> None), sv_pubkey = map_option ps_signerPubkey signer,
                        sv_mode = map_option ps_mode signer, sv_derivationPath = Option.bind signer ps_derivationPath,
                        sv_rotation = (case signer of Some p \<Rightarrow> ps_rotation p | None \<Rightarrow> emptyPopSignerRotation), sv_error = None\<rparr>)"

definition costOfForgeryAnyFailClosed :: "Env \<Rightarrow> bool" where
  "costOfForgeryAnyFailClosed env =
     (isCostOfForgeryFailClosedForAction env Act_user_register \<or> isCostOfForgeryFailClosedForAction env Act_user_claim
      \<or> isCostOfForgeryFailClosedForAction env Act_wallet_claim)"

definition SIGNER_ERROR_PREFIX :: string where "SIGNER_ERROR_PREFIX = ''PoP signer configuration error:''"

definition runtimeBlockingIssues :: "Env \<Rightarrow> SignerView \<Rightarrow> string list" where
  "runtimeBlockingIssues env v =
     (let a = getAuditStatus env; f = getCostOfForgeryStatus env in
      (if getConfiguredMasterPassword env = None then [''ADMIN_PASSWORD is not configured or still uses the default placeholder''] else [])
      @ (if isOnchainPopEnforced env \<and> \<not> sv_configured v
         then [case sv_error v of
                 Some e \<Rightarrow> (if e \<noteq> [] then SIGNER_ERROR_PREFIX @ '' '' @ e else ''PoP signer is not configured'')
               | None \<Rightarrow> ''PoP signer is not configured'']
         else [])
      @ (if as_failClosedForMutatingRequests a \<and> \<not> as_operationalReady a
         then [''Audit immutable sink is not operational while AUDIT_IMMUTABLE_MODE=required''] else [])
      @ (if fs_enabled f \<and> costOfForgeryAnyFailClosed env \<and> \<not> fs_operationalReady f
         then [''Cost of Forgery is enabled in fail-closed mode but COST_OF_FORGERY_BASE_URL is not configured''] else []))"

definition LEGACY_WARNING :: string where
  "LEGACY_WARNING = ''PoP legacy signer fallback is enabled; set POP_SIGNER_LEGACY_ENABLED=false for HD-only production mode''"
definition FAIL_OPEN_WARNING :: string where
  "FAIL_OPEN_WARNING = ''Cost of Forgery is enabled but COST_OF_FORGERY_BASE_URL is not configured (fail-open mode)''"
definition CORS_UNSET_WARNING :: string where
  "CORS_UNSET_WARNING = ''CORS_ORIGIN is not set (default origin policy will be used)''"
definition CORS_DEFAULT_WARNING :: string where
  "CORS_DEFAULT_WARNING = ''CORS_ORIGIN is still default; replace with your production Pages/custom domain''"

definition runtimeWarnings :: "Env \<Rightarrow> string list" where
  "runtimeWarnings env =
     (let f = getCostOfForgeryStatus env; corsOrigin = opt_trim (CORS_ORIGIN env) in
      (if isPopSignerLegacyEnabled env then [LEGACY_WARNING] else [])
      @ (if fs_enabled f \<and> costOfForgeryAnyFailClosed env \<and> \<not> fs_operationalReady f then []
         else if fs_enabled f \<and> \<not> fs_operationalReady f then [FAIL_OPEN_WARNING] else [])
      @ (if corsOrigin = [] then [CORS_UNSET_WARNING]
         else if corsOrigin = ''https://instant-grant-core.dev'' then [CORS_DEFAULT_WARNING] else []))"

definition getRuntimeStatus :: "Env \<Rightarrow> PopSigner option or_error \<Rightarrow> int \<Rightarrow> RuntimeStatusReport" where
  "getRuntimeStatus env signer nowMs =
     (let v = viewSigner signer; a = getAuditStatus env; f = getCostOfForgeryStatus env;
          blockingIssues = runtimeBlockingIssues env v
      in \<lparr>rs_ready = (blockingIssues = []), rs_checkedAt = js_toISOString nowMs,
          rs_checks = \<lparr>rc_adminPasswordConfigured = (getConfiguredMasterPassword env \<noteq> None), rc_popEnforced = isOnchainPopEnforced env,
            rc_popSignerConfigured = sv_configured v, rc_popSignerPubkey = sv_pubkey v, rc_popSignerMode = sv_mode v,
            rc_popSignerDerivationPath = sv_derivationPath v, rc_popSignerRotation = sv_rotation v,
            rc_popSignerLegacyEnabled = isPopSignerLegacyEnabled env, rc_popSignerError = sv_error v, rc_auditMode = as_mode a,
            rc_auditOperationalReady = as_operationalReady a, rc_auditPrimarySinkConfigured = as_primaryImmutableSinkConfigured a,
            rc_costOfForgeryEnabled = fs_enabled f, rc_costOfForgeryOperationalReady = fs_operationalReady f,
            rc_costOfForgeryFailClosed = costOfForgeryAnyFailClosed env, rc_corsOrigin = or_null (opt_trim (CORS_ORIGIN env))\<rparr>,
          rs_blockingIssues = blockingIssues, rs_warnings = runtimeWarnings env\<rparr>)"

definition getPublicRuntimeStatus :: "RuntimeStatusReport \<Rightarrow> RuntimeStatusReport" where
  "getPublicRuntimeStatus status =
     (let c = rs_checks status in
      status\<lparr>rs_checks := c\<lparr>rc_popSignerMode := None, rc_popSignerDerivationPath := None, rc_popSignerRotation := emptyPopSignerRotation,
               rc_popSignerLegacyEnabled := False,
               rc_popSignerError := (case rc_popSignerError c of Some e \<Rightarrow> (if e \<noteq> [] then Some ''redacted'' else None) | None \<Rightarrow> None),
               rc_corsOrigin := None\<rparr>,
             rs_blockingIssues := map (\<lambda>issue. if prefix SIGNER_ERROR_PREFIX issue
                                         then ''PoP signer configuration error (details redacted)'' else issue) (rs_blockingIssues status),
             rs_warnings := filter (\<lambda>warning. \<not> js_includes warning ''PoP legacy signer fallback'' \<and> \<not> js_includes warning ''CORS_ORIGIN'')
                              (rs_warnings status)
                            @ [''Some runtime details are redacted; use Authorization to view full diagnostics'']\<rparr>)"

section \<open>The endpoints\<close>

definition signerModeToJs :: "PopSignerMode option \<Rightarrow> js" where
  "signerModeToJs m = (case m of None \<Rightarrow> JNull | Some Signer_legacy \<Rightarrow> JStr ''legacy'' | Some Signer_hd \<Rightarrow> JStr ''hd'')"

definition jint_null :: "int option \<Rightarrow> js" where
  "jint_null n = (case n of None \<Rightarrow> JNull | Some i \<Rightarrow> JInt i)"

definition rotationToJs :: "PopSignerRotation \<Rightarrow> js" where
  "rotationToJs r = JObj [(''enabled'', JBool (pr_enabled r)), (''index'', jint_null (pr_index r)),
     (''intervalDays'', jint_null (pr_intervalDays r)), (''startUnix'', jint_null (pr_startUnix r)),
     (''nextRotateAtUnix'', jint_null (pr_nextRotateAtUnix r)), (''pathTemplate'', jstr_null (pr_pathTemplate r))]"

definition runtimeStatusToJs :: "RuntimeStatusReport \<Rightarrow> js" where
  "runtimeStatusToJs r =
     (let c = rs_checks r in
      JObj [(''ready'', JBool (rs_ready r)), (''checkedAt'', JStr (rs_checkedAt r)),
        (''checks'', JObj [(''adminPasswordConfigured'', JBool (rc_adminPasswordConfigured c)), (''popEnforced'', JBool (rc_popEnforced c)),
           (''popSignerConfigured'', JBool (rc_popSignerConfigured c)), (''popSignerPubkey'', jstr_null (rc_popSignerPubkey c)),
           (''popSignerMode'', signerModeToJs (rc_popSignerMode c)), (''popSignerDerivationPath'', jstr_null (rc_popSignerDerivationPath c)),
           (''popSignerRotation'', rotationToJs (rc_popSignerRotation c)), (''popSignerLegacyEnabled'', JBool (rc_popSignerLegacyEnabled c)),
           (''popSignerError'', jstr_null (rc_popSignerError c)), (''auditMode'', JStr (modeStr (rc_auditMode c))),
           (''auditOperationalReady'', JBool (rc_auditOperationalReady c)),
           (''auditPrimarySinkConfigured'', JBool (rc_auditPrimarySinkConfigured c)),
           (''costOfForgeryEnabled'', JBool (rc_costOfForgeryEnabled c)),
           (''costOfForgeryOperationalReady'', JBool (rc_costOfForgeryOperationalReady c)),
           (''costOfForgeryFailClosed'', JBool (rc_costOfForgeryFailClosed c)), (''corsOrigin'', jstr_null (rc_corsOrigin c))]),
        (''blockingIssues'', JArr (map JStr (rs_blockingIssues r))), (''warnings'', JArr (map JStr (rs_warnings r)))])"

definition handlePopStatus :: "world \<Rightarrow> storage \<Rightarrow> signer_cache \<Rightarrow> int \<Rightarrow> Request \<Rightarrow> signer_cache \<times> Response" where
  "handlePopStatus w s cache nowMs request =
     (let env = w_env w;
          (cache', result) = getPopSigner (w_crypto w) env cache nowMs;
          v = viewSigner result
      in (cache', json_response (JObj (
           [(''enforceOnchainPop'', JBool (isOnchainPopEnforced env)), (''signerConfigured'', JBool (sv_configured v)),
            (''signerPubkey'', jstr_null (sv_pubkey v))]
           @ (if authenticateOperator env s request \<noteq> None
              then [(''signerMode'', signerModeToJs (sv_mode v)), (''signerDerivationPath'', jstr_null (sv_derivationPath v)),
                    (''signerRotation'', rotationToJs (sv_rotation v)), (''legacySignerEnabled'', JBool (isPopSignerLegacyEnabled env)),
                    (''error'', jstr_null (sv_error v))]
              else [(''detailsRedacted'', JBool True)]))) 200))"

definition handleAuditStatus :: "Env \<Rightarrow> Response" where
  "handleAuditStatus env = json_response (auditStatusToJs (getAuditStatus env)) 200"

definition handleRuntimeStatus :: "world \<Rightarrow> storage \<Rightarrow> signer_cache \<Rightarrow> int \<Rightarrow> Request \<Rightarrow> signer_cache \<times> Response" where
  "handleRuntimeStatus w s cache nowMs request =
     (let (cache', result) = getPopSigner (w_crypto w) (w_env w) cache nowMs;
          status = getRuntimeStatus (w_env w) result nowMs
      in (cache', json_response (runtimeStatusToJs
           (if authenticateOperator (w_env w) s request \<noteq> None then status else getPublicRuntimeStatus status)) 200))"

end
