(* ===== verification/Status_Spec.thy ===== *)
theory Status_Spec
  imports Runtime_Status Trail_Spec
begin

text \<open>
  What the status reports promise: the public form tells nothing of the signer's derivation, its errors, the legacy
  setting or the CORS origin, and a worker that is reported ready does not refuse requests for want of an audit sink.
\<close>

lemma warning_words:
  "js_includes LEGACY_WARNING ''PoP legacy signer fallback''" "js_includes CORS_UNSET_WARNING ''CORS_ORIGIN''"
  "js_includes CORS_DEFAULT_WARNING ''CORS_ORIGIN''"
  "\<not> js_includes FAIL_OPEN_WARNING ''PoP legacy signer fallback''" "\<not> js_includes FAIL_OPEN_WARNING ''CORS_ORIGIN''"
  by code_simp+

lemma public_warnings:
  "filter (\<lambda>warning. \<not> js_includes warning ''PoP legacy signer fallback'' \<and> \<not> js_includes warning ''CORS_ORIGIN'') (runtimeWarnings env)
     = (let f = getCostOfForgeryStatus env in
        if fs_enabled f \<and> \<not> costOfForgeryAnyFailClosed env \<and> \<not> fs_operationalReady f then [FAIL_OPEN_WARNING] else [])"
  by (simp add: runtimeWarnings_def warning_words Let_def)

text \<open>What a reader without a token may learn of the signer.\<close>

definition public_view :: "SignerView \<Rightarrow> bool \<times> string option \<times> bool" where
  "public_view v = (sv_configured v, sv_pubkey v, sv_error v \<noteq> None \<and> sv_error v \<noteq> Some [])"

lemma blocking_public:
  assumes "public_view v = public_view v'"
  shows "map (\<lambda>issue. if prefix SIGNER_ERROR_PREFIX issue then x else issue) (runtimeBlockingIssues env v)
    = map (\<lambda>issue. if prefix SIGNER_ERROR_PREFIX issue then x else issue) (runtimeBlockingIssues env v')"
    "(runtimeBlockingIssues env v = []) = (runtimeBlockingIssues env v' = [])"
proof -
  have "sv_configured v = sv_configured v'" "(sv_error v \<noteq> None \<and> sv_error v \<noteq> Some []) = (sv_error v' \<noteq> None \<and> sv_error v' \<noteq> Some [])"
    using assms by (simp_all add: public_view_def)
  then show "map (\<lambda>issue. if prefix SIGNER_ERROR_PREFIX issue then x else issue) (runtimeBlockingIssues env v)
      = map (\<lambda>issue. if prefix SIGNER_ERROR_PREFIX issue then x else issue) (runtimeBlockingIssues env v')"
    "(runtimeBlockingIssues env v = []) = (runtimeBlockingIssues env v' = [])"
    by (cases "sv_error v"; cases "sv_error v'"; simp add: runtimeBlockingIssues_def Let_def; fail)+
qed

text \<open>The settings that the public report hides do not enter the rest of the report.\<close>

lemma hidden_settings:
  fixes c l defines "e \<equiv> \<lambda>env :: Env. env\<lparr>CORS_ORIGIN := c, POP_SIGNER_LEGACY_ENABLED := l\<rparr>"
  shows "getAuditStatus (e env) = getAuditStatus env" "getCostOfForgeryStatus (e env) = getCostOfForgeryStatus env"
    "costOfForgeryAnyFailClosed (e env) = costOfForgeryAnyFailClosed env"
    "getConfiguredMasterPassword (e env) = getConfiguredMasterPassword env" "isOnchainPopEnforced (e env) = isOnchainPopEnforced env"
proof -
  show f: "getCostOfForgeryStatus (e env) = getCostOfForgeryStatus env"
    by (simp add: e_def getCostOfForgeryStatus_def forgeryBaseUrl_def Let_def)
  have "COST_OF_FORGERY_FAIL_CLOSED_REGISTER (e env) = COST_OF_FORGERY_FAIL_CLOSED_REGISTER env"
    "COST_OF_FORGERY_FAIL_CLOSED_CLAIM (e env) = COST_OF_FORGERY_FAIL_CLOSED_CLAIM env" by (simp_all add: e_def)
  then show "costOfForgeryAnyFailClosed (e env) = costOfForgeryAnyFailClosed env"
    by (simp only: costOfForgeryAnyFailClosed_def isCostOfForgeryFailClosedForAction_def f)
qed (simp_all add: e_def getAuditStatus_def getAuditImmutableMode_def getConfiguredMasterPassword_def isOnchainPopEnforced_def Let_def)

text \<open>
  The public runtime report hides the details: it is the same for any CORS origin, any setting of the legacy signer
  and any two signers with the same public key of which both or none report an error, whatever their derivation path,
  rotation, mode and error texts.
\<close>

theorem public_status_hides_details:
  assumes "public_view (viewSigner signer) = public_view (viewSigner signer')"
  shows "getPublicRuntimeStatus (getRuntimeStatus env signer t) =
    getPublicRuntimeStatus (getRuntimeStatus (env\<lparr>CORS_ORIGIN := c, POP_SIGNER_LEGACY_ENABLED := l\<rparr>) signer' t)"
proof -
  let ?env = "env\<lparr>CORS_ORIGIN := c, POP_SIGNER_LEGACY_ENABLED := l\<rparr>"
  have b: "runtimeBlockingIssues ?env v = runtimeBlockingIssues env v" for v
    unfolding runtimeBlockingIssues_def hidden_settings by (rule refl)
  have v: "sv_configured (viewSigner signer) = sv_configured (viewSigner signer')" "sv_pubkey (viewSigner signer) = sv_pubkey (viewSigner signer')"
    "(case sv_error (viewSigner signer) of Some e \<Rightarrow> (if e \<noteq> [] then Some ''redacted'' else None) | None \<Rightarrow> None)
      = (case sv_error (viewSigner signer') of Some e \<Rightarrow> (if e \<noteq> [] then Some ''redacted'' else None) | None \<Rightarrow> None)"
    using assms by (auto simp: public_view_def split: option.splits if_splits)
  show ?thesis
    unfolding getPublicRuntimeStatus_def getRuntimeStatus_def Let_def
    by (simp add: b v blocking_public [OF assms] public_warnings hidden_settings Let_def)
qed

text \<open>
  A worker that is reported ready has a master password, a signer when on-chain proofs are enforced, and runs the
  handler of every request that passes the security checks: the answer is the handler's, or says that the audit entry
  could not be stored.
\<close>

theorem ready_worker_serves:
  assumes "rs_ready (getRuntimeStatus env signer t)"
    "enforceSecurityPreflight H env s request path startedAt = (s1, None)"
    "handleRequest s1 request path = (s2, Inr answer)"
  shows "getConfiguredMasterPassword env \<noteq> None \<and> (isOnchainPopEnforced env \<longrightarrow> (\<exists>p. signer = Inr (Some p)))
    \<and> (snd (fetch H env svc handleRequest s startedAt nowMs request path params) = answer
       \<or> (\<exists>m. snd (fetch H env svc handleRequest s startedAt nowMs request path params) = auditPersistenceFailed m))"
proof -
  have none: "runtimeBlockingIssues env (viewSigner signer) = []" using assms(1) by (simp add: getRuntimeStatus_def Let_def)
  then have a: "getConfiguredMasterPassword env \<noteq> None" "isOnchainPopEnforced env \<Longrightarrow> sv_configured (viewSigner signer)"
    and r: "as_failClosedForMutatingRequests (getAuditStatus env) \<Longrightarrow> as_operationalReady (getAuditStatus env)"
    by (auto simp: runtimeBlockingIssues_def Let_def split: if_splits)
  have "isAuditFailClosed env path m \<Longrightarrow> as_operationalReady (getAuditStatus env)" for m
    using r by (auto simp: isAuditFailClosed_def getAuditStatus_def Let_def split: if_splits)
  then have "snd (fetch H env svc handleRequest s startedAt nowMs request path params) = answer
       \<or> (\<exists>m. snd (fetch H env svc handleRequest s startedAt nowMs request path params) = auditPersistenceFailed m)"
    using assms(2,3) by (auto simp: fetch_def Let_def split: sum.splits)
  moreover have "\<exists>p. signer = Inr (Some p)" if "isOnchainPopEnforced env"
    using a(2) [OF that] by (auto simp: viewSigner_def split: sum.splits)
  ultimately show ?thesis using a(1) by blast
qed

section \<open>Examples\<close>

theorem public_status_hides_details_witness:
  "public_view (viewSigner (Inl ''bad seed'')) = public_view (viewSigner (Inl ''bad path''))
   \<and> getPublicRuntimeStatus (getRuntimeStatus emptyEnv (Inl ''bad seed'') 0) =
     getPublicRuntimeStatus (getRuntimeStatus (emptyEnv\<lparr>CORS_ORIGIN := Some ''https://x'', POP_SIGNER_LEGACY_ENABLED := Some ''false''\<rparr>)
       (Inl ''bad path'') 0)"
proof -
  have "public_view (viewSigner (Inl ''bad seed'')) = public_view (viewSigner (Inl ''bad path''))"
    by (simp add: public_view_def viewSigner_def)
  then show ?thesis using public_status_hides_details by blast
qed

definition readyEnv :: Env where
  "readyEnv = emptyEnv\<lparr>ADMIN_PASSWORD := Some ''pw'', ENFORCE_ONCHAIN_POP := Some ''off'', AUDIT_IMMUTABLE_MODE := Some ''off''\<rparr>"

theorem ready_worker_serves_witness:
  "rs_ready (getRuntimeStatus readyEnv (Inr None) 0)
   \<and> (\<exists>r. snd (fetch (\<lambda>x. ''h'') readyEnv noServices writingHandler [] 0 5 signupRequest ''/api/users/register'' []) = r
        \<and> (rs_status r = 200 \<or> (\<exists>m. r = auditPersistenceFailed m)))"
proof -
  have "runtimeBlockingIssues readyEnv (viewSigner (Inr None)) = []" by code_simp
  then have ready: "rs_ready (getRuntimeStatus readyEnv (Inr None) 0)" by (simp add: getRuntimeStatus_def Let_def)
  have "snd (enforceSecurityPreflight (\<lambda>x. ''h'') readyEnv [] signupRequest ''/api/users/register'' 0) = None" by code_simp
  then obtain s1 where pre: "enforceSecurityPreflight (\<lambda>x. ''h'') readyEnv [] signupRequest ''/api/users/register'' 0 = (s1, None)"
    by (metis prod.collapse)
  have "writingHandler s1 signupRequest ''/api/users/register'' = (sto_put s1 ''user:alice'' (JBool True), Inr (json_response (JObj [(''ok'', JBool True)]) 200))"
    by (simp add: writingHandler_def respond_def)
  from ready_worker_serves [where handleRequest = writingHandler, OF ready pre this] ready show ?thesis by force
qed

end
