(* ===== verification/Master_Disclosure.thy ===== *)
theory Master_Disclosure
  imports Event_Handlers
begin

text \<open>
  \<open>GET /api/master/admin-disclosures\<close> (\<open>storeDO.ts\<close>): for the master, every administrator with the events they own, the
  transfers of these events and the people behind the transfers. A \<open>Map\<close> is the list of its entries in the order of
  insertion. Timestamps are compared as strings, and event ids by code units.
\<close>

section \<open>Data\<close>

record MasterAdminDisclosureEvent =
  de_id :: js
  de_title :: js
  de_datetime :: js
  de_host :: js
  de_state :: js
  de_claimedCount :: js
  de_ownerSource :: string

record MasterAdminDisclosureUserClaim =
  dc_ts :: js
  dc_eventId :: js
  dc_eventTitle :: js
  dc_transfer :: TransferAuditPayload
  dc_pii :: "(string \<times> string) list option"

text \<open>The people of the report; \<open>eventIds\<close> is computed from the claims.\<close>

record MasterAdminDisclosureUser =
  du_key :: string
  du_userId :: "string option"
  du_displayName :: "string option"
  du_walletAddress :: "string option"
  du_joinToken :: "string option"
  du_recipientType :: string
  du_recipientId :: string
  du_claims :: "MasterAdminDisclosureUserClaim list"

record MasterAdminDisclosure =
  ad_adminId :: string
  ad_code :: string
  ad_name :: string
  ad_createdAt :: string
  ad_revokedAt :: "string option"
  ad_events :: "MasterAdminDisclosureEvent list"
  ad_relatedTransferCount :: nat
  ad_relatedUsers :: "(string \<times> MasterAdminDisclosureUser) list"

definition ad_status :: "MasterAdminDisclosure \<Rightarrow> string" where
  "ad_status a = (if ad_revokedAt a \<noteq> None then ''revoked'' else ''active'')"

text \<open>\<open>Array.from(new Set(xs))\<close>\<close>

definition js_unique :: "'a list \<Rightarrow> 'a list" where
  "js_unique xs = rev (remdups (rev xs))"

definition du_eventIds :: "MasterAdminDisclosureUser \<Rightarrow> js list" where
  "du_eventIds u = js_unique (map dc_eventId (du_claims u))"

section \<open>Administrators and their events\<close>

definition disclosedAdmins :: "storage \<Rightarrow> bool \<Rightarrow> AdminCodeRecord list" where
  "disclosedAdmins s includeRevoked =
     newestFirst ac_createdAt
       (filter (\<lambda>a. includeRevoked \<or> ac_revokedAt a = None)
         (List.map_filter (\<lambda>(key, value). parseAdminCodeRecord (drop (length ADMIN_CODE_PREFIX) key) value) (sto_list s ADMIN_CODE_PREFIX)))"

definition adminNameIndex :: "AdminCodeRecord list \<Rightarrow> (string \<times> string list) list" where
  "adminNameIndex parsedAdmins =
     fold (\<lambda>admin ix.
         let normalizedName = js_lower (js_trim (ac_name admin)) in
         if normalizedName = [] then ix
         else kv_set normalizedName ((case map_of ix normalizedName of Some bucket \<Rightarrow> bucket | None \<Rightarrow> []) @ [ac_adminId admin]) ix)
       parsedAdmins []"

definition emptyDisclosure :: "AdminCodeRecord \<Rightarrow> MasterAdminDisclosure" where
  "emptyDisclosure admin = \<lparr>ad_adminId = ac_adminId admin, ad_code = ac_code admin, ad_name = ac_name admin,
     ad_createdAt = ac_createdAt admin, ad_revokedAt = ac_revokedAt admin, ad_events = [], ad_relatedTransferCount = 0,
     ad_relatedUsers = []\<rparr>"

text \<open>
  The owner of an event and where it is known from: the stored owner, else the one administrator with the name of the
  host. \<open>trim\<close> of a host that is no string throws.
\<close>

definition eventOwnerOf :: "storage \<Rightarrow> (string \<times> string list) list \<Rightarrow> js \<Rightarrow> (string \<times> string) option or_error" where
  "eventOwnerOf s nameIndex event =
     (case getEventOwnerRecord s (sfield event ''id'') of
        Some explicitOwner \<Rightarrow> Inr (Some (eo_adminId explicitOwner, sourceStr (eo_source explicitOwner)))
      | None \<Rightarrow>
          (case jget event ''host'' of
             JStr host \<Rightarrow>
               Inr (case map_of nameIndex (js_lower (js_trim host)) of
                      Some [adminId] \<Rightarrow> (if adminId = [] then None else Some (adminId, ''inferred'')) | _ \<Rightarrow> None)
           | _ \<Rightarrow> Inl ''TypeError''))"

definition orPublished :: "js \<Rightarrow> js" where
  "orPublished state = (if state = JUndef \<or> state = JNull then JStr ''published'' else state)"

definition disclosureEvent :: "js \<Rightarrow> string \<Rightarrow> MasterAdminDisclosureEvent" where
  "disclosureEvent event ownerSource =
     \<lparr>de_id = jget event ''id'', de_title = jget event ''title'', de_datetime = jget event ''datetime'', de_host = jget event ''host'',
      de_state = orPublished (jget event ''state''),
      de_claimedCount = (let c = jget event ''claimedCount'' in if c = JUndef \<or> c = JNull then JInt 0 else c),
      de_ownerSource = ownerSource\<rparr>"

text \<open>The accounts, the owner of each event and the titles, while the events are read.\<close>

record DisclosureState =
  ds_admins :: "(string \<times> MasterAdminDisclosure) list"
  ds_ownerById :: "(js \<times> string) list"
  ds_titleById :: "(js \<times> js) list"

definition addDisclosedEvent ::
  "storage \<Rightarrow> (string \<times> string list) list \<Rightarrow> js \<Rightarrow> DisclosureState \<Rightarrow> DisclosureState or_error" where
  "addDisclosedEvent s nameIndex event d =
     (let d1 = d\<lparr>ds_titleById := kv_set (jget event ''id'') (jget event ''title'') (ds_titleById d)\<rparr>
      in case eventOwnerOf s nameIndex event of
           Inl e \<Rightarrow> Inl e
         | Inr None \<Rightarrow> Inr d1
         | Inr (Some (ownerAdminId, ownerSource)) \<Rightarrow>
             (case map_of (ds_admins d1) ownerAdminId of
                None \<Rightarrow> Inr d1
              | Some a \<Rightarrow>
                  Inr (d1\<lparr>ds_ownerById := kv_set (jget event ''id'') ownerAdminId (ds_ownerById d1),
                       ds_admins := kv_set ownerAdminId (a\<lparr>ad_events := ad_events a @ [disclosureEvent event ownerSource]\<rparr>) (ds_admins d1)\<rparr>)))"

fun addDisclosedEvents ::
  "storage \<Rightarrow> (string \<times> string list) list \<Rightarrow> js list \<Rightarrow> DisclosureState \<Rightarrow> DisclosureState or_error" where
  "addDisclosedEvents s nameIndex [] d = Inr d"
| "addDisclosedEvents s nameIndex (e # es) d =
     (case addDisclosedEvent s nameIndex e d of Inl m \<Rightarrow> Inl m | Inr d' \<Rightarrow> addDisclosedEvents s nameIndex es d')"

section \<open>Transfers and the people behind them\<close>

definition orElse :: "'a option \<Rightarrow> 'a option \<Rightarrow> 'a option" where
  "orElse a b = (case a of Some x \<Rightarrow> Some x | None \<Rightarrow> b)"

definition relatedUserRow :: "TransferLogView \<Rightarrow> MasterAdminDisclosureUser" where
  "relatedUserRow entry =
     (let recipient = ta_recipient (tv_transfer entry);
          userId = normalizeStringField (piiField entry ''userId'');
          displayName = normalizeStringField (piiField entry ''displayName'');
          walletAddress = orElse (normalizeStringField (piiField entry ''walletAddress''))
                            (if tp_type recipient = ''wallet'' then Some (tp_id recipient) else None);
          joinToken = orElse (normalizeStringField (piiField entry ''joinToken''))
                        (if tp_type recipient = ''join_token'' then Some (tp_id recipient) else None);
          full = (\<lambda>x. x \<noteq> None \<and> x \<noteq> Some []);
          key = (if full userId then ''user:'' @ the userId
                 else if full walletAddress then ''wallet:'' @ the walletAddress
                 else if full joinToken then ''join:'' @ the joinToken
                 else ''recipient:'' @ tp_type recipient @ '':'' @ tp_id recipient)
      in \<lparr>du_key = key, du_userId = userId, du_displayName = displayName, du_walletAddress = walletAddress, du_joinToken = joinToken,
          du_recipientType = tp_type recipient, du_recipientId = tp_id recipient, du_claims = []\<rparr>)"

text \<open>\<open>if (!row.f && f) row.f = f\<close>\<close>

definition fillIn :: "string option \<Rightarrow> string option \<Rightarrow> string option" where
  "fillIn old new = (if (old = None \<or> old = Some []) \<and> new \<noteq> None \<and> new \<noteq> Some [] then new else old)"

definition addRelatedClaim ::
  "TransferLogView \<Rightarrow> js \<Rightarrow> (string \<times> MasterAdminDisclosureUser) list \<Rightarrow> (string \<times> MasterAdminDisclosureUser) list" where
  "addRelatedClaim entry eventTitle users =
     (let fresh = relatedUserRow entry;
          row = (case map_of users (du_key fresh) of Some existing \<Rightarrow> existing | None \<Rightarrow> fresh);
          claim = \<lparr>dc_ts = tv_ts entry, dc_eventId = tv_eventId entry, dc_eventTitle = eventTitle, dc_transfer = tv_transfer entry,
                   dc_pii = tv_pii entry\<rparr>
      in kv_set (du_key fresh)
           (row\<lparr>du_userId := fillIn (du_userId row) (du_userId fresh), du_displayName := fillIn (du_displayName row) (du_displayName fresh),
                du_walletAddress := fillIn (du_walletAddress row) (du_walletAddress fresh),
                du_joinToken := fillIn (du_joinToken row) (du_joinToken fresh), du_claims := du_claims row @ [claim]\<rparr>) users)"

definition addTransfer :: "DisclosureState \<Rightarrow> TransferLogView \<Rightarrow> DisclosureState" where
  "addTransfer d entry =
     (case map_of (ds_ownerById d) (tv_eventId entry) of
        None \<Rightarrow> d
      | Some ownerAdminId \<Rightarrow>
          (case (if ownerAdminId = [] then None else map_of (ds_admins d) ownerAdminId) of
             None \<Rightarrow> d
           | Some a \<Rightarrow>
               (let title = (case map_of (ds_titleById d) (tv_eventId entry) of
                               Some t \<Rightarrow> (if t = JUndef then JNull else t) | None \<Rightarrow> JNull)
                in d\<lparr>ds_admins := kv_set ownerAdminId (a\<lparr>ad_relatedTransferCount := ad_relatedTransferCount a + 1,
                       ad_relatedUsers := addRelatedClaim entry title (ad_relatedUsers a)\<rparr>) (ds_admins d)\<rparr>)))"

section \<open>The report\<close>

definition firstClaimTs :: "MasterAdminDisclosureUser \<Rightarrow> string" where
  "firstClaimTs u = (case du_claims u of
     c # _ \<Rightarrow> (if dc_ts c = JUndef \<or> dc_ts c = JNull then [] else js_to_string (dc_ts c)) | [] \<Rightarrow> [])"

definition finishDisclosure :: "MasterAdminDisclosure \<Rightarrow> MasterAdminDisclosure" where
  "finishDisclosure a = a\<lparr>ad_events := sort_key (\<lambda>e. js_to_string (de_id e)) (ad_events a),
     ad_relatedUsers := newestFirst (\<lambda>(_, u). firstClaimTs u) (ad_relatedUsers a)\<rparr>"

definition getMasterAdminDisclosures :: "storage \<Rightarrow> bool \<Rightarrow> int \<Rightarrow> MasterAdminDisclosure list or_error" where
  "getMasterAdminDisclosures s includeRevoked transferLimit =
     (let parsedAdmins = disclosedAdmins s includeRevoked;
          d0 = \<lparr>ds_admins = fold (\<lambda>a m. kv_set (ac_adminId a) (emptyDisclosure a) m) parsedAdmins [], ds_ownerById = [], ds_titleById = []\<rparr>
      in case addDisclosedEvents s (adminNameIndex parsedAdmins) (getEvents doStorageAdapter s) d0 of
           Inl e \<Rightarrow> Inl e
         | Inr d1 \<Rightarrow>
             (let d2 = foldl addTransfer d1 (getTransferLogs s RoleView_master transferLimit None None)
              in Inr (newestFirst ad_createdAt (map (\<lambda>(_, a). finishDisclosure a) (ds_admins d2)))))"

definition disclosureEventToJs :: "MasterAdminDisclosureEvent \<Rightarrow> js" where
  "disclosureEventToJs e = JObj [(''id'', de_id e), (''title'', de_title e), (''datetime'', de_datetime e), (''host'', de_host e),
     (''state'', de_state e), (''claimedCount'', de_claimedCount e), (''ownerSource'', JStr (de_ownerSource e))]"

definition disclosureClaimToJs :: "MasterAdminDisclosureUserClaim \<Rightarrow> js" where
  "disclosureClaimToJs c = JObj [(''ts'', dc_ts c), (''eventId'', dc_eventId c), (''eventTitle'', dc_eventTitle c),
     (''transfer'', transferToJs (dc_transfer c)), (''pii'', piiToJs (dc_pii c))]"

definition disclosureUserToJs :: "MasterAdminDisclosureUser \<Rightarrow> js" where
  "disclosureUserToJs u = JObj [(''key'', JStr (du_key u)), (''userId'', jstr_null (du_userId u)),
     (''displayName'', jstr_null (du_displayName u)), (''walletAddress'', jstr_null (du_walletAddress u)),
     (''joinToken'', jstr_null (du_joinToken u)), (''recipientType'', JStr (du_recipientType u)),
     (''recipientId'', JStr (du_recipientId u)), (''eventIds'', JArr (du_eventIds u)),
     (''claims'', JArr (map disclosureClaimToJs (du_claims u)))]"

definition disclosureToJs :: "MasterAdminDisclosure \<Rightarrow> js" where
  "disclosureToJs a = JObj [(''adminId'', JStr (ad_adminId a)), (''code'', JStr (ad_code a)), (''name'', JStr (ad_name a)),
     (''createdAt'', JStr (ad_createdAt a)), (''status'', JStr (ad_status a)), (''revokedAt'', jstr_null (ad_revokedAt a)),
     (''events'', JArr (map disclosureEventToJs (ad_events a))), (''relatedTransferCount'', JInt (int (ad_relatedTransferCount a))),
     (''relatedUsers'', JArr (map (\<lambda>(_, u). disclosureUserToJs u) (ad_relatedUsers a)))]"

definition queryParam :: "(string \<times> string) list \<Rightarrow> string \<Rightarrow> string option" where
  "queryParam params name = map_of params name"

definition handleAdminDisclosures :: "Env \<Rightarrow> storage \<Rightarrow> int \<Rightarrow> Request \<Rightarrow> (string \<times> string) list \<Rightarrow> outcome" where
  "handleAdminDisclosures env s nowMs request params =
     (case requireMasterAuthorization env request of
        Some authError \<Rightarrow> (s, Inr authError)
      | None \<Rightarrow>
          (let includeRevoked = parseBooleanQuery (queryParam params ''includeRevoked'') True;
               transferLimit = parseBoundedInt (queryParam params ''transferLimit'') 500 1 1000
           in case getMasterAdminDisclosures s includeRevoked transferLimit of
                Inl e \<Rightarrow> (s, Inl e)
              | Inr admins \<Rightarrow>
                  respond s (JObj [(''checkedAt'', JStr (js_toISOString nowMs)), (''strictLevel'', JStr ''master_full''),
                    (''includeRevoked'', JBool includeRevoked), (''transferLimit'', JInt transferLimit),
                    (''admins'', JArr (map disclosureToJs admins))]) 200))"

end
