(* ===== verification/Master_Search.thy ===== *)
theory Master_Search
  imports Master_Disclosure "HOL-Library.Product_Lexorder"
begin

text \<open>
  \<open>GET /api/master/search\<close> (\<open>storeDO.ts\<close>): the disclosure report as documents, an index from tokens to documents, the
  search over it in memory, and the same index and search in the tables of the SQLite storage of the Durable Object. A
  table is the list of its rows; a statement that breaks a primary key throws and leaves what was written before. In a
  \<open>LIKE\<close> pattern \<open>%\<close> stands for any text and \<open>_\<close> for one character, and letters are compared without case.
\<close>

section \<open>Text and tokens\<close>

datatype MasterSearchKind = Kind_admin | Kind_event | Kind_user | Kind_claim

record MasterSearchIndexDocument =
  md_id :: string
  md_kind :: MasterSearchKind
  md_title :: string
  md_subtitle :: string
  md_detail :: string
  md_searchText :: string

definition normalizeSearchText :: "string \<Rightarrow> string" where
  "normalizeSearchText value = js_trim (collapse_ws (js_lower value))"

definition is_separator :: "char \<Rightarrow> bool" where
  "is_separator c = (is_ws c \<or> c \<in> set '',.;:/|()[]{}<>!`~@#$%^&*+=?-'' \<or> c = CHR 0x5C \<or> c = CHR 0x22 \<or> c = CHR 0x27)"

text \<open>The parts between runs of separators that are not empty.\<close>

fun splitTerms :: "string \<Rightarrow> string \<Rightarrow> string list" where
  "splitTerms part [] = (if part = [] then [] else [rev part])"
| "splitTerms part (c # cs) =
     (if is_separator c then (if part = [] then [] else [rev part]) @ splitTerms [] cs else splitTerms (c # part) cs)"

definition tokenizeSearchTerms :: "string \<Rightarrow> string list" where
  "tokenizeSearchTerms value =
     (let normalized = normalizeSearchText value
      in if normalized = [] then []
         else js_unique (filter (\<lambda>part. part \<noteq> []) (map (\<lambda>part. take 64 (js_trim part)) (splitTerms [] normalized))))"

section \<open>Documents\<close>

text \<open>\<open>vs.join(sep)\<close>\<close>

definition joinJs :: "string \<Rightarrow> js list \<Rightarrow> string" where
  "joinJs sep vs = js_join sep (map (\<lambda>v. if v = JUndef \<or> v = JNull then [] else js_to_string v) vs)"

abbreviation joinText :: "js list \<Rightarrow> string" where
  "joinText \<equiv> joinJs '' ''"

definition orDash :: "string option \<Rightarrow> string" where
  "orDash v = (case v of Some t \<Rightarrow> t | None \<Rightarrow> ''-'')"

definition orBlank :: "string option \<Rightarrow> js" where
  "orBlank v = JStr (case v of Some t \<Rightarrow> t | None \<Rightarrow> [])"

definition str_nat :: "nat \<Rightarrow> string" where
  "str_nat n = js_str_int (int n)"

definition shorten :: "string option \<Rightarrow> string" where
  "shorten value =
     (case value of
        None \<Rightarrow> ''-''
      | Some v \<Rightarrow> (if v = [] then ''-'' else if length v \<le> 8 + 8 + 3 then v else take 8 v @ ''...'' @ drop (length v - 8) v))"

definition adminDocument :: "MasterAdminDisclosure \<Rightarrow> MasterSearchIndexDocument" where
  "adminDocument a =
     (let nEvents = length (ad_events a); nUsers = length (ad_relatedUsers a); nTransfers = ad_relatedTransferCount a in
      \<lparr>md_id = ''admin:'' @ ad_adminId a, md_kind = Kind_admin, md_title = ad_name a @ '' ('' @ ad_status a @ '')'',
       md_subtitle = ''adminId='' @ ad_adminId a @ '' code='' @ ad_code a,
       md_detail = ''events='' @ str_nat nEvents @ '' relatedUsers='' @ str_nat nUsers @ '' transfers='' @ str_nat nTransfers,
       md_searchText = normalizeSearchText (joinText [JStr (ad_adminId a), JStr (ad_code a), JStr (ad_name a), JStr (ad_status a),
         JStr (ad_createdAt a), orBlank (ad_revokedAt a), JStr (str_nat nEvents), JStr (str_nat nUsers), JStr (str_nat nTransfers)])\<rparr>)"

definition eventDocument :: "MasterAdminDisclosure \<Rightarrow> MasterAdminDisclosureEvent \<Rightarrow> MasterSearchIndexDocument" where
  "eventDocument a e =
     \<lparr>md_id = ''event:'' @ ad_adminId a @ '':'' @ js_to_string (de_id e), md_kind = Kind_event,
      md_title = js_to_string (de_title e) @ '' ('' @ js_to_string (de_id e) @ '')'',
      md_subtitle = ''admin='' @ ad_name a @ '' owner='' @ de_ownerSource e,
      md_detail = ''state='' @ js_to_string (de_state e) @ '' claims='' @ js_to_string (de_claimedCount e) @ '' host='' @ js_to_string (de_host e),
      md_searchText = normalizeSearchText (joinText [JStr (ad_name a), JStr (ad_adminId a), de_id e, de_title e, de_host e, de_state e,
        JStr (de_ownerSource e), de_datetime e, JStr (js_to_string (de_claimedCount e))])\<rparr>"

definition userDocument :: "MasterAdminDisclosure \<Rightarrow> MasterAdminDisclosureUser \<Rightarrow> MasterSearchIndexDocument" where
  "userDocument a u =
     (let eventIds = joinJs '', '' (du_eventIds u) in
      \<lparr>md_id = ''user:'' @ ad_adminId a @ '':'' @ du_key u, md_kind = Kind_user,
       md_title = orDash (du_displayName u) @ '' / userId='' @ orDash (du_userId u),
       md_subtitle = ''admin='' @ ad_name a @ '' wallet='' @ orDash (du_walletAddress u) @ '' joinToken='' @ orDash (du_joinToken u),
       md_detail = ''recipient='' @ du_recipientType u @ '':'' @ du_recipientId u @ '' events='' @ (if eventIds = [] then ''-'' else eventIds),
       md_searchText = normalizeSearchText (joinText [JStr (ad_name a), JStr (ad_adminId a), JStr (du_key u), orBlank (du_userId u),
         orBlank (du_displayName u), orBlank (du_walletAddress u), orBlank (du_joinToken u), JStr (du_recipientType u),
         JStr (du_recipientId u), JStr (joinText (du_eventIds u))])\<rparr>)"

definition claimDocument ::
  "MasterAdminDisclosure \<Rightarrow> MasterAdminDisclosureUser \<Rightarrow> nat \<Rightarrow> MasterAdminDisclosureUserClaim \<Rightarrow> MasterSearchIndexDocument" where
  "claimDocument a u i c =
     (let eventId = js_to_string (dc_eventId c); t = dc_transfer c;
          who = (case orElse (du_displayName u) (du_userId u) of Some n \<Rightarrow> n | None \<Rightarrow> du_recipientId u)
      in \<lparr>md_id = ''claim:'' @ ad_adminId a @ '':'' @ du_key u @ '':'' @ eventId @ '':'' @ str_nat i, md_kind = Kind_claim,
          md_title = eventId @ '' ('' @ (if dc_eventTitle c = JNull then ''-'' else js_to_string (dc_eventTitle c)) @ '')'',
          md_subtitle = ''admin='' @ ad_name a @ '' user='' @ who,
          md_detail = ''transfer='' @ tp_id (ta_sender t) @ '' -> '' @ tp_id (ta_recipient t) @ '' tx='' @ shorten (ta_txSignature t),
          md_searchText = normalizeSearchText (joinText ([JStr (ad_name a), JStr (ad_adminId a), orBlank (du_userId u),
            orBlank (du_displayName u), orBlank (du_walletAddress u), orBlank (du_joinToken u), dc_eventId c,
            (if dc_eventTitle c = JNull then JStr [] else dc_eventTitle c), dc_ts c, JStr (tp_type (ta_sender t)), JStr (tp_id (ta_sender t)),
            JStr (tp_type (ta_recipient t)), JStr (tp_id (ta_recipient t)), orBlank (ta_txSignature t), orBlank (ta_receiptPubkey t),
            orBlank (ta_mint t)]
            @ (case dc_pii c of Some kvs \<Rightarrow> map (\<lambda>(_, v). JStr v) kvs | None \<Rightarrow> [])))\<rparr>)"

definition buildMasterSearchDocuments :: "MasterAdminDisclosure list \<Rightarrow> MasterSearchIndexDocument list" where
  "buildMasterSearchDocuments admins =
     concat (map (\<lambda>a. [adminDocument a] @ map (eventDocument a) (ad_events a)
       @ concat (map (\<lambda>(_, u). userDocument a u # map (\<lambda>(i, c). claimDocument a u i c) (enumerate 0 (du_claims u))) (ad_relatedUsers a)))
       admins)"

section \<open>The index in memory\<close>

type_synonym token_index = "(string \<times> nat list) list"

definition addDocIndexToken :: "nat \<Rightarrow> string \<Rightarrow> token_index \<Rightarrow> token_index" where
  "addDocIndexToken docIndex token ix =
     (if token = [] then ix
      else case map_of ix token of
             None \<Rightarrow> kv_set token [docIndex] ix
           | Some bucket \<Rightarrow> (if last bucket \<noteq> docIndex then kv_set token (bucket @ [docIndex]) ix else ix))"

definition termPrefixes :: "string \<Rightarrow> string list" where
  "termPrefixes term = term # (if length term \<le> 1 then [] else map (\<lambda>len. take len term) [2..<Suc (min 24 (length term))])"

definition docTokens :: "MasterSearchIndexDocument \<Rightarrow> string list" where
  "docTokens doc =
     js_unique (concat (map termPrefixes
       (tokenizeSearchTerms (md_title doc @ '' '' @ md_subtitle doc @ '' '' @ md_detail doc @ '' '' @ md_searchText doc))))"

definition buildMasterSearchTokenIndex :: "MasterSearchIndexDocument list \<Rightarrow> token_index" where
  "buildMasterSearchTokenIndex docs =
     fold (\<lambda>(docIndex, doc) ix. fold (addDocIndexToken docIndex) (docTokens doc) ix) (enumerate 0 docs) []"

record MasterSearchIndexCache =
  mi_key :: string
  mi_builtAtMs :: int
  mi_builtAt :: string
  mi_docs :: "MasterSearchIndexDocument list"
  mi_tokenToDocIds :: token_index

section \<open>Searching in memory\<close>

definition scoreDocument :: "string \<Rightarrow> string list \<Rightarrow> MasterSearchIndexDocument \<Rightarrow> int" where
  "scoreDocument normalizedQuery terms doc =
     (let title = js_lower (md_title doc); subtitle = js_lower (md_subtitle doc); detail = js_lower (md_detail doc);
          pts = (\<lambda>text needle n. if js_includes text needle then n else 0)
      in pts (md_searchText doc) normalizedQuery 12 + pts title normalizedQuery 8 + pts subtitle normalizedQuery 4
         + pts detail normalizedQuery 2
         + sum_list (map (\<lambda>term. pts title term 3 + pts subtitle term 2 + pts (md_searchText doc) term 1) terms))"

record MasterSearchResultItem =
  ri_id :: string
  ri_kind :: MasterSearchKind
  ri_title :: string
  ri_subtitle :: string
  ri_detail :: string

definition resultItem :: "MasterSearchIndexDocument \<Rightarrow> MasterSearchResultItem" where
  "resultItem doc = \<lparr>ri_id = md_id doc, ri_kind = md_kind doc, ri_title = md_title doc, ri_subtitle = md_subtitle doc, ri_detail = md_detail doc\<rparr>"

text \<open>\<open>ranked.sort\<close>: by descending score, then by document; the page is what fits the limit.\<close>

definition rankDocuments ::
  "string \<Rightarrow> string list \<Rightarrow> int \<Rightarrow> (nat \<times> MasterSearchIndexDocument) list \<Rightarrow> nat \<times> MasterSearchResultItem list" where
  "rankDocuments normalizedQuery terms limit found =
     (let ranked = sort_key (\<lambda>(docIndex, doc). (- scoreDocument normalizedQuery terms doc, docIndex)) found
      in (length ranked, map (\<lambda>(_, doc). resultItem doc) (take (nat limit) ranked)))"

definition targetTerms :: "string \<Rightarrow> string list" where
  "targetTerms normalizedQuery =
     (let terms = tokenizeSearchTerms normalizedQuery in if terms \<noteq> [] then terms else [normalizedQuery])"

definition memoryMatches :: "MasterSearchIndexCache \<Rightarrow> string \<Rightarrow> nat list" where
  "memoryMatches index term =
     (let indexed = (case map_of (mi_tokenToDocIds index) term of Some ids \<Rightarrow> ids | None \<Rightarrow> [])
      in if indexed \<noteq> [] then indexed
         else filter (\<lambda>i. js_includes (md_searchText (mi_docs index ! i)) term) [0..<length (mi_docs index)])"

text \<open>The loop over the terms: \<open>keep\<close> is what is done to the candidates after each term.\<close>

fun narrowCandidates :: "(nat list \<Rightarrow> nat list) \<Rightarrow> (string \<Rightarrow> nat list) \<Rightarrow> string list \<Rightarrow> nat list option \<Rightarrow> nat list" where
  "narrowCandidates keep matches [] candidates = (case candidates of None \<Rightarrow> [] | Some c \<Rightarrow> c)"
| "narrowCandidates keep matches (term # terms) candidates =
     (let matched = js_unique (matches term);
          c = (case candidates of None \<Rightarrow> matched | Some ids \<Rightarrow> filter (\<lambda>i. i \<in> set matched) ids)
      in if c = [] then [] else narrowCandidates keep matches terms (Some (keep c)))"

definition searchMasterIndex :: "MasterSearchIndexCache \<Rightarrow> string \<Rightarrow> int \<Rightarrow> nat \<times> MasterSearchResultItem list" where
  "searchMasterIndex index query limit =
     (let normalizedQuery = normalizeSearchText query
      in if normalizedQuery = [] then (0, [])
         else
           (let terms = targetTerms normalizedQuery;
                candidateIds = narrowCandidates (\<lambda>c. c) (memoryMatches index) terms None
            in if candidateIds = [] then (0, [])
               else rankDocuments normalizedQuery terms limit (map (\<lambda>i. (i, mi_docs index ! i)) candidateIds)))"

end
