(* ===== verification/Master_Search_Sql.thy ===== *)
theory Master_Search_Sql
  imports Master_Search Api_Trail
begin

text \<open>
  The search index in the tables of the SQLite storage (\<open>storeDO.ts\<close>), the choice between the two indexes, and the
  endpoint. The storage may have no SQL interface; the caches of the object are part of the state. The tables refuse only
  a taken primary key; a statement that an engine refuses for its own limits makes the endpoint fall back to the search in
  memory, the same branch.
\<close>

section \<open>Tables\<close>

definition MASTER_SEARCH_INDEX_TTL_MS :: int where "MASTER_SEARCH_INDEX_TTL_MS = 30000"
definition MASTER_SEARCH_SQL_KEEP_KEYS :: nat where "MASTER_SEARCH_SQL_KEEP_KEYS = 5"
definition MASTER_SEARCH_SQL_TERM_DOC_LIMIT :: nat where "MASTER_SEARCH_SQL_TERM_DOC_LIMIT = 4000"
definition MASTER_SEARCH_SQL_DOC_CHUNK_SIZE :: nat where "MASTER_SEARCH_SQL_DOC_CHUNK_SIZE = 250"

record meta_row =
  mm_key :: string
  mm_builtAt :: string
  mm_builtAtMs :: int
  mm_docCount :: nat
  mm_tokenCount :: nat

record sql_db =
  sq_meta :: "meta_row list"
  sq_docs :: "(string \<times> nat \<times> MasterSearchIndexDocument) list"
  sq_tokens :: "(string \<times> string \<times> nat) list"

definition emptyDb :: sql_db where
  "emptyDb = \<lparr>sq_meta = [], sq_docs = [], sq_tokens = []\<rparr>"

record MasterSearchSqlIndexMeta =
  sm_key :: string
  sm_builtAtMs :: int
  sm_builtAt :: string

definition ascii_lower :: "char \<Rightarrow> char" where
  "ascii_lower c = (let n = (of_char c :: nat) in if 65 \<le> n \<and> n \<le> 90 then char_of (n + 32) else c)"

fun sql_like :: "string \<Rightarrow> string \<Rightarrow> bool" where
  "sql_like [] text = (text = [])"
| "sql_like (p # ps) [] = (p = CHR ''%'' \<and> sql_like ps [])"
| "sql_like (p # ps) (c # cs) =
     (if p = CHR ''%'' then sql_like ps (c # cs) \<or> sql_like (p # ps) cs
      else (p = CHR ''_'' \<or> ascii_lower p = ascii_lower c) \<and> sql_like ps cs)"

section \<open>Writing an index\<close>

definition deleteIndexKey :: "string \<Rightarrow> sql_db \<Rightarrow> sql_db" where
  "deleteIndexKey key db = db\<lparr>sq_tokens := filter (\<lambda>(k, _, _). k \<noteq> key) (sq_tokens db),
     sq_docs := filter (\<lambda>(k, _, _). k \<noteq> key) (sq_docs db), sq_meta := filter (\<lambda>r. mm_key r \<noteq> key) (sq_meta db)\<rparr>"

definition uniqueFailed :: string where "uniqueFailed = ''UNIQUE constraint failed''"

text \<open>Inserts a row after another; the first one whose primary key is taken ends the loop with an error.\<close>

fun insertRows :: "('r \<Rightarrow> 'k) \<Rightarrow> 'r list \<Rightarrow> 'r list \<Rightarrow> 'r list \<times> string option" where
  "insertRows pk table [] = (table, None)"
| "insertRows pk table (r # rs) =
     (if pk r \<in> set (map pk table) then (table, Some uniqueFailed) else insertRows pk (table @ [r]) rs)"

definition docRows :: "string \<Rightarrow> MasterSearchIndexDocument list \<Rightarrow> (string \<times> nat \<times> MasterSearchIndexDocument) list" where
  "docRows key docs = map (\<lambda>(docId, doc). (key, docId, doc)) (enumerate 0 docs)"

definition tokenRows :: "string \<Rightarrow> token_index \<Rightarrow> (string \<times> string \<times> nat) list" where
  "tokenRows key tokenToDocIds =
     concat (map (\<lambda>(token, docIds). if token = [] then [] else map (\<lambda>docId. (key, token, docId)) docIds) tokenToDocIds)"

definition pruneMasterSearchSqlIndexes :: "sql_db \<Rightarrow> sql_db" where
  "pruneMasterSearchSqlIndexes db =
     fold (\<lambda>r d. let staleKey = js_trim (mm_key r) in if staleKey = [] then d else deleteIndexKey staleKey d)
       (take 100 (drop MASTER_SEARCH_SQL_KEEP_KEYS (sort_key (\<lambda>r. - mm_builtAtMs r) (sq_meta db)))) db"

definition persistMasterSearchSqlIndex ::
  "sql_db \<Rightarrow> string \<Rightarrow> string \<Rightarrow> int \<Rightarrow> MasterSearchIndexDocument list \<Rightarrow> token_index \<Rightarrow> sql_db \<times> string option" where
  "persistMasterSearchSqlIndex db key builtAt builtAtMs docs tokenToDocIds =
     (let d0 = deleteIndexKey key db;
          (docTable, e1) = insertRows (\<lambda>(k, i, _). (k, i)) (sq_docs d0) (docRows key docs);
          d1 = d0\<lparr>sq_docs := docTable\<rparr>
      in case e1 of
           Some m \<Rightarrow> (d1, Some m)
         | None \<Rightarrow>
             (let rows = tokenRows key tokenToDocIds;
                  (tokenTable, e2) = insertRows (\<lambda>r. r) (sq_tokens d1) rows;
                  d2 = d1\<lparr>sq_tokens := tokenTable\<rparr>
              in case e2 of
                   Some m \<Rightarrow> (d2, Some m)
                 | None \<Rightarrow>
                     (let meta = \<lparr>mm_key = key, mm_builtAt = builtAt, mm_builtAtMs = builtAtMs, mm_docCount = length docs,
                                  mm_tokenCount = length rows\<rparr>;
                          (metaTable, e3) = insertRows mm_key (sq_meta d2) [meta]
                      in case e3 of
                           Some m \<Rightarrow> (d2, Some m)
                         | None \<Rightarrow> (pruneMasterSearchSqlIndexes (d2\<lparr>sq_meta := metaTable\<rparr>), None))))"

section \<open>Reading and searching\<close>

definition readMasterSearchSqlMeta :: "sql_db \<Rightarrow> string \<Rightarrow> MasterSearchSqlIndexMeta option" where
  "readMasterSearchSqlMeta db key =
     map_option (\<lambda>r. let builtAtMs = max 0 (mm_builtAtMs r) in
         \<lparr>sm_key = key, sm_builtAtMs = builtAtMs,
          sm_builtAt = (if js_trim (mm_builtAt r) \<noteq> [] then js_trim (mm_builtAt r) else js_toISOString builtAtMs)\<rparr>)
       (find (\<lambda>r. mm_key r = key) (sq_meta db))"

definition parseMasterSearchSqlDocId :: "js \<Rightarrow> nat option" where
  "parseMasterSearchSqlDocId raw =
     (let numeric = (case raw of
                       JNum r \<Rightarrow> Some (if 0 \<le> r then \<lfloor>r\<rfloor> else \<lceil>r\<rceil>)
                     | _ \<Rightarrow> js_parseInt (if raw = JUndef \<or> raw = JNull then [] else js_to_string raw))
      in case numeric of Some n \<Rightarrow> (if 0 \<le> n then Some (nat n) else None) | None \<Rightarrow> None)"

abbreviation docIdColumn :: "nat list \<Rightarrow> nat list" where
  "docIdColumn ids \<equiv> List.map_filter parseMasterSearchSqlDocId (map (\<lambda>i. JInt (int i)) ids)"

definition getMasterSearchSqlTermDocIds :: "sql_db \<Rightarrow> string \<Rightarrow> string \<Rightarrow> nat list" where
  "getMasterSearchSqlTermDocIds db indexKey term =
     (let exact = docIdColumn (take MASTER_SEARCH_SQL_TERM_DOC_LIMIT
                    (sort (map (\<lambda>(_, _, i). i) (filter (\<lambda>(k, t, _). k = indexKey \<and> t = term) (sq_tokens db)))))
      in if exact \<noteq> [] then exact
         else docIdColumn (take MASTER_SEARCH_SQL_TERM_DOC_LIMIT
                (sort (map (\<lambda>(_, i, _). i)
                  (filter (\<lambda>(k, _, d). k = indexKey \<and> sql_like (''%'' @ term @ ''%'') (md_searchText d)) (sq_docs db))))))"

function chunksOf :: "nat \<Rightarrow> 'a list \<Rightarrow> 'a list list" where
  "chunksOf n xs = (if xs = [] \<or> n = 0 then [] else take n xs # chunksOf n (drop n xs))"
  by pat_completeness auto
termination
  by (relation "measure (\<lambda>(n, xs). length xs)") auto

definition fetchMasterSearchSqlDocuments :: "sql_db \<Rightarrow> string \<Rightarrow> nat list \<Rightarrow> (nat \<times> MasterSearchIndexDocument) list" where
  "fetchMasterSearchSqlDocuments db indexKey docIds =
     sort_key fst (concat (map (\<lambda>chunk.
         List.map_filter (\<lambda>(_, i, d). case parseMasterSearchSqlDocId (JInt (int i)) of
             Some docId \<Rightarrow> (if md_id d = [] then None else Some (docId, d)) | None \<Rightarrow> None)
           (filter (\<lambda>(k, i, _). k = indexKey \<and> i \<in> set chunk) (sq_docs db)))
       (chunksOf MASTER_SEARCH_SQL_DOC_CHUNK_SIZE docIds)))"

definition searchMasterIndexSql :: "sql_db \<Rightarrow> string \<Rightarrow> string \<Rightarrow> int \<Rightarrow> nat \<times> MasterSearchResultItem list" where
  "searchMasterIndexSql db indexKey query limit =
     (let normalizedQuery = normalizeSearchText query
      in if normalizedQuery = [] then (0, [])
         else
           (let terms = targetTerms normalizedQuery;
                candidateIds = narrowCandidates (take MASTER_SEARCH_SQL_TERM_DOC_LIMIT) (getMasterSearchSqlTermDocIds db indexKey) terms None
            in if candidateIds = [] then (0, [])
               else
                 (let docs = fetchMasterSearchSqlDocuments db indexKey candidateIds
                  in if docs = [] then (0, []) else rankDocuments normalizedQuery terms limit docs)))"

section \<open>The indexes of a request\<close>

record search_state =
  se_sql :: "sql_db option"
  se_cache :: "MasterSearchIndexCache option"
  se_meta :: "MasterSearchSqlIndexMeta option"

definition searchKey :: "string \<Rightarrow> bool \<Rightarrow> int \<Rightarrow> string" where
  "searchKey auditHead includeRevoked transferLimit =
     auditHead @ ''|'' @ (if includeRevoked then ''1'' else ''0'') @ ''|'' @ js_str_int transferLimit"

definition builtIndex :: "string \<Rightarrow> int \<Rightarrow> MasterAdminDisclosure list \<Rightarrow> MasterSearchIndexCache" where
  "builtIndex key nowMs admins =
     (let docs = buildMasterSearchDocuments admins in
      \<lparr>mi_key = key, mi_builtAtMs = nowMs, mi_builtAt = js_toISOString nowMs, mi_docs = docs,
       mi_tokenToDocIds = buildMasterSearchTokenIndex docs\<rparr>)"

definition ensureMasterSearchSqlIndex ::
  "search_state \<Rightarrow> storage \<Rightarrow> bool \<Rightarrow> int \<Rightarrow> int \<Rightarrow> search_state \<times> MasterSearchSqlIndexMeta option or_error" where
  "ensureMasterSearchSqlIndex st s includeRevoked transferLimit nowMs =
     (case se_sql st of
        None \<Rightarrow> (st, Inr None)
      | Some db \<Rightarrow>
          (case readHashHex (sto_get s AUDIT_LAST_HASH_GLOBAL_KEY) of
             Inl e \<Rightarrow> (st, Inl e)
           | Inr auditHead \<Rightarrow>
               (let key = searchKey auditHead includeRevoked transferLimit
                in if (case se_meta st of Some m \<Rightarrow> sm_key m = key | None \<Rightarrow> False) then (st, Inr (se_meta st))
                   else case readMasterSearchSqlMeta db key of
                          Some existing \<Rightarrow> (st\<lparr>se_meta := Some existing\<rparr>, Inr (Some existing))
                        | None \<Rightarrow>
                            (case getMasterAdminDisclosures s includeRevoked transferLimit of
                               Inl e \<Rightarrow> (st, Inl e)
                             | Inr admins \<Rightarrow>
                                 (let index = builtIndex key nowMs admins;
                                      (db', failed) = persistMasterSearchSqlIndex db key (mi_builtAt index) nowMs (mi_docs index)
                                                        (mi_tokenToDocIds index);
                                      meta = \<lparr>sm_key = key, sm_builtAtMs = nowMs, sm_builtAt = mi_builtAt index\<rparr>
                                  in case failed of
                                       Some m \<Rightarrow> (st\<lparr>se_sql := Some db'\<rparr>, Inl m)
                                     | None \<Rightarrow> (st\<lparr>se_sql := Some db', se_cache := Some index, se_meta := Some meta\<rparr>, Inr (Some meta)))))))"

definition getMasterSearchIndex ::
  "search_state \<Rightarrow> storage \<Rightarrow> bool \<Rightarrow> int \<Rightarrow> int \<Rightarrow> search_state \<times> MasterSearchIndexCache or_error" where
  "getMasterSearchIndex st s includeRevoked transferLimit nowMs =
     (case readHashHex (sto_get s AUDIT_LAST_HASH_GLOBAL_KEY) of
        Inl e \<Rightarrow> (st, Inl e)
      | Inr auditHead \<Rightarrow>
          (let cacheKey = searchKey auditHead includeRevoked transferLimit;
               rebuild = (case getMasterAdminDisclosures s includeRevoked transferLimit of
                            Inl e \<Rightarrow> (st, Inl e)
                          | Inr admins \<Rightarrow>
                              (let next = builtIndex cacheKey nowMs admins in (st\<lparr>se_cache := Some next\<rparr>, Inr next)))
           in case se_cache st of
                Some c \<Rightarrow> (if mi_key c = cacheKey \<and> nowMs - mi_builtAtMs c \<le> MASTER_SEARCH_INDEX_TTL_MS then (st, Inr c) else rebuild)
              | None \<Rightarrow> rebuild))"

definition searchKindStr :: "MasterSearchKind \<Rightarrow> string" where
  "searchKindStr k = (case k of Kind_admin \<Rightarrow> ''admin'' | Kind_event \<Rightarrow> ''event'' | Kind_user \<Rightarrow> ''user'' | Kind_claim \<Rightarrow> ''claim'')"

definition searchItemToJs :: "MasterSearchResultItem \<Rightarrow> js" where
  "searchItemToJs i = JObj [(''id'', JStr (ri_id i)), (''kind'', JStr (searchKindStr (ri_kind i))), (''title'', JStr (ri_title i)),
     (''subtitle'', JStr (ri_subtitle i)), (''detail'', JStr (ri_detail i))]"

definition searchResponse ::
  "int \<Rightarrow> string \<Rightarrow> bool \<Rightarrow> int \<Rightarrow> int \<Rightarrow> string option \<Rightarrow> nat \<times> MasterSearchResultItem list \<Rightarrow> Response" where
  "searchResponse nowMs query includeRevoked transferLimit limit indexBuiltAt found =
     json_response (JObj [(''checkedAt'', JStr (js_toISOString nowMs)), (''strictLevel'', JStr ''master_full''), (''query'', JStr query),
       (''includeRevoked'', JBool includeRevoked), (''transferLimit'', JInt transferLimit), (''limit'', JInt limit),
       (''total'', JInt (int (fst found))), (''indexBuiltAt'', jstr_null indexBuiltAt),
       (''items'', JArr (map searchItemToJs (snd found)))]) 200"

definition handleMasterSearch ::
  "Env \<Rightarrow> search_state \<Rightarrow> storage \<Rightarrow> int \<Rightarrow> Request \<Rightarrow> (string \<times> string) list \<Rightarrow> search_state \<times> Response or_error" where
  "handleMasterSearch env st s nowMs request params =
     (case requireMasterAuthorization env request of
        Some authError \<Rightarrow> (st, Inr authError)
      | None \<Rightarrow>
          (let query = js_trim (case queryParam params ''q'' of Some q \<Rightarrow> q | None \<Rightarrow> []);
               includeRevoked = parseBooleanQuery (queryParam params ''includeRevoked'') True;
               transferLimit = parseBoundedInt (queryParam params ''transferLimit'') 500 1 1000;
               limit = parseBoundedInt (queryParam params ''limit'') 100 1 300;
               answer = (\<lambda>builtAt found. searchResponse nowMs query includeRevoked transferLimit limit builtAt found)
           in if query = [] then (st, Inr (answer None (0, [])))
              else
                (let (st1, ensured) = ensureMasterSearchSqlIndex st s includeRevoked transferLimit nowMs;
                     inMemory = (case getMasterSearchIndex st1 s includeRevoked transferLimit nowMs of
                                   (st2, Inl e) \<Rightarrow> (st2, Inl e)
                                 | (st2, Inr index) \<Rightarrow> (st2, Inr (answer (Some (mi_builtAt index)) (searchMasterIndex index query limit))))
                 in case (se_sql st1, ensured) of
                      (Some db, Inr (Some meta)) \<Rightarrow>
                        (if sm_builtAt meta = [] then inMemory
                         else (st1, Inr (answer (Some (sm_builtAt meta)) (searchMasterIndexSql db (sm_key meta) query limit))))
                    | _ \<Rightarrow> inMemory)))"

end
