(* ===== verification/Search_Spec.thy ===== *)
theory Search_Spec
  imports Master_Search_Sql
begin

text \<open>
  The search over the index of tokens finds what a scan of all documents finds, in the same order; and the search in the
  tables of a freshly stored index agrees with the one in memory, for up to 4000 documents and terms without the
  wildcards of \<open>LIKE\<close>.
\<close>

section \<open>Sets as lists\<close>

lemma set_js_unique [simp]: "set (js_unique xs) = set xs"
  by (simp add: js_unique_def)

lemma distinct_js_unique [simp]: "distinct (js_unique xs)"
  by (simp add: js_unique_def)

lemma js_unique_distinct: "distinct xs \<Longrightarrow> js_unique xs = xs"
  by (simp add: js_unique_def distinct_remdups_id)

section \<open>The index of tokens\<close>

text \<open>The documents with a token, among the first \<open>n\<close>.\<close>

definition hits :: "MasterSearchIndexDocument list \<Rightarrow> nat \<Rightarrow> string \<Rightarrow> nat list" where
  "hits docs n t = filter (\<lambda>i. t \<in> set (docTokens (docs ! i))) [0..<n]"

definition nonempty :: "'a list \<Rightarrow> 'a list option" where
  "nonempty xs = (if xs = [] then None else Some xs)"

lemma add_token:
  assumes "t \<noteq> []" "\<And>b. map_of ix t = Some b \<Longrightarrow> b \<noteq> [] \<and> last b \<noteq> n"
  shows "map_of (addDocIndexToken n t ix) u =
    (if u = t then Some ((case map_of ix t of None \<Rightarrow> [] | Some b \<Rightarrow> b) @ [n]) else map_of ix u)"
  using assms by (auto simp: addDocIndexToken_def split: option.splits)

lemma add_tokens:
  assumes "distinct ts" "[] \<notin> set ts" "\<And>t b. t \<in> set ts \<Longrightarrow> map_of ix t = Some b \<Longrightarrow> b \<noteq> [] \<and> last b \<noteq> n"
  shows "map_of (fold (addDocIndexToken n) ts ix) u =
    (if u \<in> set ts then Some ((case map_of ix u of None \<Rightarrow> [] | Some b \<Rightarrow> b) @ [n]) else map_of ix u)"
  using assms
proof (induction ts arbitrary: ix)
  case (Cons t ts)
  have t: "map_of (addDocIndexToken n t ix) v =
      (if v = t then Some ((case map_of ix t of None \<Rightarrow> [] | Some b \<Rightarrow> b) @ [n]) else map_of ix v)" for v
    using Cons.prems by (intro add_token) auto
  have "map_of (fold (addDocIndexToken n) ts (addDocIndexToken n t ix)) u =
      (if u \<in> set ts then Some ((case map_of (addDocIndexToken n t ix) u of None \<Rightarrow> [] | Some b \<Rightarrow> b) @ [n])
       else map_of (addDocIndexToken n t ix) u)"
    using Cons.prems t by (intro Cons.IH) (auto split: if_splits)
  then show ?case using Cons.prems(1) by (auto simp: t)
qed simp

lemma distinct_addDocIndexToken: "distinct (map fst ix) \<Longrightarrow> distinct (map fst (addDocIndexToken n t ix))"
  by (auto simp: addDocIndexToken_def split: option.splits)

lemma docTokens_nonempty: "[] \<notin> set (docTokens d)"
  by (auto simp: docTokens_def termPrefixes_def tokenizeSearchTerms_def Let_def split: if_splits)

lemma distinct_docTokens: "distinct (docTokens d)"
  by (simp add: docTokens_def)

lemma hits_Suc: "hits docs (Suc n) t = hits docs n t @ (if t \<in> set (docTokens (docs ! n)) then [n] else [])"
  by (simp add: hits_def)

lemma hits_last: "hits docs n t \<noteq> [] \<Longrightarrow> last (hits docs n t) < n"
  by (metis atLeastLessThan_iff filter_is_subset hits_def last_in_set set_upt subsetD)

lemma enumerate_take: "enumerate 0 (take (Suc n) xs) = enumerate 0 (take n xs) @ (if n < length xs then [(n, xs ! n)] else [])"
  by (simp add: take_Suc_conv_app_nth enumerate_append_eq)

text \<open>The index holds, for each token, the documents with it in ascending order.\<close>

lemma token_index_take:
  "n \<le> length docs \<Longrightarrow> (\<forall>t. map_of (buildMasterSearchTokenIndex (take n docs)) t = nonempty (hits docs n t))
     \<and> distinct (map fst (buildMasterSearchTokenIndex (take n docs)))"
proof (induction n)
  case 0
  show ?case by (simp add: buildMasterSearchTokenIndex_def hits_def nonempty_def)
next
  case (Suc n)
  let ?ix = "buildMasterSearchTokenIndex (take n docs)"
  have st: "buildMasterSearchTokenIndex (take (Suc n) docs) = fold (addDocIndexToken n) (docTokens (docs ! n)) ?ix"
    using Suc.prems by (simp add: buildMasterSearchTokenIndex_def enumerate_take)
  have ih: "map_of ?ix t = nonempty (hits docs n t)" "distinct (map fst ?ix)" for t using Suc by simp_all
  have "b \<noteq> [] \<and> last b \<noteq> n" if "map_of ?ix u = Some b" for u b
    using that hits_last [of docs n u] by (auto simp: ih(1) nonempty_def split: if_splits)
  then have m: "map_of (fold (addDocIndexToken n) (docTokens (docs ! n)) ?ix) t =
      (if t \<in> set (docTokens (docs ! n)) then Some ((case map_of ?ix t of None \<Rightarrow> [] | Some b \<Rightarrow> b) @ [n]) else map_of ?ix t)" for t
    by (intro add_tokens) (simp_all add: distinct_docTokens docTokens_nonempty)
  have "distinct (map fst (fold (addDocIndexToken n) ts ix))" if "distinct (map fst ix)" for ts and ix :: token_index
    using that by (induction ts arbitrary: ix) (simp_all add: distinct_addDocIndexToken)
  then show ?case unfolding st m using ih(2) by (auto simp: ih(1) hits_Suc nonempty_def)
qed

lemma token_index:
  "map_of (buildMasterSearchTokenIndex docs) t = nonempty (hits docs (length docs) t)"
  "distinct (map fst (buildMasterSearchTokenIndex docs))"
  using token_index_take [of "length docs" docs] by simp_all

section \<open>The search in memory\<close>

text \<open>
  The reference: a document matches a term by its tokens when any document has the term as a token, and by its text
  otherwise; the result ranks the documents that match every term.
\<close>

definition docMatches :: "MasterSearchIndexDocument list \<Rightarrow> string \<Rightarrow> MasterSearchIndexDocument \<Rightarrow> bool" where
  "docMatches docs t d = (if \<exists>d' \<in> set docs. t \<in> set (docTokens d') then t \<in> set (docTokens d) else js_includes (md_searchText d) t)"

definition scanSearch :: "MasterSearchIndexDocument list \<Rightarrow> string \<Rightarrow> int \<Rightarrow> nat \<times> MasterSearchResultItem list" where
  "scanSearch docs query limit =
     (let normalizedQuery = normalizeSearchText query; terms = targetTerms normalizedQuery
      in if normalizedQuery = [] then (0, [])
         else rankDocuments normalizedQuery terms limit
                (filter (\<lambda>(i, d). \<forall>t \<in> set terms. docMatches docs t d) (enumerate 0 docs)))"

definition matchIds :: "MasterSearchIndexDocument list \<Rightarrow> string \<Rightarrow> nat list" where
  "matchIds docs t = filter (\<lambda>i. docMatches docs t (docs ! i)) [0..<length docs]"

lemma hits_Nil: "hits docs (length docs) t = [] \<longleftrightarrow> \<not> (\<exists>d \<in> set docs. t \<in> set (docTokens d))"
  unfolding hits_def filter_empty_conv by (metis atLeastLessThan_iff in_set_conv_nth le0 nth_mem set_upt)

lemma memory_matches:
  assumes "mi_tokenToDocIds index = buildMasterSearchTokenIndex (mi_docs index)"
  shows "memoryMatches index t = matchIds (mi_docs index) t"
proof (cases "hits (mi_docs index) (length (mi_docs index)) t = []")
  case True
  then show ?thesis using assms hits_Nil [of "mi_docs index" t]
    by (simp add: memoryMatches_def token_index nonempty_def matchIds_def docMatches_def Let_def)
next
  case False
  moreover from this have "matchIds (mi_docs index) t = hits (mi_docs index) (length (mi_docs index)) t"
    using hits_Nil [of "mi_docs index" t] by (simp add: matchIds_def hits_def docMatches_def)
  ultimately show ?thesis using assms by (simp add: memoryMatches_def token_index nonempty_def Let_def)
qed

lemma narrow_eq:
  assumes "\<And>t. t \<in> set terms \<Longrightarrow> matches t = filter (P t) [0..<n]" "\<And>c. length c \<le> n \<Longrightarrow> keep c = c"
  shows "narrowCandidates keep matches terms (Some (filter Q [0..<n])) = filter (\<lambda>i. Q i \<and> (\<forall>t \<in> set terms. P t i)) [0..<n]"
    "terms \<noteq> [] \<Longrightarrow> narrowCandidates keep matches terms None = filter (\<lambda>i. \<forall>t \<in> set terms. P t i) [0..<n]"
proof -
  have keep: "keep (filter R [0..<n]) = filter R [0..<n]" for R
    using assms(2) [of "filter R [0..<n]"] length_filter_le [of R "[0..<n]"] by simp
  have some: "narrowCandidates keep matches ts (Some (filter R [0..<n])) = filter (\<lambda>i. R i \<and> (\<forall>t \<in> set ts. P t i)) [0..<n]"
    if "set ts \<subseteq> set terms" for ts R
    using that
  proof (induction ts arbitrary: R)
    case (Cons t ts)
    have m: "js_unique (matches t) = filter (P t) [0..<n]" using assms(1) [of t] Cons.prems by (simp add: js_unique_distinct)
    have f: "filter (\<lambda>i. i \<in> set (filter (P t) [0..<n])) (filter R [0..<n]) = filter (\<lambda>i. R i \<and> P t i) [0..<n]"
      by (auto intro: filter_cong)
    have "filter (\<lambda>i. R i \<and> (\<forall>u \<in> set (t # ts). P u i)) [0..<n] = []" if "filter (\<lambda>i. R i \<and> P t i) [0..<n] = []"
      using that by (auto simp: filter_empty_conv)
    moreover have "narrowCandidates keep matches ts (Some (filter (\<lambda>i. R i \<and> P t i) [0..<n]))
        = filter (\<lambda>i. R i \<and> (\<forall>u \<in> set (t # ts). P u i)) [0..<n]"
      using Cons.IH [of "\<lambda>i. R i \<and> P t i"] Cons.prems by (simp add: conj_assoc)
    ultimately show ?case by (simp only: narrowCandidates.simps Let_def option.case m f keep) simp
  qed simp
  show "narrowCandidates keep matches terms (Some (filter Q [0..<n])) = filter (\<lambda>i. Q i \<and> (\<forall>t \<in> set terms. P t i)) [0..<n]"
    by (rule some) simp
  show "narrowCandidates keep matches terms None = filter (\<lambda>i. \<forall>t \<in> set terms. P t i) [0..<n]" if "terms \<noteq> []"
  proof (cases terms)
    case (Cons t ts)
    have m: "js_unique (matches t) = filter (P t) [0..<n]" using assms(1) [of t] Cons by (simp add: js_unique_distinct)
    have "filter (\<lambda>i. \<forall>u \<in> set terms. P u i) [0..<n] = []" if "filter (P t) [0..<n] = []"
      using that Cons by (auto simp: filter_empty_conv)
    then show ?thesis using some [of ts "P t"] Cons by (simp add: m keep subset_insertI Let_def)
  qed (use that in simp)
qed

lemma targetTerms_nonempty: "targetTerms q \<noteq> []"
  by (simp add: targetTerms_def Let_def)

lemma enumerate_map: "enumerate 0 xs = map (\<lambda>i. (i, xs ! i)) [0..<length xs]"
  by (rule nth_equalityI) (simp_all add: nth_enumerate_eq)

lemma filter_enumerate: "filter (\<lambda>(i, d). P d) (enumerate 0 xs) = map (\<lambda>i. (i, xs ! i)) (filter (\<lambda>i. P (xs ! i)) [0..<length xs])"
  by (simp add: enumerate_map filter_map comp_def)

lemma rank_Nil: "rankDocuments q terms limit [] = (0, [])"
  by (simp add: rankDocuments_def)

lemma indexed_scan:
  assumes "mi_tokenToDocIds index = buildMasterSearchTokenIndex (mi_docs index)"
  shows "searchMasterIndex index query limit = scanSearch (mi_docs index) query limit"
proof -
  let ?q = "normalizeSearchText query" let ?docs = "mi_docs index"
  have "narrowCandidates (\<lambda>c. c) (memoryMatches index) (targetTerms ?q) None
      = filter (\<lambda>i. \<forall>t \<in> set (targetTerms ?q). docMatches ?docs t (?docs ! i)) [0..<length ?docs]"
    by (rule narrow_eq(2)) (simp_all add: memory_matches [OF assms] matchIds_def targetTerms_nonempty)
  then show ?thesis
    by (simp add: searchMasterIndex_def scanSearch_def filter_enumerate rank_Nil Let_def)
qed

section \<open>The tables of a stored index\<close>

lemma insert_all_rows:
  assumes "distinct (map pk rows)" "set (map pk rows) \<inter> set (map pk table) = {}"
  shows "insertRows pk table rows = (table @ rows, None)"
  using assms by (induction rows arbitrary: table) auto

definition keyDocs :: "sql_db \<Rightarrow> string \<Rightarrow> (string \<times> nat \<times> MasterSearchIndexDocument) list" where
  "keyDocs db key = filter (\<lambda>(k, _, _). k = key) (sq_docs db)"

definition keyTokens :: "sql_db \<Rightarrow> string \<Rightarrow> (string \<times> string \<times> nat) list" where
  "keyTokens db key = filter (\<lambda>(k, _, _). k = key) (sq_tokens db)"

lemma delete_other: "k \<noteq> key \<Longrightarrow> keyDocs (deleteIndexKey k db) key = keyDocs db key"
  "k \<noteq> key \<Longrightarrow> keyTokens (deleteIndexKey k db) key = keyTokens db key"
  by (auto simp: keyDocs_def keyTokens_def deleteIndexKey_def intro!: filter_cong)

text \<open>Keys of stored indexes have no white space around them, and the new index is the latest.\<close>

definition db_ok :: "sql_db \<Rightarrow> int \<Rightarrow> bool" where
  "db_ok db nowMs \<longleftrightarrow> (\<forall>r \<in> set (sq_meta db). js_trim (mm_key r) = mm_key r \<and> mm_builtAtMs r < nowMs)"

lemma sort_newest:
  "\<forall>r \<in> set rest. b r < b new \<Longrightarrow> sort_key (\<lambda>r. - b r :: int) (rest @ [new]) = new # sort_key (\<lambda>r. - b r) rest"
  by (induction rest) auto

lemma fold_delete_other:
  assumes "\<forall>r \<in> set rs. js_trim (mm_key r) \<noteq> key"
  shows "keyDocs (fold (\<lambda>r d. let k = js_trim (mm_key r) in if k = [] then d else deleteIndexKey k d) rs db) key = keyDocs db key \<and>
    keyTokens (fold (\<lambda>r d. let k = js_trim (mm_key r) in if k = [] then d else deleteIndexKey k d) rs db) key = keyTokens db key"
  using assms by (induction rs arbitrary: db) (simp_all add: Let_def delete_other)

lemma prune_keeps:
  assumes "\<forall>r \<in> set rest. js_trim (mm_key r) \<noteq> key \<and> mm_builtAtMs r < mm_builtAtMs new" "sq_meta db = rest @ [new]"
  shows "keyDocs (pruneMasterSearchSqlIndexes db) key = keyDocs db key \<and>
    keyTokens (pruneMasterSearchSqlIndexes db) key = keyTokens db key"
proof -
  let ?old = "take 100 (drop MASTER_SEARCH_SQL_KEEP_KEYS (sort_key (\<lambda>r. - mm_builtAtMs r) (sq_meta db)))"
  have "?old = take 100 (drop 4 (sort_key (\<lambda>r. - mm_builtAtMs r) rest))"
    using assms by (simp add: sort_newest MASTER_SEARCH_SQL_KEEP_KEYS_def)
  then have "set ?old \<subseteq> set rest" by (metis order_trans set_drop_subset set_sort set_take_subset)
  then show ?thesis unfolding pruneMasterSearchSqlIndexes_def using assms(1) by (intro fold_delete_other) auto
qed

lemma docRows_map: "docRows key docs = map (\<lambda>i. (key, i, docs ! i)) [0..<length docs]"
  by (simp add: docRows_def enumerate_map)

lemma distinct_docRows: "distinct (map (\<lambda>(k, i, _). (k, i)) (docRows key docs))"
  by (simp add: docRows_map comp_def distinct_map inj_on_def)

lemma tokenRows_Cons: "tokenRows key ((t, b) # ix) = (if t = [] then [] else map (\<lambda>i. (key, t, i)) b) @ tokenRows key ix"
  by (simp add: tokenRows_def)

lemma token_in_rows: "(k, t, i) \<in> set (tokenRows key ix) \<Longrightarrow> k = key \<and> t \<in> fst ` set ix"
  by (force simp: tokenRows_def split: if_splits)

lemma distinct_tokenRows:
  "distinct (map fst ix) \<Longrightarrow> \<forall>(t, b) \<in> set ix. distinct b \<Longrightarrow> distinct (tokenRows key ix)"
proof (induction ix)
  case (Cons e ix)
  obtain t b where e: "e = (t, b)" by force
  have "t \<notin> fst ` set ix" using Cons.prems(1) e by simp
  then have "set (map (\<lambda>i. (key, t, i)) b) \<inter> set (tokenRows key ix) = {}" by (auto dest: token_in_rows)
  then show ?case using Cons e by (auto simp: tokenRows_Cons distinct_map inj_on_def)
qed (simp add: tokenRows_def)

lemma built_buckets: "\<forall>(t, b) \<in> set (buildMasterSearchTokenIndex docs). distinct b"
proof clarify
  fix t b assume "(t, b) \<in> set (buildMasterSearchTokenIndex docs)"
  then have "map_of (buildMasterSearchTokenIndex docs) t = Some b" using token_index(2) by (rule map_of_is_SomeI [rotated])
  then show "distinct b" by (auto simp: token_index nonempty_def hits_def split: if_splits)
qed

text \<open>What the tables hold for an index once it is stored.\<close>

definition storedIndex :: "sql_db \<Rightarrow> string \<Rightarrow> MasterSearchIndexDocument list \<Rightarrow> bool" where
  "storedIndex db key docs \<longleftrightarrow> keyDocs db key = docRows key docs \<and> keyTokens db key = tokenRows key (buildMasterSearchTokenIndex docs)"

lemma persist_stored:
  assumes "db_ok db nowMs"
  shows "\<exists>db'. persistMasterSearchSqlIndex db key builtAt nowMs docs (buildMasterSearchTokenIndex docs) = (db', None) \<and> storedIndex db' key docs"
proof -
  let ?ix = "buildMasterSearchTokenIndex docs" let ?d = "deleteIndexKey key db"
  let ?meta = "\<lparr>mm_key = key, mm_builtAt = builtAt, mm_builtAtMs = nowMs, mm_docCount = length docs, mm_tokenCount = length (tokenRows key ?ix)\<rparr>"
  let ?new = "?d\<lparr>sq_docs := sq_docs ?d @ docRows key docs, sq_tokens := sq_tokens ?d @ tokenRows key ?ix, sq_meta := sq_meta ?d @ [?meta]\<rparr>"
  have docs: "insertRows (\<lambda>(k, i, _). (k, i)) (sq_docs ?d) (docRows key docs) = (sq_docs ?d @ docRows key docs, None)"
    by (rule insert_all_rows [OF distinct_docRows]) (auto simp: deleteIndexKey_def docRows_map)
  have tokens: "insertRows (\<lambda>r. r) (sq_tokens ?d) (tokenRows key ?ix) = (sq_tokens ?d @ tokenRows key ?ix, None)"
    by (rule insert_all_rows)
      (auto simp: distinct_tokenRows token_index(2) built_buckets deleteIndexKey_def dest: token_in_rows)
  have meta: "insertRows mm_key (sq_meta ?d) [?meta] = (sq_meta ?d @ [?meta], None)"
    by (rule insert_all_rows) (auto simp: deleteIndexKey_def)
  have all: "persistMasterSearchSqlIndex db key builtAt nowMs docs ?ix = (pruneMasterSearchSqlIndexes ?new, None)"
    by (simp add: persistMasterSearchSqlIndex_def docs tokens meta Let_def del: insertRows.simps)
  have "keyDocs ?new key = docRows key docs"
    by (auto simp: keyDocs_def deleteIndexKey_def docRows_map filter_empty_conv intro!: filter_True)
  moreover have "filter (\<lambda>(k, _, _). k = key) (tokenRows key ?ix) = tokenRows key ?ix"
    by (rule filter_True) (auto dest: token_in_rows)
  then have "keyTokens ?new key = tokenRows key ?ix"
    by (auto simp: keyTokens_def deleteIndexKey_def filter_empty_conv)
  moreover have "keyDocs (pruneMasterSearchSqlIndexes ?new) key = keyDocs ?new key \<and>
      keyTokens (pruneMasterSearchSqlIndexes ?new) key = keyTokens ?new key"
    by (rule prune_keeps [where rest = "sq_meta ?d" and new = ?meta]) (use assms in \<open>auto simp: db_ok_def deleteIndexKey_def\<close>)
  ultimately show ?thesis using all by (simp add: storedIndex_def)
qed

section \<open>The search in the tables\<close>

definition lowered :: "string \<Rightarrow> bool" where
  "lowered t \<longleftrightarrow> (\<forall>c \<in> set t. ascii_lower c = c)"

definition plainTerm :: "string \<Rightarrow> bool" where
  "plainTerm t \<longleftrightarrow> CHR ''%'' \<notin> set t \<and> CHR ''_'' \<notin> set t"

lemma like_any: "sql_like ''%'' hay"
  by (induction hay) simp_all

lemma like_prefix:
  "lowered t \<Longrightarrow> plainTerm t \<Longrightarrow> lowered hay \<Longrightarrow> sql_like (t @ ''%'') hay \<longleftrightarrow> prefix t hay"
proof (induction t arbitrary: hay)
  case (Cons c t)
  then show ?case by (cases hay) (auto simp: lowered_def plainTerm_def)
qed (simp add: like_any)

lemma like_suffix: "sql_like (CHR ''%'' # p) hay \<longleftrightarrow> (\<exists>s \<in> set (suffixes hay). sql_like p s)"
  by (induction hay) auto

lemma like_includes:
  assumes "lowered t" "plainTerm t" "lowered hay"
  shows "sql_like (''%'' @ t @ ''%'') hay \<longleftrightarrow> js_includes hay t"
proof -
  have "lowered s" if "s \<in> set (suffixes hay)" for s
    using that assms(3) by (auto simp: lowered_def dest: set_mono_suffix)
  then show ?thesis using assms by (auto simp: like_suffix js_includes_def list_ex_iff like_prefix)
qed

lemma lowered_subset: "lowered t \<Longrightarrow> set u \<subseteq> set t \<Longrightarrow> lowered u"
  by (auto simp: lowered_def)

lemma ascii_lower_lower_char: "ascii_lower (lower_char c) = lower_char c"
proof -
  have "of_char c < (256::nat)" by (metis of_char_mod_256 mod_less_divisor zero_less_numeral)
  then show ?thesis by (auto simp: ascii_lower_def lower_char_def Let_def)
qed

lemma set_js_trim: "set (js_trim t) \<subseteq> set t"
  by (auto simp: js_trim_def dest!: set_dropWhileD)

lemma set_collapse_ws: "set (collapse_ws t) \<subseteq> insert CHR '' '' (set t)"
proof (induction t)
  case (Cons c t)
  then show ?case by (cases t) auto
qed simp

lemma lowered_normalize: "lowered (normalizeSearchText t)"
proof -
  have "lowered (js_lower t)" by (auto simp: lowered_def js_lower_def ascii_lower_lower_char)
  then have "lowered (collapse_ws (js_lower t))"
    using set_collapse_ws [of "js_lower t"] by (auto simp: lowered_def ascii_lower_def dest!: subsetD)
  then show ?thesis unfolding normalizeSearchText_def by (rule lowered_subset) (rule set_js_trim)
qed

lemma lowered_terms:
  assumes "t \<in> set (targetTerms (normalizeSearchText q))" shows "lowered t"
proof -
  have split: "set u \<subseteq> set part \<union> set hay" if "u \<in> set (splitTerms part hay)" for u part hay
    using that by (induction part hay rule: splitTerms.induct) (auto split: if_splits)
  have "lowered u" if u: "u \<in> set (tokenizeSearchTerms v)" for u v
  proof -
    obtain w where w: "w \<in> set (splitTerms [] (normalizeSearchText v))" "u = take 64 (js_trim w)"
      using u by (auto simp: tokenizeSearchTerms_def Let_def split: if_splits)
    have "set u \<subseteq> set (normalizeSearchText v)"
      using split [OF w(1)] set_js_trim [of w] set_take_subset [of 64 "js_trim w"] w(2) by auto
    then show ?thesis using lowered_normalize by (rule lowered_subset [rotated])
  qed
  then show ?thesis using assms lowered_normalize by (auto simp: targetTerms_def Let_def split: if_splits)
qed

lemma parse_docId [simp]: "parseMasterSearchSqlDocId (JNum (rat_of_nat i)) = Some i"
  by (simp add: parseMasterSearchSqlDocId_def)

lemma docIdColumn_id: "docIdColumn ids = ids"
  by (induction ids) (simp_all add: List.map_filter_def)

lemma token_rows_of:
  "distinct (map fst ix) \<Longrightarrow> t \<noteq> [] \<Longrightarrow>
    map (\<lambda>(_, _, i). i) (filter (\<lambda>(_, u, _). u = t) (tokenRows key ix)) = (case map_of ix t of Some b \<Rightarrow> b | None \<Rightarrow> [])"
proof (induction ix)
  case (Cons e ix)
  obtain u b where e: "e = (u, b)" by force
  have other: "filter (\<lambda>(_, v, _). v = t) (tokenRows key ix) = []" if "t \<notin> fst ` set ix"
    using that by (auto simp: filter_empty_conv dest: token_in_rows)
  show ?case
  proof (cases "u = t")
    case True
    then show ?thesis using Cons.prems e other by (auto simp: tokenRows_Cons filter_map comp_def)
  next
    case False
    then show ?thesis using Cons e by (auto simp: tokenRows_Cons filter_map comp_def)
  qed
qed (simp add: tokenRows_def)

lemma sorted_upt_filter: "sorted (filter P [0..<n])"
  by (simp add: sorted_filter [where f = "\<lambda>x. x", simplified])

lemma sql_term_matches:
  assumes "storedIndex db key docs" "length docs \<le> MASTER_SEARCH_SQL_TERM_DOC_LIMIT" "t \<noteq> []"
    and "\<forall>d \<in> set docs. sql_like (''%'' @ t @ ''%'') (md_searchText d) \<longleftrightarrow> js_includes (md_searchText d) t"
  shows "getMasterSearchSqlTermDocIds db key t = matchIds docs t"
proof -
  let ?n = "length docs" let ?like = "\<lambda>d. sql_like (''%'' @ t @ ''%'') (md_searchText d)"
  have whole: "take MASTER_SEARCH_SQL_TERM_DOC_LIMIT (sort (filter P [0..<?n])) = filter P [0..<?n]" for P
    using assms(2) length_filter_le [of P "[0..<?n]"] by (simp add: sorted_upt_filter sort_key_id_if_sorted)
  have "filter (\<lambda>(k, u, _). k = key \<and> u = t) (sq_tokens db) = filter (\<lambda>(_, u, _). u = t) (keyTokens db key)"
    by (auto simp: keyTokens_def intro: filter_cong)
  then have tokens: "map (\<lambda>(_, _, i). i) (filter (\<lambda>(k, u, _). k = key \<and> u = t) (sq_tokens db)) = hits docs ?n t"
    using assms(1,3) by (simp add: storedIndex_def token_rows_of token_index nonempty_def)
  have "filter (\<lambda>(k, _, d). k = key \<and> ?like d) (sq_docs db) = filter (\<lambda>(_, _, d). ?like d) (keyDocs db key)"
    by (auto simp: keyDocs_def intro: filter_cong)
  then have scan: "map (\<lambda>(_, i, _). i) (filter (\<lambda>(k, _, d). k = key \<and> ?like d) (sq_docs db))
      = filter (\<lambda>i. js_includes (md_searchText (docs ! i)) t) [0..<?n]"
    using assms(1,4) by (auto simp: storedIndex_def docRows_map filter_map comp_def intro!: filter_cong)
  have "hits docs ?n t = [] \<Longrightarrow> matchIds docs t = filter (\<lambda>i. js_includes (md_searchText (docs ! i)) t) [0..<?n]"
    "hits docs ?n t \<noteq> [] \<Longrightarrow> matchIds docs t = hits docs ?n t"
    using hits_Nil [of docs t] by (simp_all add: matchIds_def hits_def docMatches_def)
  then show ?thesis
    unfolding getMasterSearchSqlTermDocIds_def docIdColumn_id tokens scan whole Let_def
    by (simp add: hits_def whole)
qed

declare chunksOf.simps [simp del]

lemma concat_chunks: "0 < n \<Longrightarrow> concat (chunksOf n xs) = xs"
  by (induction n xs rule: chunksOf.induct) (subst chunksOf.simps, simp)

lemma chunk_of: "c \<in> set (chunksOf n xs) \<Longrightarrow> sorted xs \<and> distinct xs \<Longrightarrow> sorted c \<and> distinct c \<and> set c \<subseteq> set xs"
proof (induction n xs rule: chunksOf.induct)
  case (1 n xs)
  have "\<not> (xs = [] \<or> n = 0)" "c = take n xs \<or> c \<in> set (chunksOf n (drop n xs))"
    using "1.prems"(1) by (subst (asm) chunksOf.simps; simp split: if_splits)+
  then consider "c = take n xs" | "sorted c \<and> distinct c \<and> set c \<subseteq> set (drop n xs)"
    using "1.IH" "1.prems"(2) by (auto simp: sorted_wrt_drop)
  then show ?case
    using "1.prems"(2) set_take_subset [of n xs] set_drop_subset [of n xs] by cases (auto simp: sorted_wrt_take)
qed

lemma filter_member: "sorted c \<Longrightarrow> distinct c \<Longrightarrow> set c \<subseteq> {..<n} \<Longrightarrow> filter (\<lambda>i. i \<in> set c) [0..<n] = (c :: nat list)"
  by (rule sorted_distinct_set_unique) (auto simp: sorted_upt_filter)

lemma sql_fetch:
  assumes "storedIndex db key docs" "\<forall>d \<in> set docs. md_id d \<noteq> []"
  shows "fetchMasterSearchSqlDocuments db key (filter P [0..<length docs]) = map (\<lambda>i. (i, docs ! i)) (filter P [0..<length docs])"
proof -
  let ?n = "length docs" let ?ids = "filter P [0..<?n]" let ?chunks = "chunksOf MASTER_SEARCH_SQL_DOC_CHUNK_SIZE ?ids"
  let ?read = "\<lambda>(_, i, d). case parseMasterSearchSqlDocId (JInt (int i)) of
      Some docId \<Rightarrow> (if md_id d = [] then None else Some (docId, d)) | None \<Rightarrow> None"
  have one: "List.map_filter ?read (filter (\<lambda>(k, i, _). k = key \<and> i \<in> set c) (sq_docs db)) = map (\<lambda>i. (i, docs ! i)) c"
    if "c \<in> set ?chunks" for c
  proof -
    have c: "sorted c" "distinct c" "set c \<subseteq> {..<?n}" using chunk_of [OF that] by (auto simp: sorted_upt_filter)
    have "filter (\<lambda>(k, i, _). k = key \<and> i \<in> set c) (sq_docs db) = filter (\<lambda>(_, i, _). i \<in> set c) (keyDocs db key)"
      by (auto simp: keyDocs_def intro: filter_cong)
    also have "\<dots> = map (\<lambda>i. (key, i, docs ! i)) c"
      using assms(1) filter_member [OF c] by (simp add: storedIndex_def docRows_map filter_map comp_def)
    finally have rows: "filter (\<lambda>(k, i, _). k = key \<and> i \<in> set c) (sq_docs db) = map (\<lambda>i. (key, i, docs ! i)) c" .
    have ids: "md_id (docs ! i) \<noteq> []" if "i \<in> set c" for i using that assms(2) c(3) by auto
    then have "filter (\<lambda>i. md_id (docs ! i) \<noteq> []) c = c" by (simp add: filter_id_conv)
    then show ?thesis unfolding rows using ids by (simp add: List.map_filter_def comp_def filter_map)
  qed
  have "fetchMasterSearchSqlDocuments db key ?ids = sort_key fst (concat (map (map (\<lambda>i. (i, docs ! i))) ?chunks))"
    unfolding fetchMasterSearchSqlDocuments_def by (simp only: one cong: map_cong)
  also have "concat (map (map (\<lambda>i. (i, docs ! i))) ?chunks) = map (\<lambda>i. (i, docs ! i)) ?ids"
    by (simp add: map_concat [symmetric] concat_chunks MASTER_SEARCH_SQL_DOC_CHUNK_SIZE_def)
  also have "sort_key fst (map (\<lambda>i. (i, docs ! i)) ?ids) = map (\<lambda>i. (i, docs ! i)) ?ids"
    by (rule sort_key_id_if_sorted) (simp add: comp_def sorted_upt_filter)
  finally show ?thesis .
qed

lemma built_documents: "d \<in> set (buildMasterSearchDocuments admins) \<Longrightarrow> md_id d \<noteq> [] \<and> lowered (md_searchText d)"
  by (auto simp: buildMasterSearchDocuments_def adminDocument_def eventDocument_def userDocument_def claimDocument_def Let_def
      lowered_normalize)

lemma terms_nonempty: "normalizeSearchText q \<noteq> [] \<Longrightarrow> t \<in> set (targetTerms (normalizeSearchText q)) \<Longrightarrow> t \<noteq> []"
  by (auto simp: targetTerms_def tokenizeSearchTerms_def Let_def split: if_splits)

lemma sql_search_scan:
  assumes "storedIndex db key docs" "length docs \<le> MASTER_SEARCH_SQL_TERM_DOC_LIMIT"
    and "\<forall>d \<in> set docs. md_id d \<noteq> [] \<and> lowered (md_searchText d)"
    and "\<forall>t \<in> set (targetTerms (normalizeSearchText query)). plainTerm t"
  shows "searchMasterIndexSql db key query limit = scanSearch docs query limit"
proof (cases "normalizeSearchText query = []")
  case False
  let ?q = "normalizeSearchText query" let ?P = "\<lambda>i. \<forall>t \<in> set (targetTerms ?q). docMatches docs t (docs ! i)"
  have "getMasterSearchSqlTermDocIds db key t = filter (\<lambda>i. docMatches docs t (docs ! i)) [0..<length docs]"
    if t: "t \<in> set (targetTerms ?q)" for t
    unfolding matchIds_def [symmetric]
    by (rule sql_term_matches [OF assms(1,2) terms_nonempty [OF False t]])
      (use assms(3,4) t lowered_terms in \<open>auto simp: like_includes [simplified]\<close>)
  then have narrow: "narrowCandidates (take MASTER_SEARCH_SQL_TERM_DOC_LIMIT) (getMasterSearchSqlTermDocIds db key) (targetTerms ?q) None
      = filter ?P [0..<length docs]"
    by (rule narrow_eq(2)) (use assms(2) in \<open>simp_all add: targetTerms_nonempty\<close>)
  have "fetchMasterSearchSqlDocuments db key (filter ?P [0..<length docs]) = map (\<lambda>i. (i, docs ! i)) (filter ?P [0..<length docs])"
    by (rule sql_fetch) (use assms in auto)
  then show ?thesis
    using False by (simp only: searchMasterIndexSql_def scanSearch_def filter_enumerate narrow Let_def) (simp add: rank_Nil)
qed (simp add: searchMasterIndexSql_def scanSearch_def)

text \<open>
  C36. The tables serve what the memory serves: storing a freshly built index of at most 4000 documents succeeds, and the
  search in the tables then returns exactly what the search in memory returns, for every query whose terms have no
  wildcard of \<open>LIKE\<close>, whatever older indexes the tables hold.
\<close>

theorem sql_search_agrees:
  assumes "db_ok db nowMs" "index = builtIndex key nowMs admins" "length (mi_docs index) \<le> MASTER_SEARCH_SQL_TERM_DOC_LIMIT"
    and "\<forall>t \<in> set (targetTerms (normalizeSearchText query)). plainTerm t"
  shows "\<exists>db'. persistMasterSearchSqlIndex db key (mi_builtAt index) nowMs (mi_docs index) (mi_tokenToDocIds index) = (db', None)
    \<and> searchMasterIndexSql db' key query limit = searchMasterIndex index query limit"
proof -
  let ?docs = "buildMasterSearchDocuments admins"
  have index: "mi_docs index = ?docs" "mi_tokenToDocIds index = buildMasterSearchTokenIndex ?docs"
    using assms(2) by (simp_all add: builtIndex_def Let_def)
  obtain db' where db': "persistMasterSearchSqlIndex db key (mi_builtAt index) nowMs ?docs (buildMasterSearchTokenIndex ?docs) = (db', None)"
      "storedIndex db' key ?docs"
    using persist_stored [OF assms(1)] by blast
  have "searchMasterIndexSql db' key query limit = scanSearch ?docs query limit"
    by (rule sql_search_scan [OF db'(2)]) (use assms(3,4) index built_documents in auto)
  moreover have "searchMasterIndex index query limit = scanSearch ?docs query limit"
    using indexed_scan [of index query limit] index by simp
  ultimately show ?thesis using db' index by simp
qed

section \<open>The endpoint\<close>

definition notIndexed :: "search_state \<Rightarrow> string \<Rightarrow> bool" where
  "notIndexed st key \<longleftrightarrow> (\<forall>c. se_cache st = Some c \<longrightarrow> mi_key c \<noteq> key) \<and> (\<forall>m. se_meta st = Some m \<longrightarrow> sm_key m \<noteq> key)
     \<and> (\<forall>db. se_sql st = Some db \<longrightarrow> (\<forall>r \<in> set (sq_meta db). mm_key r \<noteq> key))"

lemma not_indexed_meta: "\<forall>r \<in> set (sq_meta db). mm_key r \<noteq> key \<Longrightarrow> readMasterSearchSqlMeta db key = None"
  by (auto simp: readMasterSearchSqlMeta_def find_None_iff)

lemma ensure_fresh:
  assumes "se_sql st = Some db" "readHashHex (sto_get s AUDIT_LAST_HASH_GLOBAL_KEY) = Inr head"
    and "getMasterAdminDisclosures s includeRevoked transferLimit = Inr admins"
    and "key = searchKey head includeRevoked transferLimit" "notIndexed st key" "index = builtIndex key nowMs admins"
    and "persistMasterSearchSqlIndex db key (mi_builtAt index) nowMs (mi_docs index) (mi_tokenToDocIds index) = (db', None)"
  shows "ensureMasterSearchSqlIndex st s includeRevoked transferLimit nowMs =
    (let meta = \<lparr>sm_key = key, sm_builtAtMs = nowMs, sm_builtAt = mi_builtAt index\<rparr>
     in (st\<lparr>se_sql := Some db', se_cache := Some index, se_meta := Some meta\<rparr>, Inr (Some meta)))"
proof -
  have "readMasterSearchSqlMeta db key = None" using assms(1,5) by (intro not_indexed_meta) (simp add: notIndexed_def)
  moreover have "se_meta st = Some m \<Longrightarrow> sm_key m \<noteq> key" for m using assms(5) by (simp add: notIndexed_def)
  ultimately show ?thesis using assms by (cases "se_meta st") (simp_all add: ensureMasterSearchSqlIndex_def Let_def)
qed

lemma index_fresh:
  assumes "readHashHex (sto_get s AUDIT_LAST_HASH_GLOBAL_KEY) = Inr head"
    and "getMasterAdminDisclosures s includeRevoked transferLimit = Inr admins"
    and "key = searchKey head includeRevoked transferLimit" "notIndexed st key" "index = builtIndex key nowMs admins"
  shows "getMasterSearchIndex st s includeRevoked transferLimit nowMs = (st\<lparr>se_cache := Some index\<rparr>, Inr index)"
  using assms by (auto simp: getMasterSearchIndex_def notIndexed_def Let_def split: option.splits)

lemma builtAt_builtIndex [simp]: "mi_builtAt (builtIndex key nowMs admins) = js_toISOString nowMs"
  "mi_docs (builtIndex key nowMs admins) = buildMasterSearchDocuments admins"
  "mi_tokenToDocIds (builtIndex key nowMs admins) = buildMasterSearchTokenIndex (buildMasterSearchDocuments admins)"
  by (simp_all add: builtIndex_def Let_def)

lemma builtAt_nonempty: "js_toISOString nowMs \<noteq> []"
  using js_toISOString_length [of nowMs] by auto

text \<open>
  C35. What the search endpoint answers: when nothing is indexed yet for the current head of the audit log, the answer to
  an authorised query holds the number and the ranked page of exactly the documents of the current disclosure report that
  match every term of the query, as a scan of the whole report would find them. Without an SQL storage this holds for
  every query and report; with one, for reports of at most 4000 documents and queries whose terms have neither \<open>%\<close> nor
  \<open>_\<close>, the wildcards of \<open>LIKE\<close>.
\<close>

theorem search_answer_exact:
  assumes "requireMasterAuthorization env request = None" "queryParam params ''q'' = Some q" "js_trim q \<noteq> []"
    and "includeRevoked = parseBooleanQuery (queryParam params ''includeRevoked'') True"
    and "transferLimit = parseBoundedInt (queryParam params ''transferLimit'') 500 1 1000"
    and "limit = parseBoundedInt (queryParam params ''limit'') 100 1 300"
    and "readHashHex (sto_get s AUDIT_LAST_HASH_GLOBAL_KEY) = Inr head"
    and "getMasterAdminDisclosures s includeRevoked transferLimit = Inr admins"
    and "notIndexed st (searchKey head includeRevoked transferLimit)"
    and "\<And>db. se_sql st = Some db \<Longrightarrow> db_ok db nowMs
           \<and> length (buildMasterSearchDocuments admins) \<le> MASTER_SEARCH_SQL_TERM_DOC_LIMIT
           \<and> (\<forall>t \<in> set (targetTerms (normalizeSearchText (js_trim q))). plainTerm t)"
  shows "snd (handleMasterSearch env st s nowMs request params) =
    Inr (searchResponse nowMs (js_trim q) includeRevoked transferLimit limit (Some (js_toISOString nowMs))
           (scanSearch (buildMasterSearchDocuments admins) (js_trim q) limit))"
proof (cases "se_sql st")
  case None
  then have e: "ensureMasterSearchSqlIndex st s includeRevoked transferLimit nowMs = (st, Inr None)"
    by (simp add: ensureMasterSearchSqlIndex_def)
  show ?thesis
    using index_fresh [OF assms(7,8) refl assms(9) refl, of nowMs] e None assms(1-3)
    by (simp add: handleMasterSearch_def assms(4-6) [symmetric] indexed_scan Let_def)
next
  case (Some db)
  let ?key = "searchKey head includeRevoked transferLimit" let ?docs = "buildMasterSearchDocuments admins"
  obtain db' where db': "persistMasterSearchSqlIndex db ?key (js_toISOString nowMs) nowMs ?docs (buildMasterSearchTokenIndex ?docs) = (db', None)"
      "storedIndex db' ?key ?docs"
    using persist_stored assms(10) [OF Some] by blast
  have "searchMasterIndexSql db' ?key (js_trim q) limit = scanSearch ?docs (js_trim q) limit"
    by (rule sql_search_scan [OF db'(2)]) (use assms(10) [OF Some] built_documents in auto)
  moreover note ensure_fresh [OF Some assms(7,8) refl assms(9) refl, of nowMs db']
  ultimately show ?thesis
    using db'(1) assms(1-3) by (simp add: handleMasterSearch_def assms(4-6) [symmetric] builtAt_nonempty Let_def)
qed

section \<open>A search\<close>

definition sampleStore :: storage where
  "sampleStore = [(adminCodeKey ''c'', JObj [(''adminId'', JStr ''a1''), (''name'', JStr ''Ken''), (''createdAt'', JStr ''t'')])]"

definition sampleAdmin :: MasterAdminDisclosure where
  "sampleAdmin = \<lparr>ad_adminId = ''a1'', ad_code = ''c'', ad_name = ''Ken'', ad_createdAt = ''t'', ad_revokedAt = None,
     ad_events = [], ad_relatedTransferCount = 0, ad_relatedUsers = []\<rparr>"

definition searchEnv :: Env where
  "searchEnv = emptyEnv\<lparr>ADMIN_PASSWORD := Some ''pw''\<rparr>"

definition searchRequest :: Request where
  "searchRequest = \<lparr>rq_method = ''GET'', rq_headers = [(''Authorization'', ''Bearer pw'')], rq_chunks = None, rq_json = Inr JUndef\<rparr>"

abbreviation sqlState :: search_state where
  "sqlState \<equiv> \<lparr>se_sql = Some emptyDb, se_cache = None, se_meta = None\<rparr>"

lemma sample_facts:
  "requireMasterAuthorization searchEnv searchRequest = None" "js_trim ''ken'' = ''ken''"
  "readHashHex (sto_get sampleStore AUDIT_LAST_HASH_GLOBAL_KEY) = Inr POP_HASH_GENESIS_HEX"
  "getMasterAdminDisclosures sampleStore True 500 = Inr [sampleAdmin]"
  "parseBooleanQuery None True = True" "parseBoundedInt None 500 1 1000 = 500" "parseBoundedInt None 100 1 300 = 100"
  "targetTerms (normalizeSearchText ''ken'') = [''ken'']"
  by code_simp+

lemma sample_documents: "length (buildMasterSearchDocuments [sampleAdmin]) \<le> MASTER_SEARCH_SQL_TERM_DOC_LIMIT"
  by (simp add: buildMasterSearchDocuments_def MASTER_SEARCH_SQL_TERM_DOC_LIMIT_def sampleAdmin_def)

lemma sample_terms: "\<forall>t \<in> set (targetTerms (normalizeSearchText ''ken'')). plainTerm t"
  by (simp add: sample_facts plainTerm_def)

theorem sql_search_agrees_witness:
  "\<exists>db'. persistMasterSearchSqlIndex emptyDb ''k'' (mi_builtAt (builtIndex ''k'' 5 [sampleAdmin])) 5
       (mi_docs (builtIndex ''k'' 5 [sampleAdmin])) (mi_tokenToDocIds (builtIndex ''k'' 5 [sampleAdmin])) = (db', None)
     \<and> searchMasterIndexSql db' ''k'' ''ken'' 10 = searchMasterIndex (builtIndex ''k'' 5 [sampleAdmin]) ''ken'' 10"
proof (rule sql_search_agrees)
  show "db_ok emptyDb 5" by (simp add: db_ok_def emptyDb_def)
qed (simp_all add: sample_documents sample_terms)

theorem search_answer_exact_witness:
  "snd (handleMasterSearch searchEnv sqlState sampleStore 5 searchRequest [(''q'', ''ken'')]) =
     Inr (searchResponse 5 ''ken'' True 500 100 (Some (js_toISOString 5)) (scanSearch (buildMasterSearchDocuments [sampleAdmin]) ''ken'' 100))"
proof -
  have "snd (handleMasterSearch searchEnv sqlState sampleStore 5 searchRequest [(''q'', ''ken'')]) =
     Inr (searchResponse 5 (js_trim ''ken'') True 500 100 (Some (js_toISOString 5))
       (scanSearch (buildMasterSearchDocuments [sampleAdmin]) (js_trim ''ken'') 100))"
    by (rule search_answer_exact [where head = POP_HASH_GENESIS_HEX])
      (simp_all add: sample_facts queryParam_def notIndexed_def db_ok_def emptyDb_def sample_documents plainTerm_def)
  then show ?thesis by (simp add: sample_facts)
qed

end
