(* ===== verification/Account_Handlers.thy ===== *)
theory Account_Handlers
  imports Master_Disclosure
begin

text \<open>
  Endpoints of \<open>storeDO.ts\<close> around accounts, transfers, receipts and the audit log: the list, renaming, revocation and
  login of administrators; the transfers of an administrator and of the master; the verification of receipts; the audit
  log and its integrity; the metadata of a ticket token. A query parameter is looked up in the list of the parameters.
\<close>

section \<open>Administrators\<close>

definition adminRecordToJs :: "AdminCodeRecord \<Rightarrow> js" where
  "adminRecordToJs r = JObj [(''code'', JStr (ac_code r)), (''adminId'', JStr (ac_adminId r)), (''name'', JStr (ac_name r)),
     (''createdAt'', JStr (ac_createdAt r)), (''source'', JStr ''invite''), (''revokedAt'', jstr_null (ac_revokedAt r)),
     (''revokedBy'', jstr_null (ac_revokedBy r))]"

definition inviteView :: "AdminCodeRecord \<Rightarrow> js" where
  "inviteView r = JObj [(''code'', JStr (ac_code r)), (''adminId'', JStr (ac_adminId r)), (''name'', JStr (ac_name r)),
     (''source'', JStr ''invite''), (''status'', JStr (if ac_revokedAt r \<noteq> None then ''revoked'' else ''active'')),
     (''createdAt'', JStr (ac_createdAt r)), (''revokedAt'', jstr_null (ac_revokedAt r)), (''revokedBy'', jstr_null (ac_revokedBy r))]"

definition handleInviteList :: "Env \<Rightarrow> storage \<Rightarrow> Request \<Rightarrow> (string \<times> string) list \<Rightarrow> outcome" where
  "handleInviteList env s request params =
     (case requireMasterAuthorization env request of
        Some authError \<Rightarrow> (s, Inr authError)
      | None \<Rightarrow>
          respond s (JObj [(''invites'', JArr (map inviteView
            (disclosedAdmins s (parseBooleanQuery (queryParam params ''includeRevoked'') True))))]) 200)"

definition handleAdminRename :: "Env \<Rightarrow> storage \<Rightarrow> Request \<Rightarrow> outcome" where
  "handleAdminRename env s request =
     (case requireMasterAuthorization env request of
        Some authError \<Rightarrow> (s, Inr authError)
      | None \<Rightarrow>
          (case rq_json request of
             Inl _ \<Rightarrow> respond s (errorBody ''invalid body'') 400
           | Inr body \<Rightarrow>
               (let name = strField body ''name'' in
                if name = [] \<or> 64 < length name then respond s (errorBody ''name must be 1-64 chars'') 400
                else
                  (let code = or_else (strField body ''code'')
                                (case findAdminCodeByAdminId s (strField body ''adminId'') of Some c \<Rightarrow> c | None \<Rightarrow> [])
                   in if code = [] then respond s (errorBody ''code or adminId required'') 400
                      else case parseAdminCodeRecord code (sto_get s (adminCodeKey code)) of
                             None \<Rightarrow> respond s (errorBody ''admin code not found'') 404
                           | Some current \<Rightarrow>
                               (let updated = current\<lparr>ac_name := name\<rparr>
                                in respond (sto_put s (adminCodeKey code) (adminRecordToJs updated))
                                     (JObj [(''success'', JBool True), (''invite'', inviteView updated)]) 200)))))"

definition handleAdminRevoke :: "Env \<Rightarrow> storage \<Rightarrow> int \<Rightarrow> Request \<Rightarrow> outcome" where
  "handleAdminRevoke env s nowMs request =
     (case requireMasterAuthorization env request of
        Some authError \<Rightarrow> (s, Inr authError)
      | None \<Rightarrow>
          (case rq_json request of
             Inl _ \<Rightarrow> respond s (errorBody ''invalid body'') 400
           | Inr body \<Rightarrow>
               (let code = strField body ''code'' in
                if code = [] then respond s (errorBody ''code required'') 400
                else case parseAdminCodeRecord code (sto_get s (adminCodeKey code)) of
                       None \<Rightarrow> respond s (JObj [(''success'', JBool False)]) 200
                     | Some current \<Rightarrow>
                         (case ac_revokedAt current of
                            Some revokedAt \<Rightarrow> respond s (JObj [(''success'', JBool True), (''revokedAt'', JStr revokedAt)]) 200
                          | None \<Rightarrow>
                              (let revokedAt = js_toISOString nowMs
                               in respond (sto_put s (adminCodeKey code)
                                      (adminRecordToJs (current\<lparr>ac_revokedAt := Some revokedAt, ac_revokedBy := Some ''master''\<rparr>)))
                                    (JObj [(''success'', JBool True), (''revokedAt'', JStr revokedAt)]) 200)))))"

definition loginOk :: "string \<Rightarrow> (string \<times> js) list \<Rightarrow> js" where
  "loginOk role info = JObj [(''ok'', JBool True), (''role'', JStr role), (''info'', JObj info)]"

definition handleAdminLogin :: "Env \<Rightarrow> storage \<Rightarrow> Request \<Rightarrow> outcome" where
  "handleAdminLogin env s request =
     (case rq_json request of
        Inl _ \<Rightarrow> respond s (errorBody ''invalid body'') 400
      | Inr body \<Rightarrow>
          (let password = (case jget body ''password'' of JStr t \<Rightarrow> t | _ \<Rightarrow> [])
           in if isDefaultMasterPasswordConfigured env \<and> password = DEFAULT_ADMIN_PASSWORD then (s, Inr insecureMasterPasswordResponse)
              else if getConfiguredMasterPassword env = Some password
              then respond s (loginOk ''master'' [(''adminId'', JStr ''master''), (''name'', JStr ''Master Operator''),
                     (''source'', JStr ''master''), (''status'', JStr ''active'')]) 200
              else if getConfiguredDemoPassword env = Some password
              then respond s (loginOk ''admin'' [(''adminId'', JStr ''demo-admin''), (''name'', JStr ''Demo Admin''),
                     (''source'', JStr ''demo''), (''status'', JStr ''active'')]) 200
              else case parseAdminCodeRecord password (sto_get s (adminCodeKey password)) of
                     Some adminData \<Rightarrow>
                       (if ac_revokedAt adminData \<noteq> None then respond s (errorBody ''invite revoked'') 401
                        else respond s (loginOk ''admin'' [(''adminId'', JStr (ac_adminId adminData)), (''name'', JStr (ac_name adminData)),
                               (''source'', JStr ''invite''), (''createdAt'', JStr (ac_createdAt adminData)),
                               (''status'', JStr ''active'')]) 200)
                   | None \<Rightarrow> respond s (errorBody ''invalid password'') 401))"

section \<open>Transfers\<close>

definition AUDIT_INTEGRITY_DEFAULT_LIMIT :: int where "AUDIT_INTEGRITY_DEFAULT_LIMIT = 50"
definition AUDIT_INTEGRITY_MAX_LIMIT :: int where "AUDIT_INTEGRITY_MAX_LIMIT = 200"

definition auditLimit :: "(string \<times> string) list \<Rightarrow> int" where
  "auditLimit params = parseBoundedInt (queryParam params ''limit'') AUDIT_INTEGRITY_DEFAULT_LIMIT 1 AUDIT_INTEGRITY_MAX_LIMIT"

definition transferListing ::
  "storage \<Rightarrow> int \<Rightarrow> (string \<times> string) list \<Rightarrow> TransferLogRoleView \<Rightarrow> string \<Rightarrow> string \<Rightarrow> js" where
  "transferListing s nowMs params role roleView strictLevel =
     (let limit = auditLimit params;
          eventId = Option.bind (queryParam params ''eventId'') (\<lambda>e. if js_trim e = [] then None else Some (js_trim e));
          modeRaw = normalizeStringField (jstr_null (queryParam params ''mode''));
          mode = (if modeRaw = Some ''onchain'' then Some Mode_onchain else if modeRaw = Some ''offchain'' then Some Mode_offchain else None)
      in JObj ([(''roleView'', JStr roleView), (''strictLevel'', JStr strictLevel), (''checkedAt'', JStr (js_toISOString nowMs)),
                (''limit'', JInt limit), (''eventId'', jstr_null eventId)]
               @ (case mode of Some m \<Rightarrow> [(''mode'', JStr (transferModeStr m))] | None \<Rightarrow> [])
               @ [(''items'', JArr (map transferViewToJs (getTransferLogs s role limit eventId mode)))]))"

definition handleAdminTransfers :: "Env \<Rightarrow> storage \<Rightarrow> int \<Rightarrow> Request \<Rightarrow> (string \<times> string) list \<Rightarrow> outcome" where
  "handleAdminTransfers env s nowMs request params =
     (case authenticateOperator env s request of
        None \<Rightarrow> (s, Inr unauthorizedResponse)
      | Some _ \<Rightarrow> respond s (transferListing s nowMs params RoleView_admin ''admin'' ''admin_transfer_visible_no_pii'') 200)"

definition handleMasterTransfers :: "Env \<Rightarrow> storage \<Rightarrow> int \<Rightarrow> Request \<Rightarrow> (string \<times> string) list \<Rightarrow> outcome" where
  "handleMasterTransfers env s nowMs request params =
     (case requireMasterAuthorization env request of
        Some authError \<Rightarrow> (s, Inr authError)
      | None \<Rightarrow> respond s (transferListing s nowMs params RoleView_master ''master'' ''master_full'') 200)"

section \<open>Receipts\<close>

definition PARTICIPATION_TICKET_VERIFY_BY_CODE_ENDPOINT :: string where
  "PARTICIPATION_TICKET_VERIFY_BY_CODE_ENDPOINT = ''/api/audit/receipts/verify-code''"

definition receiptIssueToJs :: "ReceiptIssue \<Rightarrow> js" where
  "receiptIssueToJs i = JObj [(''code'', JStr (ri_code i)), (''message'', JStr (ri_message i)), (''field'', JStr (ri_field i))]"

definition receiptChecksToJs :: "ReceiptChecks \<Rightarrow> js" where
  "receiptChecksToJs c = JObj [(''receiptHashValid'', JBool (ck_receiptHashValid c)), (''entryExists'', JBool (ck_entryExists c)),
     (''entryHashValid'', JBool (ck_entryHashValid c)), (''confirmationCodeMatches'', JBool (ck_confirmationCodeMatches c)),
     (''eventIdMatches'', JBool (ck_eventIdMatches c)), (''globalChainLinkValid'', JBool (ck_globalChainLinkValid c)),
     (''streamChainLinkValid'', JBool (ck_streamChainLinkValid c)),
     (''immutablePayloadHashMatches'', JBool (ck_immutablePayloadHashMatches c)),
     (''immutableSinksMatch'', JBool (ck_immutableSinksMatch c))]"

definition verificationToJs :: "ParticipationTicketReceiptVerification \<Rightarrow> js" where
  "verificationToJs v = JObj [(''ok'', JBool (rv_ok v)), (''checkedAt'', JStr (rv_checkedAt v)), (''receiptId'', JStr (rv_receiptId v)),
     (''eventId'', JStr (rv_eventId v)), (''confirmationCode'', JStr (rv_confirmationCode v)),
     (''checks'', receiptChecksToJs (rv_checks v)), (''issues'', JArr (map receiptIssueToJs (rv_issues v))),
     (''proof'', JObj [(''entryHash'', rp_entryHash (rv_proof v)), (''prevHash'', rp_prevHash (rv_proof v)),
        (''streamPrevHash'', rp_streamPrevHash (rv_proof v)), (''immutablePayloadHash'', rp_immutablePayloadHash (rv_proof v)),
        (''immutableSinks'', JArr (map sinkToJs (rp_immutableSinks (rv_proof v))))])]"

definition handleReceiptVerify :: "(string \<Rightarrow> string) \<Rightarrow> storage \<Rightarrow> int \<Rightarrow> Request \<Rightarrow> outcome" where
  "handleReceiptVerify H s nowMs request =
     (case rq_json request of
        Inl _ \<Rightarrow> respond s (errorBody ''invalid body'') 400
      | Inr body \<Rightarrow>
          (let receiptRaw = (case body of JObj kvs \<Rightarrow> (if map_of kvs ''receipt'' \<noteq> None then jget body ''receipt'' else body) | _ \<Rightarrow> body)
           in case parseParticipationTicketReceipt receiptRaw of
                None \<Rightarrow> respond s (errorBody ''invalid receipt payload'') 400
              | Some receipt \<Rightarrow>
                  (case verifyParticipationTicketReceipt H s nowMs receipt of
                     Inl e \<Rightarrow> (s, Inl e)
                   | Inr report \<Rightarrow> respond s (verificationToJs report) (if rv_ok report then 200 else 409))))"

definition handleReceiptVerifyCode :: "(string \<Rightarrow> string) \<Rightarrow> storage \<Rightarrow> int \<Rightarrow> Request \<Rightarrow> outcome" where
  "handleReceiptVerifyCode H s nowMs request =
     (case rq_json request of
        Inl _ \<Rightarrow> respond s (errorBody ''invalid body'') 400
      | Inr body \<Rightarrow>
          (case (normalizeStringField (jget body ''eventId''), normalizeStringField (jget body ''confirmationCode'')) of
             (Some eventId, Some confirmationCode) \<Rightarrow>
               (case parseParticipationTicketReceipt (sto_get s (ticketReceiptByCodeKey eventId confirmationCode)) of
                  None \<Rightarrow> respond s (errorBody ''ticket receipt not found'') 404
                | Some receipt \<Rightarrow>
                    (case verifyParticipationTicketReceipt H s nowMs receipt of
                       Inl e \<Rightarrow> (s, Inl e)
                     | Inr v \<Rightarrow>
                         respond s (JObj [(''ok'', JBool (rv_ok v)), (''checkedAt'', JStr (rv_checkedAt v)), (''eventId'', JStr eventId),
                           (''confirmationCode'', JStr confirmationCode), (''receipt'', receiptToJs receipt),
                           (''verification'', verificationToJs v),
                           (''verifyByCodeEndpoint'', JStr PARTICIPATION_TICKET_VERIFY_BY_CODE_ENDPOINT)]) (if rv_ok v then 200 else 409)))
           | _ \<Rightarrow> respond s (errorBody ''eventId and confirmationCode are required'') 400))"

section \<open>The audit log\<close>

definition handleMasterAuditLogs :: "Env \<Rightarrow> storage \<Rightarrow> Request \<Rightarrow> outcome" where
  "handleMasterAuditLogs env s request =
     (case requireMasterAuthorization env request of
        Some authError \<Rightarrow> (s, Inr authError)
      | None \<Rightarrow> respond s (JObj [(''logs'', JArr (getAuditLogs s))]) 200)"

definition integrityIssueToJs :: "AuditIntegrityIssue \<Rightarrow> js" where
  "integrityIssueToJs i = JObj [(''code'', JStr (ai_code i)), (''message'', JStr (ai_message i)), (''entryHash'', ai_entryHash i),
     (''eventId'', ai_eventId i), (''ref'', ai_ref i)]"

definition integrityReportToJs :: "AuditIntegrityReport \<Rightarrow> js" where
  "integrityReportToJs r = JObj [(''ok'', JBool (ar_ok r)), (''mode'', JStr (modeStr (ar_mode r))), (''checked'', jsNat (ar_checked r)),
     (''limit'', jsNat (ar_limit r)), (''globalHead'', ar_globalHead r), (''oldestInWindow'', ar_oldestInWindow r),
     (''verifyImmutable'', JBool (ar_verifyImmutable r)), (''issues'', JArr (map integrityIssueToJs (ar_issues r))),
     (''warnings'', JArr (map JStr (ar_warnings r))), (''inspectedAt'', JStr (ar_inspectedAt r))]"

definition handleAuditIntegrity ::
  "(string \<Rightarrow> string) \<Rightarrow> Env \<Rightarrow> AuditServices \<Rightarrow> storage \<Rightarrow> int \<Rightarrow> Request \<Rightarrow> (string \<times> string) list \<Rightarrow> outcome" where
  "handleAuditIntegrity H env svc s nowMs request params =
     (case requireMasterAuthorization env request of
        Some authError \<Rightarrow> (s, Inr authError)
      | None \<Rightarrow>
          (case verifyAuditIntegrity H env svc s (nat (auditLimit params))
                  (parseBooleanQuery (queryParam params ''verifyImmutable'') True) nowMs of
             Inl e \<Rightarrow> (s, Inl e)
           | Inr report \<Rightarrow> respond s (integrityReportToJs report) (if ar_ok report then 200 else 409)))"

section \<open>Metadata of a ticket token\<close>

definition TOKEN_IMAGE_URL :: string where
  "TOKEN_IMAGE_URL = ''https://instant-grant-core.pages.dev/ticket-token-symbol-circle.png''"

definition buildTokenSymbol :: "string \<Rightarrow> string" where
  "buildTokenSymbol title = or_else (js_upper (take 10 (filter (\<lambda>c. \<not> is_ws c) title))) ''TICKET''"

definition trait :: "string \<Rightarrow> js \<Rightarrow> js" where
  "trait traitType value = JObj [(''trait_type'', JStr traitType), (''value'', value)]"

definition orValue :: "js \<Rightarrow> js \<Rightarrow> js" where
  "orValue v other = (if v = JUndef \<or> v = JNull then other else v)"

text \<open>
  \<open>ticketNote\<close> is the Japanese text after the title, which is outside of the characters of the model. A title that is
  neither missing nor a string has no \<open>trim\<close>.
\<close>

definition tokenMetadata :: "string \<Rightarrow> string \<Rightarrow> js option \<Rightarrow> string \<Rightarrow> js" where
  "tokenMetadata ticketNote mint linked title =
     (let get = (\<lambda>k. case linked of Some e \<Rightarrow> jget e k | None \<Rightarrow> JUndef)
      in JObj [(''name'', JStr (or_else title (''We-ne Ticket '' @ take 6 mint))), (''symbol'', JStr (buildTokenSymbol title)),
        (''description'', JStr (if linked \<noteq> None then js_to_string (get ''title'') @ ticketNote else ''we-ne participation ticket token'')),
        (''image'', JStr TOKEN_IMAGE_URL), (''external_url'', JStr ''https://instant-grant-core.pages.dev/''),
        (''attributes'', JArr [trait ''mint'' (JStr mint), trait ''event_id'' (orValue (get ''id'') (JStr ''unknown'')),
           trait ''host'' (orValue (get ''host'') (JStr ''unknown'')), trait ''datetime'' (orValue (get ''datetime'') (JStr ''unknown'')),
           trait ''claim_interval_days'' (orValue (get ''claimIntervalDays'') (JInt 30)),
           trait ''max_claims_per_interval''
             (if get ''maxClaimsPerInterval'' = JNull then JStr ''unlimited'' else orValue (get ''maxClaimsPerInterval'') (JInt 1))]),
        (''properties'', JObj [(''category'', JStr ''image''),
           (''files'', JArr [JObj [(''uri'', JStr TOKEN_IMAGE_URL), (''type'', JStr ''image/png'')]])])])"

definition handleMetadata :: "string \<Rightarrow> storage \<Rightarrow> string \<Rightarrow> outcome" where
  "handleMetadata ticketNote s mintSegment =
     (let mint = js_trim mintSegment
      in if \<not> MINT_BASE58_RE mint then respond s (errorBody ''invalid mint'') 400
         else
           (let linked = find (\<lambda>event. jget event ''solanaMint'' = JStr mint) (getEvents doStorageAdapter s);
                titleField = (case linked of Some e \<Rightarrow> jget e ''title'' | None \<Rightarrow> JUndef);
                answer = (\<lambda>title. (s, Inr \<lparr>rs_status = 200, rs_body = tokenMetadata ticketNote mint linked title,
                   rs_headers = [(''content-type'', ''application/json; charset=utf-8''), (''cache-control'', ''public, max-age=300'')]\<rparr>))
            in case titleField of
                 JStr t \<Rightarrow> answer (js_trim t) | JUndef \<Rightarrow> answer [] | JNull \<Rightarrow> answer [] | _ \<Rightarrow> (s, Inl ''TypeError'')))"

end
