(* ===== verification/Security_Listings.thy ===== *)
theory Security_Listings
  imports Account_Handlers
begin

text \<open>
  The listings of the administrator security state for operators (\<open>storeDO.ts\<close>): frozen and revoked accounts, report
  obligations, the security log, governance proposals and moderated users. An operator who is the master is registered
  when the context is set up, so the storage may change.
\<close>

section \<open>Frozen and revoked accounts\<close>

definition isoNull :: "rat option \<Rightarrow> js" where
  "isoNull t = (case t of Some ms \<Rightarrow> JStr (isoOf ms) | None \<Rightarrow> JNull)"

text \<open>Sorting by \<open>tb - ta\<close> on the times that the printed timestamps stand for: latest first, ties in order.\<close>

definition latestFirst :: "('a \<Rightarrow> rat) \<Rightarrow> 'a list \<Rightarrow> 'a list" where
  "latestFirst time xs = sort_key (\<lambda>x. - \<lfloor>time x\<rfloor>) xs"

definition frozenRows :: "storage \<Rightarrow> (string \<times> FrozenAccount) list" where
  "frozenRows s = latestFirst (fz_frozenAt \<circ> snd)
     (List.map_filter (\<lambda>(actorId, st). map_option (Pair actorId) (ss_frozen st)) (listAdminSecurityStates s))"

definition warningRows :: "storage \<Rightarrow> (string \<times> PendingWarning) list" where
  "warningRows s = List.map_filter (\<lambda>(actorId, st). map_option (Pair actorId) (ss_pendingWarning st)) (listAdminSecurityStates s)"

definition revokedRows :: "storage \<Rightarrow> (string \<times> RevokedAccess) list" where
  "revokedRows s = latestFirst (rk_revokedAt \<circ> snd)
     (List.map_filter (\<lambda>(actorId, st). map_option (Pair actorId) (ss_revokedAccess st)) (listAdminSecurityStates s))"

definition operatorRows :: "storage \<Rightarrow> (AdminSecurityOperatorRecord \<times> RevokedAccess option) list" where
  "operatorRows s = sort_key (or_actorId \<circ> fst)
     (map (\<lambda>operator. (operator, map_of (rev (listAdminSecurityRevokedOperators s)) (or_actorId operator))) (listAdminSecurityOperators s))"

definition frozenItem :: "string \<times> FrozenAccount \<Rightarrow> js" where
  "frozenItem row = (case row of (actorId, f) \<Rightarrow> JObj [(''actorId'', JStr actorId), (''frozenAt'', JStr (isoOf (fz_frozenAt f))),
     (''reason'', JStr (fz_reason f)), (''warningId'', jstr_null (fz_warningId f)), (''frozenByActorId'', jstr_null (fz_frozenByActorId f))])"

definition warningItem :: "string \<times> PendingWarning \<Rightarrow> js" where
  "warningItem row = (case row of (actorId, w) \<Rightarrow> JObj [(''actorId'', JStr actorId), (''warningId'', JStr (pw_id w)),
     (''issuedAt'', JStr (isoOf (pw_issuedAt w))), (''signals'', JArr (map JStr (pw_signals w)))])"

definition revokedItem :: "string \<times> RevokedAccess \<Rightarrow> js" where
  "revokedItem row = (case row of (actorId, r) \<Rightarrow> JObj [(''actorId'', JStr actorId), (''revokedAt'', JStr (isoOf (rk_revokedAt r))),
     (''reason'', JStr (rk_reason r)), (''revokedByActorId'', jstr_null (rk_revokedByActorId r)), (''reportId'', jstr_null (rk_reportId r))])"

definition operatorItem :: "AdminSecurityOperatorRecord \<times> RevokedAccess option \<Rightarrow> js" where
  "operatorItem row = (case row of (operator, revoked) \<Rightarrow>
     JObj [(''actorId'', JStr (or_actorId operator)), (''role'', JStr (secRoleStr (or_role operator))), (''name'', jstr_null (or_name operator)),
       (''revokedAt'', isoNull (map_option rk_revokedAt revoked)), (''revokedReason'', jstr_null (map_option rk_reason revoked)),
       (''revokedReportId'', jstr_null (Option.bind revoked rk_reportId))])"

definition viewed :: "storage \<times> (Response + (OperatorIdentity \<times> AdminSecurityActor)) \<Rightarrow> (storage \<Rightarrow> AdminSecurityActor \<Rightarrow> js) \<Rightarrow> outcome" where
  "viewed context report =
     (case context of
        (s, Inl resp) \<Rightarrow> (s, Inr resp)
      | (s, Inr (_, actor)) \<Rightarrow> respond s (report s actor) 200)"

definition freezeStatusReport :: "int \<Rightarrow> storage \<Rightarrow> AdminSecurityActor \<Rightarrow> js" where
  "freezeStatusReport nowMs s actor =
     (let frozenItems = frozenRows s; pendingWarnings = warningRows s; revokedItems = revokedRows s; operatorItems = operatorRows s;
          governancePendingCount = length (filter (\<lambda>p. gp_status p = GovPending) (listAdminSecurityGovernanceProposals s))
      in JObj [(''checkedAt'', JStr (js_toISOString nowMs)), (''viewer'', actorToJs actor), (''frozenCount'', jsNat (length frozenItems)),
        (''revokedCount'', jsNat (length revokedItems)), (''warningCount'', jsNat (length pendingWarnings)),
        (''operatorCommunityCount'', jsNat (length operatorItems)),
        (''operatorRevokedCount'', jsNat (length (filter (\<lambda>(_, r). r \<noteq> None) operatorItems))),
        (''governancePendingCount'', jsNat governancePendingCount), (''items'', JArr (map frozenItem frozenItems)),
        (''revokedItems'', JArr (map revokedItem revokedItems)), (''pendingWarnings'', JArr (map warningItem pendingWarnings)),
        (''operatorItems'', JArr (map operatorItem operatorItems))])"

definition handleFreezeStatus :: "Env \<Rightarrow> storage \<Rightarrow> int \<Rightarrow> Request \<Rightarrow> outcome" where
  "handleFreezeStatus env s nowMs request = viewed (ensureOperatorContext env s nowMs request) (freezeStatusReport nowMs)"

section \<open>Obligations, log, proposals, users\<close>

definition wordParam :: "(string \<times> string) list \<Rightarrow> string \<Rightarrow> string" where
  "wordParam params name = js_lower (js_trim (case queryParam params name of Some t \<Rightarrow> t | None \<Rightarrow> []))"

definition handleReportObligations :: "Env \<Rightarrow> storage \<Rightarrow> int \<Rightarrow> Request \<Rightarrow> (string \<times> string) list \<Rightarrow> outcome" where
  "handleReportObligations env s nowMs request params =
     viewed (ensureOperatorContext env s nowMs request)
       (\<lambda>s actor.
          let limit = parseAdminSecurityReportLimit (queryParam params ''limit'');
              statusRaw = wordParam params ''status'';
              allItems = listAdminSecurityReportObligations s;
              with = (\<lambda>status. filter (\<lambda>item. ob_status item = status) allItems);
              filtered = (if statusRaw = ''required'' then with ReportRequired
                          else if statusRaw = ''resolved'' then with ReportResolved else allItems)
          in JObj [(''checkedAt'', JStr (js_toISOString nowMs)), (''viewer'', actorToJs actor), (''limit'', JInt limit),
               (''total'', jsNat (length allItems)), (''requiredCount'', jsNat (length (with ReportRequired))),
               (''resolvedCount'', jsNat (length (with ReportResolved))),
               (''items'', JArr (map obligationToJs (take (nat limit) filtered)))])"

definition logEntryToJs :: "AdminSecurityLogEntryRecord \<Rightarrow> js" where
  "logEntryToJs e = JObj ([(''id'', JStr (le_id e)), (''ts'', JStr (le_ts e)), (''category'', JStr (le_category e)),
     (''action'', JStr (le_action e)), (''actor'', actorToJs (le_actor e)), (''targetActorId'', jstr_opt (le_targetActorId e)),
     (''prevHash'', JStr (le_prevHash e)), (''entryHash'', JStr (le_entryHash e)), (''details'', jopt (le_details e))])"

definition handleSecurityLogs :: "Env \<Rightarrow> storage \<Rightarrow> int \<Rightarrow> Request \<Rightarrow> (string \<times> string) list \<Rightarrow> outcome" where
  "handleSecurityLogs env s nowMs request params =
     viewed (ensureOperatorContext env s nowMs request)
       (\<lambda>s actor.
          let limit = parseAdminSecurityLogLimit (queryParam params ''limit'');
              categoryRaw = wordParam params ''category'';
              logs = listAdminSecurityLogs s;
              filtered = (if categoryRaw = ''audit'' \<or> categoryRaw = ''execution''
                          then filter (\<lambda>entry. le_category entry = categoryRaw) logs else logs)
          in JObj [(''checkedAt'', JStr (js_toISOString nowMs)), (''viewer'', actorToJs actor), (''roleView'', JStr ''operator''),
               (''limit'', JInt limit), (''total'', jsNat (length filtered)),
               (''chainLastHash'', orValue (sto_get s ADMIN_SECURITY_LOG_LAST_HASH_KEY) (JStr (replicate 64 (CHR ''0'')))),
               (''items'', JArr (map logEntryToJs (take (nat limit) filtered)))])"

definition handleGovernanceProposals :: "Env \<Rightarrow> storage \<Rightarrow> int \<Rightarrow> Request \<Rightarrow> (string \<times> string) list \<Rightarrow> outcome" where
  "handleGovernanceProposals env s nowMs request params =
     viewed (ensureOperatorContext env s nowMs request)
       (\<lambda>s actor.
          let limit = parseAdminSecurityLogLimit (queryParam params ''limit''); proposals = listAdminSecurityGovernanceProposals s
          in JObj [(''checkedAt'', JStr (js_toISOString nowMs)), (''viewer'', actorToJs actor), (''total'', jsNat (length proposals)),
               (''limit'', JInt limit), (''items'', JArr (map governanceProposalView (take (nat limit) proposals)))])"

definition userItem :: "string \<times> AdminSecurityUserModerationRecord \<Rightarrow> js" where
  "userItem row = (case row of (userId, st) \<Rightarrow>
     (let field = (\<lambda>mark f. case mark of Some m \<Rightarrow> jstr_null (f m) | None \<Rightarrow> JNull)
      in JObj [(''userId'', JStr userId), (''frozenAt'', isoNull (map_option um_at (mo_frozen st))),
        (''frozenReason'', field (mo_frozen st) (\<lambda>m. Some (um_reason m))), (''frozenByActorId'', field (mo_frozen st) um_byActorId),
        (''frozenReportId'', field (mo_frozen st) um_reportId), (''deletedAt'', isoNull (map_option um_at (mo_deleted st))),
        (''deletedReason'', field (mo_deleted st) (\<lambda>m. Some (um_reason m))), (''deletedByActorId'', field (mo_deleted st) um_byActorId),
        (''deletedReportId'', field (mo_deleted st) um_reportId)]))"

definition handleModeratedUsers :: "Env \<Rightarrow> storage \<Rightarrow> int \<Rightarrow> Request \<Rightarrow> (string \<times> string) list \<Rightarrow> outcome" where
  "handleModeratedUsers env s nowMs request params =
     viewed (ensureOperatorContext env s nowMs request)
       (\<lambda>s actor.
          let userIdFilter = normalizeUserId (jstr_null (queryParam params ''userId''));
              items = filter (\<lambda>(userId, _). userIdFilter = [] \<or> userId = userIdFilter) (listAdminSecurityUserModeration s)
          in JObj [(''checkedAt'', JStr (js_toISOString nowMs)), (''viewer'', actorToJs actor), (''total'', jsNat (length items)),
               (''items'', JArr (map userItem items))])"

end
