(* ===== verification/Account_Spec.thy ===== *)
theory Account_Spec
  imports Security_Listings Invite_Spec Registry_Spec
begin

text \<open>
  What the account endpoints promise: a revoked code stays locked out, login and bearer authentication agree, and the
  freeze listing shows exactly the accounts whose operations are blocked.
\<close>

section \<open>Stored administrators\<close>

lemma trimmed_field: "js_trim (strField raw k) = strField raw k"
  by (cases "jget raw k") (simp_all add: strField_def)

lemma parsed_revoked:
  assumes "parseAdminCodeRecord c raw = Some r" "ac_revokedAt r = Some t"
  shows "js_trim t = t \<and> t \<noteq> []"
proof -
  have "or_null (strField raw ''revokedAt'') = Some t"
    using assms by (auto simp: parseAdminCodeRecord_def split: if_splits)
  then show ?thesis using trimmed_field [of raw "''revokedAt''"] by (auto simp: or_null_def split: if_splits)
qed

lemma stored_revoked:
  assumes "ac_revokedAt r = Some t" "js_trim t = t" "t \<noteq> []"
  shows "\<exists>q. parseAdminCodeRecord c (adminRecordToJs r) = Some q \<and> ac_revokedAt q = Some t"
  using assms by (simp add: parseAdminCodeRecord_def adminRecordToJs_def strField_JObj or_null_def jstr_null_def)

definition revokedCode :: "storage \<Rightarrow> string \<Rightarrow> bool" where
  "revokedCode s c \<longleftrightarrow> (\<exists>r. parseAdminCodeRecord c (sto_get s (adminCodeKey c)) = Some r \<and> ac_revokedAt r \<noteq> None)"

lemma rename_cases:
  "fst (handleAdminRename env s rq) = s \<or> (\<exists>code current name. parseAdminCodeRecord code (sto_get s (adminCodeKey code)) = Some current
     \<and> fst (handleAdminRename env s rq) = sto_put s (adminCodeKey code) (adminRecordToJs (current\<lparr>ac_name := name\<rparr>)))"
  unfolding handleAdminRename_def Let_def
  by (simp split: option.split sum.split) blast

lemma rename_storage:
  assumes "handleAdminRename env s rq = (s', out)"
  obtains (same) "s' = s"
  | (renamed) code current name where "parseAdminCodeRecord code (sto_get s (adminCodeKey code)) = Some current"
      "s' = sto_put s (adminCodeKey code) (adminRecordToJs (current\<lparr>ac_name := name\<rparr>))"
  using rename_cases [of env s rq] assms by auto

abbreviation revokedBy :: "AdminCodeRecord \<Rightarrow> int \<Rightarrow> AdminCodeRecord" where
  "revokedBy current n \<equiv> current\<lparr>ac_revokedAt := Some (js_toISOString n), ac_revokedBy := Some ''master''\<rparr>"

lemma revoke_cases:
  "fst (handleAdminRevoke env s n rq) = s \<or> (\<exists>code current. parseAdminCodeRecord code (sto_get s (adminCodeKey code)) = Some current
     \<and> fst (handleAdminRevoke env s n rq) = sto_put s (adminCodeKey code) (adminRecordToJs (revokedBy current n)))"
  unfolding handleAdminRevoke_def Let_def
  by (simp split: option.split sum.split) blast

lemma revoke_storage:
  assumes "handleAdminRevoke env s n rq = (s', out)"
  obtains (same) "s' = s"
  | (revoked) code current where "parseAdminCodeRecord code (sto_get s (adminCodeKey code)) = Some current"
      "s' = sto_put s (adminCodeKey code) (adminRecordToJs (revokedBy current n))"
  using revoke_cases [of env s n rq] assms by auto

lemma rename_keeps_revoked:
  assumes "handleAdminRename env s rq = (s', out)" "revokedCode s c"
  shows "revokedCode s' c"
  using assms(1)
proof (cases rule: rename_storage)
  case (renamed code current name)
  show ?thesis
  proof (cases "code = c")
    case True
    then obtain t where t: "ac_revokedAt (current\<lparr>ac_name := name\<rparr>) = Some t"
      using assms(2) renamed(1) by (auto simp: revokedCode_def)
    then have "js_trim t = t \<and> t \<noteq> []" using parsed_revoked renamed(1) by simp
    then show ?thesis using stored_revoked [OF t, of c] renamed(2) True by (auto simp: revokedCode_def)
  qed (use assms(2) renamed in \<open>simp add: revokedCode_def\<close>)
qed (use assms(2) in simp)

lemma revoke_keeps_revoked:
  assumes "handleAdminRevoke env s n rq = (s', out)" "revokedCode s c"
  shows "revokedCode s' c"
  using assms(1)
proof (cases rule: revoke_storage)
  case (revoked code current)
  then show ?thesis
    using assms(2) stored_revoked [of "revokedBy current n" "js_toISOString n" c]
    by (cases "code = c") (auto simp: revokedCode_def)
qed (use assms(2) in simp)

lemma revoked_now:
  assumes "handleAdminRevoke env s n rq = (s', Inr r)" "rq_json rq = Inr body" "jget (rs_body r) ''success'' = JBool True"
  shows "revokedCode s' (strField body ''code'')"
proof -
  let ?c = "strField body ''code''"
  have "requireMasterAuthorization env rq = None"
    using assms(1,3)
    by (auto simp: handleAdminRevoke_def requireMasterAuthorization_def insecureMasterPasswordResponse_def serverConfigErrorResponse_def
        unauthorizedResponse_def json_response_def split: option.splits if_splits)
  moreover have "?c \<noteq> []" using assms calculation by (auto simp: handleAdminRevoke_def respond_def errorBody_def)
  moreover obtain current where current: "parseAdminCodeRecord ?c (sto_get s (adminCodeKey ?c)) = Some current"
    using assms calculation by (cases "parseAdminCodeRecord ?c (sto_get s (adminCodeKey ?c))") (auto simp: handleAdminRevoke_def respond_def)
  ultimately have s': "s' = (if ac_revokedAt current = None then sto_put s (adminCodeKey ?c) (adminRecordToJs (revokedBy current n)) else s)"
    using assms(1,2) by (auto simp: handleAdminRevoke_def respond_def Let_def split: option.splits)
  show ?thesis
    using stored_revoked [of "revokedBy current n" "js_toISOString n" ?c] current by (auto simp: s' revokedCode_def)
qed

section \<open>Changes of accounts\<close>

text \<open>The storages that renamings and revocations lead to, by any requests at any time.\<close>

inductive account_reach :: "Env \<Rightarrow> storage \<Rightarrow> storage \<Rightarrow> bool" for env s where
  account_start: "account_reach env s s"
| account_rename: "account_reach env s t \<Longrightarrow> handleAdminRename env t rq = (t', out) \<Longrightarrow> account_reach env s t'"
| account_revoke: "account_reach env s t \<Longrightarrow> handleAdminRevoke env t n rq = (t', out) \<Longrightarrow> account_reach env s t'"

lemma reach_keeps_revoked: "account_reach env s t \<Longrightarrow> revokedCode s c \<Longrightarrow> revokedCode t c"
  by (induction rule: account_reach.induct) (blast intro: rename_keeps_revoked revoke_keeps_revoked)+

section \<open>Properties\<close>

text \<open>
  C37. Revocation is final: once the master's revocation of a code is answered with success, whatever renamings and
  revocations follow, no request with this code is authenticated as an operator any more, and logging in with it is
  refused.
\<close>

theorem revoked_code_locked_out:
  assumes "handleAdminRevoke env s n rq = (s1, Inr r)" "rq_json rq = Inr body" "strField body ''code'' = c"
    and "jget (rs_body r) ''success'' = JBool True" "account_reach env s1 s2"
    and "getConfiguredMasterPassword env \<noteq> Some c" "getConfiguredDemoPassword env \<noteq> Some c"
  shows "(extractBearerToken rq2 = Some c \<longrightarrow> authenticateOperator env s2 rq2 = None)
    \<and> (rq_json login = Inr (JObj [(''password'', JStr c)]) \<longrightarrow>
         (\<exists>resp. handleAdminLogin env s2 login = (s2, Inr resp) \<and> rs_status resp \<in> {401, 503}))"
proof -
  have "revokedCode s2 c" using revoked_now [OF assms(1,2,4)] assms(3) reach_keeps_revoked [OF assms(5)] by simp
  then obtain q t where "parseAdminCodeRecord c (sto_get s2 (adminCodeKey c)) = Some q" "ac_revokedAt q = Some t"
    by (auto simp: revokedCode_def)
  then show ?thesis using assms(6,7)
    by (simp add: authenticateOperator_def handleAdminLogin_def respond_def insecureMasterPasswordResponse_def json_response_def Let_def)
qed

text \<open>
  Login tells the truth: for a password that a bearer header can carry, login never changes the storage, succeeds
  exactly when a request with this bearer token is authenticated, and then names the role and the administrator id that
  such a request acts with. The published placeholder password is refused while it is configured.
\<close>

theorem login_matches_authentication:
  assumes "rq_json rq = Inr body" "jget body ''password'' = JStr p" "extractBearerToken rq2 = Some p"
    and "\<not> (isDefaultMasterPasswordConfigured env \<and> p = DEFAULT_ADMIN_PASSWORD)"
  shows "\<exists>resp. handleAdminLogin env s rq = (s, Inr resp)
    \<and> (rs_status resp = 200 \<longleftrightarrow> authenticateOperator env s rq2 \<noteq> None)
    \<and> (\<forall>op. authenticateOperator env s rq2 = Some op \<longrightarrow>
         jget (rs_body resp) ''role'' = JStr (roleStr (op_role op))
         \<and> jget (jget (rs_body resp) ''info'') ''adminId'' = JStr (op_adminId op)
         \<and> jget (jget (rs_body resp) ''info'') ''source'' = JStr (sourceStr (op_source op)))"
  using assms
  by (auto simp: handleAdminLogin_def authenticateOperator_def respond_def loginOk_def json_response_def split: option.splits)

section \<open>The freeze listing\<close>

lemma in_stored_rows:
  assumes "sto_ok s"
  shows "(a, v) \<in> set (parsedRows s pre parse) \<longleftrightarrow>
    a \<noteq> [] \<and> (\<exists>raw. map_of s (pre @ a) = Some raw \<and> parse raw = Some v)"
proof -
  have "map_of s k = Some raw \<longleftrightarrow> (k, raw) \<in> set s" for k raw using sto_ok_distinct [OF assms] by (rule map_of_eq_Some_iff)
  then show ?thesis
    by (force simp: parsedRows_def sto_list_def List.map_filter_def Let_def prefix_def split: if_splits option.splits)
qed

lemma listed_states:
  assumes "sto_ok s" "a \<noteq> []"
  shows "(\<exists>st. (a, st) \<in> set (listAdminSecurityStates s) \<and> P st) \<longleftrightarrow>
    (\<exists>st. parseAdminSecurityStateRecord (sto_get s (adminSecurityStateKey a)) = Some st \<and> P st)"
proof -
  have "parseAdminSecurityStateRecord JUndef = None" by (simp add: parseAdminSecurityStateRecord_def)
  then show ?thesis using assms
    by (auto simp: listAdminSecurityStates_def in_stored_rows adminSecurityStateKey_def sto_get_def split: option.splits)
qed

lemma in_map_filter_rows:
  "(\<exists>v. (a, v) \<in> set (List.map_filter (\<lambda>(actorId, st). map_option (Pair actorId) (f st)) xs)) \<longleftrightarrow> (\<exists>st. (a, st) \<in> set xs \<and> f st \<noteq> None)"
  by (force simp: List.map_filter_def)

lemma blocked_state:
  "(\<exists>resp. snd (enforceAdminSecurityOperation H uid s operation actor n) = Inl resp) \<longleftrightarrow>
     ss_revokedAccess (getAdminSecurityState s (sa_actorId actor)) \<noteq> None \<or> ss_frozen (getAdminSecurityState s (sa_actorId actor)) \<noteq> None"
  by (auto simp: enforceAdminSecurityOperation_def Let_def split: option.splits)

definition listedActors :: "js \<Rightarrow> string \<Rightarrow> js set" where
  "listedActors report field = (\<lambda>item. jget item ''actorId'') ` set (js_array (jget report field))"

lemma listed_frozen: "JStr a \<in> listedActors (freezeStatusReport n s viewer) ''items'' \<longleftrightarrow> (\<exists>f. (a, f) \<in> set (frozenRows s))"
  by (force simp: listedActors_def freezeStatusReport_def frozenItem_def js_array_def Let_def)

lemma listed_revoked: "JStr a \<in> listedActors (freezeStatusReport n s viewer) ''revokedItems'' \<longleftrightarrow> (\<exists>r. (a, r) \<in> set (revokedRows s))"
  by (force simp: listedActors_def freezeStatusReport_def revokedItem_def js_array_def Let_def)

text \<open>
  The freeze listing is exact: an account is in the frozen or the revoked items of the report exactly when every
  protected operation of that account is refused.
\<close>

theorem freeze_listing_exact:
  assumes "sto_ok s" "sa_actorId actor \<noteq> []"
  shows "JStr (sa_actorId actor) \<in> listedActors (freezeStatusReport t s viewer) ''items''
      \<or> JStr (sa_actorId actor) \<in> listedActors (freezeStatusReport t s viewer) ''revokedItems''
    \<longleftrightarrow> (\<exists>resp. snd (enforceAdminSecurityOperation H uid s operation actor n) = Inl resp)"
  unfolding blocked_state listed_frozen listed_revoked frozenRows_def revokedRows_def latestFirst_def set_sort
    in_map_filter_rows listed_states [OF assms]
  by (auto simp: getAdminSecurityState_def emptySecurityState_def split: option.splits)

section \<open>Examples\<close>

definition keptStore :: storage where
  "keptStore = [(adminCodeKey ''c0de'', JObj [(''adminId'', JStr ''adm-1''), (''name'', JStr ''Ann'')])]"

definition revokeRequest :: Request where
  "revokeRequest = \<lparr>rq_method = ''POST'', rq_headers = [(''Authorization'', ''Bearer s3cret'')], rq_chunks = None,
     rq_json = Inr (JObj [(''code'', JStr ''c0de'')])\<rparr>"

definition loginRequest :: Request where
  "loginRequest = \<lparr>rq_method = ''POST'', rq_headers = [], rq_chunks = None, rq_json = Inr (JObj [(''password'', JStr ''c0de'')])\<rparr>"

lemma sample_account:
  "extractBearerToken codeRequest = Some ''c0de''" "getConfiguredMasterPassword masterEnv = Some ''s3cret''"
  "getConfiguredDemoPassword masterEnv = None" "requireMasterAuthorization masterEnv revokeRequest = None"
  "isDefaultMasterPasswordConfigured masterEnv = False" "js_trim ''c0de'' = ''c0de''" "js_trim ''adm-1'' = ''adm-1''" "js_trim ''Ann'' = ''Ann''"
  by code_simp+

lemma sample_kept: "\<exists>r. parseAdminCodeRecord ''c0de'' (sto_get keptStore (adminCodeKey ''c0de'')) = Some r \<and> ac_revokedAt r = None \<and> ac_adminId r = ''adm-1''"
  by (simp add: keptStore_def sto_get_def parseAdminCodeRecord_def strField_JObj or_null_def or_else_def sample_account)

theorem revoked_code_locked_out_witness:
  "\<exists>s1 r. handleAdminRevoke masterEnv keptStore 5 revokeRequest = (s1, Inr r)
     \<and> authenticateOperator masterEnv keptStore codeRequest \<noteq> None \<and> authenticateOperator masterEnv s1 codeRequest = None"
proof -
  obtain s1 r where h: "handleAdminRevoke masterEnv keptStore 5 revokeRequest = (s1, Inr r)" "jget (rs_body r) ''success'' = JBool True"
    using sample_kept
    by (auto simp: handleAdminRevoke_def sample_account revokeRequest_def [THEN arg_cong [of _ _ rq_json]] strField_JObj respond_def json_response_def Let_def)
  have b: "rq_json revokeRequest = Inr (JObj [(''code'', JStr ''c0de'')])" "strField (JObj [(''code'', JStr ''c0de'')]) ''code'' = ''c0de''"
    by (simp_all add: revokeRequest_def strField_JObj sample_account)
  have "authenticateOperator masterEnv keptStore codeRequest \<noteq> None"
    using sample_kept by (auto simp: authenticateOperator_def sample_account)
  moreover have "authenticateOperator masterEnv s1 codeRequest = None"
    using revoked_code_locked_out [OF h(1) b h(2) account_reach.account_start, of codeRequest] by (simp add: sample_account)
  ultimately show ?thesis using h(1) by blast
qed

theorem login_matches_authentication_witness:
  "\<exists>resp. handleAdminLogin masterEnv keptStore loginRequest = (keptStore, Inr resp) \<and> rs_status resp = 200
     \<and> jget (rs_body resp) ''role'' = JStr ''admin''"
proof -
  obtain op where "authenticateOperator masterEnv keptStore codeRequest = Some op" "op_role op = RoleAdmin"
    using sample_kept by (auto simp: authenticateOperator_def sample_account)
  then show ?thesis
    using login_matches_authentication [of loginRequest "JObj [(''password'', JStr ''c0de'')]" "''c0de''" codeRequest masterEnv keptStore]
    by (auto simp: loginRequest_def sample_account)
qed

definition frozenStore :: storage where
  "frozenStore = [(adminSecurityStateKey ''admin:x'', JObj [(''frozen'', JObj [(''frozenAt'', JInt 7), (''reason'', JStr ''burst'')])])]"

theorem freeze_listing_exact_witness:
  "JStr ''admin:x'' \<in> listedActors (freezeStatusReport 9 frozenStore (toAdminSecurityActor \<lparr>op_role = RoleMaster, op_source = SrcMaster,
       op_token = [], op_adminId = ''master'', op_name = [], op_actorId = ''master'', op_code = None\<rparr>)) ''items''
   \<and> (\<exists>resp. snd (enforceAdminSecurityOperation (\<lambda>x. ''h'') (\<lambda>x. ''u'') frozenStore ''op''
        \<lparr>sa_actorId = ''admin:x'', sa_role = SecAdmin, sa_adminId = None, sa_name = None\<rparr> 9) = Inl resp)"
    (is "?listed \<and> ?blocked")
proof -
  have "sto_ok frozenStore" by (simp add: sto_ok_def frozenStore_def)
  note exact = freeze_listing_exact [OF this, where actor = "\<lparr>sa_actorId = ''admin:x'', sa_role = SecAdmin, sa_adminId = None, sa_name = None\<rparr>"
      and t = 9 and viewer = "toAdminSecurityActor \<lparr>op_role = RoleMaster, op_source = SrcMaster,
       op_token = [], op_adminId = ''master'', op_name = [], op_actorId = ''master'', op_code = None\<rparr>"]
  have "?listed" by code_simp
  then show ?thesis using exact by simp
qed

end
