(* ===== verification/Ticket_Store.thy ===== *)
theory Ticket_Store
  imports Master_Disclosure
begin

text \<open>
  The ticket store of the mobile application (\<open>wene-mobile/src/store/recipientTicketStore.ts\<close>) and the helpers around
  quotas (\<open>src/utils/claimQuota.ts\<close>) and code-scoped proofs (\<open>src/utils/codeScopedOnchainProof.ts\<close>). The device storage
  maps a key to the parsed JSON text, or to an error for a text that is no JSON. Every \<open>await\<close> is a point where other
  calls may run: a call leaves a task behind, which later does its input or output (which may fail) and later resumes.
\<close>

section \<open>Tickets\<close>

definition STORAGE_KEY_PREFIX :: string where
  "STORAGE_KEY_PREFIX = ''wene:recipient_tickets:v2''"

definition normalizeActiveUserId :: "string option \<Rightarrow> string option" where
  "normalizeActiveUserId userId = or_null (js_lower (js_trim (case userId of Some u \<Rightarrow> u | None \<Rightarrow> [])))"

definition normalizeUserScope :: "string option \<Rightarrow> string" where
  "normalizeUserScope userId = (case normalizeActiveUserId userId of Some u \<Rightarrow> u | None \<Rightarrow> ''guest'')"

definition getStorageKey :: "string option \<Rightarrow> string" where
  "getStorageKey userId = STORAGE_KEY_PREFIX @ '':'' @ normalizeUserScope userId"

record OnchainReceipt =
  on_txSignature :: string
  on_receiptPubkey :: "string option"
  on_claimedAt :: rat

record RecipientTicket =
  tk_eventId :: string
  tk_eventName :: string
  tk_joinedAt :: rat
  tk_mintAddress :: "string option"
  tk_txSignature :: "string option"
  tk_receiptPubkey :: "string option"
  tk_onchainReceipts :: "OnchainReceipt list option"
  tk_popEntryHash :: "string option"
  tk_popAuditHash :: "string option"
  tk_popSigner :: "string option"
  tk_confirmationCode :: "string option"
  tk_auditReceiptId :: "string option"
  tk_auditReceiptHash :: "string option"
  tk_claimQuota :: "ClaimQuotaStatus option"

text \<open>The fields \<open>txSignature\<close>, \<open>receiptPubkey\<close> and \<open>claimedAt\<close> of an \<open>OnchainReceiptLike\<close>.\<close>

type_synonym receipt_like = "js \<times> js \<times> js"

definition normalizeClaimedAt :: "js \<Rightarrow> rat \<Rightarrow> rat" where
  "normalizeClaimedAt value fallback = (case value of JNum r \<Rightarrow> r | _ \<Rightarrow> fallback)"

definition normalizeNonNegativeInt :: "js \<Rightarrow> int option" where
  "normalizeNonNegativeInt value = (case value of JNum r \<Rightarrow> (if 0 \<le> r then Some \<lfloor>r\<rfloor> else None) | _ \<Rightarrow> None)"

definition positiveFloor :: "js \<Rightarrow> int option" where
  "positiveFloor value = (case value of JNum r \<Rightarrow> (if 0 < r then Some \<lfloor>r\<rfloor> else None) | _ \<Rightarrow> None)"

text \<open>The outer option of the limit is \<open>undefined\<close>, the inner one \<open>null\<close>.\<close>

definition normalizeClaimQuota :: "js \<Rightarrow> ClaimQuotaStatus option" where
  "normalizeClaimQuota value =
     (if \<not> is_obj value then None
      else
        (let maxClaims = (if jget value ''maxClaimsPerInterval'' = JNull then Some None
                          else map_option Some (positiveFloor (jget value ''maxClaimsPerInterval'')));
             remaining = (if jget value ''remainingClaimsInCurrentInterval'' = JNull then Some None
                          else map_option Some (normalizeNonNegativeInt (jget value ''remainingClaimsInCurrentInterval'')))
         in case (positiveFloor (jget value ''claimIntervalDays''), maxClaims,
                  normalizeNonNegativeInt (jget value ''claimsUsedInCurrentInterval''), jget value ''canClaimNow'') of
              (Some days, Some mx, Some used, JBool can) \<Rightarrow>
                (if mx \<noteq> None \<and> remaining = None then None
                 else Some \<lparr>q_claimIntervalDays = days, q_maxClaimsPerInterval = mx, q_claimsUsedInCurrentInterval = used,
                        q_remainingClaimsInCurrentInterval = (if mx = None then None else the remaining), q_canClaimNow = can,
                        q_nextAvailableAt = normalizeNonNegativeInt (jget value ''nextAvailableAt'')\<rparr>)
            | _ \<Rightarrow> None))"

definition addReceipt :: "rat \<Rightarrow> receipt_like \<Rightarrow> (string \<times> OnchainReceipt) list \<Rightarrow> (string \<times> OnchainReceipt) list" where
  "addReceipt fallback item deduped =
     (case item of (tx, pubkey, claimed) \<Rightarrow>
        (case trimmed_str tx of
           None \<Rightarrow> deduped
         | Some txSignature \<Rightarrow>
             (let receiptPubkey = trimmed_str pubkey; claimedAt = normalizeClaimedAt claimed fallback
              in case map_of deduped txSignature of
                   None \<Rightarrow> kv_set txSignature \<lparr>on_txSignature = txSignature, on_receiptPubkey = receiptPubkey, on_claimedAt = claimedAt\<rparr> deduped
                 | Some existing \<Rightarrow>
                     kv_set txSignature \<lparr>on_txSignature = txSignature, on_receiptPubkey = orElse (on_receiptPubkey existing) receiptPubkey,
                       on_claimedAt = max (on_claimedAt existing) claimedAt\<rparr> deduped)))"

definition normalizeOnchainReceipts :: "receipt_like list \<Rightarrow> rat \<Rightarrow> OnchainReceipt list" where
  "normalizeOnchainReceipts items fallbackClaimedAt =
     sort_key (\<lambda>r. - on_claimedAt r) (map snd (fold (addReceipt fallbackClaimedAt) items []))"

definition receiptLike :: "OnchainReceipt \<Rightarrow> receipt_like" where
  "receiptLike r = (JStr (on_txSignature r), jstr_opt (on_receiptPubkey r), JNum (on_claimedAt r))"

definition storedReceipts :: "RecipientTicket \<Rightarrow> receipt_like list" where
  "storedReceipts t = map receiptLike (case tk_onchainReceipts t of Some rs \<Rightarrow> rs | None \<Rightarrow> [])"

definition ownReceipt :: "RecipientTicket \<Rightarrow> receipt_like" where
  "ownReceipt t = (jstr_opt (tk_txSignature t), jstr_opt (tk_receiptPubkey t), JNum (tk_joinedAt t))"

definition latestOf :: "OnchainReceipt list \<Rightarrow> OnchainReceipt option" where
  "latestOf rs = (case rs of r # _ \<Rightarrow> Some r | [] \<Rightarrow> None)"

definition unlessNil :: "'a list \<Rightarrow> 'a list option" where
  "unlessNil xs = (if xs = [] then None else Some xs)"

definition normalizeTicketOnchainFields :: "RecipientTicket \<Rightarrow> RecipientTicket" where
  "normalizeTicketOnchainFields ticket =
     (let onchainReceipts = normalizeOnchainReceipts (storedReceipts ticket @ [ownReceipt ticket]) (tk_joinedAt ticket);
          latestOnchain = latestOf onchainReceipts
      in ticket\<lparr>tk_txSignature := orElse (map_option on_txSignature latestOnchain) (tk_txSignature ticket),
                tk_receiptPubkey := orElse (Option.bind latestOnchain on_receiptPubkey) (tk_receiptPubkey ticket),
                tk_onchainReceipts := unlessNil onchainReceipts\<rparr>)"

definition fullText :: "string option \<Rightarrow> bool" where
  "fullText v = (trimmed_str (jstr_opt v) \<noteq> None)"

definition mergeTicket :: "RecipientTicket \<Rightarrow> RecipientTicket \<Rightarrow> RecipientTicket" where
  "mergeTicket existing incoming =
     (let incomingCode = trimmed_str (jstr_opt (tk_confirmationCode incoming));
          incomingHasOnchainProof = (fullText (tk_txSignature incoming) \<or> fullText (tk_receiptPubkey incoming));
          reset = (incomingCode \<noteq> None \<and> incomingCode \<noteq> trimmed_str (jstr_opt (tk_confirmationCode existing)) \<and> \<not> incomingHasOnchainProof);
          joinedAt = max (tk_joinedAt existing) (tk_joinedAt incoming);
          merged = normalizeOnchainReceipts
                     (storedReceipts existing @ storedReceipts incoming @ [ownReceipt existing, ownReceipt incoming]) joinedAt;
          latestOnchain = latestOf merged;
          pop = (\<lambda>f. if reset then f incoming else orElse (f incoming) (f existing))
      in \<lparr>tk_eventId = tk_eventId incoming, tk_eventName = tk_eventName incoming, tk_joinedAt = joinedAt,
          tk_mintAddress = orElse (tk_mintAddress incoming) (tk_mintAddress existing),
          tk_txSignature = (if reset then None
             else orElse (map_option on_txSignature latestOnchain) (orElse (tk_txSignature incoming) (tk_txSignature existing))),
          tk_receiptPubkey = (if reset then None
             else orElse (Option.bind latestOnchain on_receiptPubkey) (orElse (tk_receiptPubkey incoming) (tk_receiptPubkey existing))),
          tk_onchainReceipts = unlessNil merged,
          tk_popEntryHash = pop tk_popEntryHash, tk_popAuditHash = pop tk_popAuditHash, tk_popSigner = pop tk_popSigner,
          tk_confirmationCode = orElse (tk_confirmationCode incoming) (tk_confirmationCode existing),
          tk_auditReceiptId = orElse (tk_auditReceiptId incoming) (tk_auditReceiptId existing),
          tk_auditReceiptHash = orElse (tk_auditReceiptHash incoming) (tk_auditReceiptHash existing),
          tk_claimQuota = orElse (tk_claimQuota incoming) (tk_claimQuota existing)\<rparr>)"

section \<open>The device storage\<close>

type_synonym device = "string \<Rightarrow> js or_error option"

definition onchainToJs :: "OnchainReceipt \<Rightarrow> js" where
  "onchainToJs r = JObj [(''txSignature'', JStr (on_txSignature r)), (''receiptPubkey'', jstr_opt (on_receiptPubkey r)),
     (''claimedAt'', JNum (on_claimedAt r))]"

definition ticketToJs :: "RecipientTicket \<Rightarrow> js" where
  "ticketToJs t = JObj [(''eventId'', JStr (tk_eventId t)), (''eventName'', JStr (tk_eventName t)), (''joinedAt'', JNum (tk_joinedAt t)),
     (''mintAddress'', jstr_opt (tk_mintAddress t)), (''txSignature'', jstr_opt (tk_txSignature t)),
     (''receiptPubkey'', jstr_opt (tk_receiptPubkey t)),
     (''onchainReceipts'', jopt (map_option (\<lambda>rs. JArr (map onchainToJs rs)) (tk_onchainReceipts t))),
     (''popEntryHash'', jstr_opt (tk_popEntryHash t)), (''popAuditHash'', jstr_opt (tk_popAuditHash t)),
     (''popSigner'', jstr_opt (tk_popSigner t)), (''confirmationCode'', jstr_opt (tk_confirmationCode t)),
     (''auditReceiptId'', jstr_opt (tk_auditReceiptId t)), (''auditReceiptHash'', jstr_opt (tk_auditReceiptHash t)),
     (''claimQuota'', jopt (map_option quotaToJs (tk_claimQuota t)))]"

text \<open>Reading a field of an item that is \<open>null\<close> throws.\<close>

definition itemLike :: "js \<Rightarrow> receipt_like option" where
  "itemLike item = (if item = JNull \<or> item = JUndef then None
     else Some (jget item ''txSignature'', jget item ''receiptPubkey'', jget item ''claimedAt''))"

definition stringOnly :: "js \<Rightarrow> string option" where
  "stringOnly v = (case v of JStr t \<Rightarrow> Some t | _ \<Rightarrow> None)"

definition parseTicket :: "int \<Rightarrow> js \<Rightarrow> RecipientTicket option or_error" where
  "parseTicket nowMs raw =
     (if \<not> is_obj raw then Inr None
      else
        (let str = (\<lambda>k. stringOnly (jget raw k));
             eventId = strField raw ''eventId'';
             eventName = (case str ''eventName'' of Some n \<Rightarrow> n | None \<Rightarrow> []);
             joinedAt = normalizeClaimedAt (jget raw ''joinedAt'') (of_int nowMs);
             ticket = (\<lambda>receipts. normalizeTicketOnchainFields
               \<lparr>tk_eventId = eventId, tk_eventName = eventName, tk_joinedAt = joinedAt, tk_mintAddress = str ''mintAddress'',
                tk_txSignature = str ''txSignature'', tk_receiptPubkey = str ''receiptPubkey'', tk_onchainReceipts = receipts,
                tk_popEntryHash = str ''popEntryHash'', tk_popAuditHash = str ''popAuditHash'', tk_popSigner = str ''popSigner'',
                tk_confirmationCode = str ''confirmationCode'', tk_auditReceiptId = str ''auditReceiptId'',
                tk_auditReceiptHash = str ''auditReceiptHash'', tk_claimQuota = normalizeClaimQuota (jget raw ''claimQuota'')\<rparr>)
         in if eventId = [] \<or> eventName = [] then Inr None
            else case jget raw ''onchainReceipts'' of
                   JArr items \<Rightarrow>
                     (case all_some (map itemLike items) of
                        None \<Rightarrow> Inl ''TypeError''
                      | Some likes \<Rightarrow> Inr (Some (ticket (Some (normalizeOnchainReceipts likes joinedAt)))))
                 | _ \<Rightarrow> Inr (Some (ticket None))))"

fun parseTickets :: "int \<Rightarrow> js list \<Rightarrow> RecipientTicket list or_error" where
  "parseTickets nowMs [] = Inr []"
| "parseTickets nowMs (raw # raws) =
     (case parseTicket nowMs raw of
        Inl e \<Rightarrow> Inl e
      | Inr t \<Rightarrow>
          (case parseTickets nowMs raws of
             Inl e \<Rightarrow> Inl e
           | Inr ts \<Rightarrow> Inr (case t of Some x \<Rightarrow> x # ts | None \<Rightarrow> ts)))"

definition loadFromStorage :: "device \<Rightarrow> string option \<Rightarrow> int \<Rightarrow> RecipientTicket list" where
  "loadFromStorage disk userId nowMs =
     (case disk (getStorageKey userId) of
        Some (Inr (JArr items)) \<Rightarrow> (case parseTickets nowMs items of Inr ts \<Rightarrow> ts | Inl _ \<Rightarrow> [])
      | _ \<Rightarrow> [])"

definition saveToStorage :: "device \<Rightarrow> RecipientTicket list \<Rightarrow> string option \<Rightarrow> device" where
  "saveToStorage disk tickets userId = disk(getStorageKey userId \<mapsto> Inr (JArr (map ticketToJs tickets)))"

section \<open>The store\<close>

text \<open>
  A task is a call that waits: \<open>LoadWait\<close> (\<open>True\<close> for \<open>setActiveUser\<close>, \<open>False\<close> for \<open>loadTickets\<close>), \<open>SaveWait\<close> and
  \<open>ClearWait\<close> wait for the device, the others have its answer and wait to go on.
\<close>

datatype task =
    LoadWait bool "string option"
  | LoadDone "string option" "RecipientTicket list"
  | LoadFailed bool "string option"
  | SaveWait "string option" "RecipientTicket list"
  | SaveDone "string option" "RecipientTicket list"
  | ClearWait "string option"
  | ClearDone "string option"

record ticket_app =
  ap_activeUserId :: "string option"
  ap_tickets :: "RecipientTicket list"
  ap_isLoading :: bool
  ap_disk :: device
  ap_tasks :: "task list"

definition freshApp :: "device \<Rightarrow> ticket_app" where
  "freshApp disk = \<lparr>ap_activeUserId = None, ap_tickets = [], ap_isLoading = False, ap_disk = disk, ap_tasks = []\<rparr>"

definition addTask :: "task \<Rightarrow> ticket_app \<Rightarrow> ticket_app" where
  "addTask t a = a\<lparr>ap_tasks := ap_tasks a @ [t]\<rparr>"

definition setActiveUser :: "string option \<Rightarrow> ticket_app \<Rightarrow> ticket_app" where
  "setActiveUser userId a =
     (let normalized = normalizeActiveUserId userId
      in addTask (LoadWait True normalized) (a\<lparr>ap_activeUserId := normalized, ap_tickets := [], ap_isLoading := True\<rparr>))"

definition clearUserTickets :: "string option \<Rightarrow> ticket_app \<Rightarrow> ticket_app" where
  "clearUserTickets userId a = addTask (ClearWait (normalizeActiveUserId userId)) a"

definition loadTickets :: "ticket_app \<Rightarrow> ticket_app" where
  "loadTickets a = addTask (LoadWait False (ap_activeUserId a)) (a\<lparr>ap_isLoading := True\<rparr>)"

definition findIndexOf :: "string \<Rightarrow> RecipientTicket list \<Rightarrow> nat option" where
  "findIndexOf eventId ts = find (\<lambda>i. tk_eventId (ts ! i) = eventId) [0..<length ts]"

definition replaceStep :: "RecipientTicket \<Rightarrow> RecipientTicket list \<Rightarrow> RecipientTicket list" where
  "replaceStep incoming deduped =
     (let eventId = js_trim (tk_eventId incoming); eventName = js_trim (tk_eventName incoming)
      in if eventId = [] \<or> eventName = [] then deduped
         else
           (let canonical = normalizeTicketOnchainFields (incoming\<lparr>tk_eventId := eventId, tk_eventName := eventName\<rparr>)
            in case findIndexOf eventId deduped of
                 None \<Rightarrow> deduped @ [canonical]
               | Some i \<Rightarrow> deduped[i := mergeTicket (deduped ! i) canonical]))"

definition replaceTickets :: "RecipientTicket list \<Rightarrow> ticket_app \<Rightarrow> ticket_app" where
  "replaceTickets incomingTickets a = addTask (SaveWait (ap_activeUserId a) (fold replaceStep incomingTickets [])) a"

definition addedTo :: "RecipientTicket list \<Rightarrow> RecipientTicket \<Rightarrow> RecipientTicket list" where
  "addedTo tickets ticket =
     (let canonicalTicket = normalizeTicketOnchainFields ticket
      in case findIndexOf (tk_eventId ticket) tickets of
           None \<Rightarrow> tickets @ [canonicalTicket]
         | Some i \<Rightarrow> tickets[i := mergeTicket (tickets ! i) canonicalTicket])"

definition addTicket :: "RecipientTicket \<Rightarrow> ticket_app \<Rightarrow> ticket_app" where
  "addTicket ticket a = addTask (SaveWait (ap_activeUserId a) (addedTo (ap_tickets a) ticket)) a"

definition isJoined :: "ticket_app \<Rightarrow> string \<Rightarrow> bool" where
  "isJoined a eventId = list_ex (\<lambda>t. tk_eventId t = eventId) (ap_tickets a)"

definition getTicketByEventId :: "ticket_app \<Rightarrow> string \<Rightarrow> RecipientTicket option" where
  "getTicketByEventId a eventId = find (\<lambda>t. tk_eventId t = eventId) (ap_tickets a)"

text \<open>The device answers the task at an index, or fails it.\<close>

definition deviceStep :: "nat \<Rightarrow> bool \<Rightarrow> int \<Rightarrow> ticket_app \<Rightarrow> ticket_app" where
  "deviceStep i ok nowMs a =
     (if length (ap_tasks a) \<le> i then a
      else
        (let become = (\<lambda>t. a\<lparr>ap_tasks := (ap_tasks a)[i := t]\<rparr>);
             dropped = a\<lparr>ap_tasks := take i (ap_tasks a) @ drop (Suc i) (ap_tasks a)\<rparr>
         in case ap_tasks a ! i of
              LoadWait reset u \<Rightarrow>
                (if ok then become (LoadDone u (loadFromStorage (ap_disk a) u nowMs)) else become (LoadFailed reset u))
            | SaveWait u ts \<Rightarrow> (if ok then (become (SaveDone u ts))\<lparr>ap_disk := saveToStorage (ap_disk a) ts u\<rparr> else dropped)
            | ClearWait u \<Rightarrow> (if ok then (become (ClearDone u))\<lparr>ap_disk := (ap_disk a)(getStorageKey u := None)\<rparr> else dropped)
            | _ \<Rightarrow> a))"

text \<open>The task at an index goes on after its answer; it does nothing when another account has become active.\<close>

definition resumeStep :: "nat \<Rightarrow> ticket_app \<Rightarrow> ticket_app" where
  "resumeStep i a =
     (if length (ap_tasks a) \<le> i then a
      else
        (let b = a\<lparr>ap_tasks := take i (ap_tasks a) @ drop (Suc i) (ap_tasks a)\<rparr>;
             current = (\<lambda>u c. if ap_activeUserId a = u then c else b)
         in case ap_tasks a ! i of
              LoadDone u ts \<Rightarrow> current u (b\<lparr>ap_tickets := ts, ap_isLoading := False\<rparr>)
            | LoadFailed reset u \<Rightarrow> current u (b\<lparr>ap_tickets := (if reset then [] else ap_tickets a), ap_isLoading := False\<rparr>)
            | SaveDone u ts \<Rightarrow> current u (b\<lparr>ap_tickets := ts\<rparr>)
            | ClearDone u \<Rightarrow> current u (b\<lparr>ap_tickets := []\<rparr>)
            | _ \<Rightarrow> a))"

datatype app_event =
    SetActiveUser "string option"
  | ClearUserTickets "string option"
  | LoadTickets
  | ReplaceTickets "RecipientTicket list"
  | AddTicket RecipientTicket
  | DeviceAnswers nat bool int
  | TaskResumes nat

fun appStep :: "app_event \<Rightarrow> ticket_app \<Rightarrow> ticket_app" where
  "appStep (SetActiveUser u) = setActiveUser u"
| "appStep (ClearUserTickets u) = clearUserTickets u"
| "appStep LoadTickets = loadTickets"
| "appStep (ReplaceTickets ts) = replaceTickets ts"
| "appStep (AddTicket t) = addTicket t"
| "appStep (DeviceAnswers i ok nowMs) = deviceStep i ok nowMs"
| "appStep (TaskResumes i) = resumeStep i"

section \<open>Quotas and proofs\<close>

definition supportsRepeatClaimPolicy :: "ClaimQuotaStatus option \<Rightarrow> bool" where
  "supportsRepeatClaimPolicy policy =
     (case policy of None \<Rightarrow> False | Some q \<Rightarrow> (case q_maxClaimsPerInterval q of None \<Rightarrow> True | Some n \<Rightarrow> 1 < n))"

definition canClaimAgain :: "ClaimQuotaStatus option \<Rightarrow> bool" where
  "canClaimAgain claimQuota =
     (case claimQuota of None \<Rightarrow> False | Some q \<Rightarrow> (case q_remainingClaimsInCurrentInterval q of None \<Rightarrow> True | Some n \<Rightarrow> 0 < n))"

record CodeScopedOnchainProof =
  sp_matches :: bool
  sp_txSignature :: "string option"
  sp_receiptPubkey :: "string option"
  sp_popEntryHash :: "string option"
  sp_popAuditHash :: "string option"
  sp_popSigner :: "string option"
  sp_claimedAt :: "rat option"

definition selectCodeScopedStoredOnchainProof :: "RecipientTicket option \<Rightarrow> string option \<Rightarrow> CodeScopedOnchainProof" where
  "selectCodeScopedStoredOnchainProof stored confirmationCode =
     (let norm = (\<lambda>v. trimmed_str (jstr_opt v));
          get = (\<lambda>f. norm (Option.bind stored f))
      in if get tk_confirmationCode \<noteq> norm confirmationCode
         then \<lparr>sp_matches = False, sp_txSignature = None, sp_receiptPubkey = None, sp_popEntryHash = None, sp_popAuditHash = None,
               sp_popSigner = None, sp_claimedAt = None\<rparr>
         else \<lparr>sp_matches = True, sp_txSignature = get tk_txSignature, sp_receiptPubkey = get tk_receiptPubkey,
               sp_popEntryHash = get tk_popEntryHash, sp_popAuditHash = get tk_popAuditHash, sp_popSigner = get tk_popSigner,
               sp_claimedAt = map_option tk_joinedAt stored\<rparr>)"

end
