(* ===== verification/Ticket_Spec.thy ===== *)
theory Ticket_Spec
  imports Ticket_Store Transfer_Spec
begin

text \<open>
  What the ticket store keeps and where it loses tickets: nothing of a ticket moves from one account to another, however
  the calls interleave; merging keeps every on-chain receipt once, newest first; a ticket that is added before the stored
  ones are loaded replaces them; and the quota that the worker prints is the quota that the application acts on.
\<close>

section \<open>What a ticket says\<close>

text \<open>
  A fact of a ticket is the event it is about, a field and the value of this field. The facts are read off the JSON in
  which a ticket is stored: the texts without surrounding space, the signatures and receipt keys of the ticket and of its
  on-chain receipts (which the store moves between the two places), and the quota as far as it is a valid one. Times are
  not followed: the store fills a missing one in.
\<close>

type_synonym fact = "string \<times> string \<times> js"

definition textFact :: "string \<Rightarrow> js \<Rightarrow> (string \<times> js) set" where
  "textFact k v = (\<lambda>x. (k, JStr x)) ` set_option (trimmed_str v)"

definition textFields :: "string list" where
  "textFields = [''eventId'', ''eventName'', ''mintAddress'', ''txSignature'', ''receiptPubkey'', ''popEntryHash'', ''popAuditHash'',
     ''popSigner'', ''confirmationCode'', ''auditReceiptId'', ''auditReceiptHash'']"

definition receiptItems :: "js \<Rightarrow> js list" where
  "receiptItems raw = (case jget raw ''onchainReceipts'' of JArr items \<Rightarrow> items | _ \<Rightarrow> [])"

definition pairsOf :: "js \<Rightarrow> (string \<times> js) set" where
  "pairsOf raw =
     (\<Union>k \<in> set textFields. textFact k (jget raw k))
     \<union> (\<Union>i \<in> set (receiptItems raw). textFact ''txSignature'' (jget i ''txSignature'') \<union> textFact ''receiptPubkey'' (jget i ''receiptPubkey''))
     \<union> (\<lambda>q. (''claimQuota'', quotaToJs q)) ` set_option (normalizeClaimQuota (jget raw ''claimQuota''))"

definition factsOf :: "js \<Rightarrow> fact set" where
  "factsOf raw = Pair (strField raw ''eventId'') ` pairsOf raw"

definition ticketFacts :: "RecipientTicket list \<Rightarrow> fact set" where
  "ticketFacts ts = (\<Union>t \<in> set ts. factsOf (ticketToJs t))"

definition deviceFacts :: "device \<Rightarrow> string \<Rightarrow> fact set" where
  "deviceFacts d key = (case d key of Some (Inr (JArr items)) \<Rightarrow> (\<Union>i \<in> set items. factsOf i) | _ \<Rightarrow> {})"

subsection \<open>Texts\<close>

lemma textFact_trimmed [simp]: "textFact k (JStr (js_trim s)) = textFact k (JStr s)"
  by (simp add: textFact_def)

lemma textFact_stringOnly [simp]: "textFact k (jstr_opt (stringOnly v)) = textFact k v"
  by (cases v) (simp_all add: textFact_def stringOnly_def jstr_opt_def)

lemma textFact_norm [simp]: "textFact k (jstr_opt (trimmed_str v)) = textFact k v"
  by (cases v) (auto simp: textFact_def jstr_opt_def)

lemma textFact_orElse: "textFact k (jstr_opt (orElse a b)) \<subseteq> textFact k (jstr_opt a) \<union> textFact k (jstr_opt b)"
  by (cases a) (auto simp: orElse_def)

subsection \<open>On-chain receipts\<close>

definition likeFacts :: "receipt_like list \<Rightarrow> (string \<times> js) set" where
  "likeFacts items = (\<Union>(tx, pubkey, claimed) \<in> set items. textFact ''txSignature'' tx \<union> textFact ''receiptPubkey'' pubkey)"

lemma likeFacts_simps [simp]: "likeFacts [] = {}" "likeFacts (xs @ ys) = likeFacts xs \<union> likeFacts ys"
  by (auto simp: likeFacts_def)

lemma likeFacts_Cons: "likeFacts (x # xs) = likeFacts [x] \<union> likeFacts xs"
  by (auto simp: likeFacts_def)

lemma likeFacts_in: "x \<in> set items \<Longrightarrow> likeFacts [x] \<subseteq> likeFacts items"
  unfolding likeFacts_def by fastforce

lemma kv_set_in: "x \<in> set (kv_set k r m) \<Longrightarrow> x = (k, r) \<or> x \<in> set m"
  by (induction m) (auto split: if_splits)

lemma add_receipt_facts:
  assumes "\<forall>(k, r) \<in> set m. likeFacts [receiptLike r] \<subseteq> F" "likeFacts [item] \<subseteq> F"
  shows "\<forall>(k, r) \<in> set (addReceipt f item m). likeFacts [receiptLike r] \<subseteq> F"
proof -
  obtain tx pk cl where item: "item = (tx, pk, cl)" by (cases item)
  show ?thesis
  proof (cases "trimmed_str tx")
    case (Some sig)
    have new: "textFact ''txSignature'' (JStr sig) \<subseteq> F" "textFact ''receiptPubkey'' (jstr_opt (trimmed_str pk)) \<subseteq> F"
      using assms(2) textFact_norm [of "''txSignature''" tx] by (simp_all add: item likeFacts_def Some jstr_opt_def [of "Some sig"])
    have old: "textFact ''receiptPubkey'' (jstr_opt (on_receiptPubkey r)) \<subseteq> F" if "map_of m sig = Some r" for r
      using assms(1) map_of_SomeD [OF that] by (auto simp: likeFacts_def receiptLike_def)
    show ?thesis
    proof (cases "map_of m sig")
      case None
      then show ?thesis using new assms(1) by (auto simp: addReceipt_def item Some likeFacts_def receiptLike_def Let_def dest!: kv_set_in)
    next
      case r: (Some r)
      have "textFact ''receiptPubkey'' (jstr_opt (orElse (on_receiptPubkey r) (trimmed_str pk))) \<subseteq> F"
        using textFact_orElse new(2) old [OF r] by blast
      then show ?thesis using new(1) assms(1)
        by (auto simp: addReceipt_def item Some r likeFacts_def receiptLike_def Let_def dest!: kv_set_in)
    qed
  qed (use assms(1) in \<open>simp add: addReceipt_def item\<close>)
qed

lemma fold_receipts_facts:
  "\<forall>(k, r) \<in> set m. likeFacts [receiptLike r] \<subseteq> F \<Longrightarrow> likeFacts items \<subseteq> F \<Longrightarrow>
     \<forall>(k, r) \<in> set (fold (addReceipt f) items m). likeFacts [receiptLike r] \<subseteq> F"
proof (induction items arbitrary: m)
  case (Cons item items)
  have "likeFacts [item] \<subseteq> F" "likeFacts items \<subseteq> F" using Cons.prems(2) likeFacts_Cons [of item items] by blast+
  then show ?case using Cons.IH [OF add_receipt_facts [OF Cons.prems(1)]] by simp
qed simp

lemma normalized_facts: "r \<in> set (normalizeOnchainReceipts items f) \<Longrightarrow> likeFacts [receiptLike r] \<subseteq> likeFacts items"
  using fold_receipts_facts [of "[]" "likeFacts items" items f] by (fastforce simp: normalizeOnchainReceipts_def)

lemma latest_facts:
  assumes "latestOf (normalizeOnchainReceipts items f) = Some r"
  shows "textFact ''txSignature'' (JStr (on_txSignature r)) \<subseteq> likeFacts items"
    "textFact ''receiptPubkey'' (jstr_opt (on_receiptPubkey r)) \<subseteq> likeFacts items"
proof -
  have "r \<in> set (normalizeOnchainReceipts items f)" using assms by (auto simp: latestOf_def split: list.splits)
  from normalized_facts [OF this]
  show "textFact ''txSignature'' (JStr (on_txSignature r)) \<subseteq> likeFacts items"
    "textFact ''receiptPubkey'' (jstr_opt (on_receiptPubkey r)) \<subseteq> likeFacts items" by (simp_all add: likeFacts_def receiptLike_def)
qed

subsection \<open>Tickets\<close>

lemma canonical_id [simp]: "tk_eventId (normalizeTicketOnchainFields t) = tk_eventId t"
  by (simp add: normalizeTicketOnchainFields_def Let_def)

lemma merged_id [simp]: "tk_eventId (mergeTicket a b) = tk_eventId b"
  by (simp add: mergeTicket_def Let_def)

lemma stored_id: "strField (ticketToJs t) ''eventId'' = js_trim (tk_eventId t)"
  by (simp add: strField_def ticketToJs_def)

definition plainFields :: "(string \<times> (RecipientTicket \<Rightarrow> js)) list" where
  "plainFields = [(''eventId'', \<lambda>t. JStr (tk_eventId t)), (''eventName'', \<lambda>t. JStr (tk_eventName t)),
     (''mintAddress'', \<lambda>t. jstr_opt (tk_mintAddress t)), (''popEntryHash'', \<lambda>t. jstr_opt (tk_popEntryHash t)),
     (''popAuditHash'', \<lambda>t. jstr_opt (tk_popAuditHash t)), (''popSigner'', \<lambda>t. jstr_opt (tk_popSigner t)),
     (''confirmationCode'', \<lambda>t. jstr_opt (tk_confirmationCode t)), (''auditReceiptId'', \<lambda>t. jstr_opt (tk_auditReceiptId t)),
     (''auditReceiptHash'', \<lambda>t. jstr_opt (tk_auditReceiptHash t))]"

definition plainFacts :: "RecipientTicket \<Rightarrow> (string \<times> js) set" where
  "plainFacts t = (\<Union>(k, f) \<in> set plainFields. textFact k (f t))"

lemmas plain_defs = plainFacts_def plainFields_def

definition proofFacts :: "RecipientTicket \<Rightarrow> (string \<times> js) set" where
  "proofFacts t = likeFacts (storedReceipts t @ [ownReceipt t])"

definition quotaFacts :: "ClaimQuotaStatus option \<Rightarrow> (string \<times> js) set" where
  "quotaFacts q = (\<lambda>q. (''claimQuota'', quotaToJs q)) ` set_option (Option.bind q (\<lambda>q. normalizeClaimQuota (quotaToJs q)))"

lemma ticket_pairs: "pairsOf (ticketToJs t) = plainFacts t \<union> proofFacts t \<union> quotaFacts (tk_claimQuota t)"
proof -
  have "likeFacts (storedReceipts t) = (\<Union>i \<in> set (receiptItems (ticketToJs t)).
      textFact ''txSignature'' (jget i ''txSignature'') \<union> textFact ''receiptPubkey'' (jget i ''receiptPubkey''))"
    by (cases "tk_onchainReceipts t")
      (simp_all add: likeFacts_def storedReceipts_def receiptLike_def receiptItems_def ticketToJs_def onchainToJs_def)
  moreover have "likeFacts [ownReceipt t] = textFact ''txSignature'' (jstr_opt (tk_txSignature t)) \<union> textFact ''receiptPubkey'' (jstr_opt (tk_receiptPubkey t))"
    by (simp add: likeFacts_def ownReceipt_def)
  moreover have "quotaFacts (tk_claimQuota t)
      = (\<lambda>q. (''claimQuota'', quotaToJs q)) ` set_option (normalizeClaimQuota (jget (ticketToJs t) ''claimQuota''))"
    by (cases "tk_claimQuota t") (simp_all add: quotaFacts_def ticketToJs_def normalizeClaimQuota_def)
  moreover have "(\<Union>k \<in> set textFields. textFact k (jget (ticketToJs t) k))
      = plainFacts t \<union> textFact ''txSignature'' (jstr_opt (tk_txSignature t)) \<union> textFact ''receiptPubkey'' (jstr_opt (tk_receiptPubkey t))"
    by (simp add: textFields_def plain_defs ticketToJs_def Un_ac)
  ultimately show ?thesis unfolding pairsOf_def proofFacts_def by auto
qed

lemma proof_facts: "proofFacts t = likeFacts (storedReceipts t) \<union> textFact ''txSignature'' (jstr_opt (tk_txSignature t))
    \<union> textFact ''receiptPubkey'' (jstr_opt (tk_receiptPubkey t))"
  by (auto simp: proofFacts_def likeFacts_def ownReceipt_def)

lemma receipts_facts:
  assumes "rs = normalizeOnchainReceipts items f"
  shows "likeFacts (map receiptLike (case unlessNil rs of Some rs \<Rightarrow> rs | None \<Rightarrow> [])) \<subseteq> likeFacts items"
    "textFact ''txSignature'' (jstr_opt (orElse (map_option on_txSignature (latestOf rs)) x)) \<subseteq> likeFacts items \<union> textFact ''txSignature'' (jstr_opt x)"
    "textFact ''receiptPubkey'' (jstr_opt (orElse (Option.bind (latestOf rs) on_receiptPubkey) y)) \<subseteq> likeFacts items \<union> textFact ''receiptPubkey'' (jstr_opt y)"
proof -
  have "likeFacts (map receiptLike rs) \<subseteq> likeFacts items" using normalized_facts assms unfolding likeFacts_def by fastforce
  then show "likeFacts (map receiptLike (case unlessNil rs of Some rs \<Rightarrow> rs | None \<Rightarrow> [])) \<subseteq> likeFacts items" by (simp add: unlessNil_def)
  have l: "textFact ''txSignature'' (JStr (on_txSignature r)) \<subseteq> likeFacts items" "textFact ''receiptPubkey'' (jstr_opt (on_receiptPubkey r)) \<subseteq> likeFacts items"
    if "latestOf rs = Some r" for r using latest_facts assms that by metis+
  show "textFact ''txSignature'' (jstr_opt (orElse (map_option on_txSignature (latestOf rs)) x)) \<subseteq> likeFacts items \<union> textFact ''txSignature'' (jstr_opt x)"
    using l(1) by (cases "latestOf rs") (auto simp: orElse_def jstr_opt_def)
  show "textFact ''receiptPubkey'' (jstr_opt (orElse (Option.bind (latestOf rs) on_receiptPubkey) y)) \<subseteq> likeFacts items \<union> textFact ''receiptPubkey'' (jstr_opt y)"
    using l(2) textFact_orElse [of "''receiptPubkey''" "Option.bind (latestOf rs) on_receiptPubkey" y]
    by (cases "latestOf rs") (auto simp: orElse_def split: option.splits)
qed

lemma canonical_pairs: "pairsOf (ticketToJs (normalizeTicketOnchainFields t)) \<subseteq> pairsOf (ticketToJs t)"
proof -
  let ?n = "normalizeTicketOnchainFields t"
  note r = receipts_facts [OF refl, of "storedReceipts t @ [ownReceipt t]" "tk_joinedAt t"]
  have "likeFacts (storedReceipts ?n) \<subseteq> proofFacts t"
    using r(1) by (simp add: storedReceipts_def normalizeTicketOnchainFields_def proofFacts_def Let_def)
  moreover have "textFact ''txSignature'' (jstr_opt (tk_txSignature ?n)) \<subseteq> proofFacts t \<union> textFact ''txSignature'' (jstr_opt (tk_txSignature t))"
    "textFact ''receiptPubkey'' (jstr_opt (tk_receiptPubkey ?n)) \<subseteq> proofFacts t \<union> textFact ''receiptPubkey'' (jstr_opt (tk_receiptPubkey t))"
    using r(2) [of "tk_txSignature t"] r(3) [of "tk_receiptPubkey t"]
    by (simp_all add: normalizeTicketOnchainFields_def proofFacts_def Let_def)
  ultimately have "proofFacts ?n \<subseteq> proofFacts t" using proof_facts [of t] proof_facts [of ?n] by blast
  moreover have "plainFacts ?n = plainFacts t" "tk_claimQuota ?n = tk_claimQuota t"
    by (simp_all add: plain_defs normalizeTicketOnchainFields_def Let_def)
  ultimately show ?thesis by (auto simp: ticket_pairs)
qed

lemma merged_pairs: "pairsOf (ticketToJs (mergeTicket a b)) \<subseteq> pairsOf (ticketToJs a) \<union> pairsOf (ticketToJs b)"
proof -
  let ?m = "mergeTicket a b"
  let ?items = "storedReceipts a @ storedReceipts b @ [ownReceipt a, ownReceipt b]" let ?f = "max (tk_joinedAt a) (tk_joinedAt b)"
  let ?P = "proofFacts a \<union> proofFacts b"
  note r = receipts_facts [OF refl, of ?items ?f]
  have items: "likeFacts ?items = ?P" by (auto simp: proofFacts_def likeFacts_def)
  have own: "textFact ''txSignature'' (jstr_opt (tk_txSignature a)) \<union> textFact ''txSignature'' (jstr_opt (tk_txSignature b)) \<subseteq> ?P"
    "textFact ''receiptPubkey'' (jstr_opt (tk_receiptPubkey a)) \<union> textFact ''receiptPubkey'' (jstr_opt (tk_receiptPubkey b)) \<subseteq> ?P"
    using proof_facts [of a] proof_facts [of b] by blast+
  have "likeFacts (storedReceipts ?m) \<subseteq> ?P" using r(1) unfolding items by (simp add: storedReceipts_def mergeTicket_def Let_def)
  moreover have "textFact ''txSignature'' (jstr_opt (tk_txSignature ?m)) \<subseteq> ?P"
    using r(2) [of "orElse (tk_txSignature b) (tk_txSignature a)"] own(1) textFact_orElse [of "''txSignature''" "tk_txSignature b" "tk_txSignature a"]
    unfolding items by (auto simp: mergeTicket_def Let_def textFact_def jstr_opt_def [of None])
  moreover have "textFact ''receiptPubkey'' (jstr_opt (tk_receiptPubkey ?m)) \<subseteq> ?P"
    using r(3) [of "orElse (tk_receiptPubkey b) (tk_receiptPubkey a)"] own(2) textFact_orElse [of "''receiptPubkey''" "tk_receiptPubkey b" "tk_receiptPubkey a"]
    unfolding items by (auto simp: mergeTicket_def Let_def textFact_def jstr_opt_def [of None])
  ultimately have "proofFacts ?m \<subseteq> ?P" using proof_facts [of ?m] by blast
  moreover have "plainFacts ?m \<subseteq> plainFacts a \<union> plainFacts b"
  proof -
    have "textFact k (f ?m) \<subseteq> textFact k (f a) \<union> textFact k (f b)" if "(k, f) \<in> set plainFields" for k f
      using that by (auto simp: plainFields_def mergeTicket_def Let_def dest!: subsetD [OF textFact_orElse] split: if_splits)
    then show ?thesis unfolding plainFacts_def by fast
  qed
  moreover have "quotaFacts (tk_claimQuota ?m) \<subseteq> quotaFacts (tk_claimQuota a) \<union> quotaFacts (tk_claimQuota b)"
    by (auto simp: mergeTicket_def orElse_def Let_def split: option.splits)
  ultimately show ?thesis by (auto simp: ticket_pairs)
qed

lemma canonical_facts: "factsOf (ticketToJs (normalizeTicketOnchainFields t)) \<subseteq> factsOf (ticketToJs t)"
  using canonical_pairs [of t] by (auto simp: factsOf_def stored_id)

lemma merged_facts:
  assumes "tk_eventId a = tk_eventId b"
  shows "factsOf (ticketToJs (mergeTicket a (normalizeTicketOnchainFields b))) \<subseteq> factsOf (ticketToJs a) \<union> factsOf (ticketToJs b)"
  using merged_pairs [of a "normalizeTicketOnchainFields b"] canonical_pairs [of b] assms by (auto simp: factsOf_def stored_id)

lemma ticketFacts_simps [simp]:
  "ticketFacts [] = {}" "ticketFacts (ts @ us) = ticketFacts ts \<union> ticketFacts us" "ticketFacts (t # ts) = factsOf (ticketToJs t) \<union> ticketFacts ts"
  by (auto simp: ticketFacts_def)

lemma found_id: "findIndexOf e ts = Some i \<Longrightarrow> i < length ts \<and> tk_eventId (ts ! i) = e"
  by (auto simp: findIndexOf_def find_Some_iff)

text \<open>Putting a ticket in, where a ticket of the same event makes room for the merged one.\<close>

lemma insert_facts:
  assumes "r = (case findIndexOf (tk_eventId t) ts of None \<Rightarrow> ts @ [normalizeTicketOnchainFields t]
                | Some i \<Rightarrow> ts[i := mergeTicket (ts ! i) (normalizeTicketOnchainFields t)])"
  shows "ticketFacts r \<subseteq> factsOf (ticketToJs t) \<union> ticketFacts ts"
proof (cases "findIndexOf (tk_eventId t) ts")
  case None
  then show ?thesis using assms canonical_facts [of t] by auto
next
  case (Some i)
  note i = found_id [OF Some]
  let ?m = "mergeTicket (ts ! i) (normalizeTicketOnchainFields t)"
  have "factsOf (ticketToJs ?m) \<subseteq> factsOf (ticketToJs t) \<union> ticketFacts ts"
    using merged_facts [of "ts ! i" t] i nth_mem [of i ts] by (fastforce simp: ticketFacts_def)
  moreover have "set r \<subseteq> insert ?m (set ts)" using assms Some set_update_subset_insert [of ts i ?m] by simp
  ultimately show ?thesis unfolding ticketFacts_def by blast
qed

lemma added_facts: "ticketFacts (addedTo ts t) \<subseteq> factsOf (ticketToJs t) \<union> ticketFacts ts"
  by (rule insert_facts) (simp add: addedTo_def Let_def)

lemma replaceStep_facts: "ticketFacts (replaceStep t ts) \<subseteq> factsOf (ticketToJs t) \<union> ticketFacts ts"
proof -
  let ?t = "t\<lparr>tk_eventId := js_trim (tk_eventId t), tk_eventName := js_trim (tk_eventName t)\<rparr>"
  have "factsOf (ticketToJs ?t) = factsOf (ticketToJs t)"
    by (simp add: factsOf_def stored_id ticket_pairs plain_defs proofFacts_def storedReceipts_def ownReceipt_def)
  moreover have "ticketFacts (replaceStep t ts) \<subseteq> factsOf (ticketToJs ?t) \<union> ticketFacts ts"
  proof (cases "js_trim (tk_eventId t) = [] \<or> js_trim (tk_eventName t) = []")
    case False
    then show ?thesis by (intro insert_facts) (simp add: replaceStep_def Let_def)
  qed (auto simp: replaceStep_def Let_def)
  ultimately show ?thesis by simp
qed

lemma replaced_facts: "ticketFacts (fold replaceStep us ts) \<subseteq> ticketFacts us \<union> ticketFacts ts"
proof (induction us arbitrary: ts)
  case (Cons u us)
  have "ticketFacts (fold replaceStep (u # us) ts) \<subseteq> ticketFacts us \<union> ticketFacts (replaceStep u ts)" using Cons.IH [of "replaceStep u ts"] by simp
  then show ?case using replaceStep_facts [of u ts] by auto
qed simp

subsection \<open>Reading and writing\<close>

lemma quota_back:
  assumes "0 < q_claimIntervalDays q" "0 \<le> q_claimsUsedInCurrentInterval q"
    and "\<forall>m. q_maxClaimsPerInterval q = Some m \<longrightarrow> 0 < m" "\<forall>r. q_remainingClaimsInCurrentInterval q = Some r \<longrightarrow> 0 \<le> r"
    and "q_maxClaimsPerInterval q = None \<longrightarrow> q_remainingClaimsInCurrentInterval q = None" "\<forall>n. q_nextAvailableAt q = Some n \<longrightarrow> 0 \<le> n"
  shows "normalizeClaimQuota (quotaToJs q) = Some q"
  using assms
  by (cases q) (auto simp: normalizeClaimQuota_def quotaToJs_def positiveFloor_def normalizeNonNegativeInt_def Let_def split: option.splits)

lemma quota_parsed:
  assumes "normalizeClaimQuota v = Some q"
  shows "0 \<le> q_claimIntervalDays q" "0 \<le> q_claimsUsedInCurrentInterval q"
    "\<forall>m. q_maxClaimsPerInterval q = Some m \<longrightarrow> 0 \<le> m" "\<forall>r. q_remainingClaimsInCurrentInterval q = Some r \<longrightarrow> 0 \<le> r"
    "q_maxClaimsPerInterval q = None \<longrightarrow> q_remainingClaimsInCurrentInterval q = None" "\<forall>n. q_nextAvailableAt q = Some n \<longrightarrow> 0 \<le> n"
proof -
  have nn: "0 \<le> n" if "normalizeNonNegativeInt u = Some n" for u n using that by (auto simp: normalizeNonNegativeInt_def split: js.splits if_splits)
  have pf: "0 \<le> n" if "positiveFloor u = Some n" for u n using that by (auto simp: positiveFloor_def split: js.splits if_splits)
  define mx where "mx = (if jget v ''maxClaimsPerInterval'' = JNull then Some None else map_option Some (positiveFloor (jget v ''maxClaimsPerInterval'')))"
  define rm where "rm = (if jget v ''remainingClaimsInCurrentInterval'' = JNull then Some None
      else map_option Some (normalizeNonNegativeInt (jget v ''remainingClaimsInCurrentInterval'')))"
  obtain days m used can where d: "positiveFloor (jget v ''claimIntervalDays'') = Some days" "mx = Some m"
    "normalizeNonNegativeInt (jget v ''claimsUsedInCurrentInterval'') = Some used" "\<not> (m \<noteq> None \<and> rm = None)"
    "q = \<lparr>q_claimIntervalDays = days, q_maxClaimsPerInterval = m, q_claimsUsedInCurrentInterval = used,
       q_remainingClaimsInCurrentInterval = (if m = None then None else the rm), q_canClaimNow = can,
       q_nextAvailableAt = normalizeNonNegativeInt (jget v ''nextAvailableAt'')\<rparr>"
    using assms unfolding normalizeClaimQuota_def Let_def mx_def [symmetric] rm_def [symmetric]
    by (auto split: if_splits option.splits js.splits)
  show "0 \<le> q_claimIntervalDays q" "0 \<le> q_claimsUsedInCurrentInterval q" "\<forall>n. q_nextAvailableAt q = Some n \<longrightarrow> 0 \<le> n"
    using d(1,3,5) nn pf by auto
  show "\<forall>m. q_maxClaimsPerInterval q = Some m \<longrightarrow> 0 \<le> m" using d(2,5) pf by (auto simp: mx_def split: if_splits)
  show "\<forall>r. q_remainingClaimsInCurrentInterval q = Some r \<longrightarrow> 0 \<le> r" using d(4,5) nn by (auto simp: rm_def split: if_splits)
  show "q_maxClaimsPerInterval q = None \<longrightarrow> q_remainingClaimsInCurrentInterval q = None" using d(5) by simp
qed

lemma quota_again:
  assumes "normalizeClaimQuota v = Some q"
  shows "normalizeClaimQuota (quotaToJs q) = None \<or> normalizeClaimQuota (quotaToJs q) = Some q"
proof (cases "0 < q_claimIntervalDays q \<and> q_maxClaimsPerInterval q \<noteq> Some 0")
  case True
  then show ?thesis using quota_parsed [OF assms] by (intro disjI2 quota_back) (auto simp: less_le)
next
  case False
  then have "q_claimIntervalDays q = 0 \<or> q_maxClaimsPerInterval q = Some 0" using quota_parsed(1) [OF assms] by auto
  then show ?thesis by (auto simp: normalizeClaimQuota_def quotaToJs_def positiveFloor_def Let_def split: option.splits)
qed

lemma item_facts:
  assumes "all_some (map itemLike items) = Some likes"
  shows "likeFacts likes = (\<Union>i \<in> set items. textFact ''txSignature'' (jget i ''txSignature'') \<union> textFact ''receiptPubkey'' (jget i ''receiptPubkey''))"
  using assms
proof (induction items arbitrary: likes)
  case (Cons i items)
  then obtain l ls where l: "itemLike i = Some l" "all_some (map itemLike items) = Some ls" "likes = l # ls"
    by (cases "itemLike i") (auto split: option.splits)
  have "likeFacts [l] = textFact ''txSignature'' (jget i ''txSignature'') \<union> textFact ''receiptPubkey'' (jget i ''receiptPubkey'')"
    using l(1) by (auto simp: itemLike_def likeFacts_def split: if_splits)
  then show ?case using Cons.IH [OF l(2)] likeFacts_Cons [of l ls] l(3) by simp
qed simp

lemma field_text_trimmed: "js_trim (strField raw k) = strField raw k"
proof -
  have "js_trim [] = []" by (simp add: js_trim_def)
  then show ?thesis by (cases "jget raw k") (simp_all add: strField_def)
qed

lemma parsed_ticket:
  assumes "parseTicket n raw = Inr (Some t)"
  obtains name T where "t = normalizeTicketOnchainFields T" "tk_eventId T = strField raw ''eventId''" "tk_eventName T = name"
    "stringOnly (jget raw ''eventName'') = Some name"
    "tk_mintAddress T = stringOnly (jget raw ''mintAddress'')" "tk_txSignature T = stringOnly (jget raw ''txSignature'')"
    "tk_receiptPubkey T = stringOnly (jget raw ''receiptPubkey'')" "tk_popEntryHash T = stringOnly (jget raw ''popEntryHash'')"
    "tk_popAuditHash T = stringOnly (jget raw ''popAuditHash'')" "tk_popSigner T = stringOnly (jget raw ''popSigner'')"
    "tk_confirmationCode T = stringOnly (jget raw ''confirmationCode'')" "tk_auditReceiptId T = stringOnly (jget raw ''auditReceiptId'')"
    "tk_auditReceiptHash T = stringOnly (jget raw ''auditReceiptHash'')" "tk_claimQuota T = normalizeClaimQuota (jget raw ''claimQuota'')"
    "likeFacts (storedReceipts T) \<subseteq> (\<Union>i \<in> set (receiptItems raw).
       textFact ''txSignature'' (jget i ''txSignature'') \<union> textFact ''receiptPubkey'' (jget i ''receiptPubkey''))"
proof -
  have obj: "is_obj raw" using assms by (auto simp: parseTicket_def split: if_splits)
  obtain name where name: "stringOnly (jget raw ''eventName'') = Some name"
    using assms obj by (cases "stringOnly (jget raw ''eventName'')") (auto simp: parseTicket_def Let_def)
  define T where "T = (\<lambda>receipts. \<lparr>tk_eventId = strField raw ''eventId'', tk_eventName = name,
      tk_joinedAt = normalizeClaimedAt (jget raw ''joinedAt'') (of_int n), tk_mintAddress = stringOnly (jget raw ''mintAddress''),
      tk_txSignature = stringOnly (jget raw ''txSignature''), tk_receiptPubkey = stringOnly (jget raw ''receiptPubkey''), tk_onchainReceipts = receipts,
      tk_popEntryHash = stringOnly (jget raw ''popEntryHash''), tk_popAuditHash = stringOnly (jget raw ''popAuditHash''),
      tk_popSigner = stringOnly (jget raw ''popSigner''), tk_confirmationCode = stringOnly (jget raw ''confirmationCode''),
      tk_auditReceiptId = stringOnly (jget raw ''auditReceiptId''), tk_auditReceiptHash = stringOnly (jget raw ''auditReceiptHash''),
      tk_claimQuota = normalizeClaimQuota (jget raw ''claimQuota'')\<rparr>)"
  have "\<exists>receipts. t = normalizeTicketOnchainFields (T receipts) \<and> likeFacts (storedReceipts (T receipts)) \<subseteq> (\<Union>i \<in> set (receiptItems raw).
       textFact ''txSignature'' (jget i ''txSignature'') \<union> textFact ''receiptPubkey'' (jget i ''receiptPubkey''))"
  proof (cases "\<exists>items. jget raw ''onchainReceipts'' = JArr items")
    case True
    then obtain items likes where l: "jget raw ''onchainReceipts'' = JArr items" "all_some (map itemLike items) = Some likes"
      "t = normalizeTicketOnchainFields (T (Some (normalizeOnchainReceipts likes (normalizeClaimedAt (jget raw ''joinedAt'') (of_int n)))))"
      using assms obj name by (auto simp: parseTicket_def T_def Let_def split: option.splits if_splits)
    have "likeFacts (map receiptLike (normalizeOnchainReceipts likes f)) \<subseteq> likeFacts likes" for f
      using normalized_facts unfolding likeFacts_def by fastforce
    then have "likeFacts (storedReceipts (T (Some (normalizeOnchainReceipts likes f)))) \<subseteq> (\<Union>i \<in> set (receiptItems raw).
       textFact ''txSignature'' (jget i ''txSignature'') \<union> textFact ''receiptPubkey'' (jget i ''receiptPubkey''))" for f
      using item_facts [OF l(2)] l(1) by (simp add: storedReceipts_def T_def receiptItems_def)
    then show ?thesis using l(3) by blast
  next
    case False
    have "t = normalizeTicketOnchainFields (T None)"
      using False assms obj name by (auto simp: parseTicket_def T_def Let_def split: js.splits if_splits)
    moreover have "likeFacts (storedReceipts (T None)) = {}" by (simp add: storedReceipts_def T_def)
    ultimately show ?thesis by (intro exI [of _ None]) simp
  qed
  then obtain receipts where "t = normalizeTicketOnchainFields (T receipts)" "likeFacts (storedReceipts (T receipts)) \<subseteq> (\<Union>i \<in> set (receiptItems raw).
       textFact ''txSignature'' (jget i ''txSignature'') \<union> textFact ''receiptPubkey'' (jget i ''receiptPubkey''))" by blast
  from that [of "T receipts", OF this(1) _ _ name, OF _ _ _ _ _ _ _ _ _ _ _ _ this(2)] show thesis by (simp add: T_def)
qed

lemma parsed_facts:
  assumes "parseTicket n raw = Inr (Some t)"
  shows "factsOf (ticketToJs t) \<subseteq> factsOf raw"
proof -
  let ?items = "\<Union>i \<in> set (receiptItems raw). textFact ''txSignature'' (jget i ''txSignature'') \<union> textFact ''receiptPubkey'' (jget i ''receiptPubkey'')"
  obtain name T where T: "t = normalizeTicketOnchainFields T" "tk_eventId T = strField raw ''eventId''" "tk_eventName T = name"
    "stringOnly (jget raw ''eventName'') = Some name"
    "tk_mintAddress T = stringOnly (jget raw ''mintAddress'')" "tk_txSignature T = stringOnly (jget raw ''txSignature'')"
    "tk_receiptPubkey T = stringOnly (jget raw ''receiptPubkey'')" "tk_popEntryHash T = stringOnly (jget raw ''popEntryHash'')"
    "tk_popAuditHash T = stringOnly (jget raw ''popAuditHash'')" "tk_popSigner T = stringOnly (jget raw ''popSigner'')"
    "tk_confirmationCode T = stringOnly (jget raw ''confirmationCode'')" "tk_auditReceiptId T = stringOnly (jget raw ''auditReceiptId'')"
    "tk_auditReceiptHash T = stringOnly (jget raw ''auditReceiptHash'')" "tk_claimQuota T = normalizeClaimQuota (jget raw ''claimQuota'')"
    "likeFacts (storedReceipts T) \<subseteq> ?items"
    by (rule parsed_ticket [OF assms])
  have field: "textFact k (jget raw k) \<subseteq> pairsOf raw" if "k \<in> set textFields" for k using that by (auto simp: pairsOf_def)
  have name: "textFact ''eventName'' (JStr name) = textFact ''eventName'' (jget raw ''eventName'')"
    using T(4) by (auto simp: stringOnly_def split: js.splits)
  have ident: "textFact ''eventId'' (JStr (strField raw ''eventId'')) = textFact ''eventId'' (jget raw ''eventId'')"
    by (cases "jget raw ''eventId''") (simp_all add: strField_def, simp_all add: textFact_def js_trim_def)
  have "textFact k (f T) = textFact k (jget raw k) \<and> k \<in> set textFields" if "(k, f) \<in> set plainFields" for k f
    using that name ident by (auto simp: plainFields_def textFields_def T(2,3,5,8-13))
  then have "plainFacts T \<subseteq> pairsOf raw" using field unfolding plainFacts_def by fast
  moreover have "proofFacts T \<subseteq> pairsOf raw"
  proof -
    have "?items \<subseteq> pairsOf raw" by (auto simp: pairsOf_def)
    moreover have "textFact ''txSignature'' (jget raw ''txSignature'') \<subseteq> pairsOf raw" "textFact ''receiptPubkey'' (jget raw ''receiptPubkey'') \<subseteq> pairsOf raw"
      by (rule field; simp add: textFields_def)+
    ultimately show ?thesis unfolding proof_facts T(6,7) textFact_stringOnly using T(15) by blast
  qed
  moreover have "quotaFacts (tk_claimQuota T) \<subseteq> pairsOf raw"
    unfolding T(14) using quota_again [of "jget raw ''claimQuota''"]
    by (cases "normalizeClaimQuota (jget raw ''claimQuota'')") (auto simp: quotaFacts_def pairsOf_def)
  ultimately have "pairsOf (ticketToJs t) \<subseteq> pairsOf raw" using canonical_pairs [of T] unfolding T(1) ticket_pairs by blast
  then show ?thesis unfolding factsOf_def stored_id T(1) canonical_id T(2) by (auto simp: field_text_trimmed)
qed

lemma parsed_all_facts: "parseTickets n raws = Inr ts \<Longrightarrow> ticketFacts ts \<subseteq> (\<Union>i \<in> set raws. factsOf i)"
proof (induction raws arbitrary: ts)
  case (Cons raw raws)
  then show ?case using parsed_facts by (fastforce split: sum.splits option.splits)
qed simp

lemma loaded_facts: "ticketFacts (loadFromStorage d u n) \<subseteq> deviceFacts d (getStorageKey u)"
  using parsed_all_facts by (auto simp: loadFromStorage_def deviceFacts_def split: option.splits sum.splits js.splits)

lemma saved_facts: "deviceFacts (saveToStorage d ts u) key = (if key = getStorageKey u then ticketFacts ts else deviceFacts d key)"
  by (simp add: deviceFacts_def saveToStorage_def ticketFacts_def)

section \<open>Tickets stay with their account\<close>

fun taskOk :: "(string \<Rightarrow> fact set) \<Rightarrow> task \<Rightarrow> bool" where
  "taskOk G (LoadDone u ts) = (ticketFacts ts \<subseteq> G (getStorageKey u))"
| "taskOk G (SaveWait u ts) = (ticketFacts ts \<subseteq> G (getStorageKey u))"
| "taskOk G (SaveDone u ts) = (ticketFacts ts \<subseteq> G (getStorageKey u))"
| "taskOk G _ = True"

definition appOk :: "(string \<Rightarrow> fact set) \<Rightarrow> ticket_app \<Rightarrow> bool" where
  "appOk G a \<longleftrightarrow> ticketFacts (ap_tickets a) \<subseteq> G (getStorageKey (ap_activeUserId a)) \<and> (\<forall>k. deviceFacts (ap_disk a) k \<subseteq> G k)
     \<and> list_all (taskOk G) (ap_tasks a)"

text \<open>The facts of the tickets that an event hands over to the active account, and those of a run.\<close>

fun givenBy :: "app_event \<Rightarrow> fact set" where
  "givenBy (AddTicket t) = ticketFacts [t]"
| "givenBy (ReplaceTickets ts) = ticketFacts ts"
| "givenBy _ = {}"

fun handed :: "app_event list \<Rightarrow> ticket_app \<Rightarrow> string \<Rightarrow> fact set" where
  "handed [] a key = {}"
| "handed (e # es) a key = (if key = getStorageKey (ap_activeUserId a) then givenBy e else {}) \<union> handed es (appStep e a) key"

lemma taskOk_mono: "taskOk G t \<Longrightarrow> \<forall>k. G k \<subseteq> F k \<Longrightarrow> taskOk F t"
  by (cases t) fastforce+

lemma appOk_mono:
  assumes "appOk G a" "\<forall>k. G k \<subseteq> F k" shows "appOk F a"
  using assms taskOk_mono [OF _ assms(2)] unfolding appOk_def list_all_iff by fastforce

lemma tasks_update: "list_all P ts \<Longrightarrow> P t \<Longrightarrow> list_all P (ts[i := t])"
  using set_update_subset_insert [of ts i t] by (auto simp: list_all_iff)

lemma tasks_drop: "list_all P ts \<Longrightarrow> list_all P (take i ts)" "list_all P ts \<Longrightarrow> list_all P (drop j ts)"
  by (auto simp: list_all_iff dest: in_set_takeD in_set_dropD)

lemma device_ok:
  assumes "appOk G a" shows "appOk G (deviceStep i ok n a)"
proof (cases "length (ap_tasks a) \<le> i")
  case False
  then have t: "taskOk G (ap_tasks a ! i)" using assms by (simp add: appOk_def list_all_length)
  have load: "ticketFacts (loadFromStorage (ap_disk a) u n) \<subseteq> G (getStorageKey u)" for u
    using loaded_facts assms by (fastforce simp: appOk_def)
  have cleared: "deviceFacts ((ap_disk a)(k := None)) k' \<subseteq> G k'" for k k' using assms by (auto simp: appOk_def deviceFacts_def)
  show ?thesis using assms t load False
    by (cases "ap_tasks a ! i") (auto simp: deviceStep_def appOk_def Let_def tasks_update tasks_drop saved_facts cleared)
qed (use assms in \<open>simp add: deviceStep_def\<close>)

lemma resume_ok:
  assumes "appOk G a" shows "appOk G (resumeStep i a)"
proof (cases "length (ap_tasks a) \<le> i")
  case False
  then have "taskOk G (ap_tasks a ! i)" using assms by (simp add: appOk_def list_all_length)
  then show ?thesis using assms False
    by (cases "ap_tasks a ! i") (auto simp: resumeStep_def appOk_def Let_def tasks_drop)
qed (use assms in \<open>simp add: resumeStep_def\<close>)

lemma step_ok:
  assumes "appOk G a"
  shows "appOk (\<lambda>k. G k \<union> (if k = getStorageKey (ap_activeUserId a) then givenBy e else {})) (appStep e a)"
proof -
  let ?F = "\<lambda>k. G k \<union> (if k = getStorageKey (ap_activeUserId a) then givenBy e else {})"
  have F: "appOk ?F a" using assms by (rule appOk_mono) auto
  show ?thesis
  proof (cases e)
    case (ReplaceTickets ts)
    then show ?thesis using F replaced_facts [of ts "[]"] by (auto simp: appOk_def replaceTickets_def addTask_def)
  next
    case (AddTicket t)
    have "ticketFacts (addedTo (ap_tickets a) t) \<subseteq> ?F (getStorageKey (ap_activeUserId a))"
      using added_facts [of "ap_tickets a" t] F AddTicket by (auto simp: appOk_def)
    then show ?thesis using F AddTicket by (simp add: appOk_def addTicket_def addTask_def)
  next
    case (DeviceAnswers i ok n)
    then show ?thesis using device_ok [OF F] by simp
  next
    case (TaskResumes i)
    then show ?thesis using resume_ok [OF F] by simp
  qed (use F in \<open>auto simp: appOk_def setActiveUser_def clearUserTickets_def loadTickets_def addTask_def Let_def\<close>)
qed

lemma run_ok: "appOk G a \<Longrightarrow> appOk (\<lambda>k. G k \<union> handed es a k) (fold appStep es a)"
proof (induction es arbitrary: G a)
  case (Cons e es)
  from Cons.IH [OF step_ok [OF Cons.prems, of e]] show ?case by (simp add: Un_assoc)
qed simp

text \<open>
  C10. Tickets stay with their account, however calls, device answers and resumed calls interleave: whatever a ticket on
  the screen says (its event, the name, the codes, hashes and keys, the signatures and keys of its on-chain receipts, the
  quota) was stored on the device for the active account at the start, in a ticket of the same event, or was handed over,
  in a ticket of the same event, while this account was active. An account is the scope under which the store keeps
  tickets: the trimmed user id in lower case, or \<open>guest\<close> when nobody is signed in; the user id \<open>guest\<close> is the same scope.
\<close>

theorem tickets_stay_with_account:
  assumes "app = fold appStep es (freshApp disk)" "t \<in> set (ap_tickets app)" "key = getStorageKey (ap_activeUserId app)"
  shows "factsOf (ticketToJs t) \<subseteq> deviceFacts disk key \<union> handed es (freshApp disk) key"
proof -
  have "appOk (deviceFacts disk) (freshApp disk)" by (simp add: appOk_def freshApp_def)
  then have "appOk (\<lambda>k. deviceFacts disk k \<union> handed es (freshApp disk) k) app" unfolding assms(1) by (rule run_ok)
  then show ?thesis using assms(2,3) by (auto simp: appOk_def ticketFacts_def)
qed

section \<open>A ticket that comes too early\<close>

lemma normalize_idem [simp]: "normalizeActiveUserId (normalizeActiveUserId u) = normalizeActiveUserId u"
proof -
  have "js_lower (js_trim (js_lower (js_trim s))) = js_lower (js_trim s)" for s
  proof -
    have "lower_char (lower_char c) = lower_char c" "is_ws (lower_char c) = is_ws c" for c
      by (auto simp: lower_char_def is_ws_def Let_def)
    then show ?thesis
      using trimmed_js_trim [of s] js_trim_trimmed_id [of "js_lower (js_trim s)"]
      by (cases "js_trim s = []") (auto simp: trimmed_def js_lower_def hd_map last_map)
  qed
  note idem = this
  have none: "normalizeActiveUserId None = None" by (simp add: normalizeActiveUserId_def or_null_def js_lower_def)
  show ?thesis
  proof (cases "normalizeActiveUserId u")
    case (Some x)
    then have "x \<noteq> []" "js_lower (js_trim x) = x" using idem by (auto simp: normalizeActiveUserId_def or_null_def split: if_splits)
    then show ?thesis using Some by (simp add: normalizeActiveUserId_def or_null_def)
  qed (simp add: none)
qed

lemma key_normalized [simp]: "getStorageKey (normalizeActiveUserId u) = getStorageKey u"
  by (simp add: getStorageKey_def normalizeUserScope_def)

text \<open>
  Tickets can be lost: when a ticket is added after an account became active and before its stored tickets are
  loaded, the device holds only the new ticket afterwards, whatever was stored for the account.
\<close>

theorem add_before_load_loses_tickets:
  "ap_disk (fold appStep [SetActiveUser u, AddTicket t, DeviceAnswers 1 True n] (freshApp disk)) (getStorageKey u)
     = Some (Inr (JArr [ticketToJs (normalizeTicketOnchainFields t)]))"
  by (simp add: freshApp_def setActiveUser_def addTicket_def addTask_def addedTo_def findIndexOf_def deviceStep_def saveToStorage_def Let_def)

section \<open>Merging\<close>

definition likeSignatures :: "receipt_like list \<Rightarrow> string set" where
  "likeSignatures items = {s. \<exists>(tx, p, c) \<in> set items. trimmed_str tx = Some s}"

definition knownSignatures :: "RecipientTicket \<Rightarrow> string set" where
  "knownSignatures t = likeSignatures (storedReceipts t @ [ownReceipt t])"

definition keyed :: "(string \<times> OnchainReceipt) list \<Rightarrow> bool" where
  "keyed m \<longleftrightarrow> distinct (map fst m) \<and> (\<forall>(k, r) \<in> set m. on_txSignature r = k)"

lemma kv_set_keyed: "keyed m \<Longrightarrow> on_txSignature r = k \<Longrightarrow> keyed (kv_set k r m) \<and> fst ` set (kv_set k r m) = insert k (fst ` set m)"
  by (induction m) (auto simp: keyed_def split: if_splits)

lemma add_receipt_keyed:
  "keyed m \<Longrightarrow> keyed (addReceipt f item m) \<and> fst ` set (addReceipt f item m) = likeSignatures [item] \<union> fst ` set m"
  by (cases item) (auto simp: addReceipt_def likeSignatures_def kv_set_keyed Let_def split: option.split)

lemma fold_receipts_keyed:
  "keyed m \<Longrightarrow> keyed (fold (addReceipt f) items m) \<and> fst ` set (fold (addReceipt f) items m) = likeSignatures items \<union> fst ` set m"
proof (induction items arbitrary: m)
  case (Cons item items)
  have "likeSignatures (item # items) = likeSignatures [item] \<union> likeSignatures items" by (auto simp: likeSignatures_def)
  then show ?case using Cons.IH add_receipt_keyed [OF Cons.prems, of f item] by auto
qed (simp add: likeSignatures_def)

lemma normalized_receipts:
  "on_txSignature ` set (normalizeOnchainReceipts items f) = likeSignatures items"
  "distinct (map on_txSignature (normalizeOnchainReceipts items f))"
  "sorted_wrt (\<lambda>a b. on_claimedAt b \<le> on_claimedAt a) (normalizeOnchainReceipts items f)"
proof -
  let ?m = "fold (addReceipt f) items []"
  have k: "keyed ?m" "fst ` set ?m = likeSignatures items" using fold_receipts_keyed [of "[]" f items] by (simp_all add: keyed_def)
  then have fst_eq: "on_txSignature (snd e) = fst e" if "e \<in> set ?m" for e using that by (auto simp: keyed_def)
  then show "on_txSignature ` set (normalizeOnchainReceipts items f) = likeSignatures items"
    using k(2) by (simp add: normalizeOnchainReceipts_def image_image cong: image_cong)
  define rs where "rs = map snd ?m"
  have "map on_txSignature rs = map fst ?m" using fst_eq by (simp add: rs_def)
  then have "distinct (map on_txSignature rs)" using k(1) by (simp add: keyed_def)
  then show "distinct (map on_txSignature (normalizeOnchainReceipts items f))"
    unfolding normalizeOnchainReceipts_def rs_def [symmetric] by (simp add: distinct_map)
  have "sorted (map (\<lambda>r. - on_claimedAt r) (normalizeOnchainReceipts items f))" by (simp add: normalizeOnchainReceipts_def)
  then show "sorted_wrt (\<lambda>a b. on_claimedAt b \<le> on_claimedAt a) (normalizeOnchainReceipts items f)" by (simp add: sorted_map)
qed

text \<open>
  C39. Merging two tickets of an event loses no on-chain receipt: the merged ticket holds exactly the signatures known to
  either ticket, each once, and the newest receipt is first.
\<close>

theorem merge_receipts_exact:
  "let rs = (case tk_onchainReceipts (mergeTicket a b) of Some rs \<Rightarrow> rs | None \<Rightarrow> [])
   in on_txSignature ` set rs = knownSignatures a \<union> knownSignatures b \<and> distinct (map on_txSignature rs)
      \<and> sorted_wrt (\<lambda>x y. on_claimedAt y \<le> on_claimedAt x) rs"
proof -
  define items where "items = storedReceipts a @ storedReceipts b @ [ownReceipt a, ownReceipt b]"
  have "likeSignatures items = knownSignatures a \<union> knownSignatures b"
    by (auto simp: items_def likeSignatures_def knownSignatures_def)
  moreover have "(case tk_onchainReceipts (mergeTicket a b) of Some rs \<Rightarrow> rs | None \<Rightarrow> [])
      = normalizeOnchainReceipts items (max (tk_joinedAt a) (tk_joinedAt b))"
    by (simp add: mergeTicket_def unlessNil_def items_def Let_def)
  ultimately show ?thesis using normalized_receipts [of items "max (tk_joinedAt a) (tk_joinedAt b)"] by (simp add: Let_def)
qed

section \<open>The quota on the device\<close>

lemma deduped_set: "set (dedupeClaims seen cs) \<subseteq> set cs"
  by (induction seen cs rule: dedupeClaims.induct) auto

lemma confirmed_positive: "c \<in> set (collectConfirmedOnchainClaims s e k f) \<Longrightarrow> 0 < oc_at c"
proof -
  have "confirmedRow e k f v = Some c \<Longrightarrow> 0 < oc_at c" for v c
    by (auto simp: confirmedRow_def buildConfirmedOnchainClaim_def Let_def split: if_splits option.splits)
  then show "c \<in> set (collectConfirmedOnchainClaims s e k f) \<Longrightarrow> ?thesis"
    using deduped_set by (fastforce simp: collectConfirmedOnchainClaims_def List.map_filter_def)
qed

text \<open>An event whose interval and limit, where they are positive numbers, are at least one.\<close>

definition wholePolicy :: "js \<Rightarrow> bool" where
  "wholePolicy event = list_all (\<lambda>k. case jget event k of JNum r \<Rightarrow> r \<le> 0 \<or> 1 \<le> r | _ \<Rightarrow> True) [''claimIntervalDays'', ''maxClaimsPerInterval'']"

lemma whole_policy:
  assumes "wholePolicy event"
  shows "0 < cp_claimIntervalDays (storeResolveClaimPolicy event)"
    "cp_maxClaimsPerInterval (storeResolveClaimPolicy event) = Some m \<Longrightarrow> 0 < m"
  using assms by (auto simp: wholePolicy_def storeResolveClaimPolicy_def storePolicyNumber_def split: js.splits if_splits)

lemma quota_survives:
  assumes "wholePolicy event" "\<forall>c \<in> set cs. 0 < oc_at c"
  shows "normalizeClaimQuota (quotaToJs (buildClaimQuotaStatusFromConfirmedOnchainClaims event cs now))
    = Some (buildClaimQuotaStatusFromConfirmedOnchainClaims event cs now)"
proof -
  define q where "q = buildClaimQuotaStatusFromConfirmedOnchainClaims event cs now"
  let ?p = "storeResolveClaimPolicy event" let ?w = "filter (\<lambda>c. now - claimWindowMs ?p \<le> oc_at c) cs"
  have days: "0 < q_claimIntervalDays q" "0 \<le> q_claimsUsedInCurrentInterval q"
    using whole_policy(1) [OF assms(1)] by (simp_all add: q_def buildClaimQuotaStatusFromConfirmedOnchainClaims_def Let_def split: option.splits)
  have mx: "\<forall>m. q_maxClaimsPerInterval q = Some m \<longrightarrow> 0 < m" "\<forall>r. q_remainingClaimsInCurrentInterval q = Some r \<longrightarrow> 0 \<le> r"
    "(q_maxClaimsPerInterval q = None) = (q_remainingClaimsInCurrentInterval q = None)"
    using whole_policy(2) [OF assms(1)]
    by (auto simp: q_def buildClaimQuotaStatusFromConfirmedOnchainClaims_def Let_def split: option.splits)
  have nx: "0 \<le> n" if n: "q_nextAvailableAt q = Some n" for n
  proof -
    obtain i where i: "i < length ?w" "n = oc_at (?w ! i) + claimWindowMs ?p"
      using n by (auto simp: q_def buildClaimQuotaStatusFromConfirmedOnchainClaims_def Let_def split: option.splits if_splits)
    have "?w ! i \<in> set cs" using nth_mem [OF i(1)] by auto
    then show ?thesis using assms(2) i(2) whole_policy(1) [OF assms(1)] by (force simp: claimWindowMs_def)
  qed
  have "normalizeClaimQuota (quotaToJs q) = Some q" using days mx nx by (intro quota_back) auto
  then show ?thesis by (simp add: q_def)
qed


section \<open>Examples\<close>

definition sampleTicket :: RecipientTicket where
  "sampleTicket = \<lparr>tk_eventId = ''evt-1'', tk_eventName = ''Fair'', tk_joinedAt = 5, tk_mintAddress = None, tk_txSignature = None,
     tk_receiptPubkey = None, tk_onchainReceipts = None, tk_popEntryHash = None, tk_popAuditHash = None, tk_popSigner = None,
     tk_confirmationCode = None, tk_auditReceiptId = None, tk_auditReceiptHash = None, tk_claimQuota = None\<rparr>"

abbreviation sampleEvents :: "app_event list" where
  "sampleEvents \<equiv> [AddTicket sampleTicket, DeviceAnswers 0 True 7, TaskResumes 0]"

lemma sample_ticket_shown: "ap_tickets (fold appStep sampleEvents (freshApp Map.empty)) = [normalizeTicketOnchainFields sampleTicket]"
  by (simp add: freshApp_def addTicket_def addTask_def addedTo_def findIndexOf_def deviceStep_def resumeStep_def Let_def)

theorem tickets_stay_with_account_witness:
  "factsOf (ticketToJs (normalizeTicketOnchainFields sampleTicket)) \<subseteq> handed sampleEvents (freshApp Map.empty)
     (getStorageKey (ap_activeUserId (fold appStep sampleEvents (freshApp Map.empty))))"
proof -
  have "normalizeTicketOnchainFields sampleTicket \<in> set (ap_tickets (fold appStep sampleEvents (freshApp Map.empty)))"
    by (simp only: sample_ticket_shown) simp
  from tickets_stay_with_account [OF refl this refl] show ?thesis by (simp add: deviceFacts_def)
qed


end
