(* ===== verification/Mint_Plan.thy ===== *)
theory Mint_Plan
  imports Js_Prelude "HOL-Library.Word"
begin

text \<open>
  How many tokens are minted for an event (\<open>wene-mobile/src/solana/issueMintPlan.ts\<close>). A \<open>bigint\<close> is an integer, a
  \<open>number\<close> a rational; the amounts end up as 64-bit words in the instructions of the on-chain program.
\<close>

definition MAX_U64 :: int where "MAX_U64 = push_bit 64 1 - 1"
definition MIN_PREFUND_MULTIPLIER :: int where "MIN_PREFUND_MULTIPLIER = 100"

definition toPositiveU64 :: "int \<Rightarrow> string \<Rightarrow> int or_error" where
  "toPositiveU64 value name =
     (if value \<le> 0 then Inl (name @ '' must be greater than 0'')
      else if MAX_U64 < value then Inl (name @ '' exceeds u64 limit'')
      else Inr value)"

definition computeBootstrapAmount :: "int \<Rightarrow> rat option \<Rightarrow> int" where
  "computeBootstrapAmount amountPerPeriod maxClaimsPerInterval =
     (let expectedClaimsPerInterval = (case maxClaimsPerInterval of None \<Rightarrow> 100 | Some m \<Rightarrow> max 1 \<lfloor>m\<rfloor>);
          expectedIntervals = (case maxClaimsPerInterval of None \<Rightarrow> 30 | Some _ \<Rightarrow> 60);
          base = amountPerPeriod * expectedClaimsPerInterval * expectedIntervals;
          least = amountPerPeriod * MIN_PREFUND_MULTIPLIER
      in if least < base then base else least)"

record IssueMintPlan =
  mp_amountPerPeriod :: int
  mp_bootstrapAmount :: int
  mp_adminRetainedAmount :: int
  mp_initialMintAmount :: int

definition computeIssueMintPlan :: "rat \<Rightarrow> rat option \<Rightarrow> IssueMintPlan or_error" where
  "computeIssueMintPlan ticketTokenAmount maxClaimsPerInterval =
     (case toPositiveU64 \<lfloor>ticketTokenAmount\<rfloor> ''ticketTokenAmount'' of
        Inl e \<Rightarrow> Inl e
      | Inr amountPerPeriod \<Rightarrow>
          (case toPositiveU64 (computeBootstrapAmount amountPerPeriod maxClaimsPerInterval) ''bootstrapMintAmount'' of
             Inl e \<Rightarrow> Inl e
           | Inr bootstrapAmount \<Rightarrow>
               Inr \<lparr>mp_amountPerPeriod = amountPerPeriod, mp_bootstrapAmount = bootstrapAmount, mp_adminRetainedAmount = 0,
                    mp_initialMintAmount = bootstrapAmount\<rparr>))"

section \<open>What a plan guarantees\<close>

lemma u64_range: "toPositiveU64 v name = Inr w \<longleftrightarrow> w = v \<and> 0 < v \<and> v < 2 ^ 64"
  by (auto simp: toPositiveU64_def MAX_U64_def push_bit_eq_mult)

lemma bootstrap_least:
  assumes "0 < a"
  shows "a * 100 \<le> computeBootstrapAmount a m"
    "a * (case m of None \<Rightarrow> 3000 | Some c \<Rightarrow> 60 * max 1 \<lfloor>c\<rfloor>) \<le> computeBootstrapAmount a m"
  by (auto simp: computeBootstrapAmount_def MIN_PREFUND_MULTIPLIER_def Let_def algebra_simps split: option.splits)

text \<open>
  C40. A mint plan fits the chain and covers the claims: a plan exists exactly for amounts of at least one token whose
  bootstrap supply stays below 2 to the 64; then every amount survives the passage through a 64-bit word, the supply
  covers 100 claims and, with a limit per interval, all claims of 60 intervals or, without one, 3000 claims, and the
  issuer keeps nothing.
\<close>

theorem mint_plan_fits_u64:
  "case computeIssueMintPlan amount limit of
     Inl _ \<Rightarrow> amount < 1 \<or> 2 ^ 64 \<le> computeBootstrapAmount \<lfloor>amount\<rfloor> limit
   | Inr p \<Rightarrow>
       1 \<le> amount \<and> computeBootstrapAmount \<lfloor>amount\<rfloor> limit < 2 ^ 64
       \<and> uint (word_of_int (mp_initialMintAmount p) :: 64 word) = mp_initialMintAmount p
       \<and> uint (word_of_int (mp_amountPerPeriod p) :: 64 word) = mp_amountPerPeriod p
       \<and> mp_amountPerPeriod p = \<lfloor>amount\<rfloor> \<and> mp_adminRetainedAmount p = 0
       \<and> mp_amountPerPeriod p * 100 \<le> mp_initialMintAmount p
       \<and> mp_amountPerPeriod p * (case limit of None \<Rightarrow> 3000 | Some c \<Rightarrow> 60 * max 1 \<lfloor>c\<rfloor>) \<le> mp_initialMintAmount p"
proof (cases "computeIssueMintPlan amount limit")
  case (Inr p)
  then have p: "0 < \<lfloor>amount\<rfloor>" "\<lfloor>amount\<rfloor> < 2 ^ 64" "computeBootstrapAmount \<lfloor>amount\<rfloor> limit < 2 ^ 64"
      "p = \<lparr>mp_amountPerPeriod = \<lfloor>amount\<rfloor>, mp_bootstrapAmount = computeBootstrapAmount \<lfloor>amount\<rfloor> limit, mp_adminRetainedAmount = 0,
            mp_initialMintAmount = computeBootstrapAmount \<lfloor>amount\<rfloor> limit\<rparr>"
    by (auto simp: computeIssueMintPlan_def u64_range split: sum.splits)
  have word: "uint (word_of_int v :: 64 word) = v" if "0 < v" "v < 2 ^ 64" for v
    using that by (simp add: uint_word_of_int take_bit_int_eq_self)
  have "0 < computeBootstrapAmount \<lfloor>amount\<rfloor> limit" using bootstrap_least(1) [OF p(1), of limit] p(1) by linarith
  then have "uint (word_of_int (computeBootstrapAmount \<lfloor>amount\<rfloor> limit) :: 64 word) = computeBootstrapAmount \<lfloor>amount\<rfloor> limit"
    "uint (word_of_int \<lfloor>amount\<rfloor> :: 64 word) = \<lfloor>amount\<rfloor>" using word p(1-3) by blast+
  then show ?thesis using Inr p(1,3,4) bootstrap_least [OF p(1), of limit] by simp
next
  case (Inl e)
  have "\<not> (1 \<le> amount \<and> computeBootstrapAmount \<lfloor>amount\<rfloor> limit < 2 ^ 64)"
  proof
    assume a: "1 \<le> amount \<and> computeBootstrapAmount \<lfloor>amount\<rfloor> limit < 2 ^ 64"
    then have pos: "0 < \<lfloor>amount\<rfloor>" by (simp add: le_floor_iff less_eq_int_code)
    then have "\<lfloor>amount\<rfloor> < 2 ^ 64" "0 < computeBootstrapAmount \<lfloor>amount\<rfloor> limit" using a bootstrap_least(1) [OF pos, of limit] by linarith+
    then have "toPositiveU64 \<lfloor>amount\<rfloor> ''ticketTokenAmount'' = Inr \<lfloor>amount\<rfloor>"
      "toPositiveU64 (computeBootstrapAmount \<lfloor>amount\<rfloor> limit) ''bootstrapMintAmount'' = Inr (computeBootstrapAmount \<lfloor>amount\<rfloor> limit)"
      using pos a by (simp_all add: u64_range)
    then show False using Inl by (simp add: computeIssueMintPlan_def)
  qed
  then show ?thesis using Inl by auto
qed

end
