(* ===== verification/Worker_Entry.thy ===== *)
theory Worker_Entry
  imports Random_Anchor Api_Trail Pop_Signer
begin

text \<open>
  The entry point of the worker (\<open>index.ts\<close>): which requests reach the Durable Object, the CORS headers of its answers,
  and the scheduled trigger of the random anchor. The router is Hono, outside of the repository: \<open>hono pattern path\<close>
  says whether a wildcard pattern matches. The Durable Object and the audit router are arguments.
\<close>

definition DEFAULT_CORS :: string where "DEFAULT_CORS = ''https://instant-grant-core.dev''"

definition isAllowedOrigin :: "string \<Rightarrow> bool" where
  "isAllowedOrigin origin = (suffix ''.pages.dev'' origin \<or> js_includes origin ''localhost'')"

text \<open>The origin callback of the CORS middleware, and the origin that \<open>forwardToDo\<close> sets.\<close>

definition corsOrigin :: "string \<Rightarrow> string" where
  "corsOrigin origin = (if isAllowedOrigin origin then origin else DEFAULT_CORS)"

definition allowedOrigin :: "Env \<Rightarrow> string option \<Rightarrow> string" where
  "allowedOrigin env origin =
     (case origin of
        Some t \<Rightarrow> (if isAllowedOrigin t then t else case CORS_ORIGIN env of Some c \<Rightarrow> c | None \<Rightarrow> DEFAULT_CORS)
      | None \<Rightarrow> (case CORS_ORIGIN env of Some c \<Rightarrow> c | None \<Rightarrow> DEFAULT_CORS))"

definition addCorsHeaders :: "Response \<Rightarrow> string \<Rightarrow> Response" where
  "addCorsHeaders response origin = response\<lparr>rs_headers :=
     kv_set ''Access-Control-Allow-Headers'' ''Content-Type, Accept, Authorization, X-Cost-Of-Forgery-Token''
       (kv_set ''Access-Control-Allow-Methods'' ''GET, POST, OPTIONS''
         (kv_set ''Access-Control-Allow-Origin'' origin (rs_headers response)))\<rparr>"

type_synonym durable_object = "storage \<Rightarrow> Request \<Rightarrow> string \<Rightarrow> storage \<times> Response"

definition forwardToDo :: "Env \<Rightarrow> durable_object \<Rightarrow> storage \<Rightarrow> Request \<Rightarrow> string \<Rightarrow> storage \<times> Response" where
  "forwardToDo env stub s request path =
     (if rq_method request = ''OPTIONS'' then (s, json_response JNull 204)
      else case stub s request path of
             (s', res) \<Rightarrow> (s', addCorsHeaders res (allowedOrigin env (rq_header request ''origin''))))"

definition notFound :: Response where
  "notFound = json_response (JStr ''404 Not Found'') 404"

definition workerFetch ::
  "(string \<Rightarrow> string \<Rightarrow> bool) \<Rightarrow> Env \<Rightarrow> durable_object \<Rightarrow> (storage \<Rightarrow> Request \<Rightarrow> storage \<times> Response) \<Rightarrow> storage
     \<Rightarrow> Request \<Rightarrow> string \<Rightarrow> storage \<times> Response" where
  "workerFetch hono env stub auditRouter s request path =
     (if hono ''/v1/school/*'' path \<or> hono ''/api/*'' path \<or> hono ''/metadata/*'' path then forwardToDo env stub s request path
      else if path = ''/v1/audit/log'' \<and> rq_method request = ''POST'' then auditRouter s request
      else if path = ''/'' \<and> rq_method request = ''GET''
      then (s, json_response (JObj [(''status'', JStr ''ok''), (''service'', JStr ''instant-grant-core'')]) 200)
      else if path = ''/health'' \<and> rq_method request = ''GET'' then (s, json_response (JObj [(''ok'', JBool True)]) 200)
      else (s, notFound))"

section \<open>The schedule\<close>

definition ANCHOR_PATH :: string where "ANCHOR_PATH = ''/_internal/audit/random-anchor''"

definition anchorTrigger :: "int \<Rightarrow> string \<Rightarrow> Request" where
  "anchorTrigger scheduledTime cron = \<lparr>rq_method = ''POST'', rq_headers = [(''content-type'', ''application/json'')], rq_chunks = None,
     rq_json = Inr (JObj [(''scheduledTime'', JInt scheduledTime), (''cron'', JStr cron)])\<rparr>"

definition triggerRandomPeriodicAnchor :: "Env \<Rightarrow> durable_object \<Rightarrow> storage \<Rightarrow> int \<Rightarrow> string \<Rightarrow> storage" where
  "triggerRandomPeriodicAnchor env stub s scheduledTime cron =
     (if \<not> parseBooleanEnv (AUDIT_RANDOM_ANCHOR_ENABLED env) True then s
      else fst (stub s (anchorTrigger scheduledTime cron) ANCHOR_PATH))"

section \<open>What reaches the Durable Object\<close>

text \<open>Documented behaviour of the router: a pattern that ends in a wildcard matches only paths that begin with the rest.\<close>

definition honoWildcards :: "(string \<Rightarrow> string \<Rightarrow> bool) \<Rightarrow> bool" where
  "honoWildcards hono \<longleftrightarrow> (\<forall>p path. hono (p @ ''/*'') path \<longrightarrow> prefix p path)"

text \<open>
  The anchor endpoint is internal: no public request reaches it, whatever its method, headers and body; only the
  schedule does, and only while the anchor is enabled. Whatever the public reaches lies below the three public prefixes.
\<close>

theorem anchor_endpoint_internal:
  assumes "honoWildcards hono"
  shows "workerFetch hono env stub auditRouter s request ANCHOR_PATH = (s, notFound)
    \<and> (triggerRandomPeriodicAnchor env stub s scheduled cron \<noteq> s \<longrightarrow> isRandomPeriodicAnchorEnabled env)
    \<and> (\<not> (prefix ''/v1/school'' path \<or> prefix ''/api'' path \<or> prefix ''/metadata'' path) \<longrightarrow>
         workerFetch hono env stub auditRouter s request path = workerFetch hono env stub' auditRouter s request path)"
proof -
  have h: "hono ''/v1/school/*'' q \<Longrightarrow> prefix ''/v1/school'' q" "hono ''/api/*'' q \<Longrightarrow> prefix ''/api'' q"
    "hono ''/metadata/*'' q \<Longrightarrow> prefix ''/metadata'' q" for q
    using assms [unfolded honoWildcards_def, rule_format, of "''/v1/school''" q]
      assms [unfolded honoWildcards_def, rule_format, of "''/api''" q] assms [unfolded honoWildcards_def, rule_format, of "''/metadata''" q]
    by simp_all
  have "workerFetch hono env stub auditRouter s request ANCHOR_PATH = (s, notFound)"
    using h [of ANCHOR_PATH] by (auto simp: workerFetch_def ANCHOR_PATH_def)
  moreover have "triggerRandomPeriodicAnchor env stub s scheduled cron \<noteq> s \<longrightarrow> isRandomPeriodicAnchorEnabled env"
    by (simp add: triggerRandomPeriodicAnchor_def isRandomPeriodicAnchorEnabled_def)
  ultimately show ?thesis using h [of path] by (auto simp: workerFetch_def)
qed

theorem anchor_endpoint_internal_witness:
  "workerFetch (\<lambda>p q. prefix (take (length p - 2) p) q) emptyEnv (\<lambda>s r q. (sto_put s q JNull, notFound)) (\<lambda>s r. (s, notFound)) []
     (anchorTrigger 1 ''* * * * *'') ANCHOR_PATH = ([], notFound)"
proof -
  have "honoWildcards (\<lambda>p q. prefix (take (length p - 2) p) q)" by (simp add: honoWildcards_def)
  from anchor_endpoint_internal [OF this] show ?thesis by blast
qed

text \<open>
  What the configured origin is for: an answer of the Durable Object carries it, but the origin callback of the
  middleware, which also answers preflight requests, never returns it; and an origin that merely contains the word is
  taken for a local one.
\<close>

lemma configured_origin_ignored:
  "allowedOrigin (emptyEnv\<lparr>CORS_ORIGIN := Some ''https://school.example''\<rparr>) (Some ''https://school.example'') = ''https://school.example''"
  "corsOrigin ''https://school.example'' = DEFAULT_CORS"
  by code_simp+

lemma lookalike_origin_allowed: "corsOrigin ''https://localhost.evil.example'' = ''https://localhost.evil.example''"
  by code_simp

end
