(* ===== verification/Admin_Session.thy ===== *)
theory Admin_Session
  imports Operator_Auth Claim_Logic "HOL-Library.Word"
begin

unbundle bit_operations_syntax

text \<open>
  Sessions of administrators on a device (\<open>wene-mobile/src/lib/adminAuth.ts\<close>): one slot per scope, the name of the active
  scope, and the slot of an older version. A slot holds the parsed JSON text, or an error for a text that is no JSON; the
  keys of the three kinds differ, so each kind is a field of the device.
\<close>

datatype AdminSessionRole = SessionAdmin | SessionMaster
datatype AdminSessionSource = SourcePassword | SourceDemo

record AdminAuthSession =
  se_token :: string
  se_role :: AdminSessionRole
  se_source :: AdminSessionSource
  se_adminName :: "string option"
  se_adminId :: "string option"
  se_createdAt :: string

record session_device =
  sd_scoped :: "string \<Rightarrow> js or_error option"
  sd_activeScope :: "string option"
  sd_legacy :: "js or_error option"

definition normalizeToken :: "js \<Rightarrow> string" where
  "normalizeToken token = (case token of JStr t \<Rightarrow> js_trim t | _ \<Rightarrow> [])"

definition normalizeOptionalText :: "js \<Rightarrow> string option" where
  "normalizeOptionalText value = trimmed_str value"

definition normalizeRole :: "js \<Rightarrow> AdminSessionRole" where
  "normalizeRole role = (if role = JStr ''master'' then SessionMaster else SessionAdmin)"

definition hex_nibble :: "nat \<Rightarrow> char" where
  "hex_nibble n = (if n < 10 then char_of (48 + n) else char_of (87 + n))"

text \<open>Eight hexadecimal digits of a 32-bit word.\<close>

definition hex_word :: "32 word \<Rightarrow> string" where
  "hex_word w = map (\<lambda>i. hex_nibble (unat (and (drop_bit i w) 15))) [28, 24, 20, 16, 12, 8, 4, 0]"

definition nonCryptoHash :: "string \<Rightarrow> string" where
  "nonCryptoHash input = hex_word (fold (\<lambda>c hash. (xor hash (of_nat (of_char c))) * 16777619) input 2166136261)"

definition scopeChar :: "char \<Rightarrow> char" where
  "scopeChar c = (let n = (of_char c :: nat) in if (97 \<le> n \<and> n \<le> 122) \<or> is_digit c \<or> n = 95 \<or> n = 45 then c else CHR ''-'')"

fun collapseDashes :: "string \<Rightarrow> string" where
  "collapseDashes [] = []"
| "collapseDashes [c] = [c]"
| "collapseDashes (c # d # cs) = (if c = CHR ''-'' \<and> d = CHR ''-'' then collapseDashes (d # cs) else c # collapseDashes (d # cs))"

definition stripDashes :: "string \<Rightarrow> string" where
  "stripDashes t = rev (dropWhile (\<lambda>c. c = CHR ''-'') (rev (dropWhile (\<lambda>c. c = CHR ''-'') t)))"

definition normalizeScopePart :: "string \<Rightarrow> string" where
  "normalizeScopePart value = stripDashes (collapseDashes (map scopeChar (js_lower (js_trim value))))"

definition getAdminScopeId :: "AdminAuthSession \<Rightarrow> string" where
  "getAdminScopeId session =
     (case normalizeOptionalText (jstr_opt (se_adminId session)) of
        Some adminId \<Rightarrow> ''operator:'' @ normalizeScopePart adminId
      | None \<Rightarrow>
          (if se_role session = SessionMaster then ''operator:master''
           else if se_source session = SourceDemo then ''operator:demo-admin''
           else ''operator:admin-'' @ nonCryptoHash (se_token session)))"

definition sessionToJs :: "AdminAuthSession \<Rightarrow> js" where
  "sessionToJs x = JObj [(''token'', JStr (se_token x)),
     (''role'', JStr (case se_role x of SessionMaster \<Rightarrow> ''master'' | SessionAdmin \<Rightarrow> ''admin'')),
     (''source'', JStr (case se_source x of SourceDemo \<Rightarrow> ''demo'' | SourcePassword \<Rightarrow> ''password'')),
     (''adminName'', jstr_opt (se_adminName x)), (''adminId'', jstr_opt (se_adminId x)), (''createdAt'', JStr (se_createdAt x))]"

definition parseSession :: "int \<Rightarrow> js or_error option \<Rightarrow> AdminAuthSession option" where
  "parseSession nowMs raw =
     (case raw of
        Some (Inr parsed) \<Rightarrow>
          (let token = normalizeToken (jget parsed ''token'')
           in if token = [] then None
              else Some \<lparr>se_token = token, se_role = normalizeRole (jget parsed ''role''),
                     se_source = (if jget parsed ''source'' = JStr ''demo'' then SourceDemo else SourcePassword),
                     se_adminName = normalizeOptionalText (jget parsed ''adminName''),
                     se_adminId = normalizeOptionalText (jget parsed ''adminId''),
                     se_createdAt = (case jget parsed ''createdAt'' of JStr t \<Rightarrow> t | _ \<Rightarrow> js_toISOString nowMs)\<rparr>)
      | _ \<Rightarrow> None)"

definition normalizedSession :: "AdminAuthSession \<Rightarrow> AdminAuthSession" where
  "normalizedSession session = session\<lparr>se_token := normalizeToken (JStr (se_token session)),
     se_adminName := normalizeOptionalText (jstr_opt (se_adminName session)),
     se_adminId := normalizeOptionalText (jstr_opt (se_adminId session))\<rparr>"

definition saveAdminSession :: "session_device \<Rightarrow> AdminAuthSession \<Rightarrow> session_device or_error" where
  "saveAdminSession d session =
     (let normalized = normalizedSession session; scopeId = getAdminScopeId normalized
      in if se_token normalized = [] then Inl ''admin session token is required''
         else Inr (d\<lparr>sd_scoped := (sd_scoped d)(scopeId \<mapsto> Inr (sessionToJs normalized)), sd_activeScope := Some scopeId\<rparr>))"

definition migrateLegacySessionIfNeeded :: "session_device \<Rightarrow> int \<Rightarrow> session_device \<times> AdminAuthSession option or_error" where
  "migrateLegacySessionIfNeeded d nowMs =
     (case parseSession nowMs (sd_legacy d) of
        None \<Rightarrow> (d\<lparr>sd_legacy := None\<rparr>, Inr None)
      | Some legacy \<Rightarrow>
          (case saveAdminSession d legacy of
             Inl e \<Rightarrow> (d, Inl e)
           | Inr d' \<Rightarrow> (d'\<lparr>sd_legacy := None\<rparr>, Inr (Some legacy))))"

definition loadAdminSession :: "session_device \<Rightarrow> int \<Rightarrow> session_device \<times> AdminAuthSession option or_error" where
  "loadAdminSession d nowMs =
     (case normalizeOptionalText (jstr_null (sd_activeScope d)) of
        None \<Rightarrow> migrateLegacySessionIfNeeded d nowMs
      | Some activeScope \<Rightarrow>
          (case parseSession nowMs (sd_scoped d activeScope) of
             Some scoped \<Rightarrow> (d, Inr (Some scoped))
           | None \<Rightarrow> migrateLegacySessionIfNeeded (d\<lparr>sd_activeScope := None\<rparr>) nowMs))"

definition getAdminToken :: "session_device \<Rightarrow> int \<Rightarrow> session_device \<times> string option or_error" where
  "getAdminToken d nowMs =
     (case loadAdminSession d nowMs of (d', Inl e) \<Rightarrow> (d', Inl e) | (d', Inr session) \<Rightarrow> (d', Inr (map_option se_token session)))"

definition clearAdminSession :: "session_device \<Rightarrow> session_device" where
  "clearAdminSession d = d\<lparr>sd_scoped := (\<lambda>_. None), sd_activeScope := None, sd_legacy := None\<rparr>"

section \<open>Life of a session\<close>

lemma normalized_token: "js_trim (se_token (normalizedSession x)) = se_token (normalizedSession x)"
  by (simp add: normalizedSession_def normalizeToken_def)

lemma parse_stored:
  assumes "se_token (normalizedSession x) \<noteq> []"
  shows "parseSession n (Some (Inr (sessionToJs (normalizedSession x)))) = Some (normalizedSession x)"
  using assms
  by (cases "se_role x"; cases "se_source x")
    (simp_all add: parseSession_def sessionToJs_def normalizeRole_def normalizedSession_def normalizeToken_def normalizeOptionalText_def
      trimmed_str_idem Let_def)

lemma hex_no_ws: "list_all (\<lambda>c. \<not> is_ws c) (hex_word w)"
proof -
  have "\<not> is_ws (hex_nibble n)" if "n < 16" for n
    using that by (auto simp: hex_nibble_def is_ws_def Let_def)
  moreover have "unat (and v (15 :: 32 word)) < 16" for v
  proof -
    have "and v (15 :: 32 word) = take_bit 4 v" by (simp add: take_bit_eq_mask mask_eq_exp_minus_1)
    then have "unat (and v (15 :: 32 word)) = take_bit 4 (unat v)" by (simp add: unsigned_take_bit_eq)
    then show ?thesis using take_bit_nat_less_exp [of 4 "unat v"] by simp
  qed
  ultimately show ?thesis by (simp add: hex_word_def)
qed

lemma scope_no_ws: "list_all (\<lambda>c. \<not> is_ws c) (getAdminScopeId x)"
proof -
  have part: "\<not> is_ws c" if "c \<in> set (normalizeScopePart v)" for c v
  proof -
    have coll: "set (collapseDashes t) \<subseteq> set t" for t by (induction t rule: collapseDashes.induct) auto
    have "c \<in> set (collapseDashes (map scopeChar (js_lower (js_trim v))))"
      using that unfolding normalizeScopePart_def stripDashes_def set_rev by (metis set_dropWhileD set_rev)
    then have "c \<in> set (map scopeChar (js_lower (js_trim v)))" by (rule subsetD [OF coll])
    moreover have "\<not> is_ws (scopeChar d)" for d
      by (auto simp: scopeChar_def is_digit_def is_ws_def Let_def split: if_splits)
    ultimately show ?thesis by auto
  qed
  have "list_all (\<lambda>c. \<not> is_ws c) ''operator:admin-''" "list_all (\<lambda>c. \<not> is_ws c) ''operator:demo-admin''" "list_all (\<lambda>c. \<not> is_ws c) ''operator:master''"
    "list_all (\<lambda>c. \<not> is_ws c) ''operator:''" by code_simp+
  then show ?thesis using part hex_no_ws
    by (auto simp: getAdminScopeId_def nonCryptoHash_def list_all_iff split: option.splits)
qed

lemma scope_readable: "normalizeOptionalText (jstr_null (Some (getAdminScopeId x))) = Some (getAdminScopeId x)"
proof -
  have ne: "getAdminScopeId x \<noteq> []" by (auto simp: getAdminScopeId_def split: option.splits)
  then have "trimmed (getAdminScopeId x)" using scope_no_ws [of x] by (simp add: trimmed_def list_all_iff)
  then show ?thesis using ne by (simp add: normalizeOptionalText_def jstr_null_def js_trim_trimmed_id)
qed

text \<open>
  The life of a session on the device: a session with a token can be saved and is then the one that is loaded, with
  its token, role and source and its other fields without white space around them, and loading changes nothing; after
  signing out no session is left, whatever was stored for any scope.
\<close>

theorem session_lifecycle:
  assumes "js_trim (se_token session) \<noteq> []"
  shows "\<exists>d'. saveAdminSession d session = Inr d' \<and> loadAdminSession d' nowMs = (d', Inr (Some (normalizedSession session)))
    \<and> getAdminToken d' nowMs = (d', Inr (Some (js_trim (se_token session))))
    \<and> loadAdminSession (clearAdminSession d') later = (clearAdminSession d', Inr None)"
proof -
  let ?x = "normalizedSession session"
  have tok: "se_token ?x \<noteq> []" "se_token ?x = js_trim (se_token session)" using assms by (simp_all add: normalizedSession_def normalizeToken_def)
  let ?d = "d\<lparr>sd_scoped := (sd_scoped d)(getAdminScopeId ?x \<mapsto> Inr (sessionToJs ?x)), sd_activeScope := Some (getAdminScopeId ?x)\<rparr>"
  have save: "saveAdminSession d session = Inr ?d" using tok(1) by (simp add: saveAdminSession_def Let_def)
  have load: "loadAdminSession ?d nowMs = (?d, Inr (Some ?x))"
    by (simp add: loadAdminSession_def scope_readable parse_stored [OF tok(1)])
  have "loadAdminSession (clearAdminSession ?d) later = (clearAdminSession ?d, Inr None)"
    by (simp add: loadAdminSession_def clearAdminSession_def migrateLegacySessionIfNeeded_def parseSession_def normalizeOptionalText_def jstr_null_def)
  then show ?thesis using save load tok(2) by (simp add: getAdminToken_def)
qed

theorem session_lifecycle_witness:
  "\<exists>d'. saveAdminSession \<lparr>sd_scoped = (\<lambda>_. None), sd_activeScope = None, sd_legacy = None\<rparr>
       \<lparr>se_token = '' tok '', se_role = SessionAdmin, se_source = SourcePassword, se_adminName = None, se_adminId = None, se_createdAt = ''t''\<rparr> = Inr d'
     \<and> getAdminToken d' 7 = (d', Inr (Some ''tok''))"
proof -
  have "js_trim '' tok '' = ''tok''" by code_simp
  then show ?thesis
    using session_lifecycle [of "\<lparr>se_token = '' tok '', se_role = SessionAdmin, se_source = SourcePassword, se_adminName = None,
      se_adminId = None, se_createdAt = ''t''\<rparr>" "\<lparr>sd_scoped = (\<lambda>_. None), sd_activeScope = None, sd_legacy = None\<rparr>" 7 8] by auto
qed

text \<open>Two administrators whose ids differ only in a separator share one slot.\<close>

lemma scopes_collide: "normalizeScopePart ''a.b'' = normalizeScopePart ''a-b''"
  by code_simp

end
