(* ===== verification/Request_Dispatch.thy ===== *)
theory Request_Dispatch
  imports Trail_Spec Random_Anchor Runtime_Status Event_Handlers Account_Handlers Security_Listings Master_Search_Sql
begin

text \<open>
  The whole Durable Object: \<open>handleRequest\<close> gives each path its handler, in the order of the comparisons in the
  source, and \<open>objectStep\<close> is one request through \<open>fetch\<close> with this handler. Beside the storage an object keeps two things in
  memory: the derived signer and the search index.
\<close>

record object_memory =
  om_signer :: signer_cache
  om_search :: search_state

text \<open>What a request draws at random, wherever its handler draws it.\<close>

record randomness =
  rn_draws :: draws
  rn_uuids :: uuids
  rn_anchor :: "32 word"

text \<open>\<open>/^\/metadata\/([^/]+)\.json$/\<close>: the segment without its extension.\<close>

definition metadataSegment :: "string \<Rightarrow> string option" where
  "metadataSegment path =
     (let seg = drop 10 path
      in if prefix ''/metadata/'' path \<and> suffix ''.json'' seg \<and> 5 < length seg \<and> CHR ''/'' \<notin> set seg
         then Some (take (length seg - 5) seg) else None)"

text \<open>A governance handler that throws has registered its operator before.\<close>

definition governed :: "Env \<Rightarrow> storage \<Rightarrow> int \<Rightarrow> Request \<Rightarrow> (storage \<times> Response) or_error \<Rightarrow> outcome" where
  "governed env s nowMs request result =
     (case result of
        Inr (s', response) \<Rightarrow> (s', Inr response)
      | Inl e \<Rightarrow> (fst (ensureGovernanceOperatorContext env s nowMs request), Inl e))"

definition withSigner :: "object_memory \<Rightarrow> signer_cache \<times> outcome \<Rightarrow> object_memory \<times> outcome" where
  "withSigner m result = (m\<lparr>om_signer := fst result\<rparr>, snd result)"

definition answered :: "storage \<times> Response \<Rightarrow> outcome" where
  "answered result = (fst result, Inr (snd result))"

text \<open>
  Four parts of the chain of comparisons; a part that has no handler for the path goes on with the next. \<open>verb\<close> is the
  method of the request.
\<close>

definition masterRoutes ::
  "world \<Rightarrow> string \<Rightarrow> randomness \<Rightarrow> int \<Rightarrow> object_memory \<Rightarrow> storage \<Rightarrow> Request \<Rightarrow> string \<Rightarrow> (string \<times> string) list
     \<Rightarrow> object_memory \<times> outcome \<Rightarrow> object_memory \<times> outcome" where
  "masterRoutes w ticketNote rn nowMs m s request path params otherwise =
     (let H = w_hash w; env = w_env w; svc = w_services w; verb = rq_method request
      in if path = ''/_internal/audit/random-anchor'' \<and> verb = ''POST''
           then (m, handleRandomAnchor H env svc s nowMs (rn_anchor rn) request)
         else if metadataSegment path \<noteq> None \<and> verb = ''GET'' then (m, handleMetadata ticketNote s (the (metadataSegment path)))
         else if path = ''/api/master/audit-logs'' \<and> verb = ''GET'' then (m, handleMasterAuditLogs env s request)
         else if path = ''/api/master/audit-integrity'' \<and> verb = ''GET'' then (m, handleAuditIntegrity H env svc s nowMs request params)
         else if path = ''/api/audit/receipts/verify'' \<and> verb = ''POST'' then (m, handleReceiptVerify H s nowMs request)
         else if path = ''/api/audit/receipts/verify-code'' \<and> verb = ''POST'' then (m, handleReceiptVerifyCode H s nowMs request)
         else if path = ''/api/admin/transfers'' \<and> verb = ''GET'' then (m, handleAdminTransfers env s nowMs request params)
         else if path = ''/api/master/transfers'' \<and> verb = ''GET'' then (m, handleMasterTransfers env s nowMs request params)
         else if path = ''/api/master/admin-disclosures'' \<and> verb = ''GET'' then (m, handleAdminDisclosures env s nowMs request params)
         else if path = ''/api/master/search'' \<and> verb = ''GET''
           then (let (search, result) = handleMasterSearch env (om_search m) s nowMs request params in (m\<lparr>om_search := search\<rparr>, s, result))
         else otherwise)"

definition accountRoutes ::
  "world \<Rightarrow> randomness \<Rightarrow> int \<Rightarrow> object_memory \<Rightarrow> storage \<Rightarrow> Request \<Rightarrow> string \<Rightarrow> (string \<times> string) list
     \<Rightarrow> object_memory \<times> outcome \<Rightarrow> object_memory \<times> outcome" where
  "accountRoutes w rn nowMs m s request path params otherwise =
     (let H = w_hash w; env = w_env w; svc = w_services w; uid = rn_uuids rn; verb = rq_method request
      in if path = ''/api/admin/invite'' \<and> verb = ''POST'' then (m, answered (handleInvite H env uid s nowMs request))
         else if path = ''/api/admin/invite/pending'' \<and> verb = ''GET'' then (m, s, Inr (handleInvitePending env s nowMs request))
         else if path = ''/api/admin/invite/approve'' \<and> verb = ''POST'' then (m, answered (handleInviteApprove H env uid s nowMs request))
         else if path = ''/api/admin/invite/reject'' \<and> verb = ''POST'' then (m, answered (handleInviteReject env s nowMs request))
         else if path = ''/api/admin/invites'' \<and> verb = ''GET'' then (m, handleInviteList env s request params)
         else if path = ''/api/admin/rename'' \<and> verb = ''POST'' then (m, handleAdminRename env s request)
         else if path = ''/api/admin/revoke'' \<and> verb = ''POST'' then (m, handleAdminRevoke env s nowMs request)
         else if path = ''/api/admin/login'' \<and> verb = ''POST'' then (m, handleAdminLogin env s request)
         else if path = ''/v1/school/events'' \<and> verb = ''GET'' then (m, handleEventList env s request (queryParam params ''scope''))
         else if path = ''/v1/school/events'' \<and> verb = ''POST'' then (m, handleEventCreate H env svc uid s nowMs request)
         else if segmentBetween ''/v1/school/events/'' [] path \<noteq> None \<and> verb = ''GET''
           then (m, handleEventGet s (the (segmentBetween ''/v1/school/events/'' [] path)))
         else if segmentBetween ''/v1/school/events/'' ''/close'' path \<noteq> None \<and> verb = ''POST''
           then (m, handleEventClose H env svc uid s nowMs request (the (segmentBetween ''/v1/school/events/'' ''/close'' path)))
         else if segmentBetween ''/v1/school/events/'' ''/claimants'' path \<noteq> None \<and> verb = ''GET''
           then (m, handleClaimants env s request (the (segmentBetween ''/v1/school/events/'' ''/claimants'' path)))
         else if path = ''/v1/school/pop-status'' \<and> verb = ''GET''
           then (let (c, r) = handlePopStatus w s (om_signer m) nowMs request in (m\<lparr>om_signer := c\<rparr>, s, Inr r))
         else if path = ''/v1/school/audit-status'' \<and> verb = ''GET'' then (m, s, Inr (handleAuditStatus env))
         else if path = ''/v1/school/runtime-status'' \<and> verb = ''GET''
           then (let (c, r) = handleRuntimeStatus w s (om_signer m) nowMs request in (m\<lparr>om_signer := c\<rparr>, s, Inr r))
         else otherwise)"

definition securityRoutes ::
  "world \<Rightarrow> randomness \<Rightarrow> int \<Rightarrow> object_memory \<Rightarrow> storage \<Rightarrow> Request \<Rightarrow> string \<Rightarrow> (string \<times> string) list
     \<Rightarrow> object_memory \<times> outcome \<Rightarrow> object_memory \<times> outcome" where
  "securityRoutes w rn nowMs m s request path params otherwise =
     (let H = w_hash w; env = w_env w; uid = rn_uuids rn; verb = rq_method request; gov = governed env s nowMs request
      in if path = ''/v1/school/admin/security/freeze-status'' \<and> verb = ''GET'' then (m, handleFreezeStatus env s nowMs request)
         else if path = ''/v1/school/admin/security/report-obligations'' \<and> verb = ''GET'' then (m, handleReportObligations env s nowMs request params)
         else if path = ''/v1/school/admin/security/logs'' \<and> verb = ''GET'' then (m, handleSecurityLogs env s nowMs request params)
         else if path = ''/v1/school/admin/security/governance/proposals'' \<and> verb = ''GET''
           then (m, handleGovernanceProposals env s nowMs request params)
         else if path = ''/v1/school/admin/security/users'' \<and> verb = ''GET'' then (m, handleModeratedUsers env s nowMs request params)
         else if path = ''/v1/school/admin/security/unlock'' \<and> verb = ''POST'' then (m, gov (handleUnlock H env uid s nowMs request))
         else if path = ''/v1/school/admin/security/revoke-access'' \<and> verb = ''POST'' then (m, gov (handleRevokeAccess H env uid s nowMs request))
         else if path = ''/v1/school/admin/security/restore-access'' \<and> verb = ''POST'' then (m, gov (handleRestoreAccess H env uid s nowMs request))
         else if path = ''/v1/school/admin/security/operator/revoke'' \<and> verb = ''POST'' then (m, gov (handleRevokeOperator H env uid s nowMs request))
         else if path = ''/v1/school/admin/security/operator/restore'' \<and> verb = ''POST'' then (m, gov (handleRestoreOperator H env uid s nowMs request))
         else if path = ''/v1/school/admin/security/users/freeze'' \<and> verb = ''POST'' then (m, gov (handleFreezeUser H env uid s nowMs request))
         else if path = ''/v1/school/admin/security/users/unfreeze'' \<and> verb = ''POST'' then (m, gov (handleUnfreezeUser H env uid s nowMs request))
         else if path = ''/v1/school/admin/security/users/delete'' \<and> verb = ''POST'' then (m, gov (handleDeleteUser H env uid s nowMs request))
         else if path = ''/v1/school/admin/security/users/restore'' \<and> verb = ''POST'' then (m, gov (handleRestoreUser H env uid s nowMs request))
         else otherwise)"

definition REMEDIATION_PATH :: string where "REMEDIATION_PATH = ''/api/admin/cost-of-forgery/remediation/''"

definition claimRoutes ::
  "world \<Rightarrow> randomness \<Rightarrow> int \<Rightarrow> object_memory \<Rightarrow> storage \<Rightarrow> Request \<Rightarrow> string \<Rightarrow> object_memory \<times> outcome \<Rightarrow> object_memory \<times> outcome" where
  "claimRoutes w rn nowMs m s request path otherwise =
     (let H = w_hash w; env = w_env w; svc = w_services w; d = rn_draws rn; verb = rq_method request
      in if path = ''/api/cost-of-forgery/remediation/request'' \<and> verb = ''POST''
           then (m, handleRemediationRequest H env svc (dr_id d) s nowMs request)
         else if segmentBetween REMEDIATION_PATH ''/approve'' path \<noteq> None \<and> verb = ''POST''
           then (m, handleRemediationApprove H env svc s nowMs (the (segmentBetween REMEDIATION_PATH ''/approve'' path)) request)
         else if segmentBetween REMEDIATION_PATH ''/reject'' path \<noteq> None \<and> verb = ''POST''
           then (m, handleRemediationReject H env svc s nowMs (the (segmentBetween REMEDIATION_PATH ''/reject'' path)) request)
         else if path = ''/v1/school/pop-proof'' \<and> verb = ''POST''
           then (let (c, result) = handlePopProof (w_crypto w) H env svc (om_signer m) s nowMs request in withSigner m (c, answered result))
         else if path = ''/v1/school/claims'' \<and> verb = ''POST'' then withSigner m (handleWalletClaim w d (om_signer m) s nowMs request)
         else if path = ''/api/auth/verify'' \<and> verb = ''POST'' then (m, handleAuthVerify w s request)
         else if path = ''/api/users/tickets/sync'' \<and> verb = ''POST'' then (m, handleTicketsSync w s nowMs request)
         else if path = ''/api/users/register'' \<and> verb = ''POST'' then (m, handleUserRegister w d s nowMs request)
         else if segmentBetween ''/api/events/'' ''/claim'' path \<noteq> None \<and> verb = ''POST''
           then withSigner m (handleUserClaim w d (om_signer m) s nowMs (the (segmentBetween ''/api/events/'' ''/claim'' path)) request)
         else otherwise)"

definition handleRequest ::
  "world \<Rightarrow> string \<Rightarrow> randomness \<Rightarrow> int \<Rightarrow> object_memory \<Rightarrow> storage \<Rightarrow> Request \<Rightarrow> string \<Rightarrow> (string \<times> string) list
     \<Rightarrow> object_memory \<times> outcome" where
  "handleRequest w ticketNote rn nowMs m s request path params =
     masterRoutes w ticketNote rn nowMs m s request path params
       (accountRoutes w rn nowMs m s request path params
         (securityRoutes w rn nowMs m s request path params
           (claimRoutes w rn nowMs m s request path (m, handleUnmatched (w_env w) s request))))"

section \<open>A request through the object\<close>

record visit =
  vi_request :: Request
  vi_path :: string
  vi_params :: "(string \<times> string) list"
  vi_startedAt :: int
  vi_nowMs :: int
  vi_random :: randomness

text \<open>The memory changes when the handler runs, that is, when neither the preflight nor the audit mode stops the request.\<close>

definition objectStep :: "world \<Rightarrow> string \<Rightarrow> visit \<Rightarrow> object_memory \<times> storage \<Rightarrow> (object_memory \<times> storage) \<times> Response" where
  "objectStep w ticketNote v ob =
     (let (m, s) = ob; H = w_hash w; env = w_env w; rq = vi_request v; path = vi_path v;
          handler = (\<lambda>s1. handleRequest w ticketNote (vi_random v) (vi_nowMs v) m s1 rq path (vi_params v));
          m' = (case enforceSecurityPreflight H env s rq path (vi_startedAt v) of
                  (s1, Some _) \<Rightarrow> m
                | (s1, None) \<Rightarrow>
                    (if isApiPath path \<and> isAuditFailClosed env path (rq_method rq) \<and> \<not> as_operationalReady (getAuditStatus env) then m
                     else fst (handler s1)));
          (s', response) = fetch H env (w_services w) (\<lambda>s1 _ _. snd (handler s1)) s (vi_startedAt v) (vi_nowMs v) rq path (vi_params v)
      in ((m', s'), response))"

definition visits :: "world \<Rightarrow> string \<Rightarrow> visit list \<Rightarrow> object_memory \<times> storage \<Rightarrow> object_memory \<times> storage" where
  "visits w ticketNote vs ob = fold (\<lambda>v ob. fst (objectStep w ticketNote v ob)) vs ob"

end
