(* ===== verification/Dispatch_Spec.thy ===== *)
theory Dispatch_Spec
  imports Request_Dispatch Event_Spec
begin

text \<open>
  What a stranger can do: a request without valid operator credentials reaches public routes only, and whatever
  strangers send, the administration of the service (accounts, invitations, security records, events and their owners,
  approved overrides) stays as it is.
\<close>

section \<open>Steps of public handlers\<close>

text \<open>What public handlers write lies under these prefixes.\<close>

definition PUBLIC_PREFIXES :: "string list" where
  "PUBLIC_PREFIXES = [''audit'', ''claim:'', ''confirmation_code_index:'', ''ticket_receipt'', ''user'', ''pop_'',
     ''cost_of_forgery_cache:'', ''cost_of_forgery_remediation:request:'']"

locale public_frame =
  fixes R :: "string \<Rightarrow> bool"
  assumes outside: "R k \<Longrightarrow> p \<in> set PUBLIC_PREFIXES \<Longrightarrow> \<not> prefix p k"
begin

lemma not_public:
  assumes "R k"
  shows "\<not> prefix ''audit'' k" "\<not> prefix ''claim:'' k" "\<not> prefix ''confirmation_code_index:'' k" "\<not> prefix ''ticket_receipt'' k"
    "\<not> prefix ''user'' k" "\<not> prefix ''pop_'' k" "\<not> prefix ''cost_of_forgery_cache:'' k"
    "\<not> prefix ''cost_of_forgery_remediation:request:'' k"
  using outside [OF assms] by (simp_all add: PUBLIC_PREFIXES_def)

lemma other_keys:
  assumes "R k"
  shows "k \<noteq> claimKey e t" "k \<noteq> confirmationCodeIndexKey c" "k \<noteq> ticketReceiptByCodeKey e c" "k \<noteq> ticketReceiptBySubjectKey e t"
    "k \<noteq> userKey u" "k \<noteq> userIdIndexKey h" "k \<noteq> USER_ID_CHAIN_LAST_HASH_KEY" "k \<noteq> popGlobalKey g" "k \<noteq> popStreamKey g"
    "k \<noteq> popHistoryKey ts h" "k \<noteq> buildPopClaimProofCacheKey H e' c' g' cl p x y" "k \<noteq> RANDOM_ANCHOR_STATE_KEY"
    "k \<noteq> buildCostOfForgeryWalletCacheKey H wl a ms" "k \<noteq> costOfForgeryRemediationRequestKey i"
  using not_public [OF assms]
  by (auto simp: claimKey_def CLAIM_PREFIX_def key_defs prefix_defs USER_ID_CHAIN_LAST_HASH_KEY_def popGlobalKey_def popStreamKey_def
      popHistoryKey_def POP_CHAIN_GLOBAL_PREFIX_def POP_CHAIN_STREAM_PREFIX_def buildPopClaimProofCacheKey_def POP_PROOF_CACHE_PREFIX_def
      RANDOM_ANCHOR_STATE_KEY_def buildCostOfForgeryWalletCacheKey_def COST_OF_FORGERY_CACHE_PREFIX_def
      costOfForgeryRemediationRequestKey_def COST_OF_FORGERY_REMEDIATION_REQUEST_PREFIX_def Let_def)

lemma append_same:
  assumes "R k" "appendAuditLog H env svc s n ev a d e = Inr (s', entry)"
  shows "sto_get s' k = sto_get s k"
  by (rule append_get_other [OF assms(2) not_public(1) [OF assms(1)]])

lemma appendThen_same:
  assumes "R k" "\<And>s' entry. sto_get (fst (f s' entry)) k = sto_get s' k"
  shows "sto_get (fst (appendThen H env svc s n ev a d e f)) k = sto_get s k"
  using append_same [OF assms(1)] assms(2) by (auto simp: appendThen_def split: sum.splits)

lemma claim_steps:
  assumes "R k"
  shows "sto_get (resolvePendingClaim doStorageAdapter s e t c) k = sto_get s k"
    "sto_get (addClaim doStorageAdapter s e t c n) k = sto_get s k"
    "sto_get (ensureConfirmationCodeIndexed s n e t c') k = sto_get s k"
    "sto_get (storeParticipationTicketReceipt s n e t r) k = sto_get s k"
  using other_keys [OF assms]
  by (simp_all add: resolvePendingClaim_def addClaim_def putSerialized_def doStorageAdapter_def ensureConfirmationCodeIndexed_def
      storeParticipationTicketReceipt_def Let_def split: option.splits)

lemma settle_same: "R k \<Longrightarrow> sto_get (fst (settlePending s e t f)) k = sto_get s k"
  by (simp add: settlePending_def claim_steps split: option.splits)

lemma reserve_same:
  assumes "R k" "reserveUniqueConfirmationCode s n rnd e t = Inr (s', c)"
  shows "sto_get s' k = sto_get s k"
proof -
  have "sto_get s' k = sto_get s k" if "reserveAttempts s legacy e t n bs = Inr (s', c)" for legacy e t bs
    using that other_keys [OF assms(1)] by (induction s legacy e t n bs rule: reserveAttempts.induct) (auto simp: Let_def split: if_splits)
  then show ?thesis using assms(2) by (auto simp: reserveUniqueConfirmationCode_def Let_def split: if_splits)
qed

lemma risk_same: "R k \<Longrightarrow> sto_get (fst (enforceCostOfForgeryRisk H env f rnd s n rq p)) k = sto_get s k"
  using other_keys
  by (auto simp: enforceCostOfForgeryRisk_def cacheWalletCostOfForgeryDecision_def Let_def split: option.splits sum.splits)

lemma issue_same:
  assumes "R k"
  shows "sto_get (fst (issueClaim w d s n e t ev a data)) k = sto_get s k"
  by (auto simp: issueClaim_def claim_steps [OF assms] Let_def dest!: append_same [OF assms] reserve_same [OF assms] split: sum.splits)

lemma report_same:
  assumes "R k"
  shows "sto_get (fst (reportOnchainClaim w s n e t c ev entry)) k = sto_get s k"
  by (auto simp: reportOnchainClaim_def claim_steps [OF assms] Let_def dest!: append_same [OF assms] split: sum.splits option.splits)

section \<open>Public handlers\<close>

lemma wallet_same:
  assumes "R k"
  shows "sto_get (fst (snd (handleWalletClaim w d c s n rq))) k = sto_get s k"
proof -
  have rep: "sto_get (fst (walletReport w t n cl pf code)) k = sto_get t k" for t cl pf code
    using report_same [OF assms] by (auto simp: walletReport_def Let_def case_prod_unfold split: option.splits sum.splits)
  have iss: "sto_get (fst (walletIssue w d t n rq b cl q)) k = sto_get t k" for t b cl q
    using risk_same [OF assms] issue_same [OF assms]
    by (auto simp: walletIssue_def Let_def case_prod_unfold split: option.splits sum.splits)
  have "sto_get (fst (walletParticipate w d t n rq b pf cl)) k = sto_get t k" for t b pf cl
    using rep iss settle_same [OF assms] by (auto simp: walletParticipate_def Let_def case_prod_unfold split: option.splits)
  then show ?thesis by (auto simp: handleWalletClaim_def Let_def split: option.splits sum.splits prod.splits)
qed

lemma user_claim_same:
  assumes "R k"
  shows "sto_get (fst (snd (handleUserClaim w d c s n seg rq))) k = sto_get s k"
proof -
  have rep: "sto_get (fst (userReport w t n cl pf code)) k = sto_get t k" for t cl pf code
    using report_same [OF assms] by (auto simp: userReport_def Let_def case_prod_unfold split: option.splits sum.splits)
  have iss: "sto_get (fst (userIssue w d t n rq b cl q)) k = sto_get t k" for t b cl q
    using risk_same [OF assms] issue_same [OF assms]
    by (auto simp: userIssue_def Let_def case_prod_unfold split: option.splits sum.splits)
  have "sto_get (fst (userParticipate w d t n rq b pf cl)) k = sto_get t k" for t b pf cl
    using rep iss settle_same [OF assms] by (auto simp: userParticipate_def Let_def case_prod_unfold split: option.splits)
  then show ?thesis by (auto simp: handleUserClaim_def Let_def split: option.splits sum.splits prod.splits)
qed

lemma register_same:
  assumes "R k"
  shows "sto_get (fst (handleUserRegister w d s n rq)) k = sto_get s k"
proof -
  have "sto_get s' k = sto_get t k" if "registerUserWithUniqueId H t n u dn ph = Inr (s', r)" for H t u dn ph s' r
    using that other_keys [OF assms] by (auto simp: registerUserWithUniqueId_def Let_def split: if_splits option.splits)
  then show ?thesis using risk_same [OF assms]
    by (auto simp: handleUserRegister_def Let_def case_prod_unfold intro!: appendThen_same [OF assms, THEN trans]
        split: option.splits sum.splits)
qed

lemma remediation_same: "R k \<Longrightarrow> sto_get (fst (handleRemediationRequest H env svc rnd s n rq)) k = sto_get s k"
  using other_keys
  by (auto simp: handleRemediationRequest_def Let_def intro!: appendThen_same [THEN trans] split: option.splits sum.splits)

lemma pop_same:
  assumes "R k"
  shows "sto_get (fst (snd (handlePopProof cr H env svc c s n rq))) k = sto_get s k"
proof -
  have "sto_get (fst (signPopClaimProof cr H env svc s n sg q r ca g cl ex (buildPopClaimProofCacheKey H e' c' g' cl' p x y))) k = sto_get s k"
    for sg q r ca g cl ex e' c' g' cl' p x y
    using other_keys [OF assms]
    by (auto simp: signPopClaimProof_def Let_def case_prod_unfold dest!: append_same [OF assms] split: sum.splits)
  then have "sto_get (fst (snd (issuePopClaimProof cr H env svc c s n b))) k = sto_get s k" for b
    by (auto simp: issuePopClaimProof_def Let_def case_prod_unfold split: sum.splits option.splits)
  then show ?thesis by (auto simp: handlePopProof_def case_prod_unfold split: sum.splits)
qed

lemma anchor_same:
  assumes "R k"
  shows "sto_get (fst (handleRandomAnchor H env svc s c dr rq)) k = sto_get s k"
proof -
  have "sto_get (fst (activeAnchorState s dr p ws)) k = sto_get s k" for p ws
    using other_keys [OF assms] by (auto simp: activeAnchorState_def Let_def split: option.splits)
  moreover have "sto_get (fst (anchorWindow H env svc t c p n a)) k = sto_get t k" for t p n a
    using other_keys [OF assms] by (auto simp: anchorWindow_def Let_def dest!: append_same [OF assms] split: sum.splits)
  ultimately show ?thesis
    by (auto simp: handleRandomAnchor_def maybeAppendRandomPeriodicAnchor_def Let_def case_prod_unfold split: sum.splits)
qed

end

section \<open>What a stranger reaches\<close>

text \<open>
  The administration: accounts, invitations and security records, events, their owners, approved overrides.
\<close>

definition isAdminKey :: "string \<Rightarrow> bool" where
  "isAdminKey k = (prefix ''admin_'' k \<or> prefix EVENT_PREFIX k \<or> prefix EVENT_OWNER_PREFIX k
     \<or> prefix COST_OF_FORGERY_REMEDIATION_OVERRIDE_PREFIX k)"

interpretation admin_frame: public_frame isAdminKey
  by unfold_locales
    (auto simp: isAdminKey_def PUBLIC_PREFIXES_def EVENT_PREFIX_def EVENT_OWNER_PREFIX_def COST_OF_FORGERY_REMEDIATION_OVERRIDE_PREFIX_def
      prefix_def)

definition PUBLIC_POSTS :: "string list" where
  "PUBLIC_POSTS = [''/_internal/audit/random-anchor'', ''/api/audit/receipts/verify'', ''/api/audit/receipts/verify-code'', ''/api/admin/login'',
     ''/api/cost-of-forgery/remediation/request'', ''/v1/school/pop-proof'', ''/v1/school/claims'', ''/api/auth/verify'',
     ''/api/users/tickets/sync'', ''/api/users/register'']"

definition PUBLIC_GETS :: "string list" where
  "PUBLIC_GETS = [''/v1/school/events'', ''/v1/school/pop-status'', ''/v1/school/audit-status'', ''/v1/school/runtime-status'']"

definition publicRoute :: "string \<Rightarrow> string \<Rightarrow> bool" where
  "publicRoute verb path =
     (verb = ''OPTIONS''
      \<or> (verb = ''POST'' \<and> (path \<in> set PUBLIC_POSTS \<or> segmentBetween ''/api/events/'' ''/claim'' path \<noteq> None))
      \<or> (verb = ''GET'' \<and> (path \<in> set PUBLIC_GETS \<or> metadataSegment path \<noteq> None \<or> segmentBetween ''/v1/school/events/'' [] path \<noteq> None)))"

text \<open>A request that is turned away changes nothing, not even in memory.\<close>

definition refused :: "object_memory \<Rightarrow> storage \<Rightarrow> object_memory \<times> outcome \<Rightarrow> bool" where
  "refused m s out \<longleftrightarrow> (\<exists>r. out = (m, s, Inr r) \<and> rs_status r \<in> {401, 404, 500, 503})"

definition strangerOutcome :: "string \<Rightarrow> string \<Rightarrow> object_memory \<Rightarrow> storage \<Rightarrow> object_memory \<times> outcome \<Rightarrow> bool" where
  "strangerOutcome verb path m s out \<longleftrightarrow>
     (publicRoute verb path \<or> refused m s out) \<and> (\<forall>k. isAdminKey k \<longrightarrow> sto_get (fst (snd out)) k = sto_get s k)"

lemma stranger_if:
  "(c \<Longrightarrow> strangerOutcome v p m s x) \<Longrightarrow> strangerOutcome v p m s y \<Longrightarrow> strangerOutcome v p m s (if c then x else y)"
  by simp

lemma stranger_refused: "rs_status r \<in> {401, 404, 500, 503} \<Longrightarrow> strangerOutcome v p m s (m, s, Inr r)"
  by (simp add: strangerOutcome_def refused_def)

lemma stranger_public:
  "publicRoute v p \<Longrightarrow> (\<And>k. isAdminKey k \<Longrightarrow> sto_get (fst out) k = sto_get s k) \<Longrightarrow> strangerOutcome v p m s (m', out)"
  by (simp add: strangerOutcome_def)

lemma read_only [simp]:
  "fst (handleMetadata note s seg) = s" "fst (handleReceiptVerify H s n rq) = s" "fst (handleReceiptVerifyCode H s n rq) = s"
  "fst (handleAdminLogin env s rq) = s" "fst (handleEventList env s rq scope) = s" "fst (handleEventGet s i) = s"
  "fst (handleAuthVerify w s rq) = s" "fst (handleTicketsSync w s n rq) = s" "fst (handleUnmatched env s rq) = s"
  by (simp_all add: handleMetadata_def handleReceiptVerify_def handleReceiptVerifyCode_def handleAdminLogin_def handleEventList_def
      handleEventGet_def handleAuthVerify_def handleTicketsSync_def handleUnmatched_def Let_def case_prod_unfold
      split: option.split sum.split prod.split js.split)

lemmas public_routes = publicRoute_def PUBLIC_POSTS_def PUBLIC_GETS_def

lemma unauthorized_status [simp]: "rs_status unauthorizedResponse = 401"
  by (simp add: unauthorizedResponse_def)

lemma stranger_contexts:
  assumes "authenticateOperator env s rq = None"
  shows "ensureOperatorContext env s n rq = (s, Inl unauthorizedResponse)"
    "ensureGovernanceOperatorContext env s n rq = (s, Inl unauthorizedResponse)"
    "requireAdminAuthorization env s rq = Some unauthorizedResponse"
    "inviteIssuer env s rq = Inl unauthorizedResponse"
    "pendingRemediation env s rq seg = Inl (rs_body unauthorizedResponse, rs_status unauthorizedResponse)"
  using assms by (simp_all add: ensureOperatorContext_def ensureGovernanceOperatorContext_def requireAdminAuthorization_def inviteIssuer_def
      pendingRemediation_def)

lemma stranger_master:
  assumes "authenticateOperator env s rq = None"
  shows "\<exists>r. requireMasterAuthorization env rq = Some r \<and> rs_status r \<in> {401, 404, 500, 503}"
  using assms
  by (auto simp: requireMasterAuthorization_def authenticateOperator_def insecureMasterPasswordResponse_def serverConfigErrorResponse_def
      split: option.splits if_splits)

lemma stranger_master_routes:
  assumes none: "authenticateOperator (w_env w) s rq = None" and other: "strangerOutcome (rq_method rq) path m s out"
  shows "strangerOutcome (rq_method rq) path m s (masterRoutes w note rn n m s rq path params out)"
proof -
  obtain r where r: "requireMasterAuthorization (w_env w) rq = Some r" "rs_status r \<in> {401, 404, 500, 503}"
    using stranger_master [OF none] by blast
  show ?thesis
    unfolding masterRoutes_def Let_def
    by (intro stranger_if other)
      (auto simp: handleMasterAuditLogs_def handleAuditIntegrity_def handleAdminTransfers_def handleMasterTransfers_def
        handleAdminDisclosures_def handleMasterSearch_def r(1) none public_routes admin_frame.anchor_same stranger_refused [OF r(2)] stranger_refused
        intro!: stranger_public)
qed

lemma stranger_account_routes:
  assumes none: "authenticateOperator (w_env w) s rq = None" and other: "strangerOutcome (rq_method rq) path m s out"
  shows "strangerOutcome (rq_method rq) path m s (accountRoutes w rn n m s rq path params out)"
proof -
  obtain r where r: "requireMasterAuthorization (w_env w) rq = Some r" "rs_status r \<in> {401, 404, 500, 503}"
    using stranger_master [OF none] by blast
  show ?thesis
    unfolding accountRoutes_def Let_def
    by (intro stranger_if other)
      (auto simp: handleInvite_def handleInvitePending_def handleInviteApprove_def handleInviteReject_def handleInviteList_def
        handleAdminRename_def handleAdminRevoke_def handleEventCreate_def handleEventClose_def handleClaimants_def answered_def
        stranger_contexts [OF none] r(1) none public_routes stranger_refused [OF r(2)] stranger_refused case_prod_unfold intro!: stranger_public)
qed

lemma stranger_security_routes:
  assumes none: "authenticateOperator (w_env w) s rq = None" and other: "strangerOutcome (rq_method rq) path m s out"
  shows "strangerOutcome (rq_method rq) path m s (securityRoutes w rn n m s rq path params out)"
  unfolding securityRoutes_def Let_def
  by (intro stranger_if other)
    (simp_all add: handleFreezeStatus_def handleReportObligations_def handleSecurityLogs_def handleGovernanceProposals_def
      handleModeratedUsers_def viewed_def handleUnlock_def handleRevokeAccess_def handleRestoreAccess_def handleRevokeOperator_def
      handleRestoreOperator_def handleFreezeUser_def handleUnfreezeUser_def handleDeleteUser_def handleRestoreUser_def govHandler_def
      governed_def stranger_contexts [OF none] stranger_refused)

lemma stranger_claim_routes:
  assumes none: "authenticateOperator (w_env w) s rq = None" and other: "strangerOutcome (rq_method rq) path m s out"
  shows "strangerOutcome (rq_method rq) path m s (claimRoutes w rn n m s rq path out)"
  unfolding claimRoutes_def Let_def
  by (intro stranger_if other)
    (auto simp: handleRemediationApprove_def handleRemediationReject_def respond_def withSigner_def answered_def stranger_contexts [OF none]
      admin_frame.wallet_same admin_frame.user_claim_same admin_frame.register_same admin_frame.remediation_same admin_frame.pop_same
      public_routes stranger_refused case_prod_unfold intro!: stranger_public)

lemma stranger_request:
  assumes "authenticateOperator (w_env w) s rq = None"
  shows "strangerOutcome (rq_method rq) path m s (handleRequest w note rn n m s rq path params)"
proof -
  have "strangerOutcome (rq_method rq) path m s (m, handleUnmatched (w_env w) s rq)"
    by (simp add: handleUnmatched_def strangerOutcome_def publicRoute_def refused_def)
  then show ?thesis unfolding handleRequest_def
    by (intro stranger_master_routes stranger_account_routes stranger_security_routes stranger_claim_routes assms)
qed

section \<open>Requests through the object\<close>

text \<open>A region that neither the counters of the rate limit nor the audit log touch is kept around a handler that keeps it.\<close>

lemma fetch_same:
  assumes "\<not> prefix SECURITY_RATE_LIMIT_PREFIX k" "\<not> prefix ''audit'' k"
    "\<And>s1 e. enforceSecurityPreflight H env s rq path a = (s1, e) \<Longrightarrow> sto_get (fst (h s1 rq path)) k = sto_get s1 k"
  shows "sto_get (fst (fetch H env svc h s a n rq path params)) k = sto_get s k"
proof -
  obtain s1 e where pre: "enforceSecurityPreflight H env s rq path a = (s1, e)" by fastforce
  obtain s2 out where h: "h s1 rq path = (s2, out)" by fastforce
  have s1: "sto_get s1 k = sto_get s k" by (rule preflight_frame [OF pre assms(1)])
  have s2: "sto_get s2 k = sto_get s k" using assms(3) [OF pre] s1 by (simp add: h)
  have trail: "sto_get s3 k = sto_get s2 k" if "appendApiAuditTrail H env svc s2 n rq path params st b a er = Inr s3" for st b er s3
    using that append_get_other [OF _ assms(2)] by (auto simp: appendApiAuditTrail_def Let_def split: if_splits sum.splits)
  show ?thesis
    by (cases e) (auto simp: fetch_def pre h s1 s2 Let_def dest!: trail split: sum.splits)
qed

lemma fetch_status:
  assumes "fetch H env svc h s a n rq path params = (s', r)"
    "\<And>s1 e. enforceSecurityPreflight H env s rq path a = (s1, e) \<Longrightarrow> \<exists>r0. h s1 rq path = (s1, Inr r0) \<and> rs_status r0 \<in> A"
  shows "rs_status r \<in> {413, 429, 503} \<union> A"
proof -
  obtain s1 e where pre: "enforceSecurityPreflight H env s rq path a = (s1, e)" by fastforce
  from assms(2) [OF pre] obtain r0 where h: "h s1 rq path = (s1, Inr r0)" "rs_status r0 \<in> A" by blast
  show ?thesis
  proof (cases e)
    case (Some x)
    then show ?thesis using assms(1) pre preflight_status [of H env s rq path a s1 x] by (auto simp: fetch_def)
  next
    case None
    have "r = notOperational env \<or> r = r0 \<or> (\<exists>m. r = auditPersistenceFailed m)"
      using assms(1) by (auto simp: fetch_def pre None h(1) Let_def split: if_splits sum.splits)
    then show ?thesis using h(2) by (auto simp: notOperational_def auditPersistenceFailed_def)
  qed
qed

lemma object_storage:
  "snd (fst (objectStep w note v (m, s)))
     = fst (fetch (w_hash w) (w_env w) (w_services w)
         (\<lambda>s1 _ _. snd (handleRequest w note (vi_random v) (vi_nowMs v) m s1 (vi_request v) (vi_path v) (vi_params v)))
         s (vi_startedAt v) (vi_nowMs v) (vi_request v) (vi_path v) (vi_params v))"
  by (simp add: objectStep_def Let_def case_prod_unfold)

lemma admin_keys [simp]: "isAdminKey (adminCodeKey c)"
  by (simp add: isAdminKey_def key_defs prefix_defs)

lemma admin_key_apart: "isAdminKey k \<Longrightarrow> \<not> prefix SECURITY_RATE_LIMIT_PREFIX k \<and> \<not> prefix ''audit'' k"
  by (auto simp: isAdminKey_def SECURITY_RATE_LIMIT_PREFIX_def EVENT_PREFIX_def EVENT_OWNER_PREFIX_def
      COST_OF_FORGERY_REMEDIATION_OVERRIDE_PREFIX_def prefix_def)

text \<open>Who a request authenticates depends on the stored codes only.\<close>

lemma auth_same:
  "(\<And>c. sto_get t (adminCodeKey c) = sto_get s (adminCodeKey c)) \<Longrightarrow> authenticateOperator env t rq = authenticateOperator env s rq"
  by (simp add: authenticateOperator_def split: option.split)

lemma stranger_after_preflight:
  assumes "authenticateOperator env s rq = None" "enforceSecurityPreflight H env s rq path a = (s1, e)"
  shows "authenticateOperator env s1 rq = None"
proof -
  have "sto_get s1 (adminCodeKey c) = sto_get s (adminCodeKey c)" for c
    using preflight_frame [OF assms(2)] admin_key_apart [OF admin_keys] by blast
  then show ?thesis using auth_same assms(1) by metis
qed

lemma stranger_step:
  assumes "authenticateOperator (w_env w) s (vi_request v) = None" "isAdminKey k"
  shows "sto_get (snd (fst (objectStep w note v (m, s)))) k = sto_get s k"
  unfolding object_storage
proof (rule fetch_same)
  fix s1 e
  assume "enforceSecurityPreflight (w_hash w) (w_env w) s (vi_request v) (vi_path v) (vi_startedAt v) = (s1, e)"
  from stranger_request [OF stranger_after_preflight [OF assms(1) this]]
  show "sto_get (fst (snd (handleRequest w note (vi_random v) (vi_nowMs v) m s1 (vi_request v) (vi_path v) (vi_params v)))) k = sto_get s1 k"
    using assms(2) by (simp add: strangerOutcome_def)
qed (use admin_key_apart [OF assms(2)] in simp_all)

text \<open>A stranger off the public routes: the handler, if the request gets as far, refuses and changes nothing.\<close>

lemma stranger_off_route:
  assumes "authenticateOperator (w_env w) s (vi_request v) = None" "\<not> publicRoute (rq_method (vi_request v)) (vi_path v)"
    and "enforceSecurityPreflight (w_hash w) (w_env w) s (vi_request v) (vi_path v) (vi_startedAt v) = (s1, e)"
  obtains r where "handleRequest w ticketNote rn n m s1 (vi_request v) (vi_path v) params = (m, s1, Inr r)" "rs_status r \<in> {401, 404, 500, 503}"
  using stranger_request [OF stranger_after_preflight [OF assms(1,3)], of "vi_path v" m ticketNote rn n params] assms(2) that
  by (auto simp: strangerOutcome_def refused_def)

section \<open>Properties\<close>

text \<open>
  C8. A request without valid operator credentials reaches public routes only: on any other route of the object it is
  answered 401, 404, 413, 429, 500 or 503, the memory of the object stays as it is, and in the storage nothing changes but
  the counters of the rate limits and the audit log, which records the attempt.
\<close>

theorem stranger_reaches_public_only:
  assumes "authenticateOperator (w_env w) s (vi_request v) = None" "\<not> publicRoute (rq_method (vi_request v)) (vi_path v)"
    and "objectStep w ticketNote v (m, s) = ((m', s'), r)"
  shows "rs_status r \<in> {401, 404, 413, 429, 500, 503} \<and> m' = m
    \<and> (\<forall>k. \<not> prefix SECURITY_RATE_LIMIT_PREFIX k \<longrightarrow> \<not> prefix ''audit'' k \<longrightarrow> sto_get s' k = sto_get s k)"
proof -
  obtain s1 e where pre: "enforceSecurityPreflight (w_hash w) (w_env w) s (vi_request v) (vi_path v) (vi_startedAt v) = (s1, e)" by fastforce
  obtain r0 where h: "handleRequest w ticketNote (vi_random v) (vi_nowMs v) m s1 (vi_request v) (vi_path v) (vi_params v) = (m, s1, Inr r0)"
    and r0: "rs_status r0 \<in> {401, 404, 500, 503}" by (rule stranger_off_route [OF assms(1,2) pre])
  have "sto_get s' k = sto_get s k" if "\<not> prefix SECURITY_RATE_LIMIT_PREFIX k" "\<not> prefix ''audit'' k" for k
  proof -
    have "sto_get (snd (fst (objectStep w ticketNote v (m, s)))) k = sto_get s k"
      unfolding object_storage
    proof (rule fetch_same [OF that])
      fix t x
      assume "enforceSecurityPreflight (w_hash w) (w_env w) s (vi_request v) (vi_path v) (vi_startedAt v) = (t, x)"
      then have "t = s1" using pre by simp
      then show "sto_get (fst (snd (handleRequest w ticketNote (vi_random v) (vi_nowMs v) m t (vi_request v) (vi_path v) (vi_params v)))) k
        = sto_get t k" by (simp add: h)
    qed
    then show ?thesis by (simp add: assms(3))
  qed
  moreover have "m' = m" using assms(3) by (auto simp: objectStep_def pre h Let_def split: option.splits prod.splits if_splits)
  moreover have "rs_status r \<in> {413, 429, 503} \<union> {401, 404, 500, 503}"
  proof (rule fetch_status)
    show "fetch (w_hash w) (w_env w) (w_services w)
         (\<lambda>s1 _ _. snd (handleRequest w ticketNote (vi_random v) (vi_nowMs v) m s1 (vi_request v) (vi_path v) (vi_params v)))
         s (vi_startedAt v) (vi_nowMs v) (vi_request v) (vi_path v) (vi_params v) = (s', r)"
      using assms(3) by (auto simp: objectStep_def Let_def split: prod.splits)
  qed (use pre h r0 in auto)
  ultimately show ?thesis by blast
qed

text \<open>
  C7. Strangers cannot administer the service: however many requests without valid credentials arrive, to whatever
  paths and with whatever bodies, every account, invitation, security record, event, event owner and approved override
  stays as it was, and every token authenticates the same operator as before.
\<close>

theorem strangers_cannot_administer:
  assumes "\<forall>v \<in> set vs. authenticateOperator (w_env w) s (vi_request v) = None" "visits w ticketNote vs (m, s) = (m', s')"
  shows "(\<forall>k. isAdminKey k \<longrightarrow> sto_get s' k = sto_get s k)
    \<and> authenticateOperator (w_env w) s' request = authenticateOperator (w_env w) s request"
proof -
  have "\<forall>k. isAdminKey k \<longrightarrow> sto_get (snd (visits w ticketNote vs (m, s))) k = sto_get s k"
    using assms(1)
  proof (induction vs arbitrary: m s)
    case (Cons v vs)
    obtain m1 s1 where o1: "fst (objectStep w ticketNote v (m, s)) = (m1, s1)" by fastforce
    have same: "sto_get s1 k = sto_get s k" if "isAdminKey k" for k
      using stranger_step [OF _ that, of w s v ticketNote m] Cons.prems o1 by simp
    have "\<forall>v \<in> set vs. authenticateOperator (w_env w) s1 (vi_request v) = None"
      using auth_same [of s1 s] same Cons.prems by simp
    then have "\<forall>k. isAdminKey k \<longrightarrow> sto_get (snd (visits w ticketNote vs (m1, s1))) k = sto_get s1 k" by (rule Cons.IH)
    then show ?case using same by (simp add: visits_def o1)
  qed (simp add: visits_def)
  then show ?thesis using assms(2) auth_same [of s' s "w_env w" request] by simp
qed

end
