(* ===== verification/Privilege_Spec.thy ===== *)
theory Privilege_Spec
  imports Dispatch_Spec
begin

text \<open>
  Who may change accounts: every route of the object, run with any credentials but the master's, leaves the stored
  administrator codes alone. Handlers of administrators are covered by the region of the code keys (\<open>Storage_Frame\<close>).
\<close>

section \<open>What administrators leave alone\<close>

interpretation code_region: key_region "prefix ADMIN_CODE_PREFIX"
  by unfold_locales (auto simp: ADMIN_CODE_PREFIX_def prefix_def)

abbreviation keepsCodes :: "storage \<Rightarrow> storage \<Rightarrow> bool" where
  "keepsCodes \<equiv> keeps (prefix ADMIN_CODE_PREFIX)"

lemma code_keys:
  "\<not> prefix ADMIN_CODE_PREFIX (eventKey i)" "\<not> prefix ADMIN_CODE_PREFIX (eventOwnerKey i)"
  "\<not> prefix ADMIN_CODE_PREFIX (costOfForgeryRemediationRequestKey q)"
  "\<not> prefix ADMIN_CODE_PREFIX (buildCostOfForgeryRemediationOverrideKey H a e h)"
  by (simp_all add: key_defs prefix_defs eventKey_def EVENT_PREFIX_def costOfForgeryRemediationRequestKey_def
      COST_OF_FORGERY_REMEDIATION_REQUEST_PREFIX_def buildCostOfForgeryRemediationOverrideKey_def
      COST_OF_FORGERY_REMEDIATION_OVERRIDE_PREFIX_def)

lemma appendThen_codes:
  assumes "keepsCodes s t" "\<And>s' entry. keepsCodes s' (fst (f s' entry))"
  shows "keepsCodes s (fst (appendThen H env svc t n ev a d e f))"
proof (cases "appendAuditLog H env svc t n ev a d e")
  case (Inr p)
  then have "keepsCodes t (fst p)" using code_region.keeps_append [of H env svc t n ev a d e "fst p" "snd p"] by simp
  then have "keepsCodes s (fst p)" using assms(1) keeps_trans by blast
  then have "keepsCodes s (fst (f (fst p) (snd p)))" using assms(2) keeps_trans by blast
  then show ?thesis using Inr by (simp add: appendThen_def case_prod_unfold)
qed (simp add: appendThen_def assms(1))

lemma create_codes: "keepsCodes s (fst (handleEventCreate H env svc uid s n rq))"
proof -
  have store: "keepsCodes t (fst (storeNewEvent H env svc uid t n operator actor data))" for t operator actor data
  proof -
    obtain t1 event where c: "createEvent doStorageAdapter t data n = (t1, event)" by fastforce
    obtain i where "t1 = sto_put t (eventKey i) event" "isEventObject event" by (rule new_event [OF c])
    then show ?thesis
      by (auto simp: storeNewEvent_def c code_keys eventOwnerToJs_def isEventObject_def Let_def
          intro!: appendThen_codes keeps_put code_region.keeps_security_log)
  qed
  note steps = code_region.keeps_context keeps_trans [OF _ code_region.keeps_guard] keeps_trans [OF _ code_region.keeps_issue_limit]
    keeps_trans [OF _ store]
  show ?thesis by (auto simp: handleEventCreate_def case_prod_unfold intro!: steps split: sum.splits option.splits)
qed

lemma close_codes: "keepsCodes s (fst (handleEventClose H env svc uid s n rq i))"
proof -
  have upd: "keepsCodes t (fst (updateEventState doStorageAdapter t i x))" for t x
  proof (cases "getEvent doStorageAdapter t i")
    case (Some event)
    obtain v u where "updateEventState doStorageAdapter t i x = (sto_put t (eventKey i) v, Some u)" "isEventObject v"
      by (rule update_ended [OF Some])
    then show ?thesis by (auto simp: code_keys isEventObject_def intro!: keeps_put)
  qed (simp add: updateEventState_def)
  have fin: "keepsCodes t (fst (appendThen H env svc (fst (updateEventState doStorageAdapter t i x)) n ev a d e
      (\<lambda>s3 _. respond (fst (appendAdminSecurityLog H u s3 c ac actor tg dt n)) b st)))" for t x ev a d e u c ac actor tg dt b st
    using upd by (auto intro!: appendThen_codes code_region.keeps_security_log)
  note steps = code_region.keeps_context keeps_trans [OF _ code_region.keeps_enforce] keeps_trans [OF _ fin] keeps_trans [OF _ upd]
  show ?thesis by (auto simp: handleEventClose_def case_prod_unfold Let_def intro!: steps split: sum.splits option.splits)
qed

lemma remediation_codes:
  "keepsCodes s (fst (handleRemediationApprove H env svc s n seg rq))" "keepsCodes s (fst (handleRemediationReject H env svc s n seg rq))"
  by (auto simp: handleRemediationApprove_def handleRemediationReject_def code_keys remediationOverrideToJs_def remediationRequestToJs_def Let_def
      intro!: appendThen_codes keeps_put split: sum.splits)

text \<open>Without the master password nobody acts as master: the master routes, invitations and governance refuse.\<close>

lemma not_master:
  assumes "requireMasterAuthorization env rq = Some r"
  shows "authenticateOperator env s rq = Some operator \<Longrightarrow> op_role operator = RoleAdmin \<and> op_source operator \<noteq> SrcMaster"
    "\<exists>x. inviteIssuer env s rq = Inl x"
    "\<exists>x. ensureGovernanceOperatorContext env s n rq = (fst (ensureOperatorContext env s n rq), Inl x)"
proof -
  show role: "op_role operator = RoleAdmin \<and> op_source operator \<noteq> SrcMaster" if "authenticateOperator env s rq = Some operator" for operator
    using that assms
    by (auto simp: authenticateOperator_def requireMasterAuthorization_def isDefaultMasterPasswordConfigured_def getConfiguredMasterPassword_def
        Let_def split: option.splits if_splits)
  show "\<exists>x. inviteIssuer env s rq = Inl x"
    using role by (auto simp: inviteIssuer_def hasAdminInviteIssuanceAuthority_def split: option.split)
  show "\<exists>x. ensureGovernanceOperatorContext env s n rq = (fst (ensureOperatorContext env s n rq), Inl x)"
    using role
    by (auto simp: ensureGovernanceOperatorContext_def ensureOperatorContext_def toAdminSecurityActor_def Let_def split: option.split)
qed

definition codesKept :: "storage \<Rightarrow> object_memory \<times> outcome \<Rightarrow> bool" where
  "codesKept s out \<longleftrightarrow> (\<forall>k. prefix ADMIN_CODE_PREFIX k \<longrightarrow> sto_get (fst (snd out)) k = sto_get s k)"

lemma codes_if: "codesKept s x \<Longrightarrow> codesKept s y \<Longrightarrow> codesKept s (if c then x else y)"
  by simp

lemma codes_kept: "keepsCodes s (fst out) \<Longrightarrow> codesKept s (m, out)"
  by (simp add: codesKept_def keeps_def)

lemma codes_public: "(\<And>k. isAdminKey k \<Longrightarrow> sto_get (fst out) k = sto_get s k) \<Longrightarrow> codesKept s (m, out)"
  by (auto simp: codesKept_def isAdminKey_def ADMIN_CODE_PREFIX_def prefix_def)

lemma master_codes:
  assumes "requireMasterAuthorization (w_env w) rq = Some r" "codesKept s out"
  shows "codesKept s (masterRoutes w note rn n m s rq path params out)"
  unfolding masterRoutes_def Let_def
  by (intro codes_if assms(2))
    (auto simp: handleMasterAuditLogs_def handleAuditIntegrity_def handleAdminTransfers_def handleMasterTransfers_def transferListing_def
      handleAdminDisclosures_def handleMasterSearch_def assms(1) admin_frame.anchor_same intro!: codes_public split: option.split)

lemma account_codes:
  assumes "requireMasterAuthorization (w_env w) rq = Some r" "codesKept s out"
  shows "codesKept s (accountRoutes w rn n m s rq path params out)"
proof -
  obtain x where x: "inviteIssuer (w_env w) s rq = Inl x" using not_master(2) [OF assms(1)] by blast
  show ?thesis
    unfolding accountRoutes_def Let_def
    by (intro codes_if assms(2))
      (auto simp: handleInvite_def handleInviteApprove_def handleInviteReject_def handleInviteList_def handleAdminRename_def
        handleAdminRevoke_def handleClaimants_def answered_def x assms(1) case_prod_unfold create_codes close_codes
        intro!: codes_kept split: option.split)
qed

lemma security_codes:
  assumes "requireMasterAuthorization (w_env w) rq = Some r" "codesKept s out"
  shows "codesKept s (securityRoutes w rn n m s rq path params out)"
proof -
  obtain x where x: "ensureGovernanceOperatorContext (w_env w) s n rq = (fst (ensureOperatorContext (w_env w) s n rq), Inl x)"
    using not_master(3) [OF assms(1)] by blast
  have v: "keepsCodes s (fst (viewed (ensureOperatorContext (w_env w) s n rq) f))" for f
    using code_region.keeps_context [of s "w_env w" n rq] by (auto simp: viewed_def case_prod_unfold split: sum.split)
  show ?thesis
    unfolding securityRoutes_def Let_def
    by (intro codes_if assms(2))
      (auto simp: handleFreezeStatus_def handleReportObligations_def handleSecurityLogs_def handleGovernanceProposals_def
        handleModeratedUsers_def handleUnlock_def handleRevokeAccess_def handleRestoreAccess_def handleRevokeOperator_def
        handleRestoreOperator_def handleFreezeUser_def handleUnfreezeUser_def handleDeleteUser_def handleRestoreUser_def govHandler_def
        governed_def x v code_region.keeps_context intro!: codes_kept)
qed

lemma claim_codes: "codesKept s out \<Longrightarrow> codesKept s (claimRoutes w rn n m s rq path out)"
  unfolding claimRoutes_def Let_def
  by (intro codes_if)
    (auto simp: withSigner_def answered_def case_prod_unfold admin_frame.wallet_same admin_frame.user_claim_same admin_frame.register_same
      admin_frame.remediation_same admin_frame.pop_same intro!: codes_public codes_kept [OF remediation_codes(1)]
      codes_kept [OF remediation_codes(2)])

lemma request_codes:
  assumes "requireMasterAuthorization (w_env w) rq = Some r"
  shows "codesKept s (handleRequest w note rn n m s rq path params)"
  unfolding handleRequest_def
  by (intro master_codes [OF assms] account_codes [OF assms] security_codes [OF assms] claim_codes codes_public) simp

lemma code_key_apart:
  "prefix ADMIN_CODE_PREFIX k \<Longrightarrow> \<not> prefix SECURITY_RATE_LIMIT_PREFIX k \<and> \<not> prefix ''audit'' k"
  using admin_key_apart [of k] by (auto simp: isAdminKey_def ADMIN_CODE_PREFIX_def prefix_def)

section \<open>Accounts belong to the master\<close>

text \<open>
  C9. Only the master changes accounts: through any sequence of requests without the master password, of strangers,
  users and administrators alike, no account is created, renamed, revoked or restored, and every token authenticates the
  same operator as before.
\<close>

theorem accounts_by_master_only:
  assumes "\<forall>v \<in> set vs. requireMasterAuthorization (w_env w) (vi_request v) \<noteq> None" "visits w ticketNote vs (m, s) = (m', s')"
  shows "(\<forall>code. sto_get s' (adminCodeKey code) = sto_get s (adminCodeKey code))
    \<and> authenticateOperator (w_env w) s' request = authenticateOperator (w_env w) s request"
proof -
  have step: "sto_get (snd (fst (objectStep w ticketNote v (m, s)))) k = sto_get s k"
    if "requireMasterAuthorization (w_env w) (vi_request v) = Some r" "prefix ADMIN_CODE_PREFIX k" for v r k m s
    unfolding object_storage
    by (rule fetch_same) (use code_key_apart [OF that(2)] request_codes [OF that(1)] that(2) in \<open>simp_all add: codesKept_def\<close>)
  have "\<forall>k. prefix ADMIN_CODE_PREFIX k \<longrightarrow> sto_get (snd (visits w ticketNote vs (m, s))) k = sto_get s k"
    using assms(1)
  proof (induction vs arbitrary: m s)
    case (Cons v vs)
    obtain m1 s1 where o1: "fst (objectStep w ticketNote v (m, s)) = (m1, s1)" by fastforce
    have "\<forall>k. prefix ADMIN_CODE_PREFIX k \<longrightarrow> sto_get (snd (visits w ticketNote vs (m1, s1))) k = sto_get s1 k"
      using Cons by simp
    moreover have "sto_get s1 k = sto_get s k" if "prefix ADMIN_CODE_PREFIX k" for k
      using step [OF _ that, of v _ m s] Cons.prems o1 by auto
    ultimately show ?case by (simp add: visits_def o1)
  qed (simp add: visits_def)
  moreover have "prefix ADMIN_CODE_PREFIX (adminCodeKey code)" for code by (simp add: adminCodeKey_def)
  ultimately show ?thesis using assms(2) auth_same [of s' s "w_env w" request] by simp
qed

end
