(* ===== verification/Dispatch_Examples.thy ===== *)
theory Dispatch_Examples
  imports Privilege_Spec Participation_Examples
begin

text \<open>
  A service with one administrator, and requests that try to change the account: without credentials, and with the
  administrator's own code.
\<close>

definition adminStore :: storage where
  "adminStore = sto_put aliceStore (adminCodeKey ''c0de'') (adminCodeToJs ''admin-1'' ''Ann'' ''2026-01-01T00:00:00.000Z'')"

definition masterEnv :: Env where
  "masterEnv = sinkEnv\<lparr>ADMIN_PASSWORD := Some ''secret''\<rparr>"

abbreviation exampleWorld :: world where
  "exampleWorld \<equiv> claimWorld masterEnv sinkServices"

definition freshMemory :: object_memory where
  "freshMemory = \<lparr>om_signer = None, om_search = \<lparr>se_sql = None, se_cache = None, se_meta = None\<rparr>\<rparr>"

definition someRandom :: randomness where
  "someRandom = \<lparr>rn_draws = claimDraws, rn_uuids = (\<lambda>x. ''u-'' @ x), rn_anchor = 7\<rparr>"

definition renameRequest :: "(string \<times> string) list \<Rightarrow> Request" where
  "renameRequest headers = \<lparr>rq_method = ''POST'', rq_headers = headers, rq_chunks = None,
     rq_json = Inr (JObj [(''code'', JStr ''c0de''), (''name'', JStr ''Mallory'')])\<rparr>"

definition visitOf :: "Request \<Rightarrow> string \<Rightarrow> visit" where
  "visitOf request path = \<lparr>vi_request = request, vi_path = path, vi_params = [], vi_startedAt = 4000, vi_nowMs = 5000, vi_random = someRandom\<rparr>"

lemma stored_code: "sto_get adminStore (adminCodeKey ''c0de'') = adminCodeToJs ''admin-1'' ''Ann'' ''2026-01-01T00:00:00.000Z''"
  by (simp add: adminStore_def)

lemma strangers_here:
  "authenticateOperator masterEnv adminStore (renameRequest []) = None" "authenticateOperator masterEnv adminStore aliceRequest = None"
  "\<not> publicRoute (rq_method (renameRequest [])) ''/api/admin/rename''"
  by code_simp+

theorem stranger_reaches_public_only_witness:
  "\<exists>m s r. objectStep exampleWorld [] (visitOf (renameRequest []) ''/api/admin/rename'') (freshMemory, adminStore) = ((m, s), r)
     \<and> rs_status r \<in> {401, 404, 413, 429, 500, 503} \<and> m = freshMemory
     \<and> sto_get s (adminCodeKey ''c0de'') = adminCodeToJs ''admin-1'' ''Ann'' ''2026-01-01T00:00:00.000Z''"
proof -
  let ?v = "visitOf (renameRequest []) ''/api/admin/rename''"
  obtain m s r where o: "objectStep exampleWorld [] ?v (freshMemory, adminStore) = ((m, s), r)" by (metis prod.collapse)
  have "authenticateOperator (w_env exampleWorld) adminStore (vi_request ?v) = None" "\<not> publicRoute (rq_method (vi_request ?v)) (vi_path ?v)"
    by (simp_all add: visitOf_def strangers_here)
  from stranger_reaches_public_only [OF this o] admin_key_apart [OF admin_keys, of "''c0de''"] o show ?thesis by (auto simp: stored_code)
qed

theorem strangers_cannot_administer_witness:
  "sto_get (snd (visits exampleWorld [] [visitOf (renameRequest []) ''/api/admin/rename'', visitOf aliceRequest ''/api/users/register'']
     (freshMemory, adminStore))) (adminCodeKey ''c0de'') = adminCodeToJs ''admin-1'' ''Ann'' ''2026-01-01T00:00:00.000Z''"
proof -
  let ?vs = "[visitOf (renameRequest []) ''/api/admin/rename'', visitOf aliceRequest ''/api/users/register'']"
  obtain m' s' where v: "visits exampleWorld [] ?vs (freshMemory, adminStore) = (m', s')" by fastforce
  have "\<forall>v \<in> set ?vs. authenticateOperator (w_env exampleWorld) adminStore (vi_request v) = None"
    by (simp add: visitOf_def strangers_here)
  from strangers_cannot_administer [OF this v] have "sto_get s' (adminCodeKey ''c0de'') = sto_get adminStore (adminCodeKey ''c0de'')" by simp
  then show ?thesis by (simp add: v stored_code)
qed

definition ownCode :: "(string \<times> string) list" where
  "ownCode = [(''Authorization'', ''Bearer c0de'')]"

lemma not_the_master:
  "requireMasterAuthorization masterEnv (renameRequest ownCode) \<noteq> None" "authenticateOperator masterEnv adminStore (renameRequest ownCode) \<noteq> None"
  by code_simp+

theorem accounts_by_master_only_witness:
  "sto_get (snd (visits exampleWorld [] [visitOf (renameRequest ownCode) ''/api/admin/rename'', visitOf (renameRequest ownCode) ''/api/admin/revoke'']
     (freshMemory, adminStore))) (adminCodeKey ''c0de'') = adminCodeToJs ''admin-1'' ''Ann'' ''2026-01-01T00:00:00.000Z''"
proof -
  let ?vs = "[visitOf (renameRequest ownCode) ''/api/admin/rename'', visitOf (renameRequest ownCode) ''/api/admin/revoke'']"
  obtain m' s' where v: "visits exampleWorld [] ?vs (freshMemory, adminStore) = (m', s')" by fastforce
  have "\<forall>v \<in> set ?vs. requireMasterAuthorization (w_env exampleWorld) (vi_request v) \<noteq> None"
    using not_the_master(1) by (simp add: visitOf_def)
  from accounts_by_master_only [OF this v] have "sto_get s' (adminCodeKey ''c0de'') = sto_get adminStore (adminCodeKey ''c0de'')" by simp
  then show ?thesis by (simp add: v stored_code)
qed

end
