(* ===== verification/Spec2Isabelle.thy ===== *)
theory Spec2Isabelle
  imports Claim_Spec Rate_Spec Form_Spec Invite_Spec Freeze_Spec Moderation_Spec Transfer_Spec Pop_Promises
    Participation_Examples Anchor_Spec Trail_Spec Event_Examples Status_Spec Search_Spec Account_Spec
    Ticket_Spec Mint_Plan Worker_Entry Admin_Session Dispatch_Examples
begin

text \<open>
  A verification development of instant-grant-core, a service that hands out participation tickets
  for school events. Its core is a Cloudflare worker (\<open>src/api-worker/src\<close>): one Durable Object,
  \<open>SchoolStore\<close> in \<open>storeDO.ts\<close>, keeps all state in a key-value storage and handles one request at a
  time; \<open>claimLogic.ts\<close> holds the rules for claims; \<open>audit/\<close> computes canonical texts and copies audit
  entries to outside services; \<open>index.ts\<close> forwards requests. A mobile application (\<open>src/wene-mobile\<close>)
  is its client; of it the state kept on the device is modelled. An on-chain program is outside this development.

  \<^bold>\<open>How the program is modelled.\<close>
  The storage is an association list in key order (\<open>storage\<close>). An operation takes the storage and
  returns the changed one with its result; an exception or an early answer is the left side of a sum.
  Stored and received values are of the type \<open>js\<close> of dynamically typed values, because the source reads
  them as \<open>unknown\<close> and checks them by hand; records of the source are records here, with functions that
  write them as objects and parse them back. What the source takes from outside is an argument: \<open>H\<close>
  for SHA-256 in hexadecimal, \<open>env\<close> for the bindings, \<open>uid\<close> for the UUIDs drawn at each named place of a
  request, \<open>nowMs\<close> for the clock, and the record \<open>AuditServices\<close> for R2, KV and the ingest endpoint.
  Loops are structural recursion, or take fuel where their end depends on stored data; then it is proved
  that the fuel given is enough (\<open>audit_walk_terminates\<close>, and \<open>reserveAttempts\<close>, whose bound of attempts is in the source).

  Conventions: strings are lists of 8-bit code units; numbers are rationals, so that times and counters
  are exact; a handler reads the clock once; \<open>localeCompare\<close> on the ISO times, codes and ids of the
  worker is the order of code units; texts that are only displayed are left out of response bodies; an
  object is the list of its properties in the order of enumeration, and an assignment to a computed name makes no
  property \<open>__proto__\<close>.

  Concurrency: every operation and every handler is modelled as one step, and a run is a sequence of steps. The input
  gate of the Durable Object lets no other request in while storage is awaited, and the locks of the source (of the audit
  log, the proofs, confirmation codes, registrations and security decisions) serialise what they guard. A handler that awaits R2, KV, \<open>fetch\<close> or the cryptographic
  functions may in fact be interrupted by another request at that point; such interleavings inside a handler are not
  modelled, and the theorems speak of requests that run one after the other. The ticket store of the application is
  modelled with its interleavings: there every \<open>await\<close> is a step of its own.

  \<^bold>\<open>Theories\<close>, in the order in which they build on each other:
  \<^item> \<open>Js_Prelude\<close>: values, strings and numbers of the language, shared lemmas and collections.
  \<^item> \<open>Do_Storage\<close>: the storage (\<open>ctx.storage\<close>) and the contract \<open>claim_storage\<close> of \<open>IClaimStorage\<close>,
    interpreted for the adapter of the Durable Object.
  \<^item> \<open>Claim_Logic\<close>, \<open>Claim_Quota\<close>, \<open>Claim_Runs\<close>, \<open>Claim_Spec\<close>: the whole of \<open>claimLogic.ts\<close>; the lemmas
    are proved in the contract. A run of the store mixes \<open>submitClaim\<close>, the public \<open>addClaim\<close> that the handlers of the
    worker call, resolutions and changes of events; what \<open>submitClaim\<close> grants in it keeps to the quota.
  \<^item> \<open>Worker_Env\<close>, \<open>Worker_Keys\<close>: bindings, parsers of configuration values, requests, storage keys.
  \<^item> \<open>Rate_Limit\<close>, \<open>Rate_Spec\<close>: body size, rate and issue limits; both limiters are interpretations of the
    contract \<open>fixed_window\<close>.
  \<^item> \<open>Js_Date\<close>, \<open>Json_Canonical\<close>: ISO times and canonical JSON, with the order of the one; the canonical text
    determines the value, where \<open>json_same\<close> says without any order of properties when two values are the same.
  \<^item> \<open>Audit_Immutable\<close>, \<open>Audit_Chain\<close>, \<open>Audit_Links\<close>, \<open>Audit_Spec\<close>, \<open>Audit_Runs\<close>: the audit log, its
    copies and its integrity report; a report without issues means one chain, tampering is noticed, the
    worker's own log is intact, and two ways in which an untouched log raises an alarm.
  \<^item> \<open>User_Registry\<close>, \<open>Registry_Spec\<close>: user ids, their registration chain, confirmation codes.
  \<^item> \<open>Ticket_Receipt\<close>, \<open>Receipt_Spec\<close>: receipts, built, stored, parsed and verified.
  \<^item> \<open>Operator_Auth\<close>: bearer tokens, passwords, codes, owners of events, the audit endpoint of
    \<open>audit/router.ts\<close>.
  \<^item> \<open>Admin_Invite\<close>, \<open>Invite_Spec\<close>: invitations of administrators as a state machine.
  \<^item> \<open>Admin_Security\<close>, \<open>Admin_Governance\<close>: warnings, freezes, revocations, the security log, report
    obligations, moderated users, and decisions of the operator community.
  \<^item> \<open>Governance_Spec\<close>, \<open>Freeze_Spec\<close>, \<open>Moderation_Spec\<close>: decisions need unanimity, blocked administrators
    stay blocked, bursts are bounded, decisions on users take effect, and where their reports get out of
    step. \<open>Record_Slot\<close> is the contract of records kept under a key, interpreted for
    moderation marks, report obligations and receipts.
  \<^item> \<open>Form_Spec\<close>: the walk through the log ends, canonical text identifies content, parsed receipts are
    well formed.
  \<^item> \<open>Js_Date_Parse\<close>, \<open>Transfer_Log\<close>, \<open>Transfer_Spec\<close>: the transfer payload of a claim and how it is read back
    from the log, and the quota of a subject counted from its confirmed on-chain claims.
  \<^item> \<open>Handler_Base\<close>, \<open>Forgery_Guard\<close>, \<open>Forgery_Spec\<close>: answers of handlers; the Cost of Forgery check, which asks
    an outside scoring service (an argument of the model), with its cache, overrides and endpoints.
  \<^item> \<open>Pop_Signer\<close>, \<open>Pop_Proof\<close>, \<open>Pop_Spec\<close>, \<open>Pop_Promises\<close>: signed proofs of participation: derivation and
    rotation of the key, the signed message, the chain of proofs per grant. The cryptographic functions are the
    fields of \<open>pop_crypto\<close>.

  \<^item> \<open>Claim_Handlers\<close>, \<open>Participation_Spec\<close>, \<open>Participation_Examples\<close>: the endpoints for registration, sign-in,
    claims of users and of wallets, synchronisation, tickets and proofs, whole handlers over the components above;
    what a created claim shows, repeated requests, and what a failing audit log leaves behind.
  \<^item> \<open>Random_Anchor\<close>, \<open>Anchor_Spec\<close>: the anchor that is written once in every period at a random time.
  \<^item> \<open>Api_Trail\<close>, \<open>Trail_Spec\<close>: \<open>fetch\<close>, the frame around every request (preflight, fail-closed audit, masking of
    bodies, the audit entry of the request).
  \<^item> \<open>Event_Handlers\<close>, \<open>Storage_Frame\<close>, \<open>Event_Spec\<close>, \<open>Event_Examples\<close>: creation, listing and closing of events and
    their claimants; \<open>Storage_Frame\<close> is the relation of storages that agree on the keys of a component.
  \<^item> \<open>Runtime_Status\<close>, \<open>Status_Spec\<close>: the status reports and what their public form hides.
  \<^item> \<open>Master_Disclosure\<close>, \<open>Master_Search\<close>, \<open>Master_Search_Sql\<close>, \<open>Search_Spec\<close>: the disclosure report of the master, its
    documents, the token index in memory and in the tables of the SQLite storage, and that both searches agree with a
    scan of the report.
  \<^item> \<open>Account_Handlers\<close>, \<open>Security_Listings\<close>, \<open>Account_Spec\<close>: the endpoints for administrators, transfers, receipts,
    the audit log and token metadata, and the listings for operators; a revoked code stays locked out, login agrees with
    authentication, the freeze listing with what is blocked.
  \<^item> \<open>Request_Dispatch\<close>, \<open>Dispatch_Spec\<close>, \<open>Privilege_Spec\<close>, \<open>Dispatch_Examples\<close>: \<open>handleRequest\<close>, which gives every path its
    handler, and a request through the whole object. Requests without credentials reach public routes only, elsewhere they touch
    nothing but rate limits and the audit log, and they leave the administration alone in any number; accounts change by the master only. The contract \<open>public_frame\<close> says where public
    handlers write.
  \<^item> \<open>Worker_Entry\<close>: the routes of \<open>index.ts\<close>, its CORS headers and the schedule of the anchor, which no public request
    reaches.
  \<^item> \<open>Ticket_Store\<close>, \<open>Ticket_Spec\<close>: the tickets the application keeps per account
    (\<open>wene-mobile/src/store/recipientTicketStore.ts\<close>) as a state machine over the awaited operations: what tickets say
    stays with their account in every interleaving, one interleaving loses stored tickets, merging keeps every on-chain receipt, and
    the quota of the worker reaches the application unchanged.
  \<^item> \<open>Mint_Plan\<close>: the amounts minted for an event (\<open>issueMintPlan.ts\<close>) and that they fit 64 bits.
  \<^item> \<open>Admin_Session\<close>: sessions of administrators on the device (\<open>adminAuth.ts\<close>).

  \<^bold>\<open>Not modelled\<close>, because they are input and output, user interface or another language: the screens, wallet adapters
  and API clients of the mobile application, its development server, the proxy, the scripts, the on-chain program.
\<close>

end
